(* ===== verification/Kafka_Prelude.thy ===== *)
theory Kafka_Prelude
  imports Main "HOL-Library.Word"
begin

text \<open>
  Shared vocabulary of the development: bytes and buffers, the errors the JavaScript code raises,
  results that are either such an error or a value, and the generic facts on lists, options and
  results that the component theories rely on.

  A Node.js \<^verbatim>\<open>Buffer\<close> is a list of octets. A JavaScript string is represented by its UTF-8
  encoding (an Isabelle \<^typ>\<open>string\<close>, one character per octet), because every length that
  the modelled code computes from a string is \<^verbatim>\<open>Buffer.byteLength\<close>. A JavaScript
  number that the code uses as an integer and a \<^verbatim>\<open>BigInt\<close> are both an
  \<^typ>\<open>int\<close>; the operators that truncate to 32 bits are in the theory of JavaScript
  numbers.
\<close>

type_synonym byte = "8 word"
type_synonym buffer = "byte list"

text \<open>
  The errors raised on the modelled paths, by the name of their JavaScript class. The classes of
  \<^verbatim>\<open>src/errors.js\<close> carry a message that no modelled code inspects; the text is kept only
  where one class is raised for different reasons.
\<close>

datatype js_error =
    JsRangeError
  | JsTypeError
  | JsSyntaxError
  | JsError string
  | KafkaJSInvalidVarIntError
  | KafkaJSInvalidLongError
  | KafkaJSPartialMessageError
  | KafkaJSUnsupportedMagicByteInMessageSet
  | KafkaJSNotImplemented string
  | KafkaJSNonRetriableError string
  | KafkaJSInvariantViolation string
  | KafkaJSMetadataNotLoaded
  | KafkaJSRequestTimeoutError
  | KafkaJSConnectionError string
  | KafkaJSConnectionClosedError
  | KafkaJSProtocolErrorCode int \<comment> \<open>the error of the table with this code\<close>

type_synonym 'a result = "js_error + 'a"

text \<open>
  Sequencing of computations that may throw: an exception propagates, a value is passed on.
\<close>

definition rbind :: "'e + 'a \<Rightarrow> ('a \<Rightarrow> 'e + 'b) \<Rightarrow> 'e + 'b" where
  "rbind m f = (case m of Inl e \<Rightarrow> Inl e | Inr a \<Rightarrow> f a)"

text \<open>A chain of method calls on one object, \<^verbatim>\<open>o.f(..).g(..).h(..)\<close>.\<close>

primrec chain :: "('s \<Rightarrow> 'e + 's) list \<Rightarrow> 's \<Rightarrow> 'e + 's" where
  "chain [] s = Inr s"
| "chain (f # fs) s = rbind (f s) (chain fs)"

text \<open>\<^verbatim>\<open>xs.map(f)\<close> where the callback may throw; the first exception wins.\<close>

primrec rmap :: "('a \<Rightarrow> 'e + 'b) \<Rightarrow> 'a list \<Rightarrow> 'e + 'b list" where
  "rmap f [] = Inr []"
| "rmap f (x # xs) = rbind (f x) (\<lambda>y. rbind (rmap f xs) (\<lambda>ys. Inr (y # ys)))"

definition INT_32_MAX_VALUE :: int where "INT_32_MAX_VALUE = 2147483647"

named_theorems result_simps \<open>evaluation of results\<close>
named_theorems js_defs \<open>the JavaScript operators, unfolded to integer arithmetic\<close>
named_theorems writer_intros \<open>what the writer operations append\<close>
named_theorems reader_intros \<open>what the reader operations consume and return\<close>

lemma rbind_Inr [simp, result_simps]: "rbind (Inr a) f = f a"
  by (simp add: rbind_def)

lemma rbind_Inl [simp, result_simps]: "rbind (Inl e) f = Inl e"
  by (simp add: rbind_def)

lemma rbind_eq_Inr_conv: "rbind m f = Inr b \<longleftrightarrow> (\<exists>a. m = Inr a \<and> f a = Inr b)"
  by (cases m) auto

lemma rbind_eq_Inl_conv:
  "rbind m f = Inl e \<longleftrightarrow> m = Inl e \<or> (\<exists>a. m = Inr a \<and> f a = Inl e)"
  by (cases m) auto

lemma rbind_assoc: "rbind (rbind m f) g = rbind m (\<lambda>x. rbind (f x) g)"
  by (cases m) auto

lemma chain_append: "chain (fs @ gs) s = rbind (chain fs s) (chain gs)"
  by (induction fs arbitrary: s) (auto simp: rbind_assoc rbind_def split: sum.splits)

lemma chain_Cons_fun: "chain (f # fs) = (\<lambda>s. rbind (f s) (chain fs))"
  by (rule ext) simp

lemma rmap_eq_Inr_conv: "rmap f xs = Inr ys \<longleftrightarrow> list_all2 (\<lambda>x y. f x = Inr y) xs ys"
  by (induction xs arbitrary: ys) (auto simp: rbind_eq_Inr_conv list_all2_Cons1)

lemma rmap_length: "rmap f xs = Inr ys \<Longrightarrow> length ys = length xs"
  by (simp add: rmap_eq_Inr_conv list_all2_lengthD)

lemma rmap_pure: "(\<And>x. x \<in> set xs \<Longrightarrow> f x = Inr (g x)) \<Longrightarrow> rmap f xs = Inr (map g xs)"
  by (induction xs) auto

subsection \<open>Strings as octets\<close>

definition utf8 :: "string \<Rightarrow> buffer" where
  "utf8 s = map (\<lambda>c. of_nat (of_char c)) s"

definition from_utf8 :: "buffer \<Rightarrow> string" where
  "from_utf8 b = map (\<lambda>w. char_of (unat w)) b"

lemma length_utf8 [simp]: "length (utf8 s) = length s"
  by (simp add: utf8_def)

lemma unat_of_char [simp]: "unat (of_nat (of_char c) :: byte) = of_char c"
  by (simp add: unat_of_nat take_bit_nat_eq_self)

lemma from_utf8_utf8 [simp]: "from_utf8 (utf8 s) = s"
  by (simp add: from_utf8_def utf8_def comp_def)

subsection \<open>Generic list facts\<close>

lemma take_append_exact [simp]: "length xs = n \<Longrightarrow> take n (xs @ ys) = xs"
  by simp

lemma drop_append_exact [simp]: "length xs = n \<Longrightarrow> drop n (xs @ ys) = ys"
  by simp

lemma sum_list_replicate_le: "(\<And>x. x \<in> set xs \<Longrightarrow> f x \<le> (k::nat)) \<Longrightarrow> (\<Sum>x\<leftarrow>xs. f x) \<le> k * length xs"
  by (induction xs) (auto simp: add_mono)

end
