(* ===== verification/Js_Number.thy ===== *)
theory Js_Number
  imports Kafka_Prelude
begin

text \<open>
  The integer operators of JavaScript that the modelled code uses. On numbers, the bitwise
  operators truncate their operands to 32 bits (the \<^verbatim>\<open>ToInt32\<close> and \<^verbatim>\<open>ToUint32\<close>
  conversions of ECMAScript) and take a shift count modulo 32. On \<^verbatim>\<open>BigInt\<close> values
  they are the operators on two's complement integers of unbounded width, which are Isabelle's
  own operators on \<^typ>\<open>int\<close>.
  The lemmas give the arithmetic meaning of each operator.
\<close>

unbundle bit_operations_syntax

subsection \<open>Conversions and operators on numbers\<close>

definition ToInt32 :: "int \<Rightarrow> int" where
  "ToInt32 x = signed_take_bit 31 x"

definition ToUint32 :: "int \<Rightarrow> int" where
  "ToUint32 x = take_bit 32 x"

definition js_shl :: "int \<Rightarrow> nat \<Rightarrow> int" where \<comment> \<open>\<open>x << n\<close>\<close>
  "js_shl x n = ToInt32 (push_bit (n mod 32) (ToInt32 x))"

definition js_shr :: "int \<Rightarrow> nat \<Rightarrow> int" where \<comment> \<open>\<open>x >> n\<close>\<close>
  "js_shr x n = drop_bit (n mod 32) (ToInt32 x)"

definition js_ushr :: "int \<Rightarrow> nat \<Rightarrow> int" where \<comment> \<open>\<open>x >>> n\<close>\<close>
  "js_ushr x n = drop_bit (n mod 32) (ToUint32 x)"

definition js_and :: "int \<Rightarrow> int \<Rightarrow> int" where
  "js_and x y = ToInt32 x AND ToInt32 y"

definition js_or :: "int \<Rightarrow> int \<Rightarrow> int" where
  "js_or x y = ToInt32 x OR ToInt32 y"

definition js_xor :: "int \<Rightarrow> int \<Rightarrow> int" where
  "js_xor x y = ToInt32 x XOR ToInt32 y"

lemmas js_ops_defs [js_defs] = js_shl_def js_shr_def js_ushr_def js_and_def js_or_def js_xor_def

text \<open>\<^verbatim>\<open>Math.clz32\<close>: the number of leading zero bits of the 32-bit representation.\<close>

fun bit_length :: "nat \<Rightarrow> nat" where
  "bit_length n = (if n = 0 then 0 else Suc (bit_length (n div 2)))"

declare bit_length.simps [simp del]

definition clz32 :: "int \<Rightarrow> nat" where
  "clz32 x = 32 - bit_length (nat (ToUint32 x))"

subsection \<open>BigInt shifts and truncations\<close>

text \<open>A negative count shifts the other way.\<close>

definition bigint_shl :: "int \<Rightarrow> int \<Rightarrow> int" where
  "bigint_shl x n = (if n \<ge> 0 then push_bit (nat n) x else drop_bit (nat (- n)) x)"

definition bigint_shr :: "int \<Rightarrow> int \<Rightarrow> int" where
  "bigint_shr x n = (if n \<ge> 0 then drop_bit (nat n) x else push_bit (nat (- n)) x)"

definition asIntN :: "nat \<Rightarrow> int \<Rightarrow> int" where
  "asIntN w x = (if w = 0 then 0 else signed_take_bit (w - 1) x)"

definition asUintN :: "nat \<Rightarrow> int \<Rightarrow> int" where
  "asUintN w x = take_bit w x"

subsection \<open>Signed ranges\<close>

definition int_range :: "nat \<Rightarrow> int \<Rightarrow> bool" where \<comment> \<open>fits in \<open>w\<close> bits, signed\<close>
  "int_range w x \<longleftrightarrow> - (2 ^ (w - 1)) \<le> x \<and> x < 2 ^ (w - 1)"

definition uint_range :: "nat \<Rightarrow> int \<Rightarrow> bool" where
  "uint_range w x \<longleftrightarrow> 0 \<le> x \<and> x < 2 ^ w"

lemma int_range_numeral [simp]:
  "int_range 8 x \<longleftrightarrow> - 128 \<le> x \<and> x < 128"
  "int_range 16 x \<longleftrightarrow> - 32768 \<le> x \<and> x < 32768"
  "int_range 32 x \<longleftrightarrow> - 2147483648 \<le> x \<and> x < 2147483648"
  "int_range 64 x \<longleftrightarrow> - 9223372036854775808 \<le> x \<and> x < 9223372036854775808"
  by (simp_all add: int_range_def)

lemma uint_range_32 [simp]: "uint_range 32 x \<longleftrightarrow> 0 \<le> x \<and> x < 4294967296"
  by (simp add: uint_range_def)

subsection \<open>Arithmetic meaning\<close>

lemma ToInt32_id [simp]: "int_range 32 x \<Longrightarrow> ToInt32 x = x"
  by (simp add: ToInt32_def signed_take_bit_int_eq_self)

lemma ToInt32_idem [simp]: "ToInt32 (ToInt32 x) = ToInt32 x"
  by (simp add: ToInt32_def)

lemma ToInt32_range: "- 2147483648 \<le> ToInt32 x" "ToInt32 x < 2147483648"
  using signed_take_bit_int_greater_eq_minus_exp [of 31 x] signed_take_bit_int_less_exp [of 31 x]
  by (simp_all add: ToInt32_def)

lemma ToUint32_mod: "ToUint32 x = x mod 4294967296"
  by (simp add: ToUint32_def take_bit_eq_mod)

lemma ToUint32_id [simp]: "uint_range 32 x \<Longrightarrow> ToUint32 x = x"
  by (simp add: ToUint32_mod)

lemma ToUint32_idem [simp]: "ToUint32 (ToUint32 x) = ToUint32 x"
  by (simp add: ToUint32_def)

lemma ToUint32_range: "0 \<le> ToUint32 x" "ToUint32 x < 4294967296"
  by (simp_all add: ToUint32_mod)

lemma ToUint32_ToInt32 [simp]: "ToUint32 (ToInt32 x) = ToUint32 x"
  by (simp add: ToInt32_def ToUint32_def take_bit_signed_take_bit)

lemma ToInt32_ToUint32 [simp]: "ToInt32 (ToUint32 x) = ToInt32 x"
  by (simp add: ToInt32_def ToUint32_def signed_take_bit_take_bit)

lemma ToInt32_cases:
  "ToInt32 x = (if ToUint32 x < 2147483648 then ToUint32 x else ToUint32 x - 4294967296)"
proof -
  have "ToInt32 x = ToInt32 (ToUint32 x)" by simp
  also have "\<dots> = (if ToUint32 x < 2147483648 then ToUint32 x else ToUint32 x - 4294967296)"
  proof (cases "ToUint32 x < 2147483648")
    case True
    then show ?thesis using ToUint32_range [of x]
      by (simp only: ToInt32_def) (simp add: signed_take_bit_int_eq_self)
  next
    case False
    then have "ToUint32 x div 2147483648 = 1" using ToUint32_range [of x]
      by (intro int_div_pos_eq [of _ _ _ "ToUint32 x - 2147483648"]) auto
    with False show ?thesis using ToUint32_range [of x]
      by (simp add: ToInt32_def signed_take_bit_eq_take_bit_minus bit_iff_odd take_bit_int_eq_self)
  qed
  finally show ?thesis .
qed

lemma ToUint32_add_ToUint32 [simp]: "ToUint32 (ToUint32 x + y) = ToUint32 (x + y)"
  by (simp add: ToUint32_mod mod_add_left_eq)

lemma ToInt32_eqI: "ToUint32 x = ToUint32 y \<Longrightarrow> ToInt32 x = ToInt32 y"
  by (simp add: ToInt32_cases)

lemma js_and_mask: "js_and x (2 ^ n - 1) = ToUint32 x mod 2 ^ n" if "n \<le> 31"
proof -
  have small: "int_range 32 (2 ^ n - 1 :: int)"
  proof -
    have "2 ^ n \<le> (2147483648 :: int)" using that power_increasing [of n 31 "2::int"] by simp
    moreover have "0 < (2 :: int) ^ n" by simp
    ultimately show ?thesis by (simp only: int_range_numeral) linarith
  qed
  have "js_and x (2 ^ n - 1) = ToInt32 x AND mask n"
    using small by (simp add: js_and_def mask_eq_exp_minus_1)
  also have "\<dots> = take_bit n (ToInt32 x)"
    by (simp add: take_bit_eq_mask)
  also have "\<dots> = take_bit n (ToUint32 x)"
    using that by (simp add: ToInt32_def ToUint32_def take_bit_signed_take_bit)
  finally show ?thesis by (simp add: take_bit_eq_mod)
qed

lemma js_and_127: "js_and x 127 = ToUint32 x mod 128"
  using js_and_mask [of 7 x] by simp

lemma js_and_128_eq_0: "js_and x 128 = 0 \<longleftrightarrow> ToUint32 x mod 256 < 128"
proof -
  have "js_and x 128 = 0 \<longleftrightarrow> \<not> bit (ToInt32 x) 7"
    using and_exp_eq_0_iff_not_bit [of "ToInt32 x" 7] by (simp add: js_and_def)
  also have "\<dots> \<longleftrightarrow> \<not> bit (ToUint32 x) 7"
    by (simp add: ToInt32_def ToUint32_def bit_simps)
  also have "\<dots> \<longleftrightarrow> even (ToUint32 x div 128)"
    by (simp add: bit_iff_odd)
  also have "\<dots> \<longleftrightarrow> ToUint32 x mod 256 < 128"
    using zmod_zmult2_eq [of 2 "ToUint32 x" 128] pos_mod_bound [of 128 "ToUint32 x"]
    by (cases "even (ToUint32 x div 128)") (auto simp: even_iff_mod_2_eq_zero odd_iff_mod_2_eq_one)
  finally show ?thesis .
qed

lemma and_minus_exp_int: "x AND - (2 ^ n) = x - x mod 2 ^ n" for x :: int
proof -
  have "- (2 ^ n) = NOT (mask n :: int)"
    by (simp add: mask_eq_exp_minus_1 not_int_def)
  then have "x AND - (2 ^ n) = push_bit n (drop_bit n x)"
    by (simp add: bit_eq_iff bit_simps) (metis le_add_diff_inverse not_less)
  then show ?thesis
    by (simp add: push_bit_eq_mult drop_bit_eq_div minus_mod_eq_div_mult)
qed

text \<open>The mask \<^verbatim>\<open>0xffffff80\<close> of the variable-length encodings.\<close>

lemma js_and_ffffff80: "js_and x 0xffffff80 = 0 \<longleftrightarrow> ToUint32 x < 128"
proof -
  have "ToInt32 0xffffff80 = - (2 ^ 7)"
    by (simp add: ToInt32_cases ToUint32_mod)
  then have "js_and x 0xffffff80 = ToInt32 x - ToInt32 x mod 128"
    using and_minus_exp_int [of "ToInt32 x" 7] by (simp add: js_and_def)
  moreover have "y - y mod 128 = 0 \<longleftrightarrow> 0 \<le> y \<and> y < 128" for y :: int
    by (smt (verit) pos_mod_bound pos_mod_sign mod_pos_pos_trivial)
  ultimately have "js_and x 0xffffff80 = 0 \<longleftrightarrow> 0 \<le> ToInt32 x \<and> ToInt32 x < 128"
    by simp
  then show ?thesis
    using ToUint32_range [of x] by (auto simp: ToInt32_cases split: if_splits)
qed

lemma js_ushr_div: "n < 32 \<Longrightarrow> js_ushr x n = ToUint32 x div 2 ^ n"
  by (simp add: js_ushr_def drop_bit_eq_div)

lemma js_ushr_range: "0 \<le> js_ushr x n" "js_ushr x n \<le> ToUint32 x"
  using ToUint32_range [of x] zdiv_mono2 [of "ToUint32 x" 1 "2 ^ (n mod 32)"]
  by (simp_all add: js_ushr_def drop_bit_eq_div pos_imp_zdiv_nonneg_iff)

lemma or_disjoint_int: "a OR b * 2 ^ n = a + b * 2 ^ n" if "0 \<le> a" "a < 2 ^ n" for a b :: int
proof -
  have "a AND push_bit n b = 0"
  proof (rule bit_eqI)
    fix k
    have "\<not> bit a k" if "n \<le> k"
    proof -
      have "a = take_bit n a" using \<open>0 \<le> a\<close> \<open>a < 2 ^ n\<close> by (simp add: take_bit_int_eq_self)
      then have "bit a k \<longleftrightarrow> bit (take_bit n a) k" by simp
      with that show ?thesis by (simp add: bit_take_bit_iff)
    qed
    then show "bit (a AND push_bit n b) k \<longleftrightarrow> bit 0 k"
      by (auto simp: bit_simps)
  qed
  then have "a + push_bit n b = a OR push_bit n b"
    by (rule disjunctive_add_eq_or)
  then show ?thesis
    by (simp add: push_bit_eq_mult)
qed

lemma ToInt32_mult_ToInt32: "ToInt32 (ToInt32 x * y) = ToInt32 (x * y)"
  by (rule ToInt32_eqI) (metis ToUint32_ToInt32 ToUint32_mod mod_mult_left_eq)

lemma js_shl_mult: "n < 32 \<Longrightarrow> js_shl x n = ToInt32 (x * 2 ^ n)"
  by (simp add: js_shl_def push_bit_eq_mult ToInt32_mult_ToInt32)

lemma ToInt32_or: "ToInt32 (a OR b) = ToInt32 a OR ToInt32 b"
  by (rule bit_eqI) (auto simp: ToInt32_def bit_simps)

lemma js_or_accumulate:
  assumes "0 \<le> a" "a < 2 ^ n" "n < 32"
  shows "js_or (ToInt32 a) (js_shl b n) = ToInt32 (a + b * 2 ^ n)"
  using assms or_disjoint_int [of a n b]
  by (simp add: js_or_def js_shl_mult flip: ToInt32_or)

end
