(* ===== verification/Node_Buffer.thy ===== *)
theory Node_Buffer
  imports Js_Number
begin

text \<open>
  The part of Node's \<^verbatim>\<open>Buffer\<close> that the protocol layer uses: allocation, indexed access
  (which yields \<^verbatim>\<open>undefined\<close> out of range), \<^verbatim>\<open>slice\<close> with its treatment of
  negative and excessive bounds, \<^verbatim>\<open>copy\<close>, the checked big-endian integer accessors
  (which throw a \<^verbatim>\<open>RangeError\<close> for a value or an offset out of range) and the
  hexadecimal conversions.
\<close>

subsection \<open>Allocation, indexing, slicing, copying\<close>

definition buf_alloc :: "int \<Rightarrow> buffer result" where
  "buf_alloc n = (if n < 0 then Inl JsRangeError else Inr (replicate (nat n) 0))"

definition byte_at :: "buffer \<Rightarrow> int \<Rightarrow> int option" where \<comment> \<open>\<open>b[i]\<close>, \<open>None\<close> for \<open>undefined\<close>\<close>
  "byte_at b i = (if 0 \<le> i \<and> i < int (length b) then Some (uint (b ! nat i)) else None)"

definition slice_bound :: "int \<Rightarrow> int \<Rightarrow> int" where
  "slice_bound len i = (if i < 0 then max 0 (i + len) else min i len)"

definition buf_slice :: "buffer \<Rightarrow> int \<Rightarrow> int \<Rightarrow> buffer" where \<comment> \<open>\<open>b.slice(s, e)\<close>\<close>
  "buf_slice b s e =
     (let n = int (length b); s' = slice_bound n s; e' = slice_bound n e
      in take (nat (e' - s')) (drop (nat s') b))"

text \<open>
  \<^verbatim>\<open>source.copy(target, at)\<close>: as many octets as fit; a start behind the end copies nothing.
\<close>

definition buf_blit :: "buffer \<Rightarrow> nat \<Rightarrow> buffer \<Rightarrow> buffer" where
  "buf_blit target at src = take at target @ take (length target - at) src @ drop (at + length src) target"

lemma buf_slice_0:
  "0 \<le> k \<Longrightarrow> buf_slice b 0 k = take (nat k) b"
  by (simp add: buf_slice_def slice_bound_def Let_def min_def)

lemma buf_slice_within:
  "0 \<le> s \<Longrightarrow> s \<le> e \<Longrightarrow> e \<le> int (length b) \<Longrightarrow> buf_slice b s e = take (nat (e - s)) (drop (nat s) b)"
  by (simp add: buf_slice_def slice_bound_def)

lemma length_buf_blit [simp]: "length (buf_blit target at src) = length target"
  by (simp add: buf_blit_def)

lemma buf_blit_fits:
  "at + length src \<le> length target \<Longrightarrow> buf_blit target at src = take at target @ src @ drop (at + length src) target"
  by (simp add: buf_blit_def)

lemma take_buf_blit:
  "at + length src \<le> length target \<Longrightarrow> take (at + length src) (buf_blit target at src) = take at target @ src"
  by (simp add: buf_blit_fits min_absorb2)

lemma byte_at_append [simp]:
  "byte_at (pre @ b # post) (int (length pre)) = Some (uint b)"
  by (simp add: byte_at_def)

lemma byte_at_None_end: "int (length b) \<le> i \<Longrightarrow> byte_at b i = None"
  by (simp add: byte_at_def)

lemma byte_at_range: "byte_at b i = Some v \<Longrightarrow> 0 \<le> v \<and> v < 256"
  using uint_lt2p [of "b ! nat i"] by (auto simp: byte_at_def split: if_splits)

subsection \<open>Big-endian integers\<close>

primrec be_bytes :: "nat \<Rightarrow> int \<Rightarrow> buffer" where
  "be_bytes 0 v = []"
| "be_bytes (Suc n) v = word_of_int (v div 256 ^ n) # be_bytes n v"

definition be_uint :: "buffer \<Rightarrow> int" where
  "be_uint bs = foldl (\<lambda>a b. a * 256 + uint b) 0 bs"

definition write_int_be :: "nat \<Rightarrow> int \<Rightarrow> buffer \<Rightarrow> nat \<Rightarrow> buffer result" where
  "write_int_be n v b off =
     (if \<not> int_range (8 * n) v \<or> length b < off + n then Inl JsRangeError
      else Inr (buf_blit b off (be_bytes n v)))"

definition write_uint_be :: "nat \<Rightarrow> int \<Rightarrow> buffer \<Rightarrow> nat \<Rightarrow> buffer result" where
  "write_uint_be n v b off =
     (if \<not> uint_range (8 * n) v \<or> length b < off + n then Inl JsRangeError
      else Inr (buf_blit b off (be_bytes n v)))"

definition read_int_be :: "nat \<Rightarrow> buffer \<Rightarrow> int \<Rightarrow> int result" where
  "read_int_be n b off =
     (if off < 0 \<or> int (length b) < off + int n then Inl JsRangeError
      else Inr (asIntN (8 * n) (be_uint (take n (drop (nat off) b)))))"

lemma length_be_bytes [simp]: "length (be_bytes n v) = n"
  by (induction n) auto

lemma foldl_be: "foldl (\<lambda>a b. a * 256 + uint b) a bs = a * 256 ^ length bs + be_uint bs"
proof (induction bs arbitrary: a)
  case Nil
  then show ?case by (simp add: be_uint_def)
next
  case (Cons b bs)
  have "be_uint (b # bs) = uint b * 256 ^ length bs + be_uint bs"
    using Cons.IH [of "uint b"] by (simp add: be_uint_def)
  then show ?case
    using Cons.IH [of "a * 256 + uint b"] by (simp add: algebra_simps)
qed

lemma be_uint_Nil [simp]: "be_uint [] = 0"
  by (simp add: be_uint_def)

lemma be_uint_Cons [simp]: "be_uint (b # bs) = uint b * 256 ^ length bs + be_uint bs"
  using foldl_be [of "uint b" bs] by (simp add: be_uint_def)

lemma be_uint_be_bytes [simp]: "be_uint (be_bytes n v) = v mod 256 ^ n"
proof (induction n)
  case 0
  then show ?case by simp
next
  case (Suc n)
  have "v mod (256 ^ n * 256) = 256 ^ n * (v div 256 ^ n mod 256) + v mod 256 ^ n"
    by (rule zmod_zmult2_eq) simp
  then show ?case using Suc.IH by (simp add: uint_word_of_int ac_simps)
qed

lemma asIntN_mod:
  assumes "int_range w v" "0 < w"
  shows "asIntN w (v mod 2 ^ w) = v"
proof -
  obtain n where w: "w = Suc n" using assms(2) by (cases w) auto
  have "asIntN w (v mod 2 ^ w) = signed_take_bit n (take_bit (Suc n) v)"
    by (simp add: asIntN_def w take_bit_eq_mod)
  also have "\<dots> = signed_take_bit n v" by (simp add: signed_take_bit_take_bit)
  also have "\<dots> = v"
    using assms(1) by (intro signed_take_bit_int_eq_self) (simp_all add: int_range_def w)
  finally show ?thesis .
qed

lemma read_be_bytes:
  assumes "int_range (8 * n) v" "0 < n"
  shows "read_int_be n (pre @ be_bytes n v @ post) (int (length pre)) = Inr v"
  using assms asIntN_mod [of "8 * n" v]
  by (simp add: read_int_be_def power_mult)

subsection \<open>Hexadecimal text\<close>

definition hex_digit :: "nat \<Rightarrow> char" where
  "hex_digit n = ''0123456789abcdef'' ! n"

definition hex_value :: "char \<Rightarrow> nat option" where
  "hex_value c =
     (let n = (of_char c :: nat)
      in if 48 \<le> n \<and> n \<le> 57 then Some (n - 48)
         else if 97 \<le> n \<and> n \<le> 102 then Some (n - 87)
         else if 65 \<le> n \<and> n \<le> 70 then Some (n - 55)
         else None)"

definition to_hex :: "buffer \<Rightarrow> string" where \<comment> \<open>\<open>b.toString('hex')\<close>\<close>
  "to_hex b = concat (map (\<lambda>w. [hex_digit (unat w div 16), hex_digit (unat w mod 16)]) b)"

fun from_hex :: "string \<Rightarrow> buffer" where \<comment> \<open>\<open>Buffer.from(s, 'hex')\<close>: stops at the first bad pair\<close>
  "from_hex (c # d # s) =
     (case (hex_value c, hex_value d) of
        (Some x, Some y) \<Rightarrow> of_nat (16 * x + y) # from_hex s
      | _ \<Rightarrow> [])"
| "from_hex _ = []"

lemma hex_value_digit: "n < 16 \<Longrightarrow> hex_value (hex_digit n) = Some n"
proof -
  have "\<forall>n \<in> set [0..<16]. hex_value (hex_digit n) = Some n"
    by code_simp
  then show "n < 16 \<Longrightarrow> hex_value (hex_digit n) = Some n" by simp
qed

lemma hex_digit_not_dash: "n < 16 \<Longrightarrow> hex_digit n \<noteq> CHR ''-''"
proof -
  have "\<forall>n \<in> set [0..<16]. hex_digit n \<noteq> CHR ''-''"
    by code_simp
  then show "n < 16 \<Longrightarrow> hex_digit n \<noteq> CHR ''-''" by simp
qed

lemma byte_div_16: "unat (w :: byte) div 16 < 16"
proof -
  have "unat w < 2 ^ LENGTH(8)" by (rule unsigned_less)
  then show ?thesis by (simp add: less_mult_imp_div_less)
qed

lemma from_hex_to_hex: "from_hex (to_hex b) = b"
proof (induction b)
  case Nil
  then show ?case by (simp add: to_hex_def)
next
  case (Cons w b)
  have "16 * (unat w div 16) + unat w mod 16 = unat w" by simp
  then have "(of_nat (16 * (unat w div 16) + unat w mod 16) :: byte) = w"
    by (simp only: of_nat_unat ucast_id)
  with Cons show ?case
    by (simp add: to_hex_def hex_value_digit byte_div_16 del: of_nat_add of_nat_mult)
qed

lemma length_to_hex [simp]: "length (to_hex b) = 2 * length b"
  by (induction b) (auto simp: to_hex_def)

lemma to_hex_no_dash: "CHR ''-'' \<notin> set (to_hex b)"
  by (auto simp: to_hex_def hex_digit_not_dash [THEN not_sym] byte_div_16)

end
