(* ===== verification/Long.thy ===== *)
theory Long
  imports Js_Number
begin

text \<open>
  The class \<^verbatim>\<open>Long\<close> of \<^verbatim>\<open>src/utils/long.js\<close>: an object that wraps one
  \<^verbatim>\<open>BigInt\<close>, its field \<^verbatim>\<open>value\<close>, so a \<^verbatim>\<open>Long\<close> is an
  \<^typ>\<open>int\<close> here. No method truncates to 64 bits: apart from \<^verbatim>\<open>fromInt\<close>,
  \<^verbatim>\<open>toInt\<close>, \<^verbatim>\<open>getHighBits\<close> and \<^verbatim>\<open>getLowBits\<close> the arithmetic is
  unbounded. The methods coerce an argument that is not a \<^verbatim>\<open>Long\<close> with
  \<^verbatim>\<open>Long.fromValue\<close>; the model takes the coerced argument.
  The lemmas show that text conversion round-trips, that the two halves written on the wire
  determine a 64-bit value, and where \<^verbatim>\<open>negate\<close> is not negation.
\<close>

unbundle bit_operations_syntax

type_synonym long = int

subsection \<open>Decimal text\<close>

fun dec_digits :: "nat \<Rightarrow> string" where
  "dec_digits n =
     (if n < 10 then [char_of (48 + n)] else dec_digits (n div 10) @ [char_of (48 + n mod 10)])"

declare dec_digits.simps [simp del]

definition bigint_to_string :: "int \<Rightarrow> string" where \<comment> \<open>\<open>String(b)\<close>\<close>
  "bigint_to_string v = (if v < 0 then CHR ''-'' # dec_digits (nat (- v)) else dec_digits (nat v))"

definition digit_in_base :: "nat \<Rightarrow> char \<Rightarrow> nat option" where
  "digit_in_base base c =
     (let n = (of_char c :: nat);
          d = (if 48 \<le> n \<and> n \<le> 57 then Some (n - 48)
               else if 97 \<le> n \<and> n \<le> 102 then Some (n - 87)
               else if 65 \<le> n \<and> n \<le> 70 then Some (n - 55)
               else None)
      in case d of Some k \<Rightarrow> (if k < base then Some k else None) | None \<Rightarrow> None)"

fun parse_digits :: "nat \<Rightarrow> nat \<Rightarrow> string \<Rightarrow> nat option" where
  "parse_digits base acc [] = Some acc"
| "parse_digits base acc (c # cs) =
     (case digit_in_base base c of
        Some k \<Rightarrow> parse_digits base (acc * base + k) cs
      | None \<Rightarrow> None)"

definition is_js_space :: "char \<Rightarrow> bool" where
  "is_js_space c \<longleftrightarrow> (of_char c :: nat) \<in> {9, 10, 11, 12, 13, 32}"

definition js_trim :: "string \<Rightarrow> string" where
  "js_trim s = rev (dropWhile is_js_space (rev (dropWhile is_js_space s)))"

definition non_empty_digits :: "nat \<Rightarrow> string \<Rightarrow> nat option" where
  "non_empty_digits base s = (if s = [] then None else parse_digits base 0 s)"

text \<open>
  \<^verbatim>\<open>BigInt(s)\<close>: white space around the literal is ignored, blank text is zero, a sign is
  allowed on decimal literals only, and anything else is a \<^verbatim>\<open>SyntaxError\<close>.
\<close>

fun bigint_literal :: "string \<Rightarrow> int option" where
  "bigint_literal [] = Some 0"
| "bigint_literal (c # cs) =
     (if c = CHR ''-'' then map_option (\<lambda>n. - int n) (non_empty_digits 10 cs)
      else if c = CHR ''+'' then map_option int (non_empty_digits 10 cs)
      else if c = CHR ''0'' \<and> take 1 cs \<in> {''x'', ''X''} then map_option int (non_empty_digits 16 (tl cs))
      else if c = CHR ''0'' \<and> take 1 cs \<in> {''o'', ''O''} then map_option int (non_empty_digits 8 (tl cs))
      else if c = CHR ''0'' \<and> take 1 cs \<in> {''b'', ''B''} then map_option int (non_empty_digits 2 (tl cs))
      else map_option int (non_empty_digits 10 (c # cs)))"

definition bigint_of_string :: "string \<Rightarrow> int result" where
  "bigint_of_string s =
     (case bigint_literal (js_trim s) of Some v \<Rightarrow> Inr v | None \<Rightarrow> Inl JsSyntaxError)"

subsection \<open>Construction\<close>

text \<open>What callers pass: a number (possibly \<^verbatim>\<open>NaN\<close>), a string, a BigInt or a Long.\<close>

datatype js_val = VNaN | VNumber int | VString string | VBigInt int | VLong long

definition Long_ZERO :: long where "Long_ZERO = 0"
definition Long_ONE :: long where "Long_ONE = 1"
definition Long_MIN_VALUE :: long where "Long_MIN_VALUE = - 9223372036854775808"
definition Long_MAX_VALUE :: long where "Long_MAX_VALUE = 9223372036854775807"

definition Long_fromBits :: "int \<Rightarrow> long" where
  "Long_fromBits v = v"

definition Long_fromInt :: "int option \<Rightarrow> long" where \<comment> \<open>\<open>None\<close> is \<open>NaN\<close>\<close>
  "Long_fromInt v = (case v of None \<Rightarrow> Long_ZERO | Some n \<Rightarrow> asIntN 64 n)"

definition Long_fromNumber :: "int option \<Rightarrow> long" where
  "Long_fromNumber v = (case v of None \<Rightarrow> Long_ZERO | Some n \<Rightarrow> n)"

definition Long_fromString :: "string \<Rightarrow> long result" where
  "Long_fromString s =
     (if length s = 0 then Inl (JsError ''empty string'')
      else if s = ''NaN'' \<or> s = ''Infinity'' \<or> s = ''+Infinity'' \<or> s = ''-Infinity''
        then Inr Long_ZERO
      else bigint_of_string s)"

definition Long_fromValue :: "js_val \<Rightarrow> long result" where
  "Long_fromValue v =
     (case v of
        VNaN \<Rightarrow> Inr (Long_fromNumber None)
      | VNumber n \<Rightarrow> Inr (Long_fromNumber (Some n))
      | VString s \<Rightarrow> Long_fromString s
      | VBigInt n \<Rightarrow> Inr n
      | VLong n \<Rightarrow> Inr n)"

subsection \<open>Methods\<close>

definition Long_isZero :: "long \<Rightarrow> bool" where "Long_isZero a \<longleftrightarrow> a = 0"
definition Long_isNegative :: "long \<Rightarrow> bool" where "Long_isNegative a \<longleftrightarrow> a < 0"
definition Long_toString :: "long \<Rightarrow> string" where "Long_toString a = bigint_to_string a"
definition Long_toInt :: "long \<Rightarrow> int" where "Long_toInt a = asIntN 32 a"
definition Long_shiftLeft :: "long \<Rightarrow> int \<Rightarrow> long" where "Long_shiftLeft a n = bigint_shl a n"
definition Long_shiftRight :: "long \<Rightarrow> int \<Rightarrow> long" where "Long_shiftRight a n = bigint_shr a n"
definition Long_or :: "long \<Rightarrow> long \<Rightarrow> long" where "Long_or a b = Long_fromBits (a OR b)"
definition Long_xor :: "long \<Rightarrow> long \<Rightarrow> long" where "Long_xor a b = a XOR b"
definition Long_and :: "long \<Rightarrow> long \<Rightarrow> long" where "Long_and a b = a AND b"
definition Long_not :: "long \<Rightarrow> long" where "Long_not a = NOT a"

definition Long_shiftRightUnsigned :: "long \<Rightarrow> int \<Rightarrow> long" where
  "Long_shiftRightUnsigned a n = bigint_shr a (asUintN 64 n)"

definition Long_equals :: "long \<Rightarrow> long \<Rightarrow> bool" where "Long_equals a b \<longleftrightarrow> a = b"
definition Long_gte :: "long \<Rightarrow> long \<Rightarrow> bool" where "Long_gte a b \<longleftrightarrow> a \<ge> b"
definition Long_notEquals :: "long \<Rightarrow> long \<Rightarrow> bool" where "Long_notEquals a b \<longleftrightarrow> \<not> Long_equals a b"
definition Long_lessThan :: "long \<Rightarrow> long \<Rightarrow> bool" where "Long_lessThan a b \<longleftrightarrow> a < b"
definition Long_add :: "long \<Rightarrow> long \<Rightarrow> long" where "Long_add a b = a + b"

definition Long_negate :: "long \<Rightarrow> long" where
  "Long_negate a = (if Long_equals a Long_MIN_VALUE then Long_MIN_VALUE
                    else Long_add (Long_not a) Long_ONE)"

definition Long_subtract :: "long \<Rightarrow> long \<Rightarrow> long" where
  "Long_subtract a b = Long_add a (Long_negate b)"

definition Long_multiply :: "long \<Rightarrow> long \<Rightarrow> long" where
  "Long_multiply a b = (if Long_isZero a then Long_ZERO else a * b)"

text \<open>BigInt division truncates towards zero.\<close>

definition bigint_div :: "int \<Rightarrow> int \<Rightarrow> int" where
  "bigint_div a b = sgn a * sgn b * (\<bar>a\<bar> div \<bar>b\<bar>)"

definition Long_divide :: "long \<Rightarrow> long \<Rightarrow> long result" where
  "Long_divide a b = (if Long_isZero b then Inl (JsError ''division by zero'') else Inr (bigint_div a b))"

definition Long_compare :: "long \<Rightarrow> long \<Rightarrow> int" where
  "Long_compare a b = (if a = b then 0 else if a > b then 1 else - 1)"

definition Long_getHighBits :: "long \<Rightarrow> int" where "Long_getHighBits a = asIntN 32 (bigint_shr a 32)"
definition Long_getLowBits :: "long \<Rightarrow> int" where "Long_getLowBits a = asIntN 32 a"

lemmas Long_defs =
  Long_ZERO_def Long_ONE_def Long_MIN_VALUE_def Long_MAX_VALUE_def Long_fromBits_def Long_fromInt_def
  Long_fromNumber_def Long_isZero_def Long_isNegative_def Long_toInt_def Long_shiftLeft_def
  Long_shiftRight_def Long_or_def Long_xor_def Long_and_def Long_not_def
  Long_shiftRightUnsigned_def Long_equals_def Long_gte_def Long_notEquals_def Long_lessThan_def
  Long_add_def Long_negate_def Long_subtract_def Long_multiply_def Long_compare_def

subsection \<open>Text round trip\<close>

lemma digit_char: "d < 10 \<Longrightarrow> of_char (char_of (48 + d) :: char) = (48 + d :: nat)"
  by simp

lemma digit_in_base_10: "d < 10 \<Longrightarrow> digit_in_base 10 (char_of (48 + d)) = Some d"
  by (simp add: digit_in_base_def Let_def)

lemma parse_digits_append:
  "parse_digits b a (s @ t) = Option.bind (parse_digits b a s) (\<lambda>a'. parse_digits b a' t)"
  by (induction s arbitrary: a) (auto split: option.splits)

lemma parse_dec_digits: "parse_digits 10 0 (dec_digits n) = Some n"
proof (induction n rule: dec_digits.induct)
  case (1 n)
  show ?case
  proof (cases "n < 10")
    case True
    then show ?thesis by (simp add: dec_digits.simps [of n] digit_in_base_10)
  next
    case False
    with 1 show ?thesis
      by (simp add: dec_digits.simps [of n] parse_digits_append digit_in_base_10)
  qed
qed

lemma dec_digits_not_Nil [simp]: "dec_digits n \<noteq> []"
  by (subst dec_digits.simps) simp

lemma set_dec_digits: "c \<in> set (dec_digits n) \<Longrightarrow> 48 \<le> (of_char c :: nat) \<and> (of_char c :: nat) \<le> 57"
proof (induction n rule: dec_digits.induct)
  case (1 n)
  have "n mod 10 < 10" by simp
  with 1 show ?case
    by (cases "n < 10") (auto simp: dec_digits.simps [of n])
qed

lemma not_space_digit: "c \<in> set (dec_digits n) \<Longrightarrow> \<not> is_js_space c"
  using set_dec_digits [of c n] by (auto simp: is_js_space_def)

lemma not_digit_chars:
  "c \<in> set (dec_digits n) \<Longrightarrow> c \<noteq> CHR ''-'' \<and> c \<noteq> CHR ''+'' \<and> c \<noteq> CHR ''x'' \<and> c \<noteq> CHR ''X''
     \<and> c \<noteq> CHR ''o'' \<and> c \<noteq> CHR ''O'' \<and> c \<noteq> CHR ''b'' \<and> c \<noteq> CHR ''B'' \<and> c \<noteq> CHR ''N'' \<and> c \<noteq> CHR ''I''"
  using set_dec_digits [of c n] by auto

lemma js_trim_id:
  assumes "\<And>c. c \<in> set s \<Longrightarrow> \<not> is_js_space c"
  shows "js_trim s = s"
proof -
  have "dropWhile is_js_space s = s"
    using assms by (auto simp: dropWhile_eq_self_iff)
  moreover have "dropWhile is_js_space (rev s) = rev s"
    using assms hd_in_set [of "rev s"] by (auto simp: dropWhile_eq_self_iff)
  ultimately show ?thesis by (simp add: js_trim_def)
qed

lemma non_empty_dec_digits: "non_empty_digits 10 (dec_digits n) = Some n"
  by (simp add: non_empty_digits_def parse_dec_digits)

lemma bigint_literal_dec_digits: "bigint_literal (dec_digits n) = Some (int n)"
proof -
  obtain c cs where s: "dec_digits n = c # cs" by (cases "dec_digits n") auto
  have c: "c \<noteq> CHR ''-''" "c \<noteq> CHR ''+''"
    using not_digit_chars [of c n] by (simp_all add: s)
  have "take 1 cs \<notin> {''x'', ''X'', ''o'', ''O'', ''b'', ''B''}"
  proof (cases cs)
    case Nil
    then show ?thesis by simp
  next
    case (Cons d ds)
    then show ?thesis using not_digit_chars [of d n] by (simp add: s)
  qed
  then show ?thesis
    using c non_empty_dec_digits [of n] by (simp add: s)
qed

lemma bigint_of_string_dec_digits: "bigint_of_string (dec_digits n) = Inr (int n)"
  using js_trim_id [of "dec_digits n"] not_space_digit [of _ n]
  by (simp add: bigint_of_string_def bigint_literal_dec_digits)

lemma bigint_of_string_minus: "bigint_of_string (CHR ''-'' # dec_digits n) = Inr (- int n)"
proof -
  have "\<not> is_js_space c" if "c \<in> set (CHR ''-'' # dec_digits n)" for c
    using that not_space_digit [of c n] by (auto simp: is_js_space_def)
  then have "js_trim (CHR ''-'' # dec_digits n) = CHR ''-'' # dec_digits n"
    by (rule js_trim_id)
  then show ?thesis
    by (simp add: bigint_of_string_def non_empty_dec_digits)
qed

lemma Long_fromString_toString_int: "Long_fromString (Long_toString v) = Inr v"
proof (cases "v < 0")
  case True
  obtain c cs where s: "dec_digits (nat (- v)) = c # cs" by (cases "dec_digits (nat (- v))") auto
  have "c \<noteq> CHR ''I''" using not_digit_chars [of c "nat (- v)"] by (simp add: s)
  then show ?thesis
    using True bigint_of_string_minus [of "nat (- v)"]
    by (simp add: Long_fromString_def Long_toString_def bigint_to_string_def s)
next
  case False
  obtain c cs where s: "dec_digits (nat v) = c # cs" by (cases "dec_digits (nat v)") auto
  have "c \<noteq> CHR ''I'' \<and> c \<noteq> CHR ''N'' \<and> c \<noteq> CHR ''+'' \<and> c \<noteq> CHR ''-''"
    using not_digit_chars [of c "nat v"] by (simp add: s)
  then show ?thesis
    using False bigint_of_string_dec_digits [of "nat v"]
    by (simp add: Long_fromString_def Long_toString_def bigint_to_string_def s)
qed

subsection \<open>Arithmetic\<close>

lemma Long_negate_eq: "a \<noteq> Long_MIN_VALUE \<Longrightarrow> Long_negate a = - a"
  by (simp add: Long_negate_def Long_equals_def Long_add_def Long_not_def Long_ONE_def not_int_def)

lemma Long_subtract_eq: "b \<noteq> Long_MIN_VALUE \<Longrightarrow> Long_subtract a b = a - b"
  by (simp add: Long_subtract_def Long_negate_eq Long_add_def)

lemma Long_multiply_eq [simp]: "Long_multiply a b = a * b"
  by (simp add: Long_multiply_def Long_isZero_def Long_ZERO_def)

lemma Long_toInt_ToInt32: "Long_toInt a = ToInt32 a"
  by (simp add: Long_toInt_def asIntN_def ToInt32_def)

lemma Long_halves:
  assumes "int_range 64 v"
  shows "Long_getHighBits v = v div 4294967296" "Long_getLowBits v = ToInt32 v"
proof -
  have "- 9223372036854775808 div 4294967296 \<le> v div 4294967296"
    using assms by (intro zdiv_mono1) simp_all
  moreover have "v div 4294967296 \<le> 9223372036854775807 div 4294967296"
    using assms by (intro zdiv_mono1) simp_all
  ultimately have "- 2147483648 \<le> v div 4294967296 \<and> v div 4294967296 < 2147483648"
    by simp
  then show "Long_getHighBits v = v div 4294967296"
    by (simp add: Long_getHighBits_def asIntN_def bigint_shr_def drop_bit_eq_div
        signed_take_bit_int_eq_self)
  show "Long_getLowBits v = ToInt32 v"
    by (simp add: Long_getLowBits_def asIntN_def ToInt32_def)
qed

end
