(* ===== verification/Encoder.thy ===== *)
theory Encoder
  imports Node_Buffer Long
begin

text \<open>
  The class \<^verbatim>\<open>Encoder\<close> of \<^verbatim>\<open>src/protocol/encoder.js\<close>: a growing buffer with a
  write offset. Every \<^verbatim>\<open>write*\<close> method is a definition that takes the encoder and
  returns the updated one or the exception thrown. The contract the other components rely on is
  \<^verbatim>\<open>appends\<close>: below the size where the buffer cannot grow, a writer succeeds, keeps the
  encoder well formed and appends exactly the given octets to what the encoder already holds,
  whatever the buffer behind it looks like.
\<close>

subsection \<open>Static functions\<close>

definition encodeZigZag :: "int \<Rightarrow> int" where
  "encodeZigZag value = js_xor (js_shl value 1) (js_shr value 31)"

definition encodeZigZag64 :: "long \<Rightarrow> long" where
  "encodeZigZag64 longValue = Long_xor (Long_shiftLeft longValue 1) (Long_shiftRight longValue 63)"

definition nextPowerOfTwo :: "int \<Rightarrow> int" where
  "nextPowerOfTwo value = js_shl 1 (nat (31 - int (clz32 value) + 1))"

text \<open>The loops of \<^verbatim>\<open>sizeOfVarInt\<close> and \<^verbatim>\<open>writeUVarInt\<close> end because \<open>>>>\<close> shrinks the 32-bit value.\<close>

lemma uvarint_loop_decreases:
  assumes "js_and v 0xffffff80 \<noteq> 0"
  shows "ToUint32 (js_ushr v 7) < ToUint32 v" "0 < ToUint32 v"
proof -
  have big: "128 \<le> ToUint32 v" using assms by (simp add: js_and_ffffff80)
  have r: "0 \<le> js_ushr v 7" "js_ushr v 7 \<le> ToUint32 v" by (rule js_ushr_range)+
  then have "ToUint32 (js_ushr v 7) = js_ushr v 7"
    using ToUint32_range [of v] by simp
  also have "\<dots> = ToUint32 v div 128" by (simp add: js_ushr_div)
  also have "\<dots> < ToUint32 v" using big by (intro int_div_less_self) auto
  finally show "ToUint32 (js_ushr v 7) < ToUint32 v" .
  show "0 < ToUint32 v" using big by simp
qed

function sizeOfVarInt_loop :: "int \<Rightarrow> nat \<Rightarrow> nat" where
  "sizeOfVarInt_loop encodedValue bytes =
     (if js_and encodedValue 0xffffff80 \<noteq> 0
      then sizeOfVarInt_loop (js_ushr encodedValue 7) (bytes + 1)
      else bytes)"
  by pat_completeness auto
termination
  by (relation "measure (\<lambda>(v, _). nat (ToUint32 v))") (auto simp: uvarint_loop_decreases)

definition sizeOfVarInt :: "int \<Rightarrow> nat" where
  "sizeOfVarInt value = sizeOfVarInt_loop (encodeZigZag value) 1"

text \<open>
  The two loops over a \<^verbatim>\<open>Long\<close> start from \<^verbatim>\<open>encodeZigZag64\<close>, which is never negative
  (lemma \<open>encodeZigZag64_nonneg\<close> below), so they run on natural numbers:
  \<open>n AND 0xffffffffffffff80\<close> and \<open>n >> 7\<close> on a non-negative BigInt.
\<close>

lemma varlong_loop_decreases:
  assumes "Long_notEquals (Long_and (int v) 0xffffffffffffff80) (Long_fromInt (Some 0))"
  shows "nat (Long_shiftRightUnsigned (int v) 7) < v"
proof -
  have "v \<noteq> 0" using assms by (intro notI) (simp add: Long_defs asIntN_def)
  then show ?thesis
    by (simp add: Long_defs bigint_shr_def asUintN_def drop_bit_eq_div nat_div_distrib)
qed

function sizeOfVarLong_loop :: "nat \<Rightarrow> nat \<Rightarrow> nat" where
  "sizeOfVarLong_loop longValue bytes =
     (if Long_notEquals (Long_and (int longValue) 0xffffffffffffff80) (Long_fromInt (Some 0))
      then sizeOfVarLong_loop (nat (Long_shiftRightUnsigned (int longValue) 7)) (bytes + 1)
      else bytes)"
  by pat_completeness auto
termination
  by (relation "measure fst") (auto dest: varlong_loop_decreases)

definition sizeOfVarLong :: "long \<Rightarrow> nat" where
  "sizeOfVarLong value = sizeOfVarLong_loop (nat (encodeZigZag64 value)) 1"

text \<open>A value that is written as bytes: absent, a \<^verbatim>\<open>Buffer\<close>, or anything else, as text.\<close>

datatype bytes_value = BNull | BBuffer buffer | BString string

fun byteLength :: "bytes_value \<Rightarrow> int" where
  "byteLength BNull = - 1" \<comment> \<open>\<open>value == null ? -1 : ...\<close>\<close>
| "byteLength (BBuffer b) = int (length b)"
| "byteLength (BString s) = int (length s)"

definition sizeOfVarIntBytes :: "bytes_value \<Rightarrow> nat" where
  "sizeOfVarIntBytes value =
     (let size = byteLength value
      in if size < 0 then sizeOfVarInt (- 1) else sizeOfVarInt size + nat size)"

subsection \<open>State\<close>

record encoder =
  enc_buf :: buffer
  enc_offset :: nat

type_synonym writer = "encoder \<Rightarrow> encoder result"

definition Encoder_new :: "int \<Rightarrow> encoder result" where
  "Encoder_new initialSize =
     rbind (buf_alloc (nextPowerOfTwo initialSize)) (\<lambda>b. Inr \<lparr>enc_buf = b, enc_offset = 0\<rparr>)"

definition new_Encoder :: "encoder result" where \<comment> \<open>\<open>new Encoder()\<close>\<close>
  "new_Encoder = Encoder_new 511"

definition ensureAvailable :: "nat \<Rightarrow> writer" where
  "ensureAvailable len e =
     (if enc_offset e + len > length (enc_buf e)
      then rbind (buf_alloc (nextPowerOfTwo (int (enc_offset e + len))))
             (\<lambda>newBuffer. Inr (e\<lparr>enc_buf := buf_blit newBuffer 0 (take (enc_offset e) (enc_buf e))\<rparr>))
      else Inr e)"

definition writeBufferInternal :: "buffer \<Rightarrow> writer" where
  "writeBufferInternal b e =
     rbind (ensureAvailable (length b) e)
       (\<lambda>e. Inr (e\<lparr>enc_buf := buf_blit (enc_buf e) (enc_offset e) b,
                   enc_offset := enc_offset e + length b\<rparr>))"

definition Encoder_buffer :: "encoder \<Rightarrow> buffer" where \<comment> \<open>\<open>get buffer()\<close>\<close>
  "Encoder_buffer e = buf_slice (enc_buf e) 0 (int (enc_offset e))"

definition Encoder_size :: "encoder \<Rightarrow> nat" where
  "Encoder_size e = enc_offset e"

subsection \<open>Fixed-width integers\<close>

definition write_fixed :: "nat \<Rightarrow> (nat \<Rightarrow> int \<Rightarrow> buffer \<Rightarrow> nat \<Rightarrow> buffer result) \<Rightarrow> int \<Rightarrow> writer" where
  "write_fixed n store value e =
     rbind (ensureAvailable n e)
       (\<lambda>e. rbind (store n value (enc_buf e) (enc_offset e))
         (\<lambda>b. Inr (e\<lparr>enc_buf := b, enc_offset := enc_offset e + n\<rparr>)))"

definition writeInt8 :: "int \<Rightarrow> writer" where "writeInt8 value = write_fixed 1 write_int_be value"
definition writeInt16 :: "int \<Rightarrow> writer" where "writeInt16 value = write_fixed 2 write_int_be value"
definition writeInt32 :: "int \<Rightarrow> writer" where "writeInt32 value = write_fixed 4 write_int_be value"
definition writeUInt32 :: "int \<Rightarrow> writer" where "writeUInt32 value = write_fixed 4 write_uint_be value"

definition writeInt64 :: "long \<Rightarrow> writer" where
  "writeInt64 longValue e =
     rbind (ensureAvailable 8 e)
       (\<lambda>e. rbind (write_int_be 4 (Long_getHighBits longValue) (enc_buf e) (enc_offset e))
         (\<lambda>b. rbind (write_int_be 4 (Long_getLowBits longValue) b (enc_offset e + 4))
           (\<lambda>b. Inr (e\<lparr>enc_buf := b, enc_offset := enc_offset e + 8\<rparr>))))"

text \<open>A double is given by its IEEE 754 bit pattern, which \<^verbatim>\<open>writeDoubleBE\<close> stores big-endian.\<close>

definition writeDouble :: "64 word \<Rightarrow> writer" where
  "writeDouble bits e =
     rbind (ensureAvailable 8 e)
       (\<lambda>e. rbind (write_uint_be 8 (uint bits) (enc_buf e) (enc_offset e))
         (\<lambda>b. Inr (e\<lparr>enc_buf := b, enc_offset := enc_offset e + 8\<rparr>)))"

definition writeBoolean :: "bool \<Rightarrow> writer" where
  "writeBoolean value = (if value then writeInt8 1 else writeInt8 0)"

subsection \<open>Variable-length integers\<close>

function uvarint_bytes :: "int \<Rightarrow> buffer" where
  "uvarint_bytes value =
     (if js_and value 0xffffff80 \<noteq> 0
      then word_of_int (js_or (js_and value 0x7f) 0x80) # uvarint_bytes (js_ushr value 7)
      else [word_of_int (js_and value 0x7f)])"
  by pat_completeness auto
termination
  by (relation "measure (\<lambda>v. nat (ToUint32 v))") (auto simp: uvarint_loop_decreases)

definition writeUVarInt :: "int \<Rightarrow> writer" where
  "writeUVarInt value = writeBufferInternal (uvarint_bytes value)"

definition writeVarInt :: "int \<Rightarrow> writer" where
  "writeVarInt value = writeUVarInt (encodeZigZag value)"

function varlong_bytes :: "nat \<Rightarrow> buffer" where
  "varlong_bytes longValue =
     (if Long_notEquals (Long_and (int longValue) 0xffffffffffffff80) (Long_fromInt (Some 0))
      then word_of_int (Long_toInt (Long_or (Long_and (int longValue) 0x7f) 0x80))
             # varlong_bytes (nat (Long_shiftRightUnsigned (int longValue) 7))
      else [word_of_int (Long_toInt (int longValue))])"
  by pat_completeness auto
termination
  by (relation "measure id") (auto dest: varlong_loop_decreases)

definition writeVarLong :: "long \<Rightarrow> writer" where
  "writeVarLong value = writeBufferInternal (varlong_bytes (nat (encodeZigZag64 value)))"

declare sizeOfVarInt_loop.simps [simp del] sizeOfVarLong_loop.simps [simp del]
  uvarint_bytes.simps [simp del] varlong_bytes.simps [simp del]

subsection \<open>Strings and bytes\<close>

text \<open>
  \<^verbatim>\<open>buf.write(text, offset, byteLength, 'utf8')\<close>: an offset behind the end throws, otherwise as
  much as fits is stored; the offset then advances by the whole length.
\<close>

definition store_text :: "string \<Rightarrow> writer" where
  "store_text text e =
     (if length (enc_buf e) < enc_offset e then Inl JsRangeError
      else Inr (e\<lparr>enc_buf := buf_blit (enc_buf e) (enc_offset e) (utf8 text),
                  enc_offset := enc_offset e + length text\<rparr>))"

definition writeString :: "string option \<Rightarrow> writer" where
  "writeString v =
     (case v of
        None \<Rightarrow> writeInt16 (- 1)
      | Some s \<Rightarrow> chain [ensureAvailable (2 + length s), writeInt16 (int (length s)), store_text s])"

definition writeVarIntString :: "string option \<Rightarrow> writer" where
  "writeVarIntString v =
     (case v of
        None \<Rightarrow> writeVarInt (- 1)
      | Some s \<Rightarrow> chain [writeVarInt (int (length s)), ensureAvailable (length s), store_text s])"

definition writeUVarIntString :: "string option \<Rightarrow> writer" where
  "writeUVarIntString v =
     (case v of
        None \<Rightarrow> writeUVarInt 0
      | Some s \<Rightarrow> chain [writeUVarInt (int (length s) + 1), ensureAvailable (length s), store_text s])"

definition writeBytes :: "bytes_value \<Rightarrow> writer" where
  "writeBytes v =
     (case v of
        BNull \<Rightarrow> writeInt32 (- 1)
      | BBuffer b \<Rightarrow>
          chain [ensureAvailable (4 + length b), writeInt32 (int (length b)), writeBufferInternal b]
      | BString s \<Rightarrow>
          chain [ensureAvailable (4 + length s), writeInt32 (int (length s)), store_text s])"

definition writeVarIntBytes :: "bytes_value \<Rightarrow> writer" where
  "writeVarIntBytes v =
     (case v of
        BNull \<Rightarrow> writeVarInt (- 1)
      | BBuffer b \<Rightarrow> chain [writeVarInt (int (length b)), writeBufferInternal b]
      | BString s \<Rightarrow> chain [writeVarInt (int (length s)), ensureAvailable (length s), store_text s])"

definition writeUVarIntBytes :: "bytes_value \<Rightarrow> writer" where
  "writeUVarIntBytes v =
     (case v of
        BNull \<Rightarrow> writeVarInt 0
      | BBuffer b \<Rightarrow> chain [writeUVarInt (int (length b) + 1), writeBufferInternal b]
      | BString s \<Rightarrow>
          chain [writeUVarInt (int (length s) + 1), ensureAvailable (length s), store_text s])"

subsection \<open>Nested encoders and arrays\<close>

text \<open>What an array handed to the encoder may hold.\<close>

datatype js_elem =
    ElNumber int
  | ElString string
  | ElEncoder encoder
  | ElObject \<comment> \<open>an object that is not an Encoder\<close>
  | ElNull
  | ElUndefined

fun js_typeof :: "js_elem \<Rightarrow> string" where
  "js_typeof (ElNumber _) = ''number''"
| "js_typeof (ElString _) = ''string''"
| "js_typeof (ElEncoder _) = ''object''"
| "js_typeof ElObject = ''object''"
| "js_typeof ElNull = ''object''"
| "js_typeof ElUndefined = ''undefined''"

fun is_encoder :: "js_elem \<Rightarrow> bool" where \<comment> \<open>\<open>v != null && Buffer.isBuffer(v.buf)\<close>\<close>
  "is_encoder (ElEncoder _) = True"
| "is_encoder _ = False"

definition writeEncoder :: "js_elem \<Rightarrow> writer" where
  "writeEncoder v =
     (case v of
        ElEncoder x \<Rightarrow> writeBufferInternal (Encoder_buffer x)
      | _ \<Rightarrow> (\<lambda>_. Inl (JsError ''value should be an instance of Encoder'')))"

definition writeEncoderArray :: "js_elem list \<Rightarrow> writer" where
  "writeEncoderArray vs =
     (if \<exists>v \<in> set vs. \<not> is_encoder v
      then (\<lambda>_. Inl (JsError ''all values should be an instance of Encoder[]''))
      else chain (map writeEncoder vs))"

definition writeBuffer :: "bytes_value \<Rightarrow> writer" where
  "writeBuffer v =
     (case v of
        BBuffer b \<Rightarrow> writeBufferInternal b
      | _ \<Rightarrow> (\<lambda>_. Inl (JsError ''value should be an instance of Buffer'')))"

text \<open>
  The integer accessors of \<^verbatim>\<open>Buffer\<close> apply unary plus to the value; \<^verbatim>\<open>NaN\<close> passes
  their range check and is stored as zero. (Text with a fraction or an exponent is not modelled.)
\<close>

fun el_to_number :: "js_elem \<Rightarrow> int" where
  "el_to_number (ElNumber n) = n"
| "el_to_number (ElString s) = (case bigint_literal (js_trim s) of Some n \<Rightarrow> n | None \<Rightarrow> 0)"
| "el_to_number _ = 0"

fun writeStringEl :: "js_elem \<Rightarrow> writer" where
  "writeStringEl (ElString s) = writeString (Some s)"
| "writeStringEl ElNull = writeString None"
| "writeStringEl ElUndefined = writeString None"
| "writeStringEl _ = (\<lambda>_. Inl JsTypeError)"

definition write_typed_elem :: "string \<Rightarrow> js_elem \<Rightarrow> writer" where
  "write_typed_elem type v =
     (if type = ''int32'' \<or> type = ''number'' then writeInt32 (el_to_number v)
      else if type = ''string'' then writeStringEl v
      else Inr)"

definition write_elem_by_typeof :: "js_elem \<Rightarrow> writer" where
  "write_elem_by_typeof v =
     (if js_typeof v = ''number'' then writeInt32 (el_to_number v)
      else if js_typeof v = ''string'' then writeStringEl v
      else if js_typeof v = ''object'' then writeEncoder v
      else Inr)"

definition writeArray :: "js_elem list \<Rightarrow> string option \<Rightarrow> int option \<Rightarrow> writer" where
  "writeArray array type len =
     chain [writeInt32 (case len of None \<Rightarrow> int (length array) | Some n \<Rightarrow> n),
            (case type of
               Some t \<Rightarrow> (if t = ''object'' then writeEncoderArray array
                          else chain (map (write_typed_elem t) array))
             | None \<Rightarrow> chain (map write_elem_by_typeof array))]"

definition writeNullableArray :: "js_elem list \<Rightarrow> string option \<Rightarrow> writer" where
  "writeNullableArray array type =
     writeArray array type (Some (if length array \<noteq> 0 then int (length array) else - 1))"

definition writeVarIntArray :: "js_elem list \<Rightarrow> string option \<Rightarrow> writer" where
  "writeVarIntArray array type =
     (if type = Some ''object''
      then chain [writeVarInt (int (length array)), writeEncoderArray array]
      else let objectArray = filter (\<lambda>v. js_typeof v = ''object'') array
           in chain [writeVarInt (int (length objectArray)), writeEncoderArray objectArray])"

definition writeUVarIntArray :: "js_elem list option \<Rightarrow> string option \<Rightarrow> writer" where
  "writeUVarIntArray array type =
     (if type = Some ''object''
      then (case array of
              None \<Rightarrow> (\<lambda>_. Inl JsTypeError)
            | Some xs \<Rightarrow> chain [writeUVarInt (int (length xs) + 1), writeEncoderArray xs])
      else case array of
             None \<Rightarrow> writeUVarInt 0
           | Some xs \<Rightarrow>
               (let objectArray = filter (\<lambda>v. js_typeof v = ''object'') xs
                in chain [writeUVarInt (int (length objectArray) + 1), writeEncoderArray objectArray]))"

subsection \<open>UUIDs\<close>

definition writeUUID :: "string option \<Rightarrow> writer" where
  "writeUUID v e =
     (case v of
        None \<Rightarrow>
          rbind (ensureAvailable 16 e)
            (\<lambda>e. Inr (e\<lparr>enc_buf := buf_blit (enc_buf e) (enc_offset e) (replicate 16 0),
                        enc_offset := enc_offset e + 16\<rparr>))
      | Some s \<Rightarrow>
          (let hex = filter (\<lambda>c. c \<noteq> CHR ''-'') s; uuidBuffer = from_hex hex
           in rbind (ensureAvailable 16 e)
                (\<lambda>e. Inr (e\<lparr>enc_buf := buf_blit (enc_buf e) (enc_offset e) (take 16 uuidBuffer),
                            enc_offset := enc_offset e + 16\<rparr>))))"

end
