(* ===== verification/Wire_Format.thy ===== *)
theory Wire_Format
  imports Encoder
begin

text \<open>
  The wire format of the primitive types of the Kafka protocol as plain functions to octets,
  independent of any buffer management, and the proof that every writer of
  \<^verbatim>\<open>src/protocol/encoder.js\<close> appends exactly that format (\<open>appends\<close>).
  Variable-length integers are unsigned LEB128; signed ones are zig-zag encoded first.
\<close>

unbundle bit_operations_syntax

subsection \<open>Reference encodings\<close>

fun uleb128 :: "nat \<Rightarrow> buffer" where
  "uleb128 n = (if n < 128 then [of_nat n] else of_nat (n mod 128 + 128) # uleb128 (n div 128))"

declare uleb128.simps [simp del]

definition zigzag :: "int \<Rightarrow> nat" where
  "zigzag v = nat (if v \<ge> 0 then 2 * v else - 2 * v - 1)"

definition wire_varint :: "int \<Rightarrow> buffer" where
  "wire_varint v = uleb128 (zigzag v)"

definition wire_string :: "string option \<Rightarrow> buffer" where
  "wire_string v = (case v of None \<Rightarrow> be_bytes 2 (- 1) | Some s \<Rightarrow> be_bytes 2 (int (length s)) @ utf8 s)"

definition wire_varint_string :: "string option \<Rightarrow> buffer" where
  "wire_varint_string v = (case v of None \<Rightarrow> wire_varint (- 1) | Some s \<Rightarrow> wire_varint (int (length s)) @ utf8 s)"

definition wire_uvarint_string :: "string option \<Rightarrow> buffer" where
  "wire_uvarint_string v = (case v of None \<Rightarrow> uleb128 0 | Some s \<Rightarrow> uleb128 (length s + 1) @ utf8 s)"

text \<open>The octets behind a bytes value, and its three length-prefixed formats.\<close>

fun bytes_of :: "bytes_value \<Rightarrow> buffer option" where
  "bytes_of BNull = None"
| "bytes_of (BBuffer b) = Some b"
| "bytes_of (BString s) = Some (utf8 s)"

definition wire_bytes :: "buffer option \<Rightarrow> buffer" where
  "wire_bytes v = (case v of None \<Rightarrow> be_bytes 4 (- 1) | Some b \<Rightarrow> be_bytes 4 (int (length b)) @ b)"

definition wire_varint_bytes :: "buffer option \<Rightarrow> buffer" where
  "wire_varint_bytes v = (case v of None \<Rightarrow> wire_varint (- 1) | Some b \<Rightarrow> wire_varint (int (length b)) @ b)"

definition wire_uvarint_bytes :: "buffer option \<Rightarrow> buffer" where
  "wire_uvarint_bytes v = (case v of None \<Rightarrow> uleb128 0 | Some b \<Rightarrow> uleb128 (length b + 1) @ b)"

subsection \<open>Zig-zag and LEB128\<close>

lemma zigzag_bound: "int_range 32 v \<Longrightarrow> zigzag v < 4294967296"
  by (auto simp: zigzag_def)

lemma zigzag_bound64: "int_range 64 v \<Longrightarrow> zigzag v < 18446744073709551616"
  by (auto simp: zigzag_def)

lemma ToUint32_diff_1: "ToUint32 (- ToInt32 x - 1) = ToUint32 (- x - 1)"
  by (metis ToUint32_ToInt32 ToUint32_mod mod_diff_left_eq mod_minus_eq)

lemma encodeZigZag_zigzag:
  assumes "int_range 32 v"
  shows "ToUint32 (encodeZigZag v) = int (zigzag v)"
proof -
  have shl: "js_shl v 1 = ToInt32 (2 * v)" using js_shl_mult [of 1 v] by (simp add: ac_simps)
  show ?thesis
  proof (cases "0 \<le> v")
    case True
    then have "v div 2147483648 = 0" using assms by simp
    then have "js_shr v 31 = 0" using assms by (simp add: js_shr_def drop_bit_eq_div)
    then show ?thesis using True assms shl
      by (simp add: encodeZigZag_def js_xor_def zigzag_def)
  next
    case False
    then have "v div 2147483648 = - 1"
      using assms by (intro int_div_pos_eq [of _ _ _ "v + 2147483648"]) auto
    then have "js_shr v 31 = - 1" using assms by (simp add: js_shr_def drop_bit_eq_div)
    then have "encodeZigZag v = - ToInt32 (2 * v) - 1"
      using shl by (simp add: encodeZigZag_def js_xor_def not_int_def)
    then have "ToUint32 (encodeZigZag v) = ToUint32 (- (2 * v) - 1)"
      by (simp only: ToUint32_diff_1)
    then show ?thesis using False assms by (simp add: zigzag_def)
  qed
qed

lemma encodeZigZag64_zigzag:
  assumes "int_range 64 v"
  shows "encodeZigZag64 v = int (zigzag v)"
proof (cases "0 \<le> v")
  case True
  then have "v div 9223372036854775808 = 0" using assms by simp
  then have "Long_shiftRight v 63 = 0"
    by (simp add: Long_shiftRight_def bigint_shr_def drop_bit_eq_div)
  then show ?thesis using True
    by (simp add: encodeZigZag64_def Long_xor_def Long_shiftLeft_def bigint_shl_def push_bit_eq_mult zigzag_def)
next
  case False
  then have "v div 9223372036854775808 = - 1"
    using assms by (intro int_div_pos_eq [of _ _ _ "v + 9223372036854775808"]) auto
  then have "Long_shiftRight v 63 = - 1"
    by (simp add: Long_shiftRight_def bigint_shr_def drop_bit_eq_div)
  then show ?thesis using False
    by (simp add: encodeZigZag64_def Long_xor_def Long_shiftLeft_def bigint_shl_def push_bit_eq_mult
        zigzag_def not_int_def)
qed

text \<open>Both operands of the exclusive or have the sign of the argument.\<close>

lemma encodeZigZag64_nonneg: "0 \<le> encodeZigZag64 v"
  by (simp add: encodeZigZag64_def Long_xor_def Long_shiftLeft_def Long_shiftRight_def
      bigint_shl_def bigint_shr_def)

lemma length_uleb128_pos: "uleb128 n \<noteq> []"
  by (subst uleb128.simps) simp

lemma length_uleb128_le: "n < 128 ^ k \<Longrightarrow> 0 < k \<Longrightarrow> length (uleb128 n) \<le> k"
proof (induction k arbitrary: n)
  case 0
  then show ?case by simp
next
  case (Suc k)
  show ?case
  proof (cases "n < 128")
    case True
    then show ?thesis by (subst uleb128.simps) simp
  next
    case False
    then have "0 < k" using Suc.prems by (cases k) auto
    moreover have "n div 128 < 128 ^ k" using Suc.prems by (simp add: less_mult_imp_div_less ac_simps)
    ultimately have "length (uleb128 (n div 128)) \<le> k" by (intro Suc.IH)
    then show ?thesis using False by (subst uleb128.simps) simp
  qed
qed

lemma js_or_cont: "js_or (js_and v 127) 128 = js_and v 127 + 128"
proof -
  have r: "0 \<le> js_and v 127" "js_and v 127 < 2 ^ 7" by (simp_all add: js_and_127)
  have "js_or (js_and v 127) 128 = js_and v 127 OR 1 * 2 ^ 7"
    using r by (simp add: js_or_def)
  also have "\<dots> = js_and v 127 + 1 * 2 ^ 7" using r by (rule or_disjoint_int)
  finally show ?thesis by simp
qed

lemma uvarint_bytes_step:
  assumes "ToUint32 v = int n"
  shows "uvarint_bytes v =
    (if n < 128 then [of_nat n] else of_nat (n mod 128 + 128) # uvarint_bytes (int (n div 128)))"
proof -
  have low: "js_and v 127 = int (n mod 128)" by (simp add: js_and_127 assms zmod_int)
  have high: "js_ushr v 7 = int (n div 128)" by (simp add: js_ushr_div assms zdiv_int)
  have "js_or (js_and v 127) 128 = int (n mod 128) + 128"
    using js_or_cont [of v] low by simp
  then show ?thesis
    using low high by (simp add: uvarint_bytes.simps [of v] js_and_ffffff80 assms)
qed

lemma uvarint_bytes_uleb128: "ToUint32 v = int n \<Longrightarrow> uvarint_bytes v = uleb128 n"
proof (induction n arbitrary: v rule: uleb128.induct)
  case (1 n)
  have "int n < 4294967296" using 1(2) ToUint32_range [of v] by simp
  then have "ToUint32 (int (n div 128)) = int (n div 128)" by simp
  then have "\<not> n < 128 \<Longrightarrow> uvarint_bytes (int (n div 128)) = uleb128 (n div 128)"
    by (intro 1(1))
  then show ?case
    by (simp add: uvarint_bytes_step [OF 1(2)] uleb128.simps [of n])
qed

lemma Long_and_mask64:
  assumes "n < 2 ^ 64"
  shows "Long_and (int n) 0xffffffffffffff80 = int n - int n mod 128"
proof -
  have "int n AND 0xffffffffffffff80 = take_bit 64 (int n) AND take_bit 64 (- (2 ^ 7))"
    using assms by (simp add: take_bit_int_eq_self)
  also have "\<dots> = take_bit 64 (int n AND - (2 ^ 7))" by (simp only: take_bit_and)
  also have "\<dots> = take_bit 64 (int n - int n mod 128)" using and_minus_exp_int [of "int n" 7] by simp
  also have "\<dots> = int n - int n mod 128"
  proof (rule take_bit_int_eq_self)
    show "0 \<le> int n - int n mod 128" by (simp add: zmod_le_nonneg_dividend)
    have "int n - int n mod 128 \<le> int n" by simp
    moreover have "int n < 2 ^ 64" using assms by simp
    ultimately show "int n - int n mod 128 < 2 ^ 64" by (rule le_less_trans)
  qed
  finally show ?thesis by (simp add: Long_and_def)
qed

lemma varlong_bytes_step:
  assumes "n < 2 ^ 64"
  shows "varlong_bytes n =
    (if n < 128 then [of_nat n] else of_nat (n mod 128 + 128) # varlong_bytes (n div 128))"
proof -
  have guard: "Long_notEquals (Long_and (int n) 0xffffffffffffff80) (Long_fromInt (Some 0)) \<longleftrightarrow> \<not> n < 128"
    using assms by (auto simp: Long_and_mask64 Long_notEquals_def Long_equals_def Long_fromInt_def asIntN_def
        minus_mod_eq_mult_div)
  have "Long_and (int n) 0x7f = int (n mod 128)"
    using take_bit_eq_mask [of 7 "int n"] by (simp add: Long_and_def take_bit_eq_mod mask_eq_exp_minus_1 zmod_int)
  moreover have "int (n mod 128) OR 1 * 2 ^ 7 = int (n mod 128) + 1 * 2 ^ 7"
    by (rule or_disjoint_int) simp_all
  ultimately have "Long_toInt (Long_or (Long_and (int n) 0x7f) 0x80) = int (n mod 128) + 128"
    by (simp add: Long_or_def Long_fromBits_def Long_toInt_ToInt32)
  moreover have "nat (Long_shiftRightUnsigned (int n) 7) = n div 128"
    by (simp add: Long_shiftRightUnsigned_def bigint_shr_def asUintN_def drop_bit_eq_div nat_div_distrib)
  moreover have "(word_of_int (int (n mod 128) + 128) :: byte) = of_nat (n mod 128 + 128)"
    by simp
  moreover have "n < 128 \<Longrightarrow> Long_toInt (int n) = int n"
    by (simp add: Long_toInt_ToInt32)
  ultimately show ?thesis
    by (simp only: varlong_bytes.simps [of n] guard) auto
qed

lemma varlong_bytes_uleb128: "n < 2 ^ 64 \<Longrightarrow> varlong_bytes n = uleb128 n"
proof (induction n rule: uleb128.induct)
  case (1 n)
  then have "n div 128 < 2 ^ 64" by (simp add: less_mult_imp_div_less)
  with 1 show ?case by (simp add: varlong_bytes_step uleb128.simps [of n])
qed

subsection \<open>Growing the buffer\<close>

lemma less_bit_length: "n < 2 ^ bit_length n"
proof (induction n rule: bit_length.induct)
  case (1 n)
  show ?case
  proof (cases "n = 0")
    case False
    with 1 have "n div 2 < 2 ^ bit_length (n div 2)" by simp
    with False show ?thesis by (simp add: bit_length.simps [of n])
  qed simp
qed

lemma bit_length_le: "n < 2 ^ k \<Longrightarrow> bit_length n \<le> k"
proof (induction n arbitrary: k rule: bit_length.induct)
  case (1 n)
  show ?case
  proof (cases "n = 0")
    case True
    then show ?thesis by (simp add: bit_length.simps)
  next
    case False
    then obtain j where k: "k = Suc j" using "1.prems" by (cases k) auto
    then have "n div 2 < 2 ^ j" using "1.prems" by (simp add: less_mult_imp_div_less ac_simps)
    then have "bit_length (n div 2) \<le> j" using 1 False by blast
    then show ?thesis using False k by (simp add: bit_length.simps [of n])
  qed
qed

text \<open>Below one gibibyte the new size is a power of two greater than what is needed.\<close>

lemma nextPowerOfTwo_pow:
  assumes "n < 2 ^ 30"
  shows "nextPowerOfTwo (int n) = 2 ^ bit_length n"
proof -
  have len: "bit_length n \<le> 30" using assms by (rule bit_length_le)
  have "clz32 (int n) = 32 - bit_length n" using assms by (simp add: clz32_def)
  then have "nat (31 - int (clz32 (int n)) + 1) = bit_length n" using len by simp
  moreover have "2 ^ bit_length n < (2147483648 :: int)"
    using len power_increasing [of "bit_length n" 30 "2 :: int"] by simp
  moreover have "- 2147483648 \<le> (2 :: int) ^ bit_length n" using zero_le_power [of "2 :: int" "bit_length n"] by linarith
  ultimately show ?thesis
    using len by (simp add: nextPowerOfTwo_def js_shl_def push_bit_eq_mult)
qed

lemma nextPowerOfTwo_greater:
  assumes "n < 2 ^ 30"
  shows "int n < nextPowerOfTwo (int n)"
proof -
  have "int n < int (2 ^ bit_length n)" using less_bit_length [of n] by simp
  then show ?thesis using assms by (simp add: nextPowerOfTwo_pow)
qed

definition room :: "encoder \<Rightarrow> nat \<Rightarrow> bool" where
  "room e n \<longleftrightarrow> enc_offset e + n \<le> length (enc_buf e)"

definition enc_ok :: "encoder \<Rightarrow> bool" where
  "enc_ok e \<longleftrightarrow> enc_offset e \<le> length (enc_buf e)"

definition enc_put :: "buffer \<Rightarrow> encoder \<Rightarrow> encoder" where
  "enc_put b e = e\<lparr>enc_buf := buf_blit (enc_buf e) (enc_offset e) b,
                   enc_offset := enc_offset e + length b\<rparr>"

lemma Encoder_buffer_take: "Encoder_buffer e = take (enc_offset e) (enc_buf e)"
  by (simp add: Encoder_buffer_def buf_slice_0)

lemma length_Encoder_buffer: "enc_ok e \<Longrightarrow> length (Encoder_buffer e) = enc_offset e"
  by (simp add: Encoder_buffer_take enc_ok_def)

lemma room_enc_ok: "room e n \<Longrightarrow> enc_ok e"
  by (simp add: room_def enc_ok_def)

lemma enc_put_room: "room e (length b + m) \<Longrightarrow> room (enc_put b e) m"
  by (simp add: room_def enc_put_def)

lemma enc_put_offset [simp]: "enc_offset (enc_put b e) = enc_offset e + length b"
  by (simp add: enc_put_def)

lemma enc_put_buffer: "room e (length b) \<Longrightarrow> Encoder_buffer (enc_put b e) = Encoder_buffer e @ b"
  by (simp add: Encoder_buffer_take enc_put_def room_def take_buf_blit)

lemma ensureAvailable_room: "room e n \<Longrightarrow> ensureAvailable n e = Inr e"
  by (simp add: ensureAvailable_def room_def)

lemma ensureAvailable_ok:
  assumes "enc_ok e" "enc_offset e + n < 2 ^ 30"
  obtains e' where "ensureAvailable n e = Inr e'" "room e' n" "enc_offset e' = enc_offset e"
    "Encoder_buffer e' = Encoder_buffer e"
proof (cases "room e n")
  case True
  then show ?thesis using that ensureAvailable_room by blast
next
  case False
  let ?p = "nextPowerOfTwo (int (enc_offset e + n))"
  have p: "int (enc_offset e + n) < ?p" using assms(2) by (rule nextPowerOfTwo_greater)
  then have alloc: "buf_alloc ?p = Inr (replicate (nat ?p) 0)" by (simp add: buf_alloc_def)
  let ?e = "e\<lparr>enc_buf := buf_blit (replicate (nat ?p) 0) 0 (take (enc_offset e) (enc_buf e))\<rparr>"
  have "ensureAvailable n e = Inr ?e"
    using False alloc by (simp add: ensureAvailable_def room_def)
  moreover have "room ?e n" using p by (simp add: room_def)
  moreover have "Encoder_buffer ?e = Encoder_buffer e"
    using assms(1) p by (simp add: Encoder_buffer_take enc_ok_def buf_blit_fits min_absorb2)
  ultimately show ?thesis using that by simp
qed

subsection \<open>The writer contract\<close>

definition puts :: "writer \<Rightarrow> buffer \<Rightarrow> bool" where
  "puts w bs \<longleftrightarrow> (\<forall>e. room e (length bs) \<longrightarrow> w e = Inr (enc_put bs e))"

definition appends :: "writer \<Rightarrow> buffer \<Rightarrow> bool" where
  "appends w bs \<longleftrightarrow>
     (\<forall>e. enc_ok e \<and> enc_offset e + length bs < 2 ^ 30 \<longrightarrow>
        (\<exists>e'. w e = Inr e' \<and> enc_ok e' \<and> Encoder_buffer e' = Encoder_buffer e @ bs))"

lemma appendsE:
  assumes "appends w bs" "enc_ok e" "enc_offset e + length bs < 2 ^ 30"
  obtains e' where "w e = Inr e'" "enc_ok e'" "Encoder_buffer e' = Encoder_buffer e @ bs"
    "enc_offset e' = enc_offset e + length bs"
proof -
  obtain e' where e': "w e = Inr e'" "enc_ok e'" "Encoder_buffer e' = Encoder_buffer e @ bs"
    using assms unfolding appends_def by blast
  then have "enc_offset e' = enc_offset e + length bs"
    using length_Encoder_buffer [of e'] length_Encoder_buffer [of e] assms(2) by simp
  with e' show thesis using that by blast
qed

lemma buf_blit_blit:
  assumes "off + length x + length y \<le> length b"
  shows "buf_blit (buf_blit b off x) (off + length x) y = buf_blit b off (x @ y)"
  using assms by (simp add: buf_blit_fits take_buf_blit drop_append add.commute add.left_commute)

lemma enc_put_append:
  "room e (length x + length y) \<Longrightarrow> enc_put y (enc_put x e) = enc_put (x @ y) e"
  by (simp add: enc_put_def room_def buf_blit_blit add.assoc)

lemma room_mono: "room e n \<Longrightarrow> m \<le> n \<Longrightarrow> room e m"
  by (simp add: room_def)

lemma puts_ensure:
  assumes "puts body bs" "n = length bs"
  shows "puts (\<lambda>e. rbind (ensureAvailable n e) body) bs"
  using assms by (simp add: puts_def ensureAvailable_room)

lemma appends_ensure:
  assumes "puts body bs" "n = length bs"
  shows "appends (\<lambda>e. rbind (ensureAvailable n e) body) bs"
  unfolding appends_def
proof (intro allI impI, elim conjE)
  fix e assume "enc_ok e" "enc_offset e + length bs < 2 ^ 30"
  then obtain e' where e': "ensureAvailable n e = Inr e'" "room e' n"
      "Encoder_buffer e' = Encoder_buffer e"
    using assms(2) ensureAvailable_ok [of e n] by auto
  then have "room (enc_put bs e') 0" using assms(2) enc_put_room [of e' bs 0] by simp
  with e' assms show "\<exists>e''. rbind (ensureAvailable n e) body = Inr e'' \<and> enc_ok e'' \<and>
      Encoder_buffer e'' = Encoder_buffer e @ bs"
    by (auto simp: puts_def enc_put_buffer intro: room_enc_ok)
qed

lemma puts_chain_Nil: "puts (chain []) []"
  by (simp add: puts_def enc_put_def buf_blit_def)

lemma puts_chain_Cons:
  assumes "puts w x" "puts (chain ws) y"
  shows "puts (chain (w # ws)) (x @ y)"
  unfolding puts_def
proof (intro allI impI)
  fix e assume r: "room e (length (x @ y))"
  then have "w e = Inr (enc_put x e)" using assms(1) room_mono [of e _ "length x"] by (simp add: puts_def)
  moreover have "room (enc_put x e) (length y)" using r by (intro enc_put_room) simp
  ultimately show "chain (w # ws) e = Inr (enc_put (x @ y) e)"
    using assms(2) r by (simp add: puts_def enc_put_append)
qed

lemma puts_single: "puts w x \<Longrightarrow> puts (chain [w]) x"
  using puts_chain_Cons [OF _ puts_chain_Nil] by simp

lemma appends_chain_Nil [writer_intros]: "appends (chain []) []"
  by (simp add: appends_def)

lemma appends_chain_Cons [writer_intros]:
  assumes "appends w x" "appends (chain ws) y"
  shows "appends (chain (w # ws)) (x @ y)"
  unfolding appends_def
proof (intro allI impI, elim conjE)
  fix e assume e: "enc_ok e" "enc_offset e + length (x @ y) < 2 ^ 30"
  then obtain e1 where e1: "w e = Inr e1" "enc_ok e1" "Encoder_buffer e1 = Encoder_buffer e @ x"
      "enc_offset e1 = enc_offset e + length x"
    using appendsE [OF assms(1), of e] by auto
  with e obtain e2 where "chain ws e1 = Inr e2" "enc_ok e2" "Encoder_buffer e2 = Encoder_buffer e1 @ y"
    using appendsE [OF assms(2), of e1] by auto
  with e1 show "\<exists>e'. chain (w # ws) e = Inr e' \<and> enc_ok e' \<and> Encoder_buffer e' = Encoder_buffer e @ x @ y"
    by simp
qed

lemma appends_chain_single: "appends w x \<Longrightarrow> appends (chain [w]) x"
  using appends_chain_Cons [OF _ appends_chain_Nil] by simp

lemma appends_chain_concat:
  assumes "\<And>x. x \<in> set xs \<Longrightarrow> appends (f x) (g x)"
  shows "appends (chain (map f xs)) (concat (map g xs))"
  using assms
  by (induction xs) (simp_all only: list.map concat.simps list.set appends_chain_Nil
      appends_chain_Cons insert_iff simp_thms)

lemma appends_cong: "appends w x \<Longrightarrow> x = y \<Longrightarrow> appends w y"
  by simp

lemma appends_Inr [writer_intros]: "appends Inr []"
  by (simp add: appends_def)

text \<open>A fresh encoder holds nothing and can be written to.\<close>

lemma new_Encoder_eq: "new_Encoder = Inr \<lparr>enc_buf = replicate 512 0, enc_offset = 0\<rparr>"
proof -
  have "bit_length 511 = 9" by code_simp
  then have "nextPowerOfTwo 511 = 512" using nextPowerOfTwo_pow [of 511] by simp
  then show ?thesis by (simp add: new_Encoder_def Encoder_new_def buf_alloc_def)
qed

lemma appends_new_Encoder:
  assumes "appends w bs" "length bs < 2 ^ 30"
  obtains e where "rbind new_Encoder w = Inr e" "enc_ok e" "Encoder_buffer e = bs" "Encoder_size e = length bs"
  using appendsE [OF assms(1), of "\<lparr>enc_buf = replicate 512 0, enc_offset = 0\<rparr>"] assms(2)
  by (auto simp: new_Encoder_eq enc_ok_def Encoder_buffer_take Encoder_size_def)

subsection \<open>Every writer appends its wire format\<close>

lemma puts_raw: "puts (\<lambda>e. Inr (e\<lparr>enc_buf := buf_blit (enc_buf e) (enc_offset e) b,
    enc_offset := enc_offset e + length b\<rparr>)) b"
  by (simp add: puts_def enc_put_def)

lemma appends_writeBufferInternal [writer_intros]: "appends (writeBufferInternal b) b"
  using appends_ensure [OF puts_raw refl, of b] by (simp add: writeBufferInternal_def [abs_def])

lemma puts_writeBufferInternal: "puts (writeBufferInternal b) b"
  using puts_ensure [OF puts_raw refl, of b] by (simp add: writeBufferInternal_def [abs_def])

lemma puts_store_text: "puts (store_text s) (utf8 s)"
  by (simp add: puts_def store_text_def enc_put_def room_def)

definition stores :: "nat \<Rightarrow> (nat \<Rightarrow> int \<Rightarrow> buffer \<Rightarrow> nat \<Rightarrow> buffer result) \<Rightarrow> int \<Rightarrow> bool" where
  "stores n store v \<longleftrightarrow> (\<forall>b off. off + n \<le> length b \<longrightarrow> store n v b off = Inr (buf_blit b off (be_bytes n v)))"

lemma stores_int: "int_range (8 * n) v \<Longrightarrow> stores n write_int_be v"
  by (simp add: stores_def write_int_be_def)

lemma stores_uint: "uint_range (8 * n) v \<Longrightarrow> stores n write_uint_be v"
  by (simp add: stores_def write_uint_be_def)

lemma write_fixed_contract:
  assumes "stores n store v"
  shows "appends (write_fixed n store v) (be_bytes n v)" "puts (write_fixed n store v) (be_bytes n v)"
proof -
  have "puts (\<lambda>e. rbind (store n v (enc_buf e) (enc_offset e))
      (\<lambda>b. Inr (e\<lparr>enc_buf := b, enc_offset := enc_offset e + n\<rparr>))) (be_bytes n v)"
    using assms by (simp add: puts_def stores_def room_def enc_put_def)
  from appends_ensure [OF this] puts_ensure [OF this]
  show "appends (write_fixed n store v) (be_bytes n v)" "puts (write_fixed n store v) (be_bytes n v)"
    by (simp_all add: write_fixed_def [abs_def])
qed

lemma appends_writeInt8 [writer_intros]: "int_range 8 v \<Longrightarrow> appends (writeInt8 v) (be_bytes 1 v)"
  using write_fixed_contract(1) [OF stores_int [of 1 v]] by (simp add: writeInt8_def)

lemma appends_writeInt16 [writer_intros]: "int_range 16 v \<Longrightarrow> appends (writeInt16 v) (be_bytes 2 v)"
  using write_fixed_contract(1) [OF stores_int [of 2 v]] by (simp add: writeInt16_def)

lemma appends_writeInt32 [writer_intros]: "int_range 32 v \<Longrightarrow> appends (writeInt32 v) (be_bytes 4 v)"
  using write_fixed_contract(1) [OF stores_int [of 4 v]] by (simp add: writeInt32_def)

lemma appends_writeUInt32 [writer_intros]: "uint_range 32 v \<Longrightarrow> appends (writeUInt32 v) (be_bytes 4 v)"
  using write_fixed_contract(1) [OF stores_uint [of 4 v]] by (simp add: writeUInt32_def)

lemma puts_writeInt16: "int_range 16 v \<Longrightarrow> puts (writeInt16 v) (be_bytes 2 v)"
  using write_fixed_contract(2) [OF stores_int [of 2 v]] by (simp add: writeInt16_def)

lemma puts_writeInt32: "int_range 32 v \<Longrightarrow> puts (writeInt32 v) (be_bytes 4 v)"
  using write_fixed_contract(2) [OF stores_int [of 4 v]] by (simp add: writeInt32_def)

lemma be_bytes_append: "be_bytes (m + n) v = be_bytes m (v div 256 ^ n) @ be_bytes n v"
proof (induction m)
  case (Suc m)
  have "v div 256 ^ n div 256 ^ m = v div 256 ^ (m + n)"
    using zdiv_zmult2_eq [of "256 ^ m" v "256 ^ n"] by (simp add: power_add ac_simps)
  with Suc show ?case by simp
qed simp

lemma be_bytes_cong: "v mod 256 ^ n = w mod 256 ^ n \<Longrightarrow> be_bytes n v = be_bytes n w"
proof (induction n arbitrary: v w)
  case (Suc n)
  have split: "x mod 256 ^ Suc n = 256 ^ n * (x div 256 ^ n mod 256) + x mod 256 ^ n" for x :: int
    using zmod_zmult2_eq [of 256 x "256 ^ n"] by (simp add: ac_simps)
  have low: "v mod 256 ^ n = w mod 256 ^ n"
    by (metis Suc.prems dvd_triv_right mod_mod_cancel power_Suc)
  then have "v div 256 ^ n mod 256 = w div 256 ^ n mod 256"
    using Suc.prems split [of v] split [of w] by simp
  then have "(word_of_int (v div 256 ^ n) :: byte) = word_of_int (w div 256 ^ n)"
    by (simp add: word_of_int_eq_iff take_bit_eq_mod)
  with Suc.IH [OF low] show ?case by simp
qed simp

lemma be_bytes_ToInt32: "be_bytes 4 (ToInt32 v) = be_bytes 4 v"
  using ToUint32_ToInt32 [of v] by (intro be_bytes_cong) (simp add: ToUint32_mod)

lemma be_bytes_8: "be_bytes 8 v = be_bytes 4 (v div 4294967296) @ be_bytes 4 v"
  using be_bytes_append [of 4 4 v] by simp

lemma appends_writeInt64 [writer_intros]:
  assumes "int_range 64 v"
  shows "appends (writeInt64 v) (be_bytes 8 v)"
proof -
  have hi: "int_range 32 (v div 4294967296)" and lo: "int_range 32 (ToInt32 v)"
  proof -
    have "Long_getHighBits v = ToInt32 (v div 4294967296)"
      by (simp add: Long_getHighBits_def asIntN_def bigint_shr_def drop_bit_eq_div ToInt32_def)
    then show "int_range 32 (v div 4294967296)"
      using Long_halves(1) [OF assms] ToInt32_range [of "v div 4294967296"] by simp
    show "int_range 32 (ToInt32 v)" using ToInt32_range [of v] by simp
  qed
  let ?body = "\<lambda>e. rbind (write_int_be 4 (Long_getHighBits v) (enc_buf e) (enc_offset e))
         (\<lambda>b. rbind (write_int_be 4 (Long_getLowBits v) b (enc_offset e + 4))
           (\<lambda>b. Inr (e\<lparr>enc_buf := b, enc_offset := enc_offset e + 8\<rparr>)))"
  have "puts ?body (be_bytes 8 v)"
    unfolding puts_def
  proof (intro allI impI)
    fix e assume r: "room e (length (be_bytes 8 v))"
    have "buf_blit (buf_blit (enc_buf e) (enc_offset e) (be_bytes 4 (v div 4294967296)))
        (enc_offset e + 4) (be_bytes 4 v) = buf_blit (enc_buf e) (enc_offset e) (be_bytes 8 v)"
      using r buf_blit_blit [of "enc_offset e" "be_bytes 4 (v div 4294967296)" "be_bytes 4 v" "enc_buf e"]
      by (simp add: be_bytes_8 room_def)
    then show "?body e = Inr (enc_put (be_bytes 8 v) e)"
      using r hi lo by (simp add: Long_halves [OF assms] write_int_be_def room_def enc_put_def be_bytes_ToInt32
          del: int_range_numeral)
  qed
  from appends_ensure [OF this, of 8] show ?thesis by (simp add: writeInt64_def [abs_def])
qed

lemma appends_writeDouble [writer_intros]: "appends (writeDouble bits) (be_bytes 8 (uint bits))"
proof -
  have "uint_range (8 * 8) (uint bits)" using uint_lt2p [of bits] by (simp add: uint_range_def)
  then have "stores 8 write_uint_be (uint bits)" by (rule stores_uint)
  from write_fixed_contract(1) [OF this] show ?thesis
    by (simp add: write_fixed_def [abs_def] writeDouble_def [abs_def])
qed

lemma appends_writeBoolean [writer_intros]: "appends (writeBoolean b) (be_bytes 1 (if b then 1 else 0))"
  using appends_writeInt8 [of 0] appends_writeInt8 [of 1] by (simp add: writeBoolean_def)

lemma appends_writeUVarInt [writer_intros]:
  "n < 4294967296 \<Longrightarrow> appends (writeUVarInt (int n)) (uleb128 n)"
  using appends_writeBufferInternal [of "uvarint_bytes (int n)"] uvarint_bytes_uleb128 [of "int n" n]
  by (simp add: writeUVarInt_def)

lemma appends_writeVarInt [writer_intros]:
  "int_range 32 v \<Longrightarrow> appends (writeVarInt v) (wire_varint v)"
  using appends_writeBufferInternal [of "uvarint_bytes (encodeZigZag v)"]
    uvarint_bytes_uleb128 [OF encodeZigZag_zigzag]
  by (simp add: writeVarInt_def writeUVarInt_def wire_varint_def)

lemma appends_writeVarLong [writer_intros]:
  assumes "int_range 64 v"
  shows "appends (writeVarLong v) (wire_varint v)"
  using appends_writeBufferInternal [of "varlong_bytes (zigzag v)"]
    varlong_bytes_uleb128 [of "zigzag v"] zigzag_bound64 [OF assms] encodeZigZag64_zigzag [OF assms]
  by (simp add: writeVarLong_def wire_varint_def)

lemma appends_text:
  "appends (chain [ensureAvailable (length s), store_text s]) (utf8 s)"
proof -
  have "puts (chain [store_text s]) (utf8 s)" by (rule puts_single) (rule puts_store_text)
  from appends_ensure [OF this, of "length s"] show ?thesis by (simp only: chain_Cons_fun length_utf8)
qed

text \<open>A length prefix behind which the text or buffer is reserved in advance.\<close>

lemma appends_reserved:
  assumes "puts w x" "puts w' y" "n = length x + length y"
  shows "appends (chain [ensureAvailable n, w, w']) (x @ y)"
proof -
  have "puts (chain [w, w']) (x @ y)"
    using puts_chain_Cons [OF assms(1) puts_single [OF assms(2)]] .
  from appends_ensure [OF this, of n] show ?thesis using assms(3) by (simp only: chain_Cons_fun length_append)
qed

lemma appends_prefixed:
  assumes "appends w x" "appends (chain ws) y"
  shows "appends (chain (w # ws)) (x @ y)"
  using assms by (rule appends_chain_Cons)

definition string_ok :: "nat \<Rightarrow> string option \<Rightarrow> bool" where
  "string_ok bound v \<longleftrightarrow> (case v of None \<Rightarrow> True | Some s \<Rightarrow> length s < bound)"

definition bytes_ok :: "nat \<Rightarrow> buffer option \<Rightarrow> bool" where
  "bytes_ok bound v \<longleftrightarrow> (case v of None \<Rightarrow> True | Some b \<Rightarrow> length b < bound)"

lemma appends_writeString [writer_intros]:
  assumes "string_ok 32768 v"
  shows "appends (writeString v) (wire_string v)"
proof (cases v)
  case None
  then show ?thesis by (simp add: writeString_def wire_string_def appends_writeInt16)
next
  case (Some s)
  then have "puts (writeInt16 (int (length s))) (be_bytes 2 (int (length s)))"
    using assms by (intro puts_writeInt16) (simp add: string_ok_def)
  from appends_reserved [OF this puts_store_text, of "2 + length s"] Some show ?thesis
    by (simp add: writeString_def wire_string_def del: chain.simps)
qed

lemma appends_writeVarIntString [writer_intros]:
  assumes "string_ok 2147483648 v"
  shows "appends (writeVarIntString v) (wire_varint_string v)"
proof (cases v)
  case None
  then show ?thesis by (simp add: writeVarIntString_def wire_varint_string_def appends_writeVarInt)
next
  case (Some s)
  then have "appends (writeVarInt (int (length s))) (wire_varint (int (length s)))"
    using assms by (intro appends_writeVarInt) (simp add: string_ok_def)
  from appends_prefixed [OF this appends_text] Some show ?thesis
    by (simp add: writeVarIntString_def wire_varint_string_def del: chain.simps)
qed

lemma appends_writeUVarIntString [writer_intros]:
  assumes "string_ok 4294967295 v"
  shows "appends (writeUVarIntString v) (wire_uvarint_string v)"
proof (cases v)
  case None
  then show ?thesis using appends_writeUVarInt [of 0] by (simp add: writeUVarIntString_def wire_uvarint_string_def)
next
  case (Some s)
  then have "appends (writeUVarInt (int (length s + 1))) (uleb128 (length s + 1))"
    using assms by (intro appends_writeUVarInt) (simp add: string_ok_def)
  from appends_prefixed [OF this appends_text] Some show ?thesis
    by (simp add: writeUVarIntString_def wire_uvarint_string_def ac_simps del: chain.simps)
qed

lemma appends_writeBytes [writer_intros]:
  assumes "bytes_ok 2147483648 (bytes_of v)"
  shows "appends (writeBytes v) (wire_bytes (bytes_of v))"
proof (cases v)
  case BNull
  then show ?thesis by (simp add: writeBytes_def wire_bytes_def appends_writeInt32)
next
  case (BBuffer b)
  then have "puts (writeInt32 (int (length b))) (be_bytes 4 (int (length b)))"
    using assms by (intro puts_writeInt32) (simp add: bytes_ok_def)
  from appends_reserved [OF this puts_writeBufferInternal [of b]] BBuffer show ?thesis
    by (simp add: writeBytes_def wire_bytes_def del: chain.simps)
next
  case (BString s)
  then have "puts (writeInt32 (int (length s))) (be_bytes 4 (int (length s)))"
    using assms by (intro puts_writeInt32) (simp add: bytes_ok_def)
  from appends_reserved [OF this puts_store_text [of s]] BString show ?thesis
    by (simp add: writeBytes_def wire_bytes_def del: chain.simps)
qed

lemma appends_writeVarIntBytes [writer_intros]:
  assumes "bytes_ok 2147483648 (bytes_of v)"
  shows "appends (writeVarIntBytes v) (wire_varint_bytes (bytes_of v))"
proof -
  have len: "appends (writeVarInt (int n)) (wire_varint (int n))" if "n < 2147483648" for n
    using that by (intro appends_writeVarInt) simp
  show ?thesis
  proof (cases v)
    case BNull
    then show ?thesis by (simp add: writeVarIntBytes_def wire_varint_bytes_def appends_writeVarInt)
  next
    case (BBuffer b)
    with assms appends_prefixed [OF len appends_chain_single [OF appends_writeBufferInternal]]
    show ?thesis by (simp add: writeVarIntBytes_def wire_varint_bytes_def bytes_ok_def del: chain.simps)
  next
    case (BString s)
    with assms appends_prefixed [OF len appends_text] show ?thesis
      by (simp add: writeVarIntBytes_def wire_varint_bytes_def bytes_ok_def del: chain.simps)
  qed
qed

lemma appends_writeUVarIntBytes [writer_intros]:
  assumes "bytes_ok 4294967295 (bytes_of v)"
  shows "appends (writeUVarIntBytes v) (wire_uvarint_bytes (bytes_of v))"
proof -
  have len: "appends (writeUVarInt (int n + 1)) (uleb128 (n + 1))" if "n < 4294967295" for n
    using that appends_writeUVarInt [of "n + 1"] by (simp add: ac_simps)
  have zero: "wire_varint 0 = uleb128 0" by (simp add: wire_varint_def zigzag_def)
  show ?thesis
  proof (cases v)
    case BNull
    then show ?thesis using appends_writeVarInt [of 0]
      by (simp add: writeUVarIntBytes_def wire_uvarint_bytes_def zero)
  next
    case (BBuffer b)
    with assms appends_prefixed [OF len appends_chain_single [OF appends_writeBufferInternal]]
    show ?thesis by (simp add: writeUVarIntBytes_def wire_uvarint_bytes_def bytes_ok_def del: chain.simps)
  next
    case (BString s)
    with assms appends_prefixed [OF len appends_text] show ?thesis
      by (simp add: writeUVarIntBytes_def wire_uvarint_bytes_def bytes_ok_def del: chain.simps)
  qed
qed

subsection \<open>Nested encoders and arrays\<close>

lemma appends_writeEncoder [writer_intros]: "appends (writeEncoder (ElEncoder x)) (Encoder_buffer x)"
  by (simp add: writeEncoder_def appends_writeBufferInternal)

lemma appends_writeEncoderArray [writer_intros]:
  "appends (writeEncoderArray (map ElEncoder xs)) (concat (map Encoder_buffer xs))"
  using appends_chain_concat [of xs "\<lambda>x. writeEncoder (ElEncoder x)" Encoder_buffer]
  by (simp add: writeEncoderArray_def appends_writeEncoder comp_def)

lemma appends_writeBuffer [writer_intros]: "appends (writeBuffer (BBuffer b)) b"
  by (simp add: writeBuffer_def appends_writeBufferInternal)

text \<open>The array format: an element count and the elements one after the other.\<close>

definition wire_array :: "('a \<Rightarrow> buffer) \<Rightarrow> 'a list \<Rightarrow> buffer" where
  "wire_array f xs = be_bytes 4 (int (length xs)) @ concat (map f xs)"

definition wire_varint_array :: "('a \<Rightarrow> buffer) \<Rightarrow> 'a list \<Rightarrow> buffer" where
  "wire_varint_array f xs = wire_varint (int (length xs)) @ concat (map f xs)"

definition wire_uvarint_array :: "('a \<Rightarrow> buffer) \<Rightarrow> 'a list option \<Rightarrow> buffer" where
  "wire_uvarint_array f v =
     (case v of None \<Rightarrow> uleb128 0 | Some xs \<Rightarrow> uleb128 (length xs + 1) @ concat (map f xs))"

lemma chain_prefix2: "appends w x \<Longrightarrow> appends w' y \<Longrightarrow> appends (chain [w, w']) (x @ y)"
  by (rule appends_chain_Cons) (auto intro: appends_chain_single simp del: chain.simps)

lemma appends_writeArray_objects [writer_intros]:
  assumes "length xs < 2147483648"
  shows "appends (writeArray (map ElEncoder xs) (Some ''object'') None) (wire_array Encoder_buffer xs)"
    "appends (writeArray (map ElEncoder xs) None None) (wire_array Encoder_buffer xs)"
proof -
  have n: "appends (writeInt32 (int (length xs))) (be_bytes 4 (int (length xs)))"
    using assms by (intro appends_writeInt32) simp
  show "appends (writeArray (map ElEncoder xs) (Some ''object'') None) (wire_array Encoder_buffer xs)"
    using chain_prefix2 [OF n appends_writeEncoderArray] by (simp add: writeArray_def wire_array_def del: chain.simps)
  have "appends (chain (map (\<lambda>x. write_elem_by_typeof (ElEncoder x)) xs)) (concat (map Encoder_buffer xs))"
    by (rule appends_chain_concat) (simp add: write_elem_by_typeof_def appends_writeEncoder)
  then show "appends (writeArray (map ElEncoder xs) None None) (wire_array Encoder_buffer xs)"
    using chain_prefix2 [OF n] by (simp add: writeArray_def wire_array_def comp_def del: chain.simps)
qed

lemma appends_writeArray_strings [writer_intros]:
  assumes "length xs < 2147483648" "\<And>s. s \<in> set xs \<Longrightarrow> length s < 32768"
  shows "appends (writeArray (map ElString xs) None None) (wire_array (\<lambda>s. wire_string (Some s)) xs)"
proof -
  have n: "appends (writeInt32 (int (length xs))) (be_bytes 4 (int (length xs)))"
    using assms by (intro appends_writeInt32) simp
  have "appends (chain (map (\<lambda>s. write_elem_by_typeof (ElString s)) xs)) (concat (map (\<lambda>s. wire_string (Some s)) xs))"
    using assms(2)
    by (intro appends_chain_concat) (simp add: write_elem_by_typeof_def appends_writeString string_ok_def)
  then show ?thesis
    using chain_prefix2 [OF n] by (simp add: writeArray_def wire_array_def comp_def del: chain.simps)
qed

lemma appends_writeArray_numbers [writer_intros]:
  assumes "length xs < 2147483648" "\<And>v. v \<in> set xs \<Longrightarrow> int_range 32 v"
  shows "appends (writeArray (map ElNumber xs) None None) (wire_array (be_bytes 4) xs)"
proof -
  have n: "appends (writeInt32 (int (length xs))) (be_bytes 4 (int (length xs)))"
    using assms by (intro appends_writeInt32) simp
  have "appends (chain (map (\<lambda>v. write_elem_by_typeof (ElNumber v)) xs)) (concat (map (be_bytes 4) xs))"
    using assms(2)
    by (intro appends_chain_concat) (simp add: write_elem_by_typeof_def appends_writeInt32 del: int_range_numeral)
  then show ?thesis
    using chain_prefix2 [OF n] by (simp add: writeArray_def wire_array_def comp_def del: chain.simps)
qed

lemma filter_objects: "filter (\<lambda>v. js_typeof v = ''object'') (map ElEncoder xs) = map ElEncoder xs"
  by (induction xs) auto

lemma appends_writeVarIntArray [writer_intros]:
  assumes "length xs < 2147483648"
  shows "appends (writeVarIntArray (map ElEncoder xs) type) (wire_varint_array Encoder_buffer xs)"
proof -
  have n: "appends (writeVarInt (int (length xs))) (wire_varint (int (length xs)))"
    using assms by (intro appends_writeVarInt) simp
  show ?thesis
    using chain_prefix2 [OF n appends_writeEncoderArray]
    by (simp add: writeVarIntArray_def wire_varint_array_def filter_objects del: chain.simps)
qed

lemma appends_writeUVarIntArray [writer_intros]:
  assumes "length xs < 4294967295"
  shows "appends (writeUVarIntArray (Some (map ElEncoder xs)) type)
           (wire_uvarint_array Encoder_buffer (Some xs))"
proof -
  have n: "appends (writeUVarInt (int (length xs) + 1)) (uleb128 (length xs + 1))"
    using assms appends_writeUVarInt [of "length xs + 1"] by (simp add: ac_simps)
  show ?thesis
    using chain_prefix2 [OF n appends_writeEncoderArray]
    by (simp add: writeUVarIntArray_def wire_uvarint_array_def filter_objects del: chain.simps)
qed

subsection \<open>The size functions agree with what is written\<close>

lemma sizeOfVarInt_loop_length:
  "ToUint32 v = int n \<Longrightarrow> sizeOfVarInt_loop v (Suc k) = k + length (uleb128 n)"
proof (induction n arbitrary: v k rule: uleb128.induct)
  case (1 n)
  have "int n < 4294967296" using "1.prems" ToUint32_range [of v] by simp
  then have small: "ToUint32 (int (n div 128)) = int (n div 128)" by simp
  have high: "js_ushr v 7 = int (n div 128)" by (simp add: js_ushr_div "1.prems" zdiv_int)
  have "\<not> n < 128 \<Longrightarrow> sizeOfVarInt_loop (int (n div 128)) (Suc (Suc k)) = Suc k + length (uleb128 (n div 128))"
    using small by (intro "1.IH")
  then show ?case
    using "1.prems" high
    by (simp add: sizeOfVarInt_loop.simps [of v] js_and_ffffff80 uleb128.simps [of n])
qed

lemma sizeOfVarInt_length: "int_range 32 v \<Longrightarrow> sizeOfVarInt v = length (wire_varint v)"
  using sizeOfVarInt_loop_length [OF encodeZigZag_zigzag, of v 0]
  by (simp add: sizeOfVarInt_def wire_varint_def)

lemma sizeOfVarLong_loop_length:
  "n < 2 ^ 64 \<Longrightarrow> sizeOfVarLong_loop n (Suc k) = k + length (uleb128 n)"
proof (induction n arbitrary: k rule: uleb128.induct)
  case (1 n)
  have guard: "Long_notEquals (Long_and (int n) 0xffffffffffffff80) (Long_fromInt (Some 0)) \<longleftrightarrow> \<not> n < 128"
    using "1.prems" by (auto simp: Long_and_mask64 Long_notEquals_def Long_equals_def Long_fromInt_def
        asIntN_def minus_mod_eq_mult_div)
  have high: "nat (Long_shiftRightUnsigned (int n) 7) = n div 128"
    by (simp add: Long_shiftRightUnsigned_def bigint_shr_def asUintN_def drop_bit_eq_div nat_div_distrib)
  have "n div 128 < 2 ^ 64" using "1.prems" by (simp add: less_mult_imp_div_less)
  then have "\<not> n < 128 \<Longrightarrow> sizeOfVarLong_loop (n div 128) (Suc (Suc k)) = Suc k + length (uleb128 (n div 128))"
    by (intro "1.IH")
  then show ?case
    by (simp add: sizeOfVarLong_loop.simps [of n] guard high uleb128.simps [of n])
qed

lemma sizeOfVarLong_length: "int_range 64 v \<Longrightarrow> sizeOfVarLong v = length (wire_varint v)"
  using sizeOfVarLong_loop_length [of "zigzag v" 0] zigzag_bound64 [of v] encodeZigZag64_zigzag [of v]
  by (simp add: sizeOfVarLong_def wire_varint_def)

lemma sizeOfVarIntBytes_length:
  "bytes_ok 2147483648 (bytes_of v) \<Longrightarrow> sizeOfVarIntBytes v = length (wire_varint_bytes (bytes_of v))"
  by (cases v) (auto simp: sizeOfVarIntBytes_def wire_varint_bytes_def sizeOfVarInt_length bytes_ok_def)

end
