(* ===== verification/Decoder.thy ===== *)
theory Decoder
  imports Node_Buffer Long
begin

text \<open>
  The class \<^verbatim>\<open>Decoder\<close> of \<^verbatim>\<open>src/protocol/decoder.js\<close>: a buffer and a read
  offset. A reader takes the decoder and returns the value read with the advanced decoder, or the
  exception thrown. The offset is an integer, because a negative length read from the wire moves it
  backwards. Reading an octet out of range yields \<^verbatim>\<open>undefined\<close>, which the bitwise operators
  turn into zero and which compares false; the checked accessors throw instead.
\<close>

unbundle bit_operations_syntax

record decoder =
  dec_buf :: buffer
  dec_offset :: int

type_synonym 'a reader = "decoder \<Rightarrow> ('a \<times> decoder) result"

definition new_Decoder :: "buffer \<Rightarrow> decoder" where
  "new_Decoder b = \<lparr>dec_buf = b, dec_offset = 0\<rparr>"

text \<open>Sequencing of reads on one decoder.\<close>

definition rd_return :: "'a \<Rightarrow> 'a reader" where
  "rd_return v d = Inr (v, d)"

definition rd_bind :: "'a reader \<Rightarrow> ('a \<Rightarrow> 'b reader) \<Rightarrow> 'b reader" where
  "rd_bind m f d = rbind (m d) (\<lambda>(v, d'). f v d')"

primrec rd_times :: "nat \<Rightarrow> 'a reader \<Rightarrow> 'a list reader" where
  "rd_times 0 m = rd_return []"
| "rd_times (Suc n) m = rd_bind m (\<lambda>x. rd_bind (rd_times n m) (\<lambda>xs. rd_return (x # xs)))"

definition rd_throw :: "js_error \<Rightarrow> 'a reader" where
  "rd_throw err d = Inl err"

definition advance :: "int \<Rightarrow> decoder \<Rightarrow> decoder" where \<comment> \<open>\<open>this.offset += n\<close>\<close>
  "advance n d = d\<lparr>dec_offset := dec_offset d + n\<rparr>"

subsection \<open>Static functions\<close>

definition decodeZigZag :: "int \<Rightarrow> int" where
  "decodeZigZag v = js_xor (js_ushr v 1) (- js_and v 1)"

definition decodeZigZag64 :: "long \<Rightarrow> long" where
  "decodeZigZag64 longValue =
     Long_xor (Long_shiftRightUnsigned longValue 1) (Long_negate (Long_and longValue (Long_fromInt (Some 1))))"

subsection \<open>Fixed-width integers\<close>

definition read_fixed :: "nat \<Rightarrow> int reader" where
  "read_fixed n d = rbind (read_int_be n (dec_buf d) (dec_offset d)) (\<lambda>v. Inr (v, advance (int n) d))"

definition readInt8 :: "int reader" where "readInt8 = read_fixed 1"
definition readInt16 :: "int reader" where "readInt16 = read_fixed 2"
definition readInt32 :: "int reader" where "readInt32 = read_fixed 4"

definition canReadBytes :: "int \<Rightarrow> decoder \<Rightarrow> bool" where
  "canReadBytes n d \<longleftrightarrow> int (length (dec_buf d)) - dec_offset d \<ge> n"

definition canReadInt16 :: "decoder \<Rightarrow> bool" where "canReadInt16 = canReadBytes 2"
definition canReadInt32 :: "decoder \<Rightarrow> bool" where "canReadInt32 = canReadBytes 4"
definition canReadInt64 :: "decoder \<Rightarrow> bool" where "canReadInt64 = canReadBytes 8"

text \<open>
  \<^verbatim>\<open>readInt64\<close> adds up single octets. A missing first octet counts as zero (a shift of
  \<^verbatim>\<open>undefined\<close>); a missing one further on makes the sum \<^verbatim>\<open>NaN\<close>, which
  \<^verbatim>\<open>BigInt\<close> rejects with a \<^verbatim>\<open>RangeError\<close>.
\<close>

definition readInt64 :: "long reader" where
  "readInt64 d =
     (let at = (\<lambda>i. byte_at (dec_buf d) (dec_offset d + i));
          first = (case at 0 of None \<Rightarrow> 0 | Some v \<Rightarrow> v)
      in case (at 1, at 2, at 3, at 4, at 5, at 6, at 7) of
           (Some b1, Some b2, Some b3, Some b4, Some b5, Some b6, Some b7) \<Rightarrow>
             (let low = js_shl first 24 + b1 * 2 ^ 16 + b2 * 2 ^ 8 + b3;
                  high = b4 * 2 ^ 24 + b5 * 2 ^ 16 + b6 * 2 ^ 8 + b7
              in Inr (bigint_shl low 32 + high, advance 8 d))
         | _ \<Rightarrow> Inl JsRangeError)"

text \<open>A double is returned as its IEEE 754 bit pattern.\<close>

definition readDouble :: "64 word reader" where
  "readDouble d =
     rbind (read_int_be 8 (dec_buf d) (dec_offset d)) (\<lambda>v. Inr (word_of_int v, advance 8 d))"

definition readBoolean :: "bool reader" where
  "readBoolean = rd_bind readInt8 (\<lambda>v. rd_return (v = 1))"

subsection \<open>Variable-length integers\<close>

lemma byte_at_Some_less: "byte_at b off = Some c \<Longrightarrow> 0 \<le> off \<and> off < int (length b)"
  by (auto simp: byte_at_def split: if_splits)

function readVarInt_loop :: "buffer \<Rightarrow> int \<Rightarrow> int \<Rightarrow> nat \<Rightarrow> int \<times> int" where
  "readVarInt_loop b off acc i =
     (case byte_at b off of
        None \<Rightarrow> (acc + js_shl 0 i, off + 1)
      | Some currentByte \<Rightarrow>
          (let acc' = acc + js_shl (js_and currentByte 0x7f) i
           in if currentByte \<ge> 0x80 then readVarInt_loop b (off + 1) acc' (i + 7)
              else (acc', off + 1)))"
  by pat_completeness auto
termination
  by (relation "measure (\<lambda>(b, off, _). nat (int (length b) - off))") (auto dest: byte_at_Some_less)

definition readVarInt :: "int reader" where
  "readVarInt d =
     (case readVarInt_loop (dec_buf d) (dec_offset d) 0 0 of
        (acc, off) \<Rightarrow> Inr (decodeZigZag acc, d\<lparr>dec_offset := off\<rparr>))"

function readUVarInt_loop :: "buffer \<Rightarrow> int \<Rightarrow> int \<Rightarrow> nat \<Rightarrow> (int \<times> int) result" where
  "readUVarInt_loop b off acc i =
     (case byte_at b off of
        None \<Rightarrow> Inr (js_ushr (js_or acc (js_shl 0 i)) 0, off + 1)
      | Some currentByte \<Rightarrow>
          (if js_and currentByte 0x80 \<noteq> 0
           then let acc' = js_or acc (js_shl (js_and currentByte 0x7f) i); i' = i + 7
                in if i' > 28 then Inl KafkaJSInvalidVarIntError
                   else readUVarInt_loop b (off + 1) acc' i'
           else Inr (js_ushr (js_or acc (js_shl currentByte i)) 0, off + 1)))"
  by pat_completeness auto
termination
  by (relation "measure (\<lambda>(b, off, _). nat (int (length b) - off))") (auto dest: byte_at_Some_less)

definition readUVarInt :: "int reader" where
  "readUVarInt d =
     rbind (readUVarInt_loop (dec_buf d) (dec_offset d) 0 0)
       (\<lambda>(v, off). Inr (v, d\<lparr>dec_offset := off\<rparr>))"

function readVarLong_loop :: "buffer \<Rightarrow> int \<Rightarrow> long \<Rightarrow> nat \<Rightarrow> (long \<times> int) result" where
  "readVarLong_loop b off acc i =
     (if i > 63 then Inl KafkaJSInvalidLongError
      else case byte_at b off of
             None \<Rightarrow> Inr (Long_add acc (Long_shiftLeft (Long_fromInt (Some 0)) (int i)), off + 1)
           | Some currentByte \<Rightarrow>
               (let acc' = Long_add acc
                      (Long_shiftLeft (Long_fromInt (Some (js_and currentByte 0x7f))) (int i))
                in if currentByte \<ge> 0x80 then readVarLong_loop b (off + 1) acc' (i + 7)
                   else Inr (acc', off + 1)))"
  by pat_completeness auto
termination
  by (relation "measure (\<lambda>(b, off, _). nat (int (length b) - off))") (auto dest: byte_at_Some_less)

definition readVarLong :: "long reader" where
  "readVarLong d =
     rbind (readVarLong_loop (dec_buf d) (dec_offset d) (Long_fromInt (Some 0)) 0)
       (\<lambda>(v, off). Inr (decodeZigZag64 v, d\<lparr>dec_offset := off\<rparr>))"

declare readVarInt_loop.simps [simp del] readUVarInt_loop.simps [simp del] readVarLong_loop.simps [simp del]

subsection \<open>Strings and bytes\<close>

definition take_slice :: "int \<Rightarrow> buffer reader" where
  "take_slice n d = Inr (buf_slice (dec_buf d) (dec_offset d) (dec_offset d + n), advance n d)"

definition readString :: "string option reader" where
  "readString = rd_bind readInt16 (\<lambda>n.
     if n = - 1 then rd_return None
     else rd_bind (take_slice n) (\<lambda>b. rd_return (Some (from_utf8 b))))"

definition readVarIntString :: "string option reader" where
  "readVarIntString = rd_bind readVarInt (\<lambda>n.
     if n = - 1 then rd_return None
     else rd_bind (take_slice n) (\<lambda>b. rd_return (Some (from_utf8 b))))"

definition readUVarIntString :: "string option reader" where
  "readUVarIntString = rd_bind readUVarInt (\<lambda>n.
     if n = 0 then rd_return None
     else rd_bind (take_slice (n - 1)) (\<lambda>b. rd_return (Some (from_utf8 b))))"

definition readBytesOfLength :: "int \<Rightarrow> buffer option reader" where \<comment> \<open>\<open>readBytes(byteLength)\<close>\<close>
  "readBytesOfLength n =
     (if n = - 1 then rd_return None else rd_bind (take_slice n) (\<lambda>b. rd_return (Some b)))"

definition readBytes :: "buffer option reader" where \<comment> \<open>\<open>readBytes()\<close>\<close>
  "readBytes = rd_bind readInt32 readBytesOfLength"

definition readVarIntBytes :: "buffer option reader" where
  "readVarIntBytes = rd_bind readVarInt (\<lambda>n.
     if n = - 1 then rd_return None else rd_bind (take_slice n) (\<lambda>b. rd_return (Some b)))"

text \<open>The slice of \<^verbatim>\<open>readUVarIntBytes\<close> is one octet longer than the offset advances.\<close>

definition readUVarIntBytes :: "buffer option reader" where
  "readUVarIntBytes = rd_bind readUVarInt (\<lambda>n d.
     if n = 0 then Inr (None, d)
     else Inr (Some (buf_slice (dec_buf d) (dec_offset d) (dec_offset d + n)), advance (n - 1) d))"

definition readAll :: "buffer reader" where
  "readAll d = Inr (buf_slice (dec_buf d) (dec_offset d) (int (length (dec_buf d))),
                    advance (int (length (dec_buf d))) d)"

subsection \<open>Arrays, tagged fields, UUIDs\<close>

definition new_Array :: "int \<Rightarrow> nat result" where \<comment> \<open>\<open>new Array(n)\<close> throws for a bad length\<close>
  "new_Array n = (if n < 0 \<or> n \<ge> 2 ^ 32 then Inl JsRangeError else Inr (nat n))"

definition read_elems :: "'a reader \<Rightarrow> int \<Rightarrow> 'a list reader" where
  "read_elems m n d = rbind (new_Array n) (\<lambda>k. rd_times k m d)"

definition readArray :: "'a reader \<Rightarrow> 'a list reader" where
  "readArray m = rd_bind readInt32 (\<lambda>n. if n = - 1 then rd_return [] else read_elems m n)"

definition readVarIntArray :: "'a reader \<Rightarrow> 'a list reader" where
  "readVarIntArray m = rd_bind readVarInt (\<lambda>n. if n = - 1 then rd_return [] else read_elems m n)"

definition readUVarIntArray :: "'a reader \<Rightarrow> 'a list option reader" where
  "readUVarIntArray m = rd_bind readUVarInt (\<lambda>n.
     if n = 0 then rd_return None
     else rd_bind (read_elems m (n - 1)) (\<lambda>xs. rd_return (Some xs)))"

definition readArrayAsync :: "'a reader \<Rightarrow> 'a list reader" where
  "readArrayAsync m = rd_bind readInt32 (\<lambda>n. if n = - 1 then rd_return [] else read_elems m n)"

text \<open>The result is \<^verbatim>\<open>null\<close> or an empty object; the fields themselves are skipped.\<close>

definition readTaggedFields :: "unit option reader" where
  "readTaggedFields = rd_bind readUVarInt (\<lambda>n.
     if n = 0 then rd_return None
     else rd_bind (rd_times (nat n) (rd_bind readUVarInt (\<lambda>_. readUVarIntBytes)))
            (\<lambda>_. rd_return (Some ())))"

definition str_slice :: "string \<Rightarrow> nat \<Rightarrow> nat \<Rightarrow> string" where
  "str_slice s i j = take (j - i) (drop i s)"

definition readUUID :: "string option reader" where
  "readUUID = rd_bind (take_slice 16) (\<lambda>b.
     let hex = to_hex b
     in if hex = replicate 32 CHR ''0'' then rd_return None
        else rd_return (Some (str_slice hex 0 8 @ ''-'' @ str_slice hex 8 12 @ ''-'' @
               str_slice hex 12 16 @ ''-'' @ str_slice hex 16 20 @ ''-'' @ drop 20 hex)))"

definition Decoder_slice :: "int \<Rightarrow> decoder \<Rightarrow> decoder" where
  "Decoder_slice n d = new_Decoder (buf_slice (dec_buf d) (dec_offset d) (dec_offset d + n))"

definition Decoder_forward :: "int \<Rightarrow> decoder \<Rightarrow> decoder" where
  "Decoder_forward n d = advance n d"

end
