(* ===== verification/Wire_Codec.thy ===== *)
theory Wire_Codec
  imports Wire_Format Decoder
begin

text \<open>
  The reader contract \<open>reads\<close> (from the start of the given octets, with anything before and
  after them, a reader returns the given value and advances exactly over the octets), its proof for
  the readers of \<^verbatim>\<open>src/protocol/decoder.js\<close>, and the interface \<open>wire_codec\<close> that pairs a
  writer with a reader of the same wire format. What follows from the pair (a round trip through
  one buffer, and the same for arrays of elements) is proved once in the locale; the
  interpretations discharge its laws for each primitive type.
\<close>

unbundle bit_operations_syntax

definition dec_at :: "buffer \<Rightarrow> buffer \<Rightarrow> decoder" where \<comment> \<open>between two parts of a buffer\<close>
  "dec_at pre post = \<lparr>dec_buf = pre @ post, dec_offset = int (length pre)\<rparr>"

definition reads :: "'a reader \<Rightarrow> buffer \<Rightarrow> 'a \<Rightarrow> bool" where
  "reads rd bs v \<longleftrightarrow> (\<forall>pre post. rd (dec_at pre (bs @ post)) = Inr (v, dec_at (pre @ bs) post))"

lemma new_Decoder_dec_at: "new_Decoder b = dec_at [] b"
  by (simp add: new_Decoder_def dec_at_def)

lemma readsD: "reads rd bs v \<Longrightarrow> rd (dec_at pre (bs @ post)) = Inr (v, dec_at (pre @ bs) post)"
  by (simp add: reads_def)

lemma reads_whole: "reads rd bs v \<Longrightarrow> rd (new_Decoder bs) = Inr (v, dec_at bs [])"
  using readsD [of rd bs v "[]" "[]"] by (simp add: new_Decoder_dec_at)

lemma reads_return [reader_intros]: "reads (rd_return v) [] v"
  by (simp add: reads_def rd_return_def)

lemma reads_bind [reader_intros]:
  assumes "reads m x v" "reads (f v) y w"
  shows "reads (rd_bind m f) (x @ y) w"
  using assms by (simp add: reads_def rd_bind_def)

lemma reads_bind_return:
  assumes "reads m x v" "w = f v"
  shows "reads (rd_bind m (\<lambda>v. rd_return (f v))) x w"
  using reads_bind [of m x v "\<lambda>v. rd_return (f v)" "[]" w] assms reads_return [of w] by simp

lemma reads_times:
  assumes "list_all2 (reads m) bss vs"
  shows "reads (rd_times (length vs) m) (concat bss) vs"
  using assms
proof (induction bss vs rule: list_all2_induct)
  case Nil
  then show ?case by (simp add: reads_return)
next
  case (Cons b bss v vs)
  have "reads (rd_bind (rd_times (length vs) m) (\<lambda>xs. rd_return (v # xs))) (concat bss) (v # vs)"
    using Cons.IH by (rule reads_bind_return) simp
  with Cons.hyps(1) show ?case
    using reads_bind [of m b v "\<lambda>x. rd_bind (rd_times (length vs) m) (\<lambda>xs. rd_return (x # xs))"] by simp
qed

lemma reads_times_map:
  assumes "\<And>x. x \<in> set xs \<Longrightarrow> reads m (f x) (g x)"
  shows "reads (rd_times (length xs) m) (concat (map f xs)) (map g xs)"
  using reads_times [of m "map f xs" "map g xs"] assms
  by (simp add: list_all2_conv_all_nth)

lemma advance_dec_at: "length bs = n \<Longrightarrow> advance (int n) (dec_at pre (bs @ post)) = dec_at (pre @ bs) post"
  by (auto simp: advance_def dec_at_def)

lemma reads_take_slice:
  assumes "n = int (length bs)"
  shows "reads (take_slice n) bs bs"
  unfolding reads_def
proof (intro allI)
  fix pre post
  have "buf_slice (pre @ bs @ post) (int (length pre)) (int (length pre) + n) = bs"
    using assms by (simp add: buf_slice_within)
  then show "take_slice n (dec_at pre (bs @ post)) = Inr (bs, dec_at (pre @ bs) post)"
    using assms by (simp add: take_slice_def advance_dec_at) (simp add: dec_at_def)
qed

subsection \<open>Integers\<close>

lemma reads_fixed: "int_range (8 * n) v \<Longrightarrow> 0 < n \<Longrightarrow> reads (read_fixed n) (be_bytes n v) v"
  by (simp add: reads_def read_fixed_def advance_dec_at) (simp add: dec_at_def read_be_bytes)

lemma reads_readInt8 [reader_intros]: "int_range 8 v \<Longrightarrow> reads readInt8 (be_bytes 1 v) v"
  using reads_fixed [of 1 v] by (simp add: readInt8_def)

lemma reads_readInt16 [reader_intros]: "int_range 16 v \<Longrightarrow> reads readInt16 (be_bytes 2 v) v"
  using reads_fixed [of 2 v] by (simp add: readInt16_def)

lemma reads_readInt32 [reader_intros]: "int_range 32 v \<Longrightarrow> reads readInt32 (be_bytes 4 v) v"
  using reads_fixed [of 4 v] by (simp add: readInt32_def)

lemma byte_at_nth:
  "i < length bs \<Longrightarrow> byte_at (pre @ bs @ post) (int (length pre) + int i) = Some (uint (bs ! i))"
  by (simp add: byte_at_def nth_append nat_add_distrib)

lemma uint_byte_range: "0 \<le> uint (w :: byte)" "uint (w :: byte) < 256"
  using uint_lt2p [of w] by simp_all

text \<open>The sum of octets that \<^verbatim>\<open>readInt64\<close> forms is the signed value of the upper half.\<close>

lemma readInt64_upper:
  fixes b0 b1 b2 b3 :: int
  assumes "0 \<le> b0" "b0 < 256" "0 \<le> b1" "b1 < 256" "0 \<le> b2" "b2 < 256" "0 \<le> b3" "b3 < 256"
  defines "u \<equiv> b0 * 16777216 + b1 * 65536 + b2 * 256 + b3"
  shows "js_shl b0 24 + b1 * 2 ^ 16 + b2 * 2 ^ 8 + b3 = ToInt32 u"
proof -
  have u: "0 \<le> u" "u < 4294967296" using assms by simp_all
  have top: "0 \<le> b0 * 16777216" "b0 * 16777216 < 4294967296" using assms by simp_all
  have "js_shl b0 24 = ToInt32 (b0 * 16777216)" by (simp add: js_shl_mult)
  moreover have "ToInt32 (b0 * 16777216) = (if b0 < 128 then b0 * 16777216 else b0 * 16777216 - 4294967296)"
    using top by (simp add: ToInt32_cases)
  moreover have "ToInt32 u = (if u < 2147483648 then u else u - 4294967296)"
    using u by (simp add: ToInt32_cases)
  moreover have "u < 2147483648 \<longleftrightarrow> b0 < 128" using assms unfolding u_def by linarith
  ultimately show ?thesis by (simp add: u_def)
qed

lemma be_uint_4: "be_uint [a, b, c, d] = uint a * 16777216 + uint b * 65536 + uint c * 256 + uint d"
  by simp

lemma be_bytes_4_cases:
  obtains a b c d where "be_bytes 4 v = [a, b, c, d]"
  by (simp add: numeral_eq_Suc)

lemma readInt64_octets:
  "readInt64 (dec_at pre ([b0, b1, b2, b3, b4, b5, b6, b7] @ post)) =
     Inr (ToInt32 (be_uint [b0, b1, b2, b3]) * 4294967296 + be_uint [b4, b5, b6, b7],
          dec_at (pre @ [b0, b1, b2, b3, b4, b5, b6, b7]) post)"
proof -
  let ?bs = "[b0, b1, b2, b3, b4, b5, b6, b7]"
  let ?d = "dec_at pre (?bs @ post)"
  have at: "byte_at (dec_buf ?d) (dec_offset ?d + int i) = Some (uint (?bs ! i))" if "i < 8" for i
    using that byte_at_nth [of i ?bs pre post] by (simp add: dec_at_def)
  have upper: "js_shl (uint b0) 24 + uint b1 * 2 ^ 16 + uint b2 * 2 ^ 8 + uint b3 = ToInt32 (be_uint [b0, b1, b2, b3])"
    unfolding be_uint_4
    by (rule readInt64_upper [OF uint_byte_range uint_byte_range uint_byte_range uint_byte_range])
  have lower: "uint b4 * 2 ^ 24 + uint b5 * 2 ^ 16 + uint b6 * 2 ^ 8 + uint b7 = be_uint [b4, b5, b6, b7]"
    by (simp add: be_uint_4)
  have "readInt64 ?d = Inr (bigint_shl (ToInt32 (be_uint [b0, b1, b2, b3])) 32 + be_uint [b4, b5, b6, b7], advance 8 ?d)"
    using at [of 0] at [of 1] at [of 2] at [of 3] at [of 4] at [of 5] at [of 6] at [of 7] upper lower
    by (simp add: readInt64_def Let_def del: be_uint_Cons)
  then show ?thesis
    using advance_dec_at [of ?bs 8 pre post] by (simp add: bigint_shl_def push_bit_eq_mult)
qed

lemma reads_readInt64 [reader_intros]:
  assumes "int_range 64 v"
  shows "reads readInt64 (be_bytes 8 v) v"
proof -
  let ?hi = "v div 4294967296"
  obtain b0 b1 b2 b3 where hi: "be_bytes 4 ?hi = [b0, b1, b2, b3]" by (rule be_bytes_4_cases)
  obtain b4 b5 b6 b7 where lo: "be_bytes 4 v = [b4, b5, b6, b7]" by (rule be_bytes_4_cases)
  have "be_uint [b0, b1, b2, b3] = ToUint32 ?hi" using be_uint_be_bytes [of 4 ?hi] by (simp add: hi ToUint32_mod)
  moreover have "ToInt32 ?hi = ?hi"
    using Long_halves(1) [OF assms]
    by (simp add: Long_getHighBits_def asIntN_def bigint_shr_def drop_bit_eq_div ToInt32_def)
  moreover have "be_uint [b4, b5, b6, b7] = v mod 4294967296" using be_uint_be_bytes [of 4 v] by (simp add: lo)
  ultimately have "ToInt32 (be_uint [b0, b1, b2, b3]) * 4294967296 + be_uint [b4, b5, b6, b7] = v"
    by (simp del: be_uint_Cons)
  then show ?thesis
    using readInt64_octets by (simp add: reads_def be_bytes_8 hi lo del: be_uint_Cons)
qed

lemma reads_readDouble [reader_intros]: "reads readDouble (be_bytes 8 (uint bits)) bits"
proof -
  have "read_int_be 8 (pre @ be_bytes 8 (uint bits) @ post) (int (length pre)) = Inr (asIntN 64 (uint bits))" for pre post
    using uint_lt2p [of bits] by (simp add: read_int_be_def)
  moreover have "word_of_int (asIntN 64 (uint bits)) = bits"
    using uint_lt2p [of bits]
    by (intro word_uint_eqI) (simp add: asIntN_def uint_word_of_int_eq take_bit_signed_take_bit take_bit_int_eq_self)
  ultimately show ?thesis
    by (simp add: reads_def readDouble_def advance_dec_at [of _ 8, simplified]) (simp add: dec_at_def)
qed

lemma reads_readBoolean [reader_intros]: "reads readBoolean (be_bytes 1 (if b then 1 else 0)) b"
  unfolding readBoolean_def by (rule reads_bind_return [OF reads_readInt8]) auto

subsection \<open>Variable-length integers\<close>

text \<open>The first octet of an unsigned LEB128 number and what follows it.\<close>

lemma uleb128_head:
  "n < 128 \<Longrightarrow> uleb128 n = [of_nat n]"
  "\<not> n < 128 \<Longrightarrow> uleb128 n = of_nat (n mod 128 + 128) # uleb128 (n div 128)"
  by (subst uleb128.simps, simp)+

lemma uint_of_nat_byte: "n < 256 \<Longrightarrow> uint (of_nat n :: byte) = int n"
  by (simp add: uint_nat unat_of_nat take_bit_nat_eq_self)

lemma uleb128_step_bound:
  fixes n i :: nat
  assumes "n * 2 ^ i < 2 ^ w" "\<not> n < 128"
  shows "n div 128 * 2 ^ (i + 7) < 2 ^ w" "i + 7 < w"
proof -
  have "n div 128 * 128 \<le> n" by simp
  then have "n div 128 * 2 ^ (i + 7) \<le> n * 2 ^ i" by (simp add: power_add)
  then show "n div 128 * 2 ^ (i + 7) < 2 ^ w" using assms(1) by (rule le_less_trans)
  have "2 ^ (i + 7) \<le> n * 2 ^ i" using assms(2) by (simp add: power_add)
  then have "(2 :: nat) ^ (i + 7) < 2 ^ w" using assms(1) by (rule le_less_trans)
  then show "i + 7 < w" by simp
qed

lemma cont_byte:
  fixes n :: nat
  defines "c \<equiv> int (n mod 128 + 128)"
  shows "uint (of_nat (n mod 128 + 128) :: byte) = c" "js_and c 127 = int (n mod 128)"
    "js_and c 128 \<noteq> 0" "128 \<le> c"
proof -
  have b: "n mod 128 + 128 < 256" using mod_less_divisor [of 128 n] by simp
  then show "uint (of_nat (n mod 128 + 128) :: byte) = c" unfolding c_def by (rule uint_of_nat_byte)
  show "js_and c 127 = int (n mod 128)" using b by (simp add: js_and_127 c_def ToUint32_mod zmod_int)
  show "js_and c 128 \<noteq> 0" using b by (simp add: js_and_128_eq_0 c_def ToUint32_mod)
  show "128 \<le> c" by (simp add: c_def)
qed

lemma byte_at_mid: "byte_at (pre @ b # post) (int (length pre)) = Some (uint b)"
  by (simp add: byte_at_def)

lemma split_value: "n mod 128 * 2 ^ i + n div 128 * 2 ^ (i + 7) = n * 2 ^ i" for n i :: nat
proof -
  have "n mod 128 * 2 ^ i + n div 128 * 2 ^ (i + 7) = (n mod 128 + n div 128 * 128) * 2 ^ i"
    by (simp only: power_add) (simp only: distrib_right mult.assoc, simp)
  then show ?thesis by (simp only: mod_div_mult_eq)
qed

lemma ToUint32_add_cong: "ToUint32 x = ToUint32 x' \<Longrightarrow> ToUint32 (x + y) = ToUint32 (x' + y)"
  by (metis ToUint32_add_ToUint32)

lemma ToUint32_js_shl:
  "i < 32 \<Longrightarrow> ToUint32 (acc + js_shl (int a) i) = ToUint32 (acc + int (a * 2 ^ i))"
  using ToUint32_add_cong [of "js_shl (int a) i" "int (a * 2 ^ i)" acc]
  by (simp add: js_shl_mult add.commute)

lemma readVarInt_loop_uleb128:
  assumes "n * 2 ^ i < 2 ^ 32" "i < 32"
  shows "\<exists>acc'. readVarInt_loop (pre @ uleb128 n @ post) (int (length pre)) acc i =
      (acc', int (length pre + length (uleb128 n))) \<and> ToUint32 acc' = ToUint32 (acc + int (n * 2 ^ i))"
  using assms
proof (induction n arbitrary: pre acc i rule: uleb128.induct)
  case (1 n)
  show ?case
  proof (cases "n < 128")
    case True
    have "js_and (int n) 127 = int n" using True by (simp add: js_and_127)
    moreover have "ToUint32 (acc + js_shl (int n) i) = ToUint32 (acc + int (n * 2 ^ i))"
      using "1.prems"(2) by (rule ToUint32_js_shl)
    ultimately show ?thesis
      using True by (simp add: uleb128_head readVarInt_loop.simps [of _ "int (length pre)"] byte_at_mid uint_of_nat_byte)
  next
    case False
    let ?c = "of_nat (n mod 128 + 128) :: byte"
    let ?acc = "acc + js_shl (int (n mod 128)) i"
    have "\<exists>acc'. readVarInt_loop ((pre @ [?c]) @ uleb128 (n div 128) @ post) (int (length (pre @ [?c]))) ?acc (i + 7) =
        (acc', int (length (pre @ [?c]) + length (uleb128 (n div 128))))
        \<and> ToUint32 acc' = ToUint32 (?acc + int (n div 128 * 2 ^ (i + 7)))"
      using "1.IH" [OF False] uleb128_step_bound [OF "1.prems"(1) False] by blast
    moreover have "ToUint32 (?acc + int (n div 128 * 2 ^ (i + 7))) = ToUint32 (acc + int (n * 2 ^ i))"
    proof -
      have "ToUint32 (?acc + int (n div 128 * 2 ^ (i + 7)))
          = ToUint32 ((acc + int (n div 128 * 2 ^ (i + 7))) + js_shl (int (n mod 128)) i)"
        by (simp only: ac_simps)
      also have "\<dots> = ToUint32 ((acc + int (n div 128 * 2 ^ (i + 7))) + int (n mod 128 * 2 ^ i))"
        using "1.prems"(2) by (rule ToUint32_js_shl)
      also have "\<dots> = ToUint32 (acc + int (n * 2 ^ i))"
        using split_value [of n i] by (simp only: add.assoc of_nat_add [symmetric]) (simp only: add.commute)
      finally show ?thesis .
    qed
    ultimately show ?thesis
      using False cont_byte [of n]
      by (simp add: uleb128_head readVarInt_loop.simps [of _ "int (length pre)"] byte_at_mid Let_def ac_simps)
  qed
qed

lemma decodeZigZag_zigzag:
  assumes "ToUint32 u = int (zigzag v)" "int_range 32 v"
  shows "decodeZigZag u = v"
proof -
  have half: "js_ushr u 1 = int (zigzag v) div 2" by (simp add: js_ushr_div assms(1))
  have low: "js_and u 1 = int (zigzag v) mod 2" using js_and_mask [of 1 u] by (simp add: assms(1))
  have zz: "int (zigzag v) = (if v \<ge> 0 then 2 * v else 2 * (- v - 1) + 1)" by (simp add: zigzag_def)
  show ?thesis
  proof (cases "0 \<le> v")
    case True
    then have "js_ushr u 1 = v" "js_and u 1 = 0" using half low zz by simp_all
    then show ?thesis using assms(2) by (simp add: decodeZigZag_def js_xor_def)
  next
    case False
    then have "int (zigzag v) = 2 * (- v - 1) + 1" using zz by simp
    then have "int (zigzag v) div 2 = - v - 1" "int (zigzag v) mod 2 = 1" by presburger+
    then have "js_ushr u 1 = - v - 1" "js_and u 1 = 1" using half low by simp_all
    then show ?thesis using assms(2) False by (simp add: decodeZigZag_def js_xor_def not_int_def)
  qed
qed

lemma reads_readVarInt [reader_intros]:
  assumes "int_range 32 v"
  shows "reads readVarInt (wire_varint v) v"
  unfolding reads_def
proof (intro allI)
  fix pre post
  obtain acc where loop: "readVarInt_loop (pre @ uleb128 (zigzag v) @ post) (int (length pre)) 0 0 =
      (acc, int (length pre + length (uleb128 (zigzag v))))" and acc: "ToUint32 acc = ToUint32 (int (zigzag v))"
    using readVarInt_loop_uleb128 [of "zigzag v" 0 pre post 0] zigzag_bound [OF assms] by auto
  have "ToUint32 acc = int (zigzag v)" using acc zigzag_bound [OF assms] by simp
  then have "decodeZigZag acc = v" using assms by (rule decodeZigZag_zigzag)
  then show "readVarInt (dec_at pre (wire_varint v @ post)) = Inr (v, dec_at (pre @ wire_varint v) post)"
    using loop by (simp add: readVarInt_def dec_at_def wire_varint_def)
qed

text \<open>
  The unsigned reader combines the groups with \<^verbatim>\<open>|\<close>; it allows shifts up to 28, the last group
  of a 32-bit number.
\<close>

lemma uvarint_room:
  fixes a n :: nat
  assumes "a < 2 ^ i" "n * 2 ^ i < 2 ^ w" "i \<le> w"
  shows "a + n * 2 ^ i < 2 ^ w"
proof -
  have p: "(2 :: nat) ^ w = 2 ^ (w - i) * 2 ^ i" using assms(3) by (simp flip: power_add)
  then have "n < 2 ^ (w - i)" using assms(2) by simp
  then have "(n + 1) * 2 ^ i \<le> 2 ^ (w - i) * 2 ^ i" by (intro mult_right_mono) auto
  then show ?thesis using assms(1) p by simp
qed

lemma js_or_group:
  "a < 2 ^ i \<Longrightarrow> i < 32 \<Longrightarrow> js_or (ToInt32 (int a)) (js_shl (int b) i) = ToInt32 (int (a + b * 2 ^ i))"
  using js_or_accumulate [of "int a" i "int b"] by simp

lemma group_bound: "a < 2 ^ i \<Longrightarrow> a + n mod 128 * 2 ^ i < 2 ^ (i + 7)" for a n i :: nat
  using uvarint_room [of a i "n mod 128" "i + 7"] by (simp add: power_add)

lemma last_byte: "n < 128 \<Longrightarrow> js_and (int n) 128 = 0"
  by (simp add: js_and_128_eq_0 ToUint32_mod)

lemma js_ushr_0: "n < 2 ^ 32 \<Longrightarrow> js_ushr (ToInt32 (int n)) 0 = int n"
  by (simp add: js_ushr_div)

lemma readUVarInt_loop_uleb128:
  assumes "n * 2 ^ (7 * k) < 2 ^ 32" "a < 2 ^ (7 * k)" "7 * k \<le> 28"
  shows "readUVarInt_loop (pre @ uleb128 n @ post) (int (length pre)) (ToInt32 (int a)) (7 * k) =
      Inr (int (a + n * 2 ^ (7 * k)), int (length pre + length (uleb128 n)))"
  using assms
proof (induction n arbitrary: pre a k rule: uleb128.induct)
  case (1 n)
  show ?case
  proof (cases "n < 128")
    case True
    have "a + n * 2 ^ (7 * k) < 2 ^ 32" using "1.prems" by (intro uvarint_room) auto
    then have "js_ushr (ToInt32 (int (a + n * 2 ^ (7 * k)))) 0 = int (a + n * 2 ^ (7 * k))"
      by (rule js_ushr_0)
    moreover have "js_or (ToInt32 (int a)) (js_shl (int n) (7 * k)) = ToInt32 (int (a + n * 2 ^ (7 * k)))"
      using "1.prems"(2,3) by (intro js_or_group) auto
    ultimately have "js_ushr (js_or (ToInt32 (int a)) (js_shl (int n) (7 * k))) 0 = int (a + n * 2 ^ (7 * k))"
      by (simp only:)
    then show ?thesis using True
      by (simp add: uleb128_head readUVarInt_loop.simps [of _ "int (length pre)"] uint_of_nat_byte last_byte)
  next
    case False
    let ?c = "of_nat (n mod 128 + 128) :: byte"
    let ?a = "a + n mod 128 * 2 ^ (7 * k)"
    note bound = uleb128_step_bound [OF "1.prems"(1) False]
    have k: "7 * k + 7 = 7 * (k + 1)" "7 * (k + 1) \<le> 28" using bound(2) by auto
    have "readUVarInt_loop ((pre @ [?c]) @ uleb128 (n div 128) @ post) (int (length (pre @ [?c])))
        (ToInt32 (int ?a)) (7 * (k + 1)) =
        Inr (int (?a + n div 128 * 2 ^ (7 * (k + 1))), int (length (pre @ [?c]) + length (uleb128 (n div 128))))"
    proof (rule "1.IH" [OF False])
      show "n div 128 * 2 ^ (7 * (k + 1)) < 2 ^ 32" using bound(1) by (simp only: k(1))
      show "?a < 2 ^ (7 * (k + 1))" using group_bound [OF "1.prems"(2), of n] by (simp only: k(1))
    qed (rule k(2))
    moreover have "?a + n div 128 * 2 ^ (7 * (k + 1)) = a + n * 2 ^ (7 * k)"
      using split_value [of n "7 * k"] by (simp only: k(1) [symmetric] add.assoc)
    moreover have "js_or (ToInt32 (int a)) (js_shl (int (n mod 128)) (7 * k)) = ToInt32 (int ?a)"
      using "1.prems" by (intro js_or_group) auto
    ultimately show ?thesis
      unfolding uleb128_head(2) [OF False]
      using cont_byte [of n] k
      by (simp add: readUVarInt_loop.simps [of _ "int (length pre)"] Let_def add.commute
          del: of_nat_add of_nat_mult power_add power_mult)
  qed
qed

lemma reads_readUVarInt [reader_intros]:
  assumes "n < 4294967296"
  shows "reads readUVarInt (uleb128 n) (int n)"
  using readUVarInt_loop_uleb128 [of n 0 0] assms
  by (simp add: reads_def readUVarInt_def dec_at_def)

lemma Long_group:
  "b < 128 \<Longrightarrow> Long_add (int a) (Long_shiftLeft (Long_fromInt (Some (int b))) (int i)) = int (a + b * 2 ^ i)"
  by (simp add: Long_add_def Long_shiftLeft_def Long_fromInt_def asIntN_def bigint_shl_def push_bit_eq_mult
      signed_take_bit_int_eq_self)

lemma readVarLong_loop_uleb128:
  assumes "n * 2 ^ i < 2 ^ 64" "i < 64"
  shows "readVarLong_loop (pre @ uleb128 n @ post) (int (length pre)) (int a) i =
      Inr (int (a + n * 2 ^ i), int (length pre + length (uleb128 n)))"
  using assms
proof (induction n arbitrary: pre a i rule: uleb128.induct)
  case (1 n)
  show ?case
  proof (cases "n < 128")
    case True
    have "js_and (int n) 127 = int n" using True by (simp add: js_and_127)
    then show ?thesis
      using True Long_group [of n a i] "1.prems"(2)
      by (simp add: uleb128_head readVarLong_loop.simps [of _ "int (length pre)"] uint_of_nat_byte)
  next
    case False
    let ?c = "of_nat (n mod 128 + 128) :: byte"
    let ?a = "a + n mod 128 * 2 ^ i"
    note bound = uleb128_step_bound [OF "1.prems"(1) False]
    have "readVarLong_loop ((pre @ [?c]) @ uleb128 (n div 128) @ post) (int (length (pre @ [?c]))) (int ?a) (i + 7) =
        Inr (int (?a + n div 128 * 2 ^ (i + 7)), int (length (pre @ [?c]) + length (uleb128 (n div 128))))"
      using bound by (rule "1.IH" [OF False])
    moreover have "?a + n div 128 * 2 ^ (i + 7) = a + n * 2 ^ i"
      using split_value [of n i] by (simp only: add.assoc)
    ultimately show ?thesis
      unfolding uleb128_head(2) [OF False]
      using cont_byte [of n] "1.prems"(2) Long_group [of "n mod 128" a i]
      by (simp add: readVarLong_loop.simps [of _ "int (length pre)"] Let_def add.commute
          del: of_nat_add of_nat_mult power_add)
  qed
qed

lemma decodeZigZag64_zigzag: "decodeZigZag64 (int (zigzag v)) = v"
proof -
  let ?z = "int (zigzag v)"
  have half: "Long_shiftRightUnsigned ?z 1 = ?z div 2"
    by (simp add: Long_shiftRightUnsigned_def bigint_shr_def asUintN_def drop_bit_Suc)
  have "Long_fromInt (Some 1) = 1" by (simp add: Long_fromInt_def asIntN_def)
  then have low: "Long_and ?z (Long_fromInt (Some 1)) = ?z mod 2" by (simp add: Long_and_def and_one_eq)
  have zz: "?z = (if v \<ge> 0 then 2 * v else 2 * (- v - 1) + 1)" by (simp add: zigzag_def)
  show ?thesis
  proof (cases "0 \<le> v")
    case True
    then have "?z div 2 = v" "?z mod 2 = 0" using zz by simp_all
    then show ?thesis unfolding decodeZigZag64_def half low
      by (simp add: Long_negate_eq Long_MIN_VALUE_def Long_xor_def)
  next
    case False
    then have "?z = 2 * (- v - 1) + 1" using zz by simp
    then have "?z div 2 = - v - 1" "?z mod 2 = 1" by presburger+
    then show ?thesis unfolding decodeZigZag64_def half low
      by (simp add: Long_negate_eq Long_MIN_VALUE_def Long_xor_def not_int_def)
  qed
qed

lemma reads_readVarLong [reader_intros]:
  assumes "int_range 64 v"
  shows "reads readVarLong (wire_varint v) v"
proof -
  have "Long_fromInt (Some 0) = int 0" by (simp add: Long_fromInt_def asIntN_def)
  then show ?thesis
    using readVarLong_loop_uleb128 [of "zigzag v" 0 _ _ 0] zigzag_bound64 [OF assms]
    by (simp add: reads_def readVarLong_def dec_at_def wire_varint_def decodeZigZag64_zigzag)
qed

subsection \<open>Strings and bytes\<close>

lemma reads_take_string:
  assumes "n = int (length s)"
  shows "reads (rd_bind (take_slice n) (\<lambda>b. rd_return (Some (from_utf8 b)))) (utf8 s) (Some s)"
  using assms by (intro reads_bind_return [OF reads_take_slice]) simp_all

lemma reads_take_buffer:
  assumes "n = int (length b)"
  shows "reads (rd_bind (take_slice n) (\<lambda>b. rd_return (Some b))) b (Some b)"
  using assms by (intro reads_bind_return [OF reads_take_slice]) simp_all

text \<open>A length prefix decides between \<^verbatim>\<open>null\<close> and the body.\<close>

lemma reads_prefixed_none:
  assumes "reads rdlen pre n" "p n"
  shows "reads (rd_bind rdlen (\<lambda>n. if p n then rd_return None else body n)) pre None"
  using reads_bind [OF assms(1), of "\<lambda>n. if p n then rd_return None else body n" "[]" None] assms(2)
  by (simp add: reads_return)

lemma reads_prefixed_some:
  assumes "reads rdlen pre n" "\<not> p n" "reads (body n) bs v"
  shows "reads (rd_bind rdlen (\<lambda>n. if p n then rd_return w else body n)) (pre @ bs) v"
  using reads_bind [OF assms(1), of "\<lambda>n. if p n then rd_return w else body n" bs v] assms(2,3)
  by simp

lemma reads_readString [reader_intros]:
  assumes "string_ok 32768 v"
  shows "reads readString (wire_string v) v"
proof (cases v)
  case None
  then show ?thesis unfolding readString_def
    by (simp add: wire_string_def) (rule reads_prefixed_none [OF reads_readInt16], simp_all)
next
  case (Some s)
  then have "length s < 32768" using assms by (simp add: string_ok_def)
  then show ?thesis unfolding readString_def Some wire_string_def option.case
    by (intro reads_prefixed_some [OF reads_readInt16] reads_take_string) simp_all
qed

lemma reads_readVarIntString [reader_intros]:
  assumes "string_ok 2147483648 v"
  shows "reads readVarIntString (wire_varint_string v) v"
proof (cases v)
  case None
  then show ?thesis unfolding readVarIntString_def
    by (simp add: wire_varint_string_def) (rule reads_prefixed_none [OF reads_readVarInt], simp_all)
next
  case (Some s)
  then have "length s < 2147483648" using assms by (simp add: string_ok_def)
  then show ?thesis unfolding readVarIntString_def Some wire_varint_string_def option.case
    by (intro reads_prefixed_some [OF reads_readVarInt] reads_take_string) simp_all
qed

lemma reads_readUVarIntString [reader_intros]:
  assumes "string_ok 4294967295 v"
  shows "reads readUVarIntString (wire_uvarint_string v) v"
proof (cases v)
  case None
  have "reads readUVarInt (uleb128 0) 0" using reads_readUVarInt [of 0] by simp
  then show ?thesis unfolding readUVarIntString_def None wire_uvarint_string_def option.case
    by (rule reads_prefixed_none) simp
next
  case (Some s)
  then have "length s + 1 < 4294967296" using assms by (simp add: string_ok_def)
  then have "reads readUVarInt (uleb128 (length s + 1)) (int (length s + 1))" by (rule reads_readUVarInt)
  then show ?thesis unfolding readUVarIntString_def Some wire_uvarint_string_def option.case
    by (rule reads_prefixed_some) (simp, intro reads_take_string, simp)
qed

lemma reads_readBytes [reader_intros]:
  assumes "bytes_ok 2147483648 v"
  shows "reads readBytes (wire_bytes v) v"
proof (cases v)
  case None
  then show ?thesis unfolding readBytes_def readBytesOfLength_def [abs_def]
    by (simp add: wire_bytes_def) (rule reads_prefixed_none [OF reads_readInt32], simp_all)
next
  case (Some b)
  then have "length b < 2147483648" using assms by (simp add: bytes_ok_def)
  then show ?thesis unfolding readBytes_def readBytesOfLength_def [abs_def] Some wire_bytes_def option.case
    by (intro reads_prefixed_some [OF reads_readInt32] reads_take_buffer) simp_all
qed

lemma reads_readVarIntBytes [reader_intros]:
  assumes "bytes_ok 2147483648 v"
  shows "reads readVarIntBytes (wire_varint_bytes v) v"
proof (cases v)
  case None
  then show ?thesis unfolding readVarIntBytes_def
    by (simp add: wire_varint_bytes_def) (rule reads_prefixed_none [OF reads_readVarInt], simp_all)
next
  case (Some b)
  then have "length b < 2147483648" using assms by (simp add: bytes_ok_def)
  then show ?thesis unfolding readVarIntBytes_def Some wire_varint_bytes_def option.case
    by (intro reads_prefixed_some [OF reads_readVarInt] reads_take_buffer) simp_all
qed

subsection \<open>Arrays\<close>

lemma reads_read_elems:
  assumes "\<And>x. x \<in> set xs \<Longrightarrow> reads m (f x) (g x)" "n = int (length xs)" "length xs < 4294967296"
  shows "reads (read_elems m n) (concat (map f xs)) (map g xs)"
  using reads_times_map [of xs m f g] assms by (simp add: reads_def read_elems_def [abs_def] new_Array_def)

lemma reads_readArray:
  assumes "\<And>x. x \<in> set xs \<Longrightarrow> reads m (f x) (g x)" "length xs < 2147483648"
  shows "reads (readArray m) (wire_array f xs) (map g xs)"
  unfolding readArray_def wire_array_def
  using assms by (intro reads_prefixed_some [OF reads_readInt32] reads_read_elems) simp_all

lemma reads_readVarIntArray:
  assumes "\<And>x. x \<in> set xs \<Longrightarrow> reads m (f x) (g x)" "length xs < 2147483648"
  shows "reads (readVarIntArray m) (wire_varint_array f xs) (map g xs)"
  unfolding readVarIntArray_def wire_varint_array_def
  using assms by (intro reads_prefixed_some [OF reads_readVarInt] reads_read_elems) simp_all

lemma reads_readUVarIntArray:
  assumes "\<And>x. x \<in> set xs \<Longrightarrow> reads m (f x) (g x)" "length xs < 4294967295"
  shows "reads (readUVarIntArray m) (wire_uvarint_array f (Some xs)) (Some (map g xs))"
proof -
  have "reads readUVarInt (uleb128 (length xs + 1)) (int (length xs + 1))"
    using assms(2) by (intro reads_readUVarInt) simp
  then show ?thesis
    unfolding readUVarIntArray_def wire_uvarint_array_def option.case
  proof (rule reads_prefixed_some)
    have "reads (read_elems m (int (length xs + 1) - 1)) (concat (map f xs)) (map g xs)"
      using assms by (intro reads_read_elems) simp_all
    then show "reads (rd_bind (read_elems m (int (length xs + 1) - 1)) (\<lambda>xs. rd_return (Some xs)))
        (concat (map f xs)) (Some (map g xs))"
      by (rule reads_bind_return) simp
  qed simp
qed

subsection \<open>UUIDs\<close>

text \<open>The textual form that \<^verbatim>\<open>readUUID\<close> produces, and the 16 octets behind a UUID.\<close>

definition uuid_text :: "buffer \<Rightarrow> string" where
  "uuid_text b =
     (let hex = to_hex b in str_slice hex 0 8 @ ''-'' @ str_slice hex 8 12 @ ''-'' @ str_slice hex 12 16 @ ''-'' @
        str_slice hex 16 20 @ ''-'' @ drop 20 hex)"

definition wire_uuid :: "buffer option \<Rightarrow> buffer" where
  "wire_uuid v = (case v of None \<Rightarrow> replicate 16 0 | Some b \<Rightarrow> b)"

definition uuid_ok :: "buffer option \<Rightarrow> bool" where
  "uuid_ok v \<longleftrightarrow> (case v of None \<Rightarrow> True | Some b \<Rightarrow> length b = 16 \<and> b \<noteq> replicate 16 0)"

lemma to_hex_zeros: "to_hex (replicate 16 0) = replicate 32 CHR ''0''"
  by code_simp

lemma to_hex_inj: "to_hex b = to_hex c \<Longrightarrow> b = c"
  by (metis from_hex_to_hex)

lemma filter_keep: "a \<notin> set xs \<Longrightarrow> filter (\<lambda>c. c \<noteq> a) xs = xs"
  by (induction xs) auto

lemma uuid_text_hex: "filter (\<lambda>c. c \<noteq> CHR ''-'') (uuid_text b) = to_hex b"
proof -
  have keep: "filter (\<lambda>c. c \<noteq> CHR ''-'') xs = xs" if "set xs \<subseteq> set (to_hex b)" for xs
    using that to_hex_no_dash [of b] by (intro filter_keep) auto
  have sub: "set (str_slice (to_hex b) i j) \<subseteq> set (to_hex b)" for i j
    unfolding str_slice_def by (meson order_trans set_drop_subset set_take_subset)
  have "to_hex b = take 8 (to_hex b) @ take 4 (drop 8 (to_hex b)) @ take 4 (drop 12 (to_hex b)) @
      take 4 (drop 16 (to_hex b)) @ drop 20 (to_hex b)"
    using take_add [of 8 4 "to_hex b"] take_add [of 12 4 "to_hex b"] take_add [of 16 4 "to_hex b"]
      append_take_drop_id [of 20 "to_hex b"] by simp
  then show ?thesis
    using keep [OF sub] keep [OF set_drop_subset] by (simp add: uuid_text_def Let_def) (simp add: str_slice_def)
qed

lemma appends_writeUUID [writer_intros]:
  assumes "uuid_ok v"
  shows "appends (writeUUID (map_option uuid_text v)) (wire_uuid v)"
proof (cases v)
  case None
  have "puts (\<lambda>e. Inr (e\<lparr>enc_buf := buf_blit (enc_buf e) (enc_offset e) (replicate 16 0),
      enc_offset := enc_offset e + length (replicate 16 (0 :: byte))\<rparr>)) (replicate 16 0)"
    by (rule puts_raw)
  from appends_ensure [OF this refl] show ?thesis
    by (simp add: None writeUUID_def [abs_def] wire_uuid_def)
next
  case (Some b)
  then have len: "length b = 16" using assms by (simp add: uuid_ok_def)
  from appends_ensure [OF puts_raw refl, of b] show ?thesis
    by (simp add: Some writeUUID_def [abs_def] wire_uuid_def uuid_text_hex from_hex_to_hex len)
qed

lemma reads_readUUID [reader_intros]:
  assumes "uuid_ok v"
  shows "reads readUUID (wire_uuid v) (map_option uuid_text v)"
proof -
  have len: "length (wire_uuid v) = 16"
    using assms by (cases v) (simp_all add: wire_uuid_def uuid_ok_def)
  have "to_hex (wire_uuid v) = replicate 32 CHR ''0'' \<longleftrightarrow> v = None"
    using assms to_hex_inj [of _ "replicate 16 0"] unfolding to_hex_zeros [symmetric]
    by (cases v) (auto simp: wire_uuid_def uuid_ok_def)
  then have "reads (let hex = to_hex (wire_uuid v)
     in if hex = replicate 32 CHR ''0'' then rd_return None
        else rd_return (Some (str_slice hex 0 8 @ ''-'' @ str_slice hex 8 12 @ ''-'' @
               str_slice hex 12 16 @ ''-'' @ str_slice hex 16 20 @ ''-'' @ drop 20 hex))) [] (map_option uuid_text v)"
    by (cases v) (simp_all add: reads_return Let_def wire_uuid_def uuid_text_def)
  then show ?thesis
    unfolding readUUID_def
    using reads_bind [OF reads_take_slice [of 16 "wire_uuid v"], of _ "[]"] len by simp
qed

subsection \<open>The codec interface\<close>

text \<open>
  A wire type: its octets, its writer and its reader. The laws are the two contracts; a client gets
  the round trip through a fresh encoder and decoder, the same for a sequence of values written one
  after the other, and that the format is uniquely decodable (no encoding is a proper prefix of
  another one).
\<close>

locale wire_codec =
  fixes enc :: "'v \<Rightarrow> buffer" and wr :: "'v \<Rightarrow> writer" and rd :: "'v reader" and ok :: "'v \<Rightarrow> bool"
  assumes write_appends: "ok v \<Longrightarrow> appends (wr v) (enc v)"
    and read_consumes: "ok v \<Longrightarrow> reads rd (enc v) v"
begin

lemma roundtrip:
  assumes "ok v" "length (enc v) < 2 ^ 30"
  shows "\<exists>e. rbind new_Encoder (wr v) = Inr e \<and> Encoder_buffer e = enc v \<and>
    rd (new_Decoder (Encoder_buffer e)) = Inr (v, dec_at (enc v) [])"
  using appends_new_Encoder [OF write_appends [OF assms(1)] assms(2)] reads_whole [OF read_consumes [OF assms(1)]]
  by metis

lemma sequence_roundtrip:
  assumes "\<And>v. v \<in> set vs \<Longrightarrow> ok v" "length (concat (map enc vs)) < 2 ^ 30"
  shows "\<exists>e. rbind new_Encoder (chain (map wr vs)) = Inr e \<and>
    rd_times (length vs) rd (new_Decoder (Encoder_buffer e)) = Inr (vs, dec_at (Encoder_buffer e) [])"
proof -
  have "appends (chain (map wr vs)) (concat (map enc vs))"
    using assms(1) by (intro appends_chain_concat write_appends)
  moreover have "reads (rd_times (length vs) rd) (concat (map enc vs)) (map (\<lambda>v. v) vs)"
    using assms(1) by (intro reads_times_map read_consumes)
  ultimately show ?thesis using appends_new_Encoder [OF _ assms(2)] reads_whole by (metis list.map_ident)
qed

lemma uniquely_decodable:
  assumes "ok v" "ok w" "enc v @ p = enc w @ q"
  shows "v = w" "p = q"
proof -
  have "rd (dec_at [] (enc v @ p)) = Inr (v, dec_at (enc v) p)"
    using readsD [OF read_consumes [OF assms(1)], of "[]" p] by simp
  moreover have "rd (dec_at [] (enc v @ p)) = Inr (w, dec_at (enc w) q)"
    using readsD [OF read_consumes [OF assms(2)], of "[]" q] assms(3) by simp
  ultimately show "v = w" by simp
  with assms(3) show "p = q" by simp
qed

end

text \<open>
  Arrays as the request encoders write them: every element is encoded by an encoder of its own,
  and the encoders are written behind the element count.
\<close>

definition write_array_of :: "('v \<Rightarrow> writer) \<Rightarrow> 'v list \<Rightarrow> writer" where
  "write_array_of wr vs e =
     rbind (rmap (\<lambda>v. rbind new_Encoder (wr v)) vs) (\<lambda>es. writeArray (map ElEncoder es) None None e)"

definition array_ok :: "('v \<Rightarrow> buffer) \<Rightarrow> ('v \<Rightarrow> bool) \<Rightarrow> 'v list \<Rightarrow> bool" where
  "array_ok enc ok vs \<longleftrightarrow> length vs < 2147483648 \<and> list_all (\<lambda>v. ok v \<and> length (enc v) < 2 ^ 30) vs"

lemma appends_write_array_of:
  assumes "\<And>v. v \<in> set vs \<Longrightarrow> appends (wr v) (enc v) \<and> length (enc v) < 2 ^ 30" "length vs < 2147483648"
  shows "appends (write_array_of wr vs) (wire_array enc vs)"
proof -
  have "\<exists>es. rmap (\<lambda>v. rbind new_Encoder (wr v)) vs = Inr es \<and> map Encoder_buffer es = map enc vs"
    using assms(1)
  proof (induction vs)
    case (Cons v vs)
    then obtain es where "rmap (\<lambda>v. rbind new_Encoder (wr v)) vs = Inr es" "map Encoder_buffer es = map enc vs"
      by auto
    moreover obtain e where "rbind new_Encoder (wr v) = Inr e" "Encoder_buffer e = enc v"
      using Cons.prems [of v] appends_new_Encoder [of "wr v" "enc v"] by auto
    ultimately show ?case by simp
  qed simp
  then obtain es where es: "rmap (\<lambda>v. rbind new_Encoder (wr v)) vs = Inr es" "map Encoder_buffer es = map enc vs"
    by blast
  then have "length es = length vs" by (metis length_map)
  then have "appends (writeArray (map ElEncoder es) None None) (wire_array Encoder_buffer es)"
    using assms(2) by (intro appends_writeArray_objects(2)) simp
  then show ?thesis
    using es \<open>length es = length vs\<close> by (simp add: write_array_of_def [abs_def] wire_array_def)
qed

locale wire_array_codec = elem: wire_codec enc wr rd ok
  for enc :: "'v \<Rightarrow> buffer" and wr :: "'v \<Rightarrow> writer" and rd :: "'v reader" and ok :: "'v \<Rightarrow> bool"

sublocale wire_array_codec \<subseteq> arr: wire_codec "wire_array enc" "write_array_of wr" "readArray rd" "array_ok enc ok"
proof unfold_locales
  fix vs assume vs: "array_ok enc ok vs"
  then show "appends (write_array_of wr vs) (wire_array enc vs)"
    by (intro appends_write_array_of) (auto simp: array_ok_def list_all_iff elem.write_appends)
  have "reads (readArray rd) (wire_array enc vs) (map (\<lambda>v. v) vs)"
    using vs by (intro reads_readArray elem.read_consumes) (auto simp: array_ok_def list_all_iff)
  then show "reads (readArray rd) (wire_array enc vs) vs" by simp
qed

interpretation int8: wire_codec "be_bytes 1" writeInt8 readInt8 "int_range 8"
  by unfold_locales (rule writer_intros reader_intros, assumption)+

interpretation int16: wire_codec "be_bytes 2" writeInt16 readInt16 "int_range 16"
  by unfold_locales (rule writer_intros reader_intros, assumption)+

interpretation int32: wire_array_codec "be_bytes 4" writeInt32 readInt32 "int_range 32"
  by unfold_locales (rule writer_intros reader_intros, assumption)+

interpretation int64: wire_array_codec "be_bytes 8" writeInt64 readInt64 "int_range 64"
  by unfold_locales (rule writer_intros reader_intros, assumption)+

interpretation double: wire_codec "\<lambda>bits. be_bytes 8 (uint bits)" writeDouble readDouble "\<lambda>_. True"
  by unfold_locales (rule writer_intros reader_intros)+

interpretation boolean: wire_codec "\<lambda>b. be_bytes 1 (if b then 1 else 0)" writeBoolean readBoolean "\<lambda>_. True"
  by unfold_locales (rule writer_intros reader_intros)+

interpretation varint: wire_codec wire_varint writeVarInt readVarInt "int_range 32"
  by unfold_locales (rule writer_intros reader_intros, assumption)+

interpretation varlong: wire_codec wire_varint writeVarLong readVarLong "int_range 64"
  by unfold_locales (rule appends_writeVarLong reads_readVarLong, assumption)+

interpretation uvarint: wire_codec "\<lambda>v. uleb128 (nat v)" writeUVarInt readUVarInt "uint_range 32"
proof unfold_locales
  fix v assume "uint_range 32 v"
  then have v: "nat v < 4294967296" "int (nat v) = v" by (simp_all add: nat_less_iff)
  from appends_writeUVarInt [OF v(1)] show "appends (writeUVarInt v) (uleb128 (nat v))" by (simp only: v(2))
  from reads_readUVarInt [OF v(1)] show "reads readUVarInt (uleb128 (nat v)) v" by (simp only: v(2))
qed

interpretation wstring: wire_array_codec wire_string writeString readString "string_ok 32768"
  by unfold_locales (rule writer_intros reader_intros, assumption)+

interpretation varint_string: wire_codec wire_varint_string writeVarIntString readVarIntString "string_ok 2147483648"
  by unfold_locales (rule writer_intros reader_intros, assumption)+

interpretation uvarint_string: wire_codec wire_uvarint_string writeUVarIntString readUVarIntString "string_ok 4294967295"
  by unfold_locales (rule writer_intros reader_intros, assumption)+

text \<open>Bytes are written from a buffer or as null.\<close>

definition to_bytes_value :: "buffer option \<Rightarrow> bytes_value" where
  "to_bytes_value v = (case v of None \<Rightarrow> BNull | Some b \<Rightarrow> BBuffer b)"

lemma bytes_of_to_bytes_value [simp]: "bytes_of (to_bytes_value v) = v"
  by (simp add: to_bytes_value_def split: option.split)

interpretation wbytes: wire_array_codec wire_bytes "writeBytes \<circ> to_bytes_value" readBytes "bytes_ok 2147483648"
  by unfold_locales (metis appends_writeBytes bytes_of_to_bytes_value comp_apply, rule reads_readBytes)

interpretation varint_bytes:
  wire_codec wire_varint_bytes "writeVarIntBytes \<circ> to_bytes_value" readVarIntBytes "bytes_ok 2147483648"
  by unfold_locales (metis appends_writeVarIntBytes bytes_of_to_bytes_value comp_apply, rule reads_readVarIntBytes)

subsection \<open>Compact bytes and tagged fields\<close>

text \<open>
  \<^verbatim>\<open>readUVarIntBytes\<close> moves the offset correctly but returns one octet too many, when there is
  one behind the value.
\<close>

lemma readUVarIntBytes_octets:
  assumes "length b < 4294967295"
  shows "readUVarIntBytes (dec_at pre (wire_uvarint_bytes (Some b) @ post)) =
    Inr (Some (b @ take 1 post), dec_at (pre @ wire_uvarint_bytes (Some b)) post)"
proof -
  let ?n = "uleb128 (length b + 1)"
  have "reads readUVarInt ?n (int (length b + 1))" using assms by (intro reads_readUVarInt) simp
  then have "readUVarInt (dec_at pre (?n @ b @ post)) = Inr (int (length b + 1), dec_at (pre @ ?n) (b @ post))"
    by (rule readsD)
  moreover have "buf_slice (dec_buf (dec_at (pre @ ?n) (b @ post))) (dec_offset (dec_at (pre @ ?n) (b @ post)))
      (dec_offset (dec_at (pre @ ?n) (b @ post)) + int (length b + 1)) = b @ take 1 post"
    by (cases post) (simp_all add: dec_at_def buf_slice_def slice_bound_def nat_add_distrib)
  ultimately show ?thesis
    using advance_dec_at [of b "length b" "pre @ ?n" post]
    by (simp add: readUVarIntBytes_def rd_bind_def wire_uvarint_bytes_def)
qed

text \<open>
  The wire format of a tagged field is its tag, the exact number of octets and the octets. The
  reader takes the number for a compact length, which counts one more, so it stops one octet
  before the end of a field that is not empty.
\<close>

lemma readTaggedFields_one_field:
  assumes "length b < 4294967296" "b \<noteq> []" "tag < 4294967296"
  shows "readTaggedFields (dec_at pre (uleb128 1 @ uleb128 tag @ uleb128 (length b) @ b @ post)) =
    Inr (Some (), dec_at (pre @ uleb128 1 @ uleb128 tag @ uleb128 (length b) @ butlast b) (last b # post))"
proof -
  obtain c d where b: "b = c @ [d]" using assms(2) by (metis append_butlast_last_id)
  have body: "readUVarIntBytes (dec_at p (uleb128 (length b) @ b @ q)) =
      Inr (Some b, dec_at (p @ uleb128 (length b) @ c) (d # q))" for p q
    using readUVarIntBytes_octets [of c p "d # q"] assms(1) b by (simp add: wire_uvarint_bytes_def)
  have one: "readUVarInt (dec_at p (uleb128 1 @ q)) = Inr (1, dec_at (p @ uleb128 1) q)" for p q
    using readsD [OF reads_readUVarInt [of 1]] by simp
  have tag: "readUVarInt (dec_at p (uleb128 tag @ q)) = Inr (int tag, dec_at (p @ uleb128 tag) q)" for p q
    using readsD [OF reads_readUVarInt [OF assms(3)]] by simp
  show ?thesis
    by (simp add: readTaggedFields_def rd_bind_def one [unfolded One_nat_def] tag body rd_return_def)
      (simp add: b)
qed

subsection \<open>Properties\<close>

text \<open>C3: Every signed 32-bit number written as a variable-length integer is read back unchanged, takes
  as many octets as the size function says, and at most five.\<close>

theorem varint_roundtrip:
  assumes "int_range 32 v"
  shows "\<exists>e. rbind new_Encoder (writeVarInt v) = Inr e \<and>
    readVarInt (new_Decoder (Encoder_buffer e)) = Inr (v, dec_at (Encoder_buffer e) []) \<and>
    length (Encoder_buffer e) = sizeOfVarInt v \<and> sizeOfVarInt v \<le> 5"
proof -
  have len: "length (wire_varint v) \<le> 5"
    unfolding wire_varint_def using zigzag_bound [OF assms] by (intro length_uleb128_le) simp_all
  then have "length (wire_varint v) < 2 ^ 30" by simp
  from varint.roundtrip [OF assms this] show ?thesis using sizeOfVarInt_length [OF assms] len by auto
qed

theorem varint_roundtrip_witness:
  "\<exists>e. rbind new_Encoder (writeVarInt (- 300)) = Inr e \<and>
    readVarInt (new_Decoder (Encoder_buffer e)) = Inr (- 300, dec_at (Encoder_buffer e) []) \<and>
    length (Encoder_buffer e) = sizeOfVarInt (- 300) \<and> sizeOfVarInt (- 300) \<le> 5"
  by (rule varint_roundtrip) simp

text \<open>Every signed 64-bit number written as a variable-length long is read back unchanged, takes as
  many octets as the size function says, and at most ten.\<close>

theorem varlong_roundtrip:
  assumes "int_range 64 v"
  shows "\<exists>e. rbind new_Encoder (writeVarLong v) = Inr e \<and>
    readVarLong (new_Decoder (Encoder_buffer e)) = Inr (v, dec_at (Encoder_buffer e) []) \<and>
    length (Encoder_buffer e) = sizeOfVarLong v \<and> sizeOfVarLong v \<le> 10"
proof -
  have len: "length (wire_varint v) \<le> 10"
    unfolding wire_varint_def using zigzag_bound64 [OF assms] by (intro length_uleb128_le) simp_all
  then have "length (wire_varint v) < 2 ^ 30" by simp
  from varlong.roundtrip [OF assms this] show ?thesis using sizeOfVarLong_length [OF assms] len by auto
qed

theorem varlong_roundtrip_witness:
  "\<exists>e. rbind new_Encoder (writeVarLong (- 9223372036854775808)) = Inr e \<and>
    readVarLong (new_Decoder (Encoder_buffer e)) = Inr (- 9223372036854775808, dec_at (Encoder_buffer e) []) \<and>
    length (Encoder_buffer e) = sizeOfVarLong (- 9223372036854775808) \<and> sizeOfVarLong (- 9223372036854775808) \<le> 10"
  by (rule varlong_roundtrip) simp

text \<open>An array of 64-bit numbers, each written by an encoder of its own behind the element count,
  is read back element by element; the reader consumes exactly what was written.\<close>

theorem int64_array_roundtrip:
  assumes "length vs < 2 ^ 26" "list_all (int_range 64) vs"
  shows "\<exists>e. rbind new_Encoder (write_array_of writeInt64 vs) = Inr e \<and>
    readArray readInt64 (new_Decoder (Encoder_buffer e)) = Inr (vs, dec_at (Encoder_buffer e) [])"
proof -
  have ok: "array_ok (be_bytes 8) (int_range 64) vs"
    using assms by (auto simp: array_ok_def list_all_iff simp del: int_range_numeral)
  have "length (concat (map (be_bytes 8) vs)) = 8 * length vs" by (induction vs) auto
  then have "length (wire_array (be_bytes 8) vs) < 2 ^ 30" using assms(1) by (simp add: wire_array_def)
  from int64.arr.roundtrip [OF ok this] show ?thesis by auto
qed

theorem int64_array_roundtrip_witness:
  "\<exists>e. rbind new_Encoder (write_array_of writeInt64 [- 1, 9223372036854775807]) = Inr e \<and>
    readArray readInt64 (new_Decoder (Encoder_buffer e)) = Inr ([- 1, 9223372036854775807], dec_at (Encoder_buffer e) [])"
  by (rule int64_array_roundtrip) simp_all

text \<open>Nullable strings with a 16-bit length, written one after the other into one encoder, are read
  back one after the other, null distinguished from the empty string.\<close>

theorem string_sequence_roundtrip:
  assumes "list_all (string_ok 32768) vs" "length (concat (map wire_string vs)) < 2 ^ 30"
  shows "\<exists>e. rbind new_Encoder (chain (map writeString vs)) = Inr e \<and>
    rd_times (length vs) readString (new_Decoder (Encoder_buffer e)) = Inr (vs, dec_at (Encoder_buffer e) [])"
  using wstring.elem.sequence_roundtrip [of vs] assms by (auto simp: list_all_iff)

theorem string_sequence_roundtrip_witness:
  "\<exists>e. rbind new_Encoder (chain (map writeString [Some ''topic'', None, Some []])) = Inr e \<and>
    rd_times (length [Some ''topic'', None, Some []]) readString (new_Decoder (Encoder_buffer e)) =
      Inr ([Some ''topic'', None, Some []], dec_at (Encoder_buffer e) [])"
  by (rule string_sequence_roundtrip) (simp_all add: string_ok_def wire_string_def)

text \<open>The reader of compact bytes advances over the value but returns the octet behind it as well.\<close>

theorem readUVarIntBytes_one_octet_too_many:
  assumes "length b < 4294967295"
  shows "readUVarIntBytes (dec_at pre (wire_uvarint_bytes (Some b) @ c # post)) =
    Inr (Some (b @ [c]), dec_at (pre @ wire_uvarint_bytes (Some b)) (c # post))"
  using readUVarIntBytes_octets [OF assms, of pre "c # post"] by simp

theorem readUVarIntBytes_one_octet_too_many_witness:
  "readUVarIntBytes (dec_at [] (wire_uvarint_bytes (Some [1, 2]) @ 9 # [8])) =
    Inr (Some ([1, 2] @ [9]), dec_at ([] @ wire_uvarint_bytes (Some [1, 2])) (9 # [8]))"
  by (rule readUVarIntBytes_one_octet_too_many) simp

end
