(* ===== verification/Compression.thy ===== *)
theory Compression
  imports Js_Number
begin

text \<open>
  The registry of compression codecs, \<^verbatim>\<open>src/protocol/message/compression/index.js\<close>. A codec
  is a pair of functions; the GZIP codec wraps Node's \<^verbatim>\<open>zlib\<close> and is a parameter. An
  application may replace the entries of the registry, so the registry itself is a parameter of the
  functions that look codecs up, with \<open>Codecs\<close> as its initial value.
\<close>

record codec =
  codec_compress :: "buffer \<Rightarrow> buffer result"
  codec_decompress :: "buffer \<Rightarrow> buffer result"

type_synonym codec_registry = "int \<Rightarrow> codec result option"

definition COMPRESSION_CODEC_MASK :: int where "COMPRESSION_CODEC_MASK = 0x07"

definition Types_None :: int where "Types_None = 0"
definition Types_GZIP :: int where "Types_GZIP = 1"
definition Types_Snappy :: int where "Types_Snappy = 2"
definition Types_LZ4 :: int where "Types_LZ4 = 3"
definition Types_ZSTD :: int where "Types_ZSTD = 4"

lemmas Types_defs = Types_None_def Types_GZIP_def Types_Snappy_def Types_LZ4_def Types_ZSTD_def

definition Codecs :: "codec \<Rightarrow> codec_registry" where
  "Codecs gzip = (\<lambda>type.
     if type = Types_GZIP then Some (Inr gzip)
     else if type = Types_Snappy then Some (Inl (KafkaJSNotImplemented ''Snappy compression not implemented''))
     else if type = Types_LZ4 then Some (Inl (KafkaJSNotImplemented ''LZ4 compression not implemented''))
     else if type = Types_ZSTD then Some (Inl (KafkaJSNotImplemented ''ZSTD compression not implemented''))
     else None)"

definition lookupCodec :: "codec_registry \<Rightarrow> int \<Rightarrow> codec option result" where
  "lookupCodec codecs type =
     (case codecs type of None \<Rightarrow> Inr None | Some c \<Rightarrow> rbind c (\<lambda>codec. Inr (Some codec)))"

definition lookupCodecByAttributes :: "codec_registry \<Rightarrow> int \<Rightarrow> codec option result" where
  "lookupCodecByAttributes codecs attributes = lookupCodec codecs (js_and attributes COMPRESSION_CODEC_MASK)"

text \<open>What the codecs promise: decompression undoes compression.\<close>

definition lossless :: "codec_registry \<Rightarrow> bool" where
  "lossless codecs \<longleftrightarrow>
     (\<forall>type codec b c. codecs type = Some (Inr codec) \<longrightarrow> codec_compress codec b = Inr c \<longrightarrow>
        codec_decompress codec c = Inr b)"

lemma js_and_7: "js_and x COMPRESSION_CODEC_MASK = x mod 8"
proof -
  have "js_and x COMPRESSION_CODEC_MASK = ToUint32 x mod 8"
    using js_and_mask [of 3 x] by (simp add: COMPRESSION_CODEC_MASK_def)
  also have "\<dots> = x mod 8" by (simp add: ToUint32_mod mod_mod_cancel)
  finally show ?thesis .
qed

text \<open>
  The low three bits of the attributes name the codec, whatever the other flags are: the codec that
  a writer used is the one a reader looks up.
\<close>

lemma lookupCodecByAttributes_mod: "lookupCodecByAttributes codecs a = lookupCodec codecs (a mod 8)"
  by (simp add: lookupCodecByAttributes_def js_and_7)

lemma lookupCodec_None: "codecs Types_None = None \<Longrightarrow> lookupCodec codecs Types_None = Inr None"
  by (simp add: lookupCodec_def)

lemma Codecs_None: "Codecs gzip Types_None = None"
  by (simp add: Codecs_def Types_defs)

end
