(* ===== verification/Crc.thy ===== *)
theory Crc
  imports Kafka_Prelude
begin

text \<open>
  The two checksums of the record formats: \<^verbatim>\<open>src/protocol/crc32.js\<close> (messages of the legacy
  message set) and \<^verbatim>\<open>src/protocol/recordBatch/crc32C\<close> (record batches). The register is a
  32-bit word: the code keeps it in a JavaScript number on which it only uses the 32-bit operators,
  and the tables are \<^verbatim>\<open>Int32Array\<close>s. The table-driven loops are proved equal to the bitwise
  definition of the cyclic redundancy check with the reflected polynomials, and a checksum is shown
  to change whenever a single octet of the data does.
\<close>

unbundle bit_operations_syntax

subsection \<open>The code\<close>

definition CRC_TABLE_lo :: "32 word list" where
  "CRC_TABLE_lo = [
    0x00000000, 0x77073096, 0xee0e612c, 0x990951ba, 0x076dc419, 0x706af48f, 0xe963a535, 0x9e6495a3,
    0x0edb8832, 0x79dcb8a4, 0xe0d5e91e, 0x97d2d988, 0x09b64c2b, 0x7eb17cbd, 0xe7b82d07, 0x90bf1d91,
    0x1db71064, 0x6ab020f2, 0xf3b97148, 0x84be41de, 0x1adad47d, 0x6ddde4eb, 0xf4d4b551, 0x83d385c7,
    0x136c9856, 0x646ba8c0, 0xfd62f97a, 0x8a65c9ec, 0x14015c4f, 0x63066cd9, 0xfa0f3d63, 0x8d080df5,
    0x3b6e20c8, 0x4c69105e, 0xd56041e4, 0xa2677172, 0x3c03e4d1, 0x4b04d447, 0xd20d85fd, 0xa50ab56b,
    0x35b5a8fa, 0x42b2986c, 0xdbbbc9d6, 0xacbcf940, 0x32d86ce3, 0x45df5c75, 0xdcd60dcf, 0xabd13d59,
    0x26d930ac, 0x51de003a, 0xc8d75180, 0xbfd06116, 0x21b4f4b5, 0x56b3c423, 0xcfba9599, 0xb8bda50f,
    0x2802b89e, 0x5f058808, 0xc60cd9b2, 0xb10be924, 0x2f6f7c87, 0x58684c11, 0xc1611dab, 0xb6662d3d,
    0x76dc4190, 0x01db7106, 0x98d220bc, 0xefd5102a, 0x71b18589, 0x06b6b51f, 0x9fbfe4a5, 0xe8b8d433,
    0x7807c9a2, 0x0f00f934, 0x9609a88e, 0xe10e9818, 0x7f6a0dbb, 0x086d3d2d, 0x91646c97, 0xe6635c01,
    0x6b6b51f4, 0x1c6c6162, 0x856530d8, 0xf262004e, 0x6c0695ed, 0x1b01a57b, 0x8208f4c1, 0xf50fc457,
    0x65b0d9c6, 0x12b7e950, 0x8bbeb8ea, 0xfcb9887c, 0x62dd1ddf, 0x15da2d49, 0x8cd37cf3, 0xfbd44c65,
    0x4db26158, 0x3ab551ce, 0xa3bc0074, 0xd4bb30e2, 0x4adfa541, 0x3dd895d7, 0xa4d1c46d, 0xd3d6f4fb,
    0x4369e96a, 0x346ed9fc, 0xad678846, 0xda60b8d0, 0x44042d73, 0x33031de5, 0xaa0a4c5f, 0xdd0d7cc9,
    0x5005713c, 0x270241aa, 0xbe0b1010, 0xc90c2086, 0x5768b525, 0x206f85b3, 0xb966d409, 0xce61e49f,
    0x5edef90e, 0x29d9c998, 0xb0d09822, 0xc7d7a8b4, 0x59b33d17, 0x2eb40d81, 0xb7bd5c3b, 0xc0ba6cad]"

definition CRC_TABLE_hi :: "32 word list" where
  "CRC_TABLE_hi = [
    0xedb88320, 0x9abfb3b6, 0x03b6e20c, 0x74b1d29a, 0xead54739, 0x9dd277af, 0x04db2615, 0x73dc1683,
    0xe3630b12, 0x94643b84, 0x0d6d6a3e, 0x7a6a5aa8, 0xe40ecf0b, 0x9309ff9d, 0x0a00ae27, 0x7d079eb1,
    0xf00f9344, 0x8708a3d2, 0x1e01f268, 0x6906c2fe, 0xf762575d, 0x806567cb, 0x196c3671, 0x6e6b06e7,
    0xfed41b76, 0x89d32be0, 0x10da7a5a, 0x67dd4acc, 0xf9b9df6f, 0x8ebeeff9, 0x17b7be43, 0x60b08ed5,
    0xd6d6a3e8, 0xa1d1937e, 0x38d8c2c4, 0x4fdff252, 0xd1bb67f1, 0xa6bc5767, 0x3fb506dd, 0x48b2364b,
    0xd80d2bda, 0xaf0a1b4c, 0x36034af6, 0x41047a60, 0xdf60efc3, 0xa867df55, 0x316e8eef, 0x4669be79,
    0xcb61b38c, 0xbc66831a, 0x256fd2a0, 0x5268e236, 0xcc0c7795, 0xbb0b4703, 0x220216b9, 0x5505262f,
    0xc5ba3bbe, 0xb2bd0b28, 0x2bb45a92, 0x5cb36a04, 0xc2d7ffa7, 0xb5d0cf31, 0x2cd99e8b, 0x5bdeae1d,
    0x9b64c2b0, 0xec63f226, 0x756aa39c, 0x026d930a, 0x9c0906a9, 0xeb0e363f, 0x72076785, 0x05005713,
    0x95bf4a82, 0xe2b87a14, 0x7bb12bae, 0x0cb61b38, 0x92d28e9b, 0xe5d5be0d, 0x7cdcefb7, 0x0bdbdf21,
    0x86d3d2d4, 0xf1d4e242, 0x68ddb3f8, 0x1fda836e, 0x81be16cd, 0xf6b9265b, 0x6fb077e1, 0x18b74777,
    0x88085ae6, 0xff0f6a70, 0x66063bca, 0x11010b5c, 0x8f659eff, 0xf862ae69, 0x616bffd3, 0x166ccf45,
    0xa00ae278, 0xd70dd2ee, 0x4e048354, 0x3903b3c2, 0xa7672661, 0xd06016f7, 0x4969474d, 0x3e6e77db,
    0xaed16a4a, 0xd9d65adc, 0x40df0b66, 0x37d83bf0, 0xa9bcae53, 0xdebb9ec5, 0x47b2cf7f, 0x30b5ffe9,
    0xbdbdf21c, 0xcabac28a, 0x53b39330, 0x24b4a3a6, 0xbad03605, 0xcdd70693, 0x54de5729, 0x23d967bf,
    0xb3667a2e, 0xc4614ab8, 0x5d681b02, 0x2a6f2b94, 0xb40bbe37, 0xc30c8ea1, 0x5a05df1b, 0x2d02ef8d]"

definition CRC_TABLE :: "32 word list" where
  "CRC_TABLE = CRC_TABLE_lo @ CRC_TABLE_hi"

definition T :: "32 word list" where
  "T = [
    0x00000000, 0xf26b8303, 0xe13b70f7, 0x1350f3f4, 0xc79a971f, 0x35f1141c, 0x26a1e7e8, 0xd4ca64eb,
    0x8ad958cf, 0x78b2dbcc, 0x6be22838, 0x9989ab3b, 0x4d43cfd0, 0xbf284cd3, 0xac78bf27, 0x5e133c24,
    0x105ec76f, 0xe235446c, 0xf165b798, 0x030e349b, 0xd7c45070, 0x25afd373, 0x36ff2087, 0xc494a384,
    0x9a879fa0, 0x68ec1ca3, 0x7bbcef57, 0x89d76c54, 0x5d1d08bf, 0xaf768bbc, 0xbc267848, 0x4e4dfb4b,
    0x20bd8ede, 0xd2d60ddd, 0xc186fe29, 0x33ed7d2a, 0xe72719c1, 0x154c9ac2, 0x061c6936, 0xf477ea35,
    0xaa64d611, 0x580f5512, 0x4b5fa6e6, 0xb93425e5, 0x6dfe410e, 0x9f95c20d, 0x8cc531f9, 0x7eaeb2fa,
    0x30e349b1, 0xc288cab2, 0xd1d83946, 0x23b3ba45, 0xf779deae, 0x05125dad, 0x1642ae59, 0xe4292d5a,
    0xba3a117e, 0x4851927d, 0x5b016189, 0xa96ae28a, 0x7da08661, 0x8fcb0562, 0x9c9bf696, 0x6ef07595,
    0x417b1dbc, 0xb3109ebf, 0xa0406d4b, 0x522bee48, 0x86e18aa3, 0x748a09a0, 0x67dafa54, 0x95b17957,
    0xcba24573, 0x39c9c670, 0x2a993584, 0xd8f2b687, 0x0c38d26c, 0xfe53516f, 0xed03a29b, 0x1f682198,
    0x5125dad3, 0xa34e59d0, 0xb01eaa24, 0x42752927, 0x96bf4dcc, 0x64d4cecf, 0x77843d3b, 0x85efbe38,
    0xdbfc821c, 0x2997011f, 0x3ac7f2eb, 0xc8ac71e8, 0x1c661503, 0xee0d9600, 0xfd5d65f4, 0x0f36e6f7,
    0x61c69362, 0x93ad1061, 0x80fde395, 0x72966096, 0xa65c047d, 0x5437877e, 0x4767748a, 0xb50cf789,
    0xeb1fcbad, 0x197448ae, 0x0a24bb5a, 0xf84f3859, 0x2c855cb2, 0xdeeedfb1, 0xcdbe2c45, 0x3fd5af46,
    0x7198540d, 0x83f3d70e, 0x90a324fa, 0x62c8a7f9, 0xb602c312, 0x44694011, 0x5739b3e5, 0xa55230e6,
    0xfb410cc2, 0x092a8fc1, 0x1a7a7c35, 0xe811ff36, 0x3cdb9bdd, 0xceb018de, 0xdde0eb2a, 0x2f8b6829,
    0x82f63b78, 0x709db87b, 0x63cd4b8f, 0x91a6c88c, 0x456cac67, 0xb7072f64, 0xa457dc90, 0x563c5f93,
    0x082f63b7, 0xfa44e0b4, 0xe9141340, 0x1b7f9043, 0xcfb5f4a8, 0x3dde77ab, 0x2e8e845f, 0xdce5075c,
    0x92a8fc17, 0x60c37f14, 0x73938ce0, 0x81f80fe3, 0x55326b08, 0xa759e80b, 0xb4091bff, 0x466298fc,
    0x1871a4d8, 0xea1a27db, 0xf94ad42f, 0x0b21572c, 0xdfeb33c7, 0x2d80b0c4, 0x3ed04330, 0xccbbc033,
    0xa24bb5a6, 0x502036a5, 0x4370c551, 0xb11b4652, 0x65d122b9, 0x97baa1ba, 0x84ea524e, 0x7681d14d,
    0x2892ed69, 0xdaf96e6a, 0xc9a99d9e, 0x3bc21e9d, 0xef087a76, 0x1d63f975, 0x0e330a81, 0xfc588982,
    0xb21572c9, 0x407ef1ca, 0x532e023e, 0xa145813d, 0x758fe5d6, 0x87e466d5, 0x94b49521, 0x66df1622,
    0x38cc2a06, 0xcaa7a905, 0xd9f75af1, 0x2b9cd9f2, 0xff56bd19, 0x0d3d3e1a, 0x1e6dcdee, 0xec064eed,
    0xc38d26c4, 0x31e6a5c7, 0x22b65633, 0xd0ddd530, 0x0417b1db, 0xf67c32d8, 0xe52cc12c, 0x1747422f,
    0x49547e0b, 0xbb3ffd08, 0xa86f0efc, 0x5a048dff, 0x8ecee914, 0x7ca56a17, 0x6ff599e3, 0x9d9e1ae0,
    0xd3d3e1ab, 0x21b862a8, 0x32e8915c, 0xc083125f, 0x144976b4, 0xe622f5b7, 0xf5720643, 0x07198540,
    0x590ab964, 0xab613a67, 0xb831c993, 0x4a5a4a90, 0x9e902e7b, 0x6cfbad78, 0x7fab5e8c, 0x8dc0dd8f,
    0xe330a81a, 0x115b2b19, 0x020bd8ed, 0xf0605bee, 0x24aa3f05, 0xd6c1bc06, 0xc5914ff2, 0x37faccf1,
    0x69e9f0d5, 0x9b8273d6, 0x88d28022, 0x7ab90321, 0xae7367ca, 0x5c18e4c9, 0x4f48173d, 0xbd23943e,
    0xf36e6f75, 0x0105ec76, 0x12551f82, 0xe03e9c81, 0x34f4f86a, 0xc69f7b69, 0xd5cf889d, 0x27a40b9e,
    0x79b737ba, 0x8bdcb4b9, 0x988c474d, 0x6ae7c44e, 0xbe2da0a5, 0x4c4623a6, 0x5f16d052, 0xad7d5351]"

text \<open>The body of both loops: \<open>crc = T[(crc ^ buffer[n]) & 0xff] ^ (crc >>> 8)\<close>.\<close>

definition crc_table_step :: "32 word list \<Rightarrow> 32 word \<Rightarrow> byte \<Rightarrow> 32 word" where
  "crc_table_step tab crc b = tab ! unat ((crc XOR ucast b) AND 0xff) XOR drop_bit 8 crc"

definition crc32 :: "buffer \<Rightarrow> int" where \<comment> \<open>a signed 32-bit number\<close>
  "crc32 b = sint (foldl (crc_table_step CRC_TABLE) (- 1) b XOR - 1)"

definition crc32C_raw :: "buffer \<Rightarrow> int" where \<comment> \<open>\<open>>>> 0\<close> makes it unsigned\<close>
  "crc32C_raw b = uint (foldl (crc_table_step T) (- 1) b XOR - 1)"

definition crc32C :: "buffer \<Rightarrow> int" where \<comment> \<open>\<open>Uint32Array.from([value])[0]\<close>\<close>
  "crc32C b = take_bit 32 (crc32C_raw b)"

subsection \<open>The bitwise reference\<close>

definition crc_shift :: "32 word \<Rightarrow> 32 word \<Rightarrow> 32 word" where
  "crc_shift poly c = (if bit c 0 then drop_bit 1 c XOR poly else drop_bit 1 c)"

definition crc_octet :: "32 word \<Rightarrow> 32 word \<Rightarrow> byte \<Rightarrow> 32 word" where
  "crc_octet poly c b = (crc_shift poly ^^ 8) (c XOR ucast b)"

definition crc_reference :: "32 word \<Rightarrow> buffer \<Rightarrow> 32 word" where
  "crc_reference poly b = foldl (crc_octet poly) (- 1) b XOR - 1"

abbreviation "poly_ieee \<equiv> 0xedb88320 :: 32 word"
abbreviation "poly_castagnoli \<equiv> 0x82f63b78 :: 32 word"

definition crc_table_of :: "32 word \<Rightarrow> 32 word list" where
  "crc_table_of poly = map (\<lambda>i. (crc_shift poly ^^ 8) (of_nat i)) [0..<256]"


lemma funpow_8: "(f ^^ 8) x = f (f (f (f (f (f (f (f x)))))))"
  by (simp add: numeral_eq_Suc)

subsection \<open>Linearity\<close>

lemma crc_shift_xor: "crc_shift poly (a XOR b) = crc_shift poly a XOR crc_shift poly b"
  by (auto simp: crc_shift_def bit_simps ac_simps drop_bit_xor)

lemma crc_shift_pow_xor: "(crc_shift poly ^^ n) (a XOR b) = (crc_shift poly ^^ n) a XOR (crc_shift poly ^^ n) b"
  by (induction n) (simp_all add: crc_shift_xor)

text \<open>As long as the low bits are zero the register is only shifted.\<close>

lemma crc_shift_pow_high:
  assumes "\<And>i. i < n \<Longrightarrow> \<not> bit c i"
  shows "(crc_shift poly ^^ n) c = drop_bit n c"
  using assms
proof (induction n)
  case (Suc n)
  then have pow: "(crc_shift poly ^^ n) c = drop_bit n c" by simp
  have "\<not> bit (drop_bit n c) 0" using Suc.prems [of n] by (simp add: bit_drop_bit_eq)
  then have "crc_shift poly (drop_bit n c) = drop_bit (Suc n) c" by (simp add: crc_shift_def del: bit_0)
  with pow show ?case by simp
qed simp

lemma split_octet: "c = (c AND 0xff) XOR push_bit 8 (drop_bit 8 c)" for c :: "32 word"
proof (rule bit_word_eqI)
  fix n assume "n < LENGTH(32)"
  have "bit (0xff :: 32 word) n \<longleftrightarrow> n < 8"
    using \<open>n < LENGTH(32)\<close> bit_mask_iff [of 8 n, where 'a = "32 word"] by (simp add: mask_eq_exp_minus_1)
  then show "bit c n = bit ((c AND 0xff) XOR push_bit 8 (drop_bit 8 c)) n"
    using \<open>n < LENGTH(32)\<close> by (auto simp: bit_simps)
qed

lemma crc_shift_8_table:
  "(crc_shift poly ^^ 8) c = (crc_shift poly ^^ 8) (c AND 0xff) XOR drop_bit 8 c"
proof -
  have "(crc_shift poly ^^ 8) (push_bit 8 (drop_bit 8 c)) = drop_bit 8 (push_bit 8 (drop_bit 8 c))"
    by (rule crc_shift_pow_high) (auto simp: bit_simps)
  also have "\<dots> = drop_bit 8 c" by (rule bit_word_eqI) (auto simp: bit_simps dest: bit_imp_le_length)
  finally show ?thesis using split_octet [of c] crc_shift_pow_xor by metis
qed

subsection \<open>The tables\<close>

definition dbl :: "32 word \<Rightarrow> 32 word list \<Rightarrow> 32 word list" where
  "dbl c xs = xs @ map (\<lambda>x. x XOR c) xs"

lemma of_nat_add_pow:
  assumes "i < 2 ^ k" "k < 32"
  shows "(of_nat (2 ^ k + i) :: 32 word) = of_nat i XOR of_nat (2 ^ k)"
proof -
  have "(of_nat i AND of_nat (2 ^ k) :: 32 word) = 0"
  proof (rule bit_word_eqI)
    fix n assume "n < LENGTH(32)"
    have "\<not> bit i k" using assms(1) by (metis bit_take_bit_iff less_irrefl take_bit_nat_eq_self)
    then show "bit (of_nat i AND of_nat (2 ^ k) :: 32 word) n = bit (0 :: 32 word) n"
      by (auto simp: bit_simps)
  qed
  then show ?thesis by (simp add: disjunctive_xor_eq_or disjunctive_add_eq_or add.commute flip: disjunctive_add_eq_xor)
qed

lemma upt_double: "[0..<2 ^ Suc k] = [0..<2 ^ k] @ map (\<lambda>i. 2 ^ k + i) [0..<2 ^ k]"
  using upt_add_eq_append [of 0 "2 ^ k" "2 ^ k"] by (simp add: map_add_upt add.commute mult_2)

lemma table_double:
  assumes "k < 32"
  shows "map (\<lambda>i. (crc_shift poly ^^ 8) (of_nat i)) [0..<2 ^ Suc k]
    = dbl ((crc_shift poly ^^ 8) (of_nat (2 ^ k))) (map (\<lambda>i. (crc_shift poly ^^ 8) (of_nat i)) [0..<2 ^ k])"
proof -
  let ?f = "\<lambda>i. (crc_shift poly ^^ 8) (of_nat i)"
  have "map ?f (map (\<lambda>i. 2 ^ k + i) [0..<2 ^ k]) = map (\<lambda>i. ?f i XOR ?f (2 ^ k)) [0..<2 ^ k]"
    unfolding map_map comp_def
  proof (rule map_cong [OF refl])
    fix i assume "i \<in> set [0..<2 ^ k]"
    then have "i < 2 ^ k" by simp
    then show "?f (2 ^ k + i) = ?f i XOR ?f (2 ^ k)"
      using assms of_nat_add_pow crc_shift_pow_xor by metis
  qed
  then show ?thesis unfolding upt_double map_append dbl_def by (simp only: map_map comp_def)
qed

lemma crc_shift_zero: "(crc_shift poly ^^ n) 0 = 0"
  by (induction n) (simp_all add: crc_shift_def)

lemma upt_0_Suc_0: "[0..<Suc 0] = [0]"
  by simp

lemma crc_table_of_dbl:
  "crc_table_of poly = dbl ((crc_shift poly ^^ 8) 128) (dbl ((crc_shift poly ^^ 8) 64)
    (dbl ((crc_shift poly ^^ 8) 32) (dbl ((crc_shift poly ^^ 8) 16) (dbl ((crc_shift poly ^^ 8) 8)
    (dbl ((crc_shift poly ^^ 8) 4) (dbl ((crc_shift poly ^^ 8) 2) (dbl ((crc_shift poly ^^ 8) 1) [0])))))))"
  using table_double [of 0 poly] table_double [of 1 poly] table_double [of 2 poly] table_double [of 3 poly]
    table_double [of 4 poly] table_double [of 5 poly] table_double [of 6 poly] table_double [of 7 poly]
  by (simp add: crc_table_of_def crc_shift_zero upt_0_Suc_0 del: funpow.simps upt_rec_numeral upt_Suc)

lemma CRC_TABLE_ok: "CRC_TABLE = crc_table_of poly_ieee"
  unfolding crc_table_of_dbl
  by (simp add: funpow_8 crc_shift_def dbl_def CRC_TABLE_def CRC_TABLE_lo_def CRC_TABLE_hi_def)

lemma T_ok: "T = crc_table_of poly_castagnoli"
  unfolding crc_table_of_dbl
  by (simp add: funpow_8 crc_shift_def dbl_def T_def)

subsection \<open>The table-driven loop is the bitwise check\<close>

lemma crc_table_of_nth: "i < 256 \<Longrightarrow> crc_table_of poly ! i = (crc_shift poly ^^ 8) (of_nat i)"
  by (simp add: crc_table_of_def del: upt_rec_numeral)

lemma low_octet: "unat ((c :: 32 word) AND 0xff) < 256" "of_nat (unat (c AND 0xff)) = c AND 0xff"
proof -
  have "(c AND 0xff) = take_bit 8 c" using take_bit_eq_mask [of 8 c] by (simp add: mask_eq_exp_minus_1)
  then have "unat (c AND 0xff) = take_bit 8 (unat c)" by (simp add: unsigned_take_bit_eq)
  then show "unat (c AND 0xff) < 256" using take_bit_nat_less_exp [of 8 "unat c"] by simp
qed simp

lemma drop_octet: "drop_bit 8 (ucast (b :: byte) :: 32 word) = 0"
  by (rule bit_word_eqI) (auto simp: bit_simps dest: bit_imp_le_length)

lemma crc_table_step_octet: "crc_table_step (crc_table_of poly) c b = crc_octet poly c b"
  using crc_shift_8_table [of poly "c XOR ucast b"] low_octet [of "c XOR ucast b"]
  by (simp add: crc_table_step_def crc_octet_def crc_table_of_nth drop_octet)

lemma crc_table_step_fun: "crc_table_step (crc_table_of poly) = crc_octet poly"
  by (intro ext) (rule crc_table_step_octet)

lemma crc32_word: "crc32 b = sint (crc_reference poly_ieee b)"
  by (simp only: crc32_def crc_reference_def CRC_TABLE_ok crc_table_step_fun)

lemma crc32C_word: "crc32C b = uint (crc_reference poly_castagnoli b)"
  using uint_lt2p [of "crc_reference poly_castagnoli b"]
  by (simp add: crc32C_def crc32C_raw_def crc_reference_def T_ok crc_table_step_fun take_bit_int_eq_self)

lemma crc32C_range: "0 \<le> crc32C b" "crc32C b < 2 ^ 32"
  using uint_lt2p [of "crc_reference poly_castagnoli b"] by (simp_all add: crc32C_word)

subsection \<open>A changed octet changes the checksum\<close>

lemma xor_right_cancel: "a XOR c = b XOR c \<longleftrightarrow> a = b" for a b c :: "32 word"
  by (metis xor.assoc xor.right_neutral xor_self_eq)

lemma xor_left_cancel: "c XOR a = c XOR b \<longleftrightarrow> a = b" for a b c :: "32 word"
  by (metis xor.assoc xor.left_neutral xor_self_eq)

lemma crc_shift_top: "bit poly 31 \<Longrightarrow> bit (crc_shift poly c) 31 \<longleftrightarrow> bit c 0"
  by (auto simp: crc_shift_def bit_simps simp del: bit_0 dest: bit_imp_le_length)

lemma crc_shift_inj:
  assumes "bit poly 31" "crc_shift poly a = crc_shift poly b"
  shows "a = b"
proof -
  have low: "bit a 0 = bit b 0" using crc_shift_top [OF assms(1)] assms(2) by metis
  then have "drop_bit 1 a = drop_bit 1 b"
    using assms(2) by (auto simp: crc_shift_def xor_right_cancel simp del: bit_0 split: if_splits)
  then have "bit a n = bit b n" for n
    using low by (cases n) (metis, metis bit_drop_bit_eq comp_apply plus_1_eq_Suc)
  then show ?thesis by (rule bit_word_eqI)
qed

lemma crc_octet_inj:
  assumes "bit poly 31" "crc_octet poly c a = crc_octet poly d b"
  shows "c XOR ucast a = d XOR (ucast b :: 32 word)"
proof -
  have "(crc_shift poly ^^ n) x = (crc_shift poly ^^ n) y \<Longrightarrow> x = y" for n x y
    by (induction n) (auto dest: crc_shift_inj [OF assms(1)])
  with assms(2) show ?thesis unfolding crc_octet_def by blast
qed

lemma crc_suffix_inj:
  assumes "bit poly 31" "foldl (crc_octet poly) c ys = foldl (crc_octet poly) d ys"
  shows "c = d"
  using assms(2)
proof (induction ys arbitrary: c d)
  case (Cons y ys)
  then have "crc_octet poly c y = crc_octet poly d y" by simp
  then show ?case using crc_octet_inj [OF assms(1)] by (metis xor_right_cancel)
qed simp

lemma ucast_octet_inj:
  assumes "ucast a = (ucast b :: 32 word)"
  shows "a = (b :: byte)"
proof (rule bit_word_eqI)
  fix n assume n: "n < LENGTH(8)"
  have "bit (ucast a :: 32 word) n = bit (ucast b :: 32 word) n" by (simp only: assms)
  then show "bit a n = bit b n" using n by (simp add: bit_ucast_iff)
qed

lemma crc_detects_octet:
  assumes "bit poly 31" "crc_reference poly (xs @ a # ys) = crc_reference poly (xs @ b # ys)"
  shows "a = b"
proof -
  let ?c = "foldl (crc_octet poly) (- 1) xs"
  have "foldl (crc_octet poly) (crc_octet poly ?c a) ys = foldl (crc_octet poly) (crc_octet poly ?c b) ys"
    using assms(2) by (simp add: crc_reference_def)
  then have "crc_octet poly ?c a = crc_octet poly ?c b" by (rule crc_suffix_inj [OF assms(1)])
  then have "ucast a = (ucast b :: 32 word)" using crc_octet_inj [OF assms(1)] by (metis xor_left_cancel)
  then show ?thesis by (rule ucast_octet_inj)
qed

subsection \<open>Properties\<close>

text \<open>C4: The table-driven CRC32C of a record batch equals the bitwise cyclic redundancy check with the
  reflected Castagnoli polynomial, register initially and finally inverted, for every buffer; it is
  an unsigned 32-bit number.\<close>

theorem crc32C_is_castagnoli: "crc32C b = uint (crc_reference poly_castagnoli b)"
  by (rule crc32C_word)

text \<open>The table-driven CRC32 of a message equals the bitwise cyclic redundancy check with the
  reflected IEEE polynomial, as a signed 32-bit number.\<close>

theorem crc32_is_ieee: "crc32 b = sint (crc_reference poly_ieee b)"
  by (rule crc32_word)

text \<open>Both checksums change whenever exactly one octet of the data is changed.\<close>

theorem crc_detects_changed_octet:
  assumes "a \<noteq> b"
  shows "crc32C (xs @ a # ys) \<noteq> crc32C (xs @ b # ys) \<and> crc32 (xs @ a # ys) \<noteq> crc32 (xs @ b # ys)"
  using assms crc_detects_octet [of poly_castagnoli xs a ys b] crc_detects_octet [of poly_ieee xs a ys b]
  by (auto simp: crc32C_word crc32_word bit_simps dest: unsigned_word_eqI signed_word_eqI)

theorem crc_detects_changed_octet_witness: "crc32C [1, 2, 3] \<noteq> crc32C [1, 7, 3] \<and> crc32 [1, 2, 3] \<noteq> crc32 [1, 7, 3]"
  using crc_detects_changed_octet [of 2 7 "[1]" "[3]"] by simp

end
