(* ===== verification/Js_Double.thy ===== *)
theory Js_Double
  imports Js_Number
begin

text \<open>
  Integers stored in a JavaScript number: the nearest double, ties to the even significand. Up to
  two to the power of 53 every integer is its own double.
\<close>

definition round_mag :: "nat \<Rightarrow> nat" where
  "round_mag n =
     (let e = bit_length n - 53; q = n div 2 ^ e; r = n mod 2 ^ e
      in if 2 * r > 2 ^ e \<or> 2 * r = 2 ^ e \<and> odd q then (q + 1) * 2 ^ e else q * 2 ^ e)"

definition to_double :: "int \<Rightarrow> int" where
  "to_double v = sgn v * int (round_mag (nat \<bar>v\<bar>))"

lemma bit_length_mono_bound: "n < 2 ^ k \<Longrightarrow> bit_length n \<le> k"
proof (induction n arbitrary: k rule: bit_length.induct)
  case (1 n)
  show ?case
  proof (cases "n = 0")
    case False
    then obtain j where k: "k = Suc j" using "1.prems" by (cases k) auto
    then have "n div 2 < 2 ^ j" using "1.prems" by (simp add: less_mult_imp_div_less ac_simps)
    then have "bit_length (n div 2) \<le> j" using 1 False by blast
    then show ?thesis using False k by (simp add: bit_length.simps [of n])
  qed (simp add: bit_length.simps)
qed

lemma round_mag_exact: "n < 2 ^ 53 \<Longrightarrow> round_mag n = n"
  using bit_length_mono_bound [of n 53] by (simp add: round_mag_def Let_def)

lemma to_double_exact: "\<bar>v\<bar> < 2 ^ 53 \<Longrightarrow> to_double v = v"
  using round_mag_exact [of "nat \<bar>v\<bar>"]
  by (simp add: to_double_def nat_less_iff) (metis mult_sgn_abs mult.commute)

end
