(* ===== verification/Message_Set.thy ===== *)
theory Message_Set
  imports Wire_Codec Compression Crc Js_Double
begin

text \<open>
  The message format of Kafka before 0.11: \<^verbatim>\<open>src/protocol/message\<close> (versions 0 and 1) and
  \<^verbatim>\<open>src/protocol/messageSet\<close>. The two decoding loops run until the offset passes the end; a
  negative length inside a message moves the offset back, so they are not total and carry a fuel:
  \<open>None\<close> means that the loop has not ended within the given number of iterations. For sets that the
  encoder wrote, one iteration per message and one more is shown to be enough.
\<close>

subsection \<open>Encoding\<close>

record message_data =
  msg_compression :: "int option"
  msg_timestamp :: "int option"
  msg_key :: bytes_value
  msg_value :: bytes_value

definition msg_attributes :: "message_data \<Rightarrow> int" where
  "msg_attributes m =
     js_and (case msg_compression m of None \<Rightarrow> Types_None | Some c \<Rightarrow> c) COMPRESSION_CODEC_MASK"

definition sealed :: "encoder result \<Rightarrow> encoder result" where \<comment> \<open>the checksum in front of the content\<close>
  "sealed content =
     rbind content (\<lambda>c. rbind new_Encoder
       (chain [writeInt32 (crc32 (Encoder_buffer c)), writeEncoder (ElEncoder c)]))"

definition MessageV0 :: "message_data \<Rightarrow> encoder result" where
  "MessageV0 m =
     sealed (rbind new_Encoder (chain [
       writeInt8 0, writeInt8 (msg_attributes m), writeBytes (msg_key m), writeBytes (msg_value m)]))"

definition MessageV1 :: "int \<Rightarrow> message_data \<Rightarrow> encoder result" where \<comment> \<open>\<open>now\<close> is \<open>Date.now()\<close>\<close>
  "MessageV1 now m =
     sealed (rbind new_Encoder (chain [
       writeInt8 1, writeInt8 (msg_attributes m),
       writeInt64 (case msg_timestamp m of None \<Rightarrow> now | Some t \<Rightarrow> t),
       writeBytes (msg_key m), writeBytes (msg_value m)]))"

definition MessageProtocol :: "int \<Rightarrow> int \<Rightarrow> message_data \<Rightarrow> encoder result" where
  "MessageProtocol now version m =
     (if version = 0 then MessageV0 m else if version = 1 then MessageV1 now m
      else Inl JsTypeError)" \<comment> \<open>calling \<open>undefined\<close>\<close>

text \<open>One turn of \<^verbatim>\<open>entries.forEach((entry, i) => ...)\<close>.\<close>

definition write_entry :: "int \<Rightarrow> int \<Rightarrow> bool \<Rightarrow> nat \<Rightarrow> message_data \<Rightarrow> writer" where
  "write_entry now version isCompressed i entry e =
     rbind (MessageProtocol now version entry) (\<lambda>message.
       chain [writeInt64 (if isCompressed then int i else - 1), writeInt32 (int (Encoder_size message)),
              writeEncoder (ElEncoder message)] e)"

definition MessageSet :: "int \<Rightarrow> int \<Rightarrow> int option \<Rightarrow> message_data list \<Rightarrow> encoder result" where
  "MessageSet now version compression entries =
     (let isCompressed = (compression \<noteq> Some Types_None)
      in rbind new_Encoder
           (chain (map (\<lambda>(i, entry). write_entry now version isCompressed i entry) (enumerate 0 entries))))"

subsection \<open>Decoding\<close>

record decoded_message =
  m_offset :: int
  m_size :: int
  m_crc :: int
  m_magicByte :: int
  m_attributes :: int
  m_timestamp :: "int option"
  m_key :: "buffer option"
  m_value :: "buffer option"

definition V0Decoder :: "(int \<times> int option \<times> buffer option \<times> buffer option) reader" where
  "V0Decoder = rd_bind readInt8 (\<lambda>a. rd_bind readBytes (\<lambda>k. rd_bind readBytes (\<lambda>v. rd_return (a, None, k, v))))"

definition V1Decoder :: "(int \<times> int option \<times> buffer option \<times> buffer option) reader" where
  "V1Decoder = rd_bind readInt8 (\<lambda>a. rd_bind readInt64 (\<lambda>t. rd_bind readBytes (\<lambda>k. rd_bind readBytes (\<lambda>v.
     rd_return (a, Some t, k, v)))))"

definition decodeMessage :: "int \<Rightarrow> (int \<times> int option \<times> buffer option \<times> buffer option) reader" where
  "decodeMessage magic =
     (if magic = 0 then V0Decoder else if magic = 1 then V1Decoder
      else rd_throw KafkaJSUnsupportedMagicByteInMessageSet)"

definition MessageDecoder :: "int \<Rightarrow> int \<Rightarrow> decoded_message reader" where
  "MessageDecoder off sz d =
     (let remainingBytes = int (length (dec_buf (Decoder_slice sz d)))
      in if remainingBytes < sz then Inl KafkaJSPartialMessageError
         else rd_bind readInt32 (\<lambda>crc. rd_bind readInt8 (\<lambda>magic. rd_bind (decodeMessage magic) (\<lambda>(a, t, k, v).
           rd_return \<lparr>m_offset = off, m_size = sz, m_crc = crc, m_magicByte = magic, m_attributes = a,
                      m_timestamp = t, m_key = k, m_value = v\<rparr>))) d)"

definition EntryDecoder :: "decoded_message reader" where
  "EntryDecoder d =
     (if \<not> canReadInt64 d then Inl KafkaJSPartialMessageError
      else rd_bind readInt64 (\<lambda>off d.
             if \<not> canReadInt32 d then Inl KafkaJSPartialMessageError
             else rd_bind readInt32 (\<lambda>sz. MessageDecoder off sz) d) d)"

fun entries_loop :: "nat \<Rightarrow> decoded_message list \<Rightarrow> decoder \<Rightarrow> decoded_message list result option" where
  "entries_loop 0 messages d = None"
| "entries_loop (Suc fuel) messages d =
     (if dec_offset d < int (length (dec_buf d))
      then case EntryDecoder d of
             Inl err \<Rightarrow> Some (Inl err)
           | Inr (m, d') \<Rightarrow> entries_loop fuel (messages @ [m]) d'
      else Some (Inr messages))"

text \<open>
  Subtracting two \<^verbatim>\<open>Long\<close> objects converts both to numbers, so the difference is computed with
  doubles.
\<close>

definition rebase :: "decoded_message \<Rightarrow> decoded_message list \<Rightarrow> decoded_message list result" where
  "rebase compressed messages =
     (if m_magicByte compressed > 0 \<and> m_offset compressed \<ge> 0
      then if messages = [] then Inl JsTypeError
           else let baseOffset = to_double (to_double (m_offset compressed) - to_double (m_offset (last messages)))
                in Inr (map (\<lambda>m. m\<lparr>m_offset := Long_add (m_offset m) baseOffset\<rparr>) messages)
      else Inr messages)"

definition EntriesDecoder :: "nat \<Rightarrow> decoder \<Rightarrow> decoded_message \<Rightarrow> decoded_message list result option" where
  "EntriesDecoder fuel d compressed =
     map_option (\<lambda>r. rbind r (rebase compressed)) (entries_loop fuel [] d)"

definition expand_message ::
    "nat \<Rightarrow> codec_registry \<Rightarrow> decoded_message \<Rightarrow> decoded_message list result option" where
  "expand_message fuel codecs m =
     (case lookupCodecByAttributes codecs (m_attributes m) of
        Inl err \<Rightarrow> Some (Inl err)
      | Inr None \<Rightarrow> Some (Inr [m])
      | Inr (Some codec) \<Rightarrow>
          (case m_value m of
             None \<Rightarrow> Some (Inl JsTypeError)
           | Some v \<Rightarrow>
               (case codec_decompress codec v of
                  Inl err \<Rightarrow> Some (Inl err)
                | Inr b \<Rightarrow> EntriesDecoder fuel (new_Decoder b) m)))"

text \<open>A partial message or an unknown magic byte ends the loop; other errors are rethrown.\<close>

definition ends_set :: "js_error \<Rightarrow> bool" where
  "ends_set err \<longleftrightarrow> err = KafkaJSPartialMessageError \<or> err = KafkaJSUnsupportedMagicByteInMessageSet"

fun message_set_loop ::
    "nat \<Rightarrow> codec_registry \<Rightarrow> int \<Rightarrow> decoded_message list \<Rightarrow> decoder \<Rightarrow> decoded_message list result option" where
  "message_set_loop 0 codecs setSize messages d = None"
| "message_set_loop (Suc fuel) codecs setSize messages d =
     (if dec_offset d < setSize
      then case EntryDecoder d of
             Inl err \<Rightarrow> Some (if ends_set err then Inr messages else Inl err)
           | Inr (m, d') \<Rightarrow>
               (case expand_message fuel codecs m of
                  None \<Rightarrow> None
                | Some (Inl err) \<Rightarrow> Some (if ends_set err then Inr messages else Inl err)
                | Some (Inr ms) \<Rightarrow> message_set_loop fuel codecs setSize (messages @ ms) d')
      else Some (Inr messages))"

definition MessageSetDecoder ::
    "nat \<Rightarrow> codec_registry \<Rightarrow> int option \<Rightarrow> decoder \<Rightarrow> (decoded_message list \<times> decoder) result option" where
  "MessageSetDecoder fuel codecs sz primary =
     (case (case sz of Some n \<Rightarrow> if n \<noteq> 0 then Inr (n, primary) else readInt32 primary
                     | None \<Rightarrow> readInt32 primary) of
        Inl err \<Rightarrow> Some (Inl err)
      | Inr (setSize, primary') \<Rightarrow>
          map_option (\<lambda>r. rbind r (\<lambda>messages. Inr (messages, Decoder_forward setSize primary')))
            (message_set_loop fuel codecs setSize [] (Decoder_slice setSize primary')))"

subsection \<open>The wire format\<close>

definition wire_content :: "int \<Rightarrow> int \<Rightarrow> message_data \<Rightarrow> buffer" where
  "wire_content now version m =
     be_bytes 1 version @ be_bytes 1 (msg_attributes m) @
     (if version = 0 then [] else be_bytes 8 (case msg_timestamp m of None \<Rightarrow> now | Some t \<Rightarrow> t)) @
     wire_bytes (bytes_of (msg_key m)) @ wire_bytes (bytes_of (msg_value m))"

definition wire_message :: "int \<Rightarrow> int \<Rightarrow> message_data \<Rightarrow> buffer" where
  "wire_message now version m =
     be_bytes 4 (crc32 (wire_content now version m)) @ wire_content now version m"

definition wire_entry :: "int \<Rightarrow> int \<Rightarrow> int \<Rightarrow> message_data \<Rightarrow> buffer" where
  "wire_entry now version off m =
     be_bytes 8 off @ be_bytes 4 (int (length (wire_message now version m))) @ wire_message now version m"

definition message_ok :: "int \<Rightarrow> int \<Rightarrow> message_data \<Rightarrow> bool" where
  "message_ok now version m \<longleftrightarrow>
     (version = 0 \<or> version = 1 \<and> int_range 64 (case msg_timestamp m of None \<Rightarrow> now | Some t \<Rightarrow> t)) \<and>
     length (wire_message now version m) < 2 ^ 30"

lemma crc32_range: "int_range 32 (crc32 b)"
  using sint_range_size [of "crc_reference poly_ieee b"] by (simp add: crc32_word word_size)

lemma msg_attributes_range: "int_range 8 (msg_attributes m)"
proof -
  have "0 \<le> x mod 8 \<and> x mod 8 < 8" for x :: int by simp
  then show ?thesis unfolding msg_attributes_def js_and_7 int_range_numeral by (smt (verit))
qed

lemma message_bounds:
  assumes "message_ok now version m"
  shows "bytes_ok 2147483648 (bytes_of (msg_key m))" "bytes_ok 2147483648 (bytes_of (msg_value m))"
    "length (wire_content now version m) < 2 ^ 30"
proof -
  have small: "bytes_ok 2147483648 v" if "length (wire_bytes v) < 2 ^ 30" for v
    using that by (auto simp: bytes_ok_def wire_bytes_def split: option.splits)
  show len: "length (wire_content now version m) < 2 ^ 30"
    using assms by (simp add: message_ok_def wire_message_def)
  then have "length (wire_bytes (bytes_of (msg_key m))) < 2 ^ 30" "length (wire_bytes (bytes_of (msg_value m))) < 2 ^ 30"
    by (simp_all add: wire_content_def)
  then show "bytes_ok 2147483648 (bytes_of (msg_key m))" "bytes_ok 2147483648 (bytes_of (msg_value m))"
    by (blast intro: small)+
qed

lemma sealed_eq:
  assumes "appends w c" "length c + 4 < 2 ^ 30"
  obtains e where "sealed (rbind new_Encoder w) = Inr e" "enc_ok e" "Encoder_buffer e = be_bytes 4 (crc32 c) @ c"
proof -
  obtain x where x: "rbind new_Encoder w = Inr x" "Encoder_buffer x = c"
    using appends_new_Encoder [OF assms(1)] assms(2) by (metis add_lessD1)
  have app: "appends (chain [writeInt32 (crc32 (Encoder_buffer x)), writeEncoder (ElEncoder x)]) (be_bytes 4 (crc32 c) @ c)"
    using chain_prefix2 [OF appends_writeInt32 [OF crc32_range] appends_writeEncoder, of c x] x(2) by simp
  have "length (be_bytes 4 (crc32 c) @ c) < 2 ^ 30" using assms(2) by simp
  from appends_new_Encoder [OF app this] show thesis
    using that unfolding sealed_def x(1) rbind_Inr by metis
qed

lemma MessageProtocol_eq:
  assumes "message_ok now version m"
  obtains e where "MessageProtocol now version m = Inr e" "enc_ok e" "Encoder_buffer e = wire_message now version m"
proof -
  note kv = message_bounds(1,2) [OF assms] and a = msg_attributes_range [of m]
  have len: "length (wire_content now version m) + 4 < 2 ^ 30"
    using assms by (simp add: message_ok_def wire_message_def)
  consider "version = 0" | "version = 1" "int_range 64 (case msg_timestamp m of None \<Rightarrow> now | Some t \<Rightarrow> t)"
    using assms unfolding message_ok_def by blast
  then show thesis
  proof cases
    case 1
    have "appends (chain [writeInt8 0, writeInt8 (msg_attributes m), writeBytes (msg_key m), writeBytes (msg_value m)])
        (be_bytes 1 0 @ be_bytes 1 (msg_attributes m) @ wire_bytes (bytes_of (msg_key m)) @ wire_bytes (bytes_of (msg_value m)))"
      using kv a by (intro appends_chain_Cons appends_chain_single appends_writeInt8 appends_writeBytes) simp_all
    from sealed_eq [OF this] len that 1 show thesis
      by (simp add: MessageProtocol_def MessageV0_def wire_message_def wire_content_def del: chain.simps) metis
  next
    case 2
    have "appends (chain [writeInt8 1, writeInt8 (msg_attributes m),
          writeInt64 (case msg_timestamp m of None \<Rightarrow> now | Some t \<Rightarrow> t), writeBytes (msg_key m), writeBytes (msg_value m)])
        (be_bytes 1 1 @ be_bytes 1 (msg_attributes m) @ be_bytes 8 (case msg_timestamp m of None \<Rightarrow> now | Some t \<Rightarrow> t) @
         wire_bytes (bytes_of (msg_key m)) @ wire_bytes (bytes_of (msg_value m)))"
      using kv a 2(2)
      by (intro appends_chain_Cons appends_chain_single appends_writeInt8 appends_writeInt64 appends_writeBytes)
        (simp_all del: int_range_numeral(4))
    from sealed_eq [OF this] len that 2(1) show thesis
      by (simp add: MessageProtocol_def MessageV1_def wire_message_def wire_content_def del: chain.simps) metis
  qed
qed

lemma appends_write_entry:
  assumes "message_ok now version m" "i < 2147483648"
  shows "appends (write_entry now version isCompressed i m)
    (wire_entry now version (if isCompressed then int i else - 1) m)"
proof -
  obtain e where e: "MessageProtocol now version m = Inr e" "enc_ok e" "Encoder_buffer e = wire_message now version m"
    using MessageProtocol_eq [OF assms(1)] .
  have sz: "Encoder_size e = length (wire_message now version m)"
    using length_Encoder_buffer [OF e(2)] e(3) by (simp add: Encoder_size_def)
  have "appends (chain [writeInt64 (if isCompressed then int i else - 1), writeInt32 (int (Encoder_size e)),
      writeEncoder (ElEncoder e)]) (wire_entry now version (if isCompressed then int i else - 1) m)"
    unfolding wire_entry_def sz e(3) [symmetric]
    using assms by (intro appends_chain_Cons appends_chain_single appends_writeInt64 appends_writeInt32 appends_writeEncoder)
      (simp_all add: message_ok_def e(3))
  then show ?thesis by (simp add: write_entry_def [abs_def] e(1) del: chain.simps)
qed

definition entry_offset :: "int option \<Rightarrow> nat \<Rightarrow> int" where
  "entry_offset compression i = (if compression \<noteq> Some Types_None then int i else - 1)"

definition wire_message_set :: "int \<Rightarrow> int \<Rightarrow> int option \<Rightarrow> message_data list \<Rightarrow> buffer" where
  "wire_message_set now version compression ms =
     concat (map (\<lambda>(i, m). wire_entry now version (entry_offset compression i) m) (enumerate 0 ms))"

lemma MessageSet_eq:
  assumes "list_all (message_ok now version) ms" "length ms < 2147483648"
    "length (wire_message_set now version compression ms) < 2 ^ 30"
  obtains e where "MessageSet now version compression ms = Inr e"
    "Encoder_buffer e = wire_message_set now version compression ms"
    "Encoder_size e = length (wire_message_set now version compression ms)"
proof -
  have "appends (chain (map (\<lambda>(i, m). write_entry now version (compression \<noteq> Some Types_None) i m) (enumerate 0 ms)))
      (wire_message_set now version compression ms)"
    unfolding wire_message_set_def
  proof (rule appends_chain_concat)
    fix x assume "x \<in> set (enumerate 0 ms)"
    then have f: "fst x < length ms" "snd x = ms ! fst x" by (simp_all add: in_set_enumerate_eq)
    then obtain i m where x: "x = (i, m)" "i < length ms" "m = ms ! i" by (metis prod.collapse)
    then have "message_ok now version m" using assms(1) by (simp add: list_all_length)
    then show "appends (case x of (i, m) \<Rightarrow> write_entry now version (compression \<noteq> Some Types_None) i m)
        (case x of (i, m) \<Rightarrow> wire_entry now version (entry_offset compression i) m)"
      using appends_write_entry [of now version m i] x assms(2) by (simp add: entry_offset_def)
  qed
  from appends_new_Encoder [OF this assms(3)] that show thesis
    unfolding MessageSet_def Let_def by metis
qed

subsection \<open>Reading entries back\<close>

definition decoded_entry :: "int \<Rightarrow> int \<Rightarrow> int \<Rightarrow> message_data \<Rightarrow> decoded_message" where
  "decoded_entry now version off m =
     \<lparr>m_offset = off, m_size = int (length (wire_message now version m)), m_crc = crc32 (wire_content now version m),
      m_magicByte = version, m_attributes = msg_attributes m,
      m_timestamp = (if version = 0 then None else Some (case msg_timestamp m of None \<Rightarrow> now | Some t \<Rightarrow> t)),
      m_key = bytes_of (msg_key m), m_value = bytes_of (msg_value m)\<rparr>"

lemma reads_message_fields:
  assumes "message_ok now version m"
  shows "reads (rd_bind readInt8 (\<lambda>magic. rd_bind (decodeMessage magic) (\<lambda>(a, t, k, v). rd_return (f magic a t k v))))
    (wire_content now version m)
    (f version (msg_attributes m) (if version = 0 then None else Some (case msg_timestamp m of None \<Rightarrow> now | Some t \<Rightarrow> t))
      (bytes_of (msg_key m)) (bytes_of (msg_value m)))"
proof -
  note kv = reads_readBytes [OF message_bounds(1) [OF assms]] reads_readBytes [OF message_bounds(2) [OF assms]]
  note a = reads_readInt8 [OF msg_attributes_range [of m]]
  consider "version = 0" | "version = 1" "int_range 64 (case msg_timestamp m of None \<Rightarrow> now | Some t \<Rightarrow> t)"
    using assms unfolding message_ok_def by blast
  then show ?thesis
  proof cases
    case 1
    have "reads V0Decoder (be_bytes 1 (msg_attributes m) @ wire_bytes (bytes_of (msg_key m)) @ wire_bytes (bytes_of (msg_value m)))
        (msg_attributes m, None, bytes_of (msg_key m), bytes_of (msg_value m))"
      unfolding V0Decoder_def by (rule reads_bind [OF a] reads_bind [OF kv(1)])+ (rule reads_bind_return [OF kv(2)], simp)
    then have "reads (rd_bind (decodeMessage 0) (\<lambda>(a, t, k, v). rd_return (f 0 a t k v)))
        (be_bytes 1 (msg_attributes m) @ wire_bytes (bytes_of (msg_key m)) @ wire_bytes (bytes_of (msg_value m)))
        (f 0 (msg_attributes m) None (bytes_of (msg_key m)) (bytes_of (msg_value m)))"
      by (simp add: decodeMessage_def split_def reads_bind_return)
    then show ?thesis unfolding wire_content_def 1
      using reads_bind [OF reads_readInt8 [of 0]] by simp
  next
    case 2
    note t = reads_readInt64 [OF 2(2)]
    let ?bs = "be_bytes 1 (msg_attributes m) @ be_bytes 8 (case msg_timestamp m of None \<Rightarrow> now | Some t \<Rightarrow> t) @
        wire_bytes (bytes_of (msg_key m)) @ wire_bytes (bytes_of (msg_value m))"
    have "reads V1Decoder ?bs (msg_attributes m, Some (case msg_timestamp m of None \<Rightarrow> now | Some t \<Rightarrow> t),
        bytes_of (msg_key m), bytes_of (msg_value m))"
      unfolding V1Decoder_def
      by (rule reads_bind [OF a] reads_bind [OF t] reads_bind [OF kv(1)])+ (rule reads_bind_return [OF kv(2)], simp)
    then have "reads (rd_bind (decodeMessage 1) (\<lambda>(a, t, k, v). rd_return (f 1 a t k v))) ?bs
        (f 1 (msg_attributes m) (Some (case msg_timestamp m of None \<Rightarrow> now | Some t \<Rightarrow> t))
          (bytes_of (msg_key m)) (bytes_of (msg_value m)))"
      by (simp add: decodeMessage_def split_def reads_bind_return)
    then show ?thesis unfolding wire_content_def 2(1)
      using reads_bind [OF reads_readInt8 [of 1]] by simp
  qed
qed

lemma canRead_dec_at:
  "canReadInt64 (dec_at pre bs) \<longleftrightarrow> 8 \<le> length bs" "canReadInt32 (dec_at pre bs) \<longleftrightarrow> 4 \<le> length bs"
  by (auto simp: canReadInt64_def canReadInt32_def canReadBytes_def dec_at_def)

lemma rd_bind_dec_at: "reads m x v \<Longrightarrow> rd_bind m f (dec_at pre (x @ y)) = f v (dec_at (pre @ x) y)"
  by (simp add: reads_def rd_bind_def)

lemma reads_EntryDecoder:
  assumes "message_ok now version m" "int_range 64 off"
  shows "reads EntryDecoder (wire_entry now version off m) (decoded_entry now version off m)"
  unfolding reads_def
proof (intro allI)
  fix pre post
  let ?w = "wire_message now version m" and ?c = "wire_content now version m"
  let ?sz = "int (length ?w)"
  let ?d = "dec_at ((pre @ be_bytes 8 off) @ be_bytes 4 ?sz) (?w @ post)"
  have sz: "reads readInt32 (be_bytes 4 ?sz) ?sz"
    using assms(1) by (intro reads_readInt32) (simp add: message_ok_def)
  note off = reads_readInt64 [OF assms(2)] and crc = reads_readInt32 [OF crc32_range [of ?c]]
  have slice: "\<not> int (length (dec_buf (Decoder_slice ?sz ?d))) < ?sz"
    by (simp add: Decoder_slice_def new_Decoder_def dec_at_def buf_slice_within)
  have "reads (rd_bind readInt32 (\<lambda>crc. rd_bind readInt8 (\<lambda>magic. rd_bind (decodeMessage magic) (\<lambda>(a, t, k, v).
           rd_return \<lparr>m_offset = off, m_size = ?sz, m_crc = crc, m_magicByte = magic, m_attributes = a,
                      m_timestamp = t, m_key = k, m_value = v\<rparr>)))) ?w (decoded_entry now version off m)"
    unfolding wire_message_def [of now version m] decoded_entry_def
    by (rule reads_bind [OF crc]) (rule reads_message_fields [OF assms(1)])
  then have msg: "MessageDecoder off ?sz ?d = Inr (decoded_entry now version off m, dec_at (pre @ wire_entry now version off m) post)"
    unfolding MessageDecoder_def Let_def if_not_P [OF slice] using readsD [of _ ?w _ "(pre @ be_bytes 8 off) @ be_bytes 4 ?sz" post]
    by (simp add: wire_entry_def)
  have "wire_entry now version off m @ post = be_bytes 8 off @ be_bytes 4 ?sz @ ?w @ post" by (simp add: wire_entry_def)
  then show "EntryDecoder (dec_at pre (wire_entry now version off m @ post)) =
      Inr (decoded_entry now version off m, dec_at (pre @ wire_entry now version off m) post)"
    using msg by (simp add: EntryDecoder_def canRead_dec_at rd_bind_dec_at [OF off] rd_bind_dec_at [OF sz])
qed

text \<open>Enough fuel: one iteration per entry and one to notice the end.\<close>

lemma entries_loop_reads:
  assumes "list_all2 (reads EntryDecoder) bss ms" "\<And>b. b \<in> set bss \<Longrightarrow> b \<noteq> []" "length ms < fuel"
  shows "entries_loop fuel acc (dec_at pre (concat bss)) = Some (Inr (acc @ ms))"
  using assms
proof (induction bss arbitrary: ms fuel acc pre)
  case Nil
  then show ?case by (cases fuel) (simp_all add: dec_at_def)
next
  case (Cons b bss)
  then obtain m ms' where ms: "ms = m # ms'" "reads EntryDecoder b m" "list_all2 (reads EntryDecoder) bss ms'"
    by (auto simp: list_all2_Cons1)
  obtain fuel' where f: "fuel = Suc fuel'" "length ms' < fuel'" using Cons.prems(3) ms(1) by (cases fuel) auto
  have "0 < length b" using Cons.prems(2) by simp
  then have more: "dec_offset (dec_at pre (b @ concat bss)) < int (length (dec_buf (dec_at pre (b @ concat bss))))"
    by (cases b) (simp_all add: dec_at_def)
  have "entries_loop fuel' (acc @ [m]) (dec_at (pre @ b) (concat bss)) = Some (Inr ((acc @ [m]) @ ms'))"
    using Cons.prems(2) ms(3) f(2) by (intro Cons.IH) auto
  then show ?case using more readsD [OF ms(2), of pre "concat bss"] by (simp add: f(1) ms(1))
qed

lemma message_set_loop_reads:
  assumes "list_all2 (reads EntryDecoder) bss ms" "\<And>b. b \<in> set bss \<Longrightarrow> b \<noteq> []" "length ms < fuel"
    "\<And>m. m \<in> set ms \<Longrightarrow> lookupCodecByAttributes codecs (m_attributes m) = Inr None"
    "setSize = int (length pre + length (concat bss))"
  shows "message_set_loop fuel codecs setSize acc (dec_at pre (concat bss)) = Some (Inr (acc @ ms))"
  using assms
proof (induction bss arbitrary: ms fuel acc pre)
  case Nil
  then show ?case by (cases fuel) (simp_all add: dec_at_def)
next
  case (Cons b bss)
  then obtain m ms' where ms: "ms = m # ms'" "reads EntryDecoder b m" "list_all2 (reads EntryDecoder) bss ms'"
    by (auto simp: list_all2_Cons1)
  obtain fuel' where f: "fuel = Suc fuel'" "length ms' < fuel'" using Cons.prems(3) ms(1) by (cases fuel) auto
  have "0 < length b" using Cons.prems(2) by simp
  then have more: "dec_offset (dec_at pre (b @ concat bss)) < setSize"
    using Cons.prems(5) by (cases b) (simp_all add: dec_at_def)
  have "expand_message fuel' codecs m = Some (Inr [m])" using Cons.prems(4) ms(1) by (simp add: expand_message_def)
  moreover have "message_set_loop fuel' codecs setSize (acc @ [m]) (dec_at (pre @ b) (concat bss)) = Some (Inr ((acc @ [m]) @ ms'))"
    using Cons.prems(2,4,5) ms f(2) by (intro Cons.IH) auto
  ultimately show ?case using more readsD [OF ms(2), of pre "concat bss"] by (simp add: f(1) ms(1))
qed

lemma wire_entry_nonempty: "wire_entry now version off m \<noteq> []"
  by (simp add: wire_entry_def flip: length_greater_0_conv)

definition decoded_set :: "int \<Rightarrow> int \<Rightarrow> int option \<Rightarrow> message_data list \<Rightarrow> decoded_message list" where
  "decoded_set now version compression ms =
     map (\<lambda>(i, m). decoded_entry now version (entry_offset compression i) m) (enumerate 0 ms)"

lemma reads_set_entries:
  assumes "list_all (message_ok now version) ms" "length ms < 2147483648"
  shows "list_all2 (reads EntryDecoder)
    (map (\<lambda>(i, m). wire_entry now version (entry_offset compression i) m) (enumerate 0 ms))
    (decoded_set now version compression ms)"
proof -
  have "reads EntryDecoder (wire_entry now version (entry_offset compression i) (ms ! i))
      (decoded_entry now version (entry_offset compression i) (ms ! i))" if "i < length ms" for i
    using that assms by (intro reads_EntryDecoder) (auto simp: list_all_length entry_offset_def)
  then show ?thesis
    by (simp add: decoded_set_def list_all2_conv_all_nth nth_enumerate_eq)
qed

subsection \<open>Properties\<close>

text \<open>C2: A message set written uncompressed and read back with its size in front yields all of its
  messages in order, with their keys, values, timestamps, attributes and checksums, and leaves the
  decoder behind the set; the decoding loop needs one iteration per message and one more.\<close>

theorem message_set_roundtrip:
  assumes "list_all (message_ok now version) ms" "length ms < 2147483648" "length ms < fuel"
    "length (wire_message_set now version (Some Types_None) ms) < 2 ^ 30" "ms \<noteq> []"
    "list_all (\<lambda>m. lookupCodecByAttributes codecs (msg_attributes m) = Inr None) ms"
  shows "\<exists>e. MessageSet now version (Some Types_None) ms = Inr e \<and>
    MessageSetDecoder fuel codecs None (new_Decoder (be_bytes 4 (int (length (Encoder_buffer e))) @ Encoder_buffer e)) =
      Some (Inr (decoded_set now version (Some Types_None) ms,
                 dec_at (be_bytes 4 (int (length (Encoder_buffer e))) @ Encoder_buffer e) []))"
proof -
  let ?s = "wire_message_set now version (Some Types_None) ms"
  let ?bss = "map (\<lambda>(i, m). wire_entry now version (entry_offset (Some Types_None) i) m) (enumerate 0 ms)"
  obtain e where e: "MessageSet now version (Some Types_None) ms = Inr e" "Encoder_buffer e = ?s"
    using MessageSet_eq [OF assms(1,2,4)] .
  have s: "?s = concat ?bss" by (simp add: wire_message_set_def)
  have "reads readInt32 (be_bytes 4 (int (length ?s))) (int (length ?s))"
    using assms(4) by (intro reads_readInt32) simp
  from readsD [OF this, of "[]" ?s]
  have size: "readInt32 (new_Decoder (be_bytes 4 (int (length ?s)) @ ?s)) =
      Inr (int (length ?s), dec_at (be_bytes 4 (int (length ?s))) ?s)"
    by (simp add: new_Decoder_dec_at)
  have slice: "Decoder_slice (int (length ?s)) (dec_at (be_bytes 4 (int (length ?s))) ?s) = dec_at [] (concat ?bss)"
    unfolding s by (simp add: Decoder_slice_def dec_at_def new_Decoder_def buf_slice_within)
  have fwd: "Decoder_forward (int (length ?s)) (dec_at (be_bytes 4 (int (length ?s))) ?s) =
      dec_at (be_bytes 4 (int (length ?s)) @ ?s) []"
    using advance_dec_at [of ?s "length ?s" _ "[]"] by (simp add: Decoder_forward_def)
  have "message_set_loop fuel codecs (int (length ?s)) [] (dec_at [] (concat ?bss)) =
      Some (Inr ([] @ decoded_set now version (Some Types_None) ms))"
  proof (rule message_set_loop_reads [OF reads_set_entries [OF assms(1,2)]])
    show "b \<noteq> []" if "b \<in> set ?bss" for b using that wire_entry_nonempty by auto
    show "length (decoded_set now version (Some Types_None) ms) < fuel" using assms(3) by (simp add: decoded_set_def)
    show "lookupCodecByAttributes codecs (m_attributes m) = Inr None"
      if "m \<in> set (decoded_set now version (Some Types_None) ms)" for m
      using that assms(6) by (auto simp: decoded_set_def decoded_entry_def list_all_length in_set_enumerate_eq)
    show "int (length ?s) = int (length [] + length (concat ?bss))" by (simp add: s)
  qed
  then show ?thesis using e size slice fwd by (simp add: MessageSetDecoder_def)
qed

definition sample_message :: message_data where
  "sample_message = \<lparr>msg_compression = None, msg_timestamp = Some 1509827481681,
     msg_key = BString ''v0-key'', msg_value = BString ''v0-value''\<rparr>"

lemma sample_message_ok: "message_ok now 1 sample_message"
  by (simp add: message_ok_def sample_message_def wire_message_def wire_content_def wire_bytes_def)

theorem message_set_roundtrip_witness:
  "\<exists>e. MessageSet 0 1 (Some Types_None) [sample_message, sample_message] = Inr e \<and>
    MessageSetDecoder 3 (\<lambda>_. None) None (new_Decoder (be_bytes 4 (int (length (Encoder_buffer e))) @ Encoder_buffer e)) =
      Some (Inr (decoded_set 0 1 (Some Types_None) [sample_message, sample_message],
                 dec_at (be_bytes 4 (int (length (Encoder_buffer e))) @ Encoder_buffer e) []))"
proof (rule message_set_roundtrip)
  show "length (wire_message_set 0 1 (Some Types_None) [sample_message, sample_message]) < 2 ^ 30"
    by (simp add: wire_message_set_def wire_entry_def wire_message_def wire_content_def sample_message_def wire_bytes_def)
qed (simp_all add: sample_message_ok lookupCodecByAttributes_def lookupCodec_def)

text \<open>The messages inside a compressed message of version 1 carry offsets counted from zero. The
  decoder turns them into the absolute offsets that end at the offset of the compressed message,
  as long as that offset is below the exact range of JavaScript numbers.\<close>

theorem compressed_set_offsets:
  assumes "list_all (message_ok now version) ms" "length ms < 2147483648" "length ms < fuel" "ms \<noteq> []"
    "compression \<noteq> Types_None" "m_magicByte outer > 0" "int (length ms) \<le> m_offset outer + 1" "m_offset outer < 2 ^ 53"
  shows "EntriesDecoder fuel (new_Decoder (wire_message_set now version (Some compression) ms)) outer =
    Some (Inr (map (\<lambda>(i, m). decoded_entry now version (m_offset outer - int (length ms - 1) + int i) m) (enumerate 0 ms)))"
proof -
  let ?ds = "decoded_set now version (Some compression) ms" and ?n = "length ms - 1"
  have "entries_loop fuel [] (dec_at [] (wire_message_set now version (Some compression) ms)) = Some (Inr ([] @ ?ds))"
    unfolding wire_message_set_def
    by (rule entries_loop_reads [OF reads_set_entries [OF assms(1,2)]])
      (use assms(3) wire_entry_nonempty in \<open>auto simp: decoded_set_def\<close>)
  moreover have ne: "?ds \<noteq> []" and len: "length ?ds = length ms"
    using assms(4) by (auto simp: decoded_set_def enumerate_eq_zip)
  moreover have "m_offset (last ?ds) = int ?n"
  proof -
    have "?ds ! ?n = decoded_entry now version (entry_offset (Some compression) ?n) (ms ! ?n)"
      using assms(4) by (simp add: decoded_set_def nth_enumerate_eq)
    then show ?thesis
      using assms(5) ne len by (simp add: last_conv_nth entry_offset_def decoded_entry_def)
  qed
  moreover have "to_double (to_double (m_offset outer) - to_double (int ?n)) = m_offset outer - int ?n"
  proof -
    have "0 \<le> int ?n" "int ?n \<le> m_offset outer" using assms(4,7) by (cases ms; simp)+
    then have "\<bar>m_offset outer\<bar> < 2 ^ 53" "\<bar>int ?n\<bar> < 2 ^ 53" "\<bar>m_offset outer - int ?n\<bar> < 2 ^ 53"
      using assms(8) by linarith+
    then show ?thesis by (simp only: to_double_exact)
  qed
  moreover have "m_offset outer \<ge> 0" using assms(4,7) by (cases ms) auto
  ultimately show ?thesis
    using assms(5,6)
    by (simp add: EntriesDecoder_def new_Decoder_dec_at rebase_def Let_def decoded_set_def Long_add_def
        decoded_entry_def entry_offset_def split_def comp_def add.commute)
qed

definition sample_outer :: decoded_message where
  "sample_outer = \<lparr>m_offset = 100, m_size = 0, m_crc = 0, m_magicByte = 1, m_attributes = 1, m_timestamp = None,
     m_key = None, m_value = None\<rparr>"

theorem compressed_set_offsets_witness:
  "EntriesDecoder 3 (new_Decoder (wire_message_set 0 1 (Some 1) [sample_message, sample_message])) sample_outer =
    Some (Inr [decoded_entry 0 1 99 sample_message, decoded_entry 0 1 100 sample_message])"
  by (subst compressed_set_offsets) (simp_all add: sample_message_ok Types_None_def sample_outer_def)

definition looping_set :: buffer where
  "looping_set = be_bytes 8 0 @ be_bytes 4 14 @ be_bytes 4 0 @ be_bytes 1 0 @ be_bytes 1 0 @ be_bytes 4 (- 1) @ be_bytes 4 (- 26)"

lemma looping_set_step:
  "\<exists>m. EntryDecoder (new_Decoder looping_set) = Inr (m, new_Decoder looping_set) \<and> m_attributes m = 0"
proof -
  have "case EntryDecoder (new_Decoder looping_set) of
      Inr (m, d) \<Rightarrow> m_attributes m = 0 \<and> d = new_Decoder looping_set | Inl _ \<Rightarrow> False"
    by code_simp
  then show ?thesis by (auto split: sum.splits)
qed

lemma looping_set_loop: "message_set_loop fuel (Codecs gzip) 26 messages (new_Decoder looping_set) = None"
proof (induction fuel arbitrary: messages)
  case (Suc fuel)
  obtain m where m: "EntryDecoder (new_Decoder looping_set) = Inr (m, new_Decoder looping_set)" "m_attributes m = 0"
    using looping_set_step by blast
  have "lookupCodecByAttributes (Codecs gzip) 0 = Inr None"
    using Codecs_None [of gzip] by (simp add: lookupCodecByAttributes_mod lookupCodec_def Types_None_def)
  then have "expand_message fuel (Codecs gzip) m = Some (Inr [m])" using m(2) by (simp add: expand_message_def)
  then show ?case using m(1) Suc by (simp add: new_Decoder_def)
qed simp

text \<open>A message whose value has a negative length other than -1 moves the decoder back to where the
  message started; the decoding loop then never ends, however often it runs.\<close>

theorem message_set_may_not_end:
  "MessageSetDecoder fuel (Codecs gzip) None (new_Decoder (be_bytes 4 26 @ looping_set)) = None"
proof -
  have "reads readInt32 (be_bytes 4 26) 26" by (rule reads_readInt32) simp
  from readsD [OF this, of "[]" looping_set]
  have "readInt32 (new_Decoder (be_bytes 4 26 @ looping_set)) = Inr (26, dec_at (be_bytes 4 26) looping_set)"
    by (simp add: new_Decoder_dec_at)
  moreover have "Decoder_slice 26 (dec_at (be_bytes 4 26) looping_set) = new_Decoder looping_set"
    by (simp add: Decoder_slice_def dec_at_def buf_slice_within looping_set_def)
  ultimately show ?thesis using looping_set_loop by (simp add: MessageSetDecoder_def)
qed

end
