(* ===== verification/Murmur2.thy ===== *)
theory Murmur2
  imports Js_Double Long Node_Buffer
begin

text \<open>
  The hash functions of the partitioners. The default one
  (\<^verbatim>\<open>src/producer/partitioners/default/murmur2.js\<close>) computes with unbounded integers and only
  truncates at the end; it is proved equal to the 32-bit murmur2 of the Java client. The legacy one
  (\<^verbatim>\<open>legacy/murmur2.js\<close>) multiplies JavaScript numbers, which rounds to doubles.
\<close>

unbundle bit_operations_syntax

subsection \<open>The default hash\<close>

definition SEED :: int where "SEED = 0x9747b28c"
definition M :: int where "M = 0x5bd1e995"
definition R :: nat where "R = 24"

text \<open>\<^verbatim>\<open>data[i] & 0xff\<close>; an index out of range reads \<^verbatim>\<open>undefined\<close>, which counts as zero.\<close>

definition octet :: "buffer \<Rightarrow> nat \<Rightarrow> int" where
  "octet data i = js_and (case byte_at data (int i) of None \<Rightarrow> 0 | Some b \<Rightarrow> b) 0xff"

definition block_k :: "buffer \<Rightarrow> nat \<Rightarrow> int" where
  "block_k data i =
     (let i4 = i * 4 in octet data (i4 + 0) + js_shl (octet data (i4 + 1)) 8 + js_shl (octet data (i4 + 2)) 16
        + js_shl (octet data (i4 + 3)) 24)"

definition mix_block :: "buffer \<Rightarrow> long \<Rightarrow> nat \<Rightarrow> long" where
  "mix_block data h i =
     (let k = block_k data i;
          k = Long_multiply k M;
          k = Long_xor k (js_ushr (Long_toInt k) R);
          k = Long_multiply k M;
          h = Long_multiply h M
      in Long_xor h k)"

definition mix_tail :: "buffer \<Rightarrow> long \<Rightarrow> long" where
  "mix_tail data h =
     (let len = length data; base = 4 * (len div 4); r = len mod 4; \<comment> \<open>\<open>length & ~3\<close>\<close>
          h = (if r = 3 then Long_xor h (js_shl (octet data (base + 2)) 16) else h);
          h = (if r \<ge> 2 then Long_xor h (js_shl (octet data (base + 1)) 8) else h)
      in if r \<ge> 1 then Long_multiply (Long_xor h (octet data base)) M else h)"

definition murmur2 :: "buffer \<Rightarrow> int" where
  "murmur2 data =
     (let h = Long_xor SEED (int (length data));
          h = foldl (mix_block data) h [0..<length data div 4];
          h = mix_tail data h;
          h = Long_xor h (js_ushr (Long_toInt h) 13);
          h = Long_multiply h M;
          h = Long_xor h (js_ushr (Long_toInt h) 15)
      in Long_toInt h)"

subsection \<open>The 32-bit reference\<close>

definition le_word :: "buffer \<Rightarrow> nat \<Rightarrow> 32 word" where \<comment> \<open>four octets, little-endian\<close>
  "le_word data i =
     ucast (data ! (4 * i)) + push_bit 8 (ucast (data ! (4 * i + 1))) + push_bit 16 (ucast (data ! (4 * i + 2)))
       + push_bit 24 (ucast (data ! (4 * i + 3)))"

definition ref_block :: "buffer \<Rightarrow> 32 word \<Rightarrow> nat \<Rightarrow> 32 word" where
  "ref_block data h i =
     (let k = le_word data i * 0x5bd1e995; k = (k XOR drop_bit 24 k) * 0x5bd1e995 in (h * 0x5bd1e995) XOR k)"

definition ref_tail :: "buffer \<Rightarrow> 32 word \<Rightarrow> 32 word" where
  "ref_tail data h =
     (let base = 4 * (length data div 4); r = length data mod 4;
          h = (if r = 3 then h XOR push_bit 16 (ucast (data ! (base + 2))) else h);
          h = (if r \<ge> 2 then h XOR push_bit 8 (ucast (data ! (base + 1))) else h)
      in if r \<ge> 1 then (h XOR ucast (data ! base)) * 0x5bd1e995 else h)"

definition murmur2_reference :: "buffer \<Rightarrow> 32 word" where
  "murmur2_reference data =
     (let h = 0x9747b28c XOR of_nat (length data);
          h = foldl (ref_block data) h [0..<length data div 4];
          h = ref_tail data h;
          h = (h XOR drop_bit 13 h) * 0x5bd1e995
      in h XOR drop_bit 15 h)"

lemma word_of_int_ToInt32 [simp]: "(word_of_int (ToInt32 x) :: 32 word) = word_of_int x"
  by (rule word_uint_eqI) (simp add: uint_word_of_int_eq ToInt32_def take_bit_signed_take_bit)

lemma word_of_int_js_shl [simp]: "n < 32 \<Longrightarrow> (word_of_int (js_shl x n) :: 32 word) = push_bit n (word_of_int x)"
  by (rule bit_word_eqI) (auto simp: js_shl_def ToInt32_def bit_simps)

lemma word_of_int_js_ushr [simp]:
  "n < 32 \<Longrightarrow> (word_of_int (js_ushr x n) :: 32 word) = drop_bit n (word_of_int x)"
  by (rule bit_word_eqI) (auto simp: js_ushr_def ToUint32_def bit_simps)

lemma word_of_int_Long_toInt [simp]: "(word_of_int (Long_toInt x) :: 32 word) = word_of_int x"
  by (simp add: Long_toInt_ToInt32)

lemma word_of_int_Long_xor [simp]: "(word_of_int (Long_xor x y) :: 32 word) = word_of_int x XOR word_of_int y"
  by (rule bit_word_eqI) (simp add: Long_xor_def bit_simps)

lemma word_of_int_Long_multiply [simp]: "(word_of_int (Long_multiply x y) :: 32 word) = word_of_int x * word_of_int y"
  by (simp only: Long_multiply_eq wi_hom_mult)

lemma octet_nth: "i < length data \<Longrightarrow> octet data i = uint (data ! i)"
  using uint_lt2p [of "data ! i"] js_and_mask [of 8 "uint (data ! i)"]
  by (simp add: octet_def byte_at_def)

lemma word_octet: "i < length data \<Longrightarrow> (word_of_int (octet data i) :: 32 word) = ucast (data ! i)"
  by (simp only: octet_nth ucast_eq)

lemma word_block_k:
  assumes "i < length data div 4"
  shows "(word_of_int (block_k data i) :: 32 word) = le_word data i"
proof -
  have "4 * i + 3 < length data" using assms by linarith
  then show ?thesis
    using word_octet [of "4 * i" data] word_octet [of "4 * i + 1" data] word_octet [of "4 * i + 2" data]
      word_octet [of "4 * i + 3" data]
    by (simp add: block_k_def Let_def le_word_def mult.commute flip: wi_hom_add)
qed

lemma word_mix_block:
  "i < length data div 4 \<Longrightarrow> (word_of_int (mix_block data h i) :: 32 word) = ref_block data (word_of_int h) i"
  by (simp add: mix_block_def ref_block_def Let_def word_block_k M_def R_def)

lemma word_mix_blocks:
  "set is \<subseteq> {..<length data div 4} \<Longrightarrow>
    (word_of_int (foldl (mix_block data) h is) :: 32 word) = foldl (ref_block data) (word_of_int h) is"
  by (induction "is" arbitrary: h) (simp_all add: word_mix_block)

lemma word_mix_tail: "(word_of_int (mix_tail data h) :: 32 word) = ref_tail data (word_of_int h)"
proof -
  let ?base = "4 * (length data div 4)" and ?r = "length data mod 4"
  have "length data = ?base + ?r" by simp
  then have "?r \<ge> 1 \<Longrightarrow> ?base < length data" "?r \<ge> 2 \<Longrightarrow> ?base + 1 < length data" "?r = 3 \<Longrightarrow> ?base + 2 < length data"
    by linarith+
  then show ?thesis
    by (simp add: mix_tail_def ref_tail_def Let_def word_octet M_def)
qed

lemma murmur2_word: "(word_of_int (murmur2 data) :: 32 word) = murmur2_reference data"
  by (simp add: murmur2_def murmur2_reference_def Let_def word_mix_tail word_mix_blocks atLeast0LessThan SEED_def M_def)

lemma murmur2_sint: "murmur2 data = sint (murmur2_reference data)"
proof -
  have "murmur2 data = ToInt32 (murmur2 data)" by (simp add: murmur2_def Let_def Long_toInt_ToInt32)
  also have "\<dots> = sint (word_of_int (murmur2 data) :: 32 word)"
    by (simp add: ToInt32_def sint_word_ariths(1) signed_word_eqI sint_sbintrunc')
  finally show ?thesis by (simp add: murmur2_word)
qed

subsection \<open>The legacy hash\<close>

text \<open>The loop bound is \<^verbatim>\<open>length / 4\<close> without rounding down, so a last partial block is mixed in too.\<close>

definition legacy_block :: "buffer \<Rightarrow> int \<Rightarrow> nat \<Rightarrow> int" where
  "legacy_block data h i =
     (let k = block_k data i;
          k = to_double (k * M);
          k = js_xor k (js_ushr k R);
          k = to_double (k * M);
          h = to_double (h * M)
      in js_xor h k)"

definition legacy_tail :: "buffer \<Rightarrow> int \<Rightarrow> int" where
  "legacy_tail data h =
     (let len = length data; base = 4 * (len div 4); r = len mod 4;
          h = (if r = 3 then js_xor h (js_shl (octet data (base + 2)) 16) else h);
          h = (if r \<ge> 2 then js_xor h (js_shl (octet data (base + 1)) 8) else h)
      in if r \<ge> 1 then to_double (js_xor h (octet data base) * M) else h)"

definition legacy_murmur2 :: "buffer \<Rightarrow> int" where
  "legacy_murmur2 data =
     (let h = js_xor SEED (int (length data));
          h = foldl (legacy_block data) h [0..<(length data + 3) div 4];
          h = legacy_tail data h;
          h = js_xor h (js_ushr h 13);
          h = to_double (h * M)
      in js_xor h (js_ushr h 15))"

lemma js_xor_range: "int_range 32 (js_xor a b)"
proof -
  have "js_xor a b = ToInt32 (a XOR b)" by (rule bit_eqI) (auto simp: js_xor_def ToInt32_def bit_simps)
  then show ?thesis using ToInt32_range by simp
qed

lemma legacy_murmur2_range: "int_range 32 (legacy_murmur2 data)"
  using js_xor_range by (simp add: legacy_murmur2_def Let_def del: int_range_numeral)

lemma murmur2_range: "int_range 32 (murmur2 data)"
  using ToInt32_range by (simp add: murmur2_def Let_def Long_toInt_ToInt32)

subsection \<open>Properties\<close>

text \<open>C10: The default hash, computed with unbounded integers, is the 32-bit murmur2 of the Java client for
  every key, as a signed number.\<close>

theorem murmur2_is_java_murmur2: "murmur2 data = sint (murmur2_reference data)"
  by (rule murmur2_sint)

text \<open>Values that the test suite records for the Java implementation.\<close>

lemma murmur2_test_vectors:
  "murmur2 (utf8 ''0'') = 971027396" "murmur2 (utf8 ''128'') = - 326012175" "murmur2 (utf8 ''16384'') = - 325739742"
  "murmur2 (utf8 ''100:48069'') = 1009543857"
  by code_simp+

end
