(* ===== verification/Partitioner.thy ===== *)
theory Partitioner
  imports Murmur2 Encoder "HOL-Library.Multiset" "HOL-Library.AList"
begin

text \<open>
  Choosing partitions for messages: \<^verbatim>\<open>src/producer/partitioners/legacy/partitioner.js\<close> (shared by
  both partitioners), \<^verbatim>\<open>src/producer/groupMessagesPerPartition.js\<close> and
  \<^verbatim>\<open>src/producer/createTopicData.js\<close>. A partitioner keeps a counter per topic for messages
  without a key; the initial value of a counter is random and a parameter.
\<close>

record partition_metadata =
  partitionId :: int
  pm_leader :: int

record producer_message =
  pmsg_partition :: "int option"
  pmsg_key :: bytes_value
  pmsg_value :: "bytes_value option" \<comment> \<open>\<open>None\<close> is \<open>undefined\<close>\<close>

type_synonym counters = "string \<Rightarrow> int option"

definition toPositive :: "int \<Rightarrow> int" where
  "toPositive x = js_and x 0x7fffffff"

text \<open>
  The remainder of JavaScript has the sign of the dividend; a remainder by zero is \<^verbatim>\<open>NaN\<close>,
  here \<open>None\<close>.
\<close>

definition js_mod :: "int \<Rightarrow> nat \<Rightarrow> int option" where
  "js_mod x n = (if n = 0 then None else Some (if x < 0 then - ((- x) mod int n) else x mod int n))"

lemma js_mod_nonneg: "0 \<le> x \<Longrightarrow> 0 < n \<Longrightarrow> js_mod x n = Some (x mod int n)"
  by (simp add: js_mod_def)

fun key_data :: "bytes_value \<Rightarrow> buffer" where
  "key_data BNull = []"
| "key_data (BBuffer b) = b"
| "key_data (BString s) = utf8 s"

definition init_counter :: "(string \<Rightarrow> int) \<Rightarrow> string \<Rightarrow> counters \<Rightarrow> counters" where
  "init_counter rnd topic counters = (if counters topic = None then counters(topic \<mapsto> rnd topic) else counters)"

definition bump :: "string \<Rightarrow> counters \<Rightarrow> int \<times> counters" where \<comment> \<open>\<open>++counters[topic]\<close>\<close>
  "bump topic counters = (let c = the (counters topic) + 1 in (c, counters(topic \<mapsto> c)))"

definition partitioner ::
    "(buffer \<Rightarrow> int) \<Rightarrow> (string \<Rightarrow> int) \<Rightarrow> string \<Rightarrow> partition_metadata list \<Rightarrow> producer_message \<Rightarrow> counters
      \<Rightarrow> int option \<times> counters" where
  "partitioner hash rnd topic partitionMetadata message counters =
     (let counters = init_counter rnd topic counters;
          numPartitions = length partitionMetadata;
          availablePartitions = filter (\<lambda>p. pm_leader p \<ge> 0) partitionMetadata;
          numAvailablePartitions = length availablePartitions
      in case pmsg_partition message of
           Some p \<Rightarrow> (Some p, counters)
         | None \<Rightarrow>
             if pmsg_key message \<noteq> BNull
             then (js_mod (toPositive (hash (key_data (pmsg_key message)))) numPartitions, counters)
             else if numAvailablePartitions > 0
             then (let (c, counters') = bump topic counters
                   in (map_option (\<lambda>i. partitionId (availablePartitions ! nat i))
                         (js_mod (toPositive c) numAvailablePartitions), counters'))
             else (let (c, counters') = bump topic counters in (js_mod (toPositive c) numPartitions, counters')))"

definition DefaultPartitioner where "DefaultPartitioner = partitioner murmur2"
definition LegacyPartitioner where "LegacyPartitioner = partitioner legacy_murmur2"

subsection \<open>Positive numbers\<close>

lemma toPositive_mod: "toPositive x = x mod 2147483648"
proof -
  have "toPositive x = ToUint32 x mod 2147483648"
    using js_and_mask [of 31 x] by (simp add: toPositive_def)
  also have "\<dots> = x mod 2147483648" by (simp add: ToUint32_mod mod_mod_cancel)
  finally show ?thesis .
qed

lemma toPositive_range: "0 \<le> toPositive x" "toPositive x < 2147483648"
  by (simp_all add: toPositive_mod)

lemma toPositive_id: "0 \<le> x \<Longrightarrow> x < 2147483648 \<Longrightarrow> toPositive x = x"
  by (simp add: toPositive_mod)

subsection \<open>Keyed messages\<close>

lemma partitioner_keyed:
  assumes "pmsg_partition m = None" "pmsg_key m \<noteq> BNull" "md \<noteq> []"
  shows "fst (partitioner hash rnd topic md m counters) =
      Some (toPositive (hash (key_data (pmsg_key m))) mod int (length md))"
  using assms by (simp add: partitioner_def Let_def js_mod_nonneg toPositive_range)

subsection \<open>Round robin\<close>

definition available :: "partition_metadata list \<Rightarrow> int list" where
  "available md = map partitionId (filter (\<lambda>p. pm_leader p \<ge> 0) md)"

definition unkeyed :: "producer_message \<Rightarrow> bool" where
  "unkeyed m \<longleftrightarrow> pmsg_partition m = None \<and> pmsg_key m = BNull"

lemma partitioner_unkeyed:
  assumes "unkeyed m" "available md \<noteq> []" "counters topic = Some c"
  shows "partitioner hash rnd topic md m counters =
    (Some (available md ! nat (toPositive (c + 1) mod int (length (available md)))), counters(topic \<mapsto> c + 1))"
proof -
  let ?ps = "filter (\<lambda>p. pm_leader p \<ge> 0) md"
  have ne: "length ?ps > 0" using assms(2) by (simp add: available_def)
  have "nat (toPositive (c + 1) mod int (length ?ps)) < length ?ps" using ne by (simp add: nat_less_iff)
  then show ?thesis
    using assms ne by (simp add: partitioner_def Let_def init_counter_def bump_def js_mod_nonneg toPositive_range unkeyed_def available_def)
qed

text \<open>The partitions that a run of messages is sent to.\<close>

primrec assign ::
    "(buffer \<Rightarrow> int) \<Rightarrow> (string \<Rightarrow> int) \<Rightarrow> string \<Rightarrow> partition_metadata list \<Rightarrow> producer_message list \<Rightarrow> counters
      \<Rightarrow> int option list \<times> counters" where
  "assign hash rnd topic md [] counters = ([], counters)"
| "assign hash rnd topic md (m # ms) counters =
     (let (p, counters') = partitioner hash rnd topic md m counters;
          (ps, counters'') = assign hash rnd topic md ms counters'
      in (p # ps, counters''))"

lemma assign_unkeyed:
  assumes "list_all unkeyed ms" "available md \<noteq> []" "counters topic = Some c"
  shows "fst (assign hash rnd topic md ms counters) =
    map (\<lambda>i. Some (available md ! nat (toPositive (c + 1 + int i) mod int (length (available md))))) [0..<length ms]"
  using assms
proof (induction ms arbitrary: counters c)
  case (Cons m ms)
  have "fst (assign hash rnd topic md ms (counters(topic \<mapsto> c + 1))) =
      map (\<lambda>i. Some (available md ! nat (toPositive (c + 1 + 1 + int i) mod int (length (available md))))) [0..<length ms]"
    using Cons by simp
  moreover have "map f [0..<length (m # ms)] = f 0 # map (\<lambda>i. f (Suc i)) [0..<length ms]" for f :: "nat \<Rightarrow> int option"
    by (simp add: upt_conv_Cons flip: map_Suc_upt del: upt_Suc)
  ultimately show ?case
    using Cons.prems by (simp add: partitioner_unkeyed split_def Let_def add.assoc del: upt_Suc)
qed simp

text \<open>Consecutive counters run through all residues.\<close>

lemma residues_mset:
  assumes "0 < n"
  shows "mset (map (\<lambda>i. nat ((a + int i) mod int n)) [0..<n]) = mset [0..<n]"
proof -
  let ?f = "\<lambda>i. nat ((a + int i) mod int n)"
  have "inj_on ?f {0..<n}"
  proof (rule inj_onI)
    fix i j assume ij: "i \<in> {0..<n}" "j \<in> {0..<n}" "?f i = ?f j"
    then have "(a + int i) mod int n = (a + int j) mod int n" using assms by (simp add: nat_eq_iff2)
    then have "int i mod int n = int j mod int n" by (metis add_diff_cancel_left' mod_diff_cong)
    then show "i = j" using ij(1,2) by simp
  qed
  moreover have "?f ` {0..<n} \<subseteq> {0..<n}" using assms by (auto simp: nat_less_iff)
  ultimately have "?f ` {0..<n} = {0..<n}" by (simp add: endo_inj_surj)
  then have "set (map ?f [0..<n]) = set [0..<n]" by simp
  moreover have "distinct (map ?f [0..<n])" using \<open>inj_on ?f {0..<n}\<close> by (simp add: distinct_map)
  ultimately show ?thesis by (metis set_eq_iff_mset_eq_distinct distinct_upt)
qed

subsection \<open>Grouping by partition\<close>

text \<open>
  The groups are an object from partitions to messages, as an association list in insertion order. A
  partition is only missing for a topic without partitions, which the function excludes first.
\<close>

type_synonym 'm groups = "(int \<times> 'm list) list"

definition add_to_group :: "'m groups \<Rightarrow> int \<Rightarrow> 'm \<Rightarrow> 'm groups" where
  "add_to_group result prt message =
     (let current = (case map_of result prt of None \<Rightarrow> [] | Some ms \<Rightarrow> ms)
      in AList.update prt (current @ [message]) result)"

primrec group_loop ::
    "(buffer \<Rightarrow> int) \<Rightarrow> (string \<Rightarrow> int) \<Rightarrow> string \<Rightarrow> partition_metadata list \<Rightarrow> producer_message list
      \<Rightarrow> producer_message groups \<Rightarrow> counters \<Rightarrow> producer_message groups \<times> counters" where
  "group_loop hash rnd topic md [] result counters = (result, counters)"
| "group_loop hash rnd topic md (m # ms) result counters =
     (let (prt, counters') = partitioner hash rnd topic md m counters
      in group_loop hash rnd topic md ms
           (case prt of None \<Rightarrow> result | Some p \<Rightarrow> add_to_group result p m) counters')"

definition groupMessagesPerPartition ::
    "(buffer \<Rightarrow> int) \<Rightarrow> (string \<Rightarrow> int) \<Rightarrow> string \<Rightarrow> partition_metadata list \<Rightarrow> producer_message list \<Rightarrow> counters
      \<Rightarrow> producer_message groups \<times> counters" where
  "groupMessagesPerPartition hash rnd topic md messages counters =
     (if length md = 0 then ([], counters) else group_loop hash rnd topic md messages [] counters)"

text \<open>\<^verbatim>\<open>Object.keys\<close>: integer keys ascending, then the others as inserted.\<close>

definition object_keys :: "(int \<times> 'v) list \<Rightarrow> int list" where
  "object_keys obj = sort (filter (\<lambda>k. 0 \<le> k) (map fst obj)) @ filter (\<lambda>k. k < 0) (map fst obj)"

record 'm topic_data_in =
  td_topic :: string
  td_partitions :: "int list"
  td_messages :: "'m groups"

record 'm partition_entry =
  pe_partition :: int
  pe_messages :: "'m list option" \<comment> \<open>\<open>None\<close> is \<open>undefined\<close>\<close>

definition createTopicData :: "'m topic_data_in list \<Rightarrow> (string \<times> 'm partition_entry list) list" where
  "createTopicData = map (\<lambda>t. (td_topic t,
     map (\<lambda>p. \<lparr>pe_partition = p, pe_messages = map_of (td_messages t) p\<rparr>) (td_partitions t)))"

definition responseSerializer :: "(string \<times> 'p list) list \<Rightarrow> (string \<times> 'p) list" where
  "responseSerializer topics = concat (map (\<lambda>(topicName, partitions). map (\<lambda>p. (topicName, p)) partitions) topics)"

lemma map_of_add_to_group:
  "map_of (add_to_group result p m) q =
     (if q = p then Some ((case map_of result p of None \<Rightarrow> [] | Some ms \<Rightarrow> ms) @ [m]) else map_of result q)"
  by (simp add: add_to_group_def Let_def update_conv')

definition group_of :: "('k \<times> 'm list) list \<Rightarrow> 'k \<Rightarrow> 'm list" where
  "group_of gs p = (case map_of gs p of None \<Rightarrow> [] | Some ms \<Rightarrow> ms)"

lemma group_of_add: "group_of (add_to_group result p m) q = group_of result q @ (if q = p then [m] else [])"
  by (simp add: group_of_def map_of_add_to_group)

lemma partitioner_some:
  assumes "md \<noteq> []"
  obtains p c where "partitioner hash rnd topic md m counters = (Some p, c)"
proof -
  have "fst (partitioner hash rnd topic md m counters) \<noteq> None"
    using assms by (auto simp: partitioner_def Let_def js_mod_def bump_def split: option.split)
  then show thesis using that by (metis option.exhaust prod.collapse)
qed

text \<open>A group holds, in order, the messages that were assigned to its partition.\<close>

lemma group_loop_eq:
  assumes "md \<noteq> []"
  shows "group_of (fst (group_loop hash rnd topic md ms result counters)) q =
    group_of result q @ map fst (filter (\<lambda>(m, p). p = Some q) (zip ms (fst (assign hash rnd topic md ms counters))))"
proof (induction ms arbitrary: result counters)
  case (Cons m ms)
  obtain p c where "partitioner hash rnd topic md m counters = (Some p, c)" using partitioner_some [OF assms] .
  then show ?case using Cons by (simp add: group_of_add split_def Let_def)
qed simp

lemma assign_length: "length (fst (assign hash rnd topic md ms counters)) = length ms"
  by (induction ms arbitrary: counters) (auto simp: split_def Let_def)

lemma assign_some: "md \<noteq> [] \<Longrightarrow> None \<notin> set (fst (assign hash rnd topic md ms counters))"
proof (induction ms arbitrary: counters)
  case (Cons m ms)
  obtain p c where "partitioner hash rnd topic md m counters = (Some p, c)" using partitioner_some [OF Cons.prems] .
  then show ?case using Cons by (simp add: split_def Let_def)
qed simp

text \<open>A topic only uses and changes its own counter.\<close>

lemma partitioner_local:
  assumes "counters topic = counters' topic"
  shows "fst (partitioner hash rnd topic md m counters) = fst (partitioner hash rnd topic md m counters')"
    "snd (partitioner hash rnd topic md m counters) topic = snd (partitioner hash rnd topic md m counters') topic"
  using assms by (auto simp: partitioner_def Let_def bump_def init_counter_def split: option.split)

lemma partitioner_other: "t \<noteq> topic \<Longrightarrow> snd (partitioner hash rnd topic md m counters) t = counters t"
  by (auto simp: partitioner_def Let_def bump_def init_counter_def split: option.split)

lemma group_loop_local:
  "counters topic = counters' topic \<Longrightarrow>
   fst (group_loop hash rnd topic md ms result counters) = fst (group_loop hash rnd topic md ms result counters')"
proof (induction ms arbitrary: result counters counters')
  case (Cons m ms)
  note local = partitioner_local [of counters topic counters' hash rnd md m, OF Cons.prems]
  show ?case
    unfolding group_loop.simps split_def Let_def local(1) by (rule Cons.IH) (rule local(2))
qed simp

lemma group_loop_other: "t \<noteq> topic \<Longrightarrow> snd (group_loop hash rnd topic md ms result counters) t = counters t"
  by (induction ms arbitrary: result counters) (auto simp: split_def Let_def partitioner_other)

lemma groups_local:
  "counters topic = counters' topic \<Longrightarrow>
   fst (groupMessagesPerPartition hash rnd topic md ms counters) = fst (groupMessagesPerPartition hash rnd topic md ms counters')"
  unfolding groupMessagesPerPartition_def by (cases "md = []") (simp, simp, rule group_loop_local)

lemma groups_other: "t \<noteq> topic \<Longrightarrow> snd (groupMessagesPerPartition hash rnd topic md ms counters) t = counters t"
  by (simp add: groupMessagesPerPartition_def group_loop_other)

lemma groups_distinct: "distinct (map fst (fst (groupMessagesPerPartition hash rnd topic md ms counters)))"
proof -
  have "distinct (map fst result) \<Longrightarrow> distinct (map fst (fst (group_loop hash rnd topic md ms result counters)))" for result
    by (induction ms arbitrary: result counters)
       (auto simp: split_def Let_def add_to_group_def distinct_update split: option.split)
  then show ?thesis by (simp add: groupMessagesPerPartition_def)
qed

lemma distinct_object_keys: "distinct (map fst obj) \<Longrightarrow> distinct (object_keys obj)"
  by (auto simp: object_keys_def)

lemma set_object_keys [simp]: "set (object_keys obj) = fst ` set obj"
  by (auto simp: object_keys_def)

subsection \<open>Properties\<close>

text \<open>C11: A message with a key goes to a partition that exists, and two messages with the same key for
  the same number of partitions always go to the same one, whatever was sent before.\<close>

theorem same_key_same_partition:
  assumes "pmsg_partition m = None" "pmsg_partition m' = None" "md \<noteq> []" "length md' = length md"
    "pmsg_key m \<noteq> BNull" "pmsg_key m' \<noteq> BNull" "key_data (pmsg_key m) = key_data (pmsg_key m')"
  shows "\<exists>p. fst (DefaultPartitioner rnd topic md m counters) = Some p \<and>
    fst (DefaultPartitioner rnd' topic' md' m' counters') = Some p \<and> 0 \<le> p \<and> p < int (length md)"
proof -
  have "md' \<noteq> []" using assms(3,4) by auto
  then show ?thesis
    using assms partitioner_keyed [of m md murmur2 rnd topic counters] partitioner_keyed [of m' md' murmur2 rnd' topic' counters']
    by (simp add: DefaultPartitioner_def)
qed

definition sample_keyed :: producer_message where
  "sample_keyed = \<lparr>pmsg_partition = None, pmsg_key = BString ''key'', pmsg_value = Some BNull\<rparr>"

theorem same_key_same_partition_witness:
  "\<exists>p. fst (DefaultPartitioner (\<lambda>_. 0) ''t'' [\<lparr>partitionId = 0, pm_leader = 1\<rparr>, \<lparr>partitionId = 1, pm_leader = 1\<rparr>] sample_keyed (\<lambda>_. None)) = Some p \<and>
    fst (DefaultPartitioner (\<lambda>_. 5) ''t'' [\<lparr>partitionId = 1, pm_leader = 0\<rparr>, \<lparr>partitionId = 0, pm_leader = 2\<rparr>] sample_keyed (\<lambda>_. Some 9)) = Some p \<and>
    0 \<le> p \<and> p < int (length [\<lparr>partitionId = 0, pm_leader = 1\<rparr>, \<lparr>partitionId = 1, pm_leader = 1\<rparr>])"
  by (rule same_key_same_partition) (simp_all add: sample_keyed_def)

text \<open>Messages without key and partition are spread evenly: as many consecutive ones as there are
  available partitions reach every available partition exactly once, while the counter stays below
  the point where it wraps around.\<close>

theorem round_robin_fair:
  assumes "list_all unkeyed ms" "length ms = length (available md)" "available md \<noteq> []" "counters topic = Some c"
    "0 \<le> c" "c + int (length ms) < 2147483648"
  shows "mset (fst (assign murmur2 rnd topic md ms counters)) = image_mset Some (mset (available md))"
proof -
  let ?av = "available md" and ?n = "length (available md)"
  have "fst (assign murmur2 rnd topic md ms counters) = map (\<lambda>i. Some (?av ! nat ((c + 1 + int i) mod int ?n))) [0..<?n]"
    unfolding assign_unkeyed [of ms md counters topic c, OF assms(1,3,4)] assms(2)
    using assms(2,5,6) by (intro map_cong refl) (simp add: toPositive_id)
  then have "mset (fst (assign murmur2 rnd topic md ms counters)) =
      image_mset (\<lambda>i. Some (?av ! i)) (mset (map (\<lambda>i. nat ((c + 1 + int i) mod int ?n)) [0..<?n]))"
    by (simp only: mset_map multiset.map_comp comp_def)
  also have "mset (map (\<lambda>i. nat ((c + 1 + int i) mod int ?n)) [0..<?n]) = mset [0..<?n]"
    using assms(3) by (intro residues_mset) simp
  also have "image_mset (\<lambda>i. Some (?av ! i)) (mset [0..<?n]) = mset (map (\<lambda>i. Some (?av ! i)) [0..<?n])" by (simp only: mset_map)
  also have "map (\<lambda>i. Some (?av ! i)) [0..<?n] = map Some ?av" by (rule nth_equalityI) simp_all
  finally show ?thesis by (simp only: mset_map)
qed

definition sample_unkeyed :: producer_message where
  "sample_unkeyed = \<lparr>pmsg_partition = None, pmsg_key = BNull, pmsg_value = Some (BString ''v'')\<rparr>"

theorem round_robin_fair_witness:
  "mset (fst (assign murmur2 (\<lambda>_. 0) ''t'' [\<lparr>partitionId = 1, pm_leader = 1\<rparr>, \<lparr>partitionId = 2, pm_leader = - 1\<rparr>, \<lparr>partitionId = 0, pm_leader = 0\<rparr>]
      [sample_unkeyed, sample_unkeyed] (\<lambda>_. Some 7))) =
    image_mset Some (mset (available [\<lparr>partitionId = 1, pm_leader = 1\<rparr>, \<lparr>partitionId = 2, pm_leader = - 1\<rparr>, \<lparr>partitionId = 0, pm_leader = 0\<rparr>]))"
  by (rule round_robin_fair [where c = 7]) (simp_all add: available_def sample_unkeyed_def unkeyed_def)

text \<open>Grouping loses, invents and reorders nothing: the group of a partition consists of exactly the
  messages that the partitioner assigned to it, in the order they were given, and every message is
  assigned to some partition.\<close>

theorem grouping_is_stable:
  assumes "md \<noteq> []"
  shows "group_of (fst (groupMessagesPerPartition hash rnd topic md ms counters)) q =
      map fst (filter (\<lambda>(m, p). p = Some q) (zip ms (fst (assign hash rnd topic md ms counters)))) \<and>
    length (fst (assign hash rnd topic md ms counters)) = length ms \<and>
    None \<notin> set (fst (assign hash rnd topic md ms counters))"
  using group_loop_eq [OF assms, of hash rnd topic ms "[]"] assign_length assign_some [OF assms] assms
  by (simp add: groupMessagesPerPartition_def group_of_def)

theorem grouping_is_stable_witness:
  "group_of (fst (groupMessagesPerPartition murmur2 (\<lambda>_. 0) ''t'' [\<lparr>partitionId = 0, pm_leader = 1\<rparr>] [sample_keyed, sample_unkeyed] (\<lambda>_. None))) 0 =
      map fst (filter (\<lambda>(m, p). p = Some 0) (zip [sample_keyed, sample_unkeyed]
        (fst (assign murmur2 (\<lambda>_. 0) ''t'' [\<lparr>partitionId = 0, pm_leader = 1\<rparr>] [sample_keyed, sample_unkeyed] (\<lambda>_. None))))) \<and>
    length (fst (assign murmur2 (\<lambda>_. 0) ''t'' [\<lparr>partitionId = 0, pm_leader = 1\<rparr>] [sample_keyed, sample_unkeyed] (\<lambda>_. None))) =
      length [sample_keyed, sample_unkeyed] \<and>
    None \<notin> set (fst (assign murmur2 (\<lambda>_. 0) ''t'' [\<lparr>partitionId = 0, pm_leader = 1\<rparr>] [sample_keyed, sample_unkeyed] (\<lambda>_. None)))"
  by (rule grouping_is_stable) simp

end
