(* ===== verification/Kafka_Errors.thy ===== *)
theory Kafka_Errors
  imports Kafka_Prelude Complex_Main
begin

text \<open>
  The error classes of \<^verbatim>\<open>src/errors.js\<close>. An error object is what the code looks at: its name,
  message, whether it is retriable (absent on native errors), the protocol error type and code, the
  help URL, the cause and the fields that single classes add. A constructor takes either a text or
  another error. The class hierarchy is the chain of definitions.
\<close>

datatype err_field = FStr string | FNum int | FList "int list" | FRat rat | FUndef

datatype err = Err
  (e_name: string) (e_message: string) (e_retriable: "bool option") (e_type: "string option")
  (e_code: "int option") (e_helpUrl: "string option") (e_cause: "err option")
  (e_fields: "(string \<times> err_field) list") (e_kafkajs: bool)

datatype err_arg = Text string | Wrapped err

fun arg_message :: "err_arg \<Rightarrow> string" where \<comment> \<open>\<open>e.message || e\<close>\<close>
  "arg_message (Text s) = s"
| "arg_message (Wrapped e) = e_message e"

fun arg_helpUrl :: "err_arg \<Rightarrow> string option" where
  "arg_helpUrl (Text s) = None"
| "arg_helpUrl (Wrapped e) = e_helpUrl e"

definition native_error :: "string \<Rightarrow> string \<Rightarrow> err" where \<comment> \<open>\<open>new Error(message)\<close> and its subclasses\<close>
  "native_error name message = Err name message None None None None None [] False"

fun with_name :: "string \<Rightarrow> err \<Rightarrow> err" where
  "with_name n (Err _ m r t c h ca fs k) = Err n m r t c h ca fs k"

fun with_fields :: "(string \<times> err_field) list \<Rightarrow> err \<Rightarrow> err" where
  "with_fields fs (Err n m r t c h ca fs' k) = Err n m r t c h ca (fs' @ fs) k"

fun with_protocol :: "string option \<Rightarrow> int option \<Rightarrow> err \<Rightarrow> err" where
  "with_protocol t c (Err n m r _ _ h ca fs k) = Err n m r t c h ca fs k"

definition new_KafkaJSError :: "err_arg \<Rightarrow> bool \<Rightarrow> err option \<Rightarrow> err" where
  "new_KafkaJSError e retriable cause =
     Err ''KafkaJSError'' (arg_message e) (Some retriable) None None (arg_helpUrl e) cause [] True"

definition new_KafkaJSNonRetriableError :: "err_arg \<Rightarrow> err option \<Rightarrow> err" where
  "new_KafkaJSNonRetriableError e cause = with_name ''KafkaJSNonRetriableError'' (new_KafkaJSError e False cause)"

text \<open>A protocol error takes type, code and retriability from the table entry it wraps.\<close>

definition new_KafkaJSProtocolError :: "err \<Rightarrow> bool \<Rightarrow> err" where
  "new_KafkaJSProtocolError e retriable =
     with_protocol (e_type e) (e_code e)
       (with_name ''KafkaJSProtocolError'' (new_KafkaJSError (Wrapped e) retriable None))"

definition protocol_retriable :: "err \<Rightarrow> bool" where
  \<comment> \<open>\<open>retriable = e.retriable\<close>, and \<open>KafkaJSError\<close> replaces \<open>undefined\<close> by true\<close>
  "protocol_retriable e = (case e_retriable e of None \<Rightarrow> True | Some r \<Rightarrow> r)"

definition new_KafkaJSOffsetOutOfRange :: "err \<Rightarrow> string \<Rightarrow> int \<Rightarrow> err" where
  "new_KafkaJSOffsetOutOfRange e topic prt =
     with_name ''KafkaJSOffsetOutOfRange'' (with_fields [(''topic'', FStr topic), (''partition'', FNum prt)]
       (new_KafkaJSProtocolError e (protocol_retriable e)))"

definition new_KafkaJSMemberIdRequired :: "err \<Rightarrow> string \<Rightarrow> err" where
  "new_KafkaJSMemberIdRequired e memberId =
     with_name ''KafkaJSMemberIdRequired'' (with_fields [(''memberId'', FStr memberId)]
       (new_KafkaJSProtocolError e (protocol_retriable e)))"

definition new_KafkaJSNumberOfRetriesExceeded :: "err \<Rightarrow> nat \<Rightarrow> rat \<Rightarrow> err" where
  "new_KafkaJSNumberOfRetriesExceeded e retryCount retryTime =
     with_name ''KafkaJSNumberOfRetriesExceeded''
       (with_fields [(''retryCount'', FNum (int retryCount)), (''retryTime'', FRat retryTime)]
         (new_KafkaJSNonRetriableError (Wrapped e) (Some e)))"

definition new_KafkaJSConnectionError :: "err_arg \<Rightarrow> err_field \<Rightarrow> err_field \<Rightarrow> err" where
  "new_KafkaJSConnectionError e broker code =
     with_name ''KafkaJSConnectionError'' (with_fields [(''broker'', broker), (''code'', code)]
       (new_KafkaJSError e True None))"

definition new_KafkaJSConnectionClosedError :: "err_arg \<Rightarrow> string \<Rightarrow> string \<Rightarrow> err" where
  "new_KafkaJSConnectionClosedError e host port =
     with_name ''KafkaJSConnectionClosedError'' (with_fields [(''host'', FStr host), (''port'', FStr port)]
       (new_KafkaJSConnectionError e (FStr (host @ '':'' @ port)) FUndef))"

definition new_KafkaJSRequestTimeoutError :: "err_arg \<Rightarrow> (string \<times> err_field) list \<Rightarrow> err" where
  "new_KafkaJSRequestTimeoutError e fields =
     with_name ''KafkaJSRequestTimeoutError'' (with_fields fields (new_KafkaJSError e True None))"

definition new_KafkaJSMetadataNotLoaded :: "err_arg \<Rightarrow> err" where
  "new_KafkaJSMetadataNotLoaded e = with_name ''KafkaJSMetadataNotLoaded'' (new_KafkaJSError e True None)"

definition new_KafkaJSTopicMetadataNotLoaded :: "err_arg \<Rightarrow> string \<Rightarrow> err" where
  "new_KafkaJSTopicMetadataNotLoaded e topic =
     with_name ''KafkaJSTopicMetadataNotLoaded'' (with_fields [(''topic'', FStr topic)] (new_KafkaJSMetadataNotLoaded e))"

definition new_KafkaJSStaleTopicMetadataAssignment :: "err_arg \<Rightarrow> string \<Rightarrow> int list \<Rightarrow> err" where
  "new_KafkaJSStaleTopicMetadataAssignment e topic unknownPartitions =
     with_name ''KafkaJSStaleTopicMetadataAssignment''
       (with_fields [(''topic'', FStr topic), (''unknownPartitions'', FList unknownPartitions)]
         (new_KafkaJSError e True None))"

definition new_KafkaJSServerDoesNotSupportApiKey :: "err_arg \<Rightarrow> int \<Rightarrow> string \<Rightarrow> err" where
  "new_KafkaJSServerDoesNotSupportApiKey e apiKey apiName =
     with_name ''KafkaJSServerDoesNotSupportApiKey''
       (with_fields [(''apiKey'', FNum apiKey), (''apiName'', FStr apiName)] (new_KafkaJSNonRetriableError e None))"

definition new_KafkaJSBrokerNotFound :: "err_arg \<Rightarrow> err" where
  "new_KafkaJSBrokerNotFound e = with_name ''KafkaJSBrokerNotFound'' (new_KafkaJSError e True None)"

definition new_KafkaJSPartialMessageError :: "err_arg \<Rightarrow> err" where
  "new_KafkaJSPartialMessageError e = with_name ''KafkaJSPartialMessageError'' (new_KafkaJSNonRetriableError e None)"

definition new_KafkaJSSASLAuthenticationError :: "err_arg \<Rightarrow> err" where
  "new_KafkaJSSASLAuthenticationError e = with_name ''KafkaJSSASLAuthenticationError'' (new_KafkaJSNonRetriableError e None)"

definition new_KafkaJSGroupCoordinatorNotFound :: "err_arg \<Rightarrow> err" where
  "new_KafkaJSGroupCoordinatorNotFound e = with_name ''KafkaJSGroupCoordinatorNotFound'' (new_KafkaJSNonRetriableError e None)"

definition new_KafkaJSNotImplemented :: "err_arg \<Rightarrow> err" where
  "new_KafkaJSNotImplemented e = with_name ''KafkaJSNotImplemented'' (new_KafkaJSNonRetriableError e None)"

definition new_KafkaJSTimeout :: "err_arg \<Rightarrow> err" where
  "new_KafkaJSTimeout e = with_name ''KafkaJSTimeout'' (new_KafkaJSNonRetriableError e None)"

definition new_KafkaJSLockTimeout :: "err_arg \<Rightarrow> err" where
  "new_KafkaJSLockTimeout e = with_name ''KafkaJSLockTimeout'' (new_KafkaJSTimeout e)"

definition new_KafkaJSUnsupportedMagicByteInMessageSet :: "err_arg \<Rightarrow> err" where
  "new_KafkaJSUnsupportedMagicByteInMessageSet e =
     with_name ''KafkaJSUnsupportedMagicByteInMessageSet'' (new_KafkaJSNonRetriableError e None)"

text \<open>The two classes for malformed numbers keep the name of their parent.\<close>

definition new_KafkaJSInvalidVarIntError :: "err_arg \<Rightarrow> err" where
  "new_KafkaJSInvalidVarIntError e = with_name ''KafkaJSNonRetriableError'' (new_KafkaJSNonRetriableError e None)"

definition new_KafkaJSInvalidLongError :: "err_arg \<Rightarrow> err" where
  "new_KafkaJSInvalidLongError e = with_name ''KafkaJSNonRetriableError'' (new_KafkaJSNonRetriableError e None)"

definition new_KafkaJSInvariantViolation :: "err_arg \<Rightarrow> err" where \<comment> \<open>without the link to the issue tracker\<close>
  "new_KafkaJSInvariantViolation e =
     with_name ''KafkaJSInvariantViolation'' (new_KafkaJSNonRetriableError
       (Text (''Invariant violated: '' @ arg_message e @ ''. This is likely a bug and should be reported.'')) None)"

definition new_KafkaJSDeleteTopicRecordsError :: "err option list \<Rightarrow> err" where \<comment> \<open>the \<open>error\<close> of each partition\<close>
  "new_KafkaJSDeleteTopicRecordsError partitions =
     (let retriable = (\<forall>e \<in> set (List.map_filter id partitions). e_retriable e = Some True)
      in with_name ''KafkaJSDeleteTopicRecordsError''
           (new_KafkaJSError (Text ''Error while deleting records'') retriable None))"

definition new_KafkaJSCreateTopicError :: "err \<Rightarrow> string \<Rightarrow> err" where
  "new_KafkaJSCreateTopicError e topicName =
     with_name ''KafkaJSCreateTopicError'' (with_fields [(''topic'', FStr topicName)]
       (new_KafkaJSProtocolError e (protocol_retriable e)))"

definition new_KafkaJSAlterPartitionReassignmentsError :: "err \<Rightarrow> string \<Rightarrow> int \<Rightarrow> err" where
  "new_KafkaJSAlterPartitionReassignmentsError e topicName prt =
     with_name ''KafkaJSAlterPartitionReassignmentsError''
       (with_fields [(''topic'', FStr topicName), (''partition'', FNum prt)]
         (new_KafkaJSProtocolError e (protocol_retriable e)))"

definition new_KafkaJSNoBrokerAvailableError :: err where
  "new_KafkaJSNoBrokerAvailableError =
     with_name ''KafkaJSNoBrokerAvailableError'' (new_KafkaJSError (Text ''No broker available'') True None)"

definition isRebalancing :: "err \<Rightarrow> bool" where
  "isRebalancing e \<longleftrightarrow>
     e_type e = Some ''REBALANCE_IN_PROGRESS'' \<or> e_type e = Some ''NOT_COORDINATOR_FOR_GROUP'' \<or>
     e_type e = Some ''ILLEGAL_GENERATION''"

definition isKafkaJSError :: "err \<Rightarrow> bool" where
  "isKafkaJSError e \<longleftrightarrow> e_kafkajs e"

lemmas err_class_defs =
  new_KafkaJSError_def new_KafkaJSNonRetriableError_def new_KafkaJSProtocolError_def
  new_KafkaJSNumberOfRetriesExceeded_def new_KafkaJSConnectionError_def new_KafkaJSConnectionClosedError_def

lemma with_name_selectors [simp]:
  "e_name (with_name n e) = n" "e_message (with_name n e) = e_message e" "e_retriable (with_name n e) = e_retriable e"
  "e_type (with_name n e) = e_type e" "e_code (with_name n e) = e_code e" "e_cause (with_name n e) = e_cause e"
  "e_fields (with_name n e) = e_fields e" "e_helpUrl (with_name n e) = e_helpUrl e"
  by (cases e; simp)+

lemma with_fields_selectors [simp]:
  "e_name (with_fields fs e) = e_name e" "e_message (with_fields fs e) = e_message e"
  "e_retriable (with_fields fs e) = e_retriable e" "e_type (with_fields fs e) = e_type e"
  "e_code (with_fields fs e) = e_code e" "e_cause (with_fields fs e) = e_cause e"
  "e_fields (with_fields fs e) = e_fields e @ fs" "e_helpUrl (with_fields fs e) = e_helpUrl e"
  by (cases e; simp)+

lemma with_protocol_selectors [simp]:
  "e_name (with_protocol t c e) = e_name e" "e_message (with_protocol t c e) = e_message e"
  "e_retriable (with_protocol t c e) = e_retriable e" "e_type (with_protocol t c e) = t"
  "e_code (with_protocol t c e) = c" "e_cause (with_protocol t c e) = e_cause e" "e_helpUrl (with_protocol t c e) = e_helpUrl e"
  by (cases e; simp)+

lemma KafkaJSError_selectors [simp]:
  "e_message (new_KafkaJSError a r c) = arg_message a" "e_retriable (new_KafkaJSError a r c) = Some r"
  "e_cause (new_KafkaJSError a r c) = c" "e_type (new_KafkaJSError a r c) = None" "e_code (new_KafkaJSError a r c) = None"
  "e_helpUrl (new_KafkaJSError a r c) = arg_helpUrl a"
  by (simp_all add: new_KafkaJSError_def)

lemma NonRetriable_selectors [simp]:
  "e_name (new_KafkaJSNonRetriableError a c) = ''KafkaJSNonRetriableError''"
  "e_retriable (new_KafkaJSNonRetriableError a c) = Some False"
  "e_message (new_KafkaJSNonRetriableError a c) = arg_message a" "e_cause (new_KafkaJSNonRetriableError a c) = c"
  by (simp_all add: new_KafkaJSNonRetriableError_def)

subsection \<open>Web pages\<close>

definition BASE_URL :: string where "BASE_URL = ''https://kafka.js.org''"

definition stripLeading :: "char \<Rightarrow> string \<Rightarrow> string" where
  "stripLeading c str = (case str of [] \<Rightarrow> [] | x # xs \<Rightarrow> if x = c then xs else str)"

definition websiteUrl :: "string \<Rightarrow> string option \<Rightarrow> string" where
  "websiteUrl path hash =
     BASE_URL @ ''/'' @ stripLeading CHR ''/'' path @
     (case hash of None \<Rightarrow> [] | Some h \<Rightarrow> if h = [] then [] else ''#'' @ stripLeading CHR ''#'' h)"

end
