(* ===== verification/Retry.thy ===== *)
theory Retry
  imports Kafka_Errors
begin

text \<open>
  The retrier of \<^verbatim>\<open>src/retry/index.js\<close>. An attempt of the wrapped function may return, throw, or
  call \<^verbatim>\<open>bail\<close>; the wrapped function is a parameter that sees the number of the attempt and the
  current delay. \<^verbatim>\<open>Math.random()\<close> is a stream of numbers, one per delay computed. Delays are
  rational. The result is the settled promise with the list of the delays that were slept.
\<close>

record retry_config =
  maxRetryTime :: rat
  initialRetryTime :: rat
  factor :: rat
  multiplier :: rat
  retries :: nat

definition RETRY_DEFAULT :: retry_config where
  "RETRY_DEFAULT = \<lparr>maxRetryTime = 30 * 1000, initialRetryTime = 300, factor = 2 / 10, multiplier = 2, retries = 5\<rparr>"

definition random_between :: "rat \<Rightarrow> rat \<Rightarrow> rat \<Rightarrow> rat" where \<comment> \<open>\<open>random(min, max)\<close>\<close>
  "random_between rnd lo hi = rnd * (hi - lo) + lo"

definition randomFromRetryTime :: "rat \<Rightarrow> rat \<Rightarrow> rat \<Rightarrow> rat" where
  "randomFromRetryTime rnd fct retryTime =
     (let delta = fct * retryTime in of_int \<lceil>random_between rnd (retryTime - delta) (retryTime + delta)\<rceil>)"

definition UNRECOVERABLE_ERRORS :: "string list" where
  "UNRECOVERABLE_ERRORS = [''RangeError'', ''ReferenceError'', ''SyntaxError'', ''TypeError'']"

definition isErrorUnrecoverable :: "err \<Rightarrow> bool" where
  "isErrorUnrecoverable e \<longleftrightarrow> e_name e \<in> set UNRECOVERABLE_ERRORS"

definition isErrorRetriable :: "err \<Rightarrow> bool" where
  "isErrorRetriable e \<longleftrightarrow> (e_retriable e = Some True \<or> e_retriable e \<noteq> Some False) \<and> \<not> isErrorUnrecoverable e"

definition calculateExponentialRetryTime :: "retry_config \<Rightarrow> rat \<Rightarrow> rat \<Rightarrow> rat" where
  "calculateExponentialRetryTime c rnd retryTime =
     min (randomFromRetryTime rnd (factor c) retryTime * multiplier c) (maxRetryTime c)"

text \<open>
  \<open>Bails\<close>: \<^verbatim>\<open>bail(error)\<close> is called before the attempt settles; the promise is rejected and what
  the attempt does later is ignored.
\<close>

datatype 'a attempt = Returns 'a | Throws err | Bails "err option"

function retry :: "retry_config \<Rightarrow> (nat \<Rightarrow> rat) \<Rightarrow> (nat \<Rightarrow> rat \<Rightarrow> 'a attempt) \<Rightarrow> rat \<Rightarrow> nat \<Rightarrow> (err + 'a) \<times> rat list" where
  "retry c rnd fn retryTime retryCount =
     (let nextRetryTime = calculateExponentialRetryTime c (rnd (Suc retryCount)) retryTime;
          shouldRetry = (retryCount < retries c)
      in case fn retryCount retryTime of
           Returns v \<Rightarrow> (Inr v, [])
         | Bails e \<Rightarrow> (Inl (case e of None \<Rightarrow> native_error ''Error'' ''Aborted'' | Some e \<Rightarrow> e), [])
         | Throws e \<Rightarrow>
             (if isErrorRetriable e
              then if shouldRetry
                   then map_prod id ((#) retryTime) (retry c rnd fn nextRetryTime (retryCount + 1))
                   else (Inl (new_KafkaJSNumberOfRetriesExceeded e retryCount retryTime), [])
              else (Inl (new_KafkaJSNonRetriableError (Wrapped e)
                       (Some (case e_cause e of None \<Rightarrow> e | Some ca \<Rightarrow> ca))), [])))"
  by pat_completeness auto
termination
  by (relation "measure (\<lambda>(c, _, _, _, n). Suc (retries c) - n)") auto

declare retry.simps [simp del]

definition retrier :: "retry_config \<Rightarrow> (nat \<Rightarrow> rat) \<Rightarrow> (nat \<Rightarrow> rat \<Rightarrow> 'a attempt) \<Rightarrow> (err + 'a) \<times> rat list" where
  "retrier c rnd fn = retry c rnd fn (randomFromRetryTime (rnd 0) (factor c) (initialRetryTime c)) 0"

text \<open>
  The same loop for a wrapped function that changes the state of its component; of the delays only
  the one reported in the final error matters, and it is a parameter.
\<close>

function retry_st :: "nat \<Rightarrow> (nat \<Rightarrow> rat) \<Rightarrow> (nat \<Rightarrow> 's \<Rightarrow> 'a attempt \<times> 's) \<Rightarrow> nat \<Rightarrow> 's \<Rightarrow> (err + 'a) \<times> 's" where
  "retry_st n delay fn i s =
     (case fn i s of
        (Returns v, s') \<Rightarrow> (Inr v, s')
      | (Bails e, s') \<Rightarrow> (Inl (case e of None \<Rightarrow> native_error ''Error'' ''Aborted'' | Some e \<Rightarrow> e), s')
      | (Throws e, s') \<Rightarrow>
          (if isErrorRetriable e
           then if i < n then retry_st n delay fn (i + 1) s'
                else (Inl (new_KafkaJSNumberOfRetriesExceeded e i (delay i)), s')
           else (Inl (new_KafkaJSNonRetriableError (Wrapped e)
                    (Some (case e_cause e of None \<Rightarrow> e | Some ca \<Rightarrow> ca))), s')))"
  by pat_completeness auto
termination
  by (relation "measure (\<lambda>(n, _, _, i, _). Suc n - i)") auto

declare retry_st.simps [simp del]

text \<open>What every attempt keeps, the loop keeps.\<close>

lemma retry_st_invariant:
  assumes "\<And>i s. P s \<Longrightarrow> P (snd (fn i s))" "P s"
  shows "P (snd (retry_st n delay fn i s))"
  using assms(2)
proof (induction "n - i" arbitrary: i s)
  case 0
  obtain r s' where r: "fn i s = (r, s')" by (cases "fn i s")
  then have "P s'" using 0 assms(1) by (metis snd_conv)
  then show ?case using r 0 by (subst retry_st.simps) (auto split: attempt.split)
next
  case (Suc k)
  obtain r s' where r: "fn i s = (r, s')" by (cases "fn i s")
  then have s': "P s'" using Suc.prems assms(1) by (metis snd_conv)
  then have "P (snd (retry_st n delay fn (i + 1) s'))" using Suc.hyps by (intro Suc.hyps(1)) auto
  then show ?case using r s' by (subst retry_st.simps) (auto split: attempt.split)
qed

lemma retry_st_indexed:
  assumes "\<And>i s. P i s \<Longrightarrow> P (Suc i) (snd (fn i s))" "P i s"
  shows "\<exists>j. P j (snd (retry_st n delay fn i s))"
  using assms(2)
proof (induction "Suc n - i" arbitrary: i s rule: less_induct)
  case less
  obtain r s' where r: "fn i s = (r, s')" by (cases "fn i s")
  then have s': "P (Suc i) s'" using less.prems assms(1) by (metis snd_conv)
  have "\<exists>j. P j (snd (retry_st n delay fn (i + 1) s'))" if "i < n" using less.hyps [of "i + 1" s'] s' that by simp
  then show ?case using r s' by (subst retry_st.simps) (auto split: attempt.split)
qed

lemma retry_st_returns:
  assumes "retry_st n delay fn i s = (Inr x, s')"
  shows "\<exists>j s0. fn j s0 = (Returns x, s')"
  using assms
proof (induction "Suc n - i" arbitrary: i s rule: less_induct)
  case less
  obtain r s1 where r: "fn i s = (r, s1)" by (cases "fn i s")
  show ?case
  proof (cases r)
    case (Returns y)
    then show ?thesis using less.prems r by (subst (asm) retry_st.simps) auto
  next
    case (Bails e)
    then show ?thesis using less.prems r by (subst (asm) retry_st.simps) (auto split: option.splits)
  next
    case (Throws e)
    then have "i < n \<and> retry_st n delay fn (i + 1) s1 = (Inr x, s')"
      using less.prems r by (subst (asm) retry_st.simps) (auto split: if_splits)
    moreover from this have "Suc n - (i + 1) < Suc n - i" by linarith
    ultimately show ?thesis using less.hyps [of "i + 1" s1] by blast
  qed
qed

subsection \<open>Delays\<close>

lemma next_delay_bound: "calculateExponentialRetryTime c r t \<le> maxRetryTime c"
  by (simp add: calculateExponentialRetryTime_def)

lemma retry_first_delay: "snd (retry c rnd fn t n) = [] \<or> hd (snd (retry c rnd fn t n)) = t"
  by (subst (1 2) retry.simps) (auto simp: Let_def split: attempt.splits)

lemma retry_delays_bound:
  assumes "w \<in> set (tl (snd (retry c rnd fn t n)))"
  shows "w \<le> maxRetryTime c"
  using assms
proof (induction c rnd fn t n rule: retry.induct)
  case (1 c rnd fn t n)
  let ?next = "calculateExponentialRetryTime c (rnd (Suc n)) t"
  show ?case
  proof (cases "\<exists>e. fn n t = Throws e \<and> isErrorRetriable e \<and> n < retries c")
    case True
    then obtain e where e: "fn n t = Throws e" "isErrorRetriable e" "n < retries c" by blast
    have step: "snd (retry c rnd fn t n) = t # snd (retry c rnd fn ?next (n + 1))"
      using e by (subst retry.simps) simp
    then have w: "w \<in> set (snd (retry c rnd fn ?next (n + 1)))" using "1.prems" by simp
    then have "w = ?next \<or> w \<in> set (tl (snd (retry c rnd fn ?next (n + 1))))"
      using retry_first_delay [of c rnd fn ?next "n + 1"] by (cases "snd (retry c rnd fn ?next (n + 1))") auto
    then show ?thesis
      using "1.IH" [OF refl refl e(1,2) e(3)] next_delay_bound [of c "rnd (Suc n)" t] by auto
  next
    case False
    then have "snd (retry c rnd fn t n) = []"
      by (subst retry.simps) (auto simp: Let_def split: attempt.splits)
    with "1.prems" show ?thesis by simp
  qed
qed

lemma retry_delays_length: "length (snd (retry c rnd fn t n)) \<le> retries c - n"
proof (induction c rnd fn t n rule: retry.induct)
  case (1 c rnd fn t n)
  show ?case
  proof (cases "\<exists>e. fn n t = Throws e \<and> isErrorRetriable e \<and> n < retries c")
    case True
    then obtain e where e: "fn n t = Throws e" "isErrorRetriable e" "n < retries c" by blast
    then show ?thesis
      using "1.IH" [OF refl refl e(1,2) e(3)] by (subst retry.simps) simp
  next
    case False
    then have "snd (retry c rnd fn t n) = []"
      by (subst retry.simps) (auto simp: Let_def split: attempt.splits)
    then show ?thesis by simp
  qed
qed

subsection \<open>Outcomes\<close>

lemma retry_until_return:
  assumes "\<And>i t. n \<le> i \<Longrightarrow> i < k \<Longrightarrow> \<exists>e. fn i t = Throws e \<and> isErrorRetriable e" "n \<le> k" "k \<le> retries c"
    "\<And>t. fn k t = Returns v"
  shows "fst (retry c rnd fn t n) = Inr v \<and> length (snd (retry c rnd fn t n)) = k - n"
  using assms(1,2)
proof (induction "k - n" arbitrary: n t)
  case 0
  then have "n = k" by simp
  then show ?case using assms(4) by (subst retry.simps, subst retry.simps) simp
next
  case (Suc d)
  then have n: "n < k" by simp
  then obtain e where e: "fn n t = Throws e" "isErrorRetriable e" using Suc.prems(1) by blast
  have "fst (retry c rnd fn t' (n + 1)) = Inr v \<and> length (snd (retry c rnd fn t' (n + 1))) = k - (n + 1)" for t'
    using Suc n by (intro Suc.hyps(1)) auto
  then show ?case using e n assms(3) by (subst retry.simps, subst retry.simps) (simp add: Suc_diff_Suc)
qed

lemma retry_exhausted:
  assumes "\<And>i t. i \<le> retries c \<Longrightarrow> \<exists>e. fn i t = Throws e \<and> isErrorRetriable e" "n \<le> retries c"
  shows "\<exists>e t'. fst (retry c rnd fn t n) = Inl (new_KafkaJSNumberOfRetriesExceeded e (retries c) t') \<and>
    fn (retries c) t' = Throws e \<and> length (snd (retry c rnd fn t n)) = retries c - n"
  using assms(2)
proof (induction "retries c - n" arbitrary: n t)
  case 0
  then have n: "n = retries c" by simp
  obtain e where "fn n t = Throws e" "isErrorRetriable e" using assms(1) n by blast
  then show ?case using n by (subst retry.simps, subst retry.simps) auto
next
  case (Suc d)
  then have n: "n < retries c" by simp
  then obtain e where e: "fn n t = Throws e" "isErrorRetriable e" using assms(1) by (meson less_imp_le)
  obtain e' t' where "fst (retry c rnd fn (calculateExponentialRetryTime c (rnd (Suc n)) t) (n + 1)) =
      Inl (new_KafkaJSNumberOfRetriesExceeded e' (retries c) t')" "fn (retries c) t' = Throws e'"
      "length (snd (retry c rnd fn (calculateExponentialRetryTime c (rnd (Suc n)) t) (n + 1))) = retries c - (n + 1)"
    using Suc n by (metis Suc_diff_Suc Suc_eq_plus1 Suc_leI diff_Suc_1)
  then show ?case using e n by (subst retry.simps, subst retry.simps) (auto simp: Suc_diff_Suc)
qed

subsection \<open>Properties\<close>

text \<open>C9: When the first attempts fail with retriable errors and a later one, still within the number of
  retries, returns a value, the retrier resolves with that value after exactly as many pauses as
  there were failures.\<close>

theorem retry_succeeds:
  assumes "\<And>i t. i < k \<Longrightarrow> \<exists>e. fn i t = Throws e \<and> isErrorRetriable e" "k \<le> retries c" "\<And>t. fn k t = Returns v"
  shows "fst (retrier c rnd fn) = Inr v \<and> length (snd (retrier c rnd fn)) = k"
  using retry_until_return [of 0 k fn c v] assms by (simp add: retrier_def)

theorem retry_succeeds_witness:
  "fst (retrier RETRY_DEFAULT (\<lambda>_. 1 / 2) (\<lambda>i _. if i < 3 then Throws (new_KafkaJSError (Text ''again'') True None) else Returns (7 :: int))) = Inr 7 \<and>
   length (snd (retrier RETRY_DEFAULT (\<lambda>_. 1 / 2) (\<lambda>i _. if i < 3 then Throws (new_KafkaJSError (Text ''again'') True None) else Returns (7 :: int)))) = 3"
  by (rule retry_succeeds)
    (auto simp: RETRY_DEFAULT_def isErrorRetriable_def isErrorUnrecoverable_def UNRECOVERABLE_ERRORS_def new_KafkaJSError_def)

text \<open>When every attempt fails with a retriable error, the retrier gives up after the configured
  number of retries and rejects with an error that wraps the last failure and is itself not
  retriable, so that enclosing retriers do not start over.\<close>

theorem retry_gives_up:
  assumes "\<And>i t. i \<le> retries c \<Longrightarrow> \<exists>e. fn i t = Throws e \<and> isErrorRetriable e"
  shows "\<exists>e x t. fst (retrier c rnd fn) = Inl x \<and> fn (retries c) t = Throws e \<and>
    e_name x = ''KafkaJSNumberOfRetriesExceeded'' \<and> e_cause x = Some e \<and> \<not> isErrorRetriable x \<and>
    length (snd (retrier c rnd fn)) = retries c"
  using retry_exhausted [of c fn 0 rnd] assms
  by (fastforce simp: retrier_def new_KafkaJSNumberOfRetriesExceeded_def isErrorRetriable_def)

theorem retry_gives_up_witness:
  "\<exists>e x t. fst (retrier RETRY_DEFAULT (\<lambda>_. 1 / 2) (\<lambda>_ _. (Throws (native_error ''Error'' ''x'') :: int attempt))) = Inl x \<and>
    (Throws (native_error ''Error'' ''x'') :: int attempt) = Throws e \<and>
    e_name x = ''KafkaJSNumberOfRetriesExceeded'' \<and> e_cause x = Some e \<and> \<not> isErrorRetriable x \<and>
    length (snd (retrier RETRY_DEFAULT (\<lambda>_. 1 / 2) (\<lambda>_ _. (Throws (native_error ''Error'' ''x'') :: int attempt)))) = retries RETRY_DEFAULT"
  using retry_gives_up [of RETRY_DEFAULT "\<lambda>_ _. (Throws (native_error ''Error'' ''x'') :: int attempt)" "\<lambda>_. 1 / 2"]
  by (auto simp: isErrorRetriable_def isErrorUnrecoverable_def UNRECOVERABLE_ERRORS_def native_error_def)

text \<open>There are never more pauses than configured retries, and every pause after the first is at
  most the maximal retry time, whatever the random numbers are.\<close>

theorem retry_delays_bounded:
  "length (snd (retrier c rnd fn)) \<le> retries c \<and> (\<forall>w. w \<in> set (tl (snd (retrier c rnd fn))) \<longrightarrow> w \<le> maxRetryTime c)"
  using retry_delays_length [of c rnd fn _ 0] retry_delays_bound [of _ c rnd fn _ 0] by (simp add: retrier_def)

theorem retry_delays_bounded_witness:
  "length (snd (retrier RETRY_DEFAULT (\<lambda>_. 1 / 2) (\<lambda>_ _. (Throws (native_error ''Error'' ''x'') :: int attempt)))) \<le> 5"
  using retry_delays_bounded [of RETRY_DEFAULT "\<lambda>_. 1 / 2" "\<lambda>_ _. (Throws (native_error ''Error'' ''x'') :: int attempt)"]
  by (simp add: RETRY_DEFAULT_def)

end
