(* ===== verification/Protocol_Error.thy ===== *)
theory Protocol_Error
  imports Kafka_Errors Long
begin

text \<open>
  The table of Kafka protocol errors and the functions over it, \<^verbatim>\<open>src/protocol/error.js\<close>.
  The table is written in consecutive parts, in the order of the source.
\<close>

record error_code =
  ec_type :: string
  ec_code :: int
  ec_retriable :: bool
  ec_message :: string
  ec_helpUrl :: "string option"

definition ec :: "string \<Rightarrow> int \<Rightarrow> bool \<Rightarrow> string \<Rightarrow> string option \<Rightarrow> error_code" where
  "ec type code retriable message helpUrl =
     \<lparr>ec_type = type, ec_code = code, ec_retriable = retriable, ec_message = message, ec_helpUrl = helpUrl\<rparr>"

definition errorCodes_1 :: "error_code list" where
  "errorCodes_1 = [
    ec ''UNKNOWN'' (-1) False
      ''The server experienced an unexpected error when processing the request'' None,
    ec ''OFFSET_OUT_OF_RANGE'' 1 False
      ''The requested offset is not within the range of offsets maintained by the server'' None,
    ec ''CORRUPT_MESSAGE'' 2 True
      ''This message has failed its CRC checksum, exceeds the valid size, or is otherwise corrupt'' None,
    ec ''UNKNOWN_TOPIC_OR_PARTITION'' 3 True
      ''This server does not host this topic-partition'' None,
    ec ''INVALID_FETCH_SIZE'' 4 False
      ''The requested fetch size is invalid'' None,
    ec ''LEADER_NOT_AVAILABLE'' 5 True
      ''There is no leader for this topic-partition as we are in the middle of a leadership election'' None,
    ec ''NOT_LEADER_FOR_PARTITION'' 6 True
      ''This server is not the leader for that topic-partition'' None,
    ec ''REQUEST_TIMED_OUT'' 7 True
      ''The request timed out'' None,
    ec ''BROKER_NOT_AVAILABLE'' 8 False
      ''The broker is not available'' None,
    ec ''REPLICA_NOT_AVAILABLE'' 9 True
      ''The replica is not available for the requested topic-partition'' None,
    ec ''MESSAGE_TOO_LARGE'' 10 False
      ''The request included a message larger than the max message size the server will accept'' None,
    ec ''STALE_CONTROLLER_EPOCH'' 11 False
      ''The controller moved to another broker'' None,
    ec ''OFFSET_METADATA_TOO_LARGE'' 12 False
      ''The metadata field of the offset request was too large'' None,
    ec ''NETWORK_EXCEPTION'' 13 True
      ''The server disconnected before a response was received'' None,
    ec ''GROUP_LOAD_IN_PROGRESS'' 14 True
      ''The coordinator is loading and hence can't process requests for this group'' None,
    ec ''GROUP_COORDINATOR_NOT_AVAILABLE'' 15 True
      ''The group coordinator is not available'' None,
    ec ''NOT_COORDINATOR_FOR_GROUP'' 16 True
      ''This is not the correct coordinator for this group'' None,
    ec ''INVALID_TOPIC_EXCEPTION'' 17 False
      ''The request attempted to perform an operation on an invalid topic'' None,
    ec ''RECORD_LIST_TOO_LARGE'' 18 False
      ''The request included message batch larger than the configured segment size on the server'' None,
    ec ''NOT_ENOUGH_REPLICAS'' 19 True
      ''Messages are rejected since there are fewer in-sync replicas than required'' None,
    ec ''NOT_ENOUGH_REPLICAS_AFTER_APPEND'' 20 True
      ''Messages are written to the log, but to fewer in-sync replicas than required'' None,
    ec ''INVALID_REQUIRED_ACKS'' 21 False
      ''Produce request specified an invalid value for required acks'' None,
    ec ''ILLEGAL_GENERATION'' 22 False
      ''Specified group generation id is not valid'' None]"

definition errorCodes_2 :: "error_code list" where
  "errorCodes_2 = [
    ec ''INCONSISTENT_GROUP_PROTOCOL'' 23 False
      ''The group member's supported protocols are incompatible with those of existing members'' None,
    ec ''INVALID_GROUP_ID'' 24 False
      ''The configured groupId is invalid'' None,
    ec ''UNKNOWN_MEMBER_ID'' 25 False
      ''The coordinator is not aware of this member'' None,
    ec ''INVALID_SESSION_TIMEOUT'' 26 False
      ''The session timeout is not within the range allowed by the broker (as configured by group.min.session.timeout.ms and group.max.session.timeout.ms)'' None,
    ec ''REBALANCE_IN_PROGRESS'' 27 False
      ''The group is rebalancing, so a rejoin is needed'' (Some (websiteUrl ''docs/faq'' (Some ''what-does-it-mean-to-get-rebalance-in-progress-errors''))),
    ec ''INVALID_COMMIT_OFFSET_SIZE'' 28 False
      ''The committing offset data size is not valid'' None,
    ec ''TOPIC_AUTHORIZATION_FAILED'' 29 False
      ''Not authorized to access topics: [Topic authorization failed]'' None,
    ec ''GROUP_AUTHORIZATION_FAILED'' 30 False
      ''Not authorized to access group: Group authorization failed'' None,
    ec ''CLUSTER_AUTHORIZATION_FAILED'' 31 False
      ''Cluster authorization failed'' None,
    ec ''INVALID_TIMESTAMP'' 32 False
      ''The timestamp of the message is out of acceptable range'' None,
    ec ''UNSUPPORTED_SASL_MECHANISM'' 33 False
      ''The broker does not support the requested SASL mechanism'' None,
    ec ''ILLEGAL_SASL_STATE'' 34 False
      ''Request is not valid given the current SASL state'' None,
    ec ''UNSUPPORTED_VERSION'' 35 False
      ''The version of API is not supported'' None,
    ec ''TOPIC_ALREADY_EXISTS'' 36 False
      ''Topic with this name already exists'' None,
    ec ''INVALID_PARTITIONS'' 37 False
      ''Number of partitions is invalid'' None,
    ec ''INVALID_REPLICATION_FACTOR'' 38 False
      ''Replication-factor is invalid'' None,
    ec ''INVALID_REPLICA_ASSIGNMENT'' 39 False
      ''Replica assignment is invalid'' None,
    ec ''INVALID_CONFIG'' 40 False
      ''Configuration is invalid'' None,
    ec ''NOT_CONTROLLER'' 41 True
      ''This is not the correct controller for this cluster'' None,
    ec ''INVALID_REQUEST'' 42 False
      ''This most likely occurs because of a request being malformed by the client library or the message was sent to an incompatible broker. See the broker logs for more details'' None,
    ec ''UNSUPPORTED_FOR_MESSAGE_FORMAT'' 43 False
      ''The message format version on the broker does not support the request'' None,
    ec ''POLICY_VIOLATION'' 44 False
      ''Request parameters do not satisfy the configured policy'' None,
    ec ''OUT_OF_ORDER_SEQUENCE_NUMBER'' 45 False
      ''The broker received an out of order sequence number'' None]"

definition errorCodes_3 :: "error_code list" where
  "errorCodes_3 = [
    ec ''DUPLICATE_SEQUENCE_NUMBER'' 46 False
      ''The broker received a duplicate sequence number'' None,
    ec ''INVALID_PRODUCER_EPOCH'' 47 False
      ''Producer attempted an operation with an old epoch. Either there is a newer producer with the same transactionalId, or the producer's transaction has been expired by the broker'' None,
    ec ''INVALID_TXN_STATE'' 48 False
      ''The producer attempted a transactional operation in an invalid state'' None,
    ec ''INVALID_PRODUCER_ID_MAPPING'' 49 False
      ''The producer attempted to use a producer id which is not currently assigned to its transactional id'' None,
    ec ''INVALID_TRANSACTION_TIMEOUT'' 50 False
      ''The transaction timeout is larger than the maximum value allowed by the broker (as configured by max.transaction.timeout.ms)'' None,
    ec ''CONCURRENT_TRANSACTIONS'' 51 True
      ''The producer attempted to update a transaction while another concurrent operation on the same transaction was ongoing'' None,
    ec ''TRANSACTION_COORDINATOR_FENCED'' 52 False
      ''Indicates that the transaction coordinator sending a WriteTxnMarker is no longer the current coordinator for a given producer'' None,
    ec ''TRANSACTIONAL_ID_AUTHORIZATION_FAILED'' 53 False
      ''Transactional Id authorization failed'' None,
    ec ''SECURITY_DISABLED'' 54 False
      ''Security features are disabled'' None,
    ec ''OPERATION_NOT_ATTEMPTED'' 55 False
      ''The broker did not attempt to execute this operation. This may happen for batched RPCs where some operations in the batch failed, causing the broker to respond without trying the rest'' None,
    ec ''KAFKA_STORAGE_ERROR'' 56 True
      ''Disk error when trying to access log file on the disk'' None,
    ec ''LOG_DIR_NOT_FOUND'' 57 False
      ''The user-specified log directory is not found in the broker config'' None,
    ec ''SASL_AUTHENTICATION_FAILED'' 58 False
      ''SASL Authentication failed'' (Some (websiteUrl ''docs/configuration'' (Some ''sasl''))),
    ec ''UNKNOWN_PRODUCER_ID'' 59 False
      ''This exception is raised by the broker if it could not locate the producer metadata associated with the producerId in question. This could happen if, for instance, the producer's records were deleted because their retention time had elapsed. Once the last records of the producerId are removed, the producer's metadata is removed from the broker, and future appends by the producer will return this exception'' None,
    ec ''REASSIGNMENT_IN_PROGRESS'' 60 False
      ''A partition reassignment is in progress'' None,
    ec ''DELEGATION_TOKEN_AUTH_DISABLED'' 61 False
      ''Delegation Token feature is not enabled'' None,
    ec ''DELEGATION_TOKEN_NOT_FOUND'' 62 False
      ''Delegation Token is not found on server'' None,
    ec ''DELEGATION_TOKEN_OWNER_MISMATCH'' 63 False
      ''Specified Principal is not valid Owner/Renewer'' None,
    ec ''DELEGATION_TOKEN_REQUEST_NOT_ALLOWED'' 64 False
      ''Delegation Token requests are not allowed on PLAINTEXT/1-way SSL channels and on delegation token authenticated channels'' None,
    ec ''DELEGATION_TOKEN_AUTHORIZATION_FAILED'' 65 False
      ''Delegation Token authorization failed'' None,
    ec ''DELEGATION_TOKEN_EXPIRED'' 66 False
      ''Delegation Token is expired'' None,
    ec ''INVALID_PRINCIPAL_TYPE'' 67 False
      ''Supplied principalType is not supported'' None]"

definition errorCodes_4 :: "error_code list" where
  "errorCodes_4 = [
    ec ''NON_EMPTY_GROUP'' 68 False
      ''The group is not empty'' None,
    ec ''GROUP_ID_NOT_FOUND'' 69 False
      ''The group id was not found'' None,
    ec ''FETCH_SESSION_ID_NOT_FOUND'' 70 True
      ''The fetch session ID was not found'' None,
    ec ''INVALID_FETCH_SESSION_EPOCH'' 71 True
      ''The fetch session epoch is invalid'' None,
    ec ''LISTENER_NOT_FOUND'' 72 True
      ''There is no listener on the leader broker that matches the listener on which metadata request was processed'' None,
    ec ''TOPIC_DELETION_DISABLED'' 73 False
      ''Topic deletion is disabled'' None,
    ec ''FENCED_LEADER_EPOCH'' 74 True
      ''The leader epoch in the request is older than the epoch on the broker'' None,
    ec ''UNKNOWN_LEADER_EPOCH'' 75 True
      ''The leader epoch in the request is newer than the epoch on the broker'' None,
    ec ''UNSUPPORTED_COMPRESSION_TYPE'' 76 False
      ''The requesting client does not support the compression type of given partition'' None,
    ec ''STALE_BROKER_EPOCH'' 77 False
      ''Broker epoch has changed'' None,
    ec ''OFFSET_NOT_AVAILABLE'' 78 True
      ''The leader high watermark has not caught up from a recent leader election so the offsets cannot be guaranteed to be monotonically increasing'' None,
    ec ''MEMBER_ID_REQUIRED'' 79 False
      ''The group member needs to have a valid member id before actually entering a consumer group'' None,
    ec ''PREFERRED_LEADER_NOT_AVAILABLE'' 80 True
      ''The preferred leader was not available'' None,
    ec ''GROUP_MAX_SIZE_REACHED'' 81 False
      ''The consumer group has reached its max size. It already has the configured maximum number of members'' None,
    ec ''FENCED_INSTANCE_ID'' 82 False
      ''The broker rejected this static consumer since another consumer with the same group instance id has registered with a different member id'' None,
    ec ''ELIGIBLE_LEADERS_NOT_AVAILABLE'' 83 True
      ''Eligible topic partition leaders are not available'' None,
    ec ''ELECTION_NOT_NEEDED'' 84 True
      ''Leader election not needed for topic partition'' None,
    ec ''NO_REASSIGNMENT_IN_PROGRESS'' 85 False
      ''No partition reassignment is in progress'' None,
    ec ''GROUP_SUBSCRIBED_TO_TOPIC'' 86 False
      ''Deleting offsets of a topic is forbidden while the consumer group is actively subscribed to it'' None,
    ec ''INVALID_RECORD'' 87 False
      ''This record has failed the validation on broker and hence be rejected'' None,
    ec ''UNSTABLE_OFFSET_COMMIT'' 88 True
      ''There are unstable offsets that need to be cleared'' None,
    ec ''THROTTLING_QUOTA_EXCEEDED'' 89 True
      ''The throttling quota has been exceeded'' None,
    ec ''PRODUCER_FENCED'' 90 False
      ''There is a newer producer with the same transactionalId which fences the current one'' None]"

definition errorCodes_5 :: "error_code list" where
  "errorCodes_5 = [
    ec ''RESOURCE_NOT_FOUND'' 91 False
      ''A request illegally referred to a resource that does not exist'' None,
    ec ''DUPLICATE_RESOURCE'' 92 False
      ''A request illegally referred to the same resource twice'' None,
    ec ''UNACCEPTABLE_CREDENTIAL'' 93 False
      ''Requested credential would not meet criteria for acceptability'' None,
    ec ''INCONSISTENT_VOTER_SET'' 94 False
      ''Indicates that the either the sender or recipient of a voter-only request is not one of the expected voters'' None,
    ec ''INVALID_UPDATE_VERSION'' 95 False
      ''The given update version was invalid'' None,
    ec ''FEATURE_UPDATE_FAILED'' 96 False
      ''Unable to update finalized features due to an unexpected server error'' None,
    ec ''PRINCIPAL_DESERIALIZATION_FAILURE'' 97 False
      ''Request principal deserialization failed during forwarding. This indicates an internal error on the broker cluster security setup'' None,
    ec ''SNAPSHOT_NOT_FOUND'' 98 False
      ''Requested snapshot was not found'' None,
    ec ''POSITION_OUT_OF_RANGE'' 99 False
      ''Requested position is not greater than or equal to zero, and less than the size of the snapshot'' None,
    ec ''UNKNOWN_TOPIC_ID'' 100 True
      ''This server does not host this topic ID'' None,
    ec ''DUPLICATE_BROKER_REGISTRATION'' 101 False
      ''This broker ID is already in use'' None,
    ec ''BROKER_ID_NOT_REGISTERED'' 102 False
      ''The given broker ID was not registered'' None,
    ec ''INCONSISTENT_TOPIC_ID'' 103 True
      ''The log topic ID did not match the ID in the log'' None,
    ec ''INCONSISTENT_CLUSTER_ID'' 104 False
      ''The clusterId did not match the ID on the server'' None,
    ec ''TRANSACTIONAL_ID_NOT_FOUND'' 105 False
      ''The transactionalId could not be found'' None,
    ec ''FETCH_SESSION_TOPIC_ID_ERROR'' 106 True
      ''The fetch session encountered inconsistent topic ID usage'' None,
    ec ''INELIGIBLE_REPLICA'' 107 False
      ''The new ISR contains at least one ineligible replica'' None,
    ec ''NEW_LEADER_ELECTED'' 108 False
      ''The AlterPartition request successfully updated the partition state but the leader has changed'' None,
    ec ''OFFSET_MOVED_TO_TIERED_STORAGE'' 109 False
      ''The requested offset is moved to tiered storage'' None,
    ec ''FENCED_MEMBER_EPOCH'' 110 False
      ''The member epoch is fenced by the group coordinator'' None,
    ec ''UNRELEASED_INSTANCE_ID'' 111 False
      ''The instance ID is still used by another member in the consumer group'' None,
    ec ''UNSUPPORTED_ASSIGNOR'' 112 False
      ''The assignor or its version range is not supported by the consumer group'' None]"

definition errorCodes_6 :: "error_code list" where
  "errorCodes_6 = [
    ec ''STALE_MEMBER_EPOCH'' 113 False
      ''The member epoch is stale. The member must retry after receiving its updated member epoch via the ConsumerGroupHeartbeat API'' None,
    ec ''MISMATCHED_ENDPOINT_TYPE'' 114 False
      ''The request was sent to an endpoint of the wrong type'' None,
    ec ''UNSUPPORTED_ENDPOINT_TYPE'' 115 False
      ''This endpoint type is not supported yet'' None,
    ec ''UNKNOWN_CONTROLLER_ID'' 116 False
      ''This controller ID is not known'' None,
    ec ''UNKNOWN_SUBSCRIPTION_ID'' 117 False
      ''Client sent a push telemetry request with an invalid or outdated subscription ID'' None,
    ec ''TELEMETRY_TOO_LARGE'' 118 False
      ''Client sent a push telemetry request larger than the maximum size the broker will accept'' None,
    ec ''INVALID_REGISTRATION'' 119 False
      ''The controller has considered the broker registration to be invalid'' None,
    ec ''SHARE_SESSION_NOT_FOUND'' 120 True
      ''The share session was not found'' None,
    ec ''INVALID_SHARE_SESSION_EPOCH'' 121 True
      ''The share session epoch is invalid'' None,
    ec ''FENCED_STATE_EPOCH'' 122 True
      ''The share coordinator rejected the request because the share-group state epoch did not match'' None,
    ec ''INVALID_VOTER_KEY'' 123 False
      ''The voter key does not match the receiving replica key'' None,
    ec ''DUPLICATE_VOTER'' 124 False
      ''The voter is already part of the set of voters'' None,
    ec ''VOTER_NOT_FOUND'' 125 False
      ''The voter is not part of the set of voters'' None,
    ec ''INVALID_REGULAR_EXPRESSION'' 126 False
      ''The regular expression is invalid'' None,
    ec ''UNKNOWN_SHARE_GROUP_STATE'' 127 False
      ''The share group state is unknown'' None]"

definition errorCodes :: "error_code list" where
  "errorCodes = errorCodes_1 @ errorCodes_2 @ errorCodes_3 @ errorCodes_4 @ errorCodes_5 @ errorCodes_6"

definition unknownErrorCode :: "int \<Rightarrow> error_code" where
  "unknownErrorCode code = ec ''KAFKAJS_UNKNOWN_ERROR_CODE'' (- 99) False (''Unknown error code '' @ bigint_to_string code) None"

definition SUCCESS_CODE :: int where "SUCCESS_CODE = 0"
definition UNSUPPORTED_VERSION_CODE :: int where "UNSUPPORTED_VERSION_CODE = 35"

definition failure :: "int \<Rightarrow> bool" where "failure code \<longleftrightarrow> code \<noteq> SUCCESS_CODE"

definition error_of_entry :: "error_code \<Rightarrow> err" where \<comment> \<open>\<open>new KafkaJSProtocolError(entry)\<close>\<close>
  "error_of_entry x =
     new_KafkaJSProtocolError
       (Err [] (ec_message x) (Some (ec_retriable x)) (Some (ec_type x)) (Some (ec_code x)) (ec_helpUrl x) None [] False)
       (ec_retriable x)"

definition find_error :: "int \<Rightarrow> error_code" where
  "find_error code = (case find (\<lambda>e. ec_code e = code) errorCodes of Some e \<Rightarrow> e | None \<Rightarrow> unknownErrorCode code)"

definition createErrorFromCode :: "int \<Rightarrow> err" where
  "createErrorFromCode code = error_of_entry (find_error code)"

text \<open>An error of the codec layer as the object the callers see.\<close>

definition of_codec :: "'a result \<Rightarrow> err + 'a" where
  "of_codec r =
     (case r of
        Inr v \<Rightarrow> Inr v
      | Inl JsTypeError \<Rightarrow> Inl (native_error ''TypeError'' [])
      | Inl JsRangeError \<Rightarrow> Inl (native_error ''RangeError'' [])
      | Inl JsSyntaxError \<Rightarrow> Inl (native_error ''SyntaxError'' [])
      | Inl (JsError m) \<Rightarrow> Inl (native_error ''Error'' m)
      | Inl KafkaJSInvalidVarIntError \<Rightarrow> Inl (new_KafkaJSInvalidVarIntError (Text []))
      | Inl KafkaJSInvalidLongError \<Rightarrow> Inl (new_KafkaJSInvalidLongError (Text []))
      | Inl KafkaJSPartialMessageError \<Rightarrow> Inl (new_KafkaJSPartialMessageError (Text []))
      | Inl KafkaJSUnsupportedMagicByteInMessageSet \<Rightarrow> Inl (new_KafkaJSUnsupportedMagicByteInMessageSet (Text []))
      | Inl (KafkaJSNotImplemented m) \<Rightarrow> Inl (new_KafkaJSNotImplemented (Text m))
      | Inl (KafkaJSNonRetriableError m) \<Rightarrow> Inl (new_KafkaJSNonRetriableError (Text m) None)
      | Inl (KafkaJSInvariantViolation m) \<Rightarrow> Inl (new_KafkaJSInvariantViolation (Text m))
      | Inl (KafkaJSProtocolErrorCode code) \<Rightarrow> Inl (createErrorFromCode code)
      | Inl _ \<Rightarrow> Inl (native_error ''Error'' []))"

definition failIfVersionNotSupported :: "int \<Rightarrow> err option" where \<comment> \<open>the error thrown, if any\<close>
  "failIfVersionNotSupported code =
     (if code = UNSUPPORTED_VERSION_CODE then Some (createErrorFromCode UNSUPPORTED_VERSION_CODE) else None)"

definition stale_types :: "string list" where
  "stale_types = [''UNKNOWN_TOPIC_OR_PARTITION'', ''LEADER_NOT_AVAILABLE'', ''NOT_LEADER_FOR_PARTITION'', ''UNKNOWN_TOPIC_ID'']"

definition staleMetadata :: "err \<Rightarrow> bool" where
  "staleMetadata e \<longleftrightarrow> (case e_type e of None \<Rightarrow> False | Some t \<Rightarrow> t \<in> set stale_types)"

subsection \<open>The table\<close>

text \<open>The table has exactly one entry for each of the codes -1 and 1 to 127, in this order.\<close>

lemma errorCodes_codes: "map ec_code errorCodes = - 1 # map int [1..<128]"
  by code_simp

lemma find_entry:
  assumes "code \<in> set (map ec_code errorCodes)"
  obtains x where "find (\<lambda>e. ec_code e = code) errorCodes = Some x" "x \<in> set errorCodes" "ec_code x = code"
proof -
  have "find (\<lambda>e. ec_code e = code) errorCodes \<noteq> None"
    using assms by (auto simp: find_None_iff)
  then obtain x where x: "find (\<lambda>e. ec_code e = code) errorCodes = Some x" by blast
  then have "x \<in> set errorCodes" "ec_code x = code" unfolding find_Some_iff by auto
  with x show thesis by (rule that)
qed

lemma code_in_table: "code \<in> set (map ec_code errorCodes) \<longleftrightarrow> code = - 1 \<or> (1 \<le> code \<and> code \<le> 127)"
  unfolding errorCodes_codes using image_int_atLeastLessThan [of 1 128] by auto

lemma error_of_entry_selectors [simp]:
  "e_name (error_of_entry x) = ''KafkaJSProtocolError''" "e_type (error_of_entry x) = Some (ec_type x)"
  "e_code (error_of_entry x) = Some (ec_code x)" "e_retriable (error_of_entry x) = Some (ec_retriable x)"
  "e_message (error_of_entry x) = ec_message x"
  by (simp_all add: error_of_entry_def new_KafkaJSProtocolError_def)

subsection \<open>Properties\<close>

text \<open>Every error code that Kafka defines (-1 and 1 to 127) yields a protocol error with that code,
  described by an entry of the table; any other code yields the fallback, which is not retried.\<close>

theorem createErrorFromCode_total:
  "(if code = - 1 \<or> (1 \<le> code \<and> code \<le> 127)
    then e_code (createErrorFromCode code) = Some code \<and>
         (\<exists>x. x \<in> set errorCodes \<and> createErrorFromCode code = error_of_entry x)
    else e_type (createErrorFromCode code) = Some ''KAFKAJS_UNKNOWN_ERROR_CODE'' \<and>
         e_retriable (createErrorFromCode code) = Some False)"
proof (cases "code = - 1 \<or> (1 \<le> code \<and> code \<le> 127)")
  case True
  then obtain x where "find (\<lambda>e. ec_code e = code) errorCodes = Some x" "x \<in> set errorCodes" "ec_code x = code"
    using find_entry code_in_table by blast
  then show ?thesis using True by (auto simp: createErrorFromCode_def find_error_def)
next
  case False
  then have "find (\<lambda>e. ec_code e = code) errorCodes = None"
    using code_in_table [of code] by (auto simp: find_None_iff)
  then show ?thesis using False
    by (simp add: createErrorFromCode_def find_error_def unknownErrorCode_def ec_def)
qed

end
