(* ===== verification/Step_System.thy ===== *)
theory Step_System
  imports Main
begin

text \<open>
  The interface that every state machine of the development offers to the statements about its
  reachable states: a start state, a step relation and an invariant that the start state satisfies
  and every step keeps.
\<close>

locale step_system =
  fixes step :: "'s \<Rightarrow> 's \<Rightarrow> bool" and start :: 's and inv :: "'s \<Rightarrow> bool"
  assumes inv_start: "inv start"
    and inv_step: "inv s \<Longrightarrow> step s s' \<Longrightarrow> inv s'"
begin

lemma inv_steps: "step\<^sup>*\<^sup>* s s' \<Longrightarrow> inv s \<Longrightarrow> inv s'"
  by (induction rule: rtranclp_induct) (auto intro: inv_step)

lemma inv_reachable: "step\<^sup>*\<^sup>* start s \<Longrightarrow> inv s"
  using inv_steps inv_start by blast

text \<open>What the invariant implies holds throughout, and a relation that every step from an invariant
  state satisfies, and that is transitive, relates the ends of every run.\<close>

lemma safe: "(\<And>s. inv s \<Longrightarrow> P s) \<Longrightarrow> step\<^sup>*\<^sup>* start s \<Longrightarrow> P s"
  using inv_reachable by blast

lemma monotone:
  assumes "\<And>s s'. inv s \<Longrightarrow> step s s' \<Longrightarrow> R s s'" "\<And>s. R s s" "\<And>a b c. R a b \<Longrightarrow> R b c \<Longrightarrow> R a c"
    and "step\<^sup>*\<^sup>* start s" "step\<^sup>*\<^sup>* s s'"
  shows "R s s'"
  using assms(5)
proof (induction rule: rtranclp_induct)
  case (step y z)
  then have "inv y" using inv_steps inv_reachable [OF assms(4)] by blast
  then show ?case using assms(1) [of y z] step assms(3) by blast
qed (rule assms(2))

end

end
