(* ===== verification/Js_Object.thy ===== *)
theory Js_Object
  imports "HOL-Library.AList" "HOL-Library.Multiset"
begin

text \<open>
  JavaScript objects as association lists with distinct keys: assigning a property replaces the
  value in place or appends the key, and building an object from entries lets the last entry of a key
  win. With it the difference of two arrays, \<^verbatim>\<open>src/utils/arrayDiff.js\<close>.
\<close>

definition arrayDiff :: "'a list \<Rightarrow> 'a list \<Rightarrow> 'a list" where
  "arrayDiff a b = filter (\<lambda>x. x \<notin> set b) a"

lemma keys_update: "fst ` set (AList.update k v al) = insert k (fst ` set al)"
  by (metis update_keys image_set insert_absorb list.set(1) list.set(2) set_append Un_insert_right sup_bot.right_neutral)

lemma map_of_fold_update:
  "map_of (foldl (\<lambda>obj (k, v). AList.update k v obj) obj xs) k =
     (case map_of (rev xs) k of Some v \<Rightarrow> Some v | None \<Rightarrow> map_of obj k)"
  by (induction xs arbitrary: obj)
     (auto simp: update_conv' map_of_append map_add_def split: option.splits prod.splits)

lemma distinct_fold_update:
  "distinct (map fst obj) \<Longrightarrow> distinct (map fst (foldl (\<lambda>obj (k, v). AList.update k v obj) obj xs))"
  by (induction xs arbitrary: obj) (auto simp: distinct_update split: prod.splits)

definition object_of :: "('k \<times> 'v) list \<Rightarrow> ('k \<times> 'v) list" where
  "object_of entries = foldl (\<lambda>obj (k, v). AList.update k v obj) [] entries"

lemma distinct_object_of: "distinct (map fst (object_of entries))"
  by (simp add: object_of_def distinct_fold_update)

lemma keys_fold_update: "fst ` set (foldl (\<lambda>obj (k, v). AList.update k (f v) obj) obj xs) = fst ` set obj \<union> fst ` set xs"
proof (induction xs arbitrary: obj)
  case (Cons x xs)
  obtain k v where x: "x = (k, v)" by (cases x)
  show ?case unfolding x foldl_Cons split Cons.IH keys_update by simp
qed simp

lemma keys_object_of: "fst ` set (object_of entries) = fst ` set entries"
  unfolding object_of_def by (simp add: keys_fold_update [where f = "\<lambda>v. v"])

lemma update_fresh: "k \<notin> fst ` set al \<Longrightarrow> AList.update k v al = al @ [(k, v)]"
  by (induction al) auto

lemma delete_fresh: "k \<notin> fst ` set al \<Longrightarrow> AList.delete k al = al"
  by (induction al) auto

lemma mset_delete: "distinct (map fst al) \<Longrightarrow> map_of al k = Some v \<Longrightarrow> mset al = add_mset (k, v) (mset (AList.delete k al))"
  by (induction al) (auto simp: delete_fresh)

end
