(* ===== verification/Offset_Manager.thy ===== *)
theory Offset_Manager
  imports Partitioner Retry Protocol_Error Step_System Js_Object
begin

text \<open>
  The offsets of a consumer: \<^verbatim>\<open>src/consumer/offsetManager/index.js\<close> with
  \<^verbatim>\<open>initializeConsumerOffsets.js\<close> and \<^verbatim>\<open>isInvalidOffset.js\<close>. An offset is a decimal
  string in the code and an integer here; \<open>None\<close> is \<open>undefined\<close>. The two tables of a
  manager are objects from topics to objects from partitions to offsets, here association lists;
  reading a partition of a topic that is not in the table throws. The answers of the coordinator and
  of the cluster are arguments, and an operation returns the request it sends. The code writes
  \<^verbatim>\<open>Date.now()\<close> into \<open>lastCommit\<close>; the time is an argument too.
\<close>

type_synonym partition_offsets = "(int \<times> int option) list"
type_synonym offset_table = "(string \<times> partition_offsets) list"
type_synonym topic_offsets = "(string \<times> (int \<times> int option) list) list"

record offset_manager =
  memberAssignment :: "(string \<times> int list) list"
  resolvedOffsets :: offset_table
  committedOffsets :: offset_table
  lastCommit :: int
  autoCommit :: bool
  autoCommitInterval :: "int option"
  autoCommitThreshold :: "int option"

definition om_topics :: "offset_manager \<Rightarrow> string list" where
  "om_topics m = map fst (memberAssignment m)"

text \<open>\<^verbatim>\<open>obj[key]\<close>, and \<^verbatim>\<open>table[topic]\<close> where the result is used as an object.\<close>

definition jprop :: "('k \<times> 'v option) list \<Rightarrow> 'k \<Rightarrow> 'v option" where
  "jprop obj k = (case map_of obj k of None \<Rightarrow> None | Some v \<Rightarrow> v)"

definition undefined_error :: err where
  "undefined_error = native_error ''TypeError'' ''Cannot read properties of undefined''"

definition topic_entry :: "offset_table \<Rightarrow> string \<Rightarrow> err + partition_offsets" where
  "topic_entry tab topic = (case map_of tab topic of None \<Rightarrow> Inl undefined_error | Some obj \<Rightarrow> Inr obj)"

definition isInvalidOffset :: "int option \<Rightarrow> bool" where
  "isInvalidOffset offs = (case offs of None \<Rightarrow> True | Some v \<Rightarrow> v < 0)"

definition indexTopics :: "string list \<Rightarrow> offset_table" where
  "indexTopics topics = foldl (\<lambda>obj topic. AList.update topic [] obj) [] topics"

definition clearAllOffsets :: "offset_manager \<Rightarrow> offset_manager" where
  "clearAllOffsets m = m\<lparr>committedOffsets := indexTopics (om_topics m), resolvedOffsets := indexTopics (om_topics m)\<rparr>"

definition new_OffsetManager :: "(string \<times> int list) list \<Rightarrow> bool \<Rightarrow> int option \<Rightarrow> int option \<Rightarrow> int \<Rightarrow> offset_manager" where
  "new_OffsetManager assignment auto interval threshold now =
     clearAllOffsets \<lparr>memberAssignment = assignment, resolvedOffsets = [], committedOffsets = [], lastCommit = now,
       autoCommit = auto, autoCommitInterval = interval, autoCommitThreshold = threshold\<rparr>"

subsection \<open>Reading and resolving\<close>

definition set_resolved :: "string \<Rightarrow> partition_offsets \<Rightarrow> offset_manager \<Rightarrow> offset_manager" where
  "set_resolved topic obj m = m\<lparr>resolvedOffsets := AList.update topic obj (resolvedOffsets m)\<rparr>"

definition nextOffset :: "string \<Rightarrow> int \<Rightarrow> offset_manager \<Rightarrow> (err + int) \<times> offset_manager" where
  "nextOffset topic prt m =
     (case topic_entry (resolvedOffsets m) topic of
        Inl e \<Rightarrow> (Inl e, m)
      | Inr obj \<Rightarrow>
          (let value = (\<lambda>offs. Inr (if isInvalidOffset offs then 0 else the offs))
           in if jprop obj prt = None
              then (case topic_entry (committedOffsets m) topic of
                      Inl e \<Rightarrow> (Inl e, m)
                    | Inr cobj \<Rightarrow> (value (jprop cobj prt), set_resolved topic (AList.update prt (jprop cobj prt) obj) m))
              else (value (jprop obj prt), m)))"

definition resetOffset :: "string \<Rightarrow> int \<Rightarrow> offset_manager \<Rightarrow> (err + unit) \<times> offset_manager" where
  "resetOffset topic prt m =
     (case rbind (topic_entry (committedOffsets m) topic) (\<lambda>cobj.
             rbind (topic_entry (resolvedOffsets m) topic) (\<lambda>obj. Inr (AList.update prt (jprop cobj prt) obj))) of
        Inl e \<Rightarrow> (Inl e, m)
      | Inr obj \<Rightarrow> (Inr (), set_resolved topic obj m))"

definition resolveOffset :: "string \<Rightarrow> int \<Rightarrow> int \<Rightarrow> offset_manager \<Rightarrow> (err + unit) \<times> offset_manager" where
  "resolveOffset topic prt offs m =
     (case topic_entry (resolvedOffsets m) topic of
        Inl e \<Rightarrow> (Inl e, m)
      | Inr obj \<Rightarrow> (Inr (), set_resolved topic (AList.update prt (Some (Long_add offs 1)) obj) m))"

text \<open>\<^verbatim>\<open>Long.fromValue(undefined)\<close> throws.\<close>

definition long_of :: "int option \<Rightarrow> err + int" where
  "long_of offs = (case offs of None \<Rightarrow> Inl undefined_error | Some v \<Rightarrow> Inr v)"

definition subtractOffsets :: "int option \<Rightarrow> int option \<Rightarrow> err + int" where
  "subtractOffsets resolved committed =
     rbind (long_of resolved) (\<lambda>r. Inr (if isInvalidOffset committed then r else Long_subtract r (the committed)))"

definition subtractTopicOffsets :: "offset_manager \<Rightarrow> string \<Rightarrow> err + int list" where
  "subtractTopicOffsets m topic =
     rbind (topic_entry (resolvedOffsets m) topic) (\<lambda>obj.
       if obj = [] then Inr []
       else rbind (topic_entry (committedOffsets m) topic) (\<lambda>cobj.
              rmap (\<lambda>prt. subtractOffsets (jprop obj prt) (jprop cobj prt)) (object_keys obj)))"

definition countResolvedOffsets :: "offset_manager \<Rightarrow> err + int" where
  "countResolvedOffsets m =
     rbind (rmap (subtractTopicOffsets m) (om_topics m)) (\<lambda>diffs. Inr (foldl Long_add 0 (concat diffs)))"

subsection \<open>Committing\<close>

definition delete_offset :: "string \<Rightarrow> int \<Rightarrow> offset_table \<Rightarrow> offset_table" where
  "delete_offset topic prt tab = (case map_of tab topic of None \<Rightarrow> tab | Some obj \<Rightarrow> AList.update topic (AList.delete prt obj) tab)"

definition clearOffsets :: "string \<Rightarrow> int \<Rightarrow> offset_manager \<Rightarrow> (err + unit) \<times> offset_manager" where
  "clearOffsets topic prt m =
     (case topic_entry (committedOffsets m) topic of
        Inl e \<Rightarrow> (Inl e, m)
      | Inr _ \<Rightarrow>
          (let m = m\<lparr>committedOffsets := delete_offset topic prt (committedOffsets m)\<rparr>
           in case topic_entry (resolvedOffsets m) topic of
                Inl e \<Rightarrow> (Inl e, m)
              | Inr _ \<Rightarrow> (Inr (), m\<lparr>resolvedOffsets := delete_offset topic prt (resolvedOffsets m)\<rparr>)))"

text \<open>An \<^verbatim>\<open>OffsetCommit\<close> for one partition, and the request it sends.\<close>

definition EARLIEST_OFFSET :: int where "EARLIEST_OFFSET = - 2"
definition LATEST_OFFSET :: int where "LATEST_OFFSET = - 1"

definition defaultOffset :: "bool \<Rightarrow> int" where
  "defaultOffset fromBeginning = (if fromBeginning then EARLIEST_OFFSET else LATEST_OFFSET)"

definition setDefaultOffset ::
    "string \<Rightarrow> int \<Rightarrow> bool \<Rightarrow> err + unit \<Rightarrow> offset_manager \<Rightarrow> (err + topic_offsets) \<times> offset_manager" where
  "setDefaultOffset topic prt fromBeginning answer m =
     (case answer of
        Inl e \<Rightarrow> (Inl e, m)
      | Inr _ \<Rightarrow>
          (case clearOffsets topic prt m of
             (Inl e, m) \<Rightarrow> (Inl e, m)
           | (Inr _, m) \<Rightarrow> (Inr [(topic, [(prt, Some (defaultOffset fromBeginning))])], m)))"

definition om_seek :: "string \<Rightarrow> int \<Rightarrow> int \<Rightarrow> err + unit \<Rightarrow> offset_manager \<Rightarrow> (err + topic_offsets option) \<times> offset_manager" where
  "om_seek topic prt offs answer m =
     (if (case map_of (memberAssignment m) topic of None \<Rightarrow> True | Some prts \<Rightarrow> prt \<notin> set prts) then (Inr None, m)
      else if \<not> autoCommit m
      then (case resolveOffset topic prt (Long_subtract offs 1) m of (Inl e, m) \<Rightarrow> (Inl e, m) | (Inr _, m) \<Rightarrow> (Inr None, m))
      else case answer of
             Inl e \<Rightarrow> (Inl e, m)
           | Inr _ \<Rightarrow>
               (case clearOffsets topic prt m of
                  (Inl e, m) \<Rightarrow> (Inl e, m)
                | (Inr _, m) \<Rightarrow> (Inr (Some [(topic, [(prt, Some offs)])]), m)))"

definition changedOffsets :: "offset_manager \<Rightarrow> string \<Rightarrow> partition_offsets \<Rightarrow> err + (int \<times> int option) list" where
  "changedOffsets m topic obj =
     (if obj = [] then Inr []
      else rbind (topic_entry (committedOffsets m) topic) (\<lambda>cobj.
        rbind (rmap (\<lambda>prt.
            if jprop obj prt \<noteq> jprop cobj prt
            then rbind (long_of (jprop obj prt)) (\<lambda>v. Inr (if v \<ge> 0 then [(prt, jprop obj prt)] else []))
            else Inr []) (object_keys obj)) (\<lambda>parts. Inr (concat parts))))"

definition uncommittedOffsets :: "offset_manager \<Rightarrow> err + topic_offsets" where
  "uncommittedOffsets m =
     rbind (rmap (\<lambda>topic. rbind (topic_entry (resolvedOffsets m) topic) (\<lambda>obj.
              rbind (changedOffsets m topic obj) (\<lambda>prts. Inr (topic, prts)))) (om_topics m))
       (\<lambda>ts. Inr (filter (\<lambda>t. snd t \<noteq> []) ts))"

definition mark_topic :: "offset_table \<Rightarrow> string \<times> (int \<times> int option) list \<Rightarrow> offset_table" where
  "mark_topic tab t =
     AList.update (fst t) (foldl (\<lambda>obj (prt, offs). AList.update prt offs obj)
       (case map_of tab (fst t) of None \<Rightarrow> [] | Some obj \<Rightarrow> obj) (snd t)) tab"

definition mark_committed :: "topic_offsets \<Rightarrow> offset_table \<Rightarrow> offset_table" where
  "mark_committed topics tab = foldl mark_topic tab topics"

text \<open>
  Committing the given offsets, or those that changed. When the coordinator has moved, the metadata
  is refreshed before the error is passed on; that refresh may fail itself.
\<close>

definition commitOffsets ::
    "topic_offsets option \<Rightarrow> int \<Rightarrow> err + unit \<Rightarrow> err option \<Rightarrow> offset_manager \<Rightarrow> (err + topic_offsets option) \<times> offset_manager" where
  "commitOffsets offsets now answer refresh m =
     (case (case offsets of Some topics \<Rightarrow> Inr topics | None \<Rightarrow> uncommittedOffsets m) of
        Inl e \<Rightarrow> (Inl e, m)
      | Inr topics \<Rightarrow>
          (if topics = [] then (Inr None, m\<lparr>lastCommit := now\<rparr>)
           else case answer of
                  Inr _ \<Rightarrow> (Inr (Some topics), m\<lparr>committedOffsets := mark_committed topics (committedOffsets m), lastCommit := now\<rparr>)
                | Inl e \<Rightarrow>
                    (Inl (if e_type e = Some ''NOT_COORDINATOR_FOR_GROUP''
                          then (case refresh of None \<Rightarrow> e | Some e' \<Rightarrow> e') else e), m)))"

definition commitOffsetsIfNecessary ::
    "int \<Rightarrow> err + unit \<Rightarrow> err option \<Rightarrow> offset_manager \<Rightarrow> (err + topic_offsets option) \<times> offset_manager" where
  "commitOffsetsIfNecessary now answer refresh m =
     (let timeoutReached = (case autoCommitInterval m of None \<Rightarrow> False | Some i \<Rightarrow> now \<ge> lastCommit m + i);
          thresholdReached = (case autoCommitThreshold m of None \<Rightarrow> Inr False
            | Some t \<Rightarrow> rbind (countResolvedOffsets m) (\<lambda>n. Inr (n \<ge> t)))
      in case thresholdReached of
           Inl e \<Rightarrow> (Inl e, m)
         | Inr reached \<Rightarrow>
             (if timeoutReached \<or> reached then commitOffsets None now answer refresh m else (Inr None, m)))"

subsection \<open>Initial offsets\<close>

definition index_offsets :: "(int \<times> int option) list \<Rightarrow> partition_offsets" where
  "index_offsets prts = foldl (\<lambda>obj (prt, offs). AList.update prt offs obj) [] prts"

definition index_table :: "topic_offsets \<Rightarrow> offset_table" where
  "index_table ts = foldl (\<lambda>obj (topic, prts). AList.update topic (index_offsets prts) obj) [] ts"

definition initializeConsumerOffsets :: "topic_offsets \<Rightarrow> topic_offsets \<Rightarrow> err + topic_offsets" where
  "initializeConsumerOffsets consumerOffsets topicOffsets =
     (let indexedTopicOffsets = index_table topicOffsets
      in rmap (\<lambda>(topic, prts).
           rbind (rmap (\<lambda>prt. if isInvalidOffset (jprop prts prt)
                     then rbind (topic_entry indexedTopicOffsets topic) (\<lambda>obj. Inr (prt, jprop obj prt))
                     else Inr (prt, jprop prts prt)) (object_keys prts)) (\<lambda>ps. Inr (topic, ps)))
         (index_table consumerOffsets))"

definition pendingPartitions :: "offset_manager \<Rightarrow> err + (string \<times> int list) list" where
  "pendingPartitions m =
     rbind (rmap (\<lambda>(topic, prts).
              if prts = [] then Inr (topic, [])
              else rbind (topic_entry (committedOffsets m) topic) (\<lambda>cobj.
                     Inr (topic, filter (\<lambda>prt. isInvalidOffset (jprop cobj prt)) prts))) (memberAssignment m))
       (\<lambda>ts. Inr (filter (\<lambda>t. snd t \<noteq> []) ts))"

definition unresolvedPartitions :: "topic_offsets \<Rightarrow> (string \<times> int list) list" where
  "unresolvedPartitions consumerOffsets =
     map (\<lambda>(topic, prts). (topic, map fst (filter (\<lambda>(prt, offs). isInvalidOffset offs) prts))) consumerOffsets"

text \<open>\<open>fetchOffsets\<close> answers \<^verbatim>\<open>OffsetFetch\<close>, \<open>topicOffsets\<close> is \<^verbatim>\<open>cluster.fetchTopicsOffset\<close>.\<close>

definition resolveOffsets ::
    "((string \<times> int list) list \<Rightarrow> err + topic_offsets) \<Rightarrow> ((string \<times> int list) list \<Rightarrow> err + topic_offsets)
      \<Rightarrow> offset_manager \<Rightarrow> (err + unit) \<times> offset_manager" where
  "resolveOffsets fetchOffsets topicOffsets m =
     (case rbind (pendingPartitions m) (\<lambda>pending.
             if pending = [] then Inr []
             else rbind (fetchOffsets pending) (\<lambda>consumerOffsets.
                    let unresolved = unresolvedPartitions consumerOffsets
                    in if \<exists>t \<in> set unresolved. snd t \<noteq> []
                       then rbind (topicOffsets unresolved) (initializeConsumerOffsets consumerOffsets)
                       else Inr consumerOffsets)) of
        Inl e \<Rightarrow> (Inl e, m)
      | Inr offsets \<Rightarrow> (Inr (), m\<lparr>committedOffsets := mark_committed offsets (committedOffsets m)\<rparr>))"

subsection \<open>Tables\<close>

lemma mark_topic_other: "t \<noteq> fst x \<Longrightarrow> map_of (mark_topic tab x) t = map_of tab t"
  by (simp add: mark_topic_def update_conv')

lemma keys_mark_topic: "fst ` set (mark_topic tab x) = insert (fst x) (fst ` set tab)"
  by (simp add: mark_topic_def keys_update)

lemma keys_mark_committed: "fst ` set (mark_committed topics tab) = fst ` set topics \<union> fst ` set tab"
  unfolding mark_committed_def by (induction topics arbitrary: tab) (auto simp: keys_mark_topic)

lemma mark_committed_other: "t \<notin> fst ` set topics \<Longrightarrow> map_of (mark_committed topics tab) t = map_of tab t"
  unfolding mark_committed_def by (induction topics arbitrary: tab) (auto simp: mark_topic_other)

text \<open>Marking gives the listed partitions of a topic their listed offset and keeps the others.\<close>

lemma mark_committed_entry:
  assumes "distinct (map fst topics)" "(t, prts) \<in> set topics" "map_of tab t = Some obj"
  shows "map_of (mark_committed topics tab) t = Some (foldl (\<lambda>obj (p, v). AList.update p v obj) obj prts)"
  using assms
proof (induction topics arbitrary: tab)
  case (Cons x topics)
  show ?case
  proof (cases "fst x = t")
    case True
    then have x: "x = (t, prts)" using Cons.prems(1,2) by (auto intro: rev_image_eqI)
    then have "t \<notin> fst ` set topics" using Cons.prems(1) by auto
    then have "map_of (mark_committed topics (mark_topic tab x)) t = map_of (mark_topic tab x) t" by (rule mark_committed_other)
    then show ?thesis using Cons.prems(3) by (simp add: mark_committed_def x mark_topic_def update_conv')
  next
    case False
    then have "(t, prts) \<in> set topics" "map_of (mark_topic tab x) t = Some obj"
      using Cons.prems by (auto simp: mark_topic_other)
    then show ?thesis using Cons.IH [of "mark_topic tab x"] Cons.prems(1) by (simp add: mark_committed_def)
  qed
qed simp

subsection \<open>Well-formed managers\<close>

text \<open>The table of resolved offsets has exactly the assigned topics, that of committed ones at least them.\<close>

definition om_inv :: "offset_manager \<Rightarrow> bool" where
  "om_inv m \<longleftrightarrow> distinct (om_topics m) \<and> fst ` set (resolvedOffsets m) = set (om_topics m) \<and>
     set (om_topics m) \<subseteq> fst ` set (committedOffsets m) \<and>
     (\<forall>topic obj. map_of (resolvedOffsets m) topic = Some obj \<longrightarrow> distinct (map fst obj))"

lemma topic_entry_some: "topic \<in> fst ` set tab \<Longrightarrow> \<exists>obj. map_of tab topic = Some obj \<and> topic_entry tab topic = Inr obj"
  by (cases "map_of tab topic") (auto simp: topic_entry_def map_of_eq_None_iff)

lemma topic_entry_Inr: "topic_entry tab topic = Inr obj \<longleftrightarrow> map_of tab topic = Some obj"
  by (simp add: topic_entry_def split: option.split)

text \<open>
  Between its operations a manager only changes the two tables and the time of the last commit:
  resolved topics are replaced by well-formed ones and committed topics are never removed.
\<close>

lemma om_inv_set_resolved:
  assumes "om_inv m" "map_of (resolvedOffsets m) topic = Some old" "distinct (map fst obj)"
  shows "om_inv (set_resolved topic obj m)"
proof -
  have "topic \<in> fst ` set (resolvedOffsets m)" using assms(2) by (auto dest: map_of_SomeD intro: rev_image_eqI)
  then show ?thesis using assms(1,3)
    by (auto simp: om_inv_def set_resolved_def om_topics_def keys_update update_conv')
qed

lemma om_inv_entries:
  assumes "om_inv m" "topic \<in> set (om_topics m)"
  shows "\<exists>obj cobj. map_of (resolvedOffsets m) topic = Some obj \<and> map_of (committedOffsets m) topic = Some cobj"
proof -
  have "topic \<in> fst ` set (resolvedOffsets m)" "topic \<in> fst ` set (committedOffsets m)" using assms unfolding om_inv_def by blast+
  then show ?thesis by (metis topic_entry_some)
qed

lemma om_inv_resolvedD: "om_inv m \<Longrightarrow> map_of (resolvedOffsets m) topic = Some obj \<Longrightarrow> distinct (map fst obj)"
  by (simp add: om_inv_def)

lemma om_inv_committed:
  assumes "om_inv m" "fst ` set (committedOffsets m) \<subseteq> fst ` set tab"
  shows "om_inv (m\<lparr>committedOffsets := tab, lastCommit := now\<rparr>)" "om_inv (m\<lparr>committedOffsets := tab\<rparr>)" "om_inv (m\<lparr>lastCommit := now\<rparr>)"
proof -
  have "set (om_topics m) \<subseteq> fst ` set (committedOffsets m)" using assms(1) by (simp add: om_inv_def)
  then have "set (om_topics m) \<subseteq> fst ` set tab" using assms(2) by (rule order_trans)
  then show "om_inv (m\<lparr>committedOffsets := tab, lastCommit := now\<rparr>)" "om_inv (m\<lparr>committedOffsets := tab\<rparr>)" "om_inv (m\<lparr>lastCommit := now\<rparr>)"
    using assms(1) by (simp_all add: om_inv_def om_topics_def)
qed

lemma mark_committed_keys: "fst ` set tab \<subseteq> fst ` set (mark_committed topics tab)"
  by (simp add: keys_mark_committed)

lemma keys_delete_offset: "fst ` set (delete_offset topic prt tab) = fst ` set tab"
  by (auto simp: delete_offset_def keys_update split: option.split dest: map_of_SomeD intro: rev_image_eqI)

lemma om_inv_nextOffset: "om_inv m \<Longrightarrow> om_inv (snd (nextOffset topic prt m))"
  by (auto simp: nextOffset_def Let_def topic_entry_Inr distinct_update split: sum.split
    intro!: om_inv_set_resolved dest: om_inv_resolvedD)

lemma om_inv_resetOffset: "om_inv m \<Longrightarrow> om_inv (snd (resetOffset topic prt m))"
  by (auto simp: resetOffset_def rbind_eq_Inr_conv topic_entry_Inr distinct_update split: sum.split
    intro!: om_inv_set_resolved dest: om_inv_resolvedD)

lemma om_inv_resolveOffset: "om_inv m \<Longrightarrow> om_inv (snd (resolveOffset topic prt offs m))"
  by (auto simp: resolveOffset_def topic_entry_Inr distinct_update split: sum.split
    intro!: om_inv_set_resolved dest: om_inv_resolvedD)

lemma om_inv_clearOffsets:
  assumes "om_inv m"
  shows "om_inv (snd (clearOffsets topic prt m))"
proof (cases "topic_entry (committedOffsets m) topic")
  case (Inr cobj)
  define m' where "m' = m\<lparr>committedOffsets := delete_offset topic prt (committedOffsets m)\<rparr>"
  have m': "om_inv m'" unfolding m'_def using assms by (intro om_inv_committed) (simp_all add: keys_delete_offset)
  have res: "resolvedOffsets m' = resolvedOffsets m" by (simp add: m'_def)
  have clear: "clearOffsets topic prt m = (case topic_entry (resolvedOffsets m') topic of
      Inl e \<Rightarrow> (Inl e, m') | Inr _ \<Rightarrow> (Inr (), m'\<lparr>resolvedOffsets := delete_offset topic prt (resolvedOffsets m')\<rparr>))"
    by (simp only: clearOffsets_def Inr m'_def Let_def sum.case)
  show ?thesis
  proof (cases "topic_entry (resolvedOffsets m') topic")
    case (Inr obj)
    then have obj: "map_of (resolvedOffsets m') topic = Some obj" by (simp add: topic_entry_Inr)
    have "snd (clearOffsets topic prt m) = set_resolved topic (AList.delete prt obj) m'"
      by (simp add: clear Inr set_resolved_def delete_offset_def obj)
    then show ?thesis using om_inv_set_resolved [OF m' obj] om_inv_resolvedD [OF m' obj] by (simp add: distinct_delete)
  qed (simp add: clear m')
qed (simp add: clearOffsets_def assms)

lemma om_inv_commitOffsets: "om_inv m \<Longrightarrow> om_inv (snd (commitOffsets offsets now answer refresh m))"
  by (auto simp: commitOffsets_def split: sum.split intro!: om_inv_committed mark_committed_keys)

lemma om_inv_commitIfNecessary: "om_inv m \<Longrightarrow> om_inv (snd (commitOffsetsIfNecessary now answer refresh m))"
  by (auto simp: commitOffsetsIfNecessary_def Let_def split: sum.split intro: om_inv_commitOffsets)

lemma om_inv_resolveOffsets: "om_inv m \<Longrightarrow> om_inv (snd (resolveOffsets fetchOffsets topicOffsets m))"
  by (auto simp: resolveOffsets_def split: sum.split intro!: om_inv_committed mark_committed_keys)

lemma om_inv_setDefaultOffset: "om_inv m \<Longrightarrow> om_inv (snd (setDefaultOffset topic prt fromBeginning answer m))"
  using om_inv_clearOffsets [of m topic prt] by (auto simp: setDefaultOffset_def split: sum.split prod.split)

lemma om_inv_seek: "om_inv m \<Longrightarrow> om_inv (snd (om_seek topic prt offs answer m))"
  using om_inv_clearOffsets [of m topic prt] om_inv_resolveOffset [of m topic prt "Long_subtract offs 1"]
  by (auto simp: om_seek_def split: sum.split prod.split option.split)

lemma map_of_index: "map_of (indexTopics topics) k = (if k \<in> set topics then Some [] else None)"
proof -
  have "map_of (foldl (\<lambda>obj topic. AList.update topic [] obj) tab topics) k = (if k \<in> set topics then Some [] else map_of tab k)"
    for tab :: offset_table
    by (induction topics arbitrary: tab) (auto simp: update_conv')
  then show ?thesis by (simp add: indexTopics_def)
qed

lemma keys_index: "fst ` set (indexTopics topics) = set topics"
proof -
  have "fst ` set (foldl (\<lambda>obj topic. AList.update topic [] obj) tab topics) = fst ` set tab \<union> set topics" for tab :: offset_table
    by (induction topics arbitrary: tab) (auto simp: keys_update)
  then show ?thesis by (simp add: indexTopics_def)
qed

lemma om_inv_new: "distinct (map fst assignment) \<Longrightarrow> om_inv (new_OffsetManager assignment auto interval threshold now)"
  by (auto simp: new_OffsetManager_def clearAllOffsets_def om_inv_def om_topics_def keys_index map_of_index split: if_splits)

text \<open>The operations with any arguments and answers.\<close>

inductive om_step :: "offset_manager \<Rightarrow> offset_manager \<Rightarrow> bool" where
  "om_step m (snd (nextOffset topic prt m))"
| "om_step m (snd (resetOffset topic prt m))"
| "om_step m (snd (resolveOffset topic prt offs m))"
| "om_step m (snd (setDefaultOffset topic prt fromBeginning answer m))"
| "om_step m (snd (om_seek topic prt offs answer m))"
| "om_step m (snd (commitOffsets offsets now answer refresh m))"
| "om_step m (snd (commitOffsetsIfNecessary now answer refresh m))"
| "om_step m (snd (resolveOffsets fetchOffsets topicOffsets m))"

inductive_simps om_step_simps: "om_step m m'"

lemmas om_inv_ops = om_inv_nextOffset om_inv_resetOffset om_inv_resolveOffset om_inv_setDefaultOffset om_inv_seek
  om_inv_commitOffsets om_inv_commitIfNecessary om_inv_resolveOffsets

lemma om_inv_step: "om_inv m \<Longrightarrow> om_step m m' \<Longrightarrow> om_inv m'"
  by (auto simp: om_step_simps intro: om_inv_ops)

text \<open>An assignment is an object, so no topic occurs twice in it.\<close>

interpretation om: step_system om_step "new_OffsetManager (object_of assignment) auto interval threshold now" om_inv
  for assignment auto interval threshold now
  by unfold_locales (auto simp: om_inv_new distinct_object_of intro: om_inv_step)

subsection \<open>Uncommitted offsets\<close>

text \<open>The partitions to commit are those whose resolved offset is a valid one and differs.\<close>

definition changed :: "partition_offsets \<Rightarrow> partition_offsets \<Rightarrow> int \<Rightarrow> bool" where
  "changed obj cobj p \<longleftrightarrow> jprop obj p \<noteq> jprop cobj p \<and> \<not> isInvalidOffset (jprop obj p)"

lemma rmap_concat:
  assumes "rmap f xs = Inr ys" "\<And>x y. x \<in> set xs \<Longrightarrow> f x = Inr y \<Longrightarrow> y = g x"
  shows "ys = map g xs"
  using assms
proof (induction xs arbitrary: ys)
  case (Cons x xs)
  from Cons.prems(1) obtain y ys' where "f x = Inr y" "rmap f xs = Inr ys'" "ys = y # ys'" by (auto simp: rbind_eq_Inr_conv)
  then show ?case using Cons.IH [of ys'] Cons.prems(2) by simp
qed simp

lemma concat_map_if: "concat (map (\<lambda>x. if P x then [f x] else []) xs) = map f (filter P xs)"
  by (induction xs) auto

lemma changedOffsets_Inr:
  assumes "changedOffsets m topic obj = Inr prts" "map_of (committedOffsets m) topic = Some cobj"
  shows "prts = map (\<lambda>p. (p, jprop obj p)) (filter (changed obj cobj) (object_keys obj))"
    "\<And>p. p \<in> fst ` set obj \<Longrightarrow> jprop obj p \<noteq> jprop cobj p \<Longrightarrow> jprop obj p \<noteq> None"
proof -
  let ?f = "\<lambda>prt. if jprop obj prt \<noteq> jprop cobj prt
    then rbind (long_of (jprop obj prt)) (\<lambda>v. Inr (if v \<ge> 0 then [(prt, jprop obj prt)] else [])) else Inr []"
  have keys: "object_keys [] = []" by (simp add: object_keys_def)
  obtain parts where parts: "rmap ?f (object_keys obj) = Inr parts" "prts = concat parts"
    using assms by (cases "obj = []") (auto simp: changedOffsets_def topic_entry_def rbind_eq_Inr_conv keys)
  have "y = (if changed obj cobj p then [(p, jprop obj p)] else [])" if "?f p = Inr y" for p y
    using that by (auto simp: changed_def long_of_def isInvalidOffset_def split: option.splits if_splits)
  then have "parts = map (\<lambda>p. if changed obj cobj p then [(p, jprop obj p)] else []) (object_keys obj)"
    by (rule rmap_concat [OF parts(1)])
  then show "prts = map (\<lambda>p. (p, jprop obj p)) (filter (changed obj cobj) (object_keys obj))"
    using parts(2) by (simp add: concat_map_if)
  fix p assume p: "p \<in> fst ` set obj" "jprop obj p \<noteq> jprop cobj p"
  have "list_all2 (\<lambda>p y. ?f p = Inr y) (object_keys obj) parts" using parts(1) by (simp add: rmap_eq_Inr_conv)
  then obtain y where "?f p = Inr y" using p(1) by (auto simp: list_all2_conv_all_nth in_set_conv_nth simp flip: set_object_keys)
  then show "jprop obj p \<noteq> None" using p(2) by (auto simp: long_of_def split: option.splits)
qed

lemma changedOffsets_none:
  assumes "map_of (committedOffsets m) topic = Some cobj" "\<And>p. p \<in> fst ` set obj \<Longrightarrow> \<not> changed obj cobj p"
    "\<And>p. p \<in> fst ` set obj \<Longrightarrow> jprop obj p \<noteq> jprop cobj p \<Longrightarrow> jprop obj p \<noteq> None"
  shows "changedOffsets m topic obj = Inr []"
proof -
  let ?f = "\<lambda>prt. if jprop obj prt \<noteq> jprop cobj prt
    then rbind (long_of (jprop obj prt)) (\<lambda>v. Inr (if v \<ge> 0 then [(prt, jprop obj prt)] else [])) else Inr []"
  have "?f p = Inr ((\<lambda>_. []) p)" if "p \<in> set (object_keys obj)" for p
    using assms(2,3) [of p] that by (auto simp: changed_def long_of_def isInvalidOffset_def split: option.splits)
  then have "rmap ?f (object_keys obj) = Inr (map (\<lambda>_. []) (object_keys obj))" by (intro rmap_pure)
  then show ?thesis using assms(1) by (simp add: changedOffsets_def topic_entry_def)
qed

lemma uncommittedOffsets_Inr:
  assumes "om_inv m" "uncommittedOffsets m = Inr ts"
  shows "distinct (map fst ts)"
    "\<And>topic. topic \<in> set (om_topics m) \<Longrightarrow> \<exists>obj prts. map_of (resolvedOffsets m) topic = Some obj \<and>
      changedOffsets m topic obj = Inr prts \<and> ((topic, prts) \<in> set ts \<or> prts = [] \<and> topic \<notin> fst ` set ts)"
proof -
  let ?f = "\<lambda>topic. rbind (topic_entry (resolvedOffsets m) topic) (\<lambda>obj. rbind (changedOffsets m topic obj) (\<lambda>prts. Inr (topic, prts)))"
  obtain ts0 where ts0: "rmap ?f (om_topics m) = Inr ts0" "ts = filter (\<lambda>t. snd t \<noteq> []) ts0"
    using assms(2) by (auto simp: uncommittedOffsets_def rbind_eq_Inr_conv)
  have all: "list_all2 (\<lambda>topic y. ?f topic = Inr y) (om_topics m) ts0" using ts0(1) by (simp add: rmap_eq_Inr_conv)
  then have "list_all2 (\<lambda>topic y. topic = fst y) (om_topics m) ts0"
    by (rule list_all2_mono) (auto simp: rbind_eq_Inr_conv)
  then have fst: "map fst ts0 = om_topics m" by (simp add: list_all2_conv_all_nth list_eq_iff_nth_eq)
  then have d0: "distinct (map fst ts0)" using assms(1) by (simp add: om_inv_def)
  then show "distinct (map fst ts)" unfolding ts0(2) by (rule distinct_map_filter)
  fix topic assume "topic \<in> set (om_topics m)"
  then obtain i where i: "i < length (om_topics m)" "topic = om_topics m ! i" by (auto simp: in_set_conv_nth)
  define y where "y = ts0 ! i"
  have y: "y \<in> set ts0" "?f topic = Inr y"
    using i list_all2_lengthD [OF all] list_all2_nthD [OF all i(1)] by (simp_all add: y_def)
  then obtain obj prts where obj: "map_of (resolvedOffsets m) topic = Some obj" "changedOffsets m topic obj = Inr prts" "y = (topic, prts)"
    by (auto simp: rbind_eq_Inr_conv topic_entry_Inr)
  have "prts = [] \<Longrightarrow> topic \<notin> fst ` set ts"
    using d0 y(1) unfolding ts0(2) obj(3) by (auto dest: eq_key_imp_eq_value)
  then show "\<exists>obj prts. map_of (resolvedOffsets m) topic = Some obj \<and>
      changedOffsets m topic obj = Inr prts \<and> ((topic, prts) \<in> set ts \<or> prts = [] \<and> topic \<notin> fst ` set ts)"
    using obj y(1) unfolding ts0(2) by (cases "prts = []") auto
qed

text \<open>Marking the uncommitted offsets gives the changed partitions their resolved offset and keeps the others.\<close>

lemma mark_uncommitted:
  assumes "om_inv m" "uncommittedOffsets m = Inr ts" "topic \<in> set (om_topics m)"
    "map_of (resolvedOffsets m) topic = Some obj" "map_of (committedOffsets m) topic = Some cobj"
  shows "\<exists>cobj'. map_of (mark_committed ts (committedOffsets m)) topic = Some cobj' \<and>
      (\<forall>p. jprop cobj' p = (if p \<in> fst ` set obj \<and> changed obj cobj p then jprop obj p else jprop cobj p))"
    "\<And>p. p \<in> fst ` set obj \<Longrightarrow> jprop obj p \<noteq> jprop cobj p \<Longrightarrow> jprop obj p \<noteq> None"
proof -
  note un = uncommittedOffsets_Inr [OF assms(1,2)]
  obtain prts where prts: "changedOffsets m topic obj = Inr prts" "(topic, prts) \<in> set ts \<or> prts = [] \<and> topic \<notin> fst ` set ts"
    using un(2) [OF assms(3)] assms(4) by auto
  note ch = changedOffsets_Inr [OF prts(1) assms(5)]
  from ch(2) show "\<And>p. p \<in> fst ` set obj \<Longrightarrow> jprop obj p \<noteq> jprop cobj p \<Longrightarrow> jprop obj p \<noteq> None" .
  let ?cobj = "foldl (\<lambda>obj (p, v). AList.update p v obj) cobj prts"
  have marked: "map_of (mark_committed ts (committedOffsets m)) topic = Some ?cobj"
    using prts(2) mark_committed_entry [OF un(1) _ assms(5)] mark_committed_other [of topic ts "committedOffsets m"] assms(5) by auto
  have "distinct (object_keys obj)" using om_inv_resolvedD [OF assms(1,4)] by (rule distinct_object_keys)
  then have dp: "distinct (map fst (rev prts))" by (simp add: ch(1) comp_def rev_map [symmetric] distinct_filter)
  have "jprop ?cobj p = (if p \<in> fst ` set obj \<and> changed obj cobj p then jprop obj p else jprop cobj p)" for p
  proof (cases "p \<in> fst ` set obj \<and> changed obj cobj p")
    case True
    then have "(p, jprop obj p) \<in> set (rev prts)" by (auto simp: ch(1))
    then have "map_of (rev prts) p = Some (jprop obj p)" using dp by (intro map_of_is_SomeI)
    then show ?thesis using True by (simp add: jprop_def [of ?cobj] map_of_fold_update)
  next
    case False
    then have "p \<notin> set (filter (changed obj cobj) (object_keys obj))" by (simp add: set_object_keys)
    then have "map_of (rev prts) p = None" by (simp add: map_of_eq_None_iff ch(1) image_image)
    then show ?thesis using False by (auto simp: jprop_def map_of_fold_update)
  qed
  then show "\<exists>cobj'. map_of (mark_committed ts (committedOffsets m)) topic = Some cobj' \<and>
      (\<forall>p. jprop cobj' p = (if p \<in> fst ` set obj \<and> changed obj cobj p then jprop obj p else jprop cobj p))"
    using marked by blast
qed

lemma uncommitted_after_mark:
  assumes "om_inv m" "uncommittedOffsets m = Inr ts"
  shows "uncommittedOffsets (m\<lparr>committedOffsets := mark_committed ts (committedOffsets m), lastCommit := now\<rparr>) = Inr []"
proof -
  let ?m' = "m\<lparr>committedOffsets := mark_committed ts (committedOffsets m), lastCommit := now\<rparr>"
  have "rbind (topic_entry (resolvedOffsets ?m') topic) (\<lambda>obj. rbind (changedOffsets ?m' topic obj) (\<lambda>prts. Inr (topic, prts))) =
      Inr ((\<lambda>t. (t, [])) topic)" if topic: "topic \<in> set (om_topics m)" for topic
  proof -
    obtain obj cobj where obj: "map_of (resolvedOffsets m) topic = Some obj" "map_of (committedOffsets m) topic = Some cobj"
      using om_inv_entries [OF assms(1) topic] by blast
    note mark = mark_uncommitted [OF assms topic obj]
    obtain cobj' where cobj': "map_of (mark_committed ts (committedOffsets m)) topic = Some cobj'"
        "\<And>p. jprop cobj' p = (if p \<in> fst ` set obj \<and> changed obj cobj p then jprop obj p else jprop cobj p)"
      using mark(1) by blast
    have "changedOffsets ?m' topic obj = Inr []"
    proof (rule changedOffsets_none)
      show "map_of (committedOffsets ?m') topic = Some cobj'" using cobj'(1) by simp
    next
      fix p assume p: "p \<in> fst ` set obj"
      show "\<not> changed obj cobj' p" using cobj'(2) [of p] p by (auto simp: changed_def split: if_splits)
      show "jprop obj p \<noteq> None" if "jprop obj p \<noteq> jprop cobj' p"
        using mark(2) [OF p] that cobj'(2) [of p] by (auto split: if_splits)
    qed
    then show ?thesis using obj(1) by (simp add: topic_entry_def)
  qed
  then have "rmap (\<lambda>topic. rbind (topic_entry (resolvedOffsets ?m') topic)
      (\<lambda>obj. rbind (changedOffsets ?m' topic obj) (\<lambda>prts. Inr (topic, prts)))) (om_topics m) = Inr (map (\<lambda>t. (t, [])) (om_topics m))"
    by (rule rmap_pure)
  moreover have "om_topics ?m' = om_topics m" by (simp add: om_topics_def)
  ultimately show ?thesis unfolding uncommittedOffsets_def by (simp add: filter_map comp_def)
qed

lemma commitOffsets_frame:
  "resolvedOffsets (snd (commitOffsets offsets now answer refresh m)) = resolvedOffsets m"
  "memberAssignment (snd (commitOffsets offsets now answer refresh m)) = memberAssignment m"
  by (auto simp: commitOffsets_def split: sum.split)

text \<open>A commit of the uncommitted offsets leaves the committed offset of a partition alone or sets it to the resolved one.\<close>

lemma commitOffsets_at:
  assumes "om_inv m" "topic \<in> set (om_topics m)" "map_of (resolvedOffsets m) topic = Some obj" "map_of (committedOffsets m) topic = Some cobj"
  shows "\<exists>cobj'. map_of (committedOffsets (snd (commitOffsets None now answer refresh m))) topic = Some cobj' \<and>
    (jprop cobj' prt = jprop cobj prt \<or> jprop cobj' prt = jprop obj prt)"
proof (cases "uncommittedOffsets m")
  case (Inr ts)
  show ?thesis using mark_uncommitted(1) [OF assms(1) Inr assms(2-4)] assms(4) Inr
    by (cases "ts = []"; cases answer) (auto simp: commitOffsets_def)
qed (use assms(4) in \<open>simp add: commitOffsets_def\<close>)

subsection \<open>Properties\<close>

definition sample_manager :: offset_manager where
  "sample_manager = snd (resolveOffset ''t'' 1 41 (snd (resolveOffset ''t'' 0 6 (new_OffsetManager (object_of [(''t'', [0, 1])]) True None (Some 10) 0))))"


lemma sample_manager_run: "om_step\<^sup>*\<^sup>* (new_OffsetManager (object_of [(''t'', [0, 1])]) True None (Some 10) 0) sample_manager"
  unfolding sample_manager_def by (rule rtranclp_trans; rule r_into_rtranclp; rule om_step.intros)


text \<open>The next offset to fetch from an assigned partition never fails; after a message has been
  resolved it is the one behind that message, and it stays the committed offset, or 0 without a
  valid one, for partitions where nothing was resolved.\<close>

theorem next_offset_after_resolve:
  assumes "om_step\<^sup>*\<^sup>* (new_OffsetManager (object_of assignment) auto interval threshold now0) m"
    "topic \<in> set (om_topics m)" "0 \<le> offs"
  shows "(\<exists>v. fst (nextOffset topic prt m) = Inr v) \<and>
    fst (nextOffset topic prt (snd (resolveOffset topic prt offs m))) = Inr (offs + 1) \<and>
    (prt' \<noteq> prt \<longrightarrow> fst (nextOffset topic prt' (snd (resolveOffset topic prt offs m))) = fst (nextOffset topic prt' m))"
proof -
  have inv: "om_inv m" by (rule om.inv_reachable [OF assms(1)])
  then obtain obj cobj where "map_of (resolvedOffsets m) topic = Some obj" "map_of (committedOffsets m) topic = Some cobj"
    using assms(2) topic_entry_some unfolding om_inv_def by (metis (no_types, lifting) subsetD)
  then have look: "topic_entry (resolvedOffsets m) topic = Inr obj" "topic_entry (committedOffsets m) topic = Inr cobj"
    by (simp_all add: topic_entry_def)
  let ?m = "snd (resolveOffset topic prt offs m)"
  have look': "topic_entry (resolvedOffsets ?m) topic = Inr (AList.update prt (Some (offs + 1)) obj)"
      "topic_entry (committedOffsets ?m) topic = Inr cobj"
    using look by (simp_all add: resolveOffset_def set_resolved_def topic_entry_def update_conv' Long_add_def split: option.splits)
  have "\<exists>v. fst (nextOffset topic prt m) = Inr v" by (simp add: nextOffset_def look Let_def)
  moreover have "fst (nextOffset topic prt ?m) = Inr (offs + 1)"
    using assms(3) by (simp add: nextOffset_def look' Let_def jprop_def update_conv' isInvalidOffset_def)
  moreover have "fst (nextOffset topic prt' ?m) = fst (nextOffset topic prt' m)" if "prt' \<noteq> prt"
    using that by (simp add: nextOffset_def look look' Let_def jprop_def update_conv')
  ultimately show ?thesis by blast
qed

theorem next_offset_after_resolve_witness:
  "(\<exists>v. fst (nextOffset ''t'' 0 sample_manager) = Inr v) \<and>
    fst (nextOffset ''t'' 0 (snd (resolveOffset ''t'' 0 99 sample_manager))) = Inr (99 + 1) \<and>
    fst (nextOffset ''t'' 1 (snd (resolveOffset ''t'' 0 99 sample_manager))) = fst (nextOffset ''t'' 1 sample_manager)"
proof -
  have "''t'' \<in> set (om_topics sample_manager)" by code_simp
  then show ?thesis using next_offset_after_resolve [OF sample_manager_run, of "''t''" 99 0 1] by simp
qed

text \<open>
  A position that was reset, or asked for, before the offsets were resolved is stored as
  \<open>undefined\<close>. Once the partition has a committed offset, the check for the commit threshold and
  the search for uncommitted offsets throw on it.
\<close>

lemma undefined_position_throws:
  "let m = snd (commitOffsets (Some [(''t'', [(0, Some 5)])]) 0 (Inr ()) None
       (snd (resetOffset ''t'' 0 (new_OffsetManager (object_of [(''t'', [0])]) True None (Some 10) 0))))
   in countResolvedOffsets m = Inl undefined_error \<and> uncommittedOffsets m = Inl undefined_error"
  by code_simp

end
