(* ===== verification/Subscription.thy ===== *)
theory Subscription
  imports Long "HOL-Library.Multiset" "HOL-Library.AList" "HOL-Library.List_Lexorder" "HOL-Library.Char_ord"
begin

text \<open>
  What a consumer is subscribed to: \<^verbatim>\<open>src/consumer/subscriptionState.js\<close> (assignment, pausing and
  resuming) and \<^verbatim>\<open>src/consumer/seekOffsets.js\<close> (positions the user asked for). Objects are
  association lists and \<^verbatim>\<open>Set\<close>s are sets. \<^verbatim>\<open>Array.prototype.sort\<close> without a
  comparison compares numbers as decimal strings.
\<close>

record topic_state =
  ts_paused :: "int set"
  ts_pauseAll :: bool
  ts_resumed :: "int set"

record subscription_state =
  assignedPartitionsByTopic :: "(string \<times> int list) list"
  subscriptionStatesByTopic :: "(string \<times> topic_state) list"

definition createState :: topic_state where
  "createState = \<lparr>ts_paused = {}, ts_pauseAll = False, ts_resumed = {}\<rparr>"

definition new_SubscriptionState :: subscription_state where
  "new_SubscriptionState = \<lparr>assignedPartitionsByTopic = [], subscriptionStatesByTopic = []\<rparr>"

text \<open>Missing partitions are an empty list.\<close>

definition sub_assign :: "(string \<times> int list option) list \<Rightarrow> subscription_state \<Rightarrow> subscription_state" where
  "sub_assign topicPartitions s =
     s\<lparr>assignedPartitionsByTopic :=
        foldl (\<lambda>assigned (topic, prts). AList.update topic (case prts of None \<Rightarrow> [] | Some ps \<Rightarrow> ps) assigned) [] topicPartitions\<rparr>"

definition state_of :: "subscription_state \<Rightarrow> string \<Rightarrow> topic_state" where
  "state_of s topic = (case map_of (subscriptionStatesByTopic s) topic of None \<Rightarrow> createState | Some st \<Rightarrow> st)"

definition put_state :: "string \<Rightarrow> topic_state \<Rightarrow> subscription_state \<Rightarrow> subscription_state" where
  "put_state topic st s = s\<lparr>subscriptionStatesByTopic := AList.update topic st (subscriptionStatesByTopic s)\<rparr>"

text \<open>One turn of the loops of \<^verbatim>\<open>pause\<close> and \<^verbatim>\<open>resume\<close>; \<open>None\<close> stands for the whole topic.\<close>

definition pause_topic :: "string \<Rightarrow> int list option \<Rightarrow> subscription_state \<Rightarrow> subscription_state" where
  "pause_topic topic prts s =
     (let st = state_of s topic
      in put_state topic (case prts of
           None \<Rightarrow> \<lparr>ts_paused = {}, ts_pauseAll = True, ts_resumed = {}\<rparr>
         | Some ps \<Rightarrow> \<lparr>ts_paused = ts_paused st \<union> set ps, ts_pauseAll = False, ts_resumed = ts_resumed st - set ps\<rparr>) s)"

definition resume_topic :: "string \<Rightarrow> int list option \<Rightarrow> subscription_state \<Rightarrow> subscription_state" where
  "resume_topic topic prts s =
     (let st = state_of s topic
      in put_state topic (case prts of
           None \<Rightarrow> \<lparr>ts_paused = {}, ts_pauseAll = False, ts_resumed = {}\<rparr>
         | Some ps \<Rightarrow> st\<lparr>ts_paused := ts_paused st - set ps,
                        ts_resumed := (if ts_pauseAll st then ts_resumed st \<union> set ps else ts_resumed st)\<rparr>) s)"

definition pause :: "(string \<times> int list option) list \<Rightarrow> subscription_state \<Rightarrow> subscription_state" where
  "pause topicPartitions s = foldl (\<lambda>s (topic, prts). pause_topic topic prts s) s topicPartitions"

definition resume :: "(string \<times> int list option) list \<Rightarrow> subscription_state \<Rightarrow> subscription_state" where
  "resume topicPartitions s = foldl (\<lambda>s (topic, prts). resume_topic topic prts s) s topicPartitions"

definition isPaused :: "string \<Rightarrow> int \<Rightarrow> subscription_state \<Rightarrow> bool" where
  "isPaused topic prt s =
     (case map_of (subscriptionStatesByTopic s) topic of
        None \<Rightarrow> False
      | Some st \<Rightarrow> (ts_pauseAll st \<and> prt \<notin> ts_resumed st) \<or> prt \<in> ts_paused st)"

definition js_number_string :: "int \<Rightarrow> string" where
  "js_number_string i = (if i < 0 then ''-'' @ dec_digits (nat (- i)) else dec_digits (nat i))"

definition js_sort :: "int list \<Rightarrow> int list" where
  "js_sort = sort_key js_number_string"

text \<open>\<^verbatim>\<open>assigned\<close> sorts the stored lists in place.\<close>

definition assigned :: "subscription_state \<Rightarrow> (string \<times> int list) list \<times> subscription_state" where
  "assigned s =
     (let sorted = map (\<lambda>(topic, prts). (topic, js_sort prts)) (assignedPartitionsByTopic s)
      in (sorted, s\<lparr>assignedPartitionsByTopic := sorted\<rparr>))"

definition active :: "subscription_state \<Rightarrow> (string \<times> int list) list" where
  "active s = map (\<lambda>(topic, prts). (topic, js_sort (filter (\<lambda>p. \<not> isPaused topic p s) prts))) (assignedPartitionsByTopic s)"

definition paused :: "subscription_state \<Rightarrow> (string \<times> int list) list" where
  "paused s = filter (\<lambda>(topic, prts). prts \<noteq> [])
     (map (\<lambda>(topic, prts). (topic, js_sort (filter (\<lambda>p. isPaused topic p s) prts))) (assignedPartitionsByTopic s))"

subsection \<open>Positions to seek\<close>

type_synonym seek_offsets = "((string \<times> int) \<times> int) list"

definition seek_set :: "string \<Rightarrow> int \<Rightarrow> int \<Rightarrow> seek_offsets \<Rightarrow> seek_offsets" where
  "seek_set topic prt offs so = AList.update (topic, prt) offs so"

definition seek_has :: "string \<Rightarrow> int \<Rightarrow> seek_offsets \<Rightarrow> bool" where
  "seek_has topic prt so \<longleftrightarrow> (topic, prt) \<in> fst ` set so"

definition seek_pop :: "string \<Rightarrow> int \<Rightarrow> seek_offsets \<Rightarrow> (string \<times> int \<times> int) option \<times> seek_offsets" where
  "seek_pop topic prt so =
     (if so = [] \<or> \<not> seek_has topic prt so then (None, so)
      else (Some (topic, prt, the (map_of so (topic, prt))), AList.delete (topic, prt) so))"

lemma seek_pop_set: "fst (seek_pop topic prt (seek_set topic prt offs so)) = Some (topic, prt, offs)"
proof -
  have "map_of (seek_set topic prt offs so) (topic, prt) = Some offs" by (simp add: seek_set_def update_conv')
  moreover from this have "seek_has topic prt (seek_set topic prt offs so)"
    unfolding seek_has_def by (metis domI dom_map_of_conv_image_fst)
  moreover have "seek_set topic prt offs so \<noteq> []" using calculation(1) by auto
  ultimately show ?thesis by (simp add: seek_pop_def)
qed

lemma seek_has_set: "seek_has t p (seek_set topic prt offs so) \<longleftrightarrow> (t, p) = (topic, prt) \<or> seek_has t p so"
proof -
  have "seek_has t p xs \<longleftrightarrow> map_of xs (t, p) \<noteq> None" for xs by (auto simp: seek_has_def map_of_eq_None_iff)
  then show ?thesis by (auto simp: seek_set_def update_conv')
qed

lemma seek_pop_removes: "\<not> seek_has topic prt (snd (seek_pop topic prt so))"
  by (auto simp: seek_pop_def seek_has_def AList.delete_eq)

subsection \<open>Pausing\<close>

lemma isPaused_put:
  "isPaused t p (put_state topic st s) \<longleftrightarrow>
     (if t = topic then (ts_pauseAll st \<and> p \<notin> ts_resumed st) \<or> p \<in> ts_paused st else isPaused t p s)"
  by (simp add: isPaused_def put_state_def update_conv')

lemma isPaused_state_of: "isPaused topic p s \<longleftrightarrow> (ts_pauseAll (state_of s topic) \<and> p \<notin> ts_resumed (state_of s topic)) \<or> p \<in> ts_paused (state_of s topic)"
  by (simp add: isPaused_def state_of_def createState_def split: option.split)

text \<open>What one call does to the paused partitions of its topic, and that it leaves other topics alone.\<close>

lemma isPaused_pause_topic:
  "isPaused t p (pause_topic topic prts s) \<longleftrightarrow>
     (if t = topic then (case prts of None \<Rightarrow> True | Some ps \<Rightarrow> p \<in> set ps \<or> p \<in> ts_paused (state_of s topic))
      else isPaused t p s)"
  by (auto simp: pause_topic_def Let_def isPaused_put split: option.split)

lemma isPaused_resume_topic:
  "isPaused t p (resume_topic topic prts s) \<longleftrightarrow>
     isPaused t p s \<and> \<not> (t = topic \<and> (case prts of None \<Rightarrow> True | Some ps \<Rightarrow> p \<in> set ps))"
  using isPaused_state_of [of topic p s] by (auto simp: resume_topic_def Let_def isPaused_put split: option.split)

definition covered :: "(string \<times> int list option) list \<Rightarrow> string \<Rightarrow> int \<Rightarrow> bool" where
  "covered tps t p \<longleftrightarrow> (\<exists>prts. (t, prts) \<in> set tps \<and> (case prts of None \<Rightarrow> True | Some ps \<Rightarrow> p \<in> set ps))"

lemma isPaused_resume: "isPaused t p (resume tps s) \<longleftrightarrow> isPaused t p s \<and> \<not> covered tps t p"
proof (induction tps arbitrary: s)
  case (Cons x tps)
  obtain topic prts where x: "x = (topic, prts)" by (cases x)
  have "resume (x # tps) s = resume tps (resume_topic topic prts s)" by (simp add: resume_def x)
  then show ?case using Cons.IH [of "resume_topic topic prts s"] by (auto simp: isPaused_resume_topic covered_def x)
qed (simp add: resume_def covered_def)

lemma isPaused_pause_other: "t \<notin> fst ` set tps \<Longrightarrow> isPaused t p (pause tps s) \<longleftrightarrow> isPaused t p s"
  unfolding pause_def by (induction tps arbitrary: s) (auto simp: isPaused_pause_topic)

lemma isPaused_pause:
  assumes "distinct (map fst tps)" "covered tps t p"
  shows "isPaused t p (pause tps s)"
  using assms
proof (induction tps arbitrary: s)
  case (Cons x tps)
  obtain topic prts where x: "x = (topic, prts)" by (cases x)
  have step: "pause (x # tps) s = pause tps (pause_topic topic prts s)" by (simp add: pause_def x)
  show ?case
  proof (cases "covered tps t p")
    case True
    then show ?thesis using Cons by (simp add: step)
  next
    case False
    then have "t = topic" "case prts of None \<Rightarrow> True | Some ps \<Rightarrow> p \<in> set ps" using Cons.prems(2) by (auto simp: covered_def x)
    then have "isPaused t p (pause_topic topic prts s)" by (auto simp: isPaused_pause_topic split: option.splits)
    then show ?thesis using Cons.prems(1) isPaused_pause_other [of t tps] \<open>t = topic\<close> unfolding step by (simp add: x)
  qed
qed (simp add: covered_def)

lemma mset_js_sort [simp]: "mset (js_sort xs) = mset xs"
  by (simp add: js_sort_def)

subsection \<open>Properties\<close>

definition prts_of :: "(string \<times> int list) list \<Rightarrow> string \<Rightarrow> int list" where
  "prts_of tps topic = (case map_of tps topic of None \<Rightarrow> [] | Some ps \<Rightarrow> ps)"

text \<open>A call of \<^verbatim>\<open>pause\<close> that names every topic at most once pauses what it names and touches no
  other topic; \<^verbatim>\<open>resume\<close> unpauses exactly what it names; and at any time the partitions of an
  assigned topic are split, without loss or overlap, into the active and the paused ones.\<close>

theorem pause_resume_spec:
  assumes "distinct (map fst tps)" "distinct (map fst (assignedPartitionsByTopic s))" "map_of (assignedPartitionsByTopic s) topic = Some prts"
  shows "(covered tps t p \<longrightarrow> isPaused t p (pause tps s)) \<and> (t \<notin> fst ` set tps \<longrightarrow> isPaused t p (pause tps s) = isPaused t p s) \<and>
    (isPaused t p (resume tps s) \<longleftrightarrow> isPaused t p s \<and> \<not> covered tps t p) \<and>
    mset (prts_of (active s) topic) + mset (prts_of (paused s) topic) = mset prts \<and>
    (\<forall>q \<in> set (prts_of (active s) topic). \<not> isPaused topic q s)"
proof -
  let ?sel = "\<lambda>P. map (\<lambda>(topic, prts). (topic, js_sort (filter (P topic) prts))) (assignedPartitionsByTopic s)"
  have "map_of (map (\<lambda>(k, v). (k, f k v)) xs) topic = map_option (f topic) (map_of xs topic)" for f :: "string \<Rightarrow> int list \<Rightarrow> int list" and xs :: "(string \<times> int list) list"
    by (induction xs) auto
  then have sel: "map_of (?sel P) topic = Some (js_sort (filter (P topic) prts))" for P
    using assms(3) by simp
  have act: "prts_of (active s) topic = js_sort (filter (\<lambda>p. \<not> isPaused topic p s) prts)"
    using sel [of "\<lambda>topic p. \<not> isPaused topic p s"] by (simp add: prts_of_def active_def)
  have "map_of (filter (\<lambda>(topic, prts). prts \<noteq> []) xs) k = (case map_of xs k of Some v \<Rightarrow> if v \<noteq> [] then Some v else None | None \<Rightarrow> None)"
    if "distinct (map fst xs)" for xs :: "(string \<times> int list) list" and k
    using that by (induction xs) (auto split: option.split simp: map_of_eq_None_iff)
  moreover have "distinct (map fst (?sel P))" for P using assms(2) by (simp add: split_def comp_def)
  ultimately have pau: "prts_of (paused s) topic = js_sort (filter (\<lambda>p. isPaused topic p s) prts)"
    using sel [of "\<lambda>topic p. isPaused topic p s"] by (simp add: prts_of_def paused_def)
  have "set (js_sort xs) = set xs" for xs by (simp add: js_sort_def)
  then show ?thesis
    using isPaused_pause [OF assms(1)] isPaused_pause_other isPaused_resume
    by (auto simp: act pau mset_filter multiset_partition [symmetric] union_filter_mset_complement)
qed

definition sample_subscription :: subscription_state where
  "sample_subscription = pause [(''a'', Some [1])] (sub_assign [(''a'', Some [0, 1, 10, 2]), (''b'', Some [0])] new_SubscriptionState)"

theorem pause_resume_spec_witness:
  "covered [(''b'', None)] ''b'' 0 \<and> isPaused ''b'' 0 (pause [(''b'', None)] sample_subscription) \<and>
   prts_of (active sample_subscription) ''a'' = [0, 10, 2] \<and> prts_of (paused sample_subscription) ''a'' = [1] \<and>
   mset (prts_of (active sample_subscription) ''a'') + mset (prts_of (paused sample_subscription) ''a'') = mset [0, 1, 10, 2]"
proof -
  have "covered [(''b'', None)] ''b'' 0" by (simp add: covered_def)
  moreover have "prts_of (active sample_subscription) ''a'' = [0, 10, 2]" "prts_of (paused sample_subscription) ''a'' = [1]" by code_simp+
  moreover have "distinct (map fst [(''b'', None :: int list option)])" by simp
  moreover have "distinct (map fst (assignedPartitionsByTopic sample_subscription))"
    "map_of (assignedPartitionsByTopic sample_subscription) ''a'' = Some [0, 1, 10, 2]" by code_simp+
  ultimately show ?thesis using pause_resume_spec [of "[(''b'', None)]" sample_subscription "''a''" "[0, 1, 10, 2]" "''b''" 0] by blast
qed

text \<open>Pausing a partition of a topic that is paused as a whole resumes all its other partitions.\<close>

lemma pausing_may_resume:
  "let s = pause [(''a'', None)] sample_subscription
   in isPaused ''a'' 2 s \<and> \<not> isPaused ''a'' 2 (pause [(''a'', Some [1])] s)"
  by (simp add: Let_def pause_def isPaused_pause_topic) (simp add: pause_topic_def state_of_def put_state_def update_conv')

text \<open>The lists of partitions are sorted as strings, not as numbers.\<close>

lemma partitions_sorted_as_strings: "fst (assigned sample_subscription) = [(''a'', [0, 1, 10, 2]), (''b'', [0])]"
  by code_simp

end
