(* ===== verification/Record_Batch.thy ===== *)
theory Record_Batch
  imports Wire_Codec Compression Crc
begin

text \<open>
  Records and record batches, the message format of Kafka since 0.11:
  \<^verbatim>\<open>src/protocol/recordBatch/header/v0\<close>, \<^verbatim>\<open>record/v0\<close> and
  \<^verbatim>\<open>recordBatch/v0\<close>, both the encoders and the decoders. The encoders are proved to append the
  documented wire format, the declared record sizes to be the sizes written, and the decoders to
  return the data that was encoded, with or without compression.
\<close>

unbundle bit_operations_syntax

subsection \<open>Headers and records: encoding\<close>

text \<open>
  The headers of a message are an object from names to one value or to an array of values, here in
  the order of \<^verbatim>\<open>Object.keys\<close>.
\<close>

datatype header_value = HSingle bytes_value | HArray "bytes_value list"

record record_data =
  offsetDelta :: int
  timestampDelta :: int
  rec_key :: bytes_value
  rec_value :: bytes_value
  rec_headers :: "(string \<times> header_value) list"

definition Header :: "string \<times> bytes_value \<Rightarrow> encoder result" where
  "Header h = rbind new_Encoder (chain [writeVarIntString (Some (fst h)), writeVarIntBytes (snd h)])"

fun header_entries :: "string \<times> header_value \<Rightarrow> (string \<times> bytes_value) list" where
  "header_entries (k, HSingle v) = [(k, v)]"
| "header_entries (k, HArray vs) = map (\<lambda>v. (k, v)) vs"

definition headersArray :: "(string \<times> header_value) list \<Rightarrow> (string \<times> bytes_value) list" where
  "headersArray headers = concat (map header_entries headers)"

text \<open>\<^verbatim>\<open>Buffer.byteLength(value)\<close>, which throws for anything but a string or a buffer.\<close>

fun Buffer_byteLength :: "bytes_value \<Rightarrow> nat result" where
  "Buffer_byteLength BNull = Inl JsTypeError"
| "Buffer_byteLength (BBuffer b) = Inr (length b)"
| "Buffer_byteLength (BString s) = Inr (length s)"

fun sizeOfHeaders_loop :: "nat \<Rightarrow> (string \<times> bytes_value) list \<Rightarrow> nat result" where
  "sizeOfHeaders_loop sz [] = Inr sz"
| "sizeOfHeaders_loop sz ((k, v) # hs) =
     (let keySize = length k
      in rbind (Buffer_byteLength v) (\<lambda>valueSize.
           let sz' = sz + (sizeOfVarInt (int keySize) + keySize)
           in if v = BNull then sizeOfHeaders_loop (sz' + sizeOfVarInt (- 1)) hs
              else sizeOfHeaders_loop (sz' + (sizeOfVarInt (int valueSize) + valueSize)) hs))"

definition sizeOfHeaders :: "(string \<times> bytes_value) list \<Rightarrow> nat result" where
  "sizeOfHeaders hs = sizeOfHeaders_loop (sizeOfVarInt (int (length hs))) hs"

definition sizeOfBody :: "record_data \<Rightarrow> nat result" where
  "sizeOfBody r =
     rbind (sizeOfHeaders (headersArray (rec_headers r))) (\<lambda>headersSize.
       Inr (1 + sizeOfVarLong (timestampDelta r) + sizeOfVarInt (offsetDelta r)
              + sizeOfVarIntBytes (rec_key r) + sizeOfVarIntBytes (rec_value r) + headersSize))"

definition Record :: "record_data \<Rightarrow> encoder result" where
  "Record r =
     rbind (sizeOfBody r) (\<lambda>bodySize.
       rbind new_Encoder (chain [
         writeVarInt (int bodySize),
         writeInt8 0,
         writeVarLong (timestampDelta r),
         writeVarInt (offsetDelta r),
         writeVarIntBytes (rec_key r),
         writeVarIntBytes (rec_value r),
         (\<lambda>e. rbind (rmap Header (headersArray (rec_headers r)))
                (\<lambda>hs. writeVarIntArray (map ElEncoder hs) None e))]))"

subsection \<open>Headers and records: decoding\<close>

definition HeaderDecoder :: "(string option \<times> buffer option) reader" where
  "HeaderDecoder = rd_bind readVarIntString (\<lambda>k. rd_bind readVarIntBytes (\<lambda>v. rd_return (k, v)))"

text \<open>
  The decoded headers are collected in a plain object. Reading a property that has not been set yet
  finds the properties every object inherits, so the first header with such a name meets a value
  that is not \<^verbatim>\<open>undefined\<close>.
\<close>

datatype decoded_item = DValue "buffer option" | DInherited string
datatype decoded_header = DSingle decoded_item | DArray "decoded_item list"

definition Object_prototype_names :: "string list" where
  "Object_prototype_names = [''constructor'', ''__defineGetter__'', ''__defineSetter__'', ''hasOwnProperty'',
     ''__lookupGetter__'', ''__lookupSetter__'', ''isPrototypeOf'', ''propertyIsEnumerable'', ''toString'',
     ''valueOf'', ''__proto__'', ''toLocaleString'']"

type_synonym headers_object = "(string \<times> decoded_header) list"

definition obj_get :: "headers_object \<Rightarrow> string \<Rightarrow> decoded_header option" where
  "obj_get obj k =
     (case map_of obj k of
        Some v \<Rightarrow> Some v
      | None \<Rightarrow> if k \<in> set Object_prototype_names then Some (DSingle (DInherited k)) else None)"

fun obj_set :: "headers_object \<Rightarrow> string \<Rightarrow> decoded_header \<Rightarrow> headers_object" where
  "obj_set [] k v = [(k, v)]"
| "obj_set ((k', v') # obj) k v = (if k' = k then (k, v) # obj else (k', v') # obj_set obj k v)"

definition add_header :: "headers_object \<Rightarrow> string option \<times> buffer option \<Rightarrow> headers_object" where
  "add_header obj h =
     (let k = (case fst h of None \<Rightarrow> ''null'' | Some k \<Rightarrow> k); v = DValue (snd h)
      in obj_set obj k (case obj_get obj k of
           None \<Rightarrow> DSingle v
         | Some (DArray vs) \<Rightarrow> DArray (vs @ [v])
         | Some (DSingle w) \<Rightarrow> DArray [w, v]))"

record batch_context =
  firstOffset :: int
  firstTimestamp :: int
  partitionLeaderEpoch :: int
  inTransaction :: bool
  isControlBatch :: bool
  lastOffsetDelta :: int
  producerId :: int
  producerEpoch :: int
  firstSequence :: int
  maxTimestamp :: int
  timestampType :: int

record decoded_record =
  magicByte :: int
  attributes :: int
  timestamp :: int
  rec_offset :: int
  dkey :: "buffer option"
  dvalue :: "buffer option"
  dheaders :: headers_object
  isControlRecord :: bool
  batchContext :: batch_context

definition CREATE_TIME :: int where "CREATE_TIME = 0"
definition LOG_APPEND_TIME :: int where "LOG_APPEND_TIME = 1"

text \<open>
  Offsets and timestamps travel through the decoder as decimal strings; they are the integers they
  denote (see the text round trip of \<open>Long\<close>), and such a string is never empty.
\<close>

definition RecordDecoder :: "batch_context \<Rightarrow> int \<Rightarrow> decoded_record reader" where
  "RecordDecoder ctx magic =
     rd_bind readInt8 (\<lambda>attrs.
     rd_bind readVarLong (\<lambda>tsDelta.
     rd_bind readVarInt (\<lambda>offDelta.
     rd_bind readVarIntBytes (\<lambda>k.
     rd_bind readVarIntBytes (\<lambda>v.
     rd_bind (readVarIntArray HeaderDecoder) (\<lambda>hs.
       rd_return \<lparr>magicByte = magic, attributes = attrs,
         timestamp = (if timestampType ctx = LOG_APPEND_TIME then maxTimestamp ctx
                      else Long_add (firstTimestamp ctx) tsDelta),
         rec_offset = Long_add (firstOffset ctx) offDelta,
         dkey = k, dvalue = v, dheaders = foldl add_header [] hs,
         isControlRecord = isControlBatch ctx, batchContext = ctx\<rparr>))))))"

definition decodeRecord :: "batch_context \<Rightarrow> int \<Rightarrow> decoded_record reader" where
  "decodeRecord ctx magic d =
     rbind (readVarIntBytes d) (\<lambda>(b, d').
       case b of
         None \<Rightarrow> Inl JsTypeError
       | Some recordBuffer \<Rightarrow>
           rbind (RecordDecoder ctx magic (new_Decoder recordBuffer)) (\<lambda>(r, _). Inr (r, d')))"

subsection \<open>Record batches\<close>

definition MAGIC_BYTE :: int where "MAGIC_BYTE = 2"
definition TIMESTAMP_MASK :: int where "TIMESTAMP_MASK = 0"
definition TRANSACTIONAL_MASK :: int where "TRANSACTIONAL_MASK = 16"

record batch_data =
  b_compression :: int
  b_firstOffset :: int
  b_firstTimestamp :: int
  b_maxTimestamp :: int
  b_partitionLeaderEpoch :: int
  b_lastOffsetDelta :: int
  b_transactional :: bool
  b_producerId :: int
  b_producerEpoch :: int
  b_firstSequence :: int

definition compressRecords :: "codec_registry \<Rightarrow> int \<Rightarrow> js_elem list \<Rightarrow> buffer result" where
  "compressRecords codecs compression records =
     rbind (lookupCodec codecs compression) (\<lambda>codec.
     rbind (rbind new_Encoder (writeEncoderArray records)) (\<lambda>recordsEncoder.
       case codec of
         None \<Rightarrow> Inl JsTypeError \<comment> \<open>\<open>null.compress\<close>\<close>
       | Some c \<Rightarrow> codec_compress c (Encoder_buffer recordsEncoder)))"

definition batch_attributes :: "batch_data \<Rightarrow> int" where
  "batch_attributes b =
     js_or (js_or (js_and (b_compression b) COMPRESSION_CODEC_MASK) TIMESTAMP_MASK)
       (if b_transactional b then TRANSACTIONAL_MASK else 0)"

definition write_records :: "codec_registry \<Rightarrow> int \<Rightarrow> js_elem list \<Rightarrow> writer" where
  "write_records codecs compression records =
     (if compression = Types_None
      then let type0 = (case records of [] \<Rightarrow> ''undefined'' | r # _ \<Rightarrow> js_typeof r)
           in if \<forall>v \<in> set records. js_typeof v = type0 then writeArray records (Some type0) None
              else writeArray records None None
      else (\<lambda>e. rbind (compressRecords codecs compression records) (\<lambda>compressedRecords.
              chain [writeInt32 (int (length records)), writeBuffer (BBuffer compressedRecords)] e)))"

definition RecordBatch_body :: "codec_registry \<Rightarrow> batch_data \<Rightarrow> js_elem list \<Rightarrow> encoder result" where
  "RecordBatch_body codecs b records =
     rbind new_Encoder (chain [
       writeInt16 (batch_attributes b),
       writeInt32 (b_lastOffsetDelta b),
       writeInt64 (b_firstTimestamp b),
       writeInt64 (b_maxTimestamp b),
       writeInt64 (b_producerId b),
       writeInt16 (b_producerEpoch b),
       writeInt32 (b_firstSequence b),
       write_records codecs (b_compression b) records])"

definition RecordBatch :: "codec_registry \<Rightarrow> batch_data \<Rightarrow> js_elem list \<Rightarrow> encoder result" where
  "RecordBatch codecs b records =
     rbind (RecordBatch_body codecs b records) (\<lambda>batchBody.
     rbind (rbind new_Encoder (chain [
         writeInt32 (b_partitionLeaderEpoch b),
         writeInt8 MAGIC_BYTE,
         writeUInt32 (crc32C (Encoder_buffer batchBody)),
         writeEncoder (ElEncoder batchBody)])) (\<lambda>batch.
     rbind new_Encoder (chain [
       writeInt64 (b_firstOffset b),
       writeBytes (BBuffer (Encoder_buffer batch))])))"

subsection \<open>Decoding a batch\<close>

definition TIMESTAMP_TYPE_FLAG_MASK :: int where "TIMESTAMP_TYPE_FLAG_MASK = 0x8"
definition TRANSACTIONAL_FLAG_MASK :: int where "TRANSACTIONAL_FLAG_MASK = 0x10"
definition CONTROL_FLAG_MASK :: int where "CONTROL_FLAG_MASK = 0x20"

definition decodeRecords :: "codec option \<Rightarrow> batch_context \<Rightarrow> int \<Rightarrow> decoded_record list reader" where
  "decodeRecords codec ctx magic =
     (case codec of
        None \<Rightarrow> readArray (decodeRecord ctx magic)
      | Some c \<Rightarrow>
          rd_bind readInt32 (\<lambda>len.
            if len \<le> 0 then rd_return []
            else rd_bind readAll (\<lambda>compressed d.
              rbind (codec_decompress c compressed) (\<lambda>decompressed.
              rbind (rd_times (nat len) (decodeRecord ctx magic) (new_Decoder decompressed)) (\<lambda>(rs, _).
                Inr (rs, d))))))"

definition decode_batch :: "codec_registry \<Rightarrow> int \<Rightarrow> (batch_context \<times> decoded_record list) reader" where
  "decode_batch codecs firstOff =
     rd_bind readInt32 (\<lambda>leaderEpoch.
     rd_bind readInt8 (\<lambda>magic.
     rd_bind readInt32 (\<lambda>crc.
     rd_bind readInt16 (\<lambda>attrs.
     rd_bind readInt32 (\<lambda>lastDelta.
     rd_bind readInt64 (\<lambda>firstTs.
     rd_bind readInt64 (\<lambda>maxTs.
     rd_bind readInt64 (\<lambda>pid.
     rd_bind readInt16 (\<lambda>epoch.
     rd_bind readInt32 (\<lambda>firstSeq d.
       rbind (lookupCodecByAttributes codecs attrs) (\<lambda>codec.
         let ctx = \<lparr>firstOffset = firstOff, firstTimestamp = firstTs, partitionLeaderEpoch = leaderEpoch,
               inTransaction = (js_and attrs TRANSACTIONAL_FLAG_MASK > 0),
               isControlBatch = (js_and attrs CONTROL_FLAG_MASK > 0),
               lastOffsetDelta = lastDelta, producerId = pid, producerEpoch = epoch, firstSequence = firstSeq,
               maxTimestamp = maxTs,
               timestampType = (if js_and attrs TIMESTAMP_TYPE_FLAG_MASK > 0 then LOG_APPEND_TIME else CREATE_TIME)\<rparr>
         in rbind (decodeRecords codec ctx magic d) (\<lambda>(records, d'). Inr ((ctx, records), d')))))))))))))"

definition RecordBatchDecoder :: "codec_registry \<Rightarrow> (batch_context \<times> decoded_record list) reader" where
  "RecordBatchDecoder codecs =
     rd_bind readInt64 (\<lambda>firstOff.
     rd_bind readInt32 (\<lambda>len fetchDecoder.
       let d = Decoder_slice len fetchDecoder; fetchDecoder' = Decoder_forward len fetchDecoder
       in if int (length (dec_buf d)) < len then Inl KafkaJSPartialMessageError
          else rbind (decode_batch codecs firstOff d) (\<lambda>(batch, _). Inr (batch, fetchDecoder'))))"

subsection \<open>The wire format\<close>

definition wire_header :: "string \<times> bytes_value \<Rightarrow> buffer" where
  "wire_header h = wire_varint_string (Some (fst h)) @ wire_varint_bytes (bytes_of (snd h))"

definition wire_record_body :: "record_data \<Rightarrow> buffer" where
  "wire_record_body r =
     be_bytes 1 0 @ wire_varint (timestampDelta r) @ wire_varint (offsetDelta r) @
     wire_varint_bytes (bytes_of (rec_key r)) @ wire_varint_bytes (bytes_of (rec_value r)) @
     wire_varint_array wire_header (headersArray (rec_headers r))"

definition wire_record :: "record_data \<Rightarrow> buffer" where
  "wire_record r = wire_varint_bytes (Some (wire_record_body r))"

text \<open>
  What a record has to satisfy: its numbers fit, no header value is null, and it is smaller than the
  gibibyte that the buffer can grow to.
\<close>

definition header_ok :: "string \<times> bytes_value \<Rightarrow> bool" where
  "header_ok h \<longleftrightarrow> snd h \<noteq> BNull"

definition record_ok :: "record_data \<Rightarrow> bool" where
  "record_ok r \<longleftrightarrow>
     int_range 64 (timestampDelta r) \<and> int_range 32 (offsetDelta r) \<and>
     list_all header_ok (headersArray (rec_headers r)) \<and> length (wire_record r) < 2 ^ 30"

lemma record_bounds:
  assumes "record_ok r"
  shows "length (wire_record_body r) < 2 ^ 30" "length (headersArray (rec_headers r)) < 2 ^ 30"
    "bytes_ok (2 ^ 30) (bytes_of (rec_key r))" "bytes_ok (2 ^ 30) (bytes_of (rec_value r))"
    "\<And>h. h \<in> set (headersArray (rec_headers r)) \<Longrightarrow>
       length (fst h) < 2 ^ 30 \<and> bytes_ok (2 ^ 30) (bytes_of (snd h)) \<and> length (wire_header h) < 2 ^ 30"
proof -
  have small: "bytes_ok (2 ^ 30) v" if "length (wire_varint_bytes v) < 2 ^ 30" for v
    using that by (auto simp: bytes_ok_def wire_varint_bytes_def split: option.splits)
  let ?hs = "headersArray (rec_headers r)"
  show body: "length (wire_record_body r) < 2 ^ 30"
    using assms by (simp add: record_ok_def wire_record_def wire_varint_bytes_def)
  then have "length (wire_varint_bytes (bytes_of (rec_key r))) < 2 ^ 30"
      "length (wire_varint_bytes (bytes_of (rec_value r))) < 2 ^ 30"
    by (simp_all add: wire_record_body_def)
  then show "bytes_ok (2 ^ 30) (bytes_of (rec_key r))" "bytes_ok (2 ^ 30) (bytes_of (rec_value r))"
    by (blast intro: small)+
  have sum: "length (concat (map wire_header ?hs)) < 2 ^ 30"
    using body by (simp add: wire_record_body_def wire_varint_array_def)
  have elem: "length (f h) \<le> length (concat (map f hs))" if "h \<in> set hs" for f :: "'a \<Rightarrow> byte list" and h hs
    using that by (induction hs) auto
  show "length (fst h) < 2 ^ 30 \<and> bytes_ok (2 ^ 30) (bytes_of (snd h)) \<and> length (wire_header h) < 2 ^ 30"
    if "h \<in> set ?hs" for h
  proof -
    have "length (wire_header h) < 2 ^ 30" using elem [OF that, of wire_header] sum by (rule le_less_trans)
    moreover from this have "length (fst h) < 2 ^ 30" "length (wire_varint_bytes (bytes_of (snd h))) < 2 ^ 30"
      by (simp_all add: wire_header_def wire_varint_string_def)
    ultimately show ?thesis by (blast intro: small)
  qed
  have one: "1 \<le> length (wire_header h)" for h
    using length_uleb128_pos by (simp add: wire_header_def wire_varint_string_def wire_varint_def Suc_le_eq)
  have "length hs \<le> length (concat (map wire_header hs))" for hs
  proof (induction hs)
    case (Cons h hs)
    with one [of h] show ?case by simp
  qed simp
  with sum show "length ?hs < 2 ^ 30" by (meson le_less_trans)
qed

lemma bytes_ok_mono: "bytes_ok m v \<Longrightarrow> m \<le> n \<Longrightarrow> bytes_ok n v"
  by (auto simp: bytes_ok_def split: option.splits)

lemma bytes_ok_varint: "bytes_ok (2 ^ 30) v \<Longrightarrow> bytes_ok 2147483648 v"
  by (erule bytes_ok_mono) simp

subsection \<open>The encoder writes the format\<close>

lemma sizeOfHeaders_loop_eq:
  assumes "list_all header_ok hs"
    "\<And>h. h \<in> set hs \<Longrightarrow> length (fst h) < 2 ^ 30 \<and> bytes_ok (2 ^ 30) (bytes_of (snd h))"
  shows "sizeOfHeaders_loop n hs = Inr (n + length (concat (map wire_header hs)))"
  using assms
proof (induction hs arbitrary: n)
  case (Cons h hs)
  obtain k v where h: "h = (k, v)" by (cases h)
  obtain b where b: "bytes_of v = Some b" "Buffer_byteLength v = Inr (length b)"
    using Cons.prems(1) h by (cases v) (auto simp: header_ok_def)
  have len: "length k < 2 ^ 30" "length b < 2 ^ 30" using Cons.prems(2) [of h] h b by (simp_all add: bytes_ok_def)
  have "length (wire_header h) = sizeOfVarInt (int (length k)) + length k + (sizeOfVarInt (int (length b)) + length b)"
    using len b by (simp add: h wire_header_def wire_varint_string_def wire_varint_bytes_def sizeOfVarInt_length)
  then show ?case
    using Cons b(2) by (simp add: h header_ok_def Let_def)
qed simp

lemma sizeOfHeaders_eq:
  assumes "record_ok r"
  shows "sizeOfHeaders (headersArray (rec_headers r)) =
    Inr (length (wire_varint_array wire_header (headersArray (rec_headers r))))"
proof -
  let ?hs = "headersArray (rec_headers r)"
  have "sizeOfVarInt (int (length ?hs)) = length (wire_varint (int (length ?hs)))"
    using record_bounds(2) [OF assms] by (intro sizeOfVarInt_length) simp
  moreover have "list_all header_ok ?hs" using assms by (simp add: record_ok_def)
  ultimately show ?thesis
    using sizeOfHeaders_loop_eq [of ?hs] record_bounds(5) [OF assms]
    by (simp add: sizeOfHeaders_def wire_varint_array_def)
qed

lemma sizeOfBody_eq: "record_ok r \<Longrightarrow> sizeOfBody r = Inr (length (wire_record_body r))"
  using record_bounds(3,4) [of r, THEN bytes_ok_varint]
  by (simp add: sizeOfBody_def sizeOfHeaders_eq wire_record_body_def sizeOfVarInt_length
      sizeOfVarLong_length sizeOfVarIntBytes_length record_ok_def del: int_range_numeral)

lemma Header_eq:
  assumes "length (fst h) < 2 ^ 30" "bytes_ok (2 ^ 30) (bytes_of (snd h))" "length (wire_header h) < 2 ^ 30"
  obtains e where "Header h = Inr e" "Encoder_buffer e = wire_header h"
proof -
  have "appends (chain [writeVarIntString (Some (fst h)), writeVarIntBytes (snd h)]) (wire_header h)"
    unfolding wire_header_def using assms(1) bytes_ok_varint [OF assms(2)]
    by (intro chain_prefix2 appends_writeVarIntString appends_writeVarIntBytes) (auto simp: string_ok_def)
  from appends_new_Encoder [OF this assms(3)] that show thesis unfolding Header_def by metis
qed

lemma rmap_encoders:
  assumes "\<And>x. x \<in> set xs \<Longrightarrow> \<exists>e. f x = Inr e \<and> Encoder_buffer e = g x"
  obtains es where "rmap f xs = Inr es" "map Encoder_buffer es = map g xs" "length es = length xs"
proof -
  have "\<exists>es. rmap f xs = Inr es \<and> map Encoder_buffer es = map g xs"
    using assms by (induction xs) fastforce+
  then show thesis using that by (metis length_map)
qed

lemma appends_headers:
  assumes "record_ok r"
  shows "appends (\<lambda>e. rbind (rmap Header (headersArray (rec_headers r)))
      (\<lambda>hs. writeVarIntArray (map ElEncoder hs) None e)) (wire_varint_array wire_header (headersArray (rec_headers r)))"
proof -
  let ?hs = "headersArray (rec_headers r)"
  obtain es where es: "rmap Header ?hs = Inr es" "map Encoder_buffer es = map wire_header ?hs" "length es = length ?hs"
    using rmap_encoders [of ?hs Header wire_header] record_bounds(5) [OF assms] Header_eq by metis
  have "appends (writeVarIntArray (map ElEncoder es) None) (wire_varint_array Encoder_buffer es)"
    using record_bounds(2) [OF assms] es(3) by (intro appends_writeVarIntArray) simp
  then show ?thesis using es by (simp add: wire_varint_array_def)
qed

lemma Record_eq:
  assumes "record_ok r"
  obtains e where "Record r = Inr e" "enc_ok e" "Encoder_buffer e = wire_record r"
proof -
  have ranges: "int_range 64 (timestampDelta r)" "int_range 32 (offsetDelta r)" "length (wire_record r) < 2 ^ 30"
    using assms unfolding record_ok_def by blast+
  have len: "int_range 32 (int (length (wire_record_body r)))" using record_bounds(1) [OF assms] by simp
  note kv = record_bounds(3,4) [OF assms, THEN bytes_ok_varint]
  have "appends (chain [writeVarInt (int (length (wire_record_body r))), writeInt8 0, writeVarLong (timestampDelta r),
      writeVarInt (offsetDelta r), writeVarIntBytes (rec_key r), writeVarIntBytes (rec_value r),
      (\<lambda>e. rbind (rmap Header (headersArray (rec_headers r))) (\<lambda>hs. writeVarIntArray (map ElEncoder hs) None e))])
      (wire_varint (int (length (wire_record_body r))) @ be_bytes 1 0 @ wire_varint (timestampDelta r) @
       wire_varint (offsetDelta r) @ wire_varint_bytes (bytes_of (rec_key r)) @ wire_varint_bytes (bytes_of (rec_value r)) @
       wire_varint_array wire_header (headersArray (rec_headers r)) @ [])"
    using ranges len kv appends_headers [OF assms]
    by (intro appends_chain_Cons appends_chain_Nil appends_writeVarInt appends_writeInt8 appends_writeVarLong
        appends_writeVarIntBytes) (simp_all del: int_range_numeral(3,4))
  then have "appends (chain [writeVarInt (int (length (wire_record_body r))), writeInt8 0, writeVarLong (timestampDelta r),
      writeVarInt (offsetDelta r), writeVarIntBytes (rec_key r), writeVarIntBytes (rec_value r),
      (\<lambda>e. rbind (rmap Header (headersArray (rec_headers r))) (\<lambda>hs. writeVarIntArray (map ElEncoder hs) None e))])
      (wire_record r)"
    by (simp add: wire_record_def wire_record_body_def wire_varint_bytes_def del: chain.simps)
  from appends_new_Encoder [OF this ranges(3)] that show thesis
    unfolding Record_def sizeOfBody_eq [OF assms] rbind_Inr by metis
qed

subsection \<open>The decoder reads the format back\<close>

lemma reads_HeaderDecoder:
  assumes "length (fst h) < 2 ^ 30" "bytes_ok (2 ^ 30) (bytes_of (snd h))"
  shows "reads HeaderDecoder (wire_header h) (Some (fst h), bytes_of (snd h))"
proof -
  have k: "reads readVarIntString (wire_varint_string (Some (fst h))) (Some (fst h))"
    using assms(1) by (intro reads_readVarIntString) (simp add: string_ok_def)
  have v: "reads readVarIntBytes (wire_varint_bytes (bytes_of (snd h))) (bytes_of (snd h))"
    using assms(2) by (intro reads_readVarIntBytes bytes_ok_varint)
  show ?thesis
    unfolding HeaderDecoder_def wire_header_def
    by (rule reads_bind [OF k]) (rule reads_bind_return [OF v], simp)
qed

definition header_pairs :: "record_data \<Rightarrow> (string option \<times> buffer option) list" where
  "header_pairs r = map (\<lambda>h. (Some (fst h), bytes_of (snd h))) (headersArray (rec_headers r))"

definition decoded :: "batch_context \<Rightarrow> int \<Rightarrow> record_data \<Rightarrow> decoded_record" where
  "decoded ctx magic r =
     \<lparr>magicByte = magic, attributes = 0,
      timestamp = (if timestampType ctx = LOG_APPEND_TIME then maxTimestamp ctx
                   else firstTimestamp ctx + timestampDelta r),
      rec_offset = firstOffset ctx + offsetDelta r,
      dkey = bytes_of (rec_key r), dvalue = bytes_of (rec_value r),
      dheaders = foldl add_header [] (header_pairs r),
      isControlRecord = isControlBatch ctx, batchContext = ctx\<rparr>"

lemma reads_RecordDecoder:
  assumes "record_ok r"
  shows "reads (RecordDecoder ctx magic) (wire_record_body r) (decoded ctx magic r)"
proof -
  have ranges: "int_range 64 (timestampDelta r)" "int_range 32 (offsetDelta r)"
    using assms unfolding record_ok_def by blast+
  note kv = record_bounds(3,4) [OF assms, THEN bytes_ok_varint]
  have hs: "reads (readVarIntArray HeaderDecoder) (wire_varint_array wire_header (headersArray (rec_headers r))) (header_pairs r)"
    unfolding header_pairs_def using record_bounds(2,5) [OF assms]
    by (intro reads_readVarIntArray reads_HeaderDecoder) auto
  have "reads readInt8 (be_bytes 1 0) 0" by (rule reads_readInt8) simp
  note fields = this reads_readVarLong [OF ranges(1)] reads_readVarInt [OF ranges(2)]
    reads_readVarIntBytes [OF kv(1)] reads_readVarIntBytes [OF kv(2)]
  show ?thesis
    unfolding RecordDecoder_def wire_record_body_def
    by (rule reads_bind, rule fields)+ (rule reads_bind_return [OF hs], simp add: decoded_def Long_add_def)
qed

lemma reads_decodeRecord:
  assumes "record_ok r"
  shows "reads (decodeRecord ctx magic) (wire_record r) (decoded ctx magic r)"
proof -
  have "bytes_ok 2147483648 (Some (wire_record_body r))"
    using record_bounds(1) [OF assms] by (simp add: bytes_ok_def)
  then have "reads readVarIntBytes (wire_record r) (Some (wire_record_body r))"
    unfolding wire_record_def by (rule reads_readVarIntBytes)
  then show ?thesis
    using reads_whole [OF reads_RecordDecoder [OF assms]]
    by (simp add: reads_def decodeRecord_def)
qed

text \<open>
  The object that collects the headers: for a name that no object inherits, the values are found in
  order, as a single value or as an array.
\<close>

fun group_values :: "buffer option list \<Rightarrow> decoded_header option" where
  "group_values [] = None"
| "group_values [v] = Some (DSingle (DValue v))"
| "group_values vs = Some (DArray (map DValue vs))"

lemma map_of_obj_set: "map_of (obj_set obj k v) = (map_of obj)(k \<mapsto> v)"
  by (induction obj k v rule: obj_set.induct) auto

lemma group_values_snoc:
  "group_values (vs @ [v]) = Some (case group_values vs of
     None \<Rightarrow> DSingle (DValue v) | Some (DArray ws) \<Rightarrow> DArray (ws @ [DValue v]) | Some (DSingle w) \<Rightarrow> DArray [w, DValue v])"
  by (cases vs rule: group_values.cases) auto

lemma headers_grouped:
  assumes "k \<notin> set Object_prototype_names"
  shows "map_of (foldl add_header [] (map (\<lambda>(k, v). (Some k, v)) hs)) k =
    group_values (map snd (filter (\<lambda>h. fst h = k) hs))"
proof (induction hs rule: rev_induct)
  case (snoc h hs)
  obtain k' v where h: "h = (k', v)" by (cases h)
  show ?case
  proof (cases "k' = k")
    case True
    then have "obj_get (foldl add_header [] (map (\<lambda>(k, v). (Some k, v)) hs)) k =
        group_values (map snd (filter (\<lambda>h. fst h = k) hs))"
      using snoc assms by (simp add: obj_get_def split: option.split)
    then show ?thesis
      using True by (simp add: h add_header_def [of _ "(Some k, v)"] Let_def map_of_obj_set group_values_snoc)
  next
    case False
    then show ?thesis using snoc by (simp add: h add_header_def [of _ "(Some k', v)"] Let_def map_of_obj_set)
  qed
qed simp

subsection \<open>Batches\<close>

definition wire_batch_body :: "batch_data \<Rightarrow> buffer \<Rightarrow> buffer" where
  "wire_batch_body b recs =
     be_bytes 2 (batch_attributes b) @ be_bytes 4 (b_lastOffsetDelta b) @ be_bytes 8 (b_firstTimestamp b) @
     be_bytes 8 (b_maxTimestamp b) @ be_bytes 8 (b_producerId b) @ be_bytes 2 (b_producerEpoch b) @
     be_bytes 4 (b_firstSequence b) @ recs"

definition wire_batch_content :: "batch_data \<Rightarrow> buffer \<Rightarrow> buffer" where
  "wire_batch_content b recs =
     be_bytes 4 (b_partitionLeaderEpoch b) @ be_bytes 1 MAGIC_BYTE @
     be_bytes 4 (crc32C (wire_batch_body b recs)) @ wire_batch_body b recs"

definition wire_batch :: "batch_data \<Rightarrow> buffer \<Rightarrow> buffer" where
  "wire_batch b recs = be_bytes 8 (b_firstOffset b) @ wire_bytes (Some (wire_batch_content b recs))"

definition batch_ok :: "batch_data \<Rightarrow> bool" where
  "batch_ok b \<longleftrightarrow>
     int_range 64 (b_firstOffset b) \<and> int_range 64 (b_firstTimestamp b) \<and> int_range 64 (b_maxTimestamp b) \<and>
     int_range 32 (b_partitionLeaderEpoch b) \<and> int_range 32 (b_lastOffsetDelta b) \<and>
     int_range 64 (b_producerId b) \<and> int_range 16 (b_producerEpoch b) \<and> int_range 32 (b_firstSequence b)"

lemma batch_attributes_eq:
  "batch_attributes b = b_compression b mod 8 + (if b_transactional b then 16 else 0)"
proof -
  have r: "0 \<le> b_compression b mod 8" "b_compression b mod 8 < 2 ^ 3" by simp_all
  have id: "ToInt32 (b_compression b mod 8) = b_compression b mod 8"
    using r by (intro ToInt32_id) (simp only: int_range_numeral, linarith)
  have "js_or (b_compression b mod 8) TIMESTAMP_MASK = b_compression b mod 8"
    by (simp add: js_or_def TIMESTAMP_MASK_def id)
  moreover have "js_or (b_compression b mod 8) 16 = b_compression b mod 8 OR 2 * 2 ^ 3"
    by (simp add: js_or_def id)
  moreover have "b_compression b mod 8 OR 2 * 2 ^ 3 = b_compression b mod 8 + 2 * 2 ^ 3"
    using r by (rule or_disjoint_int)
  moreover have "js_or (b_compression b mod 8) 0 = b_compression b mod 8" by (simp add: js_or_def id)
  ultimately show ?thesis by (simp add: batch_attributes_def js_and_7 TRANSACTIONAL_MASK_def)
qed

lemma batch_attributes_range: "int_range 16 (batch_attributes b)"
  unfolding batch_attributes_eq using pos_mod_bound [of 8 "b_compression b"] pos_mod_sign [of 8 "b_compression b"]
  by (simp del: pos_mod_bound pos_mod_sign)

lemma batch_attributes_codec: "batch_attributes b mod 8 = b_compression b mod 8"
  by (simp add: batch_attributes_eq mod_add_eq [of _ 8 16, symmetric])

lemma attributes_flags:
  assumes "0 \<le> c" "c < (8 :: int)"
  shows "js_and (c + (if tx then 16 else 0)) TRANSACTIONAL_FLAG_MASK > 0 \<longleftrightarrow> tx"
    "\<not> js_and (c + (if tx then 16 else 0)) CONTROL_FLAG_MASK > 0"
    "\<not> js_and (c + (if tx then 16 else 0)) TIMESTAMP_TYPE_FLAG_MASK > 0"
proof -
  have "c \<in> {0, 1, 2, 3, 4, 5, 6, 7}" using assms by auto
  then show "js_and (c + (if tx then 16 else 0)) TRANSACTIONAL_FLAG_MASK > 0 \<longleftrightarrow> tx"
    "\<not> js_and (c + (if tx then 16 else 0)) CONTROL_FLAG_MASK > 0"
    "\<not> js_and (c + (if tx then 16 else 0)) TIMESTAMP_TYPE_FLAG_MASK > 0"
    by (auto simp: js_and_def TRANSACTIONAL_FLAG_MASK_def CONTROL_FLAG_MASK_def TIMESTAMP_TYPE_FLAG_MASK_def)
qed

lemma RecordBatch_eq:
  assumes "batch_ok b" "appends (write_records codecs (b_compression b) records) recs"
    "length (wire_batch b recs) < 2 ^ 30"
  obtains e where "RecordBatch codecs b records = Inr e" "Encoder_buffer e = wire_batch b recs"
    "Encoder_size e = length (wire_batch b recs)"
proof -
  have len: "length (wire_batch_body b recs) < 2 ^ 30" "length (wire_batch_content b recs) < 2 ^ 30"
    using assms(3) by (simp_all add: wire_batch_def wire_bytes_def wire_batch_content_def)
  have "appends (chain [writeInt16 (batch_attributes b), writeInt32 (b_lastOffsetDelta b),
      writeInt64 (b_firstTimestamp b), writeInt64 (b_maxTimestamp b), writeInt64 (b_producerId b),
      writeInt16 (b_producerEpoch b), writeInt32 (b_firstSequence b), write_records codecs (b_compression b) records])
      (wire_batch_body b recs)"
    unfolding wire_batch_body_def using assms(1,2) batch_attributes_range [of b]
    by (intro appends_chain_Cons appends_chain_single appends_writeInt16 appends_writeInt32 appends_writeInt64)
      (simp_all add: batch_ok_def del: int_range_numeral)
  from appends_new_Encoder [OF this len(1)]
  obtain body where body: "RecordBatch_body codecs b records = Inr body" "Encoder_buffer body = wire_batch_body b recs"
    unfolding RecordBatch_body_def by metis
  have "appends (chain [writeInt32 (b_partitionLeaderEpoch b), writeInt8 MAGIC_BYTE,
      writeUInt32 (crc32C (Encoder_buffer body)), writeEncoder (ElEncoder body)]) (wire_batch_content b recs)"
    unfolding wire_batch_content_def body(2) [symmetric] using assms(1) crc32C_range
    by (intro appends_chain_Cons appends_chain_single appends_writeInt32 appends_writeInt8 appends_writeUInt32
        appends_writeEncoder) (simp_all add: batch_ok_def MAGIC_BYTE_def)
  from appends_new_Encoder [OF this len(2)]
  obtain batch where batch: "rbind new_Encoder (chain [writeInt32 (b_partitionLeaderEpoch b), writeInt8 MAGIC_BYTE,
      writeUInt32 (crc32C (Encoder_buffer body)), writeEncoder (ElEncoder body)]) = Inr batch"
      "Encoder_buffer batch = wire_batch_content b recs"
    by metis
  have "appends (chain [writeInt64 (b_firstOffset b), writeBytes (BBuffer (Encoder_buffer batch))]) (wire_batch b recs)"
    unfolding wire_batch_def batch(2)
    using assms(1) len(2) appends_writeBytes [of "BBuffer (wire_batch_content b recs)"]
    by (intro chain_prefix2 appends_writeInt64) (simp_all add: batch_ok_def bytes_ok_def)
  from appends_new_Encoder [OF this assms(3)] that show thesis
    unfolding RecordBatch_def body(1) rbind_Inr batch(1) by metis
qed

text \<open>The records part of a batch: an array, or a count and the compressed concatenation.\<close>

definition wire_records :: "codec_registry \<Rightarrow> int \<Rightarrow> record_data list \<Rightarrow> buffer result" where
  "wire_records codecs compression rs =
     (if compression = Types_None then Inr (wire_array wire_record rs)
      else case codecs compression of
             Some (Inr codec) \<Rightarrow>
               rbind (codec_compress codec (concat (map wire_record rs)))
                 (\<lambda>z. Inr (be_bytes 4 (int (length rs)) @ z))
           | _ \<Rightarrow> Inl JsTypeError)"

lemma Record_all:
  assumes "list_all record_ok rs"
  obtains es where "rmap Record rs = Inr es" "map Encoder_buffer es = map wire_record rs" "length es = length rs"
  using rmap_encoders [of rs Record wire_record] assms Record_eq unfolding list_all_iff by metis

lemma write_records_plain:
  assumes "length es < 2147483648"
  shows "appends (write_records codecs Types_None (map ElEncoder es)) (wire_array Encoder_buffer es)"
proof (cases es)
  case Nil
  have "appends (writeArray [] (Some ''undefined'') None) (be_bytes 4 0)"
    using chain_prefix2 [OF appends_writeInt32 [of 0] appends_chain_Nil]
    by (simp add: writeArray_def del: chain.simps) 
  then show ?thesis by (simp add: Nil write_records_def wire_array_def)
next
  case (Cons x xs)
  then show ?thesis
    using appends_writeArray_objects(1) [OF assms] by (simp add: write_records_def)
qed

lemma write_records_compressed:
  assumes "compression \<noteq> Types_None" "codecs compression = Some (Inr codec)" "length es < 2147483648"
    "codec_compress codec (concat (map Encoder_buffer es)) = Inr z"
    "length (concat (map Encoder_buffer es)) < 2 ^ 30"
  shows "appends (write_records codecs compression (map ElEncoder es)) (be_bytes 4 (int (length es)) @ z)"
proof -
  obtain e where e: "rbind new_Encoder (writeEncoderArray (map ElEncoder es)) = Inr e"
      "Encoder_buffer e = concat (map Encoder_buffer es)"
    using appends_new_Encoder [OF appends_writeEncoderArray assms(5)] by metis
  then have "compressRecords codecs compression (map ElEncoder es) = Inr z"
    using assms(2,4) by (simp add: compressRecords_def lookupCodec_def)
  moreover have "appends (chain [writeInt32 (int (length es)), writeBuffer (BBuffer z)]) (be_bytes 4 (int (length es)) @ z)"
    using assms(3) by (intro chain_prefix2 appends_writeInt32 appends_writeBuffer) simp
  ultimately show ?thesis using assms(1) by (simp add: write_records_def del: chain.simps)
qed

lemma write_records_eq:
  assumes "list_all record_ok rs" "rmap Record rs = Inr es" "map Encoder_buffer es = map wire_record rs"
    "wire_records codecs compression rs = Inr recs" "length rs < 2147483648"
    "length (concat (map wire_record rs)) < 2 ^ 30"
  shows "appends (write_records codecs compression (map ElEncoder es)) recs"
proof -
  have len: "length es = length rs" using rmap_length [OF assms(2)] .
  show ?thesis
  proof (cases "compression = Types_None")
    case True
    then show ?thesis
      using write_records_plain [of es codecs] assms(3,4,5) len by (simp add: wire_records_def wire_array_def)
  next
    case False
    then obtain codec z where "codecs compression = Some (Inr codec)"
        "codec_compress codec (concat (map wire_record rs)) = Inr z" "recs = be_bytes 4 (int (length rs)) @ z"
      using assms(4) by (auto simp: wire_records_def rbind_eq_Inr_conv split: option.splits sum.splits)
    then show ?thesis
      using write_records_compressed [of compression codecs codec es z] False assms(3,5,6) len by simp
  qed
qed

subsection \<open>Decoding what was encoded\<close>

definition context_of :: "batch_data \<Rightarrow> batch_context" where
  "context_of b =
     \<lparr>firstOffset = b_firstOffset b, firstTimestamp = b_firstTimestamp b,
      partitionLeaderEpoch = b_partitionLeaderEpoch b, inTransaction = b_transactional b, isControlBatch = False,
      lastOffsetDelta = b_lastOffsetDelta b, producerId = b_producerId b, producerEpoch = b_producerEpoch b,
      firstSequence = b_firstSequence b, maxTimestamp = b_maxTimestamp b, timestampType = CREATE_TIME\<rparr>"

lemma rd_bind_step: "reads m x v \<Longrightarrow> rd_bind m f (dec_at pre (x @ y)) = f v (dec_at (pre @ x) y)"
  by (simp add: reads_def rd_bind_def)

lemma readAll_end: "readAll (dec_at pre bs) = Inr (bs, advance (int (length (pre @ bs))) (dec_at pre bs))"
  by (simp add: readAll_def dec_at_def buf_slice_within)

lemma decodeRecords_eq:
  assumes "list_all record_ok rs" "length rs < 2147483648" "wire_records codecs compression rs = Inr recs"
    "lossless codecs" "codecs Types_None = None" "0 \<le> compression" "compression < 8"
  obtains codec d where "lookupCodec codecs compression = Inr codec"
    "decodeRecords codec ctx magic (dec_at pre recs) = Inr (map (decoded ctx magic) rs, d)"
proof (cases "compression = Types_None")
  case True
  have "reads (readArray (decodeRecord ctx magic)) (wire_array wire_record rs) (map (decoded ctx magic) rs)"
    using assms(1,2) by (intro reads_readArray reads_decodeRecord) (simp_all add: list_all_iff)
  then have "decodeRecords None ctx magic (dec_at pre recs) = Inr (map (decoded ctx magic) rs, dec_at (pre @ recs) [])"
    using readsD [of "readArray (decodeRecord ctx magic)" recs _ pre "[]"] assms(3) True
    by (simp add: decodeRecords_def wire_records_def)
  then show thesis using that [of None] True assms(5) by (simp add: lookupCodec_None)
next
  case False
  then obtain codec z where codec: "codecs compression = Some (Inr codec)"
      "codec_compress codec (concat (map wire_record rs)) = Inr z" "recs = be_bytes 4 (int (length rs)) @ z"
    using assms(3) by (auto simp: wire_records_def rbind_eq_Inr_conv split: option.splits sum.splits)
  then have z: "codec_decompress codec z = Inr (concat (map wire_record rs))"
    using assms(4) unfolding lossless_def by blast
  have n: "reads readInt32 (be_bytes 4 (int (length rs))) (int (length rs))"
    using assms(2) by (intro reads_readInt32) simp
  have "reads (rd_times (length rs) (decodeRecord ctx magic)) (concat (map wire_record rs)) (map (decoded ctx magic) rs)"
    using assms(1) by (intro reads_times_map reads_decodeRecord) (simp add: list_all_iff)
  from reads_whole [OF this]
  have "\<exists>d. decodeRecords (Some codec) ctx magic (dec_at pre recs) = Inr (map (decoded ctx magic) rs, d)"
    unfolding codec(3) decodeRecords_def option.case rd_bind_step [OF n]
    by (simp add: z rd_bind_def readAll_end rd_return_def)
  then show thesis using that [of "Some codec"] codec(1) by (auto simp: lookupCodec_def)
qed

lemma context_of_attributes:
  assumes "0 \<le> b_compression b" "b_compression b < 8"
  shows "\<lparr>firstOffset = b_firstOffset b, firstTimestamp = b_firstTimestamp b,
      partitionLeaderEpoch = b_partitionLeaderEpoch b,
      inTransaction = (js_and (batch_attributes b) TRANSACTIONAL_FLAG_MASK > 0),
      isControlBatch = (js_and (batch_attributes b) CONTROL_FLAG_MASK > 0),
      lastOffsetDelta = b_lastOffsetDelta b, producerId = b_producerId b, producerEpoch = b_producerEpoch b,
      firstSequence = b_firstSequence b, maxTimestamp = b_maxTimestamp b,
      timestampType = (if js_and (batch_attributes b) TIMESTAMP_TYPE_FLAG_MASK > 0 then LOG_APPEND_TIME
                       else CREATE_TIME)\<rparr> = context_of b"
  using attributes_flags [OF assms, of "b_transactional b"] assms by (simp add: context_of_def batch_attributes_eq)

lemma decode_batch_eq:
  assumes "batch_ok b" "list_all record_ok rs" "length rs < 2147483648"
    "wire_records codecs (b_compression b) rs = Inr recs" "lossless codecs" "codecs Types_None = None"
    "0 \<le> b_compression b" "b_compression b < 8"
  shows "\<exists>d. decode_batch codecs (b_firstOffset b) (new_Decoder (wire_batch_content b recs)) =
    Inr ((context_of b, map (decoded (context_of b) MAGIC_BYTE) rs), d)"
proof -
  note ranges = assms(1) [unfolded batch_ok_def]
  obtain c where c: "reads readInt32 (be_bytes 4 (crc32C (wire_batch_body b recs))) c"
    using reads_readInt32 [of "ToInt32 (crc32C (wire_batch_body b recs))"] ToInt32_range be_bytes_ToInt32
    by (metis int_range_numeral(3))
  have m: "reads readInt8 (be_bytes 1 MAGIC_BYTE) MAGIC_BYTE" by (rule reads_readInt8) (simp add: MAGIC_BYTE_def)
  have a: "reads readInt16 (be_bytes 2 (batch_attributes b)) (batch_attributes b)"
    using batch_attributes_range by (rule reads_readInt16)
  have f: "reads readInt32 (be_bytes 4 (b_partitionLeaderEpoch b)) (b_partitionLeaderEpoch b)"
    "reads readInt32 (be_bytes 4 (b_lastOffsetDelta b)) (b_lastOffsetDelta b)"
    "reads readInt64 (be_bytes 8 (b_firstTimestamp b)) (b_firstTimestamp b)"
    "reads readInt64 (be_bytes 8 (b_maxTimestamp b)) (b_maxTimestamp b)"
    "reads readInt64 (be_bytes 8 (b_producerId b)) (b_producerId b)"
    "reads readInt16 (be_bytes 2 (b_producerEpoch b)) (b_producerEpoch b)"
    "reads readInt32 (be_bytes 4 (b_firstSequence b)) (b_firstSequence b)"
    using ranges reads_readInt32 reads_readInt64 reads_readInt16 by blast+
  let ?head = "be_bytes 4 (b_partitionLeaderEpoch b) @ be_bytes 1 MAGIC_BYTE @
    be_bytes 4 (crc32C (wire_batch_body b recs)) @ be_bytes 2 (batch_attributes b) @ be_bytes 4 (b_lastOffsetDelta b) @
    be_bytes 8 (b_firstTimestamp b) @ be_bytes 8 (b_maxTimestamp b) @ be_bytes 8 (b_producerId b) @
    be_bytes 2 (b_producerEpoch b) @ be_bytes 4 (b_firstSequence b)"
  obtain codec d where codec: "lookupCodec codecs (b_compression b) = Inr codec"
    and recs: "decodeRecords codec (context_of b) MAGIC_BYTE (dec_at ?head recs) =
      Inr (map (decoded (context_of b) MAGIC_BYTE) rs, d)"
    using decodeRecords_eq [OF assms(2-8)] by blast
  have look: "lookupCodecByAttributes codecs (batch_attributes b) = Inr codec"
    using assms(7,8) codec by (simp add: lookupCodecByAttributes_mod batch_attributes_codec)
  have content: "wire_batch_content b recs = be_bytes 4 (b_partitionLeaderEpoch b) @ be_bytes 1 MAGIC_BYTE @
    be_bytes 4 (crc32C (wire_batch_body b recs)) @ be_bytes 2 (batch_attributes b) @ be_bytes 4 (b_lastOffsetDelta b) @
    be_bytes 8 (b_firstTimestamp b) @ be_bytes 8 (b_maxTimestamp b) @ be_bytes 8 (b_producerId b) @
    be_bytes 2 (b_producerEpoch b) @ be_bytes 4 (b_firstSequence b) @ recs"
    by (simp add: wire_batch_content_def wire_batch_body_def [of b recs])
  show ?thesis
    unfolding new_Decoder_dec_at content decode_batch_def
      rd_bind_step [OF f(1)] rd_bind_step [OF m] rd_bind_step [OF c] rd_bind_step [OF a] rd_bind_step [OF f(2)]
      rd_bind_step [OF f(3)] rd_bind_step [OF f(4)] rd_bind_step [OF f(5)] rd_bind_step [OF f(6)] rd_bind_step [OF f(7)]
      context_of_attributes [OF assms(7,8)] look rbind_Inr Let_def append_assoc append_Nil recs
    by simp
qed

text \<open>A batch in the middle of a fetch response: the decoder moves exactly behind it.\<close>

lemma reads_RecordBatchDecoder:
  assumes "batch_ok b" "list_all record_ok rs" "length rs < 2147483648"
    "wire_records codecs (b_compression b) rs = Inr recs" "lossless codecs" "codecs Types_None = None"
    "0 \<le> b_compression b" "b_compression b < 8" "length (wire_batch_content b recs) < 2147483648"
  shows "reads (RecordBatchDecoder codecs) (wire_batch b recs)
    (context_of b, map (decoded (context_of b) MAGIC_BYTE) rs)"
  unfolding reads_def
proof (intro allI)
  fix pre post
  let ?c = "wire_batch_content b recs"
  have o: "reads readInt64 (be_bytes 8 (b_firstOffset b)) (b_firstOffset b)"
    using assms(1) reads_readInt64 unfolding batch_ok_def by blast
  have l: "reads readInt32 (be_bytes 4 (int (length ?c))) (int (length ?c))"
    using assms(9) by (intro reads_readInt32) simp
  let ?d = "dec_at ((pre @ be_bytes 8 (b_firstOffset b)) @ be_bytes 4 (int (length ?c))) (?c @ post)"
  have slice: "Decoder_slice (int (length ?c)) ?d = new_Decoder ?c"
    by (simp add: Decoder_slice_def dec_at_def buf_slice_within)
  have fwd: "Decoder_forward (int (length ?c)) ?d = dec_at (pre @ wire_batch b recs) post"
    by (simp add: Decoder_forward_def advance_dec_at wire_batch_def wire_bytes_def)
  have pos: "\<not> int (length (dec_buf (new_Decoder ?c))) < int (length ?c)" by (simp add: new_Decoder_def)
  obtain d where d: "decode_batch codecs (b_firstOffset b) (new_Decoder ?c) =
      Inr ((context_of b, map (decoded (context_of b) MAGIC_BYTE) rs), d)"
    using decode_batch_eq [OF assms(1-8)] by blast
  have w: "wire_batch b recs @ post = be_bytes 8 (b_firstOffset b) @ be_bytes 4 (int (length ?c)) @ ?c @ post"
    by (simp add: wire_batch_def wire_bytes_def)
  show "RecordBatchDecoder codecs (dec_at pre (wire_batch b recs @ post)) =
    Inr ((context_of b, map (decoded (context_of b) MAGIC_BYTE) rs), dec_at (pre @ wire_batch b recs) post)"
    unfolding w RecordBatchDecoder_def rd_bind_step [OF o] rd_bind_step [OF l] Let_def slice fwd if_not_P [OF pos] d
    by simp
qed

text \<open>A batch that is cut off is reported as partial, whatever its contents.\<close>

lemma RecordBatchDecoder_partial_lemma:
  assumes "int_range 64 off" "int_range 32 len" "int (length rest) < len"
  shows "RecordBatchDecoder codecs (dec_at pre (be_bytes 8 off @ be_bytes 4 len @ rest)) = Inl KafkaJSPartialMessageError"
proof -
  let ?d = "dec_at ((pre @ be_bytes 8 off) @ be_bytes 4 len) rest"
  have "length (dec_buf (Decoder_slice len ?d)) \<le> length rest"
    using assms(3) by (simp add: Decoder_slice_def dec_at_def new_Decoder_def buf_slice_def slice_bound_def)
  then have "int (length (dec_buf (Decoder_slice len ?d))) < len" using assms(3) by linarith
  then show ?thesis
    unfolding RecordBatchDecoder_def rd_bind_step [OF reads_readInt64 [OF assms(1)]]
      rd_bind_step [OF reads_readInt32 [OF assms(2)]] Let_def by simp
qed

subsection \<open>Properties\<close>

text \<open>The record encoder succeeds on every admissible record, writes the documented record
  format, and the length it computes in advance for the body is the number of octets that follow.\<close>

theorem record_encode_format:
  assumes "record_ok r"
  shows "\<exists>e. Record r = Inr e \<and> Encoder_buffer e = wire_record r \<and>
    sizeOfBody r = Inr (length (wire_record_body r))"
  using Record_eq [OF assms] sizeOfBody_eq [OF assms] by metis

definition sample_record :: record_data where
  "sample_record = \<lparr>offsetDelta = 3, timestampDelta = 300, rec_key = BString ''k'', rec_value = BBuffer [1, 2, 3],
     rec_headers = [(''a'', HSingle (BString ''x'')), (''b'', HArray [BBuffer [7], BString ''yz''])]\<rparr>"

lemma sample_record_ok: "record_ok sample_record"
  by (simp add: record_ok_def sample_record_def wire_record_def wire_record_body_def wire_varint_bytes_def
      wire_varint_array_def wire_header_def wire_varint_string_def headersArray_def header_ok_def wire_varint_def
      zigzag_def uleb128.simps)

theorem record_encode_format_witness:
  "\<exists>e. Record sample_record = Inr e \<and> Encoder_buffer e = wire_record sample_record \<and>
    sizeOfBody sample_record = Inr (length (wire_record_body sample_record))"
  using record_encode_format [OF sample_record_ok] .

text \<open>C1: Encoding records and wrapping them in a record batch, compressed by any lossless codec or
  not at all, and decoding the result gives back every field of the batch and, in order, every
  record with its absolute offset and timestamp, key, value and headers; the decoder stops exactly
  behind the batch.\<close>

theorem record_batch_roundtrip:
  assumes "batch_ok b" "list_all record_ok rs" "length rs < 2147483648"
    "wire_records codecs (b_compression b) rs = Inr recs" "lossless codecs" "codecs Types_None = None"
    "0 \<le> b_compression b" "b_compression b < 8"
    "length (wire_batch b recs) < 2 ^ 30" "length (concat (map wire_record rs)) < 2 ^ 30"
  shows "\<exists>es e. rmap Record rs = Inr es \<and> RecordBatch codecs b (map ElEncoder es) = Inr e \<and>
    RecordBatchDecoder codecs (new_Decoder (Encoder_buffer e)) =
      Inr ((context_of b, map (decoded (context_of b) MAGIC_BYTE) rs), dec_at (Encoder_buffer e) [])"
proof -
  obtain es where es: "rmap Record rs = Inr es" "map Encoder_buffer es = map wire_record rs"
    using Record_all [OF assms(2)] by blast
  then have "appends (write_records codecs (b_compression b) (map ElEncoder es)) recs"
    using write_records_eq [OF assms(2) es assms(4,3,10)] by blast
  then obtain e where e: "RecordBatch codecs b (map ElEncoder es) = Inr e" "Encoder_buffer e = wire_batch b recs"
    using RecordBatch_eq [OF assms(1) _ assms(9)] by blast
  have "length (wire_batch_content b recs) < 2147483648"
    using assms(9) by (simp add: wire_batch_def wire_bytes_def)
  from reads_whole [OF reads_RecordBatchDecoder [OF assms(1-8) this]] show ?thesis
    using es e by auto
qed

definition sample_codec :: codec where
  "sample_codec = \<lparr>codec_compress = (\<lambda>b. Inr (rev b)), codec_decompress = (\<lambda>b. Inr (rev b))\<rparr>"

definition sample_batch :: batch_data where
  "sample_batch = \<lparr>b_compression = 1, b_firstOffset = 100, b_firstTimestamp = 1700000000000,
     b_maxTimestamp = 1700000000300, b_partitionLeaderEpoch = 5, b_lastOffsetDelta = 3, b_transactional = True,
     b_producerId = 42, b_producerEpoch = 1, b_firstSequence = 7\<rparr>"

definition sample_recs :: buffer where
  "sample_recs = be_bytes 4 1 @ rev (wire_record sample_record)"

lemma sample_lossless: "lossless (Codecs sample_codec)"
  by (auto simp: lossless_def Codecs_def sample_codec_def split: if_splits)

lemma sample_batch_small:
  "length (wire_record sample_record) < 2 ^ 20" "length (wire_batch sample_batch sample_recs) < 2 ^ 30"
proof -
  show small: "length (wire_record sample_record) < 2 ^ 20"
    by (simp add: sample_record_def wire_record_def wire_record_body_def wire_varint_bytes_def
      wire_varint_array_def wire_header_def wire_varint_string_def headersArray_def wire_varint_def
      zigzag_def uleb128.simps)
  then show "length (wire_batch sample_batch sample_recs) < 2 ^ 30"
    by (simp add: wire_batch_def wire_bytes_def wire_batch_content_def wire_batch_body_def sample_recs_def)
qed

theorem record_batch_roundtrip_witness:
  "\<exists>es e. rmap Record [sample_record] = Inr es \<and>
    RecordBatch (Codecs sample_codec) sample_batch (map ElEncoder es) = Inr e \<and>
    RecordBatchDecoder (Codecs sample_codec) (new_Decoder (Encoder_buffer e)) =
      Inr ((context_of sample_batch, map (decoded (context_of sample_batch) MAGIC_BYTE) [sample_record]),
           dec_at (Encoder_buffer e) [])"
proof (rule record_batch_roundtrip)
  show "batch_ok sample_batch" by (simp add: batch_ok_def sample_batch_def)
  show "list_all record_ok [sample_record]" using sample_record_ok by simp
  show "wire_records (Codecs sample_codec) (b_compression sample_batch) [sample_record] = Inr sample_recs"
    by (simp add: wire_records_def sample_batch_def Codecs_def Types_defs sample_codec_def sample_recs_def)
  show "length (concat (map wire_record [sample_record])) < 2 ^ 30" using sample_batch_small(1) by simp
qed (use sample_lossless sample_batch_small in \<open>simp_all add: Codecs_None sample_batch_def\<close>)

text \<open>A record batch of which fewer octets have arrived than its length field announces is
  rejected as partial, whatever the received part contains.\<close>

theorem record_batch_partial:
  assumes "int_range 64 off" "int_range 32 len" "int (length rest) < len"
  shows "RecordBatchDecoder codecs (new_Decoder (be_bytes 8 off @ be_bytes 4 len @ rest)) =
    Inl KafkaJSPartialMessageError"
  unfolding new_Decoder_dec_at using assms by (rule RecordBatchDecoder_partial_lemma)

theorem record_batch_partial_witness:
  "RecordBatchDecoder (Codecs sample_codec) (new_Decoder (be_bytes 8 7 @ be_bytes 4 61 @ [1, 2, 3])) =
    Inl KafkaJSPartialMessageError"
  by (rule record_batch_partial) simp_all

text \<open>The decoder collects headers by name: for a name that is not a property of every JavaScript
  object, the decoded object holds its values in order, one value plainly and several as an array.\<close>

theorem decoded_headers_grouped:
  assumes "k \<notin> set Object_prototype_names"
  shows "map_of (foldl add_header [] (map (\<lambda>(k, v). (Some k, v)) hs)) k =
    group_values (map snd (filter (\<lambda>h. fst h = k) hs))"
  using assms by (rule headers_grouped)

theorem decoded_headers_grouped_witness:
  "map_of (foldl add_header [] (map (\<lambda>(k, v). (Some k, v)) [(''a'', Some [1]), (''b'', None), (''a'', Some [2])])) ''a'' =
    Some (DArray [DValue (Some [1]), DValue (Some [2])])"
  by (subst decoded_headers_grouped) (simp_all add: Object_prototype_names_def)

text \<open>A header whose name every JavaScript object inherits is not decoded to its value: the
  decoder finds the inherited property first and returns an array of it and the value.\<close>

theorem inherited_header_name:
  assumes "k \<in> set Object_prototype_names"
  shows "foldl add_header [] [(Some k, v)] = [(k, DArray [DInherited k, DValue v])]"
  using assms by (simp add: add_header_def obj_get_def)

theorem inherited_header_name_witness:
  "foldl add_header [] [(Some ''constructor'', Some [1])] =
    [(''constructor'', DArray [DInherited ''constructor'', DValue (Some [1])])]"
  by (rule inherited_header_name) (simp add: Object_prototype_names_def)

text \<open>A record with a null header value cannot be encoded: the size computation throws a
  \<^verbatim>\<open>TypeError\<close> before it reaches its own case for null.\<close>

theorem null_header_rejected:
  assumes "list_all header_ok hs" "\<And>h. h \<in> set hs \<Longrightarrow> length (fst h) < 2 ^ 30 \<and> bytes_ok (2 ^ 30) (bytes_of (snd h))"
  shows "sizeOfHeaders (hs @ (k, BNull) # hs') = Inl JsTypeError"
proof -
  have "sizeOfHeaders_loop n (hs @ (k, BNull) # hs') = Inl JsTypeError" for n
    using assms by (induction hs arbitrary: n) (auto simp: header_ok_def Let_def rbind_def split: sum.split elim: Buffer_byteLength.elims)
  then show ?thesis by (simp add: sizeOfHeaders_def)
qed

theorem null_header_rejected_witness:
  "sizeOfHeaders ([(''a'', BString ''x'')] @ (''k'', BNull) # []) = Inl JsTypeError"
  by (rule null_header_rejected) (simp_all add: header_ok_def bytes_ok_def)

end
