(* ===== verification/Fetch_Batch.thy ===== *)
theory Fetch_Batch
  imports Record_Batch "HOL-Library.Sublist"
begin

text \<open>
  What a consumer sees of fetched messages: \<^verbatim>\<open>src/consumer/filterAbortedMessages.js\<close> drops the
  messages of aborted transactions, \<^verbatim>\<open>src/consumer/batch.js\<close> the ones before the requested offset
  and control records, and computes offsets and lags.
\<close>

definition ABORTED_MESSAGE_KEY :: buffer where "ABORTED_MESSAGE_KEY = [0, 0, 0, 0]"

definition isAbortMarker :: "decoded_record \<Rightarrow> bool" where
  "isAbortMarker m = (case dkey m of None \<Rightarrow> False | Some k \<Rightarrow> k = ABORTED_MESSAGE_KEY)"

text \<open>An aborted transaction: first offset and producer id.\<close>

type_synonym aborted_tx = "int \<times> int"

definition step_into :: "decoded_record \<Rightarrow> aborted_tx list \<Rightarrow> int list \<Rightarrow> aborted_tx list \<times> int list" where
  "step_into m remaining current =
     (case remaining of
        (first, pid) # rest \<Rightarrow>
          if Long_gte (rec_offset m) first then (rest, List.insert pid current) else (remaining, current)
      | [] \<Rightarrow> (remaining, current))"

fun aborted_loop :: "aborted_tx list \<Rightarrow> int list \<Rightarrow> decoded_record list \<Rightarrow> decoded_record list" where
  "aborted_loop remaining current [] = []"
| "aborted_loop remaining current (m # ms) =
     (let (remaining, current) = step_into m remaining current;
          pid = producerId (batchContext m)
      in if isAbortMarker m then m # aborted_loop remaining (removeAll pid current) ms
         else if pid \<in> set current \<and> inTransaction (batchContext m) then aborted_loop remaining current ms
         else m # aborted_loop remaining current ms)"

definition filterAbortedMessages :: "decoded_record list \<Rightarrow> aborted_tx list option \<Rightarrow> decoded_record list" where
  "filterAbortedMessages messages abortedTransactions =
     (case abortedTransactions of
        None \<Rightarrow> messages
      | Some [] \<Rightarrow> messages
      | Some txs \<Rightarrow> aborted_loop txs [] messages)"

subsection \<open>Batches\<close>

record partition_data =
  pd_partition :: int
  pd_highWatermark :: int
  pd_abortedTransactions :: "aborted_tx list option"
  pd_messages :: "decoded_record list"

record batch =
  bt_topic :: string
  bt_partition :: int
  fetchedOffset :: int
  highWatermark :: int
  rawMessages :: "decoded_record list"
  messagesWithinOffset :: "decoded_record list"
  bt_messages :: "decoded_record list"

definition new_Batch :: "string \<Rightarrow> int \<Rightarrow> partition_data \<Rightarrow> batch" where
  "new_Batch topic fetched pd =
     (let within = filter (\<lambda>m. Long_gte (rec_offset m) fetched) (pd_messages pd)
      in \<lparr>bt_topic = topic, bt_partition = pd_partition pd, fetchedOffset = fetched, highWatermark = pd_highWatermark pd,
          rawMessages = pd_messages pd, messagesWithinOffset = within,
          bt_messages = filter (\<lambda>m. \<not> isControlRecord m) (filterAbortedMessages within (pd_abortedTransactions pd))\<rparr>)"

definition isEmpty :: "batch \<Rightarrow> bool" where
  "isEmpty b \<longleftrightarrow> bt_messages b = []"

definition isEmptyIncludingFiltered :: "batch \<Rightarrow> bool" where
  "isEmptyIncludingFiltered b \<longleftrightarrow> messagesWithinOffset b = []"

definition isEmptyDueToFiltering :: "batch \<Rightarrow> bool" where
  "isEmptyDueToFiltering b \<longleftrightarrow> isEmpty b \<and> rawMessages b \<noteq> []"

definition isEmptyControlRecord :: "batch \<Rightarrow> bool" where
  "isEmptyControlRecord b \<longleftrightarrow> isEmpty b \<and> list_ex isControlRecord (messagesWithinOffset b)"

definition isEmptyDueToLogCompactedMessages :: "batch \<Rightarrow> bool" where
  "isEmptyDueToLogCompactedMessages b \<longleftrightarrow> rawMessages b \<noteq> [] \<and> isEmptyIncludingFiltered b"

definition bt_firstOffset :: "batch \<Rightarrow> int option" where
  "bt_firstOffset b = (if isEmptyIncludingFiltered b then None else Some (rec_offset (hd (messagesWithinOffset b))))"

definition bt_lastOffset :: "batch \<Rightarrow> int" where
  "bt_lastOffset b =
     (if isEmptyDueToLogCompactedMessages b then fetchedOffset b
      else if isEmptyIncludingFiltered b then Long_add (highWatermark b) (- 1)
      else rec_offset (last (messagesWithinOffset b)))"

definition offsetLag :: "batch \<Rightarrow> int" where
  "offsetLag b = Long_add (Long_add (highWatermark b) (- 1)) (Long_multiply (bt_lastOffset b) (- 1))"

definition offsetLagLow :: "batch \<Rightarrow> int" where
  "offsetLagLow b =
     (if isEmptyIncludingFiltered b then 0
      else Long_add (Long_add (highWatermark b) (- 1)) (Long_multiply (rec_offset (hd (messagesWithinOffset b))) (- 1)))"

subsection \<open>Aborted transactions\<close>

text \<open>
  The specification: a message belongs to an aborted transaction if it is transactional and its
  producer has one that starts at or before the message and that no abort marker of the producer has
  ended in between. \<open>prev\<close> are the messages before it.
\<close>

definition marks :: "decoded_record list \<Rightarrow> int \<Rightarrow> int \<Rightarrow> bool" where
  "marks prev pid fo \<longleftrightarrow> (\<exists>m \<in> set prev. isAbortMarker m \<and> producerId (batchContext m) = pid \<and> fo \<le> rec_offset m)"

definition open_tx :: "aborted_tx list \<Rightarrow> decoded_record list \<Rightarrow> decoded_record \<Rightarrow> bool" where
  "open_tx txs prev m \<longleftrightarrow>
     (\<exists>(fo, pid) \<in> set txs. pid = producerId (batchContext m) \<and> fo \<le> rec_offset m \<and> \<not> marks prev pid fo)"

fun drop_aborted :: "aborted_tx list \<Rightarrow> decoded_record list \<Rightarrow> decoded_record list \<Rightarrow> decoded_record list" where
  "drop_aborted txs prev [] = []"
| "drop_aborted txs prev (m # ms) =
     (if \<not> isAbortMarker m \<and> inTransaction (batchContext m) \<and> open_tx txs prev m then drop_aborted txs (prev @ [m]) ms
      else m # drop_aborted txs (prev @ [m]) ms)"

text \<open>No message steps into two aborted transactions at once.\<close>

fun one_by_one :: "aborted_tx list \<Rightarrow> decoded_record list \<Rightarrow> bool" where
  "one_by_one remaining [] = True"
| "one_by_one remaining (m # ms) =
     (let due = takeWhile (\<lambda>x. fst x \<le> rec_offset m) remaining
      in length due \<le> 1 \<and> one_by_one (drop (length due) remaining) ms)"

text \<open>The state of the loop after \<open>prev\<close>, where \<open>bound\<close> is the last offset seen.\<close>

definition loop_state :: "aborted_tx list \<Rightarrow> decoded_record list \<Rightarrow> int \<Rightarrow> aborted_tx list \<Rightarrow> int list \<Rightarrow> bool" where
  "loop_state txs prev bound remaining current \<longleftrightarrow>
     (\<exists>seen. txs = seen @ remaining \<and> (\<forall>x \<in> set seen. fst x \<le> bound) \<and> (\<forall>x \<in> set remaining. bound < fst x) \<and>
       set current = {pid. \<exists>fo. (fo, pid) \<in> set seen \<and> \<not> marks prev pid fo})"

lemma marks_snoc: "marks (prev @ [m]) pid fo \<longleftrightarrow> marks prev pid fo \<or> isAbortMarker m \<and> producerId (batchContext m) = pid \<and> fo \<le> rec_offset m"
  by (auto simp: marks_def)

text \<open>The initial state, and that a step keeps the state. \<open>m\<close> is behind everything seen.\<close>

lemma loop_state_step:
  assumes st: "loop_state txs prev bound remaining current" and "bound \<le> rec_offset m"
    and prev: "\<And>x. x \<in> set prev \<Longrightarrow> rec_offset x \<le> bound"
    and sorted: "sorted (map fst remaining)" and one: "length (takeWhile (\<lambda>x. fst x \<le> rec_offset m) remaining) \<le> 1"
    and step: "step_into m remaining current = (remaining', current')"
  shows "loop_state txs prev (rec_offset m) remaining' current' \<and>
    remaining' = drop (length (takeWhile (\<lambda>x. fst x \<le> rec_offset m) remaining)) remaining"
proof -
  obtain seen where seen: "txs = seen @ remaining" "\<forall>x \<in> set seen. fst x \<le> bound" "\<forall>x \<in> set remaining. bound < fst x"
      "set current = {pid. \<exists>fo. (fo, pid) \<in> set seen \<and> \<not> marks prev pid fo}"
    using st by (auto simp: loop_state_def)
  show ?thesis
  proof (cases "\<exists>fo pid rest. remaining = (fo, pid) # rest \<and> fo \<le> rec_offset m")
    case True
    then obtain fo pid rest where r: "remaining = (fo, pid) # rest" "fo \<le> rec_offset m" by blast
    have later: "\<forall>x \<in> set rest. rec_offset m < fst x"
    proof (cases rest)
      case (Cons y ys)
      then have "rec_offset m < fst y" using one r by (auto split: if_splits)
      then show ?thesis using sorted r(1) Cons by auto
    qed simp
    have "bound < fo" using seen(3) r(1) by simp
    then have "\<not> marks prev pid fo" using prev by (auto simp: marks_def) (meson not_less order_trans)
    then have cur: "set (List.insert pid current) = {q. \<exists>f. (f, q) \<in> set (seen @ [(fo, pid)]) \<and> \<not> marks prev q f}"
      using seen(4) by auto
    have "loop_state txs prev (rec_offset m) rest (List.insert pid current)"
      unfolding loop_state_def
      using seen r later cur assms(2) by (intro exI [of _ "seen @ [(fo, pid)]"]) (auto intro: order_trans)
    moreover have "takeWhile (\<lambda>x. fst x \<le> rec_offset m) rest = []" using later by (cases rest) auto
    ultimately show ?thesis using step r by (simp add: step_into_def Long_gte_def)
  next
    case False
    then have "remaining' = remaining" "current' = current" using step by (auto simp: step_into_def Long_gte_def split: list.splits)
    moreover have "\<forall>x \<in> set remaining. rec_offset m < fst x" using False sorted by (cases remaining) auto
    moreover have "takeWhile (\<lambda>x. fst x \<le> rec_offset m) remaining = []" using False by (cases remaining) auto
    ultimately show ?thesis
      unfolding loop_state_def using seen assms(2) by (auto intro!: exI [of _ seen] intro: order_trans)
  qed
qed

lemma loop_state_open:
  assumes "loop_state txs prev (rec_offset m) remaining current"
  shows "producerId (batchContext m) \<in> set current \<longleftrightarrow> open_tx txs prev m"
  using assms by (fastforce simp: loop_state_def open_tx_def)

lemma loop_state_next:
  assumes "loop_state txs prev (rec_offset m) remaining current"
  shows "loop_state txs (prev @ [m]) (rec_offset m) remaining
    (if isAbortMarker m then removeAll (producerId (batchContext m)) current else current)"
proof -
  obtain seen where seen: "txs = seen @ remaining" "\<forall>x \<in> set seen. fst x \<le> rec_offset m" "\<forall>x \<in> set remaining. rec_offset m < fst x"
      "set current = {pid. \<exists>fo. (fo, pid) \<in> set seen \<and> \<not> marks prev pid fo}"
    using assms by (auto simp: loop_state_def)
  have snoc: "marks (prev @ [m]) pid fo \<longleftrightarrow> marks prev pid fo \<or> isAbortMarker m \<and> producerId (batchContext m) = pid"
    if "(fo, pid) \<in> set seen" for fo pid
    using that seen(2) by (auto simp: marks_snoc)
  have "set (if isAbortMarker m then removeAll (producerId (batchContext m)) current else current) =
      {pid. \<exists>fo. (fo, pid) \<in> set seen \<and> \<not> marks (prev @ [m]) pid fo}"
    using seen(4) snoc by (cases "isAbortMarker m") auto
  then show ?thesis unfolding loop_state_def using seen(1-3) by (intro exI [of _ seen]) blast
qed

lemma aborted_loop_spec:
  assumes "loop_state txs prev bound remaining current" "\<And>x. x \<in> set prev \<Longrightarrow> rec_offset x \<le> bound"
    "sorted (map fst remaining)" "one_by_one remaining ms" "sorted (map rec_offset ms)" "\<And>x. x \<in> set ms \<Longrightarrow> bound \<le> rec_offset x"
  shows "aborted_loop remaining current ms = drop_aborted txs prev ms"
  using assms
proof (induction ms arbitrary: prev bound remaining current)
  case (Cons m ms)
  obtain remaining' current' where step: "step_into m remaining current = (remaining', current')" by fastforce
  have one: "length (takeWhile (\<lambda>x. fst x \<le> rec_offset m) remaining) \<le> 1" using Cons.prems(4) by (simp add: Let_def)
  have bound: "bound \<le> rec_offset m" using Cons.prems(6) by simp
  note st = loop_state_step [OF Cons.prems(1) bound Cons.prems(2,3) one step]
  let ?current = "if isAbortMarker m then removeAll (producerId (batchContext m)) current' else current'"
  have "aborted_loop remaining' ?current ms = drop_aborted txs (prev @ [m]) ms"
  proof (rule Cons.IH)
    show "loop_state txs (prev @ [m]) (rec_offset m) remaining' ?current" using st by (intro loop_state_next) blast
    show "rec_offset x \<le> rec_offset m" if "x \<in> set (prev @ [m])" for x using that Cons.prems(2) bound by (auto intro: order_trans)
    show "sorted (map fst remaining')" using st Cons.prems(3) by (simp add: drop_map sorted_wrt_drop flip: drop_map)
    show "one_by_one remaining' ms" using st Cons.prems(4) by (simp add: Let_def)
    show "sorted (map rec_offset ms)" "\<And>x. x \<in> set ms \<Longrightarrow> rec_offset m \<le> rec_offset x" using Cons.prems(5) by auto
  qed
  moreover have "producerId (batchContext m) \<in> set current' \<longleftrightarrow> open_tx txs prev m" using st by (intro loop_state_open) blast
  ultimately show ?case by (auto simp: step Let_def split: if_splits)
qed simp

subsection \<open>Properties\<close>


definition tx_record :: "int \<Rightarrow> int \<Rightarrow> buffer option \<Rightarrow> bool \<Rightarrow> decoded_record" where
  "tx_record offs pid k control = \<lparr>magicByte = 2, attributes = 0, timestamp = 0, rec_offset = offs, dkey = k, dvalue = None, dheaders = [],
     isControlRecord = control, batchContext = \<lparr>firstOffset = offs, firstTimestamp = 0, partitionLeaderEpoch = 0, inTransaction = True,
       isControlBatch = control, lastOffsetDelta = 0, producerId = pid, producerEpoch = 0, firstSequence = 0, maxTimestamp = 0,
       timestampType = 0\<rparr>\<rparr>"


text \<open>
  A fetch that starts inside two aborted transactions delivers a message of the second: the loop
  steps into one of them per message only.
\<close>

lemma aborted_message_leaks:
  "map rec_offset (filterAbortedMessages [tx_record 12 2 None False, tx_record 13 2 None False] (Some [(10, 1), (11, 2)])) = [12] \<and>
   map rec_offset (drop_aborted [(10, 1), (11, 2)] [] [tx_record 12 2 None False, tx_record 13 2 None False]) = []"
  by code_simp

text \<open>An ordinary message whose key is four zero octets is taken for an abort marker.\<close>

lemma key_taken_for_marker:
  "map rec_offset (filterAbortedMessages [tx_record 5 1 (Some [0, 0, 0, 0]) False, tx_record 6 1 None False] (Some [(5, 1)])) = [5, 6]"
  by code_simp

lemma lastOffset_progress:
  assumes "pd_messages pd \<noteq> []"
  shows "fetched \<le> bt_lastOffset (new_Batch topic fetched pd)"
proof -
  let ?within = "filter (\<lambda>m. Long_gte (rec_offset m) fetched) (pd_messages pd)"
  have "last ?within \<in> set ?within" if "?within \<noteq> []" using that last_in_set by blast
  then show ?thesis
    using assms by (auto simp: bt_lastOffset_def isEmptyDueToLogCompactedMessages_def isEmptyIncludingFiltered_def new_Batch_def Let_def
      Long_add_def Long_gte_def filter_empty_conv)
qed

text \<open>A fetch that returned messages always lets the consumer move on: the offset behind the last one
  of the batch is greater than the fetched offset, whatever was filtered. The messages handed out
  are data records from the fetched offset on, in the order they were fetched.\<close>

theorem batch_makes_progress:
  assumes "pd_messages pd \<noteq> []"
  shows "fetched < Long_add (bt_lastOffset (new_Batch topic fetched pd)) 1 \<and>
    subseq (bt_messages (new_Batch topic fetched pd)) (pd_messages pd) \<and>
    (\<forall>m \<in> set (bt_messages (new_Batch topic fetched pd)). fetched \<le> rec_offset m \<and> \<not> isControlRecord m)"
proof -
  let ?within = "filter (\<lambda>m. Long_gte (rec_offset m) fetched) (pd_messages pd)"
  have loop: "subseq (aborted_loop remaining current ms) ms" for remaining current ms
    by (induction remaining current ms rule: aborted_loop.induct) (auto simp: Let_def split: prod.split)
  have sub: "subseq (filterAbortedMessages ms txs) ms" for ms txs
    using loop by (auto simp: filterAbortedMessages_def split: option.split list.split)
  have "fetched < Long_add (bt_lastOffset (new_Batch topic fetched pd)) 1"
    using lastOffset_progress [OF assms, of fetched topic] by (simp add: Long_add_def)
  moreover have "subseq (filter P (filterAbortedMessages ?within txs)) (pd_messages pd)" for P txs
    by (meson sub subseq_filter_left subseq_order.trans)
  moreover have "set (filterAbortedMessages ?within txs) \<subseteq> set ?within" for txs
  proof
    fix m assume "m \<in> set (filterAbortedMessages ?within txs)"
    from list_emb_set [OF sub this] show "m \<in> set ?within" by auto
  qed
  ultimately show ?thesis by (auto simp: new_Batch_def Let_def Long_gte_def)
qed

theorem batch_makes_progress_witness:
  "let pd = \<lparr>pd_partition = 0, pd_highWatermark = 20, pd_abortedTransactions = Some [(5, 1)], pd_messages = [tx_record 4 1 None False, tx_record 5 1 None False]\<rparr>
   in 5 < Long_add (bt_lastOffset (new_Batch ''t'' 5 pd)) 1 \<and> subseq (bt_messages (new_Batch ''t'' 5 pd)) (pd_messages pd)"
  unfolding Let_def
  using batch_makes_progress [of "\<lparr>pd_partition = 0, pd_highWatermark = 20, pd_abortedTransactions = Some [(5, 1)],
    pd_messages = [tx_record 4 1 None False, tx_record 5 1 None False]\<rparr>" 5 "''t''"] by simp

end
