(* ===== verification/Assigner.thy ===== *)
theory Assigner
  imports Wire_Codec Partitioner Js_Object Kafka_Errors "HOL-Library.List_Lexorder" "HOL-Library.Char_ord"
begin

text \<open>
  Distributing partitions over the members of a consumer group:
  \<^verbatim>\<open>src/consumer/assigners/roundRobinAssigner/index.js\<close>, and the formats of
  \<^verbatim>\<open>src/consumer/assignerProtocol.js\<close> in which a member announces its topics and receives its
  partitions. The partitions of a topic come from the metadata of the cluster, a parameter. The
  order of the member ids is that of their octets.
\<close>

subsection \<open>The protocol\<close>

record member_metadata =
  mm_version :: int
  mm_topics :: "string option list"
  mm_userData :: "buffer option"

definition MemberMetadata_encode :: "int \<Rightarrow> string list \<Rightarrow> buffer option \<Rightarrow> buffer result" where
  "MemberMetadata_encode version topics userData =
     rbind (rbind new_Encoder (chain [
         writeInt16 version,
         writeArray (map ElString topics) None None,
         writeBytes (BBuffer (case userData of None \<Rightarrow> [] | Some b \<Rightarrow> b))]))
       (\<lambda>e. Inr (Encoder_buffer e))"

definition MemberMetadata_decode :: "buffer \<Rightarrow> member_metadata result" where
  "MemberMetadata_decode b =
     rbind (rd_bind readInt16 (\<lambda>version. rd_bind (readArray readString) (\<lambda>topics. rd_bind readBytes (\<lambda>userData.
              rd_return \<lparr>mm_version = version, mm_topics = topics, mm_userData = userData\<rparr>))) (new_Decoder b))
       (\<lambda>(r, _). Inr r)"

type_synonym assignment = "(string \<times> int list) list"

record member_assignment =
  ma_version :: int
  ma_assignment :: assignment
  ma_userData :: "buffer option"

definition MemberAssignment_encode :: "int \<Rightarrow> assignment \<Rightarrow> buffer option \<Rightarrow> buffer result" where
  "MemberAssignment_encode version assignment userData =
     rbind (rbind new_Encoder (chain [
         writeInt16 version,
         write_array_of (\<lambda>(topic, prts). chain [writeString (Some topic), writeArray (map ElNumber prts) None None]) assignment,
         writeBytes (BBuffer (case userData of None \<Rightarrow> [] | Some b \<Rightarrow> b))]))
       (\<lambda>e. Inr (Encoder_buffer e))"

text \<open>A null topic becomes the property \<^verbatim>\<open>null\<close>; a buffer without a version decodes to null.\<close>

definition decodeAssignment :: "(string option \<times> int list) reader" where
  "decodeAssignment = rd_bind readString (\<lambda>topic. rd_bind (readArray readInt32) (\<lambda>prts. rd_return (topic, prts)))"

definition indexAssignment :: "(string option \<times> int list) list \<Rightarrow> assignment" where
  "indexAssignment xs = object_of (map (\<lambda>(topic, prts). (case topic of None \<Rightarrow> ''null'' | Some t \<Rightarrow> t, prts)) xs)"

definition MemberAssignment_decode :: "buffer \<Rightarrow> member_assignment option result" where
  "MemberAssignment_decode b =
     (let d = new_Decoder b
      in if \<not> canReadInt16 d then Inr None
         else rbind (rd_bind readInt16 (\<lambda>version. rd_bind (readArray decodeAssignment) (\<lambda>xs. rd_bind readBytes (\<lambda>userData.
                rd_return (Some \<lparr>ma_version = version, ma_assignment = indexAssignment xs, ma_userData = userData\<rparr>)))) d)
                (\<lambda>(r, _). Inr r))"

subsection \<open>Round robin\<close>

definition assigner_name :: string where "assigner_name = ''RoundRobinAssigner''"
definition assigner_version :: int where "assigner_version = 0"

definition topicsPartitions :: "(string \<Rightarrow> err + partition_metadata list) \<Rightarrow> string list \<Rightarrow> err + (string \<times> int) list" where
  "topicsPartitions findMetadata topics =
     rbind (rmap (\<lambda>topic. rbind (findMetadata topic) (\<lambda>md. Inr (map (\<lambda>m. (topic, partitionId m)) md))) topics)
       (\<lambda>tps. Inr (concat tps))"

definition add_assignment :: "(string \<times> assignment) list \<Rightarrow> string \<Rightarrow> string \<times> int \<Rightarrow> (string \<times> assignment) list" where
  "add_assignment asg assignee tp =
     (let ofMember = (case map_of asg assignee of None \<Rightarrow> [] | Some a \<Rightarrow> a);
          prts = (case map_of ofMember (fst tp) of None \<Rightarrow> [] | Some ps \<Rightarrow> ps)
      in AList.update assignee (AList.update (fst tp) (prts @ [snd tp]) ofMember) asg)"

text \<open>Without members the index is \<^verbatim>\<open>NaN\<close> and the assignee \<^verbatim>\<open>undefined\<close>.\<close>

definition assignee :: "string list \<Rightarrow> nat \<Rightarrow> string" where
  "assignee sortedMembers i = (if sortedMembers = [] then ''undefined'' else sortedMembers ! (i mod length sortedMembers))"

definition round_robin :: "string list \<Rightarrow> (string \<times> int) list \<Rightarrow> (string \<times> assignment) list" where
  "round_robin sortedMembers tps =
     foldl (\<lambda>asg (i, tp). add_assignment asg (assignee sortedMembers i) tp) [] (enumerate 0 tps)"

definition assign_group :: "(string \<Rightarrow> err + partition_metadata list) \<Rightarrow> string list \<Rightarrow> string list \<Rightarrow> err + (string \<times> buffer result) list" where
  "assign_group findMetadata members topics =
     rbind (topicsPartitions findMetadata topics) (\<lambda>tps.
       Inr (map (\<lambda>(memberId, a). (memberId, MemberAssignment_encode assigner_version a None)) (round_robin (sort members) tps)))"

definition assigner_protocol :: "string list \<Rightarrow> string \<times> buffer result" where
  "assigner_protocol topics = (assigner_name, MemberMetadata_encode assigner_version topics None)"

subsection \<open>The assignment is a partition\<close>

definition assigned_to :: "(string \<times> assignment) list \<Rightarrow> string \<Rightarrow> string \<Rightarrow> int list" where
  "assigned_to asg member topic = group_of (case map_of asg member of None \<Rightarrow> [] | Some a \<Rightarrow> a) topic"

lemma assigned_to_add:
  "assigned_to (add_assignment asg m tp) member topic = assigned_to asg member topic @ (if member = m \<and> topic = fst tp then [snd tp] else [])"
  by (auto simp: assigned_to_def add_assignment_def Let_def group_of_def update_conv' split: option.split)

lemma round_robin_assigned:
  "assigned_to (round_robin ms tps) member topic =
     map (\<lambda>x. snd (snd x)) (filter (\<lambda>x. assignee ms (fst x) = member \<and> fst (snd x) = topic) (enumerate 0 tps))"
proof -
  have "assigned_to (foldl (\<lambda>asg (i, tp). add_assignment asg (assignee ms i) tp) asg xs) member topic =
      assigned_to asg member topic @ map (\<lambda>x. snd (snd x)) (filter (\<lambda>x. assignee ms (fst x) = member \<and> fst (snd x) = topic) xs)" for asg xs
    by (induction xs arbitrary: asg) (auto simp: assigned_to_add split_def)
  then show ?thesis by (simp add: round_robin_def assigned_to_def group_of_def)
qed

lemma assigned_iff:
  "p \<in> set (assigned_to (round_robin ms tps) member topic) \<longleftrightarrow> (\<exists>i < length tps. assignee ms i = member \<and> tps ! i = (topic, p))"
proof -
  have "p \<in> set (assigned_to (round_robin ms tps) member topic) \<longleftrightarrow> (\<exists>x \<in> set (enumerate 0 tps). assignee ms (fst x) = member \<and> snd x = (topic, p))"
    unfolding round_robin_assigned by (auto simp: prod_eq_iff)
  also have "\<dots> \<longleftrightarrow> (\<exists>i < length tps. assignee ms i = member \<and> tps ! i = (topic, p))"
    by (auto simp: in_set_enumerate_eq prod_eq_iff Bex_def)
  finally show ?thesis .
qed

text \<open>How often a residue occurs below a bound.\<close>

lemma card_residue:
  assumes "0 < n" "k < n"
  shows "card {i. i < N \<and> i mod n = k} = N div n + (if k < N mod n then 1 else 0)"
proof (induction N)
  case (Suc N)
  have "{i. i < Suc N \<and> i mod n = k} = (if N mod n = k then insert N {i. i < N \<and> i mod n = k} else {i. i < N \<and> i mod n = k})"
    by (auto simp: less_Suc_eq)
  then have "card {i. i < Suc N \<and> i mod n = k} = card {i. i < N \<and> i mod n = k} + (if N mod n = k then 1 else 0)" by simp
  also have "\<dots> = Suc N div n + (if k < Suc N mod n then 1 else 0)"
  proof (cases "Suc (N mod n) = n")
    case True
    then have "Suc N mod n = 0" by (simp add: mod_Suc)
    then have "Suc N div n = Suc (N div n)" by (simp add: div_Suc)
    then show ?thesis using Suc True assms(2) \<open>Suc N mod n = 0\<close> by auto
  next
    case False
    then have "Suc N mod n = Suc (N mod n)" by (simp add: mod_Suc)
    then have "Suc N div n = N div n" by (simp add: div_Suc)
    then show ?thesis using Suc \<open>Suc N mod n = Suc (N mod n)\<close> by auto
  qed
  finally show ?case .
qed simp

lemma assignee_eq_nth:
  assumes "ms \<noteq> []" "distinct ms" "k < length ms"
  shows "assignee ms i = ms ! k \<longleftrightarrow> i mod length ms = k"
  using assms by (simp add: assignee_def nth_eq_iff_index_eq)

definition load :: "(string \<times> assignment) list \<Rightarrow> string \<Rightarrow> nat" where
  "load asg member = card {(topic, p). p \<in> set (assigned_to asg member topic)}"

lemma load_round_robin:
  assumes "ms \<noteq> []" "distinct ms" "distinct tps" "k < length ms"
  shows "load (round_robin ms tps) (ms ! k) = length tps div length ms + (if k < length tps mod length ms then 1 else 0)"
proof -
  have "{(topic, p). p \<in> set (assigned_to (round_robin ms tps) (ms ! k) topic)} = (!) tps ` {i. i < length tps \<and> i mod length ms = k}"
    using assignee_eq_nth [OF assms(1,2,4)] by (force simp: assigned_iff)
  moreover have "inj_on ((!) tps) {i. i < length tps \<and> i mod length ms = k}"
    using assms(3) by (auto simp: inj_on_def nth_eq_iff_index_eq)
  ultimately have "load (round_robin ms tps) (ms ! k) = card {i. i < length tps \<and> i mod length ms = k}"
    by (simp add: load_def card_image)
  then show ?thesis using card_residue [of "length ms" k "length tps"] assms(1,4) by simp
qed

subsection \<open>Formats\<close>

definition wire_assignment :: "assignment \<Rightarrow> buffer" where
  "wire_assignment = wire_array (\<lambda>(topic, prts). wire_string (Some topic) @ wire_array (be_bytes 4) prts)"

definition assignment_ok :: "assignment \<Rightarrow> bool" where
  "assignment_ok a \<longleftrightarrow> length a < 2147483648 \<and> (\<forall>(topic, prts) \<in> set a. length topic < 32768 \<and> length prts < 2 ^ 26 \<and> (\<forall>p \<in> set prts. int_range 32 p))"

lemma length_be_array: "length (concat (map (be_bytes 4) prts)) = 4 * length prts"
  by (induction prts) auto

lemma appends_assignment:
  assumes "assignment_ok a"
  shows "appends (write_array_of (\<lambda>(topic, prts). chain [writeString (Some topic), writeArray (map ElNumber prts) None None]) a) (wire_assignment a)"
  unfolding wire_assignment_def
proof (rule appends_write_array_of)
  fix x assume x: "x \<in> set a"
  obtain topic prts where [simp]: "x = (topic, prts)" by (cases x)
  have ok: "length topic < 32768" "length prts < 2 ^ 26" "\<forall>p \<in> set prts. int_range 32 p" using assms x by (auto simp: assignment_ok_def)
  have "appends (chain [writeString (Some topic), writeArray (map ElNumber prts) None None]) (wire_string (Some topic) @ wire_array (be_bytes 4) prts)"
    using ok by (intro chain_prefix2 appends_writeString appends_writeArray_numbers) (auto simp: string_ok_def simp del: int_range_numeral)
  moreover have "length (wire_string (Some topic) @ wire_array (be_bytes 4) prts) < 2 ^ 30"
    using ok by (simp add: wire_string_def wire_array_def length_be_array)
  ultimately show "appends (case x of (topic, prts) \<Rightarrow> chain [writeString (Some topic), writeArray (map ElNumber prts) None None])
      (case x of (topic, prts) \<Rightarrow> wire_string (Some topic) @ wire_array (be_bytes 4) prts) \<and>
      length (case x of (topic, prts) \<Rightarrow> wire_string (Some topic) @ wire_array (be_bytes 4) prts) < 2 ^ 30" by simp
qed (use assms in \<open>simp add: assignment_ok_def\<close>)

lemma reads_assignment:
  assumes "assignment_ok a"
  shows "reads (readArray decodeAssignment) (wire_assignment a) (map (\<lambda>(topic, prts). (Some topic, prts)) a)"
  unfolding wire_assignment_def
proof (rule reads_readArray)
  fix x assume x: "x \<in> set a"
  obtain topic prts where [simp]: "x = (topic, prts)" by (cases x)
  have ok: "length topic < 32768" "length prts < 2 ^ 26" "\<forall>p \<in> set prts. int_range 32 p" using assms x by (auto simp: assignment_ok_def)
  have "reads (readArray readInt32) (wire_array (be_bytes 4) prts) (map (\<lambda>p. p) prts)"
    using ok by (intro reads_readArray reads_readInt32) auto
  then have "reads (rd_bind (readArray readInt32) (\<lambda>prts. rd_return (Some topic, prts))) (wire_array (be_bytes 4) prts) (Some topic, prts)"
    by (intro reads_bind_return) simp_all
  moreover have "reads readString (wire_string (Some topic)) (Some topic)" using ok by (intro reads_readString) (simp add: string_ok_def)
  ultimately show "reads decodeAssignment (case x of (topic, prts) \<Rightarrow> wire_string (Some topic) @ wire_array (be_bytes 4) prts)
      (case x of (topic, prts) \<Rightarrow> (Some topic, prts))"
    unfolding decodeAssignment_def by (simp add: reads_bind)
qed (use assms in \<open>simp add: assignment_ok_def\<close>)

lemma object_of_distinct: "distinct (map fst xs) \<Longrightarrow> object_of xs = xs"
proof -
  have "distinct (map fst (acc @ xs)) \<Longrightarrow> foldl (\<lambda>obj (k, v). AList.update k v obj) acc xs = acc @ xs" for acc
  proof (induction xs arbitrary: acc)
    case (Cons x xs)
    have "AList.update (fst x) (snd x) acc = acc @ [x]"
      using Cons.prems update_fresh [of "fst x" acc "snd x"] by simp
    then show ?case using Cons.IH [of "acc @ [x]"] Cons.prems by (simp add: split_def)
  qed simp
  then show "distinct (map fst xs) \<Longrightarrow> object_of xs = xs" by (simp add: object_of_def)
qed

subsection \<open>Properties\<close>

text \<open>C16: The round robin assigner gives every partition to exactly one member of the group and nothing
  else to anyone, and the loads of two members differ by at most one partition.\<close>

theorem round_robin_partition:
  assumes "ms \<noteq> []" "distinct ms" "distinct tps"
  shows "((topic, p) \<in> set tps \<longrightarrow> (\<exists>!m. p \<in> set (assigned_to (round_robin ms tps) m topic))) \<and>
    (p \<in> set (assigned_to (round_robin ms tps) m topic) \<longrightarrow> (topic, p) \<in> set tps \<and> m \<in> set ms) \<and>
    (m \<in> set ms \<longrightarrow> m' \<in> set ms \<longrightarrow> load (round_robin ms tps) m \<le> load (round_robin ms tps) m' + 1)"
proof (intro conjI impI)
  assume "(topic, p) \<in> set tps"
  then obtain i where i: "i < length tps" "tps ! i = (topic, p)" by (auto simp: in_set_conv_nth)
  then have "j = i" if "j < length tps" "tps ! j = (topic, p)" for j using that assms(3) by (metis nth_eq_iff_index_eq)
  then show "\<exists>!m. p \<in> set (assigned_to (round_robin ms tps) m topic)" using i unfolding assigned_iff by blast
next
  assume "p \<in> set (assigned_to (round_robin ms tps) m topic)"
  then obtain i where "i < length tps" "assignee ms i = m" "tps ! i = (topic, p)" unfolding assigned_iff by blast
  then show "(topic, p) \<in> set tps" "m \<in> set ms" using assms(1) nth_mem [of i tps] nth_mem [of "i mod length ms" ms]
    by (auto simp: assignee_def)
next
  assume "m \<in> set ms" "m' \<in> set ms"
  then obtain k k' where "k < length ms" "m = ms ! k" "k' < length ms" "m' = ms ! k'" by (auto simp: in_set_conv_nth)
  then show "load (round_robin ms tps) m \<le> load (round_robin ms tps) m' + 1" by (simp add: load_round_robin [OF assms])
qed

theorem round_robin_partition_witness:
  "let asg = round_robin [''m1'', ''m2''] [(''a'', 0), (''a'', 1), (''b'', 0)]
   in (\<exists>!m. 1 \<in> set (assigned_to asg m ''a'')) \<and> load asg ''m1'' \<le> load asg ''m2'' + 1"
  unfolding Let_def
  using round_robin_partition [of "[''m1'', ''m2'']" "[(''a'', 0), (''a'', 1), (''b'', 0)]" "''a''" 1 "''m1''" "''m2''"] by simp

text \<open>A member decodes exactly the assignment that the leader of the group encoded for it, topic by
  topic and partition by partition.\<close>

theorem assignment_roundtrip:
  assumes "assignment_ok a" "distinct (map fst a)" "length (wire_assignment a) < 2 ^ 29" "int_range 16 version" "length userData < 2 ^ 28"
  shows "\<exists>b. MemberAssignment_encode version a (Some userData) = Inr b \<and>
    MemberAssignment_decode b = Inr (Some \<lparr>ma_version = version, ma_assignment = a, ma_userData = Some userData\<rparr>)"
proof -
  let ?bs = "be_bytes 2 version @ wire_assignment a @ wire_bytes (Some userData)"
  have "appends (chain [writeInt16 version,
       write_array_of (\<lambda>(topic, prts). chain [writeString (Some topic), writeArray (map ElNumber prts) None None]) a,
       writeBytes (BBuffer userData)]) ?bs"
    using assms appends_writeBytes [of "BBuffer userData"]
    by (intro appends_chain_Cons [OF appends_writeInt16] appends_chain_Cons [OF appends_assignment] appends_chain_single)
      (simp_all add: bytes_ok_def)
  moreover have "length ?bs < 2 ^ 30" using assms by (simp add: wire_bytes_def)
  ultimately obtain e where e: "rbind new_Encoder (chain [writeInt16 version,
       write_array_of (\<lambda>(topic, prts). chain [writeString (Some topic), writeArray (map ElNumber prts) None None]) a,
       writeBytes (BBuffer userData)]) = Inr e" "Encoder_buffer e = ?bs"
    by (rule appends_new_Encoder)
  have "reads (rd_bind readInt16 (\<lambda>version. rd_bind (readArray decodeAssignment) (\<lambda>xs. rd_bind readBytes (\<lambda>userData.
      rd_return (Some \<lparr>ma_version = version, ma_assignment = indexAssignment xs, ma_userData = userData\<rparr>))))) ?bs
      (Some \<lparr>ma_version = version, ma_assignment = indexAssignment (map (\<lambda>(topic, prts). (Some topic, prts)) a), ma_userData = Some userData\<rparr>)"
    using assms by (intro reads_bind [OF reads_readInt16] reads_bind [OF reads_assignment] reads_bind_return [OF reads_readBytes])
      (simp_all add: bytes_ok_def)
  moreover have "indexAssignment (map (\<lambda>(topic, prts). (Some topic, prts)) a) = a"
    using object_of_distinct [OF assms(2)] by (simp add: indexAssignment_def comp_def split_def)
  moreover have "canReadInt16 (new_Decoder ?bs)" by (simp add: canReadInt16_def canReadBytes_def new_Decoder_def)
  ultimately have "MemberAssignment_decode ?bs = Inr (Some \<lparr>ma_version = version, ma_assignment = a, ma_userData = Some userData\<rparr>)"
    using reads_whole by (fastforce simp: MemberAssignment_decode_def Let_def)
  then show ?thesis using e by (simp add: MemberAssignment_encode_def)
qed

theorem assignment_roundtrip_witness:
  "\<exists>b. MemberAssignment_encode 0 [(''a'', [0, 2]), (''b'', [1])] (Some []) = Inr b \<and>
    MemberAssignment_decode b = Inr (Some \<lparr>ma_version = 0, ma_assignment = [(''a'', [0, 2]), (''b'', [1])], ma_userData = Some []\<rparr>)"
  by (rule assignment_roundtrip) (simp_all add: assignment_ok_def wire_assignment_def wire_array_def wire_string_def)

end
