(* ===== verification/Consumer_Group.thy ===== *)
theory Consumer_Group
  imports Offset_Manager Subscription Fetch_Batch Assigner
begin

text \<open>
  The member of a consumer group: \<^verbatim>\<open>src/consumer/consumerGroup.js\<close> (joining and synchronising,
  choosing replicas, fetching, recovering from errors). The answers
  of the coordinator, the brokers and the cluster are arguments; what other tasks of the consumer do
  while a fetch is in flight is the argument \<open>during\<close>. Logging and instrumentation are left out.
\<close>

record replica_metadata = partition_metadata +
  offlineReplicas :: "int list option"

type_synonym metadata_lookup = "string \<Rightarrow> err + replica_metadata list"

record preferred_replica =
  pr_nodeId :: int
  pr_expireAt :: int

record group_config =
  topicsSubscribed :: "string list"
  fromBeginningOf :: "string \<Rightarrow> bool"
  gc_autoCommit :: bool
  gc_autoCommitInterval :: "int option"
  gc_autoCommitThreshold :: "int option"
  metadataMaxAge :: int
  gc_maxBytesPerPartition :: int

record group_data =
  gd_generationId :: int
  gd_leaderId :: string
  gd_memberId :: string
  gd_members :: "string list"
  gd_groupProtocol :: string

record consumer_group =
  seekOffset :: seek_offsets
  generationId :: "int option"
  leaderId :: "string option"
  memberId :: "string option"
  cg_members :: "string list option"
  groupProtocol :: "string option"
  partitionsPerSubscribedTopic :: "(string \<times> int list) list option"
  preferredReadReplicas :: "(string \<times> (int \<times> preferred_replica) list) list"
  offsetManager :: "offset_manager option"
  subscriptionState :: subscription_state
  lastRequest :: int

definition new_ConsumerGroup :: "int \<Rightarrow> consumer_group" where
  "new_ConsumerGroup now =
     \<lparr>seekOffset = [], generationId = None, leaderId = None, memberId = None, cg_members = None, groupProtocol = None,
      partitionsPerSubscribedTopic = None, preferredReadReplicas = [], offsetManager = None,
      subscriptionState = new_SubscriptionState, lastRequest = now\<rparr>"

definition isLeader :: "consumer_group \<Rightarrow> bool" where
  "isLeader s \<longleftrightarrow> leaderId s \<noteq> None \<and> leaderId s \<noteq> Some [] \<and> memberId s = leaderId s"

subsection \<open>Joining\<close>

definition join :: "err + unit \<Rightarrow> err + group_data \<Rightarrow> consumer_group \<Rightarrow> (err + unit) \<times> consumer_group" where
  "join coordinator answer s =
     (case rbind coordinator (\<lambda>_. answer) of
        Inl e \<Rightarrow> (Inl e, s)
      | Inr g \<Rightarrow> (Inr (), s\<lparr>generationId := Some (gd_generationId g), leaderId := Some (gd_leaderId g), memberId := Some (gd_memberId g),
                  cg_members := Some (gd_members g), groupProtocol := Some (gd_groupProtocol g)\<rparr>))"

definition leave :: "err + unit \<Rightarrow> consumer_group \<Rightarrow> (err + unit) \<times> consumer_group" where
  "leave answer s =
     (if memberId s = None \<or> memberId s = Some [] then (Inr (), s)
      else case answer of Inl e \<Rightarrow> (Inl e, s) | Inr _ \<Rightarrow> (Inr (), s\<lparr>memberId := None\<rparr>))"

definition generatePartitionsPerSubscribedTopic :: "group_config \<Rightarrow> metadata_lookup \<Rightarrow> err + (string \<times> int list) list" where
  "generatePartitionsPerSubscribedTopic cfg findMetadata =
     rbind (rmap (\<lambda>topic. rbind (findMetadata topic) (\<lambda>md. Inr (topic, js_sort (map partitionId md)))) (topicsSubscribed cfg))
       (\<lambda>entries. Inr (object_of entries))"

record sync_env =
  sv_assigners :: "(string \<times> (string list \<Rightarrow> string list \<Rightarrow> err + (string \<times> buffer) list)) list"
  sv_refresh :: "err + unit"
  sv_metadata :: metadata_lookup
  sv_syncGroup :: "(string \<times> buffer) list \<Rightarrow> err + buffer"
  sv_refreshAgain :: "err + unit"
  sv_metadataAgain :: metadata_lookup
  sv_now :: int

text \<open>The assignment that the leader computes; other members send an empty one.\<close>

definition leader_assignment :: "group_config \<Rightarrow> sync_env \<Rightarrow> consumer_group \<Rightarrow> err + (string \<times> buffer) list" where
  "leader_assignment cfg env s =
     (if \<not> isLeader s then Inr []
      else case find (\<lambda>(name, _). Some name = groupProtocol s) (sv_assigners env) of
             None \<Rightarrow> Inl (new_KafkaJSNonRetriableError (Text (''Unsupported partition assigner \"'' @
               (case groupProtocol s of None \<Rightarrow> ''null'' | Some p \<Rightarrow> p) @ ''\", the assigner wasn't found in the assigners list'')) None)
           | Some (_, assigner) \<Rightarrow>
               rbind (sv_refresh env) (\<lambda>_. assigner (case cg_members s of None \<Rightarrow> [] | Some ms \<Rightarrow> ms) (topicsSubscribed cfg)))"

fun isAwareOfAllAssignedPartitions :: "(string \<times> int list) list \<Rightarrow> assignment \<Rightarrow> err + bool" where
  "isAwareOfAllAssignedPartitions known [] = Inr True"
| "isAwareOfAllAssignedPartitions known ((topic, prts) # assignment) =
     (case map_of known topic of
        None \<Rightarrow> (if prts = [] then isAwareOfAllAssignedPartitions known assignment else Inl undefined_error)
      | Some ks \<Rightarrow> (if set prts \<subseteq> set ks then isAwareOfAllAssignedPartitions known assignment else Inr False))"

definition sync :: "group_config \<Rightarrow> sync_env \<Rightarrow> consumer_group \<Rightarrow> (err + unit) \<times> consumer_group" where
  "sync cfg env s =
     (case rbind (leader_assignment cfg env s) (\<lambda>a. rbind (generatePartitionsPerSubscribedTopic cfg (sv_metadata env)) (\<lambda>known. Inr (a, known))) of
        Inl e \<Rightarrow> (Inl e, s)
      | Inr (groupAssignment, known) \<Rightarrow>
          (let s = s\<lparr>partitionsPerSubscribedTopic := Some known\<rparr>
           in case rbind (sv_syncGroup env groupAssignment) (\<lambda>b. of_codec (MemberAssignment_decode b)) of
                Inl e \<Rightarrow> (Inl e, s)
              | Inr dma \<Rightarrow>
                  (let decodedAssignment = (case dma of None \<Rightarrow> [] | Some d \<Rightarrow> ma_assignment d);
                       assignedTopics = map fst decodedAssignment;
                       topicsNotSubscribed = arrayDiff assignedTopics (topicsSubscribed cfg);
                       safeAssignment = arrayDiff assignedTopics topicsNotSubscribed;
                       currentMemberAssignment = map (\<lambda>topic. (topic, the (map_of decodedAssignment topic))) safeAssignment
                   in case rbind (isAwareOfAllAssignedPartitions known currentMemberAssignment) (\<lambda>aware.
                             if aware then Inr known
                             else rbind (sv_refreshAgain env) (\<lambda>_. generatePartitionsPerSubscribedTopic cfg (sv_metadataAgain env))) of
                        Inl e \<Rightarrow> (Inl e, s)
                      | Inr known \<Rightarrow>
                          (Inr (), s\<lparr>partitionsPerSubscribedTopic := Some known,
                            subscriptionState := sub_assign (map (\<lambda>(t, ps). (t, Some ps)) currentMemberAssignment) (subscriptionState s),
                            offsetManager := Some (new_OffsetManager (object_of currentMemberAssignment) (gc_autoCommit cfg)
                              (gc_autoCommitInterval cfg) (gc_autoCommitThreshold cfg) (sv_now env))\<rparr>))))"

record join_env =
  je_coordinator :: "err + unit"
  je_joinGroup :: "err + group_data"
  je_sync :: sync_env

definition join_attempt :: "group_config \<Rightarrow> join_env \<Rightarrow> consumer_group \<Rightarrow> unit attempt \<times> consumer_group" where
  "join_attempt cfg env s =
     (case (case join (je_coordinator env) (je_joinGroup env) s of
              (Inl e, s) \<Rightarrow> (Inl e, s)
            | (Inr _, s) \<Rightarrow> sync cfg (je_sync env) s) of
        (Inr _, s) \<Rightarrow> (Returns (), s\<lparr>subscriptionState := snd (assigned (subscriptionState s))\<rparr>)
      | (Inl e, s) \<Rightarrow>
          (if isRebalancing e then (Throws (new_KafkaJSError (Wrapped e) True None), s)
           else if e_type e = Some ''UNKNOWN_MEMBER_ID'' then (Throws (new_KafkaJSError (Wrapped e) True None), s\<lparr>memberId := None\<rparr>)
           else (Bails (Some e), s)))"

definition joinAndSync :: "group_config \<Rightarrow> nat \<Rightarrow> (nat \<Rightarrow> rat) \<Rightarrow> (nat \<Rightarrow> join_env) \<Rightarrow> consumer_group \<Rightarrow> (err + unit) \<times> consumer_group" where
  "joinAndSync cfg maxRetries delay env = retry_st maxRetries delay (\<lambda>i. join_attempt cfg (env i)) 0"

definition heartbeat_due :: "int \<Rightarrow> int \<Rightarrow> consumer_group \<Rightarrow> bool" where
  "heartbeat_due now interval s \<longleftrightarrow> memberId s \<noteq> None \<and> memberId s \<noteq> Some [] \<and> now \<ge> lastRequest s + interval"

definition cg_heartbeat :: "int \<Rightarrow> int \<Rightarrow> err + unit \<Rightarrow> int \<Rightarrow> consumer_group \<Rightarrow> (err + unit) \<times> consumer_group" where
  "cg_heartbeat now interval answer now' s =
     (if heartbeat_due now interval s
      then case answer of Inl e \<Rightarrow> (Inl e, s) | Inr _ \<Rightarrow> (Inr (), s\<lparr>lastRequest := now'\<rparr>)
      else (Inr (), s))"

subsection \<open>Choosing replicas\<close>

definition read_replica :: "int \<Rightarrow> int list option \<Rightarrow> int \<Rightarrow> preferred_replica option \<Rightarrow> int \<times> bool" where
  \<comment> \<open>the node to read from, and whether the preference is dropped\<close>
  "read_replica now offline leader pref =
     (case pref of
        None \<Rightarrow> (leader, False)
      | Some p \<Rightarrow>
          if now \<ge> pr_expireAt p then (leader, True)
          else if (case offline of None \<Rightarrow> False | Some ns \<Rightarrow> leader \<in> set ns) then (leader, False)
          else (pr_nodeId p, False))"

definition add_replica ::
    "int \<Rightarrow> replica_metadata list \<Rightarrow> (int \<times> int list) list \<times> (int \<times> preferred_replica) list \<Rightarrow> int
      \<Rightarrow> (int \<times> int list) list \<times> (int \<times> preferred_replica) list" where
  "add_replica now md acc p =
     (case find (\<lambda>m. partitionId m = p) md of
        None \<Rightarrow> acc
      | Some m \<Rightarrow>
          (let (result, prefs) = acc;
               (node, expired) = read_replica now (offlineReplicas m) (pm_leader m) (map_of prefs p)
           in (AList.update node ((case map_of result node of None \<Rightarrow> [] | Some ps \<Rightarrow> ps) @ [p]) result,
               if expired then AList.delete p prefs else prefs)))"

definition findReadReplicaForPartitions ::
    "int \<Rightarrow> replica_metadata list \<Rightarrow> (int \<times> preferred_replica) list \<Rightarrow> int list \<Rightarrow> (int \<times> int list) list \<times> (int \<times> preferred_replica) list" where
  "findReadReplicaForPartitions now md prefs prts = foldl (add_replica now md) ([], prefs) prts"

text \<open>
  The partitions to read from a node, topic by topic. The preferences of the topic are only consulted,
  and pruned, when the topic has an entry.
\<close>

definition prefs_of :: "consumer_group \<Rightarrow> string \<Rightarrow> (int \<times> preferred_replica) list" where
  "prefs_of s topic = (case map_of (preferredReadReplicas s) topic of None \<Rightarrow> [] | Some ps \<Rightarrow> ps)"

definition put_prefs :: "string \<Rightarrow> (int \<times> preferred_replica) list \<Rightarrow> consumer_group \<Rightarrow> consumer_group" where
  "put_prefs topic prefs s =
     (if map_of (preferredReadReplicas s) topic = None then s
      else s\<lparr>preferredReadReplicas := AList.update topic prefs (preferredReadReplicas s)\<rparr>)"

fun filterPartitionsByNode ::
    "int \<Rightarrow> metadata_lookup \<Rightarrow> int \<Rightarrow> (string \<times> int list) list \<Rightarrow> consumer_group \<Rightarrow> (err + (string \<times> int list) list) \<times> consumer_group" where
  "filterPartitionsByNode now findMetadata nodeId [] s = (Inr [], s)"
| "filterPartitionsByNode now findMetadata nodeId ((topic, prts) # tps) s =
     (case findMetadata topic of
        Inl e \<Rightarrow> (Inl e, s)
      | Inr md \<Rightarrow>
          (let (perNode, prefs) = findReadReplicaForPartitions now md (prefs_of s topic) prts;
               mine = (case map_of perNode nodeId of None \<Rightarrow> [] | Some ps \<Rightarrow> ps)
           in case filterPartitionsByNode now findMetadata nodeId tps (put_prefs topic prefs s) of
                (Inl e, s) \<Rightarrow> (Inl e, s)
              | (Inr rest, s) \<Rightarrow> (Inr ((topic, mine) # rest), s)))"

subsection \<open>Seeking\<close>

definition cg_seek :: "string \<Rightarrow> int \<Rightarrow> int \<Rightarrow> consumer_group \<Rightarrow> consumer_group" where
  "cg_seek topic prt offs s = s\<lparr>seekOffset := seek_set topic prt offs (seekOffset s)\<rparr>"

definition hasSeekOffset :: "string \<Rightarrow> int \<Rightarrow> consumer_group \<Rightarrow> bool" where
  "hasSeekOffset topic prt s \<longleftrightarrow> seek_has topic prt (seekOffset s)"

text \<open>Calling a method of the offset manager, which is null before the first synchronisation.\<close>

definition with_om :: "(offset_manager \<Rightarrow> (err + 'a) \<times> offset_manager) \<Rightarrow> consumer_group \<Rightarrow> (err + 'a) \<times> consumer_group" where
  "with_om f s =
     (case offsetManager s of
        None \<Rightarrow> (Inl undefined_error, s)
      | Some m \<Rightarrow> (let (r, m') = f m in (r, s\<lparr>offsetManager := Some m'\<rparr>)))"

fun seek_partitions ::
    "(string \<Rightarrow> int \<Rightarrow> err + unit) \<Rightarrow> (string \<times> int) list \<Rightarrow> consumer_group \<Rightarrow> (err + unit) \<times> consumer_group" where
  "seek_partitions answer [] s = (Inr (), s)"
| "seek_partitions answer ((topic, prt) # tps) s =
     (case seek_pop topic prt (seekOffset s) of
        (None, _) \<Rightarrow> seek_partitions answer tps s
      | (Some (_, _, offs), so) \<Rightarrow>
          (case with_om (om_seek topic prt offs (answer topic prt)) (s\<lparr>seekOffset := so\<rparr>) of
             (Inl e, s) \<Rightarrow> (Inl e, s)
           | (Inr _, s) \<Rightarrow> seek_partitions answer tps s))"

definition pairs :: "(string \<times> int list) list \<Rightarrow> (string \<times> int) list" where
  "pairs tps = concat (map (\<lambda>(topic, prts). map (\<lambda>p. (topic, p)) prts) tps)"

definition seekOffsets ::
    "(string \<Rightarrow> int \<Rightarrow> err + unit) \<Rightarrow> ((string \<times> int list) list \<Rightarrow> err + topic_offsets) \<Rightarrow> ((string \<times> int list) list \<Rightarrow> err + topic_offsets)
      \<Rightarrow> (string \<times> int list) list \<Rightarrow> consumer_group \<Rightarrow> (err + unit) \<times> consumer_group" where
  "seekOffsets answer fetchOffsets topicOffsets tps s =
     (case seek_partitions answer (pairs tps) s of
        (Inl e, s) \<Rightarrow> (Inl e, s)
      | (Inr _, s) \<Rightarrow> with_om (resolveOffsets fetchOffsets topicOffsets) s)"

subsection \<open>Fetching\<close>

record fetch_partition =
  fp_partition :: int
  fp_fetchOffset :: int
  fp_maxBytes :: int

record fetched_partition = partition_data +
  fp_preferredReadReplica :: "int option"

definition checkForStaleAssignment :: "group_config \<Rightarrow> metadata_lookup \<Rightarrow> consumer_group \<Rightarrow> err + unit" where
  "checkForStaleAssignment cfg findMetadata s =
     (case partitionsPerSubscribedTopic s of
        None \<Rightarrow> Inr ()
      | Some known \<Rightarrow>
          rbind (generatePartitionsPerSubscribedTopic cfg findMetadata) (\<lambda>new.
            rbind (rmap (\<lambda>(topic, prts).
                case map_of known topic of
                  None \<Rightarrow> (if prts = [] then Inr () else Inl undefined_error)
                | Some ks \<Rightarrow> (if arrayDiff prts ks = [] then Inr ()
                              else Inl (new_KafkaJSStaleTopicMetadataAssignment (Text ''Topic has been updated'') topic (arrayDiff prts ks)))) new)
              (\<lambda>_. Inr ())))"

definition getActiveTopicPartitions :: "consumer_group \<Rightarrow> (string \<times> int set) list" where
  "getActiveTopicPartitions s = map (\<lambda>(topic, prts). (topic, set prts)) (active (subscriptionState s))"

text \<open>The positions of the partitions that have an initialised offset and are not paused.\<close>

definition may_fetch :: "offset_manager \<Rightarrow> (string \<times> int set) list \<Rightarrow> string \<Rightarrow> int \<Rightarrow> err + bool" where
  "may_fetch m activeTps topic prt =
     rbind (topic_entry (committedOffsets m) topic) (\<lambda>cobj.
       if jprop cobj prt = None then Inr False
       else case map_of activeTps topic of None \<Rightarrow> Inl undefined_error | Some ps \<Rightarrow> Inr (prt \<in> ps))"

fun fetch_positions ::
    "group_config \<Rightarrow> string \<Rightarrow> int list \<Rightarrow> offset_manager \<Rightarrow> (err + fetch_partition list) \<times> offset_manager" where
  "fetch_positions cfg topic [] m = (Inr [], m)"
| "fetch_positions cfg topic (p # ps) m =
     (case nextOffset topic p m of
        (Inl e, m) \<Rightarrow> (Inl e, m)
      | (Inr offs, m) \<Rightarrow>
          (case fetch_positions cfg topic ps m of
             (Inl e, m) \<Rightarrow> (Inl e, m)
           | (Inr rest, m) \<Rightarrow> (Inr (\<lparr>fp_partition = p, fp_fetchOffset = offs, fp_maxBytes = gc_maxBytesPerPartition cfg\<rparr> # rest), m)))"

fun fetch_requests ::
    "group_config \<Rightarrow> (string \<times> int set) list \<Rightarrow> (string \<times> int list) list \<Rightarrow> offset_manager \<Rightarrow> (err + (string \<times> fetch_partition list) list) \<times> offset_manager" where
  "fetch_requests cfg act [] m = (Inr [], m)"
| "fetch_requests cfg act ((topic, prts) # tps) m =
     (case rmap (\<lambda>p. rbind (may_fetch m act topic p) (\<lambda>b. Inr (p, b))) prts of
        Inl e \<Rightarrow> (Inl e, m)
      | Inr marked \<Rightarrow>
          (case fetch_positions cfg topic (map fst (filter snd marked)) m of
             (Inl e, m) \<Rightarrow> (Inl e, m)
           | (Inr fps, m) \<Rightarrow>
               (case fetch_requests cfg act tps m of
                  (Inl e, m) \<Rightarrow> (Inl e, m)
                | (Inr rest, m) \<Rightarrow> (Inr (if fps = [] then rest else (topic, fps) # rest), m))))"

record fetch_env =
  fe_refresh :: "err + unit"
  fe_metadata :: metadata_lookup
  fe_now :: int
  fe_seek :: "string \<Rightarrow> int \<Rightarrow> err + unit"
  fe_fetchOffsets :: "(string \<times> int list) list \<Rightarrow> err + topic_offsets"
  fe_topicOffsets :: "(string \<times> int list) list \<Rightarrow> err + topic_offsets"
  fe_findBroker :: "err + unit"
  fe_fetch :: "(string \<times> fetch_partition list) list \<Rightarrow> err + (string \<times> fetched_partition list) list"
  fe_during :: "consumer_group \<Rightarrow> consumer_group"

definition note_replica :: "group_config \<Rightarrow> int \<Rightarrow> string \<Rightarrow> fetched_partition \<Rightarrow> consumer_group \<Rightarrow> consumer_group" where
  "note_replica cfg now topic pd s =
     (case fp_preferredReadReplica pd of
        None \<Rightarrow> s
      | Some n \<Rightarrow>
          if n = - 1 then s
          else put_prefs topic (AList.update (pd_partition pd) \<lparr>pr_nodeId = n, pr_expireAt = now + metadataMaxAge cfg\<rparr> (prefs_of s topic)) s)"

text \<open>The batches of one topic of the response, and those of all.\<close>

fun topic_batches ::
    "group_config \<Rightarrow> int \<Rightarrow> string \<Rightarrow> fetch_partition list option \<Rightarrow> fetched_partition list \<Rightarrow> consumer_group \<Rightarrow> (err + batch list) \<times> consumer_group" where
  "topic_batches cfg now topic requested [] s = (Inr [], s)"
| "topic_batches cfg now topic requested (pd # pds) s =
     (let s = note_replica cfg now topic pd s
      in case (case requested of None \<Rightarrow> None | Some fps \<Rightarrow> find (\<lambda>fp. fp_partition fp = pd_partition pd) fps) of
           None \<Rightarrow> (Inl undefined_error, s)
         | Some fp \<Rightarrow>
             (case topic_batches cfg now topic requested pds s of
                (Inl e, s) \<Rightarrow> (Inl e, s)
              | (Inr bs, s) \<Rightarrow> (Inr (new_Batch topic (fp_fetchOffset fp) (partition_data.truncate pd) # bs), s)))"

definition ensure_prefs :: "string \<Rightarrow> consumer_group \<Rightarrow> consumer_group" where
  "ensure_prefs topic s =
     (if map_of (preferredReadReplicas s) topic = None
      then s\<lparr>preferredReadReplicas := AList.update topic [] (preferredReadReplicas s)\<rparr> else s)"

fun response_batches ::
    "group_config \<Rightarrow> int \<Rightarrow> (string \<times> fetch_partition list) list \<Rightarrow> (string \<times> fetched_partition list) list \<Rightarrow> consumer_group \<Rightarrow> (err + batch list) \<times> consumer_group" where
  "response_batches cfg now requests [] s = (Inr [], s)"
| "response_batches cfg now requests ((topic, pds) # rs) s =
     (let s = ensure_prefs topic s;
          open_pds = filter (\<lambda>pd. \<not> seek_has topic (pd_partition pd) (seekOffset s) \<and> \<not> isPaused topic (pd_partition pd) (subscriptionState s)) pds
      in case topic_batches cfg now topic (map_of requests topic) open_pds s of
           (Inl e, s) \<Rightarrow> (Inl e, s)
         | (Inr bs, s) \<Rightarrow>
             (case response_batches cfg now requests rs s of
                (Inl e, s) \<Rightarrow> (Inl e, s)
              | (Inr rest, s) \<Rightarrow> (Inr (bs @ rest), s)))"

definition fetch_once :: "group_config \<Rightarrow> fetch_env \<Rightarrow> int \<Rightarrow> consumer_group \<Rightarrow> (err + batch list) \<times> consumer_group" where
  "fetch_once cfg env nodeId s =
     (case rbind (fe_refresh env) (\<lambda>_. checkForStaleAssignment cfg (fe_metadata env) s) of
        Inl e \<Rightarrow> (Inl e, s)
      | Inr _ \<Rightarrow>
          (let (tps, sub) = assigned (subscriptionState s)
           in case filterPartitionsByNode (fe_now env) (fe_metadata env) nodeId tps (s\<lparr>subscriptionState := sub\<rparr>) of
                (Inl e, s) \<Rightarrow> (Inl e, s)
              | (Inr tps, s) \<Rightarrow>
                  (case seekOffsets (fe_seek env) (fe_fetchOffsets env) (fe_topicOffsets env) tps s of
                     (Inl e, s) \<Rightarrow> (Inl e, s)
                   | (Inr _, s) \<Rightarrow>
                       (case with_om (fetch_requests cfg (getActiveTopicPartitions s) tps) s of
                          (Inl e, s) \<Rightarrow> (Inl e, s)
                        | (Inr requests, s) \<Rightarrow>
                            (if requests = [] then (Inr [], s)
                             else case rbind (fe_findBroker env) (\<lambda>_. fe_fetch env requests) of
                                    Inl e \<Rightarrow> (Inl e, fe_during env s)
                                  | Inr responses \<Rightarrow> response_batches cfg (fe_now env) requests responses (fe_during env s))))))"

subsection \<open>Recovering\<close>

definition STALE_METADATA_ERRORS :: "string list" where
  "STALE_METADATA_ERRORS = [''LEADER_NOT_AVAILABLE'', ''NOT_LEADER_FOR_PARTITION'', ''FENCED_LEADER_EPOCH'', ''UNKNOWN_LEADER_EPOCH'',
     ''UNKNOWN_TOPIC_OR_PARTITION'']"

record recover_env =
  re_refresh :: "err + unit"
  re_joinAndSync :: "consumer_group \<Rightarrow> (err + unit) \<times> consumer_group"
  re_commit :: "err + unit"

definition field_string :: "err \<Rightarrow> string \<Rightarrow> string" where
  "field_string e k = (case map_of (e_fields e) k of Some (FStr s) \<Rightarrow> s | _ \<Rightarrow> ''undefined'')"

definition field_number :: "err \<Rightarrow> string \<Rightarrow> int" where
  "field_number e k = (case map_of (e_fields e) k of Some (FNum n) \<Rightarrow> n | _ \<Rightarrow> 0)"

text \<open>The preference is an object, so \<^verbatim>\<open>typeof\<close> is never \<^verbatim>\<open>'number'\<close> and the offset is always reset.\<close>

definition preference_typeof :: "preferred_replica option \<Rightarrow> string" where
  "preference_typeof p = (case p of None \<Rightarrow> ''undefined'' | Some _ \<Rightarrow> ''object'')"

definition recoverFromOffsetOutOfRange :: "group_config \<Rightarrow> err + unit \<Rightarrow> err \<Rightarrow> consumer_group \<Rightarrow> (err + unit) \<times> consumer_group" where
  "recoverFromOffsetOutOfRange cfg commit e s =
     (let topic = field_string e ''topic''; prt = field_number e ''partition''
      in if map_of (preferredReadReplicas s) topic \<noteq> None \<and> preference_typeof (map_of (prefs_of s topic) prt) = ''number''
         then (Inr (), put_prefs topic (AList.delete prt (prefs_of s topic)) s)
         else case with_om (setDefaultOffset topic prt (fromBeginningOf cfg topic) commit) s of
                (Inl e, s) \<Rightarrow> (Inl e, s)
              | (Inr _, s) \<Rightarrow> (Inr (), s))"

definition recoverFromFetch :: "group_config \<Rightarrow> recover_env \<Rightarrow> err \<Rightarrow> consumer_group \<Rightarrow> (err + unit) \<times> consumer_group" where
  "recoverFromFetch cfg env e s =
     (if (case e_type e of None \<Rightarrow> False | Some t \<Rightarrow> t \<in> set STALE_METADATA_ERRORS) \<or> e_name e = ''KafkaJSTopicMetadataNotLoaded''
      then (case re_refresh env of Inl e' \<Rightarrow> (Inl e', s) | Inr _ \<Rightarrow> re_joinAndSync env s)
      else if e_name e = ''KafkaJSStaleTopicMetadataAssignment'' then re_joinAndSync env s
      else if e_name e = ''KafkaJSOffsetOutOfRange'' then recoverFromOffsetOutOfRange cfg (re_commit env) e s
      else if e_name e = ''KafkaJSConnectionClosedError'' then (Inr (), s)
      else if e_name e = ''KafkaJSBrokerNotFound'' \<or> e_name e = ''KafkaJSConnectionClosedError''
      then (case re_refresh env of Inl e' \<Rightarrow> (Inl e', s) | Inr _ \<Rightarrow> (Inr (), s))
      else (Inl e, s))"

definition cg_fetch :: "group_config \<Rightarrow> fetch_env \<Rightarrow> recover_env \<Rightarrow> int \<Rightarrow> consumer_group \<Rightarrow> (err + batch list) \<times> consumer_group" where
  "cg_fetch cfg env recover nodeId s =
     (case fetch_once cfg env nodeId s of
        (Inr bs, s) \<Rightarrow> (Inr bs, s)
      | (Inl e, s) \<Rightarrow>
          (case recoverFromFetch cfg recover e s of
             (Inl e', s) \<Rightarrow> (Inl e', s)
           | (Inr _, s) \<Rightarrow> (Inr [], s)))"

subsection \<open>Replicas\<close>

lemma mset_update_append:
  "distinct (map fst gs) \<Longrightarrow>
   mset (concat (map snd (AList.update k ((case map_of gs k of None \<Rightarrow> [] | Some ps \<Rightarrow> ps) @ [p]) gs))) = add_mset p (mset (concat (map snd gs)))"
proof (induction gs)
  case (Cons x gs)
  obtain k' ps where x: "x = (k', ps)" by (cases x)
  show ?case
  proof (cases "k' = k")
    case False
    then show ?thesis using Cons by (simp add: x)
  qed (simp add: x)
qed simp

lemma find_replicas_mset:
  assumes "distinct (map fst result)"
  shows "distinct (map fst (fst (foldl (add_replica now md) (result, prefs) prts))) \<and>
    mset (concat (map snd (fst (foldl (add_replica now md) (result, prefs) prts)))) =
      mset (concat (map snd result)) + mset (filter (\<lambda>p. p \<in> partitionId ` set md) prts)"
  using assms
proof (induction prts arbitrary: result prefs)
  case (Cons p prts)
  show ?case
  proof (cases "find (\<lambda>m. partitionId m = p) md")
    case None
    then have "p \<notin> partitionId ` set md" by (auto simp: find_None_iff)
    then show ?thesis using Cons None by (simp add: add_replica_def)
  next
    case (Some m)
    then have p: "p \<in> partitionId ` set md" by (auto simp: find_Some_iff)
    obtain node expired where r: "read_replica now (offlineReplicas m) (pm_leader m) (map_of prefs p) = (node, expired)" by fastforce
    define result' where "result' = AList.update node ((case map_of result node of None \<Rightarrow> [] | Some ps \<Rightarrow> ps) @ [p]) result"
    have "add_replica now md (result, prefs) p = (result', if expired then AList.delete p prefs else prefs)"
      by (simp add: add_replica_def Some r Let_def result'_def)
    moreover have "distinct (map fst result')" using Cons.prems by (simp add: result'_def distinct_update)
    moreover have "mset (concat (map snd result')) = add_mset p (mset (concat (map snd result)))"
      unfolding result'_def by (rule mset_update_append [OF Cons.prems])
    ultimately show ?thesis using Cons.IH [of result' "if expired then AList.delete p prefs else prefs"] p by simp
  qed
qed simp

text \<open>The preferred replica is used even when the metadata lists it as offline: the test looks at the leader.\<close>

lemma offline_preference_used:
  assumes "now < pr_expireAt p" "leader \<noteq> pr_nodeId p"
  shows "fst (read_replica now (Some [pr_nodeId p]) leader (Some p)) = pr_nodeId p"
  using assms by (simp add: read_replica_def)

lemma out_of_range_always_resets:
  "recoverFromOffsetOutOfRange cfg commit e s =
     (case with_om (setDefaultOffset (field_string e ''topic'') (field_number e ''partition'') (fromBeginningOf cfg (field_string e ''topic'')) commit) s of
        (Inl e, s) \<Rightarrow> (Inl e, s)
      | (Inr _, s) \<Rightarrow> (Inr (), s))"
  by (auto simp: recoverFromOffsetOutOfRange_def Let_def preference_typeof_def split: option.split)

subsection \<open>Joining\<close>

definition joined :: "group_config \<Rightarrow> consumer_group \<Rightarrow> bool" where
  "joined cfg s \<longleftrightarrow> (\<exists>m. offsetManager s = Some m \<and> om_inv m \<and> set (om_topics m) \<subseteq> set (topicsSubscribed cfg) \<and>
     fst ` set (assignedPartitionsByTopic (subscriptionState s)) = set (om_topics m))"

lemma keys_sub_assign: "fst ` set (assignedPartitionsByTopic (sub_assign tps s)) = fst ` set tps"
  unfolding sub_assign_def by (simp add: keys_fold_update)

lemma keys_assigned: "fst ` set (assignedPartitionsByTopic (snd (assigned s))) = fst ` set (assignedPartitionsByTopic s)"
  by (simp add: assigned_def Let_def split_def image_image)

lemma om_topics_new: "om_topics (new_OffsetManager a auto interval threshold now) = map fst a"
  by (simp add: om_topics_def new_OffsetManager_def clearAllOffsets_def)

lemma set_arrayDiff: "set (arrayDiff a (arrayDiff a b)) \<subseteq> set b"
  by (auto simp: arrayDiff_def)

lemma joined_assignment:
  assumes "set (map fst asg) \<subseteq> set (topicsSubscribed cfg)"
  shows "joined cfg (s\<lparr>partitionsPerSubscribedTopic := known, subscriptionState := sub_assign (map (\<lambda>(t, ps). (t, Some ps)) asg) sub,
     offsetManager := Some (new_OffsetManager (object_of asg) auto interval threshold now)\<rparr>)"
  unfolding joined_def using assms
  by (simp add: om_inv_new distinct_object_of om_topics_new keys_object_of keys_sub_assign image_image split_def)

lemma sync_joined:
  assumes "sync cfg env s = (Inr u, s')"
  shows "joined cfg s'"
proof -
  obtain ga known where l: "rbind (leader_assignment cfg env s) (\<lambda>a. rbind (generatePartitionsPerSubscribedTopic cfg (sv_metadata env)) (\<lambda>known. Inr (a, known)))
      = Inr (ga, known)" (is "?l = _")
    using assms unfolding sync_def by (cases ?l) auto
  obtain dma where d: "rbind (sv_syncGroup env ga) (\<lambda>b. of_codec (MemberAssignment_decode b)) = Inr dma" (is "?d = _")
    using assms unfolding sync_def l by (cases ?d) (auto simp: Let_def)
  define asg where "asg = (case dma of None \<Rightarrow> [] | Some d \<Rightarrow> ma_assignment d)"
  define cur where "cur = map (\<lambda>topic. (topic, the (map_of asg topic)))
    (arrayDiff (map fst asg) (arrayDiff (map fst asg) (topicsSubscribed cfg)))"
  obtain known' where k: "rbind (isAwareOfAllAssignedPartitions known cur) (\<lambda>aware. if aware then Inr known
      else rbind (sv_refreshAgain env) (\<lambda>_. generatePartitionsPerSubscribedTopic cfg (sv_metadataAgain env))) = Inr known'" (is "?k = _")
    using assms unfolding sync_def l by (cases ?k) (simp_all add: Let_def d cur_def asg_def)
  have "set (map fst cur) \<subseteq> set (topicsSubscribed cfg)" using set_arrayDiff by (fastforce simp: cur_def)
  then have "joined cfg (s\<lparr>partitionsPerSubscribedTopic := Some known\<rparr>\<lparr>partitionsPerSubscribedTopic := Some known',
      subscriptionState := sub_assign (map (\<lambda>(t, ps). (t, Some ps)) cur) (subscriptionState s),
      offsetManager := Some (new_OffsetManager (object_of cur) (gc_autoCommit cfg) (gc_autoCommitInterval cfg) (gc_autoCommitThreshold cfg) (sv_now env))\<rparr>)"
    by (rule joined_assignment)
  then show ?thesis using assms k unfolding sync_def l by (simp add: Let_def d asg_def [symmetric] cur_def [symmetric])
qed

lemma join_attempt_joined:
  assumes "join_attempt cfg env s = (Returns u, s')"
  shows "joined cfg s'"
proof -
  obtain s0 s1 where "join (je_coordinator env) (je_joinGroup env) s = (Inr (), s0)" "sync cfg (je_sync env) s0 = (Inr (), s1)"
      "s' = s1\<lparr>subscriptionState := snd (assigned (subscriptionState s1))\<rparr>"
    using assms unfolding join_attempt_def by (auto split: prod.splits sum.splits if_splits)
  then show ?thesis using sync_joined by (auto simp: joined_def keys_assigned)
qed

subsection \<open>Fetching\<close>

definition deliverable :: "consumer_group \<Rightarrow> batch \<Rightarrow> bool" where
  "deliverable s b \<longleftrightarrow> \<not> seek_has (bt_topic b) (bt_partition b) (seekOffset s) \<and> \<not> isPaused (bt_topic b) (bt_partition b) (subscriptionState s)"

lemma note_replica_frame [simp]:
  "seekOffset (note_replica cfg now topic pd s) = seekOffset s"
  "subscriptionState (note_replica cfg now topic pd s) = subscriptionState s"
  by (simp_all add: note_replica_def put_prefs_def split: option.split)

lemma ensure_prefs_frame [simp]: "seekOffset (ensure_prefs topic s) = seekOffset s" "subscriptionState (ensure_prefs topic s) = subscriptionState s"
  by (simp_all add: ensure_prefs_def)

lemma topic_batches_spec:
  assumes "topic_batches cfg now topic requested pds s = (r, s')"
  shows "seekOffset s' = seekOffset s \<and> subscriptionState s' = subscriptionState s"
    and "r = Inr bs \<Longrightarrow> b \<in> set bs \<Longrightarrow> bt_topic b = topic \<and> bt_partition b \<in> pd_partition ` set pds"
  using assms
proof (induction pds arbitrary: s r s' bs)
  case (Cons pd pds)
  { case 1
    then show ?case using Cons.IH(1) by (auto simp: Let_def split: option.splits prod.splits sum.splits)
  next
    case 2
    then show ?case using Cons.IH(2) by (fastforce simp: Let_def new_Batch_def partition_data.truncate_def split: option.splits prod.splits sum.splits)
  }
qed auto

lemma response_batches_spec:
  assumes "response_batches cfg now requests responses s = (r, s')"
  shows "seekOffset s' = seekOffset s \<and> subscriptionState s' = subscriptionState s \<and> (\<forall>bs. r = Inr bs \<longrightarrow> (\<forall>b\<in>set bs. deliverable s b))"
  using assms
proof (induction responses arbitrary: s r s')
  case (Cons x rs)
  obtain topic pds where x: "x = (topic, pds)" by (cases x)
  define s0 where "s0 = ensure_prefs topic s"
  define ops where "ops = filter (\<lambda>pd. \<not> seek_has topic (pd_partition pd) (seekOffset s0) \<and> \<not> isPaused topic (pd_partition pd) (subscriptionState s0)) pds"
  obtain r1 s1 where t: "topic_batches cfg now topic (map_of requests topic) ops s0 = (r1, s1)" by (cases "topic_batches cfg now topic (map_of requests topic) ops s0")
  have frame: "seekOffset s1 = seekOffset s" "subscriptionState s1 = subscriptionState s" using topic_batches_spec(1) [OF t] by (simp_all add: s0_def)
  show ?case
  proof (cases r1)
    case (Inl e)
    then show ?thesis using Cons.prems t frame by (auto simp: x Let_def s0_def [symmetric] ops_def [symmetric])
  next
    case (Inr bs)
    have bs: "deliverable s b" if "b \<in> set bs" for b
      using topic_batches_spec(2) [OF t Inr that] by (auto simp: deliverable_def ops_def s0_def)
    obtain r2 s2 where q: "response_batches cfg now requests rs s1 = (r2, s2)" by (cases "response_batches cfg now requests rs s1")
    have same: "deliverable s1 b = deliverable s b" for b by (simp add: deliverable_def frame)
    have "r = (case r2 of Inl e \<Rightarrow> Inl e | Inr rest \<Rightarrow> Inr (bs @ rest)) \<and> s' = s2"
      using Cons.prems t Inr q by (auto simp: x Let_def s0_def [symmetric] ops_def [symmetric] split: sum.splits)
    then show ?thesis using Cons.IH [OF q] bs same frame by (auto split: sum.splits)
  qed
qed simp

text \<open>C13: a fetch hands out no batch of a partition that is paused or that waits for a seek when the response is processed, whatever other tasks of the consumer did while the request was in flight.\<close>

theorem fetch_respects_pause_and_seek:
  assumes "fetch_once cfg env nodeId s = (Inr bs, s')" "b \<in> set bs"
  shows "\<not> isPaused (bt_topic b) (bt_partition b) (subscriptionState s') \<and> \<not> seek_has (bt_topic b) (bt_partition b) (seekOffset s')"
proof -
  obtain now requests responses s0 where "response_batches cfg now requests responses s0 = (Inr bs, s')"
    using assms unfolding fetch_once_def by (auto split: sum.splits prod.splits if_splits)
  note spec = response_batches_spec [OF this]
  then have "deliverable s0 b" using assms(2) by blast
  then have "deliverable s' b" using spec by (simp add: deliverable_def)
  then show ?thesis by (simp add: deliverable_def)
qed

definition sample_config :: group_config where
  "sample_config = \<lparr>topicsSubscribed = [''t''], fromBeginningOf = (\<lambda>_. True), gc_autoCommit = True, gc_autoCommitInterval = None,
     gc_autoCommitThreshold = None, metadataMaxAge = 1000, gc_maxBytesPerPartition = 4096\<rparr>"

definition sample_metadata :: metadata_lookup where
  "sample_metadata topic = Inr [\<lparr>partitionId = 0, pm_leader = 1, offlineReplicas = None\<rparr>, \<lparr>partitionId = 1, pm_leader = 1, offlineReplicas = None\<rparr>]"

definition sample_group :: consumer_group where
  "sample_group = (new_ConsumerGroup 0)\<lparr>
     subscriptionState := pause [(''t'', Some [1])] (sub_assign [(''t'', Some [0, 1])] new_SubscriptionState),
     offsetManager := Some ((new_OffsetManager [(''t'', [0, 1])] True None None 0)\<lparr>committedOffsets := [(''t'', [(0, Some 5), (1, Some 9)])]\<rparr>)\<rparr>"

definition sample_fetch :: fetch_env where
  "sample_fetch = \<lparr>fe_refresh = Inr (), fe_metadata = sample_metadata, fe_now = 0, fe_seek = (\<lambda>_ _. Inr ()), fe_fetchOffsets = (\<lambda>_. Inr []),
     fe_topicOffsets = (\<lambda>_. Inr []), fe_findBroker = Inr (),
     fe_fetch = (\<lambda>_. Inr [(''t'', [\<lparr>pd_partition = 0, pd_highWatermark = 7, pd_abortedTransactions = None,
       pd_messages = [tx_record 5 1 None False, tx_record 6 1 None False], fp_preferredReadReplica = None\<rparr>])]),
     fe_during = id\<rparr>"

theorem fetch_respects_pause_and_seek_witness:
  "\<exists>b s'. fetch_once sample_config sample_fetch 1 sample_group = (Inr [b], s') \<and> map rec_offset (bt_messages b) = [5, 6] \<and>
     \<not> isPaused (bt_topic b) (bt_partition b) (subscriptionState s') \<and> \<not> seek_has (bt_topic b) (bt_partition b) (seekOffset s')"
proof -
  have "case fetch_once sample_config sample_fetch 1 sample_group of (Inr [b], s') \<Rightarrow> map rec_offset (bt_messages b) = [5, 6] | _ \<Rightarrow> False"
    by code_simp
  then obtain b s' where b: "fetch_once sample_config sample_fetch 1 sample_group = (Inr [b], s')" "map rec_offset (bt_messages b) = [5, 6]"
    by (auto split: sum.splits prod.splits list.splits)
  then show ?thesis using fetch_respects_pause_and_seek [OF b(1)] by simp
qed

subsection \<open>Theorems\<close>

text \<open>after a successful joinAndSync the offset manager is well formed, manages subscribed topics only, and its topics are exactly the topics of the assignment.\<close>

theorem joinAndSync_joined:
  assumes "joinAndSync cfg maxRetries delay env s = (Inr u, s')"
  shows "joined cfg s'"
  using retry_st_returns [OF assms [unfolded joinAndSync_def]] join_attempt_joined by blast

definition sample_join :: "nat \<Rightarrow> join_env" where
  "sample_join i = \<lparr>je_coordinator = Inr (),
     je_joinGroup = (if i = 0 then Inl (Err ''KafkaJSProtocolError'' [] (Some False) (Some ''UNKNOWN_MEMBER_ID'') (Some 25) None None [] True)
       else Inr \<lparr>gd_generationId = 1, gd_leaderId = ''a'', gd_memberId = ''b'', gd_members = [], gd_groupProtocol = ''RoundRobinAssigner''\<rparr>),
     je_sync = \<lparr>sv_assigners = [], sv_refresh = Inr (), sv_metadata = sample_metadata,
       sv_syncGroup = (\<lambda>_. Inr [0, 0, 0, 0, 0, 1, 0, 1, 0x74, 0, 0, 0, 2, 0, 0, 0, 0, 0, 0, 0, 1, 0, 0, 0, 0]),
       sv_refreshAgain = Inr (), sv_metadataAgain = sample_metadata, sv_now = 0\<rparr>\<rparr>"

text \<open>The first attempt is refused with an unknown member id, the second succeeds.\<close>

theorem joinAndSync_joined_witness:
  "\<exists>s'. joinAndSync sample_config 5 (\<lambda>_. 1) sample_join (new_ConsumerGroup 0) = (Inr (), s') \<and>
     map_of (assignedPartitionsByTopic (subscriptionState s')) ''t'' = Some [0, 1] \<and> joined sample_config s'"
proof -
  have "case joinAndSync sample_config 5 (\<lambda>_. 1) sample_join (new_ConsumerGroup 0) of
      (Inr _, s') \<Rightarrow> map_of (assignedPartitionsByTopic (subscriptionState s')) ''t'' = Some [0, 1] | _ \<Rightarrow> False"
    by code_simp
  moreover obtain r s' where run: "joinAndSync sample_config 5 (\<lambda>_. 1) sample_join (new_ConsumerGroup 0) = (r, s')" by fastforce
  ultimately show ?thesis using joinAndSync_joined [of sample_config 5 "\<lambda>_. 1" sample_join "new_ConsumerGroup 0" "()" s'] by (cases r) auto
qed

text \<open>choosing the replicas refers every assigned partition the metadata knows to exactly one node, and no other partition.\<close>

theorem replicas_partition_assignment:
  "mset (concat (map snd (fst (findReadReplicaForPartitions now md prefs prts)))) = mset (filter (\<lambda>p. p \<in> partitionId ` set md) prts) \<and>
   distinct (map fst (fst (findReadReplicaForPartitions now md prefs prts)))"
  using find_replicas_mset [of "[]" now md prefs prts] by (simp add: findReadReplicaForPartitions_def)

end
