(* ===== verification/Consumer_Runner.thy ===== *)
theory Consumer_Runner
  imports Consumer_Group "HOL-Library.Sublist"
begin

text \<open>
  The runner of a consumer, \<^verbatim>\<open>src/consumer/runner.js\<close>: heartbeats, the processing of batches message
  by message or as a whole, automatic commits, fetching, and the loop that keeps the fetch manager
  going. The user's handlers and what other tasks do while an answer is awaited are arguments, and so
  are the answers; the events for instrumentation are left out.
\<close>

record runner =
  running :: bool
  consuming :: bool
  group :: consumer_group

record runner_config =
  rc_autoCommit :: bool
  heartbeatInterval :: int
  eachBatchAutoResolve :: bool

text \<open>The answers to a heartbeat and to a commit, with the times of the clock they see.\<close>

record heartbeat_answer =
  hb_now :: int
  hb_answer :: "err + unit"
  hb_after :: int

record commit_answer =
  ca_now :: int
  ca_answer :: "err + unit"
  ca_refresh :: "err option"

definition to_unit :: "(err + 'a) \<times> 's \<Rightarrow> (err + unit) \<times> 's" where
  "to_unit r = (case r of (Inl e, s) \<Rightarrow> (Inl e, s) | (Inr _, s) \<Rightarrow> (Inr (), s))"

subsection \<open>The group's operations\<close>

definition cg_resolveOffset :: "string \<Rightarrow> int \<Rightarrow> int \<Rightarrow> consumer_group \<Rightarrow> (err + unit) \<times> consumer_group" where
  "cg_resolveOffset topic prt offs = with_om (resolveOffset topic prt offs)"

definition cg_commitOffsets :: "topic_offsets option \<Rightarrow> commit_answer \<Rightarrow> consumer_group \<Rightarrow> (err + unit) \<times> consumer_group" where
  "cg_commitOffsets offsets c s = to_unit (with_om (commitOffsets offsets (ca_now c) (ca_answer c) (ca_refresh c)) s)"

definition cg_commitOffsetsIfNecessary :: "commit_answer \<Rightarrow> consumer_group \<Rightarrow> (err + unit) \<times> consumer_group" where
  "cg_commitOffsetsIfNecessary c s = to_unit (with_om (commitOffsetsIfNecessary (ca_now c) (ca_answer c) (ca_refresh c)) s)"

definition cg_uncommittedOffsets :: "consumer_group \<Rightarrow> err + topic_offsets" where
  "cg_uncommittedOffsets s = (case offsetManager s of None \<Rightarrow> Inl undefined_error | Some m \<Rightarrow> uncommittedOffsets m)"

definition cg_pause :: "(string \<times> int list option) list \<Rightarrow> consumer_group \<Rightarrow> consumer_group" where
  "cg_pause tps s = s\<lparr>subscriptionState := pause tps (subscriptionState s)\<rparr>"

definition cg_resume :: "(string \<times> int list option) list \<Rightarrow> consumer_group \<Rightarrow> consumer_group" where
  "cg_resume tps s = s\<lparr>subscriptionState := resume tps (subscriptionState s)\<rparr>"

definition cg_isPaused :: "string \<Rightarrow> int \<Rightarrow> consumer_group \<Rightarrow> bool" where
  "cg_isPaused topic prt s = isPaused topic prt (subscriptionState s)"

text \<open>An operation of the group, as an operation of the runner.\<close>

definition on_group :: "(consumer_group \<Rightarrow> (err + 'a) \<times> consumer_group) \<Rightarrow> runner \<Rightarrow> (err + 'a) \<times> runner" where
  "on_group f s = (case f (group s) of (r, g) \<Rightarrow> (r, s\<lparr>group := g\<rparr>))"

text \<open>Sequencing of operations that may throw.\<close>

definition andThen :: "(err + 'a) \<times> 's \<Rightarrow> ('a \<Rightarrow> 's \<Rightarrow> (err + 'b) \<times> 's) \<Rightarrow> (err + 'b) \<times> 's" where
  "andThen r f = (case r of (Inl e, s) \<Rightarrow> (Inl e, s) | (Inr v, s) \<Rightarrow> f v s)"

subsection \<open>Commits and heartbeats\<close>

definition autoCommitOffsets :: "runner_config \<Rightarrow> commit_answer \<Rightarrow> runner \<Rightarrow> (err + unit) \<times> runner" where
  "autoCommitOffsets cfg c s = (if rc_autoCommit cfg then on_group (cg_commitOffsets None c) s else (Inr (), s))"

definition autoCommitOffsetsIfNecessary :: "runner_config \<Rightarrow> commit_answer \<Rightarrow> runner \<Rightarrow> (err + unit) \<times> runner" where
  "autoCommitOffsetsIfNecessary cfg c s = (if rc_autoCommit cfg then on_group (cg_commitOffsetsIfNecessary c) s else (Inr (), s))"

definition heartbeat :: "runner_config \<Rightarrow> heartbeat_answer \<Rightarrow> commit_answer \<Rightarrow> runner \<Rightarrow> (err + unit) \<times> runner" where
  "heartbeat cfg h c s =
     (case on_group (cg_heartbeat (hb_now h) (heartbeatInterval cfg) (hb_answer h) (hb_after h)) s of
        (Inr _, s) \<Rightarrow> (Inr (), s)
      | (Inl e, s) \<Rightarrow>
          (if isRebalancing e then andThen (autoCommitOffsets cfg c s) (\<lambda>_ s. (Inl e, s)) else (Inl e, s)))"

definition run_commitOffsets :: "nat \<Rightarrow> (nat \<Rightarrow> rat) \<Rightarrow> (nat \<Rightarrow> commit_answer) \<Rightarrow> (nat \<Rightarrow> runner \<Rightarrow> runner) \<Rightarrow> topic_offsets option \<Rightarrow> runner \<Rightarrow> (err + unit) \<times> runner" where
  "run_commitOffsets maxRetries delay answers others offsets s =
     (if \<not> running s then (Inr (), s)
      else retry_st maxRetries delay (\<lambda>i s.
             case on_group (cg_commitOffsets offsets (answers i)) s of
               (Inr _, s) \<Rightarrow> (Returns (), s)
             | (Inl e, s) \<Rightarrow>
                 (let s = others i s
                  in if \<not> running s then (Returns (), s)
                     else if e_name e = ''KafkaJSNotImplemented'' then (Bails (Some e), s)
                     else (Throws e, s))) 0 s)"

subsection \<open>Message by message\<close>

text \<open>
  The handler, the answers, and what other tasks do while the heartbeat and the commit of a message
  are awaited, by the index of the message in the batch.
\<close>

record message_env =
  me_eachMessage :: "nat \<Rightarrow> decoded_record \<Rightarrow> runner \<Rightarrow> (err + unit) \<times> runner"
  me_failed :: commit_answer
  me_heartbeat :: "nat \<Rightarrow> heartbeat_answer"
  me_rebalance :: "nat \<Rightarrow> commit_answer"
  me_commit :: "nat \<Rightarrow> commit_answer"
  me_others :: "nat \<Rightarrow> runner \<Rightarrow> runner"

text \<open>The loop of \<^verbatim>\<open>processEachMessage\<close>; next to the outcome it returns the messages whose handler has returned.\<close>

fun processEachMessage ::
    "runner_config \<Rightarrow> message_env \<Rightarrow> string \<Rightarrow> int \<Rightarrow> nat \<Rightarrow> decoded_record list \<Rightarrow> runner \<Rightarrow> ((err + unit) \<times> runner) \<times> decoded_record list" where
  "processEachMessage cfg env topic prt i [] s = ((Inr (), s), [])"
| "processEachMessage cfg env topic prt i (message # messages) s =
     (if \<not> running s \<or> hasSeekOffset topic prt (group s) then ((Inr (), s), [])
      else case me_eachMessage env i message s of
             (Inl e, s) \<Rightarrow> (andThen (autoCommitOffsets cfg (me_failed env) s) (\<lambda>_ s. (Inl e, s)), [])
           | (Inr _, s) \<Rightarrow>
               (case andThen (on_group (cg_resolveOffset topic prt (rec_offset message)) s) (\<lambda>_ s.
                       andThen (heartbeat cfg (me_heartbeat env i) (me_rebalance env i) s) (\<lambda>_ s.
                         andThen (autoCommitOffsetsIfNecessary cfg (me_commit env i) (me_others env i s)) (\<lambda>_ s. (Inr (), s)))) of
                  (Inl e, s) \<Rightarrow> ((Inl e, s), [message])
                | (Inr _, s) \<Rightarrow>
                    (if cg_isPaused topic prt (group s) then ((Inr (), s), [message])
                     else case processEachMessage cfg env topic prt (i + 1) messages s of
                            (r, handled) \<Rightarrow> (r, message # handled))))"

subsection \<open>Whole batches\<close>

definition isSameOffset :: "int \<Rightarrow> int \<Rightarrow> bool" where
  "isSameOffset offsetA offsetB \<longleftrightarrow> Long_equals offsetA offsetB"

text \<open>The operations that \<^verbatim>\<open>eachBatch\<close> gets besides the batch.\<close>

definition eb_resolveOffset :: "batch \<Rightarrow> int \<Rightarrow> runner \<Rightarrow> (err + unit) \<times> runner" where
  "eb_resolveOffset b offs =
     on_group (cg_resolveOffset (bt_topic b) (bt_partition b)
       (if bt_messages b \<noteq> [] \<and> isSameOffset offs (rec_offset (last (bt_messages b))) then bt_lastOffset b else offs))"

definition eb_commitOffsetsIfNecessary :: "topic_offsets option \<Rightarrow> commit_answer \<Rightarrow> runner \<Rightarrow> (err + unit) \<times> runner" where
  "eb_commitOffsetsIfNecessary offsets c =
     on_group (case offsets of Some _ \<Rightarrow> cg_commitOffsets offsets c | None \<Rightarrow> cg_commitOffsetsIfNecessary c)"

definition eb_isStale :: "batch \<Rightarrow> runner \<Rightarrow> bool" where
  "eb_isStale b s = hasSeekOffset (bt_topic b) (bt_partition b) (group s)"

definition batch_pause :: "batch \<Rightarrow> runner \<Rightarrow> runner" where
  "batch_pause b s = s\<lparr>group := cg_pause [(bt_topic b, Some [bt_partition b])] (group s)\<rparr>"

definition batch_resume :: "batch \<Rightarrow> runner \<Rightarrow> runner" where
  "batch_resume b s = s\<lparr>group := cg_resume [(bt_topic b, Some [bt_partition b])] (group s)\<rparr>"

definition processEachBatch ::
    "runner_config \<Rightarrow> (batch \<Rightarrow> runner \<Rightarrow> (err + unit) \<times> runner) \<Rightarrow> commit_answer \<Rightarrow> batch \<Rightarrow> runner \<Rightarrow> (err + unit) \<times> runner" where
  "processEachBatch cfg eachBatch failed b s =
     (case eachBatch b s of
        (Inl e, s) \<Rightarrow> andThen (autoCommitOffsets cfg failed s) (\<lambda>_ s. (Inl e, s))
      | (Inr _, s) \<Rightarrow>
          (if eachBatchAutoResolve cfg then on_group (cg_resolveOffset (bt_topic b) (bt_partition b) (bt_lastOffset b)) s
           else (Inr (), s)))"

subsection \<open>Handling a batch\<close>

datatype handler = EachMessage message_env | EachBatch "batch \<Rightarrow> runner \<Rightarrow> (err + unit) \<times> runner" commit_answer | NoHandler

record batch_env =
  be_handler :: handler
  be_heartbeat :: heartbeat_answer
  be_rebalance :: commit_answer
  be_commit :: commit_answer

definition handleBatch :: "runner_config \<Rightarrow> batch_env \<Rightarrow> batch \<Rightarrow> runner \<Rightarrow> (err + unit) \<times> runner" where
  "handleBatch cfg env b s =
     (if \<not> running s then (Inr (), s)
      else if isEmptyDueToFiltering b
      then andThen (on_group (cg_resolveOffset (bt_topic b) (bt_partition b) (bt_lastOffset b)) s) (\<lambda>_ s.
             andThen (autoCommitOffsetsIfNecessary cfg (be_commit env) s) (\<lambda>_. heartbeat cfg (be_heartbeat env) (be_rebalance env)))
      else if isEmpty b then heartbeat cfg (be_heartbeat env) (be_rebalance env) s
      else andThen (case be_handler env of
               EachMessage menv \<Rightarrow> fst (processEachMessage cfg menv (bt_topic b) (bt_partition b) 0 (bt_messages b) s)
             | EachBatch eachBatch failed \<Rightarrow> processEachBatch cfg eachBatch failed b s
             | NoHandler \<Rightarrow> (Inr (), s)) (\<lambda>_ s.
             andThen (autoCommitOffsets cfg (be_commit env) s) (\<lambda>_. heartbeat cfg (be_heartbeat env) (be_rebalance env))))"

subsection \<open>Fetching, starting and stopping\<close>

definition run_fetch ::
    "runner_config \<Rightarrow> group_config \<Rightarrow> fetch_env \<Rightarrow> recover_env \<Rightarrow> heartbeat_answer \<Rightarrow> commit_answer \<Rightarrow> int \<Rightarrow> runner \<Rightarrow> (err + batch list) \<times> runner" where
  "run_fetch cfg gcfg env recover h c nodeId s =
     (if \<not> running s then (Inr [], s)
      else andThen (on_group (cg_fetch gcfg env recover nodeId) s) (\<lambda>batches s.
             if batches = [] then andThen (heartbeat cfg h c s) (\<lambda>_ s. (Inr batches, s)) else (Inr batches, s)))"

datatype 's crashable = Runs 's | Crashes err 's

definition run_start :: "err + unit \<Rightarrow> (consumer_group \<Rightarrow> (err + unit) \<times> consumer_group) \<Rightarrow> runner \<Rightarrow> runner crashable" where
  "run_start connect joins s =
     (if running s then Runs s
      else case connect of
             Inl e \<Rightarrow> Crashes e s
           | Inr _ \<Rightarrow>
               (case on_group joins s of
                  (Inl e, s) \<Rightarrow> Crashes e s
                | (Inr _, s) \<Rightarrow> Runs (s\<lparr>running := True\<rparr>)))"

text \<open>One attempt of the loop around the fetch manager; \<open>start\<close> is \<^verbatim>\<open>fetchManager.start\<close>.\<close>

definition schedule_attempt ::
    "(runner \<Rightarrow> (err + unit) \<times> runner) \<Rightarrow> (consumer_group \<Rightarrow> (err + unit) \<times> consumer_group) \<Rightarrow> runner \<Rightarrow> unit attempt \<times> runner" where
  "schedule_attempt start joins s =
     (let rejoin = (\<lambda>s. case on_group joins s of (Inl e, s) \<Rightarrow> (Throws e, s) | (Inr _, s) \<Rightarrow> (Returns (), s))
      in if \<not> running s then (Returns (), s)
         else case start s of
                (Inr _, s) \<Rightarrow> (Returns (), s)
              | (Inl e, s) \<Rightarrow>
                  (if isRebalancing e then rejoin s
                   else if e_type e = Some ''UNKNOWN_MEMBER_ID'' then rejoin (s\<lparr>group := (group s)\<lparr>memberId := None\<rparr>\<rparr>)
                   else if e_name e = ''KafkaJSNotImplemented'' then (Bails (Some e), s)
                   else if e_name e = ''KafkaJSNoBrokerAvailableError'' then (Bails (Some e), s)
                   else (Throws e, s)))"

text \<open>One round: the runner has exited, schedules the next round, or has crashed.\<close>

datatype round = Exited | Again | Crashed err

definition scheduleFetchManager ::
    "nat \<Rightarrow> (nat \<Rightarrow> rat) \<Rightarrow> (nat \<Rightarrow> runner \<Rightarrow> (err + unit) \<times> runner) \<Rightarrow> (nat \<Rightarrow> consumer_group \<Rightarrow> (err + unit) \<times> consumer_group) \<Rightarrow> runner \<Rightarrow> round \<times> runner" where
  "scheduleFetchManager maxRetries delay starts joins s =
     (if \<not> running s then (Exited, s\<lparr>consuming := False\<rparr>)
      else case retry_st maxRetries delay (\<lambda>i. schedule_attempt (starts i) (joins i)) 0 (s\<lparr>consuming := True\<rparr>) of
             (Inr _, s) \<Rightarrow> (Again, s)
           | (Inl e, s) \<Rightarrow> (Crashed e, s\<lparr>consuming := False, running := False\<rparr>))"

text \<open>Stopping waits until the consumer has finished, which is the argument \<open>finish\<close>; errors are ignored.\<close>

definition run_stop :: "(runner \<Rightarrow> (err + unit) \<times> runner) \<Rightarrow> (consumer_group \<Rightarrow> (err + unit) \<times> consumer_group) \<Rightarrow> runner \<Rightarrow> runner" where
  "run_stop finish leaves s =
     (if \<not> running s then s
      else snd (andThen (finish (s\<lparr>running := False\<rparr>)) (\<lambda>_. on_group leaves)))"

subsection \<open>The position of a partition\<close>

text \<open>
  What the offset manager records for a partition: the next offset to fetch and the committed one.
  There is no record while the manager is missing, ill formed or does not manage the topic.
\<close>

definition partition_view :: "string \<Rightarrow> int \<Rightarrow> runner \<Rightarrow> (int option \<times> int option) option" where
  "partition_view topic prt s =
     (case offsetManager (group s) of
        None \<Rightarrow> None
      | Some m \<Rightarrow>
          if om_inv m \<and> topic \<in> set (om_topics m)
          then Some (jprop (the (map_of (resolvedOffsets m) topic)) prt, jprop (the (map_of (committedOffsets m) topic)) prt)
          else None)"

lemma partition_viewD:
  assumes "partition_view topic prt s = Some (r, c)"
  shows "\<exists>m obj cobj. offsetManager (group s) = Some m \<and> om_inv m \<and> topic \<in> set (om_topics m) \<and>
    map_of (resolvedOffsets m) topic = Some obj \<and> map_of (committedOffsets m) topic = Some cobj \<and> r = jprop obj prt \<and> c = jprop cobj prt"
proof -
  obtain m where m: "offsetManager (group s) = Some m" "om_inv m" "topic \<in> set (om_topics m)"
      "r = jprop (the (map_of (resolvedOffsets m) topic)) prt" "c = jprop (the (map_of (committedOffsets m) topic)) prt"
    using assms by (auto simp: partition_view_def split: option.splits if_splits)
  then show ?thesis using om_inv_entries [OF m(2,3)] by auto
qed

lemma partition_viewI:
  assumes "offsetManager (group s) = Some m" "om_inv m" "topic \<in> set (om_topics m)"
    "map_of (resolvedOffsets m) topic = Some obj" "map_of (committedOffsets m) topic = Some cobj"
  shows "partition_view topic prt s = Some (jprop obj prt, jprop cobj prt)"
  using assms by (simp add: partition_view_def)

text \<open>Committing copies the position to the committed offset, or changes nothing.\<close>

definition may_commit :: "string \<Rightarrow> int \<Rightarrow> (runner \<Rightarrow> (err + 'a) \<times> runner) \<Rightarrow> bool" where
  "may_commit topic prt f \<longleftrightarrow> (\<forall>s r c. partition_view topic prt s = Some (r, c) \<longrightarrow>
     partition_view topic prt (snd (f s)) = Some (r, c) \<or> partition_view topic prt (snd (f s)) = Some (r, r))"

definition keeps_view :: "string \<Rightarrow> int \<Rightarrow> (runner \<Rightarrow> runner) \<Rightarrow> bool" where
  "keeps_view topic prt f \<longleftrightarrow> (\<forall>s v. partition_view topic prt s = Some v \<longrightarrow> partition_view topic prt (f s) = Some v)"

lemma snd_to_unit [simp]: "snd (to_unit r) = snd r"
  by (simp add: to_unit_def split: prod.split sum.split)

lemma snd_on_group [simp]: "snd (on_group f s) = s\<lparr>group := snd (f (group s))\<rparr>"
  by (simp add: on_group_def split: prod.split)

lemma offsetManager_with_om: "offsetManager (snd (with_om f s)) = map_option (\<lambda>m. snd (f m)) (offsetManager s)"
  by (simp add: with_om_def Let_def split: option.split prod.split)

lemma may_commit_commitOffsets: "may_commit topic prt (on_group (cg_commitOffsets None a))"
  unfolding may_commit_def
proof (intro allI impI)
  fix s r c assume "partition_view topic prt s = Some (r, c)"
  then obtain m obj cobj where m: "offsetManager (group s) = Some m" "om_inv m" "topic \<in> set (om_topics m)"
      "map_of (resolvedOffsets m) topic = Some obj" "map_of (committedOffsets m) topic = Some cobj" "r = jprop obj prt" "c = jprop cobj prt"
    by (blast dest: partition_viewD)
  define m' where "m' = snd (commitOffsets None (ca_now a) (ca_answer a) (ca_refresh a) m)"
  obtain cobj' where cobj': "map_of (committedOffsets m') topic = Some cobj'" "jprop cobj' prt = c \<or> jprop cobj' prt = r"
    using commitOffsets_at [OF m(2-5)] m(6,7) unfolding m'_def by blast
  have "partition_view topic prt (snd (on_group (cg_commitOffsets None a) s)) = Some (jprop obj prt, jprop cobj' prt)"
  proof (rule partition_viewI)
    show "offsetManager (group (snd (on_group (cg_commitOffsets None a) s))) = Some m'"
      by (simp add: cg_commitOffsets_def offsetManager_with_om m(1) m'_def)
    show "om_inv m'" unfolding m'_def by (rule om_inv_commitOffsets [OF m(2)])
    show "topic \<in> set (om_topics m')" using m(3) by (simp add: m'_def om_topics_def commitOffsets_frame)
    show "map_of (resolvedOffsets m') topic = Some obj" using m(4) by (simp add: m'_def commitOffsets_frame)
  qed (rule cobj'(1))
  then show "partition_view topic prt (snd (on_group (cg_commitOffsets None a) s)) = Some (r, c) \<or>
      partition_view topic prt (snd (on_group (cg_commitOffsets None a) s)) = Some (r, r)"
    using cobj'(2) m(6) by auto
qed

lemma may_commitD:
  "may_commit topic prt f \<Longrightarrow> partition_view topic prt s = Some (r, c) \<Longrightarrow>
     \<exists>c'. partition_view topic prt (snd (f s)) = Some (r, c') \<and> c' \<in> {c, r}"
  unfolding may_commit_def by blast

lemma may_commit_cases:
  assumes "may_commit topic prt g" "\<And>s. partition_view topic prt (snd (f s)) = partition_view topic prt s \<or> snd (f s) = snd (g s)"
  shows "may_commit topic prt f"
  using assms unfolding may_commit_def by metis

lemma commitIfNecessary_cases:
  "snd (commitOffsetsIfNecessary now answer refresh m) = m \<or>
   snd (commitOffsetsIfNecessary now answer refresh m) = snd (commitOffsets None now answer refresh m)"
  by (auto simp: commitOffsetsIfNecessary_def Let_def split: sum.split)

lemma may_commit_ifNecessary: "may_commit topic prt (on_group (cg_commitOffsetsIfNecessary a))"
proof (rule may_commit_cases [OF may_commit_commitOffsets])
  fix s
  show "partition_view topic prt (snd (on_group (cg_commitOffsetsIfNecessary a) s)) = partition_view topic prt s \<or>
      snd (on_group (cg_commitOffsetsIfNecessary a) s) = snd (on_group (cg_commitOffsets None a) s)"
  proof (cases "offsetManager (group s)")
    case None
    then show ?thesis by (simp add: cg_commitOffsetsIfNecessary_def with_om_def)
  next
    case (Some m)
    have om: "snd (with_om f (group s)) = (group s)\<lparr>offsetManager := Some (snd (f m))\<rparr>"
      for f :: "offset_manager \<Rightarrow> (err + topic_offsets option) \<times> offset_manager"
      using Some by (simp add: with_om_def split_def Let_def)
    consider "snd (commitOffsetsIfNecessary (ca_now a) (ca_answer a) (ca_refresh a) m) = m"
      | "snd (commitOffsetsIfNecessary (ca_now a) (ca_answer a) (ca_refresh a) m) = snd (commitOffsets None (ca_now a) (ca_answer a) (ca_refresh a) m)"
      using commitIfNecessary_cases by blast
    then show ?thesis
      by cases (simp_all add: cg_commitOffsetsIfNecessary_def cg_commitOffsets_def om partition_view_def Some)
  qed
qed

lemma may_commit_auto: "may_commit topic prt (autoCommitOffsets cfg a)"
  by (rule may_commit_cases [OF may_commit_commitOffsets [of _ _ a]]) (simp add: autoCommitOffsets_def)

lemma may_commit_autoIfNecessary: "may_commit topic prt (autoCommitOffsetsIfNecessary cfg a)"
  by (rule may_commit_cases [OF may_commit_ifNecessary [of _ _ a]]) (simp add: autoCommitOffsetsIfNecessary_def)

lemma partition_view_heartbeat: "partition_view topic prt (s\<lparr>group := snd (cg_heartbeat now interval answer now' (group s))\<rparr>) = partition_view topic prt s"
  by (auto simp: partition_view_def cg_heartbeat_def split: sum.split option.split)

lemma snd_andThen_throw: "snd (andThen r (\<lambda>_ s. (x, s))) = snd r"
  by (simp add: andThen_def split: prod.split sum.split)

lemma may_commit_heartbeat: "may_commit topic prt (heartbeat cfg h a)"
  unfolding may_commit_def
proof (intro allI impI)
  fix s r c assume v: "partition_view topic prt s = Some (r, c)"
  let ?beat = "on_group (cg_heartbeat (hb_now h) (heartbeatInterval cfg) (hb_answer h) (hb_after h)) s"
  have v': "partition_view topic prt (snd ?beat) = Some (r, c)" using v by (simp add: partition_view_heartbeat)
  have "snd (heartbeat cfg h a s) = snd ?beat \<or> snd (heartbeat cfg h a s) = snd (autoCommitOffsets cfg a (snd ?beat))"
    by (cases ?beat) (auto simp: heartbeat_def snd_andThen_throw split: sum.split)
  then show "partition_view topic prt (snd (heartbeat cfg h a s)) = Some (r, c) \<or> partition_view topic prt (snd (heartbeat cfg h a s)) = Some (r, r)"
    using v' may_commit_auto [of topic prt cfg a, unfolded may_commit_def] by metis
qed

lemma resolve_at:
  assumes "partition_view topic prt s = Some (r, c)"
  shows "\<exists>s'. on_group (cg_resolveOffset topic prt offs) s = (Inr (), s') \<and> partition_view topic prt s' = Some (Some (offs + 1), c)"
proof -
  obtain m obj cobj where m: "offsetManager (group s) = Some m" "om_inv m" "topic \<in> set (om_topics m)"
      "map_of (resolvedOffsets m) topic = Some obj" "map_of (committedOffsets m) topic = Some cobj" "r = jprop obj prt" "c = jprop cobj prt"
    using partition_viewD [OF assms] by blast
  define m' where "m' = set_resolved topic (AList.update prt (Some (offs + 1)) obj) m"
  have run: "resolveOffset topic prt offs m = (Inr (), m')" using m(4) by (simp add: resolveOffset_def topic_entry_def m'_def Long_add_def)
  have "partition_view topic prt (s\<lparr>group := (group s)\<lparr>offsetManager := Some m'\<rparr>\<rparr>) =
      Some (jprop (AList.update prt (Some (offs + 1)) obj) prt, jprop cobj prt)"
  proof (rule partition_viewI)
    show "om_inv m'" using om_inv_resolveOffset [OF m(2), of topic prt offs] run by simp
  qed (use m in \<open>simp_all add: m'_def set_resolved_def om_topics_def update_conv'\<close>)
  moreover have "on_group (cg_resolveOffset topic prt offs) s = (Inr (), s\<lparr>group := (group s)\<lparr>offsetManager := Some m'\<rparr>\<rparr>)"
    by (simp add: on_group_def cg_resolveOffset_def with_om_def m(1) run)
  ultimately show ?thesis using m(7) by (simp add: jprop_def update_conv')
qed

subsection \<open>At least once\<close>

text \<open>
  The position behind the last handled message, and the committed offsets that are possible on the
  way: the one before, the position before, and the positions behind handled messages.
\<close>

definition position_after :: "int option \<Rightarrow> decoded_record list \<Rightarrow> int option" where
  "position_after r handled = (if handled = [] then r else Some (rec_offset (last handled) + 1))"

definition possible_commits :: "int option \<Rightarrow> int option \<Rightarrow> decoded_record list \<Rightarrow> int option set" where
  "possible_commits r c handled = {c, r} \<union> (\<lambda>m. Some (rec_offset m + 1)) ` set handled"

text \<open>After a handler has returned: resolving, the heartbeat and the commit of one message.\<close>

lemma after_message_view:
  assumes "partition_view topic prt s = Some (r, c)" "keeps_view topic prt others"
    "andThen (on_group (cg_resolveOffset topic prt offs) s) (\<lambda>_ s. andThen (heartbeat cfg h a s) (\<lambda>_ s.
       andThen (autoCommitOffsetsIfNecessary cfg a' (others s)) (\<lambda>_ s. (Inr (), s)))) = (x, s')"
  shows "\<exists>c'. partition_view topic prt s' = Some (Some (offs + 1), c') \<and> c' \<in> {c, Some (offs + 1)}"
proof -
  obtain s1 where s1: "on_group (cg_resolveOffset topic prt offs) s = (Inr (), s1)" "partition_view topic prt s1 = Some (Some (offs + 1), c)"
    using resolve_at [OF assms(1)] by blast
  define s2 where "s2 = snd (heartbeat cfg h a s1)"
  obtain c2 where c2: "partition_view topic prt s2 = Some (Some (offs + 1), c2)" "c2 \<in> {c, Some (offs + 1)}"
    using may_commitD [OF may_commit_heartbeat s1(2)] unfolding s2_def by blast
  have "partition_view topic prt (others s2) = Some (Some (offs + 1), c2)" using assms(2) c2(1) by (simp add: keeps_view_def)
  then have c3: "\<exists>c3. partition_view topic prt (snd (autoCommitOffsetsIfNecessary cfg a' (others s2))) = Some (Some (offs + 1), c3) \<and> c3 \<in> {c2, Some (offs + 1)}"
    by (rule may_commitD [OF may_commit_autoIfNecessary])
  show ?thesis
  proof (cases "fst (heartbeat cfg h a s1)")
    case (Inl e)
    then have "s' = s2" using assms(3) s1(1) by (cases "heartbeat cfg h a s1") (simp add: andThen_def s2_def)
    then show ?thesis using c2 by blast
  next
    case (Inr u)
    then have "s' = snd (autoCommitOffsetsIfNecessary cfg a' (others s2))"
      using assms(3) s1(1) by (cases "heartbeat cfg h a s1") (auto simp: andThen_def s2_def split: prod.splits sum.splits)
    then show ?thesis using c3 c2(2) by blast
  qed
qed

lemma processEachMessage_view:
  assumes "processEachMessage cfg env topic prt i messages s = ((x, s'), handled)" "partition_view topic prt s = Some (r, c)"
    "\<And>i m. keeps_view topic prt (\<lambda>s. snd (me_eachMessage env i m s))" "\<And>i. keeps_view topic prt (me_others env i)"
  shows "prefix handled messages \<and> (\<exists>c'. partition_view topic prt s' = Some (position_after r handled, c') \<and> c' \<in> possible_commits r c handled)"
  using assms(1,2)
proof (induction messages arbitrary: i s r c handled)
  case Nil
  then show ?case by (simp add: position_after_def possible_commits_def)
next
  case (Cons message messages)
  show ?case
  proof (cases "\<not> running s \<or> hasSeekOffset topic prt (group s)")
    case True
    then have "handled = []" "s' = s" using Cons.prems(1) by auto
    then show ?thesis using Cons.prems(2) by (simp add: position_after_def possible_commits_def)
  next
    case False
    obtain y s1 where each: "me_eachMessage env i message s = (y, s1)" by (cases "me_eachMessage env i message s")
    have v1: "partition_view topic prt s1 = Some (r, c)"
      using assms(3) [of i message] Cons.prems(2) each unfolding keeps_view_def by (metis snd_conv)
    show ?thesis
    proof (cases y)
      case (Inl e)
      then have failed: "handled = []" "andThen (autoCommitOffsets cfg (me_failed env) s1) (\<lambda>_ s. (Inl e, s)) = (x, s')"
        using Cons.prems(1) False each by simp_all
      moreover have "s' = snd (autoCommitOffsets cfg (me_failed env) s1)"
        using snd_andThen_throw [of "autoCommitOffsets cfg (me_failed env) s1" "Inl e :: err + unit"] unfolding failed(2) by simp
      ultimately show ?thesis using may_commitD [OF may_commit_auto [of topic prt cfg "me_failed env"] v1]
        by (auto simp: position_after_def possible_commits_def)
    next
      case (Inr u)
      define step where "step = andThen (on_group (cg_resolveOffset topic prt (rec_offset message)) s1) (\<lambda>_ s.
        andThen (heartbeat cfg (me_heartbeat env i) (me_rebalance env i) s) (\<lambda>_ s.
          andThen (autoCommitOffsetsIfNecessary cfg (me_commit env i) (me_others env i s)) (\<lambda>_ s. (Inr (), s))))"
      obtain z s2 where st: "step = (z, s2)" by (cases step)
      obtain c2 where v2: "partition_view topic prt s2 = Some (Some (rec_offset message + 1), c2)" "c2 \<in> {c, Some (rec_offset message + 1)}"
        using after_message_view [OF v1 assms(4) st [unfolded step_def]] by blast
      have run: "processEachMessage cfg env topic prt i (message # messages) s =
          (case step of (Inl e, s) \<Rightarrow> ((Inl e, s), [message])
           | (Inr _, s) \<Rightarrow> if cg_isPaused topic prt (group s) then ((Inr (), s), [message])
               else case processEachMessage cfg env topic prt (i + 1) messages s of (r, handled) \<Rightarrow> (r, message # handled))"
        using False each Inr by (simp add: step_def)
      show ?thesis
      proof (cases "z = Inr () \<and> \<not> cg_isPaused topic prt (group s2)")
        case False
        then have "handled = [message]" "s' = s2" using Cons.prems(1) unfolding run st by (auto split: sum.splits if_splits)
        then show ?thesis using v2 by (auto simp: position_after_def possible_commits_def)
      next
        case True
        then obtain handled' where h: "processEachMessage cfg env topic prt (i + 1) messages s2 = ((x, s'), handled')" "handled = message # handled'"
          using Cons.prems(1) unfolding run st by (auto split: prod.splits)
        show ?thesis using Cons.IH [OF h(1) v2(1)] v2(2) by (auto simp: h(2) position_after_def possible_commits_def)
      qed
    qed
  qed
qed

text \<open>C12: processing a batch message by message is at-least-once: the messages handed over are a prefix of
  the batch, and whether the loop ends, is interrupted or a handler, heartbeat or commit throws, neither the
  position nor the committed offset passes a message whose handler has not returned; the position is right
  behind the last handled message.\<close>

theorem at_least_once:
  assumes "processEachMessage cfg env topic prt i messages s = ((x, s'), handled)" "partition_view topic prt s = Some (r, c)"
    "\<And>i m. keeps_view topic prt (\<lambda>s. snd (me_eachMessage env i m s))" "\<And>i. keeps_view topic prt (me_others env i)"
    "sorted_wrt (\<lambda>a b. rec_offset a < rec_offset b) messages"
    "\<And>m v. m \<in> set messages \<Longrightarrow> Some v \<in> {r, c} \<Longrightarrow> v \<le> rec_offset m"
  shows "prefix handled messages \<and> (\<exists>r' c'. partition_view topic prt s' = Some (r', c') \<and>
    (handled \<noteq> [] \<longrightarrow> r' = Some (rec_offset (last handled) + 1)) \<and> (handled = [] \<longrightarrow> r' = r) \<and>
    (\<forall>m \<in> set messages - set handled. \<forall>v. Some v \<in> {r', c'} \<longrightarrow> v \<le> rec_offset m))"
proof -
  obtain c' where view: "prefix handled messages" "partition_view topic prt s' = Some (position_after r handled, c')" "c' \<in> possible_commits r c handled"
    using processEachMessage_view [OF assms(1-4)] by blast
  obtain rest where rest: "messages = handled @ rest" using view(1) by (auto simp: prefix_def)
  have behind: "rec_offset h < rec_offset m" if "h \<in> set handled" "m \<in> set messages - set handled" for h m
    using assms(5) that unfolding rest by (auto simp: sorted_wrt_append)
  have bound: "v \<le> rec_offset m" if m: "m \<in> set messages - set handled" and v: "Some v \<in> possible_commits r c handled" for m v
    using v assms(6) [of m v] behind [OF _ m] m by (fastforce simp: possible_commits_def)
  moreover have "position_after r handled \<in> possible_commits r c handled" by (auto simp: position_after_def possible_commits_def)
  ultimately have "\<forall>m \<in> set messages - set handled. \<forall>v. Some v \<in> {position_after r handled, c'} \<longrightarrow> v \<le> rec_offset m"
    using view(3) by (metis insert_iff singletonD)
  then show ?thesis using view(1,2) by (auto simp: position_after_def)
qed

definition sample_runner :: runner where
  "sample_runner = \<lparr>running = True, consuming = True, group = sample_group\<rparr>"

definition sample_runner_config :: runner_config where
  "sample_runner_config = \<lparr>rc_autoCommit = True, heartbeatInterval = 3000, eachBatchAutoResolve = True\<rparr>"

definition sample_commit :: commit_answer where
  "sample_commit = \<lparr>ca_now = 1, ca_answer = Inr (), ca_refresh = None\<rparr>"

text \<open>A handler that fails on the second message.\<close>

definition sample_messages :: message_env where
  "sample_messages = \<lparr>me_eachMessage = (\<lambda>i m s. (if i = 1 then Inl (native_error ''Error'' ''boom'') else Inr (), s)), me_failed = sample_commit,
     me_heartbeat = (\<lambda>_. \<lparr>hb_now = 1, hb_answer = Inr (), hb_after = 2\<rparr>), me_rebalance = (\<lambda>_. sample_commit), me_commit = (\<lambda>_. sample_commit),
     me_others = (\<lambda>_ s. s)\<rparr>"

lemma sample_runner_view: "partition_view ''t'' 0 sample_runner = Some (None, Some 5)"
proof -
  let ?m = "(new_OffsetManager [(''t'', [0, 1])] True None None 0)\<lparr>committedOffsets := [(''t'', [(0, Some 5), (1, Some 9)])]\<rparr>"
  have "om_inv ?m"
    by (rule om_inv_committed(2)) (simp_all add: om_inv_new, simp add: new_OffsetManager_def clearAllOffsets_def om_topics_def indexTopics_def)
  then have "partition_view ''t'' 0 sample_runner = Some (jprop [] (0 :: int), jprop [(0, Some 5), (1, Some 9)] (0 :: int))"
    by (intro partition_viewI) (auto simp: sample_runner_def sample_group_def om_topics_def new_OffsetManager_def clearAllOffsets_def indexTopics_def)
  then show ?thesis by (simp add: jprop_def)
qed

theorem at_least_once_witness:
  "let p = processEachMessage sample_runner_config sample_messages ''t'' 0 0 [tx_record 5 1 None False, tx_record 6 1 None False] sample_runner
   in map rec_offset (snd p) = [5] \<and> (\<exists>c'. partition_view ''t'' 0 (snd (fst p)) = Some (Some 6, c') \<and> (\<forall>v. c' = Some v \<longrightarrow> v \<le> 6))"
proof -
  let ?ms = "[tx_record 5 1 None False, tx_record 6 1 None False]"
  obtain x s' handled where p: "processEachMessage sample_runner_config sample_messages ''t'' 0 0 ?ms sample_runner = ((x, s'), handled)"
    by (metis prod.exhaust)
  have "map rec_offset (snd (processEachMessage sample_runner_config sample_messages ''t'' 0 0 ?ms sample_runner)) = [5]" by code_simp
  then have h: "map rec_offset handled = [5]" unfolding p by simp
  have "prefix handled ?ms \<and> (\<exists>r' c'. partition_view ''t'' 0 s' = Some (r', c') \<and>
      (handled \<noteq> [] \<longrightarrow> r' = Some (rec_offset (last handled) + 1)) \<and> (handled = [] \<longrightarrow> r' = None) \<and>
      (\<forall>m \<in> set ?ms - set handled. \<forall>v. Some v \<in> {r', c'} \<longrightarrow> v \<le> rec_offset m))"
    by (rule at_least_once [OF p sample_runner_view]) (auto simp: keeps_view_def sample_messages_def tx_record_def)
  moreover have "handled = [tx_record 5 1 None False]" using h calculation by (auto simp: prefix_Cons tx_record_def)
  ultimately show ?thesis unfolding p Let_def by (auto simp: tx_record_def)
qed

text \<open>A loop that ends without an error has handled the whole batch, unless the consumer was stopped or the partition paused or sought.\<close>

lemma interrupted:
  "processEachMessage cfg env topic prt i messages s = ((Inr u, s'), handled) \<Longrightarrow>
   handled = messages \<or> \<not> running s' \<or> hasSeekOffset topic prt (group s') \<or> cg_isPaused topic prt (group s')"
proof (induction messages arbitrary: i s handled)
  case (Cons message messages)
  show ?case
  proof (rule ccontr)
    assume stop: "\<not> ?case"
    then have go: "running s" "\<not> hasSeekOffset topic prt (group s)" using Cons.prems by (auto split: if_splits)
    then obtain s1 where "me_eachMessage env i message s = (Inr (), s1)"
      using Cons.prems by (cases "me_eachMessage env i message s") (auto simp: andThen_def split: sum.splits prod.splits)
    then obtain s2 handled' where "processEachMessage cfg env topic prt (i + 1) messages s2 = ((Inr u, s'), handled')" "handled = message # handled'"
      using Cons.prems go stop by (auto split: prod.splits sum.splits if_splits)
    then show False using Cons.IH stop by blast
  qed
qed simp

text \<open>a batch whose messages were all filtered out (control records, aborted or compacted messages) still
  moves the consumer: handling it resolves the position past the offset it was fetched from, so the next
  fetch does not return it again.\<close>

theorem filtered_batch_progress:
  assumes "pd_messages pd \<noteq> []" "isEmpty (new_Batch topic fetched pd)" "running s" "partition_view topic (pd_partition pd) s = Some (r, c)"
  shows "\<exists>v c'. partition_view topic (pd_partition pd) (snd (handleBatch cfg env (new_Batch topic fetched pd) s)) = Some (Some v, c') \<and> fetched < v"
proof -
  let ?b = "new_Batch topic fetched pd"
  define v where "v = bt_lastOffset ?b + 1"
  have v: "fetched < v" using lastOffset_progress [OF assms(1), of fetched topic] by (simp add: v_def)
  have b: "bt_topic ?b = topic" "bt_partition ?b = pd_partition pd" "isEmptyDueToFiltering ?b"
    using assms(1,2) by (simp_all add: new_Batch_def Let_def isEmptyDueToFiltering_def)
  obtain s1 where s1: "on_group (cg_resolveOffset topic (pd_partition pd) (bt_lastOffset ?b)) s = (Inr (), s1)"
      "partition_view topic (pd_partition pd) s1 = Some (Some v, c)"
    using resolve_at [OF assms(4)] unfolding v_def by blast
  obtain c2 where v2: "partition_view topic (pd_partition pd) (snd (autoCommitOffsetsIfNecessary cfg (be_commit env) s1)) = Some (Some v, c2)"
    using may_commitD [OF may_commit_autoIfNecessary s1(2)] by blast
  obtain c3 where v3: "partition_view topic (pd_partition pd) (snd (heartbeat cfg (be_heartbeat env) (be_rebalance env)
      (snd (autoCommitOffsetsIfNecessary cfg (be_commit env) s1)))) = Some (Some v, c3)"
    using may_commitD [OF may_commit_heartbeat v2] by blast
  have "handleBatch cfg env ?b s = andThen (autoCommitOffsetsIfNecessary cfg (be_commit env) s1)
      (\<lambda>_. heartbeat cfg (be_heartbeat env) (be_rebalance env))"
    using assms(3) b s1(1) by (simp add: handleBatch_def andThen_def)
  then have "snd (handleBatch cfg env ?b s) = snd (autoCommitOffsetsIfNecessary cfg (be_commit env) s1) \<or>
      snd (handleBatch cfg env ?b s) = snd (heartbeat cfg (be_heartbeat env) (be_rebalance env) (snd (autoCommitOffsetsIfNecessary cfg (be_commit env) s1)))"
    by (auto simp: andThen_def split: prod.splits sum.splits)
  then show ?thesis using v v2 v3 by metis
qed

theorem filtered_batch_progress_witness:
  "let pd = \<lparr>pd_partition = 0, pd_highWatermark = 20, pd_abortedTransactions = None, pd_messages = [tx_record 5 1 None True]\<rparr>
   in \<exists>v c'. partition_view ''t'' 0 (snd (handleBatch sample_runner_config
        \<lparr>be_handler = NoHandler, be_heartbeat = \<lparr>hb_now = 1, hb_answer = Inr (), hb_after = 2\<rparr>, be_rebalance = sample_commit, be_commit = sample_commit\<rparr>
        (new_Batch ''t'' 5 pd) sample_runner)) = Some (Some v, c') \<and> 5 < v"
  unfolding Let_def
  using filtered_batch_progress [of "\<lparr>pd_partition = 0, pd_highWatermark = 20, pd_abortedTransactions = None, pd_messages = [tx_record 5 1 None True]\<rparr>"
      "''t''" 5 sample_runner None "Some 5"] sample_runner_view
  by (simp add: sample_runner_def isEmpty_def new_Batch_def filterAbortedMessages_def tx_record_def)

end
