(* ===== verification/Fetch_Manager.thy ===== *)
theory Fetch_Manager
  imports Consumer_Runner
begin

text \<open>
  The concurrent part of the consumer: \<^verbatim>\<open>src/consumer/fetcher.js\<close>, \<^verbatim>\<open>fetchManager.js\<close>,
  \<^verbatim>\<open>workerQueue.js\<close> and \<^verbatim>\<open>worker.js\<close> with \<^verbatim>\<open>src/utils/sharedPromiseTo.js\<close>. There is a fetcher per
  broker; all of them push batches into one queue that the workers empty. JavaScript runs without
  preemption between two awaits, so the steps below are the sections between awaits, in any order.
\<close>

subsection \<open>State\<close>

datatype settlement = Pending | Fulfilled | Rejected err

datatype fetcher_phase = Fetching | Pushing "(batch \<times> settlement) list" | Ended

record fetcher =
  isRunning :: bool
  ft_phase :: fetcher_phase

text \<open>An entry of the queue: the batch and the promise of the push that waits for it.\<close>

record item =
  it_batch :: batch
  it_node :: int
  it_index :: nat

text \<open>
  A worker is idle, handles an entry, or its loop has ended and the shared promise has not been
  cleared yet, so that \<^verbatim>\<open>run\<close> still returns the old promise.
\<close>

datatype worker = Idle | Busy item | Ending

record manager =
  fm_queue :: "item list"
  fm_workers :: "worker list"
  partitionAssignments :: "(string \<times> int) list"
  fm_fetchers :: "(int \<times> fetcher) list"

definition seq_of :: "nat \<Rightarrow> (nat \<Rightarrow> 'a) \<Rightarrow> 'a list" where
  "seq_of n callback = map callback [0..<n]"

definition createFetchManager :: "nat \<Rightarrow> manager" where
  "createFetchManager concurrency =
     \<lparr>fm_queue = [], fm_workers = seq_of concurrency (\<lambda>_. Idle), partitionAssignments = [], fm_fetchers = []\<rparr>"

definition createFetchers :: "int list \<Rightarrow> manager \<Rightarrow> err + manager" where
  "createFetchers nodeIds m =
     (if nodeIds = [] then Inl new_KafkaJSNoBrokerAvailableError
      else Inr (m\<lparr>partitionAssignments := [], fm_fetchers := map (\<lambda>n. (n, \<lparr>isRunning = True, ft_phase = Fetching\<rparr>)) nodeIds\<rparr>))"

definition shouldRebalance :: "int list \<Rightarrow> int list \<Rightarrow> bool" where
  "shouldRebalance nodeIds current \<longleftrightarrow>
     (length nodeIds \<noteq> length current \<or> (\<exists>n \<in> set nodeIds. n \<notin> set current)) \<and> current \<noteq> []"

subsection \<open>The worker queue\<close>

fun run_worker :: "worker \<Rightarrow> item list \<Rightarrow> worker \<times> item list" where
  "run_worker Idle [] = (Ending, [])"
| "run_worker Idle (it # q) = (Busy it, q)"
| "run_worker w q = (w, q)"

fun run_workers :: "worker list \<Rightarrow> item list \<Rightarrow> worker list \<times> item list" where
  "run_workers [] q = ([], q)"
| "run_workers (w # ws) q =
     (let (w', q') = run_worker w q; (ws', q'') = run_workers ws q' in (w' # ws', q''))"

definition queue_push :: "int \<Rightarrow> batch list \<Rightarrow> manager \<Rightarrow> manager" where
  "queue_push node batches m =
     (let items = map (\<lambda>(i, b). \<lparr>it_batch = b, it_node = node, it_index = i\<rparr>) (enumerate 0 batches);
          (ws, q) = run_workers (fm_workers m) (fm_queue m @ items)
      in m\<lparr>fm_workers := ws, fm_queue := q\<rparr>)"

text \<open>What \<^verbatim>\<open>push\<close> does once every promise is settled: it throws the first rejection.\<close>

definition settled :: "(batch \<times> settlement) list \<Rightarrow> bool" where
  "settled ps \<longleftrightarrow> (\<forall>p \<in> set ps. snd p \<noteq> Pending)"

fun push_result :: "(batch \<times> settlement) list \<Rightarrow> err + unit" where
  "push_result [] = Inr ()"
| "push_result ((b, Rejected e) # ps) = Inl e"
| "push_result (p # ps) = push_result ps"

subsection \<open>A fetcher\<close>

definition assignmentKey :: "batch \<Rightarrow> string" where
  "assignmentKey b = bt_topic b @ ''|'' @ js_number_string (bt_partition b)"

definition filterUnassignedBatches :: "int \<Rightarrow> (string \<times> int) list \<Rightarrow> batch list \<Rightarrow> batch list" where
  "filterUnassignedBatches node asg batches =
     filter (\<lambda>b. case map_of asg (assignmentKey b) of None \<Rightarrow> True | Some n \<Rightarrow> n = node) batches"

definition assignTopicPartition :: "int \<Rightarrow> (string \<times> int) list \<Rightarrow> batch \<Rightarrow> (string \<times> int) list" where
  "assignTopicPartition node asg b = AList.update (assignmentKey b) node asg"

definition unassignTopicPartition :: "(string \<times> int) list \<Rightarrow> batch \<Rightarrow> (string \<times> int) list" where
  "unassignTopicPartition asg b = AList.delete (assignmentKey b) asg"

definition put_fetcher :: "int \<Rightarrow> fetcher \<Rightarrow> manager \<Rightarrow> manager" where
  "put_fetcher node f m = m\<lparr>fm_fetchers := AList.update node f (fm_fetchers m)\<rparr>"

text \<open>The loop of \<^verbatim>\<open>start\<close> after a fetch has returned its batches, and after the push of them has ended.\<close>

definition next_round :: "int \<Rightarrow> fetcher \<Rightarrow> manager \<Rightarrow> manager" where
  "next_round node f m = put_fetcher node (f\<lparr>ft_phase := (if isRunning f then Fetching else Ended)\<rparr>) m"

definition fail_fetcher :: "int \<Rightarrow> fetcher \<Rightarrow> manager \<Rightarrow> manager" where
  "fail_fetcher node f m = put_fetcher node (f\<lparr>isRunning := False, ft_phase := Ended\<rparr>) m"

definition fetched :: "int \<Rightarrow> fetcher \<Rightarrow> batch list \<Rightarrow> manager \<Rightarrow> manager" where
  "fetched node f batches m =
     (let available = filterUnassignedBatches node (partitionAssignments m) batches
      in if isRunning f \<and> available \<noteq> []
         then queue_push node available
                (put_fetcher node (f\<lparr>ft_phase := Pushing (map (\<lambda>b. (b, Pending)) available)\<rparr>)
                  (m\<lparr>partitionAssignments := foldl (assignTopicPartition node) (partitionAssignments m) available\<rparr>))
         else next_round node f m)"

definition pushed :: "int \<Rightarrow> fetcher \<Rightarrow> (batch \<times> settlement) list \<Rightarrow> manager \<Rightarrow> manager" where
  "pushed node f ps m =
     (let m = m\<lparr>partitionAssignments := foldl unassignTopicPartition (partitionAssignments m) (map fst ps)\<rparr>
      in case push_result ps of Inl e \<Rightarrow> fail_fetcher node f m | Inr _ \<Rightarrow> next_round node f m)"

subsection \<open>A worker\<close>

definition settle :: "item \<Rightarrow> settlement \<Rightarrow> (int \<times> fetcher) list \<Rightarrow> (int \<times> fetcher) list" where
  "settle it v fs =
     (case map_of fs (it_node it) of
        Some f \<Rightarrow>
          (case ft_phase f of
             Pushing ps \<Rightarrow> AList.update (it_node it) (f\<lparr>ft_phase := Pushing (ps[it_index it := (it_batch it, v)])\<rparr>) fs
           | _ \<Rightarrow> fs)
      | None \<Rightarrow> fs)"

text \<open>The handler of worker \<open>w\<close> has returned or thrown: its promise is settled and the loop goes on.\<close>

definition handled :: "nat \<Rightarrow> item \<Rightarrow> err + unit \<Rightarrow> manager \<Rightarrow> manager" where
  "handled w it r m =
     (let m = m\<lparr>fm_fetchers := settle it (case r of Inl e \<Rightarrow> Rejected e | Inr _ \<Rightarrow> Fulfilled) (fm_fetchers m)\<rparr>
      in case fm_queue m of
           [] \<Rightarrow> m\<lparr>fm_workers := (fm_workers m)[w := Ending]\<rparr>
         | it' # q \<Rightarrow> m\<lparr>fm_queue := q, fm_workers := (fm_workers m)[w := Busy it']\<rparr>)"

definition clear_promise :: "nat \<Rightarrow> manager \<Rightarrow> manager" where
  "clear_promise w m = m\<lparr>fm_workers := (fm_workers m)[w := Idle]\<rparr>"

subsection \<open>The manager\<close>

definition fm_stop :: "manager \<Rightarrow> manager" where
  "fm_stop m = m\<lparr>fm_fetchers := map (\<lambda>(n, f). (n, f\<lparr>isRunning := False\<rparr>)) (fm_fetchers m)\<rparr>"

datatype fetch_error = FetcherRebalance | OtherError err

text \<open>
  After the fetchers have failed and stopped, \<^verbatim>\<open>start\<close> begins again with new ones, or throws;
  \<open>None\<close> is the \<^verbatim>\<open>continue\<close>.
\<close>

definition fm_continue :: "fetch_error \<Rightarrow> int list \<Rightarrow> manager \<Rightarrow> err option \<times> manager" where
  "fm_continue e nodeIds m =
     (case e of
        FetcherRebalance \<Rightarrow> (case createFetchers nodeIds m of Inl e \<Rightarrow> (Some e, m) | Inr m' \<Rightarrow> (None, m'))
      | OtherError e \<Rightarrow> (Some e, m))"

text \<open>
  The steps of the manager and its fetchers; new fetchers are created when all have ended. A response
  has a partition at most once, and the ids of the brokers are different.
\<close>

inductive fm_step :: "manager \<Rightarrow> manager \<Rightarrow> bool" where
  fs_fetched: "map_of (fm_fetchers m) node = Some f \<Longrightarrow> ft_phase f = Fetching \<Longrightarrow> distinct (map assignmentKey batches) \<Longrightarrow>
    fm_step m (fetched node f batches m)"
| fs_failed: "map_of (fm_fetchers m) node = Some f \<Longrightarrow> ft_phase f = Fetching \<Longrightarrow> fm_step m (fail_fetcher node f m)"
| fs_handled: "w < length (fm_workers m) \<Longrightarrow> fm_workers m ! w = Busy it \<Longrightarrow> fm_step m (handled w it r m)"
| fs_cleared: "w < length (fm_workers m) \<Longrightarrow> fm_workers m ! w = Ending \<Longrightarrow> fm_step m (clear_promise w m)"
| fs_pushed: "map_of (fm_fetchers m) node = Some f \<Longrightarrow> ft_phase f = Pushing ps \<Longrightarrow> settled ps \<Longrightarrow> fm_step m (pushed node f ps m)"
| fs_stop: "fm_step m (fm_stop m)"
| fs_start: "(\<And>node f. (node, f) \<in> set (fm_fetchers m) \<Longrightarrow> ft_phase f = Ended) \<Longrightarrow> distinct nodeIds \<Longrightarrow>
    createFetchers nodeIds m = Inr m' \<Longrightarrow> fm_step m m'"

subsection \<open>Keys\<close>

lemma bar_not_in_number: "CHR ''|'' \<notin> set (js_number_string i)"
proof -
  have "CHR ''|'' \<notin> set (dec_digits n)" for n using set_dec_digits [of "CHR ''|''" n] by auto
  then show ?thesis by (simp add: js_number_string_def)
qed

lemma split_at_first:
  "c \<notin> set xs \<Longrightarrow> c \<notin> set xs' \<Longrightarrow> xs @ c # ys = xs' @ c # ys' \<Longrightarrow> xs = xs' \<and> ys = ys'"
proof (induction xs arbitrary: xs')
  case Nil
  then show ?case by (cases xs') auto
next
  case (Cons x xs)
  then show ?case by (cases xs') auto
qed

lemma dec_digits_inject: "dec_digits a = dec_digits b \<Longrightarrow> a = b"
  using parse_dec_digits by (metis option.inject)

lemma js_number_string_inject: "js_number_string i = js_number_string j \<Longrightarrow> i = j"
proof -
  have minus: "dec_digits n \<noteq> CHR ''-'' # xs" for n xs using set_dec_digits [of "CHR ''-''" n] by auto
  show "js_number_string i = js_number_string j \<Longrightarrow> i = j"
    using minus minus [symmetric] by (auto simp: js_number_string_def dest!: dec_digits_inject split: if_splits)
qed

lemma assignmentKey_eq: "assignmentKey a = assignmentKey b \<longleftrightarrow> bt_topic a = bt_topic b \<and> bt_partition a = bt_partition b"
proof
  assume "assignmentKey a = assignmentKey b"
  then have "rev (js_number_string (bt_partition a)) @ CHR ''|'' # rev (bt_topic a) = rev (js_number_string (bt_partition b)) @ CHR ''|'' # rev (bt_topic b)"
    unfolding assignmentKey_def by (metis append.assoc append_Cons append_Nil rev.simps(2) rev_append)
  then have "rev (js_number_string (bt_partition a)) = rev (js_number_string (bt_partition b)) \<and> rev (bt_topic a) = rev (bt_topic b)"
    by (intro split_at_first) (simp_all add: bar_not_in_number)
  then show "bt_topic a = bt_topic b \<and> bt_partition a = bt_partition b" using js_number_string_inject by simp
qed (simp add: assignmentKey_def)

subsection \<open>Entries in flight\<close>

fun busy :: "worker \<Rightarrow> item list" where
  "busy (Busy it) = [it]"
| "busy _ = []"

definition in_flight :: "manager \<Rightarrow> item list" where
  "in_flight m = fm_queue m @ concat (map busy (fm_workers m))"

definition promise :: "item \<Rightarrow> int \<times> nat" where
  "promise it = (it_node it, it_index it)"

text \<open>The phase of a fetcher, and the batches it waits for.\<close>

definition phase_of :: "(int \<times> fetcher) list \<Rightarrow> int \<Rightarrow> fetcher_phase option" where
  "phase_of fs node = map_option ft_phase (map_of fs node)"

definition awaits :: "(int \<times> fetcher) list \<Rightarrow> item \<Rightarrow> bool" where
  "awaits fs it \<longleftrightarrow> (\<exists>ps. phase_of fs (it_node it) = Some (Pushing ps) \<and> it_index it < length ps \<and> ps ! it_index it = (it_batch it, Pending))"

definition assigned_to_pusher :: "(int \<times> fetcher) list \<Rightarrow> (string \<times> int) list \<Rightarrow> bool" where
  "assigned_to_pusher fs asg \<longleftrightarrow> (\<forall>node ps. phase_of fs node = Some (Pushing ps) \<longrightarrow>
     distinct (map (assignmentKey \<circ> fst) ps) \<and> (\<forall>p \<in> set ps. map_of asg (assignmentKey (fst p)) = Some node))"

definition fm_inv :: "manager \<Rightarrow> bool" where
  "fm_inv m \<longleftrightarrow> assigned_to_pusher (fm_fetchers m) (partitionAssignments m) \<and>
     (\<forall>it \<in> set (in_flight m). awaits (fm_fetchers m) it) \<and> distinct (map promise (in_flight m))"

lemma in_flight_frame [simp]:
  "in_flight (m\<lparr>partitionAssignments := asg\<rparr>) = in_flight m" "in_flight (m\<lparr>fm_fetchers := fs\<rparr>) = in_flight m"
  "in_flight (put_fetcher node f m) = in_flight m"
  by (simp_all add: in_flight_def put_fetcher_def)

lemma fm_inv_awaits:
  assumes "fm_inv m" "it \<in> set (in_flight m)"
  shows "\<exists>ps. phase_of (fm_fetchers m) (it_node it) = Some (Pushing ps) \<and> it_index it < length ps \<and> ps ! it_index it = (it_batch it, Pending)"
  using assms unfolding fm_inv_def awaits_def by blast

lemma fm_inv_exclusive:
  assumes "fm_inv m"
  shows "distinct (map (assignmentKey \<circ> it_batch) (in_flight m))"
proof -
  have d: "distinct (in_flight m)" "inj_on promise (set (in_flight m))" using assms by (auto simp: fm_inv_def distinct_map)
  have "inj_on (assignmentKey \<circ> it_batch) (set (in_flight m))"
  proof (rule inj_onI)
    fix x y assume xy: "x \<in> set (in_flight m)" "y \<in> set (in_flight m)" "(assignmentKey \<circ> it_batch) x = (assignmentKey \<circ> it_batch) y"
    obtain ps where ps: "phase_of (fm_fetchers m) (it_node x) = Some (Pushing ps)" "it_index x < length ps" "ps ! it_index x = (it_batch x, Pending)"
      using assms xy(1) by (auto simp: fm_inv_def awaits_def)
    obtain qs where qs: "phase_of (fm_fetchers m) (it_node y) = Some (Pushing qs)" "it_index y < length qs" "qs ! it_index y = (it_batch y, Pending)"
      using assms xy(2) by (auto simp: fm_inv_def awaits_def)
    have asg: "assigned_to_pusher (fm_fetchers m) (partitionAssignments m)" using assms by (simp add: fm_inv_def)
    have "(it_batch x, Pending) \<in> set ps" "(it_batch y, Pending) \<in> set qs" using ps(2,3) qs(2,3) by (metis nth_mem)+
    then have "Some (it_node x) = Some (it_node y)"
      using asg ps(1) qs(1) xy(3) unfolding assigned_to_pusher_def comp_def by (metis fst_conv)
    then have node: "it_node x = it_node y" "qs = ps" using ps(1) qs(1) by auto
    have "distinct (map (assignmentKey \<circ> fst) ps)" using asg ps(1) by (simp add: assigned_to_pusher_def)
    then have "it_index x = it_index y"
      using ps(2,3) qs(2,3) xy(3) node(2) by (auto simp: distinct_conv_nth) (metis fst_conv)
    then have "promise x = promise y" using node(1) by (simp add: promise_def)
    then show "x = y" by (rule inj_onD [OF d(2) _ xy(1,2)])
  qed
  then show ?thesis using d(1) by (simp add: distinct_map)
qed

text \<open>The order of the entries does not matter to the invariant.\<close>

lemma fm_invI:
  assumes "assigned_to_pusher (fm_fetchers m) (partitionAssignments m)" "mset (in_flight m) = mset its"
    "\<And>it. it \<in> set its \<Longrightarrow> awaits (fm_fetchers m) it" "distinct (map promise its)"
  shows "fm_inv m"
proof -
  have "set (in_flight m) = set its" using assms(2) by (rule mset_eq_setD)
  moreover have "distinct (map promise (in_flight m)) = distinct (map promise its)"
    by (rule mset_eq_imp_distinct_iff) (simp add: assms(2))
  ultimately show ?thesis using assms(1,3,4) by (simp add: fm_inv_def)
qed

lemma run_workers_mset:
  "run_workers ws q = (ws', q') \<Longrightarrow> mset (q' @ concat (map busy ws')) = mset (q @ concat (map busy ws))"
proof (induction ws arbitrary: q ws' q')
  case (Cons w ws)
  obtain w1 q1 where r: "run_worker w q = (w1, q1)" by (cases "run_worker w q")
  obtain ws2 q2 where rs: "run_workers ws q1 = (ws2, q2)" by (cases "run_workers ws q1")
  have "mset q1 + mset (busy w1) = mset q + mset (busy w)" using r by (cases "(w, q)" rule: run_worker.cases) auto
  moreover have "mset q2 + mset (concat (map busy ws2)) = mset q1 + mset (concat (map busy ws))" using Cons.IH [OF rs] by simp
  moreover have "ws' = w1 # ws2" "q' = q2" using Cons.prems r rs by auto
  ultimately show ?case
    by (simp add: union_assoc) (metis (no_types, lifting) union_assoc union_commute union_lcomm)
qed simp

subsection \<open>Steps keep the invariant\<close>

lemma phase_of_update: "phase_of (AList.update node f fs) n = (if n = node then Some (ft_phase f) else phase_of fs n)"
  by (simp add: phase_of_def update_conv')

lemma phase_of_SomeI: "map_of fs node = Some f \<Longrightarrow> phase_of fs node = Some (ft_phase f)"
  by (simp add: phase_of_def)

text \<open>A fetcher that waits for nothing, or for settled promises only, has no entry in flight.\<close>

lemma no_entry:
  assumes "fm_inv m" "phase_of (fm_fetchers m) node = Some ph" "\<And>ps. ph = Pushing ps \<Longrightarrow> settled ps" "it \<in> set (in_flight m)"
  shows "it_node it \<noteq> node"
proof
  assume "it_node it = node"
  then obtain ps where "ph = Pushing ps" "it_index it < length ps" "ps ! it_index it = (it_batch it, Pending)"
    using fm_inv_awaits [OF assms(1,4)] assms(2) by auto
  then show False using assms(3) nth_mem unfolding settled_def by (metis snd_conv)
qed

text \<open>Such a fetcher may change its phase to one that waits for nothing, and give up its partitions.\<close>

lemma fm_inv_leave:
  assumes "fm_inv m" "phase_of (fm_fetchers m) node = Some ph" "\<And>ps. ph = Pushing ps \<Longrightarrow> settled ps" "\<And>ps. ft_phase f \<noteq> Pushing ps"
    and asg: "\<And>k n. n \<noteq> node \<Longrightarrow> map_of (partitionAssignments m) k = Some n \<Longrightarrow> map_of asg k = Some n"
  shows "fm_inv (put_fetcher node f (m\<lparr>partitionAssignments := asg\<rparr>))"
proof -
  let ?m = "put_fetcher node f (m\<lparr>partitionAssignments := asg\<rparr>)"
  have other: "it_node it \<noteq> node" if "it \<in> set (in_flight m)" for it using no_entry [OF assms(1-3) that] .
  have "assigned_to_pusher (fm_fetchers ?m) asg"
    unfolding assigned_to_pusher_def
  proof (intro allI impI)
    fix n ps assume "phase_of (fm_fetchers ?m) n = Some (Pushing ps)"
    then have n: "n \<noteq> node" "phase_of (fm_fetchers m) n = Some (Pushing ps)"
      using assms(4) by (auto simp: put_fetcher_def phase_of_update split: if_splits)
    then show "distinct (map (assignmentKey \<circ> fst) ps) \<and> (\<forall>p \<in> set ps. map_of asg (assignmentKey (fst p)) = Some n)"
      using assms(1) asg unfolding fm_inv_def assigned_to_pusher_def by blast
  qed
  moreover have "awaits (fm_fetchers ?m) it" if "it \<in> set (in_flight m)" for it
    using assms(1) that other [OF that] unfolding fm_inv_def awaits_def by (auto simp: put_fetcher_def phase_of_update)
  moreover have "partitionAssignments ?m = asg" by (simp add: put_fetcher_def)
  ultimately show ?thesis using assms(1) unfolding fm_inv_def by simp
qed

lemma map_of_unassign:
  "map_of (foldl unassignTopicPartition asg bs) k = (if k \<in> assignmentKey ` set bs then None else map_of asg k)"
  by (induction bs arbitrary: asg) (auto simp: unassignTopicPartition_def delete_conv' restrict_map_def)

lemma map_of_assign:
  "map_of (foldl (assignTopicPartition node) asg bs) k = (if k \<in> assignmentKey ` set bs then Some node else map_of asg k)"
  by (induction bs arbitrary: asg) (auto simp: assignTopicPartition_def update_conv')

lemma fm_inv_next_round:
  assumes "fm_inv m" "map_of (fm_fetchers m) node = Some f" "ft_phase f = Fetching"
  shows "fm_inv (next_round node f m)" "fm_inv (fail_fetcher node f m)"
proof -
  have ph: "phase_of (fm_fetchers m) node = Some Fetching" using phase_of_SomeI [OF assms(2)] assms(3) by simp
  have "fm_inv (put_fetcher node f' (m\<lparr>partitionAssignments := partitionAssignments m\<rparr>))" if "\<And>ps. ft_phase f' \<noteq> Pushing ps" for f'
    by (rule fm_inv_leave [OF assms(1) ph]) (use that in auto)
  then show "fm_inv (next_round node f m)" "fm_inv (fail_fetcher node f m)" by (simp_all add: next_round_def fail_fetcher_def)
qed

lemma fm_inv_pushed:
  assumes "fm_inv m" "map_of (fm_fetchers m) node = Some f" "ft_phase f = Pushing ps" "settled ps"
  shows "fm_inv (pushed node f ps m)"
proof -
  have ph: "phase_of (fm_fetchers m) node = Some (Pushing ps)" using phase_of_SomeI [OF assms(2)] assms(3) by simp
  have own: "map_of (partitionAssignments m) (assignmentKey (fst p)) = Some node" if "p \<in> set ps" for p
    using assms(1) ph that unfolding fm_inv_def assigned_to_pusher_def by blast
  let ?asg = "foldl unassignTopicPartition (partitionAssignments m) (map fst ps)"
  have "fm_inv (put_fetcher node f' (m\<lparr>partitionAssignments := ?asg\<rparr>))" if "\<And>qs. ft_phase f' \<noteq> Pushing qs" for f'
  proof (rule fm_inv_leave [OF assms(1) ph])
    show "settled qs" if "Pushing ps = Pushing qs" for qs using that assms(4) by simp
    show "map_of ?asg k = Some n" if "n \<noteq> node" "map_of (partitionAssignments m) k = Some n" for k n
      using that own by (auto simp: map_of_unassign)
  qed (rule that)
  then show ?thesis by (simp add: pushed_def Let_def next_round_def fail_fetcher_def split: sum.split)
qed

definition push_items :: "int \<Rightarrow> batch list \<Rightarrow> item list" where
  "push_items node bs = map (\<lambda>(i, b). \<lparr>it_batch = b, it_node = node, it_index = i\<rparr>) (enumerate 0 bs)"

lemma push_items_props:
  "it \<in> set (push_items node bs) \<Longrightarrow> it_node it = node \<and> it_index it < length bs \<and> bs ! it_index it = it_batch it"
  "distinct (map promise (push_items node bs))"
proof -
  have "map promise (push_items node bs) = map (Pair node) (map fst (enumerate 0 bs))"
    by (simp add: push_items_def promise_def split_def del: map_fst_enumerate)
  then show "distinct (map promise (push_items node bs))" by (simp add: distinct_map inj_on_def)
qed (auto simp: push_items_def promise_def in_set_enumerate_eq)

lemma in_flight_push: "mset (in_flight (queue_push node bs m)) = mset (push_items node bs @ in_flight m)"
proof -
  obtain ws q where r: "run_workers (fm_workers m) (fm_queue m @ push_items node bs) = (ws, q)" by fastforce
  then have "queue_push node bs m = m\<lparr>fm_workers := ws, fm_queue := q\<rparr>" by (simp add: queue_push_def push_items_def Let_def)
  then show ?thesis using run_workers_mset [OF r] by (simp add: in_flight_def)
qed

lemma queue_push_frame [simp]:
  "fm_fetchers (queue_push node bs m) = fm_fetchers m" "partitionAssignments (queue_push node bs m) = partitionAssignments m"
  by (simp_all add: queue_push_def Let_def split: prod.split)

lemma fm_inv_fetched:
  assumes "fm_inv m" "map_of (fm_fetchers m) node = Some f" "ft_phase f = Fetching" "distinct (map assignmentKey batches)"
  shows "fm_inv (fetched node f batches m)"
proof -
  define av where "av = filterUnassignedBatches node (partitionAssignments m) batches"
  define ps where "ps = map (\<lambda>b. (b, Pending)) av"
  define m' where "m' = put_fetcher node (f\<lparr>ft_phase := Pushing ps\<rparr>)
    (m\<lparr>partitionAssignments := foldl (assignTopicPartition node) (partitionAssignments m) av\<rparr>)"
  have ph: "phase_of (fm_fetchers m) node = Some Fetching" using phase_of_SomeI [OF assms(2)] assms(3) by simp
  have ph': "phase_of (fm_fetchers m') n = (if n = node then Some (Pushing ps) else phase_of (fm_fetchers m) n)" for n
    by (simp add: m'_def put_fetcher_def phase_of_update)
  have asg: "map_of (partitionAssignments m') k = (if k \<in> assignmentKey ` set av then Some node else map_of (partitionAssignments m) k)" for k
    by (simp add: m'_def put_fetcher_def map_of_assign)
  have free: "n = node" if "b \<in> set av" "map_of (partitionAssignments m) (assignmentKey b) = Some n" for b n
    using that by (auto simp: av_def filterUnassignedBatches_def)
  have "fm_inv (queue_push node av m')"
  proof (rule fm_invI)
    show "mset (in_flight (queue_push node av m')) = mset (push_items node av @ in_flight m)"
      unfolding in_flight_push by (simp add: m'_def)
    have "assigned_to_pusher (fm_fetchers m') (partitionAssignments m')"
      unfolding assigned_to_pusher_def
    proof (intro allI impI)
      fix n qs assume n: "phase_of (fm_fetchers m') n = Some (Pushing qs)"
      show "distinct (map (assignmentKey \<circ> fst) qs) \<and> (\<forall>p \<in> set qs. map_of (partitionAssignments m') (assignmentKey (fst p)) = Some n)"
      proof (cases "n = node")
        case True
        have "distinct (map assignmentKey av)" using assms(4) unfolding av_def filterUnassignedBatches_def by (rule distinct_map_filter)
        then show ?thesis using n True by (auto simp: ph' asg ps_def comp_def)
      next
        case False
        then have "phase_of (fm_fetchers m) n = Some (Pushing qs)" using n by (simp add: ph')
        then have old: "distinct (map (assignmentKey \<circ> fst) qs)" "\<And>p. p \<in> set qs \<Longrightarrow> map_of (partitionAssignments m) (assignmentKey (fst p)) = Some n"
          using assms(1) unfolding fm_inv_def assigned_to_pusher_def by blast+
        have "assignmentKey (fst p) \<notin> assignmentKey ` set av" if "p \<in> set qs" for p
          using old(2) [OF that] free False by (metis imageE)
        then have "map_of (partitionAssignments m') (assignmentKey (fst p)) = Some n" if "p \<in> set qs" for p
          using old(2) that by (simp add: asg)
        then show ?thesis using old(1) by blast
      qed
    qed
    then show "assigned_to_pusher (fm_fetchers (queue_push node av m')) (partitionAssignments (queue_push node av m'))" by simp
    have old: "it_node it \<noteq> node" if "it \<in> set (in_flight m)" for it using no_entry [OF assms(1) ph _ that] by simp
    show "awaits (fm_fetchers (queue_push node av m')) it" if "it \<in> set (push_items node av @ in_flight m)" for it
    proof (cases "it \<in> set (push_items node av)")
      case True
      from push_items_props(1) [OF this] show ?thesis by (auto simp: awaits_def ph' ps_def)
    next
      case False
      then have "it \<in> set (in_flight m)" using that by simp
      then show ?thesis using fm_inv_awaits [OF assms(1)] old by (auto simp: awaits_def ph')
    qed
    show "distinct (map promise (push_items node av @ in_flight m))"
      using push_items_props(2) [of node av] assms(1) old by (fastforce simp: fm_inv_def promise_def dest: push_items_props(1))
  qed
  then show ?thesis using fm_inv_next_round(1) [OF assms(1-3)] by (simp add: fetched_def Let_def av_def [symmetric] ps_def [symmetric] m'_def [symmetric])
qed

text \<open>A worker that has finished an entry settles its promise and takes the next entry.\<close>

lemma mset_busy_update:
  "w < length ws \<Longrightarrow> mset (concat (map busy (ws[w := x]))) + mset (busy (ws ! w)) = mset (concat (map busy ws)) + mset (busy x)"
proof (induction ws arbitrary: w)
  case (Cons y ws)
  then show ?case by (cases w) (simp_all add: union_assoc union_commute union_lcomm)
qed simp

lemma mset_in_flight_handled:
  assumes "w < length (fm_workers m)" "fm_workers m ! w = Busy it"
  shows "add_mset it (mset (in_flight (handled w it r m))) = mset (in_flight m)"
  using mset_busy_update [OF assms(1), of Ending] mset_busy_update [OF assms(1), of "Busy (hd (fm_queue m))"] assms(2)
  by (cases "fm_queue m") (auto simp: handled_def in_flight_def Let_def)

lemma phase_of_settle:
  assumes "phase_of fs (it_node it) = Some (Pushing ps)"
  shows "phase_of (settle it v fs) n = (if n = it_node it then Some (Pushing (ps[it_index it := (it_batch it, v)])) else phase_of fs n)"
  using assms by (auto simp: settle_def phase_of_def update_conv')

lemma fm_inv_handled:
  assumes "fm_inv m" "w < length (fm_workers m)" "fm_workers m ! w = Busy it"
  shows "fm_inv (handled w it r m)"
proof -
  let ?v = "case r of Inl e \<Rightarrow> Rejected e | Inr _ \<Rightarrow> Fulfilled"
  let ?m = "handled w it r m"
  have fs: "fm_fetchers ?m = settle it ?v (fm_fetchers m)" "partitionAssignments ?m = partitionAssignments m"
    by (simp_all add: handled_def Let_def split: list.split)
  have fl: "mset (in_flight m) = mset (it # in_flight ?m)" using mset_in_flight_handled [OF assms(2,3), of r] by simp
  have "it \<in> set (in_flight m)" using mset_eq_setD [OF fl] by simp
  then obtain ps where ps: "phase_of (fm_fetchers m) (it_node it) = Some (Pushing ps)" "it_index it < length ps" "ps ! it_index it = (it_batch it, Pending)"
    using fm_inv_awaits [OF assms(1)] by blast
  have "distinct (map promise (it # in_flight ?m))"
    using assms(1) mset_eq_imp_distinct_iff [of "map promise (in_flight m)" "map promise (it # in_flight ?m)"] fl by (simp add: fm_inv_def)
  then have other: "promise x \<noteq> promise it" if "x \<in> set (in_flight ?m)" for x using that by (auto simp: image_iff)
  show ?thesis
  proof (rule fm_invI)
    have keep: "map (assignmentKey \<circ> fst) (ps[it_index it := (it_batch it, ?v)]) = map (assignmentKey \<circ> fst) ps"
      using ps(2,3) by (simp add: map_update list_update_same_conv)
    have "assignmentKey (fst p) \<in> set (map (assignmentKey \<circ> fst) ps)" if "p \<in> set (ps[it_index it := (it_batch it, ?v)])" for p
      unfolding keep [symmetric] using that by auto
    then have sub: "assignmentKey (fst p) \<in> (assignmentKey \<circ> fst) ` set ps" if "p \<in> set (ps[it_index it := (it_batch it, ?v)])" for p
      using that by simp
    show "assigned_to_pusher (fm_fetchers ?m) (partitionAssignments ?m)"
      unfolding assigned_to_pusher_def
    proof (intro allI impI)
      fix n qs assume n: "phase_of (fm_fetchers ?m) n = Some (Pushing qs)"
      have old: "distinct (map (assignmentKey \<circ> fst) ps) \<and> (\<forall>p \<in> set ps. map_of (partitionAssignments m) (assignmentKey (fst p)) = Some n)"
        if "phase_of (fm_fetchers m) n = Some (Pushing ps)" for ps
        using assms(1) that by (simp add: fm_inv_def assigned_to_pusher_def)
      show "distinct (map (assignmentKey \<circ> fst) qs) \<and> (\<forall>p \<in> set qs. map_of (partitionAssignments ?m) (assignmentKey (fst p)) = Some n)"
      proof (cases "n = it_node it")
        case True
        then have "qs = ps[it_index it := (it_batch it, ?v)]" using n by (simp add: fs phase_of_settle [OF ps(1)])
        moreover have "map_of (partitionAssignments ?m) (assignmentKey (fst p)) = Some n" if "p \<in> set (ps[it_index it := (it_batch it, ?v)])" for p
          using sub [OF that] old [of ps] ps(1) True by (auto simp: fs)
        ultimately show ?thesis using old [of ps] ps(1) True by (simp add: keep)
      qed (use n old in \<open>simp add: fs phase_of_settle [OF ps(1)]\<close>)
    qed
    show "awaits (fm_fetchers ?m) x" if "x \<in> set (in_flight ?m)" for x
    proof -
      have "x \<in> set (in_flight m)" using mset_eq_setD [OF fl] that by simp
      then show ?thesis using fm_inv_awaits [OF assms(1), of x] other [OF that] ps(1)
        by (auto simp: awaits_def fs phase_of_settle [OF ps(1)] promise_def)
    qed
    show "distinct (map promise (in_flight ?m))" using \<open>distinct (map promise (it # in_flight ?m))\<close> by simp
  qed simp
qed

lemma fm_inv_frame:
  assumes "fm_inv m" "mset (in_flight m') = mset (in_flight m)" "\<And>n. phase_of (fm_fetchers m') n = phase_of (fm_fetchers m) n"
    "partitionAssignments m' = partitionAssignments m"
  shows "fm_inv m'"
  using assms by (intro fm_invI [where its = "in_flight m"]) (auto simp: fm_inv_def awaits_def assigned_to_pusher_def)

lemma phase_of_stop: "phase_of (fm_fetchers (fm_stop m)) n = phase_of (fm_fetchers m) n"
proof -
  have "map_of (map (\<lambda>(n, f). (n, f\<lparr>isRunning := False\<rparr>)) fs) n = map_option (\<lambda>f. f\<lparr>isRunning := False\<rparr>) (map_of fs n)" for fs :: "(int \<times> fetcher) list"
    by (induction fs) auto
  then show ?thesis by (simp add: fm_stop_def phase_of_def option.map_comp comp_def)
qed

lemma phase_of_start: "phase_of (map (\<lambda>n. (n, \<lparr>isRunning = True, ft_phase = Fetching\<rparr>)) nodeIds) n \<noteq> Some (Pushing ps)"
  by (induction nodeIds) (auto simp: phase_of_def)

lemma fm_inv_step:
  assumes "fm_inv m" "fm_step m m'"
  shows "fm_inv m'"
  using assms(2,1)
proof (induction rule: fm_step.induct)
  case (fs_cleared w m)
  have "mset (concat (map busy ((fm_workers m)[w := Idle]))) = mset (concat (map busy (fm_workers m)))"
    using mset_busy_update [of w "fm_workers m" Idle] fs_cleared(1,2) by simp
  then have "mset (in_flight (clear_promise w m)) = mset (in_flight m)" by (simp add: clear_promise_def in_flight_def)
  then show ?case by (rule fm_inv_frame [OF fs_cleared(3)]) (simp_all add: clear_promise_def)
next
  case (fs_stop m)
  show ?case by (rule fm_inv_frame [OF fs_stop]) (simp_all only: phase_of_stop, simp_all add: fm_stop_def)
next
  case (fs_start m nodeIds m')
  have "in_flight m = []"
  proof (rule ccontr)
    assume "in_flight m \<noteq> []"
    then obtain ps where "phase_of (fm_fetchers m) (it_node (hd (in_flight m))) = Some (Pushing ps)"
      using fm_inv_awaits [of m "hd (in_flight m)"] fs_start by auto
    then show False using fs_start by (auto simp: phase_of_def dest!: map_of_SomeD)
  qed
  then show ?case using fs_start phase_of_start
    by (auto simp: createFetchers_def fm_inv_def assigned_to_pusher_def split: if_splits)
qed (auto intro: fm_inv_fetched fm_inv_next_round fm_inv_handled fm_inv_pushed)

interpretation fm: step_system fm_step "createFetchManager concurrency" fm_inv for concurrency
proof
  have "in_flight (createFetchManager concurrency) = []" by (auto simp: in_flight_def createFetchManager_def seq_of_def)
  then show "fm_inv (createFetchManager concurrency)"
    by (simp add: fm_inv_def assigned_to_pusher_def phase_of_def) (simp add: createFetchManager_def)
qed (rule fm_inv_step)

subsection \<open>Properties\<close>

text \<open>C17: whatever the brokers return and in whatever order the fetchers, the workers and a stop are
  interleaved, no two entries that wait in the queue or are being handled belong to the same partition: a
  partition is processed by one worker at a time, so its messages are handled in order.\<close>

theorem partitions_processed_exclusively:
  assumes "fm_step\<^sup>*\<^sup>* (createFetchManager concurrency) m"
  shows "distinct (map (\<lambda>it. (bt_topic (it_batch it), bt_partition (it_batch it))) (in_flight m))"
proof -
  have "distinct (map (assignmentKey \<circ> it_batch) (in_flight m))" by (rule fm.safe [OF fm_inv_exclusive assms])
  then show ?thesis by (auto simp: distinct_map inj_on_def assignmentKey_eq)
qed

definition sample_batch :: "string \<Rightarrow> int \<Rightarrow> batch" where
  "sample_batch topic prt = new_Batch topic 0 \<lparr>pd_partition = prt, pd_highWatermark = 1, pd_abortedTransactions = None, pd_messages = [tx_record 0 1 None False]\<rparr>"

lemma fm_step_start:
  "createFetchers nodeIds (createFetchManager c) = Inr m \<Longrightarrow> distinct nodeIds \<Longrightarrow> fm_step (createFetchManager c) m"
  by (rule fs_start) (auto simp: createFetchManager_def)

definition two_fetchers :: manager where
  "two_fetchers = (createFetchManager 1)\<lparr>fm_fetchers := [(1, \<lparr>isRunning = True, ft_phase = Fetching\<rparr>), (2, \<lparr>isRunning = True, ft_phase = Fetching\<rparr>)]\<rparr>"

lemma two_fetchers_step: "fm_step (createFetchManager 1) two_fetchers"
  by (rule fm_step_start [of "[1, 2]"]) (simp_all add: createFetchers_def two_fetchers_def createFetchManager_def)

text \<open>
  Two fetchers get batches of the same partition; the second one is filtered out.
\<close>

definition both_fetched :: manager where
  "both_fetched = fetched 2 \<lparr>isRunning = True, ft_phase = Fetching\<rparr> [sample_batch ''a'' 0, sample_batch ''a'' 1]
     (fetched 1 \<lparr>isRunning = True, ft_phase = Fetching\<rparr> [sample_batch ''a'' 0] two_fetchers)"

lemma both_fetched_run: "fm_step\<^sup>*\<^sup>* (createFetchManager 1) both_fetched"
proof -
  let ?f = "\<lparr>isRunning = True, ft_phase = Fetching\<rparr>"
  have "fm_step two_fetchers (fetched 1 ?f [sample_batch ''a'' 0] two_fetchers)"
    by (rule fs_fetched) (simp_all add: two_fetchers_def)
  moreover have "fm_step (fetched 1 ?f [sample_batch ''a'' 0] two_fetchers) both_fetched"
    unfolding both_fetched_def by (rule fs_fetched) code_simp+
  ultimately show ?thesis using two_fetchers_step by (meson converse_rtranclp_into_rtranclp rtranclp.rtrancl_refl)
qed

theorem partitions_processed_exclusively_witness:
  "map (\<lambda>it. (bt_topic (it_batch it), bt_partition (it_batch it))) (in_flight both_fetched) = [(''a'', 1), (''a'', 0)] \<and>
   distinct (map (\<lambda>it. (bt_topic (it_batch it), bt_partition (it_batch it))) (in_flight both_fetched))"
proof
  show "map (\<lambda>it. (bt_topic (it_batch it), bt_partition (it_batch it))) (in_flight both_fetched) = [(''a'', 1), (''a'', 0)]" by code_simp
qed (rule partitions_processed_exclusively [OF both_fetched_run])

text \<open>
  The shared promise of a worker is cleared after its loop has ended. A push in between starts no
  worker: the batch stays in the queue with every worker idle, until some fetcher pushes again.
\<close>

definition stranded :: manager where
  "stranded = clear_promise 0 (fetched 2 \<lparr>isRunning = True, ft_phase = Fetching\<rparr> [sample_batch ''a'' 1]
     (handled 0 \<lparr>it_batch = sample_batch ''a'' 0, it_node = 1, it_index = 0\<rparr> (Inr ())
       (fetched 1 \<lparr>isRunning = True, ft_phase = Fetching\<rparr> [sample_batch ''a'' 0] two_fetchers)))"

lemma batch_stranded:
  "fm_step\<^sup>*\<^sup>* (createFetchManager 1) stranded \<and> length (fm_queue stranded) = 1 \<and> fm_workers stranded = [Idle]"
proof -
  let ?f = "\<lparr>isRunning = True, ft_phase = Fetching\<rparr>"
  let ?it = "\<lparr>it_batch = sample_batch ''a'' 0, it_node = 1, it_index = 0\<rparr>"
  define m1 where "m1 = fetched 1 ?f [sample_batch ''a'' 0] two_fetchers"
  define m2 where "m2 = handled 0 ?it (Inr ()) m1"
  define m3 where "m3 = fetched 2 ?f [sample_batch ''a'' 1] m2"
  have "fm_step two_fetchers m1" unfolding m1_def by (rule fs_fetched) (simp_all add: two_fetchers_def)
  moreover have "fm_step m1 m2" unfolding m2_def m1_def by (rule fs_handled) code_simp+
  moreover have "fm_step m2 m3" unfolding m3_def m2_def m1_def by (rule fs_fetched) code_simp+
  moreover have "fm_step m3 stranded" unfolding stranded_def m3_def m2_def m1_def by (rule fs_cleared) code_simp+
  moreover have "length (fm_queue stranded) = 1" "fm_workers stranded = [Idle]" by code_simp+
  ultimately show ?thesis using two_fetchers_step by (meson converse_rtranclp_into_rtranclp rtranclp.rtrancl_refl)
qed

text \<open>
  A stop while the manager waits for its fetchers to end after a rebalance of the brokers is
  forgotten: the new fetchers run, and since the stopped runner answers every fetch with no batches
  at once, they never leave their loop.
\<close>

lemma stop_forgotten:
  assumes "nodeIds \<noteq> []" "fm_continue FetcherRebalance nodeIds (fm_stop m) = (r, m')" "map_of (fm_fetchers m') node = Some f" "\<not> running s"
  shows "isRunning f \<and> run_fetch cfg gcfg env recover h c node s = (Inr [], s) \<and> map_of (fm_fetchers (fetched node f [] m')) node = Some f"
proof -
  have "map_of (map (\<lambda>n. (n, \<lparr>isRunning = True, ft_phase = Fetching\<rparr>)) nodeIds) node = Some f"
    using assms(1-3) by (auto simp: fm_continue_def createFetchers_def)
  then have "f = \<lparr>isRunning = True, ft_phase = Fetching\<rparr>" by (auto dest!: map_of_SomeD)
  then show ?thesis using assms(4)
    by (simp add: run_fetch_def fetched_def filterUnassignedBatches_def next_round_def put_fetcher_def update_conv')
qed

end
