(* ===== verification/Dead_Letter_Queue.thy ===== *)
theory Dead_Letter_Queue
  imports Consumer_Runner
begin

text \<open>
  The wrapper of \<^verbatim>\<open>src/consumer/deadLetterQueue.js\<close> for message handlers: it retries the handler and
  sends a message that keeps failing to a topic of its own. The handler, the producer and the user's
  callbacks are arguments that may change the state they are given.
\<close>

definition createDLQ :: "bool \<Rightarrow> string option \<Rightarrow> err option" where
  "createDLQ has_producer topic =
     (if \<not> has_producer then Some (native_error ''Error'' ''deadLetterQueue requires a producer instance'')
      else if topic = None \<or> topic = Some [] then Some (native_error ''Error'' ''deadLetterQueue requires a topic for the dead letter queue'')
      else None)"

record payload =
  pl_topic :: string
  pl_partition :: int
  pl_message :: decoded_record

text \<open>The headers are those of the message, then the origin and the error as strings.\<close>

datatype dlq_header = Original decoded_header | Added string

record dlq_message =
  dm_key :: "buffer option"
  dm_value :: "buffer option"
  dm_headers :: "(string \<times> dlq_header) list"

definition dlq_headers :: "payload \<Rightarrow> err \<Rightarrow> (string \<times> dlq_header) list" where
  "dlq_headers p e =
     foldl (\<lambda>obj (k, v). AList.update k (Added v) obj)
       (map (\<lambda>(k, v). (k, Original v)) (dheaders (pl_message p)))
       [(''dlq.original.topic'', pl_topic p), (''dlq.original.partition'', js_number_string (pl_partition p)),
        (''dlq.original.offset'', js_number_string (rec_offset (pl_message p))),
        (''dlq.original.timestamp'', js_number_string (timestamp (pl_message p))),
        (''dlq.error.message'', e_message e), (''dlq.error.name'', e_name e)]"

record 's dlq_env =
  dq_handler :: "nat \<Rightarrow> payload \<Rightarrow> 's \<Rightarrow> (err + unit) \<times> 's"
  dq_createDLQMessage :: "(err option \<Rightarrow> payload \<Rightarrow> err + dlq_message) option"
  dq_send :: "string \<Rightarrow> dlq_message \<Rightarrow> 's \<Rightarrow> (err + unit) \<times> 's"
  dq_onFailed :: "(payload \<Rightarrow> err option \<Rightarrow> 's \<Rightarrow> (err + unit) \<times> 's) option"

text \<open>The loop of attempts: \<open>None\<close> when the handler has returned, otherwise the last error (\<open>undefined\<close> without an attempt).\<close>

function dlq_attempts :: "'s dlq_env \<Rightarrow> int \<Rightarrow> payload \<Rightarrow> nat \<Rightarrow> err option \<Rightarrow> 's \<Rightarrow> err option option \<times> 's" where
  "dlq_attempts env maxRetries p attempt lastError s =
     (if int attempt \<le> maxRetries
      then case dq_handler env attempt p s of
             (Inr _, s) \<Rightarrow> (None, s)
           | (Inl e, s) \<Rightarrow> dlq_attempts env maxRetries p (attempt + 1) (Some e) s
      else (Some lastError, s))"
  by pat_completeness auto
termination
  by (relation "measure (\<lambda>(_, maxRetries, _, attempt, _, _). nat (maxRetries + 1 - int attempt))") auto

declare dlq_attempts.simps [simp del]

definition dlq_message_for :: "'s dlq_env \<Rightarrow> payload \<Rightarrow> err option \<Rightarrow> err + dlq_message" where
  "dlq_message_for env p lastError =
     (case dq_createDLQMessage env of
        Some create \<Rightarrow> create lastError p
      | None \<Rightarrow>
          (case lastError of
             None \<Rightarrow> Inl undefined_error
           | Some e \<Rightarrow> Inr \<lparr>dm_key = dkey (pl_message p), dm_value = dvalue (pl_message p), dm_headers = dlq_headers p e\<rparr>))"

definition dead_letter :: "'s dlq_env \<Rightarrow> string \<Rightarrow> payload \<Rightarrow> err option \<Rightarrow> 's \<Rightarrow> (err + unit) \<times> 's" where
  "dead_letter env topic p lastError s =
     (case dlq_message_for env p lastError of
        Inl e \<Rightarrow> (Inl e, s)
      | Inr msg \<Rightarrow>
          andThen (dq_send env topic msg s) (\<lambda>_ s.
            case dq_onFailed env of None \<Rightarrow> (Inr (), s) | Some callback \<Rightarrow> callback p lastError s))"

definition withDLQ :: "'s dlq_env \<Rightarrow> string \<Rightarrow> int \<Rightarrow> payload \<Rightarrow> 's \<Rightarrow> (err + unit) \<times> 's" where
  "withDLQ env topic maxRetries p s =
     (case dlq_attempts env maxRetries p 0 None s of
        (None, s) \<Rightarrow> (Inr (), s)
      | (Some lastError, s) \<Rightarrow> dead_letter env topic p lastError s)"

subsection \<open>Attempts\<close>

text \<open>The state before an attempt when all earlier ones have been made, and the outcome of an attempt.\<close>

primrec before_attempt :: "'s dlq_env \<Rightarrow> payload \<Rightarrow> 's \<Rightarrow> nat \<Rightarrow> 's" where
  "before_attempt env p s 0 = s"
| "before_attempt env p s (Suc k) = snd (dq_handler env k p (before_attempt env p s k))"

definition outcome :: "'s dlq_env \<Rightarrow> payload \<Rightarrow> 's \<Rightarrow> nat \<Rightarrow> err + unit" where
  "outcome env p s k = fst (dq_handler env k p (before_attempt env p s k))"

lemma attempts_step:
  assumes "int k \<le> maxRetries"
  shows "dlq_attempts env maxRetries p k lastError (before_attempt env p s k) =
     (case outcome env p s k of
        Inr _ \<Rightarrow> (None, before_attempt env p s (Suc k))
      | Inl e \<Rightarrow> dlq_attempts env maxRetries p (Suc k) (Some e) (before_attempt env p s (Suc k)))"
  using assms by (subst dlq_attempts.simps) (auto simp: outcome_def split: prod.split sum.split)

lemma attempts_reach:
  assumes "\<And>j. j < k \<Longrightarrow> isl (outcome env p s j)" "int k \<le> maxRetries + 1"
  shows "dlq_attempts env maxRetries p 0 None s =
     dlq_attempts env maxRetries p k (if k = 0 then None else Some (projl (outcome env p s (k - 1)))) (before_attempt env p s k)"
  using assms
proof (induction k)
  case (Suc k)
  obtain e where e: "outcome env p s k = Inl e" using Suc.prems(1) [of k] by (auto simp: isl_def)
  have "dlq_attempts env maxRetries p 0 None s = dlq_attempts env maxRetries p (Suc k) (Some e) (before_attempt env p s (Suc k))"
    using Suc.IH Suc.prems attempts_step [of k maxRetries env p _ s] by (simp add: e)
  then show ?case by (simp add: e)
qed simp


text \<open>A handler that always throws the error it is given, and a log of the topics that were sent to.\<close>

definition failing_env :: "err \<Rightarrow> string list dlq_env" where
  "failing_env e = \<lparr>dq_handler = (\<lambda>_ _ s. (Inl e, s)), dq_createDLQMessage = None, dq_send = (\<lambda>topic _ s. (Inr (), topic # s)), dq_onFailed = None\<rparr>"

definition sample_payload :: payload where
  "sample_payload = \<lparr>pl_topic = ''t'', pl_partition = 0, pl_message = tx_record 5 1 None False\<rparr>"


text \<open>
  The wrapper does not tell errors of the consumer from errors of the handler: an error that a
  heartbeat inside the handler throws because the group is rebalancing does not reach the runner, and
  the message is sent to the dead letter topic.
\<close>

lemma rebalance_swallowed:
  assumes "isRebalancing e"
  shows "withDLQ (failing_env e) ''dlq'' (int n) sample_payload [] = (Inr (), [''dlq''])"
proof -
  have before: "before_attempt (failing_env e) sample_payload [] k = []" for k by (induction k) (simp_all add: failing_env_def)
  have out: "outcome (failing_env e) sample_payload [] k = Inl e" for k by (simp add: outcome_def failing_env_def)
  have "dlq_attempts (failing_env e) (int n) sample_payload 0 None [] =
      dlq_attempts (failing_env e) (int n) sample_payload (Suc n) (Some e) []"
    using attempts_reach [of "Suc n" "failing_env e" sample_payload "[]" "int n"] out before by (simp del: before_attempt.simps)
  also have "\<dots> = (Some (Some e), [])" by (subst dlq_attempts.simps) simp
  finally show ?thesis by (simp add: withDLQ_def dead_letter_def dlq_message_for_def failing_env_def andThen_def)
qed

end
