(* ===== verification/Request_Queue.thy ===== *)
theory Request_Queue
  imports Kafka_Errors Step_System Js_Object
begin

text \<open>
  The requests of a connection: \<^verbatim>\<open>src/network/requestQueue/index.js\<close> and
  \<^verbatim>\<open>src/network/requestQueue/socketRequest.js\<close>. The clock is an argument of every operation, and so is
  the function that writes a request to the socket, which may throw. Next to the fields of the class
  the state has three logs: the requests that were pushed, those that were written, and the answers
  their promises got. Instrumentation events are left out.
\<close>

datatype request_state = PENDING | SENT | COMPLETED | REJECTED

definition state_name :: "request_state \<Rightarrow> string" where
  "state_name st = (case st of PENDING \<Rightarrow> ''Symbol(PENDING)'' | SENT \<Rightarrow> ''Symbol(SENT)''
     | COMPLETED \<Rightarrow> ''Symbol(COMPLETED)'' | REJECTED \<Rightarrow> ''Symbol(REJECTED)'')"

text \<open>A request; \<open>sr_tag\<close> is its identity and that of its promise.\<close>

record socket_request =
  sr_tag :: nat
  correlationId :: int
  expectResponse :: bool
  createdAt :: int
  sentAt :: "int option"
  sr_requestTimeout :: int
  sr_state :: request_state

datatype reply = Resolved int "buffer option" | Refused err

record request_queue =
  maxInFlightRequests :: "int option"
  requestTimeout :: int
  inflight :: "(int \<times> socket_request) list"
  pending :: "socket_request list"
  throttledUntil :: int
  throttleCheck :: "int option" \<comment> \<open>the delay of the scheduled check\<close>
  issued :: "nat list"
  written :: "nat list"
  replies :: "(nat \<times> reply) list"

definition CHECK_PENDING_REQUESTS_INTERVAL :: int where "CHECK_PENDING_REQUESTS_INTERVAL = 10"

definition new_RequestQueue :: "int option \<Rightarrow> int \<Rightarrow> request_queue" where
  "new_RequestQueue maxInFlight timeout =
     \<lparr>maxInFlightRequests = maxInFlight, requestTimeout = timeout, inflight = [], pending = [], throttledUntil = - 1,
      throttleCheck = None, issued = [], written = [], replies = []\<rparr>"

subsection \<open>Requests\<close>

definition throwIfInvalidState :: "request_state list \<Rightarrow> request_state \<Rightarrow> socket_request \<Rightarrow> err + unit" where
  "throwIfInvalidState accepted st r =
     (if sr_state r \<in> set accepted then Inr ()
      else Inl (new_KafkaJSNonRetriableError (Text (''Invalid state, can't transition from '' @ state_name (sr_state r) @ '' to '' @ state_name st)) None))"

definition new_SocketRequest :: "int \<Rightarrow> nat \<Rightarrow> int \<Rightarrow> bool \<Rightarrow> int \<Rightarrow> socket_request" where
  "new_SocketRequest now tag cid expects timeout =
     \<lparr>sr_tag = tag, correlationId = cid, expectResponse = expects, createdAt = now, sentAt = None, sr_requestTimeout = timeout, sr_state = PENDING\<rparr>"

definition add_reply :: "socket_request \<Rightarrow> reply \<Rightarrow> request_queue \<Rightarrow> request_queue" where
  "add_reply r a q = q\<lparr>replies := replies q @ [(sr_tag r, a)]\<rparr>"

definition completed :: "int \<Rightarrow> buffer option \<Rightarrow> socket_request \<Rightarrow> request_queue \<Rightarrow> (err + unit) \<times> request_queue" where
  "completed sz payload r q =
     (case throwIfInvalidState [SENT] COMPLETED r of
        Inl e \<Rightarrow> (Inl e, q)
      | Inr _ \<Rightarrow> (Inr (), add_reply r (Resolved sz payload) q))"

definition rejected :: "err \<Rightarrow> socket_request \<Rightarrow> request_queue \<Rightarrow> (err + unit) \<times> request_queue" where
  "rejected e r q =
     (case throwIfInvalidState [PENDING, SENT] REJECTED r of
        Inl e' \<Rightarrow> (Inl e', q)
      | Inr _ \<Rightarrow> (Inr (), add_reply r (Refused e) q))"

text \<open>The callback \<^verbatim>\<open>send\<close> of the queue and the method around it; the entry in the map is the request itself.\<close>

definition socket_send :: "int \<Rightarrow> (socket_request \<Rightarrow> err + unit) \<Rightarrow> socket_request \<Rightarrow> request_queue \<Rightarrow> (err + socket_request) \<times> request_queue" where
  "socket_send now wr r q =
     (case throwIfInvalidState [PENDING] SENT r of
        Inl e \<Rightarrow> (Inl e, q)
      | Inr _ \<Rightarrow>
          if map_of (inflight q) (correlationId r) \<noteq> None
          then (Inl (new_KafkaJSInvariantViolation (Text ''Correlation id already exists'')), q)
          else case wr r of
                 Inl e \<Rightarrow> (Inl e, q\<lparr>inflight := AList.update (correlationId r) r (inflight q)\<rparr>)
               | Inr _ \<Rightarrow>
                   (let r' = r\<lparr>sentAt := Some now, sr_state := SENT\<rparr>
                    in (Inr r', q\<lparr>inflight := AList.update (correlationId r) r' (inflight q), written := written q @ [sr_tag r]\<rparr>)))"

subsection \<open>The queue\<close>

definition createSocketRequest :: "int \<Rightarrow> nat \<Rightarrow> int \<Rightarrow> bool \<Rightarrow> int option \<Rightarrow> request_queue \<Rightarrow> socket_request" where
  "createSocketRequest now tag cid expects custom q =
     new_SocketRequest now tag cid expects (max (requestTimeout q) (case custom of None \<Rightarrow> 0 | Some t \<Rightarrow> t))"

definition maybeThrottle :: "int \<Rightarrow> int option \<Rightarrow> request_queue \<Rightarrow> request_queue" where
  "maybeThrottle now t q =
     (case t of
        None \<Rightarrow> q
      | Some ms \<Rightarrow> if ms > 0 then q\<lparr>throttledUntil := max (now + ms) (throttledUntil q)\<rparr> else q)"

definition canSendSocketRequestImmediately :: "int \<Rightarrow> request_queue \<Rightarrow> bool" where
  "canSendSocketRequestImmediately now q \<longleftrightarrow>
     \<not> ((case maxInFlightRequests q of None \<Rightarrow> False | Some n \<Rightarrow> int (length (inflight q)) \<ge> n) \<or> throttledUntil q > now)"

definition sendSocketRequest :: "int \<Rightarrow> (socket_request \<Rightarrow> err + unit) \<Rightarrow> socket_request \<Rightarrow> request_queue \<Rightarrow> (err + unit) \<times> request_queue" where
  "sendSocketRequest now wr r q =
     (case socket_send now wr r q of
        (Inl e, q) \<Rightarrow> (Inl e, q)
      | (Inr r', q) \<Rightarrow>
          if expectResponse r' then (Inr (), q)
          else completed 0 None r' (q\<lparr>inflight := AList.delete (correlationId r') (inflight q)\<rparr>))"

definition scheduleCheckPendingRequests :: "int \<Rightarrow> request_queue \<Rightarrow> request_queue" where
  "scheduleCheckPendingRequests now q =
     (let scheduleAt = throttledUntil q - now
      in if throttleCheck q = None
         then q\<lparr>throttleCheck := Some (if pending q \<noteq> [] then (if scheduleAt > 0 then scheduleAt else CHECK_PENDING_REQUESTS_INTERVAL) else scheduleAt)\<rparr>
         else q)"

fun consume_pending :: "int \<Rightarrow> (socket_request \<Rightarrow> err + unit) \<Rightarrow> socket_request list \<Rightarrow> request_queue \<Rightarrow> (err + unit) \<times> request_queue" where
  "consume_pending now wr [] q = (Inr (), q\<lparr>pending := []\<rparr>)"
| "consume_pending now wr (r # rs) q =
     (if canSendSocketRequestImmediately now q
      then case sendSocketRequest now wr r (q\<lparr>pending := rs\<rparr>) of
             (Inl e, q) \<Rightarrow> (Inl e, q)
           | (Inr _, q) \<Rightarrow> consume_pending now wr rs q
      else (Inr (), q\<lparr>pending := r # rs\<rparr>))"

definition checkPendingRequests :: "int \<Rightarrow> (socket_request \<Rightarrow> err + unit) \<Rightarrow> request_queue \<Rightarrow> (err + unit) \<times> request_queue" where
  "checkPendingRequests now wr q =
     (case consume_pending now wr (pending q) q of
        (Inl e, q) \<Rightarrow> (Inl e, q)
      | (Inr _, q) \<Rightarrow> (Inr (), scheduleCheckPendingRequests now q))"

definition rq_push :: "int \<Rightarrow> (socket_request \<Rightarrow> err + unit) \<Rightarrow> nat \<Rightarrow> int \<Rightarrow> bool \<Rightarrow> int option \<Rightarrow> request_queue \<Rightarrow> (err + unit) \<times> request_queue" where
  "rq_push now wr tag cid expects custom q =
     (let r = createSocketRequest now tag cid expects custom q; q = q\<lparr>issued := issued q @ [tag]\<rparr>
      in if canSendSocketRequestImmediately now q then sendSocketRequest now wr r q
         else (Inr (), scheduleCheckPendingRequests now (q\<lparr>pending := pending q @ [r]\<rparr>)))"

definition fulfillRequest :: "int \<Rightarrow> (socket_request \<Rightarrow> err + unit) \<Rightarrow> int \<Rightarrow> int \<Rightarrow> buffer option \<Rightarrow> request_queue \<Rightarrow> (err + unit) \<times> request_queue" where
  "fulfillRequest now wr cid sz payload q =
     (case checkPendingRequests now wr (q\<lparr>inflight := AList.delete cid (inflight q)\<rparr>) of
        (Inl e, q') \<Rightarrow> (Inl e, q')
      | (Inr _, q') \<Rightarrow> (case map_of (inflight q) cid of None \<Rightarrow> (Inr (), q') | Some r \<Rightarrow> completed sz payload r q'))"

definition timeoutRequest :: "int \<Rightarrow> (socket_request \<Rightarrow> err + unit) \<Rightarrow> err \<Rightarrow> socket_request \<Rightarrow> request_queue \<Rightarrow> (err + unit) \<times> request_queue" where
  "timeoutRequest now wr e r q =
     (case checkPendingRequests now wr (q\<lparr>inflight := AList.delete (correlationId r) (inflight q)\<rparr>) of
        (Inl e', q) \<Rightarrow> (Inl e', q)
      | (Inr _, q) \<Rightarrow> rejected e r q)"

text \<open>
  The check for timeouts visits the requests in flight. Requests that the check itself sends are too
  young to time out.
\<close>

fun timeout_check :: "int \<Rightarrow> (socket_request \<Rightarrow> err + unit) \<Rightarrow> (socket_request \<Rightarrow> err) \<Rightarrow> (int \<times> socket_request) list \<Rightarrow> request_queue \<Rightarrow> (err + unit) \<times> request_queue" where
  "timeout_check now wr err [] q = (Inr (), q)"
| "timeout_check now wr err ((cid, r) # rs) q =
     (if now - (case sentAt r of None \<Rightarrow> 0 | Some t \<Rightarrow> t) > sr_requestTimeout r
      then case timeoutRequest now wr (err r) r q of (Inl e, q) \<Rightarrow> (Inl e, q) | (Inr _, q) \<Rightarrow> timeout_check now wr err rs q
      else timeout_check now wr err rs q)"

fun reject_requests :: "err \<Rightarrow> socket_request list \<Rightarrow> request_queue \<Rightarrow> (err + unit) \<times> request_queue" where
  "reject_requests e [] q = (Inr (), q)"
| "reject_requests e (r # rs) q =
     (case rejected e r q of
        (Inl e', q) \<Rightarrow> (Inl e', q)
      | (Inr _, q) \<Rightarrow> reject_requests e rs (q\<lparr>inflight := AList.delete (correlationId r) (inflight q)\<rparr>))"

definition rejectAll :: "err \<Rightarrow> request_queue \<Rightarrow> (err + unit) \<times> request_queue" where
  "rejectAll e q =
     (case reject_requests e (map snd (inflight q) @ pending q) q of
        (Inl e', q) \<Rightarrow> (Inl e', q)
      | (Inr _, q) \<Rightarrow> (Inr (), q\<lparr>pending := [], inflight := []\<rparr>))"

definition check_fires :: "int \<Rightarrow> (socket_request \<Rightarrow> err + unit) \<Rightarrow> request_queue \<Rightarrow> (err + unit) \<times> request_queue" where
  "check_fires now wr q = checkPendingRequests now wr (q\<lparr>throttleCheck := None\<rparr>)"

definition rq_destroy :: "request_queue \<Rightarrow> request_queue" where
  "rq_destroy q = q\<lparr>throttleCheck := None\<rparr>"

definition queue_empty :: "request_queue \<Rightarrow> bool" where \<comment> \<open>what \<^verbatim>\<open>waitForPendingRequests\<close> waits for\<close>
  "queue_empty q \<longleftrightarrow> pending q = [] \<and> inflight q = []"

subsection \<open>Steps\<close>

definition live :: "request_queue \<Rightarrow> socket_request list" where
  "live q = map snd (inflight q) @ pending q"

definition writes_ok :: "socket_request \<Rightarrow> err + unit" where
  "writes_ok r = Inr ()"

text \<open>
  What happens to a queue whose socket accepts every write. Requests are new objects and, with a
  counter of \<open>2\<^sup>3\<^sup>1\<close> values, their correlation ids differ from those of the requests under way.
\<close>

inductive rq_step :: "request_queue \<Rightarrow> request_queue \<Rightarrow> bool" where
  rqs_push: "tag \<notin> set (issued q) \<Longrightarrow> cid \<notin> correlationId ` set (live q) \<Longrightarrow> rq_step q (snd (rq_push now writes_ok tag cid expects custom q))"
| rqs_fulfill: "rq_step q (snd (fulfillRequest now writes_ok cid sz payload q))"
| rqs_timeout: "rq_step q (snd (timeout_check now writes_ok err (inflight q) q))"
| rqs_rejectAll: "rq_step q (snd (rejectAll e q))"
| rqs_fires: "rq_step q (snd (check_fires now writes_ok q))"
| rqs_throttle: "rq_step q (maybeThrottle now ms q)"
| rqs_destroy: "rq_step q (rq_destroy q)"

subsection \<open>Accounting\<close>

text \<open>
  In the middle of an operation, the requests \<open>X\<close> have left the queue and have no answer yet.
\<close>

definition rq_ok :: "request_queue \<Rightarrow> bool" where
  "rq_ok q \<longleftrightarrow> distinct (map fst (inflight q)) \<and> (\<forall>(cid, r) \<in> set (inflight q). correlationId r = cid \<and> sr_state r = SENT) \<and>
     (\<forall>r \<in> set (pending q). sr_state r = PENDING) \<and> distinct (map correlationId (live q)) \<and> distinct (issued q) \<and>
     (case maxInFlightRequests q of None \<Rightarrow> True | Some n \<Rightarrow> length (inflight q) \<le> nat n)"

definition accounts :: "socket_request list \<Rightarrow> request_queue \<Rightarrow> bool" where
  "accounts X q \<longleftrightarrow> mset (issued q) = mset (map sr_tag (X @ live q)) + mset (map fst (replies q))"

lemma delete_snoc: "AList.delete k (al @ [(k, v)]) = AList.delete k al"
  by (simp add: AList.delete_eq)

lemma sendSocketRequest_ok:
  assumes "rq_ok q" "accounts (r # X) q" "sr_state r = PENDING" "correlationId r \<notin> correlationId ` set (live q)" "canSendSocketRequestImmediately now q"
  shows "\<exists>q'. sendSocketRequest now writes_ok r q = (Inr (), q') \<and> rq_ok q' \<and> accounts X q' \<and> pending q' = pending q \<and>
    set (inflight q) \<subseteq> set (inflight q')"
proof -
  let ?r = "r\<lparr>sentAt := Some now, sr_state := SENT\<rparr>"
  let ?q = "q\<lparr>inflight := inflight q @ [(correlationId r, ?r)], written := written q @ [sr_tag r]\<rparr>"
  have "fst ` set (inflight q) \<subseteq> correlationId ` set (live q)" using assms(1) by (force simp: rq_ok_def live_def)
  then have new: "correlationId r \<notin> fst ` set (inflight q)" using assms(4) by blast
  then have sent: "socket_send now writes_ok r q = (Inr ?r, ?q)"
    using assms(3) by (simp add: socket_send_def throwIfInvalidState_def writes_ok_def update_fresh map_of_eq_None_iff Let_def)
  show ?thesis
  proof (cases "expectResponse r")
    case True
    have room: "case maxInFlightRequests q of None \<Rightarrow> True | Some n \<Rightarrow> Suc (length (inflight q)) \<le> nat n"
      using assms(5) by (auto simp: canSendSocketRequestImmediately_def split: option.splits)
    have "rq_ok ?q" using assms(1,4) new room by (auto simp: rq_ok_def live_def split: option.splits)
    moreover have "accounts X ?q" using assms(2) by (simp add: accounts_def live_def)
    ultimately show ?thesis using sent True by (auto simp: sendSocketRequest_def)
  next
    case False
    let ?q' = "q\<lparr>written := written q @ [sr_tag r], replies := replies q @ [(sr_tag r, Resolved 0 None)]\<rparr>"
    have "sendSocketRequest now writes_ok r q = (Inr (), ?q')"
      using sent False new by (simp add: sendSocketRequest_def completed_def throwIfInvalidState_def add_reply_def delete_snoc delete_fresh)
    moreover have "rq_ok ?q'" using assms(1) by (simp add: rq_ok_def live_def split: option.splits)
    moreover have "accounts X ?q'" using assms(2) by (simp add: accounts_def live_def)
    ultimately show ?thesis by auto
  qed
qed

text \<open>Taking a request out of the waiting ones, or out of the ones in flight.\<close>

lemma take_pending:
  assumes "rq_ok q" "accounts X q" "pending q = r # rs"
  shows "rq_ok (q\<lparr>pending := rs\<rparr>)" "accounts (r # X) (q\<lparr>pending := rs\<rparr>)" "sr_state r = PENDING"
    "correlationId r \<notin> correlationId ` set (live (q\<lparr>pending := rs\<rparr>))"
  using assms by (auto simp: rq_ok_def accounts_def live_def split: option.splits)

lemma take_inflight:
  assumes "rq_ok q" "accounts X q" "map_of (inflight q) cid = Some r"
  shows "rq_ok (q\<lparr>inflight := AList.delete cid (inflight q)\<rparr>)" "accounts (r # X) (q\<lparr>inflight := AList.delete cid (inflight q)\<rparr>)"
    "sr_state r = SENT" "correlationId r = cid"
proof -
  have d: "distinct (map fst (inflight q))" using assms(1) by (simp add: rq_ok_def)
  note ms = mset_delete [OF d assms(3)]
  show "accounts (r # X) (q\<lparr>inflight := AList.delete cid (inflight q)\<rparr>)" using assms(2) ms by (simp add: accounts_def live_def)
  let ?ds = "map correlationId (map snd (AList.delete cid (inflight q)) @ pending q)"
  have "mset (map correlationId (live q)) = mset (correlationId r # ?ds)" using ms by (simp add: live_def)
  then have "distinct (map correlationId (live q)) = distinct (correlationId r # ?ds)" by (rule mset_eq_imp_distinct_iff)
  then have "distinct ?ds" using assms(1) unfolding rq_ok_def by simp
  moreover have len: "length (AList.delete cid (inflight q)) \<le> length (inflight q)" by (simp add: AList.delete_eq)
  moreover have "\<forall>(cid, r) \<in> set (AList.delete cid (inflight q)). correlationId r = cid \<and> sr_state r = SENT"
    using assms(1) by (simp add: rq_ok_def AList.delete_eq)
  moreover have "case maxInFlightRequests q of None \<Rightarrow> True | Some n \<Rightarrow> length (AList.delete cid (inflight q)) \<le> nat n"
    using assms(1) len by (auto simp: rq_ok_def split: option.splits)
  ultimately show "rq_ok (q\<lparr>inflight := AList.delete cid (inflight q)\<rparr>)"
    using assms(1) distinct_delete [OF d] by (simp add: rq_ok_def live_def split: option.splits)
  show "sr_state r = SENT" "correlationId r = cid" using assms(1) map_of_SomeD [OF assms(3)] by (auto simp: rq_ok_def)
qed

lemma consume_pending_ok:
  assumes "rq_ok q" "accounts X q"
  shows "\<exists>q'. consume_pending now writes_ok (pending q) q = (Inr (), q') \<and> rq_ok q' \<and> accounts X q' \<and> set (inflight q) \<subseteq> set (inflight q')"
  using assms
proof (induction "pending q" arbitrary: q)
  case Nil
  then have "q\<lparr>pending := []\<rparr> = q" by simp
  then show ?case using Nil by (metis consume_pending.simps(1) subset_refl)
next
  case (Cons r rs)
  note pq = Cons(2) [symmetric]
  show ?case
  proof (cases "canSendSocketRequestImmediately now q")
    case True
    then have can: "canSendSocketRequestImmediately now (q\<lparr>pending := rs\<rparr>)" by (simp add: canSendSocketRequestImmediately_def split: option.splits)
    note t = take_pending [OF Cons(3,4) pq]
    obtain q1 where q1: "sendSocketRequest now writes_ok r (q\<lparr>pending := rs\<rparr>) = (Inr (), q1)" "rq_ok q1" "accounts X q1" "pending q1 = rs"
        "set (inflight q) \<subseteq> set (inflight q1)"
      using sendSocketRequest_ok [OF t can] by auto
    obtain q2 where "consume_pending now writes_ok (pending q1) q1 = (Inr (), q2)" "rq_ok q2" "accounts X q2" "set (inflight q1) \<subseteq> set (inflight q2)"
      using Cons(1) [of q1] q1 by auto
    then show ?thesis using q1 True by (auto simp: pq)
  next
    case False
    have "q\<lparr>pending := r # rs\<rparr> = q" using pq by simp
    then have "consume_pending now writes_ok (pending q) q = (Inr (), q)" using False pq by (metis consume_pending.simps(2))
    then show ?thesis using Cons(3,4) by simp
  qed
qed

lemma rq_ok_frame:
  "rq_ok (q\<lparr>throttleCheck := x\<rparr>) = rq_ok q" "accounts X (q\<lparr>throttleCheck := x\<rparr>) = accounts X q"
  "rq_ok (q\<lparr>throttledUntil := y\<rparr>) = rq_ok q" "accounts X (q\<lparr>throttledUntil := y\<rparr>) = accounts X q"
  by (simp_all add: rq_ok_def accounts_def live_def split: option.split)

lemma schedule_ok [simp]:
  "rq_ok (scheduleCheckPendingRequests now q) = rq_ok q" "accounts X (scheduleCheckPendingRequests now q) = accounts X q"
  "inflight (scheduleCheckPendingRequests now q) = inflight q"
  by (simp_all add: scheduleCheckPendingRequests_def Let_def rq_ok_frame)

lemma checkPendingRequests_ok:
  assumes "rq_ok q" "accounts X q"
  shows "\<exists>q'. checkPendingRequests now writes_ok q = (Inr (), q') \<and> rq_ok q' \<and> accounts X q' \<and> set (inflight q) \<subseteq> set (inflight q')"
  using consume_pending_ok [OF assms, of now] by (auto simp: checkPendingRequests_def)

lemma add_reply_ok: "rq_ok q \<Longrightarrow> accounts (r # X) q \<Longrightarrow> rq_ok (add_reply r a q) \<and> accounts X (add_reply r a q)"
  by (simp add: rq_ok_def live_def add_reply_def accounts_def split: option.splits)

definition rq_inv :: "request_queue \<Rightarrow> bool" where
  "rq_inv q \<longleftrightarrow> rq_ok q \<and> accounts [] q"

lemma rq_inv_push:
  assumes "rq_inv q" "tag \<notin> set (issued q)" "cid \<notin> correlationId ` set (live q)"
  shows "rq_inv (snd (rq_push now writes_ok tag cid expects custom q))"
proof -
  define r where "r = createSocketRequest now tag cid expects custom q"
  have r: "sr_tag r = tag" "correlationId r = cid" "sr_state r = PENDING" by (simp_all add: r_def createSocketRequest_def new_SocketRequest_def)
  define q1 where "q1 = q\<lparr>issued := issued q @ [tag]\<rparr>"
  have ok: "rq_ok q1" "accounts [r] q1" "correlationId r \<notin> correlationId ` set (live q1)"
    using assms r by (auto simp: rq_inv_def rq_ok_def accounts_def live_def q1_def split: option.splits)
  show ?thesis
  proof (cases "canSendSocketRequestImmediately now q1")
    case True
    then show ?thesis using sendSocketRequest_ok [OF ok(1,2) r(3) ok(3) True]
      by (auto simp: rq_push_def Let_def r_def [symmetric] q1_def [symmetric] rq_inv_def)
  next
    case False
    have "rq_ok (q1\<lparr>pending := pending q1 @ [r]\<rparr>)" "accounts [] (q1\<lparr>pending := pending q1 @ [r]\<rparr>)"
      using ok r(3) by (auto simp: rq_ok_def accounts_def live_def split: option.splits)
    then show ?thesis using False by (simp add: rq_push_def Let_def r_def [symmetric] q1_def [symmetric] rq_inv_def)
  qed
qed

text \<open>A response answers the request with its correlation id and no other one.\<close>

lemma fulfillRequest_ok:
  assumes "rq_inv q"
  shows "case map_of (inflight q) cid of
      None \<Rightarrow> checkPendingRequests now writes_ok q = (fst (fulfillRequest now writes_ok cid sz payload q), snd (fulfillRequest now writes_ok cid sz payload q))
    | Some r \<Rightarrow> \<exists>q'. checkPendingRequests now writes_ok (q\<lparr>inflight := AList.delete cid (inflight q)\<rparr>) = (Inr (), q') \<and>
        fulfillRequest now writes_ok cid sz payload q = (Inr (), add_reply r (Resolved sz payload) q')"
    "rq_inv (snd (fulfillRequest now writes_ok cid sz payload q))"
proof -
  have ok: "rq_ok q" "accounts [] q" using assms by (auto simp: rq_inv_def)
  have "(case map_of (inflight q) cid of
      None \<Rightarrow> checkPendingRequests now writes_ok q = (fst (fulfillRequest now writes_ok cid sz payload q), snd (fulfillRequest now writes_ok cid sz payload q))
    | Some r \<Rightarrow> \<exists>q'. checkPendingRequests now writes_ok (q\<lparr>inflight := AList.delete cid (inflight q)\<rparr>) = (Inr (), q') \<and>
        fulfillRequest now writes_ok cid sz payload q = (Inr (), add_reply r (Resolved sz payload) q')) \<and>
    rq_inv (snd (fulfillRequest now writes_ok cid sz payload q))"
  proof (cases "map_of (inflight q) cid")
    case None
    then have same: "q\<lparr>inflight := AList.delete cid (inflight q)\<rparr> = q" by (simp add: delete_fresh map_of_eq_None_iff)
    obtain q' where "checkPendingRequests now writes_ok q = (Inr (), q')" "rq_ok q'" "accounts [] q'"
      using checkPendingRequests_ok [OF ok, of now] by blast
    then show ?thesis unfolding fulfillRequest_def same None by (simp add: rq_inv_def)
  next
    case (Some r)
    note t = take_inflight [OF ok Some]
    obtain q' where "checkPendingRequests now writes_ok (q\<lparr>inflight := AList.delete cid (inflight q)\<rparr>) = (Inr (), q')" "rq_ok q'" "accounts [r] q'"
      using checkPendingRequests_ok [OF t(1,2), of now] by blast
    then show ?thesis using t(3) add_reply_ok [of q' r "[]"]
      by (simp add: fulfillRequest_def Some completed_def throwIfInvalidState_def rq_inv_def)
  qed
  then show "case map_of (inflight q) cid of
      None \<Rightarrow> checkPendingRequests now writes_ok q = (fst (fulfillRequest now writes_ok cid sz payload q), snd (fulfillRequest now writes_ok cid sz payload q))
    | Some r \<Rightarrow> \<exists>q'. checkPendingRequests now writes_ok (q\<lparr>inflight := AList.delete cid (inflight q)\<rparr>) = (Inr (), q') \<and>
        fulfillRequest now writes_ok cid sz payload q = (Inr (), add_reply r (Resolved sz payload) q')"
    "rq_inv (snd (fulfillRequest now writes_ok cid sz payload q))" by blast+
qed

lemma timeoutRequest_ok:
  assumes "rq_inv q" "map_of (inflight q) cid = Some r"
  shows "\<exists>q'. timeoutRequest now writes_ok e r q = (Inr (), q') \<and> rq_inv q' \<and> set (AList.delete cid (inflight q)) \<subseteq> set (inflight q')"
proof -
  have ok: "rq_ok q" "accounts [] q" using assms(1) by (auto simp: rq_inv_def)
  note t = take_inflight [OF ok assms(2)]
  obtain q' where "checkPendingRequests now writes_ok (q\<lparr>inflight := AList.delete cid (inflight q)\<rparr>) = (Inr (), q')" "rq_ok q'" "accounts [r] q'"
      "set (AList.delete cid (inflight q)) \<subseteq> set (inflight q')"
    using checkPendingRequests_ok [OF t(1,2), of now] by auto
  then show ?thesis using t(3,4) add_reply_ok [of q' r "[]" "Refused e"]
    by (simp add: timeoutRequest_def rejected_def throwIfInvalidState_def rq_inv_def) (simp add: add_reply_def)
qed

lemma timeout_check_ok:
  assumes "rq_inv q" "set rs \<subseteq> set (inflight q)" "distinct (map fst rs)"
  shows "rq_inv (snd (timeout_check now writes_ok err rs q))"
  using assms
proof (induction rs arbitrary: q)
  case (Cons x rs)
  obtain cid r where x: "x = (cid, r)" by (cases x)
  show ?case
  proof (cases "now - (case sentAt r of None \<Rightarrow> 0 | Some t \<Rightarrow> t) > sr_requestTimeout r")
    case True
    have "distinct (map fst (inflight q))" using Cons.prems(1) by (simp add: rq_inv_def rq_ok_def)
    then have "map_of (inflight q) cid = Some r" using Cons.prems(2) by (auto simp: x)
    then obtain q' where q': "timeoutRequest now writes_ok (err r) r q = (Inr (), q')" "rq_inv q'" "set (AList.delete cid (inflight q)) \<subseteq> set (inflight q')"
      using timeoutRequest_ok [OF Cons.prems(1)] by blast
    have "set rs \<subseteq> set (AList.delete cid (inflight q))" using Cons.prems(2,3) by (force simp: x AList.delete_eq)
    then show ?thesis using Cons.IH [of q'] Cons.prems(3) q' True by (auto simp: x)
  next
    case False
    then show ?thesis using Cons.IH [of q] Cons.prems by (auto simp: x)
  qed
qed simp

lemma reject_requests_ok:
  assumes "\<forall>r \<in> set rs. sr_state r \<in> {PENDING, SENT}"
  shows "\<exists>fl. reject_requests e rs q = (Inr (), q\<lparr>inflight := fl, replies := replies q @ map (\<lambda>r. (sr_tag r, Refused e)) rs\<rparr>)"
  using assms
proof (induction rs arbitrary: q)
  case Nil
  show ?case by (intro exI [of _ "inflight q"]) simp
next
  case (Cons r rs)
  let ?q = "q\<lparr>replies := replies q @ [(sr_tag r, Refused e)], inflight := AList.delete (correlationId r) (inflight q)\<rparr>"
  obtain fl where "reject_requests e rs ?q = (Inr (), ?q\<lparr>inflight := fl, replies := replies ?q @ map (\<lambda>r. (sr_tag r, Refused e)) rs\<rparr>)"
    using Cons.IH [of ?q] Cons.prems by auto
  moreover have "rejected e r q = (Inr (), q\<lparr>replies := replies q @ [(sr_tag r, Refused e)]\<rparr>)"
    using Cons.prems by (auto simp: rejected_def throwIfInvalidState_def add_reply_def)
  ultimately show ?case by auto
qed

lemma rejectAll_ok:
  assumes "rq_inv q"
  shows "\<exists>q'. rejectAll e q = (Inr (), q') \<and> rq_inv q' \<and> queue_empty q' \<and>
    replies q' = replies q @ map (\<lambda>r. (sr_tag r, Refused e)) (live q)"
proof -
  have "\<forall>r \<in> set (live q). sr_state r \<in> {PENDING, SENT}" using assms by (auto simp: rq_inv_def rq_ok_def live_def)
  then obtain fl where "reject_requests e (live q) q = (Inr (), q\<lparr>inflight := fl, replies := replies q @ map (\<lambda>r. (sr_tag r, Refused e)) (live q)\<rparr>)"
    using reject_requests_ok by blast
  then have "rejectAll e q = (Inr (), q\<lparr>inflight := [], pending := [], replies := replies q @ map (\<lambda>r. (sr_tag r, Refused e)) (live q)\<rparr>)"
    unfolding rejectAll_def live_def by simp
  moreover have "rq_inv (q\<lparr>inflight := [], pending := [], replies := replies q @ map (\<lambda>r. (sr_tag r, Refused e)) (live q)\<rparr>)"
    using assms by (simp add: rq_inv_def rq_ok_def accounts_def live_def comp_def split: option.splits)
  ultimately show ?thesis by (simp add: queue_empty_def)
qed

lemma rq_inv_step:
  assumes "rq_inv q" "rq_step q q'"
  shows "rq_inv q'"
  using assms(2,1)
proof (induction rule: rq_step.induct)
  case (rqs_timeout q now err)
  then show ?case by (intro timeout_check_ok) (auto simp: rq_inv_def rq_ok_def)
next
  case (rqs_rejectAll q e)
  then show ?case using rejectAll_ok [of q e] by auto
next
  case (rqs_fires q now)
  then have "rq_ok (q\<lparr>throttleCheck := None\<rparr>)" "accounts [] (q\<lparr>throttleCheck := None\<rparr>)" by (simp_all add: rq_inv_def rq_ok_frame)
  then show ?case using checkPendingRequests_ok [of "q\<lparr>throttleCheck := None\<rparr>" "[]" now] by (auto simp: check_fires_def rq_inv_def)
next
  case (rqs_push tag q cid now expects custom)
  then show ?case by (intro rq_inv_push)
next
  case (rqs_fulfill q now cid sz payload)
  then show ?case by (intro fulfillRequest_ok(2))
next
  case (rqs_throttle q now ms)
  then show ?case by (cases ms) (simp_all add: maybeThrottle_def rq_inv_def rq_ok_frame)
next
  case (rqs_destroy q)
  then show ?case by (simp add: rq_destroy_def rq_inv_def rq_ok_frame)
qed

interpretation rq: step_system rq_step "new_RequestQueue maxInFlight timeout" rq_inv for maxInFlight timeout
proof
  show "rq_inv (new_RequestQueue maxInFlight timeout)"
    by (simp add: rq_inv_def rq_ok_def accounts_def live_def new_RequestQueue_def split: option.split)
qed (rule rq_inv_step)

subsection \<open>What the operations leave alone\<close>

text \<open>
  Sending waiting requests answers only requests that expect no response, and keeps the limit of
  requests in flight.
\<close>

definition unanswered :: "nat list \<Rightarrow> (nat \<times> reply) list" where
  "unanswered ts = map (\<lambda>t. (t, Resolved 0 None)) ts"

definition extends :: "request_queue \<Rightarrow> request_queue \<Rightarrow> bool" where
  "extends q q' \<longleftrightarrow> (\<exists>ts. replies q' = replies q @ unanswered ts) \<and> maxInFlightRequests q' = maxInFlightRequests q"

lemma extends_refl: "extends q q"
  by (auto simp: extends_def unanswered_def intro: exI [of _ "[]"])

lemma extends_trans: "extends q q' \<Longrightarrow> extends q' q'' \<Longrightarrow> extends q q''"
  by (auto simp: extends_def unanswered_def) (metis map_append)

lemma sendSocketRequest_extends: "extends q (snd (sendSocketRequest now wr r q))"
proof -
  have "\<exists>ts. replies q @ [(t, Resolved 0 None)] = replies q @ unanswered ts" for t
    by (intro exI [of _ "[t]"]) (simp add: unanswered_def)
  moreover have "\<exists>ts. replies q = replies q @ unanswered ts" by (intro exI [of _ "[]"]) (simp add: unanswered_def)
  ultimately show ?thesis
    by (auto simp: sendSocketRequest_def socket_send_def completed_def add_reply_def extends_def Let_def split: sum.split)
qed

lemma extends_pending: "extends (q\<lparr>pending := rs\<rparr>) q' = extends q q'"
  by (simp add: extends_def)

lemma consume_pending_extends: "extends q (snd (consume_pending now wr rs q))"
proof (induction rs arbitrary: q)
  case Nil
  show ?case by (auto simp: extends_def unanswered_def intro: exI [of _ "[]"])
next
  case (Cons r rs)
  have step: "extends q (snd (sendSocketRequest now wr r (q\<lparr>pending := rs\<rparr>)))"
    using sendSocketRequest_extends [of "q\<lparr>pending := rs\<rparr>" now wr r] by (simp add: extends_pending)
  have stay: "extends q (q\<lparr>pending := r # rs\<rparr>)" by (auto simp: extends_def unanswered_def intro: exI [of _ "[]"])
  obtain a q1 where s: "sendSocketRequest now wr r (q\<lparr>pending := rs\<rparr>) = (a, q1)" by fastforce
  have "extends q q1" using step s by simp
  then show ?case using stay extends_trans [OF _ Cons.IH [of q1]] by (auto simp: s split: sum.split)
qed

lemma checkPendingRequests_extends: "extends q (snd (checkPendingRequests now wr q))"
  using consume_pending_extends [of q now wr "pending q"]
  by (auto simp: checkPendingRequests_def scheduleCheckPendingRequests_def extends_def Let_def split: prod.split sum.split)

lemma reject_requests_max: "maxInFlightRequests (snd (reject_requests e rs q)) = maxInFlightRequests q"
  by (induction rs arbitrary: q) (auto simp: rejected_def add_reply_def split: prod.split sum.split)

lemma timeoutRequest_max: "maxInFlightRequests (snd (timeoutRequest now wr e r q)) = maxInFlightRequests q"
  using checkPendingRequests_extends [of "q\<lparr>inflight := AList.delete (correlationId r) (inflight q)\<rparr>" now wr]
  by (auto simp: timeoutRequest_def rejected_def add_reply_def extends_def split: prod.splits sum.splits)

lemma timeout_check_max: "maxInFlightRequests (snd (timeout_check now wr err rs q)) = maxInFlightRequests q"
proof (induction rs arbitrary: q)
  case (Cons x rs)
  obtain cid r where "x = (cid, r)" by (cases x)
  then show ?case using Cons.IH timeoutRequest_max [of now wr "err r" r q] by (auto split: prod.split sum.split)
qed simp

lemma fulfillRequest_max: "maxInFlightRequests (snd (fulfillRequest now wr cid sz payload q)) = maxInFlightRequests q"
  using checkPendingRequests_extends [of "q\<lparr>inflight := AList.delete cid (inflight q)\<rparr>" now wr]
  by (auto simp: fulfillRequest_def completed_def add_reply_def extends_def split: prod.splits sum.splits option.splits)

lemma rq_push_max: "maxInFlightRequests (snd (rq_push now wr tag cid expects custom q)) = maxInFlightRequests q"
  using sendSocketRequest_extends [of "q\<lparr>issued := issued q @ [tag]\<rparr>" now wr "createSocketRequest now tag cid expects custom q"]
  by (auto simp: rq_push_def scheduleCheckPendingRequests_def extends_def Let_def)

lemma rq_step_max: "rq_step q q' \<Longrightarrow> maxInFlightRequests q' = maxInFlightRequests q"
proof (induction rule: rq_step.induct)
  case (rqs_rejectAll q e)
  show ?case using reject_requests_max [of e "map snd (inflight q) @ pending q" q] by (auto simp: rejectAll_def split: prod.split sum.split)
next
  case (rqs_fires q now)
  show ?case using checkPendingRequests_extends [of "q\<lparr>throttleCheck := None\<rparr>" now writes_ok] by (simp add: check_fires_def extends_def)
next
  case (rqs_throttle q now ms)
  show ?case by (simp add: maybeThrottle_def split: option.split)
next
  case (rqs_destroy q)
  show ?case by (simp add: rq_destroy_def)
qed (simp_all add: rq_push_max fulfillRequest_max timeout_check_max)

lemma rq_steps_max: "rq_step\<^sup>*\<^sup>* q q' \<Longrightarrow> maxInFlightRequests q' = maxInFlightRequests q"
  by (induction rule: rtranclp_induct) (auto dest: rq_step_max)

subsection \<open>Properties\<close>

text \<open>C19: A connection answers every request exactly once. In every reachable state of the queue a
  request that was pushed is either under way (in flight or waiting) or its promise was settled, never
  both and never twice; and the requests in flight do not exceed \<^verbatim>\<open>maxInFlightRequests\<close>.
\<close>

theorem requests_answered_once:
  assumes "rq_step\<^sup>*\<^sup>* (new_RequestQueue maxInFlight timeout) q"
  shows "set (issued q) = set (map sr_tag (live q)) \<union> fst ` set (replies q) \<and>
    distinct (map sr_tag (live q) @ map fst (replies q)) \<and>
    (case maxInFlight of None \<Rightarrow> True | Some n \<Rightarrow> length (inflight q) \<le> nat n)"
proof -
  have inv: "rq_ok q" "accounts [] q" using rq.inv_reachable [OF assms] by (auto simp: rq_inv_def)
  have ms: "mset (issued q) = mset (map sr_tag (live q) @ map fst (replies q))" using inv(2) by (simp add: accounts_def)
  then have "set (issued q) = set (map sr_tag (live q) @ map fst (replies q))" by (rule mset_eq_setD)
  moreover have "distinct (map sr_tag (live q) @ map fst (replies q))"
    using inv(1) mset_eq_imp_distinct_iff [OF ms] by (simp add: rq_ok_def)
  moreover have "maxInFlightRequests q = maxInFlight" using rq_steps_max [OF assms] by (simp add: new_RequestQueue_def)
  ultimately show ?thesis using inv(1) by (auto simp: rq_ok_def split: option.splits)
qed

definition queue_example :: request_queue where
  "queue_example = snd (rq_push 5 writes_ok 1 1 True None (snd (rq_push 5 writes_ok 0 0 True None (new_RequestQueue (Some 1) 30000))))"

lemma queue_example_reachable: "rq_step\<^sup>*\<^sup>* (new_RequestQueue (Some 1) 30000) queue_example"
proof -
  let ?q = "snd (rq_push 5 writes_ok 0 0 True None (new_RequestQueue (Some 1) 30000))"
  have "rq_step (new_RequestQueue (Some 1) 30000) ?q" by (rule rqs_push) code_simp+
  moreover have "rq_step ?q queue_example" unfolding queue_example_def by (rule rqs_push) code_simp+
  ultimately show ?thesis by (meson converse_rtranclp_into_rtranclp r_into_rtranclp)
qed

lemma queue_example_value: "map sr_tag (live queue_example) = [0, 1]" "issued queue_example = [0, 1]" "replies queue_example = []"
    "length (inflight queue_example) = 1"
  by code_simp+

theorem requests_answered_once_witness:
  "rq_step\<^sup>*\<^sup>* (new_RequestQueue (Some 1) 30000) queue_example \<and> map sr_tag (live queue_example) = [0, 1] \<and>
   length (inflight queue_example) \<le> 1 \<and> set (issued queue_example) = {0, 1}"
  using requests_answered_once [OF queue_example_reachable] queue_example_reachable queue_example_value by simp

text \<open>A response settles the request with its correlation id and no other one. In every reachable
  state, a response with the correlation id of a request in flight resolves that request with the
  payload, and the only other promises settled on the way are those of waiting requests that expect no
  response; a response nobody waits for settles no request with a payload and raises no error.
\<close>

theorem response_settles_its_request:
  assumes "rq_step\<^sup>*\<^sup>* (new_RequestQueue maxInFlight timeout) q"
  shows "\<exists>ts q'. fulfillRequest now writes_ok cid sz payload q = (Inr (), q') \<and>
    replies q' = replies q @ unanswered ts @
      (case map_of (inflight q) cid of None \<Rightarrow> [] | Some r \<Rightarrow> [(sr_tag r, Resolved sz payload)])"
proof -
  have inv: "rq_inv q" by (rule rq.inv_reachable [OF assms])
  show ?thesis
  proof (cases "map_of (inflight q) cid")
    case None
    obtain q' where "checkPendingRequests now writes_ok q = (Inr (), q')"
      using checkPendingRequests_ok [of q "[]" now] inv by (auto simp: rq_inv_def)
    then show ?thesis using fulfillRequest_ok(1) [OF inv, where cid = cid and now = now and sz = sz and payload = payload] checkPendingRequests_extends [of q now writes_ok]
      by (auto simp: None extends_def prod_eq_iff)
  next
    case (Some r)
    let ?q = "q\<lparr>inflight := AList.delete cid (inflight q)\<rparr>"
    obtain q' where q': "checkPendingRequests now writes_ok ?q = (Inr (), q')"
        "fulfillRequest now writes_ok cid sz payload q = (Inr (), add_reply r (Resolved sz payload) q')"
      using fulfillRequest_ok(1) [OF inv, where cid = cid and now = now and sz = sz and payload = payload] by (auto simp: Some)
    then show ?thesis using checkPendingRequests_extends [of ?q now writes_ok] by (auto simp: Some extends_def add_reply_def)
  qed
qed

theorem response_settles_its_request_witness:
  "rq_step\<^sup>*\<^sup>* (new_RequestQueue (Some 1) 30000) queue_example \<and>
   (\<exists>ts q'. fulfillRequest 6 writes_ok 0 4 (Some []) queue_example = (Inr (), q') \<and> replies q' = unanswered ts @ [(0, Resolved 4 (Some []))])"
proof -
  have "map_option sr_tag (map_of (inflight queue_example) 0) = Some 0" by code_simp
  then show ?thesis using response_settles_its_request [OF queue_example_reachable, of 6 0 4 "Some []"] queue_example_reachable queue_example_value(3)
    by auto
qed

text \<open>
  When the connection closes, \<^verbatim>\<open>rejectAll\<close> refuses every request under way, each once, and empties the
  queue.
\<close>

theorem rejectAll_refuses_all:
  assumes "rq_step\<^sup>*\<^sup>* (new_RequestQueue maxInFlight timeout) q"
  shows "\<exists>q'. rejectAll e q = (Inr (), q') \<and> queue_empty q' \<and> replies q' = replies q @ map (\<lambda>r. (sr_tag r, Refused e)) (live q)"
  using rejectAll_ok [OF rq.inv_reachable [OF assms]] by blast

subsection \<open>Two oddities\<close>

text \<open>
  The waiting requests are meant to be sent first in, first out. \<^verbatim>\<open>push\<close> does not look at them: once the
  throttling has expired, a new request overtakes the ones still waiting for the timer.
\<close>

lemma push_overtakes:
  "let q = maybeThrottle 0 (Some 100) (new_RequestQueue None 30000);
       q = snd (rq_push 50 writes_ok 1 1 True None q);
       q = snd (rq_push 100 writes_ok 2 2 True None q)
   in written q = [2] \<and> map sr_tag (pending q) = [1]"
  by code_simp

text \<open>
  With nothing waiting and no throttling in force the check is scheduled with a delay in the past, and
  scheduled again each time it fires: an idle connection keeps a timer running.
\<close>

lemma idle_check_reschedules:
  assumes "pending q = []"
  shows "throttleCheck (snd (check_fires now wr q)) = Some (throttledUntil q - now)"
    "pending (snd (check_fires now wr q)) = []"
  using assms by (simp_all add: check_fires_def checkPendingRequests_def scheduleCheckPendingRequests_def Let_def)

lemma response_starts_idle_check:
  assumes "pending q = []" "throttleCheck q = None" "throttledUntil q = - 1" "now \<ge> 0"
  shows "\<exists>d < 0. throttleCheck (snd (fulfillRequest now wr cid sz payload q)) = Some d"
  using assms by (auto simp: fulfillRequest_def checkPendingRequests_def scheduleCheckPendingRequests_def completed_def add_reply_def Let_def
    split: option.split sum.split)

end
