(* ===== verification/Connection_Status.thy ===== *)
theory Connection_Status
  imports Main
begin

text \<open>
  The states of a connection, \<^verbatim>\<open>src/network/connectionStatus.js\<close>, shared by connections and
  producers. A connection that is being closed still counts as connected.
\<close>

datatype connection_status = CONNECTED | DISCONNECTING | DISCONNECTED

definition CONNECTED_STATUS :: "connection_status list" where
  "CONNECTED_STATUS = [CONNECTED, DISCONNECTING]"

lemma CONNECTED_STATUS_iff: "st \<in> set CONNECTED_STATUS \<longleftrightarrow> st \<noteq> DISCONNECTED"
  by (cases st) (simp_all add: CONNECTED_STATUS_def)

end
