(* ===== verification/Connection.thy ===== *)
theory Connection
  imports Request_Queue Wire_Codec Connection_Status Protocol_Error
begin

text \<open>
  A connection to a broker, \<^verbatim>\<open>src/network/connection.js\<close>, with the framing of requests
  (\<^verbatim>\<open>src/protocol/request.js\<close>) and the choice between the two connections of a broker
  (\<^verbatim>\<open>src/network/connectionPool.js\<close>). The socket is represented by what it delivers (chunks of data,
  its events) and by the function that writes to it. An installed \<^verbatim>\<open>authHandlers\<close> is represented by
  whether it came with a response to decode; what it is called with is recorded in \<open>authReplies\<close>.
  Times are in milliseconds, those of \<^verbatim>\<open>process.hrtime\<close> in nanoseconds.
\<close>

datatype auth_reply = AuthData buffer | AuthClosed

record connection =
  cn_host :: string
  cn_port :: string
  sasl :: bool
  reauthenticationThreshold :: int
  enforceRequestTimeout :: bool
  bytesBuffered :: int
  bytesNeeded :: int
  chunks :: "buffer list"
  connectionStatus :: connection_status
  cn_correlationId :: int
  requestQueue :: request_queue
  authHandlers :: "bool option"
  authExpectResponse :: bool
  authenticatedAt :: "int option"
  sessionLifetime :: long
  authReplies :: "auth_reply list"

definition int32Size :: int where "int32Size = 4"

definition new_Connection :: "string \<Rightarrow> string \<Rightarrow> bool \<Rightarrow> bool \<Rightarrow> int option \<Rightarrow> int \<Rightarrow> connection" where
  "new_Connection host port useSasl enforce maxInFlight timeout =
     \<lparr>cn_host = host, cn_port = port, sasl = useSasl, reauthenticationThreshold = 10000, enforceRequestTimeout = enforce,
      bytesBuffered = 0, bytesNeeded = int32Size, chunks = [], connectionStatus = DISCONNECTED, cn_correlationId = 0,
      requestQueue = new_RequestQueue maxInFlight timeout, authHandlers = None, authExpectResponse = False,
      authenticatedAt = None, sessionLifetime = Long_ZERO, authReplies = []\<rparr>"

definition isConnected :: "connection \<Rightarrow> bool" where
  "isConnected c \<longleftrightarrow> connectionStatus c \<in> set CONNECTED_STATUS"

definition broker_name :: "connection \<Rightarrow> err_field" where
  "broker_name c = FStr (cn_host c @ '':'' @ cn_port c)"

subsection \<open>Authentication\<close>

definition shouldReauthenticate :: "int \<Rightarrow> connection \<Rightarrow> bool" where
  "shouldReauthenticate hrtime c =
     (if Long_equals (sessionLifetime c) Long_ZERO then False
      else case authenticatedAt c of
             None \<Rightarrow> True
           | Some t \<Rightarrow>
               (let since = hrtime - t; secondsSince = since div 1000000000; remainingNanosSince = since mod 1000000000;
                    millisSince = Long_add (Long_multiply secondsSince 1000) (remainingNanosSince div 1000000);
                    reauthenticateAt = Long_add millisSince (reauthenticationThreshold c)
                in Long_gte reauthenticateAt (sessionLifetime c)))"

definition isAuthenticated :: "int \<Rightarrow> connection \<Rightarrow> bool" where
  "isAuthenticated hrtime c \<longleftrightarrow> authenticatedAt c \<noteq> None \<and> \<not> shouldReauthenticate hrtime c"

text \<open>The authenticator answers with the lifetime of the session; meanwhile other tasks run.\<close>

definition conn_authenticate :: "int \<Rightarrow> (connection \<Rightarrow> (err + long) \<times> connection) \<Rightarrow> int \<Rightarrow> connection \<Rightarrow> (err + unit) \<times> connection" where
  "conn_authenticate hrtime authenticator hrtime' c =
     (if sasl c \<and> \<not> isAuthenticated hrtime c
      then case authenticator c of
             (Inl e, c) \<Rightarrow> (Inl e, c)
           | (Inr lifetime, c) \<Rightarrow> (Inr (), c\<lparr>authenticatedAt := Some hrtime', sessionLifetime := lifetime\<rparr>)
      else (Inr (), c))"

definition failIfNotConnected :: "connection \<Rightarrow> err + unit" where
  "failIfNotConnected c =
     (if isConnected c then Inr () else Inl (new_KafkaJSConnectionError (Text ''Not connected'') (broker_name c) FUndef))"

definition auth_onSuccess :: "buffer \<Rightarrow> connection \<Rightarrow> (err + unit) \<times> connection" where
  "auth_onSuccess rawData c =
     (let c' = c\<lparr>authHandlers := None, authExpectResponse := False\<rparr>
      in if authHandlers c = Some True then (Inr (), c'\<lparr>authReplies := authReplies c @ [AuthData rawData]\<rparr>)
         else (Inl (native_error ''TypeError'' ''Cannot read properties of undefined''), c'))"

definition auth_onError :: "connection \<Rightarrow> connection" where
  "auth_onError c = c\<lparr>authHandlers := None, authExpectResponse := False, authReplies := authReplies c @ [AuthClosed]\<rparr>"

text \<open>Encoding the request suspends the call; \<open>others\<close> is what happens meanwhile.\<close>

definition sendAuthRequest ::
    "bool \<Rightarrow> err + buffer \<Rightarrow> (connection \<Rightarrow> connection) \<Rightarrow> (buffer \<Rightarrow> err + unit) \<Rightarrow> connection \<Rightarrow> (err + unit) \<times> connection" where
  "sendAuthRequest hasResponse encoded others wr c =
     (let c = others (c\<lparr>authExpectResponse := hasResponse, authHandlers := Some hasResponse\<rparr>)
      in (rbind encoded (\<lambda>payload. rbind (failIfNotConnected c) (\<lambda>_. wr payload)), c))"

subsection \<open>Sending requests\<close>

definition createRequest :: "int \<Rightarrow> string option \<Rightarrow> int \<Rightarrow> int \<Rightarrow> encoder result \<Rightarrow> encoder result" where
  "createRequest cid client apiKey apiVersion encoded =
     rbind encoded (\<lambda>payload.
       rbind (rbind new_Encoder (chain [writeInt16 apiKey, writeInt16 apiVersion, writeInt32 cid, writeString client,
                                        writeEncoder (ElEncoder payload)])) (\<lambda>requestPayload.
         rbind new_Encoder (chain [writeInt32 (int (Encoder_size requestPayload)), writeEncoder (ElEncoder requestPayload)])))"

definition nextCorrelationId :: "connection \<Rightarrow> int \<times> connection" where
  "nextCorrelationId c =
     (let cid = (if cn_correlationId c \<ge> INT_32_MAX_VALUE then 0 else cn_correlationId c)
      in (cid, c\<lparr>cn_correlationId := cid + 1\<rparr>))"

definition isAuthenticatedRequest :: "int \<Rightarrow> bool" where \<comment> \<open>not ApiVersions, SaslHandshake, SaslAuthenticate\<close>
  "isAuthenticatedRequest apiKey \<longleftrightarrow> apiKey \<notin> {18, 17, 36}"

text \<open>
  \<^verbatim>\<open>send\<close> up to the point where the request is in the queue. Encoding suspends the call between the
  choice of the correlation id and the push; \<open>others\<close> is what happens meanwhile.
\<close>

record outgoing =
  og_tag :: nat
  og_apiKey :: int
  og_expectResponse :: bool
  og_requestTimeout :: "int option"
  og_encode :: "int \<Rightarrow> err + buffer"

definition sendRequest ::
    "int \<Rightarrow> (buffer \<Rightarrow> socket_request \<Rightarrow> err + unit) \<Rightarrow> outgoing \<Rightarrow> (connection \<Rightarrow> connection) \<Rightarrow> connection \<Rightarrow> (err + unit) \<times> connection" where
  "sendRequest now wr og others c =
     (let (cid, c) = nextCorrelationId c; c = others c
      in case og_encode og cid of
           Inl e \<Rightarrow> (Inl e, c)
         | Inr payload \<Rightarrow>
             (case failIfNotConnected c of
                Inl e \<Rightarrow> (Inl e, c)
              | Inr _ \<Rightarrow>
                  (let (r, q) = rq_push now (wr payload) (og_tag og) cid (og_expectResponse og) (og_requestTimeout og) (requestQueue c)
                   in (r, c\<lparr>requestQueue := q\<rparr>))))"

definition conn_send ::
    "int \<Rightarrow> int \<Rightarrow> (connection \<Rightarrow> (err + long) \<times> connection) \<Rightarrow> int \<Rightarrow> (buffer \<Rightarrow> socket_request \<Rightarrow> err + unit) \<Rightarrow> outgoing
      \<Rightarrow> (connection \<Rightarrow> connection) \<Rightarrow> connection \<Rightarrow> (err + unit) \<times> connection" where
  "conn_send now hrtime authenticator hrtime' wr og others c =
     (case (if \<not> isAuthenticated hrtime c \<and> isAuthenticatedRequest (og_apiKey og)
            then conn_authenticate hrtime authenticator hrtime' c else (Inr (), c)) of
        (Inl e, c) \<Rightarrow> (Inl e, c)
      | (Inr _, c) \<Rightarrow>
          (case failIfNotConnected c of
             Inl e \<Rightarrow> (Inl e, c)
           | Inr _ \<Rightarrow> sendRequest now wr og others c))"

text \<open>What \<^verbatim>\<open>send\<close> does with the payload of the response; decoding yields the throttle time and the data.\<close>

definition conn_received ::
    "int \<Rightarrow> bool \<Rightarrow> (buffer option \<Rightarrow> err + int option \<times> 'd) \<Rightarrow> ('d \<Rightarrow> err + 'r) \<Rightarrow> buffer option \<Rightarrow> connection \<Rightarrow> (err + 'r option) \<times> connection" where
  "conn_received now expects decode parse payload c =
     (if \<not> expects then (Inr None, c)
      else case decode payload of
             Inl e \<Rightarrow> (Inl e, c)
           | Inr (throttle, d) \<Rightarrow>
               (map_sum id Some (parse d), c\<lparr>requestQueue := maybeThrottle now throttle (requestQueue c)\<rparr>))"

subsection \<open>Receiving data\<close>

datatype parsed = Incomplete int | Frame int "buffer option" buffer \<comment> \<open>size, response and remaining octets\<close>

definition read_frame :: "buffer \<Rightarrow> parsed result" where
  "read_frame b =
     rbind (readInt32 (new_Decoder b)) (\<lambda>(expectedResponseSize, d).
       if \<not> canReadBytes expectedResponseSize d then Inr (Incomplete (int32Size + expectedResponseSize))
       else rbind (readBytesOfLength expectedResponseSize d) (\<lambda>(response, d).
              rbind (readAll d) (\<lambda>(remainder, _). Inr (Frame expectedResponseSize response remainder))))"

definition response_parts :: "buffer option \<Rightarrow> (int \<times> buffer) result" where
  "response_parts response =
     (case response of
        None \<Rightarrow> Inl JsTypeError
      | Some b \<Rightarrow> rbind (readInt32 (new_Decoder b)) (\<lambda>(cid, d). rbind (readAll d) (\<lambda>(payload, _). Inr (cid, payload))))"

definition buffered :: "buffer \<Rightarrow> int \<Rightarrow> connection \<Rightarrow> connection" where
  "buffered b need c = c\<lparr>chunks := [b], bytesBuffered := int (length b), bytesNeeded := need\<rparr>"

lemma frame_shrinks:
  assumes "read_frame b = Inr (Frame n response rest)" "response_parts response = Inr p"
  shows "length rest < length b"
proof -
  have read: "4 \<le> length b" and can: "4 + n \<le> int (length b)" and n: "n \<noteq> - 1"
    and response: "response = Some (buf_slice b 4 (4 + n))" and rest: "rest = buf_slice b (4 + n) (int (length b))"
    using assms by (auto simp: read_frame_def response_parts_def readInt32_def read_fixed_def read_int_be_def new_Decoder_def
        readBytesOfLength_def rd_return_def rd_bind_def take_slice_def readAll_def canReadBytes_def advance_def
        split: if_splits sum.splits)
  have long: "4 \<le> length (buf_slice b 4 (4 + n))"
    using assms(2) by (auto simp: response response_parts_def readInt32_def read_fixed_def read_int_be_def new_Decoder_def split: if_splits)
  show ?thesis
  proof (cases "0 \<le> 4 + n")
    case True
    then have "length (buf_slice b 4 (4 + n)) = nat n" using read can by (simp add: buf_slice_def slice_bound_def Let_def)
    then have "4 \<le> n" using long by simp
    then show ?thesis using can by (simp add: rest buf_slice_def slice_bound_def Let_def)
  next
    case False
    then show ?thesis using long read by (auto simp: rest buf_slice_def slice_bound_def Let_def split: if_splits)
  qed
qed

text \<open>
  The loop of \<^verbatim>\<open>processData\<close>. It ends on every input, well-formed or not, because a round that does not
  throw leaves fewer octets than it found.
\<close>

function process_loop :: "int \<Rightarrow> (socket_request \<Rightarrow> err + unit) \<Rightarrow> connection \<Rightarrow> (err + unit) \<times> connection" where
  "process_loop now wr c =
     (if bytesNeeded c > bytesBuffered c then (Inr (), c)
      else let b = concat (chunks c)
           in case read_frame b of
                Inl e \<Rightarrow> (of_codec (Inl e), c)
              | Inr (Incomplete need) \<Rightarrow> (Inr (), buffered b need c)
              | Inr (Frame n response rest) \<Rightarrow>
                  (let c = buffered rest int32Size c
                   in if authHandlers c \<noteq> None then auth_onSuccess (buf_slice b 0 (int32Size + n)) c
                      else case response_parts response of
                             Inl e \<Rightarrow> (of_codec (Inl e), c)
                           | Inr (cid, payload) \<Rightarrow>
                               (case fulfillRequest now wr cid n (Some payload) (requestQueue c) of
                                  (Inl e, q) \<Rightarrow> (Inl e, c\<lparr>requestQueue := q\<rparr>)
                                | (Inr _, q) \<Rightarrow> process_loop now wr (c\<lparr>requestQueue := q\<rparr>))))"
  by pat_completeness auto
termination
  by (relation "measure (\<lambda>(now, wr, c). length (concat (chunks c)))") (auto simp: buffered_def dest: frame_shrinks)

declare process_loop.simps [simp del]

definition processData :: "int \<Rightarrow> (socket_request \<Rightarrow> err + unit) \<Rightarrow> buffer \<Rightarrow> connection \<Rightarrow> (err + unit) \<times> connection" where
  "processData now wr rawData c =
     (if authHandlers c \<noteq> None \<and> \<not> authExpectResponse c then auth_onSuccess rawData c
      else process_loop now wr (c\<lparr>chunks := chunks c @ [rawData], bytesBuffered := bytesBuffered c + int (length rawData)\<rparr>))"

subsection \<open>Connecting and disconnecting\<close>

text \<open>
  Disconnecting waits for the requests under way; the two halves of the method are separate. A call of
  \<^verbatim>\<open>connect\<close> is settled by the event that comes first.
\<close>

definition conn_connect :: "connection \<Rightarrow> connection" where
  "conn_connect c = (if isConnected c then c else c\<lparr>authenticatedAt := None\<rparr>)"

definition onConnect :: "connection \<Rightarrow> connection" where
  "onConnect c =
     c\<lparr>connectionStatus := CONNECTED, requestQueue := (if enforceRequestTimeout c then rq_destroy (requestQueue c) else requestQueue c)\<rparr>"

definition disconnect_start :: "connection \<Rightarrow> connection" where
  "disconnect_start c = c\<lparr>authenticatedAt := None, connectionStatus := DISCONNECTING\<rparr>"

definition disconnect_end :: "connection \<Rightarrow> connection" where
  "disconnect_end c = c\<lparr>requestQueue := rq_destroy (requestQueue c), connectionStatus := DISCONNECTED\<rparr>"

definition rejectRequests :: "err \<Rightarrow> connection \<Rightarrow> (err + unit) \<times> connection" where
  "rejectRequests e c = (let (r, q) = rejectAll e (requestQueue c) in (r, c\<lparr>requestQueue := q\<rparr>))"

definition reject_and_disconnect :: "err \<Rightarrow> connection \<Rightarrow> (err + unit) \<times> connection" where
  "reject_and_disconnect e c = (case rejectRequests e c of (Inl e', c) \<Rightarrow> (Inl e', c) | (Inr _, c) \<Rightarrow> (Inr (), disconnect_start c))"

definition onEnd :: "connection \<Rightarrow> (err + unit) \<times> connection" where
  "onEnd c =
     (if authHandlers c \<noteq> None then (Inr (), disconnect_start (auth_onError c))
      else if isConnected c then reject_and_disconnect (new_KafkaJSConnectionClosedError (Text ''Closed connection'') (cn_host c) (cn_port c)) c
      else (Inr (), disconnect_start c))"

definition onError :: "string \<Rightarrow> err_field \<Rightarrow> connection \<Rightarrow> (err + unit) \<times> connection" where
  "onError message code c =
     reject_and_disconnect (new_KafkaJSConnectionError (Text (''Connection error: '' @ message)) (broker_name c) code) c"

definition onTimeout :: "connection \<Rightarrow> (err + unit) \<times> connection" where
  "onTimeout c = reject_and_disconnect (new_KafkaJSConnectionError (Text ''Connection timeout'') (broker_name c) FUndef) c"

subsection \<open>The pool of a broker\<close>

text \<open>Two connections: one for fetch requests, which the broker may hold back, and one for all others.\<close>

definition getConnectionByRequest :: "int \<Rightarrow> nat" where
  "getConnectionByRequest apiKey = (if apiKey = 1 then 1 else 0)"

definition pool_isConnected :: "connection list \<Rightarrow> bool" where
  "pool_isConnected pool \<longleftrightarrow> (\<exists>c \<in> set pool. isConnected c)"

definition pool_isAuthenticated :: "int \<Rightarrow> connection list \<Rightarrow> bool" where
  "pool_isAuthenticated hrtime pool \<longleftrightarrow> (\<exists>c \<in> set pool. isAuthenticated hrtime c)"

definition pool_destroy_start :: "connection list \<Rightarrow> connection list" where
  "pool_destroy_start pool = map disconnect_start pool"

subsection \<open>Responses and how they are cut into chunks\<close>

text \<open>A response as the broker sends it: its size, the correlation id and the payload.\<close>

definition frame :: "int \<times> buffer \<Rightarrow> buffer" where
  "frame r = be_bytes 4 (int (4 + length (snd r))) @ be_bytes 4 (fst r) @ snd r"

definition response_ok :: "int \<times> buffer \<Rightarrow> bool" where
  "response_ok r \<longleftrightarrow> int_range 32 (fst r) \<and> 4 + length (snd r) < 2 ^ 31"

definition is_size :: "int \<Rightarrow> bool" where
  "is_size n \<longleftrightarrow> 0 \<le> n \<and> int_range 32 n"

definition partial :: "buffer \<Rightarrow> bool" where \<comment> \<open>the beginning of a response\<close>
  "partial p \<longleftrightarrow> length p < 4 \<or> (\<exists>n rest. p = be_bytes 4 n @ rest \<and> is_size n \<and> int (length rest) < n)"

definition needs_ok :: "buffer \<Rightarrow> int \<Rightarrow> bool" where
  "needs_ok b need \<longleftrightarrow> need = 4 \<or> (\<exists>n rest. b = be_bytes 4 n @ rest \<and> is_size n \<and> need = 4 + n)"

definition awaiting :: "buffer \<Rightarrow> connection \<Rightarrow> bool" where
  "awaiting p c \<longleftrightarrow> concat (chunks c) = p \<and> bytesBuffered c = int (length p) \<and> needs_ok p (bytesNeeded c) \<and> authHandlers c = None"

lemma frame_parts: "frame r = be_bytes 4 (int (4 + length (snd r))) @ (be_bytes 4 (fst r) @ snd r)"
  "length (frame r) = 8 + length (snd r)"
  by (simp_all add: frame_def)

lemma frame_size: "response_ok r \<Longrightarrow> is_size (int (4 + length (snd r)))"
  by (auto simp: response_ok_def is_size_def int_range_def)

lemma be_bytes_4_inj: "be_bytes 4 m @ x = be_bytes 4 n @ y \<Longrightarrow> is_size m \<Longrightarrow> is_size n \<Longrightarrow> m = n \<and> x = y"
  using int32.elem.uniquely_decodable [of m n x y] by (auto simp: is_size_def)

lemma read_size: "is_size n \<Longrightarrow> readInt32 (new_Decoder (be_bytes 4 n @ rest)) = Inr (n, dec_at (be_bytes 4 n) rest)"
  using readsD [OF reads_readInt32 [of n], of "[]" rest] by (simp add: new_Decoder_dec_at is_size_def)

lemma read_frame_incomplete:
  "is_size n \<Longrightarrow> int (length rest) < n \<Longrightarrow> read_frame (be_bytes 4 n @ rest) = Inr (Incomplete (4 + n))"
  by (simp add: read_frame_def read_size canReadBytes_def dec_at_def int32Size_def)

lemma read_frame_complete:
  assumes "is_size n" "n = int (length b)"
  shows "read_frame (be_bytes 4 n @ b @ rest) = Inr (Frame n (Some b) rest)"
proof -
  have "readBytesOfLength n (dec_at (be_bytes 4 n) (b @ rest)) = Inr (Some b, dec_at (be_bytes 4 n @ b) rest)"
    using readsD [OF reads_take_slice [OF assms(2)], of "be_bytes 4 n" rest] assms by (simp add: readBytesOfLength_def rd_bind_def rd_return_def)
  moreover have "readAll (dec_at (be_bytes 4 n @ b) rest) = Inr (rest, advance (int (length (be_bytes 4 n @ b @ rest))) (dec_at (be_bytes 4 n @ b) rest))"
    by (simp add: readAll_def dec_at_def buf_slice_within)
  moreover have "canReadBytes n (dec_at (be_bytes 4 n) (b @ rest))" using assms by (simp add: canReadBytes_def dec_at_def)
  ultimately show ?thesis by (simp add: read_frame_def read_size [OF assms(1)])
qed

lemma read_frame_frame:
  assumes "response_ok r"
  shows "read_frame (frame r @ rest) = Inr (Frame (int (4 + length (snd r))) (Some (be_bytes 4 (fst r) @ snd r)) rest)"
  using read_frame_complete [OF frame_size [OF assms], of "be_bytes 4 (fst r) @ snd r" rest] by (simp add: frame_def)

lemma response_parts_frame: "response_ok r \<Longrightarrow> response_parts (Some (be_bytes 4 (fst r) @ snd r)) = Inr r"
  using readsD [OF reads_readInt32 [of "fst r"], of "[]" "snd r"]
  by (simp add: response_parts_def response_ok_def new_Decoder_dec_at readAll_def) (simp add: dec_at_def buf_slice_within)

lemma partial_prefix:
  assumes "partial (u @ v)"
  shows "partial u"
proof (cases "length u < 4")
  case False
  then obtain n rest where r: "u @ v = be_bytes 4 n @ rest" "is_size n" "int (length rest) < n"
    using assms by (auto simp: partial_def)
  then have "u = be_bytes 4 n @ drop 4 u" using False by (metis append_take_drop_id append_eq_conv_conj length_be_bytes take_append take_all_iff append_Nil2 diff_is_0_eq leI take0)
  moreover have "length (drop 4 u) \<le> length rest" using arg_cong [OF r(1), of length] by simp
  ultimately show ?thesis using r unfolding partial_def by (smt (verit) of_nat_mono)
qed (simp add: partial_def)

lemma proper_prefix_partial:
  assumes "response_ok r" "frame r = u @ v" "v \<noteq> []"
  shows "partial u"
proof (cases "length u < 4")
  case False
  let ?n = "int (4 + length (snd r))"
  have r: "u @ v = be_bytes 4 ?n @ (be_bytes 4 (fst r) @ snd r)" using assms(2) by (simp add: frame_def)
  then have "u = be_bytes 4 ?n @ drop 4 u" using False by (metis append_eq_append_conv_if append_take_drop_id length_be_bytes not_le_imp_less)
  moreover have "int (length (drop 4 u)) < ?n" using arg_cong [OF r, of length] False assms(3) by (cases v) auto
  ultimately show ?thesis using frame_size [OF assms(1)] unfolding partial_def by blast
qed (simp add: partial_def)

lemma split_stream:
  assumes "u @ v = concat (map frame rs) @ p" "list_all response_ok rs" "partial p"
  shows "\<exists>rs1 rs2 p1. rs = rs1 @ rs2 \<and> u = concat (map frame rs1) @ p1 \<and> partial p1 \<and> p1 @ v = concat (map frame rs2) @ p"
  using assms
proof (induction rs arbitrary: u)
  case Nil
  then show ?case using partial_prefix [of u v] by auto
next
  case (Cons r rs)
  show ?case
  proof (cases "length u < length (frame r)")
    case True
    then have "u = take (length u) (frame r)" using Cons.prems(1) by (simp add: append_eq_append_conv_if)
    then obtain w where w: "frame r = u @ w" by (metis append_take_drop_id)
    then have "w \<noteq> []" using True by auto
    then have "partial u" using proper_prefix_partial [of r u w] w Cons.prems(2) by simp
    then show ?thesis using Cons.prems(1) by (intro exI [of _ "[]"] exI [of _ "r # rs"] exI [of _ u]) simp
  next
    case False
    then have "frame r = take (length (frame r)) u" using Cons.prems(1) by (simp add: append_eq_append_conv_if split: if_splits)
    then obtain u' where u: "u = frame r @ u'" by (metis append_take_drop_id)
    then obtain rs1 rs2 p1 where "rs = rs1 @ rs2" "u' = concat (map frame rs1) @ p1" "partial p1" "p1 @ v = concat (map frame rs2) @ p"
      using Cons.IH [of u'] Cons.prems by auto
    then have "r # rs = (r # rs1) @ rs2 \<and> u = concat (map frame (r # rs1)) @ p1 \<and> partial p1 \<and> p1 @ v = concat (map frame rs2) @ p"
      using u by simp
    then show ?thesis by blast
  qed
qed

text \<open>The responses handed to the queue, with the times at which they were complete.\<close>

fun fulfill_all :: "(socket_request \<Rightarrow> err + unit) \<Rightarrow> (int \<times> int \<times> buffer) list \<Rightarrow> request_queue \<Rightarrow> (err + unit) \<times> request_queue" where
  "fulfill_all wr [] q = (Inr (), q)"
| "fulfill_all wr ((now, cid, payload) # rs) q =
     (case fulfillRequest now wr cid (int (4 + length payload)) (Some payload) q of
        (Inl e, q) \<Rightarrow> (Inl e, q)
      | (Inr _, q) \<Rightarrow> fulfill_all wr rs q)"

lemma fulfill_all_append:
  "fulfill_all wr xs q = (Inr (), q') \<Longrightarrow> fulfill_all wr (xs @ ys) q = fulfill_all wr ys q'"
  by (induction wr xs q rule: fulfill_all.induct) (auto split: prod.splits sum.splits)

lemma fulfillRequest_inv:
  assumes "rq_inv q"
  shows "\<exists>q'. fulfillRequest now writes_ok cid sz payload q = (Inr (), q') \<and> rq_inv q'"
proof -
  obtain r q' where f: "fulfillRequest now writes_ok cid sz payload q = (r, q')" by fastforce
  have "rq_inv q'" using fulfillRequest_ok(2) [OF assms, of now cid sz payload] f by simp
  moreover have "r = Inr ()"
  proof (cases "map_of (inflight q) cid")
    case None
    obtain q'' where "checkPendingRequests now writes_ok q = (Inr (), q'')"
      using checkPendingRequests_ok [of q "[]" now] assms by (auto simp: rq_inv_def)
    then show ?thesis using fulfillRequest_ok(1) [OF assms, where cid = cid and now = now and sz = sz and payload = payload] f by (simp add: None)
  next
    case (Some x)
    then show ?thesis using fulfillRequest_ok(1) [OF assms, where cid = cid and now = now and sz = sz and payload = payload] f by auto
  qed
  ultimately show ?thesis using f by blast
qed

lemma needs_ok_append: "needs_ok b need \<Longrightarrow> needs_ok (b @ x) need"
  by (auto simp: needs_ok_def)

lemma loop_partial:
  assumes "awaiting p c" "partial p"
  shows "\<exists>c'. process_loop now wr c = (Inr (), c') \<and> awaiting p c' \<and> requestQueue c' = requestQueue c"
proof (cases "bytesNeeded c > bytesBuffered c")
  case True
  then show ?thesis using assms by (simp add: process_loop.simps [of now wr c])
next
  case False
  then have "\<not> length p < 4" using assms(1) by (auto simp: awaiting_def needs_ok_def is_size_def)
  then obtain n rest where p: "p = be_bytes 4 n @ rest" "is_size n" "int (length rest) < n" using assms(2) by (auto simp: partial_def)
  then have "process_loop now wr c = (Inr (), buffered p (4 + n) c)"
    using False assms(1) by (subst process_loop.simps) (simp add: awaiting_def read_frame_incomplete)
  moreover have "needs_ok p (4 + n)" using p unfolding needs_ok_def by blast
  ultimately show ?thesis using assms(1) by (auto simp: buffered_def awaiting_def)
qed

lemma loop_frames:
  assumes "awaiting (concat (map frame rs) @ p) c" "list_all response_ok rs" "partial p" "rq_inv (requestQueue c)"
  shows "\<exists>c'. process_loop now writes_ok c = (Inr (), c') \<and> awaiting p c' \<and>
    fulfill_all writes_ok (map (Pair now) rs) (requestQueue c) = (Inr (), requestQueue c') \<and> rq_inv (requestQueue c')"
  using assms
proof (induction rs arbitrary: c)
  case Nil
  then show ?case using loop_partial [of p c now writes_ok] by auto
next
  case (Cons r rs)
  let ?rest = "concat (map frame rs) @ p"
  let ?n = "int (4 + length (snd r))"
  have ok: "response_ok r" and b: "concat (chunks c) = frame r @ ?rest" using Cons.prems by (simp_all add: awaiting_def)
  have "bytesNeeded c \<le> int (length (frame r))"
  proof -
    have "m = ?n" if "frame r @ ?rest = be_bytes 4 m @ x" "is_size m" for m x
      using be_bytes_4_inj [of ?n _ m x] that frame_size [OF ok] by (auto simp: frame_def)
    then show ?thesis using Cons.prems(1) by (auto simp: awaiting_def needs_ok_def frame_parts(2))
  qed
  then have enough: "\<not> bytesNeeded c > bytesBuffered c" using Cons.prems(1) by (simp add: awaiting_def)
  obtain q where q: "fulfillRequest now writes_ok (fst r) ?n (Some (snd r)) (requestQueue c) = (Inr (), q)" "rq_inv q"
    using fulfillRequest_inv [OF Cons.prems(4)] by blast
  let ?c = "(buffered ?rest 4 c)\<lparr>requestQueue := q\<rparr>"
  have step: "process_loop now writes_ok c = process_loop now writes_ok ?c"
    using enough Cons.prems(1) q(1)
    by (subst process_loop.simps) (simp add: b read_frame_frame [OF ok] response_parts_frame [OF ok] int32Size_def buffered_def awaiting_def case_prod_beta Let_def)
  have "awaiting ?rest ?c" using Cons.prems(1) by (simp add: awaiting_def buffered_def needs_ok_def)
  from Cons.IH [OF this] q(2) Cons.prems(2,3)
  obtain c' where c': "process_loop now writes_ok ?c = (Inr (), c')" "awaiting p c'"
      "fulfill_all writes_ok (map (Pair now) rs) q = (Inr (), requestQueue c')" "rq_inv (requestQueue c')" by auto
  then show ?case using q(1) by (cases r) (auto simp: step)
qed

fun process_chunks :: "(int \<times> buffer) list \<Rightarrow> connection \<Rightarrow> (err + unit) \<times> connection" where
  "process_chunks [] c = (Inr (), c)"
| "process_chunks ((now, x) # cs) c =
     (case processData now writes_ok x c of (Inl e, c) \<Rightarrow> (Inl e, c) | (Inr _, c) \<Rightarrow> process_chunks cs c)"

lemma chunks_frames:
  assumes "awaiting p c" "p @ concat (map snd cs) = concat (map frame rs) @ p'" "list_all response_ok rs" "partial p'"
    "rq_inv (requestQueue c)" "partial p"
  shows "\<exists>ts c'. length ts = length rs \<and> process_chunks cs c = (Inr (), c') \<and> awaiting p' c' \<and>
    fulfill_all writes_ok (zip ts rs) (requestQueue c) = (Inr (), requestQueue c')"
  using assms
proof (induction cs arbitrary: c p rs)
  case Nil
  then obtain rs1 rs2 where "rs = [] \<and> p = p'"
  proof -
    have "rs = []"
    proof (cases rs)
      case (Cons r rs')
      have "partial (frame r)" using Nil(2,6) partial_prefix [of "frame r"] by (simp add: Cons)
      moreover have "m = int (4 + length (snd r)) \<and> x = be_bytes 4 (fst r) @ snd r" if "frame r = be_bytes 4 m @ x" "is_size m" for m x
        using be_bytes_4_inj [of "int (4 + length (snd r))" _ m x] that frame_size [of r] Nil(3) by (auto simp: frame_def Cons)
      ultimately show ?thesis by (fastforce simp: partial_def frame_parts(2))
    qed
    then show ?thesis using Nil(2) that by simp
  qed
  then show ?case using Nil(1) by (intro exI [of _ "[]"]) simp
next
  case (Cons nx cs)
  obtain now x where nx: "nx = (now, x)" by fastforce
  have "(p @ x) @ concat (map snd cs) = concat (map frame rs) @ p'" using Cons.prems(2) by (simp add: nx)
  from split_stream [OF this Cons.prems(3,4)]
  obtain rs1 rs2 p1 where s: "rs = rs1 @ rs2" "p @ x = concat (map frame rs1) @ p1" "partial p1"
      "p1 @ concat (map snd cs) = concat (map frame rs2) @ p'" by blast
  let ?c = "c\<lparr>chunks := chunks c @ [x], bytesBuffered := bytesBuffered c + int (length x)\<rparr>"
  have "awaiting (concat (map frame rs1) @ p1) ?c"
    using Cons.prems(1) needs_ok_append [of p "bytesNeeded c" x] unfolding s(2) [symmetric] by (simp add: awaiting_def)
  from loop_frames [OF this _ s(3), of now] Cons.prems(3,5)
  obtain c1 where c1: "process_loop now writes_ok ?c = (Inr (), c1)" "awaiting p1 c1"
      "fulfill_all writes_ok (map (Pair now) rs1) (requestQueue c) = (Inr (), requestQueue c1)" "rq_inv (requestQueue c1)"
    by (auto simp: s(1))
  from Cons.IH [OF c1(2) s(4) _ Cons.prems(4) c1(4) s(3)] Cons.prems(3)
  obtain ts c' where c': "length ts = length rs2" "process_chunks cs c1 = (Inr (), c')" "awaiting p' c'"
      "fulfill_all writes_ok (zip ts rs2) (requestQueue c1) = (Inr (), requestQueue c')"
    by (auto simp: s(1))
  have "processData now writes_ok x c = (Inr (), c1)" using c1(1) Cons.prems(1) by (simp add: processData_def awaiting_def)
  moreover have "zip (replicate (length rs1) now @ ts) rs = map (Pair now) rs1 @ zip ts rs2"
    by (simp add: s(1) zip_replicate1 zip_append1)
  ultimately show ?case using c' c1(3) fulfill_all_append [OF c1(3), of "zip ts rs2"]
    by (intro exI [of _ "replicate (length rs1) now @ ts"]) (auto simp: nx s(1))
qed

subsection \<open>Properties\<close>

text \<open>C20: However the network cuts the stream of responses into chunks, a connection whose socket accepts
  every write hands to its request queue exactly the responses of the stream, in their order and with
  their payloads, and keeps nothing of them behind.\<close>

theorem responses_any_chunking:
  assumes "rq_step\<^sup>*\<^sup>* (new_RequestQueue maxInFlight timeout) (requestQueue c)" "awaiting [] c"
    "list_all response_ok rs" "concat (map snd cs) = concat (map frame rs)"
  shows "\<exists>ts c'. length ts = length rs \<and> process_chunks cs c = (Inr (), c') \<and> concat (chunks c') = [] \<and> bytesBuffered c' = 0 \<and>
    fulfill_all writes_ok (zip ts rs) (requestQueue c) = (Inr (), requestQueue c')"
proof -
  have "partial []" by (simp add: partial_def)
  moreover have "rq_inv (requestQueue c)" by (rule rq.inv_reachable [OF assms(1)])
  ultimately show ?thesis using chunks_frames [OF assms(2) _ assms(3), of cs "[]"] assms(4) by (auto simp: awaiting_def)
qed

definition open_connection :: connection where
  "open_connection = (onConnect (new_Connection ''kafka'' ''9092'' False True (Some 1) 30000))\<lparr>requestQueue := queue_example\<rparr>"

theorem responses_any_chunking_witness:
  "\<exists>ts c'. length ts = 1 \<and> process_chunks [(7, [0, 0, 0]), (8, [5, 0, 0, 0, 0, 42])] open_connection = (Inr (), c') \<and> concat (chunks c') = [] \<and>
    bytesBuffered c' = 0 \<and> fulfill_all writes_ok (zip ts [(0, [42])]) (requestQueue open_connection) = (Inr (), requestQueue c')"
proof -
  have a: "rq_step\<^sup>*\<^sup>* (new_RequestQueue (Some 1) 30000) (requestQueue open_connection)"
    using queue_example_reachable by (simp add: open_connection_def)
  have b: "awaiting [] open_connection"
    by (simp add: open_connection_def awaiting_def needs_ok_def onConnect_def new_Connection_def int32Size_def)
  have c: "list_all response_ok [(0, [42])]" by (simp add: response_ok_def int_range_def)
  have d: "concat (map snd [(7 :: int, [0, 0, 0]), (8, [5, 0, 0, 0, 0, 42])]) = concat (map frame [(0, [42])])" by code_simp
  show ?thesis using responses_any_chunking [OF a b c d] by (simp del: process_chunks.simps)
qed

text \<open>Frames of requests: the size in front is exact, and the header fields stand in their places.\<close>

definition request_body :: "int \<Rightarrow> string option \<Rightarrow> int \<Rightarrow> int \<Rightarrow> buffer \<Rightarrow> buffer" where
  "request_body cid client apiKey apiVersion payload =
     be_bytes 2 apiKey @ be_bytes 2 apiVersion @ be_bytes 4 cid @ wire_string client @ payload"

text \<open>A request is framed as the protocol prescribes: a size that counts exactly the octets after it,
  then api key, api version, correlation id, client id and the encoded request.\<close>

theorem request_frame_format:
  assumes "int_range 16 apiKey" "int_range 16 apiVersion" "int_range 32 cid" "string_ok 32768 client"
    "length (request_body cid client apiKey apiVersion (Encoder_buffer payload)) + 4 < 2 ^ 30"
  shows "\<exists>e. createRequest cid client apiKey apiVersion (Inr payload) = Inr e \<and>
    Encoder_buffer e =
      be_bytes 4 (int (length (request_body cid client apiKey apiVersion (Encoder_buffer payload)))) @
      request_body cid client apiKey apiVersion (Encoder_buffer payload)"
proof -
  let ?b = "request_body cid client apiKey apiVersion (Encoder_buffer payload)"
  have small: "length ?b < 2 ^ 30" using assms(5) by linarith
  have "appends (chain [writeInt16 apiKey, writeInt16 apiVersion, writeInt32 cid, writeString client, writeEncoder (ElEncoder payload)])
      (be_bytes 2 apiKey @ be_bytes 2 apiVersion @ be_bytes 4 cid @ wire_string client @ Encoder_buffer payload @ [])"
    using wstring.elem.write_appends [OF assms(4)] assms(1-3)
    by (intro appends_chain_Cons appends_chain_Nil appends_writeInt16 appends_writeInt32 appends_writeEncoder)
  then have "appends (chain [writeInt16 apiKey, writeInt16 apiVersion, writeInt32 cid, writeString client, writeEncoder (ElEncoder payload)]) ?b"
    by (simp add: request_body_def)
  then obtain e1 where e1: "rbind new_Encoder (chain [writeInt16 apiKey, writeInt16 apiVersion, writeInt32 cid, writeString client,
      writeEncoder (ElEncoder payload)]) = Inr e1" "Encoder_buffer e1 = ?b" "Encoder_size e1 = length ?b"
    using appends_new_Encoder [OF _ small] by auto
  have "int_range 32 (int (length ?b))" using small by (simp add: int_range_def)
  then have "appends (chain [writeInt32 (int (length ?b)), writeEncoder (ElEncoder e1)]) (be_bytes 4 (int (length ?b)) @ Encoder_buffer e1 @ [])"
    by (intro appends_chain_Cons appends_chain_Nil appends_writeInt32 appends_writeEncoder)
  then obtain e2 where "rbind new_Encoder (chain [writeInt32 (int (length ?b)), writeEncoder (ElEncoder e1)]) = Inr e2"
      "Encoder_buffer e2 = be_bytes 4 (int (length ?b)) @ ?b"
    using appends_new_Encoder [of _ "be_bytes 4 (int (length ?b)) @ ?b"] assms(5) by (auto simp: e1(2))
  then show ?thesis using e1 by (simp add: createRequest_def)
qed

theorem request_frame_format_witness:
  "\<exists>e. createRequest 7 (Some ''me'') 18 0 new_Encoder = Inr e \<and>
    Encoder_buffer e = [0, 0, 0, 12, 0, 18, 0, 0, 0, 0, 0, 7, 0, 2, 109, 101]"
proof -
  obtain p where p: "new_Encoder = Inr p" "Encoder_buffer p = []" by (auto simp: new_Encoder_eq Encoder_buffer_take)
  have body: "request_body 7 (Some ''me'') 18 0 [] = [0, 18, 0, 0, 0, 0, 0, 7, 0, 2, 109, 101]" by code_simp
  have "be_bytes 4 12 = [0, 0, 0, 12]" by code_simp
  then show ?thesis
    using request_frame_format [of 18 0 7 "Some ''me''" p] p body by (auto simp: int_range_def string_ok_def wire_string_def)
qed

text \<open>C21: Correlation ids are never negative and fit in 32 bits, and any \<open>2\<^sup>3\<^sup>1 - 1\<close> requests that a
  connection sends in a row have different ones.\<close>

primrec correlation_ids :: "nat \<Rightarrow> connection \<Rightarrow> int list" where
  "correlation_ids 0 c = []"
| "correlation_ids (Suc n) c = (let (cid, c) = nextCorrelationId c in cid # correlation_ids n c)"

lemma correlation_ids_mod:
  assumes "0 \<le> cn_correlationId c" "cn_correlationId c \<le> INT_32_MAX_VALUE"
  shows "correlation_ids n c = map (\<lambda>k. (cn_correlationId c + int k) mod INT_32_MAX_VALUE) [0..<n]"
  using assms
proof (induction n arbitrary: c)
  case (Suc n)
  let ?cid = "cn_correlationId c mod INT_32_MAX_VALUE"
  have nxt: "nextCorrelationId c = (?cid, c\<lparr>cn_correlationId := ?cid + 1\<rparr>)"
    using Suc.prems by (auto simp: nextCorrelationId_def INT_32_MAX_VALUE_def Let_def)
  have range: "0 \<le> ?cid + 1" "?cid + 1 \<le> INT_32_MAX_VALUE"
    by (simp_all add: INT_32_MAX_VALUE_def)
  have "map (\<lambda>k. (?cid + 1 + int k) mod INT_32_MAX_VALUE) [0..<n] = map (\<lambda>k. (cn_correlationId c + int k) mod INT_32_MAX_VALUE) [1..<Suc n]"
    by (simp add: map_Suc_upt [symmetric] comp_def mod_simps add.assoc del: map_Suc_upt upt_Suc)
  then show ?case using Suc.IH [of "c\<lparr>cn_correlationId := ?cid + 1\<rparr>"] range by (simp add: nxt upt_conv_Cons del: upt_Suc)
qed simp

theorem correlation_ids_distinct:
  assumes "0 \<le> cn_correlationId c" "cn_correlationId c \<le> INT_32_MAX_VALUE" "int n \<le> INT_32_MAX_VALUE"
  shows "distinct (correlation_ids n c) \<and> (\<forall>cid \<in> set (correlation_ids n c). 0 \<le> cid \<and> int_range 32 cid)"
proof -
  have "i = j" if "i < n" "j < n" "(s + int i) mod INT_32_MAX_VALUE = (s + int j) mod INT_32_MAX_VALUE" for i j s
  proof (rule ccontr)
    assume "i \<noteq> j"
    moreover have "INT_32_MAX_VALUE dvd int i - int j" using that(3) by (simp add: mod_eq_dvd_iff)
    ultimately have "\<bar>INT_32_MAX_VALUE\<bar> \<le> \<bar>int i - int j\<bar>" by (intro dvd_imp_le_int) auto
    then show False using that(1,2) assms(3) by linarith
  qed
  then have "inj_on (\<lambda>k. (cn_correlationId c + int k) mod INT_32_MAX_VALUE) (set [0..<n])" by (auto simp: inj_on_def)
  moreover have "0 \<le> x mod INT_32_MAX_VALUE \<and> int_range 32 (x mod INT_32_MAX_VALUE)" for x
    using pos_mod_bound [of INT_32_MAX_VALUE x] pos_mod_sign [of INT_32_MAX_VALUE x] by (auto simp: int_range_def INT_32_MAX_VALUE_def)
  ultimately show ?thesis by (auto simp: correlation_ids_mod [OF assms(1,2)] distinct_map)
qed

theorem correlation_ids_distinct_witness:
  "distinct (correlation_ids 3 (open_connection\<lparr>cn_correlationId := 2147483646\<rparr>)) \<and>
   correlation_ids 3 (open_connection\<lparr>cn_correlationId := 2147483646\<rparr>) = [2147483646, 0, 1]"
proof -
  have "correlation_ids 3 (open_connection\<lparr>cn_correlationId := 2147483646\<rparr>) = [2147483646, 0, 1]" by code_simp
  then show ?thesis using correlation_ids_distinct [of "open_connection\<lparr>cn_correlationId := 2147483646\<rparr>" 3] by (simp add: INT_32_MAX_VALUE_def)
qed

text \<open>When the connection fails, no request is left hanging: every request under way is refused with a
  connection error, exactly once, the queue is empty and the connection is closing.\<close>

theorem connection_error_refuses_all:
  assumes "rq_step\<^sup>*\<^sup>* (new_RequestQueue maxInFlight timeout) (requestQueue c)"
  shows "\<exists>c' e. onError message code c = (Inr (), c') \<and> e_name e = ''KafkaJSConnectionError'' \<and> queue_empty (requestQueue c') \<and>
    replies (requestQueue c') = replies (requestQueue c) @ map (\<lambda>r. (sr_tag r, Refused e)) (live (requestQueue c)) \<and>
    connectionStatus c' = DISCONNECTING"
proof -
  let ?e = "new_KafkaJSConnectionError (Text (''Connection error: '' @ message)) (broker_name c) code"
  obtain q where "rejectAll ?e (requestQueue c) = (Inr (), q)" "queue_empty q"
      "replies q = replies (requestQueue c) @ map (\<lambda>r. (sr_tag r, Refused ?e)) (live (requestQueue c))"
    using rejectAll_ok [OF rq.inv_reachable [OF assms], of ?e] by blast
  moreover have "e_name ?e = ''KafkaJSConnectionError''" by (simp add: new_KafkaJSConnectionError_def)
  ultimately show ?thesis
    by (intro exI [of _ "disconnect_start (c\<lparr>requestQueue := q\<rparr>)"] exI [of _ ?e])
      (simp add: onError_def reject_and_disconnect_def rejectRequests_def disconnect_start_def)
qed

theorem connection_error_refuses_all_witness:
  "\<exists>c' e. onError ''reset'' FUndef open_connection = (Inr (), c') \<and> e_name e = ''KafkaJSConnectionError'' \<and> queue_empty (requestQueue c') \<and>
    replies (requestQueue c') = [(0, Refused e), (1, Refused e)] \<and> connectionStatus c' = DISCONNECTING"
proof -
  have "requestQueue open_connection = queue_example" by (simp add: open_connection_def)
  moreover have "map (\<lambda>r. (sr_tag r, x)) (live queue_example) = [(0, x), (1, x)]" for x :: reply
    using arg_cong [OF queue_example_value(1), of "map (\<lambda>t. (t, x))"] by (simp add: comp_def)
  ultimately show ?thesis
    using connection_error_refuses_all [of "Some 1" 30000 open_connection "''reset''" FUndef] queue_example_reachable queue_example_value(3) by simp
qed

text \<open>
  Octets of an unfinished response survive the connection they came from: neither disconnecting nor
  connecting resets the buffer. The first response on the new connection is then taken for the rest of
  the old one; here it is complete and its request still waits.
\<close>

lemma stale_octets_after_reconnect:
  "let c = onConnect (new_Connection ''kafka'' ''9092'' False True None 30000);
       c = snd (processData 1 writes_ok [0, 0, 0, 100, 0] c);
       c = onConnect (conn_connect (disconnect_end (snd (onEnd c))));
       c = c\<lparr>requestQueue := snd (rq_push 2 writes_ok 0 0 True None (requestQueue c))\<rparr>;
       c = snd (processData 3 writes_ok (frame (0, [42])) c)
   in replies (requestQueue c) = [] \<and> map fst (inflight (requestQueue c)) = [0] \<and> bytesNeeded c = 104"
  by code_simp

end
