(* ===== verification/Broker_Pool.thy ===== *)
theory Broker_Pool
  imports Retry Step_System Js_Object Partitioner
begin

text \<open>
  The brokers a client knows: \<^verbatim>\<open>src/cluster/brokerPool.js\<close> and the builder of their connections,
  \<^verbatim>\<open>src/cluster/connectionPoolBuilder.js\<close>. Broker objects live in a store, because the pool keeps
  the seed broker under its node id as well and changes it in place; a reference is an index into the
  store. The outcomes of connecting and of requests are arguments, \<^verbatim>\<open>shuffle\<close> is a choice of an order.
  A port is a number or, for an address without one, \<open>None\<close> for \<^verbatim>\<open>NaN\<close>.
\<close>

type_synonym api_versions = "(int \<times> int \<times> int) list" \<comment> \<open>api key, lowest and highest version\<close>

record broker_obj =
  bo_nodeId :: "int option"
  bo_host :: string
  bo_port :: "int option"
  bo_rack :: "string option"
  bo_connected :: bool

record metadata_broker =
  mb_nodeId :: int
  mb_host :: string
  mb_port :: int
  mb_rack :: "string option"

record cluster_metadata =
  md_brokers :: "metadata_broker list"
  md_controllerId :: "int option"
  md_topicMetadata :: "(string \<times> partition_metadata list) list"

record broker_pool =
  bp_store :: "broker_obj list"
  brokers :: "(int \<times> nat) list"
  seedBroker :: "nat option"
  bp_metadata :: "cluster_metadata option"
  metadataExpireAt :: "int option"
  metadataMaxAge :: int
  bp_versions :: "api_versions option"
  bp_index :: nat \<comment> \<open>\<open>index\<close> of the connection pool builder\<close>

definition new_BrokerPool :: "int option \<Rightarrow> broker_pool" where
  "new_BrokerPool maxAge =
     \<lparr>bp_store = [], brokers = [], seedBroker = None, bp_metadata = None, metadataExpireAt = None,
      metadataMaxAge = (case maxAge of None \<Rightarrow> 0 | Some t \<Rightarrow> t), bp_versions = None, bp_index = 0\<rparr>"

subsection \<open>Building connections\<close>

definition isValidBroker :: "string \<Rightarrow> bool" where
  "isValidBroker b \<longleftrightarrow> b \<noteq> []"

definition validateBrokers :: "string list option \<Rightarrow> err + string list" where
  "validateBrokers bs =
     (case bs of
        None \<Rightarrow> Inl (new_KafkaJSNonRetriableError (Text ''Failed to connect: brokers should not be null'') None)
      | Some [] \<Rightarrow> Inl (new_KafkaJSNonRetriableError (Text ''Failed to connect: brokers array is empty'') None)
      | Some xs \<Rightarrow>
          (case find (\<lambda>i. \<not> isValidBroker (xs ! i)) [0..<length xs] of
             None \<Rightarrow> Inr xs
           | Some i \<Rightarrow> Inl (new_KafkaJSNonRetriableError
               (Text (''Failed to connect: broker at index '' @ dec_digits i @ '' is invalid \"string\"'')) None)))"

text \<open>The setting \<^verbatim>\<open>brokers\<close> is a list or a function; the outcome of calling it is its argument.\<close>

datatype brokers_setting = BrokerList "string list option" | BrokerFunction "err + string list option"

definition getBrokers :: "brokers_setting \<Rightarrow> err + string list" where
  "getBrokers s =
     (case s of
        BrokerList bs \<Rightarrow> validateBrokers bs
      | BrokerFunction (Inr bs) \<Rightarrow> validateBrokers bs
      | BrokerFunction (Inl e) \<Rightarrow>
          Inl (new_KafkaJSConnectionError (Text (''Failed to connect: \"config.brokers\" threw: '' @ e_message e)) FUndef FUndef))"

fun split_colon :: "string \<Rightarrow> string \<times> string option" where \<comment> \<open>the first two parts of \<open>split(':')\<close>\<close>
  "split_colon [] = ([], None)"
| "split_colon (c # cs) =
     (if c = CHR '':'' then ([], Some (takeWhile (\<lambda>c. c \<noteq> CHR '':'') cs)) else map_prod ((#) c) id (split_colon cs))"

definition js_Number :: "string option \<Rightarrow> int option" where \<comment> \<open>of integer literals; the others count as \<open>NaN\<close>\<close>
  "js_Number s = (case s of None \<Rightarrow> None | Some s \<Rightarrow> bigint_literal (js_trim s))"

definition pool_build :: "brokers_setting \<Rightarrow> (string \<times> int option \<times> string option) option \<Rightarrow> broker_pool \<Rightarrow> (err + string \<times> int option \<times> string option) \<times> broker_pool" where
  "pool_build setting dest p =
     (case dest of
        Some (host, port, rack) \<Rightarrow>
          if host \<noteq> [] then (Inr (host, port, rack), p)
          else (case getBrokers setting of
                  Inl e \<Rightarrow> (Inl e, p)
                | Inr xs \<Rightarrow>
                    (let (h, pt) = split_colon (xs ! (bp_index p mod length xs))
                     in (Inr (h, js_Number pt, rack), p\<lparr>bp_index := bp_index p + 1\<rparr>)))
      | None \<Rightarrow>
          (case getBrokers setting of
             Inl e \<Rightarrow> (Inl e, p)
           | Inr xs \<Rightarrow>
               (let (h, pt) = split_colon (xs ! (bp_index p mod length xs))
                in (Inr (h, js_Number pt, None), p\<lparr>bp_index := bp_index p + 1\<rparr>))))"

subsection \<open>The objects of the store\<close>

definition broker_at :: "broker_pool \<Rightarrow> nat \<Rightarrow> broker_obj" where
  "broker_at p r = bp_store p ! r"

definition set_broker :: "nat \<Rightarrow> (broker_obj \<Rightarrow> broker_obj) \<Rightarrow> broker_pool \<Rightarrow> broker_pool" where
  "set_broker r f p = p\<lparr>bp_store := (bp_store p)[r := f (bp_store p ! r)]\<rparr>"

definition createBroker :: "int option \<Rightarrow> string \<times> int option \<times> string option \<Rightarrow> broker_pool \<Rightarrow> nat \<times> broker_pool" where
  "createBroker node addr p =
     (case addr of (host, port, rack) \<Rightarrow>
        (length (bp_store p),
         p\<lparr>bp_store := bp_store p @ [\<lparr>bo_nodeId = node, bo_host = host, bo_port = port, bo_rack = rack, bo_connected = False\<rparr>]\<rparr>))"

definition disconnect_broker :: "nat \<Rightarrow> broker_pool \<Rightarrow> broker_pool" where
  "disconnect_broker r = set_broker r (\<lambda>b. b\<lparr>bo_connected := False\<rparr>)"

text \<open>\<^verbatim>\<open>Object.keys\<close> and \<^verbatim>\<open>Object.values\<close>: integer keys come in ascending order.\<close>

definition getNodeIds :: "broker_pool \<Rightarrow> int list" where
  "getNodeIds p = map fst (sort_key fst (brokers p))"

definition broker_values :: "broker_pool \<Rightarrow> nat list" where
  "broker_values p = map snd (sort_key fst (brokers p))"

definition hasConnectedBrokers :: "broker_pool \<Rightarrow> bool" where
  "hasConnectedBrokers p \<longleftrightarrow>
     (\<exists>r \<in> set (broker_values p). bo_connected (broker_at p r)) \<or>
     (case seedBroker p of None \<Rightarrow> False | Some r \<Rightarrow> bo_connected (broker_at p r))"

subsection \<open>Connecting\<close>

definition createSeedBroker :: "brokers_setting \<Rightarrow> broker_pool \<Rightarrow> (err + unit) \<times> broker_pool" where
  "createSeedBroker setting p =
     (let p = (case seedBroker p of None \<Rightarrow> p | Some r \<Rightarrow> disconnect_broker r p)
      in case pool_build setting None p of
           (Inl e, p) \<Rightarrow> (Inl e, p)
         | (Inr addr, p) \<Rightarrow> (let (r, p) = createBroker None addr p in (Inr (), p\<lparr>seedBroker := Some r\<rparr>)))"

text \<open>
  What the outside contributes to connecting: the setting at each call of the builder, the outcome of
  connecting to a broker in each attempt (with its supported versions), and the retry options.
\<close>

record pool_env =
  pe_setting :: "nat \<Rightarrow> brokers_setting"
  pe_connect :: "nat \<Rightarrow> broker_obj \<Rightarrow> err + api_versions"
  pe_retries :: nat
  pe_delay :: "nat \<Rightarrow> rat"

definition connection_problem :: "err \<Rightarrow> bool" where
  "connection_problem e \<longleftrightarrow> e_name e = ''KafkaJSConnectionError'' \<or> e_type e = Some ''ILLEGAL_SASL_STATE''"

definition connect_attempt :: "pool_env \<Rightarrow> nat \<Rightarrow> broker_pool \<Rightarrow> unit attempt \<times> broker_pool" where
  "connect_attempt env i p =
     (case seedBroker p of
        None \<Rightarrow> (Bails (Some (native_error ''TypeError'' ''Cannot read properties of undefined'')), p)
      | Some r \<Rightarrow>
          (case pe_connect env i (broker_at p r) of
             Inr vs \<Rightarrow> (Returns (), (set_broker r (\<lambda>b. b\<lparr>bo_connected := True\<rparr>) p)\<lparr>bp_versions := Some vs\<rparr>)
           | Inl e \<Rightarrow>
               (case (if connection_problem e then createSeedBroker (pe_setting env (bp_index p)) p else (Inr (), p)) of
                  (Inl e', p) \<Rightarrow> (Throws e', p)
                | (Inr _, p) \<Rightarrow> (if e_retriable e = Some True then Throws e else Bails (Some e), p))))"

definition pool_connect :: "pool_env \<Rightarrow> broker_pool \<Rightarrow> (err + unit) \<times> broker_pool" where
  "pool_connect env p =
     (if hasConnectedBrokers p then (Inr (), p)
      else case (if seedBroker p = None then createSeedBroker (pe_setting env (bp_index p)) p else (Inr (), p)) of
             (Inl e, p) \<Rightarrow> (Inl e, p)
           | (Inr _, p) \<Rightarrow> retry_st (pe_retries env) (pe_delay env) (connect_attempt env) 0 p)"

definition pool_disconnect :: "broker_pool \<Rightarrow> broker_pool" where
  "pool_disconnect p =
     (let p = (case seedBroker p of None \<Rightarrow> p | Some r \<Rightarrow> disconnect_broker r p);
          p = fold disconnect_broker (broker_values p) p
      in p\<lparr>brokers := [], bp_metadata := None, bp_versions := None\<rparr>)"

text \<open>The choice \<open>pick\<close> is the first element of the shuffled brokers.\<close>

definition pool_removeBroker :: "(nat list \<Rightarrow> nat option) \<Rightarrow> string \<Rightarrow> int \<Rightarrow> broker_pool \<Rightarrow> (err + unit) \<times> broker_pool" where
  "pool_removeBroker pick host port p =
     (case find (\<lambda>r. bo_host (broker_at p r) = host \<and> bo_port (broker_at p r) = Some port) (broker_values p) of
        None \<Rightarrow> (Inr (), p)
      | Some r \<Rightarrow>
          (let node = bo_nodeId (broker_at p r);
               p = p\<lparr>brokers := (case node of None \<Rightarrow> brokers p | Some n \<Rightarrow> AList.delete n (brokers p)), metadataExpireAt := None\<rparr>
           in case seedBroker p of
                None \<Rightarrow> (Inl (native_error ''TypeError'' ''Cannot read properties of undefined''), p)
              | Some s \<Rightarrow> (Inr (), if bo_nodeId (broker_at p s) = node then p\<lparr>seedBroker := pick (broker_values p)\<rparr> else p)))"

definition connect_broker_attempt :: "pool_env \<Rightarrow> nat \<Rightarrow> nat \<Rightarrow> broker_pool \<Rightarrow> unit attempt \<times> broker_pool" where
  "connect_broker_attempt env r i p =
     (case pe_connect env i (broker_at p r) of
        Inr _ \<Rightarrow> (Returns (), set_broker r (\<lambda>b. b\<lparr>bo_connected := True\<rparr>) p)
      | Inl e \<Rightarrow>
          (let p = (if connection_problem e then disconnect_broker r p else p)
           in if e_name e = ''KafkaJSConnectionError'' then (Bails (Some e), p)
              else if e_type e = Some ''ILLEGAL_SASL_STATE''
              then (case pool_build (pe_setting env (bp_index p)) (Some (bo_host (broker_at p r), bo_port (broker_at p r), bo_rack (broker_at p r))) p of
                      (Inl e', p) \<Rightarrow> (Throws e', p)
                    | (Inr (host, port, rack), p) \<Rightarrow>
                        (Throws (new_KafkaJSProtocolError e True),
                         set_broker r (\<lambda>b. b\<lparr>bo_host := host, bo_port := port, bo_rack := rack\<rparr>) p))
              else if e_retriable e = Some True then (Throws e, p)
              else (Bails (Some e), p)))"

definition connectBroker :: "pool_env \<Rightarrow> nat \<Rightarrow> broker_pool \<Rightarrow> (err + unit) \<times> broker_pool" where
  "connectBroker env r p =
     (if bo_connected (broker_at p r) then (Inr (), p)
      else retry_st (pe_retries env) (pe_delay env) (connect_broker_attempt env r) 0 p)"

definition pool_findBroker :: "pool_env \<Rightarrow> int \<Rightarrow> broker_pool \<Rightarrow> (err + nat) \<times> broker_pool" where
  "pool_findBroker env nodeId p =
     (case map_of (brokers p) nodeId of
        None \<Rightarrow> (Inl (new_KafkaJSBrokerNotFound (Text (''Broker '' @ bigint_to_string nodeId @ '' not found in the cached metadata''))), p)
      | Some r \<Rightarrow> map_prod (map_sum id (\<lambda>_. r)) id (connectBroker env r p))"

text \<open>A failing callback is skipped, a broker that cannot be connected is not.\<close>

fun with_brokers :: "pool_env \<Rightarrow> (int \<Rightarrow> nat \<Rightarrow> broker_pool \<Rightarrow> (err + 'a) \<times> broker_pool) \<Rightarrow> int list \<Rightarrow> broker_pool \<Rightarrow> (err + 'a option) \<times> broker_pool" where
  "with_brokers env callback [] p = (Inr None, p)"
| "with_brokers env callback (n # ns) p =
     (case pool_findBroker env n p of
        (Inl e, p) \<Rightarrow> (Inl e, p)
      | (Inr r, p) \<Rightarrow>
          (case callback n r p of
             (Inr v, p) \<Rightarrow> (Inr (Some v), p)
           | (Inl _, p) \<Rightarrow> with_brokers env callback ns p))"

definition withBroker ::
    "pool_env \<Rightarrow> (int list \<Rightarrow> int list) \<Rightarrow> (int \<Rightarrow> nat \<Rightarrow> broker_pool \<Rightarrow> (err + 'a) \<times> broker_pool) \<Rightarrow> broker_pool \<Rightarrow> (err + 'a option) \<times> broker_pool" where
  "withBroker env shuffle callback p =
     (let nodes = shuffle (getNodeIds p)
      in if nodes = [] then (Inl (new_KafkaJSBrokerNotFound (Text ''No brokers in the broker pool'')), p)
         else with_brokers env callback nodes p)"

fun first_connecting :: "pool_env \<Rightarrow> int list \<Rightarrow> broker_pool \<Rightarrow> nat option \<times> broker_pool" where
  "first_connecting env [] p = (None, p)"
| "first_connecting env (n # ns) p =
     (case pool_findBroker env n p of
        (Inr r, p) \<Rightarrow> (Some r, p)
      | (Inl _, p) \<Rightarrow> first_connecting env ns p)"

definition findConnectedBroker :: "pool_env \<Rightarrow> (int list \<Rightarrow> int list) \<Rightarrow> broker_pool \<Rightarrow> (err + nat option) \<times> broker_pool" where
  "findConnectedBroker env shuffle p =
     (let nodes = shuffle (getNodeIds p)
      in case find (\<lambda>n. case map_of (brokers p) n of None \<Rightarrow> False | Some r \<Rightarrow> bo_connected (broker_at p r)) nodes of
           Some n \<Rightarrow> map_prod (map_sum id Some) id (pool_findBroker env n p)
         | None \<Rightarrow>
             (case first_connecting env nodes p of
                (Some r, p) \<Rightarrow> (Inr (Some r), p)
              | (None, p) \<Rightarrow>
                  (case pool_connect env p of
                     (Inl e, p) \<Rightarrow> (Inl e, p)
                   | (Inr _, p) \<Rightarrow> (Inr (seedBroker p), p))))"

subsection \<open>Refreshing the metadata\<close>

definition hasBrokerBeenReplaced :: "broker_obj \<Rightarrow> metadata_broker \<Rightarrow> bool" where
  "hasBrokerBeenReplaced b m \<longleftrightarrow> bo_host b \<noteq> mb_host m \<or> bo_port b \<noteq> Some (mb_port m) \<or> bo_rack b \<noteq> mb_rack m"

text \<open>
  One turn of the \<^verbatim>\<open>reduce\<close> over the brokers of the metadata, with the replaced brokers so far. The
  pool is changed in place, so that a failure leaves the changes made before.
\<close>

definition put_broker :: "int \<Rightarrow> nat \<Rightarrow> broker_pool \<Rightarrow> broker_pool" where
  "put_broker node r p = p\<lparr>brokers := AList.update node r (brokers p)\<rparr>"

definition merge_broker ::
    "pool_env \<Rightarrow> string \<Rightarrow> int option \<Rightarrow> metadata_broker \<Rightarrow> nat list \<Rightarrow> broker_pool \<Rightarrow> (err + nat list) \<times> broker_pool" where
  "merge_broker env seedHost seedPort m replaced p =
     (let old = map_of (brokers p) (mb_nodeId m)
      in if (case old of None \<Rightarrow> False | Some r \<Rightarrow> \<not> hasBrokerBeenReplaced (broker_at p r) m) then (Inr replaced, p)
         else
           (let replaced = (case old of None \<Rightarrow> replaced | Some r \<Rightarrow> replaced @ [r])
            in if mb_host m = seedHost \<and> Some (mb_port m) = seedPort
               then case seedBroker p of
                      None \<Rightarrow> (Inl (native_error ''TypeError'' ''Cannot set properties of undefined''), p)
                    | Some s \<Rightarrow>
                        (Inr replaced, put_broker (mb_nodeId m) s
                           (set_broker s (\<lambda>b. b\<lparr>bo_nodeId := Some (mb_nodeId m), bo_rack := mb_rack m\<rparr>) p))
               else case pool_build (pe_setting env (bp_index p)) (Some (mb_host m, Some (mb_port m), mb_rack m)) p of
                      (Inl e, p) \<Rightarrow> (Inl e, p)
                    | (Inr addr, p) \<Rightarrow>
                        (let (r, p) = createBroker (Some (mb_nodeId m)) addr p in (Inr replaced, put_broker (mb_nodeId m) r p))))"

fun merge_brokers ::
    "pool_env \<Rightarrow> string \<Rightarrow> int option \<Rightarrow> metadata_broker list \<Rightarrow> nat list \<Rightarrow> broker_pool \<Rightarrow> (err + nat list) \<times> broker_pool" where
  "merge_brokers env h pt [] replaced p = (Inr replaced, p)"
| "merge_brokers env h pt (m # ms) replaced p =
     (case merge_broker env h pt m replaced p of
        (Inl e, p) \<Rightarrow> (Inl e, p)
      | (Inr replaced, p) \<Rightarrow> merge_brokers env h pt ms replaced p)"

definition drop_unused :: "cluster_metadata \<Rightarrow> nat list \<Rightarrow> broker_pool \<Rightarrow> broker_pool" where
  "drop_unused md replaced p =
     (let unused = arrayDiff (map fst (brokers p)) (map mb_nodeId (md_brokers md));
          p = fold (\<lambda>n p. case map_of (brokers p) n of None \<Rightarrow> p | Some r \<Rightarrow> disconnect_broker r p) unused p;
          p = p\<lparr>brokers := filter (\<lambda>(n, _). n \<notin> set unused) (brokers p)\<rparr>
      in fold disconnect_broker replaced p)"

definition apply_metadata :: "pool_env \<Rightarrow> string \<Rightarrow> int option \<Rightarrow> int \<Rightarrow> cluster_metadata \<Rightarrow> broker_pool \<Rightarrow> (err + unit) \<times> broker_pool" where
  "apply_metadata env h pt now md p =
     (case merge_brokers env h pt (md_brokers md) [] (p\<lparr>bp_metadata := Some md, metadataExpireAt := Some (now + metadataMaxAge p)\<rparr>) of
        (Inl e, p) \<Rightarrow> (Inl e, p)
      | (Inr replaced, p) \<Rightarrow> (Inr (), drop_unused md replaced p))"

definition refresh_attempt ::
    "pool_env \<Rightarrow> string \<Rightarrow> int option \<Rightarrow> (nat \<Rightarrow> int \<times> (err + cluster_metadata)) \<Rightarrow> nat \<Rightarrow> broker_pool \<Rightarrow> unit attempt \<times> broker_pool" where
  "refresh_attempt env h pt answers i p =
     (case (case answers i of (now, Inl e) \<Rightarrow> (Inl e, p) | (now, Inr md) \<Rightarrow> apply_metadata env h pt now md p) of
        (Inr _, p) \<Rightarrow> (Returns (), p)
      | (Inl e, p) \<Rightarrow> (if e_type e = Some ''LEADER_NOT_AVAILABLE'' then Throws e else Bails (Some e), p))"

definition pool_refreshMetadata ::
    "pool_env \<Rightarrow> (int list \<Rightarrow> int list) \<Rightarrow> (nat \<Rightarrow> int \<times> (err + cluster_metadata)) \<Rightarrow> broker_pool \<Rightarrow> (err + unit) \<times> broker_pool" where
  "pool_refreshMetadata env shuffle answers p =
     (case findConnectedBroker env shuffle p of
        (Inl e, p) \<Rightarrow> (Inl e, p)
      | (Inr _, p) \<Rightarrow>
          (case seedBroker p of
             None \<Rightarrow> (Inl (native_error ''TypeError'' ''Cannot read properties of undefined''), p)
           | Some s \<Rightarrow>
               retry_st (pe_retries env) (pe_delay env) (refresh_attempt env (bo_host (broker_at p s)) (bo_port (broker_at p s)) answers) 0 p))"

definition shouldRefresh :: "int \<Rightarrow> string list \<Rightarrow> broker_pool \<Rightarrow> bool" where
  "shouldRefresh now topics p \<longleftrightarrow>
     (case (bp_metadata p, metadataExpireAt p) of
        (Some md, Some t) \<Rightarrow> now > t \<or> \<not> (\<forall>topic \<in> set topics. topic \<in> set (map fst (md_topicMetadata md)))
      | _ \<Rightarrow> True)"

definition pool_refreshMetadataIfNecessary ::
    "pool_env \<Rightarrow> (int list \<Rightarrow> int list) \<Rightarrow> (nat \<Rightarrow> int \<times> (err + cluster_metadata)) \<Rightarrow> int \<Rightarrow> string list \<Rightarrow> broker_pool \<Rightarrow> (err + unit) \<times> broker_pool" where
  "pool_refreshMetadataIfNecessary env shuffle answers now topics p =
     (if shouldRefresh now topics p then pool_refreshMetadata env shuffle answers p else (Inr (), p))"

subsection \<open>The pool mirrors the metadata\<close>

definition pool_wf :: "broker_pool \<Rightarrow> bool" where
  "pool_wf p \<longleftrightarrow> distinct (map fst (brokers p)) \<and> (\<forall>r \<in> snd ` set (brokers p). r < length (bp_store p)) \<and>
     (\<forall>s. seedBroker p = Some s \<longrightarrow> s < length (bp_store p))"

definition mirrors :: "broker_pool \<Rightarrow> metadata_broker \<Rightarrow> bool" where
  "mirrors p m \<longleftrightarrow> (\<exists>r. map_of (brokers p) (mb_nodeId m) = Some r \<and> \<not> hasBrokerBeenReplaced (broker_at p r) m)"

definition address :: "metadata_broker \<Rightarrow> string \<times> int" where
  "address m = (mb_host m, mb_port m)"

text \<open>What a turn keeps: the seed broker with its address, the entries of other nodes, the addresses of
  all brokers, and their racks but for the seed broker when the turn is about its address.\<close>

definition seed_at :: "string \<Rightarrow> int option \<Rightarrow> nat \<Rightarrow> broker_pool \<Rightarrow> bool" where
  "seed_at h pt s p \<longleftrightarrow> seedBroker p = Some s \<and> bo_host (broker_at p s) = h \<and> bo_port (broker_at p s) = pt"

definition same_address :: "broker_obj \<Rightarrow> broker_obj \<Rightarrow> bool" where
  "same_address a b \<longleftrightarrow> bo_host a = bo_host b \<and> bo_port a = bo_port b \<and> bo_rack a = bo_rack b"

definition turn :: "string \<Rightarrow> int option \<Rightarrow> nat \<Rightarrow> metadata_broker \<Rightarrow> broker_pool \<Rightarrow> broker_pool \<Rightarrow> bool" where
  "turn h pt s m p p' \<longleftrightarrow> pool_wf p' \<and> seed_at h pt s p' \<and> mirrors p' m \<and> fst ` set (brokers p') = insert (mb_nodeId m) (fst ` set (brokers p)) \<and>
     (\<forall>n. n \<noteq> mb_nodeId m \<longrightarrow> map_of (brokers p') n = map_of (brokers p) n) \<and>
     (\<forall>r < length (bp_store p). same_address (broker_at p' r) (broker_at p r) \<or> (r = s \<and> mb_host m = h \<and> Some (mb_port m) = pt)) \<and>
     (mirrors p m \<longrightarrow> map_of (brokers p') (mb_nodeId m) = map_of (brokers p) (mb_nodeId m))"

lemma values_update: "snd ` set (AList.update k v al) \<subseteq> insert v (snd ` set al)"
  by (induction al) auto

lemma wf_put: "pool_wf p \<Longrightarrow> r < length (bp_store p) \<Longrightarrow> pool_wf (put_broker n r p)"
  using values_update [of n r "brokers p"] unfolding pool_wf_def put_broker_def by (fastforce simp: distinct_update)

lemma replaced_same_address: "same_address a b \<Longrightarrow> hasBrokerBeenReplaced a m = hasBrokerBeenReplaced b m"
  by (simp add: same_address_def hasBrokerBeenReplaced_def)

lemma merge_broker_turn:
  assumes "pool_wf p" "seed_at h pt s p" "mb_host m \<noteq> []"
  shows "\<exists>replaced' p'. merge_broker env h pt m replaced p = (Inr replaced', p') \<and> turn h pt s m p p'"
proof (cases "mirrors p m")
  case True
  then have "merge_broker env h pt m replaced p = (Inr replaced, p)" by (auto simp: merge_broker_def mirrors_def)
  moreover have "mb_nodeId m \<in> fst ` set (brokers p)" using True by (auto simp: mirrors_def dest!: map_of_SomeD intro: image_eqI [rotated])
  ultimately show ?thesis using assms True by (auto simp: turn_def same_address_def)
next
  case False
  then have old: "\<not> (case map_of (brokers p) (mb_nodeId m) of None \<Rightarrow> False | Some r \<Rightarrow> \<not> hasBrokerBeenReplaced (broker_at p r) m)"
    by (auto simp: mirrors_def split: option.splits)
  have s: "seedBroker p = Some s" "s < length (bp_store p)" "bo_host (broker_at p s) = h" "bo_port (broker_at p s) = pt"
    using assms(1,2) by (auto simp: seed_at_def pool_wf_def)
  show ?thesis
  proof (cases "mb_host m = h \<and> Some (mb_port m) = pt")
    case True
    let ?p = "put_broker (mb_nodeId m) s (set_broker s (\<lambda>b. b\<lparr>bo_nodeId := Some (mb_nodeId m), bo_rack := mb_rack m\<rparr>) p)"
    have "\<exists>rep. merge_broker env h pt m replaced p = (Inr rep, ?p)" using old True s(1) by (simp add: merge_broker_def Let_def)
    moreover have "pool_wf ?p" using assms(1) s(2) by (intro wf_put) (auto simp: pool_wf_def set_broker_def)
    moreover from this have "turn h pt s m p ?p"
      using s True False
      by (auto simp: turn_def seed_at_def mirrors_def put_broker_def set_broker_def broker_at_def hasBrokerBeenReplaced_def
          update_conv' keys_update same_address_def address_def nth_list_update)
    ultimately show ?thesis by blast
  next
    case other: False
    let ?p = "put_broker (mb_nodeId m) (length (bp_store p)) (snd (createBroker (Some (mb_nodeId m)) (mb_host m, Some (mb_port m), mb_rack m) p))"
    have "\<exists>rep. merge_broker env h pt m replaced p = (Inr rep, ?p)"
      using old other assms(3) by (auto simp: merge_broker_def Let_def pool_build_def createBroker_def)
    moreover have "pool_wf ?p" using assms(1) by (intro wf_put) (auto simp: pool_wf_def createBroker_def less_Suc_eq)
    moreover from this have "turn h pt s m p ?p"
      using s False
      by (auto simp: turn_def seed_at_def mirrors_def put_broker_def createBroker_def broker_at_def hasBrokerBeenReplaced_def
          update_conv' keys_update same_address_def nth_append)
    ultimately show ?thesis by blast
  qed
qed

lemma turn_keeps:
  assumes "turn h pt s m p p'" "pool_wf p" "mirrors p d" "mb_nodeId d \<noteq> mb_nodeId m" "address d \<noteq> address m" "seed_at h pt s p"
  shows "mirrors p' d" "map_of (brokers p') (mb_nodeId d) = map_of (brokers p) (mb_nodeId d)"
proof -
  obtain r where r: "map_of (brokers p) (mb_nodeId d) = Some r" "\<not> hasBrokerBeenReplaced (broker_at p r) d"
    using assms(3) by (auto simp: mirrors_def)
  show same: "map_of (brokers p') (mb_nodeId d) = map_of (brokers p) (mb_nodeId d)" using assms(1,4) by (simp add: turn_def)
  have "r < length (bp_store p)" using assms(2) map_of_SomeD [OF r(1)] by (force simp: pool_wf_def)
  moreover have "\<not> (r = s \<and> mb_host m = h \<and> Some (mb_port m) = pt)"
    using r(2) assms(5,6) by (auto simp: hasBrokerBeenReplaced_def seed_at_def address_def)
  ultimately have "same_address (broker_at p' r) (broker_at p r)" using assms(1) by (auto simp: turn_def)
  then show "mirrors p' d" using r same by (auto simp: mirrors_def replaced_same_address)
qed

lemma merge_brokers_mirror:
  assumes "pool_wf p" "seed_at h pt s p" "\<forall>m \<in> set ms. mb_host m \<noteq> []" "distinct (map mb_nodeId ms)" "distinct (map address ms)"
    "\<forall>d \<in> D. mirrors p d \<and> mb_nodeId d \<notin> mb_nodeId ` set ms \<and> address d \<notin> address ` set ms"
  shows "\<exists>replaced' p'. merge_brokers env h pt ms replaced p = (Inr replaced', p') \<and> pool_wf p' \<and> (\<forall>d \<in> D \<union> set ms. mirrors p' d) \<and>
    fst ` set (brokers p') = fst ` set (brokers p) \<union> mb_nodeId ` set ms \<and>
    (\<forall>d \<in> D \<union> set ms. mirrors p d \<longrightarrow> map_of (brokers p') (mb_nodeId d) = map_of (brokers p) (mb_nodeId d))"
  using assms
proof (induction ms arbitrary: p D replaced)
  case (Cons m ms)
  obtain replaced1 p1 where p1: "merge_broker env h pt m replaced p = (Inr replaced1, p1)" and turn: "turn h pt s m p p1"
    using merge_broker_turn [OF Cons.prems(1,2), of m env replaced] Cons.prems(3) by auto
  have wf1: "pool_wf p1" "seed_at h pt s p1" using turn by (simp_all add: turn_def)
  have kept: "mirrors p1 d \<and> map_of (brokers p1) (mb_nodeId d) = map_of (brokers p) (mb_nodeId d)"
    if "d \<in> D \<union> set ms" "mirrors p d" for d
  proof -
    have "mb_nodeId d \<noteq> mb_nodeId m" "address d \<noteq> address m" using that(1) Cons.prems(4,5,6) by (auto simp: image_iff)
    then show ?thesis using turn_keeps [OF turn Cons.prems(1) that(2) _ _ Cons.prems(2)] by blast
  qed
  have D: "\<forall>d \<in> insert m D. mirrors p1 d \<and> mb_nodeId d \<notin> mb_nodeId ` set ms \<and> address d \<notin> address ` set ms"
    using Cons.prems(4-6) kept turn by (auto simp: turn_def)
  obtain replaced2 p2 where p2: "merge_brokers env h pt ms replaced1 p1 = (Inr replaced2, p2)" "pool_wf p2"
      "\<forall>d \<in> insert m D \<union> set ms. mirrors p2 d" "fst ` set (brokers p2) = fst ` set (brokers p1) \<union> mb_nodeId ` set ms"
      "\<forall>d \<in> insert m D \<union> set ms. mirrors p1 d \<longrightarrow> map_of (brokers p2) (mb_nodeId d) = map_of (brokers p1) (mb_nodeId d)"
    using Cons.IH [OF wf1 _ _ _ D, of replaced1] Cons.prems(3-5) by auto
  have "map_of (brokers p2) (mb_nodeId d) = map_of (brokers p) (mb_nodeId d)" if "d \<in> D \<union> set (m # ms)" "mirrors p d" for d
  proof (cases "d = m")
    case True
    then show ?thesis using p2(5) D turn that(2) by (simp add: turn_def)
  next
    case False
    then show ?thesis using p2(5) kept [of d] that by auto
  qed
  moreover have "fst ` set (brokers p2) = fst ` set (brokers p) \<union> mb_nodeId ` set (m # ms)" using p2(4) turn by (auto simp: turn_def)
  ultimately show ?case using p1 p2(1-3) by auto
qed auto

lemma disconnect_same:
  "brokers (disconnect_broker a p) = brokers p" "length (bp_store (disconnect_broker a p)) = length (bp_store p)"
  "same_address (broker_at (disconnect_broker a p) r) (broker_at p r)"
proof -
  show "brokers (disconnect_broker a p) = brokers p" "length (bp_store (disconnect_broker a p)) = length (bp_store p)"
    by (simp_all add: disconnect_broker_def set_broker_def)
  show "same_address (broker_at (disconnect_broker a p) r) (broker_at p r)"
  proof (cases "a < length (bp_store p) \<and> a = r")
    case False
    then show ?thesis by (cases "a = r") (auto simp: disconnect_broker_def set_broker_def same_address_def broker_at_def list_update_beyond)
  qed (simp add: disconnect_broker_def set_broker_def same_address_def broker_at_def)
qed

lemma same_address_trans: "same_address a b \<Longrightarrow> same_address b c \<Longrightarrow> same_address a c"
  by (simp add: same_address_def)

lemma fold_disconnect:
  "brokers (fold disconnect_broker rs p) = brokers p" "length (bp_store (fold disconnect_broker rs p)) = length (bp_store p)"
  "same_address (broker_at (fold disconnect_broker rs p) r) (broker_at p r)"
proof (induction rs arbitrary: p)
  case (Cons a rs)
  { case 1 show ?case using Cons(1) by (simp add: disconnect_same) }
  { case 2 show ?case using Cons(2) by (simp add: disconnect_same) }
  { case 3 show ?case using same_address_trans [OF Cons(3) disconnect_same(3)] by simp }
qed (simp_all add: same_address_def)

lemma fold_disconnect_nodes:
  "brokers (fold (\<lambda>n p. case map_of (brokers p) n of None \<Rightarrow> p | Some r \<Rightarrow> disconnect_broker r p) ns p) = brokers p \<and>
   same_address (broker_at (fold (\<lambda>n p. case map_of (brokers p) n of None \<Rightarrow> p | Some r \<Rightarrow> disconnect_broker r p) ns p) r) (broker_at p r)"
proof (induction ns arbitrary: p)
  case (Cons n ns)
  show ?case
  proof (cases "map_of (brokers p) n")
    case (Some a)
    then show ?thesis using Cons.IH [of "disconnect_broker a p"] disconnect_same(1) [of a p] same_address_trans [OF _ disconnect_same(3)] by auto
  qed (use Cons.IH [of p] in simp)
qed (simp add: same_address_def)

lemma map_of_filter_keep: "k \<notin> A \<Longrightarrow> map_of (filter (\<lambda>(n, _). n \<notin> A) al) k = map_of al k"
  by (induction al) auto

lemma drop_unused_mirror:
  assumes "\<forall>d \<in> set (md_brokers md). mirrors p d"
  shows "fst ` set (brokers (drop_unused md replaced p)) = fst ` set (brokers p) \<inter> mb_nodeId ` set (md_brokers md)"
    "\<forall>d \<in> set (md_brokers md). mirrors (drop_unused md replaced p) d \<and>
       map_of (brokers (drop_unused md replaced p)) (mb_nodeId d) = map_of (brokers p) (mb_nodeId d)"
proof -
  let ?unused = "arrayDiff (map fst (brokers p)) (map mb_nodeId (md_brokers md))"
  define p1 where "p1 = fold (\<lambda>n p. case map_of (brokers p) n of None \<Rightarrow> p | Some r \<Rightarrow> disconnect_broker r p) ?unused p"
  have p1: "brokers p1 = brokers p" "same_address (broker_at p1 r) (broker_at p r)" for r
    using fold_disconnect_nodes [of ?unused p r] by (simp_all add: p1_def)
  define q where "q = drop_unused md replaced p"
  have q: "brokers q = filter (\<lambda>(n, _). n \<notin> set ?unused) (brokers p)" "same_address (broker_at q r) (broker_at p r)" for r
    using p1(2) [of r] fold_disconnect(3) [of replaced "p1\<lparr>brokers := filter (\<lambda>(n, _). n \<notin> set ?unused) (brokers p1)\<rparr>" r]
    by (simp_all add: q_def drop_unused_def p1_def [symmetric] Let_def fold_disconnect p1(1) same_address_def broker_at_def)
  show "fst ` set (brokers (drop_unused md replaced p)) = fst ` set (brokers p) \<inter> mb_nodeId ` set (md_brokers md)"
    unfolding q_def [symmetric] q(1) by (auto simp: arrayDiff_def image_iff)
  have "map_of (brokers q) (mb_nodeId d) = map_of (brokers p) (mb_nodeId d)" if "d \<in> set (md_brokers md)" for d
  proof -
    have "mb_nodeId d \<notin> set ?unused" using that by (simp add: arrayDiff_def)
    then show ?thesis unfolding q(1) by (rule map_of_filter_keep)
  qed
  then show "\<forall>d \<in> set (md_brokers md). mirrors (drop_unused md replaced p) d \<and>
       map_of (brokers (drop_unused md replaced p)) (mb_nodeId d) = map_of (brokers p) (mb_nodeId d)"
    using assms q(2) unfolding q_def [symmetric] mirrors_def by (metis replaced_same_address)
qed

text \<open>C22: Refreshing makes the pool mirror the metadata. When the brokers of the metadata have different
  node ids and addresses, the pool afterwards has exactly their node ids, every broker object has the
  host, port and rack the metadata gives for its node, and a broker whose address did not change is the
  same object as before, so that its connection is kept.\<close>

theorem refresh_mirrors_metadata:
  assumes "pool_wf p" "seed_at h pt s p" "\<forall>m \<in> set (md_brokers md). mb_host m \<noteq> []"
    "distinct (map mb_nodeId (md_brokers md))" "distinct (map address (md_brokers md))"
  shows "\<exists>p'. apply_metadata env h pt now md p = (Inr (), p') \<and> fst ` set (brokers p') = mb_nodeId ` set (md_brokers md) \<and>
    (\<forall>m \<in> set (md_brokers md). mirrors p' m \<and>
       (mirrors p m \<longrightarrow> map_of (brokers p') (mb_nodeId m) = map_of (brokers p) (mb_nodeId m)))"
proof -
  let ?p = "p\<lparr>bp_metadata := Some md, metadataExpireAt := Some (now + metadataMaxAge p)\<rparr>"
  have p: "pool_wf ?p" "seed_at h pt s ?p" "mirrors ?p m = mirrors p m" for m
    using assms(1,2) by (simp_all add: pool_wf_def seed_at_def mirrors_def broker_at_def)
  obtain replaced p1 where p1: "merge_brokers env h pt (md_brokers md) [] ?p = (Inr replaced, p1)" "\<forall>d \<in> set (md_brokers md). mirrors p1 d"
      "fst ` set (brokers p1) = fst ` set (brokers p) \<union> mb_nodeId ` set (md_brokers md)"
      "\<forall>d \<in> set (md_brokers md). mirrors p d \<longrightarrow> map_of (brokers p1) (mb_nodeId d) = map_of (brokers p) (mb_nodeId d)"
    using merge_brokers_mirror [OF p(1,2) assms(3-5), of "{}" env "[]"] p(3) by auto
  show ?thesis using drop_unused_mirror [OF p1(2), of replaced] p1 by (auto simp: apply_metadata_def)
qed

definition sample_pool :: broker_pool where
  "sample_pool = (new_BrokerPool None)\<lparr>bp_store := [\<lparr>bo_nodeId = Some 1, bo_host = ''a'', bo_port = Some 9092, bo_rack = None, bo_connected = True\<rparr>,
     \<lparr>bo_nodeId = Some 2, bo_host = ''b'', bo_port = Some 9092, bo_rack = None, bo_connected = True\<rparr>], brokers := [(1, 0), (2, 1)], seedBroker := Some 0\<rparr>"

definition sample_refresh :: cluster_metadata where
  "sample_refresh = \<lparr>md_brokers = [\<lparr>mb_nodeId = 2, mb_host = ''b'', mb_port = 9092, mb_rack = None\<rparr>,
     \<lparr>mb_nodeId = 3, mb_host = ''a'', mb_port = 9092, mb_rack = None\<rparr>], md_controllerId = Some 2, md_topicMetadata = []\<rparr>"

definition sample_pool_env :: pool_env where
  "sample_pool_env = \<lparr>pe_setting = (\<lambda>_. BrokerList (Some [''a:9092'', ''b:9092''])),
     pe_connect = (\<lambda>i b. if bo_host b = ''b'' \<and> bo_port b = Some 9092 then Inr [] else Inl (new_KafkaJSConnectionError (Text ''down'') FUndef FUndef)),
     pe_retries = 5, pe_delay = (\<lambda>_. 0)\<rparr>"

theorem refresh_mirrors_metadata_witness:
  "\<exists>p'. apply_metadata sample_pool_env ''a'' (Some 9092) 5 sample_refresh sample_pool = (Inr (), p') \<and> fst ` set (brokers p') = {2, 3} \<and>
    map_of (brokers p') 2 = Some 1"
proof -
  have wf: "pool_wf sample_pool" "seed_at ''a'' (Some 9092) 0 sample_pool"
    by (simp_all add: pool_wf_def seed_at_def sample_pool_def broker_at_def)
  have "mirrors sample_pool \<lparr>mb_nodeId = 2, mb_host = ''b'', mb_port = 9092, mb_rack = None\<rparr>" "map_of (brokers sample_pool) 2 = Some 1"
    by (simp_all add: mirrors_def sample_pool_def hasBrokerBeenReplaced_def broker_at_def)
  moreover have "mb_nodeId ` set (md_brokers sample_refresh) = {2, 3}" by (simp add: sample_refresh_def)
  ultimately show ?thesis using refresh_mirrors_metadata [OF wf, of sample_refresh sample_pool_env 5] by (auto simp: sample_refresh_def address_def)
qed

subsection \<open>The seed broker rotates\<close>

definition listed_at :: "string list \<Rightarrow> nat \<Rightarrow> string \<times> int option" where
  "listed_at xs i = (let (h, pt) = split_colon (xs ! (i mod length xs)) in (h, js_Number pt))"

definition seed_listed :: "string list \<Rightarrow> nat \<Rightarrow> broker_pool \<Rightarrow> bool" where
  "seed_listed xs i p \<longleftrightarrow> bp_index p = Suc i \<and> (\<exists>r. seedBroker p = Some r \<and> r < length (bp_store p) \<and>
     (bo_host (broker_at p r), bo_port (broker_at p r)) = listed_at xs i)"

lemma getBrokers_valid: "xs \<noteq> [] \<Longrightarrow> [] \<notin> set xs \<Longrightarrow> getBrokers (BrokerList (Some xs)) = Inr xs"
proof -
  assume xs: "xs \<noteq> []" "[] \<notin> set xs"
  have "find (\<lambda>i. \<not> isValidBroker (xs ! i)) [0..<length xs] = None"
    using xs(2) by (simp add: find_None_iff isValidBroker_def) (metis nth_mem)
  then show ?thesis using xs(1) by (cases xs) (simp_all add: getBrokers_def validateBrokers_def)
qed

lemma createSeedBroker_rotates:
  assumes "xs \<noteq> []" "[] \<notin> set xs"
  shows "\<exists>p'. createSeedBroker (BrokerList (Some xs)) p = (Inr (), p') \<and> seed_listed xs (bp_index p) p'"
proof -
  let ?p = "case seedBroker p of None \<Rightarrow> p | Some r \<Rightarrow> disconnect_broker r p"
  have "bp_index ?p = bp_index p" by (simp add: disconnect_broker_def set_broker_def split: option.split)
  then show ?thesis
    by (auto simp: createSeedBroker_def pool_build_def getBrokers_valid [OF assms] createBroker_def seed_listed_def listed_at_def broker_at_def Let_def
        split: prod.split)
qed

lemma connect_rotates:
  assumes "xs \<noteq> []" "[] \<notin> set xs" "\<And>i. pe_setting env i = BrokerList (Some xs)"
    "\<And>i b. (bo_host b, bo_port b) = target \<Longrightarrow> \<exists>vs. pe_connect env i b = Inr vs"
    "\<And>i b. (bo_host b, bo_port b) \<noteq> target \<Longrightarrow> \<exists>e. pe_connect env i b = Inl e \<and> e_name e = ''KafkaJSConnectionError'' \<and> e_retriable e = Some True"
    "seed_listed xs c p" "listed_at xs (c + d) = target" "i + d \<le> pe_retries env"
  shows "\<exists>p'. retry_st (pe_retries env) (pe_delay env) (connect_attempt env) i p = (Inr (), p') \<and> hasConnectedBrokers p'"
  using assms(6-8)
proof (induction d arbitrary: c i p)
  case 0
  then obtain r where r: "seedBroker p = Some r" "r < length (bp_store p)" "(bo_host (broker_at p r), bo_port (broker_at p r)) = target"
    by (auto simp: seed_listed_def)
  then obtain vs where "pe_connect env i (broker_at p r) = Inr vs" using assms(4) by blast
  then show ?case using r(1,2)
    by (subst retry_st.simps) (auto simp: connect_attempt_def hasConnectedBrokers_def set_broker_def broker_at_def)
next
  case (Suc d)
  obtain r where r: "seedBroker p = Some r" "r < length (bp_store p)" "(bo_host (broker_at p r), bo_port (broker_at p r)) = listed_at xs c" "bp_index p = Suc c"
    using Suc.prems(1) by (auto simp: seed_listed_def)
  show ?case
  proof (cases "listed_at xs c = target")
    case True
    then obtain vs where "pe_connect env i (broker_at p r) = Inr vs" using assms(4) r(3) by metis
    then show ?thesis using r(1,2)
      by (subst retry_st.simps) (auto simp: connect_attempt_def hasConnectedBrokers_def set_broker_def broker_at_def)
  next
    case False
    then obtain e where e: "pe_connect env i (broker_at p r) = Inl e" "e_name e = ''KafkaJSConnectionError''" "e_retriable e = Some True"
      using assms(5) r(3) by metis
    obtain p1 where p1: "createSeedBroker (BrokerList (Some xs)) p = (Inr (), p1)" "seed_listed xs (Suc c) p1"
      using createSeedBroker_rotates [OF assms(1,2), of p] r(4) by auto
    have "connect_attempt env i p = (Throws e, p1)"
      using r(1) e p1(1) by (simp add: connect_attempt_def connection_problem_def assms(3))
    moreover have "isErrorRetriable e" using e by (simp add: isErrorRetriable_def isErrorUnrecoverable_def UNRECOVERABLE_ERRORS_def)
    moreover have "i < pe_retries env" using Suc.prems(3) by simp
    moreover have "\<exists>p'. retry_st (pe_retries env) (pe_delay env) (connect_attempt env) (i + 1) p1 = (Inr (), p') \<and> hasConnectedBrokers p'"
      using Suc.prems by (intro Suc.IH [OF p1(2)]) auto
    ultimately show ?thesis by (subst retry_st.simps) simp
  qed
qed

text \<open>C23: Connecting goes through the configured addresses in turn: when one of them accepts connections and
  the others fail with connection errors, and the number of retries is at least the number of addresses
  less one, the client ends up connected, wherever in the list the working address is.\<close>

theorem connect_reaches_working_broker:
  assumes "xs \<noteq> []" "[] \<notin> set xs" "\<And>i. pe_setting env i = BrokerList (Some xs)" "k < length xs"
    "\<And>i b. (bo_host b, bo_port b) = listed_at xs k \<Longrightarrow> \<exists>vs. pe_connect env i b = Inr vs"
    "\<And>i b. (bo_host b, bo_port b) \<noteq> listed_at xs k \<Longrightarrow> \<exists>e. pe_connect env i b = Inl e \<and> e_name e = ''KafkaJSConnectionError'' \<and> e_retriable e = Some True"
    "length xs \<le> Suc (pe_retries env)" "seedBroker p = None" "brokers p = []"
  shows "\<exists>p'. pool_connect env p = (Inr (), p') \<and> hasConnectedBrokers p'"
proof -
  obtain p1 where p1: "createSeedBroker (BrokerList (Some xs)) p = (Inr (), p1)" "seed_listed xs (bp_index p) p1"
    using createSeedBroker_rotates [OF assms(1,2)] by blast
  define d where "d = (k + length xs - bp_index p mod length xs) mod length xs"
  have n: "0 < length xs" using assms(1) by simp
  have "(bp_index p + d) mod length xs = (bp_index p mod length xs + (k + length xs - bp_index p mod length xs)) mod length xs"
    by (simp add: d_def mod_simps)
  also have "\<dots> = k" using assms(4) mod_less_divisor [OF n, of "bp_index p"] by simp
  finally have "listed_at xs (bp_index p + d) = listed_at xs k" using assms(4) by (simp add: listed_at_def)
  moreover have "0 + d \<le> pe_retries env" using assms(7) mod_less_divisor [OF n] unfolding d_def by (metis add_0 less_Suc_eq_le order_less_le_trans)
  ultimately have "\<exists>p'. retry_st (pe_retries env) (pe_delay env) (connect_attempt env) 0 p1 = (Inr (), p') \<and> hasConnectedBrokers p'"
    using connect_rotates [OF assms(1-3,5,6) p1(2)] by blast
  moreover have "\<not> hasConnectedBrokers p" using assms(8,9) by (simp add: hasConnectedBrokers_def broker_values_def)
  ultimately show ?thesis using p1(1) assms(3,8) by (simp add: pool_connect_def)
qed

theorem connect_reaches_working_broker_witness:
  "\<exists>p'. pool_connect sample_pool_env (new_BrokerPool None) = (Inr (), p') \<and> hasConnectedBrokers p'"
proof (rule connect_reaches_working_broker [of "[''a:9092'', ''b:9092'']" sample_pool_env 1])
  have b: "listed_at [''a:9092'', ''b:9092''] 1 = (''b'', Some 9092)" by code_simp
  show "\<exists>vs. pe_connect sample_pool_env i b = Inr vs" if "(bo_host b, bo_port b) = listed_at [''a:9092'', ''b:9092''] 1" for i b
    using that unfolding b by (simp add: sample_pool_env_def)
  show "\<exists>e. pe_connect sample_pool_env i b = Inl e \<and> e_name e = ''KafkaJSConnectionError'' \<and> e_retriable e = Some True"
    if "(bo_host b, bo_port b) \<noteq> listed_at [''a:9092'', ''b:9092''] 1" for i b
    using that unfolding b by (simp add: sample_pool_env_def new_KafkaJSConnectionError_def new_KafkaJSError_def)
qed (simp_all add: sample_pool_env_def new_BrokerPool_def)

text \<open>
  A broker that cannot be reached ends \<^verbatim>\<open>withBroker\<close>, although the loop goes on to the next broker
  when the callback fails.
\<close>

lemma withBroker_stops_at_unreachable:
  assumes "pool_findBroker env n p = (Inl e, p')"
  shows "with_brokers env callback (n # ns) p = (Inl e, p')"
  using assms by simp

end
