(* ===== verification/Lock_Model.thy ===== *)
theory Lock_Model
  imports Kafka_Errors Long
begin

text \<open>
  The mutex of \<^verbatim>\<open>src/utils/lock.js\<close>. A call of \<^verbatim>\<open>acquire\<close> is identified by a number;
  it is granted at once, or waits until \<^verbatim>\<open>release\<close> hands the lock over or its timer fires.
  The holder is not a field of the class but what the granted promises amount to; it is kept to
  state mutual exclusion.
\<close>

record lock =
  LOCKED :: bool
  WAITING :: "nat list" \<comment> \<open>a \<open>Set\<close>, in insertion order\<close>

definition new_Lock :: lock where
  "new_Lock = \<lparr>LOCKED = False, WAITING = []\<rparr>"

datatype acquire_result = Granted | Waits

definition acquire :: "nat \<Rightarrow> lock \<Rightarrow> acquire_result \<times> lock" where
  "acquire w l =
     (if \<not> LOCKED l then (Granted, l\<lparr>LOCKED := True\<rparr>)
      else (Waits, l\<lparr>WAITING := WAITING l @ [w]\<rparr>))"

definition tryToAcquire :: "nat \<Rightarrow> lock \<Rightarrow> nat option \<times> lock" where \<comment> \<open>the waiter whose promise resolves\<close>
  "tryToAcquire w l =
     (if \<not> LOCKED l then (Some w, l\<lparr>LOCKED := True, WAITING := filter (\<lambda>x. x \<noteq> w) (WAITING l)\<rparr>)
      else (None, l))"

definition release :: "lock \<Rightarrow> nat option \<times> lock" where
  "release l =
     (let l' = l\<lparr>LOCKED := False\<rparr>
      in case WAITING l' of [] \<Rightarrow> (None, l') | w # _ \<Rightarrow> tryToAcquire w l')"

definition timeout_message :: "string option \<Rightarrow> nat \<Rightarrow> string" where
  "timeout_message description n =
     (let m = ''Timeout while acquiring lock ('' @ dec_digits n @ '' waiting locks)''
      in case description of None \<Rightarrow> m | Some d \<Rightarrow> m @ '': \"'' @ d @ ''\"'')"

definition lock_timeout :: "string option \<Rightarrow> nat \<Rightarrow> lock \<Rightarrow> err \<times> lock" where
  "lock_timeout description w l =
     (new_KafkaJSLockTimeout (Text (timeout_message description (length (WAITING l)))), l\<lparr>WAITING := filter (\<lambda>x. x \<noteq> w) (WAITING l)\<rparr>)"

subsection \<open>Runs\<close>

text \<open>
  The steps of the clients: fresh calls, releases by the current holder, timers of waiting calls.
  \<open>holders\<close> lists the calls that hold the lock.
\<close>

record lock_run =
  lk :: lock
  holders :: "nat list"
  calls :: "nat list"

inductive lock_step :: "lock_run \<Rightarrow> lock_run \<Rightarrow> bool" where
  acquire_now: "w \<notin> set (calls r) \<Longrightarrow> acquire w (lk r) = (Granted, l') \<Longrightarrow>
    lock_step r (r\<lparr>lk := l', holders := w # holders r, calls := w # calls r\<rparr>)"
| acquire_later: "w \<notin> set (calls r) \<Longrightarrow> acquire w (lk r) = (Waits, l') \<Longrightarrow>
    lock_step r (r\<lparr>lk := l', calls := w # calls r\<rparr>)"
| release_handover: "h \<in> set (holders r) \<Longrightarrow> release (lk r) = (Some w, l') \<Longrightarrow>
    lock_step r (r\<lparr>lk := l', holders := w # remove1 h (holders r)\<rparr>)"
| release_free: "h \<in> set (holders r) \<Longrightarrow> release (lk r) = (None, l') \<Longrightarrow>
    lock_step r (r\<lparr>lk := l', holders := remove1 h (holders r)\<rparr>)"
| timeout: "w \<in> set (WAITING (lk r)) \<Longrightarrow> lock_timeout description w (lk r) = (e, l') \<Longrightarrow> lock_step r (r\<lparr>lk := l'\<rparr>)"

inductive_cases lock_stepE: "lock_step r r'"

definition lock_start :: lock_run where
  "lock_start = \<lparr>lk = new_Lock, holders = [], calls = []\<rparr>"

definition lock_inv :: "lock_run \<Rightarrow> bool" where
  "lock_inv r \<longleftrightarrow>
     length (holders r) = (if LOCKED (lk r) then 1 else 0) \<and> (WAITING (lk r) \<noteq> [] \<longrightarrow> LOCKED (lk r)) \<and>
     distinct (WAITING (lk r)) \<and> set (WAITING (lk r)) \<subseteq> set (calls r) \<and> set (holders r) \<subseteq> set (calls r) \<and>
     set (WAITING (lk r)) \<inter> set (holders r) = {}"

lemma lock_inv_start: "lock_inv lock_start"
  by (simp add: lock_inv_def lock_start_def new_Lock_def)

lemma one_holder: "length xs = 1 \<Longrightarrow> h \<in> set xs \<Longrightarrow> xs = [h]"
  by (cases xs) auto

lemma lock_inv_step:
  assumes "lock_step r r'" "lock_inv r"
  shows "lock_inv r'"
  using assms
proof cases
  case (release_handover h w l')
  then have h: "holders r = [h]" "LOCKED (lk r)"
    using assms(2) one_holder [of "holders r" h] by (auto simp: lock_inv_def split: if_splits)
  show ?thesis
    using release_handover h assms(2)
    by (auto simp: lock_inv_def release_def tryToAcquire_def Let_def split: list.splits)
next
  case (release_free h l')
  then have h: "holders r = [h]" "LOCKED (lk r)"
    using assms(2) one_holder [of "holders r" h] by (auto simp: lock_inv_def split: if_splits)
  show ?thesis
    using release_free h assms(2)
    by (auto simp: lock_inv_def release_def tryToAcquire_def Let_def split: list.splits)
qed (auto simp: lock_inv_def acquire_def lock_timeout_def filter_empty_conv split: if_splits)

lemma lock_inv_reachable: "lock_step\<^sup>*\<^sup>* lock_start r \<Longrightarrow> lock_inv r"
  by (induction rule: rtranclp_induct) (auto intro: lock_inv_start lock_inv_step)

subsection \<open>Properties\<close>

text \<open>C8: In every run of calls, releases by the holder and timeouts, at most one call holds the lock; the
  lock is marked as taken exactly when a call holds it; and nobody waits for a free lock.\<close>

theorem lock_mutual_exclusion:
  assumes "lock_step\<^sup>*\<^sup>* lock_start r"
  shows "length (holders r) \<le> 1 \<and> (LOCKED (lk r) \<longleftrightarrow> holders r \<noteq> []) \<and> (WAITING (lk r) \<noteq> [] \<longrightarrow> LOCKED (lk r))"
  using lock_inv_reachable [OF assms] by (auto simp: lock_inv_def split: if_splits)

theorem lock_mutual_exclusion_witness:
  "length (holders \<lparr>lk = \<lparr>LOCKED = True, WAITING = [2]\<rparr>, holders = [1], calls = [2, 1]\<rparr>) \<le> 1"
proof -
  let ?r1 = "\<lparr>lk = \<lparr>LOCKED = True, WAITING = []\<rparr>, holders = [1], calls = [1]\<rparr>"
  let ?r2 = "\<lparr>lk = \<lparr>LOCKED = True, WAITING = [2]\<rparr>, holders = [1], calls = [2, 1]\<rparr>"
  have "lock_step lock_start ?r1"
    using acquire_now [of 1 lock_start "\<lparr>LOCKED = True, WAITING = []\<rparr>"] by (simp add: lock_start_def acquire_def new_Lock_def)
  moreover have "lock_step ?r1 ?r2"
    using acquire_later [of 2 ?r1 "\<lparr>LOCKED = True, WAITING = [2]\<rparr>"] by (simp add: acquire_def)
  ultimately have "lock_step\<^sup>*\<^sup>* lock_start ?r2" by (meson converse_rtranclp_into_rtranclp rtranclp.rtrancl_refl)
  from lock_mutual_exclusion [OF this] show ?thesis by simp
qed

text \<open>Waiting calls are served in the order they came: a release hands the lock to the call that has
  waited longest, and to nobody only when nobody waits.\<close>

theorem lock_fifo:
  "fst (release l) = (case WAITING l of [] \<Rightarrow> None | w # _ \<Rightarrow> Some w) \<and>
   (WAITING l \<noteq> [] \<longrightarrow> distinct (WAITING l) \<longrightarrow> WAITING (snd (release l)) = tl (WAITING l) \<and> LOCKED (snd (release l)))"
  by (cases "WAITING l") (auto simp: release_def tryToAcquire_def Let_def filter_id_conv)

theorem lock_fifo_witness:
  "WAITING (snd (release \<lparr>LOCKED = True, WAITING = [4, 7]\<rparr>)) = [7]"
  using lock_fifo [of "\<lparr>LOCKED = True, WAITING = [4, 7]\<rparr>"] by simp

end
