(* ===== verification/Eos_Manager.thy ===== *)
theory Eos_Manager
  imports Retry Protocol_Error Lock_Model "HOL-Library.AList"
begin

text \<open>
  Idempotent and transactional production: \<^verbatim>\<open>src/producer/eosManager/index.js\<close> with its state
  machine \<^verbatim>\<open>transactionStateMachine.js\<close>. The state is the record \<open>eos\<close>; the answers of the
  brokers are arguments of the operations. An operation returns its result or the error it rejects
  with, the request it sent where that matters, and the new state.
\<close>

subsection \<open>The transaction state machine\<close>

datatype tx_state = UNINITIALIZED | READY | TRANSACTING | COMMITTING | ABORTING

fun VALID_STATE_TRANSITIONS :: "tx_state \<Rightarrow> tx_state list" where
  "VALID_STATE_TRANSITIONS UNINITIALIZED = [READY]"
| "VALID_STATE_TRANSITIONS READY = [READY, TRANSACTING]"
| "VALID_STATE_TRANSITIONS TRANSACTING = [COMMITTING, ABORTING]"
| "VALID_STATE_TRANSITIONS COMMITTING = [READY]"
| "VALID_STATE_TRANSITIONS ABORTING = [READY]"

datatype eos_method = InitProducerId | BeginTransaction | AddPartitions | SendOffsets | Commit | Abort

fun legalStates :: "eos_method \<Rightarrow> tx_state list" where
  "legalStates InitProducerId = [UNINITIALIZED, READY]"
| "legalStates BeginTransaction = [READY]"
| "legalStates AddPartitions = [TRANSACTING]"
| "legalStates SendOffsets = [TRANSACTING]"
| "legalStates Commit = [TRANSACTING]"
| "legalStates Abort = [TRANSACTING]"

subsection \<open>State\<close>

record eos =
  eos_state :: tx_state
  eos_producerId :: int
  eos_producerEpoch :: int
  producerSequence :: "string \<times> int \<Rightarrow> int option"
  brokerMutexLocks :: "int \<Rightarrow> lock option"
  transactionTopicPartitions :: "(string \<times> int) list" \<comment> \<open>those marked \<open>true\<close>\<close>
  hasOffsetsAddedToTransaction :: bool

record eos_config =
  transactional :: bool
  transactionalId :: string

definition NO_PRODUCER_ID :: int where "NO_PRODUCER_ID = - 1"
definition SEQUENCE_START :: int where "SEQUENCE_START = 0"
definition eos_init :: eos where
  "eos_init = \<lparr>eos_state = UNINITIALIZED, eos_producerId = NO_PRODUCER_ID, eos_producerEpoch = 0,
     producerSequence = (\<lambda>_. None), brokerMutexLocks = (\<lambda>_. None), transactionTopicPartitions = [],
     hasOffsetsAddedToTransaction = False\<rparr>"

definition createEosManager :: "eos_config \<Rightarrow> err + eos" where
  "createEosManager cfg =
     (if transactional cfg \<and> transactionalId cfg = []
      then Inl (new_KafkaJSNonRetriableError (Text ''Cannot manage transactions without a transactionalId'') None)
      else Inr eos_init)"

type_synonym 'a eos_op = "eos \<Rightarrow> (err + 'a) \<times> eos"

fun STATES :: "tx_state \<Rightarrow> string" where
  "STATES UNINITIALIZED = ''UNINITIALIZED''"
| "STATES READY = ''READY''"
| "STATES TRANSACTING = ''TRANSACTING''"
| "STATES COMMITTING = ''COMMITTING''"
| "STATES ABORTING = ''ABORTING''"

fun method_name :: "eos_method \<Rightarrow> string" where
  "method_name InitProducerId = ''initProducerId''"
| "method_name BeginTransaction = ''beginTransaction''"
| "method_name AddPartitions = ''addPartitionsToTransaction''"
| "method_name SendOffsets = ''sendOffsets''"
| "method_name Commit = ''commit''"
| "method_name Abort = ''abort''"

definition guard_error :: "eos_method \<Rightarrow> tx_state \<Rightarrow> err" where
  "guard_error method st = new_KafkaJSNonRetriableError (Text (''Transaction state exception: Cannot call \"'' @ method_name method @
     ''\" in state \"'' @ STATES st @ ''\"'')) None"

definition transition_error :: "tx_state \<Rightarrow> tx_state \<Rightarrow> err" where
  "transition_error st to = new_KafkaJSNonRetriableError (Text (''Transaction state exception: Invalid transition '' @ STATES st @ '' --> '' @ STATES to)) None"

text \<open>The guards that \<^verbatim>\<open>createGuarded\<close> puts in front of the methods.\<close>

definition guarded :: "eos_method \<Rightarrow> 'a eos_op \<Rightarrow> 'a eos_op" where
  "guarded method f s = (if eos_state s \<in> set (legalStates method) then f s else (Inl (guard_error method (eos_state s)), s))"

text \<open>The listener on transitions clears the transaction when the state becomes ready.\<close>

definition transitionTo :: "tx_state \<Rightarrow> unit eos_op" where
  "transitionTo to s =
     (if to \<notin> set (VALID_STATE_TRANSITIONS (eos_state s)) then (Inl (transition_error (eos_state s) to), s)
      else (Inr (), (if to = READY then s\<lparr>transactionTopicPartitions := [], hasOffsetsAddedToTransaction := False\<rparr> else s)
              \<lparr>eos_state := to\<rparr>))"

definition bind_op :: "'a eos_op \<Rightarrow> ('a \<Rightarrow> 'b eos_op) \<Rightarrow> 'b eos_op" where
  "bind_op m f s = (case m s of (Inl e, s') \<Rightarrow> (Inl e, s') | (Inr v, s') \<Rightarrow> f v s')"

definition transactionalGuard :: "eos_config \<Rightarrow> unit eos_op" where
  "transactionalGuard cfg s =
     (if transactional cfg then (Inr (), s)
      else (Inl (new_KafkaJSNonRetriableError (Text ''Method unavailable if non-transactional'') None), s))"

definition isOngoing :: "eos \<Rightarrow> bool" where
  "isOngoing s \<longleftrightarrow> hasOffsetsAddedToTransaction s \<or> transactionTopicPartitions s \<noteq> []"

definition isInitialized :: "eos \<Rightarrow> bool" where
  "isInitialized s \<longleftrightarrow> eos_producerId s \<noteq> NO_PRODUCER_ID"

definition isInTransaction :: "eos \<Rightarrow> bool" where
  "isInTransaction s \<longleftrightarrow> eos_state s = TRANSACTING"

subsection \<open>Producer id\<close>

definition INIT_PRODUCER_RETRIABLE_PROTOCOL_ERRORS :: "string list" where
  "INIT_PRODUCER_RETRIABLE_PROTOCOL_ERRORS =
     [''NOT_COORDINATOR_FOR_GROUP'', ''GROUP_COORDINATOR_NOT_AVAILABLE'', ''GROUP_LOAD_IN_PROGRESS'', ''CONCURRENT_TRANSACTIONS'']"

definition type_in :: "err \<Rightarrow> string list \<Rightarrow> bool" where \<comment> \<open>\<open>list.includes(e.type)\<close>\<close>
  "type_in e types \<longleftrightarrow> (case e_type e of None \<Rightarrow> False | Some t \<Rightarrow> t \<in> set types)"

text \<open>One attempt; the answer is the outcome of finding the broker and of its \<^verbatim>\<open>InitProducerId\<close>.\<close>

definition init_attempt :: "err + int \<times> int \<Rightarrow> eos \<Rightarrow> unit attempt \<times> eos" where
  "init_attempt answer s =
     (case bind_op (\<lambda>s. (answer, s)) (\<lambda>(pid, epoch). bind_op (transitionTo READY) (\<lambda>_ s.
             (Inr (), s\<lparr>eos_producerId := pid, eos_producerEpoch := epoch, producerSequence := (\<lambda>_. None),
                        brokerMutexLocks := (\<lambda>_. None)\<rparr>))) s of
        (Inr _, s') \<Rightarrow> (Returns (), s')
      | (Inl e, s') \<Rightarrow>
          (if type_in e INIT_PRODUCER_RETRIABLE_PROTOCOL_ERRORS then Throws e else Bails (Some e), s'))"

definition initProducerId :: "nat \<Rightarrow> (nat \<Rightarrow> rat) \<Rightarrow> (nat \<Rightarrow> err + int \<times> int) \<Rightarrow> unit eos_op" where
  "initProducerId maxRetries delay answers =
     guarded InitProducerId (retry_st maxRetries delay (\<lambda>i. init_attempt (answers i)) 0)"

subsection \<open>Sequence numbers\<close>

definition getSequence :: "string \<Rightarrow> int \<Rightarrow> eos \<Rightarrow> int \<times> eos" where
  "getSequence topic prt s =
     (if \<not> isInitialized s then (SEQUENCE_START, s)
      else let v = (case producerSequence s (topic, prt) of None \<Rightarrow> SEQUENCE_START | Some v \<Rightarrow> v)
           in (v, s\<lparr>producerSequence := (producerSequence s)((topic, prt) \<mapsto> v)\<rparr>))"

definition updateSequence :: "string \<Rightarrow> int \<Rightarrow> int \<Rightarrow> eos \<Rightarrow> eos" where
  "updateSequence topic prt increment s =
     (if \<not> isInitialized s then s
      else let (previous, s') = getSequence topic prt s;
               seqn = previous + increment;
               seqn = (if seqn \<ge> INT_32_MAX_VALUE then 0 else seqn)
           in s'\<lparr>producerSequence := (producerSequence s')((topic, prt) \<mapsto> seqn)\<rparr>)"

subsection \<open>Transactions\<close>

definition beginTransaction :: "eos_config \<Rightarrow> unit eos_op" where
  "beginTransaction cfg =
     guarded BeginTransaction (bind_op (transactionalGuard cfg) (\<lambda>_. transitionTo TRANSACTING))"

text \<open>The partitions of the batch that are not part of the transaction yet, per topic.\<close>

definition newTopicPartitions :: "(string \<times> int list) list \<Rightarrow> eos \<Rightarrow> (string \<times> int list) list" where
  "newTopicPartitions topicData s =
     foldl (\<lambda>acc (topic, prts).
        foldl (\<lambda>acc prt.
           if (topic, prt) \<in> set (transactionTopicPartitions s) then acc
           else AList.update topic ((case map_of acc topic of None \<Rightarrow> [] | Some ps \<Rightarrow> ps) @ [prt]) acc) acc prts)
       [] topicData"

definition pairs_of :: "(string \<times> int list) list \<Rightarrow> (string \<times> int) list" where
  "pairs_of topics = concat (map (\<lambda>(topic, prts). map (\<lambda>p. (topic, p)) prts) topics)"

definition mark_partitions :: "(string \<times> int list) list \<Rightarrow> eos \<Rightarrow> eos" where
  "mark_partitions topics s =
     s\<lparr>transactionTopicPartitions :=
        foldl (\<lambda>acc x. if x \<in> set acc then acc else acc @ [x]) (transactionTopicPartitions s) (pairs_of topics)\<rparr>"

text \<open>The value is the request sent to the coordinator, if one was.\<close>

definition addPartitionsToTransaction ::
    "eos_config \<Rightarrow> (string \<times> int list) list \<Rightarrow> err + unit \<Rightarrow> (string \<times> int list) list option eos_op" where
  "addPartitionsToTransaction cfg topicData answer =
     guarded AddPartitions (bind_op (transactionalGuard cfg) (\<lambda>_ s.
       let topics = newTopicPartitions topicData s
       in if topics = [] then (Inr None, s)
          else case answer of Inl e \<Rightarrow> (Inl e, s) | Inr _ \<Rightarrow> (Inr (Some topics), mark_partitions topics s)))"

text \<open>
  Ending a transaction, by commit or abort. The value says whether \<^verbatim>\<open>EndTxn\<close> was sent, and with
  which result.
\<close>

definition end_transaction :: "eos_config \<Rightarrow> tx_state \<Rightarrow> bool \<Rightarrow> err + unit \<Rightarrow> bool option eos_op" where
  "end_transaction cfg to transactionResult answer =
     bind_op (transactionalGuard cfg) (\<lambda>_. bind_op (transitionTo to) (\<lambda>_ s.
       if \<not> isOngoing s then bind_op (transitionTo READY) (\<lambda>_ s. (Inr None, s)) s
       else case answer of
              Inl e \<Rightarrow> (Inl e, s)
            | Inr _ \<Rightarrow> bind_op (transitionTo READY) (\<lambda>_ s. (Inr (Some transactionResult), s)) s))"

definition commit :: "eos_config \<Rightarrow> err + unit \<Rightarrow> bool option eos_op" where
  "commit cfg answer = guarded Commit (end_transaction cfg COMMITTING True answer)"

definition abort :: "eos_config \<Rightarrow> err + unit \<Rightarrow> bool option eos_op" where
  "abort cfg answer = guarded Abort (end_transaction cfg ABORTING False answer)"

subsection \<open>Broker locks\<close>

definition acquireBrokerLock :: "int \<Rightarrow> nat \<Rightarrow> eos \<Rightarrow> acquire_result \<times> eos" where
  "acquireBrokerLock nodeId call s =
     (if isInitialized s
      then let l = (case brokerMutexLocks s nodeId of None \<Rightarrow> new_Lock | Some l \<Rightarrow> l); (r, l') = acquire call l
           in (r, s\<lparr>brokerMutexLocks := (brokerMutexLocks s)(nodeId \<mapsto> l')\<rparr>)
      else (Granted, s))"

definition releaseBrokerLock :: "int \<Rightarrow> (nat option) eos_op" where
  "releaseBrokerLock nodeId s =
     (if isInitialized s
      then case brokerMutexLocks s nodeId of
             None \<Rightarrow> (Inl (native_error ''TypeError'' ''Cannot read properties of undefined''), s)
           | Some l \<Rightarrow> (let (w, l') = release l in (Inr w, s\<lparr>brokerMutexLocks := (brokerMutexLocks s)(nodeId \<mapsto> l')\<rparr>))
      else (Inr None, s))"

subsection \<open>Offsets in a transaction\<close>

definition COMMIT_RETRIABLE_PROTOCOL_ERRORS :: "string list" where
  "COMMIT_RETRIABLE_PROTOCOL_ERRORS = [''UNKNOWN_TOPIC_OR_PARTITION'', ''COORDINATOR_LOAD_IN_PROGRESS'']"

definition COMMIT_STALE_COORDINATOR_PROTOCOL_ERRORS :: "string list" where
  "COMMIT_STALE_COORDINATOR_PROTOCOL_ERRORS = [''COORDINATOR_NOT_AVAILABLE'', ''NOT_COORDINATOR'']"

text \<open>
  One attempt to commit the offsets: the answer of the coordinator, and of finding a new one. An
  error of the operating system (\<^verbatim>\<open>ECONNREFUSED\<close>) is recognised by its code field.
\<close>

definition offsets_attempt :: "err + unit \<Rightarrow> err + unit \<Rightarrow> unit attempt" where
  "offsets_attempt answer refind =
     (case answer of
        Inr _ \<Rightarrow> Returns ()
      | Inl e \<Rightarrow>
          (if type_in e COMMIT_RETRIABLE_PROTOCOL_ERRORS then Throws e
           else if type_in e COMMIT_STALE_COORDINATOR_PROTOCOL_ERRORS \<or> (''code'', FStr ''ECONNREFUSED'') \<in> set (e_fields e)
           then (case refind of Inl e' \<Rightarrow> Throws e' | Inr _ \<Rightarrow> Throws e)
           else Bails (Some e)))"

definition sendOffsets ::
    "nat \<Rightarrow> (nat \<Rightarrow> rat) \<Rightarrow> string \<Rightarrow> bool \<Rightarrow> err + unit \<Rightarrow> err + unit \<Rightarrow> (nat \<Rightarrow> err + unit) \<Rightarrow> (nat \<Rightarrow> err + unit) \<Rightarrow> unit eos_op" where
  "sendOffsets maxRetries delay consumerGroupId topicsGiven addOffsets findGroup answers refinds =
     guarded SendOffsets (\<lambda>s.
       if consumerGroupId = [] \<or> \<not> topicsGiven then (Inl (native_error ''AssertionError'' ''Missing argument''), s)
       else case addOffsets of
              Inl e \<Rightarrow> (Inl e, s)
            | Inr _ \<Rightarrow>
                (let s = s\<lparr>hasOffsetsAddedToTransaction := True\<rparr>
                 in case findGroup of
                      Inl e \<Rightarrow> (Inl e, s)
                    | Inr _ \<Rightarrow> retry_st maxRetries delay (\<lambda>i s. (offsets_attempt (answers i) (refinds i), s)) 0 s))"

subsection \<open>Reachable states\<close>

text \<open>Every operation of the manager with any answers; a broker never hands out the id -1.\<close>

inductive eos_step :: "eos_config \<Rightarrow> eos \<Rightarrow> eos \<Rightarrow> bool" for cfg where
  "(\<And>i pid epoch. answers i = Inr (pid, epoch) \<Longrightarrow> pid \<noteq> NO_PRODUCER_ID) \<Longrightarrow>
     eos_step cfg s (snd (initProducerId n delay answers s))"
| "eos_step cfg s (snd (getSequence topic prt s))"
| "eos_step cfg s (updateSequence topic prt increment s)"
| "eos_step cfg s (snd (beginTransaction cfg s))"
| "eos_step cfg s (snd (addPartitionsToTransaction cfg topicData answer s))"
| "eos_step cfg s (snd (commit cfg answer s))"
| "eos_step cfg s (snd (abort cfg answer s))"
| "eos_step cfg s (snd (acquireBrokerLock node call s))"
| "eos_step cfg s (snd (releaseBrokerLock node s))"
| "eos_step cfg s (snd (sendOffsets n delay gid given addOffsets findGroup answers refinds s))"

inductive_simps eos_step_simps: "eos_step cfg s s'"

definition eos_inv :: "eos \<Rightarrow> bool" where
  "eos_inv s \<longleftrightarrow>
     (isOngoing s \<longrightarrow> eos_state s \<in> {TRANSACTING, COMMITTING, ABORTING}) \<and>
     (eos_state s \<noteq> UNINITIALIZED \<longleftrightarrow> isInitialized s)"

named_theorems eos_defs \<open>the operations of the transaction manager\<close>
lemmas eos_op_defs [eos_defs] = guarded_def bind_op_def transitionTo_def transactionalGuard_def isOngoing_def isInitialized_def

lemma eos_inv_init: "eos_inv eos_init"
  by (simp add: eos_inv_def eos_init_def isOngoing_def isInitialized_def)

text \<open>Each operation keeps the invariant.\<close>

lemma eos_inv_init_attempt:
  assumes "\<And>pid epoch. answer = Inr (pid, epoch) \<Longrightarrow> pid \<noteq> NO_PRODUCER_ID" "eos_inv s"
  shows "eos_inv (snd (init_attempt answer s))"
proof (cases answer)
  case (Inl e)
  then show ?thesis using assms(2) by (simp add: init_attempt_def bind_op_def)
next
  case (Inr x)
  then obtain pid epoch where x: "answer = Inr (pid, epoch)" by (cases x) simp
  then show ?thesis
    using assms(1) [OF x] assms(2) by (simp add: init_attempt_def eos_defs eos_inv_def)
qed

lemma eos_inv_initProducerId:
  assumes "\<And>i pid epoch. answers i = Inr (pid, epoch) \<Longrightarrow> pid \<noteq> NO_PRODUCER_ID" "eos_inv s"
  shows "eos_inv (snd (initProducerId n delay answers s))"
proof -
  have "eos_inv (snd (retry_st n delay (\<lambda>i. init_attempt (answers i)) 0 s))"
  proof (rule retry_st_invariant [where P = eos_inv])
    show "eos_inv (snd (init_attempt (answers i) s))" if "eos_inv s" for i s
      using assms(1) [of i] that by (intro eos_inv_init_attempt)
  qed (rule assms(2))
  then show ?thesis using assms(2) by (simp add: initProducerId_def guarded_def)
qed

lemma eos_inv_cong:
  "eos_state s' = eos_state s \<Longrightarrow> eos_producerId s' = eos_producerId s \<Longrightarrow>
   transactionTopicPartitions s' = transactionTopicPartitions s \<Longrightarrow>
   hasOffsetsAddedToTransaction s' = hasOffsetsAddedToTransaction s \<Longrightarrow> eos_inv s' = eos_inv s"
  by (simp add: eos_inv_def isOngoing_def isInitialized_def)

lemma eos_inv_getSequence: "eos_inv (snd (getSequence topic prt s)) = eos_inv s"
  by (rule eos_inv_cong) (simp_all add: getSequence_def Let_def)

lemma eos_inv_updateSequence: "eos_inv (updateSequence topic prt increment s) = eos_inv s"
  by (rule eos_inv_cong) (simp_all add: updateSequence_def getSequence_def Let_def)

lemma eos_inv_acquire: "eos_inv (snd (acquireBrokerLock node call s)) = eos_inv s"
  by (rule eos_inv_cong) (simp_all add: acquireBrokerLock_def Let_def split_def)

lemma eos_inv_release: "eos_inv (snd (releaseBrokerLock node s)) = eos_inv s"
  by (rule eos_inv_cong) (simp_all add: releaseBrokerLock_def Let_def split_def split: option.split)

lemma eos_inv_begin: "eos_inv s \<Longrightarrow> eos_inv (snd (beginTransaction cfg s))"
  by (auto simp: beginTransaction_def eos_defs eos_inv_def)

lemma eos_inv_addPartitions: "eos_inv s \<Longrightarrow> eos_inv (snd (addPartitionsToTransaction cfg topicData answer s))"
  by (auto simp: addPartitionsToTransaction_def mark_partitions_def eos_defs eos_inv_def Let_def split: sum.splits)

lemma eos_inv_end: "eos_inv s \<Longrightarrow> eos_state s = TRANSACTING \<Longrightarrow> to \<in> {COMMITTING, ABORTING} \<Longrightarrow>
    eos_inv (snd (end_transaction cfg to r answer s))"
  by (auto simp: end_transaction_def eos_defs eos_inv_def split: sum.splits)

lemma eos_inv_sendOffsets:
  assumes "eos_inv s"
  shows "eos_inv (snd (sendOffsets n delay gid given addOffsets findGroup answers refinds s))"
proof (cases "eos_state s = TRANSACTING")
  case True
  let ?s = "s\<lparr>hasOffsetsAddedToTransaction := True\<rparr>"
  have "eos_inv ?s" using assms True by (simp add: eos_inv_def isInitialized_def)
  then have "eos_inv (snd (retry_st n delay (\<lambda>i s. (offsets_attempt (answers i) (refinds i), s)) 0 ?s))"
    by (rule retry_st_invariant [where P = eos_inv, rotated]) simp
  then show ?thesis
    using assms \<open>eos_inv ?s\<close> by (auto simp: sendOffsets_def guarded_def Let_def split: sum.split)
next
  case False
  then show ?thesis using assms by (simp add: sendOffsets_def guarded_def)
qed

lemma eos_inv_commit: "eos_inv s \<Longrightarrow> eos_inv (snd (commit cfg answer s))"
  using eos_inv_end [of s COMMITTING] by (simp add: commit_def guarded_def)

lemma eos_inv_abort: "eos_inv s \<Longrightarrow> eos_inv (snd (abort cfg answer s))"
  using eos_inv_end [of s ABORTING] by (simp add: abort_def guarded_def)

lemmas eos_inv_ops = eos_inv_initProducerId eos_inv_begin eos_inv_addPartitions eos_inv_commit eos_inv_abort
  eos_inv_sendOffsets

lemma eos_inv_step: "eos_step cfg s s' \<Longrightarrow> eos_inv s \<Longrightarrow> eos_inv s'"
proof (induction rule: eos_step.induct)
  case (1 answers s n delay)
  then show ?case by (intro eos_inv_initProducerId) auto
qed (simp_all only: eos_inv_getSequence eos_inv_updateSequence eos_inv_acquire eos_inv_release eos_inv_ops)

lemma eos_inv_reachable: "(eos_step cfg)\<^sup>*\<^sup>* eos_init s \<Longrightarrow> eos_inv s"
  by (induction rule: rtranclp_induct) (auto intro: eos_inv_init eos_inv_step)

subsection \<open>Sequence numbers\<close>

definition sequence_of :: "string \<Rightarrow> int \<Rightarrow> eos \<Rightarrow> int" where
  "sequence_of topic prt s = fst (getSequence topic prt s)"

lemma sequence_of_update:
  assumes "isInitialized s"
  shows "sequence_of topic prt (updateSequence topic prt n s) =
    (if sequence_of topic prt s + n \<ge> INT_32_MAX_VALUE then 0 else sequence_of topic prt s + n)"
  using assms by (simp add: sequence_of_def updateSequence_def getSequence_def Let_def isInitialized_def)

lemma isInitialized_update: "isInitialized (updateSequence topic prt n s) = isInitialized s"
  by (simp add: updateSequence_def getSequence_def Let_def isInitialized_def)

subsection \<open>Partitions of a transaction\<close>

lemma pairs_of_update:
  "set (pairs_of (AList.update topic ((case map_of acc topic of None \<Rightarrow> [] | Some ps \<Rightarrow> ps) @ [prt]) acc)) =
    insert (topic, prt) (set (pairs_of acc))"
  if "distinct (map fst acc)"
  using that by (induction acc) (auto simp: pairs_of_def split: if_splits option.splits dest: map_of_SomeD)

definition collect_new :: "(string \<times> int) set \<Rightarrow> string \<Rightarrow> (string \<times> int list) list \<Rightarrow> int \<Rightarrow> (string \<times> int list) list" where
  "collect_new known topic acc prt =
     (if (topic, prt) \<in> known then acc
      else AList.update topic ((case map_of acc topic of None \<Rightarrow> [] | Some ps \<Rightarrow> ps) @ [prt]) acc)"

lemma collect_new_fold:
  assumes "distinct (map fst acc)"
  shows "distinct (map fst (foldl (collect_new known topic) acc prts)) \<and>
    set (pairs_of (foldl (collect_new known topic) acc prts)) = set (pairs_of acc) \<union> ({topic} \<times> set prts - known)"
  using assms
proof (induction prts arbitrary: acc)
  case (Cons p prts)
  have "distinct (map fst (collect_new known topic acc p))"
    using Cons.prems by (simp add: collect_new_def distinct_update)
  moreover have "set (pairs_of (collect_new known topic acc p)) = set (pairs_of acc) \<union> ({(topic, p)} - known)"
    using pairs_of_update [OF Cons.prems] by (auto simp: collect_new_def)
  ultimately show ?case using Cons.IH [of "collect_new known topic acc p"] by auto
qed simp

lemma newTopicPartitions_fold:
  "newTopicPartitions topicData s =
    foldl (\<lambda>acc (topic, prts). foldl (collect_new (set (transactionTopicPartitions s)) topic) acc prts) [] topicData"
  by (simp add: newTopicPartitions_def collect_new_def [abs_def])

lemma newTopicPartitions_outer:
  assumes "distinct (map fst acc)"
  shows "set (pairs_of (foldl (\<lambda>acc (topic, prts). foldl (collect_new known topic) acc prts) acc topicData)) =
    set (pairs_of acc) \<union> (set (pairs_of topicData) - known)"
  using assms
proof (induction topicData arbitrary: acc)
  case (Cons x topicData)
  obtain topic prts where x: "x = (topic, prts)" by (cases x)
  note step = collect_new_fold [OF Cons.prems, of known topic prts]
  have "set (pairs_of (x # topicData)) = {topic} \<times> set prts \<union> set (pairs_of topicData)" by (auto simp: pairs_of_def x)
  then show ?case using Cons.IH [of "foldl (collect_new known topic) acc prts"] step by (auto simp: x)
qed (simp add: pairs_of_def)

lemma newTopicPartitions_set:
  "set (pairs_of (newTopicPartitions topicData s)) = set (pairs_of topicData) - set (transactionTopicPartitions s)"
  using newTopicPartitions_outer [of "[]"] by (simp add: newTopicPartitions_fold pairs_of_def)

lemma set_alist_update: "set (AList.update k v al) \<subseteq> insert (k, v) (set al)"
  by (induction al) auto

lemma newTopicPartitions_nonempty: "(topic, prts) \<in> set (newTopicPartitions topicData s) \<Longrightarrow> prts \<noteq> []"
proof -
  have upd: "(\<forall>x \<in> set (collect_new known topic acc p). snd x \<noteq> [])" if "\<forall>x \<in> set acc. snd x \<noteq> []" for known topic acc p
    using that by (auto simp: collect_new_def dest!: subsetD [OF set_alist_update])
  have inner: "(\<forall>x \<in> set (foldl (collect_new known topic) acc ps). snd x \<noteq> [])" if "\<forall>x \<in> set acc. snd x \<noteq> []" for known topic acc ps
    using that by (induction ps arbitrary: acc) (auto dest: upd)
  have "(\<forall>x \<in> set (foldl (\<lambda>acc (topic, ps). foldl (collect_new known topic) acc ps) acc td). snd x \<noteq> [])"
    if "\<forall>x \<in> set acc. snd x \<noteq> []" for known acc td
    using that by (induction td arbitrary: acc) (auto dest: inner)
  from this [of "[]"] show "(topic, prts) \<in> set (newTopicPartitions topicData s) \<Longrightarrow> prts \<noteq> []"
    unfolding newTopicPartitions_fold by (metis empty_iff list.set(1) snd_conv)
qed

lemma newTopicPartitions_Nil:
  "newTopicPartitions topicData s = [] \<longleftrightarrow> set (pairs_of topicData) \<subseteq> set (transactionTopicPartitions s)"
proof -
  have "pairs_of xs = [] \<Longrightarrow> (\<And>topic prts. (topic, prts) \<in> set xs \<Longrightarrow> prts \<noteq> []) \<Longrightarrow> xs = []" for xs
    by (cases xs) (auto simp: pairs_of_def)
  then have "newTopicPartitions topicData s = [] \<longleftrightarrow> pairs_of (newTopicPartitions topicData s) = []"
    using newTopicPartitions_nonempty [of _ _ topicData s] by (metis concat.simps(1) list.simps(8) pairs_of_def)
  also have "\<dots> \<longleftrightarrow> set (pairs_of (newTopicPartitions topicData s)) = {}" by simp
  finally show ?thesis unfolding newTopicPartitions_set by blast
qed

lemma mark_partitions_set:
  "set (transactionTopicPartitions (mark_partitions topics s)) = set (transactionTopicPartitions s) \<union> set (pairs_of topics)"
proof -
  have "set (foldl (\<lambda>acc x. if x \<in> set acc then acc else acc @ [x]) acc xs) = set acc \<union> set xs" for acc xs :: "(string \<times> int) list"
    by (induction xs arbitrary: acc) auto
  then show ?thesis by (simp add: mark_partitions_def)
qed

subsection \<open>Properties\<close>



text \<open>Ending a transaction in progress: without registered partitions and offsets no request is sent
  and the manager is ready again; with them \<^verbatim>\<open>EndTxn\<close> is sent with the right result, and when
  it succeeds the manager is ready with an empty transaction, when it fails the error is passed on
  and the manager stays in the ending state.\<close>

theorem commit_outcome:
  assumes "transactional cfg" "eos_state s = TRANSACTING"
  defines "ready \<equiv> s\<lparr>transactionTopicPartitions := [], hasOffsetsAddedToTransaction := False, eos_state := READY\<rparr>"
  shows "commit cfg answer s =
      (if \<not> isOngoing s then (Inr None, ready)
       else case answer of Inl e \<Rightarrow> (Inl e, s\<lparr>eos_state := COMMITTING\<rparr>) | Inr _ \<Rightarrow> (Inr (Some True), ready)) \<and>
    abort cfg answer s =
      (if \<not> isOngoing s then (Inr None, ready)
       else case answer of Inl e \<Rightarrow> (Inl e, s\<lparr>eos_state := ABORTING\<rparr>) | Inr _ \<Rightarrow> (Inr (Some False), ready))"
  using assms(1,2) unfolding ready_def
  by (auto simp: commit_def abort_def end_transaction_def eos_defs split: sum.split)

definition sample_tx :: eos where
  "sample_tx = eos_init\<lparr>eos_state := TRANSACTING, eos_producerId := 7, transactionTopicPartitions := [(''t'', 0)]\<rparr>"

theorem commit_outcome_witness:
  "fst (commit \<lparr>transactional = True, transactionalId = ''tx''\<rparr> (Inr ()) sample_tx) = Inr (Some True)"
  using commit_outcome [of "\<lparr>transactional = True, transactionalId = ''tx''\<rparr>" sample_tx "Inr ()"]
  by (simp add: sample_tx_def eos_init_def isOngoing_def)

text \<open>When \<^verbatim>\<open>EndTxn\<close> fails, every guarded operation of the manager is rejected from then on,
  in particular a second commit and an abort: the transaction cannot be ended any more.\<close>

theorem failed_end_is_final:
  assumes "eos_state s \<in> {COMMITTING, ABORTING}"
  shows "commit cfg answer s = (Inl (guard_error Commit (eos_state s)), s) \<and> abort cfg answer s = (Inl (guard_error Abort (eos_state s)), s) \<and>
    beginTransaction cfg s = (Inl (guard_error BeginTransaction (eos_state s)), s) \<and> addPartitionsToTransaction cfg topicData answer s = (Inl (guard_error AddPartitions (eos_state s)), s) \<and>
    initProducerId n delay answers s = (Inl (guard_error InitProducerId (eos_state s)), s)"
  using assms by (auto simp: commit_def abort_def beginTransaction_def addPartitionsToTransaction_def initProducerId_def guarded_def)

theorem failed_end_is_final_witness:
  "commit \<lparr>transactional = True, transactionalId = ''tx''\<rparr> (Inr ()) (sample_tx\<lparr>eos_state := COMMITTING\<rparr>) =
    (Inl (guard_error Commit COMMITTING), sample_tx\<lparr>eos_state := COMMITTING\<rparr>)"
  using failed_end_is_final [of "sample_tx\<lparr>eos_state := COMMITTING\<rparr>" "\<lparr>transactional = True, transactionalId = ''tx''\<rparr>" "Inr ()"]
  by simp

text \<open>Adding partitions to a transaction asks the coordinator for exactly the partitions that are not
  part of it yet; after success all are part of it, and adding the same ones again sends nothing.\<close>

theorem add_partitions_once:
  assumes "transactional cfg" "eos_state s = TRANSACTING"
  shows "\<exists>req s'. addPartitionsToTransaction cfg topicData (Inr ()) s = (Inr req, s') \<and>
    set (pairs_of (case req of None \<Rightarrow> [] | Some topics \<Rightarrow> topics)) =
      set (pairs_of topicData) - set (transactionTopicPartitions s) \<and>
    set (transactionTopicPartitions s') = set (transactionTopicPartitions s) \<union> set (pairs_of topicData) \<and>
    addPartitionsToTransaction cfg topicData answer s' = (Inr None, s')"
proof -
  let ?new = "newTopicPartitions topicData s"
  have run: "addPartitionsToTransaction cfg topicData a x =
      (if newTopicPartitions topicData x = [] then (Inr None, x)
       else case a of Inl e \<Rightarrow> (Inl e, x) | Inr _ \<Rightarrow> (Inr (Some (newTopicPartitions topicData x)), mark_partitions (newTopicPartitions topicData x) x))"
    if "eos_state x = TRANSACTING" for x a
    using assms(1) that by (simp add: addPartitionsToTransaction_def eos_defs Let_def)
  show ?thesis
  proof (cases "?new = []")
    case True
    then have sub: "set (pairs_of topicData) \<subseteq> set (transactionTopicPartitions s)" by (simp add: newTopicPartitions_Nil)
    have none: "pairs_of [] = []" by (simp add: pairs_of_def)
    show ?thesis using run [OF assms(2)] True sub by (auto simp: none)
  next
    case False
    let ?s' = "mark_partitions ?new s"
    have set': "set (transactionTopicPartitions ?s') = set (transactionTopicPartitions s) \<union> set (pairs_of topicData)"
      by (simp add: mark_partitions_set newTopicPartitions_set)
    then have "newTopicPartitions topicData ?s' = []" by (simp add: newTopicPartitions_Nil)
    moreover have "eos_state ?s' = TRANSACTING" using assms(2) by (simp add: mark_partitions_def)
    ultimately show ?thesis
      using run [OF assms(2), of "Inr ()"] run [of ?s' answer] False set' newTopicPartitions_set by auto
  qed
qed

theorem add_partitions_once_witness:
  "\<exists>req s'. addPartitionsToTransaction \<lparr>transactional = True, transactionalId = ''tx''\<rparr> [(''t'', [0, 1])] (Inr ()) sample_tx = (Inr req, s') \<and>
    set (pairs_of (case req of None \<Rightarrow> [] | Some topics \<Rightarrow> topics)) =
      set (pairs_of [(''t'', [0, 1])]) - set (transactionTopicPartitions sample_tx) \<and>
    set (transactionTopicPartitions s') = set (transactionTopicPartitions sample_tx) \<union> set (pairs_of [(''t'', [0, 1])]) \<and>
    addPartitionsToTransaction \<lparr>transactional = True, transactionalId = ''tx''\<rparr> [(''t'', [0, 1])] (Inr ()) s' = (Inr None, s')"
  by (rule add_partitions_once) (simp_all add: sample_tx_def)

text \<open>Rolling a sequence number back after a failed send restores it, except when the send rotated it
  to zero: then the rollback leaves a negative sequence number.\<close>

theorem sequence_rollback:
  assumes "isInitialized s" "sequence_of topic prt s < INT_32_MAX_VALUE" "0 \<le> n" "n < INT_32_MAX_VALUE"
  shows "sequence_of topic prt (updateSequence topic prt (- n) (updateSequence topic prt n s)) =
    (if sequence_of topic prt s + n < INT_32_MAX_VALUE then sequence_of topic prt s else - n)"
  using assms by (simp add: sequence_of_update isInitialized_update INT_32_MAX_VALUE_def)

theorem sequence_rollback_witness:
  "sequence_of ''t'' 0 (updateSequence ''t'' 0 (- 5) (updateSequence ''t'' 0 5
     (sample_tx\<lparr>producerSequence := [(''t'', 0) \<mapsto> 2147483645]\<rparr>))) = - 5"
  using sequence_rollback [of "sample_tx\<lparr>producerSequence := [(''t'', 0) \<mapsto> 2147483645]\<rparr>" "''t''" 0 5]
  by (simp add: sample_tx_def isInitialized_def NO_PRODUCER_ID_def sequence_of_def getSequence_def INT_32_MAX_VALUE_def Let_def)

text \<open>No protocol error ever carries a type by which the manager wants to recognise a group
  coordinator that is loading or has moved: the three names are not in the table of errors.\<close>

theorem stale_coordinator_names_unknown:
  "e_type (createErrorFromCode code) \<notin> Some ` (set COMMIT_STALE_COORDINATOR_PROTOCOL_ERRORS \<union> {''COORDINATOR_LOAD_IN_PROGRESS''})"
proof -
  have table: "list_all (\<lambda>x. ec_type x \<noteq> ''COORDINATOR_NOT_AVAILABLE'' \<and> ec_type x \<noteq> ''NOT_COORDINATOR'' \<and>
      ec_type x \<noteq> ''COORDINATOR_LOAD_IN_PROGRESS'') errorCodes"
    by code_simp
  have "find_error code \<in> set errorCodes \<or> find_error code = unknownErrorCode code"
    by (auto simp: find_error_def find_Some_iff split: option.split)
  then have "ec_type (find_error code) \<noteq> ''COORDINATOR_NOT_AVAILABLE'' \<and> ec_type (find_error code) \<noteq> ''NOT_COORDINATOR'' \<and>
      ec_type (find_error code) \<noteq> ''COORDINATOR_LOAD_IN_PROGRESS''"
    using table by (auto simp: list_all_iff unknownErrorCode_def ec_def)
  then show ?thesis by (auto simp: createErrorFromCode_def COMMIT_STALE_COORDINATOR_PROTOCOL_ERRORS_def)
qed

end
