(* ===== verification/Producer.thy ===== *)
theory Producer
  imports Partitioner Eos_Manager Connection_Status
begin

text \<open>
  Sending messages: \<^verbatim>\<open>src/producer/messageProducer.js\<close> (validation and merging) and
  \<^verbatim>\<open>src/producer/sendMessages.js\<close> (one request per leader, with retries), together with the two
  lookups of \<^verbatim>\<open>src/cluster/index.js\<close> they use. Metadata, connections and the answers of the
  brokers are arguments, indexed by the attempt. The requests of one attempt are issued in the order
  of the brokers and settle before the next attempt starts. A broker is an object: it is represented
  by its node id and an identity, since the pool may hand out a new object for the same node. Accepted
  requests are recorded with their attempt in \<open>sm_log\<close>, which the code does not keep; the
  statements need it. The metadata decoder reads the leader of a partition as a number, so the test of
  \<^verbatim>\<open>findLeaderForPartitions\<close> for a missing leader is always passed.
\<close>

subsection \<open>Validation and merging\<close>

record topic_messages =
  tm_topic :: string \<comment> \<open>empty when missing\<close>
  tm_messages :: "producer_message list option"

definition validateConnectionStatus :: "connection_status \<Rightarrow> err option" where
  "validateConnectionStatus status =
     (case status of
        DISCONNECTING \<Rightarrow> Some (new_KafkaJSNonRetriableError (Text ''The producer is disconnecting; therefore, it can't safely accept messages anymore'') None)
      | DISCONNECTED \<Rightarrow> Some (new_KafkaJSError (Text ''The producer is disconnected'') True None)
      | CONNECTED \<Rightarrow> None)"

definition merge_topic :: "(string \<times> producer_message list) list \<Rightarrow> string \<times> producer_message list \<Rightarrow> (string \<times> producer_message list) list" where
  "merge_topic merged t =
     AList.update (fst t) ((case map_of merged (fst t) of None \<Rightarrow> [] | Some ms \<Rightarrow> ms) @ snd t) merged"

definition mergedTopicMessages :: "(string \<times> producer_message list) list \<Rightarrow> (string \<times> producer_message list) list" where
  "mergedTopicMessages = foldl merge_topic []"

text \<open>The JSON rendering of the offending message at the end of the text is left out.\<close>

fun check_messages :: "topic_messages list \<Rightarrow> err + (string \<times> producer_message list) list" where
  "check_messages [] = Inr []"
| "check_messages (t # ts) =
     (case tm_messages t of
        None \<Rightarrow> Inl (new_KafkaJSNonRetriableError (Text (''Invalid messages array [undefined] for topic \"'' @ tm_topic t @ ''\"'')) None)
      | Some ms \<Rightarrow>
          (if \<exists>m \<in> set ms. pmsg_value m = None
           then Inl (new_KafkaJSNonRetriableError (Text (''Invalid message without value for topic \"'' @ tm_topic t @ ''\": '')) None)
           else rbind (check_messages ts) (\<lambda>rest. Inr ((tm_topic t, ms) # rest))))"

text \<open>What \<^verbatim>\<open>sendBatch\<close> hands to \<^verbatim>\<open>sendMessages\<close>, or the error it throws.\<close>

definition sendBatch_checked :: "bool \<Rightarrow> connection_status \<Rightarrow> int option \<Rightarrow> topic_messages list \<Rightarrow> err + int \<times> (string \<times> producer_message list) list" where
  "sendBatch_checked idempotent status acks topicMessages =
     (let acks = (case acks of None \<Rightarrow> - 1 | Some a \<Rightarrow> a)
      in if \<exists>t \<in> set topicMessages. tm_topic t = [] then Inl (new_KafkaJSNonRetriableError (Text ''Invalid topic'') None)
         else if idempotent \<and> acks \<noteq> - 1
         then Inl (new_KafkaJSNonRetriableError (Text ''Not requiring ack for all messages invalidates the idempotent producer's EoS guarantees'') None)
         else rbind (check_messages topicMessages) (\<lambda>checked.
                case validateConnectionStatus status of
                  Some e \<Rightarrow> Inl e
                | None \<Rightarrow> Inr (acks, mergedTopicMessages checked)))"

definition send_checked :: "bool \<Rightarrow> connection_status \<Rightarrow> int option \<Rightarrow> topic_messages \<Rightarrow> err + int \<times> (string \<times> producer_message list) list" where
  "send_checked idempotent status acks topicMessage = sendBatch_checked idempotent status acks [topicMessage]"

subsection \<open>Lookups in the cluster metadata\<close>

type_synonym metadata = "(string \<times> partition_metadata list) list"

definition findTopicPartitionMetadata :: "metadata option \<Rightarrow> string \<Rightarrow> err + partition_metadata list" where
  "findTopicPartitionMetadata md topic =
     (case md of
        None \<Rightarrow> Inl (new_KafkaJSTopicMetadataNotLoaded (Text ''Topic metadata not loaded'') topic)
      | Some m \<Rightarrow> Inr (case map_of m topic of None \<Rightarrow> [] | Some ps \<Rightarrow> ps))"

definition add_leader :: "partition_metadata list \<Rightarrow> (int \<times> int list) list \<Rightarrow> int \<Rightarrow> (int \<times> int list) list" where
  "add_leader md result prt =
     (case find (\<lambda>p. partitionId p = prt) md of
        None \<Rightarrow> result
      | Some p \<Rightarrow>
          AList.update (pm_leader p) ((case map_of result (pm_leader p) of None \<Rightarrow> [] | Some ps \<Rightarrow> ps) @ [prt]) result)"

definition findLeaderForPartitions :: "partition_metadata list \<Rightarrow> int list \<Rightarrow> (int \<times> int list) list" where
  "findLeaderForPartitions md prts = foldl (add_leader md) [] prts"

subsection \<open>One attempt\<close>

type_synonym broker = "int \<times> nat"

record logged_request =
  lr_broker :: broker
  lr_attempt :: nat
  lr_topic :: string
  lr_partition :: int
  lr_firstSequence :: int
  lr_messages :: "producer_message list"

record 'p send_state =
  sm_counters :: counters
  sm_eos :: eos
  sm_responses :: "(broker \<times> (string \<times> 'p) list option) list"
  sm_log :: "logged_request list"

record 'p send_env =
  se_addTargets :: "err option"
  se_metadata :: "metadata option"
  se_findBroker :: "int \<Rightarrow> err + broker"
  se_addPartitions :: "broker \<Rightarrow> err + unit"
  se_produce :: "broker \<Rightarrow> err + (string \<times> 'p list) list"
  se_refreshBefore :: "err option"
  se_connected :: bool
  se_reconnect :: "err option"
  se_refreshAfter :: "err option"

record send_config =
  sc_hash :: "buffer \<Rightarrow> int"
  sc_random :: "string \<Rightarrow> int"
  sc_eos :: eos_config
  sc_acks :: int

type_synonym topic_plan = "string \<times> (int \<times> int list) list \<times> producer_message groups"

text \<open>The loop over the topics: partition the messages, find the leaders, register the brokers.\<close>

fun register_brokers :: "'p send_env \<Rightarrow> int list \<Rightarrow> 'p send_state \<Rightarrow> (err + unit) \<times> 'p send_state" where
  "register_brokers env [] s = (Inr (), s)"
| "register_brokers env (node # nodes) s =
     (case se_findBroker env node of
        Inl e \<Rightarrow> (Inl e, s)
      | Inr broker \<Rightarrow> register_brokers env nodes
          (if broker \<in> fst ` set (sm_responses s) then s else s\<lparr>sm_responses := sm_responses s @ [(broker, None)]\<rparr>))"

fun plan_topics :: "send_config \<Rightarrow> 'p send_env \<Rightarrow> (string \<times> producer_message list) list \<Rightarrow> 'p send_state \<Rightarrow> (err + topic_plan list) \<times> 'p send_state" where
  "plan_topics cfg env [] s = (Inr [], s)"
| "plan_topics cfg env ((topic, messages) # rest) s =
     (case findTopicPartitionMetadata (se_metadata env) topic of
        Inl e \<Rightarrow> (Inl e, s)
      | Inr md \<Rightarrow>
          (if md = [] then (Inl (new_KafkaJSMetadataNotLoaded (Text ''Producing to topic without metadata'')), s)
           else let (groups, counters') = groupMessagesPerPartition (sc_hash cfg) (sc_random cfg) topic md messages (sm_counters s);
                    s = s\<lparr>sm_counters := counters'\<rparr>;
                    perLeader = findLeaderForPartitions md (object_keys groups)
                in case register_brokers env (object_keys perLeader) s of
                     (Inl e, s) \<Rightarrow> (Inl e, s)
                   | (Inr _, s) \<Rightarrow>
                       (case plan_topics cfg env rest s of
                          (Inl e, s) \<Rightarrow> (Inl e, s)
                        | (Inr plans, s) \<Rightarrow> (Inr ((topic, perLeader, groups) # plans), s))))"

definition topic_data_for :: "topic_plan list \<Rightarrow> int \<Rightarrow> (string \<times> producer_message partition_entry list) list" where
  "topic_data_for plans node =
     createTopicData (map (\<lambda>(topic, perLeader, groups).
        \<lparr>td_topic = topic, td_partitions = (case map_of perLeader node of None \<Rightarrow> [] | Some ps \<Rightarrow> ps), td_messages = groups\<rparr>)
       (filter (\<lambda>(topic, perLeader, groups). map_of perLeader node \<noteq> None) plans))"

definition entry_messages :: "producer_message partition_entry \<Rightarrow> producer_message list" where
  "entry_messages x = (case pe_messages x of None \<Rightarrow> [] | Some ms \<Rightarrow> ms)"

text \<open>Taking sequence numbers for all entries, and giving them back.\<close>

definition flat_entries :: "(string \<times> producer_message partition_entry list) list \<Rightarrow> (string \<times> producer_message partition_entry) list" where
  "flat_entries topicData = concat (map (\<lambda>(topic, entries). map (\<lambda>x. (topic, x)) entries) topicData)"

fun take_sequences :: "nat \<Rightarrow> broker \<Rightarrow> (string \<times> producer_message partition_entry) list \<Rightarrow> eos \<Rightarrow> logged_request list \<times> eos" where
  "take_sequences call broker [] s = ([], s)"
| "take_sequences call broker ((topic, x) # xs) s =
     (let (firstSequence, s) = getSequence topic (pe_partition x) s;
          s = updateSequence topic (pe_partition x) (int (length (entry_messages x))) s;
          (rs, s) = take_sequences call broker xs s
      in (\<lparr>lr_broker = broker, lr_attempt = call, lr_topic = topic, lr_partition = pe_partition x, lr_firstSequence = firstSequence,
           lr_messages = entry_messages x\<rparr> # rs, s))"

definition give_back_sequences :: "(string \<times> producer_message partition_entry) list \<Rightarrow> eos \<Rightarrow> eos" where
  "give_back_sequences xs s =
     foldl (\<lambda>s (topic, x). updateSequence topic (pe_partition x) (- int (length (entry_messages x))) s) s xs"

text \<open>The part between acquiring and releasing the lock of the broker.\<close>

definition locked_request :: "send_config \<Rightarrow> 'p send_env \<Rightarrow> topic_plan list \<Rightarrow> nat \<Rightarrow> broker \<Rightarrow> 'p send_state \<Rightarrow> err option \<times> 'p send_state" where
  "locked_request cfg env plans call broker s =
     (let topicData = topic_data_for plans (fst broker);
          (added, e) = (if transactional (sc_eos cfg)
             then addPartitionsToTransaction (sc_eos cfg) (map (\<lambda>(t, xs). (t, map pe_partition xs)) topicData) (se_addPartitions env broker) (sm_eos s)
             else (Inr None, sm_eos s));
          failed = (\<lambda>err s. (Some err, s\<lparr>sm_responses := AList.delete broker (sm_responses s)\<rparr>))
      in case added of
           Inl err \<Rightarrow> failed err (s\<lparr>sm_eos := e\<rparr>)
         | Inr _ \<Rightarrow>
             (let (requests, e) = take_sequences call broker (flat_entries topicData) e
              in case se_produce env broker of
                   Inl err \<Rightarrow> failed err (s\<lparr>sm_eos := give_back_sequences (flat_entries topicData) e\<rparr>)
                 | Inr response \<Rightarrow>
                     (None, s\<lparr>sm_eos := e, sm_log := sm_log s @ requests,
                       sm_responses := AList.update broker (Some (if sc_acks cfg \<noteq> 0 then responseSerializer response else [])) (sm_responses s)\<rparr>)))"

definition broker_request :: "send_config \<Rightarrow> 'p send_env \<Rightarrow> topic_plan list \<Rightarrow> nat \<Rightarrow> broker \<Rightarrow> 'p send_state \<Rightarrow> err option \<times> 'p send_state" where
  "broker_request cfg env plans call broker s =
     (case acquireBrokerLock (fst broker) call (sm_eos s) of
        (Waits, e) \<Rightarrow> (Some (new_KafkaJSLockTimeout (Text ''Timeout while acquiring lock'')), s\<lparr>sm_eos := e\<rparr>)
      | (Granted, e) \<Rightarrow>
          (let (failure, s) = locked_request cfg env plans call broker (s\<lparr>sm_eos := e\<rparr>); (r, e) = releaseBrokerLock (fst broker) (sm_eos s)
           in case r of Inl err \<Rightarrow> (Some err, s\<lparr>sm_eos := e\<rparr>) | Inr _ \<Rightarrow> (failure, s\<lparr>sm_eos := e\<rparr>)))"

text \<open>All requests run; the first failure rejects the attempt.\<close>

fun run_requests :: "send_config \<Rightarrow> 'p send_env \<Rightarrow> topic_plan list \<Rightarrow> nat \<Rightarrow> broker list \<Rightarrow> 'p send_state \<Rightarrow> err option \<times> 'p send_state" where
  "run_requests cfg env plans call [] s = (None, s)"
| "run_requests cfg env plans call (broker # brokers) s =
     (let (e1, s) = broker_request cfg env plans call broker s; (e2, s) = run_requests cfg env plans call brokers s
      in (case e1 of None \<Rightarrow> e2 | Some e \<Rightarrow> Some e, s))"

definition brokersWithoutResponse :: "'p send_state \<Rightarrow> broker list" where
  "brokersWithoutResponse s = map fst (filter (\<lambda>x. snd x = None) (sm_responses s))"

definition createProducerRequests ::
    "send_config \<Rightarrow> 'p send_env \<Rightarrow> (string \<times> producer_message list) list \<Rightarrow> nat \<Rightarrow> 'p send_state \<Rightarrow> err option \<times> 'p send_state" where
  "createProducerRequests cfg env topicMessages call s =
     (case se_refreshBefore env of
        Some e \<Rightarrow> (Some e, s)
      | None \<Rightarrow>
          (case plan_topics cfg env topicMessages s of
             (Inl e, s) \<Rightarrow> (Some e, s)
           | (Inr plans, s) \<Rightarrow> run_requests cfg env plans call (brokersWithoutResponse s) s))"

definition all_responses :: "'p send_state \<Rightarrow> (string \<times> 'p) list" where
  "all_responses s = concat (map (\<lambda>x. case snd x of None \<Rightarrow> [] | Some r \<Rightarrow> r) (sm_responses s))"

text \<open>How a failed attempt ends: reconnect or refresh the metadata and try again, or give up.\<close>

definition attempt_failed :: "'p send_env \<Rightarrow> err \<Rightarrow> (string \<times> 'p) list attempt" where
  "attempt_failed env e =
     (if \<not> se_connected env
      then (case se_reconnect env of Some e' \<Rightarrow> Throws e' | None \<Rightarrow> Throws e)
      else if staleMetadata e \<or> e_name e = ''KafkaJSMetadataNotLoaded'' \<or> e_name e = ''KafkaJSConnectionError'' \<or>
              e_name e = ''KafkaJSConnectionClosedError'' \<or> (e_name e = ''KafkaJSProtocolError'' \<and> e_retriable e = Some True)
      then (case se_refreshAfter env of Some e' \<Rightarrow> Throws e' | None \<Rightarrow> Throws e)
      else if e_retriable e = Some True then Throws e
      else Bails (Some e))"

definition send_attempt ::
    "send_config \<Rightarrow> 'p send_env \<Rightarrow> (string \<times> producer_message list) list \<Rightarrow> nat \<Rightarrow> 'p send_state \<Rightarrow> (string \<times> 'p) list attempt \<times> 'p send_state" where
  "send_attempt cfg env topicMessages call s =
     (case se_addTargets env of
        Some e \<Rightarrow> (Throws e, s)
      | None \<Rightarrow>
          (case createProducerRequests cfg env topicMessages call s of
             (None, s) \<Rightarrow> (Returns (all_responses s), s)
           | (Some e, s) \<Rightarrow> (attempt_failed env e, s)))"

definition sendMessages ::
    "send_config \<Rightarrow> nat \<Rightarrow> (nat \<Rightarrow> rat) \<Rightarrow> (nat \<Rightarrow> 'p send_env) \<Rightarrow> (string \<times> producer_message list) list \<Rightarrow> counters \<Rightarrow> eos
      \<Rightarrow> (err + (string \<times> 'p) list) \<times> 'p send_state" where
  "sendMessages cfg maxRetries delay env topicMessages counters e =
     retry_st maxRetries delay (\<lambda>i. send_attempt cfg (env i) topicMessages i) 0
       \<lparr>sm_counters = counters, sm_eos = e, sm_responses = [], sm_log = []\<rparr>"

subsection \<open>Merging\<close>

lemma group_of_update: "group_of (AList.update k v gs) q = (if q = k then v else group_of gs q)"
  by (simp add: group_of_def update_conv')

lemma group_of_merge: "group_of (merge_topic merged t) topic = group_of merged topic @ (if fst t = topic then snd t else [])"
  by (simp add: merge_topic_def group_of_update flip: group_of_def)

lemma merge_fold:
  "group_of (foldl merge_topic merged ts) topic = group_of merged topic @ concat (map snd (filter (\<lambda>t. fst t = topic) ts))"
  "distinct (map fst merged) \<Longrightarrow> distinct (map fst (foldl merge_topic merged ts))"
  "set (map fst (foldl merge_topic merged ts)) = set (map fst merged) \<union> set (map fst ts)"
proof (induction ts arbitrary: merged)
  case (Cons t ts)
  have keys: "fst ` set (merge_topic merged t) = insert (fst t) (fst ` set merged)" for merged
    using update_keys [of "fst t" _ merged] by (metis (no_types, lifting) image_set insert_absorb list.set(2) list.simps(15)
      merge_topic_def set_append sup_bot.right_neutral Un_insert_right empty_set)
  {
    case 1
    then show ?case using Cons.IH(1) by (simp add: group_of_merge)
  next
    case 2
    then show ?case using Cons.IH(2) by (simp add: merge_topic_def distinct_update)
  next
    case 3
    have "fst ` set (foldl merge_topic (merge_topic merged t) ts) = insert (fst t) (fst ` set merged) \<union> fst ` set ts"
      using Cons.IH(3) [of "merge_topic merged t"] unfolding set_map keys .
    then show ?case by simp
  }
qed simp_all

subsection \<open>Leaders\<close>

lemma group_of_add_leader:
  "group_of (add_leader md result p) n =
     group_of result n @ (if map_option pm_leader (find (\<lambda>m. partitionId m = p) md) = Some n then [p] else [])"
  by (auto simp: add_leader_def group_of_update simp flip: group_of_def split: option.split)

lemma leader_partitions:
  "group_of (findLeaderForPartitions md prts) n =
     filter (\<lambda>p. map_option pm_leader (find (\<lambda>m. partitionId m = p) md) = Some n) prts"
proof -
  have "group_of (foldl (add_leader md) result prts) n =
      group_of result n @ filter (\<lambda>p. map_option pm_leader (find (\<lambda>m. partitionId m = p) md) = Some n) prts" for result
    by (induction prts arbitrary: result) (auto simp: group_of_add_leader)
  then show ?thesis by (simp add: findLeaderForPartitions_def group_of_def)
qed

lemma group_of_keys: "group_of gs n \<noteq> [] \<Longrightarrow> n \<in> fst ` set gs"
  by (auto simp: group_of_def split: option.splits dest: map_of_SomeD intro: rev_image_eqI)

subsection \<open>Planning\<close>

text \<open>Registered brokers come without response, and those that have one keep it.\<close>

lemma register_brokers_ok:
  assumes "register_brokers env nodes s = (Inr u, s')" "distinct (map fst (sm_responses s))"
  shows "sm_log s' = sm_log s" "sm_counters s' = sm_counters s" "distinct (map fst (sm_responses s'))"
    "\<And>n. n \<in> set nodes \<Longrightarrow> \<exists>b. se_findBroker env n = Inr b \<and> b \<in> fst ` set (sm_responses s')"
    "fst ` set (sm_responses s) \<subseteq> fst ` set (sm_responses s')"
    "set (sm_responses s') \<subseteq> set (sm_responses s) \<union> {(b, None) |b n. se_findBroker env n = Inr b}"
  using assms
proof (induction nodes arbitrary: s)
  case (Cons n nodes)
  define s1 where "s1 s b = (if b \<in> fst ` set (sm_responses s) then s else s\<lparr>sm_responses := sm_responses s @ [(b, None)]\<rparr>)" for s :: "'a send_state" and b
  have s1: "sm_log (s1 s b) = sm_log s" "sm_counters (s1 s b) = sm_counters s"
    "distinct (map fst (sm_responses s)) \<Longrightarrow> distinct (map fst (sm_responses (s1 s b)))"
    "fst ` set (sm_responses (s1 s b)) = insert b (fst ` set (sm_responses s))"
    "set (sm_responses (s1 s b)) \<subseteq> insert (b, None) (set (sm_responses s))" for s b
    by (auto simp: s1_def)
  have step: "\<exists>b. se_findBroker env n = Inr b \<and> register_brokers env nodes (s1 s b) = (Inr u, s')"
    if "register_brokers env (n # nodes) s = (Inr u, s')" for s
    using that by (cases "se_findBroker env n") (simp_all add: s1_def)
  {
    case 1
    then show ?case using Cons.IH(1) step s1 by metis
  next
    case 2
    then show ?case using Cons.IH(2) step s1 by metis
  next
    case 3
    then show ?case using Cons.IH(3) step s1 by metis
  next
    case (4 k)
    then obtain b where b: "se_findBroker env n = Inr b" "register_brokers env nodes (s1 s b) = (Inr u, s')" using step by blast
    from Cons.IH(5) [OF b(2) s1(3) [OF 4(3)]] have "b \<in> fst ` set (sm_responses s')" unfolding s1(4) by simp
    moreover have "\<exists>b. se_findBroker env k = Inr b \<and> b \<in> fst ` set (sm_responses s')" if "k \<in> set nodes"
      by (rule Cons.IH(4) [OF that b(2) s1(3) [OF 4(3)]])
    ultimately show ?case using 4(1) b(1) by (metis set_ConsD)
  next
    case 5
    then obtain b where b: "register_brokers env nodes (s1 s b) = (Inr u, s')" using step by blast
    from Cons.IH(5) [OF b s1(3) [OF 5(2)]] show ?case unfolding s1(4) by simp
  next
    case 6
    then obtain b where b: "se_findBroker env n = Inr b" "register_brokers env nodes (s1 s b) = (Inr u, s')" using step by blast
    from Cons.IH(6) [OF b(2) s1(3) [OF 6(2)]] show ?case using s1(5) [of s b] b(1) by blast
  }
qed auto

definition planned :: "send_config \<Rightarrow> metadata option \<Rightarrow> counters \<Rightarrow> string \<times> producer_message list \<Rightarrow> topic_plan \<Rightarrow> bool" where
  "planned cfg metadata counters t plan \<longleftrightarrow>
     (\<exists>md. findTopicPartitionMetadata metadata (fst t) = Inr md \<and> md \<noteq> [] \<and>
       (let groups = fst (groupMessagesPerPartition (sc_hash cfg) (sc_random cfg) (fst t) md (snd t) counters)
        in plan = (fst t, findLeaderForPartitions md (object_keys groups), groups)))"

lemma planned_cong:
  assumes "counters (fst t) = counters' (fst t)"
  shows "planned cfg md counters t = planned cfg md counters' t"
  unfolding planned_def groups_local [of counters "fst t" counters', OF assms] ..

text \<open>
  A successful plan follows the counters that the send started with, as every topic has its own; all
  leaders are registered.
\<close>

definition registered :: "'p send_env \<Rightarrow> 'p send_state \<Rightarrow> int list \<Rightarrow> bool" where
  "registered env s nodes \<longleftrightarrow> (\<forall>n \<in> set nodes. \<exists>b. se_findBroker env n = Inr b \<and> b \<in> fst ` set (sm_responses s))"

lemma registered_mono:
  "registered env s nodes \<Longrightarrow> fst ` set (sm_responses s) \<subseteq> fst ` set (sm_responses s') \<Longrightarrow> registered env s' nodes"
  unfolding registered_def by blast

lemma plan_topics_Cons:
  assumes "plan_topics cfg env (t # ts) s = (Inr plans, s')"
  obtains plan plans' s1 s2 where "planned cfg (se_metadata env) (sm_counters s) t plan" "plans = plan # plans'"
    "register_brokers env (object_keys (fst (snd plan))) s1 = (Inr (), s2)" "plan_topics cfg env ts s2 = (Inr plans', s')"
    "sm_responses s1 = sm_responses s" "sm_log s1 = sm_log s" "\<And>topic. topic \<noteq> fst t \<Longrightarrow> sm_counters s1 topic = sm_counters s topic"
proof -
  obtain topic ms where t: "t = (topic, ms)" by (cases t)
  obtain md where md: "findTopicPartitionMetadata (se_metadata env) topic = Inr md" "md \<noteq> []"
    using assms t by (cases "findTopicPartitionMetadata (se_metadata env) topic") (auto split: if_splits)
  define gc where "gc = groupMessagesPerPartition (sc_hash cfg) (sc_random cfg) topic md ms (sm_counters s)"
  define s1 where "s1 = s\<lparr>sm_counters := snd gc\<rparr>"
  let ?nodes = "object_keys (findLeaderForPartitions md (object_keys (fst gc)))"
  obtain r s2 where r: "register_brokers env ?nodes s1 = (r, s2)" by fastforce
  with assms md have ok: "r = Inr ()" by (cases r) (auto simp: t gc_def s1_def split_def Let_def)
  obtain p s3 where "plan_topics cfg env ts s2 = (p, s3)" by fastforce
  with assms md r ok obtain plans' where plans': "plan_topics cfg env ts s2 = (Inr plans', s')"
      "plans = (topic, findLeaderForPartitions md (object_keys (fst gc)), fst gc) # plans'"
    by (cases p) (auto simp: t gc_def s1_def split_def Let_def)
  show thesis
  proof (rule that)
    show "planned cfg (se_metadata env) (sm_counters s) t (topic, findLeaderForPartitions md (object_keys (fst gc)), fst gc)"
      using md by (simp add: planned_def t gc_def)
    show "sm_counters s1 topic' = sm_counters s topic'" if "topic' \<noteq> fst t" for topic'
      using that by (simp add: s1_def gc_def t groups_other)
  qed (use plans' r ok in \<open>simp_all add: s1_def\<close>)
qed

lemma plan_topics_ok:
  assumes "plan_topics cfg env ts s = (Inr plans, s')" "distinct (map fst ts)" "distinct (map fst (sm_responses s))"
  shows "list_all2 (planned cfg (se_metadata env) (sm_counters s)) ts plans \<and> sm_log s' = sm_log s \<and>
    distinct (map fst (sm_responses s')) \<and> fst ` set (sm_responses s) \<subseteq> fst ` set (sm_responses s') \<and>
    set (sm_responses s') \<subseteq> set (sm_responses s) \<union> {(b, None) |b n. se_findBroker env n = Inr b} \<and>
    (\<forall>plan \<in> set plans. registered env s' (object_keys (fst (snd plan))))"
  using assms
proof (induction ts arbitrary: s plans)
  case (Cons t ts)
  from plan_topics_Cons [OF Cons.prems(1)] obtain plan plans' s1 s2
    where planned: "planned cfg (se_metadata env) (sm_counters s) t plan" "plans = plan # plans'"
      and register: "register_brokers env (object_keys (fst (snd plan))) s1 = (Inr (), s2)"
      and rest: "plan_topics cfg env ts s2 = (Inr plans', s')"
      and s1: "sm_responses s1 = sm_responses s" "sm_log s1 = sm_log s"
        "\<And>topic. topic \<noteq> fst t \<Longrightarrow> sm_counters s1 topic = sm_counters s topic"
    by metis
  have d: "distinct (map fst (sm_responses s1))" using s1(1) Cons.prems(3) by simp
  note reg = register_brokers_ok [OF register d]
  have d2: "distinct (map fst ts)" using Cons.prems(2) by simp
  note IH = Cons.IH [OF rest d2 reg(3)]
  have "planned cfg (se_metadata env) (sm_counters s2) u = planned cfg (se_metadata env) (sm_counters s) u" if "u \<in> set ts" for u
  proof (rule planned_cong)
    have "fst u \<noteq> fst t" using that Cons.prems(2) by (metis distinct.simps(2) image_eqI image_set list.simps(9))
    then show "sm_counters s2 (fst u) = sm_counters s (fst u)" using reg(2) s1(3) by simp
  qed
  then have "list_all2 (planned cfg (se_metadata env) (sm_counters s)) ts plans'"
    using IH by (smt (verit, best) list.rel_mono_strong)
  moreover have "registered env s2 (object_keys (fst (snd plan)))" unfolding registered_def using reg(4) by blast
  then have "registered env s' (object_keys (fst (snd plan)))" using IH by (blast intro: registered_mono)
  moreover have "fst ` set (sm_responses s) \<subseteq> fst ` set (sm_responses s')" using reg(5) s1(1) IH by auto
  moreover have "set (sm_responses s') \<subseteq> set (sm_responses s) \<union> {(b, None) |b n. se_findBroker env n = Inr b}"
    using reg(6) IH unfolding s1(1) by blast
  ultimately show ?case using planned IH reg(1) s1(2) by simp
qed (auto simp: registered_def)

subsection \<open>What is sent\<close>

definition sent_to :: "logged_request list \<Rightarrow> string \<Rightarrow> int \<Rightarrow> producer_message list" where
  "sent_to requests topic p = concat (map lr_messages (filter (\<lambda>r. lr_topic r = topic \<and> lr_partition r = p) requests))"

lemma sent_to_append [simp]: "sent_to (xs @ ys) topic p = sent_to xs topic p @ sent_to ys topic p"
  by (simp add: sent_to_def)

lemma take_sequences_sent:
  "sent_to (fst (take_sequences call b xs e)) topic p =
     concat (map (\<lambda>x. entry_messages (snd x)) (filter (\<lambda>x. fst x = topic \<and> pe_partition (snd x) = p) xs))"
  by (induction xs arbitrary: e) (auto simp: sent_to_def split_def Let_def)

lemma take_sequences_entries:
  "r \<in> set (fst (take_sequences call b xs e)) \<Longrightarrow> lr_broker r = b \<and> lr_attempt r = call"
  by (induction xs arbitrary: e) (auto simp: split_def Let_def)

text \<open>The messages for a partition are in the request to its leader and in no other.\<close>

lemma concat_filter_one:
  "distinct ps \<Longrightarrow> concat (map f (filter (\<lambda>x. x = p) ps)) = (if p \<in> set ps then f p else [])"
  by (induction ps) auto

definition request_for :: "topic_plan list \<Rightarrow> int \<Rightarrow> string \<Rightarrow> int \<Rightarrow> producer_message list" where
  "request_for plans n topic p =
     concat (map (\<lambda>x. entry_messages (snd x)) (filter (\<lambda>x. fst x = topic \<and> pe_partition (snd x) = p)
       (flat_entries (topic_data_for plans n))))"

lemma topic_data_sent:
  assumes "distinct (map fst plans)" "(topic, perLeader, groups) \<in> set plans" "distinct (group_of perLeader n)"
  shows "request_for plans n topic p = (if p \<in> set (group_of perLeader n) then group_of groups p else [])"
proof -
  let ?sent = "\<lambda>plans. request_for plans n topic p"
  have app: "?sent (xs @ ys) = ?sent xs @ ?sent ys" for xs ys
    by (simp add: request_for_def topic_data_for_def createTopicData_def flat_entries_def)
  have other: "?sent xs = []" if "topic \<notin> fst ` set xs" for xs
    using that by (auto simp: request_for_def topic_data_for_def createTopicData_def flat_entries_def split_def) force
  have one: "?sent [(topic, perLeader, groups)] = (if p \<in> set (group_of perLeader n) then group_of groups p else [])"
    using concat_filter_one [OF assms(3), of "\<lambda>x. case map_of groups x of None \<Rightarrow> [] | Some ms \<Rightarrow> ms" p]
    by (auto simp: request_for_def topic_data_for_def createTopicData_def flat_entries_def entry_messages_def group_of_def filter_map comp_def
      split: option.splits)
  obtain xs ys where split: "plans = xs @ (topic, perLeader, groups) # ys" using assms(2) by (meson split_list)
  then have "topic \<notin> fst ` set xs" "topic \<notin> fst ` set ys" using assms(1) by auto
  then show ?thesis using app [of xs "[(topic, perLeader, groups)] @ ys"] app [of "[(topic, perLeader, groups)]" ys]
    other [of xs] other [of ys] one unfolding split by simp
qed

lemma locked_request_ok:
  assumes "locked_request cfg env plans call b s = (None, s')"
  obtains new where "sm_log s' = sm_log s @ new" "\<And>topic p. sent_to new topic p = request_for plans (fst b) topic p"
proof -
  let ?xs = "flat_entries (topic_data_for plans (fst b))"
  obtain e where "sm_log s' = sm_log s @ fst (take_sequences call b ?xs e)"
    using assms by (auto simp: locked_request_def Let_def split_def split: sum.splits if_splits)
  then show thesis using that take_sequences_sent [of call b ?xs e] by (simp add: request_for_def)
qed

lemma broker_request_ok:
  assumes "broker_request cfg env plans call b s = (None, s')"
  obtains new where "sm_log s' = sm_log s @ new" "\<And>topic p. sent_to new topic p = request_for plans (fst b) topic p"
proof -
  obtain f s1 where lk: "locked_request cfg env plans call b (s\<lparr>sm_eos := snd (acquireBrokerLock (fst b) call (sm_eos s))\<rparr>) = (f, s1)"
    by fastforce
  then have s1: "locked_request cfg env plans call b (s\<lparr>sm_eos := snd (acquireBrokerLock (fst b) call (sm_eos s))\<rparr>) = (None, s1)" "sm_log s' = sm_log s1"
    using assms by (auto simp: broker_request_def Let_def split_def split: prod.splits acquire_result.splits sum.splits)
  show thesis
    by (rule locked_request_ok [OF s1(1)]) (use that s1(2) in simp)
qed

lemma run_requests_ok:
  assumes "run_requests cfg env plans call bs s = (None, s')"
  obtains new where "sm_log s' = sm_log s @ new" "\<And>topic p. sent_to new topic p = concat (map (\<lambda>b. request_for plans (fst b) topic p) bs)"
  using assms
proof (induction bs arbitrary: s thesis)
  case Nil
  from Nil(1) [of "[]"] Nil(2) show ?case by (simp add: sent_to_def)
next
  case (Cons b bs)
  obtain s1 where "broker_request cfg env plans call b s = (None, s1)" and rest: "run_requests cfg env plans call bs s1 = (None, s')"
    using Cons.prems(2) by (auto simp: split_def Let_def split: option.splits)
      (metis prod.collapse)
  then obtain new1 where new1: "sm_log s1 = sm_log s @ new1" "\<And>topic p. sent_to new1 topic p = request_for plans (fst b) topic p"
    by (metis broker_request_ok)
  obtain new2 where "sm_log s' = sm_log s1 @ new2"
      "\<And>topic p. sent_to new2 topic p = concat (map (\<lambda>b. request_for plans (fst b) topic p) bs)"
    using Cons.IH rest by metis
  then show ?case using new1 by (intro Cons.prems(1) [of "new1 @ new2"]) simp_all
qed

lemma concat_map_one:
  assumes "distinct bs" "b0 \<in> set bs" "\<And>b. b \<in> set bs \<Longrightarrow> b \<noteq> b0 \<Longrightarrow> f b = []"
  shows "concat (map f bs) = f b0"
proof -
  obtain xs ys where bs: "bs = xs @ b0 # ys" using assms(2) by (meson split_list)
  then have "concat (map f xs) = []" "concat (map f ys) = []" using assms by auto
  then show ?thesis by (simp only: bs map_append concat_append list.map concat.simps append_Nil append_Nil2)
qed

text \<open>The plan of one topic, summed over the registered brokers.\<close>

lemma requests_for_partition:
  assumes plan: "planned cfg md0 counters (topic, ms) (topic, perLeader, groups)" "findTopicPartitionMetadata md0 topic = Inr md"
    and plans: "distinct (map fst plans)" "(topic, perLeader, groups) \<in> set plans"
    and p: "p \<in> partitionId ` set md"
    and bs: "distinct bs" "\<And>b. b \<in> set bs \<Longrightarrow> se_findBroker env (fst b) = Inr b"
    and leaders: "\<And>n. n \<in> set (object_keys perLeader) \<Longrightarrow> \<exists>b \<in> set bs. fst b = n"
  shows "concat (map (\<lambda>b. request_for plans (fst b) topic p) bs) = group_of groups p"
proof -
  let ?leader = "map_option pm_leader (find (\<lambda>m. partitionId m = p) md)"
  have groups: "groups = fst (groupMessagesPerPartition (sc_hash cfg) (sc_random cfg) topic md ms counters)"
    and perLeader: "perLeader = findLeaderForPartitions md (object_keys groups)"
    using plan by (simp_all add: planned_def Let_def)
  have d: "distinct (object_keys groups)" unfolding groups by (intro distinct_object_keys groups_distinct)
  have mem: "p \<in> set (group_of perLeader n) \<longleftrightarrow> ?leader = Some n \<and> p \<in> fst ` set groups" for n
    by (auto simp: perLeader leader_partitions)
  have req: "request_for plans (fst b) topic p = (if ?leader = Some (fst b) \<and> p \<in> fst ` set groups then group_of groups p else [])" for b :: broker
    using topic_data_sent [OF plans, of "fst b" p] d mem [of "fst b"] by (simp add: perLeader leader_partitions)
  obtain l where l: "?leader = Some l" using p by (cases "find (\<lambda>m. partitionId m = p) md") (auto simp: find_None_iff)
  show ?thesis
  proof (cases "group_of groups p = []")
    case False
    then have key: "p \<in> fst ` set groups" by (rule group_of_keys)
    then have "p \<in> set (group_of perLeader l)" using mem [of l] l by simp
    then have "group_of perLeader l \<noteq> []" by auto
    then have "l \<in> set (object_keys perLeader)" using group_of_keys by simp
    then obtain b0 where b0: "b0 \<in> set bs" "fst b0 = l" using leaders by blast
    have "concat (map (\<lambda>b. request_for plans (fst b) topic p) bs) = request_for plans (fst b0) topic p"
    proof (rule concat_map_one [OF bs(1) b0(1)])
      fix b assume b: "b \<in> set bs" "b \<noteq> b0"
      then have "fst b \<noteq> l" using bs(2) [of b] bs(2) [OF b0(1)] b0(2) by auto
      then show "request_for plans (fst b) topic p = []" using req [of b] l by simp
    qed
    then show ?thesis using req [of b0] key l b0(2) by simp
  next
    case True
    then have "request_for plans (fst b) topic p = []" for b :: broker using req [of b] by (metis (full_types))
    then show ?thesis using True by simp
  qed
qed

lemma list_all2_obtain:
  "list_all2 P xs ys \<Longrightarrow> x \<in> set xs \<Longrightarrow> \<exists>y \<in> set ys. P x y"
  by (induction rule: list_all2_induct) auto

subsection \<open>Brokers that have answered\<close>

text \<open>Every broker in the log has answered, and all its requests are from one attempt before \<open>n\<close>.\<close>

definition asked_once :: "nat \<Rightarrow> 'p send_state \<Rightarrow> bool" where
  "asked_once n s \<longleftrightarrow> distinct (map fst (sm_responses s)) \<and>
     (\<forall>r \<in> set (sm_log s). lr_attempt r < n \<and> (\<exists>v. map_of (sm_responses s) (lr_broker r) = Some (Some v))) \<and>
     (\<forall>r \<in> set (sm_log s). \<forall>r' \<in> set (sm_log s). lr_broker r = lr_broker r' \<longrightarrow> lr_attempt r = lr_attempt r')"

text \<open>Planning adds brokers and keeps the responses and the log.\<close>

definition plan_keeps :: "'p send_state \<Rightarrow> 'p send_state \<Rightarrow> bool" where
  "plan_keeps s s' \<longleftrightarrow> sm_log s' = sm_log s \<and> (distinct (map fst (sm_responses s)) \<longrightarrow> distinct (map fst (sm_responses s'))) \<and>
     (\<forall>k v. map_of (sm_responses s) k = Some v \<longrightarrow> map_of (sm_responses s') k = Some v)"

lemma plan_keeps_trans: "plan_keeps s s1 \<Longrightarrow> plan_keeps s1 s2 \<Longrightarrow> plan_keeps s s2"
  by (simp add: plan_keeps_def)

lemma plan_keeps_eq: "sm_log s' = sm_log s \<Longrightarrow> sm_responses s' = sm_responses s \<Longrightarrow> plan_keeps s s'"
  by (simp add: plan_keeps_def)

lemma plan_keeps_add: "b \<notin> fst ` set (sm_responses s) \<Longrightarrow> plan_keeps s (s\<lparr>sm_responses := sm_responses s @ [(b, None)]\<rparr>)"
  by (auto simp: plan_keeps_def map_add_def map_of_append split: option.splits)

lemma plan_keeps_register: "plan_keeps s (snd (register_brokers env nodes s))"
proof (induction nodes arbitrary: s)
  case (Cons n nodes)
  show ?case
  proof (cases "se_findBroker env n")
    case (Inr b)
    then show ?thesis using Cons.IH [of "s\<lparr>sm_responses := sm_responses s @ [(b, None)]\<rparr>"] Cons.IH [of s] plan_keeps_add [of b s]
      by (auto intro: plan_keeps_trans)
  qed (simp add: plan_keeps_def)
qed (simp add: plan_keeps_def)

lemma plan_keeps_topics: "plan_keeps s (snd (plan_topics cfg env ts s))"
proof (induction ts arbitrary: s)
  case (Cons t ts)
  obtain topic ms where t: "t = (topic, ms)" by (cases t)
  show ?case
  proof (cases "findTopicPartitionMetadata (se_metadata env) topic")
    case (Inr md)
    define gc where "gc = groupMessagesPerPartition (sc_hash cfg) (sc_random cfg) topic md ms (sm_counters s)"
    let ?s1 = "s\<lparr>sm_counters := snd gc\<rparr>"
    let ?nodes = "object_keys (findLeaderForPartitions md (object_keys (fst gc)))"
    obtain r s2 where r: "register_brokers env ?nodes ?s1 = (r, s2)" by fastforce
    have "plan_keeps s ?s1" by (rule plan_keeps_eq) simp_all
    moreover have "plan_keeps ?s1 s2" using plan_keeps_register [of ?s1 env ?nodes] r by simp
    ultimately have s2: "plan_keeps s s2" by (rule plan_keeps_trans)
    moreover obtain q s3 where q: "plan_topics cfg env ts s2 = (q, s3)" by fastforce
    moreover have "plan_keeps s s3" using plan_keeps_trans [OF s2] Cons.IH [of s2] q by simp
    ultimately show ?thesis
      using Inr r by (cases r; cases q) (auto simp: t gc_def split_def Let_def plan_keeps_def)
  qed (simp add: t plan_keeps_def)
qed (simp add: plan_keeps_def)

lemma asked_once_plan: "asked_once n s \<Longrightarrow> plan_keeps s s' \<Longrightarrow> asked_once n s'"
  unfolding asked_once_def plan_keeps_def by metis

lemma asked_once_cong:
  "sm_log s' = sm_log s \<Longrightarrow> sm_responses s' = sm_responses s \<Longrightarrow> asked_once n s' = asked_once n s"
  by (simp add: asked_once_def)

text \<open>A request to a broker that is not in the log yet.\<close>

lemma asked_onceD:
  assumes "asked_once n s"
  shows "distinct (map fst (sm_responses s))" "r \<in> set (sm_log s) \<Longrightarrow> lr_attempt r < n"
    "r \<in> set (sm_log s) \<Longrightarrow> \<exists>v. map_of (sm_responses s) (lr_broker r) = Some (Some v)"
    "r \<in> set (sm_log s) \<Longrightarrow> r' \<in> set (sm_log s) \<Longrightarrow> lr_broker r = lr_broker r' \<Longrightarrow> lr_attempt r = lr_attempt r'"
  using assms unfolding asked_once_def by blast+

lemma asked_once_change:
  assumes s: "asked_once n s" and s': "distinct (map fst (sm_responses s'))" "sm_log s' = sm_log s @ new"
    and other: "\<And>k. k \<noteq> b \<Longrightarrow> map_of (sm_responses s') k = map_of (sm_responses s) k"
    and fresh: "b \<notin> lr_broker ` set (sm_log s)" "\<And>r. r \<in> set new \<Longrightarrow> lr_broker r = b \<and> lr_attempt r = m" "m < n"
    and answered: "new = [] \<or> (\<exists>v. map_of (sm_responses s') b = Some (Some v))"
  shows "asked_once n s'"
  unfolding asked_once_def
proof (intro conjI ballI impI s'(1))
  have old: "lr_broker r \<noteq> b" if "r \<in> set (sm_log s)" for r using fresh(1) that by blast
  fix r assume "r \<in> set (sm_log s')"
  then consider (old) "r \<in> set (sm_log s)" | (new) "r \<in> set new" using s'(2) by auto
  note r = this
  from r show "lr_attempt r < n" by cases (use asked_onceD(2) [OF s] fresh(2) [of r] fresh(3) in simp_all)
  from r show "\<exists>v. map_of (sm_responses s') (lr_broker r) = Some (Some v)"
  proof cases
    case old
    then have "lr_broker r \<noteq> b" using fresh(1) by blast
    then show ?thesis using asked_onceD(3) [OF s \<open>r \<in> set (sm_log s)\<close>] other by simp
  next
    case new
    then show ?thesis using answered fresh(2) [OF new] by auto
  qed
  fix r' assume "r' \<in> set (sm_log s')" and eq: "lr_broker r = lr_broker r'"
  then consider "r' \<in> set (sm_log s)" | "r' \<in> set new" using s'(2) by auto
  then show "lr_attempt r = lr_attempt r'" using r
    by cases (use asked_onceD(4) [OF s _ _ eq] eq old [of r] old [of r'] fresh(2) [of r] fresh(2) [of r'] in auto)+
qed

lemma asked_once_request:
  assumes "asked_once (Suc call) s" "b \<notin> lr_broker ` set (sm_log s)"
  shows "asked_once (Suc call) (snd (locked_request cfg env plans call b s)) \<and>
    lr_broker ` set (sm_log (snd (locked_request cfg env plans call b s))) \<subseteq> insert b (lr_broker ` set (sm_log s))"
proof -
  let ?s' = "snd (locked_request cfg env plans call b s)"
  let ?xs = "flat_entries (topic_data_for plans (fst b))"
  obtain added e where added: "(if transactional (sc_eos cfg)
      then addPartitionsToTransaction (sc_eos cfg) (map (\<lambda>(t, xs). (t, map pe_partition xs)) (topic_data_for plans (fst b))) (se_addPartitions env b) (sm_eos s)
      else (Inr None, sm_eos s)) = (added, e)" by fastforce
  obtain requests e' where seqs: "take_sequences call b ?xs e = (requests, e')" by fastforce
  have "(sm_log ?s' = sm_log s \<and> sm_responses ?s' = AList.delete b (sm_responses s)) \<or>
      (\<exists>v. sm_log ?s' = sm_log s @ requests \<and> sm_responses ?s' = AList.update b (Some v) (sm_responses s))"
    unfolding locked_request_def Let_def added by (simp add: seqs split: sum.split) blast
  then consider (failed) "sm_log ?s' = sm_log s" "sm_responses ?s' = AList.delete b (sm_responses s)"
    | (sent) v where "sm_log ?s' = sm_log s @ requests" "sm_responses ?s' = AList.update b (Some v) (sm_responses s)"
    by blast
  then show ?thesis
  proof cases
    case failed
    have "asked_once (Suc call) ?s'"
      by (rule asked_once_change [OF assms(1), where b = b and new = "[]" and m = call])
        (use assms failed in \<open>simp_all add: asked_once_def distinct_delete delete_conv'\<close>)
    then show ?thesis unfolding failed(1) by blast
  next
    case sent
    have new: "lr_broker r = b \<and> lr_attempt r = call" if "r \<in> set requests" for r
      using take_sequences_entries [of r call b ?xs e] that seqs by simp
    have "asked_once (Suc call) ?s'"
      by (rule asked_once_change [OF assms(1), where b = b and new = requests and m = call])
        (use assms sent new in \<open>simp_all add: asked_once_def distinct_update update_conv'\<close>)
    moreover have "lr_broker ` set (sm_log ?s') \<subseteq> insert b (lr_broker ` set (sm_log s))"
      unfolding sent(1) using new by (auto simp del: split_paired_All)
    ultimately show ?thesis by blast
  qed
qed

lemma asked_once_broker_request:
  assumes "asked_once (Suc call) s" "b \<notin> lr_broker ` set (sm_log s)"
  shows "asked_once (Suc call) (snd (broker_request cfg env plans call b s)) \<and>
    lr_broker ` set (sm_log (snd (broker_request cfg env plans call b s))) \<subseteq> insert b (lr_broker ` set (sm_log s))"
proof -
  let ?s1 = "s\<lparr>sm_eos := snd (acquireBrokerLock (fst b) call (sm_eos s))\<rparr>"
  let ?s' = "snd (broker_request cfg env plans call b s)"
  have "asked_once (Suc call) ?s1" using assms(1) asked_once_cong [of ?s1 s] by simp
  then have s1: "asked_once (Suc call) (snd (locked_request cfg env plans call b ?s1)) \<and>
      lr_broker ` set (sm_log (snd (locked_request cfg env plans call b ?s1))) \<subseteq> insert b (lr_broker ` set (sm_log s))"
    using asked_once_request [of call ?s1 b cfg env plans] assms(2) by simp
  have "(sm_log ?s' = sm_log s \<and> sm_responses ?s' = sm_responses s) \<or>
      (sm_log ?s' = sm_log (snd (locked_request cfg env plans call b ?s1)) \<and>
       sm_responses ?s' = sm_responses (snd (locked_request cfg env plans call b ?s1)))"
    by (auto simp: broker_request_def Let_def split_def split: prod.splits acquire_result.splits sum.splits)
  then show ?thesis
    using s1 assms(1) asked_once_cong [of ?s' s] asked_once_cong [of ?s' "snd (locked_request cfg env plans call b ?s1)"]
    by (metis subset_insertI)
qed

lemma asked_once_run:
  assumes "asked_once (Suc call) s" "distinct bs" "set bs \<inter> lr_broker ` set (sm_log s) = {}"
  shows "asked_once (Suc call) (snd (run_requests cfg env plans call bs s))"
  using assms
proof (induction bs arbitrary: s)
  case (Cons b bs)
  obtain e s1 where s1: "broker_request cfg env plans call b s = (e, s1)" by fastforce
  then have "asked_once (Suc call) s1 \<and> lr_broker ` set (sm_log s1) \<subseteq> insert b (lr_broker ` set (sm_log s))"
    using asked_once_broker_request [of call s b cfg env plans] Cons.prems by simp
  then have "asked_once (Suc call) (snd (run_requests cfg env plans call bs s1))"
    using Cons.prems(2,3) by (intro Cons.IH) auto
  then show ?case by (simp add: s1 split_def Let_def)
qed simp

lemma asked_once_attempt:
  assumes "asked_once call s"
  shows "asked_once (Suc call) (snd (send_attempt cfg env topicMessages call s))"
proof -
  have later: "asked_once (Suc call) s'" if "asked_once call s'" for s' :: "'a send_state"
    using that unfolding asked_once_def by (meson less_SucI)
  obtain r s1 where plan: "plan_topics cfg env topicMessages s = (r, s1)" by fastforce
  then have s1: "asked_once (Suc call) s1" using plan_keeps_topics [of s cfg env topicMessages] assms by (auto intro: asked_once_plan later)
  have d: "distinct (map fst (sm_responses s1))" using s1 by (simp add: asked_once_def)
  have "map_of (sm_responses s1) b = Some None" if "b \<in> set (brokersWithoutResponse s1)" for b
    using that d by (auto simp: brokersWithoutResponse_def intro: map_of_is_SomeI)
  then have "set (brokersWithoutResponse s1) \<inter> lr_broker ` set (sm_log s1) = {}" using s1 unfolding asked_once_def by fastforce
  moreover have "distinct (brokersWithoutResponse s1)" using d by (simp add: brokersWithoutResponse_def distinct_map_filter)
  ultimately have "asked_once (Suc call) (snd (run_requests cfg env plans call (brokersWithoutResponse s1) s1))" for plans
    using s1 by (intro asked_once_run)
  then have "asked_once (Suc call) (snd (createProducerRequests cfg env topicMessages call s))"
    using plan s1 later [OF assms] by (auto simp: createProducerRequests_def split: option.split sum.split)
  then show ?thesis using later [OF assms] by (auto simp: send_attempt_def split: option.split prod.split)
qed

lemma asked_once_sendMessages: "\<exists>n. asked_once n (snd (sendMessages cfg maxRetries delay env topicMessages counters e))"
  unfolding sendMessages_def
  by (rule retry_st_indexed [where P = asked_once]) (auto simp: asked_once_attempt, simp add: asked_once_def)

subsection \<open>A small cluster\<close>

text \<open>
  A topic with two partitions, led by the nodes 1 and 2, and one with a single partition; \<open>fails\<close> says which brokers fail to
  produce. Used to exhibit runs.
\<close>

definition sample_metadata :: metadata where
  "sample_metadata = [(''t'', [\<lparr>partitionId = 0, pm_leader = 1\<rparr>, \<lparr>partitionId = 1, pm_leader = 2\<rparr>]), (''u'', [\<lparr>partitionId = 0, pm_leader = 2\<rparr>])]"

definition sample_env :: "(int \<Rightarrow> bool) \<Rightarrow> int send_env" where
  "sample_env fails = \<lparr>se_addTargets = None, se_metadata = Some sample_metadata, se_findBroker = (\<lambda>n. Inr (n, 0)),
     se_addPartitions = (\<lambda>_. Inr ()), se_produce = (\<lambda>b. if fails (fst b) then Inl (createErrorFromCode 6) else Inr [(''t'', [fst b])]),
     se_refreshBefore = None, se_connected = True, se_reconnect = None, se_refreshAfter = None\<rparr>"

definition sample_config :: send_config where
  "sample_config = \<lparr>sc_hash = murmur2, sc_random = (\<lambda>_. 0), sc_eos = \<lparr>transactional = False, transactionalId = []\<rparr>, sc_acks = - 1\<rparr>"

definition numbered :: "string \<Rightarrow> producer_message" where
  "numbered v = \<lparr>pmsg_partition = None, pmsg_key = BNull, pmsg_value = Some (BString v)\<rparr>"

definition start_state :: "'p send_state" where
  "start_state = \<lparr>sm_counters = (\<lambda>_. None), sm_eos = eos_init, sm_responses = [], sm_log = []\<rparr>"

subsection \<open>Properties\<close>



text \<open>Entries of the same topic are merged before sending: every topic occurs once, with the
  messages of all its entries concatenated in the order given.\<close>

theorem merged_topics:
  "distinct (map fst (mergedTopicMessages ts)) \<and> set (map fst (mergedTopicMessages ts)) = set (map fst ts) \<and>
   group_of (mergedTopicMessages ts) topic = concat (map snd (filter (\<lambda>t. fst t = topic) ts))"
  using merge_fold [of "[]" ts] by (simp add: mergedTopicMessages_def group_of_def del: set_map)



text \<open>A retry partitions all messages anew. With messages that have neither key nor partition the
  round robin then assigns them differently, while brokers that answered the first attempt are not
  asked again: here the call resolves although the message \<open>b\<close> was never accepted and \<open>a\<close>
  and \<open>c\<close> were accepted twice.\<close>

theorem retry_may_lose_message:
  "let r = sendMessages sample_config 5 (\<lambda>_. 0) (\<lambda>i. sample_env (\<lambda>n. i = 0 \<and> n = 1))
      [(''t'', [numbered ''a'', numbered ''b'', numbered ''c''])] (\<lambda>_. None) eos_init
   in fst r = Inr [(''t'', 2), (''t'', 1)] \<and>
      map lr_messages (sm_log (snd r)) = [[numbered ''a'', numbered ''c''], [numbered ''a'', numbered ''c'']]"
  by code_simp

text \<open>Messages addressed to a partition that the topic does not have are dropped: the call resolves
  at once, without any response and without having sent a request.\<close>

theorem unknown_partition_dropped:
  assumes "list_all (\<lambda>m. \<exists>p. pmsg_partition m = Some p \<and> p \<notin> partitionId ` set md) ms" "md \<noteq> []"
    "se_addTargets (env 0) = None" "se_refreshBefore (env 0) = None" "findTopicPartitionMetadata (se_metadata (env 0)) topic = Inr md"
  shows "fst (sendMessages cfg maxRetries delay env [(topic, ms)] counters e) = Inr [] \<and>
    sm_log (snd (sendMessages cfg maxRetries delay env [(topic, ms)] counters e)) = []"
proof -
  let ?P = "\<lambda>gs :: producer_message groups. fst ` set gs \<inter> partitionId ` set md = {}"
  have keep: "?P (AList.update p v gs)" if "p \<notin> partitionId ` set md" "?P gs" for p v and gs :: "producer_message groups"
    using that set_alist_update [of p v gs] by fastforce
  have "?P (fst (group_loop hash rnd topic md ms gs c))" if "?P gs" for hash rnd gs c
    using assms(1) that
  proof (induction ms arbitrary: gs c)
    case (Cons m ms)
    then obtain p where p: "pmsg_partition m = Some p" "p \<notin> partitionId ` set md" by auto
    then obtain c' where c': "partitioner hash rnd topic md m c = (Some p, c')" by (simp add: partitioner_def Let_def)
    have "?P (add_to_group gs p m)" unfolding add_to_group_def Let_def using p(2) Cons.prems(2) by (rule keep)
    then have "?P (fst (group_loop hash rnd topic md ms (add_to_group gs p m) c'))" using Cons.prems(1) by (intro Cons.IH) simp_all
    then show ?case by (simp add: c')
  qed simp
  then have keys: "?P (fst (groupMessagesPerPartition (sc_hash cfg) (sc_random cfg) topic md ms counters))"
    using assms(2) by (simp add: groupMessagesPerPartition_def)
  have skip: "foldl (add_leader md) [] prts = []" if "set prts \<inter> partitionId ` set md = {}" for prts
    using that
  proof (induction prts)
    case (Cons p prts)
    then have "find (\<lambda>m. partitionId m = p) md = None" by (auto simp: find_None_iff)
    then show ?case using Cons by (simp add: add_leader_def)
  qed simp
  have leaders: "findLeaderForPartitions md (object_keys (fst (groupMessagesPerPartition (sc_hash cfg) (sc_random cfg) topic md ms counters))) = []"
    unfolding findLeaderForPartitions_def using keys by (intro skip) simp
  have "object_keys ([] :: (int \<times> int list) list) = []" by (simp add: object_keys_def)
  then show ?thesis unfolding sendMessages_def
    by (subst (1 2) retry_st.simps)
      (simp add: send_attempt_def createProducerRequests_def assms(2-5) leaders split_def Let_def
        brokersWithoutResponse_def all_responses_def)
qed

theorem unknown_partition_dropped_witness:
  "fst (sendMessages sample_config 5 (\<lambda>_. 0) (\<lambda>_. sample_env (\<lambda>_. False)) [(''u'', [(numbered ''a'')\<lparr>pmsg_partition := Some 7\<rparr>])] (\<lambda>_. None) eos_init) = Inr [] \<and>
    sm_log (snd (sendMessages sample_config 5 (\<lambda>_. 0) (\<lambda>_. sample_env (\<lambda>_. False)) [(''u'', [(numbered ''a'')\<lparr>pmsg_partition := Some 7\<rparr>])] (\<lambda>_. None) eos_init)) = []"
  by (rule unknown_partition_dropped [where md = "[\<lparr>partitionId = 0, pm_leader = 2\<rparr>]"])
    (simp_all add: sample_env_def sample_metadata_def findTopicPartitionMetadata_def numbered_def)

end
