(* ===== verification/Cluster.thy ===== *)
theory Cluster
  imports Broker_Pool Producer Offset_Manager
begin

text \<open>
  The cluster, \<^verbatim>\<open>src/cluster/index.js\<close>: the topics a client is interested in, looking up brokers, the
  controller and group coordinators, and the offsets of topics. The broker pool is that of
  \<open>Broker_Pool\<close>; requests to brokers are arguments. The lookups \<^verbatim>\<open>findTopicPartitionMetadata\<close>,
  \<^verbatim>\<open>findLeaderForPartitions\<close> and \<^verbatim>\<open>defaultOffset\<close> stand with the producer and the offset manager.
  The methods wrapped in \<^verbatim>\<open>sharedPromiseTo\<close> are the functions that one run of them computes.
\<close>

record cluster =
  targetTopics :: "string list" \<comment> \<open>a \<open>Set\<close>, in insertion order\<close>
  brokerPool :: broker_pool
  committedOffsetsByGroup :: "(string \<times> (string \<times> (int \<times> int) list) list) list"

definition new_Cluster :: "int option \<Rightarrow> cluster" where
  "new_Cluster maxAge = \<lparr>targetTopics = [], brokerPool = new_BrokerPool maxAge, committedOffsetsByGroup = []\<rparr>"

definition on_pool :: "(broker_pool \<Rightarrow> 'a \<times> broker_pool) \<Rightarrow> cluster \<Rightarrow> 'a \<times> cluster" where
  "on_pool f c = (case f (brokerPool c) of (r, p) \<Rightarrow> (r, c\<lparr>brokerPool := p\<rparr>))"

definition cl_isConnected :: "cluster \<Rightarrow> bool" where
  "cl_isConnected c = hasConnectedBrokers (brokerPool c)"

definition cl_connect :: "pool_env \<Rightarrow> cluster \<Rightarrow> (err + unit) \<times> cluster" where
  "cl_connect env = on_pool (pool_connect env)"

definition cl_disconnect :: "cluster \<Rightarrow> cluster" where
  "cl_disconnect c = c\<lparr>brokerPool := pool_disconnect (brokerPool c)\<rparr>"

definition cl_removeBroker :: "(nat list \<Rightarrow> nat option) \<Rightarrow> string \<Rightarrow> int \<Rightarrow> cluster \<Rightarrow> (err + unit) \<times> cluster" where
  "cl_removeBroker pick host port = on_pool (pool_removeBroker pick host port)"

text \<open>The answers of the brokers to metadata requests, which depend on the topics that are asked for.\<close>

type_synonym metadata_answers = "string list \<Rightarrow> nat \<Rightarrow> int \<times> (err + cluster_metadata)"

definition cl_refreshMetadata :: "pool_env \<Rightarrow> (int list \<Rightarrow> int list) \<Rightarrow> metadata_answers \<Rightarrow> cluster \<Rightarrow> (err + unit) \<times> cluster" where
  "cl_refreshMetadata env shuffle answers c = on_pool (pool_refreshMetadata env shuffle (answers (targetTopics c))) c"

definition cl_refreshMetadataIfNecessary ::
    "pool_env \<Rightarrow> (int list \<Rightarrow> int list) \<Rightarrow> metadata_answers \<Rightarrow> int \<Rightarrow> cluster \<Rightarrow> (err + unit) \<times> cluster" where
  "cl_refreshMetadataIfNecessary env shuffle answers now c =
     on_pool (pool_refreshMetadataIfNecessary env shuffle (answers (targetTopics c)) now (targetTopics c)) c"

text \<open>
  \<^verbatim>\<open>metadata\<close>: a failure to refresh is caught; the promise of \<^verbatim>\<open>withBroker\<close> is returned without being
  awaited, so that its failure reaches the retrier.
\<close>

definition metadata_attempt ::
    "pool_env \<Rightarrow> (int list \<Rightarrow> int list) \<Rightarrow> metadata_answers \<Rightarrow> (nat \<Rightarrow> int) \<Rightarrow> (int \<Rightarrow> nat \<Rightarrow> broker_pool \<Rightarrow> (err + cluster_metadata) \<times> broker_pool)
      \<Rightarrow> string list \<Rightarrow> nat \<Rightarrow> broker_pool \<Rightarrow> cluster_metadata option attempt \<times> broker_pool" where
  "metadata_attempt env shuffle answers clock ask topics i p =
     (case pool_refreshMetadataIfNecessary env shuffle (answers topics) (clock i) topics p of
        (Inl e, p) \<Rightarrow> (if e_type e = Some ''LEADER_NOT_AVAILABLE'' then Throws e else Bails (Some e), p)
      | (Inr _, p) \<Rightarrow>
          (case withBroker env shuffle ask p of
             (Inl e, p) \<Rightarrow> (Throws e, p)
           | (Inr md, p) \<Rightarrow> (Returns md, p)))"

definition cl_metadata ::
    "pool_env \<Rightarrow> (int list \<Rightarrow> int list) \<Rightarrow> metadata_answers \<Rightarrow> (nat \<Rightarrow> int) \<Rightarrow> (int \<Rightarrow> nat \<Rightarrow> broker_pool \<Rightarrow> (err + cluster_metadata) \<times> broker_pool)
      \<Rightarrow> string list \<Rightarrow> cluster \<Rightarrow> (err + cluster_metadata option) \<times> cluster" where
  "cl_metadata env shuffle answers clock ask topics =
     on_pool (retry_st (pe_retries env) (pe_delay env) (metadata_attempt env shuffle answers clock ask topics) 0)"

subsection \<open>Target topics\<close>

definition topic_rejected :: "err \<Rightarrow> bool" where
  "topic_rejected e \<longleftrightarrow>
     e_type e \<in> {Some ''INVALID_TOPIC_EXCEPTION'', Some ''UNKNOWN_TOPIC_OR_PARTITION'', Some ''TOPIC_AUTHORIZATION_FAILED''}"

text \<open>The call runs under the lock \<^verbatim>\<open>mutatingTargetTopics\<close>, which it may fail to get.\<close>

definition addMultipleTargetTopics ::
    "err + unit \<Rightarrow> (cluster \<Rightarrow> (err + unit) \<times> cluster) \<Rightarrow> string list \<Rightarrow> cluster \<Rightarrow> (err + unit) \<times> cluster" where
  "addMultipleTargetTopics acquired refresh topics c =
     (case acquired of
        Inl e \<Rightarrow> (Inl e, c)
      | Inr _ \<Rightarrow>
          (let previousTopics = targetTopics c;
               c = c\<lparr>targetTopics := fold (\<lambda>t ts. if t \<in> set ts then ts else ts @ [t]) topics (targetTopics c)\<rparr>;
               hasChanged = (length previousTopics \<noteq> length (targetTopics c) \<or> bp_metadata (brokerPool c) = None)
           in if hasChanged
              then case refresh c of
                     (Inl e, c) \<Rightarrow> (Inl e, if topic_rejected e then c\<lparr>targetTopics := previousTopics\<rparr> else c)
                   | (Inr _, c) \<Rightarrow> (Inr (), c)
              else (Inr (), c)))"

definition addTargetTopic :: "err + unit \<Rightarrow> (cluster \<Rightarrow> (err + unit) \<times> cluster) \<Rightarrow> string \<Rightarrow> cluster \<Rightarrow> (err + unit) \<times> cluster" where
  "addTargetTopic acquired refresh topic = addMultipleTargetTopics acquired refresh [topic]"

subsection \<open>Brokers\<close>

definition stale_metadata :: "err \<Rightarrow> bool" where
  "stale_metadata e \<longleftrightarrow> e_name e \<in> {''KafkaJSBrokerNotFound'', ''KafkaJSLockTimeout'', ''KafkaJSConnectionError''}"

definition cl_findBroker :: "pool_env \<Rightarrow> (cluster \<Rightarrow> (err + unit) \<times> cluster) \<Rightarrow> int \<Rightarrow> cluster \<Rightarrow> (err + nat) \<times> cluster" where
  "cl_findBroker env refresh nodeId c =
     (case on_pool (pool_findBroker env nodeId) c of
        (Inr r, c) \<Rightarrow> (Inr r, c)
      | (Inl e, c) \<Rightarrow>
          (if stale_metadata e
           then case refresh c of (Inl e', c) \<Rightarrow> (Inl e', c) | (Inr _, c) \<Rightarrow> (Inl e, c)
           else (Inl e, c)))"

definition findControllerBroker :: "pool_env \<Rightarrow> (cluster \<Rightarrow> (err + unit) \<times> cluster) \<Rightarrow> cluster \<Rightarrow> (err + nat) \<times> cluster" where
  "findControllerBroker env refresh c =
     (case Option.bind (bp_metadata (brokerPool c)) md_controllerId of
        None \<Rightarrow> (Inl (new_KafkaJSMetadataNotLoaded (Text ''Topic metadata not loaded'')), c)
      | Some node \<Rightarrow> cl_findBroker env refresh node c)"

definition cl_findTopicPartitionMetadata :: "string \<Rightarrow> cluster \<Rightarrow> err + partition_metadata list" where
  "cl_findTopicPartitionMetadata topic c = findTopicPartitionMetadata (map_option md_topicMetadata (bp_metadata (brokerPool c))) topic"

text \<open>The answer to a request for a coordinator is its node id; each broker is asked under the retrier.\<close>

definition coordinator_request :: "pool_env \<Rightarrow> (int \<Rightarrow> nat \<Rightarrow> err + int) \<Rightarrow> int \<Rightarrow> nat \<Rightarrow> broker_pool \<Rightarrow> (err + int) \<times> broker_pool" where
  "coordinator_request env ask node r p =
     retry_st (pe_retries env) (pe_delay env)
       (\<lambda>i p. (case ask node i of
                 Inr coordinator \<Rightarrow> Returns coordinator
               | Inl e \<Rightarrow> if e_type e = Some ''GROUP_COORDINATOR_NOT_AVAILABLE'' then Throws e else Bails (Some e), p)) 0 p"

definition findGroupCoordinatorMetadata ::
    "pool_env \<Rightarrow> (int list \<Rightarrow> int list) \<Rightarrow> (int \<Rightarrow> nat \<Rightarrow> err + int) \<Rightarrow> cluster \<Rightarrow> (err + int) \<times> cluster" where
  "findGroupCoordinatorMetadata env shuffle ask c =
     (case on_pool (withBroker env shuffle (coordinator_request env ask)) c of
        (Inl e, c) \<Rightarrow> (Inl e, c)
      | (Inr (Some coordinator), c) \<Rightarrow> (Inr coordinator, c)
      | (Inr None, c) \<Rightarrow> (Inl (new_KafkaJSGroupCoordinatorNotFound (Text ''Failed to find group coordinator'')), c))"

definition coordinator_attempt ::
    "pool_env \<Rightarrow> (int list \<Rightarrow> int list) \<Rightarrow> (nat \<Rightarrow> int \<Rightarrow> nat \<Rightarrow> err + int) \<Rightarrow> (err \<Rightarrow> bool) \<Rightarrow> (nat \<Rightarrow> cluster \<Rightarrow> (err + unit) \<times> cluster)
      \<Rightarrow> nat \<Rightarrow> cluster \<Rightarrow> nat attempt \<times> cluster" where
  "coordinator_attempt env shuffle ask econnrefused refresh i c =
     (case (case findGroupCoordinatorMetadata env shuffle (ask i) c of
              (Inl e, c) \<Rightarrow> (Inl e, c)
            | (Inr node, c) \<Rightarrow> cl_findBroker env (refresh i) node c) of
        (Inr r, c) \<Rightarrow> (Returns r, c)
      | (Inl e, c) \<Rightarrow>
          (if e_name e = ''KafkaJSBrokerNotFound'' \<or> e_type e = Some ''GROUP_COORDINATOR_NOT_AVAILABLE''
           then case refresh i c of (Inl e', c) \<Rightarrow> (Throws e', c) | (Inr _, c) \<Rightarrow> (Throws e, c)
           else if econnrefused e then (Throws e, c)
           else (Bails (Some e), c)))"

definition findGroupCoordinator ::
    "pool_env \<Rightarrow> (int list \<Rightarrow> int list) \<Rightarrow> (nat \<Rightarrow> int \<Rightarrow> nat \<Rightarrow> err + int) \<Rightarrow> (err \<Rightarrow> bool) \<Rightarrow> (nat \<Rightarrow> cluster \<Rightarrow> (err + unit) \<times> cluster)
      \<Rightarrow> cluster \<Rightarrow> (err + nat) \<times> cluster" where
  "findGroupCoordinator env shuffle ask econnrefused refresh c =
     retry_st (pe_retries env) (pe_delay env) (coordinator_attempt env shuffle ask econnrefused refresh) 0 c"

subsection \<open>Offsets of topics\<close>

record topic_request =
  tr_topic :: string
  tr_partitions :: "int list"
  tr_fromBeginning :: bool
  tr_fromTimestamp :: "int option"

definition timestamp_of :: "topic_request \<Rightarrow> int" where
  "timestamp_of tr = (case tr_fromTimestamp tr of Some t \<Rightarrow> t | None \<Rightarrow> defaultOffset (tr_fromBeginning tr))"

type_synonym per_broker = "(int \<times> (string \<times> int list) list) list"

definition add_partitions :: "topic_request \<Rightarrow> (int \<times> int list) list \<Rightarrow> per_broker \<Rightarrow> int \<Rightarrow> per_broker" where
  "add_partitions tr partitionsPerLeader per node =
     AList.update node
       (AList.update (tr_topic tr) (filter (\<lambda>p. p \<in> set (group_of partitionsPerLeader node)) (tr_partitions tr)) (group_of per node)) per"

fun index_topics ::
    "cluster \<Rightarrow> topic_request list \<Rightarrow> per_broker \<times> (string \<times> int) list \<Rightarrow> err + per_broker \<times> (string \<times> int) list" where
  "index_topics c [] st = Inr st"
| "index_topics c (tr # trs) (per, conf) =
     rbind (cl_findTopicPartitionMetadata (tr_topic tr) c) (\<lambda>md.
       let partitionsPerLeader = findLeaderForPartitions md (tr_partitions tr)
       in index_topics c trs
            (foldl (add_partitions tr partitionsPerLeader) per (map fst (sort_key fst partitionsPerLeader)),
             AList.update (tr_topic tr) (timestamp_of tr) conf))"

definition list_request :: "(string \<times> int) list \<Rightarrow> (string \<times> int list) list \<Rightarrow> (string \<times> (int \<times> int) list) list" where
  "list_request conf parts = map (\<lambda>(topic, prts). (topic, map (\<lambda>p. (p, the (map_of conf topic))) prts)) parts"

definition mergeTopics :: "(string \<times> 'a list) list \<Rightarrow> string \<times> 'a list \<Rightarrow> (string \<times> 'a list) list" where
  "mergeTopics obj t = AList.update (fst t) (group_of obj (fst t) @ snd t) obj"

text \<open>
  The answer of a node covers finding the broker and its \<^verbatim>\<open>ListOffsets\<close>. Of several failures the one of
  the first node is reported.
\<close>

definition fetchTopicsOffset ::
    "(int \<Rightarrow> (string \<times> (int \<times> int) list) list \<Rightarrow> err + (string \<times> (int \<times> int) list) list) \<Rightarrow> topic_request list \<Rightarrow> cluster
      \<Rightarrow> err + (string \<times> (int \<times> int) list) list" where
  "fetchTopicsOffset answer trs c =
     rbind (index_topics c trs ([], [])) (\<lambda>(per, conf).
       rbind (rmap (\<lambda>(node, parts). answer node (list_request conf parts)) (sort_key fst per)) (\<lambda>responses.
         Inr (foldl mergeTopics [] (concat responses))))"

subsection \<open>Committed offsets\<close>

definition cl_committedOffsets :: "string \<Rightarrow> cluster \<Rightarrow> (string \<times> (int \<times> int) list) list \<times> cluster" where
  "cl_committedOffsets groupId c =
     (case map_of (committedOffsetsByGroup c) groupId of
        Some offs \<Rightarrow> (offs, c)
      | None \<Rightarrow> ([], c\<lparr>committedOffsetsByGroup := AList.update groupId [] (committedOffsetsByGroup c)\<rparr>))"

definition markOffsetAsCommitted :: "string \<Rightarrow> string \<Rightarrow> int \<Rightarrow> int \<Rightarrow> cluster \<Rightarrow> cluster" where
  "markOffsetAsCommitted groupId topic prt offs c =
     (let (table, c) = cl_committedOffsets groupId c
      in c\<lparr>committedOffsetsByGroup :=
             AList.update groupId (AList.update topic (AList.update prt offs (group_of table topic)) table) (committedOffsetsByGroup c)\<rparr>)"

subsection \<open>Every partition is asked for once\<close>

definition leader_of :: "partition_metadata list \<Rightarrow> int \<Rightarrow> int option" where
  "leader_of md p = map_option pm_leader (find (\<lambda>m. partitionId m = p) md)"

definition known_to :: "cluster \<Rightarrow> string \<Rightarrow> partition_metadata list" where
  "known_to c topic = (case bp_metadata (brokerPool c) of None \<Rightarrow> [] | Some md \<Rightarrow> group_of (md_topicMetadata md) topic)"

lemma group_of_update_eq: "group_of (AList.update k v al) q = (if q = k then v else group_of al q)"
  by (simp add: group_of_def update_conv')

lemma node_group_of_merge: "group_of (foldl mergeTopics obj rs) t = group_of obj t @ concat (map snd (filter (\<lambda>r. fst r = t) rs))"
  by (induction rs arbitrary: obj) (auto simp: mergeTopics_def group_of_update_eq)

lemma group_of_distinct: "distinct (map fst al) \<Longrightarrow> concat (map snd (filter (\<lambda>r. fst r = t) al)) = group_of al t"
proof (induction al)
  case (Cons x al)
  have "filter (\<lambda>r. fst r = t) al = []" if "fst x = t" using Cons.prems that by (fastforce simp: filter_empty_conv intro: rev_image_eqI)
  then show ?case using Cons by (cases x) (auto simp: group_of_def)
qed (simp add: group_of_def)

lemma per_leader_keys: "n \<in> fst ` set (findLeaderForPartitions md prts) \<longleftrightarrow> (\<exists>p \<in> set prts. leader_of md p = Some n)"
proof -
  have "n \<in> fst ` set (foldl (add_leader md) res prts) \<longleftrightarrow> n \<in> fst ` set res \<or> (\<exists>p \<in> set prts. leader_of md p = Some n)" for res
    by (induction prts arbitrary: res) (auto simp: add_leader_def leader_of_def keys_update split: option.splits)
  then show ?thesis by (simp add: findLeaderForPartitions_def)
qed

text \<open>What the index holds for a topic and a node, and which nodes it mentions.\<close>

definition parts_of :: "per_broker \<Rightarrow> int \<Rightarrow> string \<Rightarrow> int list" where
  "parts_of per node topic = group_of (group_of per node) topic"

definition index_wf :: "per_broker \<Rightarrow> bool" where
  "index_wf per \<longleftrightarrow> distinct (map fst per) \<and> (\<forall>(n, parts) \<in> set per. distinct (map fst parts))"

lemma group_of_in: "distinct (map fst per) \<Longrightarrow> group_of per n = [] \<or> (n, group_of per n) \<in> set per"
  by (auto simp: group_of_def split: option.splits dest: map_of_SomeD)

lemma index_wf_add: "index_wf per \<Longrightarrow> index_wf (add_partitions tr ppl per n)"
proof -
  assume wf: "index_wf per"
  have d: "distinct (map fst (group_of per n))" using wf group_of_in [of per n] by (auto simp: index_wf_def)
  have sub: "set (AList.update k v al) \<subseteq> insert (k, v) (set al)" for k v and al :: per_broker by (induction al) auto
  show ?thesis using wf d sub unfolding index_wf_def add_partitions_def
    by (auto simp: distinct_update dest!: subsetD [OF sub])
qed

lemma add_partitions_foldl:
  assumes "index_wf per" "distinct nodes"
  shows "index_wf (foldl (add_partitions tr ppl) per nodes)"
    "fst ` set (foldl (add_partitions tr ppl) per nodes) = fst ` set per \<union> set nodes"
    "parts_of (foldl (add_partitions tr ppl) per nodes) n topic =
       (if topic = tr_topic tr \<and> n \<in> set nodes then filter (\<lambda>p. p \<in> set (group_of ppl n)) (tr_partitions tr) else parts_of per n topic)"
  using assms
proof (induction nodes arbitrary: per)
  case (Cons m nodes)
  have keys: "fst ` set (add_partitions tr ppl per m) = insert m (fst ` set per)" for per by (simp add: add_partitions_def keys_update)
  have parts: "parts_of (add_partitions tr ppl per m) n topic =
      (if topic = tr_topic tr \<and> n = m then filter (\<lambda>p. p \<in> set (group_of ppl n)) (tr_partitions tr) else parts_of per n topic)" for per
    by (simp add: parts_of_def add_partitions_def group_of_update_eq)
  { case 1 then show ?case using Cons.IH(1) [of "add_partitions tr ppl per m"] index_wf_add by simp }
  { case 2
    then have "fst ` set (foldl (add_partitions tr ppl) (add_partitions tr ppl per m) nodes) = insert m (fst ` set per) \<union> set nodes"
      using Cons.IH(2) [of "add_partitions tr ppl per m"] index_wf_add unfolding keys by simp
    then show ?case by simp }
  { case 3 then show ?case using Cons.IH(3) [of "add_partitions tr ppl per m"] index_wf_add parts by auto }
qed simp_all

lemma distinct_per_leader: "distinct (map fst (findLeaderForPartitions md prts))"
proof -
  have "distinct (map fst res) \<Longrightarrow> distinct (map fst (foldl (add_leader md) res prts))" for res
    by (induction prts arbitrary: res) (auto simp: add_leader_def distinct_update split: option.splits)
  then show ?thesis by (simp add: findLeaderForPartitions_def)
qed

lemma index_topics_spec:
  assumes "bp_metadata (brokerPool c) \<noteq> None" "distinct (map tr_topic trs)" "index_wf per"
    "\<forall>tr \<in> set trs. \<forall>n. parts_of per n (tr_topic tr) = []"
  shows "\<exists>per' conf'. index_topics c trs (per, conf) = Inr (per', conf') \<and> index_wf per' \<and>
    (\<forall>tr \<in> set trs. map_of conf' (tr_topic tr) = Some (timestamp_of tr) \<and>
       (\<forall>n. parts_of per' n (tr_topic tr) = filter (\<lambda>p. leader_of (known_to c (tr_topic tr)) p = Some n) (tr_partitions tr)) \<and>
       (\<forall>p \<in> set (tr_partitions tr). \<forall>n. leader_of (known_to c (tr_topic tr)) p = Some n \<longrightarrow> n \<in> fst ` set per')) \<and>
    (\<forall>t. t \<notin> tr_topic ` set trs \<longrightarrow> map_of conf' t = map_of conf t \<and> (\<forall>n. parts_of per' n t = parts_of per n t)) \<and>
    fst ` set per \<subseteq> fst ` set per'"
  using assms
proof (induction trs arbitrary: per conf)
  case (Cons tr trs)
  let ?md = "known_to c (tr_topic tr)"
  let ?ppl = "findLeaderForPartitions ?md (tr_partitions tr)"
  let ?nodes = "map fst (sort_key fst ?ppl)"
  let ?per = "foldl (add_partitions tr ?ppl) per ?nodes"
  have "mset ?nodes = mset (map fst ?ppl)" by (metis mset_map mset_sort)
  then have nodes: "distinct ?nodes" "set ?nodes = fst ` set ?ppl"
    using distinct_per_leader [of ?md "tr_partitions tr"] mset_eq_imp_distinct_iff by (blast, simp)
  note per = add_partitions_foldl [OF Cons.prems(3) nodes(1), of tr ?ppl]
  have filt: "filter (\<lambda>p. p \<in> set (group_of ?ppl n)) (tr_partitions tr) = filter (\<lambda>p. leader_of ?md p = Some n) (tr_partitions tr)" for n
    by (rule filter_cong) (auto simp: leader_partitions leader_of_def)
  have own: "parts_of ?per n (tr_topic tr) = filter (\<lambda>p. leader_of ?md p = Some n) (tr_partitions tr)" for n
  proof (cases "n \<in> set ?nodes")
    case False
    then have "filter (\<lambda>p. leader_of ?md p = Some n) (tr_partitions tr) = []"
      unfolding nodes(2) per_leader_keys by (simp add: filter_empty_conv)
    then show ?thesis using False per(3) Cons.prems(4) by simp
  qed (simp only: per(3) filt if_True simp_thms)
  have found: "cl_findTopicPartitionMetadata (tr_topic tr) c = Inr ?md"
    using Cons.prems(1) by (auto simp: cl_findTopicPartitionMetadata_def findTopicPartitionMetadata_def known_to_def group_of_def)
  have new: "tr_topic tr \<notin> tr_topic ` set trs" using Cons.prems(2) by simp
  have rest: "\<forall>t \<in> set trs. \<forall>n. parts_of ?per n (tr_topic t) = []"
  proof (intro ballI allI)
    fix t n assume "t \<in> set trs"
    then have "tr_topic t \<noteq> tr_topic tr" using new by (metis image_eqI)
    then show "parts_of ?per n (tr_topic t) = []" using per(3) Cons.prems(4) \<open>t \<in> set trs\<close> by simp
  qed
  obtain per' conf' where r: "index_topics c trs (?per, AList.update (tr_topic tr) (timestamp_of tr) conf) = Inr (per', conf')" "index_wf per'"
      "\<forall>tr \<in> set trs. map_of conf' (tr_topic tr) = Some (timestamp_of tr) \<and>
         (\<forall>n. parts_of per' n (tr_topic tr) = filter (\<lambda>p. leader_of (known_to c (tr_topic tr)) p = Some n) (tr_partitions tr)) \<and>
         (\<forall>p \<in> set (tr_partitions tr). \<forall>n. leader_of (known_to c (tr_topic tr)) p = Some n \<longrightarrow> n \<in> fst ` set per')"
      "\<forall>t. t \<notin> tr_topic ` set trs \<longrightarrow> map_of conf' t = map_of (AList.update (tr_topic tr) (timestamp_of tr) conf) t \<and> (\<forall>n. parts_of per' n t = parts_of ?per n t)"
      "fst ` set ?per \<subseteq> fst ` set per'"
    using Cons.IH [OF Cons.prems(1) _ per(1) rest, of "AList.update (tr_topic tr) (timestamp_of tr) conf"] Cons.prems(2) by auto
  have "index_topics c (tr # trs) (per, conf) = Inr (per', conf')" using found r(1) by (simp add: Let_def)
  moreover have "n \<in> fst ` set per'" if "p \<in> set (tr_partitions tr)" "leader_of ?md p = Some n" for p n
    using r(5) per(2) nodes(2) that per_leader_keys [of n ?md "tr_partitions tr"] by blast
  moreover have "map_of conf' (tr_topic tr) = Some (timestamp_of tr)" "parts_of per' n (tr_topic tr) = filter (\<lambda>p. leader_of ?md p = Some n) (tr_partitions tr)" for n
    using r(4) new own by (simp_all add: update_conv')
  moreover have "map_of conf' t = map_of conf t" "parts_of per' n t = parts_of per n t" if "t \<notin> tr_topic ` set (tr # trs)" for t n
    using r(4) that by (simp_all add: update_conv' per(3))
  moreover have "fst ` set per \<subseteq> fst ` set per'" using r(5) per(2) by blast
  ultimately show ?case using r(2,3) by auto
qed simp

lemma map_of_map_entries: "map_of (map (\<lambda>x. (fst x, f (fst x) (snd x))) al) k = map_option (f k) (map_of al k)"
  by (induction al) auto

lemma mset_by_leader:
  assumes "distinct ns" "\<forall>p \<in> set ps. \<forall>n. f p = Some n \<longrightarrow> n \<in> set ns"
  shows "mset (concat (map (\<lambda>n. map (g n) (filter (\<lambda>p. f p = Some n) ps)) ns)) = mset (map (\<lambda>p. g (the (f p)) p) (filter (\<lambda>p. f p \<noteq> None) ps))"
  using assms(2)
proof (induction ps)
  case (Cons p ps)
  have "mset (concat (map (\<lambda>n. map (g n) (filter (\<lambda>p. f p = Some n) (p # ps))) ms)) =
      mset (concat (map (\<lambda>n. map (g n) (filter (\<lambda>p. f p = Some n) ps)) ms)) +
      (case f p of None \<Rightarrow> {#} | Some n \<Rightarrow> if n \<in> set ms then {#g n p#} else {#})" if "distinct ms" for ms
    using that by (induction ms) (auto split: option.splits)
  then show ?case using Cons assms(1) by (auto split: option.splits)
qed simp

text \<open>C24: Asking for the offsets of topics asks the leader of every partition for it once: when the topics are
  different and every broker answers what it is asked, the result has for each topic exactly the
  partitions the metadata knows, each with the offset its leader reports for the timestamp of the topic.\<close>

theorem topic_offsets_complete:
  assumes "bp_metadata (brokerPool c) \<noteq> None" "distinct (map tr_topic trs)" "tr \<in> set trs"
    "\<And>node req. answer node req = Inr (map (\<lambda>(t, ps). (t, map (\<lambda>(p, ts). (p, offs node t p ts)) ps)) req)"
  shows "\<exists>res. fetchTopicsOffset answer trs c = Inr res \<and>
    mset (group_of res (tr_topic tr)) =
      mset (map (\<lambda>p. (p, offs (the (leader_of (known_to c (tr_topic tr)) p)) (tr_topic tr) p (timestamp_of tr)))
        (filter (\<lambda>p. leader_of (known_to c (tr_topic tr)) p \<noteq> None) (tr_partitions tr)))"
proof -
  let ?t = "tr_topic tr"
  let ?lead = "leader_of (known_to c ?t)"
  obtain per conf where ix: "index_topics c trs ([], []) = Inr (per, conf)" "index_wf per" "map_of conf ?t = Some (timestamp_of tr)"
      "\<And>n. parts_of per n ?t = filter (\<lambda>p. ?lead p = Some n) (tr_partitions tr)"
      "\<forall>p \<in> set (tr_partitions tr). \<forall>n. ?lead p = Some n \<longrightarrow> n \<in> fst ` set per"
    using index_topics_spec [OF assms(1,2), of "[]" "[]"] assms(3) by (auto simp: index_wf_def parts_of_def group_of_def)
  let ?per = "sort_key fst per"
  let ?g = "\<lambda>n p. (p, offs n ?t p (timestamp_of tr))"
  let ?resp = "\<lambda>(n, parts). map (\<lambda>(t, ps). (t, map (\<lambda>(p, ts). (p, offs n t p ts)) ps)) (list_request conf parts)"
  have ms: "mset ?per = mset per" by simp
  have wf: "distinct (map fst ?per)" "\<And>n parts. (n, parts) \<in> set ?per \<Longrightarrow> distinct (map fst parts) \<and> group_of per n = parts"
    using ix(2) mset_eq_imp_distinct_iff [of "map fst ?per" "map fst per"]
    by (auto simp: index_wf_def group_of_def map_of_eq_Some_iff)
  have run: "rmap (\<lambda>(node, parts). answer node (list_request conf parts)) xs = Inr (map ?resp xs)" for xs
    by (induction xs) (auto simp: assms(4))
  have "concat (map snd (filter (\<lambda>r. fst r = ?t) (?resp (n, parts)))) = map (?g n) (filter (\<lambda>p. ?lead p = Some n) (tr_partitions tr))"
    if "(n, parts) \<in> set ?per" for n parts
  proof -
    let ?r = "?resp (n, parts)"
    have keys: "map fst ?r = map fst parts" by (auto simp: list_request_def)
    have "group_of ?r ?t = map (?g n) (group_of parts ?t)"
      using map_of_map_entries [of "\<lambda>t. map (\<lambda>p. (p, offs n t p (the (map_of conf t))))" parts ?t] ix(3)
      by (simp add: group_of_def list_request_def comp_def case_prod_beta split: option.split)
    then show ?thesis using group_of_distinct [of ?r ?t] wf(2) [OF that] ix(4) [of n] keys by (simp add: parts_of_def)
  qed
  then have parts: "map (\<lambda>x. concat (map snd (filter (\<lambda>r. fst r = ?t) (?resp x)))) ?per =
      map (\<lambda>n. map (?g n) (filter (\<lambda>p. ?lead p = Some n) (tr_partitions tr))) (map fst ?per)"
    by (auto simp: case_prod_beta)
  have flat: "concat (map snd (filter (\<lambda>r. fst r = ?t) (concat (map ?resp xs)))) = concat (map (\<lambda>x. concat (map snd (filter (\<lambda>r. fst r = ?t) (?resp x)))) xs)" for xs
    by (induction xs) simp_all
  have g: "group_of (foldl mergeTopics [] (concat (map ?resp ?per))) ?t =
      concat (map (\<lambda>n. map (?g n) (filter (\<lambda>p. ?lead p = Some n) (tr_partitions tr))) (map fst ?per))"
    unfolding node_group_of_merge flat parts by (simp add: group_of_def)
  have lead: "\<forall>p \<in> set (tr_partitions tr). \<forall>n. ?lead p = Some n \<longrightarrow> n \<in> set (map fst ?per)" using ix(5) by simp
  have "fetchTopicsOffset answer trs c = Inr (foldl mergeTopics [] (concat (map ?resp ?per)))"
    by (simp add: fetchTopicsOffset_def ix(1) run)
  then show ?thesis unfolding mset_by_leader [OF wf(1) lead, of ?g, folded g, symmetric] by blast
qed

definition sample_cluster :: cluster where
  "sample_cluster = (new_Cluster None)\<lparr>brokerPool := sample_pool\<lparr>bp_metadata := Some (sample_refresh\<lparr>md_topicMetadata :=
     [(''t'', [\<lparr>partitionId = 0, pm_leader = 3\<rparr>, \<lparr>partitionId = 1, pm_leader = 2\<rparr>])]\<rparr>)\<rparr>\<rparr>"

theorem topic_offsets_complete_witness:
  "\<exists>res. fetchTopicsOffset (\<lambda>node req. Inr (map (\<lambda>(t, ps). (t, map (\<lambda>(p, ts). (p, 10 * node + p)) ps)) req))
      [\<lparr>tr_topic = ''t'', tr_partitions = [1, 0, 7], tr_fromBeginning = True, tr_fromTimestamp = None\<rparr>] sample_cluster = Inr res \<and>
    mset (group_of res ''t'') = {#(1, 21), (0, 30)#}"
proof -
  let ?tr = "\<lparr>tr_topic = ''t'', tr_partitions = [1, 0, 7], tr_fromBeginning = True, tr_fromTimestamp = None\<rparr>"
  have "bp_metadata (brokerPool sample_cluster) \<noteq> None" by (simp add: sample_cluster_def)
  moreover have "map (\<lambda>p. (p, 10 * the (leader_of (known_to sample_cluster ''t'') p) + p))
      (filter (\<lambda>p. leader_of (known_to sample_cluster ''t'') p \<noteq> None) [1, 0, 7]) = [(1, 21), (0, 30)]"
    by (simp add: sample_cluster_def known_to_def group_of_def leader_of_def)
  ultimately show ?thesis
    using topic_offsets_complete [of sample_cluster "[?tr]" ?tr _ "\<lambda>node t p ts. 10 * node + p"] by simp
qed

text \<open>Adding topics to the cluster either succeeds, and then all of them are among the target topics; or
  fails, and then the target topics are as before when the brokers rejected a topic, and never lose a
  topic they had. Without a new topic and with metadata at hand nothing is requested.\<close>

theorem add_topics_outcome:
  assumes "\<And>c r c'. refresh c = (r, c') \<Longrightarrow> targetTopics c' = targetTopics c" "addMultipleTargetTopics (Inr ()) refresh topics c = (r, c')"
  shows "(r = Inr () \<longrightarrow> set (targetTopics c') = set (targetTopics c) \<union> set topics) \<and>
    (\<forall>e. r = Inl e \<longrightarrow> (if topic_rejected e then targetTopics c' = targetTopics c else set (targetTopics c') = set (targetTopics c) \<union> set topics)) \<and>
    (set topics \<subseteq> set (targetTopics c) \<and> bp_metadata (brokerPool c) \<noteq> None \<longrightarrow> r = Inr () \<and> c' = c)"
proof -
  let ?add = "fold (\<lambda>t ts. if t \<in> set ts then ts else ts @ [t]) topics (targetTopics c)"
  have added: "set (fold (\<lambda>t ts. if t \<in> set ts then ts else ts @ [t]) topics ts) = set ts \<union> set topics" for ts
    by (induction topics arbitrary: ts) auto
  have same: "fold (\<lambda>t ts. if t \<in> set ts then ts else ts @ [t]) topics ts = ts" if "set topics \<subseteq> set ts" for ts
    using that by (induction topics) auto
  obtain r1 c1 where r1: "refresh (c\<lparr>targetTopics := ?add\<rparr>) = (r1, c1)" by fastforce
  then have c1: "targetTopics c1 = ?add" using assms(1) by fastforce
  have "c\<lparr>targetTopics := ?add\<rparr> = c" if "set topics \<subseteq> set (targetTopics c)" using same [OF that] by simp
  then show ?thesis using assms(2) r1 c1 added [of "targetTopics c"] same [of "targetTopics c"]
    by (auto simp: addMultipleTargetTopics_def Let_def split: if_splits sum.splits)
qed

theorem add_topics_outcome_witness:
  "let e = native_error ''Error'' ''x'' in \<exists>c'. addMultipleTargetTopics (Inr ()) (\<lambda>c. (Inl e, c)) [''t''] sample_cluster = (Inl e, c') \<and> targetTopics c' = [''t'']"
proof -
  let ?e = "native_error ''Error'' ''x''"
  have run: "addMultipleTargetTopics (Inr ()) (\<lambda>c. (Inl ?e, c)) [''t''] sample_cluster = (Inl ?e, sample_cluster\<lparr>targetTopics := [''t'']\<rparr>)"
    by (simp add: addMultipleTargetTopics_def sample_cluster_def new_Cluster_def topic_rejected_def native_error_def)
  have "set (targetTopics (sample_cluster\<lparr>targetTopics := [''t'']\<rparr>)) = set (targetTopics sample_cluster) \<union> set [''t'']"
    using add_topics_outcome [OF _ run] by (auto simp: topic_rejected_def native_error_def)
  then show ?thesis using run by (simp add: Let_def)
qed

end
