(* ===== verification/Protocol_Layout.thy ===== *)
theory Protocol_Layout
  imports Wire_Codec Protocol_Error "HOL-Library.AList" "HOL-Library.Multiset"
begin

text \<open>
  What the decoders under \<^verbatim>\<open>src/protocol/requests\<close> are written with, and what they are held against.
  The first part is the JavaScript side: the values that a response is decoded to, readers of single
  fields, and object literals whose properties are read in their order.
  The second part is the reference: the layout of a message as the grammar in the comment of the source
  file gives it, the octets of a value in a layout, and the object such a value stands for. A reader
  \<open>conforms\<close> to a layout when it takes exactly the octets of every value of the layout and returns its
  object. The rules for conformance follow the shapes of the decoders.
\<close>

subsection \<open>JavaScript values\<close>

text \<open>Decimal strings of 64-bit numbers are numbers, as everywhere.\<close>

datatype jv =
    JUndef
  | JNull
  | JBool bool
  | JNum int
  | JStr string
  | JBuf buffer
  | JArr "jv list"
  | JObj "(string \<times> jv) list"
  | JErr err

fun jget :: "string \<Rightarrow> jv \<Rightarrow> jv" where \<comment> \<open>\<open>v.name\<close>, on an object\<close>
  "jget name (JObj ps) = (case map_of ps name of None \<Rightarrow> JUndef | Some v \<Rightarrow> v)"
| "jget name _ = JUndef"

fun jset :: "string \<Rightarrow> jv \<Rightarrow> jv \<Rightarrow> jv" where \<comment> \<open>\<open>{ ...v, name: x }\<close>\<close>
  "jset name x (JObj ps) = JObj (AList.update name x ps)"
| "jset name x _ = JObj [(name, x)]"

text \<open>\<^verbatim>\<open>failure\<close> and \<^verbatim>\<open>createErrorFromCode\<close> on a property; an absent one is not the code of success.\<close>

definition failed :: "jv \<Rightarrow> bool" where
  "failed v = (case v of JNum n \<Rightarrow> failure n | _ \<Rightarrow> True)"

definition error_of :: "jv \<Rightarrow> err" where
  "error_of v =
     (case v of
        JNum n \<Rightarrow> createErrorFromCode n
      | _ \<Rightarrow> error_of_entry (ec ''KAFKAJS_UNKNOWN_ERROR_CODE'' (- 99) False ''Unknown error code undefined'' None))"

definition of_string :: "string option \<Rightarrow> jv" where
  "of_string s = (case s of None \<Rightarrow> JNull | Some t \<Rightarrow> JStr t)"

definition of_bytes :: "buffer option \<Rightarrow> jv" where
  "of_bytes s = (case s of None \<Rightarrow> JNull | Some t \<Rightarrow> JBuf t)"

definition of_array :: "jv list option \<Rightarrow> jv" where
  "of_array s = (case s of None \<Rightarrow> JNull | Some t \<Rightarrow> JArr t)"

subsection \<open>Readers of fields\<close>

definition rd_map :: "('a \<Rightarrow> 'b) \<Rightarrow> 'a reader \<Rightarrow> 'b reader" where
  "rd_map f m = rd_bind m (\<lambda>x. rd_return (f x))"

definition r_int8 :: "jv reader" where "r_int8 = rd_map JNum readInt8"
definition r_int16 :: "jv reader" where "r_int16 = rd_map JNum readInt16"
definition r_int32 :: "jv reader" where "r_int32 = rd_map JNum readInt32"
definition r_int64 :: "jv reader" where "r_int64 = rd_map JNum readInt64"
definition r_boolean :: "jv reader" where "r_boolean = rd_map JBool readBoolean"
definition r_string :: "jv reader" where "r_string = rd_map of_string readString"
definition r_uvarint_string :: "jv reader" where "r_uvarint_string = rd_map of_string readUVarIntString"
definition r_bytes :: "jv reader" where "r_bytes = rd_map of_bytes readBytes"
definition r_uvarint_bytes :: "jv reader" where "r_uvarint_bytes = rd_map of_bytes readUVarIntBytes"
definition r_uuid :: "jv reader" where "r_uuid = rd_map of_string readUUID"
definition r_array :: "jv reader \<Rightarrow> jv reader" where "r_array r = rd_map JArr (readArray r)"
definition r_uvarint_array :: "jv reader \<Rightarrow> jv reader" where "r_uvarint_array r = rd_map of_array (readUVarIntArray r)"
definition r_tagged :: "jv reader" where
  "r_tagged = rd_map (\<lambda>v. case v of None \<Rightarrow> JNull | Some _ \<Rightarrow> JObj []) readTaggedFields"

text \<open>An object literal: the initialisers are evaluated in the order they are written in.\<close>

fun r_obj :: "(string \<times> jv reader) list \<Rightarrow> jv reader" where
  "r_obj [] = rd_return (JObj [])"
| "r_obj ((name, r) # rs) =
     rd_bind r (\<lambda>v. rd_map (\<lambda>rest. case rest of JObj ps \<Rightarrow> JObj ((name, v) # ps) | _ \<Rightarrow> rest) (r_obj rs))"

text \<open>
  A decoder that reads the fields of an older version and reports the throttle time as one the client has
  to apply itself.
\<close>

definition client_side_throttle :: "jv \<Rightarrow> jv" where
  "client_side_throttle decoded =
     jset ''clientSideThrottleTime'' (jget ''throttleTime'' decoded) (jset ''throttleTime'' (JNum 0) decoded)"

text \<open>
  \<^verbatim>\<open>for (let i = 0; i < length - 1; i++) xs.push(read(decoder))\<close> behind a compact length, as some
  decoders write it out: an absent array is an empty one here.
\<close>

definition r_uvarint_loop :: "jv reader \<Rightarrow> jv reader" where
  "r_uvarint_loop r = rd_bind readUVarInt (\<lambda>n. rd_map JArr (rd_times (nat (n - 1)) r))"

text \<open>
  \<^verbatim>\<open>read(...).sort((a, b) => a.topic.localeCompare(b.topic))\<close>. The comparison of strings depends on the locale and
  is a parameter; sorting is stable.
\<close>

type_synonym comparison = "string \<Rightarrow> string \<Rightarrow> int"

fun text_of :: "jv \<Rightarrow> string" where
  "text_of (JStr s) = s"
| "text_of _ = []"

definition topicNameComparator :: "comparison \<Rightarrow> jv \<Rightarrow> jv \<Rightarrow> int" where
  "topicNameComparator localeCompare a b = localeCompare (text_of (jget ''topic'' a)) (text_of (jget ''topic'' b))"

fun insert_by :: "(jv \<Rightarrow> jv \<Rightarrow> int) \<Rightarrow> jv \<Rightarrow> jv list \<Rightarrow> jv list" where
  "insert_by cmp x [] = [x]"
| "insert_by cmp x (y # ys) = (if cmp x y \<le> 0 then x # y # ys else y # insert_by cmp x ys)"

definition sort_by :: "(jv \<Rightarrow> jv \<Rightarrow> int) \<Rightarrow> jv list \<Rightarrow> jv list" where
  "sort_by cmp xs = foldr (insert_by cmp) xs []"

definition r_sorted :: "comparison \<Rightarrow> jv reader \<Rightarrow> jv reader" where
  "r_sorted localeCompare r =
     rd_bind r (\<lambda>v. case v of JArr xs \<Rightarrow> rd_return (JArr (sort_by (topicNameComparator localeCompare) xs)) | _ \<Rightarrow> rd_throw JsTypeError)"

text \<open>\<^verbatim>\<open>failIfVersionNotSupported(code)\<close> between two reads.\<close>

definition r_supported :: "jv \<Rightarrow> 'a reader \<Rightarrow> 'a reader" where
  "r_supported code r =
     (if code = JNum UNSUPPORTED_VERSION_CODE then rd_throw (KafkaJSProtocolErrorCode UNSUPPORTED_VERSION_CODE) else r)"

text \<open>\<^verbatim>\<open>canReadInt32() ? readInt32() : 0\<close>\<close>

definition r_int32_or_0 :: "jv reader" where
  "r_int32_or_0 d = (if canReadInt32 d then r_int32 d else Inr (JNum 0, d))"

subsection \<open>Layouts\<close>


text \<open>
  How a field of a structure shows in the object: under a name; as an error code, which must not be that
  of an unsupported version; not at all; as a throttle time of 0 with the time read as
  \<^verbatim>\<open>clientSideThrottleTime\<close>, right behind it or at the end of the object; or as
  properties that are computed from it.
\<close>

datatype label = Field string | Checked string | Skip | Throttle | Throttle_last | As "jv \<Rightarrow> (string \<times> jv) list"

datatype wire_value =
    WInt int
  | WBool bool
  | WStr "string option"
  | WBytes "buffer option"
  | WTags
  | WArr "wire_value list option"
  | WStruct "wire_value list"

datatype layout =
    INT8 | INT16 | INT32 | INT64 | BOOLEAN
  | STRING | COMPACT_STRING | BYTES | COMPACT_BYTES | UUID
  | TAG_BUFFER
  | ARRAY layout | COMPACT_ARRAY layout
  | COMPACT_LIST layout \<comment> \<open>a compact array whose reader takes \<open>null\<close> for an empty one\<close>
  | STRUCT "(label \<times> layout) list"
  | VIA "wire_value \<Rightarrow> bool" "wire_value \<Rightarrow> buffer" "wire_value \<Rightarrow> jv" \<comment> \<open>any other format\<close>

fun label_ok :: "label \<Rightarrow> wire_value \<Rightarrow> bool" where
  "label_ok (Checked _) (WInt n) = (n \<noteq> UNSUPPORTED_VERSION_CODE)"
| "label_ok (Checked _) _ = False"
| "label_ok _ _ = True"

fun wf_fields :: "(label \<times> (wire_value \<Rightarrow> bool)) list \<Rightarrow> wire_value list \<Rightarrow> bool" where
  "wf_fields [] [] = True"
| "wf_fields ((l, p) # fs) (w # ws) = (label_ok l w \<and> p w \<and> wf_fields fs ws)"
| "wf_fields _ _ = False"

definition wf_array :: "nat \<Rightarrow> (wire_value \<Rightarrow> bool) \<Rightarrow> wire_value \<Rightarrow> bool" where
  "wf_array n p w = (case w of WArr None \<Rightarrow> True | WArr (Some ws) \<Rightarrow> length ws < n \<and> list_all p ws | _ \<Rightarrow> False)"

primrec wf_value :: "layout \<Rightarrow> wire_value \<Rightarrow> bool" where
  "wf_value INT8 = (\<lambda>w. case w of WInt n \<Rightarrow> int_range 8 n | _ \<Rightarrow> False)"
| "wf_value INT16 = (\<lambda>w. case w of WInt n \<Rightarrow> int_range 16 n | _ \<Rightarrow> False)"
| "wf_value INT32 = (\<lambda>w. case w of WInt n \<Rightarrow> int_range 32 n | _ \<Rightarrow> False)"
| "wf_value INT64 = (\<lambda>w. case w of WInt n \<Rightarrow> int_range 64 n | _ \<Rightarrow> False)"
| "wf_value BOOLEAN = (\<lambda>w. case w of WBool b \<Rightarrow> True | _ \<Rightarrow> False)"
| "wf_value STRING = (\<lambda>w. case w of WStr s \<Rightarrow> string_ok 32768 s | _ \<Rightarrow> False)"
| "wf_value COMPACT_STRING = (\<lambda>w. case w of WStr s \<Rightarrow> string_ok 4294967295 s | _ \<Rightarrow> False)"
| "wf_value BYTES = (\<lambda>w. case w of WBytes b \<Rightarrow> bytes_ok 2147483648 b | _ \<Rightarrow> False)"
| "wf_value COMPACT_BYTES = (\<lambda>w. case w of WBytes b \<Rightarrow> bytes_ok 4294967295 b | _ \<Rightarrow> False)"
| "wf_value UUID = (\<lambda>w. case w of WBytes b \<Rightarrow> uuid_ok b | _ \<Rightarrow> False)"
| "wf_value TAG_BUFFER = (\<lambda>w. w = WTags)"
| "wf_value (ARRAY t) = wf_array 2147483648 (wf_value t)"
| "wf_value (COMPACT_ARRAY t) = wf_array 4294967295 (wf_value t)"
| "wf_value (COMPACT_LIST t) = wf_array 4294967295 (wf_value t)"
| "wf_value (VIA p f g) = p"
| "wf_value (STRUCT fs) =
     (\<lambda>w. case w of WStruct ws \<Rightarrow> wf_fields (map (map_prod id wf_value) fs) ws | _ \<Rightarrow> False)"

text \<open>The octets of a value; no tagged fields are sent.\<close>

fun octets_fields :: "(label \<times> (wire_value \<Rightarrow> buffer)) list \<Rightarrow> wire_value list \<Rightarrow> buffer" where
  "octets_fields ((_, f) # fs) (w # ws) = f w @ octets_fields fs ws"
| "octets_fields _ _ = []"

definition int_of :: "wire_value \<Rightarrow> int" where "int_of w = (case w of WInt n \<Rightarrow> n | _ \<Rightarrow> 0)"
definition bool_of :: "wire_value \<Rightarrow> bool" where "bool_of w = (case w of WBool b \<Rightarrow> b | _ \<Rightarrow> False)"
definition str_of :: "wire_value \<Rightarrow> string option" where "str_of w = (case w of WStr s \<Rightarrow> s | _ \<Rightarrow> None)"
definition wbytes_of :: "wire_value \<Rightarrow> buffer option" where "wbytes_of w = (case w of WBytes b \<Rightarrow> b | _ \<Rightarrow> None)"
definition elems_of :: "wire_value \<Rightarrow> wire_value list option" where "elems_of w = (case w of WArr v \<Rightarrow> v | _ \<Rightarrow> None)"
definition parts_of :: "wire_value \<Rightarrow> wire_value list" where "parts_of w = (case w of WStruct ws \<Rightarrow> ws | _ \<Rightarrow> [])"

primrec octets :: "layout \<Rightarrow> wire_value \<Rightarrow> buffer" where
  "octets INT8 = (\<lambda>w. be_bytes 1 (int_of w))"
| "octets INT16 = (\<lambda>w. be_bytes 2 (int_of w))"
| "octets INT32 = (\<lambda>w. be_bytes 4 (int_of w))"
| "octets INT64 = (\<lambda>w. be_bytes 8 (int_of w))"
| "octets BOOLEAN = (\<lambda>w. be_bytes 1 (if bool_of w then 1 else 0))"
| "octets STRING = (\<lambda>w. wire_string (str_of w))"
| "octets COMPACT_STRING = (\<lambda>w. wire_uvarint_string (str_of w))"
| "octets BYTES = (\<lambda>w. wire_bytes (wbytes_of w))"
| "octets COMPACT_BYTES = (\<lambda>w. wire_uvarint_bytes (wbytes_of w))"
| "octets UUID = (\<lambda>w. wire_uuid (wbytes_of w))"
| "octets TAG_BUFFER = (\<lambda>w. uleb128 0)"
| "octets (ARRAY t) =
     (\<lambda>w. case elems_of w of None \<Rightarrow> be_bytes 4 (- 1) | Some ws \<Rightarrow> wire_array (octets t) ws)"
| "octets (COMPACT_ARRAY t) = (\<lambda>w. wire_uvarint_array (octets t) (elems_of w))"
| "octets (COMPACT_LIST t) = (\<lambda>w. wire_uvarint_array (octets t) (elems_of w))"
| "octets (VIA p f g) = f"
| "octets (STRUCT fs) = (\<lambda>w. octets_fields (map (map_prod id octets) fs) (parts_of w))"

text \<open>The object a value stands for: the properties in place, and those that are added at the end.\<close>

fun in_place :: "label \<Rightarrow> jv \<Rightarrow> (string \<times> jv) list" where
  "in_place (Field n) v = [(n, v)]"
| "in_place (Checked n) v = [(n, v)]"
| "in_place Skip v = []"
| "in_place Throttle v = [(''throttleTime'', JNum 0), (''clientSideThrottleTime'', v)]"
| "in_place Throttle_last v = [(''throttleTime'', JNum 0)]"
| "in_place (As f) v = f v"

fun at_end :: "label \<Rightarrow> jv \<Rightarrow> (string \<times> jv) list" where
  "at_end Throttle_last v = [(''clientSideThrottleTime'', v)]"
| "at_end _ v = []"

fun view_fields :: "(label \<Rightarrow> jv \<Rightarrow> (string \<times> jv) list) \<Rightarrow> (label \<times> (wire_value \<Rightarrow> jv)) list \<Rightarrow>
    wire_value list \<Rightarrow> (string \<times> jv) list" where
  "view_fields place ((l, f) # fs) (w # ws) = place l (f w) @ view_fields place fs ws"
| "view_fields place _ _ = []"

primrec view :: "layout \<Rightarrow> wire_value \<Rightarrow> jv" where
  "view INT8 = (\<lambda>w. JNum (int_of w))"
| "view INT16 = (\<lambda>w. JNum (int_of w))"
| "view INT32 = (\<lambda>w. JNum (int_of w))"
| "view INT64 = (\<lambda>w. JNum (int_of w))"
| "view BOOLEAN = (\<lambda>w. JBool (bool_of w))"
| "view STRING = (\<lambda>w. of_string (str_of w))"
| "view COMPACT_STRING = (\<lambda>w. of_string (str_of w))"
| "view BYTES = (\<lambda>w. of_bytes (wbytes_of w))"
| "view COMPACT_BYTES = (\<lambda>w. of_bytes (wbytes_of w))"
| "view UUID = (\<lambda>w. of_string (map_option uuid_text (wbytes_of w)))"
| "view TAG_BUFFER = (\<lambda>w. JNull)"
| "view (ARRAY t) = (\<lambda>w. JArr (case elems_of w of None \<Rightarrow> [] | Some ws \<Rightarrow> map (view t) ws))"
| "view (COMPACT_ARRAY t) = (\<lambda>w. of_array (map_option (map (view t)) (elems_of w)))"
| "view (COMPACT_LIST t) = (\<lambda>w. JArr (case elems_of w of None \<Rightarrow> [] | Some ws \<Rightarrow> map (view t) ws))"
| "view (VIA p f g) = g"
| "view (STRUCT fs) =
     (\<lambda>w. JObj (view_fields in_place (map (map_prod id view) fs) (parts_of w) @
                view_fields at_end (map (map_prod id view) fs) (parts_of w)))"

definition conforms :: "layout \<Rightarrow> jv reader \<Rightarrow> bool" where
  "conforms t r \<longleftrightarrow> (\<forall>w. wf_value t w \<longrightarrow> reads r (octets t w) (view t w))"

subsection \<open>Rules for conformance\<close>

lemma reads_rd_map: "reads m x v \<Longrightarrow> w = f v \<Longrightarrow> reads (rd_map f m) x w"
  unfolding rd_map_def by (rule reads_bind_return)

lemma conformsI: "(\<And>w. wf_value t w \<Longrightarrow> reads r (octets t w) (view t w)) \<Longrightarrow> conforms t r"
  by (simp add: conforms_def)

lemma conformsD: "conforms t r \<Longrightarrow> wf_value t w \<Longrightarrow> reads r (octets t w) (view t w)"
  by (simp add: conforms_def)

named_theorems conformance \<open>the decoders of responses and their layouts\<close>
named_theorems layout_intros \<open>which readers conform to which layouts\<close>

lemmas wire_parts = int_of_def bool_of_def str_of_def wbytes_of_def elems_of_def parts_of_def

lemma conforms_int8 [layout_intros]: "conforms INT8 r_int8"
  unfolding r_int8_def
  using reads_readInt8 by (auto intro!: conformsI reads_rd_map simp: int_of_def split: wire_value.splits simp del: int_range_numeral)

lemma conforms_int16 [layout_intros]: "conforms INT16 r_int16"
  unfolding r_int16_def
  using reads_readInt16 by (auto intro!: conformsI reads_rd_map simp: int_of_def split: wire_value.splits simp del: int_range_numeral)

lemma conforms_int32 [layout_intros]: "conforms INT32 r_int32"
  unfolding r_int32_def
  using reads_readInt32 by (auto intro!: conformsI reads_rd_map simp: int_of_def split: wire_value.splits simp del: int_range_numeral)

lemma conforms_int32_or_0 [layout_intros]: "conforms INT32 r_int32_or_0"
proof (rule conformsI)
  fix w assume "wf_value INT32 w"
  then have "reads r_int32 (octets INT32 w) (view INT32 w)" by (rule conformsD [OF conforms_int32])
  moreover have "length (octets INT32 w) = 4" by simp
  ultimately show "reads r_int32_or_0 (octets INT32 w) (view INT32 w)"
    unfolding reads_def r_int32_or_0_def canReadInt32_def canReadBytes_def dec_at_def by simp
qed

lemma conforms_int64 [layout_intros]: "conforms INT64 r_int64"
  unfolding r_int64_def
  using reads_readInt64 by (auto intro!: conformsI reads_rd_map simp: int_of_def split: wire_value.splits simp del: int_range_numeral)

lemma conforms_boolean [layout_intros]: "conforms BOOLEAN r_boolean"
  unfolding r_boolean_def
  by (rule conformsI) (simp only: octets.simps view.simps reads_rd_map [OF reads_readBoolean])

lemma conforms_string [layout_intros]: "conforms STRING r_string"
  unfolding r_string_def
  by (auto intro!: conformsI reads_rd_map [OF reads_readString] simp: str_of_def split: wire_value.splits)

lemma conforms_compact_string [layout_intros]: "conforms COMPACT_STRING r_uvarint_string"
  unfolding r_uvarint_string_def
  by (auto intro!: conformsI reads_rd_map [OF reads_readUVarIntString] simp: str_of_def split: wire_value.splits)

lemma conforms_bytes [layout_intros]: "conforms BYTES r_bytes"
  unfolding r_bytes_def
  by (auto intro!: conformsI reads_rd_map [OF reads_readBytes] simp: wbytes_of_def split: wire_value.splits)

lemma conforms_uuid [layout_intros]: "conforms UUID r_uuid"
  unfolding r_uuid_def
  by (auto intro!: conformsI reads_rd_map [OF reads_readUUID] simp: wbytes_of_def split: wire_value.splits)

lemma reads_compact_absent: "reads readUVarInt (uleb128 0) 0"
  using reads_readUVarInt [of 0] by simp

lemma conforms_tag_buffer [layout_intros]: "conforms TAG_BUFFER r_tagged"
proof -
  have "reads readTaggedFields (uleb128 0) None"
    unfolding readTaggedFields_def by (rule reads_prefixed_none [OF reads_compact_absent]) simp
  then show ?thesis unfolding r_tagged_def by (auto intro!: conformsI reads_rd_map)
qed

lemma conforms_array [layout_intros]:
  assumes "conforms t r"
  shows "conforms (ARRAY t) (r_array r)"
proof (rule conformsI)
  fix w assume w: "wf_value (ARRAY t) w"
  then obtain v where v: "w = WArr v" by (cases w) (auto simp: wf_array_def)
  show "reads (r_array r) (octets (ARRAY t) w) (view (ARRAY t) w)"
  proof (cases v)
    case None
    have "reads (readArray r) (be_bytes 4 (- 1)) []"
      unfolding readArray_def
      using reads_bind [OF reads_readInt32 [of "- 1"], of "\<lambda>n. if n = - 1 then rd_return [] else read_elems r n" "[]" "[]"]
      by (simp add: reads_return)
    then show ?thesis using v None by (simp add: r_array_def elems_of_def reads_rd_map)
  next
    case (Some ws)
    then have "reads (readArray r) (wire_array (octets t) ws) (map (view t) ws)"
      using w v assms by (intro reads_readArray) (auto simp: wf_array_def list_all_iff conforms_def)
    then show ?thesis using v Some by (simp add: r_array_def elems_of_def reads_rd_map)
  qed
qed

lemma conforms_compact_array [layout_intros]:
  assumes "conforms t r"
  shows "conforms (COMPACT_ARRAY t) (r_uvarint_array r)"
proof (rule conformsI)
  fix w assume w: "wf_value (COMPACT_ARRAY t) w"
  then obtain v where v: "w = WArr v" by (cases w) (auto simp: wf_array_def)
  show "reads (r_uvarint_array r) (octets (COMPACT_ARRAY t) w) (view (COMPACT_ARRAY t) w)"
  proof (cases v)
    case None
    have "reads (readUVarIntArray r) (uleb128 0) None"
      unfolding readUVarIntArray_def by (rule reads_prefixed_none [OF reads_compact_absent]) simp
    then show ?thesis using v None
      by (simp add: r_uvarint_array_def elems_of_def wire_uvarint_array_def reads_rd_map)
  next
    case (Some ws)
    then have "reads (readUVarIntArray r) (wire_uvarint_array (octets t) (Some ws)) (Some (map (view t) ws))"
      using w v assms by (intro reads_readUVarIntArray) (auto simp: wf_array_def list_all_iff conforms_def)
    then show ?thesis using v Some by (simp add: r_uvarint_array_def elems_of_def reads_rd_map)
  qed
qed

lemma conforms_compact_list [layout_intros]:
  assumes "conforms t r"
  shows "conforms (COMPACT_LIST t) (r_uvarint_loop r)"
proof (rule conformsI)
  fix w assume w: "wf_value (COMPACT_LIST t) w"
  then obtain v where v: "w = WArr v" by (cases w) (auto simp: wf_array_def)
  have loop: "reads (rd_map JArr (rd_times (length ws) r)) (concat (map (octets t) ws)) (JArr (map (view t) ws))"
    if "list_all (wf_value t) ws" for ws
    using that assms by (intro reads_rd_map [OF reads_times_map]) (auto simp: list_all_iff conforms_def)
  show "reads (r_uvarint_loop r) (octets (COMPACT_LIST t) w) (view (COMPACT_LIST t) w)"
  proof (cases v)
    case None
    have "reads (r_uvarint_loop r) (uleb128 0 @ []) (JArr [])"
      unfolding r_uvarint_loop_def using loop [of "[]"] by (intro reads_bind [OF reads_compact_absent]) simp
    then show ?thesis using v None by (simp add: elems_of_def wire_uvarint_array_def)
  next
    case (Some ws)
    then have "length ws < 4294967295" "list_all (wf_value t) ws" using w v by (auto simp: wf_array_def)
    moreover from this have "reads readUVarInt (uleb128 (length ws + 1)) (int (length ws + 1))"
      by (intro reads_readUVarInt) simp
    ultimately have "reads readUVarInt (uleb128 (length ws + 1)) (int (length ws + 1))" "list_all (wf_value t) ws" by simp_all
    from reads_bind [OF this(1), of _ _ "JArr (map (view t) ws)"] loop [OF this(2)] show ?thesis using v Some
      by (simp add: r_uvarint_loop_def elems_of_def wire_uvarint_array_def)
  qed
qed

subsection \<open>Structures\<close>

text \<open>
  A reader that goes on after some properties of an object are known: \<open>acc\<close> in place, \<open>fin\<close> at the end.
\<close>

abbreviation wf_parts :: "(label \<times> layout) list \<Rightarrow> wire_value list \<Rightarrow> bool" where
  "wf_parts fs \<equiv> wf_fields (map (map_prod id wf_value) fs)"

abbreviation octets_parts :: "(label \<times> layout) list \<Rightarrow> wire_value list \<Rightarrow> buffer" where
  "octets_parts fs \<equiv> octets_fields (map (map_prod id octets) fs)"

abbreviation view_parts :: "(label \<Rightarrow> jv \<Rightarrow> (string \<times> jv) list) \<Rightarrow> (label \<times> layout) list \<Rightarrow> wire_value list \<Rightarrow> (string \<times> jv) list" where
  "view_parts place fs \<equiv> view_fields place (map (map_prod id view) fs)"

definition continues :: "(string \<times> jv) list \<Rightarrow> (string \<times> jv) list \<Rightarrow> (label \<times> layout) list \<Rightarrow> jv reader \<Rightarrow> bool" where
  "continues acc fin fs r \<longleftrightarrow>
     (\<forall>ws. wf_parts fs ws \<longrightarrow>
        reads r (octets_parts fs ws)
          (JObj ((acc @ view_parts in_place fs ws) @ (fin @ view_parts at_end fs ws))))"

lemma conforms_struct: "continues [] [] fs r \<Longrightarrow> conforms (STRUCT fs) r"
  by (auto simp: continues_def parts_of_def intro!: conformsI split: wire_value.splits)

lemma wf_fields_ConsE:
  assumes "wf_fields ((l, p) # fs) ws"
  obtains w ws' where "ws = w # ws'" "label_ok l w" "p w" "wf_fields fs ws'"
  using assms by (cases ws) auto

lemma continues_Cons:
  assumes "conforms t r"
    and "\<And>w. label_ok l w \<Longrightarrow> wf_value t w \<Longrightarrow>
      continues (acc @ in_place l (view t w)) (fin @ at_end l (view t w)) fs (k (view t w))"
  shows "continues acc fin ((l, t) # fs) (rd_bind r k)"
  unfolding continues_def
proof (intro allI impI)
  fix ws assume "wf_parts ((l, t) # fs) ws"
  then obtain w ws' where ws: "ws = w # ws'" "label_ok l w" "wf_value t w" "wf_parts fs ws'"
    by (auto elim: wf_fields_ConsE)
  have "reads (rd_bind r k) (octets t w @ octets_parts fs ws')
      (JObj ((acc @ in_place l (view t w) @ view_parts in_place fs ws') @
             (fin @ at_end l (view t w) @ view_parts at_end fs ws')))"
    using assms(2) [OF ws(2,3)] ws(4) by (intro reads_bind [OF conformsD [OF assms(1) ws(3)]]) (simp add: continues_def)
  then show "reads (rd_bind r k) (octets_parts ((l, t) # fs) ws)
      (JObj ((acc @ view_parts in_place ((l, t) # fs) ws) @ (fin @ view_parts at_end ((l, t) # fs) ws)))"
    using ws(1) by simp
qed

lemma continues_field [layout_intros]:
  "conforms t r \<Longrightarrow> (\<And>v. continues (acc @ [(n, v)]) fin fs (k v)) \<Longrightarrow> continues acc fin ((Field n, t) # fs) (rd_bind r k)"
  by (rule continues_Cons) simp_all

lemma continues_skip [layout_intros]:
  "conforms t r \<Longrightarrow> (\<And>v. continues acc fin fs (k v)) \<Longrightarrow> continues acc fin ((Skip, t) # fs) (rd_bind r k)"
  by (rule continues_Cons) simp_all

lemma continues_throttle [layout_intros]:
  "conforms t r \<Longrightarrow>
   (\<And>v. continues (acc @ [(''throttleTime'', JNum 0), (''clientSideThrottleTime'', v)]) fin fs (k v)) \<Longrightarrow>
   continues acc fin ((Throttle, t) # fs) (rd_bind r k)"
  by (rule continues_Cons) simp_all

lemma continues_throttle_last [layout_intros]:
  "conforms t r \<Longrightarrow>
   (\<And>v. continues (acc @ [(''throttleTime'', JNum 0)]) (fin @ [(''clientSideThrottleTime'', v)]) fs (k v)) \<Longrightarrow>
   continues acc fin ((Throttle_last, t) # fs) (rd_bind r k)"
  by (rule continues_Cons) simp_all

lemma continues_as [layout_intros]:
  "conforms t r \<Longrightarrow> (\<And>v. continues (acc @ f v) fin fs (k v)) \<Longrightarrow> continues acc fin ((As f, t) # fs) (rd_bind r k)"
  by (rule continues_Cons) simp_all

lemma continues_checked [layout_intros]:
  assumes "\<And>n. n \<noteq> UNSUPPORTED_VERSION_CODE \<Longrightarrow> continues (acc @ [(name, JNum n)]) fin fs (k (JNum n))"
  shows "continues acc fin ((Checked name, INT16) # fs) (rd_bind r_int16 k)"
proof (rule continues_Cons [OF conforms_int16])
  fix w assume w: "label_ok (Checked name) w" "wf_value INT16 w"
  then obtain n where "w = WInt n" "n \<noteq> UNSUPPORTED_VERSION_CODE" by (cases w) auto
  then show "continues (acc @ in_place (Checked name) (view INT16 w)) (fin @ at_end (Checked name) (view INT16 w))
      fs (k (view INT16 w))"
    using assms [of n] by (simp add: int_of_def)
qed

lemma continues_supported [layout_intros]:
  "n \<noteq> UNSUPPORTED_VERSION_CODE \<Longrightarrow> continues acc fin fs r \<Longrightarrow> continues acc fin fs (r_supported (JNum n) r)"
  by (simp add: r_supported_def)

lemma continues_return [layout_intros]: "x = JObj (acc @ fin) \<Longrightarrow> continues acc fin [] (rd_return x)"
  unfolding continues_def
proof (intro allI impI)
  fix ws assume "x = JObj (acc @ fin)" "wf_parts [] ws"
  then show "reads (rd_return x) (octets_parts [] ws)
      (JObj ((acc @ view_parts in_place [] ws) @ (fin @ view_parts at_end [] ws)))"
    by (cases ws) (simp_all add: reads_return)
qed

text \<open>An object literal reads the first fields; the rest of the layout is read after it.\<close>

inductive literal :: "(label \<times> layout) list \<Rightarrow> (string \<times> jv reader) list \<Rightarrow> (label \<times> layout) list \<Rightarrow> bool" where
  literal_Nil [layout_intros]: "literal fs [] fs"
| literal_Cons [layout_intros]: "conforms t r \<Longrightarrow> literal fs rs rest \<Longrightarrow> literal ((Field n, t) # fs) ((n, r) # rs) rest"

lemma r_obj_reads:
  assumes "literal fs rs rest" "wf_parts fs ws"
  shows "\<exists>ps bs ws'. reads (r_obj rs) bs (JObj ps) \<and> wf_parts rest ws' \<and> octets_parts fs ws = bs @ octets_parts rest ws' \<and>
    view_parts in_place fs ws = ps @ view_parts in_place rest ws' \<and> view_parts at_end fs ws = view_parts at_end rest ws'"
  using assms
proof (induction arbitrary: ws)
  case (literal_Nil fs)
  then show ?case by (intro exI [of _ "[]"] exI [of _ ws]) (simp add: reads_return)
next
  case (literal_Cons t r fs rs rest n)
  from literal_Cons.prems have "wf_fields ((Field n, wf_value t) # map (map_prod id wf_value) fs) ws" by (simp add: id_def)
  then obtain w ws1 where ws: "ws = w # ws1" "wf_value t w" "wf_parts fs ws1" by (rule wf_fields_ConsE)
  from literal_Cons.IH [OF ws(3)] obtain ps bs ws' where
    IH: "reads (r_obj rs) bs (JObj ps)" "wf_parts rest ws'" "octets_parts fs ws1 = bs @ octets_parts rest ws'"
      "view_parts in_place fs ws1 = ps @ view_parts in_place rest ws'" "view_parts at_end fs ws1 = view_parts at_end rest ws'"
    by blast
  have "reads (r_obj ((n, r) # rs)) (octets t w @ bs) (JObj ((n, view t w) # ps))"
    unfolding r_obj.simps
    by (intro reads_bind [OF conformsD [OF literal_Cons.hyps(1) ws(2)]] reads_rd_map [OF IH(1)]) simp
  with IH(2-) ws(1) show ?case
    by (intro exI [of _ "(n, view t w) # ps"] exI [of _ "octets t w @ bs"] exI [of _ ws']) (simp add: id_def)
qed

lemma continues_literal [layout_intros]:
  assumes "literal fs rs rest" "\<And>ps. continues ps [] rest (k (JObj ps))"
  shows "continues [] [] fs (rd_bind (r_obj rs) k)"
  unfolding continues_def
proof (intro allI impI)
  fix ws assume "wf_parts fs ws"
  from r_obj_reads [OF assms(1) this] obtain ps bs ws' where
    r: "reads (r_obj rs) bs (JObj ps)" "wf_parts rest ws'" "octets_parts fs ws = bs @ octets_parts rest ws'"
      "view_parts in_place fs ws = ps @ view_parts in_place rest ws'" "view_parts at_end fs ws = view_parts at_end rest ws'"
    by blast
  have "reads (k (JObj ps)) (octets_parts rest ws') (JObj (ps @ view_parts in_place rest ws' @ view_parts at_end rest ws'))"
    using assms(2) [of ps] r(2) by (simp add: continues_def)
  from reads_bind [of "r_obj rs" bs "JObj ps" k, OF r(1) this] show "reads (rd_bind (r_obj rs) k) (octets_parts fs ws)
      (JObj (([] @ view_parts in_place fs ws) @ ([] @ view_parts at_end fs ws)))"
    using r(3-) by simp
qed

lemma conforms_literal [layout_intros]:
  assumes "literal fs rs []"
  shows "conforms (STRUCT fs) (r_obj rs)"
proof (rule conforms_struct, unfold continues_def, intro allI impI)
  fix ws assume "wf_parts fs ws"
  from r_obj_reads [OF assms this] show "reads (r_obj rs) (octets_parts fs ws)
      (JObj (([] @ view_parts in_place fs ws) @ ([] @ view_parts at_end fs ws)))"
    by auto
qed

subsection \<open>Formats that are not structures\<close>

lemma conforms_via: "(\<And>w. p w \<Longrightarrow> reads r (f w) (g w)) \<Longrightarrow> conforms (VIA p f g) r"
  by (simp add: conforms_def)

definition SORTED :: "comparison \<Rightarrow> layout \<Rightarrow> layout" where \<comment> \<open>an array, sorted by topic names\<close>
  "SORTED localeCompare t =
     VIA (\<lambda>w. wf_value (ARRAY t) w) (octets (ARRAY t))
       (\<lambda>w. JArr (sort_by (topicNameComparator localeCompare) (case elems_of w of None \<Rightarrow> [] | Some ws \<Rightarrow> map (view t) ws)))"

definition COMPACT_SORTED :: "comparison \<Rightarrow> layout \<Rightarrow> layout" where \<comment> \<open>the same for an array that is not null\<close>
  "COMPACT_SORTED localeCompare t =
     VIA (\<lambda>w. wf_value (COMPACT_ARRAY t) w \<and> elems_of w \<noteq> None) (octets (COMPACT_ARRAY t))
       (\<lambda>w. JArr (sort_by (topicNameComparator localeCompare) (case elems_of w of None \<Rightarrow> [] | Some ws \<Rightarrow> map (view t) ws)))"

lemma reads_r_sorted:
  assumes "reads r bs (JArr xs)"
  shows "reads (r_sorted c r) bs (JArr (sort_by (topicNameComparator c) xs))"
proof -
  let ?k = "\<lambda>v. case v of JArr xs \<Rightarrow> rd_return (JArr (sort_by (topicNameComparator c) xs)) | _ \<Rightarrow> rd_throw JsTypeError"
  have "reads (rd_bind r ?k) (bs @ []) (JArr (sort_by (topicNameComparator c) xs))"
    by (rule reads_bind [OF assms]) (simp add: reads_return)
  then show ?thesis by (simp add: r_sorted_def)
qed

lemma conforms_sorted [layout_intros]: "conforms t r \<Longrightarrow> conforms (SORTED c t) (r_sorted c (r_array r))"
  unfolding SORTED_def
  by (rule conforms_via, rule reads_r_sorted, drule conforms_array, drule conformsD) simp_all

lemma conforms_compact_sorted [layout_intros]:
  assumes "conforms t r"
  shows "conforms (COMPACT_SORTED c t) (r_sorted c (r_uvarint_array r))"
  unfolding COMPACT_SORTED_def
proof (rule conforms_via, rule reads_r_sorted)
  fix w assume w: "wf_value (COMPACT_ARRAY t) w \<and> elems_of w \<noteq> None"
  then show "reads (r_uvarint_array r) (octets (COMPACT_ARRAY t) w)
      (JArr (case elems_of w of None \<Rightarrow> [] | Some ws \<Rightarrow> map (view t) ws))"
    using conformsD [OF conforms_compact_array [OF assms], of w] by (auto simp: of_array_def)
qed

lemma mset_insert_by [simp]: "mset (insert_by cmp x ys) = add_mset x (mset ys)"
  by (induction ys) auto

lemma mset_sort_by [simp]: "mset (sort_by cmp xs) = mset xs"
  by (induction xs) (auto simp: sort_by_def)

text \<open>Reporting the throttle time of an older version as one of the client.\<close>

fun unthrottled :: "(label \<times> layout) list \<Rightarrow> bool" where
  "unthrottled [] = True"
| "unthrottled ((Field n, _) # fs) = (n \<noteq> ''throttleTime'' \<and> n \<noteq> ''clientSideThrottleTime'' \<and> unthrottled fs)"
| "unthrottled ((Checked n, _) # fs) = (n \<noteq> ''throttleTime'' \<and> n \<noteq> ''clientSideThrottleTime'' \<and> unthrottled fs)"
| "unthrottled ((Skip, _) # fs) = unthrottled fs"
| "unthrottled _ = False"

lemma unthrottled_view:
  "unthrottled fs \<Longrightarrow> view_parts at_end fs ws = [] \<and>
    ''throttleTime'' \<notin> fst ` set (view_parts in_place fs ws) \<and>
    ''clientSideThrottleTime'' \<notin> fst ` set (view_parts in_place fs ws)"
proof (induction fs arbitrary: ws rule: unthrottled.induct)
  case (2 n t fs)
  then show ?case by (cases ws) auto
next
  case (3 n t fs)
  then show ?case by (cases ws) auto
next
  case (4 t fs)
  then show ?case by (cases ws) auto
qed auto

lemma update_absent: "k \<notin> fst ` set xs \<Longrightarrow> AList.update k v (xs @ ys) = xs @ AList.update k v ys"
  by (induction xs) auto

lemma client_side_throttle_view:
  assumes "unthrottled fs" "unthrottled gs"
  shows "client_side_throttle (JObj (view_parts in_place fs us @ (''throttleTime'', v) # view_parts in_place gs ws)) =
    JObj (view_parts in_place fs us @ (''throttleTime'', JNum 0) # view_parts in_place gs ws @ [(''clientSideThrottleTime'', v)])"
proof -
  have f: "map_of (view_parts in_place fs us) ''throttleTime'' = None"
    using unthrottled_view [OF assms(1), of us] by (simp add: map_of_eq_None_iff)
  have "AList.update ''clientSideThrottleTime'' v (view_parts in_place gs ws) =
      view_parts in_place gs ws @ [(''clientSideThrottleTime'', v)]"
    using update_absent [of "''clientSideThrottleTime''" "view_parts in_place gs ws" v "[]"] unthrottled_view [OF assms(2)] by simp
  then show ?thesis
    using unthrottled_view [OF assms(1), of us] f
    by (simp add: client_side_throttle_def update_absent map_add_def)
qed

lemma wf_fields_append_Cons:
  "wf_fields (fs @ (l, p) # gs) ws \<longleftrightarrow>
    (\<exists>us w vs. ws = us @ w # vs \<and> length us = length fs \<and> wf_fields fs us \<and> label_ok l w \<and> p w \<and> wf_fields gs vs)"
proof (induction fs arbitrary: ws)
  case Nil
  then show ?case by (cases ws) auto
next
  case (Cons f fs)
  obtain l' p' where f: "f = (l', p')" by (cases f)
  show ?case
  proof (cases ws)
    case (Cons w ws')
    have "wf_fields ((f # fs) @ (l, p) # gs) ws \<longleftrightarrow> label_ok l' w \<and> p' w \<and> wf_fields (fs @ (l, p) # gs) ws'"
      using f Cons by simp
    also have "\<dots> \<longleftrightarrow> (\<exists>us x vs. ws = us @ x # vs \<and> length us = length (f # fs) \<and> wf_fields (f # fs) us \<and>
        label_ok l x \<and> p x \<and> wf_fields gs vs)" (is "?l \<longleftrightarrow> ?r")
    proof
      assume ?l
      then obtain us x vs where "ws' = us @ x # vs" "length us = length fs" "wf_fields fs us" "label_ok l x" "p x" "wf_fields gs vs"
        "label_ok l' w" "p' w" using Cons.IH by blast
      then show ?r using f Cons by (intro exI [of _ "w # us"] exI [of _ x] exI [of _ vs]) simp
    next
      assume ?r
      then obtain us x vs where r: "ws = us @ x # vs" "length us = length (f # fs)" "wf_fields (f # fs) us" "label_ok l x" "p x" "wf_fields gs vs"
        by blast
      from r(2) obtain u us' where "us = u # us'" by (cases us) auto
      then show ?l using r f Cons Cons.IH [of ws'] by auto
    qed
    finally show ?thesis .
  qed (use f in auto)
qed

lemma octets_fields_append:
  "length us = length fs \<Longrightarrow> octets_fields (fs @ gs) (us @ vs) = octets_fields fs us @ octets_fields gs vs"
  by (induction us fs rule: list_induct2) auto

lemma view_fields_append:
  "length us = length fs \<Longrightarrow> view_fields place (fs @ gs) (us @ vs) = view_fields place fs us @ view_fields place gs vs"
  by (induction us fs rule: list_induct2) auto

lemma conforms_client_side_throttle:
  assumes r: "conforms (STRUCT (fs @ (Field ''throttleTime'', t) # gs)) r" and un: "unthrottled fs" "unthrottled gs"
  shows "conforms (STRUCT (fs @ (Throttle_last, t) # gs)) (rd_map client_side_throttle r)"
proof (rule conformsI)
  fix v assume v: "wf_value (STRUCT (fs @ (Throttle_last, t) # gs)) v"
  then obtain ws where ws: "v = WStruct ws" "wf_fields (map (map_prod id wf_value) fs @ (Throttle_last, wf_value t) # map (map_prod id wf_value) gs) ws"
    by (cases v) auto
  then obtain us w vs where p: "ws = us @ w # vs" "length us = length fs" "wf_parts fs us" "wf_value t w" "wf_parts gs vs"
    by (auto simp: wf_fields_append_Cons)
  then have wf: "wf_value (STRUCT (fs @ (Field ''throttleTime'', t) # gs)) v"
    using ws(1) by (simp add: wf_fields_append_Cons) blast
  note un' = unthrottled_view [OF un(1), of us] unthrottled_view [OF un(2), of vs]
  have "view (STRUCT (fs @ (Throttle_last, t) # gs)) v =
      client_side_throttle (view (STRUCT (fs @ (Field ''throttleTime'', t) # gs)) v)"
    using client_side_throttle_view [OF un, of us "view t w" vs] un' p(2)
    by (simp add: ws(1) p(1) parts_of_def view_fields_append)
  moreover have "octets (STRUCT (fs @ (Throttle_last, t) # gs)) v = octets (STRUCT (fs @ (Field ''throttleTime'', t) # gs)) v"
    using p(2) by (simp add: ws(1) p(1) parts_of_def octets_fields_append)
  ultimately show "reads (rd_map client_side_throttle r) (octets (STRUCT (fs @ (Throttle_last, t) # gs)) v)
      (view (STRUCT (fs @ (Throttle_last, t) # gs)) v)"
    using conformsD [OF r wf] by (auto intro: reads_rd_map)
qed

lemmas conforms_throttle_first = conforms_client_side_throttle [of "[]", simplified]
lemmas conforms_throttle_second = conforms_client_side_throttle [of "[x]" for x, simplified]

end
