(* ===== verification/Response_Check.thy ===== *)
theory Response_Check
  imports Protocol_Layout
begin

text \<open>
  What the \<^verbatim>\<open>parse\<close> functions of \<^verbatim>\<open>src/protocol/requests/*/v*/response.js\<close> are made of: they look for error codes
  in a decoded response and throw an error for the first one. The layouts say where a response has error codes
  (\<open>code_paths\<close>), and \<open>reports\<close> that a function throws exactly when one of the codes at given places is not that of
  success. The lemmas establish it for the shapes in which the functions are written.
\<close>

subsection \<open>Vocabulary\<close>

datatype raised = Raised err | Aggregate string "err list" \<comment> \<open>\<open>KafkaJSAggregateError\<close> carries a list of errors\<close>

definition raised_name :: "raised \<Rightarrow> string" where
  "raised_name r = (case r of Raised e \<Rightarrow> e_name e | Aggregate _ _ \<Rightarrow> ''KafkaJSAggregateError'')"

definition raised_type :: "raised \<Rightarrow> string option" where
  "raised_type r = (case r of Raised e \<Rightarrow> e_type e | Aggregate _ _ \<Rightarrow> None)"

type_synonym parser = "jv \<Rightarrow> raised + jv"

definition jelems :: "jv \<Rightarrow> raised + jv list" where \<comment> \<open>a method of arrays called on something else throws\<close>
  "jelems v = (case v of JArr xs \<Rightarrow> Inr xs | _ \<Rightarrow> Inl (Raised (native_error ''TypeError'' [])))"

definition jelems_or_empty :: "jv \<Rightarrow> raised + jv list" where \<comment> \<open>\<open>v || []\<close>\<close>
  "jelems_or_empty v = (if v \<in> {JUndef, JNull} then Inr [] else jelems v)"

definition flatMap :: "('a \<Rightarrow> 'e + 'b list) \<Rightarrow> 'a list \<Rightarrow> 'e + 'b list" where
  "flatMap f xs = rbind (rmap f xs) (\<lambda>yss. Inr (concat yss))"

fun for_of :: "'a list \<Rightarrow> ('a \<Rightarrow> 'e + unit) \<Rightarrow> 'e + unit" where \<comment> \<open>a loop that may throw\<close>
  "for_of [] body = Inr ()"
| "for_of (x # xs) body = rbind (body x) (\<lambda>_. for_of xs body)"

definition failures :: "string \<Rightarrow> jv list \<Rightarrow> jv list" where
  "failures name xs = filter (\<lambda>x. failed (jget name x)) xs"

definition throw_code :: "jv \<Rightarrow> raised + 'a" where
  "throw_code code = Inl (Raised (error_of code))"

definition throw_head :: "string \<Rightarrow> jv list \<Rightarrow> parser" where \<comment> \<open>\<open>if (xs.length > 0) throw createErrorFromCode(xs[0].name)\<close>\<close>
  "throw_head name xs data = (case xs of [] \<Rightarrow> Inr data | x # _ \<Rightarrow> throw_code (jget name x))"

definition check_code :: "string \<Rightarrow> jv \<Rightarrow> raised + unit" where \<comment> \<open>\<open>if (failure(x.name)) throw createErrorFromCode(x.name)\<close>\<close>
  "check_code name x = (if failed (jget name x) then throw_code (jget name x) else Inr ())"

definition code_of_type :: "string \<Rightarrow> int" where \<comment> \<open>\<open>errorCodes.find(e => e.type === type).code\<close>\<close>
  "code_of_type type = (case find (\<lambda>e. ec_type e = type) errorCodes of Some e \<Rightarrow> ec_code e | None \<Rightarrow> 0)"

definition MEMBER_ID_REQUIRED_ERROR_CODE :: int where
  "MEMBER_ID_REQUIRED_ERROR_CODE = code_of_type ''MEMBER_ID_REQUIRED''"

definition OFFSET_OUT_OF_RANGE_ERROR_CODE :: int where
  "OFFSET_OUT_OF_RANGE_ERROR_CODE = code_of_type ''OFFSET_OUT_OF_RANGE''"

definition SASL_AUTHENTICATION_FAILED :: int where "SASL_AUTHENTICATION_FAILED = 58"

fun num_of :: "jv \<Rightarrow> int" where
  "num_of (JNum n) = n"
| "num_of _ = 0"

subsection \<open>Where the error codes are\<close>

definition code_names :: "string list" where
  "code_names = [''errorCode'', ''topicErrorCode'', ''partitionErrorCode'']"

fun label_name :: "label \<Rightarrow> string option" where
  "label_name (Field n) = Some n"
| "label_name (Checked n) = Some n"
| "label_name _ = None"

definition field_paths :: "label \<times> string list list \<Rightarrow> string list list" where
  "field_paths f =
     (case label_name (fst f) of
        None \<Rightarrow> []
      | Some n \<Rightarrow> if n \<in> set code_names then [[n]] else map (\<lambda>p. n # p) (snd f))"

primrec code_paths :: "layout \<Rightarrow> string list list" where
  "code_paths INT8 = []"
| "code_paths INT16 = []"
| "code_paths INT32 = []"
| "code_paths INT64 = []"
| "code_paths BOOLEAN = []"
| "code_paths STRING = []"
| "code_paths COMPACT_STRING = []"
| "code_paths BYTES = []"
| "code_paths COMPACT_BYTES = []"
| "code_paths UUID = []"
| "code_paths TAG_BUFFER = []"
| "code_paths (ARRAY t) = code_paths t"
| "code_paths (COMPACT_ARRAY t) = code_paths t"
| "code_paths (COMPACT_LIST t) = code_paths t"
| "code_paths (VIA p f g) = []"
| "code_paths (STRUCT fs) = concat (map field_paths (map (map_prod id code_paths) fs))"

fun codes_at :: "string list \<Rightarrow> jv \<Rightarrow> jv list" where
  "codes_at [] v = [v]"
| "codes_at (n # p) v =
     (case jget n v of JArr xs \<Rightarrow> concat (map (codes_at p) xs) | x \<Rightarrow> codes_at p x)"

fun present :: "string list \<Rightarrow> jv \<Rightarrow> bool" where \<comment> \<open>the arrays on the path are there\<close>
  "present (n # m # p) v = (case jget n v of JArr xs \<Rightarrow> list_all (present (m # p)) xs | _ \<Rightarrow> False)"
| "present [n] v = (case jget n v of JArr _ \<Rightarrow> False | _ \<Rightarrow> True)"
| "present [] v = True"

definition reports :: "string list list \<Rightarrow> parser \<Rightarrow> bool" where
  "reports ps parse \<longleftrightarrow>
     (\<forall>data. (if \<exists>p \<in> set ps. \<exists>c \<in> set (codes_at p data). failed c then \<exists>e. parse data = Inl e
              else list_all (\<lambda>p. present p data) ps \<longrightarrow> parse data = Inr data))"

subsection \<open>Shapes of the functions\<close>

lemma reportsI:
  assumes "\<And>data p c. p \<in> set ps \<Longrightarrow> c \<in> set (codes_at p data) \<Longrightarrow> failed c \<Longrightarrow> \<exists>e. parse data = Inl e"
    and "\<And>data. (\<And>p. p \<in> set ps \<Longrightarrow> present p data \<and> (\<forall>c \<in> set (codes_at p data). \<not> failed c)) \<Longrightarrow> parse data = Inr data"
  shows "reports ps parse"
  unfolding reports_def using assms by (auto simp: list_all_iff)

lemma code_fails: "c \<in> set (codes_at [n] x) \<Longrightarrow> failed c \<Longrightarrow> failed (jget n x)"
  by (cases "jget n x") (auto simp: failed_def)

lemma code_ok: "present [n] x \<Longrightarrow> \<forall>c \<in> set (codes_at [n] x). \<not> failed c \<Longrightarrow> \<not> failed (jget n x)"
  by (cases "jget n x") auto

text \<open>A check of all elements of an array, or of arrays in the elements of an array.\<close>

lemma array_fails:
  assumes "c \<in> set (codes_at (a # m # p) v)" "failed c" "jelems (jget a v) = Inr xs"
  shows "\<exists>x \<in> set xs. c \<in> set (codes_at (m # p) x)"
  using assms by (auto simp: jelems_def split: jv.splits)

lemma array_ok:
  assumes "present (a # m # p) v" "\<forall>c \<in> set (codes_at (a # m # p) v). \<not> failed c"
  shows "\<exists>xs. jget a v = JArr xs \<and> (\<forall>x \<in> set xs. present (m # p) x \<and> (\<forall>c \<in> set (codes_at (m # p) x). \<not> failed c))"
  using assms by (auto split: jv.splits simp: list_all_iff)

lemma codes_ok:
  assumes "present [a, n] v" "\<forall>c \<in> set (codes_at [a, n] v). \<not> failed c"
  shows "\<exists>xs. jget a v = JArr xs \<and> (\<forall>x \<in> set xs. \<not> failed (jget n x))"
  using array_ok [OF assms] code_ok by meson

lemma reportsD1: "reports ps f \<Longrightarrow> p \<in> set ps \<Longrightarrow> c \<in> set (codes_at p data) \<Longrightarrow> failed c \<Longrightarrow> \<exists>e. f data = Inl e"
  unfolding reports_def by (metis (full_types))

lemma reportsD2:
  assumes "reports ps f" "\<And>p. p \<in> set ps \<Longrightarrow> present p data \<and> (\<forall>c \<in> set (codes_at p data). \<not> failed c)"
  shows "f data = Inr data"
proof -
  have "\<not> (\<exists>p \<in> set ps. \<exists>c \<in> set (codes_at p data). failed c)" "list_all (\<lambda>p. present p data) ps"
    using assms(2) by (auto simp: list_all_iff)
  then show ?thesis using assms(1) unfolding reports_def by (metis (full_types))
qed

lemma failures_Nil: "failures n xs = [] \<longleftrightarrow> (\<forall>x \<in> set xs. \<not> failed (jget n x))"
  by (auto simp: failures_def filter_empty_conv)

lemma throw_head_Inl: "xs \<noteq> [] \<Longrightarrow> \<exists>e. throw_head n xs data = Inl e"
  by (cases xs) (auto simp: throw_head_def throw_code_def)

lemma throw_head_Nil [simp]: "throw_head n [] data = Inr data"
  by (simp add: throw_head_def)

lemma jelems_JArr [simp]: "jelems (JArr xs) = Inr xs"
  by (simp add: jelems_def)

lemma reports_code: "reports [[n]] (\<lambda>data. if failed (jget n data) then throw_code (jget n data) else Inr data)"
  by (rule reportsI) (auto simp: throw_code_def dest: code_fails code_ok simp del: codes_at.simps present.simps)

lemma reports_array:
  "reports [[a, n]] (\<lambda>data. rbind (jelems (jget a data)) (\<lambda>xs. throw_head n (failures n xs) data))"
proof (rule reportsI)
  fix data p c assume c: "p \<in> set [[a, n]]" "c \<in> set (codes_at p data)" "failed c"
  show "\<exists>e. rbind (jelems (jget a data)) (\<lambda>xs. throw_head n (failures n xs) data) = Inl e"
  proof (cases "jelems (jget a data)")
    case (Inr xs)
    with c obtain x where "x \<in> set xs" "failed (jget n x)"
      using array_fails [of c a n "[]" data xs] code_fails by (auto simp del: codes_at.simps)
    then have "failures n xs \<noteq> []" by (auto simp: failures_Nil)
    then show ?thesis using Inr throw_head_Inl by simp
  qed simp
next
  fix data assume "\<And>p. p \<in> set [[a, n]] \<Longrightarrow> present p data \<and> (\<forall>c \<in> set (codes_at p data). \<not> failed c)"
  then have "present [a, n] data" "\<forall>c \<in> set (codes_at [a, n] data). \<not> failed c" by auto
  then obtain xs where "jget a data = JArr xs" "\<forall>x \<in> set xs. \<not> failed (jget n x)" using codes_ok by blast
  then show "rbind (jelems (jget a data)) (\<lambda>xs. throw_head n (failures n xs) data) = Inr data"
    using failures_Nil [of n xs] by simp
qed

lemma rmap_Inr_nth: "rmap f xs = Inr ys \<Longrightarrow> x \<in> set xs \<Longrightarrow> \<exists>y \<in> set ys. f x = Inr y"
  by (induction xs arbitrary: ys) (auto simp: rbind_eq_Inr_conv)

lemma rmap_all_Inr: "(\<And>x. x \<in> set xs \<Longrightarrow> f x = Inr (g x)) \<Longrightarrow> rmap f xs = Inr (map g xs)"
  by (induction xs) auto

lemma concat_Nils: "concat (map (\<lambda>_. []) xs) = []"
  by (induction xs) auto

text \<open>The failures of the arrays in the elements, in order.\<close>

abbreviation nested_failures :: "string \<Rightarrow> string \<Rightarrow> jv \<Rightarrow> raised + jv list" where
  "nested_failures b n x \<equiv> rbind (jelems (jget b x)) (\<lambda>ps. Inr (failures n ps))"

lemma nested_fails:
  assumes "c \<in> set (codes_at [a, b, n] data)" "failed c" "jelems (jget a data) = Inr xs" "rmap (nested_failures b n) xs = Inr yss"
  shows "\<exists>ys \<in> set yss. ys \<noteq> []"
proof -
  obtain x where x: "x \<in> set xs" "c \<in> set (codes_at [b, n] x)" using array_fails [OF assms(1-3)] by auto
  then obtain ys where ys: "ys \<in> set yss" "nested_failures b n x = Inr ys" using rmap_Inr_nth [OF assms(4)] by blast
  then obtain ps where ps: "jelems (jget b x) = Inr ps" "ys = failures n ps" by (auto simp: rbind_eq_Inr_conv)
  then obtain p where "p \<in> set ps" "c \<in> set (codes_at [n] p)" using array_fails [OF x(2) assms(2)] by auto
  then have "ys \<noteq> []" using ps(2) code_fails [OF _ assms(2)] by (auto simp: failures_Nil simp del: codes_at.simps)
  then show ?thesis using ys by blast
qed

lemma nested_ok:
  assumes "present [a, b, n] data" "\<forall>c \<in> set (codes_at [a, b, n] data). \<not> failed c"
  obtains xs where "jget a data = JArr xs" "rmap (nested_failures b n) xs = Inr (map (\<lambda>_. []) xs)"
proof -
  obtain xs where xs: "jget a data = JArr xs"
    "\<forall>x \<in> set xs. present [b, n] x \<and> (\<forall>c \<in> set (codes_at [b, n] x). \<not> failed c)"
    using array_ok [OF assms] by blast
  have "nested_failures b n x = Inr []" if x: "x \<in> set xs" for x
  proof -
    obtain ps where ps: "jget b x = JArr ps" "\<forall>p \<in> set ps. \<not> failed (jget n p)"
      using xs(2) x codes_ok [of b n x] by blast
    then have "failures n ps = []" unfolding failures_Nil by blast
    then show ?thesis using ps(1) by simp
  qed
  then have "rmap (nested_failures b n) xs = Inr (map (\<lambda>_. []) xs)" by (rule rmap_all_Inr)
  with xs(1) show thesis by (rule that)
qed

lemma reports_nested:
  "reports [[a, b, n]] (\<lambda>data. rbind (jelems (jget a data)) (\<lambda>xs.
     rbind (flatMap (nested_failures b n) xs) (\<lambda>es. throw_head n es data)))" (is "reports _ ?parse")
proof (rule reportsI)
  fix data p c assume c: "p \<in> set [[a, b, n]]" "c \<in> set (codes_at p data)" "failed c"
  show "\<exists>e. ?parse data = Inl e"
  proof (cases "jelems (jget a data)")
    case (Inr xs)
    show ?thesis
    proof (cases "rmap (nested_failures b n) xs")
      case yss: (Inr yss)
      then have "concat yss \<noteq> []" using nested_fails [OF _ c(3) Inr yss] c(1,2) by (auto simp del: codes_at.simps)
      then show ?thesis using Inr yss throw_head_Inl by (simp add: flatMap_def)
    qed (simp add: Inr flatMap_def)
  qed simp
next
  fix data assume "\<And>p. p \<in> set [[a, b, n]] \<Longrightarrow> present p data \<and> (\<forall>c \<in> set (codes_at p data). \<not> failed c)"
  then have "present [a, b, n] data" "\<forall>c \<in> set (codes_at [a, b, n] data). \<not> failed c" by auto
  then obtain xs where "jget a data = JArr xs" "rmap (nested_failures b n) xs = Inr (map (\<lambda>_. []) xs)"
    by (rule nested_ok)
  then show "?parse data = Inr data" by (simp add: flatMap_def concat_Nils)
qed

text \<open>The same with the failures of each element kept apart.\<close>

lemma reports_grouped:
  "reports [[a, b, n]] (\<lambda>data. rbind (jelems (jget a data)) (\<lambda>xs. rbind (rmap (nested_failures b n) xs) (\<lambda>yss.
     case filter (\<lambda>ys. ys \<noteq> []) yss of [] \<Rightarrow> Inr data | ys # _ \<Rightarrow> throw_code (jget n (hd ys)))))" (is "reports _ ?parse")
proof (rule reportsI)
  fix data p c assume c: "p \<in> set [[a, b, n]]" "c \<in> set (codes_at p data)" "failed c"
  show "\<exists>e. ?parse data = Inl e"
  proof (cases "jelems (jget a data)")
    case (Inr xs)
    show ?thesis
    proof (cases "rmap (nested_failures b n) xs")
      case yss: (Inr yss)
      then have "filter (\<lambda>ys. ys \<noteq> []) yss \<noteq> []"
        using nested_fails [OF _ c(3) Inr yss] c(1,2) by (auto simp: filter_empty_conv simp del: codes_at.simps)
      then show ?thesis using Inr yss by (simp add: throw_code_def split: list.split)
    qed (simp add: Inr)
  qed simp
next
  fix data assume "\<And>p. p \<in> set [[a, b, n]] \<Longrightarrow> present p data \<and> (\<forall>c \<in> set (codes_at p data). \<not> failed c)"
  then have "present [a, b, n] data" "\<forall>c \<in> set (codes_at [a, b, n] data). \<not> failed c" by auto
  then obtain xs where "jget a data = JArr xs" "rmap (nested_failures b n) xs = Inr (map (\<lambda>_. []) xs)"
    by (rule nested_ok)
  moreover have "filter (\<lambda>ys. ys \<noteq> []) (map (\<lambda>_. []) xs) = []" by (simp add: filter_empty_conv)
  ultimately show "?parse data = Inr data" by simp
qed

text \<open>Loops that throw at the first failure.\<close>

lemma for_of_Inl: "x \<in> set xs \<Longrightarrow> body x = Inl e \<Longrightarrow> \<exists>e'. for_of xs body = Inl e'"
proof (induction xs)
  case (Cons y ys)
  then show ?case by (cases "body y") auto
qed simp

lemma for_of_Inr: "(\<And>x. x \<in> set xs \<Longrightarrow> body x = Inr ()) \<Longrightarrow> for_of xs body = Inr ()"
  by (induction xs) auto

lemma check_code_Inl: "failed (jget n x) \<Longrightarrow> check_code n x = Inl (Raised (error_of (jget n x)))"
  by (simp add: check_code_def throw_code_def)

lemma check_code_Inr: "\<not> failed (jget n x) \<Longrightarrow> check_code n x = Inr ()"
  by (simp add: check_code_def)

lemma reports_loop:
  "reports [[a, b, n]] (\<lambda>data. rbind (jelems (jget a data)) (\<lambda>xs.
     rbind (for_of xs (\<lambda>x. rbind (jelems (jget b x)) (\<lambda>ps. for_of ps (check_code n)))) (\<lambda>_. Inr data)))" (is "reports _ ?parse")
proof (rule reportsI)
  fix data p c assume c: "p \<in> set [[a, b, n]]" "c \<in> set (codes_at p data)" "failed c"
  show "\<exists>e. ?parse data = Inl e"
  proof (cases "jelems (jget a data)")
    case (Inr xs)
    then obtain x where x: "x \<in> set xs" "c \<in> set (codes_at [b, n] x)"
      using array_fails [of c a b "[n]" data xs] c by (auto simp del: codes_at.simps)
    have "\<exists>e. rbind (jelems (jget b x)) (\<lambda>ps. for_of ps (check_code n)) = Inl e"
    proof (cases "jelems (jget b x)")
      case ps: (Inr ps)
      then obtain p where "p \<in> set ps" "failed (jget n p)"
        using array_fails [OF x(2) c(3) ps] code_fails [OF _ c(3)] by blast
      then show ?thesis using ps for_of_Inl [of p ps "check_code n"] check_code_Inl by simp
    qed simp
    then show ?thesis using x(1) Inr for_of_Inl [of x xs] by fastforce
  qed simp
next
  fix data assume "\<And>p. p \<in> set [[a, b, n]] \<Longrightarrow> present p data \<and> (\<forall>c \<in> set (codes_at p data). \<not> failed c)"
  then have "present [a, b, n] data" "\<forall>c \<in> set (codes_at [a, b, n] data). \<not> failed c" by auto
  from array_ok [OF this] obtain xs where xs: "jget a data = JArr xs"
    "\<forall>x \<in> set xs. present [b, n] x \<and> (\<forall>c \<in> set (codes_at [b, n] x). \<not> failed c)" by blast
  have "rbind (jelems (jget b x)) (\<lambda>ps. for_of ps (check_code n)) = Inr ()" if x: "x \<in> set xs" for x
  proof -
    obtain ps where ps: "jget b x = JArr ps" "\<forall>p \<in> set ps. \<not> failed (jget n p)"
      using xs(2) x codes_ok [of b n x] by blast
    have "for_of ps (check_code n) = Inr ()" using ps(2) check_code_Inr by (intro for_of_Inr) blast
    then show ?thesis using ps(1) by simp
  qed
  then have "for_of xs (\<lambda>x. rbind (jelems (jget b x)) (\<lambda>ps. for_of ps (check_code n))) = Inr ()" by (rule for_of_Inr)
  then show "?parse data = Inr data" using xs(1) by simp
qed

text \<open>One check after another.\<close>

lemma reports_seq:
  assumes "reports ps f" "reports qs g"
  shows "reports (ps @ qs) (\<lambda>data. rbind (f data) (\<lambda>_. g data))"
proof (rule reportsI)
  fix data p c assume c: "p \<in> set (ps @ qs)" "c \<in> set (codes_at p data)" "failed c"
  then consider "\<exists>e. f data = Inl e" | "\<exists>e. g data = Inl e"
    using reportsD1 [OF assms(1)] reportsD1 [OF assms(2)] by auto
  then show "\<exists>e. rbind (f data) (\<lambda>_. g data) = Inl e" by cases (auto, cases "f data", auto)
next
  fix data assume ok: "\<And>p. p \<in> set (ps @ qs) \<Longrightarrow> present p data \<and> (\<forall>c \<in> set (codes_at p data). \<not> failed c)"
  have "f data = Inr data" by (rule reportsD2 [OF assms(1)], rule ok) simp
  moreover have "g data = Inr data" by (rule reportsD2 [OF assms(2)], rule ok) simp
  ultimately show "rbind (f data) (\<lambda>_. g data) = Inr data" by simp
qed

lemma reports_code_then:
  assumes "reports qs g"
  shows "reports ([n] # qs) (\<lambda>data. if failed (jget n data) then throw_code (jget n data) else g data)"
proof -
  have "(\<lambda>data. if failed (jget n data) then throw_code (jget n data) else g data) =
      (\<lambda>data. rbind (if failed (jget n data) then throw_code (jget n data) else Inr data) (\<lambda>_. g data))"
    by (auto simp: fun_eq_iff throw_code_def)
  then show ?thesis using reports_seq [OF reports_code assms, of n] by simp
qed

text \<open>A function that throws another error in the same cases reports the same codes.\<close>

lemma reports_other_error:
  assumes "reports ps f" "\<And>data x. f data = Inr x \<longleftrightarrow> g data = Inr x"
  shows "reports ps g"
proof (rule reportsI)
  fix data p c assume "p \<in> set ps" "c \<in> set (codes_at p data)" "failed c"
  then obtain e where "f data = Inl e" using reportsD1 [OF assms(1)] by blast
  then show "\<exists>e. g data = Inl e" using assms(2) [of data] by (cases "g data") auto
next
  fix data assume "\<And>p. p \<in> set ps \<Longrightarrow> present p data \<and> (\<forall>c \<in> set (codes_at p data). \<not> failed c)"
  then show "g data = Inr data" using reportsD2 [OF assms(1)] assms(2) by blast
qed

lemma throw_head_Inr: "throw_head n xs data = Inr x \<longleftrightarrow> xs = [] \<and> x = data"
  by (cases xs) (auto simp: throw_head_def throw_code_def)

lemma case_Nil_Inr: "(case ys of [] \<Rightarrow> Inr d | y # zs \<Rightarrow> Inl (h y zs)) = Inr x \<longleftrightarrow> ys = [] \<and> x = d"
  by (cases ys) auto

text \<open>Failures that get a property of the element they are found in.\<close>

abbreviation failures_with :: "(jv \<Rightarrow> jv \<Rightarrow> jv) \<Rightarrow> string \<Rightarrow> string \<Rightarrow> jv \<Rightarrow> raised + jv list" where
  "failures_with g b n x \<equiv> rbind (jelems (jget b x)) (\<lambda>ps. Inr (map (g x) (failures n ps)))"

lemma rmap_failures_with:
  "rmap (failures_with g b n) xs = Inr (map (\<lambda>_. []) xs) \<longleftrightarrow> rmap (nested_failures b n) xs = Inr (map (\<lambda>_. []) xs)"
proof (induction xs)
  case (Cons x xs)
  then show ?case by (cases "jelems (jget b x)") (auto simp: rbind_eq_Inr_conv)
qed simp

lemma flatMap_Nil: "flatMap f xs = Inr [] \<longleftrightarrow> rmap f xs = Inr (map (\<lambda>_. []) xs)"
proof
  assume "flatMap f xs = Inr []"
  then obtain yss where yss: "rmap f xs = Inr yss" "\<forall>ys \<in> set yss. ys = []" by (auto simp: flatMap_def rbind_eq_Inr_conv)
  then have "length yss = length xs" using rmap_length by blast
  then have "yss = map (\<lambda>_. []) xs" using yss(2) by (metis map_replicate_const replicate_eqI)
  then show "rmap f xs = Inr (map (\<lambda>_. []) xs)" using yss(1) by simp
qed (simp add: flatMap_def concat_Nils)

lemma reports_nested_with:
  "reports [[a, b, n]] (\<lambda>data. rbind (jelems (jget a data)) (\<lambda>xs.
     rbind (flatMap (failures_with g b n) xs) (\<lambda>es. case es of [] \<Rightarrow> Inr data | _ # _ \<Rightarrow> Inl (h es))))"
proof (rule reports_other_error [OF reports_nested])
  fix data x
  have iff: "flatMap (nested_failures b n) xs = Inr [] \<longleftrightarrow> flatMap (failures_with g b n) xs = Inr []" for xs
    by (simp add: flatMap_Nil rmap_failures_with)
  have l: "rbind (flatMap f xs) (\<lambda>es. throw_head n es data) = Inr x \<longleftrightarrow> flatMap f xs = Inr [] \<and> x = data" for f :: "jv \<Rightarrow> raised + jv list" and xs
    by (auto simp: rbind_eq_Inr_conv throw_head_Inr)
  have r: "rbind (flatMap f xs) (\<lambda>es. case es of [] \<Rightarrow> Inr data | _ # _ \<Rightarrow> Inl (h es)) = Inr x \<longleftrightarrow> flatMap f xs = Inr [] \<and> x = data"
    for f :: "jv \<Rightarrow> raised + jv list" and xs
    by (auto simp: rbind_eq_Inr_conv case_Nil_Inr)
  show "rbind (jelems (jget a data)) (\<lambda>xs. rbind (flatMap (nested_failures b n) xs) (\<lambda>es. throw_head n es data)) = Inr x \<longleftrightarrow>
    rbind (jelems (jget a data)) (\<lambda>xs.
     rbind (flatMap (failures_with g b n) xs) (\<lambda>es. case es of [] \<Rightarrow> Inr data | _ # _ \<Rightarrow> Inl (h es))) = Inr x"
    by (cases "jelems (jget a data)") (simp_all add: l r iff)
qed

lemma reports_array_with:
  "reports [[a, n]] (\<lambda>data. rbind (jelems (jget a data)) (\<lambda>xs.
     case failures n xs of [] \<Rightarrow> Inr data | _ # _ \<Rightarrow> Inl (h xs)))"
  by (rule reports_other_error [OF reports_array])
    (simp add: rbind_eq_Inr_conv throw_head_Inr case_Nil_Inr)

lemma reports_code_with:
  "reports [[n]] (\<lambda>data. if failed (jget n data) then Inl (h data) else Inr data)"
  by (rule reports_other_error [OF reports_code]) (auto simp: throw_code_def)

lemma reports_code_with_then:
  assumes "reports qs g"
  shows "reports ([n] # qs) (\<lambda>data. if failed (jget n data) then Inl (h data) else g data)"
  by (rule reports_other_error [OF reports_code_then [OF assms]]) (auto simp: throw_code_def)

lemma for_of_check_code:
  "for_of xs (check_code n) = (case failures n xs of [] \<Rightarrow> Inr () | x # _ \<Rightarrow> throw_code (jget n x))"
  by (induction xs) (auto simp: failures_def check_code_def throw_code_def)

lemma reports_single_loop:
  "reports [[a, n]] (\<lambda>data. rbind (jelems (jget a data)) (\<lambda>xs. rbind (for_of xs (check_code n)) (\<lambda>_. Inr data)))"
  unfolding for_of_check_code throw_code_def
  by (rule reports_other_error [OF reports_array]) (auto simp: rbind_eq_Inr_conv throw_head_Inr case_Nil_Inr)

text \<open>Absent arrays count as empty: the codes are reported, and nothing has to be present.\<close>

lemma reports_weaken:
  assumes "reports ps f"
    and "\<And>data. \<forall>p \<in> set ps. \<forall>c \<in> set (codes_at p data). \<not> failed c \<Longrightarrow> list_all (\<lambda>p. present p data) ps \<Longrightarrow> g data = f data"
    and "\<And>data p c. p \<in> set ps \<Longrightarrow> c \<in> set (codes_at p data) \<Longrightarrow> failed c \<Longrightarrow> \<exists>e. g data = Inl e"
  shows "reports ps g"
proof (rule reportsI)
  fix data assume ok: "\<And>p. p \<in> set ps \<Longrightarrow> present p data \<and> (\<forall>c \<in> set (codes_at p data). \<not> failed c)"
  then have "g data = f data" using assms(2) by (simp add: list_all_iff)
  then show "g data = Inr data" using reportsD2 [OF assms(1) ok] by simp
qed (use assms(3) in blast)

end
