(* ===== verification/Responses_Group.thy ===== *)
theory Responses_Group
  imports Protocol_Layout
begin

text \<open>
  The decoders of the responses about groups, their coordinators and their offsets, one definition per function of the files
  \<^verbatim>\<open>src/protocol/requests/*/v*/response.js\<close>, the layouts that the comments of these files document, and the proof
  that every decoder conforms to its layout.
\<close>

subsection \<open>Membership\<close>

definition joinGroup_v0_decode :: "jv reader" where
  "joinGroup_v0_decode =
     rd_bind r_int16 (\<lambda>errorCode.
       r_supported errorCode (
       rd_bind r_int32 (\<lambda>generationId.
       rd_bind r_string (\<lambda>groupProtocol.
       rd_bind r_string (\<lambda>leaderId.
       rd_bind r_string (\<lambda>memberId.
       rd_bind (r_array (r_obj [(''memberId'', r_string),
       (''memberMetadata'', r_bytes)])) (\<lambda>members.
       rd_return (JObj [(''errorCode'', errorCode), (''generationId'', generationId), (''groupProtocol'',
         groupProtocol), (''leaderId'', leaderId), (''memberId'', memberId), (''members'', members)]))))))))"

definition joinGroup_v0_layout :: "layout" where
  "joinGroup_v0_layout =
     STRUCT [(Checked ''errorCode'', INT16), (Field ''generationId'', INT32), (Field ''groupProtocol'',
       STRING), (Field ''leaderId'', STRING), (Field ''memberId'', STRING), (Field ''members'',
       ARRAY (STRUCT [(Field ''memberId'', STRING), (Field ''memberMetadata'', BYTES)]))]"

lemma joinGroup_v0_conforms [conformance]: "conforms joinGroup_v0_layout joinGroup_v0_decode"
  unfolding joinGroup_v0_layout_def joinGroup_v0_decode_def
  by (rule continues_literal layout_intros conforms_struct | assumption | simp)+

definition joinGroup_v1_decode :: "jv reader" where
  "joinGroup_v1_decode =
     joinGroup_v0_decode"

lemma joinGroup_v1_conforms [conformance]: "conforms joinGroup_v0_layout joinGroup_v1_decode"
  unfolding joinGroup_v1_decode_def by (rule joinGroup_v0_conforms)

definition joinGroup_v2_decode :: "jv reader" where
  "joinGroup_v2_decode =
     rd_bind r_int32 (\<lambda>throttleTime.
       rd_bind r_int16 (\<lambda>errorCode.
       r_supported errorCode (
       rd_bind r_int32 (\<lambda>generationId.
       rd_bind r_string (\<lambda>groupProtocol.
       rd_bind r_string (\<lambda>leaderId.
       rd_bind r_string (\<lambda>memberId.
       rd_bind (r_array (r_obj [(''memberId'', r_string),
       (''memberMetadata'', r_bytes)])) (\<lambda>members.
       rd_return (JObj [(''throttleTime'', throttleTime), (''errorCode'', errorCode), (''generationId'',
         generationId), (''groupProtocol'', groupProtocol), (''leaderId'', leaderId), (''memberId'', memberId),
         (''members'', members)])))))))))"

definition joinGroup_v2_layout :: "layout" where
  "joinGroup_v2_layout =
     STRUCT [(Field ''throttleTime'', INT32), (Checked ''errorCode'', INT16), (Field ''generationId'', INT32),
       (Field ''groupProtocol'', STRING), (Field ''leaderId'', STRING), (Field ''memberId'', STRING),
       (Field ''members'', ARRAY (STRUCT [(Field ''memberId'', STRING), (Field ''memberMetadata'', BYTES)]))]"

lemma joinGroup_v2_conforms [conformance]: "conforms joinGroup_v2_layout joinGroup_v2_decode"
  unfolding joinGroup_v2_layout_def joinGroup_v2_decode_def
  by (rule continues_literal layout_intros conforms_struct | assumption | simp)+

definition joinGroup_v3_decode :: "jv reader" where
  "joinGroup_v3_decode =
     rd_map client_side_throttle joinGroup_v2_decode"

definition joinGroup_v3_layout :: "layout" where
  "joinGroup_v3_layout =
     STRUCT [(Throttle_last, INT32), (Checked ''errorCode'', INT16), (Field ''generationId'', INT32),
       (Field ''groupProtocol'', STRING), (Field ''leaderId'', STRING), (Field ''memberId'', STRING),
       (Field ''members'', ARRAY (STRUCT [(Field ''memberId'', STRING), (Field ''memberMetadata'', BYTES)]))]"

lemma joinGroup_v3_conforms [conformance]: "conforms joinGroup_v3_layout joinGroup_v3_decode"
  unfolding joinGroup_v3_layout_def joinGroup_v3_decode_def
  by (rule conforms_throttle_first [OF joinGroup_v2_conforms [unfolded joinGroup_v2_layout_def]]) simp_all

definition joinGroup_v4_decode :: "jv reader" where
  "joinGroup_v4_decode =
     joinGroup_v3_decode"

lemma joinGroup_v4_conforms [conformance]: "conforms joinGroup_v3_layout joinGroup_v4_decode"
  unfolding joinGroup_v4_decode_def by (rule joinGroup_v3_conforms)

definition joinGroup_v5_decode :: "jv reader" where
  "joinGroup_v5_decode =
     rd_bind r_int32 (\<lambda>throttleTime.
       rd_bind r_int16 (\<lambda>errorCode.
       r_supported errorCode (
       rd_bind r_int32 (\<lambda>generationId.
       rd_bind r_string (\<lambda>groupProtocol.
       rd_bind r_string (\<lambda>leaderId.
       rd_bind r_string (\<lambda>memberId.
       rd_bind (r_array (r_obj [(''memberId'', r_string),
       (''groupInstanceId'', r_string),
       (''memberMetadata'', r_bytes)])) (\<lambda>members.
       rd_return (JObj [(''throttleTime'', JNum 0), (''clientSideThrottleTime'', throttleTime), (''errorCode'',
         errorCode), (''generationId'', generationId), (''groupProtocol'', groupProtocol), (''leaderId'',
         leaderId), (''memberId'', memberId), (''members'', members)])))))))))"

definition joinGroup_v5_layout :: "layout" where
  "joinGroup_v5_layout =
     STRUCT [(Throttle, INT32), (Checked ''errorCode'', INT16), (Field ''generationId'', INT32),
       (Field ''groupProtocol'', STRING), (Field ''leaderId'', STRING), (Field ''memberId'', STRING),
       (Field ''members'', ARRAY (STRUCT [(Field ''memberId'', STRING), (Field ''groupInstanceId'', STRING),
       (Field ''memberMetadata'', BYTES)]))]"

lemma joinGroup_v5_conforms [conformance]: "conforms joinGroup_v5_layout joinGroup_v5_decode"
  unfolding joinGroup_v5_layout_def joinGroup_v5_decode_def
  by (rule continues_literal layout_intros conforms_struct | assumption | simp)+

definition joinGroup_v6_decode :: "jv reader" where
  "joinGroup_v6_decode =
     rd_bind r_tagged (\<lambda>_.
       rd_bind r_int32 (\<lambda>throttleTime.
       rd_bind r_int16 (\<lambda>errorCode.
       r_supported errorCode (
       rd_bind r_int32 (\<lambda>generationId.
       rd_bind r_uvarint_string (\<lambda>groupProtocol.
       rd_bind r_uvarint_string (\<lambda>leaderId.
       rd_bind r_uvarint_string (\<lambda>memberId.
       rd_bind (r_uvarint_array (rd_bind (r_obj [(''memberId'', r_uvarint_string),
       (''groupInstanceId'', r_uvarint_string),
       (''memberMetadata'', r_uvarint_bytes)]) (\<lambda>member.
       rd_bind r_tagged (\<lambda>_.
       rd_return member)))) (\<lambda>members.
       rd_return (JObj [(''throttleTime'', JNum 0), (''clientSideThrottleTime'', throttleTime), (''errorCode'',
         errorCode), (''generationId'', generationId), (''groupProtocol'', groupProtocol), (''leaderId'',
         leaderId), (''memberId'', memberId), (''members'', members)]))))))))))"

definition syncGroup_v0_decode :: "jv reader" where
  "syncGroup_v0_decode =
     rd_bind r_int16 (\<lambda>errorCode.
       r_supported errorCode (
       rd_bind r_bytes (\<lambda>memberAssignment.
       rd_return (JObj [(''errorCode'', errorCode), (''memberAssignment'', memberAssignment)]))))"

definition syncGroup_v0_layout :: "layout" where
  "syncGroup_v0_layout =
     STRUCT [(Checked ''errorCode'', INT16), (Field ''memberAssignment'', BYTES)]"

lemma syncGroup_v0_conforms [conformance]: "conforms syncGroup_v0_layout syncGroup_v0_decode"
  unfolding syncGroup_v0_layout_def syncGroup_v0_decode_def
  by (rule continues_literal layout_intros conforms_struct | assumption | simp)+

definition syncGroup_v1_decode :: "jv reader" where
  "syncGroup_v1_decode =
     rd_bind r_int32 (\<lambda>throttleTime.
       rd_bind r_int16 (\<lambda>errorCode.
       r_supported errorCode (
       rd_bind r_bytes (\<lambda>memberAssignment.
       rd_return (JObj [(''throttleTime'', throttleTime), (''errorCode'', errorCode), (''memberAssignment'',
         memberAssignment)])))))"

definition syncGroup_v1_layout :: "layout" where
  "syncGroup_v1_layout =
     STRUCT [(Field ''throttleTime'', INT32), (Checked ''errorCode'', INT16), (Field ''memberAssignment'',
       BYTES)]"

lemma syncGroup_v1_conforms [conformance]: "conforms syncGroup_v1_layout syncGroup_v1_decode"
  unfolding syncGroup_v1_layout_def syncGroup_v1_decode_def
  by (rule continues_literal layout_intros conforms_struct | assumption | simp)+

definition syncGroup_v2_decode :: "jv reader" where
  "syncGroup_v2_decode =
     rd_map client_side_throttle syncGroup_v1_decode"

definition syncGroup_v2_layout :: "layout" where
  "syncGroup_v2_layout =
     STRUCT [(Throttle_last, INT32), (Checked ''errorCode'', INT16), (Field ''memberAssignment'', BYTES)]"

lemma syncGroup_v2_conforms [conformance]: "conforms syncGroup_v2_layout syncGroup_v2_decode"
  unfolding syncGroup_v2_layout_def syncGroup_v2_decode_def
  by (rule conforms_throttle_first [OF syncGroup_v1_conforms [unfolded syncGroup_v1_layout_def]]) simp_all

definition syncGroup_v3_decode :: "jv reader" where
  "syncGroup_v3_decode =
     syncGroup_v2_decode"

lemma syncGroup_v3_conforms [conformance]: "conforms syncGroup_v2_layout syncGroup_v3_decode"
  unfolding syncGroup_v3_decode_def by (rule syncGroup_v2_conforms)

definition syncGroup_v4_decode :: "jv reader" where
  "syncGroup_v4_decode =
     rd_bind r_tagged (\<lambda>_.
       rd_bind r_int32 (\<lambda>throttleTime.
       rd_bind r_int16 (\<lambda>errorCode.
       r_supported errorCode (
       rd_bind r_uvarint_bytes (\<lambda>memberAssignment.
       rd_bind r_tagged (\<lambda>_.
       rd_return (JObj [(''throttleTime'', JNum 0), (''clientSideThrottleTime'', throttleTime), (''errorCode'',
         errorCode), (''memberAssignment'', memberAssignment)])))))))"

definition heartbeat_v0_decode :: "jv reader" where
  "heartbeat_v0_decode =
     rd_bind r_int16 (\<lambda>errorCode.
       r_supported errorCode (
       rd_return (JObj [(''errorCode'', errorCode)])))"

definition heartbeat_v0_layout :: "layout" where
  "heartbeat_v0_layout =
     STRUCT [(Checked ''errorCode'', INT16)]"

lemma heartbeat_v0_conforms [conformance]: "conforms heartbeat_v0_layout heartbeat_v0_decode"
  unfolding heartbeat_v0_layout_def heartbeat_v0_decode_def
  by (rule continues_literal layout_intros conforms_struct | assumption | simp)+

definition heartbeat_v1_decode :: "jv reader" where
  "heartbeat_v1_decode =
     rd_bind r_int32 (\<lambda>throttleTime.
       rd_bind r_int16 (\<lambda>errorCode.
       r_supported errorCode (
       rd_return (JObj [(''throttleTime'', throttleTime), (''errorCode'', errorCode)]))))"

definition heartbeat_v1_layout :: "layout" where
  "heartbeat_v1_layout =
     STRUCT [(Field ''throttleTime'', INT32), (Checked ''errorCode'', INT16)]"

lemma heartbeat_v1_conforms [conformance]: "conforms heartbeat_v1_layout heartbeat_v1_decode"
  unfolding heartbeat_v1_layout_def heartbeat_v1_decode_def
  by (rule continues_literal layout_intros conforms_struct | assumption | simp)+

definition heartbeat_v2_decode :: "jv reader" where
  "heartbeat_v2_decode =
     rd_map client_side_throttle heartbeat_v1_decode"

definition heartbeat_v2_layout :: "layout" where
  "heartbeat_v2_layout =
     STRUCT [(Throttle_last, INT32), (Checked ''errorCode'', INT16)]"

lemma heartbeat_v2_conforms [conformance]: "conforms heartbeat_v2_layout heartbeat_v2_decode"
  unfolding heartbeat_v2_layout_def heartbeat_v2_decode_def
  by (rule conforms_throttle_first [OF heartbeat_v1_conforms [unfolded heartbeat_v1_layout_def]]) simp_all

definition heartbeat_v3_decode :: "jv reader" where
  "heartbeat_v3_decode =
     heartbeat_v2_decode"

lemma heartbeat_v3_conforms [conformance]: "conforms heartbeat_v2_layout heartbeat_v3_decode"
  unfolding heartbeat_v3_decode_def by (rule heartbeat_v2_conforms)

definition heartbeat_v4_decode :: "jv reader" where
  "heartbeat_v4_decode =
     rd_bind r_tagged (\<lambda>_.
       rd_bind r_int32 (\<lambda>throttleTime.
       rd_bind r_int16 (\<lambda>errorCode.
       rd_bind r_tagged (\<lambda>_.
       r_supported errorCode (
       rd_return (JObj [(''throttleTime'', JNum 0), (''clientSideThrottleTime'', throttleTime), (''errorCode'',
         errorCode)]))))))"

definition heartbeat_v4_layout :: "layout" where
  "heartbeat_v4_layout =
     STRUCT [(Skip, TAG_BUFFER), (Throttle, INT32), (Checked ''errorCode'', INT16), (Skip, TAG_BUFFER)]"

lemma heartbeat_v4_conforms [conformance]: "conforms heartbeat_v4_layout heartbeat_v4_decode"
  unfolding heartbeat_v4_layout_def heartbeat_v4_decode_def
  by (rule continues_literal layout_intros conforms_struct | assumption | simp)+

definition leaveGroup_v0_decode :: "jv reader" where
  "leaveGroup_v0_decode =
     rd_bind r_int16 (\<lambda>errorCode.
       r_supported errorCode (
       rd_return (JObj [(''errorCode'', errorCode)])))"

definition leaveGroup_v0_layout :: "layout" where
  "leaveGroup_v0_layout =
     STRUCT [(Checked ''errorCode'', INT16)]"

lemma leaveGroup_v0_conforms [conformance]: "conforms leaveGroup_v0_layout leaveGroup_v0_decode"
  unfolding leaveGroup_v0_layout_def leaveGroup_v0_decode_def
  by (rule continues_literal layout_intros conforms_struct | assumption | simp)+

definition leaveGroup_v1_decode :: "jv reader" where
  "leaveGroup_v1_decode =
     rd_bind r_int32 (\<lambda>throttleTime.
       rd_bind r_int16 (\<lambda>errorCode.
       r_supported errorCode (
       rd_return (JObj [(''throttleTime'', throttleTime), (''errorCode'', errorCode)]))))"

definition leaveGroup_v1_layout :: "layout" where
  "leaveGroup_v1_layout =
     STRUCT [(Field ''throttleTime'', INT32), (Checked ''errorCode'', INT16)]"

lemma leaveGroup_v1_conforms [conformance]: "conforms leaveGroup_v1_layout leaveGroup_v1_decode"
  unfolding leaveGroup_v1_layout_def leaveGroup_v1_decode_def
  by (rule continues_literal layout_intros conforms_struct | assumption | simp)+

definition leaveGroup_v2_decode :: "jv reader" where
  "leaveGroup_v2_decode =
     rd_map client_side_throttle leaveGroup_v1_decode"

definition leaveGroup_v2_layout :: "layout" where
  "leaveGroup_v2_layout =
     STRUCT [(Throttle_last, INT32), (Checked ''errorCode'', INT16)]"

lemma leaveGroup_v2_conforms [conformance]: "conforms leaveGroup_v2_layout leaveGroup_v2_decode"
  unfolding leaveGroup_v2_layout_def leaveGroup_v2_decode_def
  by (rule conforms_throttle_first [OF leaveGroup_v1_conforms [unfolded leaveGroup_v1_layout_def]]) simp_all

definition leaveGroup_v3_decodeMembers :: "jv reader" where
  "leaveGroup_v3_decodeMembers =
     r_obj [(''memberId'', r_string),
       (''groupInstanceId'', r_string),
       (''errorCode'', r_int16)]"

definition leaveGroup_v3_decode :: "jv reader" where
  "leaveGroup_v3_decode =
     rd_bind r_int32 (\<lambda>throttleTime.
       rd_bind r_int16 (\<lambda>errorCode.
       rd_bind (r_array leaveGroup_v3_decodeMembers) (\<lambda>members.
       r_supported errorCode (
       rd_return (JObj [(''throttleTime'', JNum 0), (''clientSideThrottleTime'', throttleTime), (''errorCode'',
         errorCode), (''members'', members)])))))"

definition leaveGroup_v3_layout :: "layout" where
  "leaveGroup_v3_layout =
     STRUCT [(Throttle, INT32), (Checked ''errorCode'', INT16), (Field ''members'',
       ARRAY (STRUCT [(Field ''memberId'', STRING), (Field ''groupInstanceId'', STRING), (Field ''errorCode'',
       INT16)]))]"

lemma leaveGroup_v3_conforms [conformance]: "conforms leaveGroup_v3_layout leaveGroup_v3_decode"
  unfolding leaveGroup_v3_layout_def leaveGroup_v3_decode_def leaveGroup_v3_decodeMembers_def
  by (rule continues_literal layout_intros conforms_struct | assumption | simp)+

definition leaveGroup_v4_decodeMembers :: "jv reader" where
  "leaveGroup_v4_decodeMembers =
     rd_bind (r_obj [(''memberId'', r_uvarint_string),
       (''groupInstanceId'', r_uvarint_string),
       (''errorCode'', r_int16)]) (\<lambda>member.
       rd_bind r_tagged (\<lambda>_.
       rd_return member))"

definition leaveGroup_v4_decode :: "jv reader" where
  "leaveGroup_v4_decode =
     rd_bind r_tagged (\<lambda>_.
       rd_bind r_int32 (\<lambda>throttleTime.
       rd_bind r_int16 (\<lambda>errorCode.
       rd_bind (r_uvarint_array leaveGroup_v4_decodeMembers) (\<lambda>members.
       rd_bind r_tagged (\<lambda>_.
       r_supported errorCode (
       rd_return (JObj [(''throttleTime'', JNum 0), (''clientSideThrottleTime'', throttleTime), (''errorCode'',
         errorCode), (''members'', members)])))))))"

definition leaveGroup_v4_layout :: "layout" where
  "leaveGroup_v4_layout =
     STRUCT [(Skip, TAG_BUFFER), (Throttle, INT32), (Checked ''errorCode'', INT16), (Field ''members'',
       COMPACT_ARRAY (STRUCT [(Field ''memberId'', COMPACT_STRING), (Field ''groupInstanceId'',
       COMPACT_STRING), (Field ''errorCode'', INT16), (Skip, TAG_BUFFER)])), (Skip, TAG_BUFFER)]"

lemma leaveGroup_v4_conforms [conformance]: "conforms leaveGroup_v4_layout leaveGroup_v4_decode"
  unfolding leaveGroup_v4_layout_def leaveGroup_v4_decode_def leaveGroup_v4_decodeMembers_def
  by (rule continues_literal layout_intros conforms_struct | assumption | simp)+

subsection \<open>Coordinators and groups\<close>

definition findCoordinator_v0_decode :: "jv reader" where
  "findCoordinator_v0_decode =
     rd_bind r_int16 (\<lambda>errorCode.
       r_supported errorCode (
       rd_bind (r_obj [(''nodeId'', r_int32),
       (''host'', r_string),
       (''port'', r_int32)]) (\<lambda>coordinator.
       rd_return (JObj [(''errorCode'', errorCode), (''coordinator'', coordinator)]))))"

definition findCoordinator_v0_layout :: "layout" where
  "findCoordinator_v0_layout =
     STRUCT [(Checked ''errorCode'', INT16), (Field ''coordinator'', STRUCT [(Field ''nodeId'', INT32),
       (Field ''host'', STRING), (Field ''port'', INT32)])]"

lemma findCoordinator_v0_conforms [conformance]: "conforms findCoordinator_v0_layout findCoordinator_v0_decode"
  unfolding findCoordinator_v0_layout_def findCoordinator_v0_decode_def
  by (rule continues_literal layout_intros conforms_struct | assumption | simp)+

definition findCoordinator_v1_decode :: "jv reader" where
  "findCoordinator_v1_decode =
     rd_bind r_int32 (\<lambda>throttleTime.
       rd_bind r_int16 (\<lambda>errorCode.
       r_supported errorCode (
       rd_bind r_string (\<lambda>errorMessage.
       rd_bind (r_obj [(''nodeId'', r_int32),
       (''host'', r_string),
       (''port'', r_int32)]) (\<lambda>coordinator.
       rd_return (JObj [(''throttleTime'', throttleTime), (''errorCode'', errorCode), (''errorMessage'',
         errorMessage), (''coordinator'', coordinator)]))))))"

definition findCoordinator_v1_layout :: "layout" where
  "findCoordinator_v1_layout =
     STRUCT [(Field ''throttleTime'', INT32), (Checked ''errorCode'', INT16), (Field ''errorMessage'', STRING),
       (Field ''coordinator'', STRUCT [(Field ''nodeId'', INT32), (Field ''host'', STRING), (Field ''port'',
       INT32)])]"

lemma findCoordinator_v1_conforms [conformance]: "conforms findCoordinator_v1_layout findCoordinator_v1_decode"
  unfolding findCoordinator_v1_layout_def findCoordinator_v1_decode_def
  by (rule continues_literal layout_intros conforms_struct | assumption | simp)+

definition findCoordinator_v2_decode :: "jv reader" where
  "findCoordinator_v2_decode =
     rd_map client_side_throttle findCoordinator_v1_decode"

definition findCoordinator_v2_layout :: "layout" where
  "findCoordinator_v2_layout =
     STRUCT [(Throttle_last, INT32), (Checked ''errorCode'', INT16), (Field ''errorMessage'', STRING),
       (Field ''coordinator'', STRUCT [(Field ''nodeId'', INT32), (Field ''host'', STRING), (Field ''port'',
       INT32)])]"

lemma findCoordinator_v2_conforms [conformance]: "conforms findCoordinator_v2_layout findCoordinator_v2_decode"
  unfolding findCoordinator_v2_layout_def findCoordinator_v2_decode_def
  by (rule conforms_throttle_first [OF findCoordinator_v1_conforms [unfolded findCoordinator_v1_layout_def]]) simp_all

definition findCoordinator_v3_decode :: "jv reader" where
  "findCoordinator_v3_decode =
     rd_bind r_tagged (\<lambda>_.
       rd_bind r_int32 (\<lambda>throttleTime.
       rd_bind r_int16 (\<lambda>errorCode.
       r_supported errorCode (
       rd_bind r_uvarint_string (\<lambda>errorMessage.
       rd_bind (r_obj [(''nodeId'', r_int32),
       (''host'', r_uvarint_string),
       (''port'', r_int32)]) (\<lambda>coordinator.
       rd_bind r_tagged (\<lambda>_.
       rd_bind r_tagged (\<lambda>_.
       rd_return (JObj [(''throttleTime'', JNum 0), (''clientSideThrottleTime'', throttleTime), (''errorCode'',
         errorCode), (''errorMessage'', errorMessage), (''coordinator'', coordinator)])))))))))"

definition findCoordinator_v3_layout :: "layout" where
  "findCoordinator_v3_layout =
     STRUCT [(Skip, TAG_BUFFER), (Throttle, INT32), (Checked ''errorCode'', INT16), (Field ''errorMessage'',
       COMPACT_STRING), (Field ''coordinator'', STRUCT [(Field ''nodeId'', INT32), (Field ''host'',
       COMPACT_STRING), (Field ''port'', INT32)]), (Skip, TAG_BUFFER), (Skip, TAG_BUFFER)]"

lemma findCoordinator_v3_conforms [conformance]: "conforms findCoordinator_v3_layout findCoordinator_v3_decode"
  unfolding findCoordinator_v3_layout_def findCoordinator_v3_decode_def
  by (rule continues_literal layout_intros conforms_struct | assumption | simp)+

definition listGroups_v0_decodeGroup :: "jv reader" where
  "listGroups_v0_decodeGroup =
     r_obj [(''groupId'', r_string),
       (''protocolType'', r_string)]"

definition listGroups_v0_decode :: "jv reader" where
  "listGroups_v0_decode =
     rd_bind r_int16 (\<lambda>errorCode.
       rd_bind (r_array listGroups_v0_decodeGroup) (\<lambda>groups.
       rd_return (JObj [(''errorCode'', errorCode), (''groups'', groups)])))"

definition listGroups_v0_layout :: "layout" where
  "listGroups_v0_layout =
     STRUCT [(Field ''errorCode'', INT16), (Field ''groups'', ARRAY (STRUCT [(Field ''groupId'', STRING),
       (Field ''protocolType'', STRING)]))]"

lemma listGroups_v0_conforms [conformance]: "conforms listGroups_v0_layout listGroups_v0_decode"
  unfolding listGroups_v0_layout_def listGroups_v0_decode_def listGroups_v0_decodeGroup_def
  by (rule continues_literal layout_intros conforms_struct | assumption | simp)+

definition listGroups_v1_decode :: "jv reader" where
  "listGroups_v1_decode =
     rd_bind r_int32 (\<lambda>throttleTime.
       rd_bind r_int16 (\<lambda>errorCode.
       rd_bind (r_array listGroups_v0_decodeGroup) (\<lambda>groups.
       rd_return (JObj [(''throttleTime'', throttleTime), (''errorCode'', errorCode), (''groups'', groups)]))))"

definition listGroups_v1_layout :: "layout" where
  "listGroups_v1_layout =
     STRUCT [(Field ''throttleTime'', INT32), (Field ''errorCode'', INT16), (Field ''groups'',
       ARRAY (STRUCT [(Field ''groupId'', STRING), (Field ''protocolType'', STRING)]))]"

lemma listGroups_v1_conforms [conformance]: "conforms listGroups_v1_layout listGroups_v1_decode"
  unfolding listGroups_v1_layout_def listGroups_v1_decode_def listGroups_v0_decodeGroup_def
  by (rule continues_literal layout_intros conforms_struct | assumption | simp)+

definition listGroups_v2_decode :: "jv reader" where
  "listGroups_v2_decode =
     rd_map client_side_throttle listGroups_v1_decode"

definition listGroups_v2_layout :: "layout" where
  "listGroups_v2_layout =
     STRUCT [(Throttle_last, INT32), (Field ''errorCode'', INT16), (Field ''groups'',
       ARRAY (STRUCT [(Field ''groupId'', STRING), (Field ''protocolType'', STRING)]))]"

lemma listGroups_v2_conforms [conformance]: "conforms listGroups_v2_layout listGroups_v2_decode"
  unfolding listGroups_v2_layout_def listGroups_v2_decode_def
  by (rule conforms_throttle_first [OF listGroups_v1_conforms [unfolded listGroups_v1_layout_def]]) simp_all

definition listGroups_v4_decodeGroup :: "jv reader" where
  "listGroups_v4_decodeGroup =
     rd_bind (r_obj [(''groupId'', r_uvarint_string),
       (''protocolType'', r_uvarint_string),
       (''groupState'', r_uvarint_string)]) (\<lambda>group.
       rd_bind r_tagged (\<lambda>_.
       rd_return group))"

definition listGroups_v4_decode :: "jv reader" where
  "listGroups_v4_decode =
     rd_bind r_tagged (\<lambda>_.
       rd_bind r_int32 (\<lambda>throttleTime.
       rd_bind r_int16 (\<lambda>errorCode.
       rd_bind (r_uvarint_array listGroups_v4_decodeGroup) (\<lambda>groups.
       rd_bind r_tagged (\<lambda>_.
       rd_return (JObj [(''throttleTime'', JNum 0), (''clientSideThrottleTime'', throttleTime), (''errorCode'',
         errorCode), (''groups'', groups)]))))))"

definition listGroups_v4_layout :: "layout" where
  "listGroups_v4_layout =
     STRUCT [(Skip, TAG_BUFFER), (Throttle, INT32), (Field ''errorCode'', INT16), (Field ''groups'',
       COMPACT_ARRAY (STRUCT [(Field ''groupId'', COMPACT_STRING), (Field ''protocolType'', COMPACT_STRING),
       (Field ''groupState'', COMPACT_STRING), (Skip, TAG_BUFFER)])), (Skip, TAG_BUFFER)]"

lemma listGroups_v4_conforms [conformance]: "conforms listGroups_v4_layout listGroups_v4_decode"
  unfolding listGroups_v4_layout_def listGroups_v4_decode_def listGroups_v4_decodeGroup_def
  by (rule continues_literal layout_intros conforms_struct | assumption | simp)+

definition describeGroups_v0_decoderMember :: "jv reader" where
  "describeGroups_v0_decoderMember =
     r_obj [(''memberId'', r_string),
       (''clientId'', r_string),
       (''clientHost'', r_string),
       (''memberMetadata'', r_bytes),
       (''memberAssignment'', r_bytes)]"

definition describeGroups_v0_decodeGroup :: "jv reader" where
  "describeGroups_v0_decodeGroup =
     r_obj [(''errorCode'', r_int16),
       (''groupId'', r_string),
       (''state'', r_string),
       (''protocolType'', r_string),
       (''protocol'', r_string),
       (''members'', r_array describeGroups_v0_decoderMember)]"

definition describeGroups_v0_decode :: "jv reader" where
  "describeGroups_v0_decode =
     rd_bind (r_array describeGroups_v0_decodeGroup) (\<lambda>groups.
       rd_return (JObj [(''groups'', groups)]))"

definition describeGroups_v0_layout :: "layout" where
  "describeGroups_v0_layout =
     STRUCT [(Field ''groups'', ARRAY (STRUCT [(Field ''errorCode'', INT16), (Field ''groupId'', STRING),
       (Field ''state'', STRING), (Field ''protocolType'', STRING), (Field ''protocol'', STRING),
       (Field ''members'', ARRAY (STRUCT [(Field ''memberId'', STRING), (Field ''clientId'', STRING),
       (Field ''clientHost'', STRING), (Field ''memberMetadata'', BYTES), (Field ''memberAssignment'',
       BYTES)]))]))]"

lemma describeGroups_v0_conforms [conformance]: "conforms describeGroups_v0_layout describeGroups_v0_decode"
  unfolding describeGroups_v0_layout_def describeGroups_v0_decode_def describeGroups_v0_decodeGroup_def describeGroups_v0_decoderMember_def
  by (rule continues_literal layout_intros conforms_struct | assumption | simp)+

definition describeGroups_v1_decoderMember :: "jv reader" where
  "describeGroups_v1_decoderMember =
     r_obj [(''memberId'', r_string),
       (''clientId'', r_string),
       (''clientHost'', r_string),
       (''memberMetadata'', r_bytes),
       (''memberAssignment'', r_bytes)]"

definition describeGroups_v1_decodeGroup :: "jv reader" where
  "describeGroups_v1_decodeGroup =
     r_obj [(''errorCode'', r_int16),
       (''groupId'', r_string),
       (''state'', r_string),
       (''protocolType'', r_string),
       (''protocol'', r_string),
       (''members'', r_array describeGroups_v1_decoderMember)]"

definition describeGroups_v1_decode :: "jv reader" where
  "describeGroups_v1_decode =
     rd_bind r_int32 (\<lambda>throttleTime.
       rd_bind (r_array describeGroups_v1_decodeGroup) (\<lambda>groups.
       rd_return (JObj [(''throttleTime'', throttleTime), (''groups'', groups)])))"

definition describeGroups_v1_layout :: "layout" where
  "describeGroups_v1_layout =
     STRUCT [(Field ''throttleTime'', INT32), (Field ''groups'', ARRAY (STRUCT [(Field ''errorCode'', INT16),
       (Field ''groupId'', STRING), (Field ''state'', STRING), (Field ''protocolType'', STRING),
       (Field ''protocol'', STRING), (Field ''members'', ARRAY (STRUCT [(Field ''memberId'', STRING),
       (Field ''clientId'', STRING), (Field ''clientHost'', STRING), (Field ''memberMetadata'', BYTES),
       (Field ''memberAssignment'', BYTES)]))]))]"

lemma describeGroups_v1_conforms [conformance]: "conforms describeGroups_v1_layout describeGroups_v1_decode"
  unfolding describeGroups_v1_layout_def describeGroups_v1_decode_def describeGroups_v1_decodeGroup_def describeGroups_v1_decoderMember_def
  by (rule continues_literal layout_intros conforms_struct | assumption | simp)+

definition describeGroups_v2_decode :: "jv reader" where
  "describeGroups_v2_decode =
     rd_map client_side_throttle describeGroups_v1_decode"

definition describeGroups_v2_layout :: "layout" where
  "describeGroups_v2_layout =
     STRUCT [(Throttle_last, INT32), (Field ''groups'', ARRAY (STRUCT [(Field ''errorCode'', INT16),
       (Field ''groupId'', STRING), (Field ''state'', STRING), (Field ''protocolType'', STRING),
       (Field ''protocol'', STRING), (Field ''members'', ARRAY (STRUCT [(Field ''memberId'', STRING),
       (Field ''clientId'', STRING), (Field ''clientHost'', STRING), (Field ''memberMetadata'', BYTES),
       (Field ''memberAssignment'', BYTES)]))]))]"

lemma describeGroups_v2_conforms [conformance]: "conforms describeGroups_v2_layout describeGroups_v2_decode"
  unfolding describeGroups_v2_layout_def describeGroups_v2_decode_def
  by (rule conforms_throttle_first [OF describeGroups_v1_conforms [unfolded describeGroups_v1_layout_def]]) simp_all

definition describeGroups_v5_decodeMember :: "jv reader" where
  "describeGroups_v5_decodeMember =
     rd_bind (r_obj [(''memberId'', r_uvarint_string),
       (''groupInstanceId'', r_uvarint_string),
       (''clientId'', r_uvarint_string),
       (''clientHost'', r_uvarint_string),
       (''memberMetadata'', r_uvarint_bytes),
       (''memberAssignment'', r_uvarint_bytes)]) (\<lambda>member.
       rd_bind r_tagged (\<lambda>_.
       rd_return member))"

definition describeGroups_v5_decodeGroup :: "jv reader" where
  "describeGroups_v5_decodeGroup =
     rd_bind (r_obj [(''errorCode'', r_int16),
       (''groupId'', r_uvarint_string),
       (''state'', r_uvarint_string),
       (''protocolType'', r_uvarint_string),
       (''protocol'', r_uvarint_string),
       (''members'', r_uvarint_array describeGroups_v5_decodeMember),
       (''authorizedOperations'', r_int32)]) (\<lambda>group.
       rd_bind r_tagged (\<lambda>_.
       rd_return group))"

definition describeGroups_v5_decode :: "jv reader" where
  "describeGroups_v5_decode =
     rd_bind r_tagged (\<lambda>_.
       rd_bind r_int32 (\<lambda>throttleTime.
       rd_bind (r_uvarint_array describeGroups_v5_decodeGroup) (\<lambda>groups.
       rd_bind r_tagged (\<lambda>_.
       rd_return (JObj [(''throttleTime'', JNum 0), (''clientSideThrottleTime'', throttleTime), (''groups'',
         groups)])))))"

definition deleteGroups_v0_decodeGroup :: "jv reader" where
  "deleteGroups_v0_decodeGroup = r_obj [(''groupId'', r_string), (''errorCode'', r_int16)]"

definition deleteGroups_v0_with_error :: "jv \<Rightarrow> jv" where \<comment> \<open>\<open>if (failure(result.errorCode)) result.error = ...\<close>\<close>
  "deleteGroups_v0_with_error result =
     (if failed (jget ''errorCode'' result) then jset ''error'' (JErr (error_of (jget ''errorCode'' result))) result
      else result)"

definition deleteGroups_v0_with_errors :: "jv \<Rightarrow> (string \<times> jv) list" where
  "deleteGroups_v0_with_errors results =
     [(''results'', case results of JArr xs \<Rightarrow> JArr (map deleteGroups_v0_with_error xs) | _ \<Rightarrow> results)]"

definition deleteGroups_v0_decode :: "jv reader" where
  "deleteGroups_v0_decode =
     rd_bind r_int32 (\<lambda>throttleTimeMs.
       rd_bind (r_array deleteGroups_v0_decodeGroup) (\<lambda>results.
       rd_return (JObj ((''throttleTimeMs'', throttleTimeMs) # deleteGroups_v0_with_errors results))))"

definition deleteGroups_v0_layout :: "layout" where
  "deleteGroups_v0_layout =
     STRUCT [(Field ''throttleTimeMs'', INT32),
       (As deleteGroups_v0_with_errors, ARRAY (STRUCT [(Field ''groupId'', STRING), (Field ''errorCode'', INT16)]))]"

lemma deleteGroups_v0_conforms [conformance]: "conforms deleteGroups_v0_layout deleteGroups_v0_decode"
  unfolding deleteGroups_v0_layout_def deleteGroups_v0_decode_def deleteGroups_v0_decodeGroup_def
  by (rule continues_literal layout_intros conforms_struct | assumption | simp)+

definition deleteGroups_v1_decode :: "jv reader" where
  "deleteGroups_v1_decode = rd_map client_side_throttle deleteGroups_v0_decode"

text \<open>
  The response of version 0 has its throttle time under another name, so that version 1 reports no time at
  all to the connection.
\<close>

lemma deleteGroups_v1_throttle_lost:
  assumes "reads deleteGroups_v0_decode bs v"
  shows "reads deleteGroups_v1_decode bs (client_side_throttle v)"
    "wf_value deleteGroups_v0_layout w \<Longrightarrow>
      jget ''clientSideThrottleTime'' (client_side_throttle (view deleteGroups_v0_layout w)) = JUndef"
proof -
  show "reads deleteGroups_v1_decode bs (client_side_throttle v)"
    unfolding deleteGroups_v1_decode_def by (rule reads_rd_map [OF assms]) simp
  assume "wf_value deleteGroups_v0_layout w"
  then obtain x y where "w = WStruct [x, y]"
    by (auto simp: deleteGroups_v0_layout_def split: wire_value.splits elim!: wf_fields_ConsE elim: wf_fields.elims)
  then show "jget ''clientSideThrottleTime'' (client_side_throttle (view deleteGroups_v0_layout w)) = JUndef"
    by (simp add: deleteGroups_v0_layout_def client_side_throttle_def parts_of_def deleteGroups_v0_with_errors_def)
qed

definition deleteGroups_v2_decodeResult :: "jv reader" where
  "deleteGroups_v2_decodeResult =
     rd_bind (r_obj [(''groupId'', r_uvarint_string),
       (''errorCode'', r_int16)]) (\<lambda>result.
       rd_bind r_tagged (\<lambda>_.
       rd_return result))"

definition deleteGroups_v2_decode :: "jv reader" where
  "deleteGroups_v2_decode =
     rd_bind r_tagged (\<lambda>_.
       rd_bind r_int32 (\<lambda>throttleTime.
       rd_bind (r_uvarint_array deleteGroups_v2_decodeResult) (\<lambda>results.
       rd_bind r_tagged (\<lambda>_.
       rd_return (JObj [(''throttleTime'', JNum 0), (''clientSideThrottleTime'', throttleTime), (''results'',
         results)])))))"

definition deleteGroups_v2_layout :: "layout" where
  "deleteGroups_v2_layout =
     STRUCT [(Skip, TAG_BUFFER), (Throttle, INT32), (Field ''results'',
       COMPACT_ARRAY (STRUCT [(Field ''groupId'', COMPACT_STRING), (Field ''errorCode'', INT16), (Skip,
       TAG_BUFFER)])), (Skip, TAG_BUFFER)]"

lemma deleteGroups_v2_conforms [conformance]: "conforms deleteGroups_v2_layout deleteGroups_v2_decode"
  unfolding deleteGroups_v2_layout_def deleteGroups_v2_decode_def deleteGroups_v2_decodeResult_def
  by (rule continues_literal layout_intros conforms_struct | assumption | simp)+

subsection \<open>Offsets\<close>

definition offsetCommit_v0_decodePartitions :: "jv reader" where
  "offsetCommit_v0_decodePartitions =
     r_obj [(''partition'', r_int32),
       (''errorCode'', r_int16)]"

definition offsetCommit_v0_decodeResponses :: "jv reader" where
  "offsetCommit_v0_decodeResponses =
     r_obj [(''topic'', r_string),
       (''partitions'', r_array offsetCommit_v0_decodePartitions)]"

definition offsetCommit_v0_decode :: "jv reader" where
  "offsetCommit_v0_decode =
     r_obj [(''responses'', r_array offsetCommit_v0_decodeResponses)]"

definition offsetCommit_v0_layout :: "layout" where
  "offsetCommit_v0_layout =
     STRUCT [(Field ''responses'', ARRAY (STRUCT [(Field ''topic'', STRING), (Field ''partitions'',
       ARRAY (STRUCT [(Field ''partition'', INT32), (Field ''errorCode'', INT16)]))]))]"

lemma offsetCommit_v0_conforms [conformance]: "conforms offsetCommit_v0_layout offsetCommit_v0_decode"
  unfolding offsetCommit_v0_layout_def offsetCommit_v0_decode_def offsetCommit_v0_decodeResponses_def offsetCommit_v0_decodePartitions_def
  by (rule continues_literal layout_intros conforms_struct | assumption | simp)+

definition offsetCommit_v1_decode :: "jv reader" where
  "offsetCommit_v1_decode =
     offsetCommit_v0_decode"

lemma offsetCommit_v1_conforms [conformance]: "conforms offsetCommit_v0_layout offsetCommit_v1_decode"
  unfolding offsetCommit_v1_decode_def by (rule offsetCommit_v0_conforms)

definition offsetCommit_v2_decode :: "jv reader" where
  "offsetCommit_v2_decode =
     offsetCommit_v0_decode"

lemma offsetCommit_v2_conforms [conformance]: "conforms offsetCommit_v0_layout offsetCommit_v2_decode"
  unfolding offsetCommit_v2_decode_def by (rule offsetCommit_v0_conforms)

definition offsetCommit_v3_decodePartitions :: "jv reader" where
  "offsetCommit_v3_decodePartitions =
     r_obj [(''partition'', r_int32),
       (''errorCode'', r_int16)]"

definition offsetCommit_v3_decodeResponses :: "jv reader" where
  "offsetCommit_v3_decodeResponses =
     r_obj [(''topic'', r_string),
       (''partitions'', r_array offsetCommit_v3_decodePartitions)]"

definition offsetCommit_v3_decode :: "jv reader" where
  "offsetCommit_v3_decode =
     r_obj [(''throttleTime'', r_int32),
       (''responses'', r_array offsetCommit_v3_decodeResponses)]"

definition offsetCommit_v3_layout :: "layout" where
  "offsetCommit_v3_layout =
     STRUCT [(Field ''throttleTime'', INT32), (Field ''responses'', ARRAY (STRUCT [(Field ''topic'', STRING),
       (Field ''partitions'', ARRAY (STRUCT [(Field ''partition'', INT32), (Field ''errorCode'', INT16)]))]))]"

lemma offsetCommit_v3_conforms [conformance]: "conforms offsetCommit_v3_layout offsetCommit_v3_decode"
  unfolding offsetCommit_v3_layout_def offsetCommit_v3_decode_def offsetCommit_v3_decodeResponses_def offsetCommit_v3_decodePartitions_def
  by (rule continues_literal layout_intros conforms_struct | assumption | simp)+

definition offsetCommit_v4_decode :: "jv reader" where
  "offsetCommit_v4_decode =
     rd_map client_side_throttle offsetCommit_v3_decode"

definition offsetCommit_v4_layout :: "layout" where
  "offsetCommit_v4_layout =
     STRUCT [(Throttle_last, INT32), (Field ''responses'', ARRAY (STRUCT [(Field ''topic'', STRING),
       (Field ''partitions'', ARRAY (STRUCT [(Field ''partition'', INT32), (Field ''errorCode'', INT16)]))]))]"

lemma offsetCommit_v4_conforms [conformance]: "conforms offsetCommit_v4_layout offsetCommit_v4_decode"
  unfolding offsetCommit_v4_layout_def offsetCommit_v4_decode_def
  by (rule conforms_throttle_first [OF offsetCommit_v3_conforms [unfolded offsetCommit_v3_layout_def]]) simp_all

definition offsetCommit_v5_decode :: "jv reader" where
  "offsetCommit_v5_decode =
     offsetCommit_v4_decode"

lemma offsetCommit_v5_conforms [conformance]: "conforms offsetCommit_v4_layout offsetCommit_v5_decode"
  unfolding offsetCommit_v5_decode_def by (rule offsetCommit_v4_conforms)

definition offsetCommit_v6_decodePartitions :: "jv reader" where
  "offsetCommit_v6_decodePartitions =
     rd_bind (r_obj [(''partition'', r_int32),
       (''errorCode'', r_int16)]) (\<lambda>partition.
       rd_bind r_tagged (\<lambda>_.
       rd_return partition))"

definition offsetCommit_v6_decodeResponses :: "jv reader" where
  "offsetCommit_v6_decodeResponses =
     rd_bind (r_obj [(''topic'', r_uvarint_string),
       (''partitions'', r_uvarint_array offsetCommit_v6_decodePartitions)]) (\<lambda>response.
       rd_bind r_tagged (\<lambda>_.
       rd_return response))"

definition offsetCommit_v6_decode :: "jv reader" where
  "offsetCommit_v6_decode =
     rd_bind r_tagged (\<lambda>_.
       rd_bind r_int32 (\<lambda>throttleTime.
       rd_bind (r_uvarint_array offsetCommit_v6_decodeResponses) (\<lambda>responses.
       rd_bind r_tagged (\<lambda>_.
       rd_return (JObj [(''throttleTime'', JNum 0), (''clientSideThrottleTime'', throttleTime), (''responses'',
         responses)])))))"

definition offsetCommit_v6_layout :: "layout" where
  "offsetCommit_v6_layout =
     STRUCT [(Skip, TAG_BUFFER), (Throttle, INT32), (Field ''responses'',
       COMPACT_ARRAY (STRUCT [(Field ''topic'', COMPACT_STRING), (Field ''partitions'',
       COMPACT_ARRAY (STRUCT [(Field ''partition'', INT32), (Field ''errorCode'', INT16), (Skip,
       TAG_BUFFER)])), (Skip, TAG_BUFFER)])), (Skip, TAG_BUFFER)]"

lemma offsetCommit_v6_conforms [conformance]: "conforms offsetCommit_v6_layout offsetCommit_v6_decode"
  unfolding offsetCommit_v6_layout_def offsetCommit_v6_decode_def offsetCommit_v6_decodeResponses_def offsetCommit_v6_decodePartitions_def
  by (rule continues_literal layout_intros conforms_struct | assumption | simp)+

definition offsetCommit_v7_decode :: "jv reader" where
  "offsetCommit_v7_decode =
     offsetCommit_v6_decode"

lemma offsetCommit_v7_conforms [conformance]: "conforms offsetCommit_v6_layout offsetCommit_v7_decode"
  unfolding offsetCommit_v7_decode_def by (rule offsetCommit_v6_conforms)

definition offsetFetch_v1_decodePartitions :: "jv reader" where
  "offsetFetch_v1_decodePartitions =
     r_obj [(''partition'', r_int32),
       (''offset'', r_int64),
       (''metadata'', r_string),
       (''errorCode'', r_int16)]"

definition offsetFetch_v1_decodeResponses :: "jv reader" where
  "offsetFetch_v1_decodeResponses =
     r_obj [(''topic'', r_string),
       (''partitions'', r_array offsetFetch_v1_decodePartitions)]"

definition offsetFetch_v1_decode :: "jv reader" where
  "offsetFetch_v1_decode =
     r_obj [(''responses'', r_array offsetFetch_v1_decodeResponses)]"

definition offsetFetch_v1_layout :: "layout" where
  "offsetFetch_v1_layout =
     STRUCT [(Field ''responses'', ARRAY (STRUCT [(Field ''topic'', STRING), (Field ''partitions'',
       ARRAY (STRUCT [(Field ''partition'', INT32), (Field ''offset'', INT64), (Field ''metadata'', STRING),
       (Field ''errorCode'', INT16)]))]))]"

lemma offsetFetch_v1_conforms [conformance]: "conforms offsetFetch_v1_layout offsetFetch_v1_decode"
  unfolding offsetFetch_v1_layout_def offsetFetch_v1_decode_def offsetFetch_v1_decodeResponses_def offsetFetch_v1_decodePartitions_def
  by (rule continues_literal layout_intros conforms_struct | assumption | simp)+

definition offsetFetch_v2_decodePartitions :: "jv reader" where
  "offsetFetch_v2_decodePartitions =
     r_obj [(''partition'', r_int32),
       (''offset'', r_int64),
       (''metadata'', r_string),
       (''errorCode'', r_int16)]"

definition offsetFetch_v2_decodeResponses :: "jv reader" where
  "offsetFetch_v2_decodeResponses =
     r_obj [(''topic'', r_string),
       (''partitions'', r_array offsetFetch_v2_decodePartitions)]"

definition offsetFetch_v2_decode :: "jv reader" where
  "offsetFetch_v2_decode =
     r_obj [(''responses'', r_array offsetFetch_v2_decodeResponses),
       (''errorCode'', r_int16)]"

definition offsetFetch_v2_layout :: "layout" where
  "offsetFetch_v2_layout =
     STRUCT [(Field ''responses'', ARRAY (STRUCT [(Field ''topic'', STRING), (Field ''partitions'',
       ARRAY (STRUCT [(Field ''partition'', INT32), (Field ''offset'', INT64), (Field ''metadata'', STRING),
       (Field ''errorCode'', INT16)]))])), (Field ''errorCode'', INT16)]"

lemma offsetFetch_v2_conforms [conformance]: "conforms offsetFetch_v2_layout offsetFetch_v2_decode"
  unfolding offsetFetch_v2_layout_def offsetFetch_v2_decode_def offsetFetch_v2_decodeResponses_def offsetFetch_v2_decodePartitions_def
  by (rule continues_literal layout_intros conforms_struct | assumption | simp)+

definition offsetFetch_v3_decodePartitions :: "jv reader" where
  "offsetFetch_v3_decodePartitions =
     r_obj [(''partition'', r_int32),
       (''offset'', r_int64),
       (''metadata'', r_string),
       (''errorCode'', r_int16)]"

definition offsetFetch_v3_decodeResponses :: "jv reader" where
  "offsetFetch_v3_decodeResponses =
     r_obj [(''topic'', r_string),
       (''partitions'', r_array offsetFetch_v3_decodePartitions)]"

definition offsetFetch_v3_decode :: "jv reader" where
  "offsetFetch_v3_decode =
     r_obj [(''throttleTime'', r_int32),
       (''responses'', r_array offsetFetch_v3_decodeResponses),
       (''errorCode'', r_int16)]"

definition offsetFetch_v3_layout :: "layout" where
  "offsetFetch_v3_layout =
     STRUCT [(Field ''throttleTime'', INT32), (Field ''responses'', ARRAY (STRUCT [(Field ''topic'', STRING),
       (Field ''partitions'', ARRAY (STRUCT [(Field ''partition'', INT32), (Field ''offset'', INT64),
       (Field ''metadata'', STRING), (Field ''errorCode'', INT16)]))])), (Field ''errorCode'', INT16)]"

lemma offsetFetch_v3_conforms [conformance]: "conforms offsetFetch_v3_layout offsetFetch_v3_decode"
  unfolding offsetFetch_v3_layout_def offsetFetch_v3_decode_def offsetFetch_v3_decodeResponses_def offsetFetch_v3_decodePartitions_def
  by (rule continues_literal layout_intros conforms_struct | assumption | simp)+

definition offsetFetch_v4_decode :: "jv reader" where
  "offsetFetch_v4_decode =
     rd_map client_side_throttle offsetFetch_v3_decode"

definition offsetFetch_v4_layout :: "layout" where
  "offsetFetch_v4_layout =
     STRUCT [(Throttle_last, INT32), (Field ''responses'', ARRAY (STRUCT [(Field ''topic'', STRING),
       (Field ''partitions'', ARRAY (STRUCT [(Field ''partition'', INT32), (Field ''offset'', INT64),
       (Field ''metadata'', STRING), (Field ''errorCode'', INT16)]))])), (Field ''errorCode'', INT16)]"

lemma offsetFetch_v4_conforms [conformance]: "conforms offsetFetch_v4_layout offsetFetch_v4_decode"
  unfolding offsetFetch_v4_layout_def offsetFetch_v4_decode_def
  by (rule conforms_throttle_first [OF offsetFetch_v3_conforms [unfolded offsetFetch_v3_layout_def]]) simp_all

definition offsetFetch_v5_decodePartitions :: "jv reader" where
  "offsetFetch_v5_decodePartitions =
     rd_bind (r_obj [(''partition'', r_int32),
       (''offset'', r_int64),
       (''committedLeaderEpoch'', r_int32),
       (''metadata'', r_uvarint_string),
       (''errorCode'', r_int16)]) (\<lambda>partition.
       rd_bind r_tagged (\<lambda>_.
       rd_return partition))"

definition offsetFetch_v5_decodeResponses :: "jv reader" where
  "offsetFetch_v5_decodeResponses =
     rd_bind (r_obj [(''topic'', r_uvarint_string),
       (''partitions'', r_uvarint_array offsetFetch_v5_decodePartitions)]) (\<lambda>response.
       rd_bind r_tagged (\<lambda>_.
       rd_return response))"

definition offsetFetch_v5_decode :: "jv reader" where
  "offsetFetch_v5_decode =
     rd_bind r_tagged (\<lambda>_.
       rd_bind r_int32 (\<lambda>throttleTime.
       rd_bind (r_uvarint_array offsetFetch_v5_decodeResponses) (\<lambda>responses.
       rd_bind r_int16 (\<lambda>errorCode.
       rd_bind r_tagged (\<lambda>_.
       rd_return (JObj [(''throttleTime'', JNum 0), (''clientSideThrottleTime'', throttleTime), (''responses'',
         responses), (''errorCode'', errorCode)]))))))"

definition offsetFetch_v5_layout :: "layout" where
  "offsetFetch_v5_layout =
     STRUCT [(Skip, TAG_BUFFER), (Throttle, INT32), (Field ''responses'',
       COMPACT_ARRAY (STRUCT [(Field ''topic'', COMPACT_STRING), (Field ''partitions'',
       COMPACT_ARRAY (STRUCT [(Field ''partition'', INT32), (Field ''offset'', INT64),
       (Field ''committedLeaderEpoch'', INT32), (Field ''metadata'', COMPACT_STRING), (Field ''errorCode'',
       INT16), (Skip, TAG_BUFFER)])), (Skip, TAG_BUFFER)])), (Field ''errorCode'', INT16), (Skip, TAG_BUFFER)]"

lemma offsetFetch_v5_conforms [conformance]: "conforms offsetFetch_v5_layout offsetFetch_v5_decode"
  unfolding offsetFetch_v5_layout_def offsetFetch_v5_decode_def offsetFetch_v5_decodeResponses_def offsetFetch_v5_decodePartitions_def
  by (rule continues_literal layout_intros conforms_struct | assumption | simp)+

definition offsetDelete_v0_decode :: "jv reader" where
  "offsetDelete_v0_decode =
     r_obj [(''errorCode'', r_int16),
       (''throttleTime'', r_int32),
       (''topics'', r_array (r_obj [(''topic'', r_string),
       (''partitions'', r_array (r_obj [(''partition'', r_int32),
       (''errorCode'', r_int16)]))]))]"

definition offsetDelete_v0_layout :: "layout" where
  "offsetDelete_v0_layout =
     STRUCT [(Field ''errorCode'', INT16), (Field ''throttleTime'', INT32), (Field ''topics'',
       ARRAY (STRUCT [(Field ''topic'', STRING), (Field ''partitions'', ARRAY (STRUCT [(Field ''partition'',
       INT32), (Field ''errorCode'', INT16)]))]))]"

lemma offsetDelete_v0_conforms [conformance]: "conforms offsetDelete_v0_layout offsetDelete_v0_decode"
  unfolding offsetDelete_v0_layout_def offsetDelete_v0_decode_def
  by (rule continues_literal layout_intros conforms_struct | assumption | simp)+

subsection \<open>All of them\<close>

definition group_responses :: "(string \<times> nat \<times> layout \<times> jv reader) list" where
  "group_responses =
     [(''joinGroup'', 0, joinGroup_v0_layout, joinGroup_v0_decode),
      (''joinGroup'', 1, joinGroup_v0_layout, joinGroup_v1_decode),
      (''joinGroup'', 2, joinGroup_v2_layout, joinGroup_v2_decode),
      (''joinGroup'', 3, joinGroup_v3_layout, joinGroup_v3_decode),
      (''joinGroup'', 4, joinGroup_v3_layout, joinGroup_v4_decode),
      (''joinGroup'', 5, joinGroup_v5_layout, joinGroup_v5_decode),
      (''syncGroup'', 0, syncGroup_v0_layout, syncGroup_v0_decode),
      (''syncGroup'', 1, syncGroup_v1_layout, syncGroup_v1_decode),
      (''syncGroup'', 2, syncGroup_v2_layout, syncGroup_v2_decode),
      (''syncGroup'', 3, syncGroup_v2_layout, syncGroup_v3_decode),
      (''heartbeat'', 0, heartbeat_v0_layout, heartbeat_v0_decode),
      (''heartbeat'', 1, heartbeat_v1_layout, heartbeat_v1_decode),
      (''heartbeat'', 2, heartbeat_v2_layout, heartbeat_v2_decode),
      (''heartbeat'', 3, heartbeat_v2_layout, heartbeat_v3_decode),
      (''heartbeat'', 4, heartbeat_v4_layout, heartbeat_v4_decode),
      (''leaveGroup'', 0, leaveGroup_v0_layout, leaveGroup_v0_decode),
      (''leaveGroup'', 1, leaveGroup_v1_layout, leaveGroup_v1_decode),
      (''leaveGroup'', 2, leaveGroup_v2_layout, leaveGroup_v2_decode),
      (''leaveGroup'', 3, leaveGroup_v3_layout, leaveGroup_v3_decode),
      (''leaveGroup'', 4, leaveGroup_v4_layout, leaveGroup_v4_decode),
      (''findCoordinator'', 0, findCoordinator_v0_layout, findCoordinator_v0_decode),
      (''findCoordinator'', 1, findCoordinator_v1_layout, findCoordinator_v1_decode),
      (''findCoordinator'', 2, findCoordinator_v2_layout, findCoordinator_v2_decode),
      (''findCoordinator'', 3, findCoordinator_v3_layout, findCoordinator_v3_decode),
      (''listGroups'', 0, listGroups_v0_layout, listGroups_v0_decode),
      (''listGroups'', 1, listGroups_v1_layout, listGroups_v1_decode),
      (''listGroups'', 2, listGroups_v2_layout, listGroups_v2_decode),
      (''listGroups'', 4, listGroups_v4_layout, listGroups_v4_decode),
      (''describeGroups'', 0, describeGroups_v0_layout, describeGroups_v0_decode),
      (''describeGroups'', 1, describeGroups_v1_layout, describeGroups_v1_decode),
      (''describeGroups'', 2, describeGroups_v2_layout, describeGroups_v2_decode),
      (''deleteGroups'', 0, deleteGroups_v0_layout, deleteGroups_v0_decode),
      (''deleteGroups'', 2, deleteGroups_v2_layout, deleteGroups_v2_decode),
      (''offsetCommit'', 0, offsetCommit_v0_layout, offsetCommit_v0_decode),
      (''offsetCommit'', 1, offsetCommit_v0_layout, offsetCommit_v1_decode),
      (''offsetCommit'', 2, offsetCommit_v0_layout, offsetCommit_v2_decode),
      (''offsetCommit'', 3, offsetCommit_v3_layout, offsetCommit_v3_decode),
      (''offsetCommit'', 4, offsetCommit_v4_layout, offsetCommit_v4_decode),
      (''offsetCommit'', 5, offsetCommit_v4_layout, offsetCommit_v5_decode),
      (''offsetCommit'', 6, offsetCommit_v6_layout, offsetCommit_v6_decode),
      (''offsetCommit'', 7, offsetCommit_v6_layout, offsetCommit_v7_decode),
      (''offsetFetch'', 1, offsetFetch_v1_layout, offsetFetch_v1_decode),
      (''offsetFetch'', 2, offsetFetch_v2_layout, offsetFetch_v2_decode),
      (''offsetFetch'', 3, offsetFetch_v3_layout, offsetFetch_v3_decode),
      (''offsetFetch'', 4, offsetFetch_v4_layout, offsetFetch_v4_decode),
      (''offsetFetch'', 5, offsetFetch_v5_layout, offsetFetch_v5_decode),
      (''offsetDelete'', 0, offsetDelete_v0_layout, offsetDelete_v0_decode)]"

lemma group_responses_conform: "\<forall>(_, _, t, r) \<in> set group_responses. conforms t r"
  by (simp add: group_responses_def conformance)

end
