(* ===== verification/Responses_Data.thy ===== *)
theory Responses_Data
  imports Protocol_Layout
begin

text \<open>
  The decoders of the responses about metadata, producing, offsets of partitions and transactions, one definition per function of the files
  \<^verbatim>\<open>src/protocol/requests/*/v*/response.js\<close>, the layouts that the comments of these files document, and the proof
  that every decoder conforms to its layout.
\<close>

subsection \<open>Versions and metadata\<close>

definition apiVersions_v0_apiVersion :: "jv reader" where
  "apiVersions_v0_apiVersion =
     r_obj [(''apiKey'', r_int16),
       (''minVersion'', r_int16),
       (''maxVersion'', r_int16)]"

definition apiVersions_v0_decode :: "jv reader" where
  "apiVersions_v0_decode =
     rd_bind r_int16 (\<lambda>errorCode.
       r_supported errorCode (
       rd_bind (r_array apiVersions_v0_apiVersion) (\<lambda>apiVersions.
       rd_return (JObj [(''errorCode'', errorCode), (''apiVersions'', apiVersions)]))))"

definition apiVersions_v0_layout :: "layout" where
  "apiVersions_v0_layout =
     STRUCT [(Checked ''errorCode'', INT16), (Field ''apiVersions'', ARRAY (STRUCT [(Field ''apiKey'', INT16),
       (Field ''minVersion'', INT16), (Field ''maxVersion'', INT16)]))]"

lemma apiVersions_v0_conforms [conformance]: "conforms apiVersions_v0_layout apiVersions_v0_decode"
  unfolding apiVersions_v0_layout_def apiVersions_v0_decode_def apiVersions_v0_apiVersion_def
  by (rule continues_literal layout_intros conforms_struct | assumption | simp)+

definition apiVersions_v1_apiVersion :: "jv reader" where
  "apiVersions_v1_apiVersion = r_obj [(''apiKey'', r_int16), (''minVersion'', r_int16), (''maxVersion'', r_int16)]"

definition apiVersions_v1_decode :: "jv reader" where
  "apiVersions_v1_decode =
     rd_bind r_int16 (\<lambda>errorCode.
       r_supported errorCode (
       rd_bind (r_array apiVersions_v1_apiVersion) (\<lambda>apiVersions.
       rd_bind r_int32_or_0 (\<lambda>throttleTime.
       rd_return (JObj [(''errorCode'', errorCode), (''apiVersions'', apiVersions), (''throttleTime'', throttleTime)])))))"

definition apiVersions_v1_layout :: "layout" where
  "apiVersions_v1_layout =
     STRUCT [(Checked ''errorCode'', INT16),
       (Field ''apiVersions'', ARRAY (STRUCT [(Field ''apiKey'', INT16), (Field ''minVersion'', INT16), (Field ''maxVersion'', INT16)])),
       (Field ''throttleTime'', INT32)]"

lemma apiVersions_v1_conforms [conformance]: "conforms apiVersions_v1_layout apiVersions_v1_decode"
  unfolding apiVersions_v1_layout_def apiVersions_v1_decode_def apiVersions_v1_apiVersion_def
  by (rule continues_literal layout_intros conforms_struct | assumption | simp)+

definition apiVersions_v2_decode :: "jv reader" where
  "apiVersions_v2_decode = rd_map client_side_throttle apiVersions_v1_decode"

definition apiVersions_v2_layout :: "layout" where
  "apiVersions_v2_layout =
     STRUCT [(Checked ''errorCode'', INT16),
       (Field ''apiVersions'', ARRAY (STRUCT [(Field ''apiKey'', INT16), (Field ''minVersion'', INT16), (Field ''maxVersion'', INT16)])),
       (Throttle_last, INT32)]"

lemma apiVersions_v2_conforms [conformance]: "conforms apiVersions_v2_layout apiVersions_v2_decode"
  unfolding apiVersions_v2_layout_def apiVersions_v2_decode_def
  using conforms_client_side_throttle [of "[x, y]" for x y, simplified, OF apiVersions_v1_conforms [unfolded apiVersions_v1_layout_def]]
  by simp

definition apiVersions_v3_decodeApiVersion :: "jv reader" where
  "apiVersions_v3_decodeApiVersion =
     rd_bind (r_obj [(''apiKey'', r_int16),
       (''minVersion'', r_int16),
       (''maxVersion'', r_int16)]) (\<lambda>apiVersion.
       rd_bind r_tagged (\<lambda>_.
       rd_return apiVersion))"

definition apiVersions_v3_decode :: "jv reader" where
  "apiVersions_v3_decode =
     rd_bind r_tagged (\<lambda>_.
       rd_bind r_int16 (\<lambda>errorCode.
       r_supported errorCode (
       rd_bind (r_uvarint_array apiVersions_v3_decodeApiVersion) (\<lambda>apiVersions.
       rd_bind r_int32 (\<lambda>throttleTime.
       rd_bind r_tagged (\<lambda>_.
       rd_return (JObj [(''errorCode'', errorCode), (''apiVersions'', apiVersions), (''throttleTime'', JNum 0),
         (''clientSideThrottleTime'', throttleTime)])))))))"

definition apiVersions_v3_layout :: "layout" where
  "apiVersions_v3_layout =
     STRUCT [(Skip, TAG_BUFFER), (Checked ''errorCode'', INT16), (Field ''apiVersions'',
       COMPACT_ARRAY (STRUCT [(Field ''apiKey'', INT16), (Field ''minVersion'', INT16), (Field ''maxVersion'',
       INT16), (Skip, TAG_BUFFER)])), (Throttle, INT32), (Skip, TAG_BUFFER)]"

lemma apiVersions_v3_conforms [conformance]: "conforms apiVersions_v3_layout apiVersions_v3_decode"
  unfolding apiVersions_v3_layout_def apiVersions_v3_decode_def apiVersions_v3_decodeApiVersion_def
  by (rule continues_literal layout_intros conforms_struct | assumption | simp)+

definition metadata_v0_broker :: "jv reader" where
  "metadata_v0_broker =
     r_obj [(''nodeId'', r_int32),
       (''host'', r_string),
       (''port'', r_int32)]"

definition metadata_v0_partitionMetadata :: "jv reader" where
  "metadata_v0_partitionMetadata =
     r_obj [(''partitionErrorCode'', r_int16),
       (''partitionId'', r_int32),
       (''leader'', r_int32),
       (''replicas'', r_array r_int32),
       (''isr'', r_array r_int32)]"

definition metadata_v0_topicMetadata :: "jv reader" where
  "metadata_v0_topicMetadata =
     r_obj [(''topicErrorCode'', r_int16),
       (''topic'', r_string),
       (''partitionMetadata'', r_array metadata_v0_partitionMetadata)]"

definition metadata_v0_decode :: "jv reader" where
  "metadata_v0_decode =
     r_obj [(''brokers'', r_array metadata_v0_broker),
       (''topicMetadata'', r_array metadata_v0_topicMetadata)]"

definition metadata_v0_layout :: "layout" where
  "metadata_v0_layout =
     STRUCT [(Field ''brokers'', ARRAY (STRUCT [(Field ''nodeId'', INT32), (Field ''host'', STRING),
       (Field ''port'', INT32)])), (Field ''topicMetadata'', ARRAY (STRUCT [(Field ''topicErrorCode'', INT16),
       (Field ''topic'', STRING), (Field ''partitionMetadata'', ARRAY (STRUCT [(Field ''partitionErrorCode'',
       INT16), (Field ''partitionId'', INT32), (Field ''leader'', INT32), (Field ''replicas'', ARRAY INT32),
       (Field ''isr'', ARRAY INT32)]))]))]"

lemma metadata_v0_conforms [conformance]: "conforms metadata_v0_layout metadata_v0_decode"
  unfolding metadata_v0_layout_def metadata_v0_decode_def metadata_v0_broker_def metadata_v0_topicMetadata_def metadata_v0_partitionMetadata_def
  by (rule continues_literal layout_intros conforms_struct | assumption | simp)+

definition metadata_v1_broker :: "jv reader" where
  "metadata_v1_broker =
     r_obj [(''nodeId'', r_int32),
       (''host'', r_string),
       (''port'', r_int32),
       (''rack'', r_string)]"

definition metadata_v1_partitionMetadata :: "jv reader" where
  "metadata_v1_partitionMetadata =
     r_obj [(''partitionErrorCode'', r_int16),
       (''partitionId'', r_int32),
       (''leader'', r_int32),
       (''replicas'', r_array r_int32),
       (''isr'', r_array r_int32)]"

definition metadata_v1_topicMetadata :: "jv reader" where
  "metadata_v1_topicMetadata =
     r_obj [(''topicErrorCode'', r_int16),
       (''topic'', r_string),
       (''isInternal'', r_boolean),
       (''partitionMetadata'', r_array metadata_v1_partitionMetadata)]"

definition metadata_v1_decode :: "jv reader" where
  "metadata_v1_decode =
     r_obj [(''brokers'', r_array metadata_v1_broker),
       (''controllerId'', r_int32),
       (''topicMetadata'', r_array metadata_v1_topicMetadata)]"

definition metadata_v1_layout :: "layout" where
  "metadata_v1_layout =
     STRUCT [(Field ''brokers'', ARRAY (STRUCT [(Field ''nodeId'', INT32), (Field ''host'', STRING),
       (Field ''port'', INT32), (Field ''rack'', STRING)])), (Field ''controllerId'', INT32),
       (Field ''topicMetadata'', ARRAY (STRUCT [(Field ''topicErrorCode'', INT16), (Field ''topic'', STRING),
       (Field ''isInternal'', BOOLEAN), (Field ''partitionMetadata'',
       ARRAY (STRUCT [(Field ''partitionErrorCode'', INT16), (Field ''partitionId'', INT32), (Field ''leader'',
       INT32), (Field ''replicas'', ARRAY INT32), (Field ''isr'', ARRAY INT32)]))]))]"

lemma metadata_v1_conforms [conformance]: "conforms metadata_v1_layout metadata_v1_decode"
  unfolding metadata_v1_layout_def metadata_v1_decode_def metadata_v1_broker_def metadata_v1_topicMetadata_def metadata_v1_partitionMetadata_def
  by (rule continues_literal layout_intros conforms_struct | assumption | simp)+

definition metadata_v2_broker :: "jv reader" where
  "metadata_v2_broker =
     r_obj [(''nodeId'', r_int32),
       (''host'', r_string),
       (''port'', r_int32),
       (''rack'', r_string)]"

definition metadata_v2_partitionMetadata :: "jv reader" where
  "metadata_v2_partitionMetadata =
     r_obj [(''partitionErrorCode'', r_int16),
       (''partitionId'', r_int32),
       (''leader'', r_int32),
       (''replicas'', r_array r_int32),
       (''isr'', r_array r_int32)]"

definition metadata_v2_topicMetadata :: "jv reader" where
  "metadata_v2_topicMetadata =
     r_obj [(''topicErrorCode'', r_int16),
       (''topic'', r_string),
       (''isInternal'', r_boolean),
       (''partitionMetadata'', r_array metadata_v2_partitionMetadata)]"

definition metadata_v2_decode :: "jv reader" where
  "metadata_v2_decode =
     r_obj [(''brokers'', r_array metadata_v2_broker),
       (''clusterId'', r_string),
       (''controllerId'', r_int32),
       (''topicMetadata'', r_array metadata_v2_topicMetadata)]"

definition metadata_v2_layout :: "layout" where
  "metadata_v2_layout =
     STRUCT [(Field ''brokers'', ARRAY (STRUCT [(Field ''nodeId'', INT32), (Field ''host'', STRING),
       (Field ''port'', INT32), (Field ''rack'', STRING)])), (Field ''clusterId'', STRING),
       (Field ''controllerId'', INT32), (Field ''topicMetadata'', ARRAY (STRUCT [(Field ''topicErrorCode'',
       INT16), (Field ''topic'', STRING), (Field ''isInternal'', BOOLEAN), (Field ''partitionMetadata'',
       ARRAY (STRUCT [(Field ''partitionErrorCode'', INT16), (Field ''partitionId'', INT32), (Field ''leader'',
       INT32), (Field ''replicas'', ARRAY INT32), (Field ''isr'', ARRAY INT32)]))]))]"

lemma metadata_v2_conforms [conformance]: "conforms metadata_v2_layout metadata_v2_decode"
  unfolding metadata_v2_layout_def metadata_v2_decode_def metadata_v2_broker_def metadata_v2_topicMetadata_def metadata_v2_partitionMetadata_def
  by (rule continues_literal layout_intros conforms_struct | assumption | simp)+

definition metadata_v3_broker :: "jv reader" where
  "metadata_v3_broker =
     r_obj [(''nodeId'', r_int32),
       (''host'', r_string),
       (''port'', r_int32),
       (''rack'', r_string)]"

definition metadata_v3_partitionMetadata :: "jv reader" where
  "metadata_v3_partitionMetadata =
     r_obj [(''partitionErrorCode'', r_int16),
       (''partitionId'', r_int32),
       (''leader'', r_int32),
       (''replicas'', r_array r_int32),
       (''isr'', r_array r_int32)]"

definition metadata_v3_topicMetadata :: "jv reader" where
  "metadata_v3_topicMetadata =
     r_obj [(''topicErrorCode'', r_int16),
       (''topic'', r_string),
       (''isInternal'', r_boolean),
       (''partitionMetadata'', r_array metadata_v3_partitionMetadata)]"

definition metadata_v3_decode :: "jv reader" where
  "metadata_v3_decode =
     r_obj [(''throttleTime'', r_int32),
       (''brokers'', r_array metadata_v3_broker),
       (''clusterId'', r_string),
       (''controllerId'', r_int32),
       (''topicMetadata'', r_array metadata_v3_topicMetadata)]"

definition metadata_v3_layout :: "layout" where
  "metadata_v3_layout =
     STRUCT [(Field ''throttleTime'', INT32), (Field ''brokers'', ARRAY (STRUCT [(Field ''nodeId'', INT32),
       (Field ''host'', STRING), (Field ''port'', INT32), (Field ''rack'', STRING)])), (Field ''clusterId'',
       STRING), (Field ''controllerId'', INT32), (Field ''topicMetadata'',
       ARRAY (STRUCT [(Field ''topicErrorCode'', INT16), (Field ''topic'', STRING), (Field ''isInternal'',
       BOOLEAN), (Field ''partitionMetadata'', ARRAY (STRUCT [(Field ''partitionErrorCode'', INT16),
       (Field ''partitionId'', INT32), (Field ''leader'', INT32), (Field ''replicas'', ARRAY INT32),
       (Field ''isr'', ARRAY INT32)]))]))]"

lemma metadata_v3_conforms [conformance]: "conforms metadata_v3_layout metadata_v3_decode"
  unfolding metadata_v3_layout_def metadata_v3_decode_def metadata_v3_broker_def metadata_v3_topicMetadata_def metadata_v3_partitionMetadata_def
  by (rule continues_literal layout_intros conforms_struct | assumption | simp)+

definition metadata_v4_decode :: "jv reader" where
  "metadata_v4_decode =
     metadata_v3_decode"

lemma metadata_v4_conforms [conformance]: "conforms metadata_v3_layout metadata_v4_decode"
  unfolding metadata_v4_decode_def by (rule metadata_v3_conforms)

definition metadata_v5_broker :: "jv reader" where
  "metadata_v5_broker =
     r_obj [(''nodeId'', r_int32),
       (''host'', r_string),
       (''port'', r_int32),
       (''rack'', r_string)]"

definition metadata_v5_partitionMetadata :: "jv reader" where
  "metadata_v5_partitionMetadata =
     r_obj [(''partitionErrorCode'', r_int16),
       (''partitionId'', r_int32),
       (''leader'', r_int32),
       (''replicas'', r_array r_int32),
       (''isr'', r_array r_int32),
       (''offlineReplicas'', r_array r_int32)]"

definition metadata_v5_topicMetadata :: "jv reader" where
  "metadata_v5_topicMetadata =
     r_obj [(''topicErrorCode'', r_int16),
       (''topic'', r_string),
       (''isInternal'', r_boolean),
       (''partitionMetadata'', r_array metadata_v5_partitionMetadata)]"

definition metadata_v5_decode :: "jv reader" where
  "metadata_v5_decode =
     r_obj [(''throttleTime'', r_int32),
       (''brokers'', r_array metadata_v5_broker),
       (''clusterId'', r_string),
       (''controllerId'', r_int32),
       (''topicMetadata'', r_array metadata_v5_topicMetadata)]"

definition metadata_v5_layout :: "layout" where
  "metadata_v5_layout =
     STRUCT [(Field ''throttleTime'', INT32), (Field ''brokers'', ARRAY (STRUCT [(Field ''nodeId'', INT32),
       (Field ''host'', STRING), (Field ''port'', INT32), (Field ''rack'', STRING)])), (Field ''clusterId'',
       STRING), (Field ''controllerId'', INT32), (Field ''topicMetadata'',
       ARRAY (STRUCT [(Field ''topicErrorCode'', INT16), (Field ''topic'', STRING), (Field ''isInternal'',
       BOOLEAN), (Field ''partitionMetadata'', ARRAY (STRUCT [(Field ''partitionErrorCode'', INT16),
       (Field ''partitionId'', INT32), (Field ''leader'', INT32), (Field ''replicas'', ARRAY INT32),
       (Field ''isr'', ARRAY INT32), (Field ''offlineReplicas'', ARRAY INT32)]))]))]"

lemma metadata_v5_conforms [conformance]: "conforms metadata_v5_layout metadata_v5_decode"
  unfolding metadata_v5_layout_def metadata_v5_decode_def metadata_v5_broker_def metadata_v5_topicMetadata_def metadata_v5_partitionMetadata_def
  by (rule continues_literal layout_intros conforms_struct | assumption | simp)+

definition metadata_v6_decode :: "jv reader" where
  "metadata_v6_decode =
     rd_map client_side_throttle metadata_v5_decode"

definition metadata_v6_layout :: "layout" where
  "metadata_v6_layout =
     STRUCT [(Throttle_last, INT32), (Field ''brokers'', ARRAY (STRUCT [(Field ''nodeId'', INT32),
       (Field ''host'', STRING), (Field ''port'', INT32), (Field ''rack'', STRING)])), (Field ''clusterId'',
       STRING), (Field ''controllerId'', INT32), (Field ''topicMetadata'',
       ARRAY (STRUCT [(Field ''topicErrorCode'', INT16), (Field ''topic'', STRING), (Field ''isInternal'',
       BOOLEAN), (Field ''partitionMetadata'', ARRAY (STRUCT [(Field ''partitionErrorCode'', INT16),
       (Field ''partitionId'', INT32), (Field ''leader'', INT32), (Field ''replicas'', ARRAY INT32),
       (Field ''isr'', ARRAY INT32), (Field ''offlineReplicas'', ARRAY INT32)]))]))]"

lemma metadata_v6_conforms [conformance]: "conforms metadata_v6_layout metadata_v6_decode"
  unfolding metadata_v6_layout_def metadata_v6_decode_def
  by (rule conforms_throttle_first [OF metadata_v5_conforms [unfolded metadata_v5_layout_def]]) simp_all

definition metadata_v7_broker :: "jv reader" where
  "metadata_v7_broker =
     r_obj [(''nodeId'', r_int32),
       (''host'', r_string),
       (''port'', r_int32),
       (''rack'', r_string)]"

definition metadata_v7_partitionMetadata :: "jv reader" where
  "metadata_v7_partitionMetadata =
     r_obj [(''partitionErrorCode'', r_int16),
       (''partitionId'', r_int32),
       (''leader'', r_int32),
       (''leaderEpoch'', r_int32),
       (''replicas'', r_array r_int32),
       (''isr'', r_array r_int32),
       (''offlineReplicas'', r_array r_int32)]"

definition metadata_v7_topicMetadata :: "jv reader" where
  "metadata_v7_topicMetadata =
     r_obj [(''topicErrorCode'', r_int16),
       (''topic'', r_string),
       (''isInternal'', r_boolean),
       (''partitionMetadata'', r_array metadata_v7_partitionMetadata)]"

definition metadata_v7_decode :: "jv reader" where
  "metadata_v7_decode =
     rd_bind r_int32 (\<lambda>throttleTime.
       rd_bind (r_array metadata_v7_broker) (\<lambda>brokers.
       rd_bind r_string (\<lambda>clusterId.
       rd_bind r_int32 (\<lambda>controllerId.
       rd_bind (r_array metadata_v7_topicMetadata) (\<lambda>topicMetadata.
       rd_return (JObj [(''throttleTime'', JNum 0), (''clientSideThrottleTime'', throttleTime), (''brokers'',
         brokers), (''clusterId'', clusterId), (''controllerId'', controllerId), (''topicMetadata'',
         topicMetadata)]))))))"

definition metadata_v7_layout :: "layout" where
  "metadata_v7_layout =
     STRUCT [(Throttle, INT32), (Field ''brokers'', ARRAY (STRUCT [(Field ''nodeId'', INT32), (Field ''host'',
       STRING), (Field ''port'', INT32), (Field ''rack'', STRING)])), (Field ''clusterId'', STRING),
       (Field ''controllerId'', INT32), (Field ''topicMetadata'', ARRAY (STRUCT [(Field ''topicErrorCode'',
       INT16), (Field ''topic'', STRING), (Field ''isInternal'', BOOLEAN), (Field ''partitionMetadata'',
       ARRAY (STRUCT [(Field ''partitionErrorCode'', INT16), (Field ''partitionId'', INT32), (Field ''leader'',
       INT32), (Field ''leaderEpoch'', INT32), (Field ''replicas'', ARRAY INT32), (Field ''isr'', ARRAY INT32),
       (Field ''offlineReplicas'', ARRAY INT32)]))]))]"

lemma metadata_v7_conforms [conformance]: "conforms metadata_v7_layout metadata_v7_decode"
  unfolding metadata_v7_layout_def metadata_v7_decode_def metadata_v7_broker_def metadata_v7_topicMetadata_def metadata_v7_partitionMetadata_def
  by (rule continues_literal layout_intros conforms_struct | assumption | simp)+

definition describeCluster_v0_decodeBrokers :: "jv reader" where
  "describeCluster_v0_decodeBrokers =
     rd_bind (r_obj [(''brokerId'', r_int32),
       (''host'', r_uvarint_string),
       (''port'', r_int32),
       (''rack'', r_uvarint_string)]) (\<lambda>broker.
       rd_bind r_tagged (\<lambda>_.
       rd_return broker))"

definition describeCluster_v0_decode :: "jv reader" where
  "describeCluster_v0_decode =
     rd_bind r_tagged (\<lambda>_.
       rd_bind r_int32 (\<lambda>throttleTime.
       rd_bind r_int16 (\<lambda>errorCode.
       rd_bind r_uvarint_string (\<lambda>errorMessage.
       rd_bind r_uvarint_string (\<lambda>clusterId.
       rd_bind r_int32 (\<lambda>controllerId.
       rd_bind (r_uvarint_array describeCluster_v0_decodeBrokers) (\<lambda>brokers.
       rd_bind r_int32 (\<lambda>clusterAuthorizedOperations.
       rd_return (JObj [(''throttleTime'', throttleTime), (''errorCode'', errorCode), (''errorMessage'',
         errorMessage), (''clusterId'', clusterId), (''controllerId'', controllerId), (''brokers'', brokers),
         (''clusterAuthorizedOperations'', clusterAuthorizedOperations)])))))))))"

definition describeCluster_v0_layout :: "layout" where
  "describeCluster_v0_layout =
     STRUCT [(Skip, TAG_BUFFER), (Field ''throttleTime'', INT32), (Field ''errorCode'', INT16),
       (Field ''errorMessage'', COMPACT_STRING), (Field ''clusterId'', COMPACT_STRING),
       (Field ''controllerId'', INT32), (Field ''brokers'', COMPACT_ARRAY (STRUCT [(Field ''brokerId'', INT32),
       (Field ''host'', COMPACT_STRING), (Field ''port'', INT32), (Field ''rack'', COMPACT_STRING), (Skip,
       TAG_BUFFER)])), (Field ''clusterAuthorizedOperations'', INT32)]"

lemma describeCluster_v0_conforms [conformance]: "conforms describeCluster_v0_layout describeCluster_v0_decode"
  unfolding describeCluster_v0_layout_def describeCluster_v0_decode_def describeCluster_v0_decodeBrokers_def
  by (rule continues_literal layout_intros conforms_struct | assumption | simp)+

definition describeCluster_v1_decode :: "jv reader" where
  "describeCluster_v1_decode =
     describeCluster_v0_decode"

lemma describeCluster_v1_conforms [conformance]: "conforms describeCluster_v0_layout describeCluster_v1_decode"
  unfolding describeCluster_v1_decode_def by (rule describeCluster_v0_conforms)

subsection \<open>Producing\<close>

definition produce_v0_partition :: "jv reader" where
  "produce_v0_partition =
     r_obj [(''partition'', r_int32),
       (''errorCode'', r_int16),
       (''offset'', r_int64)]"

definition produce_v0_decode :: "jv reader" where
  "produce_v0_decode =
     rd_bind (r_array (r_obj [(''topicName'', r_string),
       (''partitions'', r_array produce_v0_partition)])) (\<lambda>topics.
       rd_return (JObj [(''topics'', topics)]))"

definition produce_v0_layout :: "layout" where
  "produce_v0_layout =
     STRUCT [(Field ''topics'', ARRAY (STRUCT [(Field ''topicName'', STRING), (Field ''partitions'',
       ARRAY (STRUCT [(Field ''partition'', INT32), (Field ''errorCode'', INT16), (Field ''offset'',
       INT64)]))]))]"

lemma produce_v0_conforms [conformance]: "conforms produce_v0_layout produce_v0_decode"
  unfolding produce_v0_layout_def produce_v0_decode_def produce_v0_partition_def
  by (rule continues_literal layout_intros conforms_struct | assumption | simp)+

definition produce_v1_partition :: "jv reader" where
  "produce_v1_partition =
     r_obj [(''partition'', r_int32),
       (''errorCode'', r_int16),
       (''offset'', r_int64)]"

definition produce_v1_decode :: "jv reader" where
  "produce_v1_decode =
     rd_bind (r_array (r_obj [(''topicName'', r_string),
       (''partitions'', r_array produce_v1_partition)])) (\<lambda>topics.
       rd_bind r_int32 (\<lambda>throttleTime.
       rd_return (JObj [(''topics'', topics), (''throttleTime'', throttleTime)])))"

definition produce_v1_layout :: "layout" where
  "produce_v1_layout =
     STRUCT [(Field ''topics'', ARRAY (STRUCT [(Field ''topicName'', STRING), (Field ''partitions'',
       ARRAY (STRUCT [(Field ''partition'', INT32), (Field ''errorCode'', INT16), (Field ''offset'',
       INT64)]))])), (Field ''throttleTime'', INT32)]"

lemma produce_v1_conforms [conformance]: "conforms produce_v1_layout produce_v1_decode"
  unfolding produce_v1_layout_def produce_v1_decode_def produce_v1_partition_def
  by (rule continues_literal layout_intros conforms_struct | assumption | simp)+

definition produce_v2_partition :: "jv reader" where
  "produce_v2_partition =
     r_obj [(''partition'', r_int32),
       (''errorCode'', r_int16),
       (''offset'', r_int64),
       (''timestamp'', r_int64)]"

definition produce_v2_decode :: "jv reader" where
  "produce_v2_decode =
     rd_bind (r_array (r_obj [(''topicName'', r_string),
       (''partitions'', r_array produce_v2_partition)])) (\<lambda>topics.
       rd_bind r_int32 (\<lambda>throttleTime.
       rd_return (JObj [(''topics'', topics), (''throttleTime'', throttleTime)])))"

definition produce_v2_layout :: "layout" where
  "produce_v2_layout =
     STRUCT [(Field ''topics'', ARRAY (STRUCT [(Field ''topicName'', STRING), (Field ''partitions'',
       ARRAY (STRUCT [(Field ''partition'', INT32), (Field ''errorCode'', INT16), (Field ''offset'', INT64),
       (Field ''timestamp'', INT64)]))])), (Field ''throttleTime'', INT32)]"

lemma produce_v2_conforms [conformance]: "conforms produce_v2_layout produce_v2_decode"
  unfolding produce_v2_layout_def produce_v2_decode_def produce_v2_partition_def
  by (rule continues_literal layout_intros conforms_struct | assumption | simp)+

definition produce_v3_partition :: "jv reader" where
  "produce_v3_partition =
     r_obj [(''partition'', r_int32),
       (''errorCode'', r_int16),
       (''baseOffset'', r_int64),
       (''logAppendTime'', r_int64)]"

definition produce_v3_decode :: "jv reader" where
  "produce_v3_decode =
     rd_bind (r_array (r_obj [(''topicName'', r_string),
       (''partitions'', r_array produce_v3_partition)])) (\<lambda>topics.
       rd_bind r_int32 (\<lambda>throttleTime.
       rd_return (JObj [(''topics'', topics), (''throttleTime'', throttleTime)])))"

definition produce_v3_layout :: "layout" where
  "produce_v3_layout =
     STRUCT [(Field ''topics'', ARRAY (STRUCT [(Field ''topicName'', STRING), (Field ''partitions'',
       ARRAY (STRUCT [(Field ''partition'', INT32), (Field ''errorCode'', INT16), (Field ''baseOffset'',
       INT64), (Field ''logAppendTime'', INT64)]))])), (Field ''throttleTime'', INT32)]"

lemma produce_v3_conforms [conformance]: "conforms produce_v3_layout produce_v3_decode"
  unfolding produce_v3_layout_def produce_v3_decode_def produce_v3_partition_def
  by (rule continues_literal layout_intros conforms_struct | assumption | simp)+

definition produce_v4_decode :: "jv reader" where
  "produce_v4_decode =
     produce_v3_decode"

lemma produce_v4_conforms [conformance]: "conforms produce_v3_layout produce_v4_decode"
  unfolding produce_v4_decode_def by (rule produce_v3_conforms)

definition produce_v5_partition :: "jv reader" where
  "produce_v5_partition =
     r_obj [(''partition'', r_int32),
       (''errorCode'', r_int16),
       (''baseOffset'', r_int64),
       (''logAppendTime'', r_int64),
       (''logStartOffset'', r_int64)]"

definition produce_v5_decode :: "jv reader" where
  "produce_v5_decode =
     rd_bind (r_array (r_obj [(''topicName'', r_string),
       (''partitions'', r_array produce_v5_partition)])) (\<lambda>topics.
       rd_bind r_int32 (\<lambda>throttleTime.
       rd_return (JObj [(''topics'', topics), (''throttleTime'', throttleTime)])))"

definition produce_v5_layout :: "layout" where
  "produce_v5_layout =
     STRUCT [(Field ''topics'', ARRAY (STRUCT [(Field ''topicName'', STRING), (Field ''partitions'',
       ARRAY (STRUCT [(Field ''partition'', INT32), (Field ''errorCode'', INT16), (Field ''baseOffset'',
       INT64), (Field ''logAppendTime'', INT64), (Field ''logStartOffset'', INT64)]))])),
       (Field ''throttleTime'', INT32)]"

lemma produce_v5_conforms [conformance]: "conforms produce_v5_layout produce_v5_decode"
  unfolding produce_v5_layout_def produce_v5_decode_def produce_v5_partition_def
  by (rule continues_literal layout_intros conforms_struct | assumption | simp)+

definition produce_v6_decode :: "jv reader" where
  "produce_v6_decode =
     rd_map client_side_throttle produce_v5_decode"

definition produce_v6_layout :: "layout" where
  "produce_v6_layout =
     STRUCT [(Field ''topics'', ARRAY (STRUCT [(Field ''topicName'', STRING), (Field ''partitions'',
       ARRAY (STRUCT [(Field ''partition'', INT32), (Field ''errorCode'', INT16), (Field ''baseOffset'',
       INT64), (Field ''logAppendTime'', INT64), (Field ''logStartOffset'', INT64)]))])), (Throttle_last,
       INT32)]"

lemma produce_v6_conforms [conformance]: "conforms produce_v6_layout produce_v6_decode"
  unfolding produce_v6_layout_def produce_v6_decode_def
  by (rule conforms_throttle_second [OF produce_v5_conforms [unfolded produce_v5_layout_def]]) simp_all

definition produce_v7_decode :: "jv reader" where
  "produce_v7_decode =
     produce_v6_decode"

lemma produce_v7_conforms [conformance]: "conforms produce_v6_layout produce_v7_decode"
  unfolding produce_v7_decode_def by (rule produce_v6_conforms)

definition produce_v8_decodeRecordError :: "jv reader" where
  "produce_v8_decodeRecordError =
     r_obj [(''batchIndex'', r_int32),
       (''batchIndexErrorMessage'', r_string)]"

definition produce_v8_partition :: "jv reader" where
  "produce_v8_partition =
     r_obj [(''partition'', r_int32),
       (''errorCode'', r_int16),
       (''baseOffset'', r_int64),
       (''logAppendTime'', r_int64),
       (''logStartOffset'', r_int64),
       (''recordErrors'', r_array produce_v8_decodeRecordError),
       (''errorMessage'', r_string)]"

definition produce_v8_decode :: "jv reader" where
  "produce_v8_decode =
     rd_bind (r_array (r_obj [(''topicName'', r_string),
       (''partitions'', r_array produce_v8_partition)])) (\<lambda>topics.
       rd_bind r_int32 (\<lambda>throttleTime.
       rd_return (JObj [(''topics'', topics), (''throttleTime'', JNum 0), (''clientSideThrottleTime'',
         throttleTime)])))"

definition produce_v8_layout :: "layout" where
  "produce_v8_layout =
     STRUCT [(Field ''topics'', ARRAY (STRUCT [(Field ''topicName'', STRING), (Field ''partitions'',
       ARRAY (STRUCT [(Field ''partition'', INT32), (Field ''errorCode'', INT16), (Field ''baseOffset'',
       INT64), (Field ''logAppendTime'', INT64), (Field ''logStartOffset'', INT64), (Field ''recordErrors'',
       ARRAY (STRUCT [(Field ''batchIndex'', INT32), (Field ''batchIndexErrorMessage'', STRING)])),
       (Field ''errorMessage'', STRING)]))])), (Throttle, INT32)]"

lemma produce_v8_conforms [conformance]: "conforms produce_v8_layout produce_v8_decode"
  unfolding produce_v8_layout_def produce_v8_decode_def produce_v8_partition_def produce_v8_decodeRecordError_def
  by (rule continues_literal layout_intros conforms_struct | assumption | simp)+

definition produce_v9_decodeRecordError :: "jv reader" where
  "produce_v9_decodeRecordError =
     rd_bind (r_obj [(''batchIndex'', r_int32),
       (''batchIndexErrorMessage'', r_uvarint_string)]) (\<lambda>recordError.
       rd_bind r_tagged (\<lambda>_.
       rd_return recordError))"

definition produce_v9_partition :: "jv reader" where
  "produce_v9_partition =
     rd_bind (r_obj [(''partition'', r_int32),
       (''errorCode'', r_int16),
       (''baseOffset'', r_int64),
       (''logAppendTime'', r_int64),
       (''logStartOffset'', r_int64),
       (''recordErrors'', r_uvarint_array produce_v9_decodeRecordError),
       (''errorMessage'', r_uvarint_string)]) (\<lambda>partitionData.
       rd_bind r_tagged (\<lambda>_.
       rd_return partitionData))"

definition produce_v9_decode :: "jv reader" where
  "produce_v9_decode =
     rd_bind r_tagged (\<lambda>_.
       rd_bind (r_uvarint_array (rd_bind (r_obj [(''topicName'', r_uvarint_string),
       (''partitions'', r_uvarint_array produce_v9_partition)]) (\<lambda>topic.
       rd_bind r_tagged (\<lambda>_.
       rd_return topic)))) (\<lambda>topics.
       rd_bind r_int32 (\<lambda>throttleTime.
       rd_bind r_tagged (\<lambda>_.
       rd_return (JObj [(''topics'', topics), (''throttleTime'', JNum 0), (''clientSideThrottleTime'',
         throttleTime)])))))"

definition produce_v9_layout :: "layout" where
  "produce_v9_layout =
     STRUCT [(Skip, TAG_BUFFER), (Field ''topics'', COMPACT_ARRAY (STRUCT [(Field ''topicName'',
       COMPACT_STRING), (Field ''partitions'', COMPACT_ARRAY (STRUCT [(Field ''partition'', INT32),
       (Field ''errorCode'', INT16), (Field ''baseOffset'', INT64), (Field ''logAppendTime'', INT64),
       (Field ''logStartOffset'', INT64), (Field ''recordErrors'',
       COMPACT_ARRAY (STRUCT [(Field ''batchIndex'', INT32), (Field ''batchIndexErrorMessage'',
       COMPACT_STRING), (Skip, TAG_BUFFER)])), (Field ''errorMessage'', COMPACT_STRING), (Skip, TAG_BUFFER)])),
       (Skip, TAG_BUFFER)])), (Throttle, INT32), (Skip, TAG_BUFFER)]"

lemma produce_v9_conforms [conformance]: "conforms produce_v9_layout produce_v9_decode"
  unfolding produce_v9_layout_def produce_v9_decode_def produce_v9_partition_def produce_v9_decodeRecordError_def
  by (rule continues_literal layout_intros conforms_struct | assumption | simp)+

definition initProducerId_v0_decode :: "jv reader" where
  "initProducerId_v0_decode =
     rd_bind r_int32 (\<lambda>throttleTime.
       rd_bind r_int16 (\<lambda>errorCode.
       r_supported errorCode (
       rd_bind r_int64 (\<lambda>producerId.
       rd_bind r_int16 (\<lambda>producerEpoch.
       rd_return (JObj [(''throttleTime'', throttleTime), (''errorCode'', errorCode), (''producerId'',
         producerId), (''producerEpoch'', producerEpoch)]))))))"

definition initProducerId_v0_layout :: "layout" where
  "initProducerId_v0_layout =
     STRUCT [(Field ''throttleTime'', INT32), (Checked ''errorCode'', INT16), (Field ''producerId'', INT64),
       (Field ''producerEpoch'', INT16)]"

lemma initProducerId_v0_conforms [conformance]: "conforms initProducerId_v0_layout initProducerId_v0_decode"
  unfolding initProducerId_v0_layout_def initProducerId_v0_decode_def
  by (rule continues_literal layout_intros conforms_struct | assumption | simp)+

definition initProducerId_v1_decode :: "jv reader" where
  "initProducerId_v1_decode =
     rd_map client_side_throttle initProducerId_v0_decode"

definition initProducerId_v1_layout :: "layout" where
  "initProducerId_v1_layout =
     STRUCT [(Throttle_last, INT32), (Checked ''errorCode'', INT16), (Field ''producerId'', INT64),
       (Field ''producerEpoch'', INT16)]"

lemma initProducerId_v1_conforms [conformance]: "conforms initProducerId_v1_layout initProducerId_v1_decode"
  unfolding initProducerId_v1_layout_def initProducerId_v1_decode_def
  by (rule conforms_throttle_first [OF initProducerId_v0_conforms [unfolded initProducerId_v0_layout_def]]) simp_all

definition initProducerId_v2_decode :: "jv reader" where
  "initProducerId_v2_decode =
     rd_bind r_tagged (\<lambda>_.
       rd_bind r_int32 (\<lambda>throttleTime.
       rd_bind r_int16 (\<lambda>errorCode.
       r_supported errorCode (
       rd_bind r_int64 (\<lambda>producerId.
       rd_bind r_int16 (\<lambda>producerEpoch.
       rd_bind r_tagged (\<lambda>_.
       rd_return (JObj [(''throttleTime'', JNum 0), (''clientSideThrottleTime'', throttleTime), (''errorCode'',
         errorCode), (''producerId'', producerId), (''producerEpoch'', producerEpoch)]))))))))"

definition initProducerId_v2_layout :: "layout" where
  "initProducerId_v2_layout =
     STRUCT [(Skip, TAG_BUFFER), (Throttle, INT32), (Checked ''errorCode'', INT16), (Field ''producerId'',
       INT64), (Field ''producerEpoch'', INT16), (Skip, TAG_BUFFER)]"

lemma initProducerId_v2_conforms [conformance]: "conforms initProducerId_v2_layout initProducerId_v2_decode"
  unfolding initProducerId_v2_layout_def initProducerId_v2_decode_def
  by (rule continues_literal layout_intros conforms_struct | assumption | simp)+

definition initProducerId_v3_decode :: "jv reader" where
  "initProducerId_v3_decode =
     initProducerId_v2_decode"

lemma initProducerId_v3_conforms [conformance]: "conforms initProducerId_v2_layout initProducerId_v3_decode"
  unfolding initProducerId_v3_decode_def by (rule initProducerId_v2_conforms)

definition describeProducers_v0_decodeActiveProducers :: "jv reader" where
  "describeProducers_v0_decodeActiveProducers =
     rd_bind (r_obj [(''producerId'', r_int64),
       (''producerEpoch'', r_int32),
       (''lastSequence'', r_int32),
       (''lastTimestamp'', r_int64),
       (''coordinatorEpoch'', r_int32),
       (''currentTxnStartOffset'', r_int64)]) (\<lambda>producer.
       rd_bind r_tagged (\<lambda>_.
       rd_return producer))"

definition describeProducers_v0_decodePartitions :: "jv reader" where
  "describeProducers_v0_decodePartitions =
     rd_bind (r_obj [(''partitionIndex'', r_int32),
       (''errorCode'', r_int16),
       (''errorMessage'', r_uvarint_string),
       (''activeProducers'', r_uvarint_array describeProducers_v0_decodeActiveProducers)]) (\<lambda>partition.
       rd_bind r_tagged (\<lambda>_.
       rd_return partition))"

definition describeProducers_v0_decodeTopics :: "jv reader" where
  "describeProducers_v0_decodeTopics =
     rd_bind (r_obj [(''name'', r_uvarint_string),
       (''partitions'', r_uvarint_array describeProducers_v0_decodePartitions)]) (\<lambda>topic.
       rd_bind r_tagged (\<lambda>_.
       rd_return topic))"

definition describeProducers_v0_decode :: "jv reader" where
  "describeProducers_v0_decode =
     rd_bind r_tagged (\<lambda>_.
       rd_bind r_int32 (\<lambda>throttleTime.
       rd_bind (r_uvarint_array describeProducers_v0_decodeTopics) (\<lambda>topics.
       rd_return (JObj [(''throttleTime'', throttleTime), (''topics'', topics)]))))"

definition describeProducers_v0_layout :: "layout" where
  "describeProducers_v0_layout =
     STRUCT [(Skip, TAG_BUFFER), (Field ''throttleTime'', INT32), (Field ''topics'',
       COMPACT_ARRAY (STRUCT [(Field ''name'', COMPACT_STRING), (Field ''partitions'',
       COMPACT_ARRAY (STRUCT [(Field ''partitionIndex'', INT32), (Field ''errorCode'', INT16),
       (Field ''errorMessage'', COMPACT_STRING), (Field ''activeProducers'',
       COMPACT_ARRAY (STRUCT [(Field ''producerId'', INT64), (Field ''producerEpoch'', INT32),
       (Field ''lastSequence'', INT32), (Field ''lastTimestamp'', INT64), (Field ''coordinatorEpoch'', INT32),
       (Field ''currentTxnStartOffset'', INT64), (Skip, TAG_BUFFER)])), (Skip, TAG_BUFFER)])), (Skip,
       TAG_BUFFER)]))]"

lemma describeProducers_v0_conforms [conformance]: "conforms describeProducers_v0_layout describeProducers_v0_decode"
  unfolding describeProducers_v0_layout_def describeProducers_v0_decode_def describeProducers_v0_decodeTopics_def describeProducers_v0_decodePartitions_def describeProducers_v0_decodeActiveProducers_def
  by (rule continues_literal layout_intros conforms_struct | assumption | simp)+

subsection \<open>Offsets of partitions\<close>

definition listOffsets_v0_decodeOffsets :: "jv reader" where
  "listOffsets_v0_decodeOffsets =
     r_int64"

definition listOffsets_v0_decodePartitions :: "jv reader" where
  "listOffsets_v0_decodePartitions =
     r_obj [(''partition'', r_int32),
       (''errorCode'', r_int16),
       (''offsets'', r_array listOffsets_v0_decodeOffsets)]"

definition listOffsets_v0_decodeResponses :: "jv reader" where
  "listOffsets_v0_decodeResponses =
     r_obj [(''topic'', r_string),
       (''partitions'', r_array listOffsets_v0_decodePartitions)]"

definition listOffsets_v0_decode :: "jv reader" where
  "listOffsets_v0_decode =
     r_obj [(''responses'', r_array listOffsets_v0_decodeResponses)]"

definition listOffsets_v0_layout :: "layout" where
  "listOffsets_v0_layout =
     STRUCT [(Field ''responses'', ARRAY (STRUCT [(Field ''topic'', STRING), (Field ''partitions'',
       ARRAY (STRUCT [(Field ''partition'', INT32), (Field ''errorCode'', INT16), (Field ''offsets'',
       ARRAY INT64)]))]))]"

lemma listOffsets_v0_conforms [conformance]: "conforms listOffsets_v0_layout listOffsets_v0_decode"
  unfolding listOffsets_v0_layout_def listOffsets_v0_decode_def listOffsets_v0_decodeResponses_def listOffsets_v0_decodePartitions_def listOffsets_v0_decodeOffsets_def
  by (rule continues_literal layout_intros conforms_struct | assumption | simp)+

definition listOffsets_v1_decodePartitions :: "jv reader" where
  "listOffsets_v1_decodePartitions =
     r_obj [(''partition'', r_int32),
       (''errorCode'', r_int16),
       (''timestamp'', r_int64),
       (''offset'', r_int64)]"

definition listOffsets_v1_decodeResponses :: "jv reader" where
  "listOffsets_v1_decodeResponses =
     r_obj [(''topic'', r_string),
       (''partitions'', r_array listOffsets_v1_decodePartitions)]"

definition listOffsets_v1_decode :: "jv reader" where
  "listOffsets_v1_decode =
     r_obj [(''responses'', r_array listOffsets_v1_decodeResponses)]"

definition listOffsets_v1_layout :: "layout" where
  "listOffsets_v1_layout =
     STRUCT [(Field ''responses'', ARRAY (STRUCT [(Field ''topic'', STRING), (Field ''partitions'',
       ARRAY (STRUCT [(Field ''partition'', INT32), (Field ''errorCode'', INT16), (Field ''timestamp'', INT64),
       (Field ''offset'', INT64)]))]))]"

lemma listOffsets_v1_conforms [conformance]: "conforms listOffsets_v1_layout listOffsets_v1_decode"
  unfolding listOffsets_v1_layout_def listOffsets_v1_decode_def listOffsets_v1_decodeResponses_def listOffsets_v1_decodePartitions_def
  by (rule continues_literal layout_intros conforms_struct | assumption | simp)+

definition listOffsets_v2_decodePartitions :: "jv reader" where
  "listOffsets_v2_decodePartitions =
     r_obj [(''partition'', r_int32),
       (''errorCode'', r_int16),
       (''timestamp'', r_int64),
       (''offset'', r_int64)]"

definition listOffsets_v2_decodeResponses :: "jv reader" where
  "listOffsets_v2_decodeResponses =
     r_obj [(''topic'', r_string),
       (''partitions'', r_array listOffsets_v2_decodePartitions)]"

definition listOffsets_v2_decode :: "jv reader" where
  "listOffsets_v2_decode =
     r_obj [(''throttleTime'', r_int32),
       (''responses'', r_array listOffsets_v2_decodeResponses)]"

definition listOffsets_v2_layout :: "layout" where
  "listOffsets_v2_layout =
     STRUCT [(Field ''throttleTime'', INT32), (Field ''responses'', ARRAY (STRUCT [(Field ''topic'', STRING),
       (Field ''partitions'', ARRAY (STRUCT [(Field ''partition'', INT32), (Field ''errorCode'', INT16),
       (Field ''timestamp'', INT64), (Field ''offset'', INT64)]))]))]"

lemma listOffsets_v2_conforms [conformance]: "conforms listOffsets_v2_layout listOffsets_v2_decode"
  unfolding listOffsets_v2_layout_def listOffsets_v2_decode_def listOffsets_v2_decodeResponses_def listOffsets_v2_decodePartitions_def
  by (rule continues_literal layout_intros conforms_struct | assumption | simp)+

definition listOffsets_v3_decode :: "jv reader" where
  "listOffsets_v3_decode =
     rd_map client_side_throttle listOffsets_v2_decode"

definition listOffsets_v3_layout :: "layout" where
  "listOffsets_v3_layout =
     STRUCT [(Throttle_last, INT32), (Field ''responses'', ARRAY (STRUCT [(Field ''topic'', STRING),
       (Field ''partitions'', ARRAY (STRUCT [(Field ''partition'', INT32), (Field ''errorCode'', INT16),
       (Field ''timestamp'', INT64), (Field ''offset'', INT64)]))]))]"

lemma listOffsets_v3_conforms [conformance]: "conforms listOffsets_v3_layout listOffsets_v3_decode"
  unfolding listOffsets_v3_layout_def listOffsets_v3_decode_def
  by (rule conforms_throttle_first [OF listOffsets_v2_conforms [unfolded listOffsets_v2_layout_def]]) simp_all

definition listOffsets_v4_decodePartitions :: "jv reader" where
  "listOffsets_v4_decodePartitions =
     r_obj [(''partition'', r_int32),
       (''errorCode'', r_int16),
       (''timestamp'', r_int64),
       (''offset'', r_int64),
       (''leaderEpoch'', r_int32)]"

definition listOffsets_v4_decodeResponses :: "jv reader" where
  "listOffsets_v4_decodeResponses =
     r_obj [(''topic'', r_string),
       (''partitions'', r_array listOffsets_v4_decodePartitions)]"

definition listOffsets_v4_decode :: "jv reader" where
  "listOffsets_v4_decode =
     rd_bind r_int32 (\<lambda>clientSideThrottleTime.
       rd_bind (r_array listOffsets_v4_decodeResponses) (\<lambda>responses.
       rd_return (JObj [(''throttleTime'', JNum 0), (''clientSideThrottleTime'', clientSideThrottleTime),
         (''responses'', responses)])))"

definition listOffsets_v4_layout :: "layout" where
  "listOffsets_v4_layout =
     STRUCT [(Throttle, INT32), (Field ''responses'', ARRAY (STRUCT [(Field ''topic'', STRING),
       (Field ''partitions'', ARRAY (STRUCT [(Field ''partition'', INT32), (Field ''errorCode'', INT16),
       (Field ''timestamp'', INT64), (Field ''offset'', INT64), (Field ''leaderEpoch'', INT32)]))]))]"

lemma listOffsets_v4_conforms [conformance]: "conforms listOffsets_v4_layout listOffsets_v4_decode"
  unfolding listOffsets_v4_layout_def listOffsets_v4_decode_def listOffsets_v4_decodeResponses_def listOffsets_v4_decodePartitions_def
  by (rule continues_literal layout_intros conforms_struct | assumption | simp)+

definition offsetForLeaderEpoch_v0_decodePartitions :: "jv reader" where
  "offsetForLeaderEpoch_v0_decodePartitions =
     r_obj [(''errorCode'', r_int16),
       (''partition'', r_int32),
       (''endOffset'', r_int64)]"

definition offsetForLeaderEpoch_v0_decodeTopics :: "jv reader" where
  "offsetForLeaderEpoch_v0_decodeTopics =
     r_obj [(''topic'', r_string),
       (''partitions'', r_array offsetForLeaderEpoch_v0_decodePartitions)]"

definition offsetForLeaderEpoch_v0_decode :: "jv reader" where
  "offsetForLeaderEpoch_v0_decode =
     r_obj [(''topics'', r_array offsetForLeaderEpoch_v0_decodeTopics)]"

definition offsetForLeaderEpoch_v0_layout :: "layout" where
  "offsetForLeaderEpoch_v0_layout =
     STRUCT [(Field ''topics'', ARRAY (STRUCT [(Field ''topic'', STRING), (Field ''partitions'',
       ARRAY (STRUCT [(Field ''errorCode'', INT16), (Field ''partition'', INT32), (Field ''endOffset'',
       INT64)]))]))]"

lemma offsetForLeaderEpoch_v0_conforms [conformance]: "conforms offsetForLeaderEpoch_v0_layout offsetForLeaderEpoch_v0_decode"
  unfolding offsetForLeaderEpoch_v0_layout_def offsetForLeaderEpoch_v0_decode_def offsetForLeaderEpoch_v0_decodeTopics_def offsetForLeaderEpoch_v0_decodePartitions_def
  by (rule continues_literal layout_intros conforms_struct | assumption | simp)+

definition offsetForLeaderEpoch_v2_decodePartitions :: "jv reader" where
  "offsetForLeaderEpoch_v2_decodePartitions =
     r_obj [(''errorCode'', r_int16),
       (''partition'', r_int32),
       (''leaderEpoch'', r_int32),
       (''endOffset'', r_int64)]"

definition offsetForLeaderEpoch_v2_decodeTopics :: "jv reader" where
  "offsetForLeaderEpoch_v2_decodeTopics =
     r_obj [(''topic'', r_string),
       (''partitions'', r_array offsetForLeaderEpoch_v2_decodePartitions)]"

definition offsetForLeaderEpoch_v2_decode :: "jv reader" where
  "offsetForLeaderEpoch_v2_decode =
     r_obj [(''topics'', r_array offsetForLeaderEpoch_v2_decodeTopics)]"

definition offsetForLeaderEpoch_v2_layout :: "layout" where
  "offsetForLeaderEpoch_v2_layout =
     STRUCT [(Field ''topics'', ARRAY (STRUCT [(Field ''topic'', STRING), (Field ''partitions'',
       ARRAY (STRUCT [(Field ''errorCode'', INT16), (Field ''partition'', INT32), (Field ''leaderEpoch'',
       INT32), (Field ''endOffset'', INT64)]))]))]"

lemma offsetForLeaderEpoch_v2_conforms [conformance]: "conforms offsetForLeaderEpoch_v2_layout offsetForLeaderEpoch_v2_decode"
  unfolding offsetForLeaderEpoch_v2_layout_def offsetForLeaderEpoch_v2_decode_def offsetForLeaderEpoch_v2_decodeTopics_def offsetForLeaderEpoch_v2_decodePartitions_def
  by (rule continues_literal layout_intros conforms_struct | assumption | simp)+

definition offsetForLeaderEpoch_v3_decodePartitions :: "jv reader" where
  "offsetForLeaderEpoch_v3_decodePartitions =
     rd_bind (r_obj [(''errorCode'', r_int16),
       (''partition'', r_int32),
       (''leaderEpoch'', r_int32),
       (''endOffset'', r_int64)]) (\<lambda>partition.
       rd_bind r_tagged (\<lambda>_.
       rd_return partition))"

definition offsetForLeaderEpoch_v3_decodeTopics :: "jv reader" where
  "offsetForLeaderEpoch_v3_decodeTopics =
     rd_bind (r_obj [(''topic'', r_uvarint_string),
       (''partitions'', r_uvarint_array offsetForLeaderEpoch_v3_decodePartitions)]) (\<lambda>topic.
       rd_bind r_tagged (\<lambda>_.
       rd_return topic))"

definition offsetForLeaderEpoch_v3_decode :: "jv reader" where
  "offsetForLeaderEpoch_v3_decode =
     rd_bind r_tagged (\<lambda>_.
       rd_bind (r_obj [(''topics'', r_uvarint_array offsetForLeaderEpoch_v3_decodeTopics)]) (\<lambda>result.
       rd_bind r_tagged (\<lambda>_.
       rd_return result)))"

definition offsetForLeaderEpoch_v3_layout :: "layout" where
  "offsetForLeaderEpoch_v3_layout =
     STRUCT [(Skip, TAG_BUFFER), (Field ''topics'', COMPACT_ARRAY (STRUCT [(Field ''topic'', COMPACT_STRING),
       (Field ''partitions'', COMPACT_ARRAY (STRUCT [(Field ''errorCode'', INT16), (Field ''partition'',
       INT32), (Field ''leaderEpoch'', INT32), (Field ''endOffset'', INT64), (Skip, TAG_BUFFER)])), (Skip,
       TAG_BUFFER)])), (Skip, TAG_BUFFER)]"

lemma offsetForLeaderEpoch_v3_conforms [conformance]: "conforms offsetForLeaderEpoch_v3_layout offsetForLeaderEpoch_v3_decode"
  unfolding offsetForLeaderEpoch_v3_layout_def offsetForLeaderEpoch_v3_decode_def offsetForLeaderEpoch_v3_decodeTopics_def offsetForLeaderEpoch_v3_decodePartitions_def
  by (rule continues_literal layout_intros conforms_struct | assumption | simp)+

subsection \<open>Transactions\<close>

definition addOffsetsToTxn_v0_decode :: "jv reader" where
  "addOffsetsToTxn_v0_decode =
     rd_bind r_int32 (\<lambda>throttleTime.
       rd_bind r_int16 (\<lambda>errorCode.
       r_supported errorCode (
       rd_return (JObj [(''throttleTime'', throttleTime), (''errorCode'', errorCode)]))))"

definition addOffsetsToTxn_v0_layout :: "layout" where
  "addOffsetsToTxn_v0_layout =
     STRUCT [(Field ''throttleTime'', INT32), (Checked ''errorCode'', INT16)]"

lemma addOffsetsToTxn_v0_conforms [conformance]: "conforms addOffsetsToTxn_v0_layout addOffsetsToTxn_v0_decode"
  unfolding addOffsetsToTxn_v0_layout_def addOffsetsToTxn_v0_decode_def
  by (rule continues_literal layout_intros conforms_struct | assumption | simp)+

definition addOffsetsToTxn_v1_decode :: "jv reader" where
  "addOffsetsToTxn_v1_decode =
     rd_map client_side_throttle addOffsetsToTxn_v0_decode"

definition addOffsetsToTxn_v1_layout :: "layout" where
  "addOffsetsToTxn_v1_layout =
     STRUCT [(Throttle_last, INT32), (Checked ''errorCode'', INT16)]"

lemma addOffsetsToTxn_v1_conforms [conformance]: "conforms addOffsetsToTxn_v1_layout addOffsetsToTxn_v1_decode"
  unfolding addOffsetsToTxn_v1_layout_def addOffsetsToTxn_v1_decode_def
  by (rule conforms_throttle_first [OF addOffsetsToTxn_v0_conforms [unfolded addOffsetsToTxn_v0_layout_def]]) simp_all

definition addPartitionsToTxn_v0_decodePartitionError :: "jv reader" where
  "addPartitionsToTxn_v0_decodePartitionError =
     r_obj [(''partition'', r_int32),
       (''errorCode'', r_int16)]"

definition addPartitionsToTxn_v0_decodeError :: "jv reader" where
  "addPartitionsToTxn_v0_decodeError =
     r_obj [(''topic'', r_string),
       (''partitionErrors'', r_array addPartitionsToTxn_v0_decodePartitionError)]"

definition addPartitionsToTxn_v0_decode :: "jv reader" where
  "addPartitionsToTxn_v0_decode =
     rd_bind r_int32 (\<lambda>throttleTime.
       rd_bind (r_array addPartitionsToTxn_v0_decodeError) (\<lambda>errors.
       rd_return (JObj [(''throttleTime'', throttleTime), (''errors'', errors)])))"

definition addPartitionsToTxn_v0_layout :: "layout" where
  "addPartitionsToTxn_v0_layout =
     STRUCT [(Field ''throttleTime'', INT32), (Field ''errors'', ARRAY (STRUCT [(Field ''topic'', STRING),
       (Field ''partitionErrors'', ARRAY (STRUCT [(Field ''partition'', INT32), (Field ''errorCode'',
       INT16)]))]))]"

lemma addPartitionsToTxn_v0_conforms [conformance]: "conforms addPartitionsToTxn_v0_layout addPartitionsToTxn_v0_decode"
  unfolding addPartitionsToTxn_v0_layout_def addPartitionsToTxn_v0_decode_def addPartitionsToTxn_v0_decodeError_def addPartitionsToTxn_v0_decodePartitionError_def
  by (rule continues_literal layout_intros conforms_struct | assumption | simp)+

definition addPartitionsToTxn_v1_decode :: "jv reader" where
  "addPartitionsToTxn_v1_decode =
     rd_map client_side_throttle addPartitionsToTxn_v0_decode"

definition addPartitionsToTxn_v1_layout :: "layout" where
  "addPartitionsToTxn_v1_layout =
     STRUCT [(Throttle_last, INT32), (Field ''errors'', ARRAY (STRUCT [(Field ''topic'', STRING),
       (Field ''partitionErrors'', ARRAY (STRUCT [(Field ''partition'', INT32), (Field ''errorCode'',
       INT16)]))]))]"

lemma addPartitionsToTxn_v1_conforms [conformance]: "conforms addPartitionsToTxn_v1_layout addPartitionsToTxn_v1_decode"
  unfolding addPartitionsToTxn_v1_layout_def addPartitionsToTxn_v1_decode_def
  by (rule conforms_throttle_first [OF addPartitionsToTxn_v0_conforms [unfolded addPartitionsToTxn_v0_layout_def]]) simp_all

definition endTxn_v0_decode :: "jv reader" where
  "endTxn_v0_decode =
     rd_bind r_int32 (\<lambda>throttleTime.
       rd_bind r_int16 (\<lambda>errorCode.
       r_supported errorCode (
       rd_return (JObj [(''throttleTime'', throttleTime), (''errorCode'', errorCode)]))))"

definition endTxn_v0_layout :: "layout" where
  "endTxn_v0_layout =
     STRUCT [(Field ''throttleTime'', INT32), (Checked ''errorCode'', INT16)]"

lemma endTxn_v0_conforms [conformance]: "conforms endTxn_v0_layout endTxn_v0_decode"
  unfolding endTxn_v0_layout_def endTxn_v0_decode_def
  by (rule continues_literal layout_intros conforms_struct | assumption | simp)+

definition endTxn_v1_decode :: "jv reader" where
  "endTxn_v1_decode =
     rd_map client_side_throttle endTxn_v0_decode"

definition endTxn_v1_layout :: "layout" where
  "endTxn_v1_layout =
     STRUCT [(Throttle_last, INT32), (Checked ''errorCode'', INT16)]"

lemma endTxn_v1_conforms [conformance]: "conforms endTxn_v1_layout endTxn_v1_decode"
  unfolding endTxn_v1_layout_def endTxn_v1_decode_def
  by (rule conforms_throttle_first [OF endTxn_v0_conforms [unfolded endTxn_v0_layout_def]]) simp_all

definition txnOffsetCommit_v0_decodePartition :: "jv reader" where
  "txnOffsetCommit_v0_decodePartition =
     r_obj [(''partition'', r_int32),
       (''errorCode'', r_int16)]"

definition txnOffsetCommit_v0_decodeTopic :: "jv reader" where
  "txnOffsetCommit_v0_decodeTopic =
     r_obj [(''topic'', r_string),
       (''partitions'', r_array txnOffsetCommit_v0_decodePartition)]"

definition txnOffsetCommit_v0_decode :: "jv reader" where
  "txnOffsetCommit_v0_decode =
     rd_bind r_int32 (\<lambda>throttleTime.
       rd_bind (r_array txnOffsetCommit_v0_decodeTopic) (\<lambda>topics.
       rd_return (JObj [(''throttleTime'', throttleTime), (''topics'', topics)])))"

definition txnOffsetCommit_v0_layout :: "layout" where
  "txnOffsetCommit_v0_layout =
     STRUCT [(Field ''throttleTime'', INT32), (Field ''topics'', ARRAY (STRUCT [(Field ''topic'', STRING),
       (Field ''partitions'', ARRAY (STRUCT [(Field ''partition'', INT32), (Field ''errorCode'', INT16)]))]))]"

lemma txnOffsetCommit_v0_conforms [conformance]: "conforms txnOffsetCommit_v0_layout txnOffsetCommit_v0_decode"
  unfolding txnOffsetCommit_v0_layout_def txnOffsetCommit_v0_decode_def txnOffsetCommit_v0_decodeTopic_def txnOffsetCommit_v0_decodePartition_def
  by (rule continues_literal layout_intros conforms_struct | assumption | simp)+

definition txnOffsetCommit_v1_decode :: "jv reader" where
  "txnOffsetCommit_v1_decode =
     rd_map client_side_throttle txnOffsetCommit_v0_decode"

definition txnOffsetCommit_v1_layout :: "layout" where
  "txnOffsetCommit_v1_layout =
     STRUCT [(Throttle_last, INT32), (Field ''topics'', ARRAY (STRUCT [(Field ''topic'', STRING),
       (Field ''partitions'', ARRAY (STRUCT [(Field ''partition'', INT32), (Field ''errorCode'', INT16)]))]))]"

lemma txnOffsetCommit_v1_conforms [conformance]: "conforms txnOffsetCommit_v1_layout txnOffsetCommit_v1_decode"
  unfolding txnOffsetCommit_v1_layout_def txnOffsetCommit_v1_decode_def
  by (rule conforms_throttle_first [OF txnOffsetCommit_v0_conforms [unfolded txnOffsetCommit_v0_layout_def]]) simp_all

definition describeTransactions_v0_decodePartitions :: "jv reader" where
  "describeTransactions_v0_decodePartitions =
     r_int32"

definition describeTransactions_v0_decodeTopics :: "jv reader" where
  "describeTransactions_v0_decodeTopics =
     rd_bind (r_obj [(''topic'', r_uvarint_string),
       (''partitions'', r_uvarint_array describeTransactions_v0_decodePartitions)]) (\<lambda>topic.
       rd_bind r_tagged (\<lambda>_.
       rd_return topic))"

definition describeTransactions_v0_decodeTransactionStates :: "jv reader" where
  "describeTransactions_v0_decodeTransactionStates =
     rd_bind (r_obj [(''errorCode'', r_int16),
       (''transactionalId'', r_uvarint_string),
       (''state'', r_uvarint_string),
       (''producerId'', r_int64),
       (''producerEpoch'', r_int16),
       (''transactionTimeoutMs'', r_int32),
       (''transactionStartTimeMs'', r_int64),
       (''topics'', r_uvarint_array describeTransactions_v0_decodeTopics)]) (\<lambda>state.
       rd_bind r_tagged (\<lambda>_.
       rd_return state))"

definition describeTransactions_v0_decode :: "jv reader" where
  "describeTransactions_v0_decode =
     rd_bind r_tagged (\<lambda>_.
       rd_bind r_int32 (\<lambda>throttleTime.
       rd_bind (r_uvarint_array describeTransactions_v0_decodeTransactionStates) (\<lambda>transactionStates.
       rd_return (JObj [(''throttleTime'', throttleTime), (''transactionStates'', transactionStates)]))))"

definition describeTransactions_v0_layout :: "layout" where
  "describeTransactions_v0_layout =
     STRUCT [(Skip, TAG_BUFFER), (Field ''throttleTime'', INT32), (Field ''transactionStates'',
       COMPACT_ARRAY (STRUCT [(Field ''errorCode'', INT16), (Field ''transactionalId'', COMPACT_STRING),
       (Field ''state'', COMPACT_STRING), (Field ''producerId'', INT64), (Field ''producerEpoch'', INT16),
       (Field ''transactionTimeoutMs'', INT32), (Field ''transactionStartTimeMs'', INT64), (Field ''topics'',
       COMPACT_ARRAY (STRUCT [(Field ''topic'', COMPACT_STRING), (Field ''partitions'', COMPACT_ARRAY INT32),
       (Skip, TAG_BUFFER)])), (Skip, TAG_BUFFER)]))]"

lemma describeTransactions_v0_conforms [conformance]: "conforms describeTransactions_v0_layout describeTransactions_v0_decode"
  unfolding describeTransactions_v0_layout_def describeTransactions_v0_decode_def describeTransactions_v0_decodeTransactionStates_def describeTransactions_v0_decodeTopics_def describeTransactions_v0_decodePartitions_def
  by (rule continues_literal layout_intros conforms_struct | assumption | simp)+

definition listTransactions_v0_decodeUnknownStateFilters :: "jv reader" where
  "listTransactions_v0_decodeUnknownStateFilters =
     r_uvarint_string"

definition listTransactions_v0_decodeTransactionStates :: "jv reader" where
  "listTransactions_v0_decodeTransactionStates =
     rd_bind (r_obj [(''transactionalId'', r_uvarint_string),
       (''producerId'', r_int64),
       (''transactionState'', r_uvarint_string)]) (\<lambda>state.
       rd_bind r_tagged (\<lambda>_.
       rd_return state))"

definition listTransactions_v0_decode :: "jv reader" where
  "listTransactions_v0_decode =
     rd_bind r_tagged (\<lambda>_.
       rd_bind r_int32 (\<lambda>throttleTime.
       rd_bind r_int16 (\<lambda>errorCode.
       rd_bind (r_uvarint_array listTransactions_v0_decodeUnknownStateFilters) (\<lambda>unknownStateFilters.
       rd_bind (r_uvarint_array listTransactions_v0_decodeTransactionStates) (\<lambda>transactionStates.
       rd_return (JObj [(''throttleTime'', throttleTime), (''errorCode'', errorCode), (''unknownStateFilters'',
         unknownStateFilters), (''transactionStates'', transactionStates)]))))))"

definition listTransactions_v0_layout :: "layout" where
  "listTransactions_v0_layout =
     STRUCT [(Skip, TAG_BUFFER), (Field ''throttleTime'', INT32), (Field ''errorCode'', INT16),
       (Field ''unknownStateFilters'', COMPACT_ARRAY COMPACT_STRING), (Field ''transactionStates'',
       COMPACT_ARRAY (STRUCT [(Field ''transactionalId'', COMPACT_STRING), (Field ''producerId'', INT64),
       (Field ''transactionState'', COMPACT_STRING), (Skip, TAG_BUFFER)]))]"

lemma listTransactions_v0_conforms [conformance]: "conforms listTransactions_v0_layout listTransactions_v0_decode"
  unfolding listTransactions_v0_layout_def listTransactions_v0_decode_def listTransactions_v0_decodeUnknownStateFilters_def listTransactions_v0_decodeTransactionStates_def
  by (rule continues_literal layout_intros conforms_struct | assumption | simp)+

subsection \<open>All of them\<close>

definition data_responses :: "(string \<times> nat \<times> layout \<times> jv reader) list" where
  "data_responses =
     [(''apiVersions'', 0, apiVersions_v0_layout, apiVersions_v0_decode),
      (''apiVersions'', 1, apiVersions_v1_layout, apiVersions_v1_decode),
      (''apiVersions'', 2, apiVersions_v2_layout, apiVersions_v2_decode),
      (''apiVersions'', 3, apiVersions_v3_layout, apiVersions_v3_decode),
      (''metadata'', 0, metadata_v0_layout, metadata_v0_decode),
      (''metadata'', 1, metadata_v1_layout, metadata_v1_decode),
      (''metadata'', 2, metadata_v2_layout, metadata_v2_decode),
      (''metadata'', 3, metadata_v3_layout, metadata_v3_decode),
      (''metadata'', 4, metadata_v3_layout, metadata_v4_decode),
      (''metadata'', 5, metadata_v5_layout, metadata_v5_decode),
      (''metadata'', 6, metadata_v6_layout, metadata_v6_decode),
      (''metadata'', 7, metadata_v7_layout, metadata_v7_decode),
      (''describeCluster'', 0, describeCluster_v0_layout, describeCluster_v0_decode),
      (''describeCluster'', 1, describeCluster_v0_layout, describeCluster_v1_decode),
      (''produce'', 0, produce_v0_layout, produce_v0_decode),
      (''produce'', 1, produce_v1_layout, produce_v1_decode),
      (''produce'', 2, produce_v2_layout, produce_v2_decode),
      (''produce'', 3, produce_v3_layout, produce_v3_decode),
      (''produce'', 4, produce_v3_layout, produce_v4_decode),
      (''produce'', 5, produce_v5_layout, produce_v5_decode),
      (''produce'', 6, produce_v6_layout, produce_v6_decode),
      (''produce'', 7, produce_v6_layout, produce_v7_decode),
      (''produce'', 8, produce_v8_layout, produce_v8_decode),
      (''produce'', 9, produce_v9_layout, produce_v9_decode),
      (''initProducerId'', 0, initProducerId_v0_layout, initProducerId_v0_decode),
      (''initProducerId'', 1, initProducerId_v1_layout, initProducerId_v1_decode),
      (''initProducerId'', 2, initProducerId_v2_layout, initProducerId_v2_decode),
      (''initProducerId'', 3, initProducerId_v2_layout, initProducerId_v3_decode),
      (''describeProducers'', 0, describeProducers_v0_layout, describeProducers_v0_decode),
      (''listOffsets'', 0, listOffsets_v0_layout, listOffsets_v0_decode),
      (''listOffsets'', 1, listOffsets_v1_layout, listOffsets_v1_decode),
      (''listOffsets'', 2, listOffsets_v2_layout, listOffsets_v2_decode),
      (''listOffsets'', 3, listOffsets_v3_layout, listOffsets_v3_decode),
      (''listOffsets'', 4, listOffsets_v4_layout, listOffsets_v4_decode),
      (''offsetForLeaderEpoch'', 0, offsetForLeaderEpoch_v0_layout, offsetForLeaderEpoch_v0_decode),
      (''offsetForLeaderEpoch'', 2, offsetForLeaderEpoch_v2_layout, offsetForLeaderEpoch_v2_decode),
      (''offsetForLeaderEpoch'', 3, offsetForLeaderEpoch_v3_layout, offsetForLeaderEpoch_v3_decode),
      (''addOffsetsToTxn'', 0, addOffsetsToTxn_v0_layout, addOffsetsToTxn_v0_decode),
      (''addOffsetsToTxn'', 1, addOffsetsToTxn_v1_layout, addOffsetsToTxn_v1_decode),
      (''addPartitionsToTxn'', 0, addPartitionsToTxn_v0_layout, addPartitionsToTxn_v0_decode),
      (''addPartitionsToTxn'', 1, addPartitionsToTxn_v1_layout, addPartitionsToTxn_v1_decode),
      (''endTxn'', 0, endTxn_v0_layout, endTxn_v0_decode),
      (''endTxn'', 1, endTxn_v1_layout, endTxn_v1_decode),
      (''txnOffsetCommit'', 0, txnOffsetCommit_v0_layout, txnOffsetCommit_v0_decode),
      (''txnOffsetCommit'', 1, txnOffsetCommit_v1_layout, txnOffsetCommit_v1_decode),
      (''describeTransactions'', 0, describeTransactions_v0_layout, describeTransactions_v0_decode),
      (''listTransactions'', 0, listTransactions_v0_layout, listTransactions_v0_decode)]"

lemma data_responses_conform: "\<forall>(_, _, t, r) \<in> set data_responses. conforms t r"
  by (simp add: data_responses_def conformance)

end
