(* ===== verification/Responses_Admin.thy ===== *)
theory Responses_Admin
  imports Protocol_Layout
begin

text \<open>
  The decoders of the responses about the administration of a cluster, one definition per function of the files
  \<^verbatim>\<open>src/protocol/requests/*/v*/response.js\<close>, the layouts that the comments of these files document, and the proof
  that every decoder conforms to its layout.
\<close>

subsection \<open>Topics and partitions\<close>

definition createTopics_v0_topicErrors :: "jv reader" where
  "createTopics_v0_topicErrors =
     r_obj [(''topic'', r_string),
       (''errorCode'', r_int16)]"

definition createTopics_v0_decode :: "comparison \<Rightarrow> jv reader" where
  "createTopics_v0_decode localeCompare =
     r_obj [(''topicErrors'', r_sorted localeCompare (r_array createTopics_v0_topicErrors))]"

definition createTopics_v0_layout :: "comparison \<Rightarrow> layout" where
  "createTopics_v0_layout localeCompare =
     STRUCT [(Field ''topicErrors'', SORTED localeCompare (STRUCT [(Field ''topic'', STRING),
       (Field ''errorCode'', INT16)]))]"

lemma createTopics_v0_conforms [conformance]: "conforms (createTopics_v0_layout localeCompare) (createTopics_v0_decode localeCompare)"
  unfolding createTopics_v0_layout_def createTopics_v0_decode_def createTopics_v0_topicErrors_def
  by (rule continues_literal layout_intros conforms_struct | assumption | simp)+

definition createTopics_v1_topicErrors :: "jv reader" where
  "createTopics_v1_topicErrors =
     r_obj [(''topic'', r_string),
       (''errorCode'', r_int16),
       (''errorMessage'', r_string)]"

definition createTopics_v1_decode :: "comparison \<Rightarrow> jv reader" where
  "createTopics_v1_decode localeCompare =
     r_obj [(''topicErrors'', r_sorted localeCompare (r_array createTopics_v1_topicErrors))]"

definition createTopics_v1_layout :: "comparison \<Rightarrow> layout" where
  "createTopics_v1_layout localeCompare =
     STRUCT [(Field ''topicErrors'', SORTED localeCompare (STRUCT [(Field ''topic'', STRING),
       (Field ''errorCode'', INT16), (Field ''errorMessage'', STRING)]))]"

lemma createTopics_v1_conforms [conformance]: "conforms (createTopics_v1_layout localeCompare) (createTopics_v1_decode localeCompare)"
  unfolding createTopics_v1_layout_def createTopics_v1_decode_def createTopics_v1_topicErrors_def
  by (rule continues_literal layout_intros conforms_struct | assumption | simp)+

definition createTopics_v2_topicErrors :: "jv reader" where
  "createTopics_v2_topicErrors =
     r_obj [(''topic'', r_string),
       (''errorCode'', r_int16),
       (''errorMessage'', r_string)]"

definition createTopics_v2_decode :: "comparison \<Rightarrow> jv reader" where
  "createTopics_v2_decode localeCompare =
     r_obj [(''throttleTime'', r_int32),
       (''topicErrors'', r_sorted localeCompare (r_array createTopics_v2_topicErrors))]"

definition createTopics_v2_layout :: "comparison \<Rightarrow> layout" where
  "createTopics_v2_layout localeCompare =
     STRUCT [(Field ''throttleTime'', INT32), (Field ''topicErrors'',
       SORTED localeCompare (STRUCT [(Field ''topic'', STRING), (Field ''errorCode'', INT16),
       (Field ''errorMessage'', STRING)]))]"

lemma createTopics_v2_conforms [conformance]: "conforms (createTopics_v2_layout localeCompare) (createTopics_v2_decode localeCompare)"
  unfolding createTopics_v2_layout_def createTopics_v2_decode_def createTopics_v2_topicErrors_def
  by (rule continues_literal layout_intros conforms_struct | assumption | simp)+

definition createTopics_v3_decode :: "comparison \<Rightarrow> jv reader" where
  "createTopics_v3_decode localeCompare =
     rd_map client_side_throttle (createTopics_v2_decode localeCompare)"

definition createTopics_v3_layout :: "comparison \<Rightarrow> layout" where
  "createTopics_v3_layout localeCompare =
     STRUCT [(Throttle_last, INT32), (Field ''topicErrors'', SORTED localeCompare (STRUCT [(Field ''topic'',
       STRING), (Field ''errorCode'', INT16), (Field ''errorMessage'', STRING)]))]"

lemma createTopics_v3_conforms [conformance]: "conforms (createTopics_v3_layout localeCompare) (createTopics_v3_decode localeCompare)"
  unfolding createTopics_v3_layout_def createTopics_v3_decode_def
  by (rule conforms_throttle_first [OF createTopics_v2_conforms [unfolded createTopics_v2_layout_def]]) simp_all

definition createTopics_v5_topicErrors :: "jv reader" where
  "createTopics_v5_topicErrors =
     rd_bind (r_obj [(''topic'', r_uvarint_string),
       (''errorCode'', r_int16),
       (''errorMessage'', r_uvarint_string)]) (\<lambda>result.
       rd_bind r_tagged (\<lambda>_.
       rd_return result))"

definition createTopics_v5_decode :: "comparison \<Rightarrow> jv reader" where
  "createTopics_v5_decode localeCompare =
     rd_bind r_tagged (\<lambda>_.
       rd_bind r_int32 (\<lambda>throttleTime.
       rd_bind (r_sorted localeCompare (r_uvarint_array createTopics_v5_topicErrors)) (\<lambda>topics.
       rd_bind r_tagged (\<lambda>_.
       rd_return (JObj [(''throttleTime'', JNum 0), (''clientSideThrottleTime'', throttleTime),
         (''topicErrors'', topics)])))))"

definition createTopics_v5_layout :: "comparison \<Rightarrow> layout" where
  "createTopics_v5_layout localeCompare =
     STRUCT [(Skip, TAG_BUFFER), (Throttle, INT32), (Field ''topicErrors'',
       COMPACT_SORTED localeCompare (STRUCT [(Field ''topic'', COMPACT_STRING), (Field ''errorCode'', INT16),
       (Field ''errorMessage'', COMPACT_STRING), (Skip, TAG_BUFFER)])), (Skip, TAG_BUFFER)]"

lemma createTopics_v5_conforms [conformance]: "conforms (createTopics_v5_layout localeCompare) (createTopics_v5_decode localeCompare)"
  unfolding createTopics_v5_layout_def createTopics_v5_decode_def createTopics_v5_topicErrors_def
  by (rule continues_literal layout_intros conforms_struct | assumption | simp)+

definition deleteTopics_v0_topicErrors :: "jv reader" where
  "deleteTopics_v0_topicErrors =
     r_obj [(''topic'', r_string),
       (''errorCode'', r_int16)]"

definition deleteTopics_v0_decode :: "comparison \<Rightarrow> jv reader" where
  "deleteTopics_v0_decode localeCompare =
     r_obj [(''topicErrors'', r_sorted localeCompare (r_array deleteTopics_v0_topicErrors))]"

definition deleteTopics_v0_layout :: "comparison \<Rightarrow> layout" where
  "deleteTopics_v0_layout localeCompare =
     STRUCT [(Field ''topicErrors'', SORTED localeCompare (STRUCT [(Field ''topic'', STRING),
       (Field ''errorCode'', INT16)]))]"

lemma deleteTopics_v0_conforms [conformance]: "conforms (deleteTopics_v0_layout localeCompare) (deleteTopics_v0_decode localeCompare)"
  unfolding deleteTopics_v0_layout_def deleteTopics_v0_decode_def deleteTopics_v0_topicErrors_def
  by (rule continues_literal layout_intros conforms_struct | assumption | simp)+

definition deleteTopics_v1_topicErrors :: "jv reader" where
  "deleteTopics_v1_topicErrors =
     r_obj [(''topic'', r_string),
       (''errorCode'', r_int16)]"

definition deleteTopics_v1_decode :: "comparison \<Rightarrow> jv reader" where
  "deleteTopics_v1_decode localeCompare =
     rd_bind r_int32 (\<lambda>throttleTime.
       rd_bind (r_sorted localeCompare (r_array deleteTopics_v1_topicErrors)) (\<lambda>topicErrors.
       rd_return (JObj [(''throttleTime'', JNum 0), (''clientSideThrottleTime'', throttleTime),
         (''topicErrors'', topicErrors)])))"

definition deleteTopics_v1_layout :: "comparison \<Rightarrow> layout" where
  "deleteTopics_v1_layout localeCompare =
     STRUCT [(Throttle, INT32), (Field ''topicErrors'', SORTED localeCompare (STRUCT [(Field ''topic'',
       STRING), (Field ''errorCode'', INT16)]))]"

lemma deleteTopics_v1_conforms [conformance]: "conforms (deleteTopics_v1_layout localeCompare) (deleteTopics_v1_decode localeCompare)"
  unfolding deleteTopics_v1_layout_def deleteTopics_v1_decode_def deleteTopics_v1_topicErrors_def
  by (rule continues_literal layout_intros conforms_struct | assumption | simp)+

definition deleteTopics_v4_topicErrors :: "jv reader" where
  "deleteTopics_v4_topicErrors =
     rd_bind (r_obj [(''topic'', r_uvarint_string),
       (''errorCode'', r_int16)]) (\<lambda>result.
       rd_bind r_tagged (\<lambda>_.
       rd_return result))"

definition deleteTopics_v4_decode :: "comparison \<Rightarrow> jv reader" where
  "deleteTopics_v4_decode localeCompare =
     rd_bind r_tagged (\<lambda>_.
       rd_bind r_int32 (\<lambda>throttleTime.
       rd_bind (r_sorted localeCompare (r_uvarint_array deleteTopics_v4_topicErrors)) (\<lambda>topics.
       rd_bind r_tagged (\<lambda>_.
       rd_return (JObj [(''throttleTime'', JNum 0), (''clientSideThrottleTime'', throttleTime),
         (''topicErrors'', topics)])))))"

definition deleteTopics_v4_layout :: "comparison \<Rightarrow> layout" where
  "deleteTopics_v4_layout localeCompare =
     STRUCT [(Skip, TAG_BUFFER), (Throttle, INT32), (Field ''topicErrors'',
       COMPACT_SORTED localeCompare (STRUCT [(Field ''topic'', COMPACT_STRING), (Field ''errorCode'', INT16),
       (Skip, TAG_BUFFER)])), (Skip, TAG_BUFFER)]"

lemma deleteTopics_v4_conforms [conformance]: "conforms (deleteTopics_v4_layout localeCompare) (deleteTopics_v4_decode localeCompare)"
  unfolding deleteTopics_v4_layout_def deleteTopics_v4_decode_def deleteTopics_v4_topicErrors_def
  by (rule continues_literal layout_intros conforms_struct | assumption | simp)+

definition deleteRecords_v0_decode :: "comparison \<Rightarrow> jv reader" where
  "deleteRecords_v0_decode localeCompare =
     r_obj [(''throttleTime'', r_int32),
       (''topics'', r_sorted localeCompare (r_array (r_obj [(''topic'', r_string),
       (''partitions'', r_array (r_obj [(''partition'', r_int32),
       (''lowWatermark'', r_int64),
       (''errorCode'', r_int16)]))])))]"

definition deleteRecords_v0_layout :: "comparison \<Rightarrow> layout" where
  "deleteRecords_v0_layout localeCompare =
     STRUCT [(Field ''throttleTime'', INT32), (Field ''topics'',
       SORTED localeCompare (STRUCT [(Field ''topic'', STRING), (Field ''partitions'',
       ARRAY (STRUCT [(Field ''partition'', INT32), (Field ''lowWatermark'', INT64), (Field ''errorCode'',
       INT16)]))]))]"

lemma deleteRecords_v0_conforms [conformance]: "conforms (deleteRecords_v0_layout localeCompare) (deleteRecords_v0_decode localeCompare)"
  unfolding deleteRecords_v0_layout_def deleteRecords_v0_decode_def
  by (rule continues_literal layout_intros conforms_struct | assumption | simp)+

definition deleteRecords_v1_decode :: "comparison \<Rightarrow> jv reader" where
  "deleteRecords_v1_decode localeCompare =
     rd_map client_side_throttle (deleteRecords_v0_decode localeCompare)"

definition deleteRecords_v1_layout :: "comparison \<Rightarrow> layout" where
  "deleteRecords_v1_layout localeCompare =
     STRUCT [(Throttle_last, INT32), (Field ''topics'', SORTED localeCompare (STRUCT [(Field ''topic'',
       STRING), (Field ''partitions'', ARRAY (STRUCT [(Field ''partition'', INT32), (Field ''lowWatermark'',
       INT64), (Field ''errorCode'', INT16)]))]))]"

lemma deleteRecords_v1_conforms [conformance]: "conforms (deleteRecords_v1_layout localeCompare) (deleteRecords_v1_decode localeCompare)"
  unfolding deleteRecords_v1_layout_def deleteRecords_v1_decode_def
  by (rule conforms_throttle_first [OF deleteRecords_v0_conforms [unfolded deleteRecords_v0_layout_def]]) simp_all

definition createPartitions_v0_topicErrors :: "jv reader" where
  "createPartitions_v0_topicErrors =
     r_obj [(''topic'', r_string),
       (''errorCode'', r_int16),
       (''errorMessage'', r_string)]"

definition createPartitions_v0_decode :: "comparison \<Rightarrow> jv reader" where
  "createPartitions_v0_decode localeCompare =
     rd_bind r_int32 (\<lambda>throttleTime.
       rd_bind (r_sorted localeCompare (r_array createPartitions_v0_topicErrors)) (\<lambda>topicErrors.
       rd_return (JObj [(''throttleTime'', throttleTime), (''topicErrors'', topicErrors)])))"

definition createPartitions_v0_layout :: "comparison \<Rightarrow> layout" where
  "createPartitions_v0_layout localeCompare =
     STRUCT [(Field ''throttleTime'', INT32), (Field ''topicErrors'',
       SORTED localeCompare (STRUCT [(Field ''topic'', STRING), (Field ''errorCode'', INT16),
       (Field ''errorMessage'', STRING)]))]"

lemma createPartitions_v0_conforms [conformance]: "conforms (createPartitions_v0_layout localeCompare) (createPartitions_v0_decode localeCompare)"
  unfolding createPartitions_v0_layout_def createPartitions_v0_decode_def createPartitions_v0_topicErrors_def
  by (rule continues_literal layout_intros conforms_struct | assumption | simp)+

definition createPartitions_v1_decode :: "comparison \<Rightarrow> jv reader" where
  "createPartitions_v1_decode localeCompare =
     rd_map client_side_throttle (createPartitions_v0_decode localeCompare)"

definition createPartitions_v1_layout :: "comparison \<Rightarrow> layout" where
  "createPartitions_v1_layout localeCompare =
     STRUCT [(Throttle_last, INT32), (Field ''topicErrors'', SORTED localeCompare (STRUCT [(Field ''topic'',
       STRING), (Field ''errorCode'', INT16), (Field ''errorMessage'', STRING)]))]"

lemma createPartitions_v1_conforms [conformance]: "conforms (createPartitions_v1_layout localeCompare) (createPartitions_v1_decode localeCompare)"
  unfolding createPartitions_v1_layout_def createPartitions_v1_decode_def
  by (rule conforms_throttle_first [OF createPartitions_v0_conforms [unfolded createPartitions_v0_layout_def]]) simp_all

definition alterPartitionReassignments_v0_decodePartitions :: "jv reader" where
  "alterPartitionReassignments_v0_decodePartitions =
     rd_bind (r_obj [(''partition'', r_int32),
       (''errorCode'', r_int16)]) (\<lambda>partition.
       rd_bind r_uvarint_string (\<lambda>_.
       rd_bind r_tagged (\<lambda>_.
       rd_return partition)))"

definition alterPartitionReassignments_v0_decodeResponses :: "jv reader" where
  "alterPartitionReassignments_v0_decodeResponses =
     rd_bind (r_obj [(''topic'', r_uvarint_string),
       (''partitions'', r_uvarint_array alterPartitionReassignments_v0_decodePartitions)]) (\<lambda>response.
       rd_bind r_tagged (\<lambda>_.
       rd_return response))"

definition alterPartitionReassignments_v0_decode :: "jv reader" where
  "alterPartitionReassignments_v0_decode =
     rd_bind r_tagged (\<lambda>_.
       rd_bind r_int32 (\<lambda>throttleTime.
       rd_bind r_int16 (\<lambda>errorCode.
       rd_bind r_uvarint_string (\<lambda>_.
       rd_bind (r_uvarint_array alterPartitionReassignments_v0_decodeResponses) (\<lambda>responses.
       rd_return (JObj [(''throttleTime'', throttleTime), (''errorCode'', errorCode), (''responses'',
         responses)]))))))"

definition alterPartitionReassignments_v0_layout :: "layout" where
  "alterPartitionReassignments_v0_layout =
     STRUCT [(Skip, TAG_BUFFER), (Field ''throttleTime'', INT32), (Field ''errorCode'', INT16), (Skip,
       COMPACT_STRING), (Field ''responses'', COMPACT_ARRAY (STRUCT [(Field ''topic'', COMPACT_STRING),
       (Field ''partitions'', COMPACT_ARRAY (STRUCT [(Field ''partition'', INT32), (Field ''errorCode'',
       INT16), (Skip, COMPACT_STRING), (Skip, TAG_BUFFER)])), (Skip, TAG_BUFFER)]))]"

lemma alterPartitionReassignments_v0_conforms [conformance]: "conforms alterPartitionReassignments_v0_layout alterPartitionReassignments_v0_decode"
  unfolding alterPartitionReassignments_v0_layout_def alterPartitionReassignments_v0_decode_def alterPartitionReassignments_v0_decodeResponses_def alterPartitionReassignments_v0_decodePartitions_def
  by (rule continues_literal layout_intros conforms_struct | assumption | simp)+

definition listPartitionReassignments_v0_decodeReplicas :: "jv reader" where
  "listPartitionReassignments_v0_decodeReplicas =
     r_int32"

definition listPartitionReassignments_v0_decodePartitions :: "jv reader" where
  "listPartitionReassignments_v0_decodePartitions =
     rd_bind (r_obj [(''partition'', r_int32),
       (''replicas'', r_uvarint_array listPartitionReassignments_v0_decodeReplicas),
       (''addingReplicas'', r_uvarint_array listPartitionReassignments_v0_decodeReplicas),
       (''removingReplicas'',
         r_uvarint_array listPartitionReassignments_v0_decodeReplicas)]) (\<lambda>partition.
       rd_bind r_tagged (\<lambda>_.
       rd_return partition))"

definition listPartitionReassignments_v0_decodeTopics :: "jv reader" where
  "listPartitionReassignments_v0_decodeTopics =
     rd_bind (r_obj [(''name'', r_uvarint_string),
       (''partitions'', r_uvarint_array listPartitionReassignments_v0_decodePartitions)]) (\<lambda>topic.
       rd_bind r_tagged (\<lambda>_.
       rd_return topic))"

definition listPartitionReassignments_v0_decode :: "jv reader" where
  "listPartitionReassignments_v0_decode =
     rd_bind r_tagged (\<lambda>_.
       rd_bind r_int32 (\<lambda>throttleTime.
       rd_bind r_int16 (\<lambda>errorCode.
       rd_bind r_uvarint_string (\<lambda>_.
       rd_bind (r_uvarint_array listPartitionReassignments_v0_decodeTopics) (\<lambda>topics.
       rd_return (JObj [(''throttleTime'', throttleTime), (''errorCode'', errorCode), (''topics'',
         topics)]))))))"

definition listPartitionReassignments_v0_layout :: "layout" where
  "listPartitionReassignments_v0_layout =
     STRUCT [(Skip, TAG_BUFFER), (Field ''throttleTime'', INT32), (Field ''errorCode'', INT16), (Skip,
       COMPACT_STRING), (Field ''topics'', COMPACT_ARRAY (STRUCT [(Field ''name'', COMPACT_STRING),
       (Field ''partitions'', COMPACT_ARRAY (STRUCT [(Field ''partition'', INT32), (Field ''replicas'',
       COMPACT_ARRAY INT32), (Field ''addingReplicas'', COMPACT_ARRAY INT32), (Field ''removingReplicas'',
       COMPACT_ARRAY INT32), (Skip, TAG_BUFFER)])), (Skip, TAG_BUFFER)]))]"

lemma listPartitionReassignments_v0_conforms [conformance]: "conforms listPartitionReassignments_v0_layout listPartitionReassignments_v0_decode"
  unfolding listPartitionReassignments_v0_layout_def listPartitionReassignments_v0_decode_def listPartitionReassignments_v0_decodeTopics_def listPartitionReassignments_v0_decodePartitions_def listPartitionReassignments_v0_decodeReplicas_def
  by (rule continues_literal layout_intros conforms_struct | assumption | simp)+

definition electLeaders_v0_decode :: "jv reader" where
  "electLeaders_v0_decode =
     r_obj [(''throttleTime'', r_int32),
       (''errorCode'', r_int16),
       (''replicaElectionResults'', r_array (r_obj [(''topic'', r_string),
       (''partitionResult'', r_array (r_obj [(''partitionId'', r_int32),
       (''errorCode'', r_int16),
       (''errorMessage'', r_string)]))]))]"

definition electLeaders_v0_layout :: "layout" where
  "electLeaders_v0_layout =
     STRUCT [(Field ''throttleTime'', INT32), (Field ''errorCode'', INT16), (Field ''replicaElectionResults'',
       ARRAY (STRUCT [(Field ''topic'', STRING), (Field ''partitionResult'',
       ARRAY (STRUCT [(Field ''partitionId'', INT32), (Field ''errorCode'', INT16), (Field ''errorMessage'',
       STRING)]))]))]"

lemma electLeaders_v0_conforms [conformance]: "conforms electLeaders_v0_layout electLeaders_v0_decode"
  unfolding electLeaders_v0_layout_def electLeaders_v0_decode_def
  by (rule continues_literal layout_intros conforms_struct | assumption | simp)+

definition electLeaders_v1_decode :: "jv reader" where
  "electLeaders_v1_decode =
     electLeaders_v0_decode"

lemma electLeaders_v1_conforms [conformance]: "conforms electLeaders_v0_layout electLeaders_v1_decode"
  unfolding electLeaders_v1_decode_def by (rule electLeaders_v0_conforms)

definition electLeaders_v2_decodePartitionResult :: "jv reader" where
  "electLeaders_v2_decodePartitionResult =
     rd_bind (r_obj [(''partitionId'', r_int32),
       (''errorCode'', r_int16),
       (''errorMessage'', r_uvarint_string)]) (\<lambda>result.
       rd_bind r_tagged (\<lambda>_.
       rd_return result))"

definition electLeaders_v2_decodeReplicaElectionResults :: "jv reader" where
  "electLeaders_v2_decodeReplicaElectionResults =
     rd_bind (r_obj [(''topic'', r_uvarint_string),
       (''partitionResult'', r_uvarint_array electLeaders_v2_decodePartitionResult)]) (\<lambda>result.
       rd_bind r_tagged (\<lambda>_.
       rd_return result))"

definition electLeaders_v2_decode :: "jv reader" where
  "electLeaders_v2_decode =
     rd_bind r_tagged (\<lambda>_.
       rd_bind r_int32 (\<lambda>throttleTime.
       rd_bind r_int16 (\<lambda>errorCode.
       rd_bind (r_uvarint_array electLeaders_v2_decodeReplicaElectionResults) (\<lambda>replicaElectionResults.
       rd_return (JObj [(''throttleTime'', throttleTime), (''errorCode'', errorCode),
         (''replicaElectionResults'', replicaElectionResults)])))))"

definition electLeaders_v2_layout :: "layout" where
  "electLeaders_v2_layout =
     STRUCT [(Skip, TAG_BUFFER), (Field ''throttleTime'', INT32), (Field ''errorCode'', INT16),
       (Field ''replicaElectionResults'', COMPACT_ARRAY (STRUCT [(Field ''topic'', COMPACT_STRING),
       (Field ''partitionResult'', COMPACT_ARRAY (STRUCT [(Field ''partitionId'', INT32), (Field ''errorCode'',
       INT16), (Field ''errorMessage'', COMPACT_STRING), (Skip, TAG_BUFFER)])), (Skip, TAG_BUFFER)]))]"

lemma electLeaders_v2_conforms [conformance]: "conforms electLeaders_v2_layout electLeaders_v2_decode"
  unfolding electLeaders_v2_layout_def electLeaders_v2_decode_def electLeaders_v2_decodeReplicaElectionResults_def electLeaders_v2_decodePartitionResult_def
  by (rule continues_literal layout_intros conforms_struct | assumption | simp)+

definition describeLogDirs_v0_decodePartitions :: "jv reader" where
  "describeLogDirs_v0_decodePartitions =
     r_obj [(''partitionIndex'', r_int32),
       (''partitionSize'', r_int64),
       (''offsetLag'', r_int64),
       (''isFutureKey'', r_boolean)]"

definition describeLogDirs_v0_decodeTopics :: "jv reader" where
  "describeLogDirs_v0_decodeTopics =
     r_obj [(''name'', r_string),
       (''partitions'', r_array describeLogDirs_v0_decodePartitions)]"

definition describeLogDirs_v0_decodeResults :: "jv reader" where
  "describeLogDirs_v0_decodeResults =
     r_obj [(''errorCode'', r_int16),
       (''logDir'', r_string),
       (''topics'', r_array describeLogDirs_v0_decodeTopics)]"

definition describeLogDirs_v0_decode :: "jv reader" where
  "describeLogDirs_v0_decode =
     r_obj [(''throttleTime'', r_int32),
       (''results'', r_array describeLogDirs_v0_decodeResults)]"

definition describeLogDirs_v0_layout :: "layout" where
  "describeLogDirs_v0_layout =
     STRUCT [(Field ''throttleTime'', INT32), (Field ''results'', ARRAY (STRUCT [(Field ''errorCode'', INT16),
       (Field ''logDir'', STRING), (Field ''topics'', ARRAY (STRUCT [(Field ''name'', STRING),
       (Field ''partitions'', ARRAY (STRUCT [(Field ''partitionIndex'', INT32), (Field ''partitionSize'',
       INT64), (Field ''offsetLag'', INT64), (Field ''isFutureKey'', BOOLEAN)]))]))]))]"

lemma describeLogDirs_v0_conforms [conformance]: "conforms describeLogDirs_v0_layout describeLogDirs_v0_decode"
  unfolding describeLogDirs_v0_layout_def describeLogDirs_v0_decode_def describeLogDirs_v0_decodeResults_def describeLogDirs_v0_decodeTopics_def describeLogDirs_v0_decodePartitions_def
  by (rule continues_literal layout_intros conforms_struct | assumption | simp)+

definition describeLogDirs_v2_decodePartitions :: "jv reader" where
  "describeLogDirs_v2_decodePartitions =
     rd_bind (r_obj [(''partitionIndex'', r_int32),
       (''partitionSize'', r_int64),
       (''offsetLag'', r_int64),
       (''isFutureKey'', r_boolean)]) (\<lambda>partition.
       rd_bind r_tagged (\<lambda>_.
       rd_return partition))"

definition describeLogDirs_v2_decodeTopics :: "jv reader" where
  "describeLogDirs_v2_decodeTopics =
     rd_bind (r_obj [(''name'', r_uvarint_string),
       (''partitions'', r_uvarint_array describeLogDirs_v2_decodePartitions)]) (\<lambda>topic.
       rd_bind r_tagged (\<lambda>_.
       rd_return topic))"

definition describeLogDirs_v2_decodeResults :: "jv reader" where
  "describeLogDirs_v2_decodeResults =
     rd_bind (r_obj [(''errorCode'', r_int16),
       (''logDir'', r_uvarint_string),
       (''topics'', r_uvarint_array describeLogDirs_v2_decodeTopics)]) (\<lambda>result.
       rd_bind r_tagged (\<lambda>_.
       rd_return result))"

definition describeLogDirs_v2_decode :: "jv reader" where
  "describeLogDirs_v2_decode =
     rd_bind r_tagged (\<lambda>_.
       rd_bind r_int32 (\<lambda>throttleTime.
       rd_bind (r_uvarint_array describeLogDirs_v2_decodeResults) (\<lambda>results.
       rd_return (JObj [(''throttleTime'', throttleTime), (''results'', results)]))))"

definition describeLogDirs_v2_layout :: "layout" where
  "describeLogDirs_v2_layout =
     STRUCT [(Skip, TAG_BUFFER), (Field ''throttleTime'', INT32), (Field ''results'',
       COMPACT_ARRAY (STRUCT [(Field ''errorCode'', INT16), (Field ''logDir'', COMPACT_STRING),
       (Field ''topics'', COMPACT_ARRAY (STRUCT [(Field ''name'', COMPACT_STRING), (Field ''partitions'',
       COMPACT_ARRAY (STRUCT [(Field ''partitionIndex'', INT32), (Field ''partitionSize'', INT64),
       (Field ''offsetLag'', INT64), (Field ''isFutureKey'', BOOLEAN), (Skip, TAG_BUFFER)])), (Skip,
       TAG_BUFFER)])), (Skip, TAG_BUFFER)]))]"

lemma describeLogDirs_v2_conforms [conformance]: "conforms describeLogDirs_v2_layout describeLogDirs_v2_decode"
  unfolding describeLogDirs_v2_layout_def describeLogDirs_v2_decode_def describeLogDirs_v2_decodeResults_def describeLogDirs_v2_decodeTopics_def describeLogDirs_v2_decodePartitions_def
  by (rule continues_literal layout_intros conforms_struct | assumption | simp)+

subsection \<open>Access control\<close>

definition createAcls_v0_decodeCreationResponse :: "jv reader" where
  "createAcls_v0_decodeCreationResponse =
     r_obj [(''errorCode'', r_int16),
       (''errorMessage'', r_string)]"

definition createAcls_v0_decode :: "jv reader" where
  "createAcls_v0_decode =
     rd_bind r_int32 (\<lambda>throttleTime.
       rd_bind (r_array createAcls_v0_decodeCreationResponse) (\<lambda>creationResponses.
       rd_return (JObj [(''throttleTime'', throttleTime), (''creationResponses'', creationResponses)])))"

definition createAcls_v0_layout :: "layout" where
  "createAcls_v0_layout =
     STRUCT [(Field ''throttleTime'', INT32), (Field ''creationResponses'',
       ARRAY (STRUCT [(Field ''errorCode'', INT16), (Field ''errorMessage'', STRING)]))]"

lemma createAcls_v0_conforms [conformance]: "conforms createAcls_v0_layout createAcls_v0_decode"
  unfolding createAcls_v0_layout_def createAcls_v0_decode_def createAcls_v0_decodeCreationResponse_def
  by (rule continues_literal layout_intros conforms_struct | assumption | simp)+

definition createAcls_v1_decode :: "jv reader" where
  "createAcls_v1_decode =
     rd_map client_side_throttle createAcls_v0_decode"

definition createAcls_v1_layout :: "layout" where
  "createAcls_v1_layout =
     STRUCT [(Throttle_last, INT32), (Field ''creationResponses'', ARRAY (STRUCT [(Field ''errorCode'', INT16),
       (Field ''errorMessage'', STRING)]))]"

lemma createAcls_v1_conforms [conformance]: "conforms createAcls_v1_layout createAcls_v1_decode"
  unfolding createAcls_v1_layout_def createAcls_v1_decode_def
  by (rule conforms_throttle_first [OF createAcls_v0_conforms [unfolded createAcls_v0_layout_def]]) simp_all

definition deleteAcls_v0_decodeMatchingAcls :: "jv reader" where
  "deleteAcls_v0_decodeMatchingAcls =
     r_obj [(''errorCode'', r_int16),
       (''errorMessage'', r_string),
       (''resourceType'', r_int8),
       (''resourceName'', r_string),
       (''principal'', r_string),
       (''host'', r_string),
       (''operation'', r_int8),
       (''permissionType'', r_int8)]"

definition deleteAcls_v0_decodeFilterResponse :: "jv reader" where
  "deleteAcls_v0_decodeFilterResponse =
     r_obj [(''errorCode'', r_int16),
       (''errorMessage'', r_string),
       (''matchingAcls'', r_array deleteAcls_v0_decodeMatchingAcls)]"

definition deleteAcls_v0_decode :: "jv reader" where
  "deleteAcls_v0_decode =
     rd_bind r_int32 (\<lambda>throttleTime.
       rd_bind (r_array deleteAcls_v0_decodeFilterResponse) (\<lambda>filterResponses.
       rd_return (JObj [(''throttleTime'', throttleTime), (''filterResponses'', filterResponses)])))"

definition deleteAcls_v0_layout :: "layout" where
  "deleteAcls_v0_layout =
     STRUCT [(Field ''throttleTime'', INT32), (Field ''filterResponses'', ARRAY (STRUCT [(Field ''errorCode'',
       INT16), (Field ''errorMessage'', STRING), (Field ''matchingAcls'', ARRAY (STRUCT [(Field ''errorCode'',
       INT16), (Field ''errorMessage'', STRING), (Field ''resourceType'', INT8), (Field ''resourceName'',
       STRING), (Field ''principal'', STRING), (Field ''host'', STRING), (Field ''operation'', INT8),
       (Field ''permissionType'', INT8)]))]))]"

lemma deleteAcls_v0_conforms [conformance]: "conforms deleteAcls_v0_layout deleteAcls_v0_decode"
  unfolding deleteAcls_v0_layout_def deleteAcls_v0_decode_def deleteAcls_v0_decodeFilterResponse_def deleteAcls_v0_decodeMatchingAcls_def
  by (rule continues_literal layout_intros conforms_struct | assumption | simp)+

definition deleteAcls_v1_decodeMatchingAcls :: "jv reader" where
  "deleteAcls_v1_decodeMatchingAcls =
     r_obj [(''errorCode'', r_int16),
       (''errorMessage'', r_string),
       (''resourceType'', r_int8),
       (''resourceName'', r_string),
       (''resourcePatternType'', r_int8),
       (''principal'', r_string),
       (''host'', r_string),
       (''operation'', r_int8),
       (''permissionType'', r_int8)]"

definition deleteAcls_v1_decodeFilterResponse :: "jv reader" where
  "deleteAcls_v1_decodeFilterResponse =
     r_obj [(''errorCode'', r_int16),
       (''errorMessage'', r_string),
       (''matchingAcls'', r_array deleteAcls_v1_decodeMatchingAcls)]"

definition deleteAcls_v1_decode :: "jv reader" where
  "deleteAcls_v1_decode =
     rd_bind r_int32 (\<lambda>throttleTime.
       rd_bind (r_array deleteAcls_v1_decodeFilterResponse) (\<lambda>filterResponses.
       rd_return (JObj [(''throttleTime'', JNum 0), (''clientSideThrottleTime'', throttleTime),
         (''filterResponses'', filterResponses)])))"

definition deleteAcls_v1_layout :: "layout" where
  "deleteAcls_v1_layout =
     STRUCT [(Throttle, INT32), (Field ''filterResponses'', ARRAY (STRUCT [(Field ''errorCode'', INT16),
       (Field ''errorMessage'', STRING), (Field ''matchingAcls'', ARRAY (STRUCT [(Field ''errorCode'', INT16),
       (Field ''errorMessage'', STRING), (Field ''resourceType'', INT8), (Field ''resourceName'', STRING),
       (Field ''resourcePatternType'', INT8), (Field ''principal'', STRING), (Field ''host'', STRING),
       (Field ''operation'', INT8), (Field ''permissionType'', INT8)]))]))]"

lemma deleteAcls_v1_conforms [conformance]: "conforms deleteAcls_v1_layout deleteAcls_v1_decode"
  unfolding deleteAcls_v1_layout_def deleteAcls_v1_decode_def deleteAcls_v1_decodeFilterResponse_def deleteAcls_v1_decodeMatchingAcls_def
  by (rule continues_literal layout_intros conforms_struct | assumption | simp)+

definition describeAcls_v0_decodeAcls :: "jv reader" where
  "describeAcls_v0_decodeAcls =
     r_obj [(''principal'', r_string),
       (''host'', r_string),
       (''operation'', r_int8),
       (''permissionType'', r_int8)]"

definition describeAcls_v0_decodeResources :: "jv reader" where
  "describeAcls_v0_decodeResources =
     r_obj [(''resourceType'', r_int8),
       (''resourceName'', r_string),
       (''acls'', r_array describeAcls_v0_decodeAcls)]"

definition describeAcls_v0_decode :: "jv reader" where
  "describeAcls_v0_decode =
     rd_bind r_int32 (\<lambda>throttleTime.
       rd_bind r_int16 (\<lambda>errorCode.
       rd_bind r_string (\<lambda>errorMessage.
       rd_bind (r_array describeAcls_v0_decodeResources) (\<lambda>resources.
       rd_return (JObj [(''throttleTime'', throttleTime), (''errorCode'', errorCode), (''errorMessage'',
         errorMessage), (''resources'', resources)])))))"

definition describeAcls_v0_layout :: "layout" where
  "describeAcls_v0_layout =
     STRUCT [(Field ''throttleTime'', INT32), (Field ''errorCode'', INT16), (Field ''errorMessage'', STRING),
       (Field ''resources'', ARRAY (STRUCT [(Field ''resourceType'', INT8), (Field ''resourceName'', STRING),
       (Field ''acls'', ARRAY (STRUCT [(Field ''principal'', STRING), (Field ''host'', STRING),
       (Field ''operation'', INT8), (Field ''permissionType'', INT8)]))]))]"

lemma describeAcls_v0_conforms [conformance]: "conforms describeAcls_v0_layout describeAcls_v0_decode"
  unfolding describeAcls_v0_layout_def describeAcls_v0_decode_def describeAcls_v0_decodeResources_def describeAcls_v0_decodeAcls_def
  by (rule continues_literal layout_intros conforms_struct | assumption | simp)+

definition describeAcls_v1_decodeAcls :: "jv reader" where
  "describeAcls_v1_decodeAcls =
     r_obj [(''principal'', r_string),
       (''host'', r_string),
       (''operation'', r_int8),
       (''permissionType'', r_int8)]"

definition describeAcls_v1_decodeResources :: "jv reader" where
  "describeAcls_v1_decodeResources =
     r_obj [(''resourceType'', r_int8),
       (''resourceName'', r_string),
       (''resourcePatternType'', r_int8),
       (''acls'', r_array describeAcls_v1_decodeAcls)]"

definition describeAcls_v1_decode :: "jv reader" where
  "describeAcls_v1_decode =
     rd_bind r_int32 (\<lambda>throttleTime.
       rd_bind r_int16 (\<lambda>errorCode.
       rd_bind r_string (\<lambda>errorMessage.
       rd_bind (r_array describeAcls_v1_decodeResources) (\<lambda>resources.
       rd_return (JObj [(''throttleTime'', JNum 0), (''clientSideThrottleTime'', throttleTime), (''errorCode'',
         errorCode), (''errorMessage'', errorMessage), (''resources'', resources)])))))"

definition describeAcls_v1_layout :: "layout" where
  "describeAcls_v1_layout =
     STRUCT [(Throttle, INT32), (Field ''errorCode'', INT16), (Field ''errorMessage'', STRING),
       (Field ''resources'', ARRAY (STRUCT [(Field ''resourceType'', INT8), (Field ''resourceName'', STRING),
       (Field ''resourcePatternType'', INT8), (Field ''acls'', ARRAY (STRUCT [(Field ''principal'', STRING),
       (Field ''host'', STRING), (Field ''operation'', INT8), (Field ''permissionType'', INT8)]))]))]"

lemma describeAcls_v1_conforms [conformance]: "conforms describeAcls_v1_layout describeAcls_v1_decode"
  unfolding describeAcls_v1_layout_def describeAcls_v1_decode_def describeAcls_v1_decodeResources_def describeAcls_v1_decodeAcls_def
  by (rule continues_literal layout_intros conforms_struct | assumption | simp)+

definition saslHandshake_v0_decode :: "jv reader" where
  "saslHandshake_v0_decode =
     rd_bind r_int16 (\<lambda>errorCode.
       r_supported errorCode (
       rd_bind (r_array r_string) (\<lambda>enabledMechanisms.
       rd_return (JObj [(''errorCode'', errorCode), (''enabledMechanisms'', enabledMechanisms)]))))"

definition saslHandshake_v0_layout :: "layout" where
  "saslHandshake_v0_layout =
     STRUCT [(Checked ''errorCode'', INT16), (Field ''enabledMechanisms'', ARRAY STRING)]"

lemma saslHandshake_v0_conforms [conformance]: "conforms saslHandshake_v0_layout saslHandshake_v0_decode"
  unfolding saslHandshake_v0_layout_def saslHandshake_v0_decode_def
  by (rule continues_literal layout_intros conforms_struct | assumption | simp)+

definition saslHandshake_v1_decode :: "jv reader" where
  "saslHandshake_v1_decode =
     saslHandshake_v0_decode"

lemma saslHandshake_v1_conforms [conformance]: "conforms saslHandshake_v0_layout saslHandshake_v1_decode"
  unfolding saslHandshake_v1_decode_def by (rule saslHandshake_v0_conforms)

text \<open>
  The octets of the authentication get their size back in front, as the mechanisms expect them:
  \<^verbatim>\<open>new Encoder().writeBytes(bytes).buffer\<close>.
\<close>

definition rd_of_result :: "'a result \<Rightarrow> 'a reader" where
  "rd_of_result x d = rbind x (\<lambda>v. Inr (v, d))"

definition authBytes_buffer :: "buffer option \<Rightarrow> jv reader" where
  "authBytes_buffer bytes =
     rd_of_result (rbind (rbind new_Encoder (writeBytes (to_bytes_value bytes))) (\<lambda>e. Inr (JBuf (Encoder_buffer e))))"

definition saslAuthenticate_v0_decode :: "jv reader" where
  "saslAuthenticate_v0_decode =
     rd_bind r_int16 (\<lambda>errorCode.
       r_supported errorCode (
       rd_bind r_string (\<lambda>errorMessage.
       rd_bind readBytes (\<lambda>bytes.
       rd_bind (authBytes_buffer bytes) (\<lambda>authBytes.
       rd_return (JObj [(''errorCode'', errorCode), (''errorMessage'', errorMessage), (''authBytes'', authBytes)]))))))"

definition AUTH_BYTES :: layout where \<comment> \<open>\<open>BYTES\<close> that are kept with their size\<close>
  "AUTH_BYTES = VIA (\<lambda>w. wf_value BYTES w \<and> length (octets BYTES w) < 2 ^ 30) (octets BYTES) (\<lambda>w. JBuf (octets BYTES w))"

lemma reads_authBytes:
  assumes "reads rd bs b" "length (wire_bytes b) < 2 ^ 30" "bytes_ok 2147483648 b" "\<And>v. reads (k v) bs' (g v)"
  shows "reads (rd_bind rd (\<lambda>bytes. rd_bind (authBytes_buffer bytes) k)) (bs @ bs') (g (JBuf (wire_bytes b)))"
proof (rule reads_bind [OF assms(1)])
  have "appends (writeBytes (to_bytes_value b)) (wire_bytes b)" using assms(3) by (rule wbytes.elem.write_appends [unfolded comp_def])
  then obtain e where "rbind new_Encoder (writeBytes (to_bytes_value b)) = Inr e" "Encoder_buffer e = wire_bytes b"
    using appends_new_Encoder [OF _ assms(2)] by blast
  then have "reads (authBytes_buffer b) [] (JBuf (wire_bytes b))"
    by (simp add: authBytes_buffer_def reads_def rd_of_result_def)
  from reads_bind [OF this assms(4)] show "reads (rd_bind (authBytes_buffer b) k) bs' (g (JBuf (wire_bytes b)))" by simp
qed

lemma continues_auth_bytes [layout_intros]:
  assumes "\<And>v. continues (acc @ [(n, v)]) fin fs (k v)"
  shows "continues acc fin ((Field n, AUTH_BYTES) # fs) (rd_bind readBytes (\<lambda>bytes. rd_bind (authBytes_buffer bytes) k))"
  unfolding continues_def
proof (intro allI impI)
  fix ws assume "wf_parts ((Field n, AUTH_BYTES) # fs) ws"
  then obtain w ws' where ws: "ws = w # ws'" "wf_value BYTES w" "length (octets BYTES w) < 2 ^ 30" "wf_parts fs ws'"
    by (auto simp: AUTH_BYTES_def elim!: wf_fields_ConsE)
  then obtain b where b: "w = WBytes b" "bytes_ok 2147483648 b" by (cases w) auto
  have "reads (rd_bind readBytes (\<lambda>bytes. rd_bind (authBytes_buffer bytes) k)) (wire_bytes b @ octets_parts fs ws')
      (JObj ((acc @ (n, JBuf (wire_bytes b)) # view_parts in_place fs ws') @ (fin @ view_parts at_end fs ws')))"
    using b ws(3,4) assms by (intro reads_authBytes [OF reads_readBytes]) (auto simp: continues_def wbytes_of_def id_def)
  then show "reads (rd_bind readBytes (\<lambda>bytes. rd_bind (authBytes_buffer bytes) k)) (octets_parts ((Field n, AUTH_BYTES) # fs) ws)
      (JObj ((acc @ view_parts in_place ((Field n, AUTH_BYTES) # fs) ws) @ (fin @ view_parts at_end ((Field n, AUTH_BYTES) # fs) ws)))"
    using ws(1) b(1) by (simp add: AUTH_BYTES_def wbytes_of_def)
qed

definition saslAuthenticate_v0_layout :: "layout" where
  "saslAuthenticate_v0_layout =
     STRUCT [(Checked ''errorCode'', INT16), (Field ''errorMessage'', STRING), (Field ''authBytes'', AUTH_BYTES)]"

lemma saslAuthenticate_v0_conforms [conformance]: "conforms saslAuthenticate_v0_layout saslAuthenticate_v0_decode"
  unfolding saslAuthenticate_v0_layout_def saslAuthenticate_v0_decode_def
  by (rule continues_auth_bytes layout_intros conforms_struct | assumption | simp)+

definition saslAuthenticate_v1_decode :: "jv reader" where
  "saslAuthenticate_v1_decode =
     rd_bind r_int16 (\<lambda>errorCode.
       r_supported errorCode (
       rd_bind r_string (\<lambda>errorMessage.
       rd_bind readBytes (\<lambda>bytes.
       rd_bind (authBytes_buffer bytes) (\<lambda>authBytes.
       rd_bind r_int64 (\<lambda>sessionLifetimeMs.
       rd_return (JObj [(''errorCode'', errorCode), (''errorMessage'', errorMessage), (''authBytes'', authBytes),
         (''sessionLifetimeMs'', sessionLifetimeMs)])))))))"

definition saslAuthenticate_v1_layout :: "layout" where
  "saslAuthenticate_v1_layout =
     STRUCT [(Checked ''errorCode'', INT16), (Field ''errorMessage'', STRING), (Field ''authBytes'', AUTH_BYTES),
       (Field ''sessionLifetimeMs'', INT64)]"

lemma saslAuthenticate_v1_conforms [conformance]: "conforms saslAuthenticate_v1_layout saslAuthenticate_v1_decode"
  unfolding saslAuthenticate_v1_layout_def saslAuthenticate_v1_decode_def
  by (rule continues_auth_bytes layout_intros conforms_struct | assumption | simp)+

definition saslAuthenticate_v2_decode :: "jv reader" where
  "saslAuthenticate_v2_decode =
     rd_bind r_tagged (\<lambda>_.
       rd_bind r_int16 (\<lambda>errorCode.
       r_supported errorCode (
       rd_bind r_uvarint_string (\<lambda>errorMessage.
       rd_bind readUVarIntBytes (\<lambda>rawAuthBytes.
       rd_bind (authBytes_buffer rawAuthBytes) (\<lambda>authBytes.
       rd_bind r_int64 (\<lambda>sessionLifetimeMs.
       rd_bind r_tagged (\<lambda>_.
       rd_return (JObj [(''errorCode'', errorCode), (''errorMessage'', errorMessage), (''authBytes'', authBytes),
         (''sessionLifetimeMs'', sessionLifetimeMs)])))))))))"

subsection \<open>Configuration\<close>

definition DEFAULT_CONFIG :: int where "DEFAULT_CONFIG = 5"
definition STATIC_BROKER_CONFIG :: int where "STATIC_BROKER_CONFIG = 4"
definition TOPIC_CONFIG :: int where "TOPIC_CONFIG = 1"
definition UNKNOWN_CONFIG :: int where "UNKNOWN_CONFIG = 0"
definition BROKER_RESOURCE :: int where "BROKER_RESOURCE = 4"
definition TOPIC_RESOURCE :: int where "TOPIC_RESOURCE = 2"

definition describeConfigs_v0_configSource :: "bool \<Rightarrow> jv \<Rightarrow> int" where
  "describeConfigs_v0_configSource isDefault resourceType =
     (if isDefault then DEFAULT_CONFIG
      else if resourceType = JNum BROKER_RESOURCE then STATIC_BROKER_CONFIG
      else if resourceType = JNum TOPIC_RESOURCE then TOPIC_CONFIG
      else UNKNOWN_CONFIG)"

definition describeConfigs_v0_decodeConfigEntries :: "jv \<Rightarrow> jv reader" where
  "describeConfigs_v0_decodeConfigEntries resourceType =
     rd_bind r_string (\<lambda>configName.
       rd_bind r_string (\<lambda>configValue.
       rd_bind r_boolean (\<lambda>readOnly.
       rd_bind r_boolean (\<lambda>isDefault.
       rd_bind r_boolean (\<lambda>isSensitive.
       rd_return (JObj [(''configName'', configName), (''configValue'', configValue), (''readOnly'', readOnly),
         (''isDefault'', isDefault),
         (''configSource'', JNum (describeConfigs_v0_configSource (isDefault = JBool True) resourceType)),
         (''isSensitive'', isSensitive)]))))))"

definition describeConfigs_v0_decodeResources :: "jv reader" where
  "describeConfigs_v0_decodeResources =
     rd_bind r_int16 (\<lambda>errorCode.
       rd_bind r_string (\<lambda>errorMessage.
       rd_bind r_int8 (\<lambda>resourceType.
       rd_bind r_string (\<lambda>resourceName.
       rd_bind (r_array (describeConfigs_v0_decodeConfigEntries resourceType)) (\<lambda>configEntries.
       rd_return (JObj [(''errorCode'', errorCode), (''errorMessage'', errorMessage), (''resourceType'', resourceType),
         (''resourceName'', resourceName), (''configEntries'', configEntries)]))))))"

definition describeConfigs_v0_decode :: "jv reader" where
  "describeConfigs_v0_decode =
     rd_bind r_int32 (\<lambda>throttleTime.
       rd_bind (r_array describeConfigs_v0_decodeResources) (\<lambda>resources.
       rd_return (JObj [(''throttleTime'', throttleTime), (''resources'', resources)])))"

text \<open>From version 1 on the source is in the response, and whether an entry is the default follows from it.\<close>

definition config_source :: "jv \<Rightarrow> (string \<times> jv) list" where
  "config_source v = [(''isDefault'', JBool (v = JNum DEFAULT_CONFIG)), (''configSource'', v)]"

declare config_source_def [simp]

definition describeConfigs_v1_decodeSynonyms :: "jv reader" where
  "describeConfigs_v1_decodeSynonyms =
     r_obj [(''configName'', r_string),
       (''configValue'', r_string),
       (''configSource'', r_int8)]"

definition describeConfigs_v1_decodeConfigEntries :: "jv reader" where
  "describeConfigs_v1_decodeConfigEntries =
     rd_bind r_string (\<lambda>configName.
       rd_bind r_string (\<lambda>configValue.
       rd_bind r_boolean (\<lambda>readOnly.
       rd_bind r_int8 (\<lambda>configSource.
       rd_bind r_boolean (\<lambda>isSensitive.
       rd_bind (r_array describeConfigs_v1_decodeSynonyms) (\<lambda>configSynonyms.
       rd_return (JObj [(''configName'', configName), (''configValue'', configValue), (''readOnly'', readOnly),
         (''isDefault'', JBool (configSource = JNum DEFAULT_CONFIG)), (''configSource'', configSource),
         (''isSensitive'', isSensitive), (''configSynonyms'', configSynonyms)])))))))"

definition describeConfigs_v1_decodeResources :: "jv reader" where
  "describeConfigs_v1_decodeResources =
     r_obj [(''errorCode'', r_int16),
       (''errorMessage'', r_string),
       (''resourceType'', r_int8),
       (''resourceName'', r_string),
       (''configEntries'', r_array describeConfigs_v1_decodeConfigEntries)]"

definition describeConfigs_v1_decode :: "jv reader" where
  "describeConfigs_v1_decode =
     rd_bind r_int32 (\<lambda>throttleTime.
       rd_bind (r_array describeConfigs_v1_decodeResources) (\<lambda>resources.
       rd_return (JObj [(''throttleTime'', throttleTime), (''resources'', resources)])))"

definition describeConfigs_v1_layout :: "layout" where
  "describeConfigs_v1_layout =
     STRUCT [(Field ''throttleTime'', INT32), (Field ''resources'', ARRAY (STRUCT [(Field ''errorCode'',
       INT16), (Field ''errorMessage'', STRING), (Field ''resourceType'', INT8), (Field ''resourceName'',
       STRING), (Field ''configEntries'', ARRAY (STRUCT [(Field ''configName'', STRING),
       (Field ''configValue'', STRING), (Field ''readOnly'', BOOLEAN), (As config_source, INT8),
       (Field ''isSensitive'', BOOLEAN), (Field ''configSynonyms'', ARRAY (STRUCT [(Field ''configName'',
       STRING), (Field ''configValue'', STRING), (Field ''configSource'', INT8)]))]))]))]"

lemma describeConfigs_v1_conforms [conformance]: "conforms describeConfigs_v1_layout describeConfigs_v1_decode"
  unfolding describeConfigs_v1_layout_def describeConfigs_v1_decode_def describeConfigs_v1_decodeResources_def describeConfigs_v1_decodeConfigEntries_def describeConfigs_v1_decodeSynonyms_def
  by (rule continues_literal layout_intros conforms_struct | assumption | simp)+

definition describeConfigs_v2_decode :: "jv reader" where
  "describeConfigs_v2_decode =
     rd_map client_side_throttle describeConfigs_v1_decode"

definition describeConfigs_v2_layout :: "layout" where
  "describeConfigs_v2_layout =
     STRUCT [(Throttle_last, INT32), (Field ''resources'', ARRAY (STRUCT [(Field ''errorCode'', INT16),
       (Field ''errorMessage'', STRING), (Field ''resourceType'', INT8), (Field ''resourceName'', STRING),
       (Field ''configEntries'', ARRAY (STRUCT [(Field ''configName'', STRING), (Field ''configValue'',
       STRING), (Field ''readOnly'', BOOLEAN), (As config_source, INT8), (Field ''isSensitive'', BOOLEAN),
       (Field ''configSynonyms'', ARRAY (STRUCT [(Field ''configName'', STRING), (Field ''configValue'',
       STRING), (Field ''configSource'', INT8)]))]))]))]"

lemma describeConfigs_v2_conforms [conformance]: "conforms describeConfigs_v2_layout describeConfigs_v2_decode"
  unfolding describeConfigs_v2_layout_def describeConfigs_v2_decode_def
  by (rule conforms_throttle_first [OF describeConfigs_v1_conforms [unfolded describeConfigs_v1_layout_def]]) simp_all

definition describeConfigs_v4_decodeSynonyms :: "jv reader" where
  "describeConfigs_v4_decodeSynonyms =
     rd_bind (r_obj [(''configName'', r_uvarint_string),
       (''configValue'', r_uvarint_string),
       (''configSource'', r_int8)]) (\<lambda>synonym.
       rd_bind r_tagged (\<lambda>_.
       rd_return synonym))"

definition describeConfigs_v4_decodeConfigEntries :: "jv reader" where
  "describeConfigs_v4_decodeConfigEntries =
     rd_bind r_uvarint_string (\<lambda>configName.
       rd_bind r_uvarint_string (\<lambda>configValue.
       rd_bind r_boolean (\<lambda>readOnly.
       rd_bind r_int8 (\<lambda>configSource.
       rd_bind r_boolean (\<lambda>isSensitive.
       rd_bind (r_uvarint_array describeConfigs_v4_decodeSynonyms) (\<lambda>configSynonyms.
       rd_bind r_tagged (\<lambda>_.
       rd_return (JObj [(''configName'', configName), (''configValue'', configValue), (''readOnly'', readOnly),
         (''isDefault'', JBool (configSource = JNum DEFAULT_CONFIG)), (''configSource'', configSource),
         (''isSensitive'', isSensitive), (''configSynonyms'', configSynonyms)]))))))))"

definition describeConfigs_v4_decodeResources :: "jv reader" where
  "describeConfigs_v4_decodeResources =
     rd_bind (r_obj [(''errorCode'', r_int16),
       (''errorMessage'', r_uvarint_string),
       (''resourceType'', r_int8),
       (''resourceName'', r_uvarint_string),
       (''configEntries'', r_uvarint_array describeConfigs_v4_decodeConfigEntries)]) (\<lambda>resource.
       rd_bind r_tagged (\<lambda>_.
       rd_return resource))"

definition describeConfigs_v4_decode :: "jv reader" where
  "describeConfigs_v4_decode =
     rd_bind r_tagged (\<lambda>_.
       rd_bind r_int32 (\<lambda>throttleTime.
       rd_bind (r_uvarint_array describeConfigs_v4_decodeResources) (\<lambda>resources.
       rd_bind r_tagged (\<lambda>_.
       rd_return (JObj [(''throttleTime'', JNum 0), (''clientSideThrottleTime'', throttleTime), (''resources'',
         resources)])))))"

definition describeConfigs_v4_layout :: "layout" where
  "describeConfigs_v4_layout =
     STRUCT [(Skip, TAG_BUFFER), (Throttle, INT32), (Field ''resources'',
       COMPACT_ARRAY (STRUCT [(Field ''errorCode'', INT16), (Field ''errorMessage'', COMPACT_STRING),
       (Field ''resourceType'', INT8), (Field ''resourceName'', COMPACT_STRING), (Field ''configEntries'',
       COMPACT_ARRAY (STRUCT [(Field ''configName'', COMPACT_STRING), (Field ''configValue'', COMPACT_STRING),
       (Field ''readOnly'', BOOLEAN), (As config_source, INT8), (Field ''isSensitive'', BOOLEAN),
       (Field ''configSynonyms'', COMPACT_ARRAY (STRUCT [(Field ''configName'', COMPACT_STRING),
       (Field ''configValue'', COMPACT_STRING), (Field ''configSource'', INT8), (Skip, TAG_BUFFER)])), (Skip,
       TAG_BUFFER)])), (Skip, TAG_BUFFER)])), (Skip, TAG_BUFFER)]"

lemma describeConfigs_v4_conforms [conformance]: "conforms describeConfigs_v4_layout describeConfigs_v4_decode"
  unfolding describeConfigs_v4_layout_def describeConfigs_v4_decode_def describeConfigs_v4_decodeResources_def describeConfigs_v4_decodeConfigEntries_def describeConfigs_v4_decodeSynonyms_def
  by (rule continues_literal layout_intros conforms_struct | assumption | simp)+

definition alterConfigs_v0_decodeResources :: "jv reader" where
  "alterConfigs_v0_decodeResources =
     r_obj [(''errorCode'', r_int16),
       (''errorMessage'', r_string),
       (''resourceType'', r_int8),
       (''resourceName'', r_string)]"

definition alterConfigs_v0_decode :: "jv reader" where
  "alterConfigs_v0_decode =
     rd_bind r_int32 (\<lambda>throttleTime.
       rd_bind (r_array alterConfigs_v0_decodeResources) (\<lambda>resources.
       rd_return (JObj [(''throttleTime'', throttleTime), (''resources'', resources)])))"

definition alterConfigs_v0_layout :: "layout" where
  "alterConfigs_v0_layout =
     STRUCT [(Field ''throttleTime'', INT32), (Field ''resources'', ARRAY (STRUCT [(Field ''errorCode'',
       INT16), (Field ''errorMessage'', STRING), (Field ''resourceType'', INT8), (Field ''resourceName'',
       STRING)]))]"

lemma alterConfigs_v0_conforms [conformance]: "conforms alterConfigs_v0_layout alterConfigs_v0_decode"
  unfolding alterConfigs_v0_layout_def alterConfigs_v0_decode_def alterConfigs_v0_decodeResources_def
  by (rule continues_literal layout_intros conforms_struct | assumption | simp)+

definition alterConfigs_v1_decode :: "jv reader" where
  "alterConfigs_v1_decode =
     rd_map client_side_throttle alterConfigs_v0_decode"

definition alterConfigs_v1_layout :: "layout" where
  "alterConfigs_v1_layout =
     STRUCT [(Throttle_last, INT32), (Field ''resources'', ARRAY (STRUCT [(Field ''errorCode'', INT16),
       (Field ''errorMessage'', STRING), (Field ''resourceType'', INT8), (Field ''resourceName'', STRING)]))]"

lemma alterConfigs_v1_conforms [conformance]: "conforms alterConfigs_v1_layout alterConfigs_v1_decode"
  unfolding alterConfigs_v1_layout_def alterConfigs_v1_decode_def
  by (rule conforms_throttle_first [OF alterConfigs_v0_conforms [unfolded alterConfigs_v0_layout_def]]) simp_all

definition alterConfigs_v2_decodeResources :: "jv reader" where
  "alterConfigs_v2_decodeResources =
     rd_bind (r_obj [(''errorCode'', r_int16),
       (''errorMessage'', r_uvarint_string),
       (''resourceType'', r_int8),
       (''resourceName'', r_uvarint_string)]) (\<lambda>resource.
       rd_bind r_tagged (\<lambda>_.
       rd_return resource))"

definition alterConfigs_v2_decode :: "jv reader" where
  "alterConfigs_v2_decode =
     rd_bind r_tagged (\<lambda>_.
       rd_bind r_int32 (\<lambda>throttleTime.
       rd_bind (r_uvarint_array alterConfigs_v2_decodeResources) (\<lambda>resources.
       rd_bind r_tagged (\<lambda>_.
       rd_return (JObj [(''throttleTime'', JNum 0), (''clientSideThrottleTime'', throttleTime), (''resources'',
         resources)])))))"

definition alterConfigs_v2_layout :: "layout" where
  "alterConfigs_v2_layout =
     STRUCT [(Skip, TAG_BUFFER), (Throttle, INT32), (Field ''resources'',
       COMPACT_ARRAY (STRUCT [(Field ''errorCode'', INT16), (Field ''errorMessage'', COMPACT_STRING),
       (Field ''resourceType'', INT8), (Field ''resourceName'', COMPACT_STRING), (Skip, TAG_BUFFER)])), (Skip,
       TAG_BUFFER)]"

lemma alterConfigs_v2_conforms [conformance]: "conforms alterConfigs_v2_layout alterConfigs_v2_decode"
  unfolding alterConfigs_v2_layout_def alterConfigs_v2_decode_def alterConfigs_v2_decodeResources_def
  by (rule continues_literal layout_intros conforms_struct | assumption | simp)+

definition incrementalAlterConfigs_v0_decodeResponse :: "jv reader" where
  "incrementalAlterConfigs_v0_decodeResponse =
     r_obj [(''errorCode'', r_int16),
       (''errorMessage'', r_string),
       (''resourceType'', r_int8),
       (''resourceName'', r_string)]"

definition incrementalAlterConfigs_v0_decode :: "jv reader" where
  "incrementalAlterConfigs_v0_decode =
     rd_bind r_int32 (\<lambda>throttleTime.
       rd_bind (r_array incrementalAlterConfigs_v0_decodeResponse) (\<lambda>responses.
       rd_return (JObj [(''throttleTime'', throttleTime), (''responses'', responses)])))"

definition incrementalAlterConfigs_v0_layout :: "layout" where
  "incrementalAlterConfigs_v0_layout =
     STRUCT [(Field ''throttleTime'', INT32), (Field ''responses'', ARRAY (STRUCT [(Field ''errorCode'',
       INT16), (Field ''errorMessage'', STRING), (Field ''resourceType'', INT8), (Field ''resourceName'',
       STRING)]))]"

lemma incrementalAlterConfigs_v0_conforms [conformance]: "conforms incrementalAlterConfigs_v0_layout incrementalAlterConfigs_v0_decode"
  unfolding incrementalAlterConfigs_v0_layout_def incrementalAlterConfigs_v0_decode_def incrementalAlterConfigs_v0_decodeResponse_def
  by (rule continues_literal layout_intros conforms_struct | assumption | simp)+

definition incrementalAlterConfigs_v1_decodeResponse :: "jv reader" where
  "incrementalAlterConfigs_v1_decodeResponse =
     rd_bind (r_obj [(''errorCode'', r_int16),
       (''errorMessage'', r_uvarint_string),
       (''resourceType'', r_int8),
       (''resourceName'', r_uvarint_string)]) (\<lambda>response.
       rd_bind r_tagged (\<lambda>_.
       rd_return response))"

definition incrementalAlterConfigs_v1_decode :: "jv reader" where
  "incrementalAlterConfigs_v1_decode =
     rd_bind r_tagged (\<lambda>_.
       rd_bind r_int32 (\<lambda>throttleTime.
       rd_bind (r_uvarint_array incrementalAlterConfigs_v1_decodeResponse) (\<lambda>responses.
       rd_bind r_tagged (\<lambda>_.
       rd_return (JObj [(''throttleTime'', JNum 0), (''clientSideThrottleTime'', throttleTime), (''responses'',
         responses)])))))"

definition incrementalAlterConfigs_v1_layout :: "layout" where
  "incrementalAlterConfigs_v1_layout =
     STRUCT [(Skip, TAG_BUFFER), (Throttle, INT32), (Field ''responses'',
       COMPACT_ARRAY (STRUCT [(Field ''errorCode'', INT16), (Field ''errorMessage'', COMPACT_STRING),
       (Field ''resourceType'', INT8), (Field ''resourceName'', COMPACT_STRING), (Skip, TAG_BUFFER)])), (Skip,
       TAG_BUFFER)]"

lemma incrementalAlterConfigs_v1_conforms [conformance]: "conforms incrementalAlterConfigs_v1_layout incrementalAlterConfigs_v1_decode"
  unfolding incrementalAlterConfigs_v1_layout_def incrementalAlterConfigs_v1_decode_def incrementalAlterConfigs_v1_decodeResponse_def
  by (rule continues_literal layout_intros conforms_struct | assumption | simp)+

subsection \<open>All of them\<close>

definition admin_responses :: "comparison \<Rightarrow> (string \<times> nat \<times> layout \<times> jv reader) list" where
  "admin_responses localeCompare =
     [(''createTopics'', 0, createTopics_v0_layout localeCompare, createTopics_v0_decode localeCompare),
      (''createTopics'', 1, createTopics_v1_layout localeCompare, createTopics_v1_decode localeCompare),
      (''createTopics'', 2, createTopics_v2_layout localeCompare, createTopics_v2_decode localeCompare),
      (''createTopics'', 3, createTopics_v3_layout localeCompare, createTopics_v3_decode localeCompare),
      (''createTopics'', 5, createTopics_v5_layout localeCompare, createTopics_v5_decode localeCompare),
      (''deleteTopics'', 0, deleteTopics_v0_layout localeCompare, deleteTopics_v0_decode localeCompare),
      (''deleteTopics'', 1, deleteTopics_v1_layout localeCompare, deleteTopics_v1_decode localeCompare),
      (''deleteTopics'', 4, deleteTopics_v4_layout localeCompare, deleteTopics_v4_decode localeCompare),
      (''deleteRecords'', 0, deleteRecords_v0_layout localeCompare, deleteRecords_v0_decode localeCompare),
      (''deleteRecords'', 1, deleteRecords_v1_layout localeCompare, deleteRecords_v1_decode localeCompare),
      (''createPartitions'', 0, createPartitions_v0_layout localeCompare, createPartitions_v0_decode localeCompare),
      (''createPartitions'', 1, createPartitions_v1_layout localeCompare, createPartitions_v1_decode localeCompare),
      (''alterPartitionReassignments'', 0, alterPartitionReassignments_v0_layout, alterPartitionReassignments_v0_decode),
      (''listPartitionReassignments'', 0, listPartitionReassignments_v0_layout, listPartitionReassignments_v0_decode),
      (''electLeaders'', 0, electLeaders_v0_layout, electLeaders_v0_decode),
      (''electLeaders'', 1, electLeaders_v0_layout, electLeaders_v1_decode),
      (''electLeaders'', 2, electLeaders_v2_layout, electLeaders_v2_decode),
      (''describeLogDirs'', 0, describeLogDirs_v0_layout, describeLogDirs_v0_decode),
      (''describeLogDirs'', 2, describeLogDirs_v2_layout, describeLogDirs_v2_decode),
      (''createAcls'', 0, createAcls_v0_layout, createAcls_v0_decode),
      (''createAcls'', 1, createAcls_v1_layout, createAcls_v1_decode),
      (''deleteAcls'', 0, deleteAcls_v0_layout, deleteAcls_v0_decode),
      (''deleteAcls'', 1, deleteAcls_v1_layout, deleteAcls_v1_decode),
      (''describeAcls'', 0, describeAcls_v0_layout, describeAcls_v0_decode),
      (''describeAcls'', 1, describeAcls_v1_layout, describeAcls_v1_decode),
      (''saslHandshake'', 0, saslHandshake_v0_layout, saslHandshake_v0_decode),
      (''saslHandshake'', 1, saslHandshake_v0_layout, saslHandshake_v1_decode),
      (''saslAuthenticate'', 0, saslAuthenticate_v0_layout, saslAuthenticate_v0_decode),
      (''saslAuthenticate'', 1, saslAuthenticate_v1_layout, saslAuthenticate_v1_decode),
      (''describeConfigs'', 1, describeConfigs_v1_layout, describeConfigs_v1_decode),
      (''describeConfigs'', 2, describeConfigs_v2_layout, describeConfigs_v2_decode),
      (''describeConfigs'', 4, describeConfigs_v4_layout, describeConfigs_v4_decode),
      (''alterConfigs'', 0, alterConfigs_v0_layout, alterConfigs_v0_decode),
      (''alterConfigs'', 1, alterConfigs_v1_layout, alterConfigs_v1_decode),
      (''alterConfigs'', 2, alterConfigs_v2_layout, alterConfigs_v2_decode),
      (''incrementalAlterConfigs'', 0, incrementalAlterConfigs_v0_layout, incrementalAlterConfigs_v0_decode),
      (''incrementalAlterConfigs'', 1, incrementalAlterConfigs_v1_layout, incrementalAlterConfigs_v1_decode)]"

lemma admin_responses_conform: "\<forall>(_, _, t, r) \<in> set (admin_responses localeCompare). conforms t r"
  by (simp add: admin_responses_def conformance)

end
