(* ===== verification/Responses_Share.thy ===== *)
theory Responses_Share
  imports Protocol_Layout
begin

text \<open>
  The decoders of the responses about share groups and the voters of a quorum, one definition per function of the files
  \<^verbatim>\<open>src/protocol/requests/*/v*/response.js\<close>, the layouts that the comments of these files document, and the proof
  that every decoder conforms to its layout.
\<close>

subsection \<open>Share groups\<close>

definition shareGroupHeartbeat_v0_decodeAssignment :: "jv reader" where
  "shareGroupHeartbeat_v0_decodeAssignment =
     rd_bind r_uuid (\<lambda>topicId.
       rd_bind (r_uvarint_loop r_int32) (\<lambda>partitions.
       rd_bind r_tagged (\<lambda>_.
       rd_return (JObj [(''topicId'', topicId), (''partitions'', partitions)]))))"

definition shareGroupHeartbeat_v0_decode :: "jv reader" where
  "shareGroupHeartbeat_v0_decode =
     rd_bind r_tagged (\<lambda>_.
       rd_bind r_int32 (\<lambda>throttleTime.
       rd_bind r_int16 (\<lambda>errorCode.
       rd_bind r_uvarint_string (\<lambda>errorMessage.
       rd_bind r_uvarint_string (\<lambda>memberId.
       rd_bind r_int32 (\<lambda>memberEpoch.
       rd_bind r_int32 (\<lambda>heartbeatIntervalMs.
       rd_bind (r_uvarint_array shareGroupHeartbeat_v0_decodeAssignment) (\<lambda>assignment.
       rd_return (JObj [(''throttleTime'', throttleTime), (''errorCode'', errorCode), (''errorMessage'',
         errorMessage), (''memberId'', memberId), (''memberEpoch'', memberEpoch), (''heartbeatIntervalMs'',
         heartbeatIntervalMs), (''assignment'', assignment)])))))))))"

definition shareGroupHeartbeat_v0_layout :: "layout" where
  "shareGroupHeartbeat_v0_layout =
     STRUCT [(Skip, TAG_BUFFER), (Field ''throttleTime'', INT32), (Field ''errorCode'', INT16),
       (Field ''errorMessage'', COMPACT_STRING), (Field ''memberId'', COMPACT_STRING), (Field ''memberEpoch'',
       INT32), (Field ''heartbeatIntervalMs'', INT32), (Field ''assignment'',
       COMPACT_ARRAY (STRUCT [(Field ''topicId'', UUID), (Field ''partitions'', COMPACT_LIST INT32), (Skip,
       TAG_BUFFER)]))]"

lemma shareGroupHeartbeat_v0_conforms [conformance]: "conforms shareGroupHeartbeat_v0_layout shareGroupHeartbeat_v0_decode"
  unfolding shareGroupHeartbeat_v0_layout_def shareGroupHeartbeat_v0_decode_def shareGroupHeartbeat_v0_decodeAssignment_def
  by (rule continues_literal layout_intros conforms_struct | assumption | simp)+

definition shareGroupDescribe_v0_decodePartition :: "jv reader" where
  "shareGroupDescribe_v0_decodePartition =
     rd_bind r_int32 (\<lambda>partitionIndex.
       rd_bind r_int64 (\<lambda>startOffset.
       rd_bind r_int32 (\<lambda>stateEpoch.
       rd_bind r_int32 (\<lambda>leaderEpoch.
       rd_bind r_tagged (\<lambda>_.
       rd_return (JObj [(''partitionIndex'', partitionIndex), (''startOffset'', startOffset), (''stateEpoch'',
         stateEpoch), (''leaderEpoch'', leaderEpoch)]))))))"

definition shareGroupDescribe_v0_decodeTopic :: "jv reader" where
  "shareGroupDescribe_v0_decodeTopic =
     rd_bind r_uuid (\<lambda>topicId.
       rd_bind r_uvarint_string (\<lambda>topicName.
       rd_bind (r_uvarint_array shareGroupDescribe_v0_decodePartition) (\<lambda>partitions.
       rd_bind r_tagged (\<lambda>_.
       rd_return (JObj [(''topicId'', topicId), (''topicName'', topicName), (''partitions'', partitions)])))))"

definition shareGroupDescribe_v0_decodeMember :: "jv reader" where
  "shareGroupDescribe_v0_decodeMember =
     rd_bind r_uvarint_string (\<lambda>memberId.
       rd_bind r_uvarint_string (\<lambda>rackId.
       rd_bind r_int32 (\<lambda>memberEpoch.
       rd_bind r_uvarint_string (\<lambda>clientId.
       rd_bind r_uvarint_string (\<lambda>clientHost.
       rd_bind (r_uvarint_loop r_uvarint_string) (\<lambda>subscribedTopicNames.
       rd_bind (r_uvarint_array (rd_bind r_uuid (\<lambda>topicId.
       rd_bind (r_uvarint_loop r_int32) (\<lambda>partitions.
       rd_bind r_tagged (\<lambda>_.
       rd_return (JObj [(''topicId'', topicId), (''partitions'', partitions)])))))) (\<lambda>assignment.
       rd_bind r_tagged (\<lambda>_.
       rd_return (JObj [(''memberId'', memberId), (''rackId'', rackId), (''memberEpoch'', memberEpoch),
         (''clientId'', clientId), (''clientHost'', clientHost), (''subscribedTopicNames'',
         subscribedTopicNames), (''assignment'', assignment)])))))))))"

definition shareGroupDescribe_v0_decodeGroup :: "jv reader" where
  "shareGroupDescribe_v0_decodeGroup =
     rd_bind r_int16 (\<lambda>errorCode.
       rd_bind r_uvarint_string (\<lambda>errorMessage.
       rd_bind r_uvarint_string (\<lambda>groupId.
       rd_bind r_uvarint_string (\<lambda>groupState.
       rd_bind r_int32 (\<lambda>groupEpoch.
       rd_bind r_int32 (\<lambda>assignmentEpoch.
       rd_bind r_uvarint_string (\<lambda>assignorName.
       rd_bind (r_uvarint_array shareGroupDescribe_v0_decodeTopic) (\<lambda>topics.
       rd_bind (r_uvarint_array shareGroupDescribe_v0_decodeMember) (\<lambda>members.
       rd_bind r_int32 (\<lambda>authorizedOperations.
       rd_bind r_tagged (\<lambda>_.
       rd_return (JObj [(''errorCode'', errorCode), (''errorMessage'', errorMessage), (''groupId'', groupId),
         (''groupState'', groupState), (''groupEpoch'', groupEpoch), (''assignmentEpoch'', assignmentEpoch),
         (''assignorName'', assignorName), (''topics'', topics), (''members'', members),
         (''authorizedOperations'', authorizedOperations)]))))))))))))"

definition shareGroupDescribe_v0_decode :: "jv reader" where
  "shareGroupDescribe_v0_decode =
     rd_bind r_tagged (\<lambda>_.
       rd_bind r_int32 (\<lambda>throttleTime.
       rd_bind (r_uvarint_array shareGroupDescribe_v0_decodeGroup) (\<lambda>groups.
       rd_return (JObj [(''throttleTime'', throttleTime), (''groups'', groups)]))))"

definition shareGroupDescribe_v0_layout :: "layout" where
  "shareGroupDescribe_v0_layout =
     STRUCT [(Skip, TAG_BUFFER), (Field ''throttleTime'', INT32), (Field ''groups'',
       COMPACT_ARRAY (STRUCT [(Field ''errorCode'', INT16), (Field ''errorMessage'', COMPACT_STRING),
       (Field ''groupId'', COMPACT_STRING), (Field ''groupState'', COMPACT_STRING), (Field ''groupEpoch'',
       INT32), (Field ''assignmentEpoch'', INT32), (Field ''assignorName'', COMPACT_STRING), (Field ''topics'',
       COMPACT_ARRAY (STRUCT [(Field ''topicId'', UUID), (Field ''topicName'', COMPACT_STRING),
       (Field ''partitions'', COMPACT_ARRAY (STRUCT [(Field ''partitionIndex'', INT32), (Field ''startOffset'',
       INT64), (Field ''stateEpoch'', INT32), (Field ''leaderEpoch'', INT32), (Skip, TAG_BUFFER)])), (Skip,
       TAG_BUFFER)])), (Field ''members'', COMPACT_ARRAY (STRUCT [(Field ''memberId'', COMPACT_STRING),
       (Field ''rackId'', COMPACT_STRING), (Field ''memberEpoch'', INT32), (Field ''clientId'',
       COMPACT_STRING), (Field ''clientHost'', COMPACT_STRING), (Field ''subscribedTopicNames'',
       COMPACT_LIST COMPACT_STRING), (Field ''assignment'', COMPACT_ARRAY (STRUCT [(Field ''topicId'', UUID),
       (Field ''partitions'', COMPACT_LIST INT32), (Skip, TAG_BUFFER)])), (Skip, TAG_BUFFER)])),
       (Field ''authorizedOperations'', INT32), (Skip, TAG_BUFFER)]))]"

lemma shareGroupDescribe_v0_conforms [conformance]: "conforms shareGroupDescribe_v0_layout shareGroupDescribe_v0_decode"
  unfolding shareGroupDescribe_v0_layout_def shareGroupDescribe_v0_decode_def shareGroupDescribe_v0_decodeGroup_def shareGroupDescribe_v0_decodeTopic_def shareGroupDescribe_v0_decodePartition_def shareGroupDescribe_v0_decodeMember_def
  by (rule continues_literal layout_intros conforms_struct | assumption | simp)+

definition shareFetch_v0_decodeAcquiredRecords :: "jv reader" where
  "shareFetch_v0_decodeAcquiredRecords =
     rd_bind r_int64 (\<lambda>firstOffset.
       rd_bind r_int64 (\<lambda>lastOffset.
       rd_bind r_int16 (\<lambda>deliveryCount.
       rd_bind r_tagged (\<lambda>_.
       rd_return (JObj [(''firstOffset'', firstOffset), (''lastOffset'', lastOffset), (''deliveryCount'',
         deliveryCount)])))))"

definition shareFetch_v0_decodePartition :: "jv reader" where
  "shareFetch_v0_decodePartition =
     rd_bind r_int32 (\<lambda>partitionIndex.
       rd_bind r_int16 (\<lambda>errorCode.
       rd_bind r_uvarint_string (\<lambda>errorMessage.
       rd_bind (rd_bind r_int32 (\<lambda>leaderId.
       rd_bind r_int32 (\<lambda>leaderEpoch.
       rd_bind r_tagged (\<lambda>_.
       rd_return (JObj [(''leaderId'', leaderId), (''leaderEpoch'', leaderEpoch)]))))) (\<lambda>currentLeader.
       rd_bind (rd_bind r_int32 (\<lambda>epoch.
       rd_bind r_int64 (\<lambda>offset.
       rd_bind r_tagged (\<lambda>_.
       rd_return (JObj [(''epoch'', epoch), (''offset'', offset)]))))) (\<lambda>snapshotId.
       rd_bind (r_uvarint_array shareFetch_v0_decodeAcquiredRecords) (\<lambda>acquiredRecords.
       rd_bind r_tagged (\<lambda>_.
       rd_return (JObj [(''partitionIndex'', partitionIndex), (''errorCode'', errorCode), (''errorMessage'',
         errorMessage), (''currentLeader'', currentLeader), (''snapshotId'', snapshotId), (''acquiredRecords'',
         acquiredRecords)]))))))))"

definition shareFetch_v0_decodeTopic :: "jv reader" where
  "shareFetch_v0_decodeTopic =
     rd_bind r_uuid (\<lambda>topicId.
       rd_bind (r_uvarint_array shareFetch_v0_decodePartition) (\<lambda>partitions.
       rd_bind r_tagged (\<lambda>_.
       rd_return (JObj [(''topicId'', topicId), (''partitions'', partitions)]))))"

definition shareFetch_v0_decode :: "jv reader" where
  "shareFetch_v0_decode =
     rd_bind r_tagged (\<lambda>_.
       rd_bind r_int32 (\<lambda>throttleTime.
       rd_bind r_int16 (\<lambda>errorCode.
       rd_bind r_uvarint_string (\<lambda>errorMessage.
       rd_bind (r_uvarint_array shareFetch_v0_decodeTopic) (\<lambda>responses.
       rd_return (JObj [(''throttleTime'', throttleTime), (''errorCode'', errorCode), (''errorMessage'',
         errorMessage), (''responses'', responses)]))))))"

definition shareFetch_v0_layout :: "layout" where
  "shareFetch_v0_layout =
     STRUCT [(Skip, TAG_BUFFER), (Field ''throttleTime'', INT32), (Field ''errorCode'', INT16),
       (Field ''errorMessage'', COMPACT_STRING), (Field ''responses'',
       COMPACT_ARRAY (STRUCT [(Field ''topicId'', UUID), (Field ''partitions'',
       COMPACT_ARRAY (STRUCT [(Field ''partitionIndex'', INT32), (Field ''errorCode'', INT16),
       (Field ''errorMessage'', COMPACT_STRING), (Field ''currentLeader'', STRUCT [(Field ''leaderId'', INT32),
       (Field ''leaderEpoch'', INT32), (Skip, TAG_BUFFER)]), (Field ''snapshotId'', STRUCT [(Field ''epoch'',
       INT32), (Field ''offset'', INT64), (Skip, TAG_BUFFER)]), (Field ''acquiredRecords'',
       COMPACT_ARRAY (STRUCT [(Field ''firstOffset'', INT64), (Field ''lastOffset'', INT64),
       (Field ''deliveryCount'', INT16), (Skip, TAG_BUFFER)])), (Skip, TAG_BUFFER)])), (Skip, TAG_BUFFER)]))]"

lemma shareFetch_v0_conforms [conformance]: "conforms shareFetch_v0_layout shareFetch_v0_decode"
  unfolding shareFetch_v0_layout_def shareFetch_v0_decode_def shareFetch_v0_decodeTopic_def shareFetch_v0_decodePartition_def shareFetch_v0_decodeAcquiredRecords_def
  by (rule continues_literal layout_intros conforms_struct | assumption | simp)+

definition shareAcknowledge_v0_decodePartition :: "jv reader" where
  "shareAcknowledge_v0_decodePartition =
     rd_bind r_int32 (\<lambda>partitionIndex.
       rd_bind r_int16 (\<lambda>errorCode.
       rd_bind r_uvarint_string (\<lambda>errorMessage.
       rd_bind (rd_bind r_int32 (\<lambda>leaderId.
       rd_bind r_int32 (\<lambda>leaderEpoch.
       rd_bind r_tagged (\<lambda>_.
       rd_return (JObj [(''leaderId'', leaderId), (''leaderEpoch'', leaderEpoch)]))))) (\<lambda>currentLeader.
       rd_bind r_tagged (\<lambda>_.
       rd_return (JObj [(''partitionIndex'', partitionIndex), (''errorCode'', errorCode), (''errorMessage'',
         errorMessage), (''currentLeader'', currentLeader)]))))))"

definition shareAcknowledge_v0_decodeTopic :: "jv reader" where
  "shareAcknowledge_v0_decodeTopic =
     rd_bind r_uuid (\<lambda>topicId.
       rd_bind (r_uvarint_array shareAcknowledge_v0_decodePartition) (\<lambda>partitions.
       rd_bind r_tagged (\<lambda>_.
       rd_return (JObj [(''topicId'', topicId), (''partitions'', partitions)]))))"

definition shareAcknowledge_v0_decode :: "jv reader" where
  "shareAcknowledge_v0_decode =
     rd_bind r_tagged (\<lambda>_.
       rd_bind r_int32 (\<lambda>throttleTime.
       rd_bind r_int16 (\<lambda>errorCode.
       rd_bind r_uvarint_string (\<lambda>errorMessage.
       rd_bind (r_uvarint_array shareAcknowledge_v0_decodeTopic) (\<lambda>responses.
       rd_return (JObj [(''throttleTime'', throttleTime), (''errorCode'', errorCode), (''errorMessage'',
         errorMessage), (''responses'', responses)]))))))"

definition shareAcknowledge_v0_layout :: "layout" where
  "shareAcknowledge_v0_layout =
     STRUCT [(Skip, TAG_BUFFER), (Field ''throttleTime'', INT32), (Field ''errorCode'', INT16),
       (Field ''errorMessage'', COMPACT_STRING), (Field ''responses'',
       COMPACT_ARRAY (STRUCT [(Field ''topicId'', UUID), (Field ''partitions'',
       COMPACT_ARRAY (STRUCT [(Field ''partitionIndex'', INT32), (Field ''errorCode'', INT16),
       (Field ''errorMessage'', COMPACT_STRING), (Field ''currentLeader'', STRUCT [(Field ''leaderId'', INT32),
       (Field ''leaderEpoch'', INT32), (Skip, TAG_BUFFER)]), (Skip, TAG_BUFFER)])), (Skip, TAG_BUFFER)]))]"

lemma shareAcknowledge_v0_conforms [conformance]: "conforms shareAcknowledge_v0_layout shareAcknowledge_v0_decode"
  unfolding shareAcknowledge_v0_layout_def shareAcknowledge_v0_decode_def shareAcknowledge_v0_decodeTopic_def shareAcknowledge_v0_decodePartition_def
  by (rule continues_literal layout_intros conforms_struct | assumption | simp)+

definition readShareGroupStateSummary_v0_decodePartition :: "jv reader" where
  "readShareGroupStateSummary_v0_decodePartition =
     rd_bind r_int32 (\<lambda>partitionIndex.
       rd_bind r_int16 (\<lambda>errorCode.
       rd_bind r_uvarint_string (\<lambda>errorMessage.
       rd_bind r_int32 (\<lambda>stateEpoch.
       rd_bind r_int64 (\<lambda>startOffset.
       rd_bind r_tagged (\<lambda>_.
       rd_return (JObj [(''partitionIndex'', partitionIndex), (''errorCode'', errorCode), (''errorMessage'',
         errorMessage), (''stateEpoch'', stateEpoch), (''startOffset'', startOffset)])))))))"

definition readShareGroupStateSummary_v0_decodeTopic :: "jv reader" where
  "readShareGroupStateSummary_v0_decodeTopic =
     rd_bind r_uvarint_string (\<lambda>groupId.
       rd_bind r_uuid (\<lambda>topicId.
       rd_bind (r_uvarint_array readShareGroupStateSummary_v0_decodePartition) (\<lambda>partitions.
       rd_bind r_tagged (\<lambda>_.
       rd_return (JObj [(''groupId'', groupId), (''topicId'', topicId), (''partitions'', partitions)])))))"

definition readShareGroupStateSummary_v0_decode :: "jv reader" where
  "readShareGroupStateSummary_v0_decode =
     rd_bind r_tagged (\<lambda>_.
       rd_bind r_int32 (\<lambda>throttleTime.
       rd_bind (r_uvarint_array readShareGroupStateSummary_v0_decodeTopic) (\<lambda>results.
       rd_return (JObj [(''throttleTime'', throttleTime), (''results'', results)]))))"

definition readShareGroupStateSummary_v0_layout :: "layout" where
  "readShareGroupStateSummary_v0_layout =
     STRUCT [(Skip, TAG_BUFFER), (Field ''throttleTime'', INT32), (Field ''results'',
       COMPACT_ARRAY (STRUCT [(Field ''groupId'', COMPACT_STRING), (Field ''topicId'', UUID),
       (Field ''partitions'', COMPACT_ARRAY (STRUCT [(Field ''partitionIndex'', INT32), (Field ''errorCode'',
       INT16), (Field ''errorMessage'', COMPACT_STRING), (Field ''stateEpoch'', INT32), (Field ''startOffset'',
       INT64), (Skip, TAG_BUFFER)])), (Skip, TAG_BUFFER)]))]"

lemma readShareGroupStateSummary_v0_conforms [conformance]: "conforms readShareGroupStateSummary_v0_layout readShareGroupStateSummary_v0_decode"
  unfolding readShareGroupStateSummary_v0_layout_def readShareGroupStateSummary_v0_decode_def readShareGroupStateSummary_v0_decodeTopic_def readShareGroupStateSummary_v0_decodePartition_def
  by (rule continues_literal layout_intros conforms_struct | assumption | simp)+

subsection \<open>Voters of the quorum\<close>

definition addRaftVoter_v0_decode :: "jv reader" where
  "addRaftVoter_v0_decode =
     rd_bind r_tagged (\<lambda>_.
       rd_bind r_int32 (\<lambda>throttleTime.
       rd_bind r_int16 (\<lambda>errorCode.
       rd_bind r_uvarint_string (\<lambda>errorMessage.
       rd_bind (rd_bind r_int32 (\<lambda>leaderId.
       rd_bind r_uvarint_string (\<lambda>host.
       rd_bind r_int32 (\<lambda>port.
       rd_bind r_tagged (\<lambda>_.
       rd_return (JObj [(''leaderId'', leaderId), (''host'', host), (''port'',
         port)])))))) (\<lambda>currentLeader.
       rd_return (JObj [(''throttleTime'', throttleTime), (''errorCode'', errorCode), (''errorMessage'',
         errorMessage), (''currentLeader'', currentLeader)]))))))"

definition addRaftVoter_v0_layout :: "layout" where
  "addRaftVoter_v0_layout =
     STRUCT [(Skip, TAG_BUFFER), (Field ''throttleTime'', INT32), (Field ''errorCode'', INT16),
       (Field ''errorMessage'', COMPACT_STRING), (Field ''currentLeader'', STRUCT [(Field ''leaderId'', INT32),
       (Field ''host'', COMPACT_STRING), (Field ''port'', INT32), (Skip, TAG_BUFFER)])]"

lemma addRaftVoter_v0_conforms [conformance]: "conforms addRaftVoter_v0_layout addRaftVoter_v0_decode"
  unfolding addRaftVoter_v0_layout_def addRaftVoter_v0_decode_def
  by (rule continues_literal layout_intros conforms_struct | assumption | simp)+

definition removeRaftVoter_v0_decode :: "jv reader" where
  "removeRaftVoter_v0_decode =
     rd_bind r_tagged (\<lambda>_.
       rd_bind r_int32 (\<lambda>throttleTime.
       rd_bind r_int16 (\<lambda>errorCode.
       rd_bind r_uvarint_string (\<lambda>errorMessage.
       rd_bind (rd_bind r_int32 (\<lambda>leaderId.
       rd_bind r_uvarint_string (\<lambda>host.
       rd_bind r_int32 (\<lambda>port.
       rd_bind r_tagged (\<lambda>_.
       rd_return (JObj [(''leaderId'', leaderId), (''host'', host), (''port'',
         port)])))))) (\<lambda>currentLeader.
       rd_return (JObj [(''throttleTime'', throttleTime), (''errorCode'', errorCode), (''errorMessage'',
         errorMessage), (''currentLeader'', currentLeader)]))))))"

definition removeRaftVoter_v0_layout :: "layout" where
  "removeRaftVoter_v0_layout =
     STRUCT [(Skip, TAG_BUFFER), (Field ''throttleTime'', INT32), (Field ''errorCode'', INT16),
       (Field ''errorMessage'', COMPACT_STRING), (Field ''currentLeader'', STRUCT [(Field ''leaderId'', INT32),
       (Field ''host'', COMPACT_STRING), (Field ''port'', INT32), (Skip, TAG_BUFFER)])]"

lemma removeRaftVoter_v0_conforms [conformance]: "conforms removeRaftVoter_v0_layout removeRaftVoter_v0_decode"
  unfolding removeRaftVoter_v0_layout_def removeRaftVoter_v0_decode_def
  by (rule continues_literal layout_intros conforms_struct | assumption | simp)+

definition updateRaftVoter_v0_decode :: "jv reader" where
  "updateRaftVoter_v0_decode =
     rd_bind r_tagged (\<lambda>_.
       rd_bind r_int32 (\<lambda>throttleTime.
       rd_bind r_int16 (\<lambda>errorCode.
       rd_bind r_uvarint_string (\<lambda>errorMessage.
       rd_bind (rd_bind r_int32 (\<lambda>leaderId.
       rd_bind r_uvarint_string (\<lambda>host.
       rd_bind r_int32 (\<lambda>port.
       rd_bind r_tagged (\<lambda>_.
       rd_return (JObj [(''leaderId'', leaderId), (''host'', host), (''port'',
         port)])))))) (\<lambda>currentLeader.
       rd_return (JObj [(''throttleTime'', throttleTime), (''errorCode'', errorCode), (''errorMessage'',
         errorMessage), (''currentLeader'', currentLeader)]))))))"

definition updateRaftVoter_v0_layout :: "layout" where
  "updateRaftVoter_v0_layout =
     STRUCT [(Skip, TAG_BUFFER), (Field ''throttleTime'', INT32), (Field ''errorCode'', INT16),
       (Field ''errorMessage'', COMPACT_STRING), (Field ''currentLeader'', STRUCT [(Field ''leaderId'', INT32),
       (Field ''host'', COMPACT_STRING), (Field ''port'', INT32), (Skip, TAG_BUFFER)])]"

lemma updateRaftVoter_v0_conforms [conformance]: "conforms updateRaftVoter_v0_layout updateRaftVoter_v0_decode"
  unfolding updateRaftVoter_v0_layout_def updateRaftVoter_v0_decode_def
  by (rule continues_literal layout_intros conforms_struct | assumption | simp)+

subsection \<open>All of them\<close>

definition share_responses :: "(string \<times> nat \<times> layout \<times> jv reader) list" where
  "share_responses =
     [(''shareGroupHeartbeat'', 0, shareGroupHeartbeat_v0_layout, shareGroupHeartbeat_v0_decode),
      (''shareGroupDescribe'', 0, shareGroupDescribe_v0_layout, shareGroupDescribe_v0_decode),
      (''shareFetch'', 0, shareFetch_v0_layout, shareFetch_v0_decode),
      (''shareAcknowledge'', 0, shareAcknowledge_v0_layout, shareAcknowledge_v0_decode),
      (''readShareGroupStateSummary'', 0, readShareGroupStateSummary_v0_layout, readShareGroupStateSummary_v0_decode),
      (''addRaftVoter'', 0, addRaftVoter_v0_layout, addRaftVoter_v0_decode),
      (''removeRaftVoter'', 0, removeRaftVoter_v0_layout, removeRaftVoter_v0_decode),
      (''updateRaftVoter'', 0, updateRaftVoter_v0_layout, updateRaftVoter_v0_decode)]"

lemma share_responses_conform: "\<forall>(_, _, t, r) \<in> set share_responses. conforms t r"
  by (simp add: share_responses_def conformance)

end
