(* ===== verification/Fetch_Response.thy ===== *)
theory Fetch_Response
  imports Record_Batch Message_Set Protocol_Layout
begin

text \<open>
  The responses to fetches: \<^verbatim>\<open>src/protocol/requests/fetch/v*/response.js\<close> and the decoding of the messages inside
  them, \<^verbatim>\<open>decodeMessages.js\<close>. The decoders of the responses take the reader of the messages as an argument, which
  is the decoder of message sets up to version 3 and \<open>decodeMessages\<close> after it.
\<close>

subsection \<open>Messages\<close>

definition MAGIC_OFFSET :: int where "MAGIC_OFFSET = 16"
definition RECORD_BATCH_OVERHEAD :: int where "RECORD_BATCH_OVERHEAD = 49"

datatype fetched = Records "decoded_record list" | Messages "decoded_message list"

text \<open>
  The loop over the record batches. A partial batch ends it. A malformed length may move the decoder back, so
  that the loop takes fuel.
\<close>

fun batches_loop :: "nat \<Rightarrow> codec_registry \<Rightarrow> decoded_record list \<Rightarrow> decoder \<Rightarrow> decoded_record list result option" where
  "batches_loop 0 codecs records d = None"
| "batches_loop (Suc fuel) codecs records d =
     (if canReadBytes RECORD_BATCH_OVERHEAD d
      then case RecordBatchDecoder codecs d of
             Inl e \<Rightarrow> Some (if e = KafkaJSPartialMessageError then Inr records else Inl e)
           | Inr ((_, recs), d') \<Rightarrow> batches_loop fuel codecs (records @ recs) d'
      else Some (Inr records))"

definition decode_messages_buffer :: "nat \<Rightarrow> codec_registry \<Rightarrow> buffer \<Rightarrow> fetched result option" where
  "decode_messages_buffer fuel codecs messagesBuffer =
     (case read_int_be 1 (buf_slice messagesBuffer MAGIC_OFFSET (int (length messagesBuffer))) 0 of
        Inl e \<Rightarrow> Some (Inl e)
      | Inr magic \<Rightarrow>
          if magic = MAGIC_BYTE
          then map_option (\<lambda>r. rbind r (\<lambda>recs. Inr (Records recs))) (batches_loop fuel codecs [] (new_Decoder messagesBuffer))
          else map_option (\<lambda>r. rbind r (\<lambda>(ms, _). Inr (Messages ms)))
                 (MessageSetDecoder fuel codecs (Some (int (length messagesBuffer))) (new_Decoder messagesBuffer)))"

definition decode_sized_messages ::
    "nat \<Rightarrow> codec_registry \<Rightarrow> int \<Rightarrow> decoder \<Rightarrow> (fetched \<times> decoder) result option" where
  "decode_sized_messages fuel codecs messagesSize d =
     (if messagesSize \<le> 0 \<or> \<not> canReadBytes messagesSize d then Some (Inr (Records [], d))
      else case take_slice messagesSize d of
             Inl e \<Rightarrow> Some (Inl e)
           | Inr (messagesBuffer, d') \<Rightarrow>
               map_option (\<lambda>r. rbind r (\<lambda>ms. Inr (ms, d'))) (decode_messages_buffer fuel codecs messagesBuffer))"

definition fetch_v4_decodeMessages :: "nat \<Rightarrow> codec_registry \<Rightarrow> decoder \<Rightarrow> (fetched \<times> decoder) result option" where
  "fetch_v4_decodeMessages fuel codecs d =
     (case readInt32 d of
        Inl e \<Rightarrow> Some (Inl e)
      | Inr (messagesSize, d) \<Rightarrow> decode_sized_messages fuel codecs messagesSize d)"

definition fetch_v12_decodeMessages :: "nat \<Rightarrow> codec_registry \<Rightarrow> decoder \<Rightarrow> (fetched \<times> decoder) result option" where
  "fetch_v12_decodeMessages fuel codecs d =
     (case readUVarInt d of
        Inl e \<Rightarrow> Some (Inl e)
      | Inr (n, d) \<Rightarrow> decode_sized_messages fuel codecs (n - 1) d)"

lemma r_uvarint_array_alt:
  "rd_bind readUVarInt (\<lambda>n. if n = 0 then rd_return JNull else rd_map JArr (read_elems r (n - 1))) = r_uvarint_array r"
  unfolding r_uvarint_array_def readUVarIntArray_def rd_map_def
  by (rule ext) (simp add: rd_bind_def rd_return_def of_array_def rbind_def split: sum.split)

subsection \<open>What a fetch returns\<close>

text \<open>
  A batch as a broker sends it, with its records and their octets; and what may follow the last whole batch
  of a partition, since a broker cuts off the answer at the number of octets that was asked for.
\<close>

type_synonym sent = "batch_data \<times> record_data list \<times> buffer"

definition sent_ok :: "codec_registry \<Rightarrow> sent \<Rightarrow> bool" where
  "sent_ok codecs x \<longleftrightarrow>
     (case x of (b, rs, recs) \<Rightarrow>
        batch_ok b \<and> list_all record_ok rs \<and> length rs < 2147483648 \<and>
        wire_records codecs (b_compression b) rs = Inr recs \<and>
        0 \<le> b_compression b \<and> b_compression b < 8 \<and> length (wire_batch_content b recs) < 2147483648)"

definition sent_octets :: "sent \<Rightarrow> buffer" where
  "sent_octets x = (case x of (b, rs, recs) \<Rightarrow> wire_batch b recs)"

definition sent_records :: "sent \<Rightarrow> decoded_record list" where
  "sent_records x = (case x of (b, rs, recs) \<Rightarrow> map (decoded (context_of b) MAGIC_BYTE) rs)"

definition cut_off :: "codec_registry \<Rightarrow> buffer \<Rightarrow> bool" where \<comment> \<open>the beginning of a batch\<close>
  "cut_off codecs tail \<longleftrightarrow> tail = [] \<or> (\<exists>x n. sent_ok codecs x \<and> tail = take n (sent_octets x) \<and> n < length (sent_octets x))"

lemma length_sent_octets: "length (sent_octets x) \<ge> 57"
  by (cases x) (simp add: sent_octets_def wire_batch_def wire_bytes_def wire_batch_content_def wire_batch_body_def)

lemma reads_sent:
  assumes "sent_ok codecs x" "lossless codecs" "codecs Types_None = None"
  obtains ctx where "reads (RecordBatchDecoder codecs) (sent_octets x) (ctx, sent_records x)"
proof -
  obtain b rs recs where x: "x = (b, rs, recs)" by (cases x)
  have "reads (RecordBatchDecoder codecs) (wire_batch b recs) (context_of b, map (decoded (context_of b) MAGIC_BYTE) rs)"
    using assms x by (intro reads_RecordBatchDecoder) (auto simp: sent_ok_def)
  then show thesis using that x by (simp add: sent_octets_def sent_records_def)
qed

lemma canReadBytes_dec_at [simp]: "canReadBytes n (dec_at pre post) \<longleftrightarrow> n \<le> int (length post)"
  by (simp add: canReadBytes_def dec_at_def)

lemma cut_off_partial:
  assumes "cut_off codecs tail" "49 \<le> length tail"
  shows "RecordBatchDecoder codecs (dec_at pre tail) = Inl KafkaJSPartialMessageError"
proof -
  from assms obtain x n where t: "sent_ok codecs x" "tail = take n (sent_octets x)" "n < length (sent_octets x)"
    by (auto simp: cut_off_def)
  obtain b rs recs where x: "x = (b, rs, recs)" by (cases x)
  let ?c = "wire_batch_content b recs"
  have oct: "sent_octets x = be_bytes 8 (b_firstOffset b) @ be_bytes 4 (int (length ?c)) @ ?c"
    by (simp add: x sent_octets_def wire_batch_def wire_bytes_def)
  have "49 \<le> n" using assms(2) t by simp
  then have "tail = be_bytes 8 (b_firstOffset b) @ be_bytes 4 (int (length ?c)) @ take (n - 12) ?c"
    using t(2) oct by simp
  moreover have "int (length (take (n - 12) ?c)) < int (length ?c)"
    using t(3) oct \<open>49 \<le> n\<close> by simp
  moreover have "int_range 64 (b_firstOffset b)" "int_range 32 (int (length ?c))"
    using t(1) x by (auto simp: sent_ok_def batch_ok_def)
  ultimately show ?thesis using RecordBatchDecoder_partial_lemma by metis
qed

lemma batches_loop_complete:
  assumes "lossless codecs" "codecs Types_None = None" "list_all (sent_ok codecs) xs" "cut_off codecs tail" "length xs < fuel"
  shows "batches_loop fuel codecs acc (dec_at pre (concat (map sent_octets xs) @ tail)) =
    Some (Inr (acc @ concat (map sent_records xs)))"
  using assms(3,5)
proof (induction xs arbitrary: fuel acc pre)
  case Nil
  then obtain k where "fuel = Suc k" by (cases fuel) auto
  then show ?case
    using cut_off_partial [OF assms(4), of pre] by (cases "49 \<le> length tail") (auto simp: RECORD_BATCH_OVERHEAD_def)
next
  case (Cons x xs)
  from Cons.prems obtain k where k: "fuel = Suc k" "length xs < k" by (cases fuel) auto
  have "sent_ok codecs x" using Cons.prems by simp
  then obtain ctx where "reads (RecordBatchDecoder codecs) (sent_octets x) (ctx, sent_records x)"
    using assms(1,2) by (rule reads_sent)
  from readsD [OF this, of pre "concat (map sent_octets xs) @ tail"] Cons.IH [OF _ k(2)] Cons.prems
  show ?case using k(1) length_sent_octets [of x] by (simp add: RECORD_BATCH_OVERHEAD_def)
qed

lemma magic_of_sent:
  assumes "xs \<noteq> []"
  shows "read_int_be 1 (buf_slice (concat (map sent_octets xs) @ tail) MAGIC_OFFSET (int (length (concat (map sent_octets xs) @ tail)))) 0 =
    Inr MAGIC_BYTE"
proof -
  obtain x ys where xs: "xs = x # ys" using assms by (cases xs) auto
  obtain b rs recs where x: "x = (b, rs, recs)" by (cases x)
  let ?body = "be_bytes 4 (crc32C (wire_batch_body b recs)) @ wire_batch_body b recs @ concat (map sent_octets ys) @ tail"
  let ?all = "concat (map sent_octets xs) @ tail"
  have "?all = (be_bytes 8 (b_firstOffset b) @ be_bytes 4 (int (length (wire_batch_content b recs))) @
      be_bytes 4 (b_partitionLeaderEpoch b)) @ be_bytes 1 MAGIC_BYTE @ ?body" (is "_ = ?h @ ?m")
    by (simp add: xs x sent_octets_def wire_batch_def wire_bytes_def wire_batch_content_def)
  moreover have "length ?h = 16" by simp
  ultimately have "buf_slice ?all MAGIC_OFFSET (int (length ?all)) = be_bytes 1 MAGIC_BYTE @ ?body"
    using buf_slice_within [of 16 "length ?all" ?all] by (simp add: MAGIC_OFFSET_def)
  moreover have "read_int_be 1 (be_bytes 1 MAGIC_BYTE @ ?body) 0 = Inr MAGIC_BYTE"
    using read_be_bytes [of 1 MAGIC_BYTE "[]" ?body] by (simp add: MAGIC_BYTE_def)
  ultimately show ?thesis by simp
qed

lemma decode_sized_dec_at:
  assumes "b \<noteq> []" "decode_messages_buffer fuel codecs b = Some (Inr ms)"
  shows "decode_sized_messages fuel codecs (int (length b)) (dec_at pre (b @ post)) = Some (Inr (ms, dec_at (pre @ b) post))"
  using readsD [OF reads_take_slice [of "int (length b)" b], of pre post] assms
  by (simp add: decode_sized_messages_def)

lemma decodeMessages_dec_at:
  assumes "b \<noteq> []" "length b < 2147483648" "decode_messages_buffer fuel codecs b = Some (Inr ms)"
  shows "fetch_v4_decodeMessages fuel codecs (dec_at pre (wire_bytes (Some b) @ post)) =
    Some (Inr (ms, dec_at (pre @ wire_bytes (Some b)) post))"
  using readsD [OF reads_readInt32 [of "int (length b)"], of pre "b @ post"] assms
    decode_sized_dec_at [OF assms(1,3), of "pre @ be_bytes 4 (int (length b))" post]
  by (simp add: wire_bytes_def fetch_v4_decodeMessages_def)

text \<open>C27: The octets of a partition in a fetch response are any number of whole record batches, at least one,
  followed by the beginning of another batch that the broker cut off. The decoder returns the records of all
  whole batches in order, and nothing of the one that was cut off; it stops behind the octets of the
  partition. One step per batch and one more are enough.\<close>

theorem fetched_batches_complete:
  assumes "lossless codecs" "codecs Types_None = None" "list_all (sent_ok codecs) xs" "xs \<noteq> []" "cut_off codecs tail"
    "length xs < fuel" "length (concat (map sent_octets xs) @ tail) < 2147483648"
  shows "fetch_v4_decodeMessages fuel codecs (dec_at pre (wire_bytes (Some (concat (map sent_octets xs) @ tail)) @ post)) =
    Some (Inr (Records (concat (map sent_records xs)),
               dec_at (pre @ wire_bytes (Some (concat (map sent_octets xs) @ tail))) post))"
proof -
  let ?b = "concat (map sent_octets xs) @ tail"
  have "?b \<noteq> []" using assms(4) length_sent_octets [of "hd xs"] by (cases xs) auto
  moreover have "decode_messages_buffer fuel codecs ?b = Some (Inr (Records (concat (map sent_records xs))))"
    using magic_of_sent [OF assms(4), of tail] batches_loop_complete [OF assms(1-3,5,6), of "[]" "[]"]
    by (simp add: decode_messages_buffer_def new_Decoder_dec_at)
  ultimately show ?thesis using assms(7) by (intro decodeMessages_dec_at)
qed

definition sample_sent :: sent where "sample_sent = (sample_batch, [sample_record], sample_recs)"

lemma sample_sent_ok: "sent_ok (Codecs sample_codec) sample_sent"
proof -
  have "batch_ok sample_batch" by (simp add: batch_ok_def sample_batch_def)
  moreover have "wire_records (Codecs sample_codec) (b_compression sample_batch) [sample_record] = Inr sample_recs"
    by (simp add: wire_records_def sample_batch_def Codecs_def Types_defs sample_codec_def sample_recs_def)
  moreover have "length (wire_batch_content sample_batch sample_recs) < 2147483648"
    using sample_batch_small(2) by (simp add: wire_batch_def wire_bytes_def)
  ultimately show ?thesis
    using sample_record_ok by (simp add: sent_ok_def sample_sent_def) (simp add: sample_batch_def)
qed

lemma sample_sent_small: "length (sent_octets sample_sent) < 2 ^ 28"
  using sample_batch_small(1)
  by (simp add: sent_octets_def sample_sent_def wire_batch_def wire_bytes_def wire_batch_content_def
      wire_batch_body_def sample_recs_def)

theorem fetched_batches_complete_witness:
  "fetch_v4_decodeMessages 3 (Codecs sample_codec)
     (dec_at [7] (wire_bytes (Some (concat (map sent_octets [sample_sent, sample_sent]) @ take 50 (sent_octets sample_sent))) @ [9])) =
   Some (Inr (Records (concat (map sent_records [sample_sent, sample_sent])),
     dec_at ([7] @ wire_bytes (Some (concat (map sent_octets [sample_sent, sample_sent]) @ take 50 (sent_octets sample_sent)))) [9]))"
proof (rule fetched_batches_complete)
  show "cut_off (Codecs sample_codec) (take 50 (sent_octets sample_sent))"
    using sample_sent_ok length_sent_octets [of sample_sent] unfolding cut_off_def
    by (intro disjI2 exI [of _ sample_sent] exI [of _ 50]) simp
  show "length (concat (map sent_octets [sample_sent, sample_sent]) @ take 50 (sent_octets sample_sent)) < 2147483648"
    using sample_sent_small by simp
qed (use sample_lossless sample_sent_ok in \<open>simp_all add: Codecs_None\<close>)


subsection \<open>Responses\<close>

definition fetch_v0_decodePartition :: "jv reader \<Rightarrow> jv reader" where
  "fetch_v0_decodePartition messages =
     r_obj [(''partition'', r_int32),
       (''errorCode'', r_int16),
       (''highWatermark'', r_int64),
       (''messages'', messages)]"

definition fetch_v0_decodeResponse :: "jv reader \<Rightarrow> jv reader" where
  "fetch_v0_decodeResponse messages =
     r_obj [(''topicName'', r_string),
       (''partitions'', r_array ((fetch_v0_decodePartition messages)))]"

definition fetch_v0_decode :: "jv reader \<Rightarrow> jv reader" where
  "fetch_v0_decode messages =
     rd_bind (r_array ((fetch_v0_decodeResponse messages))) (\<lambda>responses.
       rd_return (JObj [(''responses'', responses)]))"

definition fetch_v0_layout :: "layout \<Rightarrow> layout" where
  "fetch_v0_layout records =
     STRUCT [(Field ''responses'', ARRAY (STRUCT [(Field ''topicName'', STRING), (Field ''partitions'',
       ARRAY (STRUCT [(Field ''partition'', INT32), (Field ''errorCode'', INT16), (Field ''highWatermark'',
       INT64), (Field ''messages'', records)]))]))]"

lemma fetch_v0_conforms [conformance]: "conforms records messages \<Longrightarrow> conforms (fetch_v0_layout records) (fetch_v0_decode messages)"
  unfolding fetch_v0_layout_def fetch_v0_decode_def fetch_v0_decodeResponse_def fetch_v0_decodePartition_def
  by (rule continues_literal layout_intros conforms_struct | assumption | simp)+

definition fetch_v1_decodePartition :: "jv reader \<Rightarrow> jv reader" where
  "fetch_v1_decodePartition messages =
     r_obj [(''partition'', r_int32),
       (''errorCode'', r_int16),
       (''highWatermark'', r_int64),
       (''messages'', messages)]"

definition fetch_v1_decodeResponse :: "jv reader \<Rightarrow> jv reader" where
  "fetch_v1_decodeResponse messages =
     r_obj [(''topicName'', r_string),
       (''partitions'', r_array ((fetch_v1_decodePartition messages)))]"

definition fetch_v1_decode :: "jv reader \<Rightarrow> jv reader" where
  "fetch_v1_decode messages =
     rd_bind r_int32 (\<lambda>throttleTime.
       rd_bind (r_array ((fetch_v1_decodeResponse messages))) (\<lambda>responses.
       rd_return (JObj [(''throttleTime'', throttleTime), (''responses'', responses)])))"

definition fetch_v1_layout :: "layout \<Rightarrow> layout" where
  "fetch_v1_layout records =
     STRUCT [(Field ''throttleTime'', INT32), (Field ''responses'', ARRAY (STRUCT [(Field ''topicName'',
       STRING), (Field ''partitions'', ARRAY (STRUCT [(Field ''partition'', INT32), (Field ''errorCode'',
       INT16), (Field ''highWatermark'', INT64), (Field ''messages'', records)]))]))]"

lemma fetch_v1_conforms [conformance]: "conforms records messages \<Longrightarrow> conforms (fetch_v1_layout records) (fetch_v1_decode messages)"
  unfolding fetch_v1_layout_def fetch_v1_decode_def fetch_v1_decodeResponse_def fetch_v1_decodePartition_def
  by (rule continues_literal layout_intros conforms_struct | assumption | simp)+

definition fetch_v2_decode :: "jv reader \<Rightarrow> jv reader" where
  "fetch_v2_decode messages =
     (fetch_v1_decode messages)"

lemma fetch_v2_conforms [conformance]: "conforms records messages \<Longrightarrow> conforms (fetch_v1_layout records) (fetch_v2_decode messages)"
  unfolding fetch_v2_decode_def by (rule fetch_v1_conforms)

definition fetch_v3_decode :: "jv reader \<Rightarrow> jv reader" where
  "fetch_v3_decode messages =
     (fetch_v1_decode messages)"

lemma fetch_v3_conforms [conformance]: "conforms records messages \<Longrightarrow> conforms (fetch_v1_layout records) (fetch_v3_decode messages)"
  unfolding fetch_v3_decode_def by (rule fetch_v1_conforms)

definition fetch_v4_decodeAbortedTransactions :: "jv reader" where
  "fetch_v4_decodeAbortedTransactions =
     r_obj [(''producerId'', r_int64),
       (''firstOffset'', r_int64)]"

definition fetch_v4_decodePartition :: "jv reader \<Rightarrow> jv reader" where
  "fetch_v4_decodePartition messages =
     r_obj [(''partition'', r_int32),
       (''errorCode'', r_int16),
       (''highWatermark'', r_int64),
       (''lastStableOffset'', r_int64),
       (''abortedTransactions'', r_array fetch_v4_decodeAbortedTransactions),
       (''messages'', messages)]"

definition fetch_v4_decodeResponse :: "jv reader \<Rightarrow> jv reader" where
  "fetch_v4_decodeResponse messages =
     r_obj [(''topicName'', r_string),
       (''partitions'', r_array ((fetch_v4_decodePartition messages)))]"

definition fetch_v4_decode :: "jv reader \<Rightarrow> jv reader" where
  "fetch_v4_decode messages =
     rd_bind r_int32 (\<lambda>throttleTime.
       rd_bind (r_array ((fetch_v4_decodeResponse messages))) (\<lambda>responses.
       rd_return (JObj [(''throttleTime'', throttleTime), (''responses'', responses)])))"

definition fetch_v4_layout :: "layout \<Rightarrow> layout" where
  "fetch_v4_layout records =
     STRUCT [(Field ''throttleTime'', INT32), (Field ''responses'', ARRAY (STRUCT [(Field ''topicName'',
       STRING), (Field ''partitions'', ARRAY (STRUCT [(Field ''partition'', INT32), (Field ''errorCode'',
       INT16), (Field ''highWatermark'', INT64), (Field ''lastStableOffset'', INT64),
       (Field ''abortedTransactions'', ARRAY (STRUCT [(Field ''producerId'', INT64), (Field ''firstOffset'',
       INT64)])), (Field ''messages'', records)]))]))]"

lemma fetch_v4_conforms [conformance]: "conforms records messages \<Longrightarrow> conforms (fetch_v4_layout records) (fetch_v4_decode messages)"
  unfolding fetch_v4_layout_def fetch_v4_decode_def fetch_v4_decodeResponse_def fetch_v4_decodePartition_def fetch_v4_decodeAbortedTransactions_def
  by (rule continues_literal layout_intros conforms_struct | assumption | simp)+

definition fetch_v5_decodeAbortedTransactions :: "jv reader" where
  "fetch_v5_decodeAbortedTransactions =
     r_obj [(''producerId'', r_int64),
       (''firstOffset'', r_int64)]"

definition fetch_v5_decodePartition :: "jv reader \<Rightarrow> jv reader" where
  "fetch_v5_decodePartition messages =
     r_obj [(''partition'', r_int32),
       (''errorCode'', r_int16),
       (''highWatermark'', r_int64),
       (''lastStableOffset'', r_int64),
       (''lastStartOffset'', r_int64),
       (''abortedTransactions'', r_array fetch_v5_decodeAbortedTransactions),
       (''messages'', messages)]"

definition fetch_v5_decodeResponse :: "jv reader \<Rightarrow> jv reader" where
  "fetch_v5_decodeResponse messages =
     r_obj [(''topicName'', r_string),
       (''partitions'', r_array ((fetch_v5_decodePartition messages)))]"

definition fetch_v5_decode :: "jv reader \<Rightarrow> jv reader" where
  "fetch_v5_decode messages =
     rd_bind r_int32 (\<lambda>throttleTime.
       rd_bind (r_array ((fetch_v5_decodeResponse messages))) (\<lambda>responses.
       rd_return (JObj [(''throttleTime'', throttleTime), (''responses'', responses)])))"

definition fetch_v5_layout :: "layout \<Rightarrow> layout" where
  "fetch_v5_layout records =
     STRUCT [(Field ''throttleTime'', INT32), (Field ''responses'', ARRAY (STRUCT [(Field ''topicName'',
       STRING), (Field ''partitions'', ARRAY (STRUCT [(Field ''partition'', INT32), (Field ''errorCode'',
       INT16), (Field ''highWatermark'', INT64), (Field ''lastStableOffset'', INT64),
       (Field ''lastStartOffset'', INT64), (Field ''abortedTransactions'',
       ARRAY (STRUCT [(Field ''producerId'', INT64), (Field ''firstOffset'', INT64)])), (Field ''messages'',
       records)]))]))]"

lemma fetch_v5_conforms [conformance]: "conforms records messages \<Longrightarrow> conforms (fetch_v5_layout records) (fetch_v5_decode messages)"
  unfolding fetch_v5_layout_def fetch_v5_decode_def fetch_v5_decodeResponse_def fetch_v5_decodePartition_def fetch_v5_decodeAbortedTransactions_def
  by (rule continues_literal layout_intros conforms_struct | assumption | simp)+

definition fetch_v6_decode :: "jv reader \<Rightarrow> jv reader" where
  "fetch_v6_decode messages =
     (fetch_v5_decode messages)"

lemma fetch_v6_conforms [conformance]: "conforms records messages \<Longrightarrow> conforms (fetch_v5_layout records) (fetch_v6_decode messages)"
  unfolding fetch_v6_decode_def by (rule fetch_v5_conforms)

definition fetch_v7_decodeAbortedTransactions :: "jv reader" where
  "fetch_v7_decodeAbortedTransactions =
     r_obj [(''producerId'', r_int64),
       (''firstOffset'', r_int64)]"

definition fetch_v7_decodePartition :: "jv reader \<Rightarrow> jv reader" where
  "fetch_v7_decodePartition messages =
     r_obj [(''partition'', r_int32),
       (''errorCode'', r_int16),
       (''highWatermark'', r_int64),
       (''lastStableOffset'', r_int64),
       (''lastStartOffset'', r_int64),
       (''abortedTransactions'', r_array fetch_v7_decodeAbortedTransactions),
       (''messages'', messages)]"

definition fetch_v7_decodeResponse :: "jv reader \<Rightarrow> jv reader" where
  "fetch_v7_decodeResponse messages =
     r_obj [(''topicName'', r_string),
       (''partitions'', r_array ((fetch_v7_decodePartition messages)))]"

definition fetch_v7_decode :: "jv reader \<Rightarrow> jv reader" where
  "fetch_v7_decode messages =
     rd_bind r_int32 (\<lambda>throttleTime.
       rd_bind r_int16 (\<lambda>errorCode.
       rd_bind r_int32 (\<lambda>sessionId.
       rd_bind (r_array ((fetch_v7_decodeResponse messages))) (\<lambda>responses.
       rd_return (JObj [(''throttleTime'', throttleTime), (''errorCode'', errorCode), (''sessionId'',
         sessionId), (''responses'', responses)])))))"

definition fetch_v7_layout :: "layout \<Rightarrow> layout" where
  "fetch_v7_layout records =
     STRUCT [(Field ''throttleTime'', INT32), (Field ''errorCode'', INT16), (Field ''sessionId'', INT32),
       (Field ''responses'', ARRAY (STRUCT [(Field ''topicName'', STRING), (Field ''partitions'',
       ARRAY (STRUCT [(Field ''partition'', INT32), (Field ''errorCode'', INT16), (Field ''highWatermark'',
       INT64), (Field ''lastStableOffset'', INT64), (Field ''lastStartOffset'', INT64),
       (Field ''abortedTransactions'', ARRAY (STRUCT [(Field ''producerId'', INT64), (Field ''firstOffset'',
       INT64)])), (Field ''messages'', records)]))]))]"

lemma fetch_v7_conforms [conformance]: "conforms records messages \<Longrightarrow> conforms (fetch_v7_layout records) (fetch_v7_decode messages)"
  unfolding fetch_v7_layout_def fetch_v7_decode_def fetch_v7_decodeResponse_def fetch_v7_decodePartition_def fetch_v7_decodeAbortedTransactions_def
  by (rule continues_literal layout_intros conforms_struct | assumption | simp)+

definition fetch_v8_decodeAbortedTransactions :: "jv reader" where
  "fetch_v8_decodeAbortedTransactions =
     r_obj [(''producerId'', r_int64),
       (''firstOffset'', r_int64)]"

definition fetch_v8_decodePartition :: "jv reader \<Rightarrow> jv reader" where
  "fetch_v8_decodePartition messages =
     r_obj [(''partition'', r_int32),
       (''errorCode'', r_int16),
       (''highWatermark'', r_int64),
       (''lastStableOffset'', r_int64),
       (''lastStartOffset'', r_int64),
       (''abortedTransactions'', r_array fetch_v8_decodeAbortedTransactions),
       (''messages'', messages)]"

definition fetch_v8_decodeResponse :: "jv reader \<Rightarrow> jv reader" where
  "fetch_v8_decodeResponse messages =
     r_obj [(''topicName'', r_string),
       (''partitions'', r_array ((fetch_v8_decodePartition messages)))]"

definition fetch_v8_decode :: "jv reader \<Rightarrow> jv reader" where
  "fetch_v8_decode messages =
     rd_bind r_int32 (\<lambda>clientSideThrottleTime.
       rd_bind r_int16 (\<lambda>errorCode.
       rd_bind r_int32 (\<lambda>sessionId.
       rd_bind (r_array ((fetch_v8_decodeResponse messages))) (\<lambda>responses.
       rd_return (JObj [(''throttleTime'', JNum 0), (''clientSideThrottleTime'', clientSideThrottleTime),
         (''errorCode'', errorCode), (''sessionId'', sessionId), (''responses'', responses)])))))"

definition fetch_v8_layout :: "layout \<Rightarrow> layout" where
  "fetch_v8_layout records =
     STRUCT [(Throttle, INT32), (Field ''errorCode'', INT16), (Field ''sessionId'', INT32),
       (Field ''responses'', ARRAY (STRUCT [(Field ''topicName'', STRING), (Field ''partitions'',
       ARRAY (STRUCT [(Field ''partition'', INT32), (Field ''errorCode'', INT16), (Field ''highWatermark'',
       INT64), (Field ''lastStableOffset'', INT64), (Field ''lastStartOffset'', INT64),
       (Field ''abortedTransactions'', ARRAY (STRUCT [(Field ''producerId'', INT64), (Field ''firstOffset'',
       INT64)])), (Field ''messages'', records)]))]))]"

lemma fetch_v8_conforms [conformance]: "conforms records messages \<Longrightarrow> conforms (fetch_v8_layout records) (fetch_v8_decode messages)"
  unfolding fetch_v8_layout_def fetch_v8_decode_def fetch_v8_decodeResponse_def fetch_v8_decodePartition_def fetch_v8_decodeAbortedTransactions_def
  by (rule continues_literal layout_intros conforms_struct | assumption | simp)+

definition fetch_v9_decode :: "jv reader \<Rightarrow> jv reader" where
  "fetch_v9_decode messages =
     (fetch_v8_decode messages)"

lemma fetch_v9_conforms [conformance]: "conforms records messages \<Longrightarrow> conforms (fetch_v8_layout records) (fetch_v9_decode messages)"
  unfolding fetch_v9_decode_def by (rule fetch_v8_conforms)

definition fetch_v10_decode :: "jv reader \<Rightarrow> jv reader" where
  "fetch_v10_decode messages =
     (fetch_v9_decode messages)"

lemma fetch_v10_conforms [conformance]: "conforms records messages \<Longrightarrow> conforms (fetch_v8_layout records) (fetch_v10_decode messages)"
  unfolding fetch_v10_decode_def by (rule fetch_v9_conforms)

definition fetch_v11_decodeAbortedTransactions :: "jv reader" where
  "fetch_v11_decodeAbortedTransactions =
     r_obj [(''producerId'', r_int64),
       (''firstOffset'', r_int64)]"

definition fetch_v11_decodePartition :: "jv reader \<Rightarrow> jv reader" where
  "fetch_v11_decodePartition messages =
     r_obj [(''partition'', r_int32),
       (''errorCode'', r_int16),
       (''highWatermark'', r_int64),
       (''lastStableOffset'', r_int64),
       (''lastStartOffset'', r_int64),
       (''abortedTransactions'', r_array fetch_v11_decodeAbortedTransactions),
       (''preferredReadReplica'', r_int32),
       (''messages'', messages)]"

definition fetch_v11_decodeResponse :: "jv reader \<Rightarrow> jv reader" where
  "fetch_v11_decodeResponse messages =
     r_obj [(''topicName'', r_string),
       (''partitions'', r_array ((fetch_v11_decodePartition messages)))]"

definition fetch_v11_decode :: "jv reader \<Rightarrow> jv reader" where
  "fetch_v11_decode messages =
     rd_bind r_int32 (\<lambda>clientSideThrottleTime.
       rd_bind r_int16 (\<lambda>errorCode.
       rd_bind r_int32 (\<lambda>sessionId.
       rd_bind (r_array ((fetch_v11_decodeResponse messages))) (\<lambda>responses.
       rd_return (JObj [(''throttleTime'', JNum 0), (''clientSideThrottleTime'', clientSideThrottleTime),
         (''errorCode'', errorCode), (''sessionId'', sessionId), (''responses'', responses)])))))"

definition fetch_v11_layout :: "layout \<Rightarrow> layout" where
  "fetch_v11_layout records =
     STRUCT [(Throttle, INT32), (Field ''errorCode'', INT16), (Field ''sessionId'', INT32),
       (Field ''responses'', ARRAY (STRUCT [(Field ''topicName'', STRING), (Field ''partitions'',
       ARRAY (STRUCT [(Field ''partition'', INT32), (Field ''errorCode'', INT16), (Field ''highWatermark'',
       INT64), (Field ''lastStableOffset'', INT64), (Field ''lastStartOffset'', INT64),
       (Field ''abortedTransactions'', ARRAY (STRUCT [(Field ''producerId'', INT64), (Field ''firstOffset'',
       INT64)])), (Field ''preferredReadReplica'', INT32), (Field ''messages'', records)]))]))]"

lemma fetch_v11_conforms [conformance]: "conforms records messages \<Longrightarrow> conforms (fetch_v11_layout records) (fetch_v11_decode messages)"
  unfolding fetch_v11_layout_def fetch_v11_decode_def fetch_v11_decodeResponse_def fetch_v11_decodePartition_def fetch_v11_decodeAbortedTransactions_def
  by (rule continues_literal layout_intros conforms_struct | assumption | simp)+

definition fetch_v12_decodeAbortedTransactions :: "jv reader" where
  "fetch_v12_decodeAbortedTransactions =
     rd_bind (r_obj [(''producerId'', r_int64),
       (''firstOffset'', r_int64)]) (\<lambda>abortedTransaction.
       rd_bind r_tagged (\<lambda>_.
       rd_return abortedTransaction))"

definition fetch_v12_decodeAbortedTransactionsArray :: "jv reader" where
  "fetch_v12_decodeAbortedTransactionsArray =
     rd_bind readUVarInt (\<lambda>length.
       if length = 0 then rd_return JNull else rd_map JArr (read_elems fetch_v12_decodeAbortedTransactions (length - 1)))"

definition fetch_v12_decodePartition :: "jv reader \<Rightarrow> jv reader" where
  "fetch_v12_decodePartition messages =
     rd_bind (r_obj [(''partition'', r_int32),
       (''errorCode'', r_int16),
       (''highWatermark'', r_int64),
       (''lastStableOffset'', r_int64),
       (''lastStartOffset'', r_int64),
       (''abortedTransactions'', fetch_v12_decodeAbortedTransactionsArray),
       (''preferredReadReplica'', r_int32),
       (''messages'', messages)]) (\<lambda>partition.
       rd_bind r_tagged (\<lambda>_.
       rd_return partition))"

definition fetch_v12_decodeResponse :: "jv reader \<Rightarrow> jv reader" where
  "fetch_v12_decodeResponse messages =
     rd_bind r_uvarint_string (\<lambda>topicName.
       rd_bind (r_uvarint_loop ((fetch_v12_decodePartition messages))) (\<lambda>partitions.
       rd_bind r_tagged (\<lambda>_.
       rd_return (JObj [(''topicName'', topicName), (''partitions'', partitions)]))))"

definition fetch_v12_decode :: "jv reader \<Rightarrow> jv reader" where
  "fetch_v12_decode messages =
     rd_bind r_tagged (\<lambda>_.
       rd_bind r_int32 (\<lambda>clientSideThrottleTime.
       rd_bind r_int16 (\<lambda>errorCode.
       rd_bind r_int32 (\<lambda>sessionId.
       rd_bind (r_uvarint_loop ((fetch_v12_decodeResponse messages))) (\<lambda>responses.
       rd_bind r_tagged (\<lambda>_.
       rd_return (JObj [(''throttleTime'', JNum 0), (''clientSideThrottleTime'', clientSideThrottleTime),
         (''errorCode'', errorCode), (''sessionId'', sessionId), (''responses'', responses)])))))))"

definition fetch_v12_layout :: "layout \<Rightarrow> layout" where
  "fetch_v12_layout records =
     STRUCT [(Skip, TAG_BUFFER), (Throttle, INT32), (Field ''errorCode'', INT16), (Field ''sessionId'', INT32),
       (Field ''responses'', COMPACT_LIST (STRUCT [(Field ''topicName'', COMPACT_STRING),
       (Field ''partitions'', COMPACT_LIST (STRUCT [(Field ''partition'', INT32), (Field ''errorCode'', INT16),
       (Field ''highWatermark'', INT64), (Field ''lastStableOffset'', INT64), (Field ''lastStartOffset'',
       INT64), (Field ''abortedTransactions'', COMPACT_ARRAY (STRUCT [(Field ''producerId'', INT64),
       (Field ''firstOffset'', INT64), (Skip, TAG_BUFFER)])), (Field ''preferredReadReplica'', INT32),
       (Field ''messages'', records), (Skip, TAG_BUFFER)])), (Skip, TAG_BUFFER)])), (Skip, TAG_BUFFER)]"

lemma fetch_v12_conforms [conformance]: "conforms records messages \<Longrightarrow> conforms (fetch_v12_layout records) (fetch_v12_decode messages)"
  unfolding fetch_v12_layout_def fetch_v12_decode_def fetch_v12_decodeResponse_def fetch_v12_decodePartition_def fetch_v12_decodeAbortedTransactionsArray_def fetch_v12_decodeAbortedTransactions_def r_uvarint_array_alt
  by (rule continues_literal layout_intros conforms_struct | assumption | simp)+

end
