(* ===== verification/Response_Parse.thy ===== *)
theory Response_Parse
  imports Response_Check Responses_Group Responses_Data Responses_Admin Responses_Share Fetch_Response
begin

text \<open>
  The \<^verbatim>\<open>parse\<close> functions of \<^verbatim>\<open>src/protocol/requests/*/v*/response.js\<close>, which codes they report, and the table that
  puts them together with the layouts of the responses. The functions that leave codes to their callers come
  last.
\<close>

named_theorems parse_reports \<open>which error codes a function reports\<close>
named_theorems layout_codes \<open>where the layouts have error codes\<close>

lemmas layout_code_simps = field_paths_def code_names_def AUTH_BYTES_def

definition addOffsetsToTxn_v0_parse :: "parser" where
  "addOffsetsToTxn_v0_parse data =
     (if failed (jget ''errorCode'' data) then throw_code (jget ''errorCode'' data) else Inr data)"

lemma addOffsetsToTxn_v0_parse_reports [parse_reports]: "reports [[''errorCode'']] addOffsetsToTxn_v0_parse"
  unfolding addOffsetsToTxn_v0_parse_def [abs_def] by (rule reports_code)

definition addOffsetsToTxn_v1_parse :: "parser" where
  "addOffsetsToTxn_v1_parse = addOffsetsToTxn_v0_parse"

lemma addOffsetsToTxn_v1_parse_reports [parse_reports]: "reports [[''errorCode'']] addOffsetsToTxn_v1_parse"
  unfolding addOffsetsToTxn_v1_parse_def by (rule addOffsetsToTxn_v0_parse_reports)

definition addPartitionsToTxn_v0_parse :: "parser" where
  "addPartitionsToTxn_v0_parse data =
     (rbind (jelems (jget ''errors'' data)) (\<lambda>errors.
       rbind (rmap (\<lambda>x. rbind (jelems (jget ''partitionErrors'' x)) (\<lambda>ps. Inr (failures ''errorCode'' ps))) errors) (\<lambda>withErrors.
       case filter (\<lambda>ys. ys \<noteq> []) withErrors of [] \<Rightarrow> Inr data | ys # _ \<Rightarrow> throw_code (jget ''errorCode'' (hd ys)))))"

lemma addPartitionsToTxn_v0_parse_reports [parse_reports]: "reports [[''errors'', ''partitionErrors'', ''errorCode'']] addPartitionsToTxn_v0_parse"
  unfolding addPartitionsToTxn_v0_parse_def [abs_def] by (rule reports_grouped)

definition addPartitionsToTxn_v1_parse :: "parser" where
  "addPartitionsToTxn_v1_parse = addPartitionsToTxn_v0_parse"

lemma addPartitionsToTxn_v1_parse_reports [parse_reports]: "reports [[''errors'', ''partitionErrors'', ''errorCode'']] addPartitionsToTxn_v1_parse"
  unfolding addPartitionsToTxn_v1_parse_def by (rule addPartitionsToTxn_v0_parse_reports)

definition addRaftVoter_v0_parse :: "parser" where
  "addRaftVoter_v0_parse data =
     (if failed (jget ''errorCode'' data) then throw_code (jget ''errorCode'' data) else Inr data)"

lemma addRaftVoter_v0_parse_reports [parse_reports]: "reports [[''errorCode'']] addRaftVoter_v0_parse"
  unfolding addRaftVoter_v0_parse_def [abs_def] by (rule reports_code)

definition alterConfigs_v0_parse :: "parser" where
  "alterConfigs_v0_parse data =
     (rbind (jelems (jget ''resources'' data)) (\<lambda>resources. throw_head ''errorCode'' (failures ''errorCode'' resources) data))"

lemma alterConfigs_v0_parse_reports [parse_reports]: "reports [[''resources'', ''errorCode'']] alterConfigs_v0_parse"
  unfolding alterConfigs_v0_parse_def [abs_def] by (rule reports_array)

definition alterConfigs_v1_parse :: "parser" where
  "alterConfigs_v1_parse = alterConfigs_v0_parse"

lemma alterConfigs_v1_parse_reports [parse_reports]: "reports [[''resources'', ''errorCode'']] alterConfigs_v1_parse"
  unfolding alterConfigs_v1_parse_def by (rule alterConfigs_v0_parse_reports)

definition alterConfigs_v2_parse :: "parser" where
  "alterConfigs_v2_parse = alterConfigs_v0_parse"

lemma alterConfigs_v2_parse_reports [parse_reports]: "reports [[''resources'', ''errorCode'']] alterConfigs_v2_parse"
  unfolding alterConfigs_v2_parse_def by (rule alterConfigs_v0_parse_reports)

definition alterPartitionReassignments_v0_parse :: "parser" where
  "alterPartitionReassignments_v0_parse data =
     (if failed (jget ''errorCode'' data)
       then Inl (Raised (with_name ''KafkaJSAlterPartitionReassignmentsError'' (new_KafkaJSProtocolError (error_of (jget ''errorCode'' data)) (protocol_retriable (error_of (jget ''errorCode'' data))))))
       else rbind (jelems (jget ''responses'' data)) (\<lambda>responses.
       rbind (flatMap (\<lambda>x. rbind (jelems (jget ''partitions'' x)) (\<lambda>ps.
         Inr (map (jset ''topic'' (jget ''topic'' x)) (failures ''errorCode'' ps)))) responses) (\<lambda>errors.
       case errors of [] \<Rightarrow> Inr data | _ # _ \<Rightarrow> Inl (Aggregate ''Errors altering partition reassignments''
         (map (\<lambda>e. new_KafkaJSAlterPartitionReassignmentsError (error_of (jget ''errorCode'' e)) (text_of (jget ''topic'' e)) (num_of (jget ''partition'' e))) errors)))))"

lemma alterPartitionReassignments_v0_parse_reports [parse_reports]: "reports [[''errorCode''], [''responses'', ''partitions'', ''errorCode'']] alterPartitionReassignments_v0_parse"
  unfolding alterPartitionReassignments_v0_parse_def [abs_def] by (rule reports_code_with_then, rule reports_nested_with)

definition apiVersions_v0_parse :: "parser" where
  "apiVersions_v0_parse data =
     (if failed (jget ''errorCode'' data) then throw_code (jget ''errorCode'' data) else Inr data)"

lemma apiVersions_v0_parse_reports [parse_reports]: "reports [[''errorCode'']] apiVersions_v0_parse"
  unfolding apiVersions_v0_parse_def [abs_def] by (rule reports_code)

definition apiVersions_v1_parse :: "parser" where
  "apiVersions_v1_parse = apiVersions_v0_parse"

lemma apiVersions_v1_parse_reports [parse_reports]: "reports [[''errorCode'']] apiVersions_v1_parse"
  unfolding apiVersions_v1_parse_def by (rule apiVersions_v0_parse_reports)

definition apiVersions_v2_parse :: "parser" where
  "apiVersions_v2_parse = apiVersions_v1_parse"

lemma apiVersions_v2_parse_reports [parse_reports]: "reports [[''errorCode'']] apiVersions_v2_parse"
  unfolding apiVersions_v2_parse_def by (rule apiVersions_v1_parse_reports)

definition apiVersions_v3_parse :: "parser" where
  "apiVersions_v3_parse = apiVersions_v0_parse"

lemma apiVersions_v3_parse_reports [parse_reports]: "reports [[''errorCode'']] apiVersions_v3_parse"
  unfolding apiVersions_v3_parse_def by (rule apiVersions_v0_parse_reports)

definition createAcls_v0_parse :: "parser" where
  "createAcls_v0_parse data =
     (rbind (jelems (jget ''creationResponses'' data)) (\<lambda>creationResponses. throw_head ''errorCode'' (failures ''errorCode'' creationResponses) data))"

lemma createAcls_v0_parse_reports [parse_reports]: "reports [[''creationResponses'', ''errorCode'']] createAcls_v0_parse"
  unfolding createAcls_v0_parse_def [abs_def] by (rule reports_array)

definition createAcls_v1_parse :: "parser" where
  "createAcls_v1_parse = createAcls_v0_parse"

lemma createAcls_v1_parse_reports [parse_reports]: "reports [[''creationResponses'', ''errorCode'']] createAcls_v1_parse"
  unfolding createAcls_v1_parse_def by (rule createAcls_v0_parse_reports)

definition createPartitions_v0_parse :: "parser" where
  "createPartitions_v0_parse data =
     (rbind (jelems (jget ''topicErrors'' data)) (\<lambda>topicErrors. throw_head ''errorCode'' (failures ''errorCode'' topicErrors) data))"

lemma createPartitions_v0_parse_reports [parse_reports]: "reports [[''topicErrors'', ''errorCode'']] createPartitions_v0_parse"
  unfolding createPartitions_v0_parse_def [abs_def] by (rule reports_array)

definition createPartitions_v1_parse :: "parser" where
  "createPartitions_v1_parse = createPartitions_v0_parse"

lemma createPartitions_v1_parse_reports [parse_reports]: "reports [[''topicErrors'', ''errorCode'']] createPartitions_v1_parse"
  unfolding createPartitions_v1_parse_def by (rule createPartitions_v0_parse_reports)

definition createTopics_v0_parse :: "parser" where
  "createTopics_v0_parse data =
     (rbind (jelems (jget ''topicErrors'' data)) (\<lambda>topicErrors.
       case failures ''errorCode'' topicErrors of
         [] \<Rightarrow> Inr data
       | _ # _ \<Rightarrow> Inl (Aggregate ''Topic creation errors''
           (map (\<lambda>e. new_KafkaJSCreateTopicError (error_of (jget ''errorCode'' e)) (text_of (jget ''topic'' e)))
              (failures ''errorCode'' topicErrors)))))"

lemma createTopics_v0_parse_reports [parse_reports]: "reports [[''topicErrors'', ''errorCode'']] createTopics_v0_parse"
  unfolding createTopics_v0_parse_def [abs_def] by (rule reports_array_with)

definition createTopics_v1_parse :: "parser" where
  "createTopics_v1_parse = createTopics_v0_parse"

lemma createTopics_v1_parse_reports [parse_reports]: "reports [[''topicErrors'', ''errorCode'']] createTopics_v1_parse"
  unfolding createTopics_v1_parse_def by (rule createTopics_v0_parse_reports)

definition createTopics_v2_parse :: "parser" where
  "createTopics_v2_parse = createTopics_v1_parse"

lemma createTopics_v2_parse_reports [parse_reports]: "reports [[''topicErrors'', ''errorCode'']] createTopics_v2_parse"
  unfolding createTopics_v2_parse_def by (rule createTopics_v1_parse_reports)

definition createTopics_v3_parse :: "parser" where
  "createTopics_v3_parse = createTopics_v2_parse"

lemma createTopics_v3_parse_reports [parse_reports]: "reports [[''topicErrors'', ''errorCode'']] createTopics_v3_parse"
  unfolding createTopics_v3_parse_def by (rule createTopics_v2_parse_reports)

definition createTopics_v5_parse :: "parser" where
  "createTopics_v5_parse = createTopics_v1_parse"

lemma createTopics_v5_parse_reports [parse_reports]: "reports [[''topicErrors'', ''errorCode'']] createTopics_v5_parse"
  unfolding createTopics_v5_parse_def by (rule createTopics_v1_parse_reports)

definition deleteAcls_v0_parse :: "parser" where
  "deleteAcls_v0_parse data =
     (rbind (rbind (jelems (jget ''filterResponses'' data)) (\<lambda>filterResponses.
         throw_head ''errorCode'' (failures ''errorCode'' filterResponses) data)) (\<lambda>_.
       rbind (jelems (jget ''filterResponses'' data)) (\<lambda>filterResponses.
       rbind (for_of filterResponses (\<lambda>filterResponse. rbind (jelems (jget ''matchingAcls'' filterResponse)) (\<lambda>matchingAcls.
         case failures ''errorCode'' matchingAcls of [] \<Rightarrow> Inr () | acl # _ \<Rightarrow> throw_code (jget ''errorCode'' acl)))) (\<lambda>_.
       Inr data))))"

lemma deleteAcls_v0_parse_reports [parse_reports]: "reports [[''filterResponses'', ''errorCode''], [''filterResponses'', ''matchingAcls'', ''errorCode'']] deleteAcls_v0_parse"
  unfolding deleteAcls_v0_parse_def for_of_check_code [symmetric]
  by (rule reports_seq [OF reports_array reports_loop, simplified])

definition deleteAcls_v1_parse :: "parser" where
  "deleteAcls_v1_parse = deleteAcls_v0_parse"

lemma deleteAcls_v1_parse_reports [parse_reports]: "reports [[''filterResponses'', ''errorCode''], [''filterResponses'', ''matchingAcls'', ''errorCode'']] deleteAcls_v1_parse"
  unfolding deleteAcls_v1_parse_def by (rule deleteAcls_v0_parse_reports)

definition deleteGroups_v0_parse :: "parser" where
  "deleteGroups_v0_parse data =
     (Inr data)"

definition deleteGroups_v1_parse :: "parser" where
  "deleteGroups_v1_parse = deleteGroups_v0_parse"

definition deleteGroups_v2_parse :: "parser" where
  "deleteGroups_v2_parse = deleteGroups_v0_parse"

text \<open>The parser of deletions gets the partitions that were requested, since the error names their offsets.\<close>

definition deleteRecords_v0_parse :: "int list \<Rightarrow> parser" where
  "deleteRecords_v0_parse requested data =
     (rbind (jelems (jget ''topics'' data)) (\<lambda>topics.
       rbind (rmap (\<lambda>x. rbind (jelems (jget ''partitions'' x)) (\<lambda>ps. Inr (failures ''errorCode'' ps))) topics) (\<lambda>withErrors.
       case filter (\<lambda>ys. ys \<noteq> []) withErrors of
         [] \<Rightarrow> Inr data
       | ys # _ \<Rightarrow> Inl (Raised (if list_all (\<lambda>p. num_of (jget ''partition'' p) \<in> set requested) ys
           then new_KafkaJSDeleteTopicRecordsError (map (\<lambda>p. Some (error_of (jget ''errorCode'' p))) ys)
           else native_error ''TypeError'' [])))))"

lemma deleteRecords_v0_parse_reports [parse_reports]: "reports [[''topics'', ''partitions'', ''errorCode'']] (deleteRecords_v0_parse requested)"
  proof (rule reports_other_error [OF reports_grouped])
  fix data x
  show "rbind (jelems (jget ''topics'' data)) (\<lambda>xs. rbind (rmap (nested_failures ''partitions'' ''errorCode'') xs) (\<lambda>yss.
     case filter (\<lambda>ys. ys \<noteq> []) yss of [] \<Rightarrow> Inr data | ys # _ \<Rightarrow> throw_code (jget ''errorCode'' (hd ys)))) = Inr x \<longleftrightarrow>
    deleteRecords_v0_parse requested data = Inr x"
    unfolding deleteRecords_v0_parse_def throw_code_def by (simp add: rbind_eq_Inr_conv case_Nil_Inr)
qed

definition deleteRecords_v1_parse :: "int list \<Rightarrow> parser" where
  "deleteRecords_v1_parse = deleteRecords_v0_parse"

lemma deleteRecords_v1_parse_reports [parse_reports]: "reports [[''topics'', ''partitions'', ''errorCode'']] (deleteRecords_v1_parse requested)"
  unfolding deleteRecords_v1_parse_def by (rule deleteRecords_v0_parse_reports)

definition deleteTopics_v0_parse :: "parser" where
  "deleteTopics_v0_parse data =
     (rbind (jelems (jget ''topicErrors'' data)) (\<lambda>topicErrors. throw_head ''errorCode'' (failures ''errorCode'' topicErrors) data))"

lemma deleteTopics_v0_parse_reports [parse_reports]: "reports [[''topicErrors'', ''errorCode'']] deleteTopics_v0_parse"
  unfolding deleteTopics_v0_parse_def [abs_def] by (rule reports_array)

definition deleteTopics_v1_parse :: "parser" where
  "deleteTopics_v1_parse = deleteTopics_v0_parse"

lemma deleteTopics_v1_parse_reports [parse_reports]: "reports [[''topicErrors'', ''errorCode'']] deleteTopics_v1_parse"
  unfolding deleteTopics_v1_parse_def by (rule deleteTopics_v0_parse_reports)

definition deleteTopics_v4_parse :: "parser" where
  "deleteTopics_v4_parse = deleteTopics_v0_parse"

lemma deleteTopics_v4_parse_reports [parse_reports]: "reports [[''topicErrors'', ''errorCode'']] deleteTopics_v4_parse"
  unfolding deleteTopics_v4_parse_def by (rule deleteTopics_v0_parse_reports)

definition describeAcls_v0_parse :: "parser" where
  "describeAcls_v0_parse data =
     (if failed (jget ''errorCode'' data) then throw_code (jget ''errorCode'' data) else Inr data)"

lemma describeAcls_v0_parse_reports [parse_reports]: "reports [[''errorCode'']] describeAcls_v0_parse"
  unfolding describeAcls_v0_parse_def [abs_def] by (rule reports_code)

definition describeAcls_v1_parse :: "parser" where
  "describeAcls_v1_parse = describeAcls_v0_parse"

lemma describeAcls_v1_parse_reports [parse_reports]: "reports [[''errorCode'']] describeAcls_v1_parse"
  unfolding describeAcls_v1_parse_def by (rule describeAcls_v0_parse_reports)

definition describeCluster_v0_parse :: "parser" where
  "describeCluster_v0_parse data =
     (if failed (jget ''errorCode'' data) then throw_code (jget ''errorCode'' data) else Inr data)"

lemma describeCluster_v0_parse_reports [parse_reports]: "reports [[''errorCode'']] describeCluster_v0_parse"
  unfolding describeCluster_v0_parse_def [abs_def] by (rule reports_code)

definition describeCluster_v1_parse :: "parser" where
  "describeCluster_v1_parse = describeCluster_v0_parse"

lemma describeCluster_v1_parse_reports [parse_reports]: "reports [[''errorCode'']] describeCluster_v1_parse"
  unfolding describeCluster_v1_parse_def by (rule describeCluster_v0_parse_reports)

definition describeConfigs_v0_parse :: "parser" where
  "describeConfigs_v0_parse data =
     (rbind (jelems (jget ''resources'' data)) (\<lambda>resources. throw_head ''errorCode'' (failures ''errorCode'' resources) data))"

lemma describeConfigs_v0_parse_reports [parse_reports]: "reports [[''resources'', ''errorCode'']] describeConfigs_v0_parse"
  unfolding describeConfigs_v0_parse_def [abs_def] by (rule reports_array)

definition describeConfigs_v1_parse :: "parser" where
  "describeConfigs_v1_parse = describeConfigs_v0_parse"

lemma describeConfigs_v1_parse_reports [parse_reports]: "reports [[''resources'', ''errorCode'']] describeConfigs_v1_parse"
  unfolding describeConfigs_v1_parse_def by (rule describeConfigs_v0_parse_reports)

definition describeConfigs_v2_parse :: "parser" where
  "describeConfigs_v2_parse = describeConfigs_v1_parse"

lemma describeConfigs_v2_parse_reports [parse_reports]: "reports [[''resources'', ''errorCode'']] describeConfigs_v2_parse"
  unfolding describeConfigs_v2_parse_def by (rule describeConfigs_v1_parse_reports)

definition describeConfigs_v4_parse :: "parser" where
  "describeConfigs_v4_parse = describeConfigs_v0_parse"

lemma describeConfigs_v4_parse_reports [parse_reports]: "reports [[''resources'', ''errorCode'']] describeConfigs_v4_parse"
  unfolding describeConfigs_v4_parse_def by (rule describeConfigs_v0_parse_reports)

definition describeGroups_v0_parse :: "parser" where
  "describeGroups_v0_parse data =
     (rbind (jelems (jget ''groups'' data)) (\<lambda>groups. throw_head ''errorCode'' (failures ''errorCode'' groups) data))"

lemma describeGroups_v0_parse_reports [parse_reports]: "reports [[''groups'', ''errorCode'']] describeGroups_v0_parse"
  unfolding describeGroups_v0_parse_def [abs_def] by (rule reports_array)

definition describeGroups_v1_parse :: "parser" where
  "describeGroups_v1_parse = describeGroups_v0_parse"

lemma describeGroups_v1_parse_reports [parse_reports]: "reports [[''groups'', ''errorCode'']] describeGroups_v1_parse"
  unfolding describeGroups_v1_parse_def by (rule describeGroups_v0_parse_reports)

definition describeGroups_v2_parse :: "parser" where
  "describeGroups_v2_parse = describeGroups_v1_parse"

lemma describeGroups_v2_parse_reports [parse_reports]: "reports [[''groups'', ''errorCode'']] describeGroups_v2_parse"
  unfolding describeGroups_v2_parse_def by (rule describeGroups_v1_parse_reports)

definition describeGroups_v5_parse :: "parser" where
  "describeGroups_v5_parse = describeGroups_v0_parse"

lemma describeGroups_v5_parse_reports [parse_reports]: "reports [[''groups'', ''errorCode'']] describeGroups_v5_parse"
  unfolding describeGroups_v5_parse_def by (rule describeGroups_v0_parse_reports)

definition describeLogDirs_v0_parse :: "parser" where
  "describeLogDirs_v0_parse data =
     (rbind (jelems (jget ''results'' data)) (\<lambda>results. throw_head ''errorCode'' (failures ''errorCode'' results) data))"

lemma describeLogDirs_v0_parse_reports [parse_reports]: "reports [[''results'', ''errorCode'']] describeLogDirs_v0_parse"
  unfolding describeLogDirs_v0_parse_def [abs_def] by (rule reports_array)

definition describeLogDirs_v2_parse :: "parser" where
  "describeLogDirs_v2_parse data =
     (rbind (jelems (jget ''results'' data)) (\<lambda>results. throw_head ''errorCode'' (failures ''errorCode'' results) data))"

lemma describeLogDirs_v2_parse_reports [parse_reports]: "reports [[''results'', ''errorCode'']] describeLogDirs_v2_parse"
  unfolding describeLogDirs_v2_parse_def [abs_def] by (rule reports_array)

definition describeProducers_v0_parse :: "parser" where
  "describeProducers_v0_parse data =
     (Inr data)"

definition describeTransactions_v0_parse :: "parser" where
  "describeTransactions_v0_parse data =
     (Inr data)"

definition electLeaders_v0_parse :: "parser" where
  "electLeaders_v0_parse data =
     (if failed (jget ''errorCode'' data) then throw_code (jget ''errorCode'' data)
       else rbind (jelems (jget ''replicaElectionResults'' data)) (\<lambda>replicaElectionResults.
       rbind (for_of replicaElectionResults (\<lambda>x. rbind (jelems (jget ''partitionResult'' x)) (\<lambda>ps. for_of ps (check_code ''errorCode'')))) (\<lambda>_. Inr data)))"

lemma electLeaders_v0_parse_reports [parse_reports]: "reports [[''errorCode''], [''replicaElectionResults'', ''partitionResult'', ''errorCode'']] electLeaders_v0_parse"
  unfolding electLeaders_v0_parse_def [abs_def] by (rule reports_code_then, rule reports_loop)

definition electLeaders_v1_parse :: "parser" where
  "electLeaders_v1_parse = electLeaders_v0_parse"

lemma electLeaders_v1_parse_reports [parse_reports]: "reports [[''errorCode''], [''replicaElectionResults'', ''partitionResult'', ''errorCode'']] electLeaders_v1_parse"
  unfolding electLeaders_v1_parse_def by (rule electLeaders_v0_parse_reports)

definition electLeaders_v2_parse :: "parser" where
  "electLeaders_v2_parse data =
     (if failed (jget ''errorCode'' data) then throw_code (jget ''errorCode'' data)
       else rbind (jelems (jget ''replicaElectionResults'' data)) (\<lambda>replicaElectionResults.
       rbind (for_of replicaElectionResults (\<lambda>x. rbind (jelems (jget ''partitionResult'' x)) (\<lambda>ps. for_of ps (check_code ''errorCode'')))) (\<lambda>_. Inr data)))"

lemma electLeaders_v2_parse_reports [parse_reports]: "reports [[''errorCode''], [''replicaElectionResults'', ''partitionResult'', ''errorCode'']] electLeaders_v2_parse"
  unfolding electLeaders_v2_parse_def [abs_def] by (rule reports_code_then, rule reports_loop)

definition endTxn_v0_parse :: "parser" where
  "endTxn_v0_parse data =
     (if failed (jget ''errorCode'' data) then throw_code (jget ''errorCode'' data) else Inr data)"

lemma endTxn_v0_parse_reports [parse_reports]: "reports [[''errorCode'']] endTxn_v0_parse"
  unfolding endTxn_v0_parse_def [abs_def] by (rule reports_code)

definition endTxn_v1_parse :: "parser" where
  "endTxn_v1_parse = endTxn_v0_parse"

lemma endTxn_v1_parse_reports [parse_reports]: "reports [[''errorCode'']] endTxn_v1_parse"
  unfolding endTxn_v1_parse_def by (rule endTxn_v0_parse_reports)

definition fetch_v0_parse :: "parser" where
  "fetch_v0_parse data =
     (rbind (jelems (jget ''responses'' data)) (\<lambda>responses.
       rbind (flatMap (\<lambda>x. rbind (jelems (jget ''partitions'' x)) (\<lambda>ps.
         Inr (map (jset ''topic'' (jget ''topicName'' x)) (failures ''errorCode'' ps)))) responses) (\<lambda>errors.
       case errors of [] \<Rightarrow> Inr data | _ # _ \<Rightarrow> Inl (Raised (let e = hd errors in
         if jget ''errorCode'' e = JNum OFFSET_OUT_OF_RANGE_ERROR_CODE
         then new_KafkaJSOffsetOutOfRange (error_of (jget ''errorCode'' e)) (text_of (jget ''topic'' e)) (num_of (jget ''partition'' e))
         else error_of (jget ''errorCode'' e))))))"

lemma fetch_v0_parse_reports [parse_reports]: "reports [[''responses'', ''partitions'', ''errorCode'']] fetch_v0_parse"
  unfolding fetch_v0_parse_def [abs_def] by (rule reports_nested_with)

definition fetch_v1_parse :: "parser" where
  "fetch_v1_parse = fetch_v0_parse"

lemma fetch_v1_parse_reports [parse_reports]: "reports [[''responses'', ''partitions'', ''errorCode'']] fetch_v1_parse"
  unfolding fetch_v1_parse_def by (rule fetch_v0_parse_reports)

definition fetch_v2_parse :: "parser" where
  "fetch_v2_parse = fetch_v1_parse"

lemma fetch_v2_parse_reports [parse_reports]: "reports [[''responses'', ''partitions'', ''errorCode'']] fetch_v2_parse"
  unfolding fetch_v2_parse_def by (rule fetch_v1_parse_reports)

definition fetch_v3_parse :: "parser" where
  "fetch_v3_parse = fetch_v1_parse"

lemma fetch_v3_parse_reports [parse_reports]: "reports [[''responses'', ''partitions'', ''errorCode'']] fetch_v3_parse"
  unfolding fetch_v3_parse_def by (rule fetch_v1_parse_reports)

definition fetch_v4_parse :: "parser" where
  "fetch_v4_parse = fetch_v1_parse"

lemma fetch_v4_parse_reports [parse_reports]: "reports [[''responses'', ''partitions'', ''errorCode'']] fetch_v4_parse"
  unfolding fetch_v4_parse_def by (rule fetch_v1_parse_reports)

definition fetch_v5_parse :: "parser" where
  "fetch_v5_parse = fetch_v1_parse"

lemma fetch_v5_parse_reports [parse_reports]: "reports [[''responses'', ''partitions'', ''errorCode'']] fetch_v5_parse"
  unfolding fetch_v5_parse_def by (rule fetch_v1_parse_reports)

definition fetch_v6_parse :: "parser" where
  "fetch_v6_parse = fetch_v5_parse"

lemma fetch_v6_parse_reports [parse_reports]: "reports [[''responses'', ''partitions'', ''errorCode'']] fetch_v6_parse"
  unfolding fetch_v6_parse_def by (rule fetch_v5_parse_reports)

definition fetch_v7_parse :: "parser" where
  "fetch_v7_parse = fetch_v1_parse"

lemma fetch_v7_parse_reports [parse_reports]: "reports [[''responses'', ''partitions'', ''errorCode'']] fetch_v7_parse"
  unfolding fetch_v7_parse_def by (rule fetch_v1_parse_reports)

definition fetch_v8_parse :: "parser" where
  "fetch_v8_parse = fetch_v1_parse"

lemma fetch_v8_parse_reports [parse_reports]: "reports [[''responses'', ''partitions'', ''errorCode'']] fetch_v8_parse"
  unfolding fetch_v8_parse_def by (rule fetch_v1_parse_reports)

definition fetch_v9_parse :: "parser" where
  "fetch_v9_parse = fetch_v8_parse"

lemma fetch_v9_parse_reports [parse_reports]: "reports [[''responses'', ''partitions'', ''errorCode'']] fetch_v9_parse"
  unfolding fetch_v9_parse_def by (rule fetch_v8_parse_reports)

definition fetch_v10_parse :: "parser" where
  "fetch_v10_parse = fetch_v9_parse"

lemma fetch_v10_parse_reports [parse_reports]: "reports [[''responses'', ''partitions'', ''errorCode'']] fetch_v10_parse"
  unfolding fetch_v10_parse_def by (rule fetch_v9_parse_reports)

definition fetch_v11_parse :: "parser" where
  "fetch_v11_parse = fetch_v1_parse"

lemma fetch_v11_parse_reports [parse_reports]: "reports [[''responses'', ''partitions'', ''errorCode'']] fetch_v11_parse"
  unfolding fetch_v11_parse_def by (rule fetch_v1_parse_reports)

definition fetch_v12_parse :: "parser" where
  "fetch_v12_parse = fetch_v1_parse"

lemma fetch_v12_parse_reports [parse_reports]: "reports [[''responses'', ''partitions'', ''errorCode'']] fetch_v12_parse"
  unfolding fetch_v12_parse_def by (rule fetch_v1_parse_reports)

definition findCoordinator_v0_parse :: "parser" where
  "findCoordinator_v0_parse data =
     (if failed (jget ''errorCode'' data) then throw_code (jget ''errorCode'' data) else Inr data)"

lemma findCoordinator_v0_parse_reports [parse_reports]: "reports [[''errorCode'']] findCoordinator_v0_parse"
  unfolding findCoordinator_v0_parse_def [abs_def] by (rule reports_code)

definition findCoordinator_v1_parse :: "parser" where
  "findCoordinator_v1_parse data =
     (if failed (jget ''errorCode'' data) then throw_code (jget ''errorCode'' data) else Inr data)"

lemma findCoordinator_v1_parse_reports [parse_reports]: "reports [[''errorCode'']] findCoordinator_v1_parse"
  unfolding findCoordinator_v1_parse_def [abs_def] by (rule reports_code)

definition findCoordinator_v2_parse :: "parser" where
  "findCoordinator_v2_parse = findCoordinator_v1_parse"

lemma findCoordinator_v2_parse_reports [parse_reports]: "reports [[''errorCode'']] findCoordinator_v2_parse"
  unfolding findCoordinator_v2_parse_def by (rule findCoordinator_v1_parse_reports)

definition findCoordinator_v3_parse :: "parser" where
  "findCoordinator_v3_parse data =
     (if failed (jget ''errorCode'' data) then throw_code (jget ''errorCode'' data) else Inr data)"

lemma findCoordinator_v3_parse_reports [parse_reports]: "reports [[''errorCode'']] findCoordinator_v3_parse"
  unfolding findCoordinator_v3_parse_def [abs_def] by (rule reports_code)

definition heartbeat_v0_parse :: "parser" where
  "heartbeat_v0_parse data =
     (if failed (jget ''errorCode'' data) then throw_code (jget ''errorCode'' data) else Inr data)"

lemma heartbeat_v0_parse_reports [parse_reports]: "reports [[''errorCode'']] heartbeat_v0_parse"
  unfolding heartbeat_v0_parse_def [abs_def] by (rule reports_code)

definition heartbeat_v1_parse :: "parser" where
  "heartbeat_v1_parse = heartbeat_v0_parse"

lemma heartbeat_v1_parse_reports [parse_reports]: "reports [[''errorCode'']] heartbeat_v1_parse"
  unfolding heartbeat_v1_parse_def by (rule heartbeat_v0_parse_reports)

definition heartbeat_v2_parse :: "parser" where
  "heartbeat_v2_parse = heartbeat_v1_parse"

lemma heartbeat_v2_parse_reports [parse_reports]: "reports [[''errorCode'']] heartbeat_v2_parse"
  unfolding heartbeat_v2_parse_def by (rule heartbeat_v1_parse_reports)

definition heartbeat_v3_parse :: "parser" where
  "heartbeat_v3_parse = heartbeat_v2_parse"

lemma heartbeat_v3_parse_reports [parse_reports]: "reports [[''errorCode'']] heartbeat_v3_parse"
  unfolding heartbeat_v3_parse_def by (rule heartbeat_v2_parse_reports)

definition heartbeat_v4_parse :: "parser" where
  "heartbeat_v4_parse data =
     (if failed (jget ''errorCode'' data) then throw_code (jget ''errorCode'' data) else Inr data)"

lemma heartbeat_v4_parse_reports [parse_reports]: "reports [[''errorCode'']] heartbeat_v4_parse"
  unfolding heartbeat_v4_parse_def [abs_def] by (rule reports_code)

definition incrementalAlterConfigs_v0_parse :: "parser" where
  "incrementalAlterConfigs_v0_parse data =
     (rbind (jelems (jget ''responses'' data)) (\<lambda>responses. throw_head ''errorCode'' (failures ''errorCode'' responses) data))"

lemma incrementalAlterConfigs_v0_parse_reports [parse_reports]: "reports [[''responses'', ''errorCode'']] incrementalAlterConfigs_v0_parse"
  unfolding incrementalAlterConfigs_v0_parse_def [abs_def] by (rule reports_array)

definition incrementalAlterConfigs_v1_parse :: "parser" where
  "incrementalAlterConfigs_v1_parse data =
     (rbind (jelems (jget ''responses'' data)) (\<lambda>responses. throw_head ''errorCode'' (failures ''errorCode'' responses) data))"

lemma incrementalAlterConfigs_v1_parse_reports [parse_reports]: "reports [[''responses'', ''errorCode'']] incrementalAlterConfigs_v1_parse"
  unfolding incrementalAlterConfigs_v1_parse_def [abs_def] by (rule reports_array)

definition initProducerId_v0_parse :: "parser" where
  "initProducerId_v0_parse data =
     (if failed (jget ''errorCode'' data) then throw_code (jget ''errorCode'' data) else Inr data)"

lemma initProducerId_v0_parse_reports [parse_reports]: "reports [[''errorCode'']] initProducerId_v0_parse"
  unfolding initProducerId_v0_parse_def [abs_def] by (rule reports_code)

definition initProducerId_v1_parse :: "parser" where
  "initProducerId_v1_parse = initProducerId_v0_parse"

lemma initProducerId_v1_parse_reports [parse_reports]: "reports [[''errorCode'']] initProducerId_v1_parse"
  unfolding initProducerId_v1_parse_def by (rule initProducerId_v0_parse_reports)

definition initProducerId_v2_parse :: "parser" where
  "initProducerId_v2_parse data =
     (if failed (jget ''errorCode'' data) then throw_code (jget ''errorCode'' data) else Inr data)"

lemma initProducerId_v2_parse_reports [parse_reports]: "reports [[''errorCode'']] initProducerId_v2_parse"
  unfolding initProducerId_v2_parse_def [abs_def] by (rule reports_code)

definition initProducerId_v3_parse :: "parser" where
  "initProducerId_v3_parse = initProducerId_v2_parse"

lemma initProducerId_v3_parse_reports [parse_reports]: "reports [[''errorCode'']] initProducerId_v3_parse"
  unfolding initProducerId_v3_parse_def by (rule initProducerId_v2_parse_reports)

definition joinGroup_v0_parse :: "parser" where
  "joinGroup_v0_parse data =
     (if failed (jget ''errorCode'' data) then throw_code (jget ''errorCode'' data) else Inr data)"

lemma joinGroup_v0_parse_reports [parse_reports]: "reports [[''errorCode'']] joinGroup_v0_parse"
  unfolding joinGroup_v0_parse_def [abs_def] by (rule reports_code)

definition joinGroup_v1_parse :: "parser" where
  "joinGroup_v1_parse = joinGroup_v0_parse"

lemma joinGroup_v1_parse_reports [parse_reports]: "reports [[''errorCode'']] joinGroup_v1_parse"
  unfolding joinGroup_v1_parse_def by (rule joinGroup_v0_parse_reports)

definition joinGroup_v2_parse :: "parser" where
  "joinGroup_v2_parse = joinGroup_v0_parse"

lemma joinGroup_v2_parse_reports [parse_reports]: "reports [[''errorCode'']] joinGroup_v2_parse"
  unfolding joinGroup_v2_parse_def by (rule joinGroup_v0_parse_reports)

definition joinGroup_v3_parse :: "parser" where
  "joinGroup_v3_parse = joinGroup_v2_parse"

lemma joinGroup_v3_parse_reports [parse_reports]: "reports [[''errorCode'']] joinGroup_v3_parse"
  unfolding joinGroup_v3_parse_def by (rule joinGroup_v2_parse_reports)

definition joinGroup_v4_parse :: "parser" where
  "joinGroup_v4_parse data =
     (if failed (jget ''errorCode'' data)
       then Inl (Raised (if jget ''errorCode'' data = JNum MEMBER_ID_REQUIRED_ERROR_CODE
         then new_KafkaJSMemberIdRequired (error_of (jget ''errorCode'' data)) (text_of (jget ''memberId'' data))
         else error_of (jget ''errorCode'' data)))
       else Inr data)"

lemma joinGroup_v4_parse_reports [parse_reports]: "reports [[''errorCode'']] joinGroup_v4_parse"
  unfolding joinGroup_v4_parse_def [abs_def] by (rule reports_code_with)

definition joinGroup_v5_parse :: "parser" where
  "joinGroup_v5_parse data =
     (if failed (jget ''errorCode'' data)
       then Inl (Raised (if jget ''errorCode'' data = JNum MEMBER_ID_REQUIRED_ERROR_CODE
         then new_KafkaJSMemberIdRequired (error_of (jget ''errorCode'' data)) (text_of (jget ''memberId'' data))
         else error_of (jget ''errorCode'' data)))
       else Inr data)"

lemma joinGroup_v5_parse_reports [parse_reports]: "reports [[''errorCode'']] joinGroup_v5_parse"
  unfolding joinGroup_v5_parse_def [abs_def] by (rule reports_code_with)

definition joinGroup_v6_parse :: "parser" where
  "joinGroup_v6_parse data =
     (if failed (jget ''errorCode'' data)
       then Inl (Raised (if jget ''errorCode'' data = JNum MEMBER_ID_REQUIRED_ERROR_CODE
         then new_KafkaJSMemberIdRequired (error_of (jget ''errorCode'' data)) (text_of (jget ''memberId'' data))
         else error_of (jget ''errorCode'' data)))
       else Inr data)"

lemma joinGroup_v6_parse_reports [parse_reports]: "reports [[''errorCode'']] joinGroup_v6_parse"
  unfolding joinGroup_v6_parse_def [abs_def] by (rule reports_code_with)

definition leaveGroup_v0_parse :: "parser" where
  "leaveGroup_v0_parse data =
     (if failed (jget ''errorCode'' data) then throw_code (jget ''errorCode'' data) else Inr data)"

lemma leaveGroup_v0_parse_reports [parse_reports]: "reports [[''errorCode'']] leaveGroup_v0_parse"
  unfolding leaveGroup_v0_parse_def [abs_def] by (rule reports_code)

definition leaveGroup_v1_parse :: "parser" where
  "leaveGroup_v1_parse = leaveGroup_v0_parse"

lemma leaveGroup_v1_parse_reports [parse_reports]: "reports [[''errorCode'']] leaveGroup_v1_parse"
  unfolding leaveGroup_v1_parse_def by (rule leaveGroup_v0_parse_reports)

definition leaveGroup_v2_parse :: "parser" where
  "leaveGroup_v2_parse = leaveGroup_v1_parse"

lemma leaveGroup_v2_parse_reports [parse_reports]: "reports [[''errorCode'']] leaveGroup_v2_parse"
  unfolding leaveGroup_v2_parse_def by (rule leaveGroup_v1_parse_reports)

definition leaveGroup_v3_parse :: "parser" where
  "leaveGroup_v3_parse data =
     (rbind (jelems (jget ''members'' data)) (\<lambda>members.
       case find (\<lambda>member. failed (jget ''errorCode'' member)) members of
         Some member \<Rightarrow> throw_code (jget ''errorCode'' member)
       | None \<Rightarrow> leaveGroup_v2_parse data))"

lemma leaveGroup_v3_parse_reports [parse_reports]: "reports [[''members'', ''errorCode''], [''errorCode'']] leaveGroup_v3_parse"
  proof (rule reports_other_error [OF reports_seq [OF reports_array reports_code, simplified]])
  fix data x
  have find: "(case find (\<lambda>m. failed (jget n m)) ms of Some m \<Rightarrow> throw_code (jget n m) | None \<Rightarrow> y) = Inr x \<longleftrightarrow>
      failures n ms = [] \<and> y = Inr x" for n ms and y :: "raised + jv"
    by (induction ms) (auto simp: failures_def throw_code_def)
  show "rbind (rbind (jelems (jget ''members'' data)) (\<lambda>xs. throw_head ''errorCode'' (failures ''errorCode'' xs) data))
      (\<lambda>_. if failed (jget ''errorCode'' data) then throw_code (jget ''errorCode'' data) else Inr data) = Inr x \<longleftrightarrow>
    leaveGroup_v3_parse data = Inr x"
    by (auto simp: leaveGroup_v3_parse_def leaveGroup_v2_parse_def leaveGroup_v1_parse_def leaveGroup_v0_parse_def rbind_eq_Inr_conv throw_head_Inr find)
qed

definition leaveGroup_v4_parse :: "parser" where
  "leaveGroup_v4_parse data =
     (rbind (jelems (jget ''members'' data)) (\<lambda>members.
       case find (\<lambda>member. failed (jget ''errorCode'' member)) members of
         Some member \<Rightarrow> throw_code (jget ''errorCode'' member)
       | None \<Rightarrow> leaveGroup_v2_parse data))"

lemma leaveGroup_v4_parse_reports [parse_reports]: "reports [[''members'', ''errorCode''], [''errorCode'']] leaveGroup_v4_parse"
  proof (rule reports_other_error [OF reports_seq [OF reports_array reports_code, simplified]])
  fix data x
  have find: "(case find (\<lambda>m. failed (jget n m)) ms of Some m \<Rightarrow> throw_code (jget n m) | None \<Rightarrow> y) = Inr x \<longleftrightarrow>
      failures n ms = [] \<and> y = Inr x" for n ms and y :: "raised + jv"
    by (induction ms) (auto simp: failures_def throw_code_def)
  show "rbind (rbind (jelems (jget ''members'' data)) (\<lambda>xs. throw_head ''errorCode'' (failures ''errorCode'' xs) data))
      (\<lambda>_. if failed (jget ''errorCode'' data) then throw_code (jget ''errorCode'' data) else Inr data) = Inr x \<longleftrightarrow>
    leaveGroup_v4_parse data = Inr x"
    by (auto simp: leaveGroup_v4_parse_def leaveGroup_v2_parse_def leaveGroup_v1_parse_def leaveGroup_v0_parse_def rbind_eq_Inr_conv throw_head_Inr find)
qed

definition listGroups_v0_parse :: "parser" where
  "listGroups_v0_parse data =
     (if failed (jget ''errorCode'' data) then throw_code (jget ''errorCode'' data) else Inr data)"

lemma listGroups_v0_parse_reports [parse_reports]: "reports [[''errorCode'']] listGroups_v0_parse"
  unfolding listGroups_v0_parse_def [abs_def] by (rule reports_code)

definition listGroups_v1_parse :: "parser" where
  "listGroups_v1_parse = listGroups_v0_parse"

lemma listGroups_v1_parse_reports [parse_reports]: "reports [[''errorCode'']] listGroups_v1_parse"
  unfolding listGroups_v1_parse_def by (rule listGroups_v0_parse_reports)

definition listGroups_v2_parse :: "parser" where
  "listGroups_v2_parse = listGroups_v1_parse"

lemma listGroups_v2_parse_reports [parse_reports]: "reports [[''errorCode'']] listGroups_v2_parse"
  unfolding listGroups_v2_parse_def by (rule listGroups_v1_parse_reports)

definition listGroups_v4_parse :: "parser" where
  "listGroups_v4_parse data =
     (if failed (jget ''errorCode'' data) then throw_code (jget ''errorCode'' data) else Inr data)"

lemma listGroups_v4_parse_reports [parse_reports]: "reports [[''errorCode'']] listGroups_v4_parse"
  unfolding listGroups_v4_parse_def [abs_def] by (rule reports_code)

definition listOffsets_v0_parse :: "parser" where
  "listOffsets_v0_parse data =
     (rbind (jelems (jget ''responses'' data)) (\<lambda>responses.
       rbind (flatMap (\<lambda>x. rbind (jelems (jget ''partitions'' x)) (\<lambda>ps. Inr (failures ''errorCode'' ps))) responses) (\<lambda>errors.
       throw_head ''errorCode'' errors data)))"

lemma listOffsets_v0_parse_reports [parse_reports]: "reports [[''responses'', ''partitions'', ''errorCode'']] listOffsets_v0_parse"
  unfolding listOffsets_v0_parse_def [abs_def] by (rule reports_nested)

definition listOffsets_v1_parse :: "parser" where
  "listOffsets_v1_parse data =
     (rbind (jelems (jget ''responses'' data)) (\<lambda>responses.
       rbind (flatMap (\<lambda>x. rbind (jelems (jget ''partitions'' x)) (\<lambda>ps. Inr (failures ''errorCode'' ps))) responses) (\<lambda>errors.
       throw_head ''errorCode'' errors data)))"

lemma listOffsets_v1_parse_reports [parse_reports]: "reports [[''responses'', ''partitions'', ''errorCode'']] listOffsets_v1_parse"
  unfolding listOffsets_v1_parse_def [abs_def] by (rule reports_nested)

definition listOffsets_v2_parse :: "parser" where
  "listOffsets_v2_parse data =
     (rbind (jelems (jget ''responses'' data)) (\<lambda>responses.
       rbind (flatMap (\<lambda>x. rbind (jelems (jget ''partitions'' x)) (\<lambda>ps. Inr (failures ''errorCode'' ps))) responses) (\<lambda>errors.
       throw_head ''errorCode'' errors data)))"

lemma listOffsets_v2_parse_reports [parse_reports]: "reports [[''responses'', ''partitions'', ''errorCode'']] listOffsets_v2_parse"
  unfolding listOffsets_v2_parse_def [abs_def] by (rule reports_nested)

definition listOffsets_v3_parse :: "parser" where
  "listOffsets_v3_parse = listOffsets_v2_parse"

lemma listOffsets_v3_parse_reports [parse_reports]: "reports [[''responses'', ''partitions'', ''errorCode'']] listOffsets_v3_parse"
  unfolding listOffsets_v3_parse_def by (rule listOffsets_v2_parse_reports)

definition listOffsets_v4_parse :: "parser" where
  "listOffsets_v4_parse data =
     (rbind (jelems (jget ''responses'' data)) (\<lambda>responses.
       rbind (flatMap (\<lambda>x. rbind (jelems (jget ''partitions'' x)) (\<lambda>ps. Inr (failures ''errorCode'' ps))) responses) (\<lambda>errors.
       throw_head ''errorCode'' errors data)))"

lemma listOffsets_v4_parse_reports [parse_reports]: "reports [[''responses'', ''partitions'', ''errorCode'']] listOffsets_v4_parse"
  unfolding listOffsets_v4_parse_def [abs_def] by (rule reports_nested)

definition listPartitionReassignments_v0_parse :: "parser" where
  "listPartitionReassignments_v0_parse data =
     (if failed (jget ''errorCode'' data) then throw_code (jget ''errorCode'' data) else Inr data)"

lemma listPartitionReassignments_v0_parse_reports [parse_reports]: "reports [[''errorCode'']] listPartitionReassignments_v0_parse"
  unfolding listPartitionReassignments_v0_parse_def [abs_def] by (rule reports_code)

definition listTransactions_v0_parse :: "parser" where
  "listTransactions_v0_parse data =
     (Inr data)"

definition metadata_v0_parse :: "parser" where
  "metadata_v0_parse data =
     (rbind (rbind (jelems (jget ''topicMetadata'' data)) (\<lambda>topicMetadata.
         throw_head ''topicErrorCode'' (failures ''topicErrorCode'' topicMetadata) data)) (\<lambda>_.
       rbind (jelems (jget ''topicMetadata'' data)) (\<lambda>topicMetadata.
       rbind (flatMap (\<lambda>x. rbind (jelems (jget ''partitionMetadata'' x)) (\<lambda>ps. Inr (failures ''partitionErrorCode'' ps))) topicMetadata) (\<lambda>errors.
       throw_head ''partitionErrorCode'' errors data))))"

lemma metadata_v0_parse_reports [parse_reports]: "reports [[''topicMetadata'', ''topicErrorCode''], [''topicMetadata'', ''partitionMetadata'', ''partitionErrorCode'']] metadata_v0_parse"
  unfolding metadata_v0_parse_def [abs_def] by (rule reports_seq [OF reports_array reports_nested, simplified])

definition metadata_v1_parse :: "parser" where
  "metadata_v1_parse = metadata_v0_parse"

lemma metadata_v1_parse_reports [parse_reports]: "reports [[''topicMetadata'', ''topicErrorCode''], [''topicMetadata'', ''partitionMetadata'', ''partitionErrorCode'']] metadata_v1_parse"
  unfolding metadata_v1_parse_def by (rule metadata_v0_parse_reports)

definition metadata_v2_parse :: "parser" where
  "metadata_v2_parse = metadata_v0_parse"

lemma metadata_v2_parse_reports [parse_reports]: "reports [[''topicMetadata'', ''topicErrorCode''], [''topicMetadata'', ''partitionMetadata'', ''partitionErrorCode'']] metadata_v2_parse"
  unfolding metadata_v2_parse_def by (rule metadata_v0_parse_reports)

definition metadata_v3_parse :: "parser" where
  "metadata_v3_parse = metadata_v0_parse"

lemma metadata_v3_parse_reports [parse_reports]: "reports [[''topicMetadata'', ''topicErrorCode''], [''topicMetadata'', ''partitionMetadata'', ''partitionErrorCode'']] metadata_v3_parse"
  unfolding metadata_v3_parse_def by (rule metadata_v0_parse_reports)

definition metadata_v4_parse :: "parser" where
  "metadata_v4_parse = metadata_v3_parse"

lemma metadata_v4_parse_reports [parse_reports]: "reports [[''topicMetadata'', ''topicErrorCode''], [''topicMetadata'', ''partitionMetadata'', ''partitionErrorCode'']] metadata_v4_parse"
  unfolding metadata_v4_parse_def by (rule metadata_v3_parse_reports)

definition metadata_v5_parse :: "parser" where
  "metadata_v5_parse = metadata_v0_parse"

lemma metadata_v5_parse_reports [parse_reports]: "reports [[''topicMetadata'', ''topicErrorCode''], [''topicMetadata'', ''partitionMetadata'', ''partitionErrorCode'']] metadata_v5_parse"
  unfolding metadata_v5_parse_def by (rule metadata_v0_parse_reports)

definition metadata_v6_parse :: "parser" where
  "metadata_v6_parse = metadata_v5_parse"

lemma metadata_v6_parse_reports [parse_reports]: "reports [[''topicMetadata'', ''topicErrorCode''], [''topicMetadata'', ''partitionMetadata'', ''partitionErrorCode'']] metadata_v6_parse"
  unfolding metadata_v6_parse_def by (rule metadata_v5_parse_reports)

definition metadata_v7_parse :: "parser" where
  "metadata_v7_parse = metadata_v0_parse"

lemma metadata_v7_parse_reports [parse_reports]: "reports [[''topicMetadata'', ''topicErrorCode''], [''topicMetadata'', ''partitionMetadata'', ''partitionErrorCode'']] metadata_v7_parse"
  unfolding metadata_v7_parse_def by (rule metadata_v0_parse_reports)

definition offsetCommit_v0_parse :: "parser" where
  "offsetCommit_v0_parse data =
     (rbind (jelems (jget ''responses'' data)) (\<lambda>responses.
       rbind (flatMap (\<lambda>x. rbind (jelems (jget ''partitions'' x)) (\<lambda>ps. Inr (failures ''errorCode'' ps))) responses) (\<lambda>errors.
       throw_head ''errorCode'' errors data)))"

lemma offsetCommit_v0_parse_reports [parse_reports]: "reports [[''responses'', ''partitions'', ''errorCode'']] offsetCommit_v0_parse"
  unfolding offsetCommit_v0_parse_def [abs_def] by (rule reports_nested)

definition offsetCommit_v1_parse :: "parser" where
  "offsetCommit_v1_parse = offsetCommit_v0_parse"

lemma offsetCommit_v1_parse_reports [parse_reports]: "reports [[''responses'', ''partitions'', ''errorCode'']] offsetCommit_v1_parse"
  unfolding offsetCommit_v1_parse_def by (rule offsetCommit_v0_parse_reports)

definition offsetCommit_v2_parse :: "parser" where
  "offsetCommit_v2_parse = offsetCommit_v0_parse"

lemma offsetCommit_v2_parse_reports [parse_reports]: "reports [[''responses'', ''partitions'', ''errorCode'']] offsetCommit_v2_parse"
  unfolding offsetCommit_v2_parse_def by (rule offsetCommit_v0_parse_reports)

definition offsetCommit_v3_parse :: "parser" where
  "offsetCommit_v3_parse = offsetCommit_v0_parse"

lemma offsetCommit_v3_parse_reports [parse_reports]: "reports [[''responses'', ''partitions'', ''errorCode'']] offsetCommit_v3_parse"
  unfolding offsetCommit_v3_parse_def by (rule offsetCommit_v0_parse_reports)

definition offsetCommit_v4_parse :: "parser" where
  "offsetCommit_v4_parse = offsetCommit_v3_parse"

lemma offsetCommit_v4_parse_reports [parse_reports]: "reports [[''responses'', ''partitions'', ''errorCode'']] offsetCommit_v4_parse"
  unfolding offsetCommit_v4_parse_def by (rule offsetCommit_v3_parse_reports)

definition offsetCommit_v5_parse :: "parser" where
  "offsetCommit_v5_parse = offsetCommit_v4_parse"

lemma offsetCommit_v5_parse_reports [parse_reports]: "reports [[''responses'', ''partitions'', ''errorCode'']] offsetCommit_v5_parse"
  unfolding offsetCommit_v5_parse_def by (rule offsetCommit_v4_parse_reports)

definition offsetCommit_v6_parse :: "parser" where
  "offsetCommit_v6_parse = offsetCommit_v0_parse"

lemma offsetCommit_v6_parse_reports [parse_reports]: "reports [[''responses'', ''partitions'', ''errorCode'']] offsetCommit_v6_parse"
  unfolding offsetCommit_v6_parse_def by (rule offsetCommit_v0_parse_reports)

definition offsetCommit_v7_parse :: "parser" where
  "offsetCommit_v7_parse = offsetCommit_v6_parse"

lemma offsetCommit_v7_parse_reports [parse_reports]: "reports [[''responses'', ''partitions'', ''errorCode'']] offsetCommit_v7_parse"
  unfolding offsetCommit_v7_parse_def by (rule offsetCommit_v6_parse_reports)

definition offsetDelete_v0_parse :: "parser" where
  "offsetDelete_v0_parse data =
     (if failed (jget ''errorCode'' data) then throw_code (jget ''errorCode'' data)
       else rbind (jelems (jget ''topics'' data)) (\<lambda>topics.
       rbind (for_of topics (\<lambda>x. rbind (jelems (jget ''partitions'' x)) (\<lambda>ps. for_of ps (check_code ''errorCode'')))) (\<lambda>_. Inr data)))"

lemma offsetDelete_v0_parse_reports [parse_reports]: "reports [[''errorCode''], [''topics'', ''partitions'', ''errorCode'']] offsetDelete_v0_parse"
  unfolding offsetDelete_v0_parse_def [abs_def] by (rule reports_code_then, rule reports_loop)

definition offsetFetch_v1_parse :: "parser" where
  "offsetFetch_v1_parse data =
     (rbind (jelems (jget ''responses'' data)) (\<lambda>responses.
       rbind (flatMap (\<lambda>x. rbind (jelems (jget ''partitions'' x)) (\<lambda>ps. Inr (failures ''errorCode'' ps))) responses) (\<lambda>errors.
       throw_head ''errorCode'' errors data)))"

lemma offsetFetch_v1_parse_reports [parse_reports]: "reports [[''responses'', ''partitions'', ''errorCode'']] offsetFetch_v1_parse"
  unfolding offsetFetch_v1_parse_def [abs_def] by (rule reports_nested)

definition offsetFetch_v2_parse :: "parser" where
  "offsetFetch_v2_parse data =
     (if failed (jget ''errorCode'' data) then throw_code (jget ''errorCode'' data)
       else rbind (jelems (jget ''responses'' data)) (\<lambda>responses.
       rbind (flatMap (\<lambda>x. rbind (jelems (jget ''partitions'' x)) (\<lambda>ps. Inr (failures ''errorCode'' ps))) responses) (\<lambda>errors.
       throw_head ''errorCode'' errors data)))"

lemma offsetFetch_v2_parse_reports [parse_reports]: "reports [[''errorCode''], [''responses'', ''partitions'', ''errorCode'']] offsetFetch_v2_parse"
  unfolding offsetFetch_v2_parse_def [abs_def] by (rule reports_code_then, rule reports_nested)

definition offsetFetch_v3_parse :: "parser" where
  "offsetFetch_v3_parse = offsetFetch_v2_parse"

lemma offsetFetch_v3_parse_reports [parse_reports]: "reports [[''errorCode''], [''responses'', ''partitions'', ''errorCode'']] offsetFetch_v3_parse"
  unfolding offsetFetch_v3_parse_def by (rule offsetFetch_v2_parse_reports)

definition offsetFetch_v4_parse :: "parser" where
  "offsetFetch_v4_parse = offsetFetch_v3_parse"

lemma offsetFetch_v4_parse_reports [parse_reports]: "reports [[''errorCode''], [''responses'', ''partitions'', ''errorCode'']] offsetFetch_v4_parse"
  unfolding offsetFetch_v4_parse_def by (rule offsetFetch_v3_parse_reports)

definition offsetFetch_v5_parse :: "parser" where
  "offsetFetch_v5_parse data =
     (if failed (jget ''errorCode'' data) then throw_code (jget ''errorCode'' data)
       else rbind (jelems (jget ''responses'' data)) (\<lambda>responses.
       rbind (flatMap (\<lambda>x. rbind (jelems (jget ''partitions'' x)) (\<lambda>ps. Inr (failures ''errorCode'' ps))) responses) (\<lambda>errors.
       throw_head ''errorCode'' errors data)))"

lemma offsetFetch_v5_parse_reports [parse_reports]: "reports [[''errorCode''], [''responses'', ''partitions'', ''errorCode'']] offsetFetch_v5_parse"
  unfolding offsetFetch_v5_parse_def [abs_def] by (rule reports_code_then, rule reports_nested)

definition offsetForLeaderEpoch_v0_parse :: "parser" where
  "offsetForLeaderEpoch_v0_parse data =
     (rbind (jelems (jget ''topics'' data)) (\<lambda>topics.
       rbind (flatMap (\<lambda>x. rbind (jelems (jget ''partitions'' x)) (\<lambda>ps.
         Inr (map (jset ''topic'' (jget ''topic'' x)) (failures ''errorCode'' ps)))) topics) (\<lambda>errors.
       case errors of [] \<Rightarrow> Inr data | _ # _ \<Rightarrow> Inl (Raised (error_of (jget ''errorCode'' (hd errors)))))))"

lemma offsetForLeaderEpoch_v0_parse_reports [parse_reports]: "reports [[''topics'', ''partitions'', ''errorCode'']] offsetForLeaderEpoch_v0_parse"
  unfolding offsetForLeaderEpoch_v0_parse_def [abs_def] by (rule reports_nested_with)

definition offsetForLeaderEpoch_v2_parse :: "parser" where
  "offsetForLeaderEpoch_v2_parse data =
     (rbind (jelems (jget ''topics'' data)) (\<lambda>topics.
       rbind (flatMap (\<lambda>x. rbind (jelems (jget ''partitions'' x)) (\<lambda>ps.
         Inr (map (jset ''topic'' (jget ''topic'' x)) (failures ''errorCode'' ps)))) topics) (\<lambda>errors.
       case errors of [] \<Rightarrow> Inr data | _ # _ \<Rightarrow> Inl (Raised (error_of (jget ''errorCode'' (hd errors)))))))"

lemma offsetForLeaderEpoch_v2_parse_reports [parse_reports]: "reports [[''topics'', ''partitions'', ''errorCode'']] offsetForLeaderEpoch_v2_parse"
  unfolding offsetForLeaderEpoch_v2_parse_def [abs_def] by (rule reports_nested_with)

definition offsetForLeaderEpoch_v3_parse :: "parser" where
  "offsetForLeaderEpoch_v3_parse data =
     (rbind (jelems (jget ''topics'' data)) (\<lambda>topics.
       rbind (flatMap (\<lambda>x. rbind (jelems (jget ''partitions'' x)) (\<lambda>ps.
         Inr (map (jset ''topic'' (jget ''topic'' x)) (failures ''errorCode'' ps)))) topics) (\<lambda>errors.
       case errors of [] \<Rightarrow> Inr data | _ # _ \<Rightarrow> Inl (Raised (error_of (jget ''errorCode'' (hd errors)))))))"

lemma offsetForLeaderEpoch_v3_parse_reports [parse_reports]: "reports [[''topics'', ''partitions'', ''errorCode'']] offsetForLeaderEpoch_v3_parse"
  unfolding offsetForLeaderEpoch_v3_parse_def [abs_def] by (rule reports_nested_with)

definition produce_v0_parse :: "parser" where
  "produce_v0_parse data =
     (rbind (jelems (jget ''topics'' data)) (\<lambda>topics.
       rbind (flatMap (\<lambda>x. rbind (jelems (jget ''partitions'' x)) (\<lambda>ps. Inr (failures ''errorCode'' ps))) topics) (\<lambda>errors.
       throw_head ''errorCode'' errors data)))"

lemma produce_v0_parse_reports [parse_reports]: "reports [[''topics'', ''partitions'', ''errorCode'']] produce_v0_parse"
  unfolding produce_v0_parse_def [abs_def] by (rule reports_nested)

definition produce_v1_parse :: "parser" where
  "produce_v1_parse = produce_v0_parse"

lemma produce_v1_parse_reports [parse_reports]: "reports [[''topics'', ''partitions'', ''errorCode'']] produce_v1_parse"
  unfolding produce_v1_parse_def by (rule produce_v0_parse_reports)

definition produce_v2_parse :: "parser" where
  "produce_v2_parse = produce_v0_parse"

lemma produce_v2_parse_reports [parse_reports]: "reports [[''topics'', ''partitions'', ''errorCode'']] produce_v2_parse"
  unfolding produce_v2_parse_def by (rule produce_v0_parse_reports)

definition produce_v3_parse :: "parser" where
  "produce_v3_parse data =
     (rbind (jelems (jget ''topics'' data)) (\<lambda>topics.
       rbind (flatMap (\<lambda>x. rbind (jelems (jget ''partitions'' x)) (\<lambda>ps. Inr (failures ''errorCode'' ps))) topics) (\<lambda>errors.
       throw_head ''errorCode'' errors data)))"

lemma produce_v3_parse_reports [parse_reports]: "reports [[''topics'', ''partitions'', ''errorCode'']] produce_v3_parse"
  unfolding produce_v3_parse_def [abs_def] by (rule reports_nested)

definition produce_v4_parse :: "parser" where
  "produce_v4_parse = produce_v3_parse"

lemma produce_v4_parse_reports [parse_reports]: "reports [[''topics'', ''partitions'', ''errorCode'']] produce_v4_parse"
  unfolding produce_v4_parse_def by (rule produce_v3_parse_reports)

definition produce_v5_parse :: "parser" where
  "produce_v5_parse = produce_v3_parse"

lemma produce_v5_parse_reports [parse_reports]: "reports [[''topics'', ''partitions'', ''errorCode'']] produce_v5_parse"
  unfolding produce_v5_parse_def by (rule produce_v3_parse_reports)

definition produce_v6_parse :: "parser" where
  "produce_v6_parse = produce_v5_parse"

lemma produce_v6_parse_reports [parse_reports]: "reports [[''topics'', ''partitions'', ''errorCode'']] produce_v6_parse"
  unfolding produce_v6_parse_def by (rule produce_v5_parse_reports)

definition produce_v7_parse :: "parser" where
  "produce_v7_parse = produce_v6_parse"

lemma produce_v7_parse_reports [parse_reports]: "reports [[''topics'', ''partitions'', ''errorCode'']] produce_v7_parse"
  unfolding produce_v7_parse_def by (rule produce_v6_parse_reports)

definition produce_v8_parse :: "parser" where
  "produce_v8_parse = produce_v3_parse"

lemma produce_v8_parse_reports [parse_reports]: "reports [[''topics'', ''partitions'', ''errorCode'']] produce_v8_parse"
  unfolding produce_v8_parse_def by (rule produce_v3_parse_reports)

definition produce_v9_parse :: "parser" where
  "produce_v9_parse = produce_v3_parse"

lemma produce_v9_parse_reports [parse_reports]: "reports [[''topics'', ''partitions'', ''errorCode'']] produce_v9_parse"
  unfolding produce_v9_parse_def by (rule produce_v3_parse_reports)

definition readShareGroupStateSummary_v0_parse :: "parser" where
  "readShareGroupStateSummary_v0_parse data =
     (rbind (jelems_or_empty (jget ''results'' data)) (\<lambda>results.
       rbind (for_of results (\<lambda>x. rbind (jelems_or_empty (jget ''partitions'' x)) (\<lambda>ps. for_of ps (check_code ''errorCode'')))) (\<lambda>_. Inr data)))"

definition removeRaftVoter_v0_parse :: "parser" where
  "removeRaftVoter_v0_parse data =
     (if failed (jget ''errorCode'' data) then throw_code (jget ''errorCode'' data) else Inr data)"

lemma removeRaftVoter_v0_parse_reports [parse_reports]: "reports [[''errorCode'']] removeRaftVoter_v0_parse"
  unfolding removeRaftVoter_v0_parse_def [abs_def] by (rule reports_code)

definition saslAuthenticate_v0_parse :: "parser" where
  "saslAuthenticate_v0_parse data =
     (if jget ''errorCode'' data = JNum SASL_AUTHENTICATION_FAILED \<and> text_of (jget ''errorMessage'' data) \<noteq> []
       then Inl (Raised (error_of_entry (find_error SASL_AUTHENTICATION_FAILED\<lparr>ec_message := text_of (jget ''errorMessage'' data)\<rparr>)))
       else if failed (jget ''errorCode'' data) then throw_code (jget ''errorCode'' data) else Inr data)"

lemma saslAuthenticate_v0_parse_reports [parse_reports]: "reports [[''errorCode'']] saslAuthenticate_v0_parse"
  proof (rule reports_other_error [OF reports_code])
  fix data x
  show "(if failed (jget ''errorCode'' data) then throw_code (jget ''errorCode'' data) else Inr data) = Inr x \<longleftrightarrow>
    saslAuthenticate_v0_parse data = Inr x"
    by (auto simp: saslAuthenticate_v0_parse_def throw_code_def failed_def failure_def SUCCESS_CODE_def SASL_AUTHENTICATION_FAILED_def)
qed

definition saslAuthenticate_v1_parse :: "parser" where
  "saslAuthenticate_v1_parse = saslAuthenticate_v0_parse"

lemma saslAuthenticate_v1_parse_reports [parse_reports]: "reports [[''errorCode'']] saslAuthenticate_v1_parse"
  unfolding saslAuthenticate_v1_parse_def by (rule saslAuthenticate_v0_parse_reports)

definition saslAuthenticate_v2_parse :: "parser" where
  "saslAuthenticate_v2_parse = saslAuthenticate_v0_parse"

lemma saslAuthenticate_v2_parse_reports [parse_reports]: "reports [[''errorCode'']] saslAuthenticate_v2_parse"
  unfolding saslAuthenticate_v2_parse_def by (rule saslAuthenticate_v0_parse_reports)

definition saslHandshake_v0_parse :: "parser" where
  "saslHandshake_v0_parse data =
     (if failed (jget ''errorCode'' data) then throw_code (jget ''errorCode'' data) else Inr data)"

lemma saslHandshake_v0_parse_reports [parse_reports]: "reports [[''errorCode'']] saslHandshake_v0_parse"
  unfolding saslHandshake_v0_parse_def [abs_def] by (rule reports_code)

definition saslHandshake_v1_parse :: "parser" where
  "saslHandshake_v1_parse = saslHandshake_v0_parse"

lemma saslHandshake_v1_parse_reports [parse_reports]: "reports [[''errorCode'']] saslHandshake_v1_parse"
  unfolding saslHandshake_v1_parse_def by (rule saslHandshake_v0_parse_reports)

definition shareAcknowledge_v0_parse :: "parser" where
  "shareAcknowledge_v0_parse data =
     (if failed (jget ''errorCode'' data) then throw_code (jget ''errorCode'' data) else Inr data)"

lemma shareAcknowledge_v0_parse_reports [parse_reports]: "reports [[''errorCode'']] shareAcknowledge_v0_parse"
  unfolding shareAcknowledge_v0_parse_def [abs_def] by (rule reports_code)

definition shareFetch_v0_parse :: "parser" where
  "shareFetch_v0_parse data =
     (if failed (jget ''errorCode'' data) then throw_code (jget ''errorCode'' data) else Inr data)"

lemma shareFetch_v0_parse_reports [parse_reports]: "reports [[''errorCode'']] shareFetch_v0_parse"
  unfolding shareFetch_v0_parse_def [abs_def] by (rule reports_code)

definition shareGroupDescribe_v0_parse :: "parser" where
  "shareGroupDescribe_v0_parse data =
     (rbind (jelems_or_empty (jget ''groups'' data)) (\<lambda>groups.
       rbind (for_of groups (check_code ''errorCode'')) (\<lambda>_. Inr data)))"

definition shareGroupHeartbeat_v0_parse :: "parser" where
  "shareGroupHeartbeat_v0_parse data =
     (if failed (jget ''errorCode'' data) then throw_code (jget ''errorCode'' data) else Inr data)"

lemma shareGroupHeartbeat_v0_parse_reports [parse_reports]: "reports [[''errorCode'']] shareGroupHeartbeat_v0_parse"
  unfolding shareGroupHeartbeat_v0_parse_def [abs_def] by (rule reports_code)

definition syncGroup_v0_parse :: "parser" where
  "syncGroup_v0_parse data =
     (if failed (jget ''errorCode'' data) then throw_code (jget ''errorCode'' data) else Inr data)"

lemma syncGroup_v0_parse_reports [parse_reports]: "reports [[''errorCode'']] syncGroup_v0_parse"
  unfolding syncGroup_v0_parse_def [abs_def] by (rule reports_code)

definition syncGroup_v1_parse :: "parser" where
  "syncGroup_v1_parse = syncGroup_v0_parse"

lemma syncGroup_v1_parse_reports [parse_reports]: "reports [[''errorCode'']] syncGroup_v1_parse"
  unfolding syncGroup_v1_parse_def by (rule syncGroup_v0_parse_reports)

definition syncGroup_v2_parse :: "parser" where
  "syncGroup_v2_parse = syncGroup_v1_parse"

lemma syncGroup_v2_parse_reports [parse_reports]: "reports [[''errorCode'']] syncGroup_v2_parse"
  unfolding syncGroup_v2_parse_def by (rule syncGroup_v1_parse_reports)

definition syncGroup_v3_parse :: "parser" where
  "syncGroup_v3_parse = syncGroup_v2_parse"

lemma syncGroup_v3_parse_reports [parse_reports]: "reports [[''errorCode'']] syncGroup_v3_parse"
  unfolding syncGroup_v3_parse_def by (rule syncGroup_v2_parse_reports)

definition syncGroup_v4_parse :: "parser" where
  "syncGroup_v4_parse data =
     (if failed (jget ''errorCode'' data) then throw_code (jget ''errorCode'' data) else Inr data)"

lemma syncGroup_v4_parse_reports [parse_reports]: "reports [[''errorCode'']] syncGroup_v4_parse"
  unfolding syncGroup_v4_parse_def [abs_def] by (rule reports_code)

definition txnOffsetCommit_v0_parse :: "parser" where
  "txnOffsetCommit_v0_parse data =
     (rbind (jelems (jget ''topics'' data)) (\<lambda>topics.
       rbind (rmap (\<lambda>x. rbind (jelems (jget ''partitions'' x)) (\<lambda>ps. Inr (failures ''errorCode'' ps))) topics) (\<lambda>withErrors.
       case filter (\<lambda>ys. ys \<noteq> []) withErrors of [] \<Rightarrow> Inr data | ys # _ \<Rightarrow> throw_code (jget ''errorCode'' (hd ys)))))"

lemma txnOffsetCommit_v0_parse_reports [parse_reports]: "reports [[''topics'', ''partitions'', ''errorCode'']] txnOffsetCommit_v0_parse"
  unfolding txnOffsetCommit_v0_parse_def [abs_def] by (rule reports_grouped)

definition txnOffsetCommit_v1_parse :: "parser" where
  "txnOffsetCommit_v1_parse = txnOffsetCommit_v0_parse"

lemma txnOffsetCommit_v1_parse_reports [parse_reports]: "reports [[''topics'', ''partitions'', ''errorCode'']] txnOffsetCommit_v1_parse"
  unfolding txnOffsetCommit_v1_parse_def by (rule txnOffsetCommit_v0_parse_reports)

definition updateRaftVoter_v0_parse :: "parser" where
  "updateRaftVoter_v0_parse data =
     (if failed (jget ''errorCode'' data) then throw_code (jget ''errorCode'' data) else Inr data)"

lemma updateRaftVoter_v0_parse_reports [parse_reports]: "reports [[''errorCode'']] updateRaftVoter_v0_parse"
  unfolding updateRaftVoter_v0_parse_def [abs_def] by (rule reports_code)

subsection \<open>The table\<close>

definition parse_table :: "comparison \<Rightarrow> int list \<Rightarrow> (string \<times> nat \<times> layout \<times> string list list \<times> parser) list" where
  "parse_table localeCompare requested =
     [(''addOffsetsToTxn'', 0, addOffsetsToTxn_v0_layout, [[''errorCode'']], addOffsetsToTxn_v0_parse),
      (''addOffsetsToTxn'', 1, addOffsetsToTxn_v1_layout, [[''errorCode'']], addOffsetsToTxn_v1_parse),
      (''addPartitionsToTxn'', 0, addPartitionsToTxn_v0_layout, [[''errors'', ''partitionErrors'', ''errorCode'']], addPartitionsToTxn_v0_parse),
      (''addPartitionsToTxn'', 1, addPartitionsToTxn_v1_layout, [[''errors'', ''partitionErrors'', ''errorCode'']], addPartitionsToTxn_v1_parse),
      (''addRaftVoter'', 0, addRaftVoter_v0_layout, [[''errorCode'']], addRaftVoter_v0_parse),
      (''alterConfigs'', 0, alterConfigs_v0_layout, [[''resources'', ''errorCode'']], alterConfigs_v0_parse),
      (''alterConfigs'', 1, alterConfigs_v1_layout, [[''resources'', ''errorCode'']], alterConfigs_v1_parse),
      (''alterConfigs'', 2, alterConfigs_v2_layout, [[''resources'', ''errorCode'']], alterConfigs_v2_parse),
      (''alterPartitionReassignments'', 0, alterPartitionReassignments_v0_layout, [[''errorCode''], [''responses'', ''partitions'', ''errorCode'']], alterPartitionReassignments_v0_parse),
      (''apiVersions'', 0, apiVersions_v0_layout, [[''errorCode'']], apiVersions_v0_parse),
      (''apiVersions'', 1, apiVersions_v1_layout, [[''errorCode'']], apiVersions_v1_parse),
      (''apiVersions'', 2, apiVersions_v2_layout, [[''errorCode'']], apiVersions_v2_parse),
      (''apiVersions'', 3, apiVersions_v3_layout, [[''errorCode'']], apiVersions_v3_parse),
      (''createAcls'', 0, createAcls_v0_layout, [[''creationResponses'', ''errorCode'']], createAcls_v0_parse),
      (''createAcls'', 1, createAcls_v1_layout, [[''creationResponses'', ''errorCode'']], createAcls_v1_parse),
      (''createPartitions'', 0, createPartitions_v0_layout localeCompare, [[''topicErrors'', ''errorCode'']], createPartitions_v0_parse),
      (''createPartitions'', 1, createPartitions_v1_layout localeCompare, [[''topicErrors'', ''errorCode'']], createPartitions_v1_parse),
      (''createTopics'', 0, createTopics_v0_layout localeCompare, [[''topicErrors'', ''errorCode'']], createTopics_v0_parse),
      (''createTopics'', 1, createTopics_v1_layout localeCompare, [[''topicErrors'', ''errorCode'']], createTopics_v1_parse),
      (''createTopics'', 2, createTopics_v2_layout localeCompare, [[''topicErrors'', ''errorCode'']], createTopics_v2_parse),
      (''createTopics'', 3, createTopics_v3_layout localeCompare, [[''topicErrors'', ''errorCode'']], createTopics_v3_parse),
      (''createTopics'', 5, createTopics_v5_layout localeCompare, [[''topicErrors'', ''errorCode'']], createTopics_v5_parse),
      (''deleteAcls'', 0, deleteAcls_v0_layout, [[''filterResponses'', ''errorCode''], [''filterResponses'', ''matchingAcls'', ''errorCode'']], deleteAcls_v0_parse),
      (''deleteAcls'', 1, deleteAcls_v1_layout, [[''filterResponses'', ''errorCode''], [''filterResponses'', ''matchingAcls'', ''errorCode'']], deleteAcls_v1_parse),
      (''deleteRecords'', 0, deleteRecords_v0_layout localeCompare, [[''topics'', ''partitions'', ''errorCode'']], deleteRecords_v0_parse requested),
      (''deleteRecords'', 1, deleteRecords_v1_layout localeCompare, [[''topics'', ''partitions'', ''errorCode'']], deleteRecords_v1_parse requested),
      (''deleteTopics'', 0, deleteTopics_v0_layout localeCompare, [[''topicErrors'', ''errorCode'']], deleteTopics_v0_parse),
      (''deleteTopics'', 1, deleteTopics_v1_layout localeCompare, [[''topicErrors'', ''errorCode'']], deleteTopics_v1_parse),
      (''deleteTopics'', 4, deleteTopics_v4_layout localeCompare, [[''topicErrors'', ''errorCode'']], deleteTopics_v4_parse),
      (''describeAcls'', 0, describeAcls_v0_layout, [[''errorCode'']], describeAcls_v0_parse),
      (''describeAcls'', 1, describeAcls_v1_layout, [[''errorCode'']], describeAcls_v1_parse),
      (''describeCluster'', 0, describeCluster_v0_layout, [[''errorCode'']], describeCluster_v0_parse),
      (''describeCluster'', 1, describeCluster_v0_layout, [[''errorCode'']], describeCluster_v1_parse),
      (''describeConfigs'', 1, describeConfigs_v1_layout, [[''resources'', ''errorCode'']], describeConfigs_v1_parse),
      (''describeConfigs'', 2, describeConfigs_v2_layout, [[''resources'', ''errorCode'']], describeConfigs_v2_parse),
      (''describeConfigs'', 4, describeConfigs_v4_layout, [[''resources'', ''errorCode'']], describeConfigs_v4_parse),
      (''describeGroups'', 0, describeGroups_v0_layout, [[''groups'', ''errorCode'']], describeGroups_v0_parse),
      (''describeGroups'', 1, describeGroups_v1_layout, [[''groups'', ''errorCode'']], describeGroups_v1_parse),
      (''describeGroups'', 2, describeGroups_v2_layout, [[''groups'', ''errorCode'']], describeGroups_v2_parse),
      (''describeLogDirs'', 0, describeLogDirs_v0_layout, [[''results'', ''errorCode'']], describeLogDirs_v0_parse),
      (''describeLogDirs'', 2, describeLogDirs_v2_layout, [[''results'', ''errorCode'']], describeLogDirs_v2_parse),
      (''electLeaders'', 0, electLeaders_v0_layout, [[''errorCode''], [''replicaElectionResults'', ''partitionResult'', ''errorCode'']], electLeaders_v0_parse),
      (''electLeaders'', 1, electLeaders_v0_layout, [[''errorCode''], [''replicaElectionResults'', ''partitionResult'', ''errorCode'']], electLeaders_v1_parse),
      (''electLeaders'', 2, electLeaders_v2_layout, [[''errorCode''], [''replicaElectionResults'', ''partitionResult'', ''errorCode'']], electLeaders_v2_parse),
      (''endTxn'', 0, endTxn_v0_layout, [[''errorCode'']], endTxn_v0_parse),
      (''endTxn'', 1, endTxn_v1_layout, [[''errorCode'']], endTxn_v1_parse),
      (''fetch'', 0, fetch_v0_layout BYTES, [[''responses'', ''partitions'', ''errorCode'']], fetch_v0_parse),
      (''fetch'', 1, fetch_v1_layout BYTES, [[''responses'', ''partitions'', ''errorCode'']], fetch_v1_parse),
      (''fetch'', 2, fetch_v1_layout BYTES, [[''responses'', ''partitions'', ''errorCode'']], fetch_v2_parse),
      (''fetch'', 3, fetch_v1_layout BYTES, [[''responses'', ''partitions'', ''errorCode'']], fetch_v3_parse),
      (''fetch'', 4, fetch_v4_layout BYTES, [[''responses'', ''partitions'', ''errorCode'']], fetch_v4_parse),
      (''fetch'', 5, fetch_v5_layout BYTES, [[''responses'', ''partitions'', ''errorCode'']], fetch_v5_parse),
      (''fetch'', 6, fetch_v5_layout BYTES, [[''responses'', ''partitions'', ''errorCode'']], fetch_v6_parse),
      (''findCoordinator'', 0, findCoordinator_v0_layout, [[''errorCode'']], findCoordinator_v0_parse),
      (''findCoordinator'', 1, findCoordinator_v1_layout, [[''errorCode'']], findCoordinator_v1_parse),
      (''findCoordinator'', 2, findCoordinator_v2_layout, [[''errorCode'']], findCoordinator_v2_parse),
      (''findCoordinator'', 3, findCoordinator_v3_layout, [[''errorCode'']], findCoordinator_v3_parse),
      (''heartbeat'', 0, heartbeat_v0_layout, [[''errorCode'']], heartbeat_v0_parse),
      (''heartbeat'', 1, heartbeat_v1_layout, [[''errorCode'']], heartbeat_v1_parse),
      (''heartbeat'', 2, heartbeat_v2_layout, [[''errorCode'']], heartbeat_v2_parse),
      (''heartbeat'', 3, heartbeat_v2_layout, [[''errorCode'']], heartbeat_v3_parse),
      (''heartbeat'', 4, heartbeat_v4_layout, [[''errorCode'']], heartbeat_v4_parse),
      (''incrementalAlterConfigs'', 0, incrementalAlterConfigs_v0_layout, [[''responses'', ''errorCode'']], incrementalAlterConfigs_v0_parse),
      (''incrementalAlterConfigs'', 1, incrementalAlterConfigs_v1_layout, [[''responses'', ''errorCode'']], incrementalAlterConfigs_v1_parse),
      (''initProducerId'', 0, initProducerId_v0_layout, [[''errorCode'']], initProducerId_v0_parse),
      (''initProducerId'', 1, initProducerId_v1_layout, [[''errorCode'']], initProducerId_v1_parse),
      (''initProducerId'', 2, initProducerId_v2_layout, [[''errorCode'']], initProducerId_v2_parse),
      (''initProducerId'', 3, initProducerId_v2_layout, [[''errorCode'']], initProducerId_v3_parse),
      (''joinGroup'', 0, joinGroup_v0_layout, [[''errorCode'']], joinGroup_v0_parse),
      (''joinGroup'', 1, joinGroup_v0_layout, [[''errorCode'']], joinGroup_v1_parse),
      (''joinGroup'', 2, joinGroup_v2_layout, [[''errorCode'']], joinGroup_v2_parse),
      (''joinGroup'', 3, joinGroup_v3_layout, [[''errorCode'']], joinGroup_v3_parse),
      (''joinGroup'', 4, joinGroup_v3_layout, [[''errorCode'']], joinGroup_v4_parse),
      (''joinGroup'', 5, joinGroup_v5_layout, [[''errorCode'']], joinGroup_v5_parse),
      (''leaveGroup'', 0, leaveGroup_v0_layout, [[''errorCode'']], leaveGroup_v0_parse),
      (''leaveGroup'', 1, leaveGroup_v1_layout, [[''errorCode'']], leaveGroup_v1_parse),
      (''leaveGroup'', 2, leaveGroup_v2_layout, [[''errorCode'']], leaveGroup_v2_parse),
      (''leaveGroup'', 3, leaveGroup_v3_layout, [[''members'', ''errorCode''], [''errorCode'']], leaveGroup_v3_parse),
      (''leaveGroup'', 4, leaveGroup_v4_layout, [[''members'', ''errorCode''], [''errorCode'']], leaveGroup_v4_parse),
      (''listGroups'', 0, listGroups_v0_layout, [[''errorCode'']], listGroups_v0_parse),
      (''listGroups'', 1, listGroups_v1_layout, [[''errorCode'']], listGroups_v1_parse),
      (''listGroups'', 2, listGroups_v2_layout, [[''errorCode'']], listGroups_v2_parse),
      (''listGroups'', 4, listGroups_v4_layout, [[''errorCode'']], listGroups_v4_parse),
      (''listOffsets'', 0, listOffsets_v0_layout, [[''responses'', ''partitions'', ''errorCode'']], listOffsets_v0_parse),
      (''listOffsets'', 1, listOffsets_v1_layout, [[''responses'', ''partitions'', ''errorCode'']], listOffsets_v1_parse),
      (''listOffsets'', 2, listOffsets_v2_layout, [[''responses'', ''partitions'', ''errorCode'']], listOffsets_v2_parse),
      (''listOffsets'', 3, listOffsets_v3_layout, [[''responses'', ''partitions'', ''errorCode'']], listOffsets_v3_parse),
      (''listOffsets'', 4, listOffsets_v4_layout, [[''responses'', ''partitions'', ''errorCode'']], listOffsets_v4_parse),
      (''listPartitionReassignments'', 0, listPartitionReassignments_v0_layout, [[''errorCode'']], listPartitionReassignments_v0_parse),
      (''metadata'', 0, metadata_v0_layout, [[''topicMetadata'', ''topicErrorCode''], [''topicMetadata'', ''partitionMetadata'', ''partitionErrorCode'']], metadata_v0_parse),
      (''metadata'', 1, metadata_v1_layout, [[''topicMetadata'', ''topicErrorCode''], [''topicMetadata'', ''partitionMetadata'', ''partitionErrorCode'']], metadata_v1_parse),
      (''metadata'', 2, metadata_v2_layout, [[''topicMetadata'', ''topicErrorCode''], [''topicMetadata'', ''partitionMetadata'', ''partitionErrorCode'']], metadata_v2_parse),
      (''metadata'', 3, metadata_v3_layout, [[''topicMetadata'', ''topicErrorCode''], [''topicMetadata'', ''partitionMetadata'', ''partitionErrorCode'']], metadata_v3_parse),
      (''metadata'', 4, metadata_v3_layout, [[''topicMetadata'', ''topicErrorCode''], [''topicMetadata'', ''partitionMetadata'', ''partitionErrorCode'']], metadata_v4_parse),
      (''metadata'', 5, metadata_v5_layout, [[''topicMetadata'', ''topicErrorCode''], [''topicMetadata'', ''partitionMetadata'', ''partitionErrorCode'']], metadata_v5_parse),
      (''metadata'', 6, metadata_v6_layout, [[''topicMetadata'', ''topicErrorCode''], [''topicMetadata'', ''partitionMetadata'', ''partitionErrorCode'']], metadata_v6_parse),
      (''metadata'', 7, metadata_v7_layout, [[''topicMetadata'', ''topicErrorCode''], [''topicMetadata'', ''partitionMetadata'', ''partitionErrorCode'']], metadata_v7_parse),
      (''offsetCommit'', 0, offsetCommit_v0_layout, [[''responses'', ''partitions'', ''errorCode'']], offsetCommit_v0_parse),
      (''offsetCommit'', 1, offsetCommit_v0_layout, [[''responses'', ''partitions'', ''errorCode'']], offsetCommit_v1_parse),
      (''offsetCommit'', 2, offsetCommit_v0_layout, [[''responses'', ''partitions'', ''errorCode'']], offsetCommit_v2_parse),
      (''offsetCommit'', 3, offsetCommit_v3_layout, [[''responses'', ''partitions'', ''errorCode'']], offsetCommit_v3_parse),
      (''offsetCommit'', 4, offsetCommit_v4_layout, [[''responses'', ''partitions'', ''errorCode'']], offsetCommit_v4_parse),
      (''offsetCommit'', 5, offsetCommit_v4_layout, [[''responses'', ''partitions'', ''errorCode'']], offsetCommit_v5_parse),
      (''offsetCommit'', 6, offsetCommit_v6_layout, [[''responses'', ''partitions'', ''errorCode'']], offsetCommit_v6_parse),
      (''offsetCommit'', 7, offsetCommit_v6_layout, [[''responses'', ''partitions'', ''errorCode'']], offsetCommit_v7_parse),
      (''offsetDelete'', 0, offsetDelete_v0_layout, [[''errorCode''], [''topics'', ''partitions'', ''errorCode'']], offsetDelete_v0_parse),
      (''offsetFetch'', 1, offsetFetch_v1_layout, [[''responses'', ''partitions'', ''errorCode'']], offsetFetch_v1_parse),
      (''offsetFetch'', 2, offsetFetch_v2_layout, [[''errorCode''], [''responses'', ''partitions'', ''errorCode'']], offsetFetch_v2_parse),
      (''offsetFetch'', 3, offsetFetch_v3_layout, [[''errorCode''], [''responses'', ''partitions'', ''errorCode'']], offsetFetch_v3_parse),
      (''offsetFetch'', 4, offsetFetch_v4_layout, [[''errorCode''], [''responses'', ''partitions'', ''errorCode'']], offsetFetch_v4_parse),
      (''offsetFetch'', 5, offsetFetch_v5_layout, [[''errorCode''], [''responses'', ''partitions'', ''errorCode'']], offsetFetch_v5_parse),
      (''offsetForLeaderEpoch'', 0, offsetForLeaderEpoch_v0_layout, [[''topics'', ''partitions'', ''errorCode'']], offsetForLeaderEpoch_v0_parse),
      (''offsetForLeaderEpoch'', 2, offsetForLeaderEpoch_v2_layout, [[''topics'', ''partitions'', ''errorCode'']], offsetForLeaderEpoch_v2_parse),
      (''offsetForLeaderEpoch'', 3, offsetForLeaderEpoch_v3_layout, [[''topics'', ''partitions'', ''errorCode'']], offsetForLeaderEpoch_v3_parse),
      (''produce'', 0, produce_v0_layout, [[''topics'', ''partitions'', ''errorCode'']], produce_v0_parse),
      (''produce'', 1, produce_v1_layout, [[''topics'', ''partitions'', ''errorCode'']], produce_v1_parse),
      (''produce'', 2, produce_v2_layout, [[''topics'', ''partitions'', ''errorCode'']], produce_v2_parse),
      (''produce'', 3, produce_v3_layout, [[''topics'', ''partitions'', ''errorCode'']], produce_v3_parse),
      (''produce'', 4, produce_v3_layout, [[''topics'', ''partitions'', ''errorCode'']], produce_v4_parse),
      (''produce'', 5, produce_v5_layout, [[''topics'', ''partitions'', ''errorCode'']], produce_v5_parse),
      (''produce'', 6, produce_v6_layout, [[''topics'', ''partitions'', ''errorCode'']], produce_v6_parse),
      (''produce'', 7, produce_v6_layout, [[''topics'', ''partitions'', ''errorCode'']], produce_v7_parse),
      (''produce'', 8, produce_v8_layout, [[''topics'', ''partitions'', ''errorCode'']], produce_v8_parse),
      (''produce'', 9, produce_v9_layout, [[''topics'', ''partitions'', ''errorCode'']], produce_v9_parse),
      (''removeRaftVoter'', 0, removeRaftVoter_v0_layout, [[''errorCode'']], removeRaftVoter_v0_parse),
      (''saslAuthenticate'', 0, saslAuthenticate_v0_layout, [[''errorCode'']], saslAuthenticate_v0_parse),
      (''saslAuthenticate'', 1, saslAuthenticate_v1_layout, [[''errorCode'']], saslAuthenticate_v1_parse),
      (''saslHandshake'', 0, saslHandshake_v0_layout, [[''errorCode'']], saslHandshake_v0_parse),
      (''saslHandshake'', 1, saslHandshake_v0_layout, [[''errorCode'']], saslHandshake_v1_parse),
      (''shareGroupHeartbeat'', 0, shareGroupHeartbeat_v0_layout, [[''errorCode'']], shareGroupHeartbeat_v0_parse),
      (''syncGroup'', 0, syncGroup_v0_layout, [[''errorCode'']], syncGroup_v0_parse),
      (''syncGroup'', 1, syncGroup_v1_layout, [[''errorCode'']], syncGroup_v1_parse),
      (''syncGroup'', 2, syncGroup_v2_layout, [[''errorCode'']], syncGroup_v2_parse),
      (''syncGroup'', 3, syncGroup_v2_layout, [[''errorCode'']], syncGroup_v3_parse),
      (''txnOffsetCommit'', 0, txnOffsetCommit_v0_layout, [[''topics'', ''partitions'', ''errorCode'']], txnOffsetCommit_v0_parse),
      (''txnOffsetCommit'', 1, txnOffsetCommit_v1_layout, [[''topics'', ''partitions'', ''errorCode'']], txnOffsetCommit_v1_parse),
      (''updateRaftVoter'', 0, updateRaftVoter_v0_layout, [[''errorCode'']], updateRaftVoter_v0_parse)]"

lemma addOffsetsToTxn_v0_layout_codes [layout_codes]: "code_paths addOffsetsToTxn_v0_layout = [[''errorCode'']]"
  by (simp add: addOffsetsToTxn_v0_layout_def layout_code_simps)

lemma addOffsetsToTxn_v1_layout_codes [layout_codes]: "code_paths addOffsetsToTxn_v1_layout = [[''errorCode'']]"
  by (simp add: addOffsetsToTxn_v1_layout_def layout_code_simps)

lemma addPartitionsToTxn_v0_layout_codes [layout_codes]: "code_paths addPartitionsToTxn_v0_layout = [[''errors'', ''partitionErrors'', ''errorCode'']]"
  by (simp add: addPartitionsToTxn_v0_layout_def layout_code_simps)

lemma addPartitionsToTxn_v1_layout_codes [layout_codes]: "code_paths addPartitionsToTxn_v1_layout = [[''errors'', ''partitionErrors'', ''errorCode'']]"
  by (simp add: addPartitionsToTxn_v1_layout_def layout_code_simps)

lemma addRaftVoter_v0_layout_codes [layout_codes]: "code_paths addRaftVoter_v0_layout = [[''errorCode'']]"
  by (simp add: addRaftVoter_v0_layout_def layout_code_simps)

lemma alterConfigs_v0_layout_codes [layout_codes]: "code_paths alterConfigs_v0_layout = [[''resources'', ''errorCode'']]"
  by (simp add: alterConfigs_v0_layout_def layout_code_simps)

lemma alterConfigs_v1_layout_codes [layout_codes]: "code_paths alterConfigs_v1_layout = [[''resources'', ''errorCode'']]"
  by (simp add: alterConfigs_v1_layout_def layout_code_simps)

lemma alterConfigs_v2_layout_codes [layout_codes]: "code_paths alterConfigs_v2_layout = [[''resources'', ''errorCode'']]"
  by (simp add: alterConfigs_v2_layout_def layout_code_simps)

lemma alterPartitionReassignments_v0_layout_codes [layout_codes]: "code_paths alterPartitionReassignments_v0_layout = [[''errorCode''], [''responses'', ''partitions'', ''errorCode'']]"
  by (simp add: alterPartitionReassignments_v0_layout_def layout_code_simps)

lemma apiVersions_v0_layout_codes [layout_codes]: "code_paths apiVersions_v0_layout = [[''errorCode'']]"
  by (simp add: apiVersions_v0_layout_def layout_code_simps)

lemma apiVersions_v1_layout_codes [layout_codes]: "code_paths apiVersions_v1_layout = [[''errorCode'']]"
  by (simp add: apiVersions_v1_layout_def layout_code_simps)

lemma apiVersions_v2_layout_codes [layout_codes]: "code_paths apiVersions_v2_layout = [[''errorCode'']]"
  by (simp add: apiVersions_v2_layout_def layout_code_simps)

lemma apiVersions_v3_layout_codes [layout_codes]: "code_paths apiVersions_v3_layout = [[''errorCode'']]"
  by (simp add: apiVersions_v3_layout_def layout_code_simps)

lemma createAcls_v0_layout_codes [layout_codes]: "code_paths createAcls_v0_layout = [[''creationResponses'', ''errorCode'']]"
  by (simp add: createAcls_v0_layout_def layout_code_simps)

lemma createAcls_v1_layout_codes [layout_codes]: "code_paths createAcls_v1_layout = [[''creationResponses'', ''errorCode'']]"
  by (simp add: createAcls_v1_layout_def layout_code_simps)

lemma createPartitions_v0_layout_codes [layout_codes]: "code_paths (createPartitions_v0_layout localeCompare) = []"
  by (simp add: createPartitions_v0_layout_def SORTED_def COMPACT_SORTED_def layout_code_simps)

lemma createPartitions_v1_layout_codes [layout_codes]: "code_paths (createPartitions_v1_layout localeCompare) = []"
  by (simp add: createPartitions_v1_layout_def SORTED_def COMPACT_SORTED_def layout_code_simps)

lemma createTopics_v0_layout_codes [layout_codes]: "code_paths (createTopics_v0_layout localeCompare) = []"
  by (simp add: createTopics_v0_layout_def SORTED_def COMPACT_SORTED_def layout_code_simps)

lemma createTopics_v1_layout_codes [layout_codes]: "code_paths (createTopics_v1_layout localeCompare) = []"
  by (simp add: createTopics_v1_layout_def SORTED_def COMPACT_SORTED_def layout_code_simps)

lemma createTopics_v2_layout_codes [layout_codes]: "code_paths (createTopics_v2_layout localeCompare) = []"
  by (simp add: createTopics_v2_layout_def SORTED_def COMPACT_SORTED_def layout_code_simps)

lemma createTopics_v3_layout_codes [layout_codes]: "code_paths (createTopics_v3_layout localeCompare) = []"
  by (simp add: createTopics_v3_layout_def SORTED_def COMPACT_SORTED_def layout_code_simps)

lemma createTopics_v5_layout_codes [layout_codes]: "code_paths (createTopics_v5_layout localeCompare) = []"
  by (simp add: createTopics_v5_layout_def SORTED_def COMPACT_SORTED_def layout_code_simps)

lemma deleteAcls_v0_layout_codes [layout_codes]: "code_paths deleteAcls_v0_layout = [[''filterResponses'', ''errorCode''], [''filterResponses'', ''matchingAcls'', ''errorCode'']]"
  by (simp add: deleteAcls_v0_layout_def layout_code_simps)

lemma deleteAcls_v1_layout_codes [layout_codes]: "code_paths deleteAcls_v1_layout = [[''filterResponses'', ''errorCode''], [''filterResponses'', ''matchingAcls'', ''errorCode'']]"
  by (simp add: deleteAcls_v1_layout_def layout_code_simps)

lemma deleteRecords_v0_layout_codes [layout_codes]: "code_paths (deleteRecords_v0_layout localeCompare) = []"
  by (simp add: deleteRecords_v0_layout_def SORTED_def COMPACT_SORTED_def layout_code_simps)

lemma deleteRecords_v1_layout_codes [layout_codes]: "code_paths (deleteRecords_v1_layout localeCompare) = []"
  by (simp add: deleteRecords_v1_layout_def SORTED_def COMPACT_SORTED_def layout_code_simps)

lemma deleteTopics_v0_layout_codes [layout_codes]: "code_paths (deleteTopics_v0_layout localeCompare) = []"
  by (simp add: deleteTopics_v0_layout_def SORTED_def COMPACT_SORTED_def layout_code_simps)

lemma deleteTopics_v1_layout_codes [layout_codes]: "code_paths (deleteTopics_v1_layout localeCompare) = []"
  by (simp add: deleteTopics_v1_layout_def SORTED_def COMPACT_SORTED_def layout_code_simps)

lemma deleteTopics_v4_layout_codes [layout_codes]: "code_paths (deleteTopics_v4_layout localeCompare) = []"
  by (simp add: deleteTopics_v4_layout_def SORTED_def COMPACT_SORTED_def layout_code_simps)

lemma describeAcls_v0_layout_codes [layout_codes]: "code_paths describeAcls_v0_layout = [[''errorCode'']]"
  by (simp add: describeAcls_v0_layout_def layout_code_simps)

lemma describeAcls_v1_layout_codes [layout_codes]: "code_paths describeAcls_v1_layout = [[''errorCode'']]"
  by (simp add: describeAcls_v1_layout_def layout_code_simps)

lemma describeCluster_v0_layout_codes [layout_codes]: "code_paths describeCluster_v0_layout = [[''errorCode'']]"
  by (simp add: describeCluster_v0_layout_def layout_code_simps)

lemma describeConfigs_v1_layout_codes [layout_codes]: "code_paths describeConfigs_v1_layout = [[''resources'', ''errorCode'']]"
  by (simp add: describeConfigs_v1_layout_def layout_code_simps)

lemma describeConfigs_v2_layout_codes [layout_codes]: "code_paths describeConfigs_v2_layout = [[''resources'', ''errorCode'']]"
  by (simp add: describeConfigs_v2_layout_def layout_code_simps)

lemma describeConfigs_v4_layout_codes [layout_codes]: "code_paths describeConfigs_v4_layout = [[''resources'', ''errorCode'']]"
  by (simp add: describeConfigs_v4_layout_def layout_code_simps)

lemma describeGroups_v0_layout_codes [layout_codes]: "code_paths describeGroups_v0_layout = [[''groups'', ''errorCode'']]"
  by (simp add: describeGroups_v0_layout_def layout_code_simps)

lemma describeGroups_v1_layout_codes [layout_codes]: "code_paths describeGroups_v1_layout = [[''groups'', ''errorCode'']]"
  by (simp add: describeGroups_v1_layout_def layout_code_simps)

lemma describeGroups_v2_layout_codes [layout_codes]: "code_paths describeGroups_v2_layout = [[''groups'', ''errorCode'']]"
  by (simp add: describeGroups_v2_layout_def layout_code_simps)

lemma describeLogDirs_v0_layout_codes [layout_codes]: "code_paths describeLogDirs_v0_layout = [[''results'', ''errorCode'']]"
  by (simp add: describeLogDirs_v0_layout_def layout_code_simps)

lemma describeLogDirs_v2_layout_codes [layout_codes]: "code_paths describeLogDirs_v2_layout = [[''results'', ''errorCode'']]"
  by (simp add: describeLogDirs_v2_layout_def layout_code_simps)

lemma electLeaders_v0_layout_codes [layout_codes]: "code_paths electLeaders_v0_layout = [[''errorCode''], [''replicaElectionResults'', ''partitionResult'', ''errorCode'']]"
  by (simp add: electLeaders_v0_layout_def layout_code_simps)

lemma electLeaders_v2_layout_codes [layout_codes]: "code_paths electLeaders_v2_layout = [[''errorCode''], [''replicaElectionResults'', ''partitionResult'', ''errorCode'']]"
  by (simp add: electLeaders_v2_layout_def layout_code_simps)

lemma endTxn_v0_layout_codes [layout_codes]: "code_paths endTxn_v0_layout = [[''errorCode'']]"
  by (simp add: endTxn_v0_layout_def layout_code_simps)

lemma endTxn_v1_layout_codes [layout_codes]: "code_paths endTxn_v1_layout = [[''errorCode'']]"
  by (simp add: endTxn_v1_layout_def layout_code_simps)

lemma fetch_v0_layout_codes [layout_codes]: "code_paths (fetch_v0_layout BYTES) = [[''responses'', ''partitions'', ''errorCode'']]"
  by (simp add: fetch_v0_layout_def layout_code_simps)

lemma fetch_v1_layout_codes [layout_codes]: "code_paths (fetch_v1_layout BYTES) = [[''responses'', ''partitions'', ''errorCode'']]"
  by (simp add: fetch_v1_layout_def layout_code_simps)

lemma fetch_v4_layout_codes [layout_codes]: "code_paths (fetch_v4_layout BYTES) = [[''responses'', ''partitions'', ''errorCode'']]"
  by (simp add: fetch_v4_layout_def layout_code_simps)

lemma fetch_v5_layout_codes [layout_codes]: "code_paths (fetch_v5_layout BYTES) = [[''responses'', ''partitions'', ''errorCode'']]"
  by (simp add: fetch_v5_layout_def layout_code_simps)

lemma findCoordinator_v0_layout_codes [layout_codes]: "code_paths findCoordinator_v0_layout = [[''errorCode'']]"
  by (simp add: findCoordinator_v0_layout_def layout_code_simps)

lemma findCoordinator_v1_layout_codes [layout_codes]: "code_paths findCoordinator_v1_layout = [[''errorCode'']]"
  by (simp add: findCoordinator_v1_layout_def layout_code_simps)

lemma findCoordinator_v2_layout_codes [layout_codes]: "code_paths findCoordinator_v2_layout = [[''errorCode'']]"
  by (simp add: findCoordinator_v2_layout_def layout_code_simps)

lemma findCoordinator_v3_layout_codes [layout_codes]: "code_paths findCoordinator_v3_layout = [[''errorCode'']]"
  by (simp add: findCoordinator_v3_layout_def layout_code_simps)

lemma heartbeat_v0_layout_codes [layout_codes]: "code_paths heartbeat_v0_layout = [[''errorCode'']]"
  by (simp add: heartbeat_v0_layout_def layout_code_simps)

lemma heartbeat_v1_layout_codes [layout_codes]: "code_paths heartbeat_v1_layout = [[''errorCode'']]"
  by (simp add: heartbeat_v1_layout_def layout_code_simps)

lemma heartbeat_v2_layout_codes [layout_codes]: "code_paths heartbeat_v2_layout = [[''errorCode'']]"
  by (simp add: heartbeat_v2_layout_def layout_code_simps)

lemma heartbeat_v4_layout_codes [layout_codes]: "code_paths heartbeat_v4_layout = [[''errorCode'']]"
  by (simp add: heartbeat_v4_layout_def layout_code_simps)

lemma incrementalAlterConfigs_v0_layout_codes [layout_codes]: "code_paths incrementalAlterConfigs_v0_layout = [[''responses'', ''errorCode'']]"
  by (simp add: incrementalAlterConfigs_v0_layout_def layout_code_simps)

lemma incrementalAlterConfigs_v1_layout_codes [layout_codes]: "code_paths incrementalAlterConfigs_v1_layout = [[''responses'', ''errorCode'']]"
  by (simp add: incrementalAlterConfigs_v1_layout_def layout_code_simps)

lemma initProducerId_v0_layout_codes [layout_codes]: "code_paths initProducerId_v0_layout = [[''errorCode'']]"
  by (simp add: initProducerId_v0_layout_def layout_code_simps)

lemma initProducerId_v1_layout_codes [layout_codes]: "code_paths initProducerId_v1_layout = [[''errorCode'']]"
  by (simp add: initProducerId_v1_layout_def layout_code_simps)

lemma initProducerId_v2_layout_codes [layout_codes]: "code_paths initProducerId_v2_layout = [[''errorCode'']]"
  by (simp add: initProducerId_v2_layout_def layout_code_simps)

lemma joinGroup_v0_layout_codes [layout_codes]: "code_paths joinGroup_v0_layout = [[''errorCode'']]"
  by (simp add: joinGroup_v0_layout_def layout_code_simps)

lemma joinGroup_v2_layout_codes [layout_codes]: "code_paths joinGroup_v2_layout = [[''errorCode'']]"
  by (simp add: joinGroup_v2_layout_def layout_code_simps)

lemma joinGroup_v3_layout_codes [layout_codes]: "code_paths joinGroup_v3_layout = [[''errorCode'']]"
  by (simp add: joinGroup_v3_layout_def layout_code_simps)

lemma joinGroup_v5_layout_codes [layout_codes]: "code_paths joinGroup_v5_layout = [[''errorCode'']]"
  by (simp add: joinGroup_v5_layout_def layout_code_simps)

lemma leaveGroup_v0_layout_codes [layout_codes]: "code_paths leaveGroup_v0_layout = [[''errorCode'']]"
  by (simp add: leaveGroup_v0_layout_def layout_code_simps)

lemma leaveGroup_v1_layout_codes [layout_codes]: "code_paths leaveGroup_v1_layout = [[''errorCode'']]"
  by (simp add: leaveGroup_v1_layout_def layout_code_simps)

lemma leaveGroup_v2_layout_codes [layout_codes]: "code_paths leaveGroup_v2_layout = [[''errorCode'']]"
  by (simp add: leaveGroup_v2_layout_def layout_code_simps)

lemma leaveGroup_v3_layout_codes [layout_codes]: "code_paths leaveGroup_v3_layout = [[''errorCode''], [''members'', ''errorCode'']]"
  by (simp add: leaveGroup_v3_layout_def layout_code_simps)

lemma leaveGroup_v4_layout_codes [layout_codes]: "code_paths leaveGroup_v4_layout = [[''errorCode''], [''members'', ''errorCode'']]"
  by (simp add: leaveGroup_v4_layout_def layout_code_simps)

lemma listGroups_v0_layout_codes [layout_codes]: "code_paths listGroups_v0_layout = [[''errorCode'']]"
  by (simp add: listGroups_v0_layout_def layout_code_simps)

lemma listGroups_v1_layout_codes [layout_codes]: "code_paths listGroups_v1_layout = [[''errorCode'']]"
  by (simp add: listGroups_v1_layout_def layout_code_simps)

lemma listGroups_v2_layout_codes [layout_codes]: "code_paths listGroups_v2_layout = [[''errorCode'']]"
  by (simp add: listGroups_v2_layout_def layout_code_simps)

lemma listGroups_v4_layout_codes [layout_codes]: "code_paths listGroups_v4_layout = [[''errorCode'']]"
  by (simp add: listGroups_v4_layout_def layout_code_simps)

lemma listOffsets_v0_layout_codes [layout_codes]: "code_paths listOffsets_v0_layout = [[''responses'', ''partitions'', ''errorCode'']]"
  by (simp add: listOffsets_v0_layout_def layout_code_simps)

lemma listOffsets_v1_layout_codes [layout_codes]: "code_paths listOffsets_v1_layout = [[''responses'', ''partitions'', ''errorCode'']]"
  by (simp add: listOffsets_v1_layout_def layout_code_simps)

lemma listOffsets_v2_layout_codes [layout_codes]: "code_paths listOffsets_v2_layout = [[''responses'', ''partitions'', ''errorCode'']]"
  by (simp add: listOffsets_v2_layout_def layout_code_simps)

lemma listOffsets_v3_layout_codes [layout_codes]: "code_paths listOffsets_v3_layout = [[''responses'', ''partitions'', ''errorCode'']]"
  by (simp add: listOffsets_v3_layout_def layout_code_simps)

lemma listOffsets_v4_layout_codes [layout_codes]: "code_paths listOffsets_v4_layout = [[''responses'', ''partitions'', ''errorCode'']]"
  by (simp add: listOffsets_v4_layout_def layout_code_simps)

lemma listPartitionReassignments_v0_layout_codes [layout_codes]: "code_paths listPartitionReassignments_v0_layout = [[''errorCode'']]"
  by (simp add: listPartitionReassignments_v0_layout_def layout_code_simps)

lemma metadata_v0_layout_codes [layout_codes]: "code_paths metadata_v0_layout = [[''topicMetadata'', ''topicErrorCode''], [''topicMetadata'', ''partitionMetadata'', ''partitionErrorCode'']]"
  by (simp add: metadata_v0_layout_def layout_code_simps)

lemma metadata_v1_layout_codes [layout_codes]: "code_paths metadata_v1_layout = [[''topicMetadata'', ''topicErrorCode''], [''topicMetadata'', ''partitionMetadata'', ''partitionErrorCode'']]"
  by (simp add: metadata_v1_layout_def layout_code_simps)

lemma metadata_v2_layout_codes [layout_codes]: "code_paths metadata_v2_layout = [[''topicMetadata'', ''topicErrorCode''], [''topicMetadata'', ''partitionMetadata'', ''partitionErrorCode'']]"
  by (simp add: metadata_v2_layout_def layout_code_simps)

lemma metadata_v3_layout_codes [layout_codes]: "code_paths metadata_v3_layout = [[''topicMetadata'', ''topicErrorCode''], [''topicMetadata'', ''partitionMetadata'', ''partitionErrorCode'']]"
  by (simp add: metadata_v3_layout_def layout_code_simps)

lemma metadata_v5_layout_codes [layout_codes]: "code_paths metadata_v5_layout = [[''topicMetadata'', ''topicErrorCode''], [''topicMetadata'', ''partitionMetadata'', ''partitionErrorCode'']]"
  by (simp add: metadata_v5_layout_def layout_code_simps)

lemma metadata_v6_layout_codes [layout_codes]: "code_paths metadata_v6_layout = [[''topicMetadata'', ''topicErrorCode''], [''topicMetadata'', ''partitionMetadata'', ''partitionErrorCode'']]"
  by (simp add: metadata_v6_layout_def layout_code_simps)

lemma metadata_v7_layout_codes [layout_codes]: "code_paths metadata_v7_layout = [[''topicMetadata'', ''topicErrorCode''], [''topicMetadata'', ''partitionMetadata'', ''partitionErrorCode'']]"
  by (simp add: metadata_v7_layout_def layout_code_simps)

lemma offsetCommit_v0_layout_codes [layout_codes]: "code_paths offsetCommit_v0_layout = [[''responses'', ''partitions'', ''errorCode'']]"
  by (simp add: offsetCommit_v0_layout_def layout_code_simps)

lemma offsetCommit_v3_layout_codes [layout_codes]: "code_paths offsetCommit_v3_layout = [[''responses'', ''partitions'', ''errorCode'']]"
  by (simp add: offsetCommit_v3_layout_def layout_code_simps)

lemma offsetCommit_v4_layout_codes [layout_codes]: "code_paths offsetCommit_v4_layout = [[''responses'', ''partitions'', ''errorCode'']]"
  by (simp add: offsetCommit_v4_layout_def layout_code_simps)

lemma offsetCommit_v6_layout_codes [layout_codes]: "code_paths offsetCommit_v6_layout = [[''responses'', ''partitions'', ''errorCode'']]"
  by (simp add: offsetCommit_v6_layout_def layout_code_simps)

lemma offsetDelete_v0_layout_codes [layout_codes]: "code_paths offsetDelete_v0_layout = [[''errorCode''], [''topics'', ''partitions'', ''errorCode'']]"
  by (simp add: offsetDelete_v0_layout_def layout_code_simps)

lemma offsetFetch_v1_layout_codes [layout_codes]: "code_paths offsetFetch_v1_layout = [[''responses'', ''partitions'', ''errorCode'']]"
  by (simp add: offsetFetch_v1_layout_def layout_code_simps)

lemma offsetFetch_v2_layout_codes [layout_codes]: "code_paths offsetFetch_v2_layout = [[''responses'', ''partitions'', ''errorCode''], [''errorCode'']]"
  by (simp add: offsetFetch_v2_layout_def layout_code_simps)

lemma offsetFetch_v3_layout_codes [layout_codes]: "code_paths offsetFetch_v3_layout = [[''responses'', ''partitions'', ''errorCode''], [''errorCode'']]"
  by (simp add: offsetFetch_v3_layout_def layout_code_simps)

lemma offsetFetch_v4_layout_codes [layout_codes]: "code_paths offsetFetch_v4_layout = [[''responses'', ''partitions'', ''errorCode''], [''errorCode'']]"
  by (simp add: offsetFetch_v4_layout_def layout_code_simps)

lemma offsetFetch_v5_layout_codes [layout_codes]: "code_paths offsetFetch_v5_layout = [[''responses'', ''partitions'', ''errorCode''], [''errorCode'']]"
  by (simp add: offsetFetch_v5_layout_def layout_code_simps)

lemma offsetForLeaderEpoch_v0_layout_codes [layout_codes]: "code_paths offsetForLeaderEpoch_v0_layout = [[''topics'', ''partitions'', ''errorCode'']]"
  by (simp add: offsetForLeaderEpoch_v0_layout_def layout_code_simps)

lemma offsetForLeaderEpoch_v2_layout_codes [layout_codes]: "code_paths offsetForLeaderEpoch_v2_layout = [[''topics'', ''partitions'', ''errorCode'']]"
  by (simp add: offsetForLeaderEpoch_v2_layout_def layout_code_simps)

lemma offsetForLeaderEpoch_v3_layout_codes [layout_codes]: "code_paths offsetForLeaderEpoch_v3_layout = [[''topics'', ''partitions'', ''errorCode'']]"
  by (simp add: offsetForLeaderEpoch_v3_layout_def layout_code_simps)

lemma produce_v0_layout_codes [layout_codes]: "code_paths produce_v0_layout = [[''topics'', ''partitions'', ''errorCode'']]"
  by (simp add: produce_v0_layout_def layout_code_simps)

lemma produce_v1_layout_codes [layout_codes]: "code_paths produce_v1_layout = [[''topics'', ''partitions'', ''errorCode'']]"
  by (simp add: produce_v1_layout_def layout_code_simps)

lemma produce_v2_layout_codes [layout_codes]: "code_paths produce_v2_layout = [[''topics'', ''partitions'', ''errorCode'']]"
  by (simp add: produce_v2_layout_def layout_code_simps)

lemma produce_v3_layout_codes [layout_codes]: "code_paths produce_v3_layout = [[''topics'', ''partitions'', ''errorCode'']]"
  by (simp add: produce_v3_layout_def layout_code_simps)

lemma produce_v5_layout_codes [layout_codes]: "code_paths produce_v5_layout = [[''topics'', ''partitions'', ''errorCode'']]"
  by (simp add: produce_v5_layout_def layout_code_simps)

lemma produce_v6_layout_codes [layout_codes]: "code_paths produce_v6_layout = [[''topics'', ''partitions'', ''errorCode'']]"
  by (simp add: produce_v6_layout_def layout_code_simps)

lemma produce_v8_layout_codes [layout_codes]: "code_paths produce_v8_layout = [[''topics'', ''partitions'', ''errorCode'']]"
  by (simp add: produce_v8_layout_def layout_code_simps)

lemma produce_v9_layout_codes [layout_codes]: "code_paths produce_v9_layout = [[''topics'', ''partitions'', ''errorCode'']]"
  by (simp add: produce_v9_layout_def layout_code_simps)

lemma removeRaftVoter_v0_layout_codes [layout_codes]: "code_paths removeRaftVoter_v0_layout = [[''errorCode'']]"
  by (simp add: removeRaftVoter_v0_layout_def layout_code_simps)

lemma saslAuthenticate_v0_layout_codes [layout_codes]: "code_paths saslAuthenticate_v0_layout = [[''errorCode'']]"
  by (simp add: saslAuthenticate_v0_layout_def layout_code_simps)

lemma saslAuthenticate_v1_layout_codes [layout_codes]: "code_paths saslAuthenticate_v1_layout = [[''errorCode'']]"
  by (simp add: saslAuthenticate_v1_layout_def layout_code_simps)

lemma saslHandshake_v0_layout_codes [layout_codes]: "code_paths saslHandshake_v0_layout = [[''errorCode'']]"
  by (simp add: saslHandshake_v0_layout_def layout_code_simps)

lemma shareGroupHeartbeat_v0_layout_codes [layout_codes]: "code_paths shareGroupHeartbeat_v0_layout = [[''errorCode'']]"
  by (simp add: shareGroupHeartbeat_v0_layout_def layout_code_simps)

lemma syncGroup_v0_layout_codes [layout_codes]: "code_paths syncGroup_v0_layout = [[''errorCode'']]"
  by (simp add: syncGroup_v0_layout_def layout_code_simps)

lemma syncGroup_v1_layout_codes [layout_codes]: "code_paths syncGroup_v1_layout = [[''errorCode'']]"
  by (simp add: syncGroup_v1_layout_def layout_code_simps)

lemma syncGroup_v2_layout_codes [layout_codes]: "code_paths syncGroup_v2_layout = [[''errorCode'']]"
  by (simp add: syncGroup_v2_layout_def layout_code_simps)

lemma txnOffsetCommit_v0_layout_codes [layout_codes]: "code_paths txnOffsetCommit_v0_layout = [[''topics'', ''partitions'', ''errorCode'']]"
  by (simp add: txnOffsetCommit_v0_layout_def layout_code_simps)

lemma txnOffsetCommit_v1_layout_codes [layout_codes]: "code_paths txnOffsetCommit_v1_layout = [[''topics'', ''partitions'', ''errorCode'']]"
  by (simp add: txnOffsetCommit_v1_layout_def layout_code_simps)

lemma updateRaftVoter_v0_layout_codes [layout_codes]: "code_paths updateRaftVoter_v0_layout = [[''errorCode'']]"
  by (simp add: updateRaftVoter_v0_layout_def layout_code_simps)

lemma parse_table_reports:
  "list_all (\<lambda>(_, _, _, ps, parse). reports ps parse) (parse_table localeCompare requested)"
  unfolding parse_table_def by (simp only: list.pred_inject prod.case parse_reports simp_thms)

lemma parse_table_codes:
  "list_all (\<lambda>(_, _, t, ps, _). set (code_paths t) \<subseteq> set ps) (parse_table localeCompare requested)"
  unfolding parse_table_def
  by (simp only: list.pred_inject prod.case layout_codes list.set insert_subset empty_subsetI insert_iff simp_thms)


definition refused_commit :: jv where
  "refused_commit = JObj [(''responses'', JArr [JObj [(''topic'', JStr ''orders''),
     (''partitions'', JArr [JObj [(''partition'', JNum 0), (''errorCode'', JNum 0)],
                            JObj [(''partition'', JNum 1), (''errorCode'', JNum 22)]])]])]"



definition sample_heartbeat :: wire_value where
  "sample_heartbeat = WStruct [WTags, WInt 100, WInt 27, WTags]"


subsection \<open>Codes that are not reported\<close>

text \<open>From version 7 on a fetch response has an error code of its own, for the fetch session; nobody looks at it.\<close>

lemma fetch_session_error_unnoticed:
  "fetch_v7_parse (JObj [(''throttleTime'', JNum 0), (''errorCode'', JNum 70), (''sessionId'', JNum 5), (''responses'', JArr [])]) =
   Inr (JObj [(''throttleTime'', JNum 0), (''errorCode'', JNum 70), (''sessionId'', JNum 5), (''responses'', JArr [])])"
  by code_simp

text \<open>The error codes of transactions and producers are left to the caller, the one of the whole response too.\<close>

lemma transaction_errors_unnoticed:
  "listTransactions_v0_parse data = Inr data" "describeTransactions_v0_parse data = Inr data"
  "describeProducers_v0_parse data = Inr data" "deleteGroups_v0_parse data = Inr data"
  by (simp_all add: listTransactions_v0_parse_def describeTransactions_v0_parse_def describeProducers_v0_parse_def
      deleteGroups_v0_parse_def)

text \<open>Refused acknowledgements of a share group are not noticed either.\<close>

lemma share_acknowledge_error_unnoticed:
  "shareAcknowledge_v0_parse (JObj [(''errorCode'', JNum 0), (''responses'', JArr [JObj [(''partitions'',
     JArr [JObj [(''errorCode'', JNum 121)]])]])]) =
   Inr (JObj [(''errorCode'', JNum 0), (''responses'', JArr [JObj [(''partitions'', JArr [JObj [(''errorCode'', JNum 121)]])]])])"
  by code_simp

end
