(* ===== verification/Request_Format.thy ===== *)
theory Request_Format
  imports Protocol_Layout
begin

text \<open>
  What the encoders under \<^verbatim>\<open>src/protocol/requests/*/v*/request.js\<close> are written with. A request is its key,
  version and name with the writer of its body; the arrays of a body are written with an encoder for each
  element. A writer \<open>writes\<close> a value of a layout when it appends exactly the octets of the value; the rules
  follow the shapes of the encoders.
\<close>

record protocol_request =
  req_apiKey :: int
  req_apiVersion :: int
  req_apiName :: string
  req_encode :: writer
  req_expectResponse :: bool \<comment> \<open>\<open>true\<close> unless the request says otherwise\<close>

definition new_request :: "int \<Rightarrow> int \<Rightarrow> string \<Rightarrow> writer \<Rightarrow> protocol_request" where
  "new_request apiKey apiVersion apiName encode =
     \<lparr>req_apiKey = apiKey, req_apiVersion = apiVersion, req_apiName = apiName, req_encode = encode, req_expectResponse = True\<rparr>"

text \<open>\<^verbatim>\<open>Object.assign(request, { apiVersion })\<close>\<close>

definition with_version :: "int \<Rightarrow> protocol_request \<Rightarrow> protocol_request" where
  "with_version v r = r\<lparr>req_apiVersion := v\<rparr>"

text \<open>The keys of the requests: \<^verbatim>\<open>apiKeys.js\<close>. The isolation levels: \<^verbatim>\<open>isolationLevel.js\<close>.\<close>

definition apiKeys :: "(string \<times> int) list" where
  "apiKeys =
     [(''Produce'', 0), (''Fetch'', 1), (''ListOffsets'', 2), (''Metadata'', 3), (''LeaderAndIsr'', 4),
      (''StopReplica'', 5), (''UpdateMetadata'', 6), (''ControlledShutdown'', 7), (''OffsetCommit'', 8),
      (''OffsetFetch'', 9), (''GroupCoordinator'', 10), (''JoinGroup'', 11), (''Heartbeat'', 12),
      (''LeaveGroup'', 13), (''SyncGroup'', 14), (''DescribeGroups'', 15), (''ListGroups'', 16),
      (''SaslHandshake'', 17), (''ApiVersions'', 18), (''CreateTopics'', 19), (''DeleteTopics'', 20),
      (''DeleteRecords'', 21), (''InitProducerId'', 22), (''OffsetForLeaderEpoch'', 23),
      (''AddPartitionsToTxn'', 24), (''AddOffsetsToTxn'', 25), (''EndTxn'', 26), (''WriteTxnMarkers'', 27),
      (''TxnOffsetCommit'', 28), (''DescribeAcls'', 29), (''CreateAcls'', 30), (''DeleteAcls'', 31),
      (''DescribeConfigs'', 32), (''AlterConfigs'', 33), (''AlterReplicaLogDirs'', 34),
      (''DescribeLogDirs'', 35), (''SaslAuthenticate'', 36), (''CreatePartitions'', 37),
      (''CreateDelegationToken'', 38), (''RenewDelegationToken'', 39), (''ExpireDelegationToken'', 40),
      (''DescribeDelegationToken'', 41), (''DeleteGroups'', 42), (''ElectPreferredLeaders'', 43),
      (''ElectLeaders'', 43), (''IncrementalAlterConfigs'', 44), (''AlterPartitionReassignments'', 45),
      (''ListPartitionReassignments'', 46), (''OffsetDelete'', 47), (''DescribeClientQuotas'', 48),
      (''AlterClientQuotas'', 49), (''DescribeUserScramCredentials'', 50),
      (''AlterUserScramCredentials'', 51), (''Vote'', 52), (''BeginQuorumEpoch'', 53),
      (''EndQuorumEpoch'', 54), (''DescribeQuorum'', 55), (''AlterPartition'', 56),
      (''UpdateFeatures'', 57), (''Envelope'', 58), (''FetchSnapshot'', 59), (''DescribeCluster'', 60),
      (''DescribeProducers'', 61), (''BrokerRegistration'', 62), (''BrokerHeartbeat'', 63),
      (''UnregisterBroker'', 64), (''DescribeTransactions'', 65), (''ListTransactions'', 66),
      (''AllocateProducerIds'', 67), (''ConsumerGroupHeartbeat'', 68), (''ConsumerGroupDescribe'', 69),
      (''ControllerRegistration'', 70), (''GetTelemetrySubscriptions'', 71), (''PushTelemetry'', 72),
      (''AssignReplicasToDirs'', 73), (''ListClientMetricsResources'', 74),
      (''DescribeTopicPartitions'', 75), (''ShareGroupHeartbeat'', 76), (''ShareGroupDescribe'', 77),
      (''ShareFetch'', 78), (''ShareAcknowledge'', 79), (''AddRaftVoter'', 80), (''RemoveRaftVoter'', 81),
      (''UpdateRaftVoter'', 82), (''ReadShareGroupStateSummary'', 83)]"

definition api_key :: "string \<Rightarrow> int" where \<comment> \<open>\<open>apiKeys[name]\<close>\<close>
  "api_key name = the (map_of apiKeys name)"

definition READ_UNCOMMITTED :: int where "READ_UNCOMMITTED = 0"
definition READ_COMMITTED :: int where "READ_COMMITTED = 1"

text \<open>A parameter with a default value; absent is \<open>None\<close>.\<close>

definition or_default :: "'a \<Rightarrow> 'a option \<Rightarrow> 'a" where
  "or_default d v = (case v of None \<Rightarrow> d | Some x \<Rightarrow> x)"

text \<open>
  \<^verbatim>\<open>writeUVarIntArray(xs.map(f))\<close> and \<^verbatim>\<open>writeNullableArray(xs.map(f))\<close>, where \<^verbatim>\<open>f\<close> returns an encoder;
  \<open>write_array_of\<close> is the same for \<^verbatim>\<open>writeArray\<close>. Arrays of numbers and strings are written as they are.
\<close>

definition write_uvarint_array_of :: "('v \<Rightarrow> writer) \<Rightarrow> 'v list option \<Rightarrow> writer" where
  "write_uvarint_array_of wr v e =
     (case v of
        None \<Rightarrow> writeUVarIntArray None None e
      | Some vs \<Rightarrow> rbind (rmap (\<lambda>v. rbind new_Encoder (wr v)) vs) (\<lambda>es. writeUVarIntArray (Some (map ElEncoder es)) None e))"

definition write_nullable_array_of :: "('v \<Rightarrow> writer) \<Rightarrow> 'v list \<Rightarrow> writer" where
  "write_nullable_array_of wr vs e =
     rbind (rmap (\<lambda>v. rbind new_Encoder (wr v)) vs) (\<lambda>es. writeNullableArray (map ElEncoder es) None e)"

definition write_absent_array :: "('v \<Rightarrow> writer) \<Rightarrow> 'v list option \<Rightarrow> writer" where
  \<comment> \<open>\<open>writeArray(xs ? xs.map(f) : [], undefined, xs ? undefined : -1)\<close>\<close>
  "write_absent_array wr v e =
     (case v of None \<Rightarrow> writeArray [] None (Some (- 1)) e | Some vs \<Rightarrow> write_array_of wr vs e)"

definition write_present_array :: "('v \<Rightarrow> writer) \<Rightarrow> 'v list option \<Rightarrow> writer" where
  \<comment> \<open>\<open>writeArray(xs ? xs.map(f) : null)\<close>, which asks \<open>null\<close> for its length\<close>
  "write_present_array wr v e = (case v of None \<Rightarrow> Inl JsTypeError | Some vs \<Rightarrow> write_array_of wr vs e)"

text \<open>
  \<^verbatim>\<open>encoder.writeUVarInt(xs.length + 1); xs.forEach(x => ...)\<close>: the elements go to the same encoder. Some requests write
  0 for an absent array.
\<close>

definition write_each :: "('v \<Rightarrow> writer) \<Rightarrow> 'v list \<Rightarrow> writer" where
  "write_each wr xs = chain [writeUVarInt (int (length xs) + 1), chain (map wr xs)]"

definition write_each_nullable :: "('v \<Rightarrow> writer) \<Rightarrow> 'v list option \<Rightarrow> writer" where
  "write_each_nullable wr v = (case v of None \<Rightarrow> writeUVarInt 0 | Some xs \<Rightarrow> write_each wr xs)"

definition write_strings :: "string list \<Rightarrow> writer" where
  "write_strings xs = writeArray (map ElString xs) None None"

definition write_numbers :: "int list \<Rightarrow> writer" where
  "write_numbers xs = writeArray (map ElNumber xs) None None"

definition write_nullable_strings :: "string list \<Rightarrow> writer" where
  "write_nullable_strings xs = writeNullableArray (map ElString xs) None"

definition write_nullable_numbers :: "int list \<Rightarrow> writer" where
  "write_nullable_numbers xs = writeNullableArray (map ElNumber xs) None"

subsection \<open>Writing a value of a layout\<close>

definition writes :: "layout \<Rightarrow> wire_value \<Rightarrow> writer \<Rightarrow> bool" where
  "writes t w wr \<longleftrightarrow> (wf_value t w \<longrightarrow> appends wr (octets t w))"

named_theorems writes_intros \<open>which writers write which values\<close>

lemma writesD: "writes t w wr \<Longrightarrow> wf_value t w \<Longrightarrow> appends wr (octets t w)"
  by (simp add: writes_def)

lemma writes_int8 [writes_intros]: "writes INT8 (WInt n) (writeInt8 n)"
  using appends_writeInt8 [of n] by (auto simp: writes_def int_of_def simp del: int_range_numeral)

lemma writes_int16 [writes_intros]: "writes INT16 (WInt n) (writeInt16 n)"
  using appends_writeInt16 [of n] by (auto simp: writes_def int_of_def simp del: int_range_numeral)

lemma writes_int32 [writes_intros]: "writes INT32 (WInt n) (writeInt32 n)"
  using appends_writeInt32 [of n] by (auto simp: writes_def int_of_def simp del: int_range_numeral)

lemma writes_int64 [writes_intros]: "writes INT64 (WInt n) (writeInt64 n)"
  using appends_writeInt64 [of n] by (auto simp: writes_def int_of_def simp del: int_range_numeral)

lemma writes_boolean [writes_intros]: "writes BOOLEAN (WBool b) (writeBoolean b)"
  using appends_writeBoolean [of b] by (simp only: writes_def octets.simps bool_of_def wire_value.case simp_thms)

lemma writes_string [writes_intros]: "writes STRING (WStr s) (writeString s)"
  using appends_writeString [of s] by (auto simp: writes_def str_of_def)

lemma writes_compact_string [writes_intros]: "writes COMPACT_STRING (WStr s) (writeUVarIntString s)"
  using appends_writeUVarIntString [of s] by (auto simp: writes_def str_of_def)

lemma writes_bytes [writes_intros]: "writes BYTES (WBytes (bytes_of v)) (writeBytes v)"
  using appends_writeBytes [of v] by (auto simp: writes_def wbytes_of_def)

lemma writes_compact_bytes [writes_intros]: "writes COMPACT_BYTES (WBytes (bytes_of v)) (writeUVarIntBytes v)"
  using appends_writeUVarIntBytes [of v] by (auto simp: writes_def wbytes_of_def)

lemma writes_tag_buffer [writes_intros]: "writes TAG_BUFFER WTags (writeUVarIntBytes BNull)"
  using appends_writeUVarIntBytes [of BNull] by (auto simp: writes_def wire_uvarint_bytes_def bytes_ok_def)

text \<open>Arrays. The length of the whole bounds that of the elements.\<close>

lemma appends_bounded:
  "(length bs < 2 ^ 30 \<Longrightarrow> appends w bs) \<Longrightarrow> appends w bs"
  by (force simp: appends_def)

lemma length_elem_le: "v \<in> set vs \<Longrightarrow> length (enc v) \<le> length (concat (map enc vs))"
  by (induction vs) auto

lemma element_encoders:
  assumes "\<And>v. v \<in> set vs \<Longrightarrow> appends (wr v) (enc v)" "length (concat (map enc vs)) < 2 ^ 30"
  obtains es where "rmap (\<lambda>v. rbind new_Encoder (wr v)) vs = Inr es" "map Encoder_buffer es = map enc vs"
  using assms
proof (induction vs arbitrary: thesis)
  case (Cons v vs)
  obtain es where "rmap (\<lambda>v. rbind new_Encoder (wr v)) vs = Inr es" "map Encoder_buffer es = map enc vs"
    using Cons.prems by (auto intro: Cons.IH)
  moreover obtain e where "rbind new_Encoder (wr v) = Inr e" "Encoder_buffer e = enc v"
    using Cons.prems(2) [of v] Cons.prems(3) appends_new_Encoder [of "wr v" "enc v"] by auto
  ultimately show ?case using Cons.prems(1) by simp
qed simp

lemma wire_array_encoders: "map Encoder_buffer es = map enc vs \<Longrightarrow> wire_array Encoder_buffer es = wire_array enc vs"
  unfolding wire_array_def by (metis length_map)

lemma appends_array_of:
  assumes "\<And>v. v \<in> set vs \<Longrightarrow> appends (wr v) (enc v)" "length vs < 2147483648"
  shows "appends (write_array_of wr vs) (wire_array enc vs)"
proof (rule appends_bounded)
  assume "length (wire_array enc vs) < 2 ^ 30"
  then have "length (concat (map enc vs)) < 2 ^ 30" by (simp add: wire_array_def)
  with assms show ?thesis
    using length_elem_le [of _ vs enc] by (intro appends_write_array_of) (auto intro: le_less_trans)
qed

lemma appends_uvarint_array_of:
  assumes "\<And>v. v \<in> set vs \<Longrightarrow> appends (wr v) (enc v)" "length vs < 4294967295"
  shows "appends (write_uvarint_array_of wr (Some vs)) (wire_uvarint_array enc (Some vs))"
proof (rule appends_bounded)
  assume "length (wire_uvarint_array enc (Some vs)) < 2 ^ 30"
  then have "length (concat (map enc vs)) < 2 ^ 30" by (simp add: wire_uvarint_array_def)
  from element_encoders [OF assms(1) this] obtain es where
    es: "rmap (\<lambda>v. rbind new_Encoder (wr v)) vs = Inr es" "map Encoder_buffer es = map enc vs" by blast
  then have len: "length es = length vs" by (metis length_map)
  have "filter (\<lambda>v. js_typeof v = ''object'') (map ElEncoder es) = map ElEncoder es" by (induction es) auto
  moreover have "appends (writeUVarInt (int (length vs) + 1)) (uleb128 (length vs + 1))"
    using assms(2) appends_writeUVarInt [of "length vs + 1"] by (simp add: ac_simps)
  ultimately have "appends (writeUVarIntArray (Some (map ElEncoder es)) None) (uleb128 (length vs + 1) @ concat (map Encoder_buffer es))"
    using chain_prefix2 [OF _ appends_writeEncoderArray] len by (simp add: writeUVarIntArray_def Let_def del: chain.simps)
  then show ?thesis using es by (simp add: write_uvarint_array_of_def [abs_def] wire_uvarint_array_def)
qed

lemma appends_nullable_objects:
  "length es < 2147483648 \<Longrightarrow> es \<noteq> [] \<Longrightarrow> writeNullableArray (map ElEncoder es) None = writeArray (map ElEncoder es) None None"
  by (simp add: writeNullableArray_def writeArray_def)

lemma appends_absent: "appends (writeArray [] None (Some (- 1))) (be_bytes 4 (- 1))"
  using chain_prefix2 [OF appends_writeInt32 [of "- 1"] appends_chain_Nil] by (simp add: writeArray_def del: chain.simps)

lemma writes_array [writes_intros]:
  "(\<And>x. writes t (f x) (wr x)) \<Longrightarrow> writes (ARRAY t) (WArr (Some (map f xs))) (write_array_of wr xs)"
  using appends_array_of [of xs wr "\<lambda>x. octets t (f x)"]
  by (auto simp: writes_def wf_array_def elems_of_def list_all_iff wire_array_def comp_def)

lemma writes_compact_array [writes_intros]:
  "(\<And>x. writes t (f x) (wr x)) \<Longrightarrow> writes (COMPACT_ARRAY t) (WArr (Some (map f xs))) (write_uvarint_array_of wr (Some xs))"
  using appends_uvarint_array_of [of xs wr "\<lambda>x. octets t (f x)"]
  by (auto simp: writes_def wf_array_def elems_of_def list_all_iff wire_uvarint_array_def comp_def)

lemma writes_compact_nullable [writes_intros]:
  assumes "\<And>x. writes t (f x) (wr x)"
  shows "writes (COMPACT_ARRAY t) (WArr (map_option (map f) v)) (write_uvarint_array_of wr v)"
proof (cases v)
  case None
  have "write_uvarint_array_of wr None = writeUVarInt 0"
    by (simp add: write_uvarint_array_of_def [abs_def] writeUVarIntArray_def)
  then show ?thesis using None appends_writeUVarInt [of 0] by (simp add: writes_def elems_of_def wire_uvarint_array_def)
next
  case (Some xs)
  then show ?thesis using writes_compact_array [of t f wr xs, OF assms] by simp
qed

lemma writes_absent_array [writes_intros]:
  assumes "\<And>x. writes t (f x) (wr x)"
  shows "writes (ARRAY t) (WArr (map_option (map f) v)) (write_absent_array wr v)"
proof (cases v)
  case None
  then show ?thesis using appends_absent by (simp add: writes_def elems_of_def write_absent_array_def [abs_def])
next
  case (Some xs)
  then show ?thesis using writes_array [of t f wr xs, OF assms] by (simp add: writes_def write_absent_array_def [abs_def])
qed

text \<open>An array that has to be there: no value of the layout without it.\<close>

definition present_array :: "('v \<Rightarrow> wire_value) \<Rightarrow> 'v list option \<Rightarrow> wire_value" where
  "present_array f v = (case v of None \<Rightarrow> WTags | Some xs \<Rightarrow> WArr (Some (map f xs)))"

lemma writes_present_array [writes_intros]:
  assumes "\<And>x. writes t (f x) (wr x)"
  shows "writes (ARRAY t) (present_array f v) (write_present_array wr v)"
proof (cases v)
  case None
  then show ?thesis by (simp add: writes_def present_array_def wf_array_def)
next
  case (Some xs)
  then have "write_present_array wr v = write_array_of wr xs" by (simp add: write_present_array_def [abs_def])
  then show ?thesis using Some writes_array [of t f wr xs, OF assms] by (simp add: present_array_def)
qed

lemma writes_each [writes_intros]:
  assumes "\<And>x. writes t (f x) (wr x)"
  shows "writes (COMPACT_ARRAY t) (WArr (Some (map f xs))) (write_each wr xs)"
  unfolding writes_def
proof
  assume wf: "wf_value (COMPACT_ARRAY t) (WArr (Some (map f xs)))"
  then have "appends (chain (map wr xs)) (concat (map (\<lambda>x. octets t (f x)) xs))"
    using assms by (intro appends_chain_concat) (auto simp: writes_def wf_array_def list_all_iff)
  moreover have "appends (writeUVarInt (int (length xs) + 1)) (uleb128 (length xs + 1))"
    using wf appends_writeUVarInt [of "length xs + 1"] by (simp add: wf_array_def ac_simps)
  ultimately show "appends (write_each wr xs) (octets (COMPACT_ARRAY t) (WArr (Some (map f xs))))"
    unfolding write_each_def
    by (auto simp: elems_of_def wire_uvarint_array_def comp_def simp del: chain.simps intro: appends_chain_Cons appends_chain_single)
qed

lemma writes_each_nullable [writes_intros]:
  "(\<And>x. writes t (f x) (wr x)) \<Longrightarrow> writes (COMPACT_ARRAY t) (WArr (map_option (map f) v)) (write_each_nullable wr v)"
  using writes_each [of t f wr] appends_writeUVarInt [of 0]
  by (cases v) (simp_all add: write_each_nullable_def writes_def elems_of_def wire_uvarint_array_def)

text \<open>A UUID in its textual form.\<close>

definition uuid_value :: "string option \<Rightarrow> wire_value" where
  "uuid_value s =
     (case s of
        None \<Rightarrow> WBytes None
      | Some t \<Rightarrow> (let b = from_hex (filter (\<lambda>c. c \<noteq> CHR ''-'') t) in if uuid_text b = t then WBytes (Some b) else WTags))"

lemma writes_uuid [writes_intros]: "writes UUID (uuid_value s) (writeUUID s)"
proof (cases s)
  case None
  then show ?thesis using appends_writeUUID [of None] by (simp add: writes_def uuid_value_def wbytes_of_def)
next
  case (Some t)
  let ?b = "from_hex (filter (\<lambda>c. c \<noteq> CHR ''-'') t)"
  show ?thesis
    using Some appends_writeUUID [of "Some ?b"] by (auto simp: writes_def uuid_value_def wbytes_of_def Let_def)
qed

text \<open>An empty array is written as an absent one.\<close>

definition nullable :: "'a list \<Rightarrow> 'a list option" where
  "nullable xs = (if xs = [] then None else Some xs)"

lemma writes_nullable_array [writes_intros]:
  assumes "\<And>x. writes t (f x) (wr x)"
  shows "writes (ARRAY t) (WArr (nullable (map f xs))) (write_nullable_array_of wr xs)"
proof (cases "xs = []")
  case True
  then show ?thesis
    using appends_absent by (simp add: writes_def nullable_def elems_of_def write_nullable_array_of_def [abs_def] writeNullableArray_def)
next
  case False
  have "write_nullable_array_of wr xs = write_array_of wr xs"
  proof
    fix e
    have "es \<noteq> []" if "rmap (\<lambda>v. rbind new_Encoder (wr v)) xs = Inr es" for es
      using rmap_length [OF that] False by auto
    then show "write_nullable_array_of wr xs e = write_array_of wr xs e"
      by (cases "rmap (\<lambda>v. rbind new_Encoder (wr v)) xs")
        (auto simp: write_nullable_array_of_def write_array_of_def writeNullableArray_def writeArray_def)
  qed
  then show ?thesis using writes_array [of t f wr xs, OF assms] False by (simp add: nullable_def)
qed

lemma writes_strings [writes_intros]: "writes (ARRAY STRING) (WArr (Some (map (\<lambda>s. WStr (Some s)) xs))) (write_strings xs)"
  using appends_writeArray_strings [of xs]
  by (auto simp: writes_def wf_array_def elems_of_def list_all_iff wire_array_def comp_def write_strings_def str_of_def string_ok_def)

lemma writes_numbers [writes_intros]: "writes (ARRAY INT32) (WArr (Some (map WInt xs))) (write_numbers xs)"
  using appends_writeArray_numbers [of xs]
  by (auto simp: writes_def wf_array_def elems_of_def list_all_iff wire_array_def comp_def write_numbers_def int_of_def
      simp del: int_range_numeral)

lemma writes_nullable_strings [writes_intros]:
  "writes (ARRAY STRING) (WArr (nullable (map (\<lambda>s. WStr (Some s)) xs))) (write_nullable_strings xs)"
proof (cases "xs = []")
  case True
  then show ?thesis
    using appends_absent by (simp add: writes_def nullable_def elems_of_def write_nullable_strings_def writeNullableArray_def)
next
  case False
  then have "write_nullable_strings xs = write_strings xs"
    by (simp add: write_nullable_strings_def write_strings_def writeNullableArray_def writeArray_def)
  then show ?thesis using writes_strings [of xs] False by (simp add: nullable_def)
qed

lemma writes_nullable_numbers [writes_intros]:
  "writes (ARRAY INT32) (WArr (nullable (map WInt xs))) (write_nullable_numbers xs)"
proof (cases "xs = []")
  case True
  then show ?thesis
    using appends_absent by (simp add: writes_def nullable_def elems_of_def write_nullable_numbers_def writeNullableArray_def)
next
  case False
  then have "write_nullable_numbers xs = write_numbers xs"
    by (simp add: write_nullable_numbers_def write_numbers_def writeNullableArray_def writeArray_def)
  then show ?thesis using writes_numbers [of xs] False by (simp add: nullable_def)
qed

text \<open>Structures, and the parameters of functions that take objects.\<close>

inductive writes_fields :: "(label \<times> layout) list \<Rightarrow> wire_value list \<Rightarrow> writer list \<Rightarrow> bool" where
  writes_fields_Nil [writes_intros]: "writes_fields [] [] []"
| writes_fields_Cons [writes_intros]:
    "writes t w wr \<Longrightarrow> writes_fields fs ws wrs \<Longrightarrow> writes_fields ((l, t) # fs) (w # ws) (wr # wrs)"

lemma writes_fields_appends:
  "writes_fields fs ws wrs \<Longrightarrow> wf_parts fs ws \<Longrightarrow> appends (chain wrs) (octets_parts fs ws)"
  by (induction rule: writes_fields.induct) (auto simp: writes_def intro: appends_chain_Cons appends_chain_Nil simp del: chain.simps)

lemma writes_struct [writes_intros]: "writes_fields fs ws wrs \<Longrightarrow> writes (STRUCT fs) (WStruct ws) (chain wrs)"
  using writes_fields_appends by (auto simp: writes_def parts_of_def simp del: chain.simps)

lemma writes_split [writes_intros]:
  "(\<And>a b. writes t (f a b) (g a b)) \<Longrightarrow> writes t (case_prod f x) (case_prod g x)"
  by (cases x) simp

subsection \<open>Conforming requests\<close>

text \<open>
  What is asked of the request for a version of an API: its header has the key and the version, and the
  encoder writes the octets of a value.
\<close>

definition conforming_request :: "string \<Rightarrow> int \<Rightarrow> layout \<Rightarrow> wire_value \<Rightarrow> protocol_request \<Rightarrow> bool" where
  "conforming_request api v t w r \<longleftrightarrow>
     req_apiKey r = api_key api \<and> req_apiVersion r = v \<and> writes t w (req_encode r)"

named_theorems request_specs \<open>the requests conform\<close>

lemma conforming_new_request: "writes t w wr \<Longrightarrow> conforming_request api v t w (new_request (api_key api) v n wr)"
  by (simp add: conforming_request_def new_request_def)

lemma conforming_with_version: "conforming_request api v' t w r \<Longrightarrow> conforming_request api v t w (with_version v r)"
  by (simp add: conforming_request_def with_version_def)

end
