(* ===== verification/Requests_Group.thy ===== *)
theory Requests_Group
  imports Request_Format
begin

text \<open>
  The encoders of the requests about groups, their coordinators and their offsets: one definition per function of the files
  \<^verbatim>\<open>src/protocol/requests/*/v*/request.js\<close>, the layout of the body, the value of the layout that the
  arguments stand for, and the proof that the encoder writes it. Objects that a function takes apart are tuples of the
  properties it names, in their order; a property with a default value is an option. Requests of the flexible versions
  begin with the tag buffer that ends their header.
\<close>

subsection \<open>Membership\<close>

definition joinGroup_v0_encodeGroupProtocols :: "_ \<Rightarrow> writer" where
  "joinGroup_v0_encodeGroupProtocols =
     (\<lambda>(name, metadata). chain [writeString name, writeBytes (or_default (BBuffer []) metadata)])"

definition joinGroup_v0_request where
  "joinGroup_v0_request groupId sessionTimeout memberId protocolType groupProtocols =
     new_request (api_key ''JoinGroup'') 0 ''JoinGroup''
       (chain [writeString groupId, writeInt32 sessionTimeout, writeString memberId, writeString protocolType,
          write_array_of joinGroup_v0_encodeGroupProtocols groupProtocols])"

definition joinGroup_v0_request_layout :: layout where
  "joinGroup_v0_request_layout =
     STRUCT [(Field ''groupId'', STRING), (Field ''sessionTimeout'', INT32), (Field ''memberId'', STRING),
       (Field ''protocolType'', STRING), (Field ''groupProtocols'', ARRAY (STRUCT [(Field ''name'', STRING),
       (Field ''metadata'', BYTES)]))]"

definition joinGroup_v0_value where
  "joinGroup_v0_value groupId sessionTimeout memberId protocolType groupProtocols =
     WStruct [WStr groupId, WInt sessionTimeout, WStr memberId, WStr protocolType,
       WArr (Some (map (\<lambda>(name, metadata). WStruct [WStr name,
       WBytes (bytes_of (or_default (BBuffer []) metadata))]) groupProtocols))]"

lemma joinGroup_v0_conforming [request_specs]:
  "conforming_request ''JoinGroup'' 0 joinGroup_v0_request_layout
    (joinGroup_v0_value groupId sessionTimeout memberId protocolType groupProtocols)
    (joinGroup_v0_request groupId sessionTimeout memberId protocolType groupProtocols)"
  unfolding joinGroup_v0_request_layout_def joinGroup_v0_value_def joinGroup_v0_request_def
    joinGroup_v0_encodeGroupProtocols_def
  by (rule conforming_new_request writes_intros)+

definition joinGroup_v1_encodeGroupProtocols :: "_ \<Rightarrow> writer" where
  "joinGroup_v1_encodeGroupProtocols =
     (\<lambda>(name, metadata). chain [writeString name, writeBytes (or_default (BBuffer []) metadata)])"

definition joinGroup_v1_request where
  "joinGroup_v1_request groupId sessionTimeout rebalanceTimeout memberId protocolType groupProtocols =
     new_request (api_key ''JoinGroup'') 1 ''JoinGroup''
       (chain [writeString groupId, writeInt32 sessionTimeout, writeInt32 rebalanceTimeout,
          writeString memberId, writeString protocolType,
          write_array_of joinGroup_v1_encodeGroupProtocols groupProtocols])"

definition joinGroup_v1_request_layout :: layout where
  "joinGroup_v1_request_layout =
     STRUCT [(Field ''groupId'', STRING), (Field ''sessionTimeout'', INT32), (Field ''rebalanceTimeout'',
       INT32), (Field ''memberId'', STRING), (Field ''protocolType'', STRING), (Field ''groupProtocols'',
       ARRAY (STRUCT [(Field ''name'', STRING), (Field ''metadata'', BYTES)]))]"

definition joinGroup_v1_value where
  "joinGroup_v1_value groupId sessionTimeout rebalanceTimeout memberId protocolType groupProtocols =
     WStruct [WStr groupId, WInt sessionTimeout, WInt rebalanceTimeout, WStr memberId, WStr protocolType,
       WArr (Some (map (\<lambda>(name, metadata). WStruct [WStr name,
       WBytes (bytes_of (or_default (BBuffer []) metadata))]) groupProtocols))]"

lemma joinGroup_v1_conforming [request_specs]:
  "conforming_request ''JoinGroup'' 1 joinGroup_v1_request_layout
    (joinGroup_v1_value groupId sessionTimeout rebalanceTimeout memberId protocolType groupProtocols)
    (joinGroup_v1_request groupId sessionTimeout rebalanceTimeout memberId protocolType groupProtocols)"
  unfolding joinGroup_v1_request_layout_def joinGroup_v1_value_def joinGroup_v1_request_def
    joinGroup_v1_encodeGroupProtocols_def
  by (rule conforming_new_request writes_intros)+

definition joinGroup_v2_request where
  "joinGroup_v2_request groupId sessionTimeout rebalanceTimeout memberId protocolType groupProtocols =
     with_version 2 (joinGroup_v1_request groupId sessionTimeout rebalanceTimeout memberId protocolType groupProtocols)"

definition joinGroup_v2_request_layout :: layout where "joinGroup_v2_request_layout = joinGroup_v1_request_layout"

lemma joinGroup_v2_conforming [request_specs]:
  "conforming_request ''JoinGroup'' 2 joinGroup_v2_request_layout
    (joinGroup_v1_value groupId sessionTimeout rebalanceTimeout memberId protocolType groupProtocols)
    (joinGroup_v2_request groupId sessionTimeout rebalanceTimeout memberId protocolType groupProtocols)"
  unfolding joinGroup_v2_request_def joinGroup_v2_request_layout_def
  by (rule conforming_with_version [OF joinGroup_v1_conforming])

definition joinGroup_v3_request where
  "joinGroup_v3_request groupId sessionTimeout rebalanceTimeout memberId protocolType groupProtocols =
     with_version 3 (joinGroup_v2_request groupId sessionTimeout rebalanceTimeout memberId protocolType groupProtocols)"

definition joinGroup_v3_request_layout :: layout where "joinGroup_v3_request_layout = joinGroup_v2_request_layout"

lemma joinGroup_v3_conforming [request_specs]:
  "conforming_request ''JoinGroup'' 3 joinGroup_v3_request_layout
    (joinGroup_v1_value groupId sessionTimeout rebalanceTimeout memberId protocolType groupProtocols)
    (joinGroup_v3_request groupId sessionTimeout rebalanceTimeout memberId protocolType groupProtocols)"
  unfolding joinGroup_v3_request_def joinGroup_v3_request_layout_def
  by (rule conforming_with_version [OF joinGroup_v2_conforming])

definition joinGroup_v4_request where
  "joinGroup_v4_request groupId sessionTimeout rebalanceTimeout memberId protocolType groupProtocols =
     with_version 4 (joinGroup_v3_request groupId sessionTimeout rebalanceTimeout memberId protocolType groupProtocols)"

definition joinGroup_v4_request_layout :: layout where "joinGroup_v4_request_layout = joinGroup_v3_request_layout"

lemma joinGroup_v4_conforming [request_specs]:
  "conforming_request ''JoinGroup'' 4 joinGroup_v4_request_layout
    (joinGroup_v1_value groupId sessionTimeout rebalanceTimeout memberId protocolType groupProtocols)
    (joinGroup_v4_request groupId sessionTimeout rebalanceTimeout memberId protocolType groupProtocols)"
  unfolding joinGroup_v4_request_def joinGroup_v4_request_layout_def
  by (rule conforming_with_version [OF joinGroup_v3_conforming])

definition joinGroup_v5_encodeGroupProtocols :: "_ \<Rightarrow> writer" where
  "joinGroup_v5_encodeGroupProtocols =
     (\<lambda>(name, metadata). chain [writeString name, writeBytes (or_default (BBuffer []) metadata)])"

definition joinGroup_v5_request where
  "joinGroup_v5_request groupId sessionTimeout rebalanceTimeout memberId groupInstanceId protocolType groupProtocols =
     new_request (api_key ''JoinGroup'') 5 ''JoinGroup''
       (chain [writeString groupId, writeInt32 sessionTimeout, writeInt32 rebalanceTimeout,
          writeString memberId, writeString groupInstanceId, writeString protocolType,
          write_array_of joinGroup_v5_encodeGroupProtocols groupProtocols])"

definition joinGroup_v5_request_layout :: layout where
  "joinGroup_v5_request_layout =
     STRUCT [(Field ''groupId'', STRING), (Field ''sessionTimeout'', INT32), (Field ''rebalanceTimeout'',
       INT32), (Field ''memberId'', STRING), (Field ''groupInstanceId'', STRING), (Field ''protocolType'',
       STRING), (Field ''groupProtocols'', ARRAY (STRUCT [(Field ''name'', STRING), (Field ''metadata'',
       BYTES)]))]"

definition joinGroup_v5_value where
  "joinGroup_v5_value groupId sessionTimeout rebalanceTimeout memberId groupInstanceId protocolType groupProtocols =
     WStruct [WStr groupId, WInt sessionTimeout, WInt rebalanceTimeout, WStr memberId, WStr groupInstanceId,
       WStr protocolType, WArr (Some (map (\<lambda>(name, metadata). WStruct [WStr name,
       WBytes (bytes_of (or_default (BBuffer []) metadata))]) groupProtocols))]"

lemma joinGroup_v5_conforming [request_specs]:
  "conforming_request ''JoinGroup'' 5 joinGroup_v5_request_layout
    (joinGroup_v5_value groupId sessionTimeout rebalanceTimeout memberId groupInstanceId protocolType
      groupProtocols)
    (joinGroup_v5_request groupId sessionTimeout rebalanceTimeout memberId groupInstanceId protocolType
      groupProtocols)"
  unfolding joinGroup_v5_request_layout_def joinGroup_v5_value_def joinGroup_v5_request_def
    joinGroup_v5_encodeGroupProtocols_def
  by (rule conforming_new_request writes_intros)+

definition joinGroup_v6_encodeGroupProtocols :: "_ \<Rightarrow> writer" where
  "joinGroup_v6_encodeGroupProtocols =
     (\<lambda>(name, metadata). chain [writeUVarIntString name,
       writeUVarIntBytes (or_default (BBuffer []) metadata), writeUVarIntBytes BNull])"

definition joinGroup_v6_request where
  "joinGroup_v6_request groupId sessionTimeout rebalanceTimeout memberId groupInstanceId protocolType groupProtocols =
     new_request (api_key ''JoinGroup'') 6 ''JoinGroup''
       (chain [writeUVarIntBytes BNull, writeUVarIntString groupId, writeInt32 sessionTimeout,
          writeInt32 rebalanceTimeout, writeUVarIntString memberId, writeUVarIntString groupInstanceId,
          writeUVarIntString protocolType,
          write_uvarint_array_of joinGroup_v6_encodeGroupProtocols (Some groupProtocols),
          writeUVarIntBytes BNull])"

definition joinGroup_v6_request_layout :: layout where
  "joinGroup_v6_request_layout =
     STRUCT [(Skip, TAG_BUFFER), (Field ''groupId'', COMPACT_STRING), (Field ''sessionTimeout'', INT32),
       (Field ''rebalanceTimeout'', INT32), (Field ''memberId'', COMPACT_STRING), (Field ''groupInstanceId'',
       COMPACT_STRING), (Field ''protocolType'', COMPACT_STRING), (Field ''groupProtocols'',
       COMPACT_ARRAY (STRUCT [(Field ''name'', COMPACT_STRING), (Field ''metadata'', COMPACT_BYTES), (Skip,
       TAG_BUFFER)])), (Skip, TAG_BUFFER)]"

definition joinGroup_v6_value where
  "joinGroup_v6_value groupId sessionTimeout rebalanceTimeout memberId groupInstanceId protocolType groupProtocols =
     WStruct [WTags, WStr groupId, WInt sessionTimeout, WInt rebalanceTimeout, WStr memberId,
       WStr groupInstanceId, WStr protocolType, WArr (Some (map (\<lambda>(name, metadata). WStruct [WStr name,
       WBytes (bytes_of (or_default (BBuffer []) metadata)), WTags]) groupProtocols)), WTags]"

lemma joinGroup_v6_conforming [request_specs]:
  "conforming_request ''JoinGroup'' 6 joinGroup_v6_request_layout
    (joinGroup_v6_value groupId sessionTimeout rebalanceTimeout memberId groupInstanceId protocolType
      groupProtocols)
    (joinGroup_v6_request groupId sessionTimeout rebalanceTimeout memberId groupInstanceId protocolType
      groupProtocols)"
  unfolding joinGroup_v6_request_layout_def joinGroup_v6_value_def joinGroup_v6_request_def
    joinGroup_v6_encodeGroupProtocols_def
  by (rule conforming_new_request writes_intros)+

definition syncGroup_v0_encodeGroupAssignment :: "_ \<Rightarrow> writer" where
  "syncGroup_v0_encodeGroupAssignment =
     (\<lambda>(memberId, memberAssignment). chain [writeString memberId, writeBytes memberAssignment])"

definition syncGroup_v0_request where
  "syncGroup_v0_request groupId generationId memberId groupAssignment =
     new_request (api_key ''SyncGroup'') 0 ''SyncGroup''
       (chain [writeString groupId, writeInt32 generationId, writeString memberId,
          write_array_of syncGroup_v0_encodeGroupAssignment groupAssignment])"

definition syncGroup_v0_request_layout :: layout where
  "syncGroup_v0_request_layout =
     STRUCT [(Field ''groupId'', STRING), (Field ''generationId'', INT32), (Field ''memberId'', STRING),
       (Field ''groupAssignment'', ARRAY (STRUCT [(Field ''memberId'', STRING), (Field ''memberAssignment'',
       BYTES)]))]"

definition syncGroup_v0_value where
  "syncGroup_v0_value groupId generationId memberId groupAssignment =
     WStruct [WStr groupId, WInt generationId, WStr memberId, WArr (Some (map (\<lambda>(memberId,
       memberAssignment). WStruct [WStr memberId, WBytes (bytes_of memberAssignment)]) groupAssignment))]"

lemma syncGroup_v0_conforming [request_specs]:
  "conforming_request ''SyncGroup'' 0 syncGroup_v0_request_layout
    (syncGroup_v0_value groupId generationId memberId groupAssignment)
    (syncGroup_v0_request groupId generationId memberId groupAssignment)"
  unfolding syncGroup_v0_request_layout_def syncGroup_v0_value_def syncGroup_v0_request_def
    syncGroup_v0_encodeGroupAssignment_def
  by (rule conforming_new_request writes_intros)+

definition syncGroup_v1_request where
  "syncGroup_v1_request groupId generationId memberId groupAssignment =
     with_version 1 (syncGroup_v0_request groupId generationId memberId groupAssignment)"

definition syncGroup_v1_request_layout :: layout where "syncGroup_v1_request_layout = syncGroup_v0_request_layout"

lemma syncGroup_v1_conforming [request_specs]:
  "conforming_request ''SyncGroup'' 1 syncGroup_v1_request_layout
    (syncGroup_v0_value groupId generationId memberId groupAssignment)
    (syncGroup_v1_request groupId generationId memberId groupAssignment)"
  unfolding syncGroup_v1_request_def syncGroup_v1_request_layout_def
  by (rule conforming_with_version [OF syncGroup_v0_conforming])

definition syncGroup_v2_request where
  "syncGroup_v2_request groupId generationId memberId groupAssignment =
     with_version 2 (syncGroup_v1_request groupId generationId memberId groupAssignment)"

definition syncGroup_v2_request_layout :: layout where "syncGroup_v2_request_layout = syncGroup_v1_request_layout"

lemma syncGroup_v2_conforming [request_specs]:
  "conforming_request ''SyncGroup'' 2 syncGroup_v2_request_layout
    (syncGroup_v0_value groupId generationId memberId groupAssignment)
    (syncGroup_v2_request groupId generationId memberId groupAssignment)"
  unfolding syncGroup_v2_request_def syncGroup_v2_request_layout_def
  by (rule conforming_with_version [OF syncGroup_v1_conforming])

definition syncGroup_v3_encodeGroupAssignment :: "_ \<Rightarrow> writer" where
  "syncGroup_v3_encodeGroupAssignment =
     (\<lambda>(memberId, memberAssignment). chain [writeString memberId, writeBytes memberAssignment])"

definition syncGroup_v3_request where
  "syncGroup_v3_request groupId generationId memberId groupInstanceId groupAssignment =
     new_request (api_key ''SyncGroup'') 3 ''SyncGroup''
       (chain [writeString groupId, writeInt32 generationId, writeString memberId, writeString groupInstanceId,
          write_array_of syncGroup_v3_encodeGroupAssignment groupAssignment])"

definition syncGroup_v3_request_layout :: layout where
  "syncGroup_v3_request_layout =
     STRUCT [(Field ''groupId'', STRING), (Field ''generationId'', INT32), (Field ''memberId'', STRING),
       (Field ''groupInstanceId'', STRING), (Field ''groupAssignment'', ARRAY (STRUCT [(Field ''memberId'',
       STRING), (Field ''memberAssignment'', BYTES)]))]"

definition syncGroup_v3_value where
  "syncGroup_v3_value groupId generationId memberId groupInstanceId groupAssignment =
     WStruct [WStr groupId, WInt generationId, WStr memberId, WStr groupInstanceId,
       WArr (Some (map (\<lambda>(memberId, memberAssignment). WStruct [WStr memberId,
       WBytes (bytes_of memberAssignment)]) groupAssignment))]"

lemma syncGroup_v3_conforming [request_specs]:
  "conforming_request ''SyncGroup'' 3 syncGroup_v3_request_layout
    (syncGroup_v3_value groupId generationId memberId groupInstanceId groupAssignment)
    (syncGroup_v3_request groupId generationId memberId groupInstanceId groupAssignment)"
  unfolding syncGroup_v3_request_layout_def syncGroup_v3_value_def syncGroup_v3_request_def
    syncGroup_v3_encodeGroupAssignment_def
  by (rule conforming_new_request writes_intros)+

definition syncGroup_v4_encodeGroupAssignment :: "_ \<Rightarrow> writer" where
  "syncGroup_v4_encodeGroupAssignment =
     (\<lambda>(memberId, memberAssignment). chain [writeUVarIntString memberId,
       writeUVarIntBytes memberAssignment, writeUVarIntBytes BNull])"

definition syncGroup_v4_request where
  "syncGroup_v4_request groupId generationId memberId groupInstanceId groupAssignment =
     new_request (api_key ''SyncGroup'') 4 ''SyncGroup''
       (chain [writeUVarIntBytes BNull, writeUVarIntString groupId, writeInt32 generationId,
          writeUVarIntString memberId, writeUVarIntString groupInstanceId,
          write_uvarint_array_of syncGroup_v4_encodeGroupAssignment (Some groupAssignment),
          writeUVarIntBytes BNull])"

definition syncGroup_v4_request_layout :: layout where
  "syncGroup_v4_request_layout =
     STRUCT [(Skip, TAG_BUFFER), (Field ''groupId'', COMPACT_STRING), (Field ''generationId'', INT32),
       (Field ''memberId'', COMPACT_STRING), (Field ''groupInstanceId'', COMPACT_STRING),
       (Field ''groupAssignment'', COMPACT_ARRAY (STRUCT [(Field ''memberId'', COMPACT_STRING),
       (Field ''memberAssignment'', COMPACT_BYTES), (Skip, TAG_BUFFER)])), (Skip, TAG_BUFFER)]"

definition syncGroup_v4_value where
  "syncGroup_v4_value groupId generationId memberId groupInstanceId groupAssignment =
     WStruct [WTags, WStr groupId, WInt generationId, WStr memberId, WStr groupInstanceId,
       WArr (Some (map (\<lambda>(memberId, memberAssignment). WStruct [WStr memberId,
       WBytes (bytes_of memberAssignment), WTags]) groupAssignment)), WTags]"

lemma syncGroup_v4_conforming [request_specs]:
  "conforming_request ''SyncGroup'' 4 syncGroup_v4_request_layout
    (syncGroup_v4_value groupId generationId memberId groupInstanceId groupAssignment)
    (syncGroup_v4_request groupId generationId memberId groupInstanceId groupAssignment)"
  unfolding syncGroup_v4_request_layout_def syncGroup_v4_value_def syncGroup_v4_request_def
    syncGroup_v4_encodeGroupAssignment_def
  by (rule conforming_new_request writes_intros)+

definition heartbeat_v0_request where
  "heartbeat_v0_request groupId groupGenerationId memberId =
     new_request (api_key ''Heartbeat'') 0 ''Heartbeat''
       (chain [writeString groupId, writeInt32 groupGenerationId, writeString memberId])"

definition heartbeat_v0_request_layout :: layout where
  "heartbeat_v0_request_layout =
     STRUCT [(Field ''groupId'', STRING), (Field ''groupGenerationId'', INT32), (Field ''memberId'', STRING)]"

definition heartbeat_v0_value where
  "heartbeat_v0_value groupId groupGenerationId memberId =
     WStruct [WStr groupId, WInt groupGenerationId, WStr memberId]"

lemma heartbeat_v0_conforming [request_specs]:
  "conforming_request ''Heartbeat'' 0 heartbeat_v0_request_layout
    (heartbeat_v0_value groupId groupGenerationId memberId)
    (heartbeat_v0_request groupId groupGenerationId memberId)"
  unfolding heartbeat_v0_request_layout_def heartbeat_v0_value_def heartbeat_v0_request_def
  by (rule conforming_new_request writes_intros)+

definition heartbeat_v1_request where
  "heartbeat_v1_request groupId groupGenerationId memberId =
     with_version 1 (heartbeat_v0_request groupId groupGenerationId memberId)"

definition heartbeat_v1_request_layout :: layout where "heartbeat_v1_request_layout = heartbeat_v0_request_layout"

lemma heartbeat_v1_conforming [request_specs]:
  "conforming_request ''Heartbeat'' 1 heartbeat_v1_request_layout
    (heartbeat_v0_value groupId groupGenerationId memberId)
    (heartbeat_v1_request groupId groupGenerationId memberId)"
  unfolding heartbeat_v1_request_def heartbeat_v1_request_layout_def
  by (rule conforming_with_version [OF heartbeat_v0_conforming])

definition heartbeat_v2_request where
  "heartbeat_v2_request groupId groupGenerationId memberId =
     with_version 2 (heartbeat_v1_request groupId groupGenerationId memberId)"

definition heartbeat_v2_request_layout :: layout where "heartbeat_v2_request_layout = heartbeat_v1_request_layout"

lemma heartbeat_v2_conforming [request_specs]:
  "conforming_request ''Heartbeat'' 2 heartbeat_v2_request_layout
    (heartbeat_v0_value groupId groupGenerationId memberId)
    (heartbeat_v2_request groupId groupGenerationId memberId)"
  unfolding heartbeat_v2_request_def heartbeat_v2_request_layout_def
  by (rule conforming_with_version [OF heartbeat_v1_conforming])

definition heartbeat_v3_request where
  "heartbeat_v3_request groupId groupGenerationId memberId groupInstanceId =
     new_request (api_key ''Heartbeat'') 3 ''Heartbeat''
       (chain [writeString groupId, writeInt32 groupGenerationId, writeString memberId,
          writeString groupInstanceId])"

definition heartbeat_v3_request_layout :: layout where
  "heartbeat_v3_request_layout =
     STRUCT [(Field ''groupId'', STRING), (Field ''groupGenerationId'', INT32), (Field ''memberId'', STRING),
       (Field ''groupInstanceId'', STRING)]"

definition heartbeat_v3_value where
  "heartbeat_v3_value groupId groupGenerationId memberId groupInstanceId =
     WStruct [WStr groupId, WInt groupGenerationId, WStr memberId, WStr groupInstanceId]"

lemma heartbeat_v3_conforming [request_specs]:
  "conforming_request ''Heartbeat'' 3 heartbeat_v3_request_layout
    (heartbeat_v3_value groupId groupGenerationId memberId groupInstanceId)
    (heartbeat_v3_request groupId groupGenerationId memberId groupInstanceId)"
  unfolding heartbeat_v3_request_layout_def heartbeat_v3_value_def heartbeat_v3_request_def
  by (rule conforming_new_request writes_intros)+

definition heartbeat_v4_request where
  "heartbeat_v4_request groupId groupGenerationId memberId groupInstanceId =
     new_request (api_key ''Heartbeat'') 4 ''Heartbeat''
       (chain [writeUVarIntBytes BNull, writeUVarIntString groupId, writeInt32 groupGenerationId,
          writeUVarIntString memberId, writeUVarIntString groupInstanceId, writeUVarIntBytes BNull])"

definition heartbeat_v4_request_layout :: layout where
  "heartbeat_v4_request_layout =
     STRUCT [(Skip, TAG_BUFFER), (Field ''groupId'', COMPACT_STRING), (Field ''groupGenerationId'', INT32),
       (Field ''memberId'', COMPACT_STRING), (Field ''groupInstanceId'', COMPACT_STRING), (Skip, TAG_BUFFER)]"

definition heartbeat_v4_value where
  "heartbeat_v4_value groupId groupGenerationId memberId groupInstanceId =
     WStruct [WTags, WStr groupId, WInt groupGenerationId, WStr memberId, WStr groupInstanceId, WTags]"

lemma heartbeat_v4_conforming [request_specs]:
  "conforming_request ''Heartbeat'' 4 heartbeat_v4_request_layout
    (heartbeat_v4_value groupId groupGenerationId memberId groupInstanceId)
    (heartbeat_v4_request groupId groupGenerationId memberId groupInstanceId)"
  unfolding heartbeat_v4_request_layout_def heartbeat_v4_value_def heartbeat_v4_request_def
  by (rule conforming_new_request writes_intros)+

definition leaveGroup_v0_request where
  "leaveGroup_v0_request groupId memberId =
     new_request (api_key ''LeaveGroup'') 0 ''LeaveGroup''
       (chain [writeString groupId, writeString memberId])"

definition leaveGroup_v0_request_layout :: layout where
  "leaveGroup_v0_request_layout =
     STRUCT [(Field ''groupId'', STRING), (Field ''memberId'', STRING)]"

definition leaveGroup_v0_value where
  "leaveGroup_v0_value groupId memberId =
     WStruct [WStr groupId, WStr memberId]"

lemma leaveGroup_v0_conforming [request_specs]:
  "conforming_request ''LeaveGroup'' 0 leaveGroup_v0_request_layout
    (leaveGroup_v0_value groupId memberId)
    (leaveGroup_v0_request groupId memberId)"
  unfolding leaveGroup_v0_request_layout_def leaveGroup_v0_value_def leaveGroup_v0_request_def
  by (rule conforming_new_request writes_intros)+

definition leaveGroup_v1_request where
  "leaveGroup_v1_request groupId memberId =
     with_version 1 (leaveGroup_v0_request groupId memberId)"

definition leaveGroup_v1_request_layout :: layout where "leaveGroup_v1_request_layout = leaveGroup_v0_request_layout"

lemma leaveGroup_v1_conforming [request_specs]:
  "conforming_request ''LeaveGroup'' 1 leaveGroup_v1_request_layout
    (leaveGroup_v0_value groupId memberId)
    (leaveGroup_v1_request groupId memberId)"
  unfolding leaveGroup_v1_request_def leaveGroup_v1_request_layout_def
  by (rule conforming_with_version [OF leaveGroup_v0_conforming])

definition leaveGroup_v2_request where
  "leaveGroup_v2_request groupId memberId =
     with_version 2 (leaveGroup_v1_request groupId memberId)"

definition leaveGroup_v2_request_layout :: layout where "leaveGroup_v2_request_layout = leaveGroup_v1_request_layout"

lemma leaveGroup_v2_conforming [request_specs]:
  "conforming_request ''LeaveGroup'' 2 leaveGroup_v2_request_layout
    (leaveGroup_v0_value groupId memberId)
    (leaveGroup_v2_request groupId memberId)"
  unfolding leaveGroup_v2_request_def leaveGroup_v2_request_layout_def
  by (rule conforming_with_version [OF leaveGroup_v1_conforming])

definition leaveGroup_v3_encodeMember :: "_ \<Rightarrow> writer" where
  "leaveGroup_v3_encodeMember =
     (\<lambda>(memberId, groupInstanceId). chain [writeString memberId, writeString groupInstanceId])"

definition leaveGroup_v3_request where
  "leaveGroup_v3_request groupId members =
     new_request (api_key ''LeaveGroup'') 3 ''LeaveGroup''
       (chain [writeString groupId, write_array_of leaveGroup_v3_encodeMember members])"

definition leaveGroup_v3_request_layout :: layout where
  "leaveGroup_v3_request_layout =
     STRUCT [(Field ''groupId'', STRING), (Field ''members'', ARRAY (STRUCT [(Field ''memberId'', STRING),
       (Field ''groupInstanceId'', STRING)]))]"

definition leaveGroup_v3_value where
  "leaveGroup_v3_value groupId members =
     WStruct [WStr groupId, WArr (Some (map (\<lambda>(memberId, groupInstanceId). WStruct [WStr memberId,
       WStr groupInstanceId]) members))]"

lemma leaveGroup_v3_conforming [request_specs]:
  "conforming_request ''LeaveGroup'' 3 leaveGroup_v3_request_layout
    (leaveGroup_v3_value groupId members)
    (leaveGroup_v3_request groupId members)"
  unfolding leaveGroup_v3_request_layout_def leaveGroup_v3_value_def leaveGroup_v3_request_def
    leaveGroup_v3_encodeMember_def
  by (rule conforming_new_request writes_intros)+

definition leaveGroup_v4_encodeMember :: "_ \<Rightarrow> writer" where
  "leaveGroup_v4_encodeMember =
     (\<lambda>(memberId, groupInstanceId). chain [writeUVarIntString memberId,
       writeUVarIntString groupInstanceId, writeUVarIntBytes BNull])"

definition leaveGroup_v4_request where
  "leaveGroup_v4_request groupId members =
     new_request (api_key ''LeaveGroup'') 4 ''LeaveGroup''
       (chain [writeUVarIntBytes BNull, writeUVarIntString groupId,
          write_uvarint_array_of leaveGroup_v4_encodeMember (Some members), writeUVarIntBytes BNull])"

definition leaveGroup_v4_request_layout :: layout where
  "leaveGroup_v4_request_layout =
     STRUCT [(Skip, TAG_BUFFER), (Field ''groupId'', COMPACT_STRING), (Field ''members'',
       COMPACT_ARRAY (STRUCT [(Field ''memberId'', COMPACT_STRING), (Field ''groupInstanceId'',
       COMPACT_STRING), (Skip, TAG_BUFFER)])), (Skip, TAG_BUFFER)]"

definition leaveGroup_v4_value where
  "leaveGroup_v4_value groupId members =
     WStruct [WTags, WStr groupId, WArr (Some (map (\<lambda>(memberId,
       groupInstanceId). WStruct [WStr memberId, WStr groupInstanceId, WTags]) members)), WTags]"

lemma leaveGroup_v4_conforming [request_specs]:
  "conforming_request ''LeaveGroup'' 4 leaveGroup_v4_request_layout
    (leaveGroup_v4_value groupId members)
    (leaveGroup_v4_request groupId members)"
  unfolding leaveGroup_v4_request_layout_def leaveGroup_v4_value_def leaveGroup_v4_request_def
    leaveGroup_v4_encodeMember_def
  by (rule conforming_new_request writes_intros)+

subsection \<open>Coordinators and groups\<close>

definition findCoordinator_v0_request where
  "findCoordinator_v0_request groupId =
     new_request (api_key ''GroupCoordinator'') 0 ''GroupCoordinator''
       (chain [writeString groupId])"

definition findCoordinator_v0_request_layout :: layout where
  "findCoordinator_v0_request_layout =
     STRUCT [(Field ''groupId'', STRING)]"

definition findCoordinator_v0_value where
  "findCoordinator_v0_value groupId =
     WStruct [WStr groupId]"

lemma findCoordinator_v0_conforming [request_specs]:
  "conforming_request ''GroupCoordinator'' 0 findCoordinator_v0_request_layout
    (findCoordinator_v0_value groupId)
    (findCoordinator_v0_request groupId)"
  unfolding findCoordinator_v0_request_layout_def findCoordinator_v0_value_def findCoordinator_v0_request_def
  by (rule conforming_new_request writes_intros)+

definition findCoordinator_v1_request where
  "findCoordinator_v1_request coordinatorKey coordinatorType =
     new_request (api_key ''GroupCoordinator'') 1 ''GroupCoordinator''
       (chain [writeString coordinatorKey, writeInt8 coordinatorType])"

definition findCoordinator_v1_request_layout :: layout where
  "findCoordinator_v1_request_layout =
     STRUCT [(Field ''coordinatorKey'', STRING), (Field ''coordinatorType'', INT8)]"

definition findCoordinator_v1_value where
  "findCoordinator_v1_value coordinatorKey coordinatorType =
     WStruct [WStr coordinatorKey, WInt coordinatorType]"

lemma findCoordinator_v1_conforming [request_specs]:
  "conforming_request ''GroupCoordinator'' 1 findCoordinator_v1_request_layout
    (findCoordinator_v1_value coordinatorKey coordinatorType)
    (findCoordinator_v1_request coordinatorKey coordinatorType)"
  unfolding findCoordinator_v1_request_layout_def findCoordinator_v1_value_def findCoordinator_v1_request_def
  by (rule conforming_new_request writes_intros)+

definition findCoordinator_v2_request where
  "findCoordinator_v2_request coordinatorKey coordinatorType =
     with_version 2 (findCoordinator_v1_request coordinatorKey coordinatorType)"

definition findCoordinator_v2_request_layout :: layout where "findCoordinator_v2_request_layout = findCoordinator_v1_request_layout"

lemma findCoordinator_v2_conforming [request_specs]:
  "conforming_request ''GroupCoordinator'' 2 findCoordinator_v2_request_layout
    (findCoordinator_v1_value coordinatorKey coordinatorType)
    (findCoordinator_v2_request coordinatorKey coordinatorType)"
  unfolding findCoordinator_v2_request_def findCoordinator_v2_request_layout_def
  by (rule conforming_with_version [OF findCoordinator_v1_conforming])

definition findCoordinator_v3_request where
  "findCoordinator_v3_request coordinatorKey coordinatorType =
     new_request (api_key ''GroupCoordinator'') 3 ''GroupCoordinator''
       (chain [writeUVarIntBytes BNull, writeUVarIntString coordinatorKey, writeInt8 coordinatorType,
          writeUVarIntBytes BNull])"

definition findCoordinator_v3_request_layout :: layout where
  "findCoordinator_v3_request_layout =
     STRUCT [(Skip, TAG_BUFFER), (Field ''coordinatorKey'', COMPACT_STRING), (Field ''coordinatorType'', INT8),
       (Skip, TAG_BUFFER)]"

definition findCoordinator_v3_value where
  "findCoordinator_v3_value coordinatorKey coordinatorType =
     WStruct [WTags, WStr coordinatorKey, WInt coordinatorType, WTags]"

lemma findCoordinator_v3_conforming [request_specs]:
  "conforming_request ''GroupCoordinator'' 3 findCoordinator_v3_request_layout
    (findCoordinator_v3_value coordinatorKey coordinatorType)
    (findCoordinator_v3_request coordinatorKey coordinatorType)"
  unfolding findCoordinator_v3_request_layout_def findCoordinator_v3_value_def findCoordinator_v3_request_def
  by (rule conforming_new_request writes_intros)+

definition listGroups_v0_request where
  "listGroups_v0_request =
     new_request (api_key ''ListGroups'') 0 ''ListGroups''
       (chain [])"

definition listGroups_v0_request_layout :: layout where
  "listGroups_v0_request_layout =
     STRUCT []"

definition listGroups_v0_value where
  "listGroups_v0_value =
     WStruct []"

lemma listGroups_v0_conforming [request_specs]:
  "conforming_request ''ListGroups'' 0 listGroups_v0_request_layout
    listGroups_v0_value
    listGroups_v0_request"
  unfolding listGroups_v0_request_layout_def listGroups_v0_value_def listGroups_v0_request_def
  by (rule conforming_new_request writes_intros)+

definition listGroups_v1_request where
  "listGroups_v1_request =
     with_version 1 listGroups_v0_request"

lemma listGroups_v1_conforming [request_specs]:
  "conforming_request ''ListGroups'' 1 listGroups_v0_request_layout
    listGroups_v0_value
    listGroups_v1_request"
  unfolding listGroups_v1_request_def
  by (rule conforming_with_version [OF listGroups_v0_conforming])

definition listGroups_v2_request where
  "listGroups_v2_request =
     with_version 2 listGroups_v1_request"

lemma listGroups_v2_conforming [request_specs]:
  "conforming_request ''ListGroups'' 2 listGroups_v0_request_layout
    listGroups_v0_value
    listGroups_v2_request"
  unfolding listGroups_v2_request_def
  by (rule conforming_with_version [OF listGroups_v1_conforming])

definition listGroups_v4_request where
  "listGroups_v4_request statesFilter =
     new_request (api_key ''ListGroups'') 4 ''ListGroups''
       (chain [writeUVarIntBytes BNull,
          write_uvarint_array_of (\<lambda>s. chain [writeUVarIntString s]) (Some (or_default [] statesFilter)), writeUVarIntBytes BNull])"

definition listGroups_v4_request_layout :: layout where
  "listGroups_v4_request_layout =
     STRUCT [(Skip, TAG_BUFFER), (Field ''statesFilter'', COMPACT_ARRAY (STRUCT [(Field ''s'',
       COMPACT_STRING)])), (Skip, TAG_BUFFER)]"

definition listGroups_v4_value where
  "listGroups_v4_value statesFilter =
     WStruct [WTags, WArr (Some (map (\<lambda>s. WStruct [WStr s]) (or_default [] statesFilter))), WTags]"

lemma listGroups_v4_conforming [request_specs]:
  "conforming_request ''ListGroups'' 4 listGroups_v4_request_layout
    (listGroups_v4_value statesFilter)
    (listGroups_v4_request statesFilter)"
  unfolding listGroups_v4_request_layout_def listGroups_v4_value_def listGroups_v4_request_def
  by (rule conforming_new_request writes_intros)+

definition describeGroups_v0_request where
  "describeGroups_v0_request groupIds =
     new_request (api_key ''DescribeGroups'') 0 ''DescribeGroups''
       (chain [write_strings groupIds])"

definition describeGroups_v0_request_layout :: layout where
  "describeGroups_v0_request_layout =
     STRUCT [(Field ''groupIds'', ARRAY STRING)]"

definition describeGroups_v0_value where
  "describeGroups_v0_value groupIds =
     WStruct [WArr (Some (map (\<lambda>s. WStr (Some s)) groupIds))]"

lemma describeGroups_v0_conforming [request_specs]:
  "conforming_request ''DescribeGroups'' 0 describeGroups_v0_request_layout
    (describeGroups_v0_value groupIds)
    (describeGroups_v0_request groupIds)"
  unfolding describeGroups_v0_request_layout_def describeGroups_v0_value_def describeGroups_v0_request_def
  by (rule conforming_new_request writes_intros)+

definition describeGroups_v1_request where
  "describeGroups_v1_request groupIds =
     with_version 1 (describeGroups_v0_request groupIds)"

definition describeGroups_v1_request_layout :: layout where "describeGroups_v1_request_layout = describeGroups_v0_request_layout"

lemma describeGroups_v1_conforming [request_specs]:
  "conforming_request ''DescribeGroups'' 1 describeGroups_v1_request_layout
    (describeGroups_v0_value groupIds)
    (describeGroups_v1_request groupIds)"
  unfolding describeGroups_v1_request_def describeGroups_v1_request_layout_def
  by (rule conforming_with_version [OF describeGroups_v0_conforming])

definition describeGroups_v2_request where
  "describeGroups_v2_request groupIds =
     with_version 2 (describeGroups_v1_request groupIds)"

definition describeGroups_v2_request_layout :: layout where "describeGroups_v2_request_layout = describeGroups_v1_request_layout"

lemma describeGroups_v2_conforming [request_specs]:
  "conforming_request ''DescribeGroups'' 2 describeGroups_v2_request_layout
    (describeGroups_v0_value groupIds)
    (describeGroups_v2_request groupIds)"
  unfolding describeGroups_v2_request_def describeGroups_v2_request_layout_def
  by (rule conforming_with_version [OF describeGroups_v1_conforming])

definition describeGroups_v5_request where
  "describeGroups_v5_request groupIds includeAuthorizedOperations =
     new_request (api_key ''DescribeGroups'') 5 ''DescribeGroups''
       (chain [writeUVarIntBytes BNull,
          write_uvarint_array_of (\<lambda>id. chain [writeUVarIntString id]) (Some groupIds),
          writeBoolean (or_default False includeAuthorizedOperations), writeUVarIntBytes BNull])"

definition describeGroups_v5_request_layout :: layout where
  "describeGroups_v5_request_layout =
     STRUCT [(Skip, TAG_BUFFER), (Field ''groupIds'', COMPACT_ARRAY (STRUCT [(Field ''id'', COMPACT_STRING)])),
       (Field ''includeAuthorizedOperations'', BOOLEAN), (Skip, TAG_BUFFER)]"

definition describeGroups_v5_value where
  "describeGroups_v5_value groupIds includeAuthorizedOperations =
     WStruct [WTags, WArr (Some (map (\<lambda>id. WStruct [WStr id]) groupIds)),
       WBool (or_default False includeAuthorizedOperations), WTags]"

lemma describeGroups_v5_conforming [request_specs]:
  "conforming_request ''DescribeGroups'' 5 describeGroups_v5_request_layout
    (describeGroups_v5_value groupIds includeAuthorizedOperations)
    (describeGroups_v5_request groupIds includeAuthorizedOperations)"
  unfolding describeGroups_v5_request_layout_def describeGroups_v5_value_def describeGroups_v5_request_def
  by (rule conforming_new_request writes_intros)+

definition deleteGroups_v0_encodeGroups :: "_ \<Rightarrow> writer" where
  "deleteGroups_v0_encodeGroups =
     (\<lambda>group. chain [writeString group])"

definition deleteGroups_v0_request where
  "deleteGroups_v0_request groupIds =
     new_request (api_key ''DeleteGroups'') 0 ''DeleteGroups''
       (chain [write_array_of deleteGroups_v0_encodeGroups groupIds])"

definition deleteGroups_v0_request_layout :: layout where
  "deleteGroups_v0_request_layout =
     STRUCT [(Field ''groupIds'', ARRAY (STRUCT [(Field ''group'', STRING)]))]"

definition deleteGroups_v0_value where
  "deleteGroups_v0_value groupIds =
     WStruct [WArr (Some (map (\<lambda>group. WStruct [WStr group]) groupIds))]"

lemma deleteGroups_v0_conforming [request_specs]:
  "conforming_request ''DeleteGroups'' 0 deleteGroups_v0_request_layout
    (deleteGroups_v0_value groupIds)
    (deleteGroups_v0_request groupIds)"
  unfolding deleteGroups_v0_request_layout_def deleteGroups_v0_value_def deleteGroups_v0_request_def
    deleteGroups_v0_encodeGroups_def
  by (rule conforming_new_request writes_intros)+

definition deleteGroups_v1_request where
  "deleteGroups_v1_request groupIds =
     with_version 1 (deleteGroups_v0_request groupIds)"

lemma deleteGroups_v1_conforming [request_specs]:
  "conforming_request ''DeleteGroups'' 1 deleteGroups_v0_request_layout
    (deleteGroups_v0_value groupIds)
    (deleteGroups_v1_request groupIds)"
  unfolding deleteGroups_v1_request_def
  by (rule conforming_with_version [OF deleteGroups_v0_conforming])

definition deleteGroups_v2_encodeGroups :: "_ \<Rightarrow> writer" where
  "deleteGroups_v2_encodeGroups =
     (\<lambda>group. chain [writeUVarIntString group])"

definition deleteGroups_v2_request where
  "deleteGroups_v2_request groupIds =
     new_request (api_key ''DeleteGroups'') 2 ''DeleteGroups''
       (chain [writeUVarIntBytes BNull, write_uvarint_array_of deleteGroups_v2_encodeGroups (Some groupIds),
          writeUVarIntBytes BNull])"

definition deleteGroups_v2_request_layout :: layout where
  "deleteGroups_v2_request_layout =
     STRUCT [(Skip, TAG_BUFFER), (Field ''groupIds'', COMPACT_ARRAY (STRUCT [(Field ''group'',
       COMPACT_STRING)])), (Skip, TAG_BUFFER)]"

definition deleteGroups_v2_value where
  "deleteGroups_v2_value groupIds =
     WStruct [WTags, WArr (Some (map (\<lambda>group. WStruct [WStr group]) groupIds)), WTags]"

lemma deleteGroups_v2_conforming [request_specs]:
  "conforming_request ''DeleteGroups'' 2 deleteGroups_v2_request_layout
    (deleteGroups_v2_value groupIds)
    (deleteGroups_v2_request groupIds)"
  unfolding deleteGroups_v2_request_layout_def deleteGroups_v2_value_def deleteGroups_v2_request_def
    deleteGroups_v2_encodeGroups_def
  by (rule conforming_new_request writes_intros)+

subsection \<open>Offsets\<close>

definition offsetCommit_v0_encodePartition :: "_ \<Rightarrow> writer" where
  "offsetCommit_v0_encodePartition =
     (\<lambda>(partition, offset, metadata). chain [writeInt32 partition, writeInt64 offset,
       writeString metadata])"

definition offsetCommit_v0_encodeTopic :: "_ \<Rightarrow> writer" where
  "offsetCommit_v0_encodeTopic =
     (\<lambda>(topic, partitions). chain [writeString topic,
       write_array_of offsetCommit_v0_encodePartition partitions])"

definition offsetCommit_v0_request where
  "offsetCommit_v0_request groupId topics =
     new_request (api_key ''OffsetCommit'') 0 ''OffsetCommit''
       (chain [writeString groupId, write_array_of offsetCommit_v0_encodeTopic topics])"

definition offsetCommit_v0_request_layout :: layout where
  "offsetCommit_v0_request_layout =
     STRUCT [(Field ''groupId'', STRING), (Field ''topics'', ARRAY (STRUCT [(Field ''topic'', STRING),
       (Field ''partitions'', ARRAY (STRUCT [(Field ''partition'', INT32), (Field ''offset'', INT64),
       (Field ''metadata'', STRING)]))]))]"

definition offsetCommit_v0_value where
  "offsetCommit_v0_value groupId topics =
     WStruct [WStr groupId, WArr (Some (map (\<lambda>(topic, partitions). WStruct [WStr topic,
       WArr (Some (map (\<lambda>(partition, offset, metadata). WStruct [WInt partition, WInt offset,
       WStr metadata]) partitions))]) topics))]"

lemma offsetCommit_v0_conforming [request_specs]:
  "conforming_request ''OffsetCommit'' 0 offsetCommit_v0_request_layout
    (offsetCommit_v0_value groupId topics)
    (offsetCommit_v0_request groupId topics)"
  unfolding offsetCommit_v0_request_layout_def offsetCommit_v0_value_def offsetCommit_v0_request_def
    offsetCommit_v0_encodeTopic_def offsetCommit_v0_encodePartition_def
  by (rule conforming_new_request writes_intros)+

definition offsetCommit_v1_encodePartition :: "int \<Rightarrow> _ \<Rightarrow> writer" where
  "offsetCommit_v1_encodePartition now =
     (\<lambda>(partition, offset, timestamp, metadata). chain [writeInt32 partition, writeInt64 offset,
       writeInt64 (or_default now timestamp), writeString metadata])"

definition offsetCommit_v1_encodeTopic :: "int \<Rightarrow> _ \<Rightarrow> writer" where
  "offsetCommit_v1_encodeTopic now =
     (\<lambda>(topic, partitions). chain [writeString topic,
       write_array_of (offsetCommit_v1_encodePartition now) partitions])"

definition offsetCommit_v1_request where
  "offsetCommit_v1_request now groupId groupGenerationId memberId topics =
     new_request (api_key ''OffsetCommit'') 1 ''OffsetCommit''
       (chain [writeString groupId, writeInt32 groupGenerationId, writeString memberId,
          write_array_of (offsetCommit_v1_encodeTopic now) topics])"

definition offsetCommit_v1_request_layout :: layout where
  "offsetCommit_v1_request_layout =
     STRUCT [(Field ''groupId'', STRING), (Field ''groupGenerationId'', INT32), (Field ''memberId'', STRING),
       (Field ''topics'', ARRAY (STRUCT [(Field ''topic'', STRING), (Field ''partitions'',
       ARRAY (STRUCT [(Field ''partition'', INT32), (Field ''offset'', INT64), (Field ''timestamp'', INT64),
       (Field ''metadata'', STRING)]))]))]"

definition offsetCommit_v1_value where
  "offsetCommit_v1_value now groupId groupGenerationId memberId topics =
     WStruct [WStr groupId, WInt groupGenerationId, WStr memberId, WArr (Some (map (\<lambda>(topic,
       partitions). WStruct [WStr topic, WArr (Some (map (\<lambda>(partition, offset, timestamp,
       metadata). WStruct [WInt partition, WInt offset, WInt (or_default now timestamp),
       WStr metadata]) partitions))]) topics))]"

lemma offsetCommit_v1_conforming [request_specs]:
  "conforming_request ''OffsetCommit'' 1 offsetCommit_v1_request_layout
    (offsetCommit_v1_value now groupId groupGenerationId memberId topics)
    (offsetCommit_v1_request now groupId groupGenerationId memberId topics)"
  unfolding offsetCommit_v1_request_layout_def offsetCommit_v1_value_def offsetCommit_v1_request_def
    offsetCommit_v1_encodeTopic_def offsetCommit_v1_encodePartition_def
  by (rule conforming_new_request writes_intros)+

definition offsetCommit_v2_encodePartition :: "_ \<Rightarrow> writer" where
  "offsetCommit_v2_encodePartition =
     (\<lambda>(partition, offset, metadata). chain [writeInt32 partition, writeInt64 offset,
       writeString metadata])"

definition offsetCommit_v2_encodeTopic :: "_ \<Rightarrow> writer" where
  "offsetCommit_v2_encodeTopic =
     (\<lambda>(topic, partitions). chain [writeString topic,
       write_array_of offsetCommit_v2_encodePartition partitions])"

definition offsetCommit_v2_request where
  "offsetCommit_v2_request groupId groupGenerationId memberId retentionTime topics =
     new_request (api_key ''OffsetCommit'') 2 ''OffsetCommit''
       (chain [writeString groupId, writeInt32 groupGenerationId, writeString memberId,
          writeInt64 retentionTime, write_array_of offsetCommit_v2_encodeTopic topics])"

definition offsetCommit_v2_request_layout :: layout where
  "offsetCommit_v2_request_layout =
     STRUCT [(Field ''groupId'', STRING), (Field ''groupGenerationId'', INT32), (Field ''memberId'', STRING),
       (Field ''retentionTime'', INT64), (Field ''topics'', ARRAY (STRUCT [(Field ''topic'', STRING),
       (Field ''partitions'', ARRAY (STRUCT [(Field ''partition'', INT32), (Field ''offset'', INT64),
       (Field ''metadata'', STRING)]))]))]"

definition offsetCommit_v2_value where
  "offsetCommit_v2_value groupId groupGenerationId memberId retentionTime topics =
     WStruct [WStr groupId, WInt groupGenerationId, WStr memberId, WInt retentionTime,
       WArr (Some (map (\<lambda>(topic, partitions). WStruct [WStr topic,
       WArr (Some (map (\<lambda>(partition, offset, metadata). WStruct [WInt partition, WInt offset,
       WStr metadata]) partitions))]) topics))]"

lemma offsetCommit_v2_conforming [request_specs]:
  "conforming_request ''OffsetCommit'' 2 offsetCommit_v2_request_layout
    (offsetCommit_v2_value groupId groupGenerationId memberId retentionTime topics)
    (offsetCommit_v2_request groupId groupGenerationId memberId retentionTime topics)"
  unfolding offsetCommit_v2_request_layout_def offsetCommit_v2_value_def offsetCommit_v2_request_def
    offsetCommit_v2_encodeTopic_def offsetCommit_v2_encodePartition_def
  by (rule conforming_new_request writes_intros)+

definition offsetCommit_v3_request where
  "offsetCommit_v3_request groupId groupGenerationId memberId retentionTime topics =
     with_version 3 (offsetCommit_v2_request groupId groupGenerationId memberId retentionTime topics)"

definition offsetCommit_v3_request_layout :: layout where "offsetCommit_v3_request_layout = offsetCommit_v2_request_layout"

lemma offsetCommit_v3_conforming [request_specs]:
  "conforming_request ''OffsetCommit'' 3 offsetCommit_v3_request_layout
    (offsetCommit_v2_value groupId groupGenerationId memberId retentionTime topics)
    (offsetCommit_v3_request groupId groupGenerationId memberId retentionTime topics)"
  unfolding offsetCommit_v3_request_def offsetCommit_v3_request_layout_def
  by (rule conforming_with_version [OF offsetCommit_v2_conforming])

definition offsetCommit_v4_request where
  "offsetCommit_v4_request groupId groupGenerationId memberId retentionTime topics =
     with_version 4 (offsetCommit_v3_request groupId groupGenerationId memberId retentionTime topics)"

definition offsetCommit_v4_request_layout :: layout where "offsetCommit_v4_request_layout = offsetCommit_v3_request_layout"

lemma offsetCommit_v4_conforming [request_specs]:
  "conforming_request ''OffsetCommit'' 4 offsetCommit_v4_request_layout
    (offsetCommit_v2_value groupId groupGenerationId memberId retentionTime topics)
    (offsetCommit_v4_request groupId groupGenerationId memberId retentionTime topics)"
  unfolding offsetCommit_v4_request_def offsetCommit_v4_request_layout_def
  by (rule conforming_with_version [OF offsetCommit_v3_conforming])

definition offsetCommit_v5_encodePartition :: "_ \<Rightarrow> writer" where
  "offsetCommit_v5_encodePartition =
     (\<lambda>(partition, offset, metadata). chain [writeInt32 partition, writeInt64 offset,
       writeString metadata])"

definition offsetCommit_v5_encodeTopic :: "_ \<Rightarrow> writer" where
  "offsetCommit_v5_encodeTopic =
     (\<lambda>(topic, partitions). chain [writeString topic,
       write_array_of offsetCommit_v5_encodePartition partitions])"

definition offsetCommit_v5_request where
  "offsetCommit_v5_request groupId groupGenerationId memberId topics =
     new_request (api_key ''OffsetCommit'') 5 ''OffsetCommit''
       (chain [writeString groupId, writeInt32 groupGenerationId, writeString memberId,
          write_array_of offsetCommit_v5_encodeTopic topics])"

definition offsetCommit_v5_request_layout :: layout where
  "offsetCommit_v5_request_layout =
     STRUCT [(Field ''groupId'', STRING), (Field ''groupGenerationId'', INT32), (Field ''memberId'', STRING),
       (Field ''topics'', ARRAY (STRUCT [(Field ''topic'', STRING), (Field ''partitions'',
       ARRAY (STRUCT [(Field ''partition'', INT32), (Field ''offset'', INT64), (Field ''metadata'',
       STRING)]))]))]"

definition offsetCommit_v5_value where
  "offsetCommit_v5_value groupId groupGenerationId memberId topics =
     WStruct [WStr groupId, WInt groupGenerationId, WStr memberId, WArr (Some (map (\<lambda>(topic,
       partitions). WStruct [WStr topic, WArr (Some (map (\<lambda>(partition, offset,
       metadata). WStruct [WInt partition, WInt offset, WStr metadata]) partitions))]) topics))]"

lemma offsetCommit_v5_conforming [request_specs]:
  "conforming_request ''OffsetCommit'' 5 offsetCommit_v5_request_layout
    (offsetCommit_v5_value groupId groupGenerationId memberId topics)
    (offsetCommit_v5_request groupId groupGenerationId memberId topics)"
  unfolding offsetCommit_v5_request_layout_def offsetCommit_v5_value_def offsetCommit_v5_request_def
    offsetCommit_v5_encodeTopic_def offsetCommit_v5_encodePartition_def
  by (rule conforming_new_request writes_intros)+

definition offsetCommit_v6_encodePartition :: "_ \<Rightarrow> writer" where
  "offsetCommit_v6_encodePartition =
     (\<lambda>(partition, offset, metadata). chain [writeInt32 partition, writeInt64 offset,
       writeUVarIntString metadata, writeUVarIntBytes BNull])"

definition offsetCommit_v6_encodeTopic :: "_ \<Rightarrow> writer" where
  "offsetCommit_v6_encodeTopic =
     (\<lambda>(topic, partitions). chain [writeUVarIntString topic,
       write_uvarint_array_of offsetCommit_v6_encodePartition (Some partitions), writeUVarIntBytes BNull])"

definition offsetCommit_v6_request where
  "offsetCommit_v6_request groupId groupGenerationId memberId topics =
     new_request (api_key ''OffsetCommit'') 6 ''OffsetCommit''
       (chain [writeUVarIntBytes BNull, writeUVarIntString groupId, writeInt32 groupGenerationId,
          writeUVarIntString memberId, write_uvarint_array_of offsetCommit_v6_encodeTopic (Some topics),
          writeUVarIntBytes BNull])"

definition offsetCommit_v6_request_layout :: layout where
  "offsetCommit_v6_request_layout =
     STRUCT [(Skip, TAG_BUFFER), (Field ''groupId'', COMPACT_STRING), (Field ''groupGenerationId'', INT32),
       (Field ''memberId'', COMPACT_STRING), (Field ''topics'', COMPACT_ARRAY (STRUCT [(Field ''topic'',
       COMPACT_STRING), (Field ''partitions'', COMPACT_ARRAY (STRUCT [(Field ''partition'', INT32),
       (Field ''offset'', INT64), (Field ''metadata'', COMPACT_STRING), (Skip, TAG_BUFFER)])), (Skip,
       TAG_BUFFER)])), (Skip, TAG_BUFFER)]"

definition offsetCommit_v6_value where
  "offsetCommit_v6_value groupId groupGenerationId memberId topics =
     WStruct [WTags, WStr groupId, WInt groupGenerationId, WStr memberId, WArr (Some (map (\<lambda>(topic,
       partitions). WStruct [WStr topic, WArr (Some (map (\<lambda>(partition, offset,
       metadata). WStruct [WInt partition, WInt offset, WStr metadata, WTags]) partitions)), WTags]) topics)),
       WTags]"

lemma offsetCommit_v6_conforming [request_specs]:
  "conforming_request ''OffsetCommit'' 6 offsetCommit_v6_request_layout
    (offsetCommit_v6_value groupId groupGenerationId memberId topics)
    (offsetCommit_v6_request groupId groupGenerationId memberId topics)"
  unfolding offsetCommit_v6_request_layout_def offsetCommit_v6_value_def offsetCommit_v6_request_def
    offsetCommit_v6_encodeTopic_def offsetCommit_v6_encodePartition_def
  by (rule conforming_new_request writes_intros)+

definition offsetCommit_v7_encodePartition :: "_ \<Rightarrow> writer" where
  "offsetCommit_v7_encodePartition =
     (\<lambda>(partition, offset, committedLeaderEpoch, metadata). chain [writeInt32 partition,
       writeInt64 offset, writeInt32 (or_default (- 1) committedLeaderEpoch), writeUVarIntString metadata,
       writeUVarIntBytes BNull])"

definition offsetCommit_v7_encodeTopic :: "_ \<Rightarrow> writer" where
  "offsetCommit_v7_encodeTopic =
     (\<lambda>(topic, partitions). chain [writeUVarIntString topic,
       write_uvarint_array_of offsetCommit_v7_encodePartition (Some partitions), writeUVarIntBytes BNull])"

definition offsetCommit_v7_request where
  "offsetCommit_v7_request groupId groupGenerationId memberId groupInstanceId topics =
     new_request (api_key ''OffsetCommit'') 7 ''OffsetCommit''
       (chain [writeUVarIntBytes BNull, writeUVarIntString groupId, writeInt32 groupGenerationId,
          writeUVarIntString memberId, writeUVarIntString groupInstanceId,
          write_uvarint_array_of offsetCommit_v7_encodeTopic (Some topics), writeUVarIntBytes BNull])"

definition offsetCommit_v7_request_layout :: layout where
  "offsetCommit_v7_request_layout =
     STRUCT [(Skip, TAG_BUFFER), (Field ''groupId'', COMPACT_STRING), (Field ''groupGenerationId'', INT32),
       (Field ''memberId'', COMPACT_STRING), (Field ''groupInstanceId'', COMPACT_STRING), (Field ''topics'',
       COMPACT_ARRAY (STRUCT [(Field ''topic'', COMPACT_STRING), (Field ''partitions'',
       COMPACT_ARRAY (STRUCT [(Field ''partition'', INT32), (Field ''offset'', INT64),
       (Field ''committedLeaderEpoch'', INT32), (Field ''metadata'', COMPACT_STRING), (Skip, TAG_BUFFER)])),
       (Skip, TAG_BUFFER)])), (Skip, TAG_BUFFER)]"

definition offsetCommit_v7_value where
  "offsetCommit_v7_value groupId groupGenerationId memberId groupInstanceId topics =
     WStruct [WTags, WStr groupId, WInt groupGenerationId, WStr memberId, WStr groupInstanceId,
       WArr (Some (map (\<lambda>(topic, partitions). WStruct [WStr topic,
       WArr (Some (map (\<lambda>(partition, offset, committedLeaderEpoch, metadata). WStruct [WInt partition,
       WInt offset, WInt (or_default (- 1) committedLeaderEpoch), WStr metadata, WTags]) partitions)),
       WTags]) topics)), WTags]"

lemma offsetCommit_v7_conforming [request_specs]:
  "conforming_request ''OffsetCommit'' 7 offsetCommit_v7_request_layout
    (offsetCommit_v7_value groupId groupGenerationId memberId groupInstanceId topics)
    (offsetCommit_v7_request groupId groupGenerationId memberId groupInstanceId topics)"
  unfolding offsetCommit_v7_request_layout_def offsetCommit_v7_value_def offsetCommit_v7_request_def
    offsetCommit_v7_encodeTopic_def offsetCommit_v7_encodePartition_def
  by (rule conforming_new_request writes_intros)+

definition offsetFetch_v1_encodePartition :: "_ \<Rightarrow> writer" where
  "offsetFetch_v1_encodePartition =
     (\<lambda>partition. chain [writeInt32 partition])"

definition offsetFetch_v1_encodeTopic :: "_ \<Rightarrow> writer" where
  "offsetFetch_v1_encodeTopic =
     (\<lambda>(topic, partitions). chain [writeString topic,
       write_array_of offsetFetch_v1_encodePartition partitions])"

definition offsetFetch_v1_request where
  "offsetFetch_v1_request groupId topics =
     new_request (api_key ''OffsetFetch'') 1 ''OffsetFetch''
       (chain [writeString groupId, write_array_of offsetFetch_v1_encodeTopic topics])"

definition offsetFetch_v1_request_layout :: layout where
  "offsetFetch_v1_request_layout =
     STRUCT [(Field ''groupId'', STRING), (Field ''topics'', ARRAY (STRUCT [(Field ''topic'', STRING),
       (Field ''partitions'', ARRAY (STRUCT [(Field ''partition'', INT32)]))]))]"

definition offsetFetch_v1_value where
  "offsetFetch_v1_value groupId topics =
     WStruct [WStr groupId, WArr (Some (map (\<lambda>(topic, partitions). WStruct [WStr topic,
       WArr (Some (map (\<lambda>partition. WStruct [WInt partition]) partitions))]) topics))]"

lemma offsetFetch_v1_conforming [request_specs]:
  "conforming_request ''OffsetFetch'' 1 offsetFetch_v1_request_layout
    (offsetFetch_v1_value groupId topics)
    (offsetFetch_v1_request groupId topics)"
  unfolding offsetFetch_v1_request_layout_def offsetFetch_v1_value_def offsetFetch_v1_request_def
    offsetFetch_v1_encodeTopic_def offsetFetch_v1_encodePartition_def
  by (rule conforming_new_request writes_intros)+

definition offsetFetch_v2_request where
  "offsetFetch_v2_request groupId topics =
     with_version 2 (offsetFetch_v1_request groupId topics)"

definition offsetFetch_v2_request_layout :: layout where "offsetFetch_v2_request_layout = offsetFetch_v1_request_layout"

lemma offsetFetch_v2_conforming [request_specs]:
  "conforming_request ''OffsetFetch'' 2 offsetFetch_v2_request_layout
    (offsetFetch_v1_value groupId topics)
    (offsetFetch_v2_request groupId topics)"
  unfolding offsetFetch_v2_request_def offsetFetch_v2_request_layout_def
  by (rule conforming_with_version [OF offsetFetch_v1_conforming])

definition offsetFetch_v3_encodePartition :: "_ \<Rightarrow> writer" where
  "offsetFetch_v3_encodePartition =
     (\<lambda>partition. chain [writeInt32 partition])"

definition offsetFetch_v3_encodeTopic :: "_ \<Rightarrow> writer" where
  "offsetFetch_v3_encodeTopic =
     (\<lambda>(topic, partitions). chain [writeString topic,
       write_array_of offsetFetch_v3_encodePartition partitions])"

definition offsetFetch_v3_request where
  "offsetFetch_v3_request groupId topics =
     new_request (api_key ''OffsetFetch'') 3 ''OffsetFetch''
       (chain [writeString groupId, write_nullable_array_of offsetFetch_v3_encodeTopic topics])"

definition offsetFetch_v3_request_layout :: layout where
  "offsetFetch_v3_request_layout =
     STRUCT [(Field ''groupId'', STRING), (Field ''topics'', ARRAY (STRUCT [(Field ''topic'', STRING),
       (Field ''partitions'', ARRAY (STRUCT [(Field ''partition'', INT32)]))]))]"

definition offsetFetch_v3_value where
  "offsetFetch_v3_value groupId topics =
     WStruct [WStr groupId, WArr (nullable (map (\<lambda>(topic, partitions). WStruct [WStr topic,
       WArr (Some (map (\<lambda>partition. WStruct [WInt partition]) partitions))]) topics))]"

lemma offsetFetch_v3_conforming [request_specs]:
  "conforming_request ''OffsetFetch'' 3 offsetFetch_v3_request_layout
    (offsetFetch_v3_value groupId topics)
    (offsetFetch_v3_request groupId topics)"
  unfolding offsetFetch_v3_request_layout_def offsetFetch_v3_value_def offsetFetch_v3_request_def
    offsetFetch_v3_encodeTopic_def offsetFetch_v3_encodePartition_def
  by (rule conforming_new_request writes_intros)+

definition offsetFetch_v4_request where
  "offsetFetch_v4_request groupId topics =
     with_version 4 (offsetFetch_v3_request groupId topics)"

definition offsetFetch_v4_request_layout :: layout where "offsetFetch_v4_request_layout = offsetFetch_v3_request_layout"

lemma offsetFetch_v4_conforming [request_specs]:
  "conforming_request ''OffsetFetch'' 4 offsetFetch_v4_request_layout
    (offsetFetch_v3_value groupId topics)
    (offsetFetch_v4_request groupId topics)"
  unfolding offsetFetch_v4_request_def offsetFetch_v4_request_layout_def
  by (rule conforming_with_version [OF offsetFetch_v3_conforming])

definition offsetFetch_v5_encodePartition :: "_ \<Rightarrow> writer" where
  "offsetFetch_v5_encodePartition =
     (\<lambda>partition. chain [writeInt32 partition, writeUVarIntBytes BNull])"

definition offsetFetch_v5_encodeTopic :: "_ \<Rightarrow> writer" where
  "offsetFetch_v5_encodeTopic =
     (\<lambda>(topic, partitions). chain [writeUVarIntString topic,
       write_uvarint_array_of offsetFetch_v5_encodePartition (Some partitions), writeUVarIntBytes BNull])"

definition offsetFetch_v5_request where
  "offsetFetch_v5_request groupId topics =
     new_request (api_key ''OffsetFetch'') 5 ''OffsetFetch''
       (chain [writeUVarIntBytes BNull, writeUVarIntString groupId,
          write_uvarint_array_of offsetFetch_v5_encodeTopic topics, writeUVarIntBytes BNull])"

definition offsetFetch_v5_request_layout :: layout where
  "offsetFetch_v5_request_layout =
     STRUCT [(Skip, TAG_BUFFER), (Field ''groupId'', COMPACT_STRING), (Field ''topics'',
       COMPACT_ARRAY (STRUCT [(Field ''topic'', COMPACT_STRING), (Field ''partitions'',
       COMPACT_ARRAY (STRUCT [(Field ''partition'', INT32), (Skip, TAG_BUFFER)])), (Skip, TAG_BUFFER)])),
       (Skip, TAG_BUFFER)]"

definition offsetFetch_v5_value where
  "offsetFetch_v5_value groupId topics =
     WStruct [WTags, WStr groupId, WArr (map_option (map (\<lambda>(topic, partitions). WStruct [WStr topic,
       WArr (Some (map (\<lambda>partition. WStruct [WInt partition, WTags]) partitions)), WTags])) topics),
       WTags]"

lemma offsetFetch_v5_conforming [request_specs]:
  "conforming_request ''OffsetFetch'' 5 offsetFetch_v5_request_layout
    (offsetFetch_v5_value groupId topics)
    (offsetFetch_v5_request groupId topics)"
  unfolding offsetFetch_v5_request_layout_def offsetFetch_v5_value_def offsetFetch_v5_request_def
    offsetFetch_v5_encodeTopic_def offsetFetch_v5_encodePartition_def
  by (rule conforming_new_request writes_intros)+

definition offsetDelete_v0_request where
  "offsetDelete_v0_request groupId topics =
     new_request (api_key ''OffsetDelete'') 0 ''OffsetDelete''
       (chain [writeString groupId, write_array_of (\<lambda>(topic, partitions). chain [writeString topic,
          write_array_of (\<lambda>partition. chain [writeInt32 partition]) partitions]) topics])"

definition offsetDelete_v0_request_layout :: layout where
  "offsetDelete_v0_request_layout =
     STRUCT [(Field ''groupId'', STRING), (Field ''topics'', ARRAY (STRUCT [(Field ''topic'', STRING),
       (Field ''partitions'', ARRAY (STRUCT [(Field ''partition'', INT32)]))]))]"

definition offsetDelete_v0_value where
  "offsetDelete_v0_value groupId topics =
     WStruct [WStr groupId, WArr (Some (map (\<lambda>(topic, partitions). WStruct [WStr topic,
       WArr (Some (map (\<lambda>partition. WStruct [WInt partition]) partitions))]) topics))]"

lemma offsetDelete_v0_conforming [request_specs]:
  "conforming_request ''OffsetDelete'' 0 offsetDelete_v0_request_layout
    (offsetDelete_v0_value groupId topics)
    (offsetDelete_v0_request groupId topics)"
  unfolding offsetDelete_v0_request_layout_def offsetDelete_v0_value_def offsetDelete_v0_request_def
  by (rule conforming_new_request writes_intros)+

subsection \<open>All requests\<close>

inductive group_request :: "string \<Rightarrow> int \<Rightarrow> layout \<Rightarrow> wire_value \<Rightarrow> protocol_request \<Rightarrow> bool" where
  "group_request ''JoinGroup'' 0 joinGroup_v0_request_layout
    (joinGroup_v0_value groupId sessionTimeout memberId protocolType groupProtocols)
    (joinGroup_v0_request groupId sessionTimeout memberId protocolType groupProtocols)"
| "group_request ''JoinGroup'' 1 joinGroup_v1_request_layout
    (joinGroup_v1_value groupId sessionTimeout rebalanceTimeout memberId protocolType groupProtocols)
    (joinGroup_v1_request groupId sessionTimeout rebalanceTimeout memberId protocolType groupProtocols)"
| "group_request ''JoinGroup'' 2 joinGroup_v2_request_layout
    (joinGroup_v1_value groupId sessionTimeout rebalanceTimeout memberId protocolType groupProtocols)
    (joinGroup_v2_request groupId sessionTimeout rebalanceTimeout memberId protocolType groupProtocols)"
| "group_request ''JoinGroup'' 3 joinGroup_v3_request_layout
    (joinGroup_v1_value groupId sessionTimeout rebalanceTimeout memberId protocolType groupProtocols)
    (joinGroup_v3_request groupId sessionTimeout rebalanceTimeout memberId protocolType groupProtocols)"
| "group_request ''JoinGroup'' 4 joinGroup_v4_request_layout
    (joinGroup_v1_value groupId sessionTimeout rebalanceTimeout memberId protocolType groupProtocols)
    (joinGroup_v4_request groupId sessionTimeout rebalanceTimeout memberId protocolType groupProtocols)"
| "group_request ''JoinGroup'' 5 joinGroup_v5_request_layout
    (joinGroup_v5_value groupId sessionTimeout rebalanceTimeout memberId groupInstanceId protocolType
      groupProtocols)
    (joinGroup_v5_request groupId sessionTimeout rebalanceTimeout memberId groupInstanceId protocolType
      groupProtocols)"
| "group_request ''JoinGroup'' 6 joinGroup_v6_request_layout
    (joinGroup_v6_value groupId sessionTimeout rebalanceTimeout memberId groupInstanceId protocolType
      groupProtocols)
    (joinGroup_v6_request groupId sessionTimeout rebalanceTimeout memberId groupInstanceId protocolType
      groupProtocols)"
| "group_request ''SyncGroup'' 0 syncGroup_v0_request_layout
    (syncGroup_v0_value groupId generationId memberId groupAssignment)
    (syncGroup_v0_request groupId generationId memberId groupAssignment)"
| "group_request ''SyncGroup'' 1 syncGroup_v1_request_layout
    (syncGroup_v0_value groupId generationId memberId groupAssignment)
    (syncGroup_v1_request groupId generationId memberId groupAssignment)"
| "group_request ''SyncGroup'' 2 syncGroup_v2_request_layout
    (syncGroup_v0_value groupId generationId memberId groupAssignment)
    (syncGroup_v2_request groupId generationId memberId groupAssignment)"
| "group_request ''SyncGroup'' 3 syncGroup_v3_request_layout
    (syncGroup_v3_value groupId generationId memberId groupInstanceId groupAssignment)
    (syncGroup_v3_request groupId generationId memberId groupInstanceId groupAssignment)"
| "group_request ''SyncGroup'' 4 syncGroup_v4_request_layout
    (syncGroup_v4_value groupId generationId memberId groupInstanceId groupAssignment)
    (syncGroup_v4_request groupId generationId memberId groupInstanceId groupAssignment)"
| "group_request ''Heartbeat'' 0 heartbeat_v0_request_layout
    (heartbeat_v0_value groupId groupGenerationId memberId)
    (heartbeat_v0_request groupId groupGenerationId memberId)"
| "group_request ''Heartbeat'' 1 heartbeat_v1_request_layout
    (heartbeat_v0_value groupId groupGenerationId memberId)
    (heartbeat_v1_request groupId groupGenerationId memberId)"
| "group_request ''Heartbeat'' 2 heartbeat_v2_request_layout
    (heartbeat_v0_value groupId groupGenerationId memberId)
    (heartbeat_v2_request groupId groupGenerationId memberId)"
| "group_request ''Heartbeat'' 3 heartbeat_v3_request_layout
    (heartbeat_v3_value groupId groupGenerationId memberId groupInstanceId)
    (heartbeat_v3_request groupId groupGenerationId memberId groupInstanceId)"
| "group_request ''Heartbeat'' 4 heartbeat_v4_request_layout
    (heartbeat_v4_value groupId groupGenerationId memberId groupInstanceId)
    (heartbeat_v4_request groupId groupGenerationId memberId groupInstanceId)"
| "group_request ''LeaveGroup'' 0 leaveGroup_v0_request_layout
    (leaveGroup_v0_value groupId memberId)
    (leaveGroup_v0_request groupId memberId)"
| "group_request ''LeaveGroup'' 1 leaveGroup_v1_request_layout
    (leaveGroup_v0_value groupId memberId)
    (leaveGroup_v1_request groupId memberId)"
| "group_request ''LeaveGroup'' 2 leaveGroup_v2_request_layout
    (leaveGroup_v0_value groupId memberId)
    (leaveGroup_v2_request groupId memberId)"
| "group_request ''LeaveGroup'' 3 leaveGroup_v3_request_layout
    (leaveGroup_v3_value groupId members)
    (leaveGroup_v3_request groupId members)"
| "group_request ''LeaveGroup'' 4 leaveGroup_v4_request_layout
    (leaveGroup_v4_value groupId members)
    (leaveGroup_v4_request groupId members)"
| "group_request ''GroupCoordinator'' 0 findCoordinator_v0_request_layout
    (findCoordinator_v0_value groupId)
    (findCoordinator_v0_request groupId)"
| "group_request ''GroupCoordinator'' 1 findCoordinator_v1_request_layout
    (findCoordinator_v1_value coordinatorKey coordinatorType)
    (findCoordinator_v1_request coordinatorKey coordinatorType)"
| "group_request ''GroupCoordinator'' 2 findCoordinator_v2_request_layout
    (findCoordinator_v1_value coordinatorKey coordinatorType)
    (findCoordinator_v2_request coordinatorKey coordinatorType)"
| "group_request ''GroupCoordinator'' 3 findCoordinator_v3_request_layout
    (findCoordinator_v3_value coordinatorKey coordinatorType)
    (findCoordinator_v3_request coordinatorKey coordinatorType)"
| "group_request ''ListGroups'' 0 listGroups_v0_request_layout
    listGroups_v0_value
    listGroups_v0_request"
| "group_request ''ListGroups'' 1 listGroups_v0_request_layout
    listGroups_v0_value
    listGroups_v1_request"
| "group_request ''ListGroups'' 2 listGroups_v0_request_layout
    listGroups_v0_value
    listGroups_v2_request"
| "group_request ''ListGroups'' 4 listGroups_v4_request_layout
    (listGroups_v4_value statesFilter)
    (listGroups_v4_request statesFilter)"
| "group_request ''DescribeGroups'' 0 describeGroups_v0_request_layout
    (describeGroups_v0_value groupIds)
    (describeGroups_v0_request groupIds)"
| "group_request ''DescribeGroups'' 1 describeGroups_v1_request_layout
    (describeGroups_v0_value groupIds)
    (describeGroups_v1_request groupIds)"
| "group_request ''DescribeGroups'' 2 describeGroups_v2_request_layout
    (describeGroups_v0_value groupIds)
    (describeGroups_v2_request groupIds)"
| "group_request ''DescribeGroups'' 5 describeGroups_v5_request_layout
    (describeGroups_v5_value groupIds includeAuthorizedOperations)
    (describeGroups_v5_request groupIds includeAuthorizedOperations)"
| "group_request ''DeleteGroups'' 0 deleteGroups_v0_request_layout
    (deleteGroups_v0_value groupIds)
    (deleteGroups_v0_request groupIds)"
| "group_request ''DeleteGroups'' 1 deleteGroups_v0_request_layout
    (deleteGroups_v0_value groupIds)
    (deleteGroups_v1_request groupIds)"
| "group_request ''DeleteGroups'' 2 deleteGroups_v2_request_layout
    (deleteGroups_v2_value groupIds)
    (deleteGroups_v2_request groupIds)"
| "group_request ''OffsetCommit'' 0 offsetCommit_v0_request_layout
    (offsetCommit_v0_value groupId topics)
    (offsetCommit_v0_request groupId topics)"
| "group_request ''OffsetCommit'' 1 offsetCommit_v1_request_layout
    (offsetCommit_v1_value now groupId groupGenerationId memberId topics)
    (offsetCommit_v1_request now groupId groupGenerationId memberId topics)"
| "group_request ''OffsetCommit'' 2 offsetCommit_v2_request_layout
    (offsetCommit_v2_value groupId groupGenerationId memberId retentionTime topics)
    (offsetCommit_v2_request groupId groupGenerationId memberId retentionTime topics)"
| "group_request ''OffsetCommit'' 3 offsetCommit_v3_request_layout
    (offsetCommit_v2_value groupId groupGenerationId memberId retentionTime topics)
    (offsetCommit_v3_request groupId groupGenerationId memberId retentionTime topics)"
| "group_request ''OffsetCommit'' 4 offsetCommit_v4_request_layout
    (offsetCommit_v2_value groupId groupGenerationId memberId retentionTime topics)
    (offsetCommit_v4_request groupId groupGenerationId memberId retentionTime topics)"
| "group_request ''OffsetCommit'' 5 offsetCommit_v5_request_layout
    (offsetCommit_v5_value groupId groupGenerationId memberId topics)
    (offsetCommit_v5_request groupId groupGenerationId memberId topics)"
| "group_request ''OffsetCommit'' 6 offsetCommit_v6_request_layout
    (offsetCommit_v6_value groupId groupGenerationId memberId topics)
    (offsetCommit_v6_request groupId groupGenerationId memberId topics)"
| "group_request ''OffsetCommit'' 7 offsetCommit_v7_request_layout
    (offsetCommit_v7_value groupId groupGenerationId memberId groupInstanceId topics)
    (offsetCommit_v7_request groupId groupGenerationId memberId groupInstanceId topics)"
| "group_request ''OffsetFetch'' 1 offsetFetch_v1_request_layout
    (offsetFetch_v1_value groupId topics)
    (offsetFetch_v1_request groupId topics)"
| "group_request ''OffsetFetch'' 2 offsetFetch_v2_request_layout
    (offsetFetch_v1_value groupId topics)
    (offsetFetch_v2_request groupId topics)"
| "group_request ''OffsetFetch'' 3 offsetFetch_v3_request_layout
    (offsetFetch_v3_value groupId topics)
    (offsetFetch_v3_request groupId topics)"
| "group_request ''OffsetFetch'' 4 offsetFetch_v4_request_layout
    (offsetFetch_v3_value groupId topics)
    (offsetFetch_v4_request groupId topics)"
| "group_request ''OffsetFetch'' 5 offsetFetch_v5_request_layout
    (offsetFetch_v5_value groupId topics)
    (offsetFetch_v5_request groupId topics)"
| "group_request ''OffsetDelete'' 0 offsetDelete_v0_request_layout
    (offsetDelete_v0_value groupId topics)
    (offsetDelete_v0_request groupId topics)"

lemma group_request_conforming: "group_request api v t w r \<Longrightarrow> conforming_request api v t w r"
  by (induction rule: group_request.induct) (rule request_specs)+

end
