(* ===== verification/Requests_Data.thy ===== *)
theory Requests_Data
  imports Request_Format
begin

text \<open>
  The encoders of the requests about metadata, fetching, offsets of partitions and transactions: one definition per function of the files
  \<^verbatim>\<open>src/protocol/requests/*/v*/request.js\<close>, the layout of the body, the value of the layout that the
  arguments stand for, and the proof that the encoder writes it. Objects that a function takes apart are tuples of the
  properties it names, in their order; a property with a default value is an option. Requests of the flexible versions
  begin with the tag buffer that ends their header.
\<close>

subsection \<open>Versions and metadata\<close>

definition apiVersions_v0_request where
  "apiVersions_v0_request =
     new_request (api_key ''ApiVersions'') 0 ''ApiVersions''
       (chain [])"

definition apiVersions_v0_request_layout :: layout where
  "apiVersions_v0_request_layout =
     STRUCT []"

definition apiVersions_v0_value where
  "apiVersions_v0_value =
     WStruct []"

lemma apiVersions_v0_conforming [request_specs]:
  "conforming_request ''ApiVersions'' 0 apiVersions_v0_request_layout
    apiVersions_v0_value
    apiVersions_v0_request"
  unfolding apiVersions_v0_request_layout_def apiVersions_v0_value_def apiVersions_v0_request_def
  by (rule conforming_new_request writes_intros)+

definition apiVersions_v1_request where
  "apiVersions_v1_request =
     with_version 1 apiVersions_v0_request"

lemma apiVersions_v1_conforming [request_specs]:
  "conforming_request ''ApiVersions'' 1 apiVersions_v0_request_layout
    apiVersions_v0_value
    apiVersions_v1_request"
  unfolding apiVersions_v1_request_def
  by (rule conforming_with_version [OF apiVersions_v0_conforming])

definition apiVersions_v2_request where
  "apiVersions_v2_request =
     with_version 2 apiVersions_v0_request"

lemma apiVersions_v2_conforming [request_specs]:
  "conforming_request ''ApiVersions'' 2 apiVersions_v0_request_layout
    apiVersions_v0_value
    apiVersions_v2_request"
  unfolding apiVersions_v2_request_def
  by (rule conforming_with_version [OF apiVersions_v0_conforming])

definition apiVersions_v3_request where
  "apiVersions_v3_request clientSoftwareName clientSoftwareVersion =
     new_request (api_key ''ApiVersions'') 3 ''ApiVersions''
       (chain [writeUVarIntBytes BNull, writeUVarIntString (or_default (Some ''kafkajs'') clientSoftwareName),
          writeUVarIntString (or_default (Some '''') clientSoftwareVersion), writeUVarIntBytes BNull])"

definition apiVersions_v3_request_layout :: layout where
  "apiVersions_v3_request_layout =
     STRUCT [(Skip, TAG_BUFFER), (Field ''clientSoftwareName'', COMPACT_STRING),
       (Field ''clientSoftwareVersion'', COMPACT_STRING), (Skip, TAG_BUFFER)]"

definition apiVersions_v3_value where
  "apiVersions_v3_value clientSoftwareName clientSoftwareVersion =
     WStruct [WTags, WStr (or_default (Some ''kafkajs'') clientSoftwareName),
       WStr (or_default (Some '''') clientSoftwareVersion), WTags]"

lemma apiVersions_v3_conforming [request_specs]:
  "conforming_request ''ApiVersions'' 3 apiVersions_v3_request_layout
    (apiVersions_v3_value clientSoftwareName clientSoftwareVersion)
    (apiVersions_v3_request clientSoftwareName clientSoftwareVersion)"
  unfolding apiVersions_v3_request_layout_def apiVersions_v3_value_def apiVersions_v3_request_def
  by (rule conforming_new_request writes_intros)+

definition metadata_v0_request where
  "metadata_v0_request topics =
     new_request (api_key ''Metadata'') 0 ''Metadata''
       (chain [write_strings topics])"

definition metadata_v0_request_layout :: layout where
  "metadata_v0_request_layout =
     STRUCT [(Field ''topics'', ARRAY STRING)]"

definition metadata_v0_value where
  "metadata_v0_value topics =
     WStruct [WArr (Some (map (\<lambda>s. WStr (Some s)) topics))]"

lemma metadata_v0_conforming [request_specs]:
  "conforming_request ''Metadata'' 0 metadata_v0_request_layout
    (metadata_v0_value topics)
    (metadata_v0_request topics)"
  unfolding metadata_v0_request_layout_def metadata_v0_value_def metadata_v0_request_def
  by (rule conforming_new_request writes_intros)+

definition metadata_v1_request where
  "metadata_v1_request topics =
     new_request (api_key ''Metadata'') 1 ''Metadata''
       (chain [write_nullable_strings topics])"

definition metadata_v1_request_layout :: layout where
  "metadata_v1_request_layout =
     STRUCT [(Field ''topics'', ARRAY STRING)]"

definition metadata_v1_value where
  "metadata_v1_value topics =
     WStruct [WArr (nullable (map (\<lambda>s. WStr (Some s)) topics))]"

lemma metadata_v1_conforming [request_specs]:
  "conforming_request ''Metadata'' 1 metadata_v1_request_layout
    (metadata_v1_value topics)
    (metadata_v1_request topics)"
  unfolding metadata_v1_request_layout_def metadata_v1_value_def metadata_v1_request_def
  by (rule conforming_new_request writes_intros)+

definition metadata_v2_request where
  "metadata_v2_request topics =
     with_version 2 (metadata_v1_request topics)"

definition metadata_v2_request_layout :: layout where "metadata_v2_request_layout = metadata_v1_request_layout"

lemma metadata_v2_conforming [request_specs]:
  "conforming_request ''Metadata'' 2 metadata_v2_request_layout
    (metadata_v1_value topics)
    (metadata_v2_request topics)"
  unfolding metadata_v2_request_def metadata_v2_request_layout_def
  by (rule conforming_with_version [OF metadata_v1_conforming])

definition metadata_v3_request where
  "metadata_v3_request topics =
     with_version 3 (metadata_v1_request topics)"

definition metadata_v3_request_layout :: layout where "metadata_v3_request_layout = metadata_v1_request_layout"

lemma metadata_v3_conforming [request_specs]:
  "conforming_request ''Metadata'' 3 metadata_v3_request_layout
    (metadata_v1_value topics)
    (metadata_v3_request topics)"
  unfolding metadata_v3_request_def metadata_v3_request_layout_def
  by (rule conforming_with_version [OF metadata_v1_conforming])

definition metadata_v4_request where
  "metadata_v4_request topics allowAutoTopicCreation =
     new_request (api_key ''Metadata'') 4 ''Metadata''
       (chain [write_nullable_strings topics, writeBoolean (or_default True allowAutoTopicCreation)])"

definition metadata_v4_request_layout :: layout where
  "metadata_v4_request_layout =
     STRUCT [(Field ''topics'', ARRAY STRING), (Field ''allowAutoTopicCreation'', BOOLEAN)]"

definition metadata_v4_value where
  "metadata_v4_value topics allowAutoTopicCreation =
     WStruct [WArr (nullable (map (\<lambda>s. WStr (Some s)) topics)),
       WBool (or_default True allowAutoTopicCreation)]"

lemma metadata_v4_conforming [request_specs]:
  "conforming_request ''Metadata'' 4 metadata_v4_request_layout
    (metadata_v4_value topics allowAutoTopicCreation)
    (metadata_v4_request topics allowAutoTopicCreation)"
  unfolding metadata_v4_request_layout_def metadata_v4_value_def metadata_v4_request_def
  by (rule conforming_new_request writes_intros)+

definition metadata_v5_request where
  "metadata_v5_request topics allowAutoTopicCreation =
     with_version 5 (metadata_v4_request topics (Some (or_default True allowAutoTopicCreation)))"

definition metadata_v5_request_layout :: layout where "metadata_v5_request_layout = metadata_v4_request_layout"

lemma metadata_v5_conforming [request_specs]:
  "conforming_request ''Metadata'' 5 metadata_v5_request_layout
    (metadata_v4_value topics (Some (or_default True allowAutoTopicCreation)))
    (metadata_v5_request topics allowAutoTopicCreation)"
  unfolding metadata_v5_request_def metadata_v5_request_layout_def
  by (rule conforming_with_version [OF metadata_v4_conforming])

definition metadata_v6_request where
  "metadata_v6_request topics allowAutoTopicCreation =
     with_version 6 (metadata_v5_request topics (Some (or_default True allowAutoTopicCreation)))"

definition metadata_v6_request_layout :: layout where "metadata_v6_request_layout = metadata_v5_request_layout"

lemma metadata_v6_conforming [request_specs]:
  "conforming_request ''Metadata'' 6 metadata_v6_request_layout
    (metadata_v4_value topics (Some (or_default True (Some (or_default True allowAutoTopicCreation)))))
    (metadata_v6_request topics allowAutoTopicCreation)"
  unfolding metadata_v6_request_def metadata_v6_request_layout_def
  by (rule conforming_with_version [OF metadata_v5_conforming])

definition metadata_v7_request where
  "metadata_v7_request topics allowAutoTopicCreation =
     with_version 7 (metadata_v6_request topics (Some (or_default True allowAutoTopicCreation)))"

definition metadata_v7_request_layout :: layout where "metadata_v7_request_layout = metadata_v6_request_layout"

lemma metadata_v7_conforming [request_specs]:
  "conforming_request ''Metadata'' 7 metadata_v7_request_layout
    (metadata_v4_value topics (Some (or_default True (Some (or_default True (Some (or_default True
      allowAutoTopicCreation)))))))
    (metadata_v7_request topics allowAutoTopicCreation)"
  unfolding metadata_v7_request_def metadata_v7_request_layout_def
  by (rule conforming_with_version [OF metadata_v6_conforming])

definition describeCluster_v0_request where
  "describeCluster_v0_request includeClusterAuthorizedOperations =
     new_request (api_key ''DescribeCluster'') 0 ''DescribeCluster''
       (chain [writeUVarIntBytes BNull, writeBoolean (or_default False includeClusterAuthorizedOperations),
          writeUVarIntBytes BNull])"

definition describeCluster_v0_request_layout :: layout where
  "describeCluster_v0_request_layout =
     STRUCT [(Skip, TAG_BUFFER), (Field ''includeClusterAuthorizedOperations'', BOOLEAN), (Skip, TAG_BUFFER)]"

definition describeCluster_v0_value where
  "describeCluster_v0_value includeClusterAuthorizedOperations =
     WStruct [WTags, WBool (or_default False includeClusterAuthorizedOperations), WTags]"

lemma describeCluster_v0_conforming [request_specs]:
  "conforming_request ''DescribeCluster'' 0 describeCluster_v0_request_layout
    (describeCluster_v0_value includeClusterAuthorizedOperations)
    (describeCluster_v0_request includeClusterAuthorizedOperations)"
  unfolding describeCluster_v0_request_layout_def describeCluster_v0_value_def describeCluster_v0_request_def
  by (rule conforming_new_request writes_intros)+

definition describeCluster_v1_request where
  "describeCluster_v1_request includeClusterAuthorizedOperations endpointType =
     new_request (api_key ''DescribeCluster'') 1 ''DescribeCluster''
       (chain [writeUVarIntBytes BNull, writeBoolean (or_default False includeClusterAuthorizedOperations),
          writeInt8 (or_default 1 endpointType), writeUVarIntBytes BNull])"

definition describeCluster_v1_request_layout :: layout where
  "describeCluster_v1_request_layout =
     STRUCT [(Skip, TAG_BUFFER), (Field ''includeClusterAuthorizedOperations'', BOOLEAN),
       (Field ''endpointType'', INT8), (Skip, TAG_BUFFER)]"

definition describeCluster_v1_value where
  "describeCluster_v1_value includeClusterAuthorizedOperations endpointType =
     WStruct [WTags, WBool (or_default False includeClusterAuthorizedOperations),
       WInt (or_default 1 endpointType), WTags]"

lemma describeCluster_v1_conforming [request_specs]:
  "conforming_request ''DescribeCluster'' 1 describeCluster_v1_request_layout
    (describeCluster_v1_value includeClusterAuthorizedOperations endpointType)
    (describeCluster_v1_request includeClusterAuthorizedOperations endpointType)"
  unfolding describeCluster_v1_request_layout_def describeCluster_v1_value_def describeCluster_v1_request_def
  by (rule conforming_new_request writes_intros)+

subsection \<open>Producers\<close>

definition initProducerId_v0_request where
  "initProducerId_v0_request transactionalId transactionTimeout =
     new_request (api_key ''InitProducerId'') 0 ''InitProducerId''
       (chain [writeString transactionalId, writeInt32 transactionTimeout])"

definition initProducerId_v0_request_layout :: layout where
  "initProducerId_v0_request_layout =
     STRUCT [(Field ''transactionalId'', STRING), (Field ''transactionTimeout'', INT32)]"

definition initProducerId_v0_value where
  "initProducerId_v0_value transactionalId transactionTimeout =
     WStruct [WStr transactionalId, WInt transactionTimeout]"

lemma initProducerId_v0_conforming [request_specs]:
  "conforming_request ''InitProducerId'' 0 initProducerId_v0_request_layout
    (initProducerId_v0_value transactionalId transactionTimeout)
    (initProducerId_v0_request transactionalId transactionTimeout)"
  unfolding initProducerId_v0_request_layout_def initProducerId_v0_value_def initProducerId_v0_request_def
  by (rule conforming_new_request writes_intros)+

definition initProducerId_v1_request where
  "initProducerId_v1_request transactionalId transactionTimeout =
     with_version 1 (initProducerId_v0_request transactionalId transactionTimeout)"

definition initProducerId_v1_request_layout :: layout where "initProducerId_v1_request_layout = initProducerId_v0_request_layout"

lemma initProducerId_v1_conforming [request_specs]:
  "conforming_request ''InitProducerId'' 1 initProducerId_v1_request_layout
    (initProducerId_v0_value transactionalId transactionTimeout)
    (initProducerId_v1_request transactionalId transactionTimeout)"
  unfolding initProducerId_v1_request_def initProducerId_v1_request_layout_def
  by (rule conforming_with_version [OF initProducerId_v0_conforming])

definition initProducerId_v2_request where
  "initProducerId_v2_request transactionalId transactionTimeout =
     new_request (api_key ''InitProducerId'') 2 ''InitProducerId''
       (chain [writeUVarIntBytes BNull, writeUVarIntString transactionalId, writeInt32 transactionTimeout,
          writeUVarIntBytes BNull])"

definition initProducerId_v2_request_layout :: layout where
  "initProducerId_v2_request_layout =
     STRUCT [(Skip, TAG_BUFFER), (Field ''transactionalId'', COMPACT_STRING), (Field ''transactionTimeout'',
       INT32), (Skip, TAG_BUFFER)]"

definition initProducerId_v2_value where
  "initProducerId_v2_value transactionalId transactionTimeout =
     WStruct [WTags, WStr transactionalId, WInt transactionTimeout, WTags]"

lemma initProducerId_v2_conforming [request_specs]:
  "conforming_request ''InitProducerId'' 2 initProducerId_v2_request_layout
    (initProducerId_v2_value transactionalId transactionTimeout)
    (initProducerId_v2_request transactionalId transactionTimeout)"
  unfolding initProducerId_v2_request_layout_def initProducerId_v2_value_def initProducerId_v2_request_def
  by (rule conforming_new_request writes_intros)+

definition initProducerId_v3_request where
  "initProducerId_v3_request transactionalId transactionTimeout producerId producerEpoch =
     new_request (api_key ''InitProducerId'') 3 ''InitProducerId''
       (chain [writeUVarIntBytes BNull, writeUVarIntString transactionalId, writeInt32 transactionTimeout,
          writeInt64 producerId, writeInt16 producerEpoch, writeUVarIntBytes BNull])"

definition initProducerId_v3_request_layout :: layout where
  "initProducerId_v3_request_layout =
     STRUCT [(Skip, TAG_BUFFER), (Field ''transactionalId'', COMPACT_STRING), (Field ''transactionTimeout'',
       INT32), (Field ''producerId'', INT64), (Field ''producerEpoch'', INT16), (Skip, TAG_BUFFER)]"

definition initProducerId_v3_value where
  "initProducerId_v3_value transactionalId transactionTimeout producerId producerEpoch =
     WStruct [WTags, WStr transactionalId, WInt transactionTimeout, WInt producerId, WInt producerEpoch, WTags]"

lemma initProducerId_v3_conforming [request_specs]:
  "conforming_request ''InitProducerId'' 3 initProducerId_v3_request_layout
    (initProducerId_v3_value transactionalId transactionTimeout producerId producerEpoch)
    (initProducerId_v3_request transactionalId transactionTimeout producerId producerEpoch)"
  unfolding initProducerId_v3_request_layout_def initProducerId_v3_value_def initProducerId_v3_request_def
  by (rule conforming_new_request writes_intros)+

definition describeProducers_v0_encodePartition :: "_ \<Rightarrow> writer" where
  "describeProducers_v0_encodePartition =
     (\<lambda>partition. chain [writeInt32 partition])"

definition describeProducers_v0_encodeTopics :: "_ \<Rightarrow> writer" where
  "describeProducers_v0_encodeTopics =
     (\<lambda>(topic, partitions). chain [writeUVarIntString topic,
       write_uvarint_array_of describeProducers_v0_encodePartition (Some partitions), writeUVarIntBytes BNull])"

definition describeProducers_v0_request where
  "describeProducers_v0_request topics =
     new_request (api_key ''DescribeProducers'') 0 ''DescribeProducers''
       (chain [writeUVarIntBytes BNull, write_uvarint_array_of describeProducers_v0_encodeTopics (Some topics),
          writeUVarIntBytes BNull])"

definition describeProducers_v0_request_layout :: layout where
  "describeProducers_v0_request_layout =
     STRUCT [(Skip, TAG_BUFFER), (Field ''topics'', COMPACT_ARRAY (STRUCT [(Field ''topic'', COMPACT_STRING),
       (Field ''partitions'', COMPACT_ARRAY (STRUCT [(Field ''partition'', INT32)])), (Skip, TAG_BUFFER)])),
       (Skip, TAG_BUFFER)]"

definition describeProducers_v0_value where
  "describeProducers_v0_value topics =
     WStruct [WTags, WArr (Some (map (\<lambda>(topic, partitions). WStruct [WStr topic,
       WArr (Some (map (\<lambda>partition. WStruct [WInt partition]) partitions)), WTags]) topics)), WTags]"

lemma describeProducers_v0_conforming [request_specs]:
  "conforming_request ''DescribeProducers'' 0 describeProducers_v0_request_layout
    (describeProducers_v0_value topics)
    (describeProducers_v0_request topics)"
  unfolding describeProducers_v0_request_layout_def describeProducers_v0_value_def describeProducers_v0_request_def
    describeProducers_v0_encodeTopics_def describeProducers_v0_encodePartition_def
  by (rule conforming_new_request writes_intros)+

subsection \<open>Fetching\<close>

definition fetch_v0_encodePartition :: "_ \<Rightarrow> writer" where
  "fetch_v0_encodePartition =
     (\<lambda>(partition, fetchOffset, maxBytes). chain [writeInt32 partition, writeInt64 fetchOffset,
       writeInt32 maxBytes])"

definition fetch_v0_encodeTopic :: "_ \<Rightarrow> writer" where
  "fetch_v0_encodeTopic =
     (\<lambda>(topic, partitions). chain [writeString topic,
       write_array_of fetch_v0_encodePartition partitions])"

definition fetch_v0_request where
  "fetch_v0_request replicaId maxWaitTime minBytes topics =
     new_request (api_key ''Fetch'') 0 ''Fetch''
       (chain [writeInt32 replicaId, writeInt32 maxWaitTime, writeInt32 minBytes,
          write_array_of fetch_v0_encodeTopic topics])"

definition fetch_v0_request_layout :: layout where
  "fetch_v0_request_layout =
     STRUCT [(Field ''replicaId'', INT32), (Field ''maxWaitTime'', INT32), (Field ''minBytes'', INT32),
       (Field ''topics'', ARRAY (STRUCT [(Field ''topic'', STRING), (Field ''partitions'',
       ARRAY (STRUCT [(Field ''partition'', INT32), (Field ''fetchOffset'', INT64), (Field ''maxBytes'',
       INT32)]))]))]"

definition fetch_v0_value where
  "fetch_v0_value replicaId maxWaitTime minBytes topics =
     WStruct [WInt replicaId, WInt maxWaitTime, WInt minBytes, WArr (Some (map (\<lambda>(topic,
       partitions). WStruct [WStr topic, WArr (Some (map (\<lambda>(partition, fetchOffset,
       maxBytes). WStruct [WInt partition, WInt fetchOffset, WInt maxBytes]) partitions))]) topics))]"

lemma fetch_v0_conforming [request_specs]:
  "conforming_request ''Fetch'' 0 fetch_v0_request_layout
    (fetch_v0_value replicaId maxWaitTime minBytes topics)
    (fetch_v0_request replicaId maxWaitTime minBytes topics)"
  unfolding fetch_v0_request_layout_def fetch_v0_value_def fetch_v0_request_def fetch_v0_encodeTopic_def
    fetch_v0_encodePartition_def
  by (rule conforming_new_request writes_intros)+

definition fetch_v1_request where
  "fetch_v1_request replicaId maxWaitTime minBytes topics =
     with_version 1 (fetch_v0_request replicaId maxWaitTime minBytes topics)"

lemma fetch_v1_conforming [request_specs]:
  "conforming_request ''Fetch'' 1 fetch_v0_request_layout
    (fetch_v0_value replicaId maxWaitTime minBytes topics)
    (fetch_v1_request replicaId maxWaitTime minBytes topics)"
  unfolding fetch_v1_request_def
  by (rule conforming_with_version [OF fetch_v0_conforming])

definition fetch_v2_request where
  "fetch_v2_request replicaId maxWaitTime minBytes topics =
     with_version 2 (fetch_v0_request replicaId maxWaitTime minBytes topics)"

lemma fetch_v2_conforming [request_specs]:
  "conforming_request ''Fetch'' 2 fetch_v0_request_layout
    (fetch_v0_value replicaId maxWaitTime minBytes topics)
    (fetch_v2_request replicaId maxWaitTime minBytes topics)"
  unfolding fetch_v2_request_def
  by (rule conforming_with_version [OF fetch_v0_conforming])

definition fetch_v3_encodePartition :: "_ \<Rightarrow> writer" where
  "fetch_v3_encodePartition =
     (\<lambda>(partition, fetchOffset, maxBytes). chain [writeInt32 partition, writeInt64 fetchOffset,
       writeInt32 maxBytes])"

definition fetch_v3_encodeTopic :: "_ \<Rightarrow> writer" where
  "fetch_v3_encodeTopic =
     (\<lambda>(topic, partitions). chain [writeString topic,
       write_array_of fetch_v3_encodePartition partitions])"

definition fetch_v3_request where
  "fetch_v3_request replicaId maxWaitTime minBytes maxBytes topics =
     new_request (api_key ''Fetch'') 3 ''Fetch''
       (chain [writeInt32 replicaId, writeInt32 maxWaitTime, writeInt32 minBytes, writeInt32 maxBytes,
          write_array_of fetch_v3_encodeTopic topics])"

definition fetch_v3_request_layout :: layout where
  "fetch_v3_request_layout =
     STRUCT [(Field ''replicaId'', INT32), (Field ''maxWaitTime'', INT32), (Field ''minBytes'', INT32),
       (Field ''maxBytes'', INT32), (Field ''topics'', ARRAY (STRUCT [(Field ''topic'', STRING),
       (Field ''partitions'', ARRAY (STRUCT [(Field ''partition'', INT32), (Field ''fetchOffset'', INT64),
       (Field ''maxBytes'', INT32)]))]))]"

definition fetch_v3_value where
  "fetch_v3_value replicaId maxWaitTime minBytes maxBytes topics =
     WStruct [WInt replicaId, WInt maxWaitTime, WInt minBytes, WInt maxBytes, WArr (Some (map (\<lambda>(topic,
       partitions). WStruct [WStr topic, WArr (Some (map (\<lambda>(partition, fetchOffset,
       maxBytes). WStruct [WInt partition, WInt fetchOffset, WInt maxBytes]) partitions))]) topics))]"

lemma fetch_v3_conforming [request_specs]:
  "conforming_request ''Fetch'' 3 fetch_v3_request_layout
    (fetch_v3_value replicaId maxWaitTime minBytes maxBytes topics)
    (fetch_v3_request replicaId maxWaitTime minBytes maxBytes topics)"
  unfolding fetch_v3_request_layout_def fetch_v3_value_def fetch_v3_request_def fetch_v3_encodeTopic_def
    fetch_v3_encodePartition_def
  by (rule conforming_new_request writes_intros)+

definition fetch_v4_encodePartition :: "_ \<Rightarrow> writer" where
  "fetch_v4_encodePartition =
     (\<lambda>(partition, fetchOffset, maxBytes). chain [writeInt32 partition, writeInt64 fetchOffset,
       writeInt32 maxBytes])"

definition fetch_v4_encodeTopic :: "_ \<Rightarrow> writer" where
  "fetch_v4_encodeTopic =
     (\<lambda>(topic, partitions). chain [writeString topic,
       write_array_of fetch_v4_encodePartition partitions])"

definition fetch_v4_request where
  "fetch_v4_request replicaId maxWaitTime minBytes maxBytes topics isolationLevel =
     new_request (api_key ''Fetch'') 4 ''Fetch''
       (chain [writeInt32 replicaId, writeInt32 maxWaitTime, writeInt32 minBytes, writeInt32 maxBytes,
          writeInt8 (or_default READ_COMMITTED isolationLevel), write_array_of fetch_v4_encodeTopic topics])"

definition fetch_v4_request_layout :: layout where
  "fetch_v4_request_layout =
     STRUCT [(Field ''replicaId'', INT32), (Field ''maxWaitTime'', INT32), (Field ''minBytes'', INT32),
       (Field ''maxBytes'', INT32), (Field ''isolationLevel'', INT8), (Field ''topics'',
       ARRAY (STRUCT [(Field ''topic'', STRING), (Field ''partitions'', ARRAY (STRUCT [(Field ''partition'',
       INT32), (Field ''fetchOffset'', INT64), (Field ''maxBytes'', INT32)]))]))]"

definition fetch_v4_value where
  "fetch_v4_value replicaId maxWaitTime minBytes maxBytes topics isolationLevel =
     WStruct [WInt replicaId, WInt maxWaitTime, WInt minBytes, WInt maxBytes,
       WInt (or_default READ_COMMITTED isolationLevel), WArr (Some (map (\<lambda>(topic,
       partitions). WStruct [WStr topic, WArr (Some (map (\<lambda>(partition, fetchOffset,
       maxBytes). WStruct [WInt partition, WInt fetchOffset, WInt maxBytes]) partitions))]) topics))]"

lemma fetch_v4_conforming [request_specs]:
  "conforming_request ''Fetch'' 4 fetch_v4_request_layout
    (fetch_v4_value replicaId maxWaitTime minBytes maxBytes topics isolationLevel)
    (fetch_v4_request replicaId maxWaitTime minBytes maxBytes topics isolationLevel)"
  unfolding fetch_v4_request_layout_def fetch_v4_value_def fetch_v4_request_def fetch_v4_encodeTopic_def
    fetch_v4_encodePartition_def
  by (rule conforming_new_request writes_intros)+

definition fetch_v5_encodePartition :: "_ \<Rightarrow> writer" where
  "fetch_v5_encodePartition =
     (\<lambda>(partition, fetchOffset, logStartOffset, maxBytes). chain [writeInt32 partition,
       writeInt64 fetchOffset, writeInt64 (or_default (- 1) logStartOffset), writeInt32 maxBytes])"

definition fetch_v5_encodeTopic :: "_ \<Rightarrow> writer" where
  "fetch_v5_encodeTopic =
     (\<lambda>(topic, partitions). chain [writeString topic,
       write_array_of fetch_v5_encodePartition partitions])"

definition fetch_v5_request where
  "fetch_v5_request replicaId maxWaitTime minBytes maxBytes topics isolationLevel =
     new_request (api_key ''Fetch'') 5 ''Fetch''
       (chain [writeInt32 replicaId, writeInt32 maxWaitTime, writeInt32 minBytes, writeInt32 maxBytes,
          writeInt8 (or_default READ_COMMITTED isolationLevel), write_array_of fetch_v5_encodeTopic topics])"

definition fetch_v5_request_layout :: layout where
  "fetch_v5_request_layout =
     STRUCT [(Field ''replicaId'', INT32), (Field ''maxWaitTime'', INT32), (Field ''minBytes'', INT32),
       (Field ''maxBytes'', INT32), (Field ''isolationLevel'', INT8), (Field ''topics'',
       ARRAY (STRUCT [(Field ''topic'', STRING), (Field ''partitions'', ARRAY (STRUCT [(Field ''partition'',
       INT32), (Field ''fetchOffset'', INT64), (Field ''logStartOffset'', INT64), (Field ''maxBytes'',
       INT32)]))]))]"

definition fetch_v5_value where
  "fetch_v5_value replicaId maxWaitTime minBytes maxBytes topics isolationLevel =
     WStruct [WInt replicaId, WInt maxWaitTime, WInt minBytes, WInt maxBytes,
       WInt (or_default READ_COMMITTED isolationLevel), WArr (Some (map (\<lambda>(topic,
       partitions). WStruct [WStr topic, WArr (Some (map (\<lambda>(partition, fetchOffset, logStartOffset,
       maxBytes). WStruct [WInt partition, WInt fetchOffset, WInt (or_default (- 1) logStartOffset),
       WInt maxBytes]) partitions))]) topics))]"

lemma fetch_v5_conforming [request_specs]:
  "conforming_request ''Fetch'' 5 fetch_v5_request_layout
    (fetch_v5_value replicaId maxWaitTime minBytes maxBytes topics isolationLevel)
    (fetch_v5_request replicaId maxWaitTime minBytes maxBytes topics isolationLevel)"
  unfolding fetch_v5_request_layout_def fetch_v5_value_def fetch_v5_request_def fetch_v5_encodeTopic_def
    fetch_v5_encodePartition_def
  by (rule conforming_new_request writes_intros)+

definition fetch_v6_request where
  "fetch_v6_request replicaId maxWaitTime minBytes maxBytes topics isolationLevel =
     with_version 6 (fetch_v5_request replicaId maxWaitTime minBytes maxBytes topics (Some (or_default READ_COMMITTED
       isolationLevel)))"

definition fetch_v6_request_layout :: layout where "fetch_v6_request_layout = fetch_v5_request_layout"

lemma fetch_v6_conforming [request_specs]:
  "conforming_request ''Fetch'' 6 fetch_v6_request_layout
    (fetch_v5_value replicaId maxWaitTime minBytes maxBytes topics (Some (or_default READ_COMMITTED
      isolationLevel)))
    (fetch_v6_request replicaId maxWaitTime minBytes maxBytes topics isolationLevel)"
  unfolding fetch_v6_request_def fetch_v6_request_layout_def
  by (rule conforming_with_version [OF fetch_v5_conforming])

definition fetch_v7_encodePartition :: "_ \<Rightarrow> writer" where
  "fetch_v7_encodePartition =
     (\<lambda>(partition, fetchOffset, logStartOffset, maxBytes). chain [writeInt32 partition,
       writeInt64 fetchOffset, writeInt64 (or_default (- 1) logStartOffset), writeInt32 maxBytes])"

definition fetch_v7_encodeTopic :: "_ \<Rightarrow> writer" where
  "fetch_v7_encodeTopic =
     (\<lambda>(topic, partitions). chain [writeString topic,
       write_array_of fetch_v7_encodePartition partitions])"

definition fetch_v7_encodeForgottenTopics :: "_ \<Rightarrow> writer" where
  "fetch_v7_encodeForgottenTopics =
     (\<lambda>(topic, partitions). chain [writeString topic, write_numbers partitions])"

definition fetch_v7_request where
  "fetch_v7_request replicaId maxWaitTime minBytes maxBytes topics isolationLevel sessionId sessionEpoch forgottenTopics =
     new_request (api_key ''Fetch'') 7 ''Fetch''
       (chain [writeInt32 replicaId, writeInt32 maxWaitTime, writeInt32 minBytes, writeInt32 maxBytes,
          writeInt8 (or_default READ_COMMITTED isolationLevel), writeInt32 (or_default 0 sessionId),
          writeInt32 (or_default (- 1) sessionEpoch), write_array_of fetch_v7_encodeTopic topics,
          write_array_of fetch_v7_encodeForgottenTopics (or_default [] forgottenTopics)])"

definition fetch_v7_request_layout :: layout where
  "fetch_v7_request_layout =
     STRUCT [(Field ''replicaId'', INT32), (Field ''maxWaitTime'', INT32), (Field ''minBytes'', INT32),
       (Field ''maxBytes'', INT32), (Field ''isolationLevel'', INT8), (Field ''sessionId'', INT32),
       (Field ''sessionEpoch'', INT32), (Field ''topics'', ARRAY (STRUCT [(Field ''topic'', STRING),
       (Field ''partitions'', ARRAY (STRUCT [(Field ''partition'', INT32), (Field ''fetchOffset'', INT64),
       (Field ''logStartOffset'', INT64), (Field ''maxBytes'', INT32)]))])), (Field ''forgottenTopics'',
       ARRAY (STRUCT [(Field ''topic'', STRING), (Field ''partitions'', ARRAY INT32)]))]"

definition fetch_v7_value where
  "fetch_v7_value replicaId maxWaitTime minBytes maxBytes topics isolationLevel sessionId sessionEpoch forgottenTopics =
     WStruct [WInt replicaId, WInt maxWaitTime, WInt minBytes, WInt maxBytes,
       WInt (or_default READ_COMMITTED isolationLevel), WInt (or_default 0 sessionId),
       WInt (or_default (- 1) sessionEpoch), WArr (Some (map (\<lambda>(topic,
       partitions). WStruct [WStr topic, WArr (Some (map (\<lambda>(partition, fetchOffset, logStartOffset,
       maxBytes). WStruct [WInt partition, WInt fetchOffset, WInt (or_default (- 1) logStartOffset),
       WInt maxBytes]) partitions))]) topics)), WArr (Some (map (\<lambda>(topic,
       partitions). WStruct [WStr topic, WArr (Some (map WInt partitions))]) (or_default [] forgottenTopics)))]"

lemma fetch_v7_conforming [request_specs]:
  "conforming_request ''Fetch'' 7 fetch_v7_request_layout
    (fetch_v7_value replicaId maxWaitTime minBytes maxBytes topics isolationLevel sessionId sessionEpoch
      forgottenTopics)
    (fetch_v7_request replicaId maxWaitTime minBytes maxBytes topics isolationLevel sessionId sessionEpoch
      forgottenTopics)"
  unfolding fetch_v7_request_layout_def fetch_v7_value_def fetch_v7_request_def fetch_v7_encodeForgottenTopics_def
    fetch_v7_encodeTopic_def fetch_v7_encodePartition_def
  by (rule conforming_new_request writes_intros)+

definition fetch_v8_request where
  "fetch_v8_request replicaId maxWaitTime minBytes maxBytes topics isolationLevel sessionId sessionEpoch forgottenTopics =
     with_version 8 (fetch_v7_request replicaId maxWaitTime minBytes maxBytes topics (Some (or_default READ_COMMITTED
       isolationLevel)) (Some (or_default 0 sessionId)) (Some (or_default (- 1) sessionEpoch)) (Some (or_default
       [] forgottenTopics)))"

definition fetch_v8_request_layout :: layout where "fetch_v8_request_layout = fetch_v7_request_layout"

lemma fetch_v8_conforming [request_specs]:
  "conforming_request ''Fetch'' 8 fetch_v8_request_layout
    (fetch_v7_value replicaId maxWaitTime minBytes maxBytes topics (Some (or_default READ_COMMITTED
      isolationLevel)) (Some (or_default 0 sessionId)) (Some (or_default (- 1) sessionEpoch)) (Some (or_default
      [] forgottenTopics)))
    (fetch_v8_request replicaId maxWaitTime minBytes maxBytes topics isolationLevel sessionId sessionEpoch
      forgottenTopics)"
  unfolding fetch_v8_request_def fetch_v8_request_layout_def
  by (rule conforming_with_version [OF fetch_v7_conforming])

definition fetch_v9_encodePartition :: "_ \<Rightarrow> writer" where
  "fetch_v9_encodePartition =
     (\<lambda>(partition, currentLeaderEpoch, fetchOffset, logStartOffset,
       maxBytes). chain [writeInt32 partition, writeInt32 (or_default (- 1) currentLeaderEpoch),
       writeInt64 fetchOffset, writeInt64 (or_default (- 1) logStartOffset), writeInt32 maxBytes])"

definition fetch_v9_encodeTopic :: "_ \<Rightarrow> writer" where
  "fetch_v9_encodeTopic =
     (\<lambda>(topic, partitions). chain [writeString topic,
       write_array_of fetch_v9_encodePartition partitions])"

definition fetch_v9_encodeForgottenTopics :: "_ \<Rightarrow> writer" where
  "fetch_v9_encodeForgottenTopics =
     (\<lambda>(topic, partitions). chain [writeString topic, write_numbers partitions])"

definition fetch_v9_request where
  "fetch_v9_request replicaId maxWaitTime minBytes maxBytes topics isolationLevel sessionId sessionEpoch forgottenTopics =
     new_request (api_key ''Fetch'') 9 ''Fetch''
       (chain [writeInt32 replicaId, writeInt32 maxWaitTime, writeInt32 minBytes, writeInt32 maxBytes,
          writeInt8 (or_default READ_COMMITTED isolationLevel), writeInt32 (or_default 0 sessionId),
          writeInt32 (or_default (- 1) sessionEpoch), write_array_of fetch_v9_encodeTopic topics,
          write_array_of fetch_v9_encodeForgottenTopics (or_default [] forgottenTopics)])"

definition fetch_v9_request_layout :: layout where
  "fetch_v9_request_layout =
     STRUCT [(Field ''replicaId'', INT32), (Field ''maxWaitTime'', INT32), (Field ''minBytes'', INT32),
       (Field ''maxBytes'', INT32), (Field ''isolationLevel'', INT8), (Field ''sessionId'', INT32),
       (Field ''sessionEpoch'', INT32), (Field ''topics'', ARRAY (STRUCT [(Field ''topic'', STRING),
       (Field ''partitions'', ARRAY (STRUCT [(Field ''partition'', INT32), (Field ''currentLeaderEpoch'',
       INT32), (Field ''fetchOffset'', INT64), (Field ''logStartOffset'', INT64), (Field ''maxBytes'',
       INT32)]))])), (Field ''forgottenTopics'', ARRAY (STRUCT [(Field ''topic'', STRING),
       (Field ''partitions'', ARRAY INT32)]))]"

definition fetch_v9_value where
  "fetch_v9_value replicaId maxWaitTime minBytes maxBytes topics isolationLevel sessionId sessionEpoch forgottenTopics =
     WStruct [WInt replicaId, WInt maxWaitTime, WInt minBytes, WInt maxBytes,
       WInt (or_default READ_COMMITTED isolationLevel), WInt (or_default 0 sessionId),
       WInt (or_default (- 1) sessionEpoch), WArr (Some (map (\<lambda>(topic,
       partitions). WStruct [WStr topic, WArr (Some (map (\<lambda>(partition, currentLeaderEpoch, fetchOffset,
       logStartOffset, maxBytes). WStruct [WInt partition, WInt (or_default (- 1) currentLeaderEpoch),
       WInt fetchOffset, WInt (or_default (- 1) logStartOffset), WInt maxBytes]) partitions))]) topics)),
       WArr (Some (map (\<lambda>(topic, partitions). WStruct [WStr topic,
       WArr (Some (map WInt partitions))]) (or_default [] forgottenTopics)))]"

lemma fetch_v9_conforming [request_specs]:
  "conforming_request ''Fetch'' 9 fetch_v9_request_layout
    (fetch_v9_value replicaId maxWaitTime minBytes maxBytes topics isolationLevel sessionId sessionEpoch
      forgottenTopics)
    (fetch_v9_request replicaId maxWaitTime minBytes maxBytes topics isolationLevel sessionId sessionEpoch
      forgottenTopics)"
  unfolding fetch_v9_request_layout_def fetch_v9_value_def fetch_v9_request_def fetch_v9_encodeForgottenTopics_def
    fetch_v9_encodeTopic_def fetch_v9_encodePartition_def
  by (rule conforming_new_request writes_intros)+

definition fetch_v10_request where
  "fetch_v10_request replicaId maxWaitTime minBytes maxBytes topics isolationLevel sessionId sessionEpoch forgottenTopics =
     with_version 10 (fetch_v9_request replicaId maxWaitTime minBytes maxBytes topics (Some (or_default READ_COMMITTED
       isolationLevel)) (Some (or_default 0 sessionId)) (Some (or_default (- 1) sessionEpoch)) (Some (or_default
       [] forgottenTopics)))"

definition fetch_v10_request_layout :: layout where "fetch_v10_request_layout = fetch_v9_request_layout"

lemma fetch_v10_conforming [request_specs]:
  "conforming_request ''Fetch'' 10 fetch_v10_request_layout
    (fetch_v9_value replicaId maxWaitTime minBytes maxBytes topics (Some (or_default READ_COMMITTED
      isolationLevel)) (Some (or_default 0 sessionId)) (Some (or_default (- 1) sessionEpoch)) (Some (or_default
      [] forgottenTopics)))
    (fetch_v10_request replicaId maxWaitTime minBytes maxBytes topics isolationLevel sessionId sessionEpoch
      forgottenTopics)"
  unfolding fetch_v10_request_def fetch_v10_request_layout_def
  by (rule conforming_with_version [OF fetch_v9_conforming])

definition fetch_v11_encodePartition :: "_ \<Rightarrow> writer" where
  "fetch_v11_encodePartition =
     (\<lambda>(partition, currentLeaderEpoch, fetchOffset, logStartOffset,
       maxBytes). chain [writeInt32 partition, writeInt32 (or_default (- 1) currentLeaderEpoch),
       writeInt64 fetchOffset, writeInt64 (or_default (- 1) logStartOffset), writeInt32 maxBytes])"

definition fetch_v11_encodeTopic :: "_ \<Rightarrow> writer" where
  "fetch_v11_encodeTopic =
     (\<lambda>(topic, partitions). chain [writeString topic,
       write_array_of fetch_v11_encodePartition partitions])"

definition fetch_v11_encodeForgottenTopics :: "_ \<Rightarrow> writer" where
  "fetch_v11_encodeForgottenTopics =
     (\<lambda>(topic, partitions). chain [writeString topic, write_numbers partitions])"

definition fetch_v11_request where
  "fetch_v11_request replicaId maxWaitTime minBytes maxBytes topics rackId isolationLevel sessionId sessionEpoch forgottenTopics =
     new_request (api_key ''Fetch'') 11 ''Fetch''
       (chain [writeInt32 replicaId, writeInt32 maxWaitTime, writeInt32 minBytes, writeInt32 maxBytes,
          writeInt8 (or_default READ_COMMITTED isolationLevel), writeInt32 (or_default 0 sessionId),
          writeInt32 (or_default (- 1) sessionEpoch), write_array_of fetch_v11_encodeTopic topics,
          write_array_of fetch_v11_encodeForgottenTopics (or_default [] forgottenTopics),
          writeString (or_default (Some '''') rackId)])"

definition fetch_v11_request_layout :: layout where
  "fetch_v11_request_layout =
     STRUCT [(Field ''replicaId'', INT32), (Field ''maxWaitTime'', INT32), (Field ''minBytes'', INT32),
       (Field ''maxBytes'', INT32), (Field ''isolationLevel'', INT8), (Field ''sessionId'', INT32),
       (Field ''sessionEpoch'', INT32), (Field ''topics'', ARRAY (STRUCT [(Field ''topic'', STRING),
       (Field ''partitions'', ARRAY (STRUCT [(Field ''partition'', INT32), (Field ''currentLeaderEpoch'',
       INT32), (Field ''fetchOffset'', INT64), (Field ''logStartOffset'', INT64), (Field ''maxBytes'',
       INT32)]))])), (Field ''forgottenTopics'', ARRAY (STRUCT [(Field ''topic'', STRING),
       (Field ''partitions'', ARRAY INT32)])), (Field ''rackId'', STRING)]"

definition fetch_v11_value where
  "fetch_v11_value replicaId maxWaitTime minBytes maxBytes topics rackId isolationLevel sessionId sessionEpoch forgottenTopics =
     WStruct [WInt replicaId, WInt maxWaitTime, WInt minBytes, WInt maxBytes,
       WInt (or_default READ_COMMITTED isolationLevel), WInt (or_default 0 sessionId),
       WInt (or_default (- 1) sessionEpoch), WArr (Some (map (\<lambda>(topic,
       partitions). WStruct [WStr topic, WArr (Some (map (\<lambda>(partition, currentLeaderEpoch, fetchOffset,
       logStartOffset, maxBytes). WStruct [WInt partition, WInt (or_default (- 1) currentLeaderEpoch),
       WInt fetchOffset, WInt (or_default (- 1) logStartOffset), WInt maxBytes]) partitions))]) topics)),
       WArr (Some (map (\<lambda>(topic, partitions). WStruct [WStr topic,
       WArr (Some (map WInt partitions))]) (or_default [] forgottenTopics))),
       WStr (or_default (Some '''') rackId)]"

lemma fetch_v11_conforming [request_specs]:
  "conforming_request ''Fetch'' 11 fetch_v11_request_layout
    (fetch_v11_value replicaId maxWaitTime minBytes maxBytes topics rackId isolationLevel sessionId
      sessionEpoch forgottenTopics)
    (fetch_v11_request replicaId maxWaitTime minBytes maxBytes topics rackId isolationLevel sessionId
      sessionEpoch forgottenTopics)"
  unfolding fetch_v11_request_layout_def fetch_v11_value_def fetch_v11_request_def fetch_v11_encodeForgottenTopics_def
    fetch_v11_encodeTopic_def fetch_v11_encodePartition_def
  by (rule conforming_new_request writes_intros)+

definition fetch_v12_encodePartition :: "_ \<Rightarrow> writer" where
  "fetch_v12_encodePartition =
     (\<lambda>(partition, currentLeaderEpoch, fetchOffset, lastFetchedEpoch, logStartOffset,
       maxBytes). chain [writeInt32 partition, writeInt32 (or_default (- 1) currentLeaderEpoch),
       writeInt64 fetchOffset, writeInt32 (or_default (- 1) lastFetchedEpoch),
       writeInt64 (or_default (- 1) logStartOffset), writeInt32 maxBytes, writeUVarIntBytes BNull])"

definition fetch_v12_encodeTopic :: "_ \<Rightarrow> writer" where
  "fetch_v12_encodeTopic =
     (\<lambda>(topic, partitions). chain [writeUVarIntString topic,
       write_uvarint_array_of fetch_v12_encodePartition (Some partitions), writeUVarIntBytes BNull])"

definition fetch_v12_encodeForgottenTopics :: "_ \<Rightarrow> writer" where
  "fetch_v12_encodeForgottenTopics =
     (\<lambda>(topic, partitions). chain [writeUVarIntString topic,
       write_uvarint_array_of (\<lambda>p. chain [writeInt32 p]) (Some partitions), writeUVarIntBytes BNull])"

definition fetch_v12_request where
  "fetch_v12_request replicaId maxWaitTime minBytes maxBytes topics rackId isolationLevel sessionId sessionEpoch forgottenTopics =
     new_request (api_key ''Fetch'') 12 ''Fetch''
       (chain [writeUVarIntBytes BNull, writeInt32 replicaId, writeInt32 maxWaitTime, writeInt32 minBytes,
          writeInt32 maxBytes, writeInt8 (or_default READ_COMMITTED isolationLevel),
          writeInt32 (or_default 0 sessionId), writeInt32 (or_default (- 1) sessionEpoch),
          write_uvarint_array_of fetch_v12_encodeTopic (Some topics),
          write_uvarint_array_of fetch_v12_encodeForgottenTopics (Some (or_default [] forgottenTopics)),
          writeUVarIntString (or_default (Some '''') rackId), writeUVarIntBytes BNull])"

definition fetch_v12_request_layout :: layout where
  "fetch_v12_request_layout =
     STRUCT [(Skip, TAG_BUFFER), (Field ''replicaId'', INT32), (Field ''maxWaitTime'', INT32),
       (Field ''minBytes'', INT32), (Field ''maxBytes'', INT32), (Field ''isolationLevel'', INT8),
       (Field ''sessionId'', INT32), (Field ''sessionEpoch'', INT32), (Field ''topics'',
       COMPACT_ARRAY (STRUCT [(Field ''topic'', COMPACT_STRING), (Field ''partitions'',
       COMPACT_ARRAY (STRUCT [(Field ''partition'', INT32), (Field ''currentLeaderEpoch'', INT32),
       (Field ''fetchOffset'', INT64), (Field ''lastFetchedEpoch'', INT32), (Field ''logStartOffset'', INT64),
       (Field ''maxBytes'', INT32), (Skip, TAG_BUFFER)])), (Skip, TAG_BUFFER)])), (Field ''forgottenTopics'',
       COMPACT_ARRAY (STRUCT [(Field ''topic'', COMPACT_STRING), (Field ''partitions'',
       COMPACT_ARRAY (STRUCT [(Field ''p'', INT32)])), (Skip, TAG_BUFFER)])), (Field ''rackId'',
       COMPACT_STRING), (Skip, TAG_BUFFER)]"

definition fetch_v12_value where
  "fetch_v12_value replicaId maxWaitTime minBytes maxBytes topics rackId isolationLevel sessionId sessionEpoch forgottenTopics =
     WStruct [WTags, WInt replicaId, WInt maxWaitTime, WInt minBytes, WInt maxBytes,
       WInt (or_default READ_COMMITTED isolationLevel), WInt (or_default 0 sessionId),
       WInt (or_default (- 1) sessionEpoch), WArr (Some (map (\<lambda>(topic,
       partitions). WStruct [WStr topic, WArr (Some (map (\<lambda>(partition, currentLeaderEpoch, fetchOffset,
       lastFetchedEpoch, logStartOffset, maxBytes). WStruct [WInt partition,
       WInt (or_default (- 1) currentLeaderEpoch), WInt fetchOffset, WInt (or_default (- 1) lastFetchedEpoch),
       WInt (or_default (- 1) logStartOffset), WInt maxBytes, WTags]) partitions)), WTags]) topics)),
       WArr (Some (map (\<lambda>(topic, partitions). WStruct [WStr topic,
       WArr (Some (map (\<lambda>p. WStruct [WInt p]) partitions)), WTags]) (or_default [] forgottenTopics))),
       WStr (or_default (Some '''') rackId), WTags]"

lemma fetch_v12_conforming [request_specs]:
  "conforming_request ''Fetch'' 12 fetch_v12_request_layout
    (fetch_v12_value replicaId maxWaitTime minBytes maxBytes topics rackId isolationLevel sessionId
      sessionEpoch forgottenTopics)
    (fetch_v12_request replicaId maxWaitTime minBytes maxBytes topics rackId isolationLevel sessionId
      sessionEpoch forgottenTopics)"
  unfolding fetch_v12_request_layout_def fetch_v12_value_def fetch_v12_request_def fetch_v12_encodeForgottenTopics_def
    fetch_v12_encodeTopic_def fetch_v12_encodePartition_def
  by (rule conforming_new_request writes_intros)+

definition listOffsets_v0_encodePartition :: "_ \<Rightarrow> writer" where
  "listOffsets_v0_encodePartition =
     (\<lambda>(partition, timestamp, maxNumOffsets). chain [writeInt32 partition,
       writeInt64 (or_default (- 1) timestamp), writeInt32 (or_default 1 maxNumOffsets)])"

definition listOffsets_v0_encodeTopic :: "_ \<Rightarrow> writer" where
  "listOffsets_v0_encodeTopic =
     (\<lambda>(topic, partitions). chain [writeString topic,
       write_array_of listOffsets_v0_encodePartition partitions])"

definition listOffsets_v0_request where
  "listOffsets_v0_request replicaId topics =
     new_request (api_key ''ListOffsets'') 0 ''ListOffsets''
       (chain [writeInt32 replicaId, write_array_of listOffsets_v0_encodeTopic topics])"

definition listOffsets_v0_request_layout :: layout where
  "listOffsets_v0_request_layout =
     STRUCT [(Field ''replicaId'', INT32), (Field ''topics'', ARRAY (STRUCT [(Field ''topic'', STRING),
       (Field ''partitions'', ARRAY (STRUCT [(Field ''partition'', INT32), (Field ''timestamp'', INT64),
       (Field ''maxNumOffsets'', INT32)]))]))]"

definition listOffsets_v0_value where
  "listOffsets_v0_value replicaId topics =
     WStruct [WInt replicaId, WArr (Some (map (\<lambda>(topic, partitions). WStruct [WStr topic,
       WArr (Some (map (\<lambda>(partition, timestamp, maxNumOffsets). WStruct [WInt partition,
       WInt (or_default (- 1) timestamp), WInt (or_default 1 maxNumOffsets)]) partitions))]) topics))]"

lemma listOffsets_v0_conforming [request_specs]:
  "conforming_request ''ListOffsets'' 0 listOffsets_v0_request_layout
    (listOffsets_v0_value replicaId topics)
    (listOffsets_v0_request replicaId topics)"
  unfolding listOffsets_v0_request_layout_def listOffsets_v0_value_def listOffsets_v0_request_def
    listOffsets_v0_encodeTopic_def listOffsets_v0_encodePartition_def
  by (rule conforming_new_request writes_intros)+

definition listOffsets_v1_encodePartition :: "_ \<Rightarrow> writer" where
  "listOffsets_v1_encodePartition =
     (\<lambda>(partition, timestamp). chain [writeInt32 partition, writeInt64 (or_default (- 1) timestamp)])"

definition listOffsets_v1_encodeTopic :: "_ \<Rightarrow> writer" where
  "listOffsets_v1_encodeTopic =
     (\<lambda>(topic, partitions). chain [writeString topic,
       write_array_of listOffsets_v1_encodePartition partitions])"

definition listOffsets_v1_request where
  "listOffsets_v1_request replicaId topics =
     new_request (api_key ''ListOffsets'') 1 ''ListOffsets''
       (chain [writeInt32 replicaId, write_array_of listOffsets_v1_encodeTopic topics])"

definition listOffsets_v1_request_layout :: layout where
  "listOffsets_v1_request_layout =
     STRUCT [(Field ''replicaId'', INT32), (Field ''topics'', ARRAY (STRUCT [(Field ''topic'', STRING),
       (Field ''partitions'', ARRAY (STRUCT [(Field ''partition'', INT32), (Field ''timestamp'', INT64)]))]))]"

definition listOffsets_v1_value where
  "listOffsets_v1_value replicaId topics =
     WStruct [WInt replicaId, WArr (Some (map (\<lambda>(topic, partitions). WStruct [WStr topic,
       WArr (Some (map (\<lambda>(partition, timestamp). WStruct [WInt partition,
       WInt (or_default (- 1) timestamp)]) partitions))]) topics))]"

lemma listOffsets_v1_conforming [request_specs]:
  "conforming_request ''ListOffsets'' 1 listOffsets_v1_request_layout
    (listOffsets_v1_value replicaId topics)
    (listOffsets_v1_request replicaId topics)"
  unfolding listOffsets_v1_request_layout_def listOffsets_v1_value_def listOffsets_v1_request_def
    listOffsets_v1_encodeTopic_def listOffsets_v1_encodePartition_def
  by (rule conforming_new_request writes_intros)+

definition listOffsets_v2_encodePartition :: "_ \<Rightarrow> writer" where
  "listOffsets_v2_encodePartition =
     (\<lambda>(partition, timestamp). chain [writeInt32 partition, writeInt64 (or_default (- 1) timestamp)])"

definition listOffsets_v2_encodeTopic :: "_ \<Rightarrow> writer" where
  "listOffsets_v2_encodeTopic =
     (\<lambda>(topic, partitions). chain [writeString topic,
       write_array_of listOffsets_v2_encodePartition partitions])"

definition listOffsets_v2_request where
  "listOffsets_v2_request replicaId isolationLevel topics =
     new_request (api_key ''ListOffsets'') 2 ''ListOffsets''
       (chain [writeInt32 replicaId, writeInt8 isolationLevel, write_array_of listOffsets_v2_encodeTopic topics])"

definition listOffsets_v2_request_layout :: layout where
  "listOffsets_v2_request_layout =
     STRUCT [(Field ''replicaId'', INT32), (Field ''isolationLevel'', INT8), (Field ''topics'',
       ARRAY (STRUCT [(Field ''topic'', STRING), (Field ''partitions'', ARRAY (STRUCT [(Field ''partition'',
       INT32), (Field ''timestamp'', INT64)]))]))]"

definition listOffsets_v2_value where
  "listOffsets_v2_value replicaId isolationLevel topics =
     WStruct [WInt replicaId, WInt isolationLevel, WArr (Some (map (\<lambda>(topic,
       partitions). WStruct [WStr topic, WArr (Some (map (\<lambda>(partition,
       timestamp). WStruct [WInt partition, WInt (or_default (- 1) timestamp)]) partitions))]) topics))]"

lemma listOffsets_v2_conforming [request_specs]:
  "conforming_request ''ListOffsets'' 2 listOffsets_v2_request_layout
    (listOffsets_v2_value replicaId isolationLevel topics)
    (listOffsets_v2_request replicaId isolationLevel topics)"
  unfolding listOffsets_v2_request_layout_def listOffsets_v2_value_def listOffsets_v2_request_def
    listOffsets_v2_encodeTopic_def listOffsets_v2_encodePartition_def
  by (rule conforming_new_request writes_intros)+

definition listOffsets_v3_request where
  "listOffsets_v3_request replicaId isolationLevel topics =
     with_version 3 (listOffsets_v2_request replicaId isolationLevel topics)"

definition listOffsets_v3_request_layout :: layout where "listOffsets_v3_request_layout = listOffsets_v2_request_layout"

lemma listOffsets_v3_conforming [request_specs]:
  "conforming_request ''ListOffsets'' 3 listOffsets_v3_request_layout
    (listOffsets_v2_value replicaId isolationLevel topics)
    (listOffsets_v3_request replicaId isolationLevel topics)"
  unfolding listOffsets_v3_request_def listOffsets_v3_request_layout_def
  by (rule conforming_with_version [OF listOffsets_v2_conforming])

definition listOffsets_v4_encodePartition :: "_ \<Rightarrow> writer" where
  "listOffsets_v4_encodePartition =
     (\<lambda>(partition, currentLeaderEpoch, timestamp). chain [writeInt32 partition,
       writeInt32 (or_default (- 1) currentLeaderEpoch), writeInt64 (or_default (- 1) timestamp)])"

definition listOffsets_v4_encodeTopic :: "_ \<Rightarrow> writer" where
  "listOffsets_v4_encodeTopic =
     (\<lambda>(topic, partitions). chain [writeString topic,
       write_array_of listOffsets_v4_encodePartition partitions])"

definition listOffsets_v4_request where
  "listOffsets_v4_request replicaId isolationLevel topics =
     new_request (api_key ''ListOffsets'') 4 ''ListOffsets''
       (chain [writeInt32 replicaId, writeInt8 isolationLevel, write_array_of listOffsets_v4_encodeTopic topics])"

definition listOffsets_v4_request_layout :: layout where
  "listOffsets_v4_request_layout =
     STRUCT [(Field ''replicaId'', INT32), (Field ''isolationLevel'', INT8), (Field ''topics'',
       ARRAY (STRUCT [(Field ''topic'', STRING), (Field ''partitions'', ARRAY (STRUCT [(Field ''partition'',
       INT32), (Field ''currentLeaderEpoch'', INT32), (Field ''timestamp'', INT64)]))]))]"

definition listOffsets_v4_value where
  "listOffsets_v4_value replicaId isolationLevel topics =
     WStruct [WInt replicaId, WInt isolationLevel, WArr (Some (map (\<lambda>(topic,
       partitions). WStruct [WStr topic, WArr (Some (map (\<lambda>(partition, currentLeaderEpoch,
       timestamp). WStruct [WInt partition, WInt (or_default (- 1) currentLeaderEpoch),
       WInt (or_default (- 1) timestamp)]) partitions))]) topics))]"

lemma listOffsets_v4_conforming [request_specs]:
  "conforming_request ''ListOffsets'' 4 listOffsets_v4_request_layout
    (listOffsets_v4_value replicaId isolationLevel topics)
    (listOffsets_v4_request replicaId isolationLevel topics)"
  unfolding listOffsets_v4_request_layout_def listOffsets_v4_value_def listOffsets_v4_request_def
    listOffsets_v4_encodeTopic_def listOffsets_v4_encodePartition_def
  by (rule conforming_new_request writes_intros)+

definition offsetForLeaderEpoch_v0_encodePartition :: "_ \<Rightarrow> writer" where
  "offsetForLeaderEpoch_v0_encodePartition =
     (\<lambda>(partition, leaderEpoch). chain [writeInt32 partition, writeInt32 leaderEpoch])"

definition offsetForLeaderEpoch_v0_encodeTopic :: "_ \<Rightarrow> writer" where
  "offsetForLeaderEpoch_v0_encodeTopic =
     (\<lambda>(topic, partitions). chain [writeString topic,
       write_array_of offsetForLeaderEpoch_v0_encodePartition partitions])"

definition offsetForLeaderEpoch_v0_request where
  "offsetForLeaderEpoch_v0_request topics =
     new_request (api_key ''OffsetForLeaderEpoch'') 0 ''OffsetForLeaderEpoch''
       (chain [write_array_of offsetForLeaderEpoch_v0_encodeTopic topics])"

definition offsetForLeaderEpoch_v0_request_layout :: layout where
  "offsetForLeaderEpoch_v0_request_layout =
     STRUCT [(Field ''topics'', ARRAY (STRUCT [(Field ''topic'', STRING), (Field ''partitions'',
       ARRAY (STRUCT [(Field ''partition'', INT32), (Field ''leaderEpoch'', INT32)]))]))]"

definition offsetForLeaderEpoch_v0_value where
  "offsetForLeaderEpoch_v0_value topics =
     WStruct [WArr (Some (map (\<lambda>(topic, partitions). WStruct [WStr topic,
       WArr (Some (map (\<lambda>(partition, leaderEpoch). WStruct [WInt partition,
       WInt leaderEpoch]) partitions))]) topics))]"

lemma offsetForLeaderEpoch_v0_conforming [request_specs]:
  "conforming_request ''OffsetForLeaderEpoch'' 0 offsetForLeaderEpoch_v0_request_layout
    (offsetForLeaderEpoch_v0_value topics)
    (offsetForLeaderEpoch_v0_request topics)"
  unfolding offsetForLeaderEpoch_v0_request_layout_def offsetForLeaderEpoch_v0_value_def
    offsetForLeaderEpoch_v0_request_def offsetForLeaderEpoch_v0_encodeTopic_def
    offsetForLeaderEpoch_v0_encodePartition_def
  by (rule conforming_new_request writes_intros)+

definition offsetForLeaderEpoch_v2_encodePartition :: "_ \<Rightarrow> writer" where
  "offsetForLeaderEpoch_v2_encodePartition =
     (\<lambda>(partition, currentLeaderEpoch, leaderEpoch). chain [writeInt32 partition,
       writeInt32 currentLeaderEpoch, writeInt32 leaderEpoch])"

definition offsetForLeaderEpoch_v2_encodeTopic :: "_ \<Rightarrow> writer" where
  "offsetForLeaderEpoch_v2_encodeTopic =
     (\<lambda>(topic, partitions). chain [writeString topic,
       write_array_of offsetForLeaderEpoch_v2_encodePartition partitions])"

definition offsetForLeaderEpoch_v2_request where
  "offsetForLeaderEpoch_v2_request replicaId topics =
     new_request (api_key ''OffsetForLeaderEpoch'') 2 ''OffsetForLeaderEpoch''
       (chain [writeInt32 (or_default (- 1) replicaId),
          write_array_of offsetForLeaderEpoch_v2_encodeTopic topics])"

definition offsetForLeaderEpoch_v2_request_layout :: layout where
  "offsetForLeaderEpoch_v2_request_layout =
     STRUCT [(Field ''replicaId'', INT32), (Field ''topics'', ARRAY (STRUCT [(Field ''topic'', STRING),
       (Field ''partitions'', ARRAY (STRUCT [(Field ''partition'', INT32), (Field ''currentLeaderEpoch'',
       INT32), (Field ''leaderEpoch'', INT32)]))]))]"

definition offsetForLeaderEpoch_v2_value where
  "offsetForLeaderEpoch_v2_value replicaId topics =
     WStruct [WInt (or_default (- 1) replicaId), WArr (Some (map (\<lambda>(topic,
       partitions). WStruct [WStr topic, WArr (Some (map (\<lambda>(partition, currentLeaderEpoch,
       leaderEpoch). WStruct [WInt partition, WInt currentLeaderEpoch,
       WInt leaderEpoch]) partitions))]) topics))]"

lemma offsetForLeaderEpoch_v2_conforming [request_specs]:
  "conforming_request ''OffsetForLeaderEpoch'' 2 offsetForLeaderEpoch_v2_request_layout
    (offsetForLeaderEpoch_v2_value replicaId topics)
    (offsetForLeaderEpoch_v2_request replicaId topics)"
  unfolding offsetForLeaderEpoch_v2_request_layout_def offsetForLeaderEpoch_v2_value_def
    offsetForLeaderEpoch_v2_request_def offsetForLeaderEpoch_v2_encodeTopic_def
    offsetForLeaderEpoch_v2_encodePartition_def
  by (rule conforming_new_request writes_intros)+

definition offsetForLeaderEpoch_v3_encodePartition :: "_ \<Rightarrow> writer" where
  "offsetForLeaderEpoch_v3_encodePartition =
     (\<lambda>(partition, currentLeaderEpoch, leaderEpoch). chain [writeInt32 partition,
       writeInt32 currentLeaderEpoch, writeInt32 leaderEpoch, writeUVarIntBytes BNull])"

definition offsetForLeaderEpoch_v3_encodeTopic :: "_ \<Rightarrow> writer" where
  "offsetForLeaderEpoch_v3_encodeTopic =
     (\<lambda>(topic, partitions). chain [writeUVarIntString topic,
       write_uvarint_array_of offsetForLeaderEpoch_v3_encodePartition (Some partitions),
       writeUVarIntBytes BNull])"

definition offsetForLeaderEpoch_v3_request where
  "offsetForLeaderEpoch_v3_request replicaId topics =
     new_request (api_key ''OffsetForLeaderEpoch'') 3 ''OffsetForLeaderEpoch''
       (chain [writeUVarIntBytes BNull, writeInt32 (or_default (- 1) replicaId),
          write_uvarint_array_of offsetForLeaderEpoch_v3_encodeTopic (Some topics), writeUVarIntBytes BNull])"

definition offsetForLeaderEpoch_v3_request_layout :: layout where
  "offsetForLeaderEpoch_v3_request_layout =
     STRUCT [(Skip, TAG_BUFFER), (Field ''replicaId'', INT32), (Field ''topics'',
       COMPACT_ARRAY (STRUCT [(Field ''topic'', COMPACT_STRING), (Field ''partitions'',
       COMPACT_ARRAY (STRUCT [(Field ''partition'', INT32), (Field ''currentLeaderEpoch'', INT32),
       (Field ''leaderEpoch'', INT32), (Skip, TAG_BUFFER)])), (Skip, TAG_BUFFER)])), (Skip, TAG_BUFFER)]"

definition offsetForLeaderEpoch_v3_value where
  "offsetForLeaderEpoch_v3_value replicaId topics =
     WStruct [WTags, WInt (or_default (- 1) replicaId), WArr (Some (map (\<lambda>(topic,
       partitions). WStruct [WStr topic, WArr (Some (map (\<lambda>(partition, currentLeaderEpoch,
       leaderEpoch). WStruct [WInt partition, WInt currentLeaderEpoch, WInt leaderEpoch, WTags]) partitions)),
       WTags]) topics)), WTags]"

lemma offsetForLeaderEpoch_v3_conforming [request_specs]:
  "conforming_request ''OffsetForLeaderEpoch'' 3 offsetForLeaderEpoch_v3_request_layout
    (offsetForLeaderEpoch_v3_value replicaId topics)
    (offsetForLeaderEpoch_v3_request replicaId topics)"
  unfolding offsetForLeaderEpoch_v3_request_layout_def offsetForLeaderEpoch_v3_value_def
    offsetForLeaderEpoch_v3_request_def offsetForLeaderEpoch_v3_encodeTopic_def
    offsetForLeaderEpoch_v3_encodePartition_def
  by (rule conforming_new_request writes_intros)+

subsection \<open>Transactions\<close>

definition addOffsetsToTxn_v0_request where
  "addOffsetsToTxn_v0_request transactionalId producerId producerEpoch groupId =
     new_request (api_key ''AddOffsetsToTxn'') 0 ''AddOffsetsToTxn''
       (chain [writeString transactionalId, writeInt64 producerId, writeInt16 producerEpoch,
          writeString groupId])"

definition addOffsetsToTxn_v0_request_layout :: layout where
  "addOffsetsToTxn_v0_request_layout =
     STRUCT [(Field ''transactionalId'', STRING), (Field ''producerId'', INT64), (Field ''producerEpoch'',
       INT16), (Field ''groupId'', STRING)]"

definition addOffsetsToTxn_v0_value where
  "addOffsetsToTxn_v0_value transactionalId producerId producerEpoch groupId =
     WStruct [WStr transactionalId, WInt producerId, WInt producerEpoch, WStr groupId]"

lemma addOffsetsToTxn_v0_conforming [request_specs]:
  "conforming_request ''AddOffsetsToTxn'' 0 addOffsetsToTxn_v0_request_layout
    (addOffsetsToTxn_v0_value transactionalId producerId producerEpoch groupId)
    (addOffsetsToTxn_v0_request transactionalId producerId producerEpoch groupId)"
  unfolding addOffsetsToTxn_v0_request_layout_def addOffsetsToTxn_v0_value_def addOffsetsToTxn_v0_request_def
  by (rule conforming_new_request writes_intros)+

definition addOffsetsToTxn_v1_request where
  "addOffsetsToTxn_v1_request transactionalId producerId producerEpoch groupId =
     with_version 1 (addOffsetsToTxn_v0_request transactionalId producerId producerEpoch groupId)"

definition addOffsetsToTxn_v1_request_layout :: layout where "addOffsetsToTxn_v1_request_layout = addOffsetsToTxn_v0_request_layout"

lemma addOffsetsToTxn_v1_conforming [request_specs]:
  "conforming_request ''AddOffsetsToTxn'' 1 addOffsetsToTxn_v1_request_layout
    (addOffsetsToTxn_v0_value transactionalId producerId producerEpoch groupId)
    (addOffsetsToTxn_v1_request transactionalId producerId producerEpoch groupId)"
  unfolding addOffsetsToTxn_v1_request_def addOffsetsToTxn_v1_request_layout_def
  by (rule conforming_with_version [OF addOffsetsToTxn_v0_conforming])

definition addPartitionsToTxn_v0_encodePartition :: "_ \<Rightarrow> writer" where
  "addPartitionsToTxn_v0_encodePartition =
     (\<lambda>partition. chain [writeInt32 partition])"

definition addPartitionsToTxn_v0_encodeTopic :: "_ \<Rightarrow> writer" where
  "addPartitionsToTxn_v0_encodeTopic =
     (\<lambda>(topic, partitions). chain [writeString topic,
       write_array_of addPartitionsToTxn_v0_encodePartition partitions])"

definition addPartitionsToTxn_v0_request where
  "addPartitionsToTxn_v0_request transactionalId producerId producerEpoch topics =
     new_request (api_key ''AddPartitionsToTxn'') 0 ''AddPartitionsToTxn''
       (chain [writeString transactionalId, writeInt64 producerId, writeInt16 producerEpoch,
          write_array_of addPartitionsToTxn_v0_encodeTopic topics])"

definition addPartitionsToTxn_v0_request_layout :: layout where
  "addPartitionsToTxn_v0_request_layout =
     STRUCT [(Field ''transactionalId'', STRING), (Field ''producerId'', INT64), (Field ''producerEpoch'',
       INT16), (Field ''topics'', ARRAY (STRUCT [(Field ''topic'', STRING), (Field ''partitions'',
       ARRAY (STRUCT [(Field ''partition'', INT32)]))]))]"

definition addPartitionsToTxn_v0_value where
  "addPartitionsToTxn_v0_value transactionalId producerId producerEpoch topics =
     WStruct [WStr transactionalId, WInt producerId, WInt producerEpoch, WArr (Some (map (\<lambda>(topic,
       partitions). WStruct [WStr topic,
       WArr (Some (map (\<lambda>partition. WStruct [WInt partition]) partitions))]) topics))]"

lemma addPartitionsToTxn_v0_conforming [request_specs]:
  "conforming_request ''AddPartitionsToTxn'' 0 addPartitionsToTxn_v0_request_layout
    (addPartitionsToTxn_v0_value transactionalId producerId producerEpoch topics)
    (addPartitionsToTxn_v0_request transactionalId producerId producerEpoch topics)"
  unfolding addPartitionsToTxn_v0_request_layout_def addPartitionsToTxn_v0_value_def addPartitionsToTxn_v0_request_def
    addPartitionsToTxn_v0_encodeTopic_def addPartitionsToTxn_v0_encodePartition_def
  by (rule conforming_new_request writes_intros)+

definition addPartitionsToTxn_v1_request where
  "addPartitionsToTxn_v1_request transactionalId producerId producerEpoch topics =
     with_version 1 (addPartitionsToTxn_v0_request transactionalId producerId producerEpoch topics)"

definition addPartitionsToTxn_v1_request_layout :: layout where "addPartitionsToTxn_v1_request_layout = addPartitionsToTxn_v0_request_layout"

lemma addPartitionsToTxn_v1_conforming [request_specs]:
  "conforming_request ''AddPartitionsToTxn'' 1 addPartitionsToTxn_v1_request_layout
    (addPartitionsToTxn_v0_value transactionalId producerId producerEpoch topics)
    (addPartitionsToTxn_v1_request transactionalId producerId producerEpoch topics)"
  unfolding addPartitionsToTxn_v1_request_def addPartitionsToTxn_v1_request_layout_def
  by (rule conforming_with_version [OF addPartitionsToTxn_v0_conforming])

definition endTxn_v0_request where
  "endTxn_v0_request transactionalId producerId producerEpoch transactionResult =
     new_request (api_key ''EndTxn'') 0 ''EndTxn''
       (chain [writeString transactionalId, writeInt64 producerId, writeInt16 producerEpoch,
          writeBoolean transactionResult])"

definition endTxn_v0_request_layout :: layout where
  "endTxn_v0_request_layout =
     STRUCT [(Field ''transactionalId'', STRING), (Field ''producerId'', INT64), (Field ''producerEpoch'',
       INT16), (Field ''transactionResult'', BOOLEAN)]"

definition endTxn_v0_value where
  "endTxn_v0_value transactionalId producerId producerEpoch transactionResult =
     WStruct [WStr transactionalId, WInt producerId, WInt producerEpoch, WBool transactionResult]"

lemma endTxn_v0_conforming [request_specs]:
  "conforming_request ''EndTxn'' 0 endTxn_v0_request_layout
    (endTxn_v0_value transactionalId producerId producerEpoch transactionResult)
    (endTxn_v0_request transactionalId producerId producerEpoch transactionResult)"
  unfolding endTxn_v0_request_layout_def endTxn_v0_value_def endTxn_v0_request_def
  by (rule conforming_new_request writes_intros)+

definition endTxn_v1_request where
  "endTxn_v1_request transactionalId producerId producerEpoch transactionResult =
     with_version 1 (endTxn_v0_request transactionalId producerId producerEpoch transactionResult)"

definition endTxn_v1_request_layout :: layout where "endTxn_v1_request_layout = endTxn_v0_request_layout"

lemma endTxn_v1_conforming [request_specs]:
  "conforming_request ''EndTxn'' 1 endTxn_v1_request_layout
    (endTxn_v0_value transactionalId producerId producerEpoch transactionResult)
    (endTxn_v1_request transactionalId producerId producerEpoch transactionResult)"
  unfolding endTxn_v1_request_def endTxn_v1_request_layout_def
  by (rule conforming_with_version [OF endTxn_v0_conforming])

definition txnOffsetCommit_v0_encodePartition :: "_ \<Rightarrow> writer" where
  "txnOffsetCommit_v0_encodePartition =
     (\<lambda>(partition, offset, metadata). chain [writeInt32 partition, writeInt64 offset,
       writeString metadata])"

definition txnOffsetCommit_v0_encodeTopic :: "_ \<Rightarrow> writer" where
  "txnOffsetCommit_v0_encodeTopic =
     (\<lambda>(topic, partitions). chain [writeString topic,
       write_array_of txnOffsetCommit_v0_encodePartition partitions])"

definition txnOffsetCommit_v0_request where
  "txnOffsetCommit_v0_request transactionalId groupId producerId producerEpoch topics =
     new_request (api_key ''TxnOffsetCommit'') 0 ''TxnOffsetCommit''
       (chain [writeString transactionalId, writeString groupId, writeInt64 producerId,
          writeInt16 producerEpoch, write_array_of txnOffsetCommit_v0_encodeTopic topics])"

definition txnOffsetCommit_v0_request_layout :: layout where
  "txnOffsetCommit_v0_request_layout =
     STRUCT [(Field ''transactionalId'', STRING), (Field ''groupId'', STRING), (Field ''producerId'', INT64),
       (Field ''producerEpoch'', INT16), (Field ''topics'', ARRAY (STRUCT [(Field ''topic'', STRING),
       (Field ''partitions'', ARRAY (STRUCT [(Field ''partition'', INT32), (Field ''offset'', INT64),
       (Field ''metadata'', STRING)]))]))]"

definition txnOffsetCommit_v0_value where
  "txnOffsetCommit_v0_value transactionalId groupId producerId producerEpoch topics =
     WStruct [WStr transactionalId, WStr groupId, WInt producerId, WInt producerEpoch,
       WArr (Some (map (\<lambda>(topic, partitions). WStruct [WStr topic,
       WArr (Some (map (\<lambda>(partition, offset, metadata). WStruct [WInt partition, WInt offset,
       WStr metadata]) partitions))]) topics))]"

lemma txnOffsetCommit_v0_conforming [request_specs]:
  "conforming_request ''TxnOffsetCommit'' 0 txnOffsetCommit_v0_request_layout
    (txnOffsetCommit_v0_value transactionalId groupId producerId producerEpoch topics)
    (txnOffsetCommit_v0_request transactionalId groupId producerId producerEpoch topics)"
  unfolding txnOffsetCommit_v0_request_layout_def txnOffsetCommit_v0_value_def txnOffsetCommit_v0_request_def
    txnOffsetCommit_v0_encodeTopic_def txnOffsetCommit_v0_encodePartition_def
  by (rule conforming_new_request writes_intros)+

definition txnOffsetCommit_v1_request where
  "txnOffsetCommit_v1_request transactionalId groupId producerId producerEpoch topics =
     with_version 1 (txnOffsetCommit_v0_request transactionalId groupId producerId producerEpoch topics)"

definition txnOffsetCommit_v1_request_layout :: layout where "txnOffsetCommit_v1_request_layout = txnOffsetCommit_v0_request_layout"

lemma txnOffsetCommit_v1_conforming [request_specs]:
  "conforming_request ''TxnOffsetCommit'' 1 txnOffsetCommit_v1_request_layout
    (txnOffsetCommit_v0_value transactionalId groupId producerId producerEpoch topics)
    (txnOffsetCommit_v1_request transactionalId groupId producerId producerEpoch topics)"
  unfolding txnOffsetCommit_v1_request_def txnOffsetCommit_v1_request_layout_def
  by (rule conforming_with_version [OF txnOffsetCommit_v0_conforming])

definition describeTransactions_v0_encodeTransactionalId :: "_ \<Rightarrow> writer" where
  "describeTransactions_v0_encodeTransactionalId =
     (\<lambda>transactionalId. chain [writeUVarIntString transactionalId])"

definition describeTransactions_v0_request where
  "describeTransactions_v0_request transactionalIds =
     new_request (api_key ''DescribeTransactions'') 0 ''DescribeTransactions''
       (chain [writeUVarIntBytes BNull,
          write_uvarint_array_of describeTransactions_v0_encodeTransactionalId (Some transactionalIds),
          writeUVarIntBytes BNull])"

definition describeTransactions_v0_request_layout :: layout where
  "describeTransactions_v0_request_layout =
     STRUCT [(Skip, TAG_BUFFER), (Field ''transactionalIds'',
       COMPACT_ARRAY (STRUCT [(Field ''transactionalId'', COMPACT_STRING)])), (Skip, TAG_BUFFER)]"

definition describeTransactions_v0_value where
  "describeTransactions_v0_value transactionalIds =
     WStruct [WTags,
       WArr (Some (map (\<lambda>transactionalId. WStruct [WStr transactionalId]) transactionalIds)), WTags]"

lemma describeTransactions_v0_conforming [request_specs]:
  "conforming_request ''DescribeTransactions'' 0 describeTransactions_v0_request_layout
    (describeTransactions_v0_value transactionalIds)
    (describeTransactions_v0_request transactionalIds)"
  unfolding describeTransactions_v0_request_layout_def describeTransactions_v0_value_def
    describeTransactions_v0_request_def describeTransactions_v0_encodeTransactionalId_def
  by (rule conforming_new_request writes_intros)+

definition listTransactions_v0_encodeStateFilter :: "_ \<Rightarrow> writer" where
  "listTransactions_v0_encodeStateFilter =
     (\<lambda>stateFilter. chain [writeUVarIntString stateFilter])"

definition listTransactions_v0_encodeProducerIdFilter :: "_ \<Rightarrow> writer" where
  "listTransactions_v0_encodeProducerIdFilter =
     (\<lambda>producerId. chain [writeInt64 producerId])"

definition listTransactions_v0_request where
  "listTransactions_v0_request stateFilters producerIdFilters =
     new_request (api_key ''ListTransactions'') 0 ''ListTransactions''
       (chain [writeUVarIntBytes BNull,
          write_uvarint_array_of listTransactions_v0_encodeStateFilter (Some (or_default [] stateFilters)),
          write_uvarint_array_of listTransactions_v0_encodeProducerIdFilter (Some (or_default [] producerIdFilters)), writeUVarIntBytes BNull])"

definition listTransactions_v0_request_layout :: layout where
  "listTransactions_v0_request_layout =
     STRUCT [(Skip, TAG_BUFFER), (Field ''stateFilters'', COMPACT_ARRAY (STRUCT [(Field ''stateFilter'',
       COMPACT_STRING)])), (Field ''producerIdFilters'', COMPACT_ARRAY (STRUCT [(Field ''producerId'',
       INT64)])), (Skip, TAG_BUFFER)]"

definition listTransactions_v0_value where
  "listTransactions_v0_value stateFilters producerIdFilters =
     WStruct [WTags,
       WArr (Some (map (\<lambda>stateFilter. WStruct [WStr stateFilter]) (or_default [] stateFilters))),
       WArr (Some (map (\<lambda>producerId. WStruct [WInt producerId]) (or_default [] producerIdFilters))),
       WTags]"

lemma listTransactions_v0_conforming [request_specs]:
  "conforming_request ''ListTransactions'' 0 listTransactions_v0_request_layout
    (listTransactions_v0_value stateFilters producerIdFilters)
    (listTransactions_v0_request stateFilters producerIdFilters)"
  unfolding listTransactions_v0_request_layout_def listTransactions_v0_value_def listTransactions_v0_request_def
    listTransactions_v0_encodeProducerIdFilter_def listTransactions_v0_encodeStateFilter_def
  by (rule conforming_new_request writes_intros)+

subsection \<open>All requests\<close>

inductive data_request :: "string \<Rightarrow> int \<Rightarrow> layout \<Rightarrow> wire_value \<Rightarrow> protocol_request \<Rightarrow> bool" where
  "data_request ''ApiVersions'' 0 apiVersions_v0_request_layout
    apiVersions_v0_value
    apiVersions_v0_request"
| "data_request ''ApiVersions'' 1 apiVersions_v0_request_layout
    apiVersions_v0_value
    apiVersions_v1_request"
| "data_request ''ApiVersions'' 2 apiVersions_v0_request_layout
    apiVersions_v0_value
    apiVersions_v2_request"
| "data_request ''ApiVersions'' 3 apiVersions_v3_request_layout
    (apiVersions_v3_value clientSoftwareName clientSoftwareVersion)
    (apiVersions_v3_request clientSoftwareName clientSoftwareVersion)"
| "data_request ''Metadata'' 0 metadata_v0_request_layout
    (metadata_v0_value topics)
    (metadata_v0_request topics)"
| "data_request ''Metadata'' 1 metadata_v1_request_layout
    (metadata_v1_value topics)
    (metadata_v1_request topics)"
| "data_request ''Metadata'' 2 metadata_v2_request_layout
    (metadata_v1_value topics)
    (metadata_v2_request topics)"
| "data_request ''Metadata'' 3 metadata_v3_request_layout
    (metadata_v1_value topics)
    (metadata_v3_request topics)"
| "data_request ''Metadata'' 4 metadata_v4_request_layout
    (metadata_v4_value topics allowAutoTopicCreation)
    (metadata_v4_request topics allowAutoTopicCreation)"
| "data_request ''Metadata'' 5 metadata_v5_request_layout
    (metadata_v4_value topics (Some (or_default True allowAutoTopicCreation)))
    (metadata_v5_request topics allowAutoTopicCreation)"
| "data_request ''Metadata'' 6 metadata_v6_request_layout
    (metadata_v4_value topics (Some (or_default True (Some (or_default True allowAutoTopicCreation)))))
    (metadata_v6_request topics allowAutoTopicCreation)"
| "data_request ''Metadata'' 7 metadata_v7_request_layout
    (metadata_v4_value topics (Some (or_default True (Some (or_default True (Some (or_default True
      allowAutoTopicCreation)))))))
    (metadata_v7_request topics allowAutoTopicCreation)"
| "data_request ''DescribeCluster'' 0 describeCluster_v0_request_layout
    (describeCluster_v0_value includeClusterAuthorizedOperations)
    (describeCluster_v0_request includeClusterAuthorizedOperations)"
| "data_request ''DescribeCluster'' 1 describeCluster_v1_request_layout
    (describeCluster_v1_value includeClusterAuthorizedOperations endpointType)
    (describeCluster_v1_request includeClusterAuthorizedOperations endpointType)"
| "data_request ''InitProducerId'' 0 initProducerId_v0_request_layout
    (initProducerId_v0_value transactionalId transactionTimeout)
    (initProducerId_v0_request transactionalId transactionTimeout)"
| "data_request ''InitProducerId'' 1 initProducerId_v1_request_layout
    (initProducerId_v0_value transactionalId transactionTimeout)
    (initProducerId_v1_request transactionalId transactionTimeout)"
| "data_request ''InitProducerId'' 2 initProducerId_v2_request_layout
    (initProducerId_v2_value transactionalId transactionTimeout)
    (initProducerId_v2_request transactionalId transactionTimeout)"
| "data_request ''InitProducerId'' 3 initProducerId_v3_request_layout
    (initProducerId_v3_value transactionalId transactionTimeout producerId producerEpoch)
    (initProducerId_v3_request transactionalId transactionTimeout producerId producerEpoch)"
| "data_request ''DescribeProducers'' 0 describeProducers_v0_request_layout
    (describeProducers_v0_value topics)
    (describeProducers_v0_request topics)"
| "data_request ''Fetch'' 0 fetch_v0_request_layout
    (fetch_v0_value replicaId maxWaitTime minBytes topics)
    (fetch_v0_request replicaId maxWaitTime minBytes topics)"
| "data_request ''Fetch'' 1 fetch_v0_request_layout
    (fetch_v0_value replicaId maxWaitTime minBytes topics)
    (fetch_v1_request replicaId maxWaitTime minBytes topics)"
| "data_request ''Fetch'' 2 fetch_v0_request_layout
    (fetch_v0_value replicaId maxWaitTime minBytes topics)
    (fetch_v2_request replicaId maxWaitTime minBytes topics)"
| "data_request ''Fetch'' 3 fetch_v3_request_layout
    (fetch_v3_value replicaId maxWaitTime minBytes maxBytes topics)
    (fetch_v3_request replicaId maxWaitTime minBytes maxBytes topics)"
| "data_request ''Fetch'' 4 fetch_v4_request_layout
    (fetch_v4_value replicaId maxWaitTime minBytes maxBytes topics isolationLevel)
    (fetch_v4_request replicaId maxWaitTime minBytes maxBytes topics isolationLevel)"
| "data_request ''Fetch'' 5 fetch_v5_request_layout
    (fetch_v5_value replicaId maxWaitTime minBytes maxBytes topics isolationLevel)
    (fetch_v5_request replicaId maxWaitTime minBytes maxBytes topics isolationLevel)"
| "data_request ''Fetch'' 6 fetch_v6_request_layout
    (fetch_v5_value replicaId maxWaitTime minBytes maxBytes topics (Some (or_default READ_COMMITTED
      isolationLevel)))
    (fetch_v6_request replicaId maxWaitTime minBytes maxBytes topics isolationLevel)"
| "data_request ''Fetch'' 7 fetch_v7_request_layout
    (fetch_v7_value replicaId maxWaitTime minBytes maxBytes topics isolationLevel sessionId sessionEpoch
      forgottenTopics)
    (fetch_v7_request replicaId maxWaitTime minBytes maxBytes topics isolationLevel sessionId sessionEpoch
      forgottenTopics)"
| "data_request ''Fetch'' 8 fetch_v8_request_layout
    (fetch_v7_value replicaId maxWaitTime minBytes maxBytes topics (Some (or_default READ_COMMITTED
      isolationLevel)) (Some (or_default 0 sessionId)) (Some (or_default (- 1) sessionEpoch)) (Some (or_default
      [] forgottenTopics)))
    (fetch_v8_request replicaId maxWaitTime minBytes maxBytes topics isolationLevel sessionId sessionEpoch
      forgottenTopics)"
| "data_request ''Fetch'' 9 fetch_v9_request_layout
    (fetch_v9_value replicaId maxWaitTime minBytes maxBytes topics isolationLevel sessionId sessionEpoch
      forgottenTopics)
    (fetch_v9_request replicaId maxWaitTime minBytes maxBytes topics isolationLevel sessionId sessionEpoch
      forgottenTopics)"
| "data_request ''Fetch'' 10 fetch_v10_request_layout
    (fetch_v9_value replicaId maxWaitTime minBytes maxBytes topics (Some (or_default READ_COMMITTED
      isolationLevel)) (Some (or_default 0 sessionId)) (Some (or_default (- 1) sessionEpoch)) (Some (or_default
      [] forgottenTopics)))
    (fetch_v10_request replicaId maxWaitTime minBytes maxBytes topics isolationLevel sessionId sessionEpoch
      forgottenTopics)"
| "data_request ''Fetch'' 11 fetch_v11_request_layout
    (fetch_v11_value replicaId maxWaitTime minBytes maxBytes topics rackId isolationLevel sessionId
      sessionEpoch forgottenTopics)
    (fetch_v11_request replicaId maxWaitTime minBytes maxBytes topics rackId isolationLevel sessionId
      sessionEpoch forgottenTopics)"
| "data_request ''Fetch'' 12 fetch_v12_request_layout
    (fetch_v12_value replicaId maxWaitTime minBytes maxBytes topics rackId isolationLevel sessionId
      sessionEpoch forgottenTopics)
    (fetch_v12_request replicaId maxWaitTime minBytes maxBytes topics rackId isolationLevel sessionId
      sessionEpoch forgottenTopics)"
| "data_request ''ListOffsets'' 0 listOffsets_v0_request_layout
    (listOffsets_v0_value replicaId topics)
    (listOffsets_v0_request replicaId topics)"
| "data_request ''ListOffsets'' 1 listOffsets_v1_request_layout
    (listOffsets_v1_value replicaId topics)
    (listOffsets_v1_request replicaId topics)"
| "data_request ''ListOffsets'' 2 listOffsets_v2_request_layout
    (listOffsets_v2_value replicaId isolationLevel topics)
    (listOffsets_v2_request replicaId isolationLevel topics)"
| "data_request ''ListOffsets'' 3 listOffsets_v3_request_layout
    (listOffsets_v2_value replicaId isolationLevel topics)
    (listOffsets_v3_request replicaId isolationLevel topics)"
| "data_request ''ListOffsets'' 4 listOffsets_v4_request_layout
    (listOffsets_v4_value replicaId isolationLevel topics)
    (listOffsets_v4_request replicaId isolationLevel topics)"
| "data_request ''OffsetForLeaderEpoch'' 0 offsetForLeaderEpoch_v0_request_layout
    (offsetForLeaderEpoch_v0_value topics)
    (offsetForLeaderEpoch_v0_request topics)"
| "data_request ''OffsetForLeaderEpoch'' 2 offsetForLeaderEpoch_v2_request_layout
    (offsetForLeaderEpoch_v2_value replicaId topics)
    (offsetForLeaderEpoch_v2_request replicaId topics)"
| "data_request ''OffsetForLeaderEpoch'' 3 offsetForLeaderEpoch_v3_request_layout
    (offsetForLeaderEpoch_v3_value replicaId topics)
    (offsetForLeaderEpoch_v3_request replicaId topics)"
| "data_request ''AddOffsetsToTxn'' 0 addOffsetsToTxn_v0_request_layout
    (addOffsetsToTxn_v0_value transactionalId producerId producerEpoch groupId)
    (addOffsetsToTxn_v0_request transactionalId producerId producerEpoch groupId)"
| "data_request ''AddOffsetsToTxn'' 1 addOffsetsToTxn_v1_request_layout
    (addOffsetsToTxn_v0_value transactionalId producerId producerEpoch groupId)
    (addOffsetsToTxn_v1_request transactionalId producerId producerEpoch groupId)"
| "data_request ''AddPartitionsToTxn'' 0 addPartitionsToTxn_v0_request_layout
    (addPartitionsToTxn_v0_value transactionalId producerId producerEpoch topics)
    (addPartitionsToTxn_v0_request transactionalId producerId producerEpoch topics)"
| "data_request ''AddPartitionsToTxn'' 1 addPartitionsToTxn_v1_request_layout
    (addPartitionsToTxn_v0_value transactionalId producerId producerEpoch topics)
    (addPartitionsToTxn_v1_request transactionalId producerId producerEpoch topics)"
| "data_request ''EndTxn'' 0 endTxn_v0_request_layout
    (endTxn_v0_value transactionalId producerId producerEpoch transactionResult)
    (endTxn_v0_request transactionalId producerId producerEpoch transactionResult)"
| "data_request ''EndTxn'' 1 endTxn_v1_request_layout
    (endTxn_v0_value transactionalId producerId producerEpoch transactionResult)
    (endTxn_v1_request transactionalId producerId producerEpoch transactionResult)"
| "data_request ''TxnOffsetCommit'' 0 txnOffsetCommit_v0_request_layout
    (txnOffsetCommit_v0_value transactionalId groupId producerId producerEpoch topics)
    (txnOffsetCommit_v0_request transactionalId groupId producerId producerEpoch topics)"
| "data_request ''TxnOffsetCommit'' 1 txnOffsetCommit_v1_request_layout
    (txnOffsetCommit_v0_value transactionalId groupId producerId producerEpoch topics)
    (txnOffsetCommit_v1_request transactionalId groupId producerId producerEpoch topics)"
| "data_request ''DescribeTransactions'' 0 describeTransactions_v0_request_layout
    (describeTransactions_v0_value transactionalIds)
    (describeTransactions_v0_request transactionalIds)"
| "data_request ''ListTransactions'' 0 listTransactions_v0_request_layout
    (listTransactions_v0_value stateFilters producerIdFilters)
    (listTransactions_v0_request stateFilters producerIdFilters)"

lemma data_request_conforming: "data_request api v t w r \<Longrightarrow> conforming_request api v t w r"
  by (induction rule: data_request.induct) (rule request_specs)+

end
