(* ===== verification/Requests_Share.thy ===== *)
theory Requests_Share
  imports Request_Format
begin

text \<open>
  The encoders of the requests about share groups and the voters of a quorum, written with loops over one encoder:
  \<^verbatim>\<open>shareGroupHeartbeat\<close>, \<^verbatim>\<open>shareGroupDescribe\<close>, \<^verbatim>\<open>shareFetch\<close>, \<^verbatim>\<open>shareAcknowledge\<close>,
  \<^verbatim>\<open>readShareGroupStateSummary\<close>, \<^verbatim>\<open>addRaftVoter\<close>, \<^verbatim>\<open>removeRaftVoter\<close> and \<^verbatim>\<open>updateRaftVoter\<close>, version 0 of each. These
  files have no grammar; the layouts are those of the comments beside the calls.
\<close>

text \<open>A number that is left out or 0 is replaced by a default: \<^verbatim>\<open>x || d\<close>.\<close>

definition or_number :: "int \<Rightarrow> int option \<Rightarrow> int" where
  "or_number d v = (case v of None \<Rightarrow> d | Some n \<Rightarrow> if n = 0 then d else n)"

subsection \<open>Share groups\<close>

definition shareGroupHeartbeat_v0_request where
  "shareGroupHeartbeat_v0_request groupId memberId memberEpoch rackId subscribedTopicNames topicPartitions =
     new_request (api_key ''ShareGroupHeartbeat'') 0 ''ShareGroupHeartbeat''
       (chain [writeUVarIntBytes BNull, writeUVarIntString groupId, writeUVarIntString memberId, writeInt32 memberEpoch,
         writeUVarIntString rackId,
         write_each_nullable writeUVarIntString subscribedTopicNames,
         write_each_nullable (\<lambda>(topicId, partitions). chain [writeUUID topicId, write_each writeInt32 partitions,
           writeUVarIntBytes BNull]) topicPartitions,
         writeUVarIntBytes BNull])"

definition shareGroupHeartbeat_v0_request_layout :: layout where
  "shareGroupHeartbeat_v0_request_layout =
     STRUCT [(Skip, TAG_BUFFER), (Field ''group_id'', COMPACT_STRING), (Field ''member_id'', COMPACT_STRING),
       (Field ''member_epoch'', INT32), (Field ''rack_id'', COMPACT_STRING),
       (Field ''subscribed_topic_names'', COMPACT_ARRAY COMPACT_STRING),
       (Field ''topic_partitions'', COMPACT_ARRAY (STRUCT [(Field ''topic_id'', UUID),
          (Field ''partitions'', COMPACT_ARRAY INT32), (Skip, TAG_BUFFER)])),
       (Skip, TAG_BUFFER)]"

definition shareGroupHeartbeat_v0_value where
  "shareGroupHeartbeat_v0_value groupId memberId memberEpoch rackId subscribedTopicNames topicPartitions =
     WStruct [WTags, WStr groupId, WStr memberId, WInt memberEpoch, WStr rackId,
       WArr (map_option (map WStr) subscribedTopicNames),
       WArr (map_option (map (\<lambda>(topicId, partitions). WStruct [uuid_value topicId, WArr (Some (map WInt partitions)), WTags]))
         topicPartitions),
       WTags]"

lemma shareGroupHeartbeat_v0_conforming [request_specs]:
  "conforming_request ''ShareGroupHeartbeat'' 0 shareGroupHeartbeat_v0_request_layout
    (shareGroupHeartbeat_v0_value groupId memberId memberEpoch rackId subscribedTopicNames topicPartitions)
    (shareGroupHeartbeat_v0_request groupId memberId memberEpoch rackId subscribedTopicNames topicPartitions)"
  unfolding shareGroupHeartbeat_v0_request_layout_def shareGroupHeartbeat_v0_value_def shareGroupHeartbeat_v0_request_def
  by (rule conforming_new_request writes_intros)+

definition shareGroupDescribe_v0_request where
  "shareGroupDescribe_v0_request groupIds includeAuthorizedOperations =
     new_request (api_key ''ShareGroupDescribe'') 0 ''ShareGroupDescribe''
       (chain [writeUVarIntBytes BNull, write_each writeUVarIntString groupIds,
         writeBoolean (or_default False includeAuthorizedOperations), writeUVarIntBytes BNull])"

definition shareGroupDescribe_v0_request_layout :: layout where
  "shareGroupDescribe_v0_request_layout =
     STRUCT [(Skip, TAG_BUFFER), (Field ''group_ids'', COMPACT_ARRAY COMPACT_STRING),
       (Field ''include_authorized_operations'', BOOLEAN), (Skip, TAG_BUFFER)]"

definition shareGroupDescribe_v0_value where
  "shareGroupDescribe_v0_value groupIds includeAuthorizedOperations =
     WStruct [WTags, WArr (Some (map WStr groupIds)), WBool (or_default False includeAuthorizedOperations), WTags]"

lemma shareGroupDescribe_v0_conforming [request_specs]:
  "conforming_request ''ShareGroupDescribe'' 0 shareGroupDescribe_v0_request_layout
    (shareGroupDescribe_v0_value groupIds includeAuthorizedOperations)
    (shareGroupDescribe_v0_request groupIds includeAuthorizedOperations)"
  unfolding shareGroupDescribe_v0_request_layout_def shareGroupDescribe_v0_value_def shareGroupDescribe_v0_request_def
  by (rule conforming_new_request writes_intros)+

text \<open>Acknowledgements: ranges of offsets, each with the type of its acknowledgement.\<close>

definition write_acknowledgement :: "int \<times> int \<times> int list \<Rightarrow> writer" where
  "write_acknowledgement = (\<lambda>(firstOffset, lastOffset, acknowledgeTypes).
     chain [writeInt64 firstOffset, writeInt64 lastOffset, write_each writeInt8 acknowledgeTypes, writeUVarIntBytes BNull])"

definition ACKNOWLEDGEMENT :: layout where
  "ACKNOWLEDGEMENT =
     STRUCT [(Field ''first_offset'', INT64), (Field ''last_offset'', INT64), (Field ''acknowledge_types'', COMPACT_ARRAY INT8),
       (Skip, TAG_BUFFER)]"

definition acknowledgement_value :: "int \<times> int \<times> int list \<Rightarrow> wire_value" where
  "acknowledgement_value = (\<lambda>(firstOffset, lastOffset, acknowledgeTypes).
     WStruct [WInt firstOffset, WInt lastOffset, WArr (Some (map WInt acknowledgeTypes)), WTags])"

lemma writes_acknowledgement [writes_intros]: "writes ACKNOWLEDGEMENT (acknowledgement_value x) (write_acknowledgement x)"
  unfolding ACKNOWLEDGEMENT_def acknowledgement_value_def write_acknowledgement_def by (rule writes_intros)+

definition shareFetch_v0_request where
  "shareFetch_v0_request groupId memberId memberEpoch maxWaitMs minBytes maxBytes topics forgottenTopicsData =
     new_request (api_key ''ShareFetch'') 0 ''ShareFetch''
       (chain [writeUVarIntBytes BNull, writeUVarIntString groupId, writeUVarIntString memberId, writeInt32 memberEpoch,
         writeInt32 (or_default 500 maxWaitMs), writeInt32 (or_default 1 minBytes), writeInt32 (or_default 10485760 maxBytes),
         write_each (\<lambda>(topicId, partitions). chain [writeUUID topicId,
           write_each (\<lambda>(partitionIndex, partitionMaxBytes, acknowledgementBatches). chain [
             writeInt32 partitionIndex, writeInt32 (or_number 1048576 partitionMaxBytes),
             write_each write_acknowledgement (or_default [] acknowledgementBatches),
             writeUVarIntBytes BNull]) partitions,
           writeUVarIntBytes BNull]) (or_default [] topics),
         write_each (\<lambda>(topicId, partitions). chain [writeUUID topicId, write_each writeInt32 partitions,
           writeUVarIntBytes BNull]) (or_default [] forgottenTopicsData),
         writeUVarIntBytes BNull])"

definition shareFetch_v0_request_layout :: layout where
  "shareFetch_v0_request_layout =
     STRUCT [(Skip, TAG_BUFFER), (Field ''group_id'', COMPACT_STRING), (Field ''member_id'', COMPACT_STRING),
       (Field ''member_epoch'', INT32), (Field ''max_wait_ms'', INT32), (Field ''min_bytes'', INT32), (Field ''max_bytes'', INT32),
       (Field ''topics'', COMPACT_ARRAY (STRUCT [(Field ''topic_id'', UUID),
          (Field ''partitions'', COMPACT_ARRAY (STRUCT [(Field ''partition_index'', INT32), (Field ''partition_max_bytes'', INT32),
             (Field ''acknowledgement_batches'', COMPACT_ARRAY ACKNOWLEDGEMENT), (Skip, TAG_BUFFER)])),
          (Skip, TAG_BUFFER)])),
       (Field ''forgotten_topics_data'', COMPACT_ARRAY (STRUCT [(Field ''topic_id'', UUID),
          (Field ''partitions'', COMPACT_ARRAY INT32), (Skip, TAG_BUFFER)])),
       (Skip, TAG_BUFFER)]"

definition shareFetch_v0_value where
  "shareFetch_v0_value groupId memberId memberEpoch maxWaitMs minBytes maxBytes topics forgottenTopicsData =
     WStruct [WTags, WStr groupId, WStr memberId, WInt memberEpoch, WInt (or_default 500 maxWaitMs),
       WInt (or_default 1 minBytes), WInt (or_default 10485760 maxBytes),
       WArr (Some (map (\<lambda>(topicId, partitions). WStruct [uuid_value topicId,
         WArr (Some (map (\<lambda>(partitionIndex, partitionMaxBytes, acknowledgementBatches).
           WStruct [WInt partitionIndex, WInt (or_number 1048576 partitionMaxBytes),
             WArr (Some (map acknowledgement_value (or_default [] acknowledgementBatches))), WTags]) partitions)),
         WTags]) (or_default [] topics))),
       WArr (Some (map (\<lambda>(topicId, partitions). WStruct [uuid_value topicId, WArr (Some (map WInt partitions)), WTags])
         (or_default [] forgottenTopicsData))),
       WTags]"

lemma shareFetch_v0_conforming [request_specs]:
  "conforming_request ''ShareFetch'' 0 shareFetch_v0_request_layout
    (shareFetch_v0_value groupId memberId memberEpoch maxWaitMs minBytes maxBytes topics forgottenTopicsData)
    (shareFetch_v0_request groupId memberId memberEpoch maxWaitMs minBytes maxBytes topics forgottenTopicsData)"
  unfolding shareFetch_v0_request_layout_def shareFetch_v0_value_def shareFetch_v0_request_def
  by (rule conforming_new_request writes_intros)+

definition shareAcknowledge_v0_request where
  "shareAcknowledge_v0_request groupId memberId memberEpoch topics =
     new_request (api_key ''ShareAcknowledge'') 0 ''ShareAcknowledge''
       (chain [writeUVarIntBytes BNull, writeUVarIntString groupId, writeUVarIntString memberId, writeInt32 memberEpoch,
         write_each (\<lambda>(topicId, partitions). chain [writeUUID topicId,
           write_each (\<lambda>(partitionIndex, acknowledgementBatches). chain [writeInt32 partitionIndex,
             write_each write_acknowledgement acknowledgementBatches, writeUVarIntBytes BNull]) partitions,
           writeUVarIntBytes BNull]) (or_default [] topics),
         writeUVarIntBytes BNull])"

definition shareAcknowledge_v0_request_layout :: layout where
  "shareAcknowledge_v0_request_layout =
     STRUCT [(Skip, TAG_BUFFER), (Field ''group_id'', COMPACT_STRING), (Field ''member_id'', COMPACT_STRING),
       (Field ''member_epoch'', INT32),
       (Field ''topics'', COMPACT_ARRAY (STRUCT [(Field ''topic_id'', UUID),
          (Field ''partitions'', COMPACT_ARRAY (STRUCT [(Field ''partition_index'', INT32),
             (Field ''acknowledgement_batches'', COMPACT_ARRAY ACKNOWLEDGEMENT), (Skip, TAG_BUFFER)])),
          (Skip, TAG_BUFFER)])),
       (Skip, TAG_BUFFER)]"

definition shareAcknowledge_v0_value where
  "shareAcknowledge_v0_value groupId memberId memberEpoch topics =
     WStruct [WTags, WStr groupId, WStr memberId, WInt memberEpoch,
       WArr (Some (map (\<lambda>(topicId, partitions). WStruct [uuid_value topicId,
         WArr (Some (map (\<lambda>(partitionIndex, acknowledgementBatches). WStruct [WInt partitionIndex,
           WArr (Some (map acknowledgement_value acknowledgementBatches)), WTags]) partitions)),
         WTags]) (or_default [] topics))),
       WTags]"

lemma shareAcknowledge_v0_conforming [request_specs]:
  "conforming_request ''ShareAcknowledge'' 0 shareAcknowledge_v0_request_layout
    (shareAcknowledge_v0_value groupId memberId memberEpoch topics)
    (shareAcknowledge_v0_request groupId memberId memberEpoch topics)"
  unfolding shareAcknowledge_v0_request_layout_def shareAcknowledge_v0_value_def shareAcknowledge_v0_request_def
  by (rule conforming_new_request writes_intros)+

definition readShareGroupStateSummary_v0_request where
  "readShareGroupStateSummary_v0_request topics =
     new_request (api_key ''ReadShareGroupStateSummary'') 0 ''ReadShareGroupStateSummary''
       (chain [writeUVarIntBytes BNull,
         write_each (\<lambda>(groupId, topicId, partitions). chain [writeUVarIntString groupId, writeUUID topicId,
           write_each (\<lambda>(partitionIndex, leaderEpoch). chain [writeInt32 partitionIndex, writeInt32 leaderEpoch,
             writeUVarIntBytes BNull]) partitions,
           writeUVarIntBytes BNull]) (or_default [] topics),
         writeUVarIntBytes BNull])"

definition readShareGroupStateSummary_v0_request_layout :: layout where
  "readShareGroupStateSummary_v0_request_layout =
     STRUCT [(Skip, TAG_BUFFER),
       (Field ''topics'', COMPACT_ARRAY (STRUCT [(Field ''group_id'', COMPACT_STRING), (Field ''topic_id'', UUID),
          (Field ''partitions'', COMPACT_ARRAY (STRUCT [(Field ''partition_index'', INT32), (Field ''leader_epoch'', INT32),
             (Skip, TAG_BUFFER)])),
          (Skip, TAG_BUFFER)])),
       (Skip, TAG_BUFFER)]"

definition readShareGroupStateSummary_v0_value where
  "readShareGroupStateSummary_v0_value topics =
     WStruct [WTags,
       WArr (Some (map (\<lambda>(groupId, topicId, partitions). WStruct [WStr groupId, uuid_value topicId,
         WArr (Some (map (\<lambda>(partitionIndex, leaderEpoch). WStruct [WInt partitionIndex, WInt leaderEpoch, WTags]) partitions)),
         WTags]) (or_default [] topics))),
       WTags]"

lemma readShareGroupStateSummary_v0_conforming [request_specs]:
  "conforming_request ''ReadShareGroupStateSummary'' 0 readShareGroupStateSummary_v0_request_layout
    (readShareGroupStateSummary_v0_value topics) (readShareGroupStateSummary_v0_request topics)"
  unfolding readShareGroupStateSummary_v0_request_layout_def readShareGroupStateSummary_v0_value_def
    readShareGroupStateSummary_v0_request_def
  by (rule conforming_new_request writes_intros)+

subsection \<open>Voters of the quorum\<close>

definition write_listener :: "string option \<times> string option \<times> int \<times> int option \<Rightarrow> writer" where
  "write_listener = (\<lambda>(name, host, port, securityProtocol).
     chain [writeUVarIntString name, writeUVarIntString host, writeInt16 port, writeInt16 (or_number 0 securityProtocol),
       writeUVarIntBytes BNull])"

definition LISTENER :: layout where
  "LISTENER =
     STRUCT [(Field ''name'', COMPACT_STRING), (Field ''host'', COMPACT_STRING), (Field ''port'', INT16),
       (Field ''security_protocol'', INT16), (Skip, TAG_BUFFER)]"

definition listener_value :: "string option \<times> string option \<times> int \<times> int option \<Rightarrow> wire_value" where
  "listener_value = (\<lambda>(name, host, port, securityProtocol).
     WStruct [WStr name, WStr host, WInt port, WInt (or_number 0 securityProtocol), WTags])"

lemma writes_listener [writes_intros]: "writes LISTENER (listener_value x) (write_listener x)"
  unfolding LISTENER_def listener_value_def write_listener_def by (rule writes_intros)+

definition addRaftVoter_v0_request where
  "addRaftVoter_v0_request clusterId timeoutMs voterId voterDirectoryId listeners =
     new_request (api_key ''AddRaftVoter'') 0 ''AddRaftVoter''
       (chain [writeUVarIntBytes BNull, writeUVarIntString clusterId, writeInt32 (or_default 30000 timeoutMs),
         writeInt32 voterId, writeUUID voterDirectoryId, write_each write_listener (or_default [] listeners),
         writeUVarIntBytes BNull])"

definition addRaftVoter_v0_request_layout :: layout where
  "addRaftVoter_v0_request_layout =
     STRUCT [(Skip, TAG_BUFFER), (Field ''cluster_id'', COMPACT_STRING), (Field ''timeout_ms'', INT32),
       (Field ''voter_id'', INT32), (Field ''voter_directory_id'', UUID), (Field ''listeners'', COMPACT_ARRAY LISTENER),
       (Skip, TAG_BUFFER)]"

definition addRaftVoter_v0_value where
  "addRaftVoter_v0_value clusterId timeoutMs voterId voterDirectoryId listeners =
     WStruct [WTags, WStr clusterId, WInt (or_default 30000 timeoutMs), WInt voterId, uuid_value voterDirectoryId,
       WArr (Some (map listener_value (or_default [] listeners))), WTags]"

lemma addRaftVoter_v0_conforming [request_specs]:
  "conforming_request ''AddRaftVoter'' 0 addRaftVoter_v0_request_layout
    (addRaftVoter_v0_value clusterId timeoutMs voterId voterDirectoryId listeners)
    (addRaftVoter_v0_request clusterId timeoutMs voterId voterDirectoryId listeners)"
  unfolding addRaftVoter_v0_request_layout_def addRaftVoter_v0_value_def addRaftVoter_v0_request_def
  by (rule conforming_new_request writes_intros)+

definition removeRaftVoter_v0_request where
  "removeRaftVoter_v0_request clusterId timeoutMs voterId voterDirectoryId =
     new_request (api_key ''RemoveRaftVoter'') 0 ''RemoveRaftVoter''
       (chain [writeUVarIntBytes BNull, writeUVarIntString clusterId, writeInt32 (or_default 30000 timeoutMs),
         writeInt32 voterId, writeUUID voterDirectoryId, writeUVarIntBytes BNull])"

definition removeRaftVoter_v0_request_layout :: layout where
  "removeRaftVoter_v0_request_layout =
     STRUCT [(Skip, TAG_BUFFER), (Field ''cluster_id'', COMPACT_STRING), (Field ''timeout_ms'', INT32),
       (Field ''voter_id'', INT32), (Field ''voter_directory_id'', UUID), (Skip, TAG_BUFFER)]"

definition removeRaftVoter_v0_value where
  "removeRaftVoter_v0_value clusterId timeoutMs voterId voterDirectoryId =
     WStruct [WTags, WStr clusterId, WInt (or_default 30000 timeoutMs), WInt voterId, uuid_value voterDirectoryId, WTags]"

lemma removeRaftVoter_v0_conforming [request_specs]:
  "conforming_request ''RemoveRaftVoter'' 0 removeRaftVoter_v0_request_layout
    (removeRaftVoter_v0_value clusterId timeoutMs voterId voterDirectoryId)
    (removeRaftVoter_v0_request clusterId timeoutMs voterId voterDirectoryId)"
  unfolding removeRaftVoter_v0_request_layout_def removeRaftVoter_v0_value_def removeRaftVoter_v0_request_def
  by (rule conforming_new_request writes_intros)+

text \<open>The versions of a feature are a pair of bounds; absent ones are written as 0.\<close>

definition updateRaftVoter_v0_request where
  "updateRaftVoter_v0_request clusterId currentLeaderEpoch voterId voterDirectoryId listeners kRaftVersionFeature =
     new_request (api_key ''UpdateRaftVoter'') 0 ''UpdateRaftVoter''
       (chain [writeUVarIntBytes BNull, writeUVarIntString clusterId, writeInt32 currentLeaderEpoch,
         writeInt32 voterId, writeUUID voterDirectoryId, write_each write_listener (or_default [] listeners),
         writeInt16 (fst (or_default (0, 0) kRaftVersionFeature)), writeInt16 (snd (or_default (0, 0) kRaftVersionFeature)),
         writeUVarIntBytes BNull, writeUVarIntBytes BNull])"

definition updateRaftVoter_v0_request_layout :: layout where
  "updateRaftVoter_v0_request_layout =
     STRUCT [(Skip, TAG_BUFFER), (Field ''cluster_id'', COMPACT_STRING), (Field ''current_leader_epoch'', INT32),
       (Field ''voter_id'', INT32), (Field ''voter_directory_id'', UUID), (Field ''listeners'', COMPACT_ARRAY LISTENER),
       (Field ''min_supported_version'', INT16), (Field ''max_supported_version'', INT16),
       (Skip, TAG_BUFFER), (Skip, TAG_BUFFER)]"

definition updateRaftVoter_v0_value where
  "updateRaftVoter_v0_value clusterId currentLeaderEpoch voterId voterDirectoryId listeners kRaftVersionFeature =
     WStruct [WTags, WStr clusterId, WInt currentLeaderEpoch, WInt voterId, uuid_value voterDirectoryId,
       WArr (Some (map listener_value (or_default [] listeners))),
       WInt (fst (or_default (0, 0) kRaftVersionFeature)), WInt (snd (or_default (0, 0) kRaftVersionFeature)), WTags, WTags]"

lemma updateRaftVoter_v0_conforming [request_specs]:
  "conforming_request ''UpdateRaftVoter'' 0 updateRaftVoter_v0_request_layout
    (updateRaftVoter_v0_value clusterId currentLeaderEpoch voterId voterDirectoryId listeners kRaftVersionFeature)
    (updateRaftVoter_v0_request clusterId currentLeaderEpoch voterId voterDirectoryId listeners kRaftVersionFeature)"
  unfolding updateRaftVoter_v0_request_layout_def updateRaftVoter_v0_value_def updateRaftVoter_v0_request_def
  by (rule conforming_new_request writes_intros)+

subsection \<open>All requests\<close>

inductive share_request :: "string \<Rightarrow> int \<Rightarrow> layout \<Rightarrow> wire_value \<Rightarrow> protocol_request \<Rightarrow> bool" where
  "share_request ''ShareGroupHeartbeat'' 0 shareGroupHeartbeat_v0_request_layout
    (shareGroupHeartbeat_v0_value groupId memberId memberEpoch rackId subscribedTopicNames topicPartitions)
    (shareGroupHeartbeat_v0_request groupId memberId memberEpoch rackId subscribedTopicNames topicPartitions)"
| "share_request ''ShareGroupDescribe'' 0 shareGroupDescribe_v0_request_layout
    (shareGroupDescribe_v0_value groupIds includeAuthorizedOperations)
    (shareGroupDescribe_v0_request groupIds includeAuthorizedOperations)"
| "share_request ''ShareFetch'' 0 shareFetch_v0_request_layout
    (shareFetch_v0_value groupId memberId memberEpoch maxWaitMs minBytes maxBytes topics forgottenTopicsData)
    (shareFetch_v0_request groupId memberId memberEpoch maxWaitMs minBytes maxBytes topics forgottenTopicsData)"
| "share_request ''ShareAcknowledge'' 0 shareAcknowledge_v0_request_layout
    (shareAcknowledge_v0_value groupId memberId memberEpoch topics)
    (shareAcknowledge_v0_request groupId memberId memberEpoch topics)"
| "share_request ''ReadShareGroupStateSummary'' 0 readShareGroupStateSummary_v0_request_layout
    (readShareGroupStateSummary_v0_value topics) (readShareGroupStateSummary_v0_request topics)"
| "share_request ''AddRaftVoter'' 0 addRaftVoter_v0_request_layout
    (addRaftVoter_v0_value clusterId timeoutMs voterId voterDirectoryId listeners)
    (addRaftVoter_v0_request clusterId timeoutMs voterId voterDirectoryId listeners)"
| "share_request ''RemoveRaftVoter'' 0 removeRaftVoter_v0_request_layout
    (removeRaftVoter_v0_value clusterId timeoutMs voterId voterDirectoryId)
    (removeRaftVoter_v0_request clusterId timeoutMs voterId voterDirectoryId)"
| "share_request ''UpdateRaftVoter'' 0 updateRaftVoter_v0_request_layout
    (updateRaftVoter_v0_value clusterId currentLeaderEpoch voterId voterDirectoryId listeners kRaftVersionFeature)
    (updateRaftVoter_v0_request clusterId currentLeaderEpoch voterId voterDirectoryId listeners kRaftVersionFeature)"

lemma share_request_conforming: "share_request api v t w r \<Longrightarrow> conforming_request api v t w r"
  by (induction rule: share_request.induct) (rule request_specs)+

end
