(* ===== verification/Produce_Request.thy ===== *)
theory Produce_Request
  imports Record_Batch Message_Set Subscription Request_Format
begin

text \<open>
  The requests that carry messages: \<^verbatim>\<open>src/protocol/requests/produce/v*/request.js\<close>. Versions 0 to 2 send message
  sets, the later ones record batches. Compression and \<^verbatim>\<open>Date.now()\<close> are parameters; the clock is read once for
  every partition, so that it is a function of topic and partition. A record set is written as the octets of a
  \<open>BYTES\<close> field; messages that cannot be encoded (a header without value, a number that does not fit, more than a
  gibibyte) have no value in the layout.
\<close>

record produce_message =
  pm_key :: bytes_value
  pm_value :: bytes_value
  pm_timestamp :: "int option" \<comment> \<open>a decimal string\<close>
  pm_headers :: "(string \<times> header_value) list"

type_synonym clock = "string option \<Rightarrow> int \<Rightarrow> int"

subsection \<open>Message sets\<close>

definition set_entry :: "produce_message \<Rightarrow> message_data" where
  "set_entry m = \<lparr>msg_compression = None, msg_timestamp = pm_timestamp m, msg_key = pm_key m, msg_value = pm_value m\<rparr>"

text \<open>\<^verbatim>\<open>writeInt32(partition).writeInt32(set.size()).writeEncoder(set)\<close>, as all versions end.\<close>

definition write_sized :: "int \<Rightarrow> encoder \<Rightarrow> writer" where
  "write_sized prt s = chain [writeInt32 prt, writeInt32 (int (Encoder_size s)), writeEncoder (ElEncoder s)]"

definition produce_v0_encodePartitions :: "(int \<times> produce_message list) \<Rightarrow> writer" where
  "produce_v0_encodePartitions =
     (\<lambda>(prt, messages) e. rbind (MessageSet 0 0 None (map set_entry messages)) (\<lambda>messageSet. write_sized prt messageSet e))"

definition produce_v0_encodeTopic :: "(string option \<times> (int \<times> produce_message list) list) \<Rightarrow> writer" where
  "produce_v0_encodeTopic =
     (\<lambda>(topic, prts). chain [writeString topic, write_array_of produce_v0_encodePartitions prts])"

definition produce_request :: "int \<Rightarrow> int \<Rightarrow> writer \<Rightarrow> protocol_request" where \<comment> \<open>with \<open>expectResponse: () => acks !== 0\<close>\<close>
  "produce_request acks v encode = (new_request (api_key ''Produce'') v ''Produce'' encode)\<lparr>req_expectResponse := acks \<noteq> 0\<rparr>"

definition produce_v0_request where
  "produce_v0_request acks timeout topicData =
     produce_request acks 0
       (chain [writeInt16 acks, writeInt32 timeout, write_array_of produce_v0_encodeTopic topicData])"

definition produce_v1_request where
  "produce_v1_request acks timeout topicData = with_version 1 (produce_v0_request acks timeout topicData)"

definition produce_v2_messageSet :: "codec_registry \<Rightarrow> int \<Rightarrow> int \<Rightarrow> produce_message list \<Rightarrow> encoder result" where
  "produce_v2_messageSet codecs now compression messages =
     rbind (MessageSet now 1 (Some compression) (map set_entry messages)) (\<lambda>messageSet.
       if compression = Types_None then Inr messageSet
       else case messages of
              [] \<Rightarrow> Inl JsTypeError \<comment> \<open>\<open>messages[0].timestamp\<close>\<close>
            | m # _ \<Rightarrow>
                rbind (lookupCodec codecs compression) (\<lambda>codec.
                case codec of
                  None \<Rightarrow> Inl JsTypeError
                | Some c \<Rightarrow>
                    rbind (codec_compress c (Encoder_buffer messageSet)) (\<lambda>compressedValue.
                      MessageSet now 1 None
                        [\<lparr>msg_compression = Some compression, msg_timestamp = Some (or_default now (pm_timestamp m)),
                          msg_key = BNull, msg_value = BBuffer compressedValue\<rparr>])))"

definition produce_v2_encodePartitions :: "codec_registry \<Rightarrow> (int \<Rightarrow> int) \<Rightarrow> int \<Rightarrow> (int \<times> produce_message list) \<Rightarrow> writer" where
  "produce_v2_encodePartitions codecs now compression =
     (\<lambda>(prt, messages) e. rbind (produce_v2_messageSet codecs (now prt) compression messages) (\<lambda>messageSet. write_sized prt messageSet e))"

definition produce_v2_encodeTopic where
  "produce_v2_encodeTopic codecs (now :: clock) compression =
     (\<lambda>(topic, prts). chain [writeString topic, write_array_of (produce_v2_encodePartitions codecs (now topic) compression) prts])"

definition produce_v2_request where
  "produce_v2_request codecs now acks timeout compression topicData =
     produce_request acks 2
       (chain [writeInt16 acks, writeInt32 timeout,
         write_array_of (produce_v2_encodeTopic codecs now (or_default Types_None compression)) topicData])"

subsection \<open>Record batches\<close>

text \<open>
  The timestamps of the messages, sorted as the strings they are, or the current time when no message has one; the
  first and the last one go to the header of the batch.
\<close>

definition batch_timestamps :: "int \<Rightarrow> produce_message list \<Rightarrow> int list" where
  "batch_timestamps dateNow messages =
     (let messageTimestamps = js_sort (List.map_filter pm_timestamp messages)
      in if messageTimestamps = [] then [dateNow] else messageTimestamps)"

definition batch_record :: "int \<Rightarrow> int \<Rightarrow> nat \<times> produce_message \<Rightarrow> record_data" where
  "batch_record dateNow firstTs =
     (\<lambda>(i, message).
        \<lparr>offsetDelta = int i, timestampDelta = or_default dateNow (pm_timestamp message) - firstTs,
         rec_key = pm_key message, rec_value = pm_value message, rec_headers = pm_headers message\<rparr>)"

definition batch_records :: "int \<Rightarrow> produce_message list \<Rightarrow> record_data list" where
  "batch_records dateNow messages =
     map (batch_record dateNow (hd (batch_timestamps dateNow messages))) (enumerate 0 messages)"

record producer_state =
  ps_transactionalId :: "string option"
  ps_producerId :: int
  ps_producerEpoch :: int

definition produce_batch :: "int \<Rightarrow> int \<Rightarrow> producer_state \<Rightarrow> int option \<Rightarrow> produce_message list \<Rightarrow> batch_data" where
  "produce_batch compression dateNow p firstSeq messages =
     \<lparr>b_compression = compression, b_firstOffset = 0,
      b_firstTimestamp = hd (batch_timestamps dateNow messages), b_maxTimestamp = List.last (batch_timestamps dateNow messages),
      b_partitionLeaderEpoch = 0, b_lastOffsetDelta = int (length messages) - 1,
      b_transactional = (case ps_transactionalId p of None \<Rightarrow> False | Some tid \<Rightarrow> tid \<noteq> []),
      b_producerId = ps_producerId p, b_producerEpoch = ps_producerEpoch p, b_firstSequence = or_default 0 firstSeq\<rparr>"

definition produce_recordBatch ::
  "codec_registry \<Rightarrow> int \<Rightarrow> int \<Rightarrow> producer_state \<Rightarrow> int option \<Rightarrow> produce_message list \<Rightarrow> encoder result" where
  "produce_recordBatch codecs compression dateNow p firstSeq messages =
     rbind (rmap Record (batch_records dateNow messages)) (\<lambda>records.
       RecordBatch codecs (produce_batch compression dateNow p firstSeq messages) (map ElEncoder records))"

text \<open>The data of a partition: its number, the first sequence number, the messages.\<close>

type_synonym partition_data = "int \<times> int option \<times> produce_message list"

definition produce_v3_encodePartitions ::
  "codec_registry \<Rightarrow> int \<Rightarrow> producer_state \<Rightarrow> (int \<Rightarrow> int) \<Rightarrow> partition_data \<Rightarrow> writer" where
  "produce_v3_encodePartitions codecs compression p now =
     (\<lambda>(prt, firstSeq, messages) e.
        rbind (produce_recordBatch codecs compression (now prt) p firstSeq messages) (\<lambda>recordBatch.
          write_sized prt recordBatch e))"

definition produce_v3_encodeTopic where
  "produce_v3_encodeTopic codecs compression p (now :: clock) =
     (\<lambda>(topic, prts). chain [writeString topic, write_array_of (produce_v3_encodePartitions codecs compression p (now topic)) prts])"

definition producer_of :: "string option \<Rightarrow> int option \<Rightarrow> int option \<Rightarrow> producer_state" where
  "producer_of tid pid epoch =
     \<lparr>ps_transactionalId = tid, ps_producerId = or_default (- 1) pid, ps_producerEpoch = or_default 0 epoch\<rparr>"

definition produce_v3_request where
  "produce_v3_request codecs now acks timeout transactionalId pid epoch compression topicData =
     produce_request acks 3
       (chain [writeString transactionalId, writeInt16 acks, writeInt32 timeout,
         write_array_of (produce_v3_encodeTopic codecs (or_default Types_None compression)
           (producer_of transactionalId pid epoch) now) topicData])"

definition produce_v4_request where
  "produce_v4_request codecs now acks timeout transactionalId pid epoch compression topicData =
     with_version 4 (produce_v3_request codecs now acks timeout transactionalId pid epoch compression topicData)"

definition produce_v5_request where
  "produce_v5_request codecs now acks timeout transactionalId pid epoch compression topicData =
     with_version 5 (produce_v3_request codecs now acks timeout transactionalId pid epoch compression topicData)"

definition produce_v6_request where
  "produce_v6_request codecs now acks timeout transactionalId pid epoch compression topicData =
     with_version 6 (produce_v5_request codecs now acks timeout transactionalId pid epoch compression topicData)"

definition produce_v7_request where
  "produce_v7_request codecs now acks timeout transactionalId pid epoch compression topicData =
     with_version 7 (produce_v6_request codecs now acks timeout transactionalId pid epoch compression topicData)"

definition produce_v8_request where
  "produce_v8_request codecs now acks timeout transactionalId pid epoch compression topicData =
     with_version 8 (produce_v7_request codecs now acks timeout transactionalId pid epoch compression topicData)"

definition produce_v9_encodePartitions ::
  "codec_registry \<Rightarrow> int \<Rightarrow> producer_state \<Rightarrow> (int \<Rightarrow> int) \<Rightarrow> partition_data \<Rightarrow> writer" where
  "produce_v9_encodePartitions codecs compression p now =
     (\<lambda>(prt, firstSeq, messages) e.
        rbind (produce_recordBatch codecs compression (now prt) p firstSeq messages) (\<lambda>recordBatch.
          chain [write_sized prt recordBatch, writeUVarIntBytes BNull] e))"

definition produce_v9_encodeTopic where
  "produce_v9_encodeTopic codecs compression p (now :: clock) =
     (\<lambda>(topic, prts). chain [writeUVarIntString topic,
        write_uvarint_array_of (produce_v9_encodePartitions codecs compression p (now topic)) (Some prts),
        writeUVarIntBytes BNull])"

definition produce_v9_request where
  "produce_v9_request codecs now acks timeout transactionalId pid epoch compression topicData =
     produce_request acks 9
       (chain [writeUVarIntBytes BNull, writeUVarIntString transactionalId, writeInt16 acks, writeInt32 timeout,
         write_uvarint_array_of (produce_v9_encodeTopic codecs (or_default Types_None compression)
           (producer_of transactionalId pid epoch) now) (Some topicData),
         writeUVarIntBytes BNull])"

subsection \<open>Layouts and values\<close>

text \<open>A set of records is a field of octets with their number in front.\<close>

definition PARTITION_DATA :: layout where
  "PARTITION_DATA = STRUCT [(Field ''partition'', INT32), (Field ''record_set'', BYTES)]"

definition produce_v0_request_layout :: layout where
  "produce_v0_request_layout =
     STRUCT [(Field ''acks'', INT16), (Field ''timeout'', INT32),
       (Field ''topic_data'', ARRAY (STRUCT [(Field ''topic'', STRING), (Field ''data'', ARRAY PARTITION_DATA)]))]"

definition produce_v3_request_layout :: layout where
  "produce_v3_request_layout =
     STRUCT [(Field ''transactional_id'', STRING), (Field ''acks'', INT16), (Field ''timeout'', INT32),
       (Field ''topic_data'', ARRAY (STRUCT [(Field ''topic'', STRING), (Field ''data'', ARRAY PARTITION_DATA)]))]"

definition produce_v9_request_layout :: layout where
  "produce_v9_request_layout =
     STRUCT [(Skip, TAG_BUFFER), (Field ''transactional_id'', COMPACT_STRING), (Field ''acks'', INT16),
       (Field ''timeout'', INT32),
       (Field ''topic_data'', COMPACT_ARRAY (STRUCT [(Field ''topic'', COMPACT_STRING),
          (Field ''data'', COMPACT_ARRAY (STRUCT [(Field ''partition'', INT32), (Field ''record_set'', BYTES), (Skip, TAG_BUFFER)])),
          (Skip, TAG_BUFFER)])),
       (Skip, TAG_BUFFER)]"

text \<open>
  The value of a message set or a batch that can be encoded; \<open>WTags\<close> is not a value of \<open>BYTES\<close>.
\<close>

definition encodable_set :: "int \<Rightarrow> int \<Rightarrow> int option \<Rightarrow> message_data list \<Rightarrow> bool" where
  "encodable_set now version compression ms \<longleftrightarrow>
     list_all (message_ok now version) ms \<and> length ms < 2147483648 \<and>
     length (wire_message_set now version compression ms) < 2 ^ 30"

definition message_set_value :: "int \<Rightarrow> int \<Rightarrow> int option \<Rightarrow> message_data list \<Rightarrow> wire_value" where
  "message_set_value now version compression ms =
     (if encodable_set now version compression ms then WBytes (Some (wire_message_set now version compression ms)) else WTags)"

definition encodable_batch :: "codec_registry \<Rightarrow> batch_data \<Rightarrow> record_data list \<Rightarrow> buffer \<Rightarrow> bool" where
  "encodable_batch codecs b rs recs \<longleftrightarrow>
     wire_records codecs (b_compression b) rs = Inr recs \<and> batch_ok b \<and> list_all record_ok rs \<and>
     length rs < 2147483648 \<and> length (wire_batch b recs) < 2 ^ 30 \<and> length (concat (map wire_record rs)) < 2 ^ 30"

definition batch_value ::
  "codec_registry \<Rightarrow> int \<Rightarrow> int \<Rightarrow> producer_state \<Rightarrow> int option \<Rightarrow> produce_message list \<Rightarrow> wire_value" where
  "batch_value codecs compression dateNow p firstSeq messages =
     (let b = produce_batch compression dateNow p firstSeq messages; rs = batch_records dateNow messages
      in case wire_records codecs compression rs of
           Inl _ \<Rightarrow> WTags
         | Inr recs \<Rightarrow> if encodable_batch codecs b rs recs then WBytes (Some (wire_batch b recs)) else WTags)"

definition produce_v0_value where
  "produce_v0_value acks timeout topicData =
     WStruct [WInt acks, WInt timeout,
       WArr (Some (map (\<lambda>(topic, prts). WStruct [WStr topic,
         WArr (Some (map (\<lambda>(prt, messages). WStruct [WInt prt, message_set_value 0 0 None (map set_entry messages)]) prts))]) topicData))]"

definition produce_v3_value where
  "produce_v3_value codecs now acks timeout transactionalId pid epoch compression topicData =
     WStruct [WStr transactionalId, WInt acks, WInt timeout,
       WArr (Some (map (\<lambda>(topic, prts). WStruct [WStr topic,
         WArr (Some (map (\<lambda>(prt, firstSeq, messages). WStruct [WInt prt,
           batch_value codecs (or_default Types_None compression) (now topic prt) (producer_of transactionalId pid epoch)
             firstSeq messages]) prts))]) topicData))]"

definition produce_v9_value where
  "produce_v9_value codecs now acks timeout transactionalId pid epoch compression topicData =
     WStruct [WTags, WStr transactionalId, WInt acks, WInt timeout,
       WArr (Some (map (\<lambda>(topic, prts). WStruct [WStr topic,
         WArr (Some (map (\<lambda>(prt, firstSeq, messages). WStruct [WInt prt,
           batch_value codecs (or_default Types_None compression) (now topic prt) (producer_of transactionalId pid epoch)
             firstSeq messages, WTags]) prts)), WTags]) topicData)), WTags]"

subsection \<open>The encoders write the values\<close>

lemma appends_write_sized:
  assumes "Encoder_buffer s = bs" "Encoder_size s = length bs" "int_range 32 prt" "length bs < 2147483648"
  shows "appends (write_sized prt s) (be_bytes 4 prt @ wire_bytes (Some bs))"
  unfolding write_sized_def wire_bytes_def assms(1) [symmetric] option.case using assms appends_writeEncoder [of s]
  by (intro appends_chain_Cons appends_chain_single) (auto intro!: appends_writeInt32)

lemma MessageSet_value:
  assumes "message_set_value now version compression ms = WBytes (Some bs)"
  obtains e where "MessageSet now version compression ms = Inr e" "Encoder_buffer e = bs" "Encoder_size e = length bs"
proof -
  have "encodable_set now version compression ms" "bs = wire_message_set now version compression ms"
    using assms by (auto simp: message_set_value_def split: if_splits)
  then show thesis using MessageSet_eq [of now version ms compression] that unfolding encodable_set_def by blast
qed

lemma batch_value_encodable:
  assumes "batch_value codecs compression dateNow p firstSeq messages = WBytes (Some bs)"
  obtains recs where "bs = wire_batch (produce_batch compression dateNow p firstSeq messages) recs"
    "encodable_batch codecs (produce_batch compression dateNow p firstSeq messages) (batch_records dateNow messages) recs"
  using assms unfolding batch_value_def Let_def by (auto split: sum.splits if_splits)

lemma produce_recordBatch_value:
  assumes "batch_value codecs compression dateNow p firstSeq messages = WBytes (Some bs)"
  obtains e where "produce_recordBatch codecs compression dateNow p firstSeq messages = Inr e"
    "Encoder_buffer e = bs" "Encoder_size e = length bs"
proof -
  let ?b = "produce_batch compression dateNow p firstSeq messages" and ?rs = "batch_records dateNow messages"
  obtain recs where bs: "bs = wire_batch ?b recs" and ok: "encodable_batch codecs ?b ?rs recs"
    using batch_value_encodable [OF assms] .
  then obtain es where es: "rmap Record ?rs = Inr es" "map Encoder_buffer es = map wire_record ?rs"
    using Record_all [of ?rs] unfolding encodable_batch_def by metis
  then have "appends (write_records codecs (b_compression ?b) (map ElEncoder es)) recs"
    using ok unfolding encodable_batch_def by (intro write_records_eq [of ?rs]) auto
  then obtain e where "RecordBatch codecs ?b (map ElEncoder es) = Inr e" "Encoder_buffer e = bs" "Encoder_size e = length bs"
    using ok bs RecordBatch_eq [of ?b codecs "map ElEncoder es" recs] unfolding encodable_batch_def by metis
  then show thesis using that es(1) by (simp add: produce_recordBatch_def)
qed

lemma wf_BYTES_cases:
  assumes "wf_value BYTES w" "w \<noteq> WBytes None"
  obtains bs where "w = WBytes (Some bs)" "length bs < 2147483648"
  using assms by (cases w) (auto simp: bytes_ok_def split: option.splits)

lemma batch_value_some: "batch_value codecs compression dateNow p firstSeq messages \<noteq> WBytes None"
  by (auto simp: batch_value_def Let_def split: sum.splits)

lemma message_set_value_some: "message_set_value now version compression ms \<noteq> WBytes None"
  by (simp add: message_set_value_def)

text \<open>A writer that fetches its set first writes it, whatever comes behind it.\<close>

lemma writes_record_set:
  assumes "\<And>bs. w = WBytes (Some bs) \<Longrightarrow> \<exists>e. get = Inr e \<and> Encoder_buffer e = bs \<and> Encoder_size e = length bs"
    "w \<noteq> WBytes None"
  shows "writes PARTITION_DATA (WStruct [WInt prt, w]) (\<lambda>e. rbind get (\<lambda>s. write_sized prt s e))"
    "writes (STRUCT [(Field a, INT32), (Field b, BYTES), (Skip, TAG_BUFFER)]) (WStruct [WInt prt, w, WTags])
       (\<lambda>e. rbind get (\<lambda>s. chain [write_sized prt s, writeUVarIntBytes BNull] e))"
proof -
  have *: "\<exists>s bs. get = Inr s \<and> w = WBytes (Some bs) \<and> appends (write_sized prt s) (be_bytes 4 prt @ wire_bytes (Some bs))"
    if prt: "wf_value INT32 (WInt prt)" and w: "wf_value BYTES w"
  proof -
    obtain bs where bs: "w = WBytes (Some bs)" "length bs < 2147483648" using wf_BYTES_cases [OF w assms(2)] .
    with assms(1) obtain s where "get = Inr s" "Encoder_buffer s = bs" "Encoder_size s = length bs" by blast
    with bs prt show ?thesis using appends_write_sized [of s bs prt] by auto
  qed
  show "writes PARTITION_DATA (WStruct [WInt prt, w]) (\<lambda>e. rbind get (\<lambda>s. write_sized prt s e))"
    using * by (auto simp: writes_def PARTITION_DATA_def parts_of_def int_of_def wbytes_of_def)
  have t: "appends (writeUVarIntBytes BNull) (uleb128 0)"
    using writesD [OF writes_tag_buffer] by simp
  show "writes (STRUCT [(Field a, INT32), (Field b, BYTES), (Skip, TAG_BUFFER)]) (WStruct [WInt prt, w, WTags])
      (\<lambda>e. rbind get (\<lambda>s. chain [write_sized prt s, writeUVarIntBytes BNull] e))"
    using * chain_prefix2 [OF _ appends_chain_single [OF t]] appends_chain_Cons [OF _ appends_chain_single [OF t]]
    by (fastforce simp: writes_def parts_of_def int_of_def wbytes_of_def simp del: chain.simps)
qed

lemma writes_produce_v0 [writes_intros]:
  "writes PARTITION_DATA (case x of (prt, messages) \<Rightarrow> WStruct [WInt prt, message_set_value 0 0 None (map set_entry messages)])
    (produce_v0_encodePartitions x)"
  unfolding produce_v0_encodePartitions_def
  by (cases x) (auto intro!: writes_record_set message_set_value_some elim: MessageSet_value)

lemma writes_produce_v3 [writes_intros]:
  "writes PARTITION_DATA (case x of (prt, firstSeq, messages) \<Rightarrow> WStruct [WInt prt,
      batch_value codecs compression (now prt) p firstSeq messages])
    (produce_v3_encodePartitions codecs compression p now x)"
  unfolding produce_v3_encodePartitions_def
  by (cases x) (auto intro!: writes_record_set batch_value_some elim: produce_recordBatch_value)

lemma writes_produce_v9 [writes_intros]:
  "writes (STRUCT [(Field ''partition'', INT32), (Field ''record_set'', BYTES), (Skip, TAG_BUFFER)])
    (case x of (prt, firstSeq, messages) \<Rightarrow> WStruct [WInt prt,
      batch_value codecs compression (now prt) p firstSeq messages, WTags])
    (produce_v9_encodePartitions codecs compression p now x)"
  unfolding produce_v9_encodePartitions_def
  by (cases x) (auto intro!: writes_record_set batch_value_some elim: produce_recordBatch_value simp del: chain.simps)

lemma conforming_produce_request:
  "writes t w wr \<Longrightarrow> conforming_request ''Produce'' v t w (produce_request acks v wr)"
  by (simp add: conforming_request_def new_request_def produce_request_def)

lemma produce_v0_conforming [request_specs]:
  "conforming_request ''Produce'' 0 produce_v0_request_layout (produce_v0_value acks timeout topicData)
    (produce_v0_request acks timeout topicData)"
  unfolding produce_v0_request_layout_def produce_v0_value_def produce_v0_request_def produce_v0_encodeTopic_def
  by (rule conforming_produce_request writes_intros)+

lemma produce_v3_conforming [request_specs]:
  "conforming_request ''Produce'' 3 produce_v3_request_layout
    (produce_v3_value codecs now acks timeout transactionalId pid epoch compression topicData)
    (produce_v3_request codecs now acks timeout transactionalId pid epoch compression topicData)"
  unfolding produce_v3_request_layout_def produce_v3_value_def produce_v3_request_def produce_v3_encodeTopic_def
  by (rule conforming_produce_request writes_intros)+

lemma produce_v9_conforming [request_specs]:
  "conforming_request ''Produce'' 9 produce_v9_request_layout
    (produce_v9_value codecs now acks timeout transactionalId pid epoch compression topicData)
    (produce_v9_request codecs now acks timeout transactionalId pid epoch compression topicData)"
  unfolding produce_v9_request_layout_def produce_v9_value_def produce_v9_request_def produce_v9_encodeTopic_def
  by (rule conforming_produce_request writes_intros)+

lemma produce_v1_conforming [request_specs]:
  "conforming_request ''Produce'' 1 produce_v0_request_layout (produce_v0_value acks timeout topicData)
    (produce_v1_request acks timeout topicData)"
  unfolding produce_v1_request_def by (rule conforming_with_version [OF produce_v0_conforming])

lemma produce_v4_conforming [request_specs]:
  "conforming_request ''Produce'' 4 produce_v3_request_layout
    (produce_v3_value codecs now acks timeout transactionalId pid epoch compression topicData)
    (produce_v4_request codecs now acks timeout transactionalId pid epoch compression topicData)"
  unfolding produce_v4_request_def by (rule conforming_with_version [OF produce_v3_conforming])

lemma produce_v5_conforming [request_specs]:
  "conforming_request ''Produce'' 5 produce_v3_request_layout
    (produce_v3_value codecs now acks timeout transactionalId pid epoch compression topicData)
    (produce_v5_request codecs now acks timeout transactionalId pid epoch compression topicData)"
  unfolding produce_v5_request_def by (rule conforming_with_version [OF produce_v3_conforming])

lemma produce_v6_conforming [request_specs]:
  "conforming_request ''Produce'' 6 produce_v3_request_layout
    (produce_v3_value codecs now acks timeout transactionalId pid epoch compression topicData)
    (produce_v6_request codecs now acks timeout transactionalId pid epoch compression topicData)"
  unfolding produce_v6_request_def by (rule conforming_with_version [OF produce_v5_conforming])

lemma produce_v7_conforming [request_specs]:
  "conforming_request ''Produce'' 7 produce_v3_request_layout
    (produce_v3_value codecs now acks timeout transactionalId pid epoch compression topicData)
    (produce_v7_request codecs now acks timeout transactionalId pid epoch compression topicData)"
  unfolding produce_v7_request_def by (rule conforming_with_version [OF produce_v6_conforming])

lemma produce_v8_conforming [request_specs]:
  "conforming_request ''Produce'' 8 produce_v3_request_layout
    (produce_v3_value codecs now acks timeout transactionalId pid epoch compression topicData)
    (produce_v8_request codecs now acks timeout transactionalId pid epoch compression topicData)"
  unfolding produce_v8_request_def by (rule conforming_with_version [OF produce_v7_conforming])

text \<open>The set of version 2 is the message set, or one message with the compressed set.\<close>

definition produce_v2_set_value :: "codec_registry \<Rightarrow> int \<Rightarrow> int \<Rightarrow> produce_message list \<Rightarrow> wire_value" where
  "produce_v2_set_value codecs now compression messages =
     (let ms = map set_entry messages
      in if compression = Types_None then message_set_value now 1 (Some compression) ms
         else case (messages, lookupCodec codecs compression) of
                (m # _, Inr (Some c)) \<Rightarrow>
                  (case codec_compress c (wire_message_set now 1 (Some compression) ms) of
                     Inr z \<Rightarrow>
                       if encodable_set now 1 (Some compression) ms
                       then message_set_value now 1 None
                         [\<lparr>msg_compression = Some compression, msg_timestamp = Some (or_default now (pm_timestamp m)),
                           msg_key = BNull, msg_value = BBuffer z\<rparr>]
                       else WTags
                   | Inl _ \<Rightarrow> WTags)
              | _ \<Rightarrow> WTags)"

lemma produce_v2_set_value:
  assumes "produce_v2_set_value codecs now compression messages = WBytes (Some bs)"
  shows "\<exists>e. produce_v2_messageSet codecs now compression messages = Inr e \<and> Encoder_buffer e = bs \<and> Encoder_size e = length bs"
proof (cases "compression = Types_None")
  case True
  with assms show ?thesis
    by (auto simp: produce_v2_set_value_def produce_v2_messageSet_def Let_def elim: MessageSet_value)
next
  case False
  let ?ms = "map set_entry messages"
  let ?outer = "\<lambda>m z. [\<lparr>msg_compression = Some compression, msg_timestamp = Some (or_default now (pm_timestamp m)),
    msg_key = BNull, msg_value = BBuffer z\<rparr>]"
  from assms False obtain m rest c z where *: "messages = m # rest" "lookupCodec codecs compression = Inr (Some c)"
    "codec_compress c (wire_message_set now 1 (Some compression) ?ms) = Inr z" "encodable_set now 1 (Some compression) ?ms"
    "message_set_value now 1 None (?outer m z) = WBytes (Some bs)"
    by (auto simp: produce_v2_set_value_def Let_def split: list.splits sum.splits option.splits if_splits)
  obtain e where "MessageSet now 1 (Some compression) ?ms = Inr e"
      "Encoder_buffer e = wire_message_set now 1 (Some compression) ?ms"
    using *(4) MessageSet_eq [of now 1 ?ms "Some compression"] unfolding encodable_set_def by blast
  moreover obtain e' where "MessageSet now 1 None (?outer m z) = Inr e'" "Encoder_buffer e' = bs" "Encoder_size e' = length bs"
    using MessageSet_value [OF *(5)] .
  ultimately show ?thesis using * False by (simp add: produce_v2_messageSet_def)
qed

lemma produce_v2_set_value_some: "produce_v2_set_value codecs now compression messages \<noteq> WBytes None"
  using message_set_value_some
  by (auto simp: produce_v2_set_value_def Let_def split: list.splits sum.splits option.splits)

definition produce_v2_value where
  "produce_v2_value codecs now acks timeout compression topicData =
     WStruct [WInt acks, WInt timeout,
       WArr (Some (map (\<lambda>(topic, prts). WStruct [WStr topic,
         WArr (Some (map (\<lambda>(prt, messages). WStruct [WInt prt,
           produce_v2_set_value codecs (now topic prt) (or_default Types_None compression) messages]) prts))]) topicData))]"

lemma writes_produce_v2 [writes_intros]:
  "writes PARTITION_DATA (case x of (prt, messages) \<Rightarrow> WStruct [WInt prt, produce_v2_set_value codecs (now prt) compression messages])
    (produce_v2_encodePartitions codecs now compression x)"
  unfolding produce_v2_encodePartitions_def
  by (cases x) (auto intro!: writes_record_set produce_v2_set_value_some dest: produce_v2_set_value)

lemma produce_v2_conforming [request_specs]:
  "conforming_request ''Produce'' 2 produce_v0_request_layout (produce_v2_value codecs now acks timeout compression topicData)
    (produce_v2_request codecs now acks timeout compression topicData)"
  unfolding produce_v0_request_layout_def produce_v2_value_def produce_v2_request_def produce_v2_encodeTopic_def
  by (rule conforming_produce_request writes_intros)+

subsection \<open>What a broker gets\<close>

text \<open>The message of a record, as a reader of the batch sees it: offset, timestamp, key, value and headers.\<close>

definition received :: "decoded_record \<Rightarrow> int \<times> int \<times> buffer option \<times> buffer option \<times> headers_object" where
  "received r = (rec_offset r, timestamp r, dkey r, dvalue r, dheaders r)"

definition expected :: "int \<Rightarrow> nat \<times> produce_message \<Rightarrow> int \<times> int \<times> buffer option \<times> buffer option \<times> headers_object" where
  "expected dateNow =
     (\<lambda>(i, m). (int i, or_default dateNow (pm_timestamp m), bytes_of (pm_key m), bytes_of (pm_value m),
        foldl add_header [] (map (\<lambda>h. (Some (fst h), bytes_of (snd h))) (headersArray (pm_headers m)))))"

lemma batch_decoded:
  assumes "batch_value codecs compression dateNow p firstSeq messages = WBytes (Some bs)"
    "lossless codecs" "codecs Types_None = None" "0 \<le> compression" "compression < 8"
  shows "RecordBatchDecoder codecs (new_Decoder bs) =
    Inr ((context_of (produce_batch compression dateNow p firstSeq messages),
          map (decoded (context_of (produce_batch compression dateNow p firstSeq messages)) MAGIC_BYTE)
            (batch_records dateNow messages)), dec_at bs [])"
proof -
  let ?b = "produce_batch compression dateNow p firstSeq messages" and ?rs = "batch_records dateNow messages"
  obtain recs where bs: "bs = wire_batch ?b recs" and ok: "encodable_batch codecs ?b ?rs recs"
    using batch_value_encodable [OF assms(1)] .
  have "length (wire_batch_content ?b recs) < 2147483648"
    using ok by (simp add: encodable_batch_def wire_batch_def wire_bytes_def)
  then have "reads (RecordBatchDecoder codecs) bs (context_of ?b, map (decoded (context_of ?b) MAGIC_BYTE) ?rs)"
    unfolding bs using ok assms(2-5)
    by (intro reads_RecordBatchDecoder) (auto simp: encodable_batch_def produce_batch_def)
  from reads_whole [OF this] show ?thesis .
qed

lemma received_batch_records:
  "map received (map (decoded (context_of (produce_batch compression dateNow p firstSeq messages)) MAGIC_BYTE)
     (batch_records dateNow messages)) = map (expected dateNow) (enumerate 0 messages)"
  by (auto simp: received_def expected_def decoded_def context_of_def produce_batch_def batch_records_def batch_record_def
      header_pairs_def CREATE_TIME_def LOG_APPEND_TIME_def)

lemma wf_arrayD: "wf_array n p (WArr (Some (map f xs))) \<Longrightarrow> x \<in> set xs \<Longrightarrow> p (f x)"
  by (auto simp: wf_array_def list_all_iff)


definition sample_messages :: "produce_message list" where
  "sample_messages =
     [\<lparr>pm_key = BString ''k'', pm_value = BString ''v'', pm_timestamp = Some 1700000000000, pm_headers = [(''h'', HSingle (BString ''x''))]\<rparr>,
      \<lparr>pm_key = BNull, pm_value = BString ''w'', pm_timestamp = None, pm_headers = []\<rparr>]"

lemma sample_batch_records:
  "batch_records 1700000000001 sample_messages =
     [\<lparr>offsetDelta = 0, timestampDelta = 0, rec_key = BString ''k'', rec_value = BString ''v'',
       rec_headers = [(''h'', HSingle (BString ''x''))]\<rparr>,
      \<lparr>offsetDelta = 1, timestampDelta = 1, rec_key = BNull, rec_value = BString ''w'', rec_headers = []\<rparr>]"
  by (simp add: batch_records_def batch_record_def batch_timestamps_def sample_messages_def js_sort_def or_default_def
      List.map_filter_def)

lemma sample_records_ok:
  "list_all record_ok (batch_records 1700000000001 sample_messages)"
  "length (concat (map wire_record (batch_records 1700000000001 sample_messages))) < 100"
  by (simp_all add: sample_batch_records record_ok_def header_ok_def headersArray_def wire_record_def wire_record_body_def
      wire_varint_bytes_def wire_varint_array_def wire_header_def wire_varint_string_def wire_varint_def zigzag_def uleb128.simps)

lemma sample_batch_encodable:
  "batch_value (Codecs sample_codec) Types_None 1700000000001 (producer_of None None None) (Some 5) sample_messages =
     WBytes (Some (wire_batch (produce_batch Types_None 1700000000001 (producer_of None None None) (Some 5) sample_messages)
       (wire_array wire_record (batch_records 1700000000001 sample_messages))))"
proof -
  let ?b = "produce_batch Types_None 1700000000001 (producer_of None None None) (Some 5) sample_messages"
  let ?rs = "batch_records 1700000000001 sample_messages"
  have "batch_ok ?b"
    by (simp add: batch_ok_def produce_batch_def producer_of_def or_default_def batch_timestamps_def sample_messages_def
        js_sort_def List.map_filter_def)
  moreover have "length (wire_batch ?b (wire_array wire_record ?rs)) < 2 ^ 30"
    using sample_records_ok(2)
    by (simp add: wire_batch_def wire_bytes_def wire_batch_content_def wire_batch_body_def wire_array_def)
  moreover have "length ?rs < 2147483648" by (simp add: sample_batch_records)
  ultimately show ?thesis
    using sample_records_ok by (simp add: batch_value_def encodable_batch_def wire_records_def produce_batch_def)
qed

lemma sample_batch_length:
  "length (wire_batch (produce_batch Types_None 1700000000001 (producer_of None None None) (Some 5) sample_messages)
       (wire_array wire_record (batch_records 1700000000001 sample_messages))) < 2147483648"
  using sample_records_ok(2)
  by (simp add: wire_batch_def wire_bytes_def wire_batch_content_def wire_batch_body_def wire_array_def)


text \<open>
  Timestamps are sorted as strings: with fewer digits the largest one is not the last, and the header of the batch announces a
  maximum that is smaller than a timestamp inside it.
\<close>

lemma batch_maximum_too_small:
  "b_maxTimestamp (produce_batch Types_None now p s
      [\<lparr>pm_key = BNull, pm_value = BNull, pm_timestamp = Some 999, pm_headers = []\<rparr>,
       \<lparr>pm_key = BNull, pm_value = BNull, pm_timestamp = Some 1000, pm_headers = []\<rparr>]) = 999"
  by (simp add: produce_batch_def batch_timestamps_def js_sort_def js_number_string_def List.map_filter_def dec_digits.simps less_char_def)

text \<open>Only a request that asks for no acknowledgement gets no response.\<close>

lemma produce_expects_response:
  "req_expectResponse (produce_v0_request acks timeout td) \<longleftrightarrow> acks \<noteq> 0"
  "req_expectResponse (produce_v3_request codecs now acks timeout tid pid epoch compression td') \<longleftrightarrow> acks \<noteq> 0"
  "req_expectResponse (produce_v9_request codecs now acks timeout tid pid epoch compression td') \<longleftrightarrow> acks \<noteq> 0"
  by (simp_all add: produce_v0_request_def produce_v3_request_def produce_v9_request_def produce_request_def)

end
