(* ===== verification/Base64.thy ===== *)
theory Base64
  imports Kafka_Prelude
begin

text \<open>
  \<^verbatim>\<open>buffer.toString('base64')\<close> and \<^verbatim>\<open>Buffer.from(text, 'base64')\<close> of Node, as the authentication
  mechanisms use them. Decoding accepts the characters of the URL-safe variant too, skips characters that are in no
  alphabet and stops at the first \<^verbatim>\<open>=\<close>.
\<close>

definition b64_alphabet :: string where
  "b64_alphabet = ''ABCDEFGHIJKLMNOPQRSTUVWXYZabcdefghijklmnopqrstuvwxyz0123456789+/''"

definition b64_char :: "nat \<Rightarrow> char" where
  "b64_char n = b64_alphabet ! n"

definition b64_value :: "char \<Rightarrow> nat option" where
  "b64_value c =
     (if c = CHR ''-'' then Some 62 else if c = CHR ''_'' then Some 63
      else map_of (zip b64_alphabet [0..<64]) c)"

fun base64_encode :: "buffer \<Rightarrow> string" where
  "base64_encode [] = []"
| "base64_encode [a] = [b64_char (unat a div 4), b64_char (unat a mod 4 * 16), CHR ''='', CHR ''='']"
| "base64_encode [a, b] =
     [b64_char (unat a div 4), b64_char (unat a mod 4 * 16 + unat b div 16), b64_char (unat b mod 16 * 4), CHR ''='']"
| "base64_encode (a # b # c # rest) =
     b64_char (unat a div 4) # b64_char (unat a mod 4 * 16 + unat b div 16) #
     b64_char (unat b mod 16 * 4 + unat c div 64) # b64_char (unat c mod 64) # base64_encode rest"

definition pack :: "nat \<Rightarrow> byte" where "pack n = of_nat n"

fun sextets_bytes :: "nat list \<Rightarrow> buffer" where
  "sextets_bytes (w # x # y # z # rest) =
     pack (w * 4 + x div 16) # pack (x mod 16 * 16 + y div 4) # pack (y mod 4 * 64 + z) # sextets_bytes rest"
| "sextets_bytes [w, x, y] = [pack (w * 4 + x div 16), pack (x mod 16 * 16 + y div 4)]"
| "sextets_bytes [w, x] = [pack (w * 4 + x div 16)]"
| "sextets_bytes _ = []"

definition base64_decode :: "string \<Rightarrow> buffer" where
  "base64_decode s = sextets_bytes (List.map_filter b64_value (takeWhile (\<lambda>c. c \<noteq> CHR ''='') s))"

lemma b64_table:
  "list_all (\<lambda>n. b64_value (b64_char n) = Some n \<and> b64_char n \<notin> set ''=,'') [0..<64]"
  by code_simp

lemma b64_char_props [simp]:
  assumes "n < 64"
  shows "b64_value (b64_char n) = Some n" "b64_char n \<noteq> CHR ''=''" "b64_char n \<noteq> CHR '',''"
  using b64_table assms by (auto simp: list_all_iff)

lemma unat_byte [simp]: "unat (a :: byte) < 256"
  using unsigned_less [of a] by simp

lemma sextet_bounds [simp]:
  fixes a b :: byte
  shows "unat a div 4 < 64" "unat a mod 4 * 16 < 64" "unat a mod 4 * 16 + unat b div 16 < 64"
    "unat a mod 16 * 4 < 64" "unat a mod 16 * 4 + unat b div 64 < 64"
  using unat_byte [of a] unat_byte [of b] by linarith+

lemma pack_eqI: "n = unat a \<Longrightarrow> pack n = a"
  by (simp add: pack_def)

lemma small_quotients [simp]:
  fixes b :: byte
  shows "unat b div 16 div 16 = 0" "unat b div 64 div 4 = 0" "unat b div 16 mod 16 = unat b div 16" "unat b div 64 mod 4 = unat b div 64"
proof -
  have "unat b div 16 < 16" "unat b div 64 < 4" using unat_byte [of b] by linarith+
  then show "unat b div 16 div 16 = 0" "unat b div 64 div 4 = 0" "unat b div 16 mod 16 = unat b div 16" "unat b div 64 mod 4 = unat b div 64"
    by (simp_all only: div_less mod_less)
qed

lemma map_filter_simps [simp]:
  "List.map_filter f [] = []"
  "List.map_filter f (x # xs) = (case f x of None \<Rightarrow> List.map_filter f xs | Some y \<Rightarrow> y # List.map_filter f xs)"
  by (simp_all add: List.map_filter_def split: option.split)

lemma base64_roundtrip [simp]: "base64_decode (base64_encode b) = b"
  unfolding base64_decode_def
  by (induction b rule: base64_encode.induct) (auto intro!: pack_eqI)

lemma base64_no_comma: "CHR '','' \<notin> set (base64_encode b)"
  by (induction b rule: base64_encode.induct) (auto dest: sym simp: eq_commute [of "CHR '',''"])

end
