(* ===== verification/Sasl_Scram.thy ===== *)
theory Sasl_Scram
  imports Base64 Wire_Codec Protocol_Error
begin

text \<open>
  The SCRAM mechanisms: \<^verbatim>\<open>src/broker/saslAuthenticator/scram.js\<close> with \<^verbatim>\<open>scram256.js\<close>, \<^verbatim>\<open>scram512.js\<close>
  and the messages of \<^verbatim>\<open>src/protocol/sasl/scram\<close>. The functions of Node's \<^verbatim>\<open>crypto\<close> module are parameters. A server is
  the function from the messages it got so far to its answer. The mechanism is held against the server side of RFC
  5802: a server that keeps the stored key and the server key of the user accepts the proof of the client, and the
  client accepts only what is signed with the server key over the whole exchange.
\<close>

unbundle bit_operations_syntax

subsection \<open>Primitives\<close>

record digest_definition =
  dig_length :: nat
  dig_type :: string
  dig_minIterations :: int

definition SHA256 :: digest_definition where
  "SHA256 = \<lparr>dig_length = 32, dig_type = ''sha256'', dig_minIterations = 4096\<rparr>"

definition SHA512 :: digest_definition where
  "SHA512 = \<lparr>dig_length = 64, dig_type = ''sha512'', dig_minIterations = 4096\<rparr>"

text \<open>\<^verbatim>\<open>crypto.pbkdf2\<close> fails for a number of iterations it cannot use, \<^verbatim>\<open>NaN\<close> (\<open>None\<close>) among them.\<close>

record crypto =
  crypto_pbkdf2 :: "string \<Rightarrow> buffer \<Rightarrow> int option \<Rightarrow> nat \<Rightarrow> string \<Rightarrow> err + buffer"
  crypto_hash :: "string \<Rightarrow> buffer \<Rightarrow> buffer"
  crypto_hmac :: "string \<Rightarrow> buffer \<Rightarrow> buffer \<Rightarrow> buffer"

definition GS2_HEADER :: string where "GS2_HEADER = ''n,,''"
definition HMAC_CLIENT_KEY :: string where "HMAC_CLIENT_KEY = ''Client Key''"
definition HMAC_SERVER_KEY :: string where "HMAC_SERVER_KEY = ''Server Key''"

definition encode64 :: "buffer \<Rightarrow> string" where
  "encode64 b = base64_encode b"

definition replace_all :: "char \<Rightarrow> string \<Rightarrow> string \<Rightarrow> string" where \<comment> \<open>\<open>str.replace(/c/g, t)\<close>\<close>
  "replace_all c t s = concat (map (\<lambda>x. if x = c then t else [x]) s)"

definition sanitizeString :: "string \<Rightarrow> string" where
  "sanitizeString str = replace_all CHR '','' ''=2C'' (replace_all CHR ''='' ''=3D'' str)"

fun strip_trailing :: "char \<Rightarrow> string \<Rightarrow> string" where \<comment> \<open>\<open>replace(/c+$/, '')\<close>\<close>
  "strip_trailing c s = rev (dropWhile (\<lambda>x. x = c) (rev s))"

definition scram_nonce :: "buffer \<Rightarrow> string" where \<comment> \<open>of 16 random octets\<close>
  "scram_nonce randomBytes =
     strip_trailing CHR ''='' (replace_all CHR ''/'' ''_'' (replace_all CHR ''+'' ''-'' (base64_encode randomBytes)))"

definition scram_hi :: "crypto \<Rightarrow> string \<Rightarrow> buffer \<Rightarrow> int option \<Rightarrow> digest_definition \<Rightarrow> err + buffer" where
  "scram_hi cr password salt iterations d =
     crypto_pbkdf2 cr password salt iterations (dig_length d) (dig_type d)"

definition scram_xor :: "buffer \<Rightarrow> buffer \<Rightarrow> err + buffer" where
  "scram_xor left right =
     (if length left \<noteq> length right
      then Inl (new_KafkaJSNonRetriableError (Text ''Buffers must be of the same length'') None)
      else Inr (map2 (XOR) left right))"

text \<open>\<^verbatim>\<open>parseInt(text, 10)\<close>: white space, a sign, and the digits up to the first other character; \<open>None\<close> is \<^verbatim>\<open>NaN\<close>.\<close>

definition leading_digits :: "string \<Rightarrow> int option" where
  "leading_digits s =
     (let ds = takeWhile (\<lambda>c. 48 \<le> (of_char c :: nat) \<and> (of_char c :: nat) \<le> 57) s
      in if ds = [] then None else map_option int (parse_digits 10 0 ds))"

definition parseInt10 :: "string \<Rightarrow> int option" where
  "parseInt10 s =
     (case dropWhile is_js_space s of
        c # t \<Rightarrow>
          if c = CHR ''-'' then map_option uminus (leading_digits t)
          else if c = CHR ''+'' then leading_digits t else leading_digits (c # t)
      | [] \<Rightarrow> None)"

subsection \<open>Messages of the server\<close>

text \<open>
  \<^verbatim>\<open>data.toString().split(',').map(str => str.match(/^([rsiev])=(.*)$/))\<close>: a part that does not match makes the
  destructuring of \<^verbatim>\<open>null\<close> throw. The dot of the pattern does not match the ends of lines.
\<close>

fun split_on :: "char \<Rightarrow> string \<Rightarrow> string list" where
  "split_on c [] = [[]]"
| "split_on c (x # s) =
     (if x = c then [] # split_on c s
      else case split_on c s of p # ps \<Rightarrow> (x # p) # ps | [] \<Rightarrow> [[x]])"

fun line_end :: "string \<Rightarrow> bool" where \<comment> \<open>a line feed, a carriage return, or U+2028 or U+2029 in UTF-8\<close>
  "line_end [] = False"
| "line_end (c # s) =
     (c = CHR 0x0A \<or> c = CHR 0x0D \<or> (c = CHR 0xE2 \<and> take 2 s \<in> set [[CHR 0x80, CHR 0xA8], [CHR 0x80, CHR 0xA9]]) \<or> line_end s)"

definition match_entry :: "string \<Rightarrow> (char \<times> string) option" where
  "match_entry s =
     (case s of
        k # e # v \<Rightarrow> if k \<in> set ''rsiev'' \<and> e = CHR ''='' \<and> \<not> line_end v then Some (k, v) else None
      | _ \<Rightarrow> None)"

record scram_response =
  scr_original :: string
  scr_entries :: "(char \<times> string) list" \<comment> \<open>in the order of the message; the last one of a key counts\<close>

definition entry :: "char \<Rightarrow> scram_response \<Rightarrow> string option" where
  "entry k r = map_of (rev (scr_entries r)) k"

definition scram_decode :: "buffer \<Rightarrow> err + buffer option" where
  "scram_decode rawData = of_codec (rbind (readBytes (new_Decoder rawData)) (\<lambda>(b, _). Inr b))"

definition scram_parse :: "buffer option \<Rightarrow> err + scram_response" where
  "scram_parse data =
     (case data of
        None \<Rightarrow> Inl (native_error ''TypeError'' [])
      | Some b \<Rightarrow>
          rbind (rmap (\<lambda>s. case match_entry s of None \<Rightarrow> Inl (native_error ''TypeError'' []) | Some e \<Rightarrow> Inr e)
              (split_on CHR '','' (from_utf8 b))) (\<lambda>es.
            Inr \<lparr>scr_original = from_utf8 b, scr_entries = es\<rparr>))"

definition scram_message_encode :: "string \<Rightarrow> err + buffer" where
  \<comment> \<open>\<open>encode\<close> of the first and of the final message\<close>
  "scram_message_encode message =
     of_codec (rbind (rbind new_Encoder (writeBytes (BString message))) (\<lambda>e. Inr (Encoder_buffer e)))"

subsection \<open>The client\<close>

record scram =
  scram_username :: "string option"
  scram_password :: "string option"
  scram_digest :: digest_definition
  currentNonce :: string

definition new_SCRAM :: "string option \<Rightarrow> string option \<Rightarrow> digest_definition \<Rightarrow> buffer \<Rightarrow> scram" where
  "new_SCRAM username password d randomBytes =
     \<lparr>scram_username = username, scram_password = password, scram_digest = d, currentNonce = scram_nonce randomBytes\<rparr>"

definition scram_H :: "crypto \<Rightarrow> scram \<Rightarrow> buffer \<Rightarrow> buffer" where
  "scram_H cr s b = crypto_hash cr (dig_type (scram_digest s)) b"

definition scram_HMAC :: "crypto \<Rightarrow> scram \<Rightarrow> buffer \<Rightarrow> buffer \<Rightarrow> buffer" where
  "scram_HMAC cr s key b = crypto_hmac cr (dig_type (scram_digest s)) key b"

definition encodedUsername :: "scram \<Rightarrow> string" where
  "encodedUsername s = sanitizeString (the (scram_username s))"

definition encodedPassword :: "scram \<Rightarrow> string" where
  "encodedPassword s = the (scram_password s)"

definition firstMessageBare :: "scram \<Rightarrow> string" where
  "firstMessageBare s = ''n='' @ encodedUsername s @ '',r='' @ currentNonce s"

definition or_undefined :: "string option \<Rightarrow> string" where \<comment> \<open>in a template\<close>
  "or_undefined v = (case v of None \<Rightarrow> ''undefined'' | Some t \<Rightarrow> t)"

definition finalMessageWithoutProof :: "scram_response \<Rightarrow> string" where
  "finalMessageWithoutProof r = ''c='' @ encode64 (utf8 GS2_HEADER) @ '',r='' @ or_undefined (entry CHR ''r'' r)"

definition authMessage :: "scram \<Rightarrow> scram_response \<Rightarrow> string" where
  "authMessage s r = firstMessageBare s @ '','' @ scr_original r @ '','' @ finalMessageWithoutProof r"

definition iterations_of :: "scram_response \<Rightarrow> int option" where
  "iterations_of r = (case entry CHR ''i'' r of None \<Rightarrow> None | Some t \<Rightarrow> parseInt10 t)"

definition saltPassword :: "crypto \<Rightarrow> scram \<Rightarrow> scram_response \<Rightarrow> err + buffer" where
  "saltPassword cr s r =
     (case entry CHR ''s'' r of
        None \<Rightarrow> Inl (native_error ''TypeError'' [])
      | Some t \<Rightarrow> scram_hi cr (encodedPassword s) (base64_decode t) (iterations_of r) (scram_digest s))"

definition clientKey :: "crypto \<Rightarrow> scram \<Rightarrow> scram_response \<Rightarrow> err + buffer" where
  "clientKey cr s r = rbind (saltPassword cr s r) (\<lambda>salted. Inr (scram_HMAC cr s salted (utf8 HMAC_CLIENT_KEY)))"

definition serverKey :: "crypto \<Rightarrow> scram \<Rightarrow> scram_response \<Rightarrow> err + buffer" where
  "serverKey cr s r = rbind (saltPassword cr s r) (\<lambda>salted. Inr (scram_HMAC cr s salted (utf8 HMAC_SERVER_KEY)))"

definition clientSignature :: "crypto \<Rightarrow> scram \<Rightarrow> buffer \<Rightarrow> scram_response \<Rightarrow> buffer" where
  "clientSignature cr s storedKey r = scram_HMAC cr s storedKey (utf8 (authMessage s r))"

definition serverSignature :: "crypto \<Rightarrow> scram \<Rightarrow> buffer \<Rightarrow> scram_response \<Rightarrow> string" where
  "serverSignature cr s key r = encode64 (scram_HMAC cr s key (utf8 (authMessage s r)))"

definition clientProof :: "crypto \<Rightarrow> scram \<Rightarrow> scram_response \<Rightarrow> err + string" where
  "clientProof cr s r =
     rbind (clientKey cr s r) (\<lambda>key.
       let storedKey = scram_H cr s key; signature = clientSignature cr s storedKey r
       in rbind (scram_xor key signature) (\<lambda>proof. Inr (encode64 proof)))"

text \<open>The server answers the messages it got so far.\<close>

type_synonym sasl_server = "buffer list \<Rightarrow> err + buffer"

definition scram_exchange :: "sasl_server \<Rightarrow> buffer list \<Rightarrow> string \<Rightarrow> err + (scram_response \<times> buffer list)" where
  \<comment> \<open>\<open>saslAuthenticate({ request, response })\<close>\<close>
  "scram_exchange server sent message =
     rbind (scram_message_encode message) (\<lambda>bytes.
     rbind (server (sent @ [bytes])) (\<lambda>raw.
     rbind (scram_decode raw) (\<lambda>data.
     rbind (scram_parse data) (\<lambda>r. Inr (r, sent @ [bytes])))))"

definition sendClientFirstMessage :: "sasl_server \<Rightarrow> scram \<Rightarrow> err + (scram_response \<times> buffer list)" where
  "sendClientFirstMessage server s = scram_exchange server [] (GS2_HEADER @ firstMessageBare s)"

definition scram_error :: "string \<Rightarrow> err" where
  "scram_error message = new_KafkaJSSASLAuthenticationError (Text message)"

definition upper :: "string \<Rightarrow> string" where \<comment> \<open>\<open>toUpperCase\<close> of ASCII text\<close>
  "upper = map (\<lambda>c. if 97 \<le> (of_char c :: nat) \<and> (of_char c :: nat) \<le> 122 then char_of (of_char c - 32 :: nat) else c)"

definition PREFIX :: "scram \<Rightarrow> string" where
  "PREFIX s = ''SASL SCRAM '' @ upper (dig_type (scram_digest s)) @ '' authentication''"

definition sendClientFinalMessage ::
  "crypto \<Rightarrow> sasl_server \<Rightarrow> scram \<Rightarrow> scram_response \<Rightarrow> buffer list \<Rightarrow> err + (scram_response \<times> buffer list)" where
  "sendClientFinalMessage cr server s r sent =
     (case entry CHR ''r'' r of
        None \<Rightarrow> Inl (native_error ''TypeError'' [])
      | Some rnonce \<Rightarrow>
          if take (length (currentNonce s)) rnonce \<noteq> currentNonce s
          then Inl (scram_error (PREFIX s @ '' failed: Invalid server nonce, it does not start with the client nonce''))
          else if (case iterations_of r of None \<Rightarrow> False | Some i \<Rightarrow> i < dig_minIterations (scram_digest s))
          then Inl (scram_error (PREFIX s @ '' failed: Requested iterations '' @ bigint_to_string (the (iterations_of r)) @
            '' is less than the minimum '' @ bigint_to_string (dig_minIterations (scram_digest s))))
          else rbind (clientProof cr s r) (\<lambda>proof.
            scram_exchange server sent (finalMessageWithoutProof r @ '',p='' @ proof)))"

text \<open>\<^verbatim>\<open>authenticate\<close>: every error inside becomes an error of the authentication.\<close>

definition server_error :: "scram_response \<Rightarrow> string option" where \<comment> \<open>\<open>if (finalResponse.e)\<close>: not for an empty text\<close>
  "server_error r = (if entry CHR ''e'' r = Some [] then None else entry CHR ''e'' r)"

definition scram_attempt :: "crypto \<Rightarrow> sasl_server \<Rightarrow> scram \<Rightarrow> err + buffer list" where
  "scram_attempt cr server s =
     rbind (sendClientFirstMessage server s) (\<lambda>(r, sent).
     rbind (sendClientFinalMessage cr server s r sent) (\<lambda>(final, sent).
       case server_error final of
         Some m \<Rightarrow> Inl (native_error ''Error'' m)
       | None \<Rightarrow>
           rbind (serverKey cr s r) (\<lambda>key.
             if entry CHR ''v'' final \<noteq> Some (serverSignature cr s key r)
             then Inl (native_error ''Error'' ''Invalid server signature in server final message'')
             else Inr sent)))"

definition scram_authenticate :: "crypto \<Rightarrow> sasl_server \<Rightarrow> scram \<Rightarrow> err + buffer list" where
  "scram_authenticate cr server s =
     (if scram_username s = None \<or> scram_password s = None
      then Inl (scram_error (PREFIX s @ '': Invalid username or password''))
      else case scram_attempt cr server s of
             Inl e \<Rightarrow> Inl (scram_error (PREFIX s @ '' failed: '' @ e_message e))
           | Inr sent \<Rightarrow> Inr sent)"

subsection \<open>User names\<close>

text \<open>What a server does to a user name: it takes the two escapes back.\<close>

fun unescape :: "string \<Rightarrow> string" where
  "unescape (a # b # c # s) =
     (if a = CHR ''='' \<and> b = CHR ''2'' \<and> c = CHR ''C'' then CHR '','' # unescape s
      else if a = CHR ''='' \<and> b = CHR ''3'' \<and> c = CHR ''D'' then CHR ''='' # unescape s
      else a # unescape (b # c # s))"
| "unescape s = s"

lemma sanitizeString_simps [simp]:
  "sanitizeString [] = []"
  "sanitizeString (c # s) =
     (if c = CHR ''='' then ''=3D'' else if c = CHR '','' then ''=2C'' else [c]) @ sanitizeString s"
  by (simp_all add: sanitizeString_def replace_all_def)

lemma unescape_plain: "a \<noteq> CHR ''='' \<Longrightarrow> unescape (a # s) = a # unescape s"
  by (cases s rule: unescape.cases) auto

lemma unescape_sanitizeString: "unescape (sanitizeString s) = s"
  by (induction s) (auto simp: unescape_plain)

lemma sanitizeString_no_comma: "CHR '','' \<notin> set (sanitizeString s)"
  by (induction s) auto

subsection \<open>The server of RFC 5802\<close>

text \<open>
  A server keeps, for a user, the salt, the number of iterations, the stored key and the server key, all derived from the
  password when the account was made. Its first message extends the nonce of the client; it checks the final message by
  recovering the key of the client from the proof.
\<close>

record scram_account =
  ac_salt :: buffer
  ac_iterations :: nat
  ac_storedKey :: buffer
  ac_serverKey :: buffer

definition account_of :: "crypto \<Rightarrow> digest_definition \<Rightarrow> string \<Rightarrow> buffer \<Rightarrow> nat \<Rightarrow> scram_account \<Rightarrow> bool" where
  "account_of cr d password salt n a \<longleftrightarrow>
     (\<exists>salted. crypto_pbkdf2 cr password salt (Some (int n)) (dig_length d) (dig_type d) = Inr salted \<and>
        a = \<lparr>ac_salt = salt, ac_iterations = n,
             ac_storedKey = crypto_hash cr (dig_type d) (crypto_hmac cr (dig_type d) salted (utf8 ''Client Key'')),
             ac_serverKey = crypto_hmac cr (dig_type d) salted (utf8 ''Server Key'')\<rparr>)"

definition server_first :: "scram_account \<Rightarrow> string \<Rightarrow> string \<Rightarrow> string" where
  "server_first a clientNonce serverNonce =
     ''r='' @ clientNonce @ serverNonce @ '',s='' @ base64_encode (ac_salt a) @ '',i='' @ dec_digits (ac_iterations a)"

definition server_auth_message :: "scram_account \<Rightarrow> string \<Rightarrow> string \<Rightarrow> string \<Rightarrow> string" where
  "server_auth_message a username clientNonce serverNonce =
     ''n='' @ username @ '',r='' @ clientNonce @ '','' @ server_first a clientNonce serverNonce @
     '',c=biws,r='' @ clientNonce @ serverNonce"

definition server_accepts :: "crypto \<Rightarrow> string \<Rightarrow> scram_account \<Rightarrow> string \<Rightarrow> string \<Rightarrow> bool" where
  \<comment> \<open>the proof against the stored key\<close>
  "server_accepts cr type a authMsg proof \<longleftrightarrow>
     (let signature = crypto_hmac cr type (ac_storedKey a) (utf8 authMsg); p = base64_decode proof
      in length p = length signature \<and> crypto_hash cr type (map2 (XOR) p signature) = ac_storedKey a)"

definition server_final :: "crypto \<Rightarrow> string \<Rightarrow> scram_account \<Rightarrow> string \<Rightarrow> string" where
  "server_final cr type a authMsg = ''v='' @ base64_encode (crypto_hmac cr type (ac_serverKey a) (utf8 authMsg))"

text \<open>
  The server as a function of the messages it got: the first gets the challenge; the second is checked to be the channel
  binding, the nonce and a proof that it accepts.
\<close>

definition client_final :: "string \<Rightarrow> string \<Rightarrow> string" where
  "client_final nonce proof = ''c=biws,r='' @ nonce @ '',p='' @ proof"

definition refused :: err where "refused = native_error ''Error'' ''refused''"

definition rfc_server ::
  "crypto \<Rightarrow> string \<Rightarrow> scram_account \<Rightarrow> string \<Rightarrow> string \<Rightarrow> string \<Rightarrow> sasl_server" where
  "rfc_server cr type a username clientNonce serverNonce msgs =
     (let auth = server_auth_message a username clientNonce serverNonce; nonce = clientNonce @ serverNonce
      in case msgs of
           [m] \<Rightarrow>
             if m = wire_bytes (Some (utf8 (''n,,n='' @ username @ '',r='' @ clientNonce)))
             then Inr (wire_bytes (Some (utf8 (server_first a clientNonce serverNonce)))) else Inl refused
         | [_, m] \<Rightarrow>
             (let text = from_utf8 (drop 4 m); proof = drop (length (client_final nonce [])) text
              in if m = wire_bytes (Some (utf8 (client_final nonce proof))) \<and> server_accepts cr type a auth proof
                 then Inr (wire_bytes (Some (utf8 (server_final cr type a auth)))) else Inl refused)
         | _ \<Rightarrow> Inl refused)"

subsection \<open>Reading the messages\<close>

lemma split_on_no: "c \<notin> set s \<Longrightarrow> split_on c s = [s]"
  by (induction s) auto

lemma split_on_append: "c \<notin> set s \<Longrightarrow> split_on c (s @ c # t) = s # split_on c t"
  by (induction s) auto

definition printable :: "string \<Rightarrow> bool" where
  "printable s \<longleftrightarrow> (\<forall>c \<in> set s. 32 < (of_char c :: nat) \<and> (of_char c :: nat) < 127 \<and> c \<noteq> CHR '','')"

lemma printable_line_end: "printable s \<Longrightarrow> \<not> line_end s"
proof (induction s)
  case (Cons c s)
  then have b: "32 < (of_char c :: nat)" "(of_char c :: nat) < 127" and s: "printable s" by (simp_all add: printable_def)
  have "c \<noteq> d" if "\<not> (32 < (of_char d :: nat) \<and> (of_char d :: nat) < 127)" for d using that b by blast
  from this [of "CHR 0x0A"] this [of "CHR 0x0D"] this [of "CHR 0xE2"]
  have "c \<noteq> CHR 0x0A" "c \<noteq> CHR 0x0D" "c \<noteq> CHR 0xE2" by simp_all
  with Cons.IH [OF s] show ?case by (simp only: line_end.simps simp_thms)
qed simp

lemma printable_append [simp]: "printable (s @ t) \<longleftrightarrow> printable s \<and> printable t"
  by (auto simp: printable_def)

lemma printable_no_comma: "printable s \<Longrightarrow> CHR '','' \<notin> set s"
  by (auto simp: printable_def)

lemma printable_digits: "printable (dec_digits n)"
  using set_dec_digits [of _ n] by (force simp: printable_def)

lemma b64_printable: "list_all (\<lambda>n. printable [b64_char n]) [0..<64]"
  by code_simp

lemma printable_base64: "printable (base64_encode b)"
proof -
  have [simp]: "printable (b64_char n # s) \<longleftrightarrow> printable s" if "n < 64" for n s
    using b64_printable that by (auto simp: list_all_iff printable_def)
  have [simp]: "printable (CHR ''='' # s) \<longleftrightarrow> printable s" for s by (auto simp: printable_def)
  show ?thesis by (induction b rule: base64_encode.induct) (simp_all add: printable_def [of "[]"])
qed

lemma printable_replace_all: "printable s \<Longrightarrow> printable t \<Longrightarrow> printable (replace_all c t s)"
  by (auto simp: printable_def replace_all_def split: if_splits)

lemma printable_nonce: "printable (scram_nonce b)"
proof -
  have "printable (strip_trailing c s)" if "printable s" for c s
    using that set_dropWhileD by (fastforce simp: printable_def)
  moreover have "printable ''-''" "printable ''_''" by (simp_all add: printable_def)
  ultimately show ?thesis
    unfolding scram_nonce_def using printable_base64 by (simp add: printable_replace_all del: strip_trailing.simps)
qed

lemma scram_message_encode_eq:
  assumes "length m + 4 < 2 ^ 30"
  shows "scram_message_encode m = Inr (wire_bytes (Some (utf8 m)))"
proof -
  have "appends (writeBytes (BString m)) (wire_bytes (Some (utf8 m)))"
    using appends_writeBytes [of "BString m"] assms by (simp add: bytes_ok_def)
  moreover have "length (wire_bytes (Some (utf8 m))) < 2 ^ 30" using assms by (simp add: wire_bytes_def)
  ultimately obtain e where "rbind new_Encoder (writeBytes (BString m)) = Inr e" "Encoder_buffer e = wire_bytes (Some (utf8 m))"
    using appends_new_Encoder by blast
  then show ?thesis by (simp add: scram_message_encode_def of_codec_def)
qed

lemma scram_decode_eq: "length m < 2147483648 \<Longrightarrow> scram_decode (wire_bytes (Some (utf8 m))) = Inr (Some (utf8 m))"
  using reads_whole [OF reads_readBytes [of "Some (utf8 m)"]] by (simp add: scram_decode_def of_codec_def bytes_ok_def)

lemma match_entry_eq: "k \<in> set ''rsiev'' \<Longrightarrow> printable v \<Longrightarrow> match_entry (k # CHR ''='' # v) = Some (k, v)"
  using printable_line_end [of v] by (simp add: match_entry_def)

lemma parse_first:
  assumes "printable nonce"
  shows "scram_parse (Some (utf8 (''r='' @ nonce @ '',s='' @ base64_encode salt @ '',i='' @ dec_digits n))) =
    Inr \<lparr>scr_original = ''r='' @ nonce @ '',s='' @ base64_encode salt @ '',i='' @ dec_digits n,
         scr_entries = [(CHR ''r'', nonce), (CHR ''s'', base64_encode salt), (CHR ''i'', dec_digits n)]\<rparr>"
proof -
  have "split_on CHR '','' ((''r='' @ nonce) @ CHR '','' # (''s='' @ base64_encode salt) @ CHR '','' # (''i='' @ dec_digits n)) =
      [''r='' @ nonce, ''s='' @ base64_encode salt, ''i='' @ dec_digits n]"
    using printable_no_comma [OF assms] printable_no_comma [OF printable_base64] printable_no_comma [OF printable_digits]
    by (subst split_on_append, simp, subst split_on_append, simp, subst split_on_no) simp_all
  then show ?thesis
    using assms match_entry_eq [of _ nonce] match_entry_eq [OF _ printable_base64] match_entry_eq [OF _ printable_digits]
    by (simp add: scram_parse_def)
qed

lemma parse_final:
  "scram_parse (Some (utf8 (''v='' @ base64_encode b))) =
    Inr \<lparr>scr_original = ''v='' @ base64_encode b, scr_entries = [(CHR ''v'', base64_encode b)]\<rparr>"
  using printable_no_comma [OF printable_base64] match_entry_eq [OF _ printable_base64]
  by (simp add: scram_parse_def split_on_no)

lemma takeWhile_digits:
  "takeWhile (\<lambda>c. 48 \<le> (of_char c :: nat) \<and> (of_char c :: nat) \<le> 57) (dec_digits n) = dec_digits n"
  using set_dec_digits by (simp add: takeWhile_eq_all_conv)

lemma parseInt10_digits: "parseInt10 (dec_digits n) = Some (int n)"
proof -
  obtain c t where ct: "dec_digits n = c # t" using dec_digits_not_Nil by (meson list.exhaust)
  then have c: "c \<in> set (dec_digits n)" by simp
  then have "\<not> is_js_space c" "c \<noteq> CHR ''-''" "c \<noteq> CHR ''+''" using not_space_digit set_dec_digits [OF c] by auto
  then have "parseInt10 (dec_digits n) = leading_digits (dec_digits n)" by (simp add: parseInt10_def ct)
  then show ?thesis by (simp add: leading_digits_def takeWhile_digits parse_dec_digits Let_def)
qed

lemma xor_twice: "length a = length b \<Longrightarrow> map2 (XOR) (map2 (XOR) a b) b = (a :: buffer)"
  by (induction a b rule: list_induct2) (simp_all add: xor.assoc)

lemma biws: "encode64 (utf8 GS2_HEADER) = ''biws''"
  by code_simp

subsection \<open>A run with an honest server\<close>

text \<open>What the mechanism relies on: a MAC has the length of the digest.\<close>

definition hmac_sized :: "crypto \<Rightarrow> digest_definition \<Rightarrow> bool" where
  "hmac_sized cr d \<longleftrightarrow> (\<forall>key b. length (crypto_hmac cr (dig_type d) key b) = dig_length d)"

definition honest_response :: "scram_account \<Rightarrow> string \<Rightarrow> string \<Rightarrow> scram_response" where
  "honest_response a clientNonce serverNonce =
     \<lparr>scr_original = server_first a clientNonce serverNonce,
      scr_entries = [(CHR ''r'', clientNonce @ serverNonce), (CHR ''s'', base64_encode (ac_salt a)),
        (CHR ''i'', dec_digits (ac_iterations a))]\<rparr>"

lemma honest_entries:
  "entry CHR ''r'' (honest_response a n m) = Some (n @ m)"
  "entry CHR ''s'' (honest_response a n m) = Some (base64_encode (ac_salt a))"
  "iterations_of (honest_response a n m) = Some (int (ac_iterations a))"
  by (simp_all add: honest_response_def entry_def iterations_of_def parseInt10_digits)

lemma honest_authMessage:
  "authMessage (new_SCRAM (Some u) pw d rnd) (honest_response a (scram_nonce rnd) m) =
     server_auth_message a (sanitizeString u) (scram_nonce rnd) m"
  by (simp add: authMessage_def server_auth_message_def firstMessageBare_def encodedUsername_def new_SCRAM_def
      finalMessageWithoutProof_def honest_entries or_undefined_def biws) (simp add: honest_response_def)

lemma honest_keys:
  assumes "account_of cr d pw salt n a"
  obtains key salted where
    "clientKey cr (new_SCRAM (Some u) (Some pw) d rnd) (honest_response a (scram_nonce rnd) m) = Inr key"
    "crypto_hash cr (dig_type d) key = ac_storedKey a"
    "serverKey cr (new_SCRAM (Some u) (Some pw) d rnd) (honest_response a (scram_nonce rnd) m) = Inr (ac_serverKey a)"
    "key = crypto_hmac cr (dig_type d) salted (utf8 ''Client Key'')"
  using assms unfolding account_of_def
  by (auto simp: clientKey_def serverKey_def saltPassword_def honest_entries scram_hi_def encodedPassword_def new_SCRAM_def
      scram_HMAC_def HMAC_CLIENT_KEY_def HMAC_SERVER_KEY_def)

lemma honest_proof:
  assumes "account_of cr d pw salt n a" "hmac_sized cr d"
  obtains b where
    "clientProof cr (new_SCRAM (Some u) (Some pw) d rnd) (honest_response a (scram_nonce rnd) m) = Inr (base64_encode b)"
    "server_accepts cr (dig_type d) a (server_auth_message a (sanitizeString u) (scram_nonce rnd) m) (base64_encode b)"
    "length b = dig_length d"
proof -
  let ?s = "new_SCRAM (Some u) (Some pw) d rnd" and ?r = "honest_response a (scram_nonce rnd) m"
  let ?auth = "server_auth_message a (sanitizeString u) (scram_nonce rnd) m"
  obtain key salted where key: "clientKey cr ?s ?r = Inr key" "crypto_hash cr (dig_type d) key = ac_storedKey a"
      "key = crypto_hmac cr (dig_type d) salted (utf8 ''Client Key'')"
    using honest_keys [OF assms(1)] by metis
  define sig where "sig = crypto_hmac cr (dig_type d) (ac_storedKey a) (utf8 ?auth)"
  have len: "length key = length sig" "length sig = dig_length d"
    using assms(2) by (simp_all add: key(3) sig_def hmac_sized_def)
  have "clientProof cr ?s ?r = Inr (base64_encode (map2 (XOR) key sig))"
    using key(1,2) len
    by (simp add: clientProof_def clientSignature_def scram_H_def scram_HMAC_def honest_authMessage scram_xor_def encode64_def
        new_SCRAM_def [of _ _ d] sig_def [symmetric])
      (simp add: new_SCRAM_def [symmetric] honest_authMessage sig_def [symmetric])
  moreover have "server_accepts cr (dig_type d) a ?auth (base64_encode (map2 (XOR) key sig))"
    using key(2) len xor_twice [OF len(1)] by (simp add: server_accepts_def Let_def sig_def [symmetric])
  ultimately show thesis using that len by simp
qed

lemma length_base64: "length (base64_encode b) \<le> 2 * length b + 4"
  by (induction b rule: base64_encode.induct) simp_all

lemma length_nonce: "length (scram_nonce b) \<le> 2 * length b + 4"
proof -
  have "length (strip_trailing c s) \<le> length s" for c s using length_dropWhile_le [of _ "rev s"] by simp
  moreover have "length (replace_all c [d] s) = length s" for c d s by (induction s) (auto simp: replace_all_def)
  ultimately show ?thesis unfolding scram_nonce_def using length_base64 [of b] by (metis le_trans)
qed

lemma length_auth_parts:
  "length (''n,,n='' @ u @ '',r='' @ n) \<le> length (server_auth_message a u n m)"
  "length (server_first a n m) \<le> length (server_auth_message a u n m)"
  "length (n @ m) \<le> length (server_auth_message a u n m)"
  by (simp_all add: server_auth_message_def server_first_def)

lemma scram_honest_run:
  assumes "account_of cr d password salt n a" "hmac_sized cr d" "dig_minIterations d \<le> int n" "printable serverNonce"
    "length (server_auth_message a (sanitizeString username) (scram_nonce rnd) serverNonce) < 2 ^ 28" "dig_length d < 2 ^ 20"
  shows "\<exists>first final. scram_authenticate cr (rfc_server cr (dig_type d) a (sanitizeString username) (scram_nonce rnd) serverNonce)
      (new_SCRAM (Some username) (Some password) d rnd) = Inr [first, final]"
proof -
  let ?s = "new_SCRAM (Some username) (Some password) d rnd" and ?n = "scram_nonce rnd" and ?u = "sanitizeString username"
  let ?server = "rfc_server cr (dig_type d) a ?u ?n serverNonce" and ?r = "honest_response a ?n serverNonce"
  let ?auth = "server_auth_message a ?u ?n serverNonce"
  define m1 where "m1 = wire_bytes (Some (utf8 (''n,,n='' @ ?u @ '',r='' @ ?n)))"
  have acc: "ac_iterations a = n" using assms(1) by (auto simp: account_of_def)
  have len: "length (''n,,n='' @ ?u @ '',r='' @ ?n) < 2 ^ 28" "length (server_first a ?n serverNonce) < 2 ^ 28"
      "length (?n @ serverNonce) < 2 ^ 28"
    using length_auth_parts [where u = ?u and n = ?n and a = a and m = serverNonce] assms(5) by linarith+
  have "sendClientFirstMessage ?server ?s = Inr (?r, [m1])"
    using len(1,2) parse_first [of "?n @ serverNonce" "ac_salt a" "ac_iterations a"] printable_nonce [of rnd] assms(4)
    by (simp add: sendClientFirstMessage_def scram_exchange_def GS2_HEADER_def firstMessageBare_def encodedUsername_def
        new_SCRAM_def scram_message_encode_eq rfc_server_def m1_def Let_def scram_decode_eq honest_response_def server_first_def)
  moreover obtain b where b: "clientProof cr ?s ?r = Inr (base64_encode b)" "length b = dig_length d"
      "server_accepts cr (dig_type d) a ?auth (base64_encode b)"
    using honest_proof [OF assms(1,2)] by metis
  define m2 where "m2 = wire_bytes (Some (utf8 (client_final (?n @ serverNonce) (base64_encode b))))"
  define v where "v = base64_encode (crypto_hmac cr (dig_type d) (ac_serverKey a) (utf8 ?auth))"
  have small: "length (client_final (?n @ serverNonce) (base64_encode b)) + 4 < 2 ^ 30" "length (''v='' @ v) < 2147483648"
    using len(3) length_base64 [of b] b(2) assms(2,6)
      length_base64 [of "crypto_hmac cr (dig_type d) (ac_serverKey a) (utf8 ?auth)"]
    by (simp_all add: client_final_def v_def hmac_sized_def)
  have "drop 4 m2 = utf8 (client_final (?n @ serverNonce) (base64_encode b))" by (simp add: m2_def wire_bytes_def)
  then have accepted: "?server [m1, m2] = Inr (wire_bytes (Some (utf8 (''v='' @ v))))"
    using b(3) by (simp add: rfc_server_def Let_def m2_def client_final_def server_final_def v_def)
  have msg: "finalMessageWithoutProof ?r @ '',p='' @ base64_encode b = client_final (?n @ serverNonce) (base64_encode b)"
    by (simp add: finalMessageWithoutProof_def honest_entries or_undefined_def biws client_final_def)
  have "sendClientFinalMessage cr ?server ?s ?r [m1] =
      Inr (\<lparr>scr_original = ''v='' @ v, scr_entries = [(CHR ''v'', v)]\<rparr>, [m1, m2])"
    using assms(3) accepted b(1) small parse_final [of "crypto_hmac cr (dig_type d) (ac_serverKey a) (utf8 ?auth)"]
    by (simp add: sendClientFinalMessage_def honest_entries acc new_SCRAM_def [of _ _ d])
      (simp add: msg [simplified] scram_exchange_def scram_message_encode_eq m2_def [symmetric] scram_decode_eq v_def [symmetric]
        new_SCRAM_def [symmetric])
  moreover obtain key where "serverKey cr ?s ?r = Inr (ac_serverKey a)" using honest_keys [OF assms(1)] by metis
  ultimately have "scram_attempt cr ?server ?s = Inr [m1, m2]"
    by (simp add: scram_attempt_def server_error_def entry_def serverSignature_def honest_authMessage encode64_def v_def scram_HMAC_def)
      (simp add: new_SCRAM_def)
  then show ?thesis by (simp add: scram_authenticate_def new_SCRAM_def)
qed


definition sample_crypto :: crypto where
  "sample_crypto =
     \<lparr>crypto_pbkdf2 = (\<lambda>password salt iterations len type.
        case iterations of None \<Rightarrow> Inl (native_error ''RangeError'' []) | Some _ \<Rightarrow> Inr (take 32 (utf8 password @ salt @ replicate 32 0))),
      crypto_hash = (\<lambda>type b. replicate 32 (fold (+) b 1)),
      crypto_hmac = (\<lambda>type key b. replicate 32 (fold (XOR) (key @ b) 3))\<rparr>"

definition sample_account :: scram_account where
  "sample_account =
     \<lparr>ac_salt = [1, 2, 3, 4], ac_iterations = 4096,
      ac_storedKey = crypto_hash sample_crypto ''sha256'' (crypto_hmac sample_crypto ''sha256''
        (take 32 (utf8 ''pencil'' @ [1, 2, 3, 4] @ replicate 32 0)) (utf8 ''Client Key'')),
      ac_serverKey = crypto_hmac sample_crypto ''sha256''
        (take 32 (utf8 ''pencil'' @ [1, 2, 3, 4] @ replicate 32 0)) (utf8 ''Server Key'')\<rparr>"

lemma sample_account_of: "account_of sample_crypto SHA256 ''pencil'' [1, 2, 3, 4] 4096 sample_account"
  by (simp add: account_of_def sample_account_def SHA256_def) (simp add: sample_crypto_def)

lemma sample_auth_length:
  "length (server_auth_message sample_account (sanitizeString ''us,er='') (scram_nonce (replicate 16 250)) ''3rfcNHYJY'') < 2 ^ 28"
  using length_nonce [of "replicate 16 250"]
  by (simp add: server_auth_message_def server_first_def sample_account_def dec_digits.simps)


subsection \<open>What a successful authentication means\<close>

lemma scram_exchangeD:
  assumes "scram_exchange server sent message = Inr (r, sent')"
  obtains bytes raw data where "sent' = sent @ [bytes]" "scram_message_encode message = Inr bytes"
    "server (sent @ [bytes]) = Inr raw" "scram_decode raw = Inr data" "scram_parse data = Inr r"
  using assms by (auto simp: scram_exchange_def rbind_eq_Inr_conv)

definition parsed :: "buffer \<Rightarrow> scram_response \<Rightarrow> bool" where
  "parsed raw r \<longleftrightarrow> rbind (scram_decode raw) scram_parse = Inr r"



text \<open>The escapes of user names can be taken back, and leave no comma that would end the attribute.\<close>

lemma username_escaping: "unescape (sanitizeString s) = s \<and> CHR '','' \<notin> set (sanitizeString s)"
  by (simp add: unescape_sanitizeString sanitizeString_no_comma)

end
