(* ===== verification/Requests_Admin.thy ===== *)
theory Requests_Admin
  imports Request_Format
begin

text \<open>
  The encoders of the requests about the administration of a cluster: one definition per function of the files
  \<^verbatim>\<open>src/protocol/requests/*/v*/request.js\<close>, the layout of the body, the value of the layout that the
  arguments stand for, and the proof that the encoder writes it. Objects that a function takes apart are tuples of the
  properties it names, in their order; a property with a default value is an option. Requests of the flexible versions
  begin with the tag buffer that ends their header.
\<close>

subsection \<open>Topics and partitions\<close>

definition createTopics_v0_encodeReplicaAssignment :: "_ \<Rightarrow> writer" where
  "createTopics_v0_encodeReplicaAssignment =
     (\<lambda>(partition, replicas). chain [writeInt32 partition, write_numbers replicas])"

definition createTopics_v0_encodeConfigEntries :: "_ \<Rightarrow> writer" where
  "createTopics_v0_encodeConfigEntries =
     (\<lambda>(name, value). chain [writeString name, writeString value])"

definition createTopics_v0_encodeTopics :: "_ \<Rightarrow> writer" where
  "createTopics_v0_encodeTopics =
     (\<lambda>(topic, numPartitions, replicationFactor, replicaAssignment,
       configEntries). chain [writeString topic, writeInt32 (or_default (- 1) numPartitions),
       writeInt16 (or_default (- 1) replicationFactor),
       write_array_of createTopics_v0_encodeReplicaAssignment (or_default [] replicaAssignment),
       write_array_of createTopics_v0_encodeConfigEntries (or_default [] configEntries)])"

definition createTopics_v0_request where
  "createTopics_v0_request topics timeout =
     new_request (api_key ''CreateTopics'') 0 ''CreateTopics''
       (chain [write_array_of createTopics_v0_encodeTopics topics, writeInt32 (or_default 5000 timeout)])"

definition createTopics_v0_request_layout :: layout where
  "createTopics_v0_request_layout =
     STRUCT [(Field ''topics'', ARRAY (STRUCT [(Field ''topic'', STRING), (Field ''numPartitions'', INT32),
       (Field ''replicationFactor'', INT16), (Field ''replicaAssignment'', ARRAY (STRUCT [(Field ''partition'',
       INT32), (Field ''replicas'', ARRAY INT32)])), (Field ''configEntries'', ARRAY (STRUCT [(Field ''name'',
       STRING), (Field ''value'', STRING)]))])), (Field ''timeout'', INT32)]"

definition createTopics_v0_value where
  "createTopics_v0_value topics timeout =
     WStruct [WArr (Some (map (\<lambda>(topic, numPartitions, replicationFactor, replicaAssignment,
       configEntries). WStruct [WStr topic, WInt (or_default (- 1) numPartitions),
       WInt (or_default (- 1) replicationFactor), WArr (Some (map (\<lambda>(partition,
       replicas). WStruct [WInt partition,
       WArr (Some (map WInt replicas))]) (or_default [] replicaAssignment))), WArr (Some (map (\<lambda>(name,
       value). WStruct [WStr name, WStr value]) (or_default [] configEntries)))]) topics)),
       WInt (or_default 5000 timeout)]"

lemma createTopics_v0_conforming [request_specs]:
  "conforming_request ''CreateTopics'' 0 createTopics_v0_request_layout
    (createTopics_v0_value topics timeout)
    (createTopics_v0_request topics timeout)"
  unfolding createTopics_v0_request_layout_def createTopics_v0_value_def createTopics_v0_request_def
    createTopics_v0_encodeTopics_def createTopics_v0_encodeConfigEntries_def
    createTopics_v0_encodeReplicaAssignment_def
  by (rule conforming_new_request writes_intros)+

definition createTopics_v1_encodeReplicaAssignment :: "_ \<Rightarrow> writer" where
  "createTopics_v1_encodeReplicaAssignment =
     (\<lambda>(partition, replicas). chain [writeInt32 partition, write_numbers replicas])"

definition createTopics_v1_encodeConfigEntries :: "_ \<Rightarrow> writer" where
  "createTopics_v1_encodeConfigEntries =
     (\<lambda>(name, value). chain [writeString name, writeString value])"

definition createTopics_v1_encodeTopics :: "_ \<Rightarrow> writer" where
  "createTopics_v1_encodeTopics =
     (\<lambda>(topic, numPartitions, replicationFactor, replicaAssignment,
       configEntries). chain [writeString topic, writeInt32 (or_default (- 1) numPartitions),
       writeInt16 (or_default (- 1) replicationFactor),
       write_array_of createTopics_v1_encodeReplicaAssignment (or_default [] replicaAssignment),
       write_array_of createTopics_v1_encodeConfigEntries (or_default [] configEntries)])"

definition createTopics_v1_request where
  "createTopics_v1_request topics validateOnly timeout =
     new_request (api_key ''CreateTopics'') 1 ''CreateTopics''
       (chain [write_array_of createTopics_v1_encodeTopics topics, writeInt32 (or_default 5000 timeout),
          writeBoolean (or_default False validateOnly)])"

definition createTopics_v1_request_layout :: layout where
  "createTopics_v1_request_layout =
     STRUCT [(Field ''topics'', ARRAY (STRUCT [(Field ''topic'', STRING), (Field ''numPartitions'', INT32),
       (Field ''replicationFactor'', INT16), (Field ''replicaAssignment'', ARRAY (STRUCT [(Field ''partition'',
       INT32), (Field ''replicas'', ARRAY INT32)])), (Field ''configEntries'', ARRAY (STRUCT [(Field ''name'',
       STRING), (Field ''value'', STRING)]))])), (Field ''timeout'', INT32), (Field ''validateOnly'', BOOLEAN)]"

definition createTopics_v1_value where
  "createTopics_v1_value topics validateOnly timeout =
     WStruct [WArr (Some (map (\<lambda>(topic, numPartitions, replicationFactor, replicaAssignment,
       configEntries). WStruct [WStr topic, WInt (or_default (- 1) numPartitions),
       WInt (or_default (- 1) replicationFactor), WArr (Some (map (\<lambda>(partition,
       replicas). WStruct [WInt partition,
       WArr (Some (map WInt replicas))]) (or_default [] replicaAssignment))), WArr (Some (map (\<lambda>(name,
       value). WStruct [WStr name, WStr value]) (or_default [] configEntries)))]) topics)),
       WInt (or_default 5000 timeout), WBool (or_default False validateOnly)]"

lemma createTopics_v1_conforming [request_specs]:
  "conforming_request ''CreateTopics'' 1 createTopics_v1_request_layout
    (createTopics_v1_value topics validateOnly timeout)
    (createTopics_v1_request topics validateOnly timeout)"
  unfolding createTopics_v1_request_layout_def createTopics_v1_value_def createTopics_v1_request_def
    createTopics_v1_encodeTopics_def createTopics_v1_encodeConfigEntries_def
    createTopics_v1_encodeReplicaAssignment_def
  by (rule conforming_new_request writes_intros)+

definition createTopics_v2_request where
  "createTopics_v2_request topics validateOnly timeout =
     with_version 2 (createTopics_v1_request topics validateOnly timeout)"

definition createTopics_v2_request_layout :: layout where "createTopics_v2_request_layout = createTopics_v1_request_layout"

lemma createTopics_v2_conforming [request_specs]:
  "conforming_request ''CreateTopics'' 2 createTopics_v2_request_layout
    (createTopics_v1_value topics validateOnly timeout)
    (createTopics_v2_request topics validateOnly timeout)"
  unfolding createTopics_v2_request_def createTopics_v2_request_layout_def
  by (rule conforming_with_version [OF createTopics_v1_conforming])

definition createTopics_v3_request where
  "createTopics_v3_request topics validateOnly timeout =
     with_version 3 (createTopics_v2_request topics validateOnly timeout)"

definition createTopics_v3_request_layout :: layout where "createTopics_v3_request_layout = createTopics_v2_request_layout"

lemma createTopics_v3_conforming [request_specs]:
  "conforming_request ''CreateTopics'' 3 createTopics_v3_request_layout
    (createTopics_v1_value topics validateOnly timeout)
    (createTopics_v3_request topics validateOnly timeout)"
  unfolding createTopics_v3_request_def createTopics_v3_request_layout_def
  by (rule conforming_with_version [OF createTopics_v2_conforming])

definition createTopics_v5_encodeReplicaAssignment :: "_ \<Rightarrow> writer" where
  "createTopics_v5_encodeReplicaAssignment =
     (\<lambda>(partition, replicas). chain [writeInt32 partition,
       write_uvarint_array_of (\<lambda>r. chain [writeInt32 r]) (Some replicas), writeUVarIntBytes BNull])"

definition createTopics_v5_encodeConfigEntries :: "_ \<Rightarrow> writer" where
  "createTopics_v5_encodeConfigEntries =
     (\<lambda>(name, value). chain [writeUVarIntString name, writeUVarIntString value,
       writeUVarIntBytes BNull])"

definition createTopics_v5_encodeTopics :: "_ \<Rightarrow> writer" where
  "createTopics_v5_encodeTopics =
     (\<lambda>(topic, numPartitions, replicationFactor, replicaAssignment,
       configEntries). chain [writeUVarIntString topic, writeInt32 (or_default (- 1) numPartitions),
       writeInt16 (or_default (- 1) replicationFactor),
       write_uvarint_array_of createTopics_v5_encodeReplicaAssignment (Some (or_default [] replicaAssignment)),
       write_uvarint_array_of createTopics_v5_encodeConfigEntries (Some (or_default [] configEntries)),
       writeUVarIntBytes BNull])"

definition createTopics_v5_request where
  "createTopics_v5_request topics validateOnly timeout =
     new_request (api_key ''CreateTopics'') 5 ''CreateTopics''
       (chain [writeUVarIntBytes BNull, write_uvarint_array_of createTopics_v5_encodeTopics (Some topics),
          writeInt32 (or_default 5000 timeout), writeBoolean (or_default False validateOnly),
          writeUVarIntBytes BNull])"

definition createTopics_v5_request_layout :: layout where
  "createTopics_v5_request_layout =
     STRUCT [(Skip, TAG_BUFFER), (Field ''topics'', COMPACT_ARRAY (STRUCT [(Field ''topic'', COMPACT_STRING),
       (Field ''numPartitions'', INT32), (Field ''replicationFactor'', INT16), (Field ''replicaAssignment'',
       COMPACT_ARRAY (STRUCT [(Field ''partition'', INT32), (Field ''replicas'',
       COMPACT_ARRAY (STRUCT [(Field ''r'', INT32)])), (Skip, TAG_BUFFER)])), (Field ''configEntries'',
       COMPACT_ARRAY (STRUCT [(Field ''name'', COMPACT_STRING), (Field ''value'', COMPACT_STRING), (Skip,
       TAG_BUFFER)])), (Skip, TAG_BUFFER)])), (Field ''timeout'', INT32), (Field ''validateOnly'', BOOLEAN),
       (Skip, TAG_BUFFER)]"

definition createTopics_v5_value where
  "createTopics_v5_value topics validateOnly timeout =
     WStruct [WTags, WArr (Some (map (\<lambda>(topic, numPartitions, replicationFactor, replicaAssignment,
       configEntries). WStruct [WStr topic, WInt (or_default (- 1) numPartitions),
       WInt (or_default (- 1) replicationFactor), WArr (Some (map (\<lambda>(partition,
       replicas). WStruct [WInt partition, WArr (Some (map (\<lambda>r. WStruct [WInt r]) replicas)),
       WTags]) (or_default [] replicaAssignment))), WArr (Some (map (\<lambda>(name,
       value). WStruct [WStr name, WStr value, WTags]) (or_default [] configEntries))), WTags]) topics)),
       WInt (or_default 5000 timeout), WBool (or_default False validateOnly), WTags]"

lemma createTopics_v5_conforming [request_specs]:
  "conforming_request ''CreateTopics'' 5 createTopics_v5_request_layout
    (createTopics_v5_value topics validateOnly timeout)
    (createTopics_v5_request topics validateOnly timeout)"
  unfolding createTopics_v5_request_layout_def createTopics_v5_value_def createTopics_v5_request_def
    createTopics_v5_encodeTopics_def createTopics_v5_encodeConfigEntries_def
    createTopics_v5_encodeReplicaAssignment_def
  by (rule conforming_new_request writes_intros)+

definition deleteTopics_v0_request where
  "deleteTopics_v0_request topics timeout =
     new_request (api_key ''DeleteTopics'') 0 ''DeleteTopics''
       (chain [write_strings topics, writeInt32 (or_default 5000 timeout)])"

definition deleteTopics_v0_request_layout :: layout where
  "deleteTopics_v0_request_layout =
     STRUCT [(Field ''topics'', ARRAY STRING), (Field ''timeout'', INT32)]"

definition deleteTopics_v0_value where
  "deleteTopics_v0_value topics timeout =
     WStruct [WArr (Some (map (\<lambda>s. WStr (Some s)) topics)), WInt (or_default 5000 timeout)]"

lemma deleteTopics_v0_conforming [request_specs]:
  "conforming_request ''DeleteTopics'' 0 deleteTopics_v0_request_layout
    (deleteTopics_v0_value topics timeout)
    (deleteTopics_v0_request topics timeout)"
  unfolding deleteTopics_v0_request_layout_def deleteTopics_v0_value_def deleteTopics_v0_request_def
  by (rule conforming_new_request writes_intros)+

definition deleteTopics_v1_request where
  "deleteTopics_v1_request topics timeout =
     with_version 1 (deleteTopics_v0_request topics timeout)"

definition deleteTopics_v1_request_layout :: layout where "deleteTopics_v1_request_layout = deleteTopics_v0_request_layout"

lemma deleteTopics_v1_conforming [request_specs]:
  "conforming_request ''DeleteTopics'' 1 deleteTopics_v1_request_layout
    (deleteTopics_v0_value topics timeout)
    (deleteTopics_v1_request topics timeout)"
  unfolding deleteTopics_v1_request_def deleteTopics_v1_request_layout_def
  by (rule conforming_with_version [OF deleteTopics_v0_conforming])

definition deleteTopics_v4_encodeTopic :: "_ \<Rightarrow> writer" where
  "deleteTopics_v4_encodeTopic =
     (\<lambda>topic. chain [writeUVarIntString topic, writeUVarIntBytes BNull])"

definition deleteTopics_v4_request where
  "deleteTopics_v4_request topics timeout =
     new_request (api_key ''DeleteTopics'') 4 ''DeleteTopics''
       (chain [writeUVarIntBytes BNull, write_uvarint_array_of deleteTopics_v4_encodeTopic (Some topics),
          writeInt32 (or_default 5000 timeout), writeUVarIntBytes BNull])"

definition deleteTopics_v4_request_layout :: layout where
  "deleteTopics_v4_request_layout =
     STRUCT [(Skip, TAG_BUFFER), (Field ''topics'', COMPACT_ARRAY (STRUCT [(Field ''topic'', COMPACT_STRING),
       (Skip, TAG_BUFFER)])), (Field ''timeout'', INT32), (Skip, TAG_BUFFER)]"

definition deleteTopics_v4_value where
  "deleteTopics_v4_value topics timeout =
     WStruct [WTags, WArr (Some (map (\<lambda>topic. WStruct [WStr topic, WTags]) topics)),
       WInt (or_default 5000 timeout), WTags]"

lemma deleteTopics_v4_conforming [request_specs]:
  "conforming_request ''DeleteTopics'' 4 deleteTopics_v4_request_layout
    (deleteTopics_v4_value topics timeout)
    (deleteTopics_v4_request topics timeout)"
  unfolding deleteTopics_v4_request_layout_def deleteTopics_v4_value_def deleteTopics_v4_request_def
    deleteTopics_v4_encodeTopic_def
  by (rule conforming_new_request writes_intros)+

definition deleteRecords_v0_request where
  "deleteRecords_v0_request topics timeout =
     new_request (api_key ''DeleteRecords'') 0 ''DeleteRecords''
       (chain [write_array_of (\<lambda>(topic, partitions). chain [writeString topic,
          write_array_of (\<lambda>(partition, offset). chain [writeInt32 partition,
          writeInt64 offset]) partitions]) topics, writeInt32 (or_default 5000 timeout)])"

definition deleteRecords_v0_request_layout :: layout where
  "deleteRecords_v0_request_layout =
     STRUCT [(Field ''topics'', ARRAY (STRUCT [(Field ''topic'', STRING), (Field ''partitions'',
       ARRAY (STRUCT [(Field ''partition'', INT32), (Field ''offset'', INT64)]))])), (Field ''timeout'', INT32)]"

definition deleteRecords_v0_value where
  "deleteRecords_v0_value topics timeout =
     WStruct [WArr (Some (map (\<lambda>(topic, partitions). WStruct [WStr topic,
       WArr (Some (map (\<lambda>(partition, offset). WStruct [WInt partition,
       WInt offset]) partitions))]) topics)), WInt (or_default 5000 timeout)]"

lemma deleteRecords_v0_conforming [request_specs]:
  "conforming_request ''DeleteRecords'' 0 deleteRecords_v0_request_layout
    (deleteRecords_v0_value topics timeout)
    (deleteRecords_v0_request topics timeout)"
  unfolding deleteRecords_v0_request_layout_def deleteRecords_v0_value_def deleteRecords_v0_request_def
  by (rule conforming_new_request writes_intros)+

definition deleteRecords_v1_request where
  "deleteRecords_v1_request topics timeout =
     with_version 1 (deleteRecords_v0_request topics timeout)"

definition deleteRecords_v1_request_layout :: layout where "deleteRecords_v1_request_layout = deleteRecords_v0_request_layout"

lemma deleteRecords_v1_conforming [request_specs]:
  "conforming_request ''DeleteRecords'' 1 deleteRecords_v1_request_layout
    (deleteRecords_v0_value topics timeout)
    (deleteRecords_v1_request topics timeout)"
  unfolding deleteRecords_v1_request_def deleteRecords_v1_request_layout_def
  by (rule conforming_with_version [OF deleteRecords_v0_conforming])

definition createPartitions_v0_encodeAssignments :: "_ \<Rightarrow> writer" where
  "createPartitions_v0_encodeAssignments =
     (\<lambda>brokerIds. chain [write_nullable_numbers brokerIds])"

definition createPartitions_v0_encodeTopicPartitions :: "_ \<Rightarrow> writer" where
  "createPartitions_v0_encodeTopicPartitions =
     (\<lambda>(topic, count, assignments). chain [writeString topic, writeInt32 count,
       write_nullable_array_of createPartitions_v0_encodeAssignments (or_default [] assignments)])"

definition createPartitions_v0_request where
  "createPartitions_v0_request topicPartitions validateOnly timeout =
     new_request (api_key ''CreatePartitions'') 0 ''CreatePartitions''
       (chain [write_array_of createPartitions_v0_encodeTopicPartitions topicPartitions,
          writeInt32 (or_default 5000 timeout), writeBoolean (or_default False validateOnly)])"

definition createPartitions_v0_request_layout :: layout where
  "createPartitions_v0_request_layout =
     STRUCT [(Field ''topicPartitions'', ARRAY (STRUCT [(Field ''topic'', STRING), (Field ''count'', INT32),
       (Field ''assignments'', ARRAY (STRUCT [(Field ''brokerIds'', ARRAY INT32)]))])), (Field ''timeout'',
       INT32), (Field ''validateOnly'', BOOLEAN)]"

definition createPartitions_v0_value where
  "createPartitions_v0_value topicPartitions validateOnly timeout =
     WStruct [WArr (Some (map (\<lambda>(topic, count, assignments). WStruct [WStr topic, WInt count,
       WArr (nullable (map (\<lambda>brokerIds. WStruct [WArr (nullable (map WInt brokerIds))]) (or_default [] assignments)))]) topicPartitions)), WInt (or_default 5000 timeout), WBool (or_default False validateOnly)]"

lemma createPartitions_v0_conforming [request_specs]:
  "conforming_request ''CreatePartitions'' 0 createPartitions_v0_request_layout
    (createPartitions_v0_value topicPartitions validateOnly timeout)
    (createPartitions_v0_request topicPartitions validateOnly timeout)"
  unfolding createPartitions_v0_request_layout_def createPartitions_v0_value_def createPartitions_v0_request_def
    createPartitions_v0_encodeTopicPartitions_def createPartitions_v0_encodeAssignments_def
  by (rule conforming_new_request writes_intros)+

definition createPartitions_v1_request where
  "createPartitions_v1_request topicPartitions validateOnly timeout =
     with_version 1 (createPartitions_v0_request topicPartitions validateOnly timeout)"

definition createPartitions_v1_request_layout :: layout where "createPartitions_v1_request_layout = createPartitions_v0_request_layout"

lemma createPartitions_v1_conforming [request_specs]:
  "conforming_request ''CreatePartitions'' 1 createPartitions_v1_request_layout
    (createPartitions_v0_value topicPartitions validateOnly timeout)
    (createPartitions_v1_request topicPartitions validateOnly timeout)"
  unfolding createPartitions_v1_request_def createPartitions_v1_request_layout_def
  by (rule conforming_with_version [OF createPartitions_v0_conforming])

definition alterPartitionReassignments_v0_encodeReplicas :: "_ \<Rightarrow> writer" where
  "alterPartitionReassignments_v0_encodeReplicas =
     (\<lambda>replica. chain [writeInt32 replica])"

definition alterPartitionReassignments_v0_encodePartitionAssignment :: "_ \<Rightarrow> writer" where
  "alterPartitionReassignments_v0_encodePartitionAssignment =
     (\<lambda>(partition, replicas). chain [writeInt32 partition,
       write_uvarint_array_of alterPartitionReassignments_v0_encodeReplicas (Some replicas),
       writeUVarIntBytes BNull])"

definition alterPartitionReassignments_v0_encodeTopics :: "_ \<Rightarrow> writer" where
  "alterPartitionReassignments_v0_encodeTopics =
     (\<lambda>(topic, partitionAssignment). chain [writeUVarIntString topic,
       write_uvarint_array_of alterPartitionReassignments_v0_encodePartitionAssignment (Some partitionAssignment), writeUVarIntBytes BNull])"

definition alterPartitionReassignments_v0_request where
  "alterPartitionReassignments_v0_request topics timeout =
     new_request (api_key ''AlterPartitionReassignments'') 0 ''AlterPartitionReassignments''
       (chain [writeUVarIntBytes BNull, writeInt32 (or_default 5000 timeout),
          write_uvarint_array_of alterPartitionReassignments_v0_encodeTopics (Some topics),
          writeUVarIntBytes BNull])"

definition alterPartitionReassignments_v0_request_layout :: layout where
  "alterPartitionReassignments_v0_request_layout =
     STRUCT [(Skip, TAG_BUFFER), (Field ''timeout'', INT32), (Field ''topics'',
       COMPACT_ARRAY (STRUCT [(Field ''topic'', COMPACT_STRING), (Field ''partitionAssignment'',
       COMPACT_ARRAY (STRUCT [(Field ''partition'', INT32), (Field ''replicas'',
       COMPACT_ARRAY (STRUCT [(Field ''replica'', INT32)])), (Skip, TAG_BUFFER)])), (Skip, TAG_BUFFER)])),
       (Skip, TAG_BUFFER)]"

definition alterPartitionReassignments_v0_value where
  "alterPartitionReassignments_v0_value topics timeout =
     WStruct [WTags, WInt (or_default 5000 timeout), WArr (Some (map (\<lambda>(topic,
       partitionAssignment). WStruct [WStr topic, WArr (Some (map (\<lambda>(partition,
       replicas). WStruct [WInt partition,
       WArr (Some (map (\<lambda>replica. WStruct [WInt replica]) replicas)), WTags]) partitionAssignment)),
       WTags]) topics)), WTags]"

lemma alterPartitionReassignments_v0_conforming [request_specs]:
  "conforming_request ''AlterPartitionReassignments'' 0 alterPartitionReassignments_v0_request_layout
    (alterPartitionReassignments_v0_value topics timeout)
    (alterPartitionReassignments_v0_request topics timeout)"
  unfolding alterPartitionReassignments_v0_request_layout_def alterPartitionReassignments_v0_value_def
    alterPartitionReassignments_v0_request_def alterPartitionReassignments_v0_encodeTopics_def
    alterPartitionReassignments_v0_encodePartitionAssignment_def
    alterPartitionReassignments_v0_encodeReplicas_def
  by (rule conforming_new_request writes_intros)+

definition listPartitionReassignments_v0_encodePartitions :: "_ \<Rightarrow> writer" where
  "listPartitionReassignments_v0_encodePartitions =
     (\<lambda>partition. chain [writeInt32 partition])"

definition listPartitionReassignments_v0_encodeTopics :: "_ \<Rightarrow> writer" where
  "listPartitionReassignments_v0_encodeTopics =
     (\<lambda>(topic, partitions). chain [writeUVarIntString topic,
       write_uvarint_array_of listPartitionReassignments_v0_encodePartitions (Some partitions),
       writeUVarIntBytes BNull])"

definition listPartitionReassignments_v0_request where
  "listPartitionReassignments_v0_request topics timeout =
     new_request (api_key ''ListPartitionReassignments'') 0 ''ListPartitionReassignments''
       (chain [writeUVarIntBytes BNull, writeInt32 (or_default 5000 timeout),
          write_uvarint_array_of listPartitionReassignments_v0_encodeTopics topics, writeUVarIntBytes BNull])"

definition listPartitionReassignments_v0_request_layout :: layout where
  "listPartitionReassignments_v0_request_layout =
     STRUCT [(Skip, TAG_BUFFER), (Field ''timeout'', INT32), (Field ''topics'',
       COMPACT_ARRAY (STRUCT [(Field ''topic'', COMPACT_STRING), (Field ''partitions'',
       COMPACT_ARRAY (STRUCT [(Field ''partition'', INT32)])), (Skip, TAG_BUFFER)])), (Skip, TAG_BUFFER)]"

definition listPartitionReassignments_v0_value where
  "listPartitionReassignments_v0_value topics timeout =
     WStruct [WTags, WInt (or_default 5000 timeout), WArr (map_option (map (\<lambda>(topic,
       partitions). WStruct [WStr topic,
       WArr (Some (map (\<lambda>partition. WStruct [WInt partition]) partitions)), WTags])) topics), WTags]"

lemma listPartitionReassignments_v0_conforming [request_specs]:
  "conforming_request ''ListPartitionReassignments'' 0 listPartitionReassignments_v0_request_layout
    (listPartitionReassignments_v0_value topics timeout)
    (listPartitionReassignments_v0_request topics timeout)"
  unfolding listPartitionReassignments_v0_request_layout_def listPartitionReassignments_v0_value_def
    listPartitionReassignments_v0_request_def listPartitionReassignments_v0_encodeTopics_def
    listPartitionReassignments_v0_encodePartitions_def
  by (rule conforming_new_request writes_intros)+

definition electLeaders_v0_request where
  "electLeaders_v0_request electionType topicPartitions timeout =
     new_request (api_key ''ElectPreferredLeaders'') 0 ''ElectLeaders''
       (chain [writeInt8 (or_default 0 electionType),
         write_present_array (\<lambda>(topic, partitions). chain [writeString topic,
           write_array_of (\<lambda>partition. chain [writeInt32 partition]) partitions]) topicPartitions,
         writeInt32 (or_default 30000 timeout)])"

definition electLeaders_v0_request_layout :: layout where
  "electLeaders_v0_request_layout =
     STRUCT [(Field ''electionType'', INT8), (Field ''topicPartitions'', ARRAY (STRUCT [(Field ''topic'', STRING),
       (Field ''partitions'', ARRAY (STRUCT [(Field ''partition'', INT32)]))])), (Field ''timeout'', INT32)]"

definition electLeaders_v0_value where
  "electLeaders_v0_value electionType topicPartitions timeout =
     WStruct [WInt (or_default 0 electionType),
       present_array (\<lambda>(topic, partitions). WStruct [WStr topic,
         WArr (Some (map (\<lambda>partition. WStruct [WInt partition]) partitions))]) topicPartitions,
       WInt (or_default 30000 timeout)]"

lemma electLeaders_v0_conforming [request_specs]:
  "conforming_request ''ElectPreferredLeaders'' 0 electLeaders_v0_request_layout
    (electLeaders_v0_value electionType topicPartitions timeout)
    (electLeaders_v0_request electionType topicPartitions timeout)"
  unfolding electLeaders_v0_request_layout_def electLeaders_v0_value_def electLeaders_v0_request_def
  by (rule conforming_new_request writes_intros)+

text \<open>An election for all partitions, which the absent array stands for, cannot be requested before version 2.\<close>

lemma electLeaders_all_partitions_throws:
  assumes "int_range 8 (or_default 0 electionType)"
  shows "rbind new_Encoder (req_encode (electLeaders_v0_request electionType None timeout)) = Inl JsTypeError"
proof -
  obtain e' where "rbind new_Encoder (writeInt8 (or_default 0 electionType)) = Inr e'"
    using appends_new_Encoder [OF appends_writeInt8 [OF assms]] by auto
  then obtain e where e: "new_Encoder = Inr e" "writeInt8 (or_default 0 electionType) e = Inr e'"
    by (auto simp: rbind_eq_Inr_conv)
  show ?thesis
    unfolding electLeaders_v0_request_def new_request_def write_present_array_def e(1) by (simp add: e(2))
qed

definition electLeaders_v1_request where
  "electLeaders_v1_request electionType topicPartitions timeout =
     with_version 1 (electLeaders_v0_request electionType topicPartitions timeout)"

definition electLeaders_v1_request_layout :: layout where "electLeaders_v1_request_layout = electLeaders_v0_request_layout"

lemma electLeaders_v1_conforming [request_specs]:
  "conforming_request ''ElectPreferredLeaders'' 1 electLeaders_v1_request_layout
    (electLeaders_v0_value electionType topicPartitions timeout)
    (electLeaders_v1_request electionType topicPartitions timeout)"
  unfolding electLeaders_v1_request_def electLeaders_v1_request_layout_def
  by (rule conforming_with_version [OF electLeaders_v0_conforming])

definition electLeaders_v2_request where
  "electLeaders_v2_request electionType topicPartitions timeout =
     new_request (api_key ''ElectPreferredLeaders'') 2 ''ElectLeaders''
       (chain [writeUVarIntBytes BNull, writeInt8 (or_default 0 electionType),
          write_uvarint_array_of (\<lambda>(topic, partitions). chain [writeUVarIntString topic,
          write_uvarint_array_of (\<lambda>partition. chain [writeInt32 partition]) (Some partitions),
          writeUVarIntBytes BNull]) topicPartitions, writeInt32 (or_default 30000 timeout),
          writeUVarIntBytes BNull])"

definition electLeaders_v2_request_layout :: layout where
  "electLeaders_v2_request_layout =
     STRUCT [(Skip, TAG_BUFFER), (Field ''electionType'', INT8), (Field ''topicPartitions'',
       COMPACT_ARRAY (STRUCT [(Field ''topic'', COMPACT_STRING), (Field ''partitions'',
       COMPACT_ARRAY (STRUCT [(Field ''partition'', INT32)])), (Skip, TAG_BUFFER)])), (Field ''timeout'',
       INT32), (Skip, TAG_BUFFER)]"

definition electLeaders_v2_value where
  "electLeaders_v2_value electionType topicPartitions timeout =
     WStruct [WTags, WInt (or_default 0 electionType), WArr (map_option (map (\<lambda>(topic,
       partitions). WStruct [WStr topic,
       WArr (Some (map (\<lambda>partition. WStruct [WInt partition]) partitions)), WTags])) topicPartitions),
       WInt (or_default 30000 timeout), WTags]"

lemma electLeaders_v2_conforming [request_specs]:
  "conforming_request ''ElectPreferredLeaders'' 2 electLeaders_v2_request_layout
    (electLeaders_v2_value electionType topicPartitions timeout)
    (electLeaders_v2_request electionType topicPartitions timeout)"
  unfolding electLeaders_v2_request_layout_def electLeaders_v2_value_def electLeaders_v2_request_def
  by (rule conforming_new_request writes_intros)+

definition describeLogDirs_v0_request where
  "describeLogDirs_v0_request topics =
     new_request (api_key ''DescribeLogDirs'') 0 ''DescribeLogDirs''
       (chain [write_absent_array (\<lambda>(topic, partitions). chain [writeString topic,
          write_array_of (\<lambda>partition. chain [writeInt32 partition]) partitions]) topics])"

definition describeLogDirs_v0_request_layout :: layout where
  "describeLogDirs_v0_request_layout =
     STRUCT [(Field ''topics'', ARRAY (STRUCT [(Field ''topic'', STRING), (Field ''partitions'',
       ARRAY (STRUCT [(Field ''partition'', INT32)]))]))]"

definition describeLogDirs_v0_value where
  "describeLogDirs_v0_value topics =
     WStruct [WArr (map_option (map (\<lambda>(topic, partitions). WStruct [WStr topic,
       WArr (Some (map (\<lambda>partition. WStruct [WInt partition]) partitions))])) topics)]"

lemma describeLogDirs_v0_conforming [request_specs]:
  "conforming_request ''DescribeLogDirs'' 0 describeLogDirs_v0_request_layout
    (describeLogDirs_v0_value topics)
    (describeLogDirs_v0_request topics)"
  unfolding describeLogDirs_v0_request_layout_def describeLogDirs_v0_value_def describeLogDirs_v0_request_def
  by (rule conforming_new_request writes_intros)+

definition describeLogDirs_v2_request where
  "describeLogDirs_v2_request topics =
     new_request (api_key ''DescribeLogDirs'') 2 ''DescribeLogDirs''
       (chain [writeUVarIntBytes BNull, write_uvarint_array_of (\<lambda>(topic,
          partitions). chain [writeUVarIntString topic,
          write_uvarint_array_of (\<lambda>partition. chain [writeInt32 partition]) (Some partitions),
          writeUVarIntBytes BNull]) topics, writeUVarIntBytes BNull])"

definition describeLogDirs_v2_request_layout :: layout where
  "describeLogDirs_v2_request_layout =
     STRUCT [(Skip, TAG_BUFFER), (Field ''topics'', COMPACT_ARRAY (STRUCT [(Field ''topic'', COMPACT_STRING),
       (Field ''partitions'', COMPACT_ARRAY (STRUCT [(Field ''partition'', INT32)])), (Skip, TAG_BUFFER)])),
       (Skip, TAG_BUFFER)]"

definition describeLogDirs_v2_value where
  "describeLogDirs_v2_value topics =
     WStruct [WTags, WArr (map_option (map (\<lambda>(topic, partitions). WStruct [WStr topic,
       WArr (Some (map (\<lambda>partition. WStruct [WInt partition]) partitions)), WTags])) topics), WTags]"

lemma describeLogDirs_v2_conforming [request_specs]:
  "conforming_request ''DescribeLogDirs'' 2 describeLogDirs_v2_request_layout
    (describeLogDirs_v2_value topics)
    (describeLogDirs_v2_request topics)"
  unfolding describeLogDirs_v2_request_layout_def describeLogDirs_v2_value_def describeLogDirs_v2_request_def
  by (rule conforming_new_request writes_intros)+

subsection \<open>Access control\<close>

definition createAcls_v0_encodeCreations :: "_ \<Rightarrow> writer" where
  "createAcls_v0_encodeCreations =
     (\<lambda>(resourceType, resourceName, principal, host, operation,
       permissionType). chain [writeInt8 resourceType, writeString resourceName, writeString principal,
       writeString host, writeInt8 operation, writeInt8 permissionType])"

definition createAcls_v0_request where
  "createAcls_v0_request creations =
     new_request (api_key ''CreateAcls'') 0 ''CreateAcls''
       (chain [write_array_of createAcls_v0_encodeCreations creations])"

definition createAcls_v0_request_layout :: layout where
  "createAcls_v0_request_layout =
     STRUCT [(Field ''creations'', ARRAY (STRUCT [(Field ''resourceType'', INT8), (Field ''resourceName'',
       STRING), (Field ''principal'', STRING), (Field ''host'', STRING), (Field ''operation'', INT8),
       (Field ''permissionType'', INT8)]))]"

definition createAcls_v0_value where
  "createAcls_v0_value creations =
     WStruct [WArr (Some (map (\<lambda>(resourceType, resourceName, principal, host, operation,
       permissionType). WStruct [WInt resourceType, WStr resourceName, WStr principal, WStr host,
       WInt operation, WInt permissionType]) creations))]"

lemma createAcls_v0_conforming [request_specs]:
  "conforming_request ''CreateAcls'' 0 createAcls_v0_request_layout
    (createAcls_v0_value creations)
    (createAcls_v0_request creations)"
  unfolding createAcls_v0_request_layout_def createAcls_v0_value_def createAcls_v0_request_def
    createAcls_v0_encodeCreations_def
  by (rule conforming_new_request writes_intros)+

definition createAcls_v1_encodeCreations :: "_ \<Rightarrow> writer" where
  "createAcls_v1_encodeCreations =
     (\<lambda>(resourceType, resourceName, resourcePatternType, principal, host, operation,
       permissionType). chain [writeInt8 resourceType, writeString resourceName, writeInt8 resourcePatternType,
       writeString principal, writeString host, writeInt8 operation, writeInt8 permissionType])"

definition createAcls_v1_request where
  "createAcls_v1_request creations =
     new_request (api_key ''CreateAcls'') 1 ''CreateAcls''
       (chain [write_array_of createAcls_v1_encodeCreations creations])"

definition createAcls_v1_request_layout :: layout where
  "createAcls_v1_request_layout =
     STRUCT [(Field ''creations'', ARRAY (STRUCT [(Field ''resourceType'', INT8), (Field ''resourceName'',
       STRING), (Field ''resourcePatternType'', INT8), (Field ''principal'', STRING), (Field ''host'', STRING),
       (Field ''operation'', INT8), (Field ''permissionType'', INT8)]))]"

definition createAcls_v1_value where
  "createAcls_v1_value creations =
     WStruct [WArr (Some (map (\<lambda>(resourceType, resourceName, resourcePatternType, principal, host,
       operation, permissionType). WStruct [WInt resourceType, WStr resourceName, WInt resourcePatternType,
       WStr principal, WStr host, WInt operation, WInt permissionType]) creations))]"

lemma createAcls_v1_conforming [request_specs]:
  "conforming_request ''CreateAcls'' 1 createAcls_v1_request_layout
    (createAcls_v1_value creations)
    (createAcls_v1_request creations)"
  unfolding createAcls_v1_request_layout_def createAcls_v1_value_def createAcls_v1_request_def
    createAcls_v1_encodeCreations_def
  by (rule conforming_new_request writes_intros)+

definition deleteAcls_v0_encodeFilters :: "_ \<Rightarrow> writer" where
  "deleteAcls_v0_encodeFilters =
     (\<lambda>(resourceType, resourceName, principal, host, operation,
       permissionType). chain [writeInt8 resourceType, writeString resourceName, writeString principal,
       writeString host, writeInt8 operation, writeInt8 permissionType])"

definition deleteAcls_v0_request where
  "deleteAcls_v0_request filters =
     new_request (api_key ''DeleteAcls'') 0 ''DeleteAcls''
       (chain [write_array_of deleteAcls_v0_encodeFilters filters])"

definition deleteAcls_v0_request_layout :: layout where
  "deleteAcls_v0_request_layout =
     STRUCT [(Field ''filters'', ARRAY (STRUCT [(Field ''resourceType'', INT8), (Field ''resourceName'',
       STRING), (Field ''principal'', STRING), (Field ''host'', STRING), (Field ''operation'', INT8),
       (Field ''permissionType'', INT8)]))]"

definition deleteAcls_v0_value where
  "deleteAcls_v0_value filters =
     WStruct [WArr (Some (map (\<lambda>(resourceType, resourceName, principal, host, operation,
       permissionType). WStruct [WInt resourceType, WStr resourceName, WStr principal, WStr host,
       WInt operation, WInt permissionType]) filters))]"

lemma deleteAcls_v0_conforming [request_specs]:
  "conforming_request ''DeleteAcls'' 0 deleteAcls_v0_request_layout
    (deleteAcls_v0_value filters)
    (deleteAcls_v0_request filters)"
  unfolding deleteAcls_v0_request_layout_def deleteAcls_v0_value_def deleteAcls_v0_request_def
    deleteAcls_v0_encodeFilters_def
  by (rule conforming_new_request writes_intros)+

definition deleteAcls_v1_encodeFilters :: "_ \<Rightarrow> writer" where
  "deleteAcls_v1_encodeFilters =
     (\<lambda>(resourceType, resourceName, resourcePatternType, principal, host, operation,
       permissionType). chain [writeInt8 resourceType, writeString resourceName, writeInt8 resourcePatternType,
       writeString principal, writeString host, writeInt8 operation, writeInt8 permissionType])"

definition deleteAcls_v1_request where
  "deleteAcls_v1_request filters =
     new_request (api_key ''DeleteAcls'') 1 ''DeleteAcls''
       (chain [write_array_of deleteAcls_v1_encodeFilters filters])"

definition deleteAcls_v1_request_layout :: layout where
  "deleteAcls_v1_request_layout =
     STRUCT [(Field ''filters'', ARRAY (STRUCT [(Field ''resourceType'', INT8), (Field ''resourceName'',
       STRING), (Field ''resourcePatternType'', INT8), (Field ''principal'', STRING), (Field ''host'', STRING),
       (Field ''operation'', INT8), (Field ''permissionType'', INT8)]))]"

definition deleteAcls_v1_value where
  "deleteAcls_v1_value filters =
     WStruct [WArr (Some (map (\<lambda>(resourceType, resourceName, resourcePatternType, principal, host,
       operation, permissionType). WStruct [WInt resourceType, WStr resourceName, WInt resourcePatternType,
       WStr principal, WStr host, WInt operation, WInt permissionType]) filters))]"

lemma deleteAcls_v1_conforming [request_specs]:
  "conforming_request ''DeleteAcls'' 1 deleteAcls_v1_request_layout
    (deleteAcls_v1_value filters)
    (deleteAcls_v1_request filters)"
  unfolding deleteAcls_v1_request_layout_def deleteAcls_v1_value_def deleteAcls_v1_request_def
    deleteAcls_v1_encodeFilters_def
  by (rule conforming_new_request writes_intros)+

definition describeAcls_v0_request where
  "describeAcls_v0_request resourceType resourceName principal' host operation permissionType =
     new_request (api_key ''DescribeAcls'') 0 ''DescribeAcls''
       (chain [writeInt8 resourceType, writeString resourceName, writeString principal', writeString host,
          writeInt8 operation, writeInt8 permissionType])"

definition describeAcls_v0_request_layout :: layout where
  "describeAcls_v0_request_layout =
     STRUCT [(Field ''resourceType'', INT8), (Field ''resourceName'', STRING), (Field ''principal'', STRING),
       (Field ''host'', STRING), (Field ''operation'', INT8), (Field ''permissionType'', INT8)]"

definition describeAcls_v0_value where
  "describeAcls_v0_value resourceType resourceName principal' host operation permissionType =
     WStruct [WInt resourceType, WStr resourceName, WStr principal', WStr host, WInt operation,
       WInt permissionType]"

lemma describeAcls_v0_conforming [request_specs]:
  "conforming_request ''DescribeAcls'' 0 describeAcls_v0_request_layout
    (describeAcls_v0_value resourceType resourceName principal' host operation permissionType)
    (describeAcls_v0_request resourceType resourceName principal' host operation permissionType)"
  unfolding describeAcls_v0_request_layout_def describeAcls_v0_value_def describeAcls_v0_request_def
  by (rule conforming_new_request writes_intros)+

definition describeAcls_v1_request where
  "describeAcls_v1_request resourceType resourceName resourcePatternType principal' host operation permissionType =
     new_request (api_key ''DescribeAcls'') 1 ''DescribeAcls''
       (chain [writeInt8 resourceType, writeString resourceName, writeInt8 resourcePatternType,
          writeString principal', writeString host, writeInt8 operation, writeInt8 permissionType])"

definition describeAcls_v1_request_layout :: layout where
  "describeAcls_v1_request_layout =
     STRUCT [(Field ''resourceType'', INT8), (Field ''resourceName'', STRING), (Field ''resourcePatternType'',
       INT8), (Field ''principal'', STRING), (Field ''host'', STRING), (Field ''operation'', INT8),
       (Field ''permissionType'', INT8)]"

definition describeAcls_v1_value where
  "describeAcls_v1_value resourceType resourceName resourcePatternType principal' host operation permissionType =
     WStruct [WInt resourceType, WStr resourceName, WInt resourcePatternType, WStr principal', WStr host,
       WInt operation, WInt permissionType]"

lemma describeAcls_v1_conforming [request_specs]:
  "conforming_request ''DescribeAcls'' 1 describeAcls_v1_request_layout
    (describeAcls_v1_value resourceType resourceName resourcePatternType principal' host operation
      permissionType)
    (describeAcls_v1_request resourceType resourceName resourcePatternType principal' host operation
      permissionType)"
  unfolding describeAcls_v1_request_layout_def describeAcls_v1_value_def describeAcls_v1_request_def
  by (rule conforming_new_request writes_intros)+

definition saslHandshake_v0_request where
  "saslHandshake_v0_request mechanism =
     new_request (api_key ''SaslHandshake'') 0 ''SaslHandshake''
       (chain [writeString mechanism])"

definition saslHandshake_v0_request_layout :: layout where
  "saslHandshake_v0_request_layout =
     STRUCT [(Field ''mechanism'', STRING)]"

definition saslHandshake_v0_value where
  "saslHandshake_v0_value mechanism =
     WStruct [WStr mechanism]"

lemma saslHandshake_v0_conforming [request_specs]:
  "conforming_request ''SaslHandshake'' 0 saslHandshake_v0_request_layout
    (saslHandshake_v0_value mechanism)
    (saslHandshake_v0_request mechanism)"
  unfolding saslHandshake_v0_request_layout_def saslHandshake_v0_value_def saslHandshake_v0_request_def
  by (rule conforming_new_request writes_intros)+

definition saslHandshake_v1_request where
  "saslHandshake_v1_request mechanism =
     with_version 1 (saslHandshake_v0_request mechanism)"

lemma saslHandshake_v1_conforming [request_specs]:
  "conforming_request ''SaslHandshake'' 1 saslHandshake_v0_request_layout
    (saslHandshake_v0_value mechanism)
    (saslHandshake_v1_request mechanism)"
  unfolding saslHandshake_v1_request_def
  by (rule conforming_with_version [OF saslHandshake_v0_conforming])

text \<open>The octets come with their number in front, as the mechanisms write them, and are a field \<open>BYTES\<close> as they are.\<close>

definition saslAuthenticate_v0_request where
  "saslAuthenticate_v0_request authBytes =
     new_request (api_key ''SaslAuthenticate'') 0 ''SaslAuthenticate'' (chain [writeBuffer authBytes])"

definition saslAuthenticate_v0_request_layout :: layout where
  "saslAuthenticate_v0_request_layout = STRUCT [(Field ''authBytes'', BYTES)]"

lemma writes_sized_buffer [writes_intros]: "writes BYTES (WBytes (Some b)) (writeBuffer (BBuffer (wire_bytes (Some b))))"
  using appends_writeBuffer [of "wire_bytes (Some b)"] by (simp add: writes_def wbytes_of_def)

lemma saslAuthenticate_v0_conforming [request_specs]:
  "conforming_request ''SaslAuthenticate'' 0 saslAuthenticate_v0_request_layout (WStruct [WBytes (Some b)])
    (saslAuthenticate_v0_request (BBuffer (wire_bytes (Some b))))"
  unfolding saslAuthenticate_v0_request_layout_def saslAuthenticate_v0_request_def
  by (rule conforming_new_request writes_intros)+

definition saslAuthenticate_v1_request where
  "saslAuthenticate_v1_request authBytes = with_version 1 (saslAuthenticate_v0_request authBytes)"

definition saslAuthenticate_v1_request_layout :: layout where
  "saslAuthenticate_v1_request_layout = saslAuthenticate_v0_request_layout"

lemma saslAuthenticate_v1_conforming [request_specs]:
  "conforming_request ''SaslAuthenticate'' 1 saslAuthenticate_v1_request_layout (WStruct [WBytes (Some b)])
    (saslAuthenticate_v1_request (BBuffer (wire_bytes (Some b))))"
  unfolding saslAuthenticate_v1_request_def saslAuthenticate_v1_request_layout_def
  by (rule conforming_with_version [OF saslAuthenticate_v0_conforming])

definition saslAuthenticate_v2_request where
  "saslAuthenticate_v2_request authBytes =
     new_request (api_key ''SaslAuthenticate'') 2 ''SaslAuthenticate''
       (chain [writeUVarIntBytes BNull, writeUVarIntBytes authBytes, writeUVarIntBytes BNull])"

definition saslAuthenticate_v2_request_layout :: layout where
  "saslAuthenticate_v2_request_layout =
     STRUCT [(Skip, TAG_BUFFER), (Field ''authBytes'', COMPACT_BYTES), (Skip, TAG_BUFFER)]"

definition saslAuthenticate_v2_value where
  "saslAuthenticate_v2_value authBytes =
     WStruct [WTags, WBytes (bytes_of authBytes), WTags]"

lemma saslAuthenticate_v2_conforming [request_specs]:
  "conforming_request ''SaslAuthenticate'' 2 saslAuthenticate_v2_request_layout
    (saslAuthenticate_v2_value authBytes)
    (saslAuthenticate_v2_request authBytes)"
  unfolding saslAuthenticate_v2_request_layout_def saslAuthenticate_v2_value_def saslAuthenticate_v2_request_def
  by (rule conforming_new_request writes_intros)+

subsection \<open>Configuration\<close>

definition describeConfigs_v0_encodeResource :: "_ \<Rightarrow> writer" where
  "describeConfigs_v0_encodeResource =
     (\<lambda>(type, name, configNames). chain [writeInt8 type, writeString name,
       write_nullable_strings (or_default [] configNames)])"

definition describeConfigs_v0_request where
  "describeConfigs_v0_request resources =
     new_request (api_key ''DescribeConfigs'') 0 ''DescribeConfigs''
       (chain [write_array_of describeConfigs_v0_encodeResource resources])"

definition describeConfigs_v0_request_layout :: layout where
  "describeConfigs_v0_request_layout =
     STRUCT [(Field ''resources'', ARRAY (STRUCT [(Field ''type'', INT8), (Field ''name'', STRING),
       (Field ''configNames'', ARRAY STRING)]))]"

definition describeConfigs_v0_value where
  "describeConfigs_v0_value resources =
     WStruct [WArr (Some (map (\<lambda>(type, name, configNames). WStruct [WInt type, WStr name,
       WArr (nullable (map (\<lambda>s. WStr (Some s)) (or_default [] configNames)))]) resources))]"

lemma describeConfigs_v0_conforming [request_specs]:
  "conforming_request ''DescribeConfigs'' 0 describeConfigs_v0_request_layout
    (describeConfigs_v0_value resources)
    (describeConfigs_v0_request resources)"
  unfolding describeConfigs_v0_request_layout_def describeConfigs_v0_value_def describeConfigs_v0_request_def
    describeConfigs_v0_encodeResource_def
  by (rule conforming_new_request writes_intros)+

definition describeConfigs_v1_encodeResource :: "_ \<Rightarrow> writer" where
  "describeConfigs_v1_encodeResource =
     (\<lambda>(type, name, configNames). chain [writeInt8 type, writeString name,
       write_nullable_strings (or_default [] configNames)])"

definition describeConfigs_v1_request where
  "describeConfigs_v1_request resources includeSynonyms =
     new_request (api_key ''DescribeConfigs'') 1 ''DescribeConfigs''
       (chain [write_array_of describeConfigs_v1_encodeResource resources,
          writeBoolean (or_default False includeSynonyms)])"

definition describeConfigs_v1_request_layout :: layout where
  "describeConfigs_v1_request_layout =
     STRUCT [(Field ''resources'', ARRAY (STRUCT [(Field ''type'', INT8), (Field ''name'', STRING),
       (Field ''configNames'', ARRAY STRING)])), (Field ''includeSynonyms'', BOOLEAN)]"

definition describeConfigs_v1_value where
  "describeConfigs_v1_value resources includeSynonyms =
     WStruct [WArr (Some (map (\<lambda>(type, name, configNames). WStruct [WInt type, WStr name,
       WArr (nullable (map (\<lambda>s. WStr (Some s)) (or_default [] configNames)))]) resources)),
       WBool (or_default False includeSynonyms)]"

lemma describeConfigs_v1_conforming [request_specs]:
  "conforming_request ''DescribeConfigs'' 1 describeConfigs_v1_request_layout
    (describeConfigs_v1_value resources includeSynonyms)
    (describeConfigs_v1_request resources includeSynonyms)"
  unfolding describeConfigs_v1_request_layout_def describeConfigs_v1_value_def describeConfigs_v1_request_def
    describeConfigs_v1_encodeResource_def
  by (rule conforming_new_request writes_intros)+

definition describeConfigs_v2_request where
  "describeConfigs_v2_request resources includeSynonyms =
     with_version 2 (describeConfigs_v1_request resources includeSynonyms)"

lemma describeConfigs_v2_conforming [request_specs]:
  "conforming_request ''DescribeConfigs'' 2 describeConfigs_v1_request_layout
    (describeConfigs_v1_value resources includeSynonyms)
    (describeConfigs_v2_request resources includeSynonyms)"
  unfolding describeConfigs_v2_request_def
  by (rule conforming_with_version [OF describeConfigs_v1_conforming])

definition describeConfigs_v4_encodeResource :: "_ \<Rightarrow> writer" where
  "describeConfigs_v4_encodeResource =
     (\<lambda>(type, name, configNames). chain [writeInt8 type, writeUVarIntString name,
       write_uvarint_array_of (\<lambda>n. chain [writeUVarIntString n]) (nullable (or_default [] configNames)), writeUVarIntBytes BNull])"

definition describeConfigs_v4_request where
  "describeConfigs_v4_request resources includeSynonyms includeDocumentation =
     new_request (api_key ''DescribeConfigs'') 4 ''DescribeConfigs''
       (chain [writeUVarIntBytes BNull,
          write_uvarint_array_of describeConfigs_v4_encodeResource (Some resources),
          writeBoolean (or_default False includeSynonyms),
          writeBoolean (or_default False includeDocumentation), writeUVarIntBytes BNull])"

definition describeConfigs_v4_request_layout :: layout where
  "describeConfigs_v4_request_layout =
     STRUCT [(Skip, TAG_BUFFER), (Field ''resources'', COMPACT_ARRAY (STRUCT [(Field ''type'', INT8),
       (Field ''name'', COMPACT_STRING), (Field ''configNames'', COMPACT_ARRAY (STRUCT [(Field ''n'',
       COMPACT_STRING)])), (Skip, TAG_BUFFER)])), (Field ''includeSynonyms'', BOOLEAN),
       (Field ''includeDocumentation'', BOOLEAN), (Skip, TAG_BUFFER)]"

definition describeConfigs_v4_value where
  "describeConfigs_v4_value resources includeSynonyms includeDocumentation =
     WStruct [WTags, WArr (Some (map (\<lambda>(type, name, configNames). WStruct [WInt type, WStr name,
       WArr (map_option (map (\<lambda>n. WStruct [WStr n])) (nullable (or_default [] configNames))),
       WTags]) resources)), WBool (or_default False includeSynonyms),
       WBool (or_default False includeDocumentation), WTags]"

lemma describeConfigs_v4_conforming [request_specs]:
  "conforming_request ''DescribeConfigs'' 4 describeConfigs_v4_request_layout
    (describeConfigs_v4_value resources includeSynonyms includeDocumentation)
    (describeConfigs_v4_request resources includeSynonyms includeDocumentation)"
  unfolding describeConfigs_v4_request_layout_def describeConfigs_v4_value_def describeConfigs_v4_request_def
    describeConfigs_v4_encodeResource_def
  by (rule conforming_new_request writes_intros)+

definition alterConfigs_v0_encodeConfigEntries :: "_ \<Rightarrow> writer" where
  "alterConfigs_v0_encodeConfigEntries =
     (\<lambda>(name, value). chain [writeString name, writeString value])"

definition alterConfigs_v0_encodeResource :: "_ \<Rightarrow> writer" where
  "alterConfigs_v0_encodeResource =
     (\<lambda>(type, name, configEntries). chain [writeInt8 type, writeString name,
       write_array_of alterConfigs_v0_encodeConfigEntries configEntries])"

definition alterConfigs_v0_request where
  "alterConfigs_v0_request resources validateOnly =
     new_request (api_key ''AlterConfigs'') 0 ''AlterConfigs''
       (chain [write_array_of alterConfigs_v0_encodeResource resources,
          writeBoolean (or_default False validateOnly)])"

definition alterConfigs_v0_request_layout :: layout where
  "alterConfigs_v0_request_layout =
     STRUCT [(Field ''resources'', ARRAY (STRUCT [(Field ''type'', INT8), (Field ''name'', STRING),
       (Field ''configEntries'', ARRAY (STRUCT [(Field ''name'', STRING), (Field ''value'', STRING)]))])),
       (Field ''validateOnly'', BOOLEAN)]"

definition alterConfigs_v0_value where
  "alterConfigs_v0_value resources validateOnly =
     WStruct [WArr (Some (map (\<lambda>(type, name, configEntries). WStruct [WInt type, WStr name,
       WArr (Some (map (\<lambda>(name, value). WStruct [WStr name, WStr value]) configEntries))]) resources)),
       WBool (or_default False validateOnly)]"

lemma alterConfigs_v0_conforming [request_specs]:
  "conforming_request ''AlterConfigs'' 0 alterConfigs_v0_request_layout
    (alterConfigs_v0_value resources validateOnly)
    (alterConfigs_v0_request resources validateOnly)"
  unfolding alterConfigs_v0_request_layout_def alterConfigs_v0_value_def alterConfigs_v0_request_def
    alterConfigs_v0_encodeResource_def alterConfigs_v0_encodeConfigEntries_def
  by (rule conforming_new_request writes_intros)+

definition alterConfigs_v1_request where
  "alterConfigs_v1_request resources validateOnly =
     with_version 1 (alterConfigs_v0_request resources validateOnly)"

definition alterConfigs_v1_request_layout :: layout where "alterConfigs_v1_request_layout = alterConfigs_v0_request_layout"

lemma alterConfigs_v1_conforming [request_specs]:
  "conforming_request ''AlterConfigs'' 1 alterConfigs_v1_request_layout
    (alterConfigs_v0_value resources validateOnly)
    (alterConfigs_v1_request resources validateOnly)"
  unfolding alterConfigs_v1_request_def alterConfigs_v1_request_layout_def
  by (rule conforming_with_version [OF alterConfigs_v0_conforming])

definition alterConfigs_v2_encodeConfigEntries :: "_ \<Rightarrow> writer" where
  "alterConfigs_v2_encodeConfigEntries =
     (\<lambda>(name, value). chain [writeUVarIntString name, writeUVarIntString value,
       writeUVarIntBytes BNull])"

definition alterConfigs_v2_encodeResource :: "_ \<Rightarrow> writer" where
  "alterConfigs_v2_encodeResource =
     (\<lambda>(type, name, configEntries). chain [writeInt8 type, writeUVarIntString name,
       write_uvarint_array_of alterConfigs_v2_encodeConfigEntries (Some configEntries),
       writeUVarIntBytes BNull])"

definition alterConfigs_v2_request where
  "alterConfigs_v2_request resources validateOnly =
     new_request (api_key ''AlterConfigs'') 2 ''AlterConfigs''
       (chain [writeUVarIntBytes BNull, write_uvarint_array_of alterConfigs_v2_encodeResource (Some resources),
          writeBoolean (or_default False validateOnly), writeUVarIntBytes BNull])"

definition alterConfigs_v2_request_layout :: layout where
  "alterConfigs_v2_request_layout =
     STRUCT [(Skip, TAG_BUFFER), (Field ''resources'', COMPACT_ARRAY (STRUCT [(Field ''type'', INT8),
       (Field ''name'', COMPACT_STRING), (Field ''configEntries'', COMPACT_ARRAY (STRUCT [(Field ''name'',
       COMPACT_STRING), (Field ''value'', COMPACT_STRING), (Skip, TAG_BUFFER)])), (Skip, TAG_BUFFER)])),
       (Field ''validateOnly'', BOOLEAN), (Skip, TAG_BUFFER)]"

definition alterConfigs_v2_value where
  "alterConfigs_v2_value resources validateOnly =
     WStruct [WTags, WArr (Some (map (\<lambda>(type, name, configEntries). WStruct [WInt type, WStr name,
       WArr (Some (map (\<lambda>(name, value). WStruct [WStr name, WStr value, WTags]) configEntries)),
       WTags]) resources)), WBool (or_default False validateOnly), WTags]"

lemma alterConfigs_v2_conforming [request_specs]:
  "conforming_request ''AlterConfigs'' 2 alterConfigs_v2_request_layout
    (alterConfigs_v2_value resources validateOnly)
    (alterConfigs_v2_request resources validateOnly)"
  unfolding alterConfigs_v2_request_layout_def alterConfigs_v2_value_def alterConfigs_v2_request_def
    alterConfigs_v2_encodeResource_def alterConfigs_v2_encodeConfigEntries_def
  by (rule conforming_new_request writes_intros)+

definition incrementalAlterConfigs_v0_encodeConfigEntry :: "_ \<Rightarrow> writer" where
  "incrementalAlterConfigs_v0_encodeConfigEntry =
     (\<lambda>(name, configOperation, value). chain [writeString name, writeInt8 configOperation,
       writeString value])"

definition incrementalAlterConfigs_v0_encodeResource :: "_ \<Rightarrow> writer" where
  "incrementalAlterConfigs_v0_encodeResource =
     (\<lambda>(type, name, configEntries). chain [writeInt8 type, writeString name,
       write_array_of incrementalAlterConfigs_v0_encodeConfigEntry configEntries])"

definition incrementalAlterConfigs_v0_request where
  "incrementalAlterConfigs_v0_request resources validateOnly =
     new_request (api_key ''IncrementalAlterConfigs'') 0 ''IncrementalAlterConfigs''
       (chain [write_array_of incrementalAlterConfigs_v0_encodeResource resources,
          writeBoolean (or_default False validateOnly)])"

definition incrementalAlterConfigs_v0_request_layout :: layout where
  "incrementalAlterConfigs_v0_request_layout =
     STRUCT [(Field ''resources'', ARRAY (STRUCT [(Field ''type'', INT8), (Field ''name'', STRING),
       (Field ''configEntries'', ARRAY (STRUCT [(Field ''name'', STRING), (Field ''configOperation'', INT8),
       (Field ''value'', STRING)]))])), (Field ''validateOnly'', BOOLEAN)]"

definition incrementalAlterConfigs_v0_value where
  "incrementalAlterConfigs_v0_value resources validateOnly =
     WStruct [WArr (Some (map (\<lambda>(type, name, configEntries). WStruct [WInt type, WStr name,
       WArr (Some (map (\<lambda>(name, configOperation, value). WStruct [WStr name, WInt configOperation,
       WStr value]) configEntries))]) resources)), WBool (or_default False validateOnly)]"

lemma incrementalAlterConfigs_v0_conforming [request_specs]:
  "conforming_request ''IncrementalAlterConfigs'' 0 incrementalAlterConfigs_v0_request_layout
    (incrementalAlterConfigs_v0_value resources validateOnly)
    (incrementalAlterConfigs_v0_request resources validateOnly)"
  unfolding incrementalAlterConfigs_v0_request_layout_def incrementalAlterConfigs_v0_value_def
    incrementalAlterConfigs_v0_request_def incrementalAlterConfigs_v0_encodeResource_def
    incrementalAlterConfigs_v0_encodeConfigEntry_def
  by (rule conforming_new_request writes_intros)+

definition incrementalAlterConfigs_v1_encodeConfigEntry :: "_ \<Rightarrow> writer" where
  "incrementalAlterConfigs_v1_encodeConfigEntry =
     (\<lambda>(name, configOperation, value). chain [writeUVarIntString name, writeInt8 configOperation,
       writeUVarIntString value, writeUVarIntBytes BNull])"

definition incrementalAlterConfigs_v1_encodeResource :: "_ \<Rightarrow> writer" where
  "incrementalAlterConfigs_v1_encodeResource =
     (\<lambda>(type, name, configEntries). chain [writeInt8 type, writeUVarIntString name,
       write_uvarint_array_of incrementalAlterConfigs_v1_encodeConfigEntry (Some configEntries),
       writeUVarIntBytes BNull])"

definition incrementalAlterConfigs_v1_request where
  "incrementalAlterConfigs_v1_request resources validateOnly =
     new_request (api_key ''IncrementalAlterConfigs'') 1 ''IncrementalAlterConfigs''
       (chain [writeUVarIntBytes BNull,
          write_uvarint_array_of incrementalAlterConfigs_v1_encodeResource (Some resources),
          writeBoolean (or_default False validateOnly), writeUVarIntBytes BNull])"

definition incrementalAlterConfigs_v1_request_layout :: layout where
  "incrementalAlterConfigs_v1_request_layout =
     STRUCT [(Skip, TAG_BUFFER), (Field ''resources'', COMPACT_ARRAY (STRUCT [(Field ''type'', INT8),
       (Field ''name'', COMPACT_STRING), (Field ''configEntries'', COMPACT_ARRAY (STRUCT [(Field ''name'',
       COMPACT_STRING), (Field ''configOperation'', INT8), (Field ''value'', COMPACT_STRING), (Skip,
       TAG_BUFFER)])), (Skip, TAG_BUFFER)])), (Field ''validateOnly'', BOOLEAN), (Skip, TAG_BUFFER)]"

definition incrementalAlterConfigs_v1_value where
  "incrementalAlterConfigs_v1_value resources validateOnly =
     WStruct [WTags, WArr (Some (map (\<lambda>(type, name, configEntries). WStruct [WInt type, WStr name,
       WArr (Some (map (\<lambda>(name, configOperation, value). WStruct [WStr name, WInt configOperation,
       WStr value, WTags]) configEntries)), WTags]) resources)), WBool (or_default False validateOnly), WTags]"

lemma incrementalAlterConfigs_v1_conforming [request_specs]:
  "conforming_request ''IncrementalAlterConfigs'' 1 incrementalAlterConfigs_v1_request_layout
    (incrementalAlterConfigs_v1_value resources validateOnly)
    (incrementalAlterConfigs_v1_request resources validateOnly)"
  unfolding incrementalAlterConfigs_v1_request_layout_def incrementalAlterConfigs_v1_value_def
    incrementalAlterConfigs_v1_request_def incrementalAlterConfigs_v1_encodeResource_def
    incrementalAlterConfigs_v1_encodeConfigEntry_def
  by (rule conforming_new_request writes_intros)+

subsection \<open>All requests\<close>

inductive admin_request :: "string \<Rightarrow> int \<Rightarrow> layout \<Rightarrow> wire_value \<Rightarrow> protocol_request \<Rightarrow> bool" where
  "admin_request ''CreateTopics'' 0 createTopics_v0_request_layout
    (createTopics_v0_value topics timeout)
    (createTopics_v0_request topics timeout)"
| "admin_request ''CreateTopics'' 1 createTopics_v1_request_layout
    (createTopics_v1_value topics validateOnly timeout)
    (createTopics_v1_request topics validateOnly timeout)"
| "admin_request ''CreateTopics'' 2 createTopics_v2_request_layout
    (createTopics_v1_value topics validateOnly timeout)
    (createTopics_v2_request topics validateOnly timeout)"
| "admin_request ''CreateTopics'' 3 createTopics_v3_request_layout
    (createTopics_v1_value topics validateOnly timeout)
    (createTopics_v3_request topics validateOnly timeout)"
| "admin_request ''CreateTopics'' 5 createTopics_v5_request_layout
    (createTopics_v5_value topics validateOnly timeout)
    (createTopics_v5_request topics validateOnly timeout)"
| "admin_request ''DeleteTopics'' 0 deleteTopics_v0_request_layout
    (deleteTopics_v0_value topics timeout)
    (deleteTopics_v0_request topics timeout)"
| "admin_request ''DeleteTopics'' 1 deleteTopics_v1_request_layout
    (deleteTopics_v0_value topics timeout)
    (deleteTopics_v1_request topics timeout)"
| "admin_request ''DeleteTopics'' 4 deleteTopics_v4_request_layout
    (deleteTopics_v4_value topics timeout)
    (deleteTopics_v4_request topics timeout)"
| "admin_request ''DeleteRecords'' 0 deleteRecords_v0_request_layout
    (deleteRecords_v0_value topics timeout)
    (deleteRecords_v0_request topics timeout)"
| "admin_request ''DeleteRecords'' 1 deleteRecords_v1_request_layout
    (deleteRecords_v0_value topics timeout)
    (deleteRecords_v1_request topics timeout)"
| "admin_request ''CreatePartitions'' 0 createPartitions_v0_request_layout
    (createPartitions_v0_value topicPartitions validateOnly timeout)
    (createPartitions_v0_request topicPartitions validateOnly timeout)"
| "admin_request ''CreatePartitions'' 1 createPartitions_v1_request_layout
    (createPartitions_v0_value topicPartitions validateOnly timeout)
    (createPartitions_v1_request topicPartitions validateOnly timeout)"
| "admin_request ''AlterPartitionReassignments'' 0 alterPartitionReassignments_v0_request_layout
    (alterPartitionReassignments_v0_value topics timeout)
    (alterPartitionReassignments_v0_request topics timeout)"
| "admin_request ''ListPartitionReassignments'' 0 listPartitionReassignments_v0_request_layout
    (listPartitionReassignments_v0_value topics timeout)
    (listPartitionReassignments_v0_request topics timeout)"
| "admin_request ''ElectPreferredLeaders'' 0 electLeaders_v0_request_layout
    (electLeaders_v0_value electionType topicPartitions timeout)
    (electLeaders_v0_request electionType topicPartitions timeout)"
| "admin_request ''ElectPreferredLeaders'' 1 electLeaders_v1_request_layout
    (electLeaders_v0_value electionType topicPartitions timeout)
    (electLeaders_v1_request electionType topicPartitions timeout)"
| "admin_request ''ElectPreferredLeaders'' 2 electLeaders_v2_request_layout
    (electLeaders_v2_value electionType topicPartitions timeout)
    (electLeaders_v2_request electionType topicPartitions timeout)"
| "admin_request ''DescribeLogDirs'' 0 describeLogDirs_v0_request_layout
    (describeLogDirs_v0_value topics)
    (describeLogDirs_v0_request topics)"
| "admin_request ''DescribeLogDirs'' 2 describeLogDirs_v2_request_layout
    (describeLogDirs_v2_value topics)
    (describeLogDirs_v2_request topics)"
| "admin_request ''CreateAcls'' 0 createAcls_v0_request_layout
    (createAcls_v0_value creations)
    (createAcls_v0_request creations)"
| "admin_request ''CreateAcls'' 1 createAcls_v1_request_layout
    (createAcls_v1_value creations)
    (createAcls_v1_request creations)"
| "admin_request ''DeleteAcls'' 0 deleteAcls_v0_request_layout
    (deleteAcls_v0_value filters)
    (deleteAcls_v0_request filters)"
| "admin_request ''DeleteAcls'' 1 deleteAcls_v1_request_layout
    (deleteAcls_v1_value filters)
    (deleteAcls_v1_request filters)"
| "admin_request ''DescribeAcls'' 0 describeAcls_v0_request_layout
    (describeAcls_v0_value resourceType resourceName principal' host operation permissionType)
    (describeAcls_v0_request resourceType resourceName principal' host operation permissionType)"
| "admin_request ''DescribeAcls'' 1 describeAcls_v1_request_layout
    (describeAcls_v1_value resourceType resourceName resourcePatternType principal' host operation
      permissionType)
    (describeAcls_v1_request resourceType resourceName resourcePatternType principal' host operation
      permissionType)"
| "admin_request ''SaslHandshake'' 0 saslHandshake_v0_request_layout
    (saslHandshake_v0_value mechanism)
    (saslHandshake_v0_request mechanism)"
| "admin_request ''SaslHandshake'' 1 saslHandshake_v0_request_layout
    (saslHandshake_v0_value mechanism)
    (saslHandshake_v1_request mechanism)"
| "admin_request ''SaslAuthenticate'' 0 saslAuthenticate_v0_request_layout (WStruct [WBytes (Some b)])
    (saslAuthenticate_v0_request (BBuffer (wire_bytes (Some b))))"
| "admin_request ''SaslAuthenticate'' 1 saslAuthenticate_v1_request_layout (WStruct [WBytes (Some b)])
    (saslAuthenticate_v1_request (BBuffer (wire_bytes (Some b))))"
| "admin_request ''SaslAuthenticate'' 2 saslAuthenticate_v2_request_layout
    (saslAuthenticate_v2_value authBytes)
    (saslAuthenticate_v2_request authBytes)"
| "admin_request ''DescribeConfigs'' 0 describeConfigs_v0_request_layout
    (describeConfigs_v0_value resources)
    (describeConfigs_v0_request resources)"
| "admin_request ''DescribeConfigs'' 1 describeConfigs_v1_request_layout
    (describeConfigs_v1_value resources includeSynonyms)
    (describeConfigs_v1_request resources includeSynonyms)"
| "admin_request ''DescribeConfigs'' 2 describeConfigs_v1_request_layout
    (describeConfigs_v1_value resources includeSynonyms)
    (describeConfigs_v2_request resources includeSynonyms)"
| "admin_request ''DescribeConfigs'' 4 describeConfigs_v4_request_layout
    (describeConfigs_v4_value resources includeSynonyms includeDocumentation)
    (describeConfigs_v4_request resources includeSynonyms includeDocumentation)"
| "admin_request ''AlterConfigs'' 0 alterConfigs_v0_request_layout
    (alterConfigs_v0_value resources validateOnly)
    (alterConfigs_v0_request resources validateOnly)"
| "admin_request ''AlterConfigs'' 1 alterConfigs_v1_request_layout
    (alterConfigs_v0_value resources validateOnly)
    (alterConfigs_v1_request resources validateOnly)"
| "admin_request ''AlterConfigs'' 2 alterConfigs_v2_request_layout
    (alterConfigs_v2_value resources validateOnly)
    (alterConfigs_v2_request resources validateOnly)"
| "admin_request ''IncrementalAlterConfigs'' 0 incrementalAlterConfigs_v0_request_layout
    (incrementalAlterConfigs_v0_value resources validateOnly)
    (incrementalAlterConfigs_v0_request resources validateOnly)"
| "admin_request ''IncrementalAlterConfigs'' 1 incrementalAlterConfigs_v1_request_layout
    (incrementalAlterConfigs_v1_value resources validateOnly)
    (incrementalAlterConfigs_v1_request resources validateOnly)"

lemma admin_request_conforming: "admin_request api v t w r \<Longrightarrow> conforming_request api v t w r"
  by (induction rule: admin_request.induct) (rule request_specs)+

end
