(* ===== verification/Sasl.thy ===== *)
theory Sasl
  imports Sasl_Scram Requests_Admin
begin

text \<open>
  The other mechanisms and the exchange around them: \<^verbatim>\<open>src/broker/saslAuthenticator/index.js\<close>, \<^verbatim>\<open>plain.js\<close>,
  \<^verbatim>\<open>awsIam.js\<close>, \<^verbatim>\<open>oauthBearer.js\<close> and the messages of \<^verbatim>\<open>src/protocol/sasl\<close>. A mechanism is given the function
  \<open>saslAuthenticate\<close> that sends its message, in a \<^verbatim>\<open>SaslAuthenticate\<close> request when the broker supports
  it and as it is otherwise. Kerberos rests on a library that is not part of the repository and is left out.
\<close>

subsection \<open>Messages of the mechanisms\<close>

definition US_ASCII_NULL_CHAR :: string where "US_ASCII_NULL_CHAR = [CHR 0x00]"

fun js_join :: "string \<Rightarrow> string option list \<Rightarrow> string" where \<comment> \<open>\<open>xs.join(sep)\<close>; absent elements are empty\<close>
  "js_join sep [] = []"
| "js_join sep [x] = (case x of None \<Rightarrow> [] | Some s \<Rightarrow> s)"
| "js_join sep (x # xs) = (case x of None \<Rightarrow> [] | Some s \<Rightarrow> s) @ sep @ js_join sep xs"

record sasl_options =
  so_mechanism :: string
  so_authorizationIdentity :: "string option"
  so_username :: "string option"
  so_password :: "string option"
  so_accessKeyId :: "string option"
  so_secretAccessKey :: "string option"
  so_sessionToken :: "string option"

definition plain_request :: "sasl_options \<Rightarrow> err + buffer" where
  "plain_request o' =
     scram_message_encode (js_join US_ASCII_NULL_CHAR [so_authorizationIdentity o', so_username o', so_password o'])"

definition awsIam_request :: "sasl_options \<Rightarrow> err + buffer" where
  "awsIam_request o' =
     scram_message_encode (js_join US_ASCII_NULL_CHAR
       [so_authorizationIdentity o', so_accessKeyId o', so_secretAccessKey o', so_sessionToken o'])"

definition SEPARATOR :: string where "SEPARATOR = [CHR 0x01]"

definition formatExtensions :: "(string \<times> string) list option \<Rightarrow> string" where
  "formatExtensions extensions =
     (case extensions of
        None \<Rightarrow> []
      | Some es \<Rightarrow> js_join SEPARATOR (map (\<lambda>(k, v). Some (k @ ''='' @ v)) es))"

record oauth_token =
  ot_value :: "string option"
  ot_extensions :: "(string \<times> string) list option"

definition oauth_message :: "string option \<Rightarrow> string \<Rightarrow> (string \<times> string) list option \<Rightarrow> string" where
  "oauth_message authorizationIdentity tokenValue extensions =
     (let authzid = (case authorizationIdentity of None \<Rightarrow> [] | Some i \<Rightarrow> CHR 0x22 # ''a='' @ i);
          ext = formatExtensions extensions; ext' = (if ext = [] then [] else SEPARATOR @ ext)
      in ''n,'' @ authzid @ '','' @ SEPARATOR @ ''auth=Bearer '' @ tokenValue @ ext' @ SEPARATOR @ SEPARATOR)"

definition oauth_request :: "sasl_options \<Rightarrow> string \<Rightarrow> (string \<times> string) list option \<Rightarrow> err + buffer" where
  "oauth_request o' tokenValue extensions =
     scram_message_encode (oauth_message (so_authorizationIdentity o') tokenValue extensions)"

subsection \<open>The mechanisms\<close>

text \<open>
  \<open>saslAuthenticate\<close> takes the encoded request and says whether the exchange went well; the responses of these mechanisms are
  not looked at. Errors are wrapped.
\<close>

type_synonym exchange = "err + buffer \<Rightarrow> err + unit"

definition wrapped :: "string \<Rightarrow> err + unit \<Rightarrow> err + unit" where
  "wrapped prefix r = (case r of Inl e \<Rightarrow> Inl (scram_error (prefix @ '' authentication failed: '' @ e_message e)) | Inr u \<Rightarrow> Inr u)"

definition plain_authenticate :: "exchange \<Rightarrow> sasl_options \<Rightarrow> err + unit" where
  "plain_authenticate saslAuthenticate o' =
     (if so_username o' = None \<or> so_password o' = None
      then Inl (scram_error ''SASL Plain: Invalid username or password'')
      else wrapped ''SASL PLAIN'' (saslAuthenticate (plain_request o')))"

definition falsy :: "string option \<Rightarrow> bool" where
  "falsy v \<longleftrightarrow> v = None \<or> v = Some []"

definition awsIam_authenticate :: "exchange \<Rightarrow> sasl_options \<Rightarrow> err + unit" where
  "awsIam_authenticate saslAuthenticate o' =
     (if falsy (so_authorizationIdentity o') then Inl (scram_error ''SASL AWS-IAM: Missing authorizationIdentity'')
      else if falsy (so_accessKeyId o') then Inl (scram_error ''SASL AWS-IAM: Missing accessKeyId'')
      else if falsy (so_secretAccessKey o') then Inl (scram_error ''SASL AWS-IAM: Missing secretAccessKey'')
      else let o' = (if falsy (so_sessionToken o') then o'\<lparr>so_sessionToken := Some []\<rparr> else o')
           in wrapped ''SASL AWS-IAM'' (saslAuthenticate (awsIam_request o')))"

definition oauthBearer_authenticate :: "exchange \<Rightarrow> sasl_options \<Rightarrow> (err + oauth_token) option \<Rightarrow> err + unit" where
  \<comment> \<open>the last argument is what the user's \<open>oauthBearerProvider\<close> returns, if there is one\<close>
  "oauthBearer_authenticate saslAuthenticate o' oauthBearerProvider =
     (case oauthBearerProvider of
        None \<Rightarrow> Inl (scram_error ''SASL OAUTHBEARER: Missing OAuth bearer token provider'')
      | Some t \<Rightarrow> rbind t (\<lambda>token.
          case ot_value token of
            None \<Rightarrow> Inl (scram_error ''SASL OAUTHBEARER: Invalid OAuth bearer token'')
          | Some v \<Rightarrow> wrapped ''SASL OAUTHBEARER'' (saslAuthenticate (oauth_request o' v (ot_extensions token)))))"

subsection \<open>The exchange\<close>

definition UNLIMITED_SESSION_LIFETIME :: int where "UNLIMITED_SESSION_LIFETIME = 0"

record sasl_authenticator =
  sessionLifetime :: int
  protocolAuthentication :: "int option" \<comment> \<open>the version of \<open>SaslAuthenticate\<close>, if it is used\<close>

definition new_SASLAuthenticator :: "int \<Rightarrow> bool \<Rightarrow> sasl_authenticator" where
  "new_SASLAuthenticator version supportAuthenticationProtocol =
     \<lparr>sessionLifetime = UNLIMITED_SESSION_LIFETIME,
      protocolAuthentication = (if supportAuthenticationProtocol then Some version else None)\<rparr>"

text \<open>The answer to a \<^verbatim>\<open>SaslAuthenticate\<close> request; version 0 has no lifetime.\<close>

record auth_response =
  ar_authBytes :: buffer
  ar_sessionLifetimeMs :: "int option"

definition auth_request :: "int \<Rightarrow> buffer \<Rightarrow> protocol_request" where
  "auth_request version bytes =
     (if version = 0 then saslAuthenticate_v0_request (BBuffer bytes)
      else if version = 1 then saslAuthenticate_v1_request (BBuffer bytes)
      else saslAuthenticate_v2_request (BBuffer bytes))"

definition saslAuthenticate ::
  "(protocol_request \<Rightarrow> err + auth_response) \<Rightarrow> (buffer \<Rightarrow> err + buffer) \<Rightarrow> (buffer \<Rightarrow> err + 'r) option \<Rightarrow> err + buffer \<Rightarrow>
   sasl_authenticator \<Rightarrow> (err + 'r option) \<times> sasl_authenticator" where
  \<comment> \<open>\<open>connection.send\<close>, \<open>connection.sendAuthRequest\<close>, the decoding and parsing of the response, the encoded request\<close>
  "saslAuthenticate send sendAuthRequest response encoded s =
     (case encoded of
        Inl e \<Rightarrow> (Inl e, s)
      | Inr requestAuthBytes \<Rightarrow>
          (case protocolAuthentication s of
             Some version \<Rightarrow>
               (case send (auth_request version requestAuthBytes) of
                  Inl e \<Rightarrow> (Inl e, s)
                | Inr authResponse \<Rightarrow>
                    (let s' = s\<lparr>sessionLifetime := (case ar_sessionLifetimeMs authResponse of
                                                    None \<Rightarrow> UNLIMITED_SESSION_LIFETIME | Some ms \<Rightarrow> ms)\<rparr>
                     in case response of
                          None \<Rightarrow> (Inr None, s')
                        | Some read \<Rightarrow> (rbind (read (ar_authBytes authResponse)) (\<lambda>r. Inr (Some r)), s')))
           | None \<Rightarrow>
               (case response of
                  None \<Rightarrow> (Inl (native_error ''TypeError'' []), s) \<comment> \<open>\<open>onSuccess\<close> reads \<open>response.decode\<close>\<close>
                | Some read \<Rightarrow> (rbind (sendAuthRequest requestAuthBytes) (\<lambda>raw. rbind (read raw) (\<lambda>r. Inr (Some r))), s))))"

definition BUILT_IN_AUTHENTICATION_PROVIDERS :: "string list" where
  "BUILT_IN_AUTHENTICATION_PROVIDERS =
     [''AWS'', ''PLAIN'', ''OAUTHBEARER'', ''SCRAM-SHA-256'', ''SCRAM-SHA-512'', ''GSSAPI'']"

text \<open>
  \<^verbatim>\<open>authenticate\<close>: the handshake, the choice of the provider (one given by the user goes first), and the
  run of the mechanism.
\<close>

definition choose_provider :: "string \<Rightarrow> 'p option \<Rightarrow> (string \<Rightarrow> 'p) \<Rightarrow> 'p option" where
  "choose_provider mechanism authenticationProvider builtIn =
     (case authenticationProvider of
        Some p \<Rightarrow> Some p
      | None \<Rightarrow> if mechanism \<in> set BUILT_IN_AUTHENTICATION_PROVIDERS then Some (builtIn mechanism) else None)"

definition SASL_authenticate ::
  "(string \<Rightarrow> err + string list) \<Rightarrow> string \<Rightarrow> (unit \<Rightarrow> err + unit) option \<Rightarrow> (string \<Rightarrow> unit \<Rightarrow> err + unit) \<Rightarrow> err + unit" where
  "SASL_authenticate saslHandshake saslMechanism authenticationProvider builtIn =
     (let mechanism = upper saslMechanism
      in rbind (saslHandshake mechanism) (\<lambda>enabledMechanisms.
           if mechanism \<notin> set enabledMechanisms
           then Inl (scram_error (''SASL '' @ mechanism @ '' mechanism is not supported by the server''))
           else case choose_provider mechanism authenticationProvider builtIn of
                  None \<Rightarrow> Inl (native_error ''TypeError'' [])
                | Some authenticate \<Rightarrow> authenticate ()))"

subsection \<open>Properties\<close>

text \<open>What a server reads from a PLAIN message: the three texts between the zero octets.\<close>

lemma js_join_split:
  assumes "list_all (\<lambda>x. case x of None \<Rightarrow> True | Some s \<Rightarrow> c \<notin> set s) xs" "xs \<noteq> []"
  shows "split_on c (js_join [c] xs) = map (\<lambda>x. case x of None \<Rightarrow> [] | Some s \<Rightarrow> s) xs"
  using assms
proof (induction xs)
  case (Cons x xs)
  note IH = Cons.IH and prems = Cons.prems
  then have x: "c \<notin> set (case x of None \<Rightarrow> [] | Some s \<Rightarrow> s)" by (auto split: option.splits)
  show ?case
  proof (cases xs)
    case Nil
    then show ?thesis using x by (simp add: split_on_no)
  next
    case (Cons y ys)
    then show ?thesis using IH prems x by (simp add: split_on_append)
  qed
qed simp

lemma plain_message_split:
  assumes "CHR 0x00 \<notin> set u" "CHR 0x00 \<notin> set p" "\<And>i. authzid = Some i \<Longrightarrow> CHR 0x00 \<notin> set i"
  shows "split_on CHR 0x00 (js_join US_ASCII_NULL_CHAR [authzid, Some u, Some p]) =
    [case authzid of None \<Rightarrow> [] | Some i \<Rightarrow> i, u, p]"
  using js_join_split [of "CHR 0x00" "[authzid, Some u, Some p]"] assms
  by (auto simp: US_ASCII_NULL_CHAR_def split: option.splits)

text \<open>
  The message of a mechanism has its size in front. Versions 0 and 1 of the request write it as it is, and the broker gets the
  message; version 2 puts it into a compact field with the size still inside, and the broker gets four octets too many.
\<close>

lemma sasl_message_delivered:
  assumes "length m + 4 < 2 ^ 30" "version = 0 \<or> version = 1"
  shows "\<exists>bytes. scram_message_encode m = Inr bytes \<and>
    appends (req_encode (auth_request version bytes)) (octets (STRUCT [(Field ''authBytes'', BYTES)]) (WStruct [WBytes (Some (utf8 m))]))"
proof -
  have wf: "wf_value saslAuthenticate_v0_request_layout (WStruct [WBytes (Some (utf8 m))])"
    using assms(1) by (simp add: saslAuthenticate_v0_request_layout_def bytes_ok_def)
  have "conforming_request ''SaslAuthenticate'' version saslAuthenticate_v0_request_layout (WStruct [WBytes (Some (utf8 m))])
      (auth_request version (wire_bytes (Some (utf8 m))))"
    using assms(2) saslAuthenticate_v0_conforming [of "utf8 m"]
      saslAuthenticate_v1_conforming [of "utf8 m", unfolded saslAuthenticate_v1_request_layout_def]
    by (auto simp: auth_request_def)
  then show ?thesis
    using scram_message_encode_eq [OF assms(1)] writesD [OF _ wf]
    unfolding conforming_request_def saslAuthenticate_v0_request_layout_def by blast
qed

lemma sasl_v2_size_inside:
  assumes "length m + 4 < 2 ^ 30"
  shows "\<exists>bytes. scram_message_encode m = Inr bytes \<and>
    appends (req_encode (auth_request 2 bytes))
      (octets (STRUCT [(Skip, TAG_BUFFER), (Field ''authBytes'', COMPACT_BYTES), (Skip, TAG_BUFFER)])
        (WStruct [WTags, WBytes (Some (be_bytes 4 (int (length m)) @ utf8 m)), WTags]))"
proof -
  have wf: "wf_value saslAuthenticate_v2_request_layout
      (WStruct [WTags, WBytes (Some (be_bytes 4 (int (length m)) @ utf8 m)), WTags])"
    using assms by (simp add: saslAuthenticate_v2_request_layout_def bytes_ok_def)
  have "appends (req_encode (saslAuthenticate_v2_request (BBuffer (wire_bytes (Some (utf8 m))))))
      (octets saslAuthenticate_v2_request_layout (WStruct [WTags, WBytes (Some (be_bytes 4 (int (length m)) @ utf8 m)), WTags]))"
    using saslAuthenticate_v2_conforming [of "BBuffer (wire_bytes (Some (utf8 m)))"] writesD [OF _ wf]
    by (simp add: conforming_request_def saslAuthenticate_v2_value_def wire_bytes_def)
  then show ?thesis
    using scram_message_encode_eq [OF assms] by (simp add: auth_request_def saslAuthenticate_v2_request_layout_def)
qed

text \<open>The message of OAUTHBEARER has a quotation mark before the authorisation identity that the documented format does not have.\<close>

lemma oauth_stray_quote:
  "oauth_message (Some ''me'') ''t'' None =
     ''n,'' @ [CHR 0x22] @ ''a=me,'' @ [CHR 0x01] @ ''auth=Bearer t'' @ [CHR 0x01, CHR 0x01]"
  by (simp add: oauth_message_def formatExtensions_def SEPARATOR_def)

text \<open>Without \<^verbatim>\<open>SaslAuthenticate\<close> requests the OAUTHBEARER mechanism fails after the answer of the broker.\<close>

lemma oauth_needs_protocol:
  "fst (saslAuthenticate send sendAuth None (Inr b) \<lparr>sessionLifetime = l, protocolAuthentication = None\<rparr>) =
     Inl (native_error ''TypeError'' [])"
  by (simp add: saslAuthenticate_def)

text \<open>A mechanism that the server does not list is never started.\<close>

lemma sasl_unsupported_mechanism:
  assumes "saslHandshake (upper m) = Inr enabled" "upper m \<notin> set enabled"
  shows "SASL_authenticate saslHandshake m p b = Inl (scram_error (''SASL '' @ upper m @ '' mechanism is not supported by the server''))"
  using assms by (simp add: SASL_authenticate_def)

end
