(* ===== verification/Protocol_Requests.thy ===== *)
theory Protocol_Requests
  imports Connection Requests_Group Requests_Data Requests_Share Produce_Request Sasl
begin

text \<open>
  All requests together: which requests there are, with their layouts, and what a connection sends for one of them
  (\<^verbatim>\<open>src/protocol/request.js\<close> on the requests of \<^verbatim>\<open>src/protocol/requests\<close>).
\<close>

inductive produce_case :: "string \<Rightarrow> int \<Rightarrow> layout \<Rightarrow> wire_value \<Rightarrow> protocol_request \<Rightarrow> bool" where
  "produce_case ''Produce'' 0 produce_v0_request_layout (produce_v0_value acks timeout td) (produce_v0_request acks timeout td)"
| "produce_case ''Produce'' 1 produce_v0_request_layout (produce_v0_value acks timeout td) (produce_v1_request acks timeout td)"
| "produce_case ''Produce'' 2 produce_v0_request_layout (produce_v2_value codecs now acks timeout compression td)
    (produce_v2_request codecs now acks timeout compression td)"
| "produce_case ''Produce'' 3 produce_v3_request_layout (produce_v3_value codecs now acks timeout tid pid epoch compression td')
    (produce_v3_request codecs now acks timeout tid pid epoch compression td')"
| "produce_case ''Produce'' 4 produce_v3_request_layout (produce_v3_value codecs now acks timeout tid pid epoch compression td')
    (produce_v4_request codecs now acks timeout tid pid epoch compression td')"
| "produce_case ''Produce'' 5 produce_v3_request_layout (produce_v3_value codecs now acks timeout tid pid epoch compression td')
    (produce_v5_request codecs now acks timeout tid pid epoch compression td')"
| "produce_case ''Produce'' 6 produce_v3_request_layout (produce_v3_value codecs now acks timeout tid pid epoch compression td')
    (produce_v6_request codecs now acks timeout tid pid epoch compression td')"
| "produce_case ''Produce'' 7 produce_v3_request_layout (produce_v3_value codecs now acks timeout tid pid epoch compression td')
    (produce_v7_request codecs now acks timeout tid pid epoch compression td')"
| "produce_case ''Produce'' 8 produce_v3_request_layout (produce_v3_value codecs now acks timeout tid pid epoch compression td')
    (produce_v8_request codecs now acks timeout tid pid epoch compression td')"
| "produce_case ''Produce'' 9 produce_v9_request_layout (produce_v9_value codecs now acks timeout tid pid epoch compression td')
    (produce_v9_request codecs now acks timeout tid pid epoch compression td')"

lemma produce_case_conforming: "produce_case api v t w r \<Longrightarrow> conforming_request api v t w r"
  by (induction rule: produce_case.induct) (rule request_specs)+

definition known_request :: "string \<Rightarrow> int \<Rightarrow> layout \<Rightarrow> wire_value \<Rightarrow> protocol_request \<Rightarrow> bool" where
  "known_request api v t w r \<longleftrightarrow>
     produce_case api v t w r \<or> group_request api v t w r \<or> data_request api v t w r \<or> admin_request api v t w r \<or>
     share_request api v t w r"

lemma known_request_conforming: "known_request api v t w r \<Longrightarrow> conforming_request api v t w r"
  using produce_case_conforming group_request_conforming data_request_conforming admin_request_conforming
    share_request_conforming by (auto simp: known_request_def)

lemma api_keys_range: "list_all (\<lambda>x. int_range 16 (snd x)) apiKeys"
  by (simp add: apiKeys_def)

lemma api_key_range: "api \<in> fst ` set apiKeys \<Longrightarrow> int_range 16 (api_key api)"
  using api_keys_range map_of_SomeD [of apiKeys api] unfolding api_key_def list_all_iff
  by (metis map_of_eq_None_iff option.collapse snd_conv)

lemma produce_case_version: "produce_case api v t w r \<Longrightarrow> int_range 16 v"
  by (induction rule: produce_case.induct) simp_all

lemma share_request_version: "share_request api v t w r \<Longrightarrow> int_range 16 v"
  by (induction rule: share_request.induct) simp_all

lemma group_request_version: "group_request api v t w r \<Longrightarrow> int_range 16 v"
  by (induction rule: group_request.induct) simp_all

lemma data_request_version: "data_request api v t w r \<Longrightarrow> int_range 16 v"
  by (induction rule: data_request.induct) simp_all

lemma admin_request_version: "admin_request api v t w r \<Longrightarrow> int_range 16 v"
  by (induction rule: admin_request.induct) simp_all

lemma known_version_range:
  assumes "known_request api v t w r"
  shows "int_range 16 v"
  using assms unfolding known_request_def
  by (elim disjE) (erule produce_case_version group_request_version data_request_version admin_request_version share_request_version)+

subsection \<open>What is sent\<close>

definition frame :: "int \<Rightarrow> string option \<Rightarrow> protocol_request \<Rightarrow> encoder result" where
  "frame cid client r = createRequest cid client (req_apiKey r) (req_apiVersion r) (rbind new_Encoder (req_encode r))"

lemma sent_as_documented:
  assumes "known_request api v t w r" "wf_value t w" "api \<in> fst ` set apiKeys" "int_range 32 cid" "string_ok 32768 client"
    "length (request_body cid client (api_key api) v (octets t w)) + 4 < 2 ^ 30"
  shows "\<exists>e. frame cid client r = Inr e \<and>
    Encoder_buffer e =
      be_bytes 4 (int (length (request_body cid client (api_key api) v (octets t w)))) @
      request_body cid client (api_key api) v (octets t w)"
proof -
  have r: "req_apiKey r = api_key api" "req_apiVersion r = v" "appends (req_encode r) (octets t w)"
    using known_request_conforming [OF assms(1)] writesD [OF _ assms(2)] by (auto simp: conforming_request_def)
  have "length (octets t w) < 2 ^ 30" using assms(6) by (simp add: request_body_def)
  then obtain p where "rbind new_Encoder (req_encode r) = Inr p" "Encoder_buffer p = octets t w"
    using appends_new_Encoder [OF r(3)] by blast
  then show ?thesis
    using request_frame_format [OF api_key_range [OF assms(3)] known_version_range [OF assms(1)] assms(4,5), of p] assms(6) r(1,2)
    by (simp add: frame_def)
qed

text \<open>For every request of the protocol, in every implemented version, the octets that a connection sends are the size, the key
  of the API, the version, the correlation id, the client id, and then exactly the octets of the documented layout for
  the arguments of the request, wherever these have a value in the layout (numbers in range, texts and arrays not too long).\<close>

theorem requests_sent_as_documented:
  assumes "known_request api v t w r" "wf_value t w" "api \<in> fst ` set apiKeys" "int_range 32 cid" "string_ok 32768 client"
    "length (request_body cid client (api_key api) v (octets t w)) + 4 < 2 ^ 30"
  shows "\<exists>e. frame cid client r = Inr e \<and>
    Encoder_buffer e =
      be_bytes 4 (int (length (request_body cid client (api_key api) v (octets t w)))) @
      request_body cid client (api_key api) v (octets t w)"
  using assms by (rule sent_as_documented)

theorem requests_sent_as_documented_witness:
  "\<exists>e. frame 7 (Some ''me'') (heartbeat_v0_request (Some ''g'') 3 (Some ''m'')) = Inr e \<and>
    Encoder_buffer e =
      be_bytes 4 22 @ request_body 7 (Some ''me'') (api_key ''Heartbeat'') 0
        (octets heartbeat_v0_request_layout (heartbeat_v0_value (Some ''g'') 3 (Some ''m'')))"
proof -
  let ?w = "heartbeat_v0_value (Some ''g'') 3 (Some ''m'')"
  have "known_request ''Heartbeat'' 0 heartbeat_v0_request_layout ?w (heartbeat_v0_request (Some ''g'') 3 (Some ''m''))"
    by (simp add: known_request_def group_request.intros)
  moreover have "''Heartbeat'' \<in> fst ` set apiKeys" by (simp add: apiKeys_def)
  moreover have "wf_value heartbeat_v0_request_layout ?w"
    by (simp add: heartbeat_v0_request_layout_def heartbeat_v0_value_def string_ok_def)
  moreover have len: "length (request_body 7 (Some ''me'') (api_key ''Heartbeat'') 0 (octets heartbeat_v0_request_layout ?w)) = 22"
    by (simp add: request_body_def heartbeat_v0_request_layout_def heartbeat_v0_value_def parts_of_def wire_string_def str_of_def)
  ultimately show ?thesis
    using requests_sent_as_documented [of "''Heartbeat''" 0 heartbeat_v0_request_layout ?w _ 7 "Some ''me''"]
    by (simp add: string_ok_def)
qed

end
