(* ===== verification/Request_Versions.thy ===== *)
theory Request_Versions
  imports Protocol_Requests Response_Parse
begin

text \<open>
  Which versions of a request there are, and which one is used: the tables \<^verbatim>\<open>versions\<close> of the files
  \<^verbatim>\<open>src/protocol/requests/*/index.js\<close> and \<^verbatim>\<open>lookup\<close> of \<^verbatim>\<open>src/protocol/requests/index.js\<close>. An entry of a table,
  applied to the arguments of the request, is an exchange: the request with the functions that decode
  and check its response. A table is given applied to the arguments; an argument with a default value in the source is optional.
  What a version does not write is dropped here by a projection. How messages are decoded, the clock, the
  compression codecs and the comparison of strings are arguments.
\<close>

record exchange =
  ex_request :: protocol_request
  ex_decode :: "jv reader"
  ex_parse :: parser
  ex_requestTimeout :: "int option"
  ex_logResponseError :: "bool option"

definition exchange_of :: "protocol_request \<Rightarrow> jv reader \<Rightarrow> parser \<Rightarrow> exchange" where
  "exchange_of r d p = \<lparr>ex_request = r, ex_decode = d, ex_parse = p, ex_requestTimeout = None, ex_logResponseError = None\<rparr>"

type_synonym definitions = "(int \<times> exchange) list"

definition COORDINATOR_TYPE_GROUP :: int where "COORDINATOR_TYPE_GROUP = 0"
definition COORDINATOR_TYPE_TRANSACTION :: int where "COORDINATOR_TYPE_TRANSACTION = 1"

subsection \<open>Arguments\<close>

definition per_topic :: "('p \<Rightarrow> 'q) \<Rightarrow> (string option \<times> 'p list) list \<Rightarrow> (string option \<times> 'q list) list" where
  "per_topic f = map (\<lambda>(topic, partitions). (topic, map f partitions))"

record fetch_partition =
  fp_partition :: int
  fp_currentLeaderEpoch :: "int option"
  fp_fetchOffset :: int
  fp_lastFetchedEpoch :: "int option"
  fp_logStartOffset :: "int option"
  fp_maxBytes :: int

definition fetch_partition_v0 :: "fetch_partition \<Rightarrow> _" where
  "fetch_partition_v0 p = (fp_partition p, fp_fetchOffset p, fp_maxBytes p)"
definition fetch_partition_v5 :: "fetch_partition \<Rightarrow> _" where
  "fetch_partition_v5 p = (fp_partition p, fp_fetchOffset p, fp_logStartOffset p, fp_maxBytes p)"
definition fetch_partition_v9 :: "fetch_partition \<Rightarrow> _" where
  "fetch_partition_v9 p = (fp_partition p, fp_currentLeaderEpoch p, fp_fetchOffset p, fp_logStartOffset p, fp_maxBytes p)"
definition fetch_partition_v12 :: "fetch_partition \<Rightarrow> _" where
  "fetch_partition_v12 p =
     (fp_partition p, fp_currentLeaderEpoch p, fp_fetchOffset p, fp_lastFetchedEpoch p, fp_logStartOffset p, fp_maxBytes p)"

record offset_query =
  oq_partition :: int
  oq_currentLeaderEpoch :: "int option"
  oq_timestamp :: "int option"
  oq_maxNumOffsets :: "int option"

definition offset_query_v0 :: "offset_query \<Rightarrow> _" where "offset_query_v0 q = (oq_partition q, oq_timestamp q, oq_maxNumOffsets q)"
definition offset_query_v1 :: "offset_query \<Rightarrow> _" where "offset_query_v1 q = (oq_partition q, oq_timestamp q)"
definition offset_query_v4 :: "offset_query \<Rightarrow> _" where "offset_query_v4 q = (oq_partition q, oq_currentLeaderEpoch q, oq_timestamp q)"

record offset_commit =
  oc_partition :: int
  oc_offset :: int
  oc_timestamp :: "int option"
  oc_committedLeaderEpoch :: "int option"
  oc_metadata :: "string option"

definition offset_commit_v0 :: "offset_commit \<Rightarrow> _" where "offset_commit_v0 c = (oc_partition c, oc_offset c, oc_metadata c)"
definition offset_commit_v1 :: "offset_commit \<Rightarrow> _" where "offset_commit_v1 c = (oc_partition c, oc_offset c, oc_timestamp c, oc_metadata c)"
definition offset_commit_v7 :: "offset_commit \<Rightarrow> _" where
  "offset_commit_v7 c = (oc_partition c, oc_offset c, oc_committedLeaderEpoch c, oc_metadata c)"

record acl_entry =
  acl_resourceType :: int
  acl_resourceName :: "string option"
  acl_resourcePatternType :: int
  acl_principal :: "string option"
  acl_host :: "string option"
  acl_operation :: int
  acl_permissionType :: int

definition acl_v0 :: "acl_entry \<Rightarrow> _" where
  "acl_v0 a = (acl_resourceType a, acl_resourceName a, acl_principal a, acl_host a, acl_operation a, acl_permissionType a)"
definition acl_v1 :: "acl_entry \<Rightarrow> _" where
  "acl_v1 a = (acl_resourceType a, acl_resourceName a, acl_resourcePatternType a, acl_principal a, acl_host a, acl_operation a,
     acl_permissionType a)"

text \<open>The error of a deletion of records names the offsets that were requested for the first topic.\<close>

definition requested_partitions :: "(string option \<times> (int \<times> int) list) list \<Rightarrow> int list" where
  "requested_partitions topics = (case topics of [] \<Rightarrow> [] | (_, ps) # _ \<Rightarrow> map fst ps)"

subsection \<open>Timeouts\<close>

definition isSafeInteger :: "int \<Rightarrow> bool" where
  "isSafeInteger n \<longleftrightarrow> \<bar>n\<bar> \<le> 2 ^ 53 - 1"

text \<open>A request that may block on the server is given more time than it can take there.\<close>

definition fetch_requestTimeout :: "int \<Rightarrow> int" where
  "fetch_requestTimeout timeout = (if isSafeInteger (timeout + 100) then timeout + 100 else timeout)"

definition joinGroup_requestTimeout :: "int option \<Rightarrow> int \<Rightarrow> int" where
  "joinGroup_requestTimeout rebalanceTimeout sessionTimeout =
     (let timeout = (case rebalanceTimeout of None \<Rightarrow> sessionTimeout | Some t \<Rightarrow> if t = 0 then sessionTimeout else t)
      in if isSafeInteger (timeout + 5000) then timeout + 5000 else timeout)"

definition joinGroup_logResponseError :: "string option \<Rightarrow> bool" where
  "joinGroup_logResponseError memberId \<longleftrightarrow> memberId \<noteq> None \<and> memberId \<noteq> Some []"

subsection \<open>The tables\<close>

definition addOffsetsToTxn_versions where
  "addOffsetsToTxn_versions transactionalId producerId' producerEpoch' groupId =
     ([(0, exchange_of (addOffsetsToTxn_v0_request transactionalId producerId' producerEpoch' groupId) addOffsetsToTxn_v0_decode addOffsetsToTxn_v0_parse),
      (1, exchange_of (addOffsetsToTxn_v1_request transactionalId producerId' producerEpoch' groupId) addOffsetsToTxn_v1_decode addOffsetsToTxn_v1_parse)] :: definitions)"

definition addPartitionsToTxn_versions where
  "addPartitionsToTxn_versions transactionalId producerId' producerEpoch' topics =
     ([(0, exchange_of (addPartitionsToTxn_v0_request transactionalId producerId' producerEpoch' topics) addPartitionsToTxn_v0_decode addPartitionsToTxn_v0_parse),
      (1, exchange_of (addPartitionsToTxn_v1_request transactionalId producerId' producerEpoch' topics) addPartitionsToTxn_v1_decode addPartitionsToTxn_v1_parse)] :: definitions)"

definition addRaftVoter_versions where
  "addRaftVoter_versions clusterId timeoutMs voterId voterDirectoryId listeners =
     ([(0, exchange_of (addRaftVoter_v0_request clusterId timeoutMs voterId voterDirectoryId listeners) addRaftVoter_v0_decode addRaftVoter_v0_parse)] :: definitions)"

definition alterConfigs_versions where
  "alterConfigs_versions resources validateOnly =
     ([(0, exchange_of (alterConfigs_v0_request resources validateOnly) alterConfigs_v0_decode alterConfigs_v0_parse),
      (1, exchange_of (alterConfigs_v1_request resources validateOnly) alterConfigs_v1_decode alterConfigs_v1_parse),
      (2, exchange_of (alterConfigs_v2_request resources validateOnly) alterConfigs_v2_decode alterConfigs_v2_parse)] :: definitions)"

definition alterPartitionReassignments_versions where
  "alterPartitionReassignments_versions topics timeout =
     ([(0, exchange_of (alterPartitionReassignments_v0_request topics timeout) alterPartitionReassignments_v0_decode alterPartitionReassignments_v0_parse)] :: definitions)"

definition apiVersions_versions where
  "apiVersions_versions clientSoftwareName clientSoftwareVersion =
     ([(0, (exchange_of apiVersions_v0_request apiVersions_v0_decode apiVersions_v0_parse)\<lparr>ex_logResponseError := Some True\<rparr>),
      (1, (exchange_of apiVersions_v1_request apiVersions_v1_decode apiVersions_v1_parse)\<lparr>ex_logResponseError := Some False\<rparr>),
      (2, (exchange_of apiVersions_v2_request apiVersions_v2_decode apiVersions_v2_parse)\<lparr>ex_logResponseError := Some False\<rparr>),
      (3, (exchange_of (apiVersions_v3_request clientSoftwareName clientSoftwareVersion) apiVersions_v3_decode apiVersions_v3_parse)\<lparr>ex_logResponseError := Some False\<rparr>)] :: definitions)"

definition createAcls_versions where
  "createAcls_versions creations =
     ([(0, exchange_of (createAcls_v0_request (map acl_v0 creations)) createAcls_v0_decode createAcls_v0_parse),
      (1, exchange_of (createAcls_v1_request (map acl_v1 creations)) createAcls_v1_decode createAcls_v1_parse)] :: definitions)"

definition createPartitions_versions where
  "createPartitions_versions localeCompare topicPartitions timeout validateOnly =
     ([(0, exchange_of (createPartitions_v0_request topicPartitions validateOnly timeout) (createPartitions_v0_decode localeCompare) createPartitions_v0_parse),
      (1, exchange_of (createPartitions_v1_request topicPartitions validateOnly timeout) (createPartitions_v1_decode localeCompare) createPartitions_v1_parse)] :: definitions)"

definition createTopics_versions where
  "createTopics_versions localeCompare topics timeout validateOnly =
     ([(0, exchange_of (createTopics_v0_request topics timeout) (createTopics_v0_decode localeCompare) createTopics_v0_parse),
      (1, exchange_of (createTopics_v1_request topics validateOnly timeout) (createTopics_v1_decode localeCompare) createTopics_v1_parse),
      (2, exchange_of (createTopics_v2_request topics validateOnly timeout) (createTopics_v2_decode localeCompare) createTopics_v2_parse),
      (3, exchange_of (createTopics_v3_request topics validateOnly timeout) (createTopics_v3_decode localeCompare) createTopics_v3_parse),
      (5, exchange_of (createTopics_v5_request topics validateOnly timeout) (createTopics_v5_decode localeCompare) createTopics_v5_parse)] :: definitions)"

definition deleteAcls_versions where
  "deleteAcls_versions filters =
     ([(0, exchange_of (deleteAcls_v0_request (map acl_v0 filters)) deleteAcls_v0_decode deleteAcls_v0_parse),
      (1, exchange_of (deleteAcls_v1_request (map acl_v1 filters)) deleteAcls_v1_decode deleteAcls_v1_parse)] :: definitions)"

definition deleteGroups_versions where
  "deleteGroups_versions groupIds =
     ([(0, exchange_of (deleteGroups_v0_request groupIds) deleteGroups_v0_decode deleteGroups_v0_parse),
      (1, exchange_of (deleteGroups_v1_request groupIds) deleteGroups_v1_decode deleteGroups_v1_parse),
      (2, exchange_of (deleteGroups_v2_request groupIds) deleteGroups_v2_decode deleteGroups_v2_parse)] :: definitions)"

definition deleteRecords_versions where
  "deleteRecords_versions localeCompare topics timeout =
     ([(0, exchange_of (deleteRecords_v0_request topics timeout) (deleteRecords_v0_decode localeCompare) (deleteRecords_v0_parse (requested_partitions topics))),
      (1, exchange_of (deleteRecords_v1_request topics timeout) (deleteRecords_v1_decode localeCompare) (deleteRecords_v1_parse (requested_partitions topics)))] :: definitions)"

definition deleteTopics_versions where
  "deleteTopics_versions localeCompare topics timeout =
     ([(0, exchange_of (deleteTopics_v0_request topics timeout) (deleteTopics_v0_decode localeCompare) deleteTopics_v0_parse),
      (1, exchange_of (deleteTopics_v1_request topics timeout) (deleteTopics_v1_decode localeCompare) deleteTopics_v1_parse),
      (4, exchange_of (deleteTopics_v4_request (map Some topics) timeout) (deleteTopics_v4_decode localeCompare) deleteTopics_v4_parse)] :: definitions)"

definition describeAcls_versions where
  "describeAcls_versions resourceType resourceName principal' host operation permissionType resourcePatternType =
     ([(0, exchange_of (describeAcls_v0_request resourceType resourceName principal' host operation permissionType) describeAcls_v0_decode describeAcls_v0_parse),
      (1, exchange_of (describeAcls_v1_request resourceType resourceName resourcePatternType principal' host operation permissionType) describeAcls_v1_decode describeAcls_v1_parse)] :: definitions)"

definition describeCluster_versions where
  "describeCluster_versions includeClusterAuthorizedOperations endpointType =
     ([(0, exchange_of (describeCluster_v0_request includeClusterAuthorizedOperations) describeCluster_v0_decode describeCluster_v0_parse),
      (1, exchange_of (describeCluster_v1_request includeClusterAuthorizedOperations endpointType) describeCluster_v1_decode describeCluster_v1_parse)] :: definitions)"

definition describeConfigs_versions where
  "describeConfigs_versions resources includeSynonyms includeDocumentation =
     ([(0, exchange_of (describeConfigs_v0_request resources) describeConfigs_v0_decode describeConfigs_v0_parse),
      (1, exchange_of (describeConfigs_v1_request resources includeSynonyms) describeConfigs_v1_decode describeConfigs_v1_parse),
      (2, exchange_of (describeConfigs_v2_request resources includeSynonyms) describeConfigs_v2_decode describeConfigs_v2_parse),
      (4, exchange_of (describeConfigs_v4_request (map (\<lambda>(type, name, configNames). (type, name, map_option (map Some) configNames)) resources) includeSynonyms includeDocumentation) describeConfigs_v4_decode describeConfigs_v4_parse)] :: definitions)"

definition describeGroups_versions where
  "describeGroups_versions groupIds =
     ([(0, exchange_of (describeGroups_v0_request groupIds) describeGroups_v0_decode describeGroups_v0_parse),
      (1, exchange_of (describeGroups_v1_request groupIds) describeGroups_v1_decode describeGroups_v1_parse),
      (2, exchange_of (describeGroups_v2_request groupIds) describeGroups_v2_decode describeGroups_v2_parse),
      (5, exchange_of (describeGroups_v5_request (map Some groupIds) None) describeGroups_v5_decode describeGroups_v5_parse)] :: definitions)"

definition describeLogDirs_versions where
  "describeLogDirs_versions topics =
     ([(0, exchange_of (describeLogDirs_v0_request topics) describeLogDirs_v0_decode describeLogDirs_v0_parse),
      (2, exchange_of (describeLogDirs_v2_request topics) describeLogDirs_v2_decode describeLogDirs_v2_parse)] :: definitions)"

definition describeProducers_versions where
  "describeProducers_versions topics =
     ([(0, exchange_of (describeProducers_v0_request topics) describeProducers_v0_decode describeProducers_v0_parse)] :: definitions)"

definition describeTransactions_versions where
  "describeTransactions_versions transactionalIds =
     ([(0, exchange_of (describeTransactions_v0_request transactionalIds) describeTransactions_v0_decode describeTransactions_v0_parse)] :: definitions)"

definition electLeaders_versions where
  "electLeaders_versions electionType topicPartitions timeout =
     ([(0, exchange_of (electLeaders_v0_request electionType topicPartitions timeout) electLeaders_v0_decode electLeaders_v0_parse),
      (1, exchange_of (electLeaders_v1_request electionType topicPartitions timeout) electLeaders_v1_decode electLeaders_v1_parse),
      (2, exchange_of (electLeaders_v2_request electionType topicPartitions timeout) electLeaders_v2_decode electLeaders_v2_parse)] :: definitions)"

definition endTxn_versions where
  "endTxn_versions transactionalId producerId' producerEpoch' transactionResult =
     ([(0, exchange_of (endTxn_v0_request transactionalId producerId' producerEpoch' transactionResult) endTxn_v0_decode endTxn_v0_parse),
      (1, exchange_of (endTxn_v1_request transactionalId producerId' producerEpoch' transactionResult) endTxn_v1_decode endTxn_v1_parse)] :: definitions)"

definition fetch_versions where
  "fetch_versions messages0 messages4 messages12 replicaId maxWaitTime minBytes topics maxBytes isolationLevel sessionId sessionEpoch forgottenTopics rackId =
     ([(0, (exchange_of (fetch_v0_request (or_default (- 1) replicaId) maxWaitTime minBytes (per_topic fetch_partition_v0 topics)) (fetch_v0_decode messages0) fetch_v0_parse)\<lparr>ex_requestTimeout := Some (fetch_requestTimeout maxWaitTime)\<rparr>),
      (1, (exchange_of (fetch_v1_request (or_default (- 1) replicaId) maxWaitTime minBytes (per_topic fetch_partition_v0 topics)) (fetch_v1_decode messages0) fetch_v1_parse)\<lparr>ex_requestTimeout := Some (fetch_requestTimeout maxWaitTime)\<rparr>),
      (2, (exchange_of (fetch_v2_request (or_default (- 1) replicaId) maxWaitTime minBytes (per_topic fetch_partition_v0 topics)) (fetch_v2_decode messages0) fetch_v2_parse)\<lparr>ex_requestTimeout := Some (fetch_requestTimeout maxWaitTime)\<rparr>),
      (3, (exchange_of (fetch_v3_request (or_default (- 1) replicaId) maxWaitTime minBytes maxBytes (per_topic fetch_partition_v0 topics)) (fetch_v3_decode messages0) fetch_v3_parse)\<lparr>ex_requestTimeout := Some (fetch_requestTimeout maxWaitTime)\<rparr>),
      (4, (exchange_of (fetch_v4_request (or_default (- 1) replicaId) maxWaitTime minBytes maxBytes (per_topic fetch_partition_v0 topics) (Some (or_default READ_COMMITTED isolationLevel))) (fetch_v4_decode messages4) fetch_v4_parse)\<lparr>ex_requestTimeout := Some (fetch_requestTimeout maxWaitTime)\<rparr>),
      (5, (exchange_of (fetch_v5_request (or_default (- 1) replicaId) maxWaitTime minBytes maxBytes (per_topic fetch_partition_v5 topics) (Some (or_default READ_COMMITTED isolationLevel))) (fetch_v5_decode messages4) fetch_v5_parse)\<lparr>ex_requestTimeout := Some (fetch_requestTimeout maxWaitTime)\<rparr>),
      (6, (exchange_of (fetch_v6_request (or_default (- 1) replicaId) maxWaitTime minBytes maxBytes (per_topic fetch_partition_v5 topics) (Some (or_default READ_COMMITTED isolationLevel))) (fetch_v6_decode messages4) fetch_v6_parse)\<lparr>ex_requestTimeout := Some (fetch_requestTimeout maxWaitTime)\<rparr>),
      (7, (exchange_of (fetch_v7_request (or_default (- 1) replicaId) maxWaitTime minBytes maxBytes (per_topic fetch_partition_v5 topics) (Some (or_default READ_COMMITTED isolationLevel)) (Some (or_default 0 sessionId)) (Some (or_default (- 1) sessionEpoch)) (Some (or_default [] forgottenTopics))) (fetch_v7_decode messages4) fetch_v7_parse)\<lparr>ex_requestTimeout := Some (fetch_requestTimeout maxWaitTime)\<rparr>),
      (8, (exchange_of (fetch_v8_request (or_default (- 1) replicaId) maxWaitTime minBytes maxBytes (per_topic fetch_partition_v5 topics) (Some (or_default READ_COMMITTED isolationLevel)) (Some (or_default 0 sessionId)) (Some (or_default (- 1) sessionEpoch)) (Some (or_default [] forgottenTopics))) (fetch_v8_decode messages4) fetch_v8_parse)\<lparr>ex_requestTimeout := Some (fetch_requestTimeout maxWaitTime)\<rparr>),
      (9, (exchange_of (fetch_v9_request (or_default (- 1) replicaId) maxWaitTime minBytes maxBytes (per_topic fetch_partition_v9 topics) (Some (or_default READ_COMMITTED isolationLevel)) (Some (or_default 0 sessionId)) (Some (or_default (- 1) sessionEpoch)) (Some (or_default [] forgottenTopics))) (fetch_v9_decode messages4) fetch_v9_parse)\<lparr>ex_requestTimeout := Some (fetch_requestTimeout maxWaitTime)\<rparr>),
      (10, (exchange_of (fetch_v10_request (or_default (- 1) replicaId) maxWaitTime minBytes maxBytes (per_topic fetch_partition_v9 topics) (Some (or_default READ_COMMITTED isolationLevel)) (Some (or_default 0 sessionId)) (Some (or_default (- 1) sessionEpoch)) (Some (or_default [] forgottenTopics))) (fetch_v10_decode messages4) fetch_v10_parse)\<lparr>ex_requestTimeout := Some (fetch_requestTimeout maxWaitTime)\<rparr>),
      (11, (exchange_of (fetch_v11_request (or_default (- 1) replicaId) maxWaitTime minBytes maxBytes (per_topic fetch_partition_v9 topics) rackId (Some (or_default READ_COMMITTED isolationLevel)) (Some (or_default 0 sessionId)) (Some (or_default (- 1) sessionEpoch)) (Some (or_default [] forgottenTopics))) (fetch_v11_decode messages4) fetch_v11_parse)\<lparr>ex_requestTimeout := Some (fetch_requestTimeout maxWaitTime)\<rparr>),
      (12, (exchange_of (fetch_v12_request (or_default (- 1) replicaId) maxWaitTime minBytes maxBytes (per_topic fetch_partition_v12 topics) rackId (Some (or_default READ_COMMITTED isolationLevel)) (Some (or_default 0 sessionId)) (Some (or_default (- 1) sessionEpoch)) (Some (or_default [] forgottenTopics))) (fetch_v12_decode messages12) fetch_v12_parse)\<lparr>ex_requestTimeout := Some (fetch_requestTimeout maxWaitTime)\<rparr>)] :: definitions)"

definition findCoordinator_versions where
  "findCoordinator_versions groupId coordinatorType =
     ([(0, exchange_of (findCoordinator_v0_request groupId) findCoordinator_v0_decode findCoordinator_v0_parse),
      (1, exchange_of (findCoordinator_v1_request groupId (or_default COORDINATOR_TYPE_GROUP coordinatorType)) findCoordinator_v1_decode findCoordinator_v1_parse),
      (2, exchange_of (findCoordinator_v2_request groupId (or_default COORDINATOR_TYPE_GROUP coordinatorType)) findCoordinator_v2_decode findCoordinator_v2_parse),
      (3, exchange_of (findCoordinator_v3_request groupId (or_default COORDINATOR_TYPE_GROUP coordinatorType)) findCoordinator_v3_decode findCoordinator_v3_parse)] :: definitions)"

definition heartbeat_versions where
  "heartbeat_versions groupId groupGenerationId memberId groupInstanceId =
     ([(0, exchange_of (heartbeat_v0_request groupId groupGenerationId memberId) heartbeat_v0_decode heartbeat_v0_parse),
      (1, exchange_of (heartbeat_v1_request groupId groupGenerationId memberId) heartbeat_v1_decode heartbeat_v1_parse),
      (2, exchange_of (heartbeat_v2_request groupId groupGenerationId memberId) heartbeat_v2_decode heartbeat_v2_parse),
      (3, exchange_of (heartbeat_v3_request groupId groupGenerationId memberId groupInstanceId) heartbeat_v3_decode heartbeat_v3_parse),
      (4, exchange_of (heartbeat_v4_request groupId groupGenerationId memberId groupInstanceId) heartbeat_v4_decode heartbeat_v4_parse)] :: definitions)"

definition incrementalAlterConfigs_versions where
  "incrementalAlterConfigs_versions resources validateOnly =
     ([(0, exchange_of (incrementalAlterConfigs_v0_request resources validateOnly) incrementalAlterConfigs_v0_decode incrementalAlterConfigs_v0_parse),
      (1, exchange_of (incrementalAlterConfigs_v1_request resources validateOnly) incrementalAlterConfigs_v1_decode incrementalAlterConfigs_v1_parse)] :: definitions)"

definition initProducerId_versions where
  "initProducerId_versions transactionalId transactionTimeout producerId' producerEpoch' =
     ([(0, exchange_of (initProducerId_v0_request transactionalId (or_default 5000 transactionTimeout)) initProducerId_v0_decode initProducerId_v0_parse),
      (1, exchange_of (initProducerId_v1_request transactionalId (or_default 5000 transactionTimeout)) initProducerId_v1_decode initProducerId_v1_parse),
      (2, exchange_of (initProducerId_v2_request transactionalId (or_default 5000 transactionTimeout)) initProducerId_v2_decode initProducerId_v2_parse),
      (3, exchange_of (initProducerId_v3_request transactionalId (or_default 5000 transactionTimeout) (or_default (- 1) producerId') (or_default (- 1) producerEpoch')) initProducerId_v3_decode initProducerId_v3_parse)] :: definitions)"

definition joinGroup_versions where
  "joinGroup_versions groupId sessionTimeout memberId protocolType groupProtocols rebalanceTimeout groupInstanceId =
     ([(0, (exchange_of (joinGroup_v0_request groupId sessionTimeout memberId protocolType groupProtocols) joinGroup_v0_decode joinGroup_v0_parse)\<lparr>ex_requestTimeout := Some (joinGroup_requestTimeout None sessionTimeout)\<rparr>),
      (1, (exchange_of (joinGroup_v1_request groupId sessionTimeout rebalanceTimeout memberId protocolType groupProtocols) joinGroup_v1_decode joinGroup_v1_parse)\<lparr>ex_requestTimeout := Some (joinGroup_requestTimeout (Some rebalanceTimeout) sessionTimeout)\<rparr>),
      (2, (exchange_of (joinGroup_v2_request groupId sessionTimeout rebalanceTimeout memberId protocolType groupProtocols) joinGroup_v2_decode joinGroup_v2_parse)\<lparr>ex_requestTimeout := Some (joinGroup_requestTimeout (Some rebalanceTimeout) sessionTimeout)\<rparr>),
      (3, (exchange_of (joinGroup_v3_request groupId sessionTimeout rebalanceTimeout memberId protocolType groupProtocols) joinGroup_v3_decode joinGroup_v3_parse)\<lparr>ex_requestTimeout := Some (joinGroup_requestTimeout (Some rebalanceTimeout) sessionTimeout)\<rparr>),
      (4, (exchange_of (joinGroup_v4_request groupId sessionTimeout rebalanceTimeout memberId protocolType groupProtocols) joinGroup_v4_decode joinGroup_v4_parse)\<lparr>ex_requestTimeout := Some (joinGroup_requestTimeout (Some rebalanceTimeout) sessionTimeout), ex_logResponseError := Some (joinGroup_logResponseError memberId)\<rparr>),
      (5, (exchange_of (joinGroup_v5_request groupId sessionTimeout rebalanceTimeout memberId groupInstanceId protocolType groupProtocols) joinGroup_v5_decode joinGroup_v5_parse)\<lparr>ex_requestTimeout := Some (joinGroup_requestTimeout (Some rebalanceTimeout) sessionTimeout), ex_logResponseError := Some (joinGroup_logResponseError memberId)\<rparr>),
      (6, (exchange_of (joinGroup_v6_request groupId sessionTimeout rebalanceTimeout memberId groupInstanceId protocolType groupProtocols) joinGroup_v6_decode joinGroup_v6_parse)\<lparr>ex_requestTimeout := Some (joinGroup_requestTimeout (Some rebalanceTimeout) sessionTimeout), ex_logResponseError := Some (joinGroup_logResponseError memberId)\<rparr>)] :: definitions)"

definition leaveGroup_versions where
  "leaveGroup_versions groupId memberId groupInstanceId =
     ([(0, exchange_of (leaveGroup_v0_request groupId memberId) leaveGroup_v0_decode leaveGroup_v0_parse),
      (1, exchange_of (leaveGroup_v1_request groupId memberId) leaveGroup_v1_decode leaveGroup_v1_parse),
      (2, exchange_of (leaveGroup_v2_request groupId memberId) leaveGroup_v2_decode leaveGroup_v2_parse),
      (3, exchange_of (leaveGroup_v3_request groupId [(memberId, groupInstanceId)]) leaveGroup_v3_decode leaveGroup_v3_parse),
      (4, exchange_of (leaveGroup_v4_request groupId [(memberId, groupInstanceId)]) leaveGroup_v4_decode leaveGroup_v4_parse)] :: definitions)"

definition listGroups_versions where
  "listGroups_versions statesFilter =
     ([(0, exchange_of listGroups_v0_request listGroups_v0_decode listGroups_v0_parse),
      (1, exchange_of listGroups_v1_request listGroups_v1_decode listGroups_v1_parse),
      (2, exchange_of listGroups_v2_request listGroups_v2_decode listGroups_v2_parse),
      (4, exchange_of (listGroups_v4_request statesFilter) listGroups_v4_decode listGroups_v4_parse)] :: definitions)"

definition listOffsets_versions where
  "listOffsets_versions replicaId topics isolationLevel =
     ([(0, exchange_of (listOffsets_v0_request (or_default (- 1) replicaId) (per_topic offset_query_v0 topics)) listOffsets_v0_decode listOffsets_v0_parse),
      (1, exchange_of (listOffsets_v1_request (or_default (- 1) replicaId) (per_topic offset_query_v1 topics)) listOffsets_v1_decode listOffsets_v1_parse),
      (2, exchange_of (listOffsets_v2_request (or_default (- 1) replicaId) (or_default READ_COMMITTED isolationLevel) (per_topic offset_query_v1 topics)) listOffsets_v2_decode listOffsets_v2_parse),
      (3, exchange_of (listOffsets_v3_request (or_default (- 1) replicaId) (or_default READ_COMMITTED isolationLevel) (per_topic offset_query_v1 topics)) listOffsets_v3_decode listOffsets_v3_parse),
      (4, exchange_of (listOffsets_v4_request (or_default (- 1) replicaId) (or_default READ_COMMITTED isolationLevel) (per_topic offset_query_v4 topics)) listOffsets_v4_decode listOffsets_v4_parse)] :: definitions)"

definition listPartitionReassignments_versions where
  "listPartitionReassignments_versions topics timeout =
     ([(0, exchange_of (listPartitionReassignments_v0_request topics timeout) listPartitionReassignments_v0_decode listPartitionReassignments_v0_parse)] :: definitions)"

definition listTransactions_versions where
  "listTransactions_versions stateFilters producerIdFilters =
     ([(0, exchange_of (listTransactions_v0_request stateFilters producerIdFilters) listTransactions_v0_decode listTransactions_v0_parse)] :: definitions)"

definition metadata_versions where
  "metadata_versions topics allowAutoTopicCreation =
     ([(0, exchange_of (metadata_v0_request topics) metadata_v0_decode metadata_v0_parse),
      (1, exchange_of (metadata_v1_request topics) metadata_v1_decode metadata_v1_parse),
      (2, exchange_of (metadata_v2_request topics) metadata_v2_decode metadata_v2_parse),
      (3, exchange_of (metadata_v3_request topics) metadata_v3_decode metadata_v3_parse),
      (4, exchange_of (metadata_v4_request topics allowAutoTopicCreation) metadata_v4_decode metadata_v4_parse),
      (5, exchange_of (metadata_v5_request topics allowAutoTopicCreation) metadata_v5_decode metadata_v5_parse),
      (6, exchange_of (metadata_v6_request topics allowAutoTopicCreation) metadata_v6_decode metadata_v6_parse),
      (7, exchange_of (metadata_v7_request topics allowAutoTopicCreation) metadata_v7_decode metadata_v7_parse)] :: definitions)"

definition offsetCommit_versions where
  "offsetCommit_versions now groupId topics groupGenerationId memberId retentionTime groupInstanceId =
     ([(0, exchange_of (offsetCommit_v0_request groupId (per_topic offset_commit_v0 topics)) offsetCommit_v0_decode offsetCommit_v0_parse),
      (1, exchange_of (offsetCommit_v1_request now groupId groupGenerationId memberId (per_topic offset_commit_v1 topics)) offsetCommit_v1_decode offsetCommit_v1_parse),
      (2, exchange_of (offsetCommit_v2_request groupId groupGenerationId memberId (or_default (- 1) retentionTime) (per_topic offset_commit_v0 topics)) offsetCommit_v2_decode offsetCommit_v2_parse),
      (3, exchange_of (offsetCommit_v3_request groupId groupGenerationId memberId (or_default (- 1) retentionTime) (per_topic offset_commit_v0 topics)) offsetCommit_v3_decode offsetCommit_v3_parse),
      (4, exchange_of (offsetCommit_v4_request groupId groupGenerationId memberId (or_default (- 1) retentionTime) (per_topic offset_commit_v0 topics)) offsetCommit_v4_decode offsetCommit_v4_parse),
      (5, exchange_of (offsetCommit_v5_request groupId groupGenerationId memberId (per_topic offset_commit_v0 topics)) offsetCommit_v5_decode offsetCommit_v5_parse),
      (6, exchange_of (offsetCommit_v6_request groupId groupGenerationId memberId (per_topic offset_commit_v0 topics)) offsetCommit_v6_decode offsetCommit_v6_parse),
      (7, exchange_of (offsetCommit_v7_request groupId groupGenerationId memberId groupInstanceId (per_topic offset_commit_v7 topics)) offsetCommit_v7_decode offsetCommit_v7_parse)] :: definitions)"

definition offsetDelete_versions where
  "offsetDelete_versions groupId topics =
     ([(0, exchange_of (offsetDelete_v0_request groupId topics) offsetDelete_v0_decode offsetDelete_v0_parse)] :: definitions)"

definition offsetFetch_versions where
  "offsetFetch_versions groupId topics =
     ([(1, exchange_of (offsetFetch_v1_request groupId topics) offsetFetch_v1_decode offsetFetch_v1_parse),
      (2, exchange_of (offsetFetch_v2_request groupId topics) offsetFetch_v2_decode offsetFetch_v2_parse),
      (3, exchange_of (offsetFetch_v3_request groupId topics) offsetFetch_v3_decode offsetFetch_v3_parse),
      (4, exchange_of (offsetFetch_v4_request groupId topics) offsetFetch_v4_decode offsetFetch_v4_parse),
      (5, exchange_of (offsetFetch_v5_request groupId (Some topics)) offsetFetch_v5_decode offsetFetch_v5_parse)] :: definitions)"

definition offsetForLeaderEpoch_versions where
  "offsetForLeaderEpoch_versions topics replicaId =
     ([(0, exchange_of (offsetForLeaderEpoch_v0_request (per_topic (\<lambda>(partition, currentLeaderEpoch, leaderEpoch). (partition, leaderEpoch)) topics)) offsetForLeaderEpoch_v0_decode offsetForLeaderEpoch_v0_parse),
      (2, exchange_of (offsetForLeaderEpoch_v2_request replicaId topics) offsetForLeaderEpoch_v2_decode offsetForLeaderEpoch_v2_parse),
      (3, exchange_of (offsetForLeaderEpoch_v3_request replicaId topics) offsetForLeaderEpoch_v3_decode offsetForLeaderEpoch_v3_parse)] :: definitions)"

definition produce_versions where
  "produce_versions codecs now acks timeout topicData compression transactionalId producerId' producerEpoch' =
     ([(0, exchange_of (produce_v0_request acks timeout (per_topic (\<lambda>(partition, firstSequence, messages). (partition, messages)) topicData)) produce_v0_decode produce_v0_parse),
      (1, exchange_of (produce_v1_request acks timeout (per_topic (\<lambda>(partition, firstSequence, messages). (partition, messages)) topicData)) produce_v1_decode produce_v1_parse),
      (2, exchange_of (produce_v2_request codecs now acks timeout compression (per_topic (\<lambda>(partition, firstSequence, messages). (partition, messages)) topicData)) produce_v2_decode produce_v2_parse),
      (3, exchange_of (produce_v3_request codecs now acks timeout transactionalId producerId' producerEpoch' compression topicData) produce_v3_decode produce_v3_parse),
      (4, exchange_of (produce_v4_request codecs now acks timeout transactionalId producerId' producerEpoch' compression topicData) produce_v4_decode produce_v4_parse),
      (5, exchange_of (produce_v5_request codecs now acks timeout transactionalId producerId' producerEpoch' compression topicData) produce_v5_decode produce_v5_parse),
      (6, exchange_of (produce_v6_request codecs now acks timeout transactionalId producerId' producerEpoch' compression topicData) produce_v6_decode produce_v6_parse),
      (7, exchange_of (produce_v7_request codecs now acks timeout transactionalId producerId' producerEpoch' compression topicData) produce_v7_decode produce_v7_parse),
      (8, exchange_of (produce_v8_request codecs now acks timeout transactionalId producerId' producerEpoch' compression topicData) produce_v8_decode produce_v8_parse),
      (9, exchange_of (produce_v9_request codecs now acks timeout transactionalId producerId' producerEpoch' compression topicData) produce_v9_decode produce_v9_parse)] :: definitions)"

definition readShareGroupStateSummary_versions where
  "readShareGroupStateSummary_versions topics =
     ([(0, exchange_of (readShareGroupStateSummary_v0_request topics) readShareGroupStateSummary_v0_decode readShareGroupStateSummary_v0_parse)] :: definitions)"

definition removeRaftVoter_versions where
  "removeRaftVoter_versions clusterId timeoutMs voterId voterDirectoryId =
     ([(0, exchange_of (removeRaftVoter_v0_request clusterId timeoutMs voterId voterDirectoryId) removeRaftVoter_v0_decode removeRaftVoter_v0_parse)] :: definitions)"

definition saslAuthenticate_versions where
  "saslAuthenticate_versions authBytes =
     ([(0, exchange_of (saslAuthenticate_v0_request authBytes) saslAuthenticate_v0_decode saslAuthenticate_v0_parse),
      (1, exchange_of (saslAuthenticate_v1_request authBytes) saslAuthenticate_v1_decode saslAuthenticate_v1_parse),
      (2, exchange_of (saslAuthenticate_v2_request authBytes) saslAuthenticate_v2_decode saslAuthenticate_v2_parse)] :: definitions)"

definition saslHandshake_versions where
  "saslHandshake_versions mechanism =
     ([(0, exchange_of (saslHandshake_v0_request mechanism) saslHandshake_v0_decode saslHandshake_v0_parse),
      (1, exchange_of (saslHandshake_v1_request mechanism) saslHandshake_v1_decode saslHandshake_v1_parse)] :: definitions)"

definition shareAcknowledge_versions where
  "shareAcknowledge_versions groupId memberId memberEpoch topics =
     ([(0, exchange_of (shareAcknowledge_v0_request groupId memberId memberEpoch topics) shareAcknowledge_v0_decode shareAcknowledge_v0_parse)] :: definitions)"

definition shareFetch_versions where
  "shareFetch_versions groupId memberId memberEpoch maxWaitMs minBytes maxBytes topics forgottenTopicsData =
     ([(0, exchange_of (shareFetch_v0_request groupId memberId memberEpoch maxWaitMs minBytes maxBytes topics forgottenTopicsData) shareFetch_v0_decode shareFetch_v0_parse)] :: definitions)"

definition shareGroupDescribe_versions where
  "shareGroupDescribe_versions groupIds includeAuthorizedOperations =
     ([(0, exchange_of (shareGroupDescribe_v0_request groupIds includeAuthorizedOperations) shareGroupDescribe_v0_decode shareGroupDescribe_v0_parse)] :: definitions)"

definition shareGroupHeartbeat_versions where
  "shareGroupHeartbeat_versions groupId memberId memberEpoch rackId subscribedTopicNames topicPartitions =
     ([(0, exchange_of (shareGroupHeartbeat_v0_request groupId memberId memberEpoch rackId subscribedTopicNames topicPartitions) shareGroupHeartbeat_v0_decode shareGroupHeartbeat_v0_parse)] :: definitions)"

definition syncGroup_versions where
  "syncGroup_versions groupId generationId memberId groupAssignment groupInstanceId =
     ([(0, exchange_of (syncGroup_v0_request groupId generationId memberId groupAssignment) syncGroup_v0_decode syncGroup_v0_parse),
      (1, exchange_of (syncGroup_v1_request groupId generationId memberId groupAssignment) syncGroup_v1_decode syncGroup_v1_parse),
      (2, exchange_of (syncGroup_v2_request groupId generationId memberId groupAssignment) syncGroup_v2_decode syncGroup_v2_parse),
      (3, exchange_of (syncGroup_v3_request groupId generationId memberId groupInstanceId groupAssignment) syncGroup_v3_decode syncGroup_v3_parse),
      (4, exchange_of (syncGroup_v4_request groupId generationId memberId groupInstanceId groupAssignment) syncGroup_v4_decode syncGroup_v4_parse)] :: definitions)"

definition txnOffsetCommit_versions where
  "txnOffsetCommit_versions transactionalId groupId producerId' producerEpoch' topics =
     ([(0, exchange_of (txnOffsetCommit_v0_request transactionalId groupId producerId' producerEpoch' topics) txnOffsetCommit_v0_decode txnOffsetCommit_v0_parse),
      (1, exchange_of (txnOffsetCommit_v1_request transactionalId groupId producerId' producerEpoch' topics) txnOffsetCommit_v1_decode txnOffsetCommit_v1_parse)] :: definitions)"

definition updateRaftVoter_versions where
  "updateRaftVoter_versions clusterId currentLeaderEpoch voterId voterDirectoryId listeners kRaftVersionFeature =
     ([(0, exchange_of (updateRaftVoter_v0_request clusterId currentLeaderEpoch voterId voterDirectoryId listeners kRaftVersionFeature) updateRaftVoter_v0_decode updateRaftVoter_v0_parse)] :: definitions)"

subsection \<open>Looking up the version to use\<close>

text \<open>
  \<^verbatim>\<open>lookup\<close> takes the smaller one of the best version implemented here and the best version of the server. The
  entry for it may be missing from the table; the result is \<^verbatim>\<open>undefined\<close> then. The lowest version of the server
  is not looked at.
\<close>

definition findApiName :: "int \<Rightarrow> string option" where
  "findApiName apiKey = map_option fst (find (\<lambda>(_, k). k = apiKey) apiKeys)"

definition bestImplementedVersion :: "definitions \<Rightarrow> int" where
  "bestImplementedVersion definition = foldr (max \<circ> fst) (tl definition) (fst (hd definition))"

type_synonym server_versions = "(int \<times> int \<times> int) list" \<comment> \<open>\<open>apiKey\<close>, \<open>minVersion\<close>, \<open>maxVersion\<close>\<close>

definition lookup :: "server_versions \<Rightarrow> int \<Rightarrow> definitions \<Rightarrow> err + exchange option" where
  "lookup versions apiKey definition =
     (case map_of versions apiKey of
        None \<Rightarrow> Inl (new_KafkaJSServerDoesNotSupportApiKey
                      (Text ''The Kafka server does not support the requested API version'') apiKey
                      (case findApiName apiKey of None \<Rightarrow> ''undefined'' | Some name \<Rightarrow> name))
      | Some (minVersion, maxVersion) \<Rightarrow>
          Inr (map_of definition (min (bestImplementedVersion definition) maxVersion)))"

subsection \<open>Every version of every table is documented\<close>

definition documented :: "string \<Rightarrow> definitions \<Rightarrow> bool" where
  "documented api tbl \<longleftrightarrow> tbl \<noteq> [] \<and> list_all (\<lambda>(v, ex). \<exists>t w. known_request api v t w (ex_request ex)) tbl"

text \<open>
  The tables with their arguments. The one of \<^verbatim>\<open>SaslAuthenticate\<close> is not among them, since the octets it is given
  are framed by its callers (\<open>Sasl\<close>).
\<close>

inductive request_table :: "string \<Rightarrow> definitions \<Rightarrow> bool" where
  "request_table ''AddOffsetsToTxn'' (addOffsetsToTxn_versions transactionalId producerId' producerEpoch' groupId)"
| "request_table ''AddPartitionsToTxn'' (addPartitionsToTxn_versions transactionalId producerId' producerEpoch' topics)"
| "request_table ''AddRaftVoter'' (addRaftVoter_versions clusterId timeoutMs voterId voterDirectoryId listeners)"
| "request_table ''AlterConfigs'' (alterConfigs_versions resources validateOnly)"
| "request_table ''AlterPartitionReassignments'' (alterPartitionReassignments_versions topics timeout)"
| "request_table ''ApiVersions'' (apiVersions_versions clientSoftwareName clientSoftwareVersion)"
| "request_table ''CreateAcls'' (createAcls_versions creations)"
| "request_table ''CreatePartitions'' (createPartitions_versions localeCompare topicPartitions timeout validateOnly)"
| "request_table ''CreateTopics'' (createTopics_versions localeCompare topics timeout validateOnly)"
| "request_table ''DeleteAcls'' (deleteAcls_versions filters)"
| "request_table ''DeleteGroups'' (deleteGroups_versions groupIds)"
| "request_table ''DeleteRecords'' (deleteRecords_versions localeCompare topics timeout)"
| "request_table ''DeleteTopics'' (deleteTopics_versions localeCompare topics timeout)"
| "request_table ''DescribeAcls'' (describeAcls_versions resourceType resourceName principal' host operation permissionType resourcePatternType)"
| "request_table ''DescribeCluster'' (describeCluster_versions includeClusterAuthorizedOperations endpointType)"
| "request_table ''DescribeConfigs'' (describeConfigs_versions resources includeSynonyms includeDocumentation)"
| "request_table ''DescribeGroups'' (describeGroups_versions groupIds)"
| "request_table ''DescribeLogDirs'' (describeLogDirs_versions topics)"
| "request_table ''DescribeProducers'' (describeProducers_versions topics)"
| "request_table ''DescribeTransactions'' (describeTransactions_versions transactionalIds)"
| "request_table ''ElectPreferredLeaders'' (electLeaders_versions electionType topicPartitions timeout)"
| "request_table ''EndTxn'' (endTxn_versions transactionalId producerId' producerEpoch' transactionResult)"
| "request_table ''Fetch'' (fetch_versions messages0 messages4 messages12 replicaId maxWaitTime minBytes topics maxBytes isolationLevel sessionId sessionEpoch forgottenTopics rackId)"
| "request_table ''GroupCoordinator'' (findCoordinator_versions groupId coordinatorType)"
| "request_table ''Heartbeat'' (heartbeat_versions groupId groupGenerationId memberId groupInstanceId)"
| "request_table ''IncrementalAlterConfigs'' (incrementalAlterConfigs_versions resources validateOnly)"
| "request_table ''InitProducerId'' (initProducerId_versions transactionalId transactionTimeout producerId' producerEpoch')"
| "request_table ''JoinGroup'' (joinGroup_versions groupId sessionTimeout memberId protocolType groupProtocols rebalanceTimeout groupInstanceId)"
| "request_table ''LeaveGroup'' (leaveGroup_versions groupId memberId groupInstanceId)"
| "request_table ''ListGroups'' (listGroups_versions statesFilter)"
| "request_table ''ListOffsets'' (listOffsets_versions replicaId topics isolationLevel)"
| "request_table ''ListPartitionReassignments'' (listPartitionReassignments_versions topics timeout)"
| "request_table ''ListTransactions'' (listTransactions_versions stateFilters producerIdFilters)"
| "request_table ''Metadata'' (metadata_versions topics allowAutoTopicCreation)"
| "request_table ''OffsetCommit'' (offsetCommit_versions now groupId topics groupGenerationId memberId retentionTime groupInstanceId)"
| "request_table ''OffsetDelete'' (offsetDelete_versions groupId topics)"
| "request_table ''OffsetFetch'' (offsetFetch_versions groupId topics)"
| "request_table ''OffsetForLeaderEpoch'' (offsetForLeaderEpoch_versions topics replicaId)"
| "request_table ''Produce'' (produce_versions codecs now acks timeout topicData compression transactionalId producerId' producerEpoch')"
| "request_table ''ReadShareGroupStateSummary'' (readShareGroupStateSummary_versions topics)"
| "request_table ''RemoveRaftVoter'' (removeRaftVoter_versions clusterId timeoutMs voterId voterDirectoryId)"
| "request_table ''SaslHandshake'' (saslHandshake_versions mechanism)"
| "request_table ''ShareAcknowledge'' (shareAcknowledge_versions groupId memberId memberEpoch topics)"
| "request_table ''ShareFetch'' (shareFetch_versions groupId memberId memberEpoch maxWaitMs minBytes maxBytes topics forgottenTopicsData)"
| "request_table ''ShareGroupDescribe'' (shareGroupDescribe_versions groupIds includeAuthorizedOperations)"
| "request_table ''ShareGroupHeartbeat'' (shareGroupHeartbeat_versions groupId memberId memberEpoch rackId subscribedTopicNames topicPartitions)"
| "request_table ''SyncGroup'' (syncGroup_versions groupId generationId memberId groupAssignment groupInstanceId)"
| "request_table ''TxnOffsetCommit'' (txnOffsetCommit_versions transactionalId groupId producerId' producerEpoch' topics)"
| "request_table ''UpdateRaftVoter'' (updateRaftVoter_versions clusterId currentLeaderEpoch voterId voterDirectoryId listeners kRaftVersionFeature)"

named_theorems table_specs \<open>the tables of versions hold documented requests\<close>

lemma ex_request_simps [simp]:
  "ex_request (exchange_of r d p) = r" "ex_request (x\<lparr>ex_requestTimeout := a\<rparr>) = ex_request x"
  "ex_request (x\<lparr>ex_logResponseError := b\<rparr>) = ex_request x"
  by (simp_all add: exchange_of_def)

lemma known_cases:
  "produce_case api v t w r \<Longrightarrow> \<exists>t w. known_request api v t w r"
  "group_request api v t w r \<Longrightarrow> \<exists>t w. known_request api v t w r"
  "data_request api v t w r \<Longrightarrow> \<exists>t w. known_request api v t w r"
  "admin_request api v t w r \<Longrightarrow> \<exists>t w. known_request api v t w r"
  "share_request api v t w r \<Longrightarrow> \<exists>t w. known_request api v t w r"
  unfolding known_request_def by blast+

lemma addOffsetsToTxn_table [table_specs]: "documented ''AddOffsetsToTxn'' (addOffsetsToTxn_versions transactionalId producerId' producerEpoch' groupId)"
  unfolding addOffsetsToTxn_versions_def documented_def list.pred_inject prod.case ex_request_simps
  by (intro conjI list.pred_inject(1) list.distinct(2)) (rule known_cases(3), rule data_request.intros)+

lemma addPartitionsToTxn_table [table_specs]: "documented ''AddPartitionsToTxn'' (addPartitionsToTxn_versions transactionalId producerId' producerEpoch' topics)"
  unfolding addPartitionsToTxn_versions_def documented_def list.pred_inject prod.case ex_request_simps
  by (intro conjI list.pred_inject(1) list.distinct(2)) (rule known_cases(3), rule data_request.intros)+

lemma addRaftVoter_table [table_specs]: "documented ''AddRaftVoter'' (addRaftVoter_versions clusterId timeoutMs voterId voterDirectoryId listeners)"
  unfolding addRaftVoter_versions_def documented_def list.pred_inject prod.case ex_request_simps
  by (intro conjI list.pred_inject(1) list.distinct(2)) (rule known_cases(5), rule share_request.intros)+

lemma alterConfigs_table [table_specs]: "documented ''AlterConfigs'' (alterConfigs_versions resources validateOnly)"
  unfolding alterConfigs_versions_def documented_def list.pred_inject prod.case ex_request_simps
  by (intro conjI list.pred_inject(1) list.distinct(2)) (rule known_cases(4), rule admin_request.intros)+

lemma alterPartitionReassignments_table [table_specs]: "documented ''AlterPartitionReassignments'' (alterPartitionReassignments_versions topics timeout)"
  unfolding alterPartitionReassignments_versions_def documented_def list.pred_inject prod.case ex_request_simps
  by (intro conjI list.pred_inject(1) list.distinct(2)) (rule known_cases(4), rule admin_request.intros)+

lemma apiVersions_table [table_specs]: "documented ''ApiVersions'' (apiVersions_versions clientSoftwareName clientSoftwareVersion)"
  unfolding apiVersions_versions_def documented_def list.pred_inject prod.case ex_request_simps
  by (intro conjI list.pred_inject(1) list.distinct(2)) (rule known_cases(3), rule data_request.intros)+

lemma createAcls_table [table_specs]: "documented ''CreateAcls'' (createAcls_versions creations)"
  unfolding createAcls_versions_def documented_def list.pred_inject prod.case ex_request_simps
  by (intro conjI list.pred_inject(1) list.distinct(2)) (rule known_cases(4), rule admin_request.intros)+

lemma createPartitions_table [table_specs]: "documented ''CreatePartitions'' (createPartitions_versions localeCompare topicPartitions timeout validateOnly)"
  unfolding createPartitions_versions_def documented_def list.pred_inject prod.case ex_request_simps
  by (intro conjI list.pred_inject(1) list.distinct(2)) (rule known_cases(4), rule admin_request.intros)+

lemma createTopics_table [table_specs]: "documented ''CreateTopics'' (createTopics_versions localeCompare topics timeout validateOnly)"
  unfolding createTopics_versions_def documented_def list.pred_inject prod.case ex_request_simps
  by (intro conjI list.pred_inject(1) list.distinct(2)) (rule known_cases(4), rule admin_request.intros)+

lemma deleteAcls_table [table_specs]: "documented ''DeleteAcls'' (deleteAcls_versions filters)"
  unfolding deleteAcls_versions_def documented_def list.pred_inject prod.case ex_request_simps
  by (intro conjI list.pred_inject(1) list.distinct(2)) (rule known_cases(4), rule admin_request.intros)+

lemma deleteGroups_table [table_specs]: "documented ''DeleteGroups'' (deleteGroups_versions groupIds)"
  unfolding deleteGroups_versions_def documented_def list.pred_inject prod.case ex_request_simps
  by (intro conjI list.pred_inject(1) list.distinct(2)) (rule known_cases(2), rule group_request.intros)+

lemma deleteRecords_table [table_specs]: "documented ''DeleteRecords'' (deleteRecords_versions localeCompare topics timeout)"
  unfolding deleteRecords_versions_def documented_def list.pred_inject prod.case ex_request_simps
  by (intro conjI list.pred_inject(1) list.distinct(2)) (rule known_cases(4), rule admin_request.intros)+

lemma deleteTopics_table [table_specs]: "documented ''DeleteTopics'' (deleteTopics_versions localeCompare topics timeout)"
  unfolding deleteTopics_versions_def documented_def list.pred_inject prod.case ex_request_simps
  by (intro conjI list.pred_inject(1) list.distinct(2)) (rule known_cases(4), rule admin_request.intros)+

lemma describeAcls_table [table_specs]: "documented ''DescribeAcls'' (describeAcls_versions resourceType resourceName principal' host operation permissionType resourcePatternType)"
  unfolding describeAcls_versions_def documented_def list.pred_inject prod.case ex_request_simps
  by (intro conjI list.pred_inject(1) list.distinct(2)) (rule known_cases(4), rule admin_request.intros)+

lemma describeCluster_table [table_specs]: "documented ''DescribeCluster'' (describeCluster_versions includeClusterAuthorizedOperations endpointType)"
  unfolding describeCluster_versions_def documented_def list.pred_inject prod.case ex_request_simps
  by (intro conjI list.pred_inject(1) list.distinct(2)) (rule known_cases(3), rule data_request.intros)+

lemma describeConfigs_table [table_specs]: "documented ''DescribeConfigs'' (describeConfigs_versions resources includeSynonyms includeDocumentation)"
  unfolding describeConfigs_versions_def documented_def list.pred_inject prod.case ex_request_simps
  by (intro conjI list.pred_inject(1) list.distinct(2)) (rule known_cases(4), rule admin_request.intros)+

lemma describeGroups_table [table_specs]: "documented ''DescribeGroups'' (describeGroups_versions groupIds)"
  unfolding describeGroups_versions_def documented_def list.pred_inject prod.case ex_request_simps
  by (intro conjI list.pred_inject(1) list.distinct(2)) (rule known_cases(2), rule group_request.intros)+

lemma describeLogDirs_table [table_specs]: "documented ''DescribeLogDirs'' (describeLogDirs_versions topics)"
  unfolding describeLogDirs_versions_def documented_def list.pred_inject prod.case ex_request_simps
  by (intro conjI list.pred_inject(1) list.distinct(2)) (rule known_cases(4), rule admin_request.intros)+

lemma describeProducers_table [table_specs]: "documented ''DescribeProducers'' (describeProducers_versions topics)"
  unfolding describeProducers_versions_def documented_def list.pred_inject prod.case ex_request_simps
  by (intro conjI list.pred_inject(1) list.distinct(2)) (rule known_cases(3), rule data_request.intros)+

lemma describeTransactions_table [table_specs]: "documented ''DescribeTransactions'' (describeTransactions_versions transactionalIds)"
  unfolding describeTransactions_versions_def documented_def list.pred_inject prod.case ex_request_simps
  by (intro conjI list.pred_inject(1) list.distinct(2)) (rule known_cases(3), rule data_request.intros)+

lemma electLeaders_table [table_specs]: "documented ''ElectPreferredLeaders'' (electLeaders_versions electionType topicPartitions timeout)"
  unfolding electLeaders_versions_def documented_def list.pred_inject prod.case ex_request_simps
  by (intro conjI list.pred_inject(1) list.distinct(2)) (rule known_cases(4), rule admin_request.intros)+

lemma endTxn_table [table_specs]: "documented ''EndTxn'' (endTxn_versions transactionalId producerId' producerEpoch' transactionResult)"
  unfolding endTxn_versions_def documented_def list.pred_inject prod.case ex_request_simps
  by (intro conjI list.pred_inject(1) list.distinct(2)) (rule known_cases(3), rule data_request.intros)+

lemma fetch_table [table_specs]: "documented ''Fetch'' (fetch_versions messages0 messages4 messages12 replicaId maxWaitTime minBytes topics maxBytes isolationLevel sessionId sessionEpoch forgottenTopics rackId)"
  unfolding fetch_versions_def documented_def list.pred_inject prod.case ex_request_simps
  by (intro conjI list.pred_inject(1) list.distinct(2)) (rule known_cases(3), rule data_request.intros)+

lemma findCoordinator_table [table_specs]: "documented ''GroupCoordinator'' (findCoordinator_versions groupId coordinatorType)"
  unfolding findCoordinator_versions_def documented_def list.pred_inject prod.case ex_request_simps
  by (intro conjI list.pred_inject(1) list.distinct(2)) (rule known_cases(2), rule group_request.intros)+

lemma heartbeat_table [table_specs]: "documented ''Heartbeat'' (heartbeat_versions groupId groupGenerationId memberId groupInstanceId)"
  unfolding heartbeat_versions_def documented_def list.pred_inject prod.case ex_request_simps
  by (intro conjI list.pred_inject(1) list.distinct(2)) (rule known_cases(2), rule group_request.intros)+

lemma incrementalAlterConfigs_table [table_specs]: "documented ''IncrementalAlterConfigs'' (incrementalAlterConfigs_versions resources validateOnly)"
  unfolding incrementalAlterConfigs_versions_def documented_def list.pred_inject prod.case ex_request_simps
  by (intro conjI list.pred_inject(1) list.distinct(2)) (rule known_cases(4), rule admin_request.intros)+

lemma initProducerId_table [table_specs]: "documented ''InitProducerId'' (initProducerId_versions transactionalId transactionTimeout producerId' producerEpoch')"
  unfolding initProducerId_versions_def documented_def list.pred_inject prod.case ex_request_simps
  by (intro conjI list.pred_inject(1) list.distinct(2)) (rule known_cases(3), rule data_request.intros)+

lemma joinGroup_table [table_specs]: "documented ''JoinGroup'' (joinGroup_versions groupId sessionTimeout memberId protocolType groupProtocols rebalanceTimeout groupInstanceId)"
  unfolding joinGroup_versions_def documented_def list.pred_inject prod.case ex_request_simps
  by (intro conjI list.pred_inject(1) list.distinct(2)) (rule known_cases(2), rule group_request.intros)+

lemma leaveGroup_table [table_specs]: "documented ''LeaveGroup'' (leaveGroup_versions groupId memberId groupInstanceId)"
  unfolding leaveGroup_versions_def documented_def list.pred_inject prod.case ex_request_simps
  by (intro conjI list.pred_inject(1) list.distinct(2)) (rule known_cases(2), rule group_request.intros)+

lemma listGroups_table [table_specs]: "documented ''ListGroups'' (listGroups_versions statesFilter)"
  unfolding listGroups_versions_def documented_def list.pred_inject prod.case ex_request_simps
  by (intro conjI list.pred_inject(1) list.distinct(2)) (rule known_cases(2), rule group_request.intros)+

lemma listOffsets_table [table_specs]: "documented ''ListOffsets'' (listOffsets_versions replicaId topics isolationLevel)"
  unfolding listOffsets_versions_def documented_def list.pred_inject prod.case ex_request_simps
  by (intro conjI list.pred_inject(1) list.distinct(2)) (rule known_cases(3), rule data_request.intros)+

lemma listPartitionReassignments_table [table_specs]: "documented ''ListPartitionReassignments'' (listPartitionReassignments_versions topics timeout)"
  unfolding listPartitionReassignments_versions_def documented_def list.pred_inject prod.case ex_request_simps
  by (intro conjI list.pred_inject(1) list.distinct(2)) (rule known_cases(4), rule admin_request.intros)+

lemma listTransactions_table [table_specs]: "documented ''ListTransactions'' (listTransactions_versions stateFilters producerIdFilters)"
  unfolding listTransactions_versions_def documented_def list.pred_inject prod.case ex_request_simps
  by (intro conjI list.pred_inject(1) list.distinct(2)) (rule known_cases(3), rule data_request.intros)+

lemma metadata_table [table_specs]: "documented ''Metadata'' (metadata_versions topics allowAutoTopicCreation)"
  unfolding metadata_versions_def documented_def list.pred_inject prod.case ex_request_simps
  by (intro conjI list.pred_inject(1) list.distinct(2)) (rule known_cases(3), rule data_request.intros)+

lemma offsetCommit_table [table_specs]: "documented ''OffsetCommit'' (offsetCommit_versions now groupId topics groupGenerationId memberId retentionTime groupInstanceId)"
  unfolding offsetCommit_versions_def documented_def list.pred_inject prod.case ex_request_simps
  by (intro conjI list.pred_inject(1) list.distinct(2)) (rule known_cases(2), rule group_request.intros)+

lemma offsetDelete_table [table_specs]: "documented ''OffsetDelete'' (offsetDelete_versions groupId topics)"
  unfolding offsetDelete_versions_def documented_def list.pred_inject prod.case ex_request_simps
  by (intro conjI list.pred_inject(1) list.distinct(2)) (rule known_cases(2), rule group_request.intros)+

lemma offsetFetch_table [table_specs]: "documented ''OffsetFetch'' (offsetFetch_versions groupId topics)"
  unfolding offsetFetch_versions_def documented_def list.pred_inject prod.case ex_request_simps
  by (intro conjI list.pred_inject(1) list.distinct(2)) (rule known_cases(2), rule group_request.intros)+

lemma offsetForLeaderEpoch_table [table_specs]: "documented ''OffsetForLeaderEpoch'' (offsetForLeaderEpoch_versions topics replicaId)"
  unfolding offsetForLeaderEpoch_versions_def documented_def list.pred_inject prod.case ex_request_simps
  by (intro conjI list.pred_inject(1) list.distinct(2)) (rule known_cases(3), rule data_request.intros)+

lemma produce_table [table_specs]: "documented ''Produce'' (produce_versions codecs now acks timeout topicData compression transactionalId producerId' producerEpoch')"
  unfolding produce_versions_def documented_def list.pred_inject prod.case ex_request_simps
  by (intro conjI list.pred_inject(1) list.distinct(2)) (rule known_cases(1), rule produce_case.intros)+

lemma readShareGroupStateSummary_table [table_specs]: "documented ''ReadShareGroupStateSummary'' (readShareGroupStateSummary_versions topics)"
  unfolding readShareGroupStateSummary_versions_def documented_def list.pred_inject prod.case ex_request_simps
  by (intro conjI list.pred_inject(1) list.distinct(2)) (rule known_cases(5), rule share_request.intros)+

lemma removeRaftVoter_table [table_specs]: "documented ''RemoveRaftVoter'' (removeRaftVoter_versions clusterId timeoutMs voterId voterDirectoryId)"
  unfolding removeRaftVoter_versions_def documented_def list.pred_inject prod.case ex_request_simps
  by (intro conjI list.pred_inject(1) list.distinct(2)) (rule known_cases(5), rule share_request.intros)+

lemma saslHandshake_table [table_specs]: "documented ''SaslHandshake'' (saslHandshake_versions mechanism)"
  unfolding saslHandshake_versions_def documented_def list.pred_inject prod.case ex_request_simps
  by (intro conjI list.pred_inject(1) list.distinct(2)) (rule known_cases(4), rule admin_request.intros)+

lemma shareAcknowledge_table [table_specs]: "documented ''ShareAcknowledge'' (shareAcknowledge_versions groupId memberId memberEpoch topics)"
  unfolding shareAcknowledge_versions_def documented_def list.pred_inject prod.case ex_request_simps
  by (intro conjI list.pred_inject(1) list.distinct(2)) (rule known_cases(5), rule share_request.intros)+

lemma shareFetch_table [table_specs]: "documented ''ShareFetch'' (shareFetch_versions groupId memberId memberEpoch maxWaitMs minBytes maxBytes topics forgottenTopicsData)"
  unfolding shareFetch_versions_def documented_def list.pred_inject prod.case ex_request_simps
  by (intro conjI list.pred_inject(1) list.distinct(2)) (rule known_cases(5), rule share_request.intros)+

lemma shareGroupDescribe_table [table_specs]: "documented ''ShareGroupDescribe'' (shareGroupDescribe_versions groupIds includeAuthorizedOperations)"
  unfolding shareGroupDescribe_versions_def documented_def list.pred_inject prod.case ex_request_simps
  by (intro conjI list.pred_inject(1) list.distinct(2)) (rule known_cases(5), rule share_request.intros)+

lemma shareGroupHeartbeat_table [table_specs]: "documented ''ShareGroupHeartbeat'' (shareGroupHeartbeat_versions groupId memberId memberEpoch rackId subscribedTopicNames topicPartitions)"
  unfolding shareGroupHeartbeat_versions_def documented_def list.pred_inject prod.case ex_request_simps
  by (intro conjI list.pred_inject(1) list.distinct(2)) (rule known_cases(5), rule share_request.intros)+

lemma syncGroup_table [table_specs]: "documented ''SyncGroup'' (syncGroup_versions groupId generationId memberId groupAssignment groupInstanceId)"
  unfolding syncGroup_versions_def documented_def list.pred_inject prod.case ex_request_simps
  by (intro conjI list.pred_inject(1) list.distinct(2)) (rule known_cases(2), rule group_request.intros)+

lemma txnOffsetCommit_table [table_specs]: "documented ''TxnOffsetCommit'' (txnOffsetCommit_versions transactionalId groupId producerId' producerEpoch' topics)"
  unfolding txnOffsetCommit_versions_def documented_def list.pred_inject prod.case ex_request_simps
  by (intro conjI list.pred_inject(1) list.distinct(2)) (rule known_cases(3), rule data_request.intros)+

lemma updateRaftVoter_table [table_specs]: "documented ''UpdateRaftVoter'' (updateRaftVoter_versions clusterId currentLeaderEpoch voterId voterDirectoryId listeners kRaftVersionFeature)"
  unfolding updateRaftVoter_versions_def documented_def list.pred_inject prod.case ex_request_simps
  by (intro conjI list.pred_inject(1) list.distinct(2)) (rule known_cases(5), rule share_request.intros)+

lemma request_table_documented: "request_table api tbl \<Longrightarrow> documented api tbl"
  by (induction rule: request_table.induct) (rule table_specs)+

lemma best_is_max: "tbl \<noteq> [] \<Longrightarrow> bestImplementedVersion tbl = Max (fst ` set tbl)"
proof -
  have "foldr (max \<circ> fst) xs (fst x) = Max (fst ` set (x # xs))" for x and xs :: definitions
  proof (induction xs)
    case (Cons a xs)
    have "Max (insert (fst a) (insert (fst x) (fst ` set xs))) = max (fst a) (Max (insert (fst x) (fst ` set xs)))" by (rule Max_insert) simp_all
    then show ?case using Cons by (simp add: insert_commute del: Max_insert)
  qed simp
  then show "tbl \<noteq> [] \<Longrightarrow> bestImplementedVersion tbl = Max (fst ` set tbl)"
    by (cases tbl) (simp_all add: bestImplementedVersion_def)
qed

lemma lookup_entry:
  assumes "documented api tbl" "lookup versions key tbl = Inr (Some ex)"
  shows "\<exists>lowest highest v t w. map_of versions key = Some (lowest, highest) \<and> v = min (Max (fst ` set tbl)) highest \<and>
    (v, ex) \<in> set tbl \<and> known_request api v t w (ex_request ex)"
proof -
  obtain lowest highest where s: "map_of versions key = Some (lowest, highest)"
      "map_of tbl (min (bestImplementedVersion tbl) highest) = Some ex"
    using assms(2) by (auto simp: lookup_def split: option.splits)
  have m: "(min (Max (fst ` set tbl)) highest, ex) \<in> set tbl"
    using map_of_SomeD [OF s(2)] best_is_max assms(1) by (simp add: documented_def)
  then have "\<exists>t w. known_request api (min (Max (fst ` set tbl)) highest) t w (ex_request ex)"
    using assms(1) unfolding documented_def list_all_iff by fastforce
  then show ?thesis using s(1) m by blast
qed



subsection \<open>Versions that are missing from a table\<close>

text \<open>
  Some tables have gaps. A server whose highest version falls into a gap, or below the lowest version
  implemented, gets \<^verbatim>\<open>undefined\<close> for an entry, although an older version is implemented.
\<close>

lemma missing_versions:
  "lookup [(19, 0, 4)] 19 (createTopics_versions cmp topics timeout validateOnly) = Inr None"
  "lookup [(20, 0, 3)] 20 (deleteTopics_versions cmp names timeout) = Inr None"
  "lookup [(32, 0, 3)] 32 (describeConfigs_versions resources includeSynonyms includeDocumentation) = Inr None"
  "lookup [(15, 0, 4)] 15 (describeGroups_versions groupIds) = Inr None"
  "lookup [(35, 0, 1)] 35 (describeLogDirs_versions dirs) = Inr None"
  "lookup [(16, 0, 3)] 16 (listGroups_versions statesFilter) = Inr None"
  "lookup [(23, 0, 1)] 23 (offsetForLeaderEpoch_versions epochs replicaId) = Inr None"
  "lookup [(9, 0, 0)] 9 (offsetFetch_versions groupId ts) = Inr None"
  by (simp_all add: lookup_def bestImplementedVersion_def createTopics_versions_def deleteTopics_versions_def
      describeConfigs_versions_def describeGroups_versions_def describeLogDirs_versions_def listGroups_versions_def
      offsetForLeaderEpoch_versions_def offsetFetch_versions_def)

text \<open>The lowest version of the server is not looked at: a server that has dropped the versions up to 4 is sent version 1.\<close>

lemma version_too_old_for_server:
  "lookup [(17, 5, 6)] 17 (saslHandshake_versions mechanism) =
     Inr (Some (exchange_of (saslHandshake_v1_request mechanism) saslHandshake_v1_decode saslHandshake_v1_parse))"
  by (simp add: lookup_def bestImplementedVersion_def saslHandshake_versions_def)

end
