(* ===== verification/Broker.thy ===== *)
theory Broker
  imports Request_Versions
begin

text \<open>
  A broker, \<^verbatim>\<open>src/broker/index.js\<close>: connecting, finding out the versions of the requests the server knows, and one
  method per request. A method looks up the version to use, applies its entry to the arguments and sends the
  exchange through the pool of connections. The pool is a parameter: a state with the operations the broker calls. How messages are
  decoded, the clock, the codecs and the comparison of strings are parameters of the methods too, as in \<open>Request_Versions\<close>. The
  random choices of \<^verbatim>\<open>src/utils/shuffle.js\<close> are a sequence of indices.
\<close>

subsection \<open>Shuffling\<close>

definition swap_at :: "nat \<Rightarrow> nat \<Rightarrow> 'a list \<Rightarrow> 'a list" where
  "swap_at i j xs = xs[i := xs ! j, j := xs ! i]"

text \<open>The choice for position \<open>i\<close> is \<^verbatim>\<open>Math.floor(Math.random() * (i + 1))\<close>, at most \<open>i\<close>.\<close>

fun shuffle_loop :: "(nat \<Rightarrow> nat) \<Rightarrow> nat \<Rightarrow> 'a list \<Rightarrow> 'a list" where
  "shuffle_loop pick 0 xs = xs"
| "shuffle_loop pick (Suc i) xs = shuffle_loop pick i (swap_at (Suc i) (pick (Suc i) mod (Suc i + 1)) xs)"

definition shuffle :: "(nat \<Rightarrow> nat) \<Rightarrow> 'a list \<Rightarrow> 'a list" where
  "shuffle pick xs = (if length xs < 2 then xs else shuffle_loop pick (length xs - 1) xs)"

lemma mset_swap_at: "i < length xs \<Longrightarrow> j < length xs \<Longrightarrow> mset (swap_at i j xs) = mset xs"
  unfolding swap_at_def by (rule mset_swap)

lemma length_swap_at [simp]: "length (swap_at i j xs) = length xs"
  by (simp add: swap_at_def)

lemma mset_shuffle_loop: "i < length xs \<Longrightarrow> mset (shuffle_loop pick i xs) = mset xs"
proof (induction i arbitrary: xs)
  case (Suc i)
  have "pick (Suc i) mod (Suc i + 1) < length xs" using mod_less_divisor [of "Suc i + 1" "pick (Suc i)"] Suc.prems by linarith
  then show ?case using Suc by (simp add: mset_swap_at)
qed simp

lemma mset_shuffle: "mset (shuffle pick xs) = mset xs"
  by (simp add: shuffle_def mset_shuffle_loop)

subsection \<open>The broker and its pool of connections\<close>

record 'p pool_ops =
  po_sasl :: bool
  po_connectionTimeout :: int
  po_isConnected :: "'p \<Rightarrow> bool"
  po_isAuthenticated :: "'p \<Rightarrow> bool"
  po_getConnection :: "'p \<Rightarrow> (raised + unit) \<times> 'p"
  po_send :: "exchange \<Rightarrow> 'p \<Rightarrow> (raised + jv) \<times> 'p"
  po_setVersions :: "server_versions \<Rightarrow> 'p \<Rightarrow> 'p"
  po_getSupportAuthenticationProtocol :: "'p \<Rightarrow> bool option"
  po_setSupportAuthenticationProtocol :: "bool \<Rightarrow> 'p \<Rightarrow> 'p"
  po_authenticate :: "'p \<Rightarrow> (raised + unit) \<times> 'p"
  po_destroy :: "'p \<Rightarrow> (raised + unit) \<times> 'p"

text \<open>\<open>br_lookup\<close> holds the versions that \<^verbatim>\<open>lookupRequest\<close> was made with; it is \<open>None\<close> before.\<close>

record 'p broker =
  br_pool :: 'p
  br_nodeId :: "int option"
  br_versions :: "server_versions option"
  br_allowAutoTopicCreation :: bool
  br_lookup :: "server_versions option"

definition new_Broker :: "'p \<Rightarrow> int option \<Rightarrow> server_versions option \<Rightarrow> bool option \<Rightarrow> 'p broker" where
  "new_Broker pool nodeId versions allowAutoTopicCreation =
     \<lparr>br_pool = pool, br_nodeId = nodeId, br_versions = versions,
      br_allowAutoTopicCreation = or_default True allowAutoTopicCreation, br_lookup = None\<rparr>"

type_synonym ('p, 'a) broker_call = "'p broker \<Rightarrow> (raised + 'a) \<times> 'p broker"

definition broker_isConnected :: "'p pool_ops \<Rightarrow> 'p broker \<Rightarrow> bool" where
  "broker_isConnected ops b =
     (if po_sasl ops then po_isConnected ops (br_pool b) \<and> po_isAuthenticated ops (br_pool b) else po_isConnected ops (br_pool b))"

definition on_br_pool :: "('p \<Rightarrow> 'a \<times> 'p) \<Rightarrow> 'p broker \<Rightarrow> 'a \<times> 'p broker" where
  "on_br_pool f b = (case f (br_pool b) of (r, p) \<Rightarrow> (r, b\<lparr>br_pool := p\<rparr>))"

definition broker_disconnect :: "'p pool_ops \<Rightarrow> ('p, unit) broker_call" where
  "broker_disconnect ops = on_br_pool (po_destroy ops)"

definition broker_sendRequest :: "'p pool_ops \<Rightarrow> exchange \<Rightarrow> ('p, jv) broker_call" where
  "broker_sendRequest ops ex b =
     (case on_br_pool (po_send ops ex) b of
        (Inr v, b) \<Rightarrow> (Inr v, b)
      | (Inl e, b) \<Rightarrow>
          (if raised_name e = ''KafkaJSConnectionClosedError''
           then case broker_disconnect ops b of (Inl e', b) \<Rightarrow> (Inl e', b) | (Inr _, b) \<Rightarrow> (Inl e, b)
           else (Inl e, b)))"

text \<open>\<^verbatim>\<open>this.lookupRequest(apiKey, requests.X)\<close>, and the call of its result, which is not a function when the version is missing.\<close>

definition lookupRequest :: "'p broker \<Rightarrow> int \<Rightarrow> definitions \<Rightarrow> raised + exchange" where
  "lookupRequest b apiKey definition =
     (case br_lookup b of
        None \<Rightarrow> Inl (Raised (native_error ''Error'' ''Broker not connected''))
      | Some versions \<Rightarrow>
          (case lookup versions apiKey definition of
             Inl e \<Rightarrow> Inl (Raised e)
           | Inr None \<Rightarrow> Inl (Raised (native_error ''TypeError'' ''is not a function''))
           | Inr (Some ex) \<Rightarrow> Inr ex))"

definition call :: "'p pool_ops \<Rightarrow> string \<Rightarrow> definitions \<Rightarrow> ('p, jv) broker_call" where
  "call ops api definition b =
     (case lookupRequest b (api_key api) definition of Inl e \<Rightarrow> (Inl e, b) | Inr ex \<Rightarrow> broker_sendRequest ops ex b)"

subsection \<open>Finding out the versions\<close>

text \<open>The versions are tried from the highest one on; all of them have one digit, so that they are sorted as numbers.\<close>

fun try_versions :: "'p pool_ops \<Rightarrow> exchange list \<Rightarrow> ('p, jv option) broker_call" where
  "try_versions ops [] b = (Inr None, b)"
| "try_versions ops (ex # exs) b =
     (case broker_sendRequest ops (ex\<lparr>ex_requestTimeout := Some (po_connectionTimeout ops)\<rparr>) b of
        (Inr v, b) \<Rightarrow> (Inr (Some v), b)
      | (Inl e, b) \<Rightarrow> (if raised_type e \<noteq> Some ''UNSUPPORTED_VERSION'' then (Inl e, b) else try_versions ops exs b))"

definition version_candidates :: "exchange list" where
  "version_candidates = map snd (rev (sort_key fst (apiVersions_versions None None)))"

definition add_version :: "server_versions \<Rightarrow> jv \<Rightarrow> server_versions" where
  "add_version obj v =
     AList.update (num_of (jget ''apiKey'' v)) (num_of (jget ''minVersion'' v), num_of (jget ''maxVersion'' v)) obj"

definition broker_apiVersions :: "'p pool_ops \<Rightarrow> ('p, server_versions) broker_call" where
  "broker_apiVersions ops b =
     (case try_versions ops version_candidates b of
        (Inl e, b) \<Rightarrow> (Inl e, b)
      | (Inr None, b) \<Rightarrow> (Inl (Raised (new_KafkaJSNonRetriableError (Text ''API Versions not supported'') None)), b)
      | (Inr (Some response), b) \<Rightarrow>
          (rbind (jelems (jget ''apiVersions'' response)) (\<lambda>vs. Inr (foldl add_version [] vs)), b))"

subsection \<open>Connecting\<close>

text \<open>
  The part of \<^verbatim>\<open>connect\<close> after a connection is there: the versions are asked for once, the pool and the lookup get them, whether the
  server has \<^verbatim>\<open>SaslAuthenticate\<close> is found out once, and the connection is authenticated.
\<close>

definition set_versions :: "'p pool_ops \<Rightarrow> server_versions \<Rightarrow> 'p broker \<Rightarrow> 'p broker" where
  "set_versions ops versions b =
     b\<lparr>br_versions := Some versions, br_pool := po_setVersions ops versions (br_pool b), br_lookup := Some versions\<rparr>"

definition support_authentication :: "'p pool_ops \<Rightarrow> 'p broker \<Rightarrow> 'p broker" where
  "support_authentication ops b =
     (if po_getSupportAuthenticationProtocol ops (br_pool b) = None
      then let supported = (case br_lookup b of None \<Rightarrow> False
                            | Some versions \<Rightarrow> (case lookup versions (api_key ''SaslAuthenticate'') (saslAuthenticate_versions BNull) of Inl _ \<Rightarrow> False | Inr _ \<Rightarrow> True))
           in b\<lparr>br_pool := po_setSupportAuthenticationProtocol ops supported (br_pool b)\<rparr>
      else b)"

definition prepare_connection :: "'p pool_ops \<Rightarrow> ('p, unit) broker_call" where
  "prepare_connection ops b =
     (case (case br_versions b of None \<Rightarrow> broker_apiVersions ops b | Some versions \<Rightarrow> (Inr versions, b)) of
        (Inl e, b) \<Rightarrow> (Inl e, b)
      | (Inr versions, b) \<Rightarrow> on_br_pool (po_authenticate ops) (support_authentication ops (set_versions ops versions b)))"

definition broker_connect :: "'p pool_ops \<Rightarrow> raised + unit \<Rightarrow> ('p, unit) broker_call" where
  "broker_connect ops acquired b =
     (case acquired of
        Inl e \<Rightarrow> (Inl e, b)
      | Inr _ \<Rightarrow>
          (if broker_isConnected ops b then (Inr (), b)
           else case on_br_pool (po_getConnection ops) b of
                  (Inl e, b) \<Rightarrow> (Inl e, b)
                | (Inr _, b) \<Rightarrow> prepare_connection ops b))"

subsection \<open>The methods\<close>

definition broker_metadata :: "'p pool_ops \<Rightarrow> (nat \<Rightarrow> nat) \<Rightarrow> string list \<Rightarrow> ('p, jv) broker_call" where
  "broker_metadata ops pick topics b =
     call ops ''Metadata'' (metadata_versions (shuffle pick topics) (Some (br_allowAutoTopicCreation b))) b"

definition broker_produce where
  "broker_produce ops codecs now topicData transactionalId producerId' producerEpoch' acks timeout compression =
     call ops ''Produce'' (produce_versions codecs now (or_default (- 1) acks) (or_default 30000 timeout) topicData
       (Some (or_default 0 compression)) transactionalId producerId' producerEpoch')"

text \<open>
  \<^verbatim>\<open>fetch\<close> puts the partitions of all topics into a random order and joins neighbours of the same topic.
\<close>

definition flatten_topics :: "(string option \<times> 'a list) list \<Rightarrow> (string option \<times> 'a) list" where
  "flatten_topics topics = foldl (\<lambda>acc (topic, partitions). acc @ map (Pair topic) partitions) [] topics"

definition consolidate :: "(string option \<times> 'a list) list \<Rightarrow> string option \<times> 'a \<Rightarrow> (string option \<times> 'a list) list" where
  "consolidate acc tp =
     (if acc \<noteq> [] \<and> fst (last acc) = fst tp
      then butlast acc @ [(fst (last acc), snd (last acc) @ [snd tp])]
      else acc @ [(fst tp, [snd tp])])"

definition fetch_topics :: "(nat \<Rightarrow> nat) \<Rightarrow> (string option \<times> 'a list) list \<Rightarrow> (string option \<times> 'a list) list" where
  "fetch_topics pick topics = foldl consolidate [] (shuffle pick (flatten_topics topics))"

definition broker_fetch where
  "broker_fetch ops messages0 messages4 messages12 pick replicaId isolationLevel maxWaitTime minBytes maxBytes topics rackId =
     call ops ''Fetch'' (fetch_versions messages0 messages4 messages12 replicaId (or_default 5000 maxWaitTime)
       (or_default 1 minBytes) (fetch_topics pick topics) (or_default 10485760 maxBytes) isolationLevel None None None
       (Some (Some (or_default [] rackId))))"

definition broker_heartbeat where
  "broker_heartbeat ops groupId groupGenerationId memberId =
     call ops ''Heartbeat'' (heartbeat_versions groupId groupGenerationId memberId None)"

definition broker_findGroupCoordinator where
  "broker_findGroupCoordinator ops groupId coordinatorType =
     call ops ''GroupCoordinator'' (findCoordinator_versions groupId coordinatorType)"

text \<open>A new member is told its id by the error of the first request, and repeats it with this id.\<close>

definition error_memberId :: "raised \<Rightarrow> string option" where
  "error_memberId r = (case r of Raised e \<Rightarrow> (case map_of (e_fields e) ''memberId'' of Some (FStr s) \<Rightarrow> Some s | _ \<Rightarrow> None) | Aggregate _ _ \<Rightarrow> None)"

definition broker_joinGroup where
  "broker_joinGroup ops groupId sessionTimeout rebalanceTimeout memberId protocolType groupProtocols b =
     (let makeRequest = (\<lambda>assigned. call ops ''JoinGroup'' (joinGroup_versions groupId sessionTimeout
            (Some (or_default (or_default [] memberId) assigned)) (Some (or_default ''consumer'' protocolType)) groupProtocols rebalanceTimeout None))
      in case makeRequest None b of
           (Inr v, b) \<Rightarrow> (Inr v, b)
         | (Inl e, b) \<Rightarrow> (if raised_name e = ''KafkaJSMemberIdRequired'' then makeRequest (error_memberId e) b else (Inl e, b)))"

definition broker_leaveGroup where
  "broker_leaveGroup ops groupId memberId = call ops ''LeaveGroup'' (leaveGroup_versions groupId memberId None)"

definition broker_syncGroup where
  "broker_syncGroup ops groupId generationId memberId groupAssignment =
     call ops ''SyncGroup'' (syncGroup_versions groupId generationId memberId groupAssignment None)"

text \<open>The first version of \<^verbatim>\<open>ListOffsets\<close> answers with an array of offsets, of which the last one is taken.\<close>

definition normalize_partition :: "jv \<Rightarrow> jv" where
  "normalize_partition p =
     (case p of
        JObj ps \<Rightarrow>
          (let partitionData = AList.delete ''offsets'' ps
           in case jget ''offsets'' p of
                JArr xs \<Rightarrow> JObj (AList.update ''offset'' (if xs = [] then JUndef else last xs) partitionData)
              | _ \<Rightarrow> JObj partitionData)
      | _ \<Rightarrow> p)"

definition normalize_offsets :: "jv \<Rightarrow> raised + jv" where
  "normalize_offsets result =
     rbind (jelems (jget ''responses'' result)) (\<lambda>rs.
       rbind (rmap (\<lambda>r. rbind (jelems (jget ''partitions'' r)) (\<lambda>ps. Inr (jset ''partitions'' (JArr (map normalize_partition ps)) r))) rs) (\<lambda>rs.
         Inr (jset ''responses'' (JArr rs) result)))"

definition broker_listOffsets where
  "broker_listOffsets ops replicaId isolationLevel topics b =
     (case call ops ''ListOffsets'' (listOffsets_versions replicaId topics isolationLevel) b of
        (Inl e, b) \<Rightarrow> (Inl e, b)
      | (Inr result, b) \<Rightarrow> (normalize_offsets result, b))"

definition broker_offsetCommit where
  "broker_offsetCommit ops now groupId groupGenerationId memberId retentionTime topics =
     call ops ''OffsetCommit'' (offsetCommit_versions now groupId topics groupGenerationId memberId retentionTime None)"

definition broker_offsetFetch where
  "broker_offsetFetch ops groupId topics = call ops ''OffsetFetch'' (offsetFetch_versions groupId topics)"

definition broker_describeGroups where
  "broker_describeGroups ops groupIds = call ops ''DescribeGroups'' (describeGroups_versions groupIds)"

definition broker_createTopics where
  "broker_createTopics ops localeCompare topics validateOnly timeout =
     call ops ''CreateTopics'' (createTopics_versions localeCompare topics (Some (or_default 5000 timeout)) (Some (or_default False validateOnly)))"

definition broker_createPartitions where
  "broker_createPartitions ops localeCompare topicPartitions validateOnly timeout =
     call ops ''CreatePartitions'' (createPartitions_versions localeCompare topicPartitions (Some (or_default 5000 timeout))
       (Some (or_default False validateOnly)))"

definition broker_deleteTopics where
  "broker_deleteTopics ops localeCompare topics timeout =
     call ops ''DeleteTopics'' (deleteTopics_versions localeCompare topics (Some (or_default 5000 timeout)))"

definition broker_describeConfigs where
  "broker_describeConfigs ops resources includeSynonyms =
     call ops ''DescribeConfigs'' (describeConfigs_versions resources (Some (or_default False includeSynonyms)) None)"

definition broker_alterConfigs where
  "broker_alterConfigs ops resources validateOnly =
     call ops ''AlterConfigs'' (alterConfigs_versions resources (Some (or_default False validateOnly)))"

definition broker_incrementalAlterConfigs where
  "broker_incrementalAlterConfigs ops resources validateOnly =
     call ops ''IncrementalAlterConfigs'' (incrementalAlterConfigs_versions resources (Some (or_default False validateOnly)))"

definition broker_initProducerId where
  "broker_initProducerId ops transactionalId transactionTimeout =
     call ops ''InitProducerId'' (initProducerId_versions transactionalId transactionTimeout None None)"

definition broker_addPartitionsToTxn where
  "broker_addPartitionsToTxn ops transactionalId producerId' producerEpoch' topics =
     call ops ''AddPartitionsToTxn'' (addPartitionsToTxn_versions transactionalId producerId' producerEpoch' topics)"

definition broker_addOffsetsToTxn where
  "broker_addOffsetsToTxn ops transactionalId producerId' producerEpoch' groupId =
     call ops ''AddOffsetsToTxn'' (addOffsetsToTxn_versions transactionalId producerId' producerEpoch' groupId)"

definition broker_txnOffsetCommit where
  "broker_txnOffsetCommit ops transactionalId groupId producerId' producerEpoch' topics =
     call ops ''TxnOffsetCommit'' (txnOffsetCommit_versions transactionalId groupId producerId' producerEpoch' topics)"

definition broker_endTxn where
  "broker_endTxn ops transactionalId producerId' producerEpoch' transactionResult =
     call ops ''EndTxn'' (endTxn_versions transactionalId producerId' producerEpoch' transactionResult)"

definition broker_listGroups where
  "broker_listGroups ops = call ops ''ListGroups'' (listGroups_versions None)"

definition broker_deleteGroups where
  "broker_deleteGroups ops groupIds = call ops ''DeleteGroups'' (deleteGroups_versions groupIds)"

definition broker_deleteRecords where
  "broker_deleteRecords ops localeCompare topics = call ops ''DeleteRecords'' (deleteRecords_versions localeCompare topics None)"

definition broker_createAcls where
  "broker_createAcls ops acl = call ops ''CreateAcls'' (createAcls_versions acl)"

definition broker_describeAcls where
  "broker_describeAcls ops resourceType resourceName resourcePatternType principal' host operation permissionType =
     call ops ''DescribeAcls'' (describeAcls_versions resourceType resourceName principal' host operation permissionType resourcePatternType)"

definition broker_deleteAcls where
  "broker_deleteAcls ops filters = call ops ''DeleteAcls'' (deleteAcls_versions filters)"

definition broker_alterPartitionReassignments where
  "broker_alterPartitionReassignments ops topics timeout =
     call ops ''AlterPartitionReassignments'' (alterPartitionReassignments_versions topics timeout)"

definition broker_listPartitionReassignments where
  "broker_listPartitionReassignments ops topics timeout =
     call ops ''ListPartitionReassignments'' (listPartitionReassignments_versions topics timeout)"

definition broker_offsetForLeaderEpoch where
  "broker_offsetForLeaderEpoch ops replicaId topics =
     call ops ''OffsetForLeaderEpoch'' (offsetForLeaderEpoch_versions topics (Some (or_default (- 1) replicaId)))"

definition broker_electLeaders where
  "broker_electLeaders ops electionType topicPartitions timeout =
     call ops ''ElectPreferredLeaders'' (electLeaders_versions (Some (or_default 0 electionType)) topicPartitions (Some (or_default 30000 timeout)))"

definition broker_offsetDelete where
  "broker_offsetDelete ops groupId topics = call ops ''OffsetDelete'' (offsetDelete_versions groupId topics)"

definition broker_describeCluster where
  "broker_describeCluster ops includeClusterAuthorizedOperations =
     call ops ''DescribeCluster'' (describeCluster_versions (Some (or_default False includeClusterAuthorizedOperations)) None)"

definition broker_describeLogDirs where
  "broker_describeLogDirs ops topics = call ops ''DescribeLogDirs'' (describeLogDirs_versions topics)"

definition broker_describeProducers where
  "broker_describeProducers ops topics = call ops ''DescribeProducers'' (describeProducers_versions topics)"

definition broker_describeTransactions where
  "broker_describeTransactions ops transactionalIds = call ops ''DescribeTransactions'' (describeTransactions_versions transactionalIds)"

definition broker_listTransactions where
  "broker_listTransactions ops stateFilters producerIdFilters =
     call ops ''ListTransactions'' (listTransactions_versions (Some (or_default [] stateFilters)) (Some (or_default [] producerIdFilters)))"

definition broker_shareGroupHeartbeat where
  "broker_shareGroupHeartbeat ops groupId memberId memberEpoch rackId subscribedTopicNames topicPartitions =
     call ops ''ShareGroupHeartbeat'' (shareGroupHeartbeat_versions groupId memberId memberEpoch rackId subscribedTopicNames topicPartitions)"

definition broker_shareGroupDescribe where
  "broker_shareGroupDescribe ops groupIds includeAuthorizedOperations =
     call ops ''ShareGroupDescribe'' (shareGroupDescribe_versions groupIds (Some (or_default False includeAuthorizedOperations)))"

definition broker_shareFetch where
  "broker_shareFetch ops groupId memberId memberEpoch maxWaitMs minBytes maxBytes topics forgottenTopicsData =
     call ops ''ShareFetch'' (shareFetch_versions groupId memberId memberEpoch (Some (or_default 500 maxWaitMs)) (Some (or_default 1 minBytes))
       (Some (or_default 10485760 maxBytes)) (Some (or_default [] topics)) (Some (or_default [] forgottenTopicsData)))"

definition broker_shareAcknowledge where
  "broker_shareAcknowledge ops groupId memberId memberEpoch topics =
     call ops ''ShareAcknowledge'' (shareAcknowledge_versions groupId memberId memberEpoch (Some (or_default [] topics)))"

definition broker_addRaftVoter where
  "broker_addRaftVoter ops clusterId timeoutMs voterId voterDirectoryId listeners =
     call ops ''AddRaftVoter'' (addRaftVoter_versions clusterId (Some (or_default 30000 timeoutMs)) voterId voterDirectoryId
       (Some (or_default [] listeners)))"

definition broker_removeRaftVoter where
  "broker_removeRaftVoter ops clusterId timeoutMs voterId voterDirectoryId =
     call ops ''RemoveRaftVoter'' (removeRaftVoter_versions clusterId (Some (or_default 30000 timeoutMs)) voterId voterDirectoryId)"

definition broker_updateRaftVoter where
  "broker_updateRaftVoter ops clusterId currentLeaderEpoch voterId voterDirectoryId listeners kRaftVersionFeature =
     call ops ''UpdateRaftVoter'' (updateRaftVoter_versions clusterId currentLeaderEpoch voterId voterDirectoryId
       (Some (or_default [] listeners)) kRaftVersionFeature)"

definition broker_readShareGroupStateSummary where
  "broker_readShareGroupStateSummary ops topics =
     call ops ''ReadShareGroupStateSummary'' (readShareGroupStateSummary_versions (Some (or_default [] topics)))"

subsection \<open>A connected broker\<close>

text \<open>The lookup never works with other versions than the broker has.\<close>

definition broker_wf :: "'p broker \<Rightarrow> bool" where
  "broker_wf b \<longleftrightarrow> br_lookup b = None \<or> br_lookup b = br_versions b"

lemma on_br_pool_same:
  "on_br_pool f b = (r, b') \<Longrightarrow> br_versions b' = br_versions b \<and> br_lookup b' = br_lookup b"
  by (auto simp: on_br_pool_def split: prod.splits)

lemma send_same:
  "broker_sendRequest ops ex b = (r, b') \<Longrightarrow> br_versions b' = br_versions b \<and> br_lookup b' = br_lookup b"
  by (auto simp: broker_sendRequest_def broker_disconnect_def split: prod.splits sum.splits if_splits dest!: on_br_pool_same)

lemma call_same: "call ops api tbl b = (r, b') \<Longrightarrow> br_versions b' = br_versions b \<and> br_lookup b' = br_lookup b"
  by (auto simp: call_def split: sum.splits dest: send_same)

lemma try_versions_same:
  "try_versions ops exs b = (r, b') \<Longrightarrow> br_versions b' = br_versions b \<and> br_lookup b' = br_lookup b"
  by (induction ops exs b rule: try_versions.induct) (auto split: prod.splits sum.splits if_splits dest!: send_same)

lemma apiVersions_same:
  "broker_apiVersions ops b = (r, b') \<Longrightarrow> br_versions b' = br_versions b \<and> br_lookup b' = br_lookup b"
  by (auto simp: broker_apiVersions_def split: prod.splits sum.splits option.splits dest!: try_versions_same)

lemma support_same [simp]:
  "br_versions (support_authentication ops b) = br_versions b" "br_lookup (support_authentication ops b) = br_lookup b"
  by (simp_all add: support_authentication_def Let_def)

lemma prepare_connection_versions:
  assumes "prepare_connection ops b = (r, b')"
  shows "(\<exists>e. r = Inl e \<and> br_versions b' = br_versions b \<and> br_lookup b' = br_lookup b) \<or>
    (\<exists>vs. br_versions b' = Some vs \<and> br_lookup b' = Some vs \<and> br_versions b \<in> {None, Some vs})"
proof -
  obtain r1 b1 where r1: "(case br_versions b of None \<Rightarrow> broker_apiVersions ops b | Some vs \<Rightarrow> (Inr vs, b)) = (r1, b1)"
    by (metis surj_pair)
  then have b1: "br_versions b1 = br_versions b" "br_lookup b1 = br_lookup b" "r1 = Inr vs \<Longrightarrow> br_versions b \<in> {None, Some vs}" for vs
    by (auto split: option.splits dest!: apiVersions_same)
  show ?thesis
  proof (cases r1)
    case (Inl e)
    then show ?thesis using assms r1 b1 by (auto simp: prepare_connection_def)
  next
    case (Inr vs)
    then have "on_br_pool (po_authenticate ops) (support_authentication ops (set_versions ops vs b1)) = (r, b')"
      using assms r1 by (simp add: prepare_connection_def)
    from on_br_pool_same [OF this] have "br_versions b' = Some vs" "br_lookup b' = Some vs" by (simp_all add: set_versions_def)
    then show ?thesis using b1(3) [OF Inr] by blast
  qed
qed

lemma connect_versions:
  assumes "broker_connect ops acquired b = (r, b')" "\<not> broker_isConnected ops b"
  shows "(\<exists>e. r = Inl e \<and> br_versions b' = br_versions b \<and> br_lookup b' = br_lookup b) \<or>
    (\<exists>vs. br_versions b' = Some vs \<and> br_lookup b' = Some vs \<and> br_versions b \<in> {None, Some vs})"
proof (cases acquired)
  case (Inr u)
  obtain r1 b1 where c: "on_br_pool (po_getConnection ops) b = (r1, b1)" by (metis surj_pair)
  note same = on_br_pool_same [OF c]
  show ?thesis
  proof (cases r1)
    case (Inr v)
    then have "prepare_connection ops b1 = (r, b')" using assms \<open>acquired = Inr u\<close> c by (simp add: broker_connect_def)
    from prepare_connection_versions [OF this] show ?thesis using same by simp
  qed (use assms \<open>acquired = Inr u\<close> c same in \<open>auto simp: broker_connect_def\<close>)
qed (use assms in \<open>auto simp: broker_connect_def\<close>)


definition sample_server :: "bool pool_ops" where \<comment> \<open>the pool is only whether it is connected\<close>
  "sample_server =
     \<lparr>po_sasl = False, po_connectionTimeout = 1000, po_isConnected = id, po_isAuthenticated = (\<lambda>_. False), po_getConnection = (\<lambda>_. (Inr (), True)),
      po_send = (\<lambda>ex p. (Inr (JObj [(''apiVersions'', JArr [JObj [(''apiKey'', JNum 12), (''minVersion'', JNum 0), (''maxVersion'', JNum 3)]])]), p)),
      po_setVersions = (\<lambda>_ p. p), po_getSupportAuthenticationProtocol = (\<lambda>_. Some False),
      po_setSupportAuthenticationProtocol = (\<lambda>_ p. p), po_authenticate = (\<lambda>p. (Inr (), p)), po_destroy = (\<lambda>_. (Inr (), False))\<rparr>"


subsection \<open>A broker that is connected and not ready\<close>

text \<open>
  When the connection is there and the request for the versions fails, for instance because it timed out, connecting
  fails and the connection stays open. Connecting again then finds the broker connected and does nothing: it succeeds, and every
  method fails.
\<close>

lemma versions_request_fails:
  assumes "\<not> broker_isConnected ops b" "br_lookup b = None" "br_versions b = None"
    "po_getConnection ops (br_pool b) = (Inr (), p)" "broker_apiVersions ops (b\<lparr>br_pool := p\<rparr>) = (Inl e, b')"
  shows "broker_connect ops (Inr ()) b = (Inl e, b')" "br_lookup b' = None"
  using assms apiVersions_same [OF assms(5)] by (simp_all add: broker_connect_def on_br_pool_def prepare_connection_def)

lemma connected_without_lookup:
  assumes "br_lookup b = None" "broker_isConnected ops b"
  shows "broker_connect ops (Inr ()) b = (Inr (), b)"
    "call ops api tbl b = (Inl (Raised (native_error ''Error'' ''Broker not connected'')), b)"
  using assms by (simp_all add: broker_connect_def call_def lookupRequest_def)

subsection \<open>Fetching\<close>

lemma flatten_topics_eq: "flatten_topics topics = concat (map (\<lambda>(topic, partitions). map (Pair topic) partitions) topics)"
proof -
  have "foldl (\<lambda>acc (topic, partitions). acc @ map (Pair topic) partitions) acc ts =
      acc @ concat (map (\<lambda>(topic, partitions). map (Pair topic) partitions) ts)" for acc :: "(string option \<times> 'a) list" and ts
    by (induction ts arbitrary: acc) auto
  then show ?thesis by (simp add: flatten_topics_def)
qed

lemma flatten_consolidate: "flatten_topics (consolidate acc tp) = flatten_topics acc @ [tp]"
  by (cases acc rule: rev_cases) (auto simp: consolidate_def flatten_topics_eq)

definition runs :: "(string option \<times> 'a list) list \<Rightarrow> bool" where
  "runs ts \<longleftrightarrow> list_all (\<lambda>t. snd t \<noteq> []) ts \<and> successively (\<lambda>s t. fst s \<noteq> fst t) ts"

lemma runs_consolidate: "runs acc \<Longrightarrow> runs (consolidate acc tp)"
  by (cases acc rule: rev_cases) (auto simp: consolidate_def runs_def successively_append_iff)

lemma foldl_consolidate:
  "flatten_topics (foldl consolidate acc tps) = flatten_topics acc @ tps" "runs acc \<Longrightarrow> runs (foldl consolidate acc tps)"
  by (induction tps arbitrary: acc) (simp_all add: flatten_consolidate runs_consolidate)

text \<open>C33: The topics of a fetch request are those that were asked for. Whatever order the partitions are shuffled into,
  every partition of every topic is in the request exactly as often as in the arguments, under its own topic; no
  topic stands in the request without partitions, and neighbouring entries are of different topics.\<close>

theorem fetch_asks_for_all_partitions:
  "mset (flatten_topics (fetch_topics pick topics)) = mset (flatten_topics topics) \<and>
   list_all (\<lambda>t. snd t \<noteq> []) (fetch_topics pick topics) \<and>
   successively (\<lambda>s t. fst s \<noteq> fst t) (fetch_topics pick topics)"
proof -
  have "runs ([] :: (string option \<times> 'a list) list)" by (simp add: runs_def)
  then have "runs (fetch_topics pick topics)" unfolding fetch_topics_def by (rule foldl_consolidate(2))
  moreover have "flatten_topics (fetch_topics pick topics) = shuffle pick (flatten_topics topics)"
    by (simp add: fetch_topics_def foldl_consolidate(1)) (simp add: flatten_topics_def)
  ultimately show ?thesis by (simp add: mset_shuffle runs_def)
qed

end
