(* ===== verification/Admin_Checks.thy ===== *)
theory Admin_Checks
  imports Response_Check
begin

text \<open>
  The checks that the methods of \<^verbatim>\<open>src/admin/index.js\<close> make of their arguments before anything is sent, with the
  conversions of values to text that the messages of the errors use. Arguments are JavaScript values; taking apart
  \<^verbatim>\<open>null\<close> or \<^verbatim>\<open>undefined\<close> throws.
\<close>

subsection \<open>JavaScript\<close>

definition falsy :: "jv \<Rightarrow> bool" where
  "falsy v \<longleftrightarrow> v \<in> {JUndef, JNull, JBool False, JNum 0, JStr []}"

definition is_nullish :: "jv \<Rightarrow> bool" where "is_nullish v \<longleftrightarrow> v \<in> {JUndef, JNull}"

fun is_string :: "jv \<Rightarrow> bool" where "is_string (JStr _) = True" | "is_string _ = False"
fun is_number :: "jv \<Rightarrow> bool" where "is_number (JNum _) = True" | "is_number _ = False"
fun is_array :: "jv \<Rightarrow> bool" where "is_array (JArr _) = True" | "is_array _ = False"

fun typeof_object :: "jv \<Rightarrow> bool" where \<comment> \<open>\<open>typeof v === 'object'\<close>\<close>
  "typeof_object JUndef = False"
| "typeof_object (JBool _) = False"
| "typeof_object (JNum _) = False"
| "typeof_object (JStr _) = False"
| "typeof_object _ = True"

fun elems :: "jv \<Rightarrow> jv list" where "elems (JArr xs) = xs" | "elems _ = []"

fun has_own :: "jv \<Rightarrow> string \<Rightarrow> bool" where
  "has_own (JObj ps) name = (map_of ps name \<noteq> None)"
| "has_own _ name = False"

definition type_error :: raised where "type_error = Raised (native_error ''TypeError'' [])"

definition prop_of :: "string \<Rightarrow> jv \<Rightarrow> raised + jv" where \<comment> \<open>\<open>({ name }) => ...\<close> or \<open>x.name\<close>\<close>
  "prop_of name x = (if is_nullish x then Inl type_error else Inr (jget name x))"

text \<open>\<^verbatim>\<open>filter\<close> calls its function for all elements, \<^verbatim>\<open>find\<close> and \<^verbatim>\<open>some\<close> up to the first hit.\<close>

definition js_filter :: "(jv \<Rightarrow> raised + bool) \<Rightarrow> jv list \<Rightarrow> raised + jv list" where
  "js_filter f xs = rbind (rmap (\<lambda>x. rbind (f x) (\<lambda>b. Inr (x, b))) xs) (\<lambda>ps. Inr (map fst (filter snd ps)))"

fun js_find :: "(jv \<Rightarrow> raised + bool) \<Rightarrow> jv list \<Rightarrow> raised + jv option" where
  "js_find f [] = Inr None"
| "js_find f (x # xs) = rbind (f x) (\<lambda>b. if b then Inr (Some x) else js_find f xs)"

definition js_some :: "(jv \<Rightarrow> raised + bool) \<Rightarrow> jv list \<Rightarrow> raised + bool" where
  "js_some f xs = rbind (js_find f xs) (\<lambda>r. Inr (r \<noteq> None))"

text \<open>Conversion to text: \<^verbatim>\<open>`${v}`\<close> and \<^verbatim>\<open>JSON.stringify\<close>. Errors do not occur in arguments; they are written as empty objects.\<close>

definition latin :: "buffer \<Rightarrow> string" where "latin b = map (\<lambda>w. char_of (unat w)) b"

fun join_with :: "string \<Rightarrow> string list \<Rightarrow> string" where
  "join_with sep [] = []"
| "join_with sep [x] = x"
| "join_with sep (x # xs) = x @ sep @ join_with sep xs"

fun js_String :: "jv \<Rightarrow> string" where
  "js_String JUndef = ''undefined''"
| "js_String JNull = ''null''"
| "js_String (JBool b) = (if b then ''true'' else ''false'')"
| "js_String (JNum n) = bigint_to_string n"
| "js_String (JStr s) = s"
| "js_String (JBuf b) = latin b"
| "js_String (JArr xs) = join_with '','' (map (\<lambda>x. if is_nullish x then [] else js_String x) xs)"
| "js_String (JObj ps) = ''[object Object]''"
| "js_String (JErr e) = e_name e @ '': '' @ e_message e"

definition json_char :: "char \<Rightarrow> string" where
  "json_char c =
     (let n = of_char c :: nat
      in if n = 34 \<or> n = 92 then [CHR 0x5C, c]
         else if n = 8 then [CHR 0x5C, CHR ''b''] else if n = 12 then [CHR 0x5C, CHR ''f'']
         else if n = 10 then [CHR 0x5C, CHR ''n''] else if n = 13 then [CHR 0x5C, CHR ''r'']
         else if n = 9 then [CHR 0x5C, CHR ''t'']
         else if n < 32 then [CHR 0x5C] @ ''u00'' @ to_hex [of_nat n]
         else [c])"

definition json_quote :: "string \<Rightarrow> string" where
  "json_quote s = [CHR 0x22] @ concat (map json_char s) @ [CHR 0x22]"

definition json_object :: "(string \<times> string) list \<Rightarrow> string" where
  "json_object ps = ''{'' @ join_with '','' (map (\<lambda>(k, v). json_quote k @ '':'' @ v) ps) @ ''}''"

fun js_stringify :: "jv \<Rightarrow> string" where
  "js_stringify JUndef = ''null''"
| "js_stringify JNull = ''null''"
| "js_stringify (JBool b) = (if b then ''true'' else ''false'')"
| "js_stringify (JNum n) = bigint_to_string n"
| "js_stringify (JStr s) = json_quote s"
| "js_stringify (JBuf b) =
     json_object [(''type'', json_quote ''Buffer''), (''data'', ''['' @ join_with '','' (map (\<lambda>w. bigint_to_string (uint w)) b) @ '']'')]"
| "js_stringify (JArr xs) = ''['' @ join_with '','' (map js_stringify xs) @ '']''"
| "js_stringify (JObj ps) = json_object (map (\<lambda>(k, v). (k, js_stringify v)) (filter (\<lambda>p. snd p \<noteq> JUndef) ps))"
| "js_stringify (JErr e) = ''{}''"

definition quoted :: "string \<Rightarrow> string" where "quoted s = [CHR 0x22] @ s @ [CHR 0x22]"

subsection \<open>Checks\<close>

definition invalid :: "string \<Rightarrow> raised + 'a" where
  "invalid message = Inl (Raised (new_KafkaJSNonRetriableError (Text message) None))"

definition check :: "bool \<Rightarrow> string \<Rightarrow> raised + unit" where \<comment> \<open>\<open>if (bad) throw\<close>\<close>
  "check bad message = (if bad then invalid message else Inr ())"

definition check_array :: "string \<Rightarrow> jv \<Rightarrow> raised + unit" where
  "check_array what v = check (\<not> is_array v) (what @ js_String v)"

definition check_found :: "(jv \<Rightarrow> raised + bool) \<Rightarrow> jv list \<Rightarrow> (jv \<Rightarrow> string) \<Rightarrow> raised + unit" where
  \<comment> \<open>\<open>const x = xs.find(f); if (x) throw\<close>\<close>
  "check_found f xs message =
     rbind (js_find f xs) (\<lambda>r. case r of None \<Rightarrow> Inr () | Some x \<Rightarrow> check (\<not> falsy x) (message x))"

definition check_some :: "(jv \<Rightarrow> raised + bool) \<Rightarrow> jv list \<Rightarrow> string \<Rightarrow> raised + unit" where
  "check_some f xs message = rbind (js_some f xs) (\<lambda>b. check b message)"

definition bad_prop :: "string \<Rightarrow> (jv \<Rightarrow> bool) \<Rightarrow> jv \<Rightarrow> raised + bool" where
  "bad_prop name bad x = rbind (prop_of name x) (\<lambda>v. Inr (bad v))"

fun seq :: "(raised + unit) list \<Rightarrow> raised + unit" where
  "seq [] = Inr ()"
| "seq (c # cs) = rbind c (\<lambda>_. seq cs)"

definition not_string :: "jv \<Rightarrow> bool" where "not_string v \<longleftrightarrow> \<not> is_string v"
definition not_optional_string :: "jv \<Rightarrow> bool" where "not_optional_string v \<longleftrightarrow> \<not> is_string v \<and> v \<noteq> JUndef"
definition not_among :: "int list \<Rightarrow> jv \<Rightarrow> bool" where "not_among ns v \<longleftrightarrow> v \<notin> JNum ` set ns"
definition bad_index :: "jv \<Rightarrow> bool" where "bad_index v \<longleftrightarrow> (case v of JNum n \<Rightarrow> n < 0 | _ \<Rightarrow> True)"

subsection \<open>Topics\<close>

definition check_names :: "string \<Rightarrow> jv list \<Rightarrow> raised + unit" where
  "check_names what topics =
     rbind (js_filter (bad_prop ''topic'' not_string) topics) (\<lambda>bad. seq
       [check (bad \<noteq> []) (''Invalid '' @ what @ '' array, the topic names have to be a valid string''),
        check (length (remdups (map (jget ''topic'') topics)) < length topics)
          (''Invalid '' @ what @ '' array, it cannot have multiple entries for the same topic'')])"

fun check_indexed :: "(nat \<Rightarrow> 'a \<Rightarrow> raised + unit) \<Rightarrow> nat \<Rightarrow> 'a list \<Rightarrow> raised + unit" where \<comment> \<open>\<open>forEach((x, index) => ...)\<close>\<close>
  "check_indexed f i [] = Inr ()"
| "check_indexed f i (x # xs) = rbind (f i x) (\<lambda>_. check_indexed f (Suc i) xs)"

definition check_config_entry :: "string \<Rightarrow> nat \<Rightarrow> jv \<Rightarrow> raised + unit" where
  "check_config_entry topic index entry =
     (let start = ''Invalid configEntries for topic '' @ quoted topic @ ''. Entry '' @ bigint_to_string (int index) in seq
       ([check (\<not> typeof_object entry \<or> entry = JNull) (start @ '' must be an object'')] @
        map (\<lambda>name. check (\<not> has_own entry name \<or> \<not> is_string (jget name entry))
               (start @ '' must have a valid '' @ quoted name @ '' property'')) [''name'', ''value'']))"

definition check_configs :: "jv \<Rightarrow> raised + unit" where
  "check_configs t =
     (let topic = text_of (jget ''topic'' t); configEntries = jget ''configEntries'' t in
      if is_nullish configEntries then Inr ()
      else rbind (check (\<not> is_array configEntries)
                   (''Invalid configEntries for topic '' @ quoted topic @ '', must be an array'')) (\<lambda>_.
             check_indexed (check_config_entry topic) 0 (elems configEntries)))"

definition createTopics_check :: "jv \<Rightarrow> raised + unit" where
  "createTopics_check topics =
     seq [check_array ''Invalid topics array '' topics, check_names ''topics'' (elems topics), for_of (elems topics) check_configs]"

definition createPartitions_check :: "jv \<Rightarrow> raised + unit" where
  "createPartitions_check topicPartitions =
     seq [check_array ''Invalid topic partitions array '' topicPartitions,
          check (elems topicPartitions = []) ''Empty topic partitions array'',
          check_names ''topic partitions'' (elems topicPartitions)]"

definition deleteTopics_check :: "jv \<Rightarrow> raised + unit" where
  "deleteTopics_check topics =
     seq [check_array ''Invalid topics array '' topics,
          check (filter not_string (elems topics) \<noteq> []) ''Invalid topics array, the names must be a valid string'']"

definition topic_check :: "jv \<Rightarrow> raised + unit" where \<comment> \<open>of \<open>fetchTopicOffsets\<close> and \<open>fetchTopicOffsetsByTimestamp\<close>\<close>
  "topic_check topic = check (falsy topic \<or> \<not> is_string topic) (''Invalid topic '' @ js_String topic)"

subsection \<open>Partitions\<close>

definition check_assignment :: "string \<Rightarrow> jv \<Rightarrow> raised + unit" where
  "check_assignment topic a =
     rbind (prop_of ''partition'' a) (\<lambda>partition. let replicas = jget ''replicas'' a;
         msg = ''Invalid replica assignment: '' @ js_String replicas @ '' for topic: '' @ topic @ '' on partition: '' @ js_String partition
       in seq [check (bad_index partition) (''Invalid partitions index: '' @ js_String partition @ '' for topic: '' @ topic),
               check (\<not> is_array replicas) msg,
               check (filter bad_index (elems replicas) \<noteq> []) (msg @ ''. Replicas must be a non negative number'')])"

definition check_reassignment :: "jv \<Rightarrow> raised + unit" where
  "check_reassignment t =
     (let topic = text_of (jget ''topic'' t); assignment = jget ''partitionAssignment'' t in seq
       [check (\<not> is_array assignment) (''Invalid partitions array: '' @ js_String assignment @ '' for topic: '' @ topic),
        for_of (elems assignment) (check_assignment topic)])"

definition alterPartitionReassignments_check :: "jv \<Rightarrow> raised + unit" where
  "alterPartitionReassignments_check topics =
     seq [check_array ''Invalid topics array '' topics, check_names ''topics'' (elems topics), for_of (elems topics) check_reassignment]"

definition check_partition_array :: "jv \<Rightarrow> raised + unit" where
  "check_partition_array t =
     (let topic = text_of (jget ''topic'' t); partitions = jget ''partitions'' t;
          msg = ''Invalid partition array: '' @ js_String partitions @ '' for topic: '' @ topic in seq
       [check (\<not> is_array partitions) msg,
        check (filter bad_index (elems partitions) \<noteq> []) (msg @ ''. The partition indices have to be a valid number greater than 0.'')])"

definition listPartitionReassignments_check :: "jv \<Rightarrow> raised + unit" where
  "listPartitionReassignments_check topics =
     (if falsy topics then Inr ()
      else seq [check_array ''Invalid topics array '' topics, check_names ''topics'' (elems topics), for_of (elems topics) check_partition_array])"

subsection \<open>Configurations\<close>

definition CONFIG_RESOURCE_TYPES :: "int list" where "CONFIG_RESOURCE_TYPES = [0, 2, 4, 8]"
definition BROKER_CONFIG_TYPES :: "int list" where "BROKER_CONFIG_TYPES = [4, 8]" \<comment> \<open>\<open>BROKER\<close>, \<open>BROKER_LOGGER\<close>\<close>

definition shown :: "string \<Rightarrow> string \<Rightarrow> jv \<Rightarrow> string" where
  "shown what name r = what @ js_String (jget name r) @ '': '' @ js_stringify r"

definition check_resources :: "jv \<Rightarrow> raised + unit" where
  "check_resources resources = seq
     [check_array ''Invalid resources array '' resources,
      check (elems resources = []) ''Resources array cannot be empty'',
      check_found (bad_prop ''type'' (not_among CONFIG_RESOURCE_TYPES)) (elems resources) (shown ''Invalid resource type '' ''type''),
      check_found (bad_prop ''name'' (\<lambda>v. falsy v \<or> \<not> is_string v)) (elems resources) (shown ''Invalid resource name '' ''name'')]"

definition describeConfigs_check :: "jv \<Rightarrow> raised + unit" where
  "describeConfigs_check resources = seq
     [check_resources resources,
      check_found (bad_prop ''configNames'' (\<lambda>v. \<not> is_array v \<and> \<not> is_nullish v)) (elems resources)
        (shown ''Invalid resource configNames '' ''configNames'')]"

definition check_config_arrays :: "jv \<Rightarrow> raised + unit" where
  "check_config_arrays resources =
     check_found (bad_prop ''configEntries'' (\<lambda>v. \<not> is_array v)) (elems resources) (shown ''Invalid resource configEntries '' ''configEntries'')"

definition bad_config_value :: "jv \<Rightarrow> raised + bool" where
  "bad_config_value r =
     js_some (\<lambda>e. rbind (prop_of ''name'' e) (\<lambda>name. Inr (\<not> is_string name \<or> \<not> is_string (jget ''value'' e)))) (elems (jget ''configEntries'' r))"

definition alterConfigs_check :: "jv \<Rightarrow> raised + unit" where
  "alterConfigs_check resources = seq
     [check_resources resources, check_config_arrays resources,
      check_found bad_config_value (elems resources) (\<lambda>r. ''Invalid resource config value: '' @ js_stringify r)]"

definition incrementalAlterConfigs_check :: "jv \<Rightarrow> raised + unit" where
  "incrementalAlterConfigs_check resources = seq [check_resources resources, check_config_arrays resources]"

subsection \<open>Access control\<close>

definition ACL_OPERATION_TYPES :: "int list" where "ACL_OPERATION_TYPES = [0, 1, 2, 3, 4, 5, 6, 7, 8, 9, 10, 11, 12]"
definition RESOURCE_PATTERN_TYPES :: "int list" where "RESOURCE_PATTERN_TYPES = [0, 1, 2, 3, 4]"
definition ACL_PERMISSION_TYPES :: "int list" where "ACL_PERMISSION_TYPES = [0, 1, 2, 3]"
definition ACL_RESOURCE_TYPES :: "int list" where "ACL_RESOURCE_TYPES = [0, 1, 2, 3, 4, 5, 6]"

definition check_acl_types :: "jv list \<Rightarrow> raised + unit" where
  "check_acl_types acl = seq
     [check_found (bad_prop ''operation'' (not_among ACL_OPERATION_TYPES)) acl (shown ''Invalid operation type '' ''operation''),
      check_found (bad_prop ''resourcePatternType'' (not_among RESOURCE_PATTERN_TYPES)) acl
        (shown ''Invalid resource pattern type '' ''resourcePatternType''),
      check_found (bad_prop ''permissionType'' (not_among ACL_PERMISSION_TYPES)) acl (shown ''Invalid permission type '' ''permissionType''),
      check_found (bad_prop ''resourceType'' (not_among ACL_RESOURCE_TYPES)) acl (shown ''Invalid resource type '' ''resourceType'')]"

definition check_acl_texts :: "string \<Rightarrow> (jv \<Rightarrow> bool) \<Rightarrow> jv list \<Rightarrow> raised + unit" where
  "check_acl_texts what bad acl = seq
     [check_some (bad_prop ''principal'' bad) acl (what @ '', the principals have to be a valid string''),
      check_some (bad_prop ''host'' bad) acl (what @ '', the hosts have to be a valid string''),
      check_some (bad_prop ''resourceName'' bad) acl (what @ '', the resourceNames have to be a valid string'')]"

definition createAcls_check :: "jv \<Rightarrow> raised + unit" where
  "createAcls_check acl = seq
     [check_array ''Invalid ACL array '' acl, check (elems acl = []) ''Empty ACL array'',
      check_acl_texts ''Invalid ACL array'' not_string (elems acl), check_acl_types (elems acl)]"

definition deleteAcls_check :: "jv \<Rightarrow> raised + unit" where
  "deleteAcls_check filters = seq
     [check_array ''Invalid ACL Filter array '' filters, check (elems filters = []) ''Empty ACL Filter array'',
      check_acl_texts ''Invalid ACL Filter array'' not_optional_string (elems filters), check_acl_types (elems filters)]"

definition describeAcls_check :: "jv \<Rightarrow> raised + unit" where
  "describeAcls_check a = seq
     [check (not_optional_string (jget ''principal'' a)) ''Invalid principal, the principal have to be a valid string'',
      check (not_optional_string (jget ''host'' a)) ''Invalid host, the host have to be a valid string'',
      check (not_optional_string (jget ''resourceName'' a)) ''Invalid resourceName, the resourceName have to be a valid string'',
      check (not_among ACL_OPERATION_TYPES (jget ''operation'' a)) (''Invalid operation type '' @ js_String (jget ''operation'' a)),
      check (not_among RESOURCE_PATTERN_TYPES (jget ''resourcePatternType'' a))
        (''Invalid resource pattern filter type '' @ js_String (jget ''resourcePatternType'' a)),
      check (not_among ACL_PERMISSION_TYPES (jget ''permissionType'' a)) (''Invalid permission type '' @ js_String (jget ''permissionType'' a)),
      check (not_among ACL_RESOURCE_TYPES (jget ''resourceType'' a)) (''Invalid resource type '' @ js_String (jget ''resourceType'' a))]"

subsection \<open>Groups\<close>

definition deleteGroups_check :: "jv \<Rightarrow> raised + unit" where
  "deleteGroups_check groupIds = seq
     [check_array ''Invalid groupIds array '' groupIds,
      check (filter not_string (elems groupIds) \<noteq> []) ''Invalid groupId name: true'']"

subsection \<open>What passes the checks\<close>

lemma check_iff [simp]: "check bad m = Inr () \<longleftrightarrow> \<not> bad"
  by (simp add: check_def invalid_def)

lemma seq_iff [simp]: "seq cs = Inr () \<longleftrightarrow> (\<forall>c \<in> set cs. c = Inr ())"
  by (induction cs) (auto simp: rbind_def split: sum.splits)

declare seq.simps [simp del]

lemma for_of_iff [simp]: "for_of xs f = Inr () \<longleftrightarrow> (\<forall>x \<in> set xs. f x = Inr ())"
  by (induction xs) (auto simp: rbind_def split: sum.splits)

lemma check_indexed_iff: "check_indexed f i xs = Inr () \<longleftrightarrow> (\<forall>j < length xs. f (i + j) (xs ! j) = Inr ())"
proof (induction xs arbitrary: i)
  case (Cons x xs)
  have "(\<forall>j < length (x # xs). f (i + j) ((x # xs) ! j) = Inr ()) \<longleftrightarrow>
      f i x = Inr () \<and> (\<forall>j < length xs. f (Suc i + j) (xs ! j) = Inr ())"
    by (auto simp: less_Suc_eq_0_disj)
  then show ?case using Cons by (auto simp: rbind_def split: sum.splits)
qed simp

lemma js_filter_iff:
  "js_filter (bad_prop name bad) xs = Inr ys \<longleftrightarrow> (\<forall>x \<in> set xs. \<not> is_nullish x) \<and> ys = filter (\<lambda>x. bad (jget name x)) xs"
proof -
  have "rmap (\<lambda>x. rbind (bad_prop name bad x) (\<lambda>b. Inr (x, b))) xs = Inr ps \<longleftrightarrow>
      (\<forall>x \<in> set xs. \<not> is_nullish x) \<and> ps = map (\<lambda>x. (x, bad (jget name x))) xs" for ps
  proof (induction xs arbitrary: ps)
    case (Cons x xs)
    then show ?case by (cases "is_nullish x") (auto simp: bad_prop_def prop_of_def rbind_eq_Inr_conv)
  qed auto
  moreover have "map fst (filter snd (map (\<lambda>x. (x, bad (jget name x))) xs)) = filter (\<lambda>x. bad (jget name x)) xs" by (induction xs) simp_all
  ultimately show ?thesis by (auto simp: js_filter_def rbind_eq_Inr_conv)
qed

lemma length_remdups_less: "length (remdups xs) < length xs \<longleftrightarrow> \<not> distinct xs"
  using card_length [of xs] card_distinct [of xs] distinct_card [of xs] by (fastforce simp: length_remdups_card_conv)

definition named_topics :: "jv list \<Rightarrow> bool" where
  "named_topics ts \<longleftrightarrow> (\<forall>t \<in> set ts. \<not> is_nullish t \<and> is_string (jget ''topic'' t)) \<and> distinct (map (jget ''topic'') ts)"

lemma check_names_iff [simp]: "check_names what ts = Inr () \<longleftrightarrow> named_topics ts"
  unfolding check_names_def rbind_eq_Inr_conv js_filter_iff named_topics_def
  using length_remdups_less [of "map (jget ''topic'') ts"] by (auto simp: not_string_def filter_empty_conv)

definition valid_entry :: "jv \<Rightarrow> bool" where
  "valid_entry e \<longleftrightarrow> typeof_object e \<and> has_own e ''name'' \<and> has_own e ''value'' \<and> is_string (jget ''name'' e) \<and> is_string (jget ''value'' e)"

lemma check_config_entry_iff: "check_config_entry topic i e = Inr () \<longleftrightarrow> valid_entry e"
  by (cases e) (auto simp: check_config_entry_def Let_def valid_entry_def)

lemma check_configs_iff:
  "check_configs t = Inr () \<longleftrightarrow> is_nullish (jget ''configEntries'' t) \<or>
     is_array (jget ''configEntries'' t) \<and> (\<forall>e \<in> set (elems (jget ''configEntries'' t)). valid_entry e)"
  by (auto simp: check_configs_def Let_def rbind_eq_Inr_conv check_indexed_iff check_config_entry_iff all_set_conv_all_nth)

lemma bad_index_iff: "bad_index v \<longleftrightarrow> \<not> (\<exists>n \<ge> 0. v = JNum n)"
  by (cases v) (auto simp: bad_index_def)

definition valid_assignment :: "jv \<Rightarrow> bool" where
  "valid_assignment a \<longleftrightarrow> \<not> is_nullish a \<and> (\<exists>n \<ge> 0. jget ''partition'' a = JNum n) \<and>
     (\<exists>rs. jget ''replicas'' a = JArr rs \<and> (\<forall>r \<in> set rs. \<exists>n \<ge> 0. r = JNum n))"

lemma is_array_iff: "is_array v \<longleftrightarrow> (\<exists>xs. v = JArr xs)"
  by (cases v) auto

lemma check_assignment_iff: "check_assignment topic a = Inr () \<longleftrightarrow> valid_assignment a"
  by (auto simp: check_assignment_def valid_assignment_def prop_of_def Let_def bad_index_iff is_array_iff filter_empty_conv)

text \<open>C34: The checks of the admin client accept exactly the well-formed arguments. Topics to create are accepted if and only if they are an array of
  objects with different names, all of them strings, whose configuration entries, if there are any, are an array of
  objects with a name and a value of their own that are strings. Reassignments are accepted if and only if they are an array of objects with
  different names and arrays of assignments whose partition and replicas are numbers that are not negative.\<close>

theorem checks_accept_well_formed:
  "(createTopics_check v = Inr () \<longleftrightarrow> (\<exists>ts. v = JArr ts \<and> named_topics ts \<and>
      (\<forall>t \<in> set ts. jget ''configEntries'' t \<in> {JUndef, JNull} \<or>
         (\<exists>es. jget ''configEntries'' t = JArr es \<and> (\<forall>e \<in> set es. valid_entry e))))) \<and>
   (alterPartitionReassignments_check v = Inr () \<longleftrightarrow> (\<exists>ts. v = JArr ts \<and> named_topics ts \<and>
      (\<forall>t \<in> set ts. \<exists>as. jget ''partitionAssignment'' t = JArr as \<and> (\<forall>a \<in> set as. valid_assignment a))))"
proof -
  have nullish: "is_nullish w \<longleftrightarrow> w \<in> {JUndef, JNull}" for w by (simp add: is_nullish_def)
  have "check_configs t = Inr () \<longleftrightarrow> jget ''configEntries'' t \<in> {JUndef, JNull} \<or>
      (\<exists>es. jget ''configEntries'' t = JArr es \<and> (\<forall>e \<in> set es. valid_entry e))" for t
    unfolding check_configs_iff nullish is_array_iff by auto
  moreover have "check_reassignment t = Inr () \<longleftrightarrow>
      (\<exists>as. jget ''partitionAssignment'' t = JArr as \<and> (\<forall>a \<in> set as. valid_assignment a))" for t
    by (auto simp: check_reassignment_def Let_def check_assignment_iff is_array_iff)
  ultimately show ?thesis
    by (auto simp: createTopics_check_def alterPartitionReassignments_check_def check_array_def is_array_iff)
qed

definition sample_topics :: "string \<Rightarrow> jv" where
  "sample_topics name = JArr [JObj [(''topic'', JStr ''a''), (''configEntries'', JArr [JObj [(''name'', JStr ''k''), (''value'', JStr ''v'')]]),
     (''partitionAssignment'', JArr [JObj [(''partition'', JNum 0), (''replicas'', JArr [JNum 1, JNum 2])]])],
     JObj [(''topic'', JStr name), (''partitionAssignment'', JArr [])]]"

theorem checks_accept_well_formed_witness:
  "createTopics_check (sample_topics ''b'') = Inr () \<and> alterPartitionReassignments_check (sample_topics ''b'') = Inr () \<and>
   createTopics_check (sample_topics ''a'') \<noteq> Inr () \<and> alterPartitionReassignments_check (sample_topics ''a'') \<noteq> Inr ()"
  by (simp add: checks_accept_well_formed sample_topics_def named_topics_def valid_entry_def valid_assignment_def is_nullish_def)

end
