(* ===== verification/Admin.thy ===== *)
theory Admin
  imports Admin_Checks Cluster Subscription
begin

text \<open>
  The admin client, \<^verbatim>\<open>src/admin/index.js\<close>. It has no state of its own: its methods check their arguments
  (\<open>Admin_Checks\<close>), ask the cluster for brokers and call the methods of these. The cluster, its brokers and the consumer that
  \<^verbatim>\<open>setOffsets\<close> makes are parameters here, a state with the operations the methods call; \<open>Cluster\<close> and \<open>Broker\<close> have their models.
  A method of a broker gets the object with its arguments. Calls that run at the same time are made one after the other,
  and of several failures the first one counts. The events of the client and its log are left out.
\<close>

subsection \<open>Calls\<close>

type_synonym ('s, 'a) io = "'s \<Rightarrow> (raised + 'a) \<times> 's"

definition io_return :: "'a \<Rightarrow> ('s, 'a) io" where "io_return v s = (Inr v, s)"

definition io_lift :: "raised + 'a \<Rightarrow> ('s, 'a) io" where "io_lift r s = (r, s)"

definition io_bind :: "('s, 'a) io \<Rightarrow> ('a \<Rightarrow> ('s, 'b) io) \<Rightarrow> ('s, 'b) io" where
  "io_bind m f s = (case m s of (Inl e, s) \<Rightarrow> (Inl e, s) | (Inr v, s) \<Rightarrow> f v s)"

fun io_map :: "('a \<Rightarrow> ('s, 'b) io) \<Rightarrow> 'a list \<Rightarrow> ('s, 'b list) io" where \<comment> \<open>a loop with \<open>await\<close>\<close>
  "io_map f [] = io_return []"
| "io_map f (x # xs) = io_bind (f x) (\<lambda>y. io_bind (io_map f xs) (\<lambda>ys. io_return (y # ys)))"

fun all_of :: "('a \<Rightarrow> ('s, 'b) io) \<Rightarrow> 'a list \<Rightarrow> ('s, 'b list) io" where \<comment> \<open>\<open>Promise.all(xs.map(f))\<close>\<close>
  "all_of f [] s = (Inr [], s)"
| "all_of f (x # xs) s =
     (case f x s of (r, s) \<Rightarrow> case all_of f xs s of (rs, s) \<Rightarrow> (rbind r (\<lambda>y. rbind rs (\<lambda>ys. Inr (y # ys))), s))"

record 's admin_ops =
  ao_connect :: "('s, unit) io"
  ao_disconnect :: "('s, unit) io"
  ao_refreshMetadata :: "('s, unit) io"
  ao_refreshMetadataIfNecessary :: "('s, unit) io"
  ao_addTargetTopic :: "jv \<Rightarrow> ('s, unit) io"
  ao_deleteTargetTopic :: "jv \<Rightarrow> 's \<Rightarrow> 's"
  ao_findControllerBroker :: "('s, nat) io"
  ao_findBroker :: "jv \<Rightarrow> ('s, nat) io"
  ao_findGroupCoordinator :: "jv \<Rightarrow> ('s, nat) io"
  ao_nodeId :: "nat \<Rightarrow> int"
  ao_brokerIds :: "'s \<Rightarrow> string list"
  ao_findTopicPartitionMetadata :: "jv \<Rightarrow> 's \<Rightarrow> raised + partition_metadata list"
  ao_findLeaderForPartitions :: "jv \<Rightarrow> jv list \<Rightarrow> 's \<Rightarrow> raised + (int \<times> jv list) list"
  ao_fetchTopicsOffset :: "topic_request list \<Rightarrow> ('s, (string \<times> (int \<times> int) list) list) io"
  ao_metadata :: "jv \<Rightarrow> ('s, jv) io"
  ao_request :: "nat \<Rightarrow> string \<Rightarrow> jv \<Rightarrow> ('s, jv) io" \<comment> \<open>\<open>broker.method(args)\<close>\<close>
  ao_describeGroup :: "jv \<Rightarrow> jv \<Rightarrow> ('s, string) io" \<comment> \<open>a new consumer subscribes to the topic and describes its group\<close>
  ao_seek :: "jv \<Rightarrow> jv \<Rightarrow> jv list \<Rightarrow> ('s, unit) io" \<comment> \<open>it runs, paused, with these seeks up to its first fetch\<close>
  ao_partitions :: "raised \<Rightarrow> (jv \<times> jv \<times> err) list" \<comment> \<open>\<open>e.partitions\<close> of an error of deleting records\<close>
  ao_retries :: nat
  ao_delay :: "nat \<Rightarrow> rat"
  ao_took :: "nat \<Rightarrow> nat" \<comment> \<open>how long the polls of \<open>waitFor\<close> take\<close>

definition raised_err :: "raised \<Rightarrow> err" where
  "raised_err r = (case r of Raised e \<Rightarrow> e | Aggregate m _ \<Rightarrow> native_error ''KafkaJSAggregateError'' m)"

definition obj_of :: "(string \<times> jv) list \<Rightarrow> jv" where "obj_of ps = JObj (filter (\<lambda>p. snd p \<noteq> JUndef) ps)"

subsection \<open>Retrying\<close>

definition with_retries :: "'s admin_ops \<Rightarrow> (nat \<Rightarrow> 's \<Rightarrow> 'a attempt \<times> 's) \<Rightarrow> ('s, 'a) io" where
  "with_retries ops attempt s =
     (case retry_st (ao_retries ops) (ao_delay ops) attempt 0 s of (Inl e, s) \<Rightarrow> (Inl (Raised e), s) | (Inr v, s) \<Rightarrow> (Inr v, s))"

text \<open>The \<^verbatim>\<open>catch\<close> of most methods: errors of some types are thrown again and so retried, all others end the call.\<close>

definition settle_call :: "string list \<Rightarrow> raised + 'a \<Rightarrow> 'a attempt" where
  "settle_call types r =
     (case r of
        Inr v \<Rightarrow> Returns v
      | Inl e \<Rightarrow> (if raised_type e \<in> Some ` set types then Throws (raised_err e) else Bails (Some (raised_err e))))"

definition with_controller :: "'s admin_ops \<Rightarrow> (nat \<Rightarrow> ('s, 'a) io) \<Rightarrow> ('s, 'a) io" where
  "with_controller ops body =
     io_bind (ao_refreshMetadata ops) (\<lambda>_. io_bind (ao_findControllerBroker ops) body)"

definition controller_call :: "'s admin_ops \<Rightarrow> string list \<Rightarrow> (nat \<Rightarrow> ('s, 'a) io) \<Rightarrow> ('s, 'a) io" where
  "controller_call ops types body =
     with_retries ops (\<lambda>_ s. case with_controller ops body s of (r, s) \<Rightarrow> (settle_call types r, s))"

definition after_check :: "raised + unit \<Rightarrow> ('s, 'a) io \<Rightarrow> ('s, 'a) io" where
  "after_check c m s = (case c of Inl e \<Rightarrow> (Inl e, s) | Inr _ \<Rightarrow> m s)"

subsection \<open>Connecting and topics\<close>

definition admin_connect where "admin_connect ops = ao_connect ops"
definition admin_disconnect where "admin_disconnect ops = ao_disconnect ops"

definition admin_listTopics :: "'s admin_ops \<Rightarrow> ('s, jv list) io" where
  "admin_listTopics ops =
     io_bind (ao_metadata ops JUndef) (\<lambda>m. io_bind (io_lift (jelems (jget ''topicMetadata'' m))) (\<lambda>ts.
       io_lift (rmap (prop_of ''topic'') ts)))"

text \<open>
  \<^verbatim>\<open>waitFor\<close> (\<^verbatim>\<open>src/utils/waitFor.js\<close>): the condition is polled after each delay until it holds or fails, or the time is up. A poll that has
  begun is finished, but its result comes too late then. The delay is positive.
\<close>

function waitFor :: "(nat \<Rightarrow> nat) \<Rightarrow> nat \<Rightarrow> nat \<Rightarrow> string \<Rightarrow> ('s, bool) io \<Rightarrow> nat \<Rightarrow> nat \<Rightarrow> ('s, unit) io" where
  "waitFor took delay maxWait timeoutMessage fn i t s =
     (if maxWait \<le> t \<or> delay = 0 then (Inl (Raised (new_KafkaJSTimeout (Text timeoutMessage))), s)
      else let t' = t + delay + took i in
        case fn s of
          (r, s) \<Rightarrow>
            (if r = Inr False then waitFor took delay maxWait timeoutMessage fn (Suc i) t' s
             else if maxWait < t' then (Inl (Raised (new_KafkaJSTimeout (Text timeoutMessage))), s)
             else (rbind r (\<lambda>_. Inr ()), s)))"
  by pat_completeness auto
termination
  by (relation "measure (\<lambda>(took, delay, maxWait, m, fn, i, t, s). maxWait - t)") auto

declare waitFor.simps [simp del]

definition retryOnLeaderNotAvailable :: "'s admin_ops \<Rightarrow> nat \<Rightarrow> ('s, jv) io \<Rightarrow> ('s, unit) io" where
  "retryOnLeaderNotAvailable ops maxWait fn =
     waitFor (ao_took ops) 100 maxWait ''Timed out while waiting for topic leaders''
       (\<lambda>s. case fn s of
              (Inr v, s) \<Rightarrow> (Inr (\<not> falsy v), s)
            | (Inl e, s) \<Rightarrow> (if raised_type e = Some ''LEADER_NOT_AVAILABLE'' then Inr False else Inl e, s)) 0 0"

definition all_already_exist :: "raised \<Rightarrow> bool" where
  "all_already_exist r = (case r of Aggregate _ es \<Rightarrow> list_all (\<lambda>e. e_type e = Some ''TOPIC_ALREADY_EXISTS'') es | Raised _ \<Rightarrow> False)"

definition createTopics_body :: "'s admin_ops \<Rightarrow> jv \<Rightarrow> jv \<Rightarrow> nat option \<Rightarrow> bool \<Rightarrow> nat \<Rightarrow> ('s, bool) io" where
  "createTopics_body ops topics validateOnly timeout waitForLeaders broker =
     io_bind (ao_request ops broker ''createTopics''
               (obj_of [(''topics'', topics), (''validateOnly'', validateOnly),
                        (''timeout'', case timeout of None \<Rightarrow> JUndef | Some t \<Rightarrow> JNum (int t))])) (\<lambda>_.
       io_bind (if waitForLeaders
                then retryOnLeaderNotAvailable ops (case timeout of None \<Rightarrow> 10000 | Some t \<Rightarrow> t)
                       (ao_request ops broker ''metadata'' (JArr (remdups (map (jget ''topic'') (elems topics)))))
                else io_return ()) (\<lambda>_.
         io_return True))"

definition settle_creation :: "raised + bool \<Rightarrow> bool attempt" where
  "settle_creation r =
     (case r of
        Inl e \<Rightarrow> (if raised_type e = Some ''NOT_CONTROLLER'' then Throws (raised_err e)
                  else if all_already_exist e then Returns False
                  else Bails (Some (raised_err e)))
      | Inr v \<Rightarrow> Returns v)"

definition admin_createTopics :: "'s admin_ops \<Rightarrow> jv \<Rightarrow> jv \<Rightarrow> nat option \<Rightarrow> bool \<Rightarrow> ('s, bool) io" where
  "admin_createTopics ops topics validateOnly timeout waitForLeaders =
     after_check (createTopics_check topics)
       (with_retries ops (\<lambda>_ s. case with_controller ops (createTopics_body ops topics validateOnly timeout waitForLeaders) s of
          (r, s) \<Rightarrow> (settle_creation r, s)))"

definition admin_createPartitions :: "'s admin_ops \<Rightarrow> jv \<Rightarrow> jv \<Rightarrow> jv \<Rightarrow> ('s, unit) io" where
  "admin_createPartitions ops topicPartitions validateOnly timeout =
     after_check (createPartitions_check topicPartitions)
       (controller_call ops [''NOT_CONTROLLER''] (\<lambda>broker.
          io_bind (ao_request ops broker ''createPartitions''
            (obj_of [(''topicPartitions'', topicPartitions), (''validateOnly'', validateOnly), (''timeout'', timeout)])) (\<lambda>_. io_return ())))"

definition admin_deleteTopics :: "'s admin_ops \<Rightarrow> jv \<Rightarrow> jv \<Rightarrow> ('s, unit) io" where
  "admin_deleteTopics ops topics timeout =
     after_check (deleteTopics_check topics)
       (controller_call ops [''NOT_CONTROLLER'', ''UNKNOWN_TOPIC_OR_PARTITION''] (\<lambda>broker.
          io_bind (ao_request ops broker ''deleteTopics'' (obj_of [(''topics'', topics), (''timeout'', timeout)])) (\<lambda>_ s.
            ao_refreshMetadata ops (fold (ao_deleteTargetTopic ops) (elems topics) s))))"

subsection \<open>Offsets of topics\<close>

definition settle_offsets :: "'s admin_ops \<Rightarrow> (raised + 'a) \<times> 's \<Rightarrow> 'a attempt \<times> 's" where
  "settle_offsets ops x =
     (case x of
        (Inr v, s) \<Rightarrow> (Returns v, s)
      | (Inl e, s) \<Rightarrow>
          (if raised_type e = Some ''UNKNOWN_TOPIC_OR_PARTITION''
           then case ao_refreshMetadata ops s of (Inl e', s) \<Rightarrow> (Throws (raised_err e'), s) | (Inr _, s) \<Rightarrow> (Throws (raised_err e), s)
           else (Bails (Some (raised_err e)), s)))"

definition ask_offsets :: "'s admin_ops \<Rightarrow> jv \<Rightarrow> partition_metadata list \<Rightarrow> bool \<Rightarrow> int option \<Rightarrow> ('s, (int \<times> int) list) io" where
  "ask_offsets ops topic metadata fromBeginning timestamp =
     io_bind (ao_fetchTopicsOffset ops
       [\<lparr>tr_topic = text_of topic, tr_partitions = map partitionId metadata, tr_fromBeginning = fromBeginning, tr_fromTimestamp = timestamp\<rparr>])
       (\<lambda>answer. io_lift (if answer = [] then Inl type_error else Inr (snd (last answer))))" \<comment> \<open>\<open>const { partitions } = answer.pop()\<close>\<close>

definition known_partitions :: "'s admin_ops \<Rightarrow> jv \<Rightarrow> ('s, partition_metadata list) io" where
  "known_partitions ops topic =
     io_bind (ao_addTargetTopic ops topic) (\<lambda>_. io_bind (ao_refreshMetadataIfNecessary ops) (\<lambda>_ s.
       (ao_findTopicPartitionMetadata ops topic s, s)))"

definition offset_in :: "(int \<times> int) list \<Rightarrow> int \<Rightarrow> raised + int" where \<comment> \<open>\<open>ps.find(p => p.partition === partition).offset\<close>\<close>
  "offset_in ps prt = (case map_of ps prt of None \<Rightarrow> Inl type_error | Some offset \<Rightarrow> Inr offset)"

record topic_offset =
  to_partition :: int
  to_offset :: int
  to_high :: int
  to_low :: int

definition join_offsets :: "(int \<times> int) list \<Rightarrow> (int \<times> int) list \<Rightarrow> raised + topic_offset list" where
  "join_offsets highs lows =
     rmap (\<lambda>(partition, offset). rbind (offset_in lows partition) (\<lambda>low.
       Inr \<lparr>to_partition = partition, to_offset = offset, to_high = offset, to_low = low\<rparr>)) highs"

definition admin_fetchTopicOffsets :: "'s admin_ops \<Rightarrow> jv \<Rightarrow> ('s, topic_offset list) io" where
  "admin_fetchTopicOffsets ops topic =
     after_check (topic_check topic)
       (with_retries ops (\<lambda>_ s. settle_offsets ops
          (io_bind (known_partitions ops topic) (\<lambda>metadata.
             io_bind (ask_offsets ops topic metadata False None) (\<lambda>highs.
               io_bind (ask_offsets ops topic metadata True None) (\<lambda>lows.
                 io_lift (join_offsets highs lows)))) s)))"

definition admin_fetchTopicOffsetsByTimestamp :: "'s admin_ops \<Rightarrow> jv \<Rightarrow> int option \<Rightarrow> ('s, (int \<times> int) list) io" where
  "admin_fetchTopicOffsetsByTimestamp ops topic timestamp =
     after_check (topic_check topic)
       (with_retries ops (\<lambda>_ s. settle_offsets ops
          (io_bind (known_partitions ops topic) (\<lambda>metadata.
             io_bind (ask_offsets ops topic metadata False None) (\<lambda>highs.
               io_bind (ask_offsets ops topic metadata False timestamp) (\<lambda>lows.
                 io_lift (rmap (\<lambda>(partition, offset).
                   rbind (if offset \<ge> 0 then Inr offset else offset_in highs partition) (\<lambda>offset. Inr (partition, offset))) lows)))) s)))"

subsection \<open>Offsets of groups\<close>

text \<open>The partitions of a topic; they are sorted as strings.\<close>

definition findTopicPartitions :: "'s admin_ops \<Rightarrow> jv \<Rightarrow> ('s, int list) io" where
  "findTopicPartitions ops topic = io_bind (known_partitions ops topic) (\<lambda>metadata. io_return (js_sort (map partitionId metadata)))"

definition check_id :: "string \<Rightarrow> jv \<Rightarrow> raised + unit" where
  "check_id what v = check (falsy v) (''Invalid '' @ what @ '' '' @ js_String v)"

definition isConsumerGroupRunning :: "string \<Rightarrow> bool" where \<comment> \<open>holds when no instance is running\<close>
  "isConsumerGroupRunning state \<longleftrightarrow> state \<in> {''Empty'', ''Dead''}"

definition admin_setOffsets :: "'s admin_ops \<Rightarrow> jv \<Rightarrow> jv \<Rightarrow> jv \<Rightarrow> ('s, unit) io" where
  "admin_setOffsets ops groupId topic partitions =
     after_check (seq [check_id ''groupId'' groupId, check_id ''topic'' topic,
                       check (falsy partitions \<or> partitions = JArr []) ''Invalid partitions''])
       (io_bind (ao_describeGroup ops groupId topic) (\<lambda>state.
          io_bind (io_lift (check (\<not> isConsumerGroupRunning state)
                    (''The consumer group must have no running instances, current state: '' @ state))) (\<lambda>_.
            ao_seek ops groupId topic (elems partitions))))"

definition admin_resetOffsets :: "'s admin_ops \<Rightarrow> jv \<Rightarrow> jv \<Rightarrow> bool \<Rightarrow> ('s, unit) io" where
  "admin_resetOffsets ops groupId topic earliest =
     after_check (seq [check_id ''groupId'' groupId, check_id ''topic'' topic])
       (io_bind (findTopicPartitions ops topic) (\<lambda>partitions.
          admin_setOffsets ops groupId topic
            (JArr (map (\<lambda>partition. JObj [(''partition'', JNum partition), (''offset'', JNum (defaultOffset earliest))]) partitions))))"

text \<open>
  \<^verbatim>\<open>resolveOffsets\<close> replaces the special offsets of a group by the first or last one of the partition, and commits the result.
\<close>

definition resolved_offset :: "topic_offset list \<Rightarrow> jv \<Rightarrow> jv \<Rightarrow> raised + jv" where
  "resolved_offset offsets prt offset =
     (if offset = JNum EARLIEST_OFFSET \<or> offset = JNum LATEST_OFFSET
      then case find (\<lambda>x. JNum (to_partition x) = prt) (rev offsets) of
             None \<Rightarrow> Inl type_error
           | Some x \<Rightarrow> Inr (JNum (if offset = JNum EARLIEST_OFFSET then to_low x else to_high x))
      else Inr offset)"

definition resolve_partition :: "topic_offset list \<Rightarrow> jv \<Rightarrow> raised + jv" where
  "resolve_partition offsets p =
     (case p of
        JObj ps \<Rightarrow>
          rbind (resolved_offset offsets (jget ''partition'' p) (jget ''offset'' p)) (\<lambda>offset.
            Inr (JObj ([(''partition'', jget ''partition'' p), (''offset'', offset)] @
                       AList.delete ''offset'' (AList.delete ''partition'' ps))))
      | _ \<Rightarrow> Inl type_error)"

definition resolve_topic :: "'s admin_ops \<Rightarrow> jv \<Rightarrow> jv \<Rightarrow> ('s, jv) io" where
  "resolve_topic ops groupId t =
     (let topic = jget ''topic'' t in
      io_bind (admin_fetchTopicOffsets ops topic) (\<lambda>offsets.
        io_bind (io_lift (rbind (jelems (jget ''partitions'' t)) (rmap (resolve_partition offsets)))) (\<lambda>partitions.
          io_bind (admin_setOffsets ops groupId topic (JArr partitions)) (\<lambda>_.
            io_return (JObj [(''topic'', topic), (''partitions'', JArr partitions)])))))"

definition complete_topic :: "jv \<Rightarrow> raised + jv" where
  "complete_topic t =
     rbind (jelems (jget ''partitions'' t)) (\<lambda>ps.
       Inr (JObj [(''topic'', jget ''topic'' t),
                  (''partitions'', JArr (map (\<lambda>p. JObj [(''partition'', jget ''partition'' p), (''offset'', jget ''offset'' p),
                     (''metadata'', if falsy (jget ''metadata'' p) then JNull else jget ''metadata'' p)]) ps))]))"

definition admin_fetchOffsets :: "'s admin_ops \<Rightarrow> jv \<Rightarrow> jv \<Rightarrow> bool \<Rightarrow> ('s, jv list) io" where
  "admin_fetchOffsets ops groupId topics resolve =
     (let topics = (if falsy topics then JArr [] else topics) in
      after_check (seq [check_id ''groupId'' groupId, check (\<not> is_array topics) ''Expected topics array to be set''])
        (io_bind (ao_findGroupCoordinator ops (JObj [(''groupId'', groupId)])) (\<lambda>coordinator.
           io_bind (all_of (\<lambda>topic. io_bind (findTopicPartitions ops topic) (\<lambda>partitions.
                      io_return (JObj [(''topic'', topic),
                        (''partitions'', JArr (map (\<lambda>p. JObj [(''partition'', JNum p)]) partitions))]))) (elems topics)) (\<lambda>topicsToFetch.
             io_bind (ao_request ops coordinator ''offsetFetch'' (JObj [(''groupId'', groupId), (''topics'', JArr topicsToFetch)])) (\<lambda>response.
               io_bind (io_lift (jelems (jget ''responses'' response))) (\<lambda>consumerOffsets.
                 io_bind (if resolve then all_of (resolve_topic ops groupId) consumerOffsets else io_return consumerOffsets) (\<lambda>offsets.
                   io_lift (rmap complete_topic offsets))))))))"

subsection \<open>Configurations\<close>

text \<open>\<^verbatim>\<open>groupBy\<close> of \<^verbatim>\<open>src/utils/groupBy.js\<close>, with a function that is awaited for each element.\<close>

fun groupBy :: "('a \<Rightarrow> ('s, 'k) io) \<Rightarrow> ('k \<times> 'a list) list \<Rightarrow> 'a list \<Rightarrow> ('s, ('k \<times> 'a list) list) io" where
  "groupBy f result [] = io_return result"
| "groupBy f result (x # xs) =
     io_bind (f x) (\<lambda>k. groupBy f (AList.update k (case map_of result k of None \<Rightarrow> [x] | Some g \<Rightarrow> g @ [x]) result) xs)"

definition isBrokerConfig :: "jv \<Rightarrow> bool" where
  "isBrokerConfig type \<longleftrightarrow> type \<in> JNum ` set BROKER_CONFIG_TYPES"

definition broker_for :: "'s admin_ops \<Rightarrow> nat \<Rightarrow> jv \<Rightarrow> ('s, nat) io" where
  "broker_for ops defaultBroker r =
     (if isBrokerConfig (jget ''type'' r) then ao_findBroker ops (JStr (js_String (jget ''name'' r))) else io_return defaultBroker)"

definition groupResourcesByBroker :: "'s admin_ops \<Rightarrow> jv list \<Rightarrow> nat \<Rightarrow> ('s, (nat \<times> jv list) list) io" where
  "groupResourcesByBroker ops resources defaultBroker = groupBy (broker_for ops defaultBroker) [] resources"

definition config_call :: "'s admin_ops \<Rightarrow> string \<Rightarrow> string \<Rightarrow> (string \<times> jv) \<Rightarrow> jv \<Rightarrow> ('s, jv) io" where
  "config_call ops method answer option resources =
     controller_call ops [''NOT_CONTROLLER''] (\<lambda>controller.
       io_bind (groupResourcesByBroker ops (elems resources) controller) (\<lambda>groups.
         io_bind (all_of (\<lambda>(broker, rs). ao_request ops broker method (obj_of [(''resources'', JArr rs), option])) groups) (\<lambda>responses.
           io_bind (io_lift (flatMap (\<lambda>r. jelems (jget answer r)) responses)) (\<lambda>rs.
             io_return (JObj [(''resources'', JArr rs)])))))"

definition admin_describeConfigs :: "'s admin_ops \<Rightarrow> jv \<Rightarrow> jv \<Rightarrow> ('s, jv) io" where
  "admin_describeConfigs ops resources includeSynonyms =
     after_check (describeConfigs_check resources)
       (config_call ops ''describeConfigs'' ''resources'' (''includeSynonyms'', includeSynonyms) resources)"

definition admin_alterConfigs :: "'s admin_ops \<Rightarrow> jv \<Rightarrow> jv \<Rightarrow> ('s, jv) io" where
  "admin_alterConfigs ops resources validateOnly =
     after_check (alterConfigs_check resources)
       (config_call ops ''alterConfigs'' ''resources'' (''validateOnly'', JBool (\<not> falsy validateOnly)) resources)"

definition admin_incrementalAlterConfigs :: "'s admin_ops \<Rightarrow> jv \<Rightarrow> jv \<Rightarrow> ('s, jv) io" where
  "admin_incrementalAlterConfigs ops resources validateOnly =
     after_check (incrementalAlterConfigs_check resources)
       (config_call ops ''incrementalAlterConfigs'' ''responses'' (''validateOnly'', JBool (\<not> falsy validateOnly)) resources)"

subsection \<open>The cluster\<close>

definition admin_fetchTopicMetadata :: "'s admin_ops \<Rightarrow> jv \<Rightarrow> ('s, jv) io" where
  "admin_fetchTopicMetadata ops topics =
     (let topics = (if topics = JUndef then JArr [] else topics) in
      after_check (if falsy topics then Inr () else rbind (jelems topics) (\<lambda>ts. for_of ts topic_check))
        (io_bind (ao_metadata ops (JObj [(''topics'', topics)])) (\<lambda>m.
           io_bind (io_lift (jelems (jget ''topicMetadata'' m))) (\<lambda>ts.
             io_return (JObj [(''topics'', JArr (map (\<lambda>t. JObj [(''name'', jget ''topic'' t), (''partitions'', jget ''partitionMetadata'' t)]) ts))])))))"

definition NO_CONTROLLER_ID :: int where "NO_CONTROLLER_ID = - 1"

definition admin_describeCluster :: "'s admin_ops \<Rightarrow> ('s, jv) io" where
  "admin_describeCluster ops =
     io_bind (ao_metadata ops (JObj [(''topics'', JArr [])])) (\<lambda>m.
       io_bind (io_lift (jelems (jget ''brokers'' m))) (\<lambda>nodes.
         let controllerId = jget ''controllerId'' m in
         io_return (JObj [(''brokers'', JArr (map (\<lambda>n. JObj (map (\<lambda>k. (k, jget k n)) [''nodeId'', ''host'', ''port''])) nodes)),
           (''controller'', if is_nullish controllerId \<or> controllerId = JNum NO_CONTROLLER_ID then JNull else controllerId),
           (''clusterId'', jget ''clusterId'' m)])))"

fun concat_value :: "jv list \<Rightarrow> jv \<Rightarrow> jv list" where \<comment> \<open>\<open>xs.concat(v)\<close>\<close>
  "concat_value xs (JArr ys) = xs @ ys"
| "concat_value xs v = xs @ [v]"

definition admin_listGroups :: "'s admin_ops \<Rightarrow> ('s, jv) io" where
  "admin_listGroups ops =
     io_bind (ao_refreshMetadata ops) (\<lambda>_ s.
       io_bind (io_map (\<lambda>nodeId. io_bind (ao_findBroker ops (JStr nodeId)) (\<lambda>broker. ao_request ops broker ''listGroups'' JUndef)) (ao_brokerIds ops s)) (\<lambda>responses.
         io_return (JObj [(''groups'', JArr (foldl (\<lambda>gs r. concat_value gs (jget ''groups'' r)) [] responses))])) s)"

subsection \<open>Groups\<close>

text \<open>
  Groups of the elements by the node of their broker: an object whose keys are node ids, which are enumerated in their order.
\<close>

definition add_to_node :: "bool \<Rightarrow> (nat \<Rightarrow> int) \<Rightarrow> (int \<times> nat \<times> 'a list) list \<Rightarrow> nat \<times> 'a \<Rightarrow> (int \<times> nat \<times> 'a list) list" where
  \<comment> \<open>either the first broker of a node is kept or the last one\<close>
  "add_to_node keepFirst nodeId obj x =
     AList.update (nodeId (fst x))
       (case map_of obj (nodeId (fst x)) of
          None \<Rightarrow> (fst x, [snd x])
        | Some (broker, xs) \<Rightarrow> (if keepFirst then broker else fst x, xs @ [snd x])) obj"

definition by_node :: "bool \<Rightarrow> (nat \<Rightarrow> int) \<Rightarrow> (nat \<times> 'a) list \<Rightarrow> (int \<times> nat \<times> 'a list) list" where
  "by_node keepFirst nodeId xs = sort_key fst (foldl (add_to_node keepFirst nodeId) [] xs)"

definition coordinator_of :: "'s admin_ops \<Rightarrow> jv \<Rightarrow> ('s, nat \<times> jv) io" where
  "coordinator_of ops groupId =
     io_bind (ao_findGroupCoordinator ops (JObj [(''groupId'', groupId)])) (\<lambda>coordinator. io_return (coordinator, groupId))"

definition plain_retry :: "'s admin_ops \<Rightarrow> ('s, 'a) io \<Rightarrow> ('s, 'a) io" where \<comment> \<open>\<open>retrier(() => m())\<close>\<close>
  "plain_retry ops m =
     with_retries ops (\<lambda>_ s. case m s of (Inr v, s) \<Rightarrow> (Returns v, s) | (Inl e, s) \<Rightarrow> (Throws (raised_err e), s))"

definition admin_describeGroups :: "'s admin_ops \<Rightarrow> jv list \<Rightarrow> ('s, jv) io" where
  "admin_describeGroups ops groupIds =
     io_bind (all_of (coordinator_of ops) groupIds) (\<lambda>coordinators.
       io_bind (all_of (\<lambda>(node, coordinator, ids).
                  io_bind (plain_retry ops (ao_request ops coordinator ''describeGroups'' (JObj [(''groupIds'', JArr ids)])))
                    (\<lambda>r. io_return (jget ''groups'' r))) (by_node True (ao_nodeId ops) coordinators)) (\<lambda>responses.
         io_return (JObj [(''groups'', JArr (foldl concat_value [] responses))])))"

definition new_KafkaJSDeleteGroupsError :: err where
  "new_KafkaJSDeleteGroupsError = with_name ''KafkaJSDeleteGroupsError'' (new_KafkaJSError (Text ''Error in DeleteGroups'') True None)"

text \<open>What is left to delete is kept across the attempts.\<close>

definition delete_attempt :: "'s admin_ops \<Rightarrow> jv list \<Rightarrow> 's \<Rightarrow> (raised + jv list) \<times> jv list \<times> 's" where
  "delete_attempt ops ids s =
     (if ids = [] then (Inr [], ids, s)
      else case io_bind (ao_refreshMetadata ops) (\<lambda>_. io_bind (io_map (coordinator_of ops) ids) (\<lambda>coordinators.
                  io_bind (all_of (\<lambda>(node, broker, gs). ao_request ops broker ''deleteGroups'' (JArr gs)) (by_node False (ao_nodeId ops) coordinators)) (\<lambda>res.
                    io_lift (flatMap (\<lambda>r. jelems (jget ''results'' r)) res)))) s of
             (Inl e, s) \<Rightarrow> (Inl e, ids, s)
           | (Inr results, s) \<Rightarrow>
               (let errors = filter (\<lambda>r. jget ''errorCode'' r \<noteq> JNum 0) results
                in (if errors = [] then Inr results else Inl (Raised new_KafkaJSDeleteGroupsError), map (jget ''groupId'') errors, s)))"

definition admin_deleteGroups :: "'s admin_ops \<Rightarrow> jv \<Rightarrow> ('s, jv list) io" where
  "admin_deleteGroups ops groupIds =
     after_check (deleteGroups_check groupIds)
       (\<lambda>s. case retry_st (ao_retries ops) (ao_delay ops) (\<lambda>_ (ids, s). case delete_attempt ops ids s of
                     (r, ids, s) \<Rightarrow> (settle_call [''NOT_CONTROLLER'', ''COORDINATOR_NOT_AVAILABLE''] r, ids, s)) 0 (elems groupIds, s) of
               (Inl e, _, s) \<Rightarrow> (Inl (Raised e), s)
             | (Inr v, _, s) \<Rightarrow> (Inr v, s))"

subsection \<open>Records\<close>

definition leader_not_found :: err where
  "leader_not_found = with_name ''KafkaJSBrokerNotFound'' (new_KafkaJSError (Text ''Could not find the leader for the partition'') False None)"

definition delete_on :: "'s admin_ops \<Rightarrow> jv \<Rightarrow> int \<times> jv list \<Rightarrow> ('s, jv) io" where
  "delete_on ops topic entry =
     io_bind (ao_findBroker ops (JStr (bigint_to_string (fst entry)))) (\<lambda>broker.
       ao_request ops broker ''deleteRecords'' (JObj [(''topics'', JArr [JObj [(''topic'', topic), (''partitions'', JArr (snd entry))]])]))"

text \<open>The requests of one attempt: which entries remain, the errors of partitions, and the first other error.\<close>

fun delete_all :: "'s admin_ops \<Rightarrow> jv \<Rightarrow> (int \<times> jv list) list \<Rightarrow> 's \<Rightarrow> ((int \<times> jv list) list \<times> (jv \<times> jv \<times> err) list \<times> raised list) \<times> 's" where
  "delete_all ops topic [] s = (([], [], []), s)"
| "delete_all ops topic (x # xs) s =
     (case delete_on ops topic x s of
        (r, s) \<Rightarrow> (case delete_all ops topic xs s of
          ((rest, parts, others), s) \<Rightarrow>
            ((case r of
                Inr _ \<Rightarrow> (rest, parts, others)
              | Inl e \<Rightarrow> (if raised_name e = ''KafkaJSDeleteTopicRecordsError'' then (x # rest, ao_partitions ops e @ parts, others)
                         else (x # rest, parts, e # others))), s)))"

definition records_attempt :: "'s admin_ops \<Rightarrow> jv \<Rightarrow> (int \<times> jv list) list \<Rightarrow> 's \<Rightarrow> unit attempt \<times> (int \<times> jv list) list \<times> 's" where
  "records_attempt ops topic entries s =
     (case delete_all ops topic entries s of
        ((rest, parts, e # _), s) \<Rightarrow>
          (Throws (if e_retriable (raised_err e) = Some True then raised_err type_error else raised_err e), rest, s)
      | ((rest, [], []), s) \<Rightarrow> (Returns (), rest, s)
      | ((rest, parts, []), s) \<Rightarrow>
          (let e = new_KafkaJSDeleteTopicRecordsError (map (\<lambda>(_, _, err). Some err) parts) in
           if e_retriable e = Some True \<and> (\<exists>(_, _, err) \<in> set parts. staleMetadata err \<or> e_name err = ''KafkaJSMetadataNotLoaded'')
           then case ao_refreshMetadata ops s of
                  (Inl e', s) \<Rightarrow> (Throws (raised_err e'), rest, s)
                | (Inr _, s) \<Rightarrow> (Throws e, rest, s)
           else (Throws e, rest, s)))"

definition admin_deleteTopicRecords :: "'s admin_ops \<Rightarrow> jv \<Rightarrow> jv \<Rightarrow> ('s, unit) io" where
  "admin_deleteTopicRecords ops topic partitions =
     after_check (seq [check (falsy topic \<or> \<not> is_string topic) (''Invalid topic '' @ quoted (js_String topic)),
                       check (falsy partitions \<or> partitions = JArr []) ''Invalid partitions''])
       (\<lambda>s. case ao_findLeaderForPartitions ops topic (map (jget ''partition'') (elems partitions)) s of
          Inl e \<Rightarrow> (Inl e, s)
        | Inr partitionsByBroker \<Rightarrow>
            io_bind (admin_fetchTopicOffsets ops topic) (\<lambda>_ s.
              let found = concat (map snd partitionsByBroker);
                  missing = filter (\<lambda>p. jget ''partition'' p \<notin> set found) (elems partitions);
                  entries = map (\<lambda>(node, ps). (node, filter (\<lambda>p. jget ''partition'' p \<in> set ps) (elems partitions))) partitionsByBroker
              in if missing \<noteq> [] then (Inl (Raised (new_KafkaJSDeleteTopicRecordsError (map (\<lambda>_. Some leader_not_found) missing))), s)
                 else case retry_st (ao_retries ops) (ao_delay ops) (\<lambda>_ (entries, s). records_attempt ops topic entries s) 0 (entries, s) of
                        (Inl e, _, s) \<Rightarrow> (Inl (Raised e), s)
                      | (Inr v, _, s) \<Rightarrow> (Inr v, s)) s)"

subsection \<open>Access control and reassignments\<close>

definition admin_createAcls :: "'s admin_ops \<Rightarrow> jv \<Rightarrow> ('s, bool) io" where
  "admin_createAcls ops acl =
     after_check (createAcls_check acl)
       (controller_call ops [''NOT_CONTROLLER''] (\<lambda>broker.
          io_bind (ao_request ops broker ''createAcls'' (JObj [(''acl'', acl)])) (\<lambda>_. io_return True)))"

definition acl_filter_names :: "string list" where
  "acl_filter_names = [''resourceType'', ''resourceName'', ''resourcePatternType'', ''principal'', ''host'', ''operation'', ''permissionType'']"

definition admin_describeAcls :: "'s admin_ops \<Rightarrow> jv \<Rightarrow> ('s, jv) io" where
  "admin_describeAcls ops a =
     after_check (describeAcls_check a)
       (controller_call ops [''NOT_CONTROLLER''] (\<lambda>broker.
          io_bind (ao_request ops broker ''describeAcls'' (obj_of (map (\<lambda>name. (name, jget name a)) acl_filter_names))) (\<lambda>r.
            io_return (JObj [(''resources'', jget ''resources'' r)]))))"

definition admin_deleteAcls :: "'s admin_ops \<Rightarrow> jv \<Rightarrow> ('s, jv) io" where
  "admin_deleteAcls ops filters =
     after_check (deleteAcls_check filters)
       (controller_call ops [''NOT_CONTROLLER''] (\<lambda>broker.
          io_bind (ao_request ops broker ''deleteAcls'' (JObj [(''filters'', filters)])) (\<lambda>r.
            io_return (JObj [(''filterResponses'', jget ''filterResponses'' r)]))))"

definition admin_alterPartitionReassignments :: "'s admin_ops \<Rightarrow> jv \<Rightarrow> jv \<Rightarrow> ('s, unit) io" where
  "admin_alterPartitionReassignments ops topics timeout =
     after_check (alterPartitionReassignments_check topics)
       (controller_call ops [''NOT_CONTROLLER''] (\<lambda>broker.
          io_bind (ao_request ops broker ''alterPartitionReassignments'' (obj_of [(''topics'', topics), (''timeout'', timeout)])) (\<lambda>_. io_return ())))"

definition admin_listPartitionReassignments :: "'s admin_ops \<Rightarrow> jv \<Rightarrow> jv \<Rightarrow> ('s, jv) io" where
  "admin_listPartitionReassignments ops topics timeout =
     (let topics = (if topics = JUndef then JNull else topics) in
      after_check (listPartitionReassignments_check topics)
        (controller_call ops [''NOT_CONTROLLER''] (\<lambda>broker.
           io_bind (ao_request ops broker ''listPartitionReassignments'' (obj_of [(''topics'', topics), (''timeout'', timeout)])) (\<lambda>r.
             io_return (JObj [(''topics'', jget ''topics'' r)])))))"

text \<open>The two methods that use \<^verbatim>\<open>retrier\<close> without creating one.\<close>

definition retrier_undefined :: raised where
  "retrier_undefined = Raised (native_error ''ReferenceError'' ''retrier is not defined'')"

definition admin_electLeaders :: "'s admin_ops \<Rightarrow> jv \<Rightarrow> ('s, jv) io" where
  "admin_electLeaders ops options = io_lift (Inl retrier_undefined)"

definition admin_deleteOffsets :: "'s admin_ops \<Rightarrow> jv \<Rightarrow> jv \<Rightarrow> jv \<Rightarrow> ('s, jv) io" where
  "admin_deleteOffsets ops groupId topic partitions =
     after_check (seq [check_id ''groupId'' groupId, check_id ''topic'' topic])
       (io_bind (io_lift (jelems partitions)) (\<lambda>_. io_lift (Inl retrier_undefined)))"

subsection \<open>Log directories, producers and transactions\<close>

definition brokers_of :: "'s admin_ops \<Rightarrow> ('s, jv list) io" where
  "brokers_of ops = io_bind (ao_metadata ops (JObj [(''topics'', JArr [])])) (\<lambda>m. io_lift (jelems (jget ''brokers'' m)))"

definition admin_describeLogDirs :: "'s admin_ops \<Rightarrow> jv \<Rightarrow> ('s, jv) io" where
  "admin_describeLogDirs ops topics =
     io_bind (brokers_of ops) (\<lambda>nodes.
       io_bind (all_of (\<lambda>n. io_bind (ao_findBroker ops (JStr (js_String (jget ''nodeId'' n)))) (\<lambda>broker.
                  io_bind (ao_request ops broker ''describeLogDirs'' (JObj [(''topics'', if topics = JUndef then JNull else topics)])) (\<lambda>r.
                    io_return (case r of JObj ps \<Rightarrow> foldl (\<lambda>o' (k, v). jset k v o') (JObj [(''brokerId'', jget ''nodeId'' n)]) ps
                               | _ \<Rightarrow> JObj [(''brokerId'', jget ''nodeId'' n)])))) nodes) (\<lambda>results.
         io_return (JObj [(''brokers'', JArr results)])))"

definition leader_in :: "jv \<Rightarrow> jv \<Rightarrow> jv \<Rightarrow> jv option" where \<comment> \<open>the leader the metadata has for a partition of a topic\<close>
  "leader_in metadata topic prt =
     Option.bind (find (\<lambda>t. jget ''topic'' t = topic) (elems (jget ''topicMetadata'' metadata))) (\<lambda>t.
       map_option (jget ''leader'') (find (\<lambda>p. jget ''partitionId'' p = prt) (elems (jget ''partitionMetadata'' t))))"

definition add_to_leader :: "jv \<Rightarrow> (int \<times> (jv \<times> jv list) list) list \<Rightarrow> jv \<times> jv \<Rightarrow> (int \<times> (jv \<times> jv list) list) list" where
  "add_to_leader metadata obj x =
     (case leader_in metadata (fst x) (snd x) of
        None \<Rightarrow> obj
      | Some leader \<Rightarrow>
          (let node = num_of leader; topics = group_of obj node
           in AList.update node (AList.update (fst x) (group_of topics (fst x) @ [snd x]) topics) obj))"

definition wanted_partitions :: "jv \<Rightarrow> jv \<Rightarrow> raised + (jv \<times> jv) list" where
  "wanted_partitions metadata t =
     rbind (prop_of ''topic'' t) (\<lambda>topic.
       if find (\<lambda>m. jget ''topic'' m = topic) (elems (jget ''topicMetadata'' metadata)) = None then Inr []
       else rbind (jelems (jget ''partitions'' t)) (\<lambda>ps. Inr (map (Pair topic) ps)))"

definition partitions_by_leader :: "jv \<Rightarrow> jv list \<Rightarrow> raised + (int \<times> (jv \<times> jv list) list) list" where
  "partitions_by_leader metadata topics =
     rbind (flatMap (wanted_partitions metadata) topics) (\<lambda>xs. Inr (sort_key fst (foldl (add_to_leader metadata) [] xs)))"

definition admin_describeProducers :: "'s admin_ops \<Rightarrow> jv \<Rightarrow> ('s, jv) io" where
  "admin_describeProducers ops topics =
     after_check (check_array ''Invalid topics array '' topics)
       (io_bind (io_lift (rmap (prop_of ''topic'') (elems topics))) (\<lambda>names.
          io_bind (ao_metadata ops (JObj [(''topics'', JArr names)])) (\<lambda>metadata.
            io_bind (io_lift (partitions_by_leader metadata (elems topics))) (\<lambda>groups.
              io_bind (all_of (\<lambda>(node, ts). io_bind (ao_findBroker ops (JStr (bigint_to_string node))) (\<lambda>broker.
                         ao_request ops broker ''describeProducers''
                           (JObj [(''topics'', JArr (map (\<lambda>(topic, ps). JObj [(''topic'', topic), (''partitions'', JArr ps)]) ts))])))
                       groups) (\<lambda>results.
                io_return (JObj [(''topics'', JArr (concat (map (\<lambda>r. elems (jget ''topics'' r)) results)))]))))))"

definition admin_describeTransactions :: "'s admin_ops \<Rightarrow> jv \<Rightarrow> ('s, jv) io" where
  "admin_describeTransactions ops transactionalIds =
     after_check (check_array ''Invalid transactionalIds array '' transactionalIds)
       (io_bind (io_map (\<lambda>txnId. io_bind (ao_findGroupCoordinator ops (JObj [(''groupId'', txnId), (''coordinatorType'', JNum 1)]))
                   (\<lambda>coordinator. io_return (coordinator, txnId))) (elems transactionalIds)) (\<lambda>coordinators.
          io_bind (all_of (\<lambda>(node, broker, ids). ao_request ops broker ''describeTransactions'' (JObj [(''transactionalIds'', JArr ids)]))
                   (by_node True (ao_nodeId ops) coordinators)) (\<lambda>results.
            io_return (JObj [(''transactionStates'', JArr (concat (map (\<lambda>r. elems (jget ''transactionStates'' r)) results)))]))))"

definition admin_listTransactions :: "'s admin_ops \<Rightarrow> jv \<Rightarrow> jv \<Rightarrow> ('s, jv) io" where
  "admin_listTransactions ops stateFilters producerIdFilters =
     io_bind (brokers_of ops) (\<lambda>nodes.
       io_bind (all_of (\<lambda>n. io_bind (ao_findBroker ops (JStr (js_String (jget ''nodeId'' n)))) (\<lambda>broker.
                  ao_request ops broker ''listTransactions''
                    (JObj [(''stateFilters'', if stateFilters = JUndef then JArr [] else stateFilters),
                           (''producerIdFilters'', if producerIdFilters = JUndef then JArr [] else producerIdFilters)]))) nodes) (\<lambda>results.
         io_return (JObj [(''transactionStates'', JArr (concat (map (\<lambda>r. elems (jget ''transactionStates'' r)) results)))])))"

subsection \<open>Waiting ends\<close>

definition elapsed :: "(nat \<Rightarrow> nat) \<Rightarrow> nat \<Rightarrow> nat \<Rightarrow> nat" where \<comment> \<open>when a poll is finished\<close>
  "elapsed took delay i = (\<Sum>j \<le> i. delay + took j)"

lemma waitFor_polls:
  assumes "0 < delay" "\<And>s. snd (fn s) = Suc s"
  shows "snd (waitFor took delay maxWait m fn i t s) * delay < s * delay + (maxWait - t) + delay"
proof (induction "maxWait - t" arbitrary: i t s rule: less_induct)
  case less
  obtain r where r: "fn s = (r, Suc s)" using assms(2) [of s] by (cases "fn s") auto
  show ?case
  proof (cases "maxWait \<le> t")
    case False
    let ?t = "t + delay + took i"
    have "snd (waitFor took delay maxWait m fn (Suc i) ?t (Suc s)) * delay < Suc s * delay + (maxWait - ?t) + delay"
      using less [of ?t "Suc i" "Suc s"] False assms(1) by simp
    moreover have "maxWait \<le> ?t \<Longrightarrow> snd (waitFor took delay maxWait m fn (Suc i) ?t (Suc s)) = Suc s"
      by (subst waitFor.simps) simp
    ultimately have "snd (waitFor took delay maxWait m fn (Suc i) ?t (Suc s)) * delay < s * delay + (maxWait - t) + delay"
      using False assms(1) by (cases "maxWait \<le> ?t") auto
    then show ?thesis using r False assms(1) by (subst waitFor.simps) (auto simp: Let_def)
  qed (use assms(1) in \<open>subst waitFor.simps, simp\<close>)
qed

lemma waitFor_finds:
  assumes "0 < delay" "\<And>j. j < k \<Longrightarrow> fn (s + j) = (Inr False, s + Suc j)" "fn (s + k) = (Inr True, s')"
    "t + (\<Sum>j \<le> k. delay + took (i + j)) \<le> maxWait"
  shows "waitFor took delay maxWait m fn i t s = (Inr (), s')"
  using assms(2-4)
proof (induction k arbitrary: i t s)
  case 0
  then show ?case using assms(1) by (subst waitFor.simps) (simp add: Let_def)
next
  case (Suc k)
  have sum: "(\<Sum>j \<le> Suc k. delay + took (i + j)) = delay + took i + (\<Sum>j \<le> k. delay + took (Suc i + j))"
    by (subst sum.atMost_Suc_shift) simp
  have "waitFor took delay maxWait m fn (Suc i) (t + delay + took i) (Suc s) = (Inr (), s')"
    using Suc.prems(1) [of "Suc j" for j] Suc.prems(2,3) sum by (intro Suc.IH) auto
  moreover have "t < maxWait" using Suc.prems(3) sum assms(1) by simp
  ultimately show ?case using Suc.prems(1) [of 0] assms(1) by (subst waitFor.simps) (simp add: Let_def)
qed



subsection \<open>What is retried\<close>

text \<open>The state before an attempt at a controller call, when those before it failed.\<close>

fun call_state :: "'s admin_ops \<Rightarrow> (nat \<Rightarrow> ('s, 'a) io) \<Rightarrow> nat \<Rightarrow> 's \<Rightarrow> 's" where
  "call_state ops body 0 s = s"
| "call_state ops body (Suc i) s = snd (with_controller ops body (call_state ops body i s))"

definition call_result :: "'s admin_ops \<Rightarrow> (nat \<Rightarrow> ('s, 'a) io) \<Rightarrow> nat \<Rightarrow> 's \<Rightarrow> raised + 'a" where
  "call_result ops body i s = fst (with_controller ops body (call_state ops body i s))"

definition moved_away :: "string list \<Rightarrow> raised + 'a \<Rightarrow> bool" where \<comment> \<open>a failure that is retried\<close>
  "moved_away types r = (case r of Inr _ \<Rightarrow> False | Inl e \<Rightarrow> raised_type e \<in> Some ` set types \<and> isErrorRetriable (raised_err e))"

lemma retry_st_skip:
  assumes "\<And>i. i < k \<Longrightarrow> \<exists>e. fn i (st i) = (Throws e, st (Suc i)) \<and> isErrorRetriable e" "k \<le> n"
  shows "retry_st n delay fn 0 (st 0) = retry_st n delay fn k (st k)"
  using assms
proof (induction k)
  case (Suc k)
  then obtain e where e: "fn k (st k) = (Throws e, st (Suc k))" "isErrorRetriable e" by blast
  have "retry_st n delay fn 0 (st 0) = retry_st n delay fn k (st k)" using Suc by simp
  also have "\<dots> = retry_st n delay fn (Suc k) (st (Suc k))" using e Suc.prems(2) by (subst retry_st.simps) simp
  finally show ?case .
qed simp


definition sample_admin :: "nat admin_ops" where \<comment> \<open>the state counts the calls; broker 0 is the controller\<close>
  "sample_admin =
     \<lparr>ao_connect = io_return (), ao_disconnect = io_return (), ao_refreshMetadata = io_return (), ao_refreshMetadataIfNecessary = io_return (),
      ao_addTargetTopic = (\<lambda>_. io_return ()), ao_deleteTargetTopic = (\<lambda>_ s. s), ao_findControllerBroker = (\<lambda>s. (Inr 0, Suc s)),
      ao_findBroker = (\<lambda>node. io_return (if node = JStr ''7'' then 1 else 2)), ao_findGroupCoordinator = (\<lambda>_. io_return 0), ao_nodeId = int,
      ao_brokerIds = (\<lambda>_. []), ao_findTopicPartitionMetadata = (\<lambda>_ _. Inr []), ao_findLeaderForPartitions = (\<lambda>_ _ _. Inr []),
      ao_fetchTopicsOffset = (\<lambda>_. io_return []), ao_metadata = (\<lambda>_. io_return JNull), ao_request = (\<lambda>_ _ _. io_return JNull),
      ao_describeGroup = (\<lambda>_ _. io_return []), ao_seek = (\<lambda>_ _ _. io_return ()), ao_partitions = (\<lambda>_. []), ao_retries = 2,
      ao_delay = (\<lambda>_. 0), ao_took = (\<lambda>_. 0)\<rparr>"

definition not_controller :: err where
  "not_controller = Err ''KafkaJSProtocolError'' [] (Some True) (Some ''NOT_CONTROLLER'') (Some 41) None None [] True"


subsection \<open>Where requests go\<close>

definition goes_to :: "'s admin_ops \<Rightarrow> nat \<Rightarrow> jv \<Rightarrow> nat \<Rightarrow> bool" where
  "goes_to ops controller r broker =
     (if isBrokerConfig (jget ''type'' r)
      then \<exists>s s'. ao_findBroker ops (JStr (js_String (jget ''name'' r))) s = (Inr broker, s')
      else broker = controller)"

definition grouped :: "('k \<times> 'a list) list \<Rightarrow> 'a list \<Rightarrow> ('a \<Rightarrow> 'k \<Rightarrow> bool) \<Rightarrow> bool" where
  "grouped gs xs fits \<longleftrightarrow> distinct (map fst gs) \<and> mset (concat (map snd gs)) = mset xs \<and> (\<forall>(k, g) \<in> set gs. \<forall>x \<in> set g. fits x k)"

lemma grouped_add:
  assumes "grouped gs xs fits" "fits x k"
  shows "grouped (AList.update k (case map_of gs k of None \<Rightarrow> [x] | Some g \<Rightarrow> g @ [x]) gs) (xs @ [x]) fits"
proof (cases "map_of gs k")
  case None
  then have "k \<notin> fst ` set gs" by (simp add: map_of_eq_None_iff)
  then show ?thesis using assms None by (auto simp: grouped_def update_fresh)
next
  case (Some g)
  have "distinct (map fst gs)" using assms(1) by (simp add: grouped_def)
  then have "mset (concat (map snd (AList.update k v gs))) + mset g = mset (concat (map snd gs)) + mset v \<and>
      set (AList.update k v gs) \<subseteq> insert (k, v) (set gs)" for v
    using Some by (induction gs) auto
  from this [of "g @ [x]"] have "mset (concat (map snd (AList.update k (g @ [x]) gs))) = mset (xs @ [x])"
      "set (AList.update k (g @ [x]) gs) \<subseteq> insert (k, g @ [x]) (set gs)"
    using assms(1) by (simp_all add: grouped_def)
  moreover have "\<forall>(k, g) \<in> insert (k, g @ [x]) (set gs). \<forall>x \<in> set g. fits x k"
    using assms map_of_SomeD [OF Some] by (auto simp: grouped_def)
  ultimately have "mset (concat (map snd (AList.update k (g @ [x]) gs))) = mset (xs @ [x])"
      "\<forall>(k, g) \<in> set (AList.update k (g @ [x]) gs). \<forall>x \<in> set g. fits x k" by blast+
  then show ?thesis using assms(1) Some unfolding grouped_def by (simp add: distinct_update)
qed

lemma groupBy_grouped:
  assumes "groupBy f gs ys s = (Inr gs', s')" "grouped gs xs fits" "\<And>x s k s'. f x s = (Inr k, s') \<Longrightarrow> fits x k"
  shows "grouped gs' (xs @ ys) fits"
  using assms(1,2)
proof (induction ys arbitrary: gs xs s)
  case (Cons y ys)
  then obtain k s1 where k: "f y s = (Inr k, s1)"
      "groupBy f (AList.update k (case map_of gs k of None \<Rightarrow> [y] | Some g \<Rightarrow> g @ [y]) gs) ys s1 = (Inr gs', s')"
    by (auto simp: io_bind_def split: prod.splits sum.splits)
  from Cons.IH [OF k(2) grouped_add [where x = y, OF Cons.prems(2) assms(3) [OF k(1)]]] show ?case by simp
qed (simp add: io_return_def)

text \<open>Configurations are asked from the brokers that have them: when resources are grouped, every resource is in
  exactly one group, a resource of a broker in the group of the broker found for its name, and any other one in that of the controller; no
  broker has two groups.\<close>

theorem resources_routed:
  assumes "groupResourcesByBroker ops resources controller s = (Inr groups, s')"
  shows "distinct (map fst groups) \<and> mset (concat (map snd groups)) = mset resources \<and>
    (\<forall>(broker, rs) \<in> set groups. \<forall>r \<in> set rs. goes_to ops controller r broker)"
proof -
  have "grouped [] [] (goes_to ops controller)" by (simp add: grouped_def)
  moreover have "goes_to ops controller r broker" if "broker_for ops controller r s1 = (Inr broker, s2)" for r s1 broker s2
    using that by (auto simp: broker_for_def goes_to_def io_return_def split: if_splits)
  ultimately have "grouped groups ([] @ resources) (goes_to ops controller)"
    using groupBy_grouped [OF assms [unfolded groupResourcesByBroker_def], of "[]"] by blast
  then show ?thesis by (simp add: grouped_def)
qed

theorem resources_routed_witness:
  "let rs = [JObj [(''type'', JNum 4), (''name'', JStr ''7'')], JObj [(''type'', JNum 2), (''name'', JStr ''t'')]] in
   \<exists>groups. groupResourcesByBroker sample_admin rs 0 0 = (Inr groups, 0) \<and> mset (concat (map snd groups)) = mset rs"
proof -
  let ?rs = "[JObj [(''type'', JNum 4), (''name'', JStr ''7'')], JObj [(''type'', JNum 2), (''name'', JStr ''t'')]]"
  obtain groups where g: "groupResourcesByBroker sample_admin ?rs 0 0 = (Inr groups, 0)"
    by (simp add: groupResourcesByBroker_def broker_for_def isBrokerConfig_def BROKER_CONFIG_TYPES_def io_bind_def io_return_def sample_admin_def)
  show ?thesis using resources_routed [OF g] g by (simp add: Let_def)
qed

text \<open>The same for groups and transactions: each one is asked from the node of its coordinator.\<close>

definition node_groups :: "(int \<times> nat \<times> 'a list) list \<Rightarrow> (int \<times> 'a list) list" where
  "node_groups obj = map (\<lambda>(node, _, xs). (node, xs)) obj"

lemma map_of_node_groups: "map_of (node_groups obj) node = map_option snd (map_of obj node)"
  by (induction obj) (auto simp: node_groups_def)

lemma node_groups_update: "node_groups (AList.update node (b, v) obj) = AList.update node v (node_groups obj)"
  by (induction obj) (auto simp: node_groups_def)

lemma fold_nodes_grouped:
  assumes "grouped (node_groups obj) zs fits" "\<And>b y. (b, y) \<in> set ys \<Longrightarrow> fits y (nodeId b)"
  shows "grouped (node_groups (foldl (add_to_node keepFirst nodeId) obj ys)) (zs @ map snd ys) fits"
  using assms
proof (induction ys arbitrary: obj zs)
  case (Cons y ys)
  have "fits (snd y) (nodeId (fst y))" using Cons.prems(2) [of "fst y" "snd y"] by simp
  from grouped_add [where k = "nodeId (fst y)", OF Cons.prems(1) this]
  have "grouped (node_groups (add_to_node keepFirst nodeId obj y)) (zs @ [snd y]) fits"
    unfolding add_to_node_def map_of_node_groups by (auto simp: node_groups_update split: option.splits)
  from Cons.IH [OF this] Cons.prems(2) show ?case by simp
qed simp

lemma by_node_groups:
  "grouped (node_groups (foldl (add_to_node keepFirst nodeId) [] xs)) (map snd xs) (\<lambda>x node. \<exists>broker. (broker, x) \<in> set xs \<and> nodeId broker = node)"
  by (rule fold_nodes_grouped [where zs = "[]", simplified]) (auto simp: grouped_def node_groups_def)

subsection \<open>Methods that cannot work\<close>

text \<open>Electing leaders and deleting offsets always fail, and change nothing.\<close>

lemma elect_leaders_fails: "admin_electLeaders ops options s = (Inl retrier_undefined, s)"
  by (simp add: admin_electLeaders_def io_lift_def)

lemma delete_offsets_fails: "\<exists>e. admin_deleteOffsets ops groupId topic partitions s = (Inl e, s)"
  by (auto simp: admin_deleteOffsets_def after_check_def io_bind_def io_lift_def split: sum.splits)

text \<open>A group that could not be deleted is never tried again: the error of the attempt has no type.\<close>

lemma failed_deletion_not_retried:
  assumes "delete_attempt ops (elems groupIds) s = (Inl (Raised new_KafkaJSDeleteGroupsError), ids, s')" "deleteGroups_check groupIds = Inr ()"
  shows "admin_deleteGroups ops groupIds s = (Inl (Raised new_KafkaJSDeleteGroupsError), s')"
proof -
  have "raised_type (Raised new_KafkaJSDeleteGroupsError) = None"
    by (simp add: raised_type_def new_KafkaJSDeleteGroupsError_def new_KafkaJSError_def)
  then show ?thesis using assms
    by (simp add: admin_deleteGroups_def after_check_def retry_st.simps [of _ _ _ 0] settle_call_def raised_err_def image_iff)
qed

text \<open>When deleting records fails with a retriable error that is not about partitions, a TypeError takes its place.\<close>

lemma records_error_replaced:
  assumes "delete_all ops topic entries s = ((rest, parts, e # others), s')" "e_retriable (raised_err e) = Some True"
  shows "records_attempt ops topic entries s = (Throws (native_error ''TypeError'' []), rest, s')"
  using assms by (cases parts) (simp_all add: records_attempt_def raised_err_def type_error_def)

end
