(* ===== verification/Producer_Client.thy ===== *)
theory Producer_Client
  imports Producer Cluster Step_System
begin

text \<open>
  The producer as a client sees it, \<^verbatim>\<open>src/producer/index.js\<close>: creating it, connecting, sending, and transactions.
  Sending is \<open>Producer\<close>, the transaction managers are those of \<open>Eos_Manager\<close>. A transaction object is a handle: its number in
  the list of the transactions that were begun, which has the flag \<^verbatim>\<open>transactionDidEnd\<close> of each. The methods run one after the other.
  Events, loggers and the fixed texts of warnings are left out.
\<close>

record producer_client =
  pc_status :: connection_status
  pc_idempotent :: bool
  pc_retries :: "int option" \<comment> \<open>\<open>None\<close>: those of the cluster\<close>
  pc_transactionalId :: string \<comment> \<open>empty when missing\<close>
  pc_idempotentEos :: eos
  pc_transactionalEos :: "eos option"
  pc_ended :: "bool list"
  pc_counters :: counters \<comment> \<open>the partitioner's\<close>
  pc_cluster :: cluster

definition MAX_SAFE_INTEGER :: int where "MAX_SAFE_INTEGER = 2 ^ 53 - 1"

text \<open>The option \<^verbatim>\<open>retry\<close> may be missing, and may be there without \<^verbatim>\<open>retries\<close>.\<close>

definition effective_retries :: "bool \<Rightarrow> int option option \<Rightarrow> int option" where
  "effective_retries idempotent retryOption = (case retryOption of None \<Rightarrow> Some (if idempotent then MAX_SAFE_INTEGER else 5) | Some r \<Rightarrow> r)"

definition non_retriable :: "string \<Rightarrow> err" where
  "non_retriable m = new_KafkaJSNonRetriableError (Text m) None"

definition new_Producer :: "cluster \<Rightarrow> bool \<Rightarrow> int option option \<Rightarrow> string \<Rightarrow> counters \<Rightarrow> err + producer_client" where
  "new_Producer c idempotent retryOption tid counters =
     (if idempotent \<and> (case effective_retries idempotent retryOption of None \<Rightarrow> False | Some r \<Rightarrow> r < 1)
      then Inl (non_retriable ''Idempotent producer must allow retries to protect against transient errors'')
      else rbind (createEosManager \<lparr>transactional = False, transactionalId = tid\<rparr>) (\<lambda>e.
        Inr \<lparr>pc_status = DISCONNECTED, pc_idempotent = idempotent, pc_retries = effective_retries idempotent retryOption,
             pc_transactionalId = tid, pc_idempotentEos = e, pc_transactionalEos = None, pc_ended = [], pc_counters = counters, pc_cluster = c\<rparr>))"

definition isIdempotent :: "producer_client \<Rightarrow> bool" where
  "isIdempotent p = pc_idempotent p"

text \<open>The answers to the request for a producer id are arguments; they come with the retries and delays of the manager.\<close>

record pid_answers =
  pa_retries :: nat
  pa_delay :: "nat \<Rightarrow> rat"
  pa_answers :: "nat \<Rightarrow> err + int \<times> int"

definition init_with :: "pid_answers \<Rightarrow> unit eos_op" where
  "init_with a = initProducerId (pa_retries a) (pa_delay a) (pa_answers a)"

definition producer_connect :: "pool_env \<Rightarrow> pid_answers \<Rightarrow> producer_client \<Rightarrow> (err + unit) \<times> producer_client" where
  "producer_connect env a p =
     (case cl_connect env (pc_cluster p) of
        (Inl e, c) \<Rightarrow> (Inl e, p\<lparr>pc_cluster := c\<rparr>)
      | (Inr _, c) \<Rightarrow>
          (let p = p\<lparr>pc_cluster := c, pc_status := CONNECTED\<rparr> in
           if pc_idempotent p \<and> \<not> isInitialized (pc_idempotentEos p)
           then case init_with a (pc_idempotentEos p) of (r, e) \<Rightarrow> (r, p\<lparr>pc_idempotentEos := e\<rparr>)
           else (Inr (), p)))"

text \<open>Disconnecting the cluster does not fail (\<open>cl_disconnect\<close>). While it runs, the status refuses messages.\<close>

definition producer_disconnecting :: "producer_client \<Rightarrow> producer_client" where
  "producer_disconnecting p = p\<lparr>pc_status := DISCONNECTING\<rparr>"

definition producer_disconnected :: "producer_client \<Rightarrow> producer_client" where
  "producer_disconnected p = p\<lparr>pc_cluster := cl_disconnect (pc_cluster p), pc_status := DISCONNECTED\<rparr>"

definition producer_disconnect :: "producer_client \<Rightarrow> producer_client" where
  "producer_disconnect p = producer_disconnected (producer_disconnecting p)"

subsection \<open>Sending\<close>

text \<open>What a call of \<^verbatim>\<open>sendBatch\<close> meets: the partitioner's functions, the retries of the cluster, the delays and the brokers, and its arguments.\<close>

record 'p send_call =
  sc_partition_hash :: "buffer \<Rightarrow> int"
  sc_partition_random :: "string \<Rightarrow> int"
  sc_cluster_retries :: nat
  sc_delay :: "nat \<Rightarrow> rat"
  sc_env :: "nat \<Rightarrow> 'p send_env"
  sc_ack_option :: "int option"
  sc_topicMessages :: "topic_messages list"

definition send_retries :: "'p send_call \<Rightarrow> producer_client \<Rightarrow> nat" where
  "send_retries call p = (case pc_retries p of None \<Rightarrow> sc_cluster_retries call | Some r \<Rightarrow> nat r)"

text \<open>\<^verbatim>\<open>createMessageProducer\<close> with one of the two managers.\<close>

definition send_through ::
    "bool \<Rightarrow> bool \<Rightarrow> eos \<Rightarrow> 'p send_call \<Rightarrow> producer_client \<Rightarrow> (err + (string \<times> 'p) list) \<times> eos \<times> counters" where
  "send_through idempotent isTransactional e call p =
     (case sendBatch_checked idempotent (pc_status p) (sc_ack_option call) (sc_topicMessages call) of
        Inl err \<Rightarrow> (Inl err, e, pc_counters p)
      | Inr (acks, topicMessages) \<Rightarrow>
          (case sendMessages \<lparr>sc_hash = sc_partition_hash call, sc_random = sc_partition_random call,
                  sc_eos = \<lparr>transactional = isTransactional, transactionalId = pc_transactionalId p\<rparr>, sc_acks = acks\<rparr>
                  (send_retries call p) (sc_delay call) (sc_env call) topicMessages (pc_counters p) e of
             (r, s) \<Rightarrow> (r, sm_eos s, sm_counters s)))"

definition producer_sendBatch :: "'p send_call \<Rightarrow> producer_client \<Rightarrow> (err + (string \<times> 'p) list) \<times> producer_client" where
  "producer_sendBatch call p =
     (case send_through (pc_idempotent p) False (pc_idempotentEos p) call p of
        (r, e, counters) \<Rightarrow> (r, p\<lparr>pc_idempotentEos := e, pc_counters := counters\<rparr>))"

definition producer_send :: "'p send_call \<Rightarrow> topic_messages \<Rightarrow> producer_client \<Rightarrow> (err + (string \<times> 'p) list) \<times> producer_client" where
  "producer_send call topicMessage = producer_sendBatch (call\<lparr>sc_topicMessages := [topicMessage]\<rparr>)"

subsection \<open>Transactions\<close>

definition tx_config :: "producer_client \<Rightarrow> eos_config" where
  "tx_config p = \<lparr>transactional = True, transactionalId = pc_transactionalId p\<rparr>"

definition begin_on :: "eos_config \<Rightarrow> pid_answers \<Rightarrow> unit eos_op" where
  "begin_on cfg a e =
     (if isInTransaction e
      then (Inl (non_retriable (''There is already an ongoing transaction for this producer. '' @
                  ''Please end the transaction before beginning another.'')), e)
      else bind_op (if isInitialized e then (\<lambda>e. (Inr (), e)) else init_with a) (\<lambda>_. beginTransaction cfg) e)"

definition producer_transaction :: "pid_answers \<Rightarrow> producer_client \<Rightarrow> (err + nat) \<times> producer_client" where
  "producer_transaction a p =
     (if pc_transactionalId p = [] then (Inl (non_retriable ''Must provide transactional id for transactional producer''), p)
      else case (case pc_transactionalEos p of None \<Rightarrow> createEosManager (tx_config p) | Some e \<Rightarrow> Inr e) of
             Inl e \<Rightarrow> (Inl e, p)
           | Inr e \<Rightarrow>
               (case begin_on (tx_config p) a e of
                  (Inl err, e) \<Rightarrow> (Inl err, p\<lparr>pc_transactionalEos := Some e\<rparr>)
                | (Inr _, e) \<Rightarrow> (Inr (length (pc_ended p)), p\<lparr>pc_transactionalEos := Some e, pc_ended := pc_ended p @ [False]\<rparr>)))"

definition tx_isActive :: "nat \<Rightarrow> producer_client \<Rightarrow> bool" where
  "tx_isActive h p \<longleftrightarrow>
     h < length (pc_ended p) \<and> (case pc_transactionalEos p of None \<Rightarrow> False | Some e \<Rightarrow> isInTransaction e) \<and> \<not> pc_ended p ! h"

definition transactionGuard :: "nat \<Rightarrow> (producer_client \<Rightarrow> (err + 'a) \<times> producer_client) \<Rightarrow> producer_client \<Rightarrow> (err + 'a) \<times> producer_client" where
  "transactionGuard h fn p =
     (if tx_isActive h p then fn p else (Inl (non_retriable ''Cannot continue to use transaction once ended''), p))"

definition on_manager :: "'a eos_op \<Rightarrow> producer_client \<Rightarrow> (err + 'a) \<times> producer_client" where
  "on_manager op p =
     (case op (the (pc_transactionalEos p)) of (r, e) \<Rightarrow> (r, p\<lparr>pc_transactionalEos := Some e\<rparr>))"

definition tx_sendBatch :: "nat \<Rightarrow> 'p send_call \<Rightarrow> producer_client \<Rightarrow> (err + (string \<times> 'p) list) \<times> producer_client" where
  "tx_sendBatch h call = transactionGuard h (\<lambda>p.
     case send_through True True (the (pc_transactionalEos p)) call p of
       (r, e, counters) \<Rightarrow> (r, p\<lparr>pc_transactionalEos := Some e, pc_counters := counters\<rparr>))"

definition tx_send :: "nat \<Rightarrow> 'p send_call \<Rightarrow> topic_messages \<Rightarrow> producer_client \<Rightarrow> (err + (string \<times> 'p) list) \<times> producer_client" where
  "tx_send h call topicMessage = tx_sendBatch h (call\<lparr>sc_topicMessages := [topicMessage]\<rparr>)"

text \<open>\<^verbatim>\<open>transactionDidEnd\<close> is set only when the manager did not throw.\<close>

definition tx_end :: "nat \<Rightarrow> bool option eos_op \<Rightarrow> producer_client \<Rightarrow> (err + unit) \<times> producer_client" where
  "tx_end h op = transactionGuard h (\<lambda>p. case on_manager op p of
     (Inl e, p) \<Rightarrow> (Inl e, p)
   | (Inr _, p) \<Rightarrow> (Inr (), p\<lparr>pc_ended := (pc_ended p)[h := True]\<rparr>))"

definition tx_abort :: "nat \<Rightarrow> err + unit \<Rightarrow> producer_client \<Rightarrow> (err + unit) \<times> producer_client" where
  "tx_abort h answer p = tx_end h (abort (tx_config p) answer) p"

definition tx_commit :: "nat \<Rightarrow> err + unit \<Rightarrow> producer_client \<Rightarrow> (err + unit) \<times> producer_client" where
  "tx_commit h answer p = tx_end h (commit (tx_config p) answer) p"

definition mark_offsets :: "string \<Rightarrow> (string \<times> (int \<times> int) list) list \<Rightarrow> cluster \<Rightarrow> cluster" where
  "mark_offsets groupId topics c =
     fold (\<lambda>(topic, ps). fold (\<lambda>(prt, offs). markOffsetAsCommitted groupId topic prt offs) ps) topics c"

record offsets_answers =
  oa_retries :: nat
  oa_delay :: "nat \<Rightarrow> rat"
  oa_addOffsets :: "err + unit"
  oa_findGroup :: "err + unit"
  oa_commits :: "nat \<Rightarrow> err + unit"
  oa_refinds :: "nat \<Rightarrow> err + unit"

definition tx_sendOffsets ::
    "nat \<Rightarrow> string \<Rightarrow> (string \<times> (int \<times> int) list) list option \<Rightarrow> offsets_answers \<Rightarrow> producer_client \<Rightarrow> (err + unit) \<times> producer_client" where
  "tx_sendOffsets h groupId topics a = transactionGuard h (\<lambda>p.
     case on_manager (sendOffsets (oa_retries a) (oa_delay a) groupId (topics \<noteq> None) (oa_addOffsets a) (oa_findGroup a) (oa_commits a) (oa_refinds a)) p of
       (Inl e, p) \<Rightarrow> (Inl e, p)
     | (Inr _, p) \<Rightarrow> (Inr (), p\<lparr>pc_cluster := mark_offsets groupId (the topics) (pc_cluster p)\<rparr>))"

subsection \<open>Operations that keep the state of a transaction\<close>

lemma eos_state_sequences [simp]:
  "eos_state (snd (getSequence topic prt e)) = eos_state e"
  "eos_state (updateSequence topic prt increment e) = eos_state e"
  by (simp_all add: getSequence_def updateSequence_def Let_def split: prod.split)

lemma eos_state_take_sequences [simp]: "eos_state (snd (take_sequences call broker xs e)) = eos_state e"
proof (induction xs arbitrary: e)
  case (Cons x xs)
  obtain topic entry where x: "x = (topic, entry)" by (cases x)
  obtain n e1 where n: "getSequence topic (pe_partition entry) e = (n, e1)" by (rule prod.exhaust)
  then have "eos_state e1 = eos_state e" using eos_state_sequences(1) by (metis snd_conv)
  then show ?case
    using Cons [of "updateSequence topic (pe_partition entry) (int (length (entry_messages entry))) e1"] by (auto simp: x n Let_def split: prod.splits)
qed simp

lemma eos_state_give_back [simp]: "eos_state (give_back_sequences xs e) = eos_state e"
  unfolding give_back_sequences_def by (induction xs arbitrary: e) (auto split: prod.split)

lemma eos_state_locks [simp]:
  "eos_state (snd (acquireBrokerLock node call e)) = eos_state e"
  "eos_state (snd (releaseBrokerLock node e)) = eos_state e"
  by (auto simp: acquireBrokerLock_def releaseBrokerLock_def Let_def split: prod.splits option.splits)

lemma eos_state_addPartitions [simp]: "eos_state (snd (addPartitionsToTransaction cfg topicData answer e)) = eos_state e"
  by (simp add: addPartitionsToTransaction_def guarded_def bind_op_def transactionalGuard_def Let_def mark_partitions_def split: sum.split)

lemma eos_state_sendOffsets [simp]:
  "eos_state (snd (sendOffsets n delay groupId given addOffsets findGroup answers refinds e)) = eos_state e"
proof -
  have "eos_state (snd (retry_st n delay (\<lambda>i s. (offsets_attempt (answers i) (refinds i), s)) 0 s)) = eos_state s" for s :: eos
    by (rule retry_st_invariant [where P = "\<lambda>x. eos_state x = eos_state s"]) simp_all
  then show ?thesis by (simp add: sendOffsets_def guarded_def Let_def split: sum.split)
qed

lemma locked_request_state: "eos_state (sm_eos (snd (locked_request cfg env plans call broker s))) = eos_state (sm_eos s)"
proof -
  obtain r e where added: "(if transactional (sc_eos cfg)
      then addPartitionsToTransaction (sc_eos cfg) (map (\<lambda>(t, xs). (t, map pe_partition xs)) (topic_data_for plans (fst broker))) (se_addPartitions env broker) (sm_eos s)
      else (Inr None, sm_eos s)) = (r, e)" by (rule prod.exhaust)
  then have e: "eos_state e = eos_state (sm_eos s)"
    using eos_state_addPartitions by (metis snd_conv)
  obtain rs e' where taken: "take_sequences call broker (flat_entries (topic_data_for plans (fst broker))) e = (rs, e')" by (rule prod.exhaust)
  then have "eos_state e' = eos_state e" using eos_state_take_sequences by (metis snd_conv)
  with e show ?thesis
    unfolding locked_request_def Let_def added prod.case taken by (simp split: sum.split)
qed

lemma broker_request_state: "eos_state (sm_eos (snd (broker_request cfg env plans call broker s))) = eos_state (sm_eos s)"
proof -
  obtain a e where a: "acquireBrokerLock (fst broker) call (sm_eos s) = (a, e)" by (rule prod.exhaust)
  then have e: "eos_state e = eos_state (sm_eos s)" using eos_state_locks(1) by (metis snd_conv)
  obtain f s1 where l: "locked_request cfg env plans call broker (s\<lparr>sm_eos := e\<rparr>) = (f, s1)" by (rule prod.exhaust)
  then have s1: "eos_state (sm_eos s1) = eos_state e" using locked_request_state [of cfg env plans call broker "s\<lparr>sm_eos := e\<rparr>"] by simp
  obtain r e2 where r: "releaseBrokerLock (fst broker) (sm_eos s1) = (r, e2)" by (rule prod.exhaust)
  then have "eos_state e2 = eos_state (sm_eos s1)" using eos_state_locks(2) by (metis snd_conv)
  with e s1 show ?thesis unfolding broker_request_def a l r prod.case Let_def by (simp split: acquire_result.split sum.split)
qed

lemma run_requests_state: "eos_state (sm_eos (snd (run_requests cfg env plans call bs s))) = eos_state (sm_eos s)"
proof (induction bs arbitrary: s)
  case (Cons b bs)
  obtain f s1 where b: "broker_request cfg env plans call b s = (f, s1)" by (rule prod.exhaust)
  then show ?case using Cons [of s1] broker_request_state [of cfg env plans call b s] by (auto simp: Let_def split: prod.splits)
qed simp

lemma register_brokers_eos: "sm_eos (snd (register_brokers env nodes s)) = sm_eos s"
  by (induction env nodes s rule: register_brokers.induct) (simp_all split: sum.split)

lemma plan_topics_eos: "sm_eos (snd (plan_topics cfg env topicMessages s)) = sm_eos s"
proof (induction topicMessages arbitrary: s)
  case (Cons x rest)
  obtain topic messages where x: "x = (topic, messages)" by (cases x)
  show ?case
  proof (cases "findTopicPartitionMetadata (se_metadata env) topic")
    case (Inr md)
    obtain gs cs where g: "groupMessagesPerPartition (sc_hash cfg) (sc_random cfg) topic md messages (sm_counters s) = (gs, cs)" by (rule prod.exhaust)
    obtain r s1 where b: "register_brokers env (object_keys (findLeaderForPartitions md (object_keys gs))) (s\<lparr>sm_counters := cs\<rparr>) = (r, s1)"
      by (rule prod.exhaust)
    then have "sm_eos s1 = sm_eos s" using register_brokers_eos [of env "object_keys (findLeaderForPartitions md (object_keys gs))" "s\<lparr>sm_counters := cs\<rparr>"] by simp
    then show ?thesis using Cons [of s1] by (auto simp: x Inr g b Let_def split: sum.splits prod.splits)
  qed (simp add: x)
qed simp

lemma send_attempt_state: "eos_state (sm_eos (snd (send_attempt cfg env topicMessages call s))) = eos_state (sm_eos s)"
proof -
  obtain r s1 where b: "plan_topics cfg env topicMessages s = (r, s1)" by (rule prod.exhaust)
  then have "sm_eos s1 = sm_eos s" using plan_topics_eos by (metis snd_conv)
  then have s1: "eos_state (sm_eos s1) = eos_state (sm_eos s)" by simp
  then have "eos_state (sm_eos (snd (createProducerRequests cfg env topicMessages call s))) = eos_state (sm_eos s)"
    by (auto simp: createProducerRequests_def b run_requests_state split: option.splits sum.splits)
  then show ?thesis by (auto simp: send_attempt_def split: option.splits prod.splits)
qed

lemma sendMessages_state [simp]: "eos_state (sm_eos (snd (sendMessages cfg n delay env topicMessages counters e))) = eos_state e"
  unfolding sendMessages_def
  by (rule retry_st_invariant [where P = "\<lambda>s. eos_state (sm_eos s) = eos_state e"]) (simp_all add: send_attempt_state)

lemma send_through_state:
  assumes "send_through idempotent isTransactional e call p = (r, e', counters)"
  shows "eos_state e' = eos_state e"
proof -
  have "eos_state (sm_eos s) = eos_state e" if "sendMessages cfg n delay env topicMessages cs e = (x, s)"
    for cfg :: send_config and n delay env topicMessages cs x and s :: "'a send_state"
    using sendMessages_state [of cfg n delay env topicMessages cs e] that by simp
  with assms show ?thesis unfolding send_through_def by (auto split: sum.splits prod.splits)
qed

subsection \<open>One transaction at a time\<close>

text \<open>
  What transactions are to the outside: a phase, and for every handle whether it ended. A transaction begins when none is going
  on; ending one succeeds, and sets its flag, or fails for good.
\<close>

inductive tx_life :: "tx_state \<times> bool list \<Rightarrow> tx_state \<times> bool list \<Rightarrow> bool" where
  stays: "tx_life (ph, ended) (ph, ended)"
| initialised: "ph \<in> {UNINITIALIZED, READY} \<Longrightarrow> tx_life (ph, ended) (READY, ended)"
| begins: "ph \<in> {UNINITIALIZED, READY} \<Longrightarrow> tx_life (ph, ended) (TRANSACTING, ended @ [False])"
| ends: "h < length ended \<Longrightarrow> \<not> ended ! h \<Longrightarrow> tx_life (TRANSACTING, ended) (READY, ended[h := True])"
| sticks: "ph \<in> {COMMITTING, ABORTING} \<Longrightarrow> tx_life (TRANSACTING, ended) (ph, ended)"

definition open_handles :: "bool list \<Rightarrow> nat set" where
  "open_handles ended = {h. h < length ended \<and> \<not> ended ! h}"

fun life_ok :: "tx_state \<times> bool list \<Rightarrow> bool" where
  "life_ok (ph, ended) \<longleftrightarrow> (if ph \<in> {UNINITIALIZED, READY} then open_handles ended = {} else \<exists>h. open_handles ended = {h})"

definition handle_live :: "nat \<Rightarrow> tx_state \<times> bool list \<Rightarrow> bool" where
  "handle_live h a \<longleftrightarrow> fst a = TRANSACTING \<and> h \<in> open_handles (snd a)"

definition dead_stay_dead :: "tx_state \<times> bool list \<Rightarrow> tx_state \<times> bool list \<Rightarrow> bool" where
  "dead_stay_dead a b \<longleftrightarrow> (\<forall>h < length (snd a). \<not> handle_live h a \<longrightarrow> h < length (snd b) \<and> \<not> handle_live h b)"

lemma open_handles_simps [simp]:
  "open_handles [] = {}"
  "open_handles (ended @ [False]) = insert (length ended) (open_handles ended)"
  "h < length ended \<Longrightarrow> open_handles (ended[h := True]) = open_handles ended - {h}"
  by (auto simp: open_handles_def nth_append nth_list_update)

interpretation txl: step_system tx_life "(UNINITIALIZED, [])" life_ok
proof
  show "life_ok (UNINITIALIZED, [])" by simp
  show "life_ok b" if "life_ok a" "tx_life a b" for a b
    using that(2,1)
  proof cases
    case (ends h ended)
    then have "h \<in> open_handles ended" by (simp add: open_handles_def)
    with ends that(1) show ?thesis by auto
  qed (auto split: if_splits)
qed

lemma tx_life_dead: "life_ok a \<Longrightarrow> tx_life a b \<Longrightarrow> dead_stay_dead a b"
  by (erule tx_life.cases) (auto simp: dead_stay_dead_def handle_live_def open_handles_def nth_append nth_list_update)

text \<open>The steps of a producer: every method with any answers of the brokers.\<close>

inductive producer_step :: "producer_client \<Rightarrow> producer_client \<Rightarrow> bool" where
  connect: "producer_step p (snd (producer_connect env a p))"
| disconnecting: "producer_step p (producer_disconnecting p)"
| disconnected: "producer_step p (producer_disconnected p)"
| sendBatch: "producer_step p (snd (producer_sendBatch (call :: int send_call) p))"
| transaction: "producer_step p (snd (producer_transaction a p))"
| tx_sendBatch: "producer_step p (snd (tx_sendBatch h (call :: int send_call) p))"
| sendOffsets: "producer_step p (snd (tx_sendOffsets h groupId topics oa p))"
| abort: "producer_step p (snd (tx_abort h answer p))"
| commit: "producer_step p (snd (tx_commit h answer p))"

definition tx_phase :: "producer_client \<Rightarrow> tx_state" where
  "tx_phase p = (case pc_transactionalEos p of None \<Rightarrow> UNINITIALIZED | Some e \<Rightarrow> eos_state e)"

definition life_of :: "producer_client \<Rightarrow> tx_state \<times> bool list" where
  "life_of p = (tx_phase p, pc_ended p)"

lemma tx_isActive_live: "tx_isActive h p \<longleftrightarrow> handle_live h (life_of p)"
  by (auto simp: tx_isActive_def handle_live_def life_of_def tx_phase_def open_handles_def isInTransaction_def split: option.split)

lemma init_with_state:
  "eos_state (snd (init_with a e)) = eos_state e \<or> eos_state e \<in> {UNINITIALIZED, READY} \<and> eos_state (snd (init_with a e)) = READY"
proof (cases "eos_state e \<in> {UNINITIALIZED, READY}")
  case True
  have "eos_state (snd (init_attempt answer x)) \<in> {eos_state e, READY}" if "eos_state x \<in> {eos_state e, READY}" for answer x
    using that by (auto simp: init_attempt_def bind_op_def transitionTo_def split: sum.split)
  then have "eos_state (snd (retry_st n delay (\<lambda>i. init_attempt (answers i)) 0 e)) \<in> {eos_state e, READY}" for n delay answers
    by (rule retry_st_invariant [where P = "\<lambda>x. eos_state x \<in> {eos_state e, READY}"]) auto
  then show ?thesis using True by (auto simp: init_with_def initProducerId_def guarded_def)
qed (simp add: init_with_def initProducerId_def guarded_def)

lemma begin_on_state:
  assumes "begin_on cfg a e = (r, e')" "transactional cfg"
  shows "case r of Inl _ \<Rightarrow> eos_state e' = eos_state e \<or> eos_state e \<in> {UNINITIALIZED, READY} \<and> eos_state e' = READY
    | Inr _ \<Rightarrow> eos_state e \<in> {UNINITIALIZED, READY} \<and> eos_state e' = TRANSACTING"
proof -
  define m where "m = (if isInitialized e then (\<lambda>e. (Inr (), e)) else init_with a)"
  obtain x e1 where m: "m e = (x, e1)" by (rule prod.exhaust)
  have e1: "eos_state e1 = eos_state e \<or> eos_state e \<in> {UNINITIALIZED, READY} \<and> eos_state e1 = READY"
    using init_with_state [of a e] m by (auto simp: m_def split: if_splits)
  show ?thesis
  proof (cases "isInTransaction e")
    case False
    then have "bind_op m (\<lambda>_. beginTransaction cfg) e = (r, e')" using assms(1) by (simp add: begin_on_def m_def)
    then show ?thesis
      using e1 assms(2) by (auto simp: bind_op_def m beginTransaction_def guarded_def transactionalGuard_def transitionTo_def split: sum.splits if_splits)
  qed (use assms(1) in \<open>auto simp: begin_on_def\<close>)
qed

lemma end_state:
  assumes "(r, e') \<in> {commit cfg answer e, abort cfg answer e}" "eos_state e = TRANSACTING" "transactional cfg"
  shows "case r of Inl _ \<Rightarrow> eos_state e' \<in> {COMMITTING, ABORTING} | Inr _ \<Rightarrow> eos_state e' = READY"
  using assms by (auto simp: commit_def abort_def guarded_def end_transaction_def bind_op_def transactionalGuard_def transitionTo_def split: sum.splits if_splits)

text \<open>Every method is a step of the life of transactions.\<close>

lemma life_stays: "tx_phase q = tx_phase p \<Longrightarrow> pc_ended q = pc_ended p \<Longrightarrow> tx_life (life_of p) (life_of q)"
  by (simp add: life_of_def tx_life.stays)

lemma life_transaction: "tx_life (life_of p) (life_of (snd (producer_transaction a p)))"
proof (cases "pc_transactionalId p = []")
  case False
  define e where "e = (case pc_transactionalEos p of None \<Rightarrow> eos_init | Some e \<Rightarrow> e)"
  have ph: "tx_phase p = eos_state e" by (simp add: e_def tx_phase_def eos_init_def split: option.split)
  have mgr: "(case pc_transactionalEos p of None \<Rightarrow> createEosManager (tx_config p) | Some e \<Rightarrow> Inr e) = Inr e"
    using False by (simp add: e_def createEosManager_def tx_config_def split: option.split)
  obtain r e' where b: "begin_on (tx_config p) a e = (r, e')" by (rule prod.exhaust)
  show ?thesis
    using begin_on_state [OF b] False unfolding life_of_def ph
    by (cases r) (auto simp: producer_transaction_def mgr b tx_phase_def tx_config_def [of p, THEN arg_cong [of _ _ transactional]] intro: tx_life.intros)
qed (simp add: producer_transaction_def life_stays)

lemma life_end:
  assumes "op = commit (tx_config p) answer \<or> op = abort (tx_config p) answer"
  shows "tx_life (life_of p) (life_of (snd (tx_end h op p)))"
proof (cases "tx_isActive h p")
  case True
  then obtain e where e: "pc_transactionalEos p = Some e" "eos_state e = TRANSACTING" "h < length (pc_ended p)" "\<not> pc_ended p ! h"
    by (auto simp: tx_isActive_def isInTransaction_def split: option.splits)
  obtain r e' where op: "op e = (r, e')" by (rule prod.exhaust)
  have "case r of Inl _ \<Rightarrow> eos_state e' \<in> {COMMITTING, ABORTING} | Inr _ \<Rightarrow> eos_state e' = READY"
    using end_state [of r e' "tx_config p" answer e] assms op e(2) by (auto simp: tx_config_def)
  then show ?thesis
    using True e op by (cases r) (auto simp: tx_end_def transactionGuard_def on_manager_def life_of_def tx_phase_def intro: tx_life.intros)
qed (simp add: tx_end_def transactionGuard_def life_stays)

lemma life_sends: "tx_life (life_of p) (life_of (snd (tx_sendBatch h call p)))"
proof (cases "tx_isActive h p")
  case True
  then obtain e where e: "pc_transactionalEos p = Some e" by (auto simp: tx_isActive_def split: option.splits)
  obtain r e' cs where b: "send_through True True e call p = (r, e', cs)" by (rule prod_cases3)
  show ?thesis
    using True e send_through_state [OF b] by (intro life_stays) (simp_all add: tx_sendBatch_def transactionGuard_def b tx_phase_def)
qed (simp add: tx_sendBatch_def transactionGuard_def life_stays)

lemma life_offsets: "tx_life (life_of p) (life_of (snd (tx_sendOffsets h groupId topics oa p)))"
proof (cases "tx_isActive h p")
  case True
  then obtain e where e: "pc_transactionalEos p = Some e" by (auto simp: tx_isActive_def split: option.splits)
  define op where "op = sendOffsets (oa_retries oa) (oa_delay oa) groupId (topics \<noteq> None) (oa_addOffsets oa) (oa_findGroup oa) (oa_commits oa) (oa_refinds oa)"
  obtain r e' where b: "op e = (r, e')" by (rule prod.exhaust)
  then have "eos_state e' = eos_state e" unfolding op_def using eos_state_sendOffsets by (metis snd_conv)
  moreover have "tx_sendOffsets h groupId topics oa p = (case on_manager op p of
      (Inl e, p) \<Rightarrow> (Inl e, p)
    | (Inr _, p) \<Rightarrow> (Inr (), p\<lparr>pc_cluster := mark_offsets groupId (the topics) (pc_cluster p)\<rparr>))"
    unfolding tx_sendOffsets_def transactionGuard_def op_def using True by simp
  ultimately show ?thesis
    using e b by (cases r) (auto simp: on_manager_def tx_phase_def intro!: life_stays)
qed (simp add: tx_sendOffsets_def transactionGuard_def life_stays)

lemma producer_step_life: "producer_step p q \<Longrightarrow> tx_life (life_of p) (life_of q)"
proof (induction rule: producer_step.induct)
  case (connect p env a)
  then show ?case
    by (intro life_stays) (auto simp: producer_connect_def Let_def tx_phase_def split: prod.splits sum.splits)
next
  case (sendBatch p call)
  then show ?case by (intro life_stays) (auto simp: producer_sendBatch_def tx_phase_def split: prod.splits)
next
  case (abort p h answer)
  then show ?case using life_end [of "abort (tx_config p) answer" p answer h] by (simp add: tx_abort_def)
next
  case (commit p h answer)
  then show ?case using life_end [of "commit (tx_config p) answer" p answer h] by (simp add: tx_commit_def)
qed (simp_all add: life_transaction life_sends life_offsets producer_disconnecting_def producer_disconnected_def life_stays tx_phase_def)

lemma producer_steps_life: "producer_step\<^sup>*\<^sup>* p q \<Longrightarrow> tx_life\<^sup>*\<^sup>* (life_of p) (life_of q)"
  by (induction rule: rtranclp_induct) (auto intro: rtranclp.rtrancl_into_rtrancl producer_step_life)

lemma new_Producer_life: "new_Producer c idempotent retryOption tid counters = Inr p \<Longrightarrow> life_of p = (UNINITIALIZED, [])"
  by (auto simp: new_Producer_def createEosManager_def life_of_def tx_phase_def split: if_splits)


definition sample_producer :: producer_client where
  "sample_producer = (case new_Producer sample_cluster True None ''tx'' (\<lambda>_. None) of Inr p \<Rightarrow> p)"

definition sample_pid :: pid_answers where
  "sample_pid = \<lparr>pa_retries = 0, pa_delay = (\<lambda>_. 0), pa_answers = (\<lambda>_. Inr (7, 0))\<rparr>"

definition sample_committed :: producer_client where
  "sample_committed = snd (tx_commit 0 (Inr ()) (snd (producer_transaction sample_pid sample_producer)))"

lemmas sample_run_defs = sample_producer_def new_Producer_def createEosManager_def effective_retries_def MAX_SAFE_INTEGER_def
  sample_committed_def producer_transaction_def begin_on_def isInTransaction_def eos_init_def isInitialized_def NO_PRODUCER_ID_def
  init_with_def sample_pid_def initProducerId_def init_attempt_def guarded_def bind_op_def transitionTo_def beginTransaction_def
  transactionalGuard_def tx_config_def tx_commit_def tx_end_def transactionGuard_def tx_isActive_def on_manager_def commit_def
  end_transaction_def isOngoing_def

lemma sample_producer_new: "new_Producer sample_cluster True None ''tx'' (\<lambda>_. None) = Inr sample_producer"
  by (simp add: sample_run_defs)

lemma sample_committed_handles: "pc_ended sample_committed = [True]"
  by (simp add: sample_run_defs retry_st.simps)


text \<open>When the coordinator does not answer the end of a transaction with success, its handle is not active any more, although it did not end: neither a second
  attempt to commit nor an abort reaches the coordinator, and no transaction can be begun again.\<close>

lemma failed_commit_wedges:
  assumes "tx_isActive h p" "pc_transactionalEos p = Some e" "isOngoing e" "isInitialized e"
    "tx_commit h (Inl err) p = (r, q)"
  shows "r = Inl err \<and> \<not> pc_ended q ! h \<and> \<not> tx_isActive h q \<and>
    fst (tx_abort h answer q) = Inl (non_retriable ''Cannot continue to use transaction once ended'') \<and>
    (\<exists>err'. fst (producer_transaction a q) = Inl err')"
proof -
  have "eos_state e = TRANSACTING" using assms by (auto simp: tx_isActive_def isInTransaction_def)
  then have q: "r = Inl err" "q = p\<lparr>pc_transactionalEos := Some (e\<lparr>eos_state := COMMITTING\<rparr>)\<rparr>"
    using assms by (auto simp: tx_commit_def tx_end_def transactionGuard_def on_manager_def commit_def guarded_def end_transaction_def
      bind_op_def transactionalGuard_def transitionTo_def tx_config_def isOngoing_def)
  then show ?thesis
    using assms by (auto simp: tx_isActive_def isInTransaction_def tx_abort_def tx_end_def transactionGuard_def producer_transaction_def begin_on_def
      isInitialized_def bind_op_def beginTransaction_def guarded_def)
qed

end
