(* ===== verification/Consumer_Client.thy ===== *)
theory Consumer_Client
  imports Consumer_Runner Cluster Step_System
begin

text \<open>
  The consumer as a client sees it, \<^verbatim>\<open>src/consumer/index.js\<close>: subscribing, running, crashing and restarting, stopping, and the
  operations that are forwarded to the group and the runner (\<open>Consumer_Group\<close>, \<open>Consumer_Runner\<close>) after a check of their
  arguments. Every start creates a new runner with a new group; \<open>cc_instances\<close> has all that were ever
  created, since an old one may still be running, and \<open>cc_current\<close> is the one the variables \<^verbatim>\<open>runner\<close> and
  \<^verbatim>\<open>consumerGroup\<close> hold, which are set and cleared together. A timer is its position in the list of timers. Events and loggers
  are left out. A regular expression is the predicate of its matches, so it has no flag that makes \<^verbatim>\<open>test\<close> remember a position.
\<close>

record consumer_retry =
  cr_restartOnFailure :: bool \<comment> \<open>whether there is such a function\<close>
  cr_initialRetryTime :: "rat option"

record consumer_options =
  co_groupId :: string
  co_sessionTimeout :: int
  co_heartbeatInterval :: int
  co_maxBytesPerPartition :: int
  co_metadataMaxAge :: int
  co_retry :: "consumer_retry option"

record run_options =
  ro_autoCommit :: bool
  ro_autoCommitInterval :: "int option"
  ro_autoCommitThreshold :: "int option"
  ro_eachBatchAutoResolve :: bool

record consumer_instance =
  ci_runner :: runner
  ci_group_config :: group_config
  ci_runner_config :: runner_config

record restart_timer =
  rt_options :: run_options \<comment> \<open>of the call of \<^verbatim>\<open>run\<close> that set it\<close>
  rt_time :: rat
  rt_pending :: bool

record consumer_client =
  cc_options :: consumer_options
  cc_topics :: "(string \<times> bool) list" \<comment> \<open>with \<^verbatim>\<open>fromBeginning\<close>\<close>
  cc_instances :: "consumer_instance list"
  cc_current :: "nat option"
  cc_timers :: "restart_timer list"
  cc_restartTimeout :: "nat option"
  cc_cluster :: cluster

definition consumer_refusal :: "string \<Rightarrow> err" where
  "consumer_refusal m = new_KafkaJSNonRetriableError (Text m) None"

definition new_Consumer :: "consumer_options \<Rightarrow> cluster \<Rightarrow> err + consumer_client" where
  "new_Consumer opts c =
     (if co_groupId opts = [] then Inl (consumer_refusal ''Consumer groupId must be a non-empty string.'')
      else if co_heartbeatInterval opts \<ge> co_sessionTimeout opts
      then Inl (consumer_refusal (''Consumer heartbeatInterval ('' @ js_number_string (co_heartbeatInterval opts) @ '') must be lower than sessionTimeout ('' @
             js_number_string (co_sessionTimeout opts) @ ''). It is recommended to set heartbeatInterval to approximately a third of the sessionTimeout.''))
      else Inr \<lparr>cc_options = opts, cc_topics = [], cc_instances = [], cc_current = None, cc_timers = [], cc_restartTimeout = None, cc_cluster = c\<rparr>)"

definition consumer_connect :: "pool_env \<Rightarrow> consumer_client \<Rightarrow> (err + unit) \<times> consumer_client" where
  "consumer_connect env s = (case cl_connect env (cc_cluster s) of (r, c) \<Rightarrow> (r, s\<lparr>cc_cluster := c\<rparr>))"

subsection \<open>Stopping\<close>

definition set_runner :: "nat \<Rightarrow> runner \<Rightarrow> consumer_client \<Rightarrow> consumer_client" where
  "set_runner i r s = s\<lparr>cc_instances := (cc_instances s)[i := (cc_instances s ! i)\<lparr>ci_runner := r\<rparr>]\<rparr>"

definition runner_at :: "consumer_client \<Rightarrow> nat \<Rightarrow> runner" where
  "runner_at s i = ci_runner (cc_instances s ! i)"

definition clearTimeout :: "nat option \<Rightarrow> consumer_client \<Rightarrow> consumer_client" where
  "clearTimeout t s = (case t of None \<Rightarrow> s | Some i \<Rightarrow> s\<lparr>cc_timers := (cc_timers s)[i := (cc_timers s ! i)\<lparr>rt_pending := False\<rparr>]\<rparr>)"

text \<open>How the runner finishes and leaves the group are arguments, as for \<open>run_stop\<close>, which does not throw.\<close>

record stop_env =
  sp_finish :: "runner \<Rightarrow> (err + unit) \<times> runner"
  sp_leaves :: "consumer_group \<Rightarrow> (err + unit) \<times> consumer_group"

definition consumer_stop :: "stop_env \<Rightarrow> consumer_client \<Rightarrow> consumer_client" where
  "consumer_stop env s =
     (let s = (case cc_current s of
                 None \<Rightarrow> s
               | Some i \<Rightarrow> (set_runner i (run_stop (sp_finish env) (sp_leaves env) (runner_at s i)) s)\<lparr>cc_current := None\<rparr>)
      in clearTimeout (cc_restartTimeout s) s)"

definition consumer_disconnect :: "stop_env \<Rightarrow> consumer_client \<Rightarrow> consumer_client" where
  "consumer_disconnect env s = (let s = consumer_stop env s in s\<lparr>cc_cluster := cl_disconnect (cc_cluster s)\<rparr>)"

subsection \<open>Subscribing\<close>

text \<open>Another value comes with its text and its type; as the single topic, one that counts as false is a missing topic.\<close>

datatype subscription_arg = TopicName string | TopicPattern "string \<Rightarrow> bool" | OtherTopic string string

datatype topics_arg = NoTopics | EmptyNotArray | NotAnArray | TopicsArray "subscription_arg list"
  \<comment> \<open>\<^verbatim>\<open>null\<close> or missing; another value that counts as false; one that counts as true; an array\<close>

definition missing_topic :: "subscription_arg option \<Rightarrow> bool" where \<comment> \<open>\<open>!topic\<close>\<close>
  "missing_topic t \<longleftrightarrow> t = None \<or> t = Some (TopicName [])"

fun invalid_subscription :: "subscription_arg \<Rightarrow> err option" where
  "invalid_subscription (OtherTopic text typ) =
     Some (consumer_refusal (''Invalid topic '' @ text @ '' ('' @ typ @ ''), the topic name has to be a String or a RegExp''))"
| "invalid_subscription _ = None"

fun is_pattern :: "subscription_arg \<Rightarrow> bool" where
  "is_pattern (TopicPattern _) = True"
| "is_pattern _ = False"

fun topics_of :: "string list \<Rightarrow> subscription_arg \<Rightarrow> string list" where
  "topics_of known (TopicPattern test) = filter test known"
| "topics_of known (TopicName t) = [t]"
| "topics_of known (OtherTopic _ _) = []"

fun first_error :: "err option list \<Rightarrow> err option" where
  "first_error [] = None"
| "first_error (None # es) = first_error es"
| "first_error (Some e # es) = Some e"

text \<open>The outcomes of \<^verbatim>\<open>cluster.metadata\<close>, with the names of the topics, and of \<^verbatim>\<open>addMultipleTargetTopics\<close> are arguments.\<close>

definition subscribe ::
    "(cluster \<Rightarrow> (err + string list) \<times> cluster) \<Rightarrow> (string list \<Rightarrow> cluster \<Rightarrow> (err + unit) \<times> cluster)
      \<Rightarrow> subscription_arg option \<Rightarrow> topics_arg \<Rightarrow> bool \<Rightarrow> consumer_client \<Rightarrow> (err + unit) \<times> consumer_client" where
  "subscribe metadata addTargets topic subscriptionTopics fromBeginning s =
     (if cc_current s \<noteq> None then (Inl (consumer_refusal ''Cannot subscribe to topic while consumer is running''), s)
      else if missing_topic topic \<and> subscriptionTopics \<in> {NoTopics, EmptyNotArray}
      then (Inl (consumer_refusal ''Missing required argument \"topics\"''), s)
      else if subscriptionTopics \<in> {EmptyNotArray, NotAnArray} then (Inl (consumer_refusal ''Argument \"topics\" must be an array''), s)
      else let subscriptions = (case subscriptionTopics of TopicsArray ts \<Rightarrow> ts | _ \<Rightarrow> [the topic])
           in case first_error (map invalid_subscription subscriptions) of
                Some e \<Rightarrow> (Inl e, s)
              | None \<Rightarrow>
                  (case (if \<exists>t \<in> set subscriptions. is_pattern t then metadata (cc_cluster s) else (Inr [], cc_cluster s)) of
                     (Inl e, c) \<Rightarrow> (Inl e, s\<lparr>cc_cluster := c\<rparr>)
                   | (Inr known, c) \<Rightarrow>
                       (let topicsToSubscribe = concat (map (topics_of known) subscriptions);
                            s = s\<lparr>cc_topics := fold (\<lambda>t. AList.update t fromBeginning) topicsToSubscribe (cc_topics s)\<rparr>
                        in case addTargets topicsToSubscribe c of (r, c) \<Rightarrow> (r, s\<lparr>cc_cluster := c\<rparr>))))"

subsection \<open>Running\<close>

definition new_instance :: "consumer_client \<Rightarrow> run_options \<Rightarrow> int \<Rightarrow> consumer_instance" where
  "new_instance s opts now =
     \<lparr>ci_runner = \<lparr>running = False, consuming = False, group = new_ConsumerGroup now\<rparr>,
      ci_group_config = \<lparr>topicsSubscribed = map fst (cc_topics s),
        fromBeginningOf = (\<lambda>t. case map_of (cc_topics s) t of None \<Rightarrow> False | Some b \<Rightarrow> b),
        gc_autoCommit = ro_autoCommit opts, gc_autoCommitInterval = ro_autoCommitInterval opts,
        gc_autoCommitThreshold = ro_autoCommitThreshold opts, metadataMaxAge = co_metadataMaxAge (cc_options s),
        gc_maxBytesPerPartition = co_maxBytesPerPartition (cc_options s)\<rparr>,
      ci_runner_config = \<lparr>rc_autoCommit = ro_autoCommit opts, heartbeatInterval = co_heartbeatInterval (cc_options s),
        eachBatchAutoResolve = ro_eachBatchAutoResolve opts\<rparr>\<rparr>"

text \<open>Starting ends in a running instance or in the error that the runner hands to \<^verbatim>\<open>onCrash\<close>.\<close>

record start_env =
  st_now :: int
  st_connect :: "err + unit"
  st_joins :: "consumer_group \<Rightarrow> (err + unit) \<times> consumer_group"

definition start :: "start_env \<Rightarrow> run_options \<Rightarrow> consumer_client \<Rightarrow> err option \<times> consumer_client" where
  "start env opts s =
     (let i = length (cc_instances s); inst = new_instance s opts (st_now env);
          s = s\<lparr>cc_instances := cc_instances s @ [inst], cc_current := Some i\<rparr>
      in case run_start (st_connect env) (st_joins env) (ci_runner inst) of
           Runs r \<Rightarrow> (None, set_runner i r s)
         | Crashes e r \<Rightarrow> (Some e, set_runner i r s))"

function getOriginalCause :: "err \<Rightarrow> err" where
  "getOriginalCause e = (case e_cause e of None \<Rightarrow> e | Some c \<Rightarrow> getOriginalCause c)"
  by pat_completeness auto

termination
proof (relation "measure size")
  show "(c, e) \<in> measure size" if "e_cause e = Some c" for e c
    using that by (cases e) auto
qed simp

definition crash_isRetriable :: "err \<Rightarrow> bool" where
  "crash_isRetriable e \<longleftrightarrow> e_name e = ''KafkaJSNumberOfRetriesExceeded'' \<or> e_retriable (getOriginalCause e) = Some True"

text \<open>The answer of \<^verbatim>\<open>restartOnFailure\<close>: when it rejects, the consumer restarts.\<close>

definition shouldRestart :: "consumer_retry option \<Rightarrow> unit + bool \<Rightarrow> err \<Rightarrow> bool" where
  "shouldRestart retryOptions answer e \<longleftrightarrow> crash_isRetriable e \<and>
     (case retryOptions of
        None \<Rightarrow> True
      | Some r \<Rightarrow> \<not> cr_restartOnFailure r \<or> (case answer of Inl _ \<Rightarrow> True | Inr b \<Rightarrow> b))"

definition truthy_time :: "rat option \<Rightarrow> rat \<Rightarrow> rat" where \<comment> \<open>\<open>t || d\<close>\<close>
  "truthy_time t d = (case t of None \<Rightarrow> d | Some x \<Rightarrow> if x = 0 then d else x)"

definition e_retryTime :: "err \<Rightarrow> rat option" where
  "e_retryTime e = (case map_of (e_fields e) ''retryTime'' of Some (FRat t) \<Rightarrow> Some t | Some (FNum t) \<Rightarrow> Some (of_int t) | _ \<Rightarrow> None)"

definition restart_time :: "consumer_retry option \<Rightarrow> err \<Rightarrow> rat" where
  "restart_time retryOptions e =
     truthy_time (e_retryTime e) (truthy_time (case retryOptions of None \<Rightarrow> None | Some r \<Rightarrow> cr_initialRetryTime r) 300)"

text \<open>\<^verbatim>\<open>onCrash\<close> up to the call of \<^verbatim>\<open>restartOnFailure\<close>, and what follows its answer. A broker whose connection was closed is removed first; the code does not
  wait for that, nor for its failure.\<close>

definition drop_broker :: "(nat list \<Rightarrow> nat option) \<Rightarrow> err \<Rightarrow> cluster \<Rightarrow> cluster" where
  "drop_broker pick e c =
     (if e_name e = ''KafkaJSConnectionClosedError''
      then (case (map_of (e_fields e) ''host'', map_of (e_fields e) ''port'') of
              (Some (FStr host), Some (FNum port)) \<Rightarrow> snd (cl_removeBroker pick host port c)
            | _ \<Rightarrow> c)
      else c)"

definition crash_stops :: "(nat list \<Rightarrow> nat option) \<Rightarrow> stop_env \<Rightarrow> err \<Rightarrow> consumer_client \<Rightarrow> consumer_client" where
  "crash_stops pick env e s = consumer_disconnect env (s\<lparr>cc_cluster := drop_broker pick e (cc_cluster s)\<rparr>)"

definition crash_decides :: "run_options \<Rightarrow> unit + bool \<Rightarrow> err \<Rightarrow> consumer_client \<Rightarrow> consumer_client" where
  "crash_decides opts answer e s =
     (if shouldRestart (co_retry (cc_options s)) answer e
      then s\<lparr>cc_restartTimeout := Some (length (cc_timers s)),
             cc_timers := cc_timers s @ [\<lparr>rt_options = opts, rt_time = restart_time (co_retry (cc_options s)) e, rt_pending = True\<rparr>]\<rparr>
      else s)"

definition onCrash :: "(nat list \<Rightarrow> nat option) \<Rightarrow> stop_env \<Rightarrow> run_options \<Rightarrow> unit + bool \<Rightarrow> err \<Rightarrow> consumer_client \<Rightarrow> consumer_client" where
  "onCrash pick env opts answer e s = crash_decides opts answer e (crash_stops pick env e s)"

text \<open>\<^verbatim>\<open>run\<close>, and a timer that fires, which does not ask whether the consumer runs; both end in \<^verbatim>\<open>onCrash\<close> when starting fails.\<close>

definition consumer_run :: "start_env \<Rightarrow> run_options \<Rightarrow> consumer_client \<Rightarrow> err option \<times> consumer_client" where
  "consumer_run env opts s = (if cc_current s \<noteq> None then (None, s) else start env opts s)"

definition timer_fires :: "start_env \<Rightarrow> nat \<Rightarrow> consumer_client \<Rightarrow> err option \<times> consumer_client" where
  "timer_fires env t s =
     (if t < length (cc_timers s) \<and> rt_pending (cc_timers s ! t)
      then start env (rt_options (cc_timers s ! t)) (clearTimeout (Some t) s)
      else (None, s))"

subsection \<open>Operations that are forwarded\<close>

text \<open>
  A number that a caller passes, or the text of a value that \<^verbatim>\<open>isNaN\<close> holds of; an offset, which may be missing. Of the
  values that \<^verbatim>\<open>Long.fromValue\<close> takes, the strings that are not numbers are refused.
\<close>

type_synonym number_arg = "string + int"

definition number_text :: "number_arg \<Rightarrow> string" where
  "number_text v = (case v of Inl text \<Rightarrow> text | Inr n \<Rightarrow> js_number_string n)"

fun offset_text :: "js_val option \<Rightarrow> string" where
  "offset_text None = ''undefined''"
| "offset_text (Some VNaN) = ''NaN''"
| "offset_text (Some (VNumber n)) = js_number_string n"
| "offset_text (Some (VString t)) = t"
| "offset_text (Some (VBigInt n)) = js_number_string n"
| "offset_text (Some (VLong n)) = Long_toString n"

definition topic_text :: "string option \<Rightarrow> string" where
  "topic_text t = (case t of None \<Rightarrow> ''undefined'' | Some t \<Rightarrow> t)"

definition check_target :: "string option \<Rightarrow> number_arg \<Rightarrow> js_val option \<Rightarrow> err + string \<times> int \<times> long" where
  "check_target topic prt offs =
     (if topic = None \<or> topic = Some [] then Inl (consumer_refusal (''Invalid topic '' @ topic_text topic))
      else case prt of
             Inl text \<Rightarrow> Inl (consumer_refusal (''Invalid partition, expected a number received '' @ text))
           | Inr p \<Rightarrow>
               (case (case offs of None \<Rightarrow> None | Some v \<Rightarrow> (case Long_fromValue v of Inl _ \<Rightarrow> None | Inr n \<Rightarrow> Some n)) of
                  None \<Rightarrow> Inl (consumer_refusal (''Invalid offset, expected a long received '' @ offset_text offs))
                | Some n \<Rightarrow> Inr (the topic, p, n)))"

definition not_initialized :: err where
  "not_initialized = consumer_refusal ''Consumer group was not initialized, consumer#run must be called first''"

record commit_arg =
  cm_topic :: "string option"
  cm_partition :: number_arg
  cm_offset :: "js_val option"
  cm_metadata :: "string + string option" \<comment> \<open>the text of a value of another type, or a string or \<^verbatim>\<open>null\<close>\<close>

type_synonym commits_by_topic = "(string \<times> (int \<times> long \<times> string option) list) list"

definition add_commit :: "commit_arg \<Rightarrow> commits_by_topic \<Rightarrow> err + commits_by_topic" where
  "add_commit a payload =
     rbind (check_target (cm_topic a) (cm_partition a) (cm_offset a)) (\<lambda>(topic, prt, commitOffset).
       if Long_lessThan commitOffset 0 then Inl (consumer_refusal ''Offset must not be a negative number'')
       else case cm_metadata a of
              Inl text \<Rightarrow> Inl (consumer_refusal (''Invalid offset metadata, expected string or null, received '' @ text))
            | Inr metadata \<Rightarrow>
                Inr (AList.update topic ((case map_of payload topic of None \<Rightarrow> [] | Some cs \<Rightarrow> cs) @ [(prt, commitOffset, metadata)]) payload))"

fun commits_of :: "commit_arg list \<Rightarrow> commits_by_topic \<Rightarrow> err + commits_by_topic" where
  "commits_of [] payload = Inr payload"
| "commits_of (a # as) payload = rbind (add_commit a payload) (commits_of as)"

text \<open>The runner's model has no metadata of commits.\<close>

definition to_topic_offsets :: "commits_by_topic \<Rightarrow> topic_offsets" where
  "to_topic_offsets cs = map (\<lambda>(topic, ps). (topic, map (\<lambda>(prt, offs, _). (prt, Some offs)) ps)) cs"

definition on_current :: "(runner \<Rightarrow> (err + 'a) \<times> runner) \<Rightarrow> consumer_client \<Rightarrow> (err + 'a) \<times> consumer_client" where
  "on_current f s =
     (case cc_current s of
        None \<Rightarrow> (Inl not_initialized, s)
      | Some i \<Rightarrow> (case f (runner_at s i) of (r, q) \<Rightarrow> (r, set_runner i q s)))"

definition consumer_commitOffsets :: "(topic_offsets \<Rightarrow> runner \<Rightarrow> (err + unit) \<times> runner) \<Rightarrow> commit_arg list \<Rightarrow> consumer_client \<Rightarrow> (err + unit) \<times> consumer_client" where
  "consumer_commitOffsets runCommit args s =
     (case commits_of args [] of
        Inl e \<Rightarrow> (Inl e, s)
      | Inr commitsByTopic \<Rightarrow> on_current (runCommit (to_topic_offsets commitsByTopic)) s)"

definition specialOffsets :: "string list" where
  "specialOffsets = [Long_toString EARLIEST_OFFSET, Long_toString LATEST_OFFSET]"

definition consumer_seek :: "string option \<Rightarrow> number_arg \<Rightarrow> js_val option \<Rightarrow> consumer_client \<Rightarrow> (err + unit) \<times> consumer_client" where
  "consumer_seek topic prt offs s =
     (case check_target topic prt offs of
        Inl e \<Rightarrow> (Inl e, s)
      | Inr (topic, prt, target) \<Rightarrow>
          (if Long_lessThan target 0 \<and> Long_toString target \<notin> set specialOffsets
           then (Inl (consumer_refusal ''Offset must not be a negative number''), s)
           else on_current (on_group (\<lambda>g. (Inr (), cg_seek topic prt target g))) s))"

datatype partitions_arg = NoPartitions | NotPartitions string | Partitions "number_arg list"

datatype pause_arg = NoObject string | TopicPartitions "string option" partitions_arg
  \<comment> \<open>a value that counts as false, with its text; an object\<close>

definition nan_free :: "number_arg list \<Rightarrow> bool" where
  "nan_free ps \<longleftrightarrow> (\<forall>p \<in> set ps. case p of Inl _ \<Rightarrow> False | Inr _ \<Rightarrow> True)"

definition join_texts :: "string list \<Rightarrow> string" where
  "join_texts ts = (case ts of [] \<Rightarrow> [] | t # ts \<Rightarrow> t @ concat (map (\<lambda>t. '','' @ t) ts))"

fun check_pause :: "string \<Rightarrow> pause_arg \<Rightarrow> err + string \<times> int list option" where
  "check_pause what (NoObject text) = Inl (consumer_refusal (''Invalid topic '' @ text))"
| "check_pause what (TopicPartitions topic ps) =
     (if topic = None \<or> topic = Some [] then Inl (consumer_refusal ''Invalid topic [object Object]'')
      else let bad = (\<lambda>text. Inl (consumer_refusal (''Array of valid partitions required to '' @ what @ '' specific partitions instead of '' @ text)))
           in case ps of
                NoPartitions \<Rightarrow> Inr (the topic, None)
              | NotPartitions text \<Rightarrow> bad text
              | Partitions ns \<Rightarrow> if nan_free ns then Inr (the topic, Some (map projr ns)) else bad (join_texts (map number_text ns)))"

definition consumer_pause :: "pause_arg list \<Rightarrow> consumer_client \<Rightarrow> (err + unit) \<times> consumer_client" where
  "consumer_pause args s =
     (case rmap (check_pause ''pause'') args of
        Inl e \<Rightarrow> (Inl e, s)
      | Inr tps \<Rightarrow> on_current (on_group (\<lambda>g. (Inr (), cg_pause tps g))) s)"

definition consumer_resume :: "pause_arg list \<Rightarrow> consumer_client \<Rightarrow> (err + unit) \<times> consumer_client" where
  "consumer_resume args s =
     (case rmap (check_pause ''resume'') args of
        Inl e \<Rightarrow> (Inl e, s)
      | Inr tps \<Rightarrow> on_current (on_group (\<lambda>g. (Inr (), cg_resume tps g))) s)"

definition consumer_paused :: "consumer_client \<Rightarrow> (string \<times> int list) list" where
  "consumer_paused s =
     (case cc_current s of None \<Rightarrow> [] | Some i \<Rightarrow> paused (subscriptionState (group (runner_at s i))))"

text \<open>Finding the coordinator and the answers to the attempts are arguments.\<close>

definition consumer_describeGroup ::
    "(cluster \<Rightarrow> (err + unit) \<times> cluster) \<Rightarrow> nat \<Rightarrow> (nat \<Rightarrow> rat) \<Rightarrow> (nat \<Rightarrow> err + (string \<times> 'g) list) \<Rightarrow> consumer_client
      \<Rightarrow> (err + 'g option) \<times> consumer_client" where
  "consumer_describeGroup coordinator maxRetries delay answers s =
     (case coordinator (cc_cluster s) of
        (Inl e, c) \<Rightarrow> (Inl e, s\<lparr>cc_cluster := c\<rparr>)
      | (Inr _, c) \<Rightarrow>
          retry_st maxRetries delay (\<lambda>i s. (case answers i of
            Inl e \<Rightarrow> Throws e
          | Inr groups \<Rightarrow> Returns (map_option snd (find (\<lambda>g. fst g = co_groupId (cc_options s)) groups)), s)) 0 (s\<lparr>cc_cluster := c\<rparr>))"

subsection \<open>What a subscription adds\<close>

lemma map_of_subscribed: "map_of (fold (\<lambda>t. AList.update t b) ts m) x = (if x \<in> set ts then Some b else map_of m x)"
  by (induction ts arbitrary: m) (auto simp: update_conv')

lemma first_error_None: "first_error es = None \<longleftrightarrow> set es \<subseteq> {None}"
  by (induction es rule: first_error.induct) auto

lemma invalid_subscription_None: "invalid_subscription t = None \<longleftrightarrow> (\<forall>text typ. t \<noteq> OtherTopic text typ)"
  by (cases t) auto

lemma in_topics_of: "x \<in> set (topics_of known t) \<longleftrightarrow> t = TopicName x \<or> (\<exists>test. t = TopicPattern test \<and> test x \<and> x \<in> set known)"
  by (cases t) auto


subsection \<open>One runner at a time\<close>

text \<open>
  The life of a consumer whose user does not call \<^verbatim>\<open>run\<close> between a crash and the restart. While a runner works, or while it
  finishes, it does not begin to run again by itself; a crash leaves it not running, as \<open>run_start\<close> and \<open>scheduleFetchManager\<close> do.
\<close>

definition settles :: "(runner \<Rightarrow> (err + 'a) \<times> runner) \<Rightarrow> bool" where
  "settles f \<longleftrightarrow> (\<forall>r. running (snd (f r)) \<longrightarrow> running r)"

definition timers_pending :: "consumer_client \<Rightarrow> nat set" where
  "timers_pending s = {t. t < length (cc_timers s) \<and> rt_pending (cc_timers s ! t)}"

definition runners_running :: "consumer_client \<Rightarrow> nat set" where
  "runners_running s = {i. i < length (cc_instances s) \<and> running (runner_at s i)}"

inductive consumer_step :: "consumer_client \<Rightarrow> consumer_client \<Rightarrow> bool" where
  subscribe: "consumer_step s (snd (subscribe metadata addTargets topic topics fromBeginning s))"
| connect: "consumer_step s (snd (consumer_connect env s))"
| run: "timers_pending s = {} \<Longrightarrow> consumer_step s (snd (consumer_run env opts s))"
| works: "settles (f :: runner \<Rightarrow> (err + unit) \<times> runner) \<Longrightarrow> consumer_step s (snd (on_current f s))"
| crash: "cc_current s = Some i \<Longrightarrow> \<not> running (runner_at s i) \<Longrightarrow> consumer_step s (onCrash pick env opts answer e s)"
| fires: "consumer_step s (snd (timer_fires env t s))"
| stop: "settles (sp_finish env) \<Longrightarrow> consumer_step s (consumer_stop env s)"
| disconnect: "settles (sp_finish env) \<Longrightarrow> consumer_step s (consumer_disconnect env s)"

definition one_runner :: "consumer_client \<Rightarrow> bool" where
  "one_runner s \<longleftrightarrow> runners_running s \<subseteq> set_option (cc_current s) \<and> set_option (cc_current s) \<subseteq> {..<length (cc_instances s)} \<and>
     timers_pending s \<subseteq> set_option (cc_restartTimeout s) \<and> (cc_current s \<noteq> None \<longrightarrow> timers_pending s = {})"

lemma set_runner_sel [simp]:
  "cc_current (set_runner i r s) = cc_current s" "cc_timers (set_runner i r s) = cc_timers s" "cc_restartTimeout (set_runner i r s) = cc_restartTimeout s"
  "cc_options (set_runner i r s) = cc_options s" "cc_topics (set_runner i r s) = cc_topics s" "cc_cluster (set_runner i r s) = cc_cluster s"
  "length (cc_instances (set_runner i r s)) = length (cc_instances s)"
  "i < length (cc_instances s) \<Longrightarrow> runner_at (set_runner i r s) j = (if j = i then r else runner_at s j)"
  by (auto simp: set_runner_def runner_at_def nth_list_update)

lemma clearTimeout_sel [simp]:
  "cc_current (clearTimeout t s) = cc_current s" "cc_instances (clearTimeout t s) = cc_instances s" "cc_restartTimeout (clearTimeout t s) = cc_restartTimeout s"
  "cc_options (clearTimeout t s) = cc_options s" "cc_topics (clearTimeout t s) = cc_topics s" "cc_cluster (clearTimeout t s) = cc_cluster s"
  "runner_at (clearTimeout t s) i = runner_at s i" "length (cc_timers (clearTimeout t s)) = length (cc_timers s)"
  by (simp_all add: clearTimeout_def runner_at_def split: option.split)

lemma clearTimeout_sets [simp]:
  "runners_running (clearTimeout t s) = runners_running s" "timers_pending (clearTimeout t s) = timers_pending s - set_option t"
proof -
  show "runners_running (clearTimeout t s) = runners_running s" by (simp add: runners_running_def)
  show "timers_pending (clearTimeout t s) = timers_pending s - set_option t"
  proof (cases t)
    case (Some i)
    have "u \<in> timers_pending (clearTimeout t s) \<longleftrightarrow> u \<in> timers_pending s - set_option t" for u
      using Some by (cases "u = i") (auto simp: clearTimeout_def timers_pending_def)
    then show ?thesis by blast
  qed (simp add: clearTimeout_def)
qed

lemma set_runner_sets [simp]:
  "timers_pending (set_runner i r s) = timers_pending s"
  "i < length (cc_instances s) \<Longrightarrow> runners_running (set_runner i r s) = runners_running s - {i} \<union> (if running r then {i} else {})"
  by (auto simp: timers_pending_def runners_running_def split: if_splits)

lemma run_stop_running: 
  assumes "settles finish"
  shows "\<not> running (run_stop finish leaves r)"
proof (cases "running r")
  case True
  obtain x q where f: "finish (r\<lparr>running := False\<rparr>) = (x, q)" by (rule prod.exhaust)
  have "running (snd (finish (r\<lparr>running := False\<rparr>))) \<longrightarrow> running (r\<lparr>running := False\<rparr>)" using assms unfolding settles_def by blast
  then show ?thesis using True by (auto simp: run_stop_def f andThen_def on_group_def split: prod.split sum.split)
qed (simp add: run_stop_def)

text \<open>Each operation keeps the invariant.\<close>

lemma one_runner_cong:
  "cc_instances s' = cc_instances s \<Longrightarrow> cc_current s' = cc_current s \<Longrightarrow> cc_timers s' = cc_timers s \<Longrightarrow>
   cc_restartTimeout s' = cc_restartTimeout s \<Longrightarrow> one_runner s' = one_runner s"
  by (simp add: one_runner_def runners_running_def runner_at_def timers_pending_def)

lemma subscribe_keeps: "one_runner (snd (subscribe metadata addTargets topic topics fromBeginning s)) = one_runner s"
  by (rule one_runner_cong) (simp_all add: subscribe_def Let_def split: option.split prod.split sum.split)

lemma start_keeps:
  assumes "one_runner s" "timers_pending s = {}" "cc_current s = None"
  shows "one_runner (snd (start env opts s))"
proof -
  define n where "n = length (cc_instances s)"
  define s1 where "s1 = s\<lparr>cc_instances := cc_instances s @ [new_instance s opts (st_now env)], cc_current := Some n\<rparr>"
  have len: "n < length (cc_instances s1)" and cur: "cc_current s1 = Some n" by (simp_all add: s1_def n_def)
  have timers: "timers_pending s1 = {}" using assms(2) by (simp add: timers_pending_def s1_def)
  have "runners_running s = {}" using assms(1,3) by (simp add: one_runner_def)
  then have "runners_running s1 \<subseteq> {n}"
    by (auto simp: runners_running_def runner_at_def s1_def n_def nth_append split: if_splits)
  then have "one_runner (set_runner n r s1)" for r
    using len cur timers by (auto simp: one_runner_def)
  then show ?thesis unfolding start_def Let_def n_def [symmetric] s1_def [symmetric] by (simp split: crashable.split)
qed

lemma stopped_keeps:
  assumes "one_runner s" "\<And>i. cc_current s = Some i \<Longrightarrow> \<not> running (run_stop (sp_finish env) (sp_leaves env) (runner_at s i))"
  shows "cc_current (consumer_stop env s) = None \<and> runners_running (consumer_stop env s) = {} \<and> timers_pending (consumer_stop env s) = {}"
proof (cases "cc_current s")
  case None
  then show ?thesis using assms(1) by (auto simp: consumer_stop_def one_runner_def)
next
  case (Some i)
  define r where "r = run_stop (sp_finish env) (sp_leaves env) (runner_at s i)"
  have i: "i < length (cc_instances s)" "runners_running s \<subseteq> {i}" "timers_pending s = {}" using assms(1) Some by (auto simp: one_runner_def)
  have "runners_running (set_runner i r s) = {}" using i assms(2) Some by (auto simp: r_def)
  then have "runners_running ((set_runner i r s)\<lparr>cc_current := None\<rparr>) = {}" by (simp add: runners_running_def runner_at_def)
  moreover have "timers_pending ((set_runner i r s)\<lparr>cc_current := None\<rparr>) = {}" using i(3) by (simp add: timers_pending_def)
  moreover have "consumer_stop env s = clearTimeout (cc_restartTimeout s) ((set_runner i r s)\<lparr>cc_current := None\<rparr>)"
    by (simp add: consumer_stop_def Some r_def Let_def)
  ultimately show ?thesis by simp
qed

lemma all_off: "cc_current s = None \<Longrightarrow> runners_running s = {} \<Longrightarrow> timers_pending s = {} \<Longrightarrow> one_runner s"
  by (simp add: one_runner_def)

lemma stop_keeps:
  assumes "one_runner s" "settles (sp_finish env)"
  shows "one_runner (consumer_stop env s)"
  using stopped_keeps [of s env] run_stop_running assms all_off by blast

lemma disconnect_keeps: "one_runner (consumer_disconnect env s) = one_runner (consumer_stop env s)"
  by (rule one_runner_cong) (simp_all add: consumer_disconnect_def Let_def)

lemma crash_stops_all:
  fixes pick env e
  assumes "one_runner s" "cc_current s = Some i" "\<not> running (runner_at s i)"
  defines "q \<equiv> crash_stops pick env e s"
  shows "cc_current q = None" "runners_running q = {}" "timers_pending q = {}" "cc_topics q = cc_topics s" "cc_options q = cc_options s"
    "length (cc_instances q) = length (cc_instances s)"
proof -
  define s1 where "s1 = s\<lparr>cc_cluster := drop_broker pick e (cc_cluster s)\<rparr>"
  have s1: "one_runner s1" "cc_current s1 = Some i" "\<not> running (runner_at s1 i)"
    using assms one_runner_cong [of s1 s] by (simp_all add: s1_def runner_at_def)
  have q: "q = (consumer_stop env s1)\<lparr>cc_cluster := cl_disconnect (cc_cluster (consumer_stop env s1))\<rparr>"
    by (simp add: q_def crash_stops_def consumer_disconnect_def s1_def Let_def)
  have "cc_current (consumer_stop env s1) = None \<and> runners_running (consumer_stop env s1) = {} \<and> timers_pending (consumer_stop env s1) = {}"
    using s1 by (intro stopped_keeps) (auto simp: run_stop_def)
  then show "cc_current q = None" "runners_running q = {}" "timers_pending q = {}"
    by (simp_all add: q runners_running_def runner_at_def timers_pending_def)
  show "cc_topics q = cc_topics s" "cc_options q = cc_options s" "length (cc_instances q) = length (cc_instances s)"
    by (simp_all add: q consumer_stop_def Let_def s1_def split: option.split)
qed

lemma timers_pending_new:
  assumes "timers_pending s = {}" "rt_pending t"
  shows "timers_pending (s\<lparr>cc_restartTimeout := Some (length (cc_timers s)), cc_timers := cc_timers s @ [t]\<rparr>) = {length (cc_timers s)}"
  using assms by (auto simp: timers_pending_def nth_append split: if_splits)

lemma crash_keeps:
  assumes "one_runner s" "cc_current s = Some i" "\<not> running (runner_at s i)"
  shows "one_runner (onCrash pick env opts answer e s)"
  using crash_stops_all [OF assms, of pick env e]
  by (simp add: onCrash_def crash_decides_def one_runner_def timers_pending_new) (simp add: runners_running_def runner_at_def)

lemma fires_keeps:
  assumes "one_runner s"
  shows "one_runner (snd (timer_fires env t s))"
proof (cases "t \<in> timers_pending s")
  case True
  then have only: "timers_pending s = {t}" "cc_current s = None" using assms by (cases "cc_restartTimeout s"; auto simp: one_runner_def)+
  moreover have "one_runner (clearTimeout (Some t) s)" using assms by (auto simp: one_runner_def)
  ultimately have "one_runner (snd (start env opts (clearTimeout (Some t) s)))" for opts using start_keeps by simp
  then show ?thesis using True by (simp add: timer_fires_def timers_pending_def)
next
  case False
  then show ?thesis using assms by (auto simp: timer_fires_def timers_pending_def)
qed

lemma works_keeps:
  assumes "one_runner s" "settles f"
  shows "one_runner (snd (on_current f s))"
proof (cases "cc_current s")
  case None
  then show ?thesis using assms(1) by (simp add: on_current_def)
next
  case (Some i)
  obtain r q where f: "f (runner_at s i) = (r, q)" by (rule prod.exhaust)
  have i: "i < length (cc_instances s)" using assms(1) Some by (simp add: one_runner_def)
  then have "one_runner (set_runner i q s)" using assms(1) Some by (auto simp: one_runner_def)
  then show ?thesis by (simp add: on_current_def Some f)
qed

lemma one_runner_step: "consumer_step s s' \<Longrightarrow> one_runner s \<Longrightarrow> one_runner s'"
proof (induction rule: consumer_step.induct)
  case (connect s env)
  then show ?case using one_runner_cong [of "snd (consumer_connect env s)" s] by (simp add: consumer_connect_def split: prod.split)
next
  case (run s env opts)
  then show ?case using start_keeps by (simp add: consumer_run_def)
qed (simp_all add: subscribe_keeps works_keeps crash_keeps fires_keeps stop_keeps disconnect_keeps)



subsection \<open>Concrete runs\<close>

definition sample_consumer :: consumer_client where
  "sample_consumer = \<lparr>cc_options = \<lparr>co_groupId = ''g'', co_sessionTimeout = 30000, co_heartbeatInterval = 3000, co_maxBytesPerPartition = 1048576,
     co_metadataMaxAge = 300000, co_retry = None\<rparr>, cc_topics = [], cc_instances = [], cc_current = None, cc_timers = [], cc_restartTimeout = None,
     cc_cluster = sample_cluster\<rparr>"

definition sample_options :: run_options where
  "sample_options = \<lparr>ro_autoCommit = True, ro_autoCommitInterval = None, ro_autoCommitThreshold = None, ro_eachBatchAutoResolve = True\<rparr>"

definition sample_start_env :: "err + unit \<Rightarrow> start_env" where
  "sample_start_env answer = \<lparr>st_now = 0, st_connect = answer, st_joins = (\<lambda>g. (Inr (), g))\<rparr>"

definition sample_stop_env :: stop_env where
  "sample_stop_env = \<lparr>sp_finish = (\<lambda>r. (Inr (), r)), sp_leaves = (\<lambda>g. (Inr (), g))\<rparr>"

definition sample_crash :: err where
  "sample_crash = new_KafkaJSError (Text ''failed'') True None"

definition sample_crashed :: consumer_client where
  "sample_crashed = snd (consumer_run (sample_start_env (Inl sample_crash)) sample_options sample_consumer)"

lemma sample_consumer_new: "new_Consumer (cc_options sample_consumer) sample_cluster = Inr sample_consumer"
  by (simp add: new_Consumer_def sample_consumer_def)

lemma sample_settles: "settles (sp_finish sample_stop_env)"
  by (simp add: settles_def sample_stop_env_def)




subsection \<open>Stops and restarts that cross\<close>

text \<open>A call of \<^verbatim>\<open>stop\<close> while the crash handler waits for the callback \<^verbatim>\<open>restartOnFailure\<close> is forgotten: the handler sets the timer afterwards, and the consumer starts again.\<close>

lemma stop_during_callback_forgotten:
  assumes "shouldRestart (co_retry (cc_options s)) answer e"
  shows "length (cc_timers s) \<in> timers_pending (crash_decides opts answer e (consumer_stop env s))"
  using assms by (simp add: crash_decides_def consumer_stop_def Let_def timers_pending_def nth_append split: option.split)

text \<open>\<^verbatim>\<open>run\<close> between a crash and the restart starts a runner that the restart does not stop: it goes on beside the new one, and
  \<^verbatim>\<open>stop\<close>, which knows only the new one, leaves it running.\<close>

lemma restart_leaves_other_runner:
  assumes "t \<in> timers_pending s" "i \<in> runners_running s"
  shows "i \<in> runners_running (consumer_stop env' (snd (timer_fires env t s)))"
proof -
  define n where "n = length (cc_instances s)"
  define s1 where "s1 = clearTimeout (Some t) s"
  define s2 where "s2 = s1\<lparr>cc_instances := cc_instances s1 @ [new_instance s1 (rt_options (cc_timers s ! t)) (st_now env)], cc_current := Some n\<rparr>"
  have i: "i < n" "running (runner_at s1 i)" using assms(2) by (simp_all add: runners_running_def n_def s1_def)
  have n: "length (cc_instances s1) = n" "n < length (cc_instances s2)" by (simp_all add: s2_def s1_def n_def)
  have "\<exists>q. snd (timer_fires env t s) = set_runner n q s2"
    using assms(1) n(1) by (auto simp: timer_fires_def timers_pending_def start_def Let_def s1_def s2_def split: crashable.split)
  then obtain q where q: "snd (timer_fires env t s) = set_runner n q s2" ..
  have cur: "cc_current s2 = Some n" by (simp add: s2_def)
  define s3 where "s3 = set_runner n (run_stop (sp_finish env') (sp_leaves env') q) (set_runner n q s2)"
  have "running (runner_at s3 i)"
    using i n by (simp add: s3_def s2_def runner_at_def set_runner_def nth_append)
  then have "i \<in> runners_running (s3\<lparr>cc_current := None\<rparr>)"
    using i n by (simp add: runners_running_def runner_at_def s3_def)
  moreover have "consumer_stop env' (snd (timer_fires env t s)) = clearTimeout (cc_restartTimeout s2) (s3\<lparr>cc_current := None\<rparr>)"
    using n by (simp add: consumer_stop_def Let_def q cur s3_def)
  ultimately show ?thesis by simp
qed

end
