(* ===== verification/Spec2Isabelle.thy ===== *)
theory Spec2Isabelle
  imports Message_Set Fetch_Manager Dead_Letter_Queue Connection Cluster Response_Parse
    Broker Admin Producer_Client Consumer_Client
begin

text \<open>
  A verification development for KafkaJS, the Kafka client for Node.js under \<^verbatim>\<open>src/\<close>.

  \<^bold>\<open>The program.\<close> A client talks to the brokers of a Kafka cluster. Requests and responses are
  written with the \<^verbatim>\<open>Encoder\<close> and read with the \<^verbatim>\<open>Decoder\<close> of \<^verbatim>\<open>src/protocol\<close>; messages travel in
  record batches (or, with old brokers, in message sets) that carry a checksum and may be compressed.
  A connection (\<^verbatim>\<open>src/network\<close>) has a request queue that matches responses with requests by their
  correlation ids. A producer (\<^verbatim>\<open>src/producer\<close>) validates messages, chooses a partition for each,
  groups them by the leaders of the partitions and sends one request per leader, with sequence numbers
  when it is idempotent and inside transactions when it is transactional. A consumer
  (\<^verbatim>\<open>src/consumer\<close>) joins a group, gets partitions assigned, fetches batches from their leaders or
  replicas, hands the messages to the user's function and commits offsets. An admin client
  (\<^verbatim>\<open>src/admin\<close>) checks the arguments of administrative requests and sends them to the controller or to
  the brokers they concern. All of them reach a broker (\<^verbatim>\<open>src/broker\<close>), which asks the server for the versions of requests it
  knows, authenticates with SASL, and sends each request in the highest version both sides have. Whatever may fail for a while
  runs under the retrier of \<^verbatim>\<open>src/retry\<close>.

  \<^bold>\<open>The theories.\<close> Each begins with the files it models.
  \<^item> \<open>Kafka_Prelude\<close>, \<open>Js_Number\<close>, \<open>Js_Double\<close>, \<open>Js_Object\<close>, \<open>Node_Buffer\<close>, \<open>Long\<close>: octets and results, the
    integer operators of JavaScript, doubles as bit patterns, objects as association lists, the parts of
    Node's \<^verbatim>\<open>Buffer\<close> that are used, and \<^verbatim>\<open>utils/long.js\<close>.
  \<^item> \<open>Encoder\<close>, \<open>Decoder\<close> (\<^verbatim>\<open>protocol/encoder.js\<close>, \<^verbatim>\<open>decoder.js\<close>), with \<open>Wire_Format\<close>, the reference
    formats as plain functions to octets, and \<open>Wire_Codec\<close>, where the locale \<open>wire_codec\<close> states what a
    writer and a reader of one format owe each other; it is interpreted on every pair of methods, and
    sequences, arrays and nullable fields are derived once inside it.
  \<^item> \<open>Crc\<close>, \<open>Compression\<close>, \<open>Record_Batch\<close>, \<open>Message_Set\<close>: the checksums, the codec registry, and the two
    formats of messages.
  \<^item> \<open>Kafka_Errors\<close>, \<open>Protocol_Error\<close>, \<open>Retry\<close>: the error classes, the table of protocol errors and the
    retrier.
  \<^item> \<open>Murmur2\<close>, \<open>Partitioner\<close>, \<open>Lock_Model\<close>, \<open>Eos_Manager\<close>, \<open>Producer\<close>: the producer from the hash of a
    key to \<^verbatim>\<open>sendMessages.js\<close>.
  \<^item> \<open>Offset_Manager\<close>, \<open>Subscription\<close>, \<open>Fetch_Batch\<close>, \<open>Assigner\<close>, \<open>Consumer_Group\<close>, \<open>Consumer_Runner\<close>,
    \<open>Fetch_Manager\<close>, \<open>Dead_Letter_Queue\<close>: the consumer from its offsets to the concurrent fetchers.
  \<^item> \<open>Request_Queue\<close> (\<^verbatim>\<open>network/requestQueue\<close>), \<open>Connection_Status\<close>, \<open>Connection\<close>
    (\<^verbatim>\<open>network/connection.js\<close>, \<^verbatim>\<open>connectionPool.js\<close>, \<^verbatim>\<open>protocol/request.js\<close>), \<open>Broker_Pool\<close>
    (\<^verbatim>\<open>cluster/brokerPool.js\<close>, \<^verbatim>\<open>connectionPoolBuilder.js\<close>), \<open>Cluster\<close> (\<^verbatim>\<open>cluster/index.js\<close>): from the
    octets of a socket to the metadata of the cluster.
  \<^item> \<open>Protocol_Layout\<close>: layouts of messages in the notation of the protocol documentation, the octets of a
    value of a layout, and what it means for a reader to conform to one. \<open>Responses_Group\<close>,
    \<open>Responses_Data\<close>, \<open>Responses_Admin\<close>, \<open>Responses_Share\<close>, \<open>Fetch_Response\<close>: the decoders of
    \<^verbatim>\<open>protocol/requests/*/v*/response.js\<close>, one definition per request and version, with the layouts of
    their comments. \<open>Response_Check\<close>, \<open>Response_Parse\<close>: the \<^verbatim>\<open>parse\<close> functions, which turn error codes
    into errors.
  \<^item> \<open>Request_Format\<close>: what it means for a writer to conform to a layout. \<open>Requests_Group\<close>, \<open>Requests_Data\<close>,
    \<open>Requests_Admin\<close>, \<open>Requests_Share\<close>, \<open>Produce_Request\<close>: the encoders of
    \<^verbatim>\<open>protocol/requests/*/v*/request.js\<close>, one definition per request and version, with the value of the layout that each
    writes. \<open>Protocol_Requests\<close>: all requests in one table, with the frame that \<open>Connection\<close> puts around them.
    \<open>Request_Versions\<close>: \<^verbatim>\<open>protocol/requests/*/index.js\<close> and the choice of a version, \<^verbatim>\<open>protocol/requests/index.js\<close>.
  \<^item> \<open>Base64\<close>, \<open>Sasl_Scram\<close>, \<open>Sasl\<close>: \<^verbatim>\<open>broker/saslAuthenticator\<close> and \<^verbatim>\<open>protocol/sasl\<close>; hash and HMAC are arguments.
  \<^item> \<open>Broker\<close> (\<^verbatim>\<open>broker/index.js\<close>), \<open>Admin_Checks\<close>, \<open>Admin\<close> (\<^verbatim>\<open>admin/index.js\<close>): every method, over the operations
    of the connection pool and of the cluster as records of functions.
  \<^item> \<open>Producer_Client\<close> (\<^verbatim>\<open>producer/index.js\<close>), \<open>Consumer_Client\<close> (\<^verbatim>\<open>consumer/index.js\<close>): what the user holds. Transaction
    objects are handles with the flag of the code; a consumer has all runners it ever started, the current one and its restart timers.
  \<^item> \<open>Step_System\<close>: the locale of a step relation with an invariant; the theories with state machines
    interpret it on their relations and get reachability and safety from it.

  \<^bold>\<open>Conventions.\<close> A class is a record of its fields and every method a function from the state to a result
  and a state; a throw is the left value of a sum (\<open>result\<close> in the codec, with the JavaScript class of the
  error; \<open>err\<close> above it, with the fields the callers read). Strings are the octets of their UTF-8
  form, as that is what is written and hashed. Decimal strings of 64-bit numbers are integers. Absent
  values (\<^verbatim>\<open>null\<close>, \<^verbatim>\<open>undefined\<close>) are \<open>None\<close>. What comes from outside is an argument: the clock, random
  numbers, answers of brokers, the functions of the user, compression, and, where an \<^verbatim>\<open>await\<close> lets other
  tasks run, what these do to the shared state. Numbers that the code computes with 32-bit operators go
  through the operators of \<open>Js_Number\<close>; sums that stay below \<open>2\<^sup>5\<^sup>3\<close> are integers.

  \<^bold>\<open>Fuel.\<close> Loops end by a measure wherever the code's loop ends. Only the decoder of nested message sets
  takes fuel, since a malformed set makes it loop for ever (\<open>message_set_may_not_end\<close>); its round trip
  says how much fuel is enough. The retrier recurses on the attempts that are left.

  \<^bold>\<open>What is shown.\<close>
  \<^item> Codec: each writer produces the reference format, each reader takes it back, the size functions are
    exact; record batches and message sets survive encoding and decoding, compressed or not; the table
    driven checksums are the bitwise ones and detect every change of one octet.
  \<^item> Producer: equal keys go to equal partitions, the hash is that of the Java client, unkeyed messages are
    spread evenly, grouping keeps order; a successful send delivers every message to its partition once; brokers
    that answered are not asked again; the transaction manager keeps its invariant and sends the right
    requests; the lock excludes.
  \<^item> Consumer: at-least-once processing, progress over filtered batches, commits that settle exactly what
    was uncommitted, filtering of aborted transactions against a reference definition, pausing and seeking as
    updates of a set, balanced and complete assignments, exclusive processing of partitions by concurrent
    fetchers, dead-lettering after the last attempt only.
  \<^item> Connection: every request is answered exactly once, by the response with its correlation id; responses
    are recovered however the socket cuts them into chunks; an error refuses every waiting request.
  \<^item> Protocol: each response decoder reads exactly the documented layout and returns the view of it that the
    code promises; \<^verbatim>\<open>parse\<close> throws the error of the first error code that is not 0; a fetch response yields
    every complete batch of its records. Each request writer writes the documented layout of its version; produce
    requests carry the records of their messages; a request and the decoder of its response always have the same
    version, the highest that both sides have.
  \<^item> Authentication: a server that follows RFC 5802 accepts the messages of SCRAM and is accepted in turn; the client accepts
    no server without the right signature; the messages of the other mechanisms arrive as they were built.
  \<^item> Broker and admin client: a connected broker has its versions and is authenticated; a fetch asks for every
    partition once, in order; the checks accept exactly the well-formed arguments; calls of the controller
    retry what the code lists and nothing else; resources go to the broker they name; waiting ends.
  \<^item> Clients: the transactions of a producer refine a small life cycle, from which it follows that one is active at most and that ended
    ones stay ended; a consumer has one running runner at most and none after a stop, restarts after a crash exactly when it should, and subscribes
    to the topics that are named or matched.
  \<^item> Cluster: a refresh leaves exactly the brokers of the metadata, connecting reaches a working broker when
    there is one, failed additions of topics leave the target topics as they were.
  \<^item> Beside these, lemmas without a number record behaviour that looks unintended, each introduced by a
    sentence that says what happens.

  \<^bold>\<open>Not modelled.\<close> The entry point \<^verbatim>\<open>src/index.js\<close>, which only builds the others; the creation of sockets and TLS; Kerberos, which rests on a library outside the repository; loggers and
  instrumentation, which observe and do not decide; the methods of \<^verbatim>\<open>utils/long.js\<close> that nothing calls.
\<close>

end
